(* ===== verification/Go_Prelude.thy ===== *)
theory Go_Prelude
  imports Main "HOL-Library.List_Lexorder" "HOL-Library.Char_ord" "HOL-Library.Sublist"
begin

text \<open>
  Shared by every component of the development.
  \<^item> The parts of Go's standard library that the server uses on strings (\<open>strings.Split\<close>,
    \<open>Join\<close>, \<open>TrimSpace\<close>, \<open>ToLower\<close>, \<open>EqualFold\<close>, \<open>HasPrefix\<close>, \<open>Cut\<close>, \<dots>).
    A Go string is a byte string, here a \<^typ>\<open>string\<close>; the case and white-space functions
    are modelled on ASCII, where Go's Unicode tables and the byte-wise reading agree.
    Go compares strings byte-wise, which is the order of the theories \<open>List_Lexorder\<close> and
    \<open>Char_ord\<close>.
  \<^item> 64-bit signed integers: \<open>int\<close> with the wrap-around written out (\<open>wrap64\<close>), and the
    saturating subtraction of \<open>time.Time.Sub\<close> (\<open>sat64\<close>).
  \<^item> Go maps: a map that is only looked up is a partial function; a map that is iterated is an
    association list with distinct keys, whose order is the (arbitrary) order of the iteration.
  \<^item> The collections of facts the component proofs share.
\<close>

named_theorems go_str \<open>facts about Go string functions\<close>
named_theorems step_defs \<open>definitions of operations, for the case analyses of step proofs\<close>
named_theorems inv_intros \<open>invariant preservation, one fact per operation\<close>

subsection \<open>Strings\<close>

definition is_space :: "char \<Rightarrow> bool" where
  "is_space c \<longleftrightarrow> c \<in> {CHR '' '', CHR 0x09, CHR 0x0A, CHR 0x0B, CHR 0x0C, CHR 0x0D}"

definition trim_left :: "(char \<Rightarrow> bool) \<Rightarrow> string \<Rightarrow> string" where
  "trim_left P s = dropWhile P s"

definition trim_right :: "(char \<Rightarrow> bool) \<Rightarrow> string \<Rightarrow> string" where
  "trim_right P s = rev (dropWhile P (rev s))"

definition trim_space :: "string \<Rightarrow> string" where
  "trim_space s = trim_right is_space (trim_left is_space s)"

definition trim_chars :: "char list \<Rightarrow> string \<Rightarrow> string" where
  "trim_chars cs s = trim_right (\<lambda>c. c \<in> set cs) (trim_left (\<lambda>c. c \<in> set cs) s)"

definition is_upper :: "char \<Rightarrow> bool" where
  "is_upper c \<longleftrightarrow> CHR ''A'' \<le> c \<and> c \<le> CHR ''Z''"

definition is_lower :: "char \<Rightarrow> bool" where
  "is_lower c \<longleftrightarrow> CHR ''a'' \<le> c \<and> c \<le> CHR ''z''"

definition is_digit :: "char \<Rightarrow> bool" where
  "is_digit c \<longleftrightarrow> CHR ''0'' \<le> c \<and> c \<le> CHR ''9''"

definition lower_char :: "char \<Rightarrow> char" where
  "lower_char c = (if is_upper c then char_of (of_char c + (32 :: nat)) else c)"

definition to_lower :: "string \<Rightarrow> string" where
  "to_lower s = map lower_char s"

definition to_upper :: "string \<Rightarrow> string" where
  "to_upper s = map (\<lambda>c. if is_lower c then char_of (of_char c - (32 :: nat)) else c) s"

definition equal_fold :: "string \<Rightarrow> string \<Rightarrow> bool" where
  "equal_fold s t \<longleftrightarrow> to_lower s = to_lower t"

definition has_prefix :: "string \<Rightarrow> string \<Rightarrow> bool" where
  "has_prefix s p \<longleftrightarrow> take (length p) s = p"

text \<open>\<open>strings.Split(s, d)\<close> with a one-byte separator: never the empty list.\<close>

fun split_on :: "char \<Rightarrow> string \<Rightarrow> string list" where
  "split_on d [] = [[]]"
| "split_on d (c # cs) =
     (if c = d then [] # split_on d cs
      else (case split_on d cs of [] \<Rightarrow> [[c]] | w # ws \<Rightarrow> (c # w) # ws))"

fun join_with :: "string \<Rightarrow> string list \<Rightarrow> string" where
  "join_with sep [] = []"
| "join_with sep [w] = w"
| "join_with sep (w # v # ws) = w @ sep @ join_with sep (v # ws)"

text \<open>\<open>strings.Contains\<close>: \<open>p\<close> occurs in \<open>s\<close>.\<close>

fun contains_str :: "string \<Rightarrow> string \<Rightarrow> bool" where
  "contains_str [] p = (p = [])"
| "contains_str (c # cs) p = (has_prefix (c # cs) p \<or> contains_str cs p)"

text \<open>\<open>strings.Cut(s, d)\<close> with a one-byte separator: before, after, found.\<close>

fun cut_at :: "char \<Rightarrow> string \<Rightarrow> string \<times> string \<times> bool" where
  "cut_at d [] = ([], [], False)"
| "cut_at d (c # cs) =
     (if c = d then ([], cs, True)
      else (case cut_at d cs of (a, b, f) \<Rightarrow> (c # a, b, f)))"

text \<open>\<open>strings.Fields\<close>: the maximal runs of non-space characters.\<close>

fun str_fields_from :: "string \<Rightarrow> string \<Rightarrow> string list" where
  "str_fields_from cur [] = (if cur = [] then [] else [cur])"
| "str_fields_from cur (c # cs) =
     (if is_space c then (if cur = [] then str_fields_from [] cs else cur # str_fields_from [] cs)
      else str_fields_from (cur @ [c]) cs)"

definition str_fields :: "string \<Rightarrow> string list" where
  "str_fields s = str_fields_from [] s"

text \<open>\<open>strings.ReplaceAll\<close> with a non-empty pattern.\<close>

function replace_all :: "string \<Rightarrow> string \<Rightarrow> string \<Rightarrow> string" where
  "replace_all old new s =
     (case s of [] \<Rightarrow> []
      | c # cs \<Rightarrow> if old \<noteq> [] \<and> has_prefix s old then new @ replace_all old new (drop (length old) s)
                 else c # replace_all old new cs)"
  by pat_completeness auto
termination by (relation "measure (\<lambda>(_, _, s). length s)") (auto simp: neq_Nil_conv)

declare replace_all.simps [simp del]

text \<open>\<open>strings.LastIndex(s, d)\<close> with a one-byte pattern, as the parts before and after it.\<close>

definition cut_last :: "char \<Rightarrow> string \<Rightarrow> (string \<times> string) option" where
  "cut_last d s = (if d \<in> set s
     then Some (rev (tl (dropWhile (\<lambda>c. c \<noteq> d) (rev s))), rev (takeWhile (\<lambda>c. c \<noteq> d) (rev s)))
     else None)"

lemma cut_last_append: "d \<notin> set b \<Longrightarrow> cut_last d (a @ d # b) = Some (a, b)"
  by (simp add: cut_last_def takeWhile_append dropWhile_append)

lemma has_prefix_iff [go_str]: "has_prefix s p \<longleftrightarrow> (\<exists>t. s = p @ t)"
  unfolding has_prefix_def by (metis append_eq_conv_conj append_take_drop_id)

lemma split_on_neq_Nil [simp]: "split_on d s \<noteq> []"
  by (induction s) (auto split: list.splits)

lemma join_split [simp]: "join_with [d] (split_on d s) = s"
proof (induction s)
  case Nil
  then show ?case by simp
next
  case (Cons c cs)
  show ?case
  proof (cases "split_on d cs")
    case Nil
    then show ?thesis by simp
  next
    case (Cons w ws)
    with Cons.IH show ?thesis by (cases ws) auto
  qed
qed

lemma split_on_no_sep: "w \<in> set (split_on d s) \<Longrightarrow> d \<notin> set w"
  by (induction s arbitrary: w) (auto split: list.splits if_splits)

lemma split_on_append_sep: "d \<notin> set a \<Longrightarrow> split_on d (a @ d # b) = a # split_on d b"
  by (induction a) (auto split: list.splits)

lemma split_on_plain: "d \<notin> set a \<Longrightarrow> split_on d a = [a]"
  by (induction a) (auto split: list.splits)

lemma join_with_append:
  "xs \<noteq> [] \<Longrightarrow> ys \<noteq> [] \<Longrightarrow> join_with sep (xs @ ys) = join_with sep xs @ sep @ join_with sep ys"
  by (induction sep xs rule: join_with.induct) (cases ys; auto)+

lemma split_on_append:
  "split_on d (a @ d # b) = split_on d a @ split_on d b"
proof (induction a)
  case Nil
  then show ?case by simp
next
  case (Cons c cs)
  then show ?case by (cases "split_on d cs") auto
qed

lemma split_join:
  "ws \<noteq> [] \<Longrightarrow> (\<And>w. w \<in> set ws \<Longrightarrow> d \<notin> set w) \<Longrightarrow> split_on d (join_with [d] ws) = ws"
  by (induction "[d]" ws rule: join_with.induct) (auto simp: split_on_plain split_on_append_sep)

lemma cut_at_found: "cut_at d s = (a, b, f) \<Longrightarrow> (if f then s = a @ d # b else s = a \<and> b = [] \<and> d \<notin> set s)"
  by (induction s arbitrary: a b f) (auto split: if_splits prod.splits)

lemma trim_right_suffix: "\<exists>t. s = trim_right P s @ t \<and> (\<forall>c \<in> set t. P c)"
proof -
  have "s = rev (dropWhile P (rev s)) @ rev (takeWhile P (rev s))"
    by (metis rev_append rev_rev_ident takeWhile_dropWhile_id)
  then show ?thesis
    unfolding trim_right_def by (metis set_rev set_takeWhileD)
qed

lemma set_trim_space: "set (trim_space s) \<subseteq> set s"
  unfolding trim_space_def trim_right_def trim_left_def
  by (auto dest!: set_dropWhileD)

lemma equal_fold_refl [simp]: "equal_fold s s"
  by (simp add: equal_fold_def)

subsection \<open>64-bit integers\<close>

definition wrap64 :: "int \<Rightarrow> int" where
  "wrap64 x = (x + 2 ^ 63) mod 2 ^ 64 - 2 ^ 63"

definition sat64 :: "int \<Rightarrow> int" where
  "sat64 x = max (- (2 ^ 63)) (min (2 ^ 63 - 1) x)"

text \<open>Go's integer division truncates towards zero.\<close>

definition go_div :: "int \<Rightarrow> int \<Rightarrow> int" where
  "go_div a b = sgn a * sgn b * (\<bar>a\<bar> div \<bar>b\<bar>)"

lemma wrap64_bounds: "- (2 ^ 63) \<le> wrap64 x \<and> wrap64 x < 2 ^ 63"
proof -
  have "0 \<le> (x + 2 ^ 63) mod 2 ^ 64" "(x + 2 ^ 63) mod 2 ^ 64 < (2 ^ 64 :: int)"
    by simp_all
  then show ?thesis by (simp add: wrap64_def)
qed

lemma wrap64_id: "- (2 ^ 63) \<le> x \<Longrightarrow> x < 2 ^ 63 \<Longrightarrow> wrap64 x = x"
  by (simp add: wrap64_def)

text \<open>Nanoseconds in a second, minute and hour (\<open>time.Second\<close> and so on).\<close>

abbreviation second :: int where "second \<equiv> 1000000000"
abbreviation minute :: int where "minute \<equiv> 60000000000"
abbreviation hour :: int where "hour \<equiv> 3600000000000"

subsection \<open>Decimal numbers\<close>

fun nat_digits :: "nat \<Rightarrow> string" where
  "nat_digits n = (if n < 10 then [char_of (n + 48)]
                   else nat_digits (n div 10) @ [char_of (n mod 10 + 48)])"

declare nat_digits.simps [simp del]

text \<open>\<open>strconv.Itoa\<close> and \<open>%d\<close>.\<close>

definition itoa :: "int \<Rightarrow> string" where
  "itoa i = (if i < 0 then ''-'' @ nat_digits (nat (- i)) else nat_digits (nat i))"

fun digits_value :: "string \<Rightarrow> nat \<Rightarrow> nat option" where
  "digits_value [] acc = Some acc"
| "digits_value (c # cs) acc =
     (if is_digit c then digits_value cs (acc * 10 + (of_char c - 48)) else None)"

text \<open>\<open>strconv.Atoi\<close>: an optional sign, then one or more digits, in the range of \<open>int\<close>.\<close>

definition atoi :: "string \<Rightarrow> int option" where
  "atoi s =
     (let (neg, ds) = (case s of [] \<Rightarrow> (False, [])
                       | c # cs \<Rightarrow> if c = CHR ''-'' then (True, cs)
                                  else if c = CHR ''+'' then (False, cs) else (False, s))
      in if ds = [] then None
         else (case digits_value ds 0 of
                 None \<Rightarrow> None
               | Some n \<Rightarrow>
                   (let v = (if neg then - int n else int n)
                    in if - (2 ^ 63) \<le> v \<and> v < 2 ^ 63 then Some v else None)))"

lemma digits_value_append:
  "digits_value (xs @ ys) acc = Option.bind (digits_value xs acc) (digits_value ys)"
  by (induction xs arbitrary: acc) auto

lemma of_char_digit: "n < 10 \<Longrightarrow> of_char (char_of (n + 48 :: nat) :: char) = n + (48 :: nat)"
  by simp

lemma is_digit_char:
  "n < 10 \<Longrightarrow> is_digit (char_of (n + 48 :: nat))"
  "n < 10 \<Longrightarrow> is_digit (char_of (48 + n :: nat))"
  by (simp_all add: is_digit_def less_eq_char_def)

lemma digits_value_nat_digits:
  "\<exists>k. \<forall>acc. digits_value (nat_digits n) acc = Some (acc * 10 ^ k + n)"
proof (induction n rule: nat_digits.induct)
  case (1 n)
  show ?case
  proof (cases "n < 10")
    case True
    then show ?thesis
      by (intro exI [of _ 1]) (simp add: nat_digits.simps [of n] is_digit_char)
  next
    case False
    then obtain k where k: "\<And>acc. digits_value (nat_digits (n div 10)) acc
        = Some (acc * 10 ^ k + n div 10)"
      using "1.IH" by blast
    have "\<And>acc. digits_value (nat_digits n) acc = Some (acc * 10 ^ Suc k + n)"
      using False
      by (simp add: nat_digits.simps [of n] digits_value_append k is_digit_char
            algebra_simps div_mult_mod_eq)
    then show ?thesis by blast
  qed
qed

lemma nat_digits_neq_Nil [simp]: "nat_digits n \<noteq> []"
  by (subst nat_digits.simps) simp

lemma nat_digits_digits: "c \<in> set (nat_digits n) \<Longrightarrow> is_digit c"
proof (induction n rule: nat_digits.induct)
  case (1 n)
  then show ?case
    by (cases "n < 10") (auto simp: nat_digits.simps [of n] is_digit_char)
qed

text \<open>Parsing what \<open>strconv.Itoa\<close> printed gives the number back.\<close>

lemma atoi_itoa:
  assumes "- (2 ^ 63) \<le> i" "i < 2 ^ 63"
  shows "atoi (itoa i) = Some i"
proof -
  have v: "digits_value (nat_digits n) 0 = Some n" for n
    using digits_value_nat_digits [of n] by auto
  show ?thesis
  proof (cases "i < 0")
    case True
    with assms v [of "nat (- i)"] show ?thesis by (simp add: atoi_def itoa_def)
  next
    case False
    obtain c cs where cs: "nat_digits (nat i) = c # cs"
      by (metis nat_digits_neq_Nil neq_Nil_conv)
    have "is_digit c" using nat_digits_digits [of c "nat i"] cs by simp
    then have "c \<noteq> CHR ''-''" "c \<noteq> CHR ''+''"
      by (auto simp: is_digit_def less_eq_char_def)
    with False assms v [of "nat i"] show ?thesis by (simp add: atoi_def itoa_def cs)
  qed
qed

lemma itoa_inject:
  "- (2 ^ 63) \<le> i \<Longrightarrow> i < 2 ^ 63 \<Longrightarrow> - (2 ^ 63) \<le> j \<Longrightarrow> j < 2 ^ 63 \<Longrightarrow> itoa i = itoa j \<longleftrightarrow> i = j"
  using atoi_itoa by (metis option.inject)

subsection \<open>Association lists as iterated maps\<close>

definition keys :: "('k \<times> 'v) list \<Rightarrow> 'k list" where
  "keys m = map fst m"

lemma keys_simps [simp]: "keys [] = []" "keys ((k, v) # m) = k # keys m"
  by (simp_all add: keys_def)

lemma map_of_keys: "map_of m k \<noteq> None \<longleftrightarrow> k \<in> set (keys m)"
  by (simp add: keys_def map_of_eq_None_iff)

lemma map_of_SomeI_keys: "k \<in> set (keys m) \<Longrightarrow> \<exists>v. map_of m k = Some v"
  using map_of_keys by fastforce

text \<open>\<open>put\<close> is assignment to a map entry, \<open>put_all\<close> merges the entries of another map.\<close>

definition put :: "('k \<times> 'v) list \<Rightarrow> 'k \<Rightarrow> 'v \<Rightarrow> ('k \<times> 'v) list" where
  "put m k v = (if k \<in> set (keys m) then map (\<lambda>(k', v'). (k', if k' = k then v else v')) m
                else m @ [(k, v)])"

definition put_all :: "('k \<times> 'v) list \<Rightarrow> ('k \<times> 'v) list \<Rightarrow> ('k \<times> 'v) list" where
  "put_all m new = fold (\<lambda>(k, v) acc. put acc k v) new m"

lemma keys_put: "set (keys (put m k v)) = insert k (set (keys m))"
  by (auto simp: put_def keys_def image_iff split: if_splits) force+

lemma map_of_put: "map_of (put m k v) = (map_of m)(k \<mapsto> v)"
proof -
  have "map_of (map (\<lambda>(k', v'). (k', if k' = k then v else v')) m)
        = (if k \<in> set (keys m) then (map_of m)(k \<mapsto> v) else map_of m)"
    by (induction m) (auto simp: fun_eq_iff)
  moreover have "k \<notin> set (keys m) \<Longrightarrow> map_of (m @ [(k, v)]) = (map_of m)(k \<mapsto> v)"
    by (induction m) (auto simp: fun_eq_iff)
  ultimately show ?thesis by (simp add: put_def)
qed

lemma distinct_put: "distinct (keys m) \<Longrightarrow> distinct (keys (put m k v))"
proof -
  have "keys (map (\<lambda>(k', v'). (k', if k' = k then v else v')) m) = keys m"
    by (induction m) auto
  then show "distinct (keys m) \<Longrightarrow> distinct (keys (put m k v))"
    by (simp add: put_def) (simp add: keys_def)
qed

definition del :: "('k \<times> 'v) list \<Rightarrow> 'k \<Rightarrow> ('k \<times> 'v) list" where
  "del m k = filter (\<lambda>(k', _). k' \<noteq> k) m"

lemma map_of_del: "map_of (del m k) = (map_of m)(k := None)"
  by (rule ext) (induction m; auto simp: del_def)

lemma keys_del: "set (keys (del m k)) = set (keys m) - {k}"
  by (auto simp: del_def keys_def)

lemma distinct_del: "distinct (keys m) \<Longrightarrow> distinct (keys (del m k))"
  by (simp add: del_def keys_def distinct_map_filter)

lemma length_put: "k \<notin> set (keys m) \<Longrightarrow> length (put m k v) = Suc (length m)"
  by (simp add: put_def)

subsection \<open>Runs\<close>

text \<open>
  A property that every allowed step keeps holds after every run of allowed steps. Interpreted by
  the store (integrity, revoked sessions, the bootstrap flag), by the session resolution and by
  the simulated hypervisor.
\<close>

locale run_invariant =
  fixes step :: "'s \<Rightarrow> 'o \<Rightarrow> 's" and allowed :: "'o \<Rightarrow> bool" and inv :: "'s \<Rightarrow> bool"
  assumes step_inv: "inv s \<Longrightarrow> allowed op \<Longrightarrow> inv (step s op)"
begin

lemma run_inv: "inv s \<Longrightarrow> list_all allowed ops \<Longrightarrow> inv (foldl step s ops)"
  by (induction ops arbitrary: s) (simp_all add: step_inv)

end

text \<open>The verb \<open>%q\<close>, on text whose non-ASCII characters are printable.\<close>

definition hex_digit :: "nat \<Rightarrow> char" where
  "hex_digit n = ''0123456789abcdef'' ! n"

definition quote_char :: "char \<Rightarrow> string" where
  "quote_char c = (let n = of_char c in
     if n = 34 then [CHR 0x5C, CHR 0x22] else if n = 92 then [CHR 0x5C, CHR 0x5C]
     else if n = 7 then [CHR 0x5C, CHR ''a''] else if n = 8 then [CHR 0x5C, CHR ''b'']
     else if n = 9 then [CHR 0x5C, CHR ''t''] else if n = 10 then [CHR 0x5C, CHR ''n'']
     else if n = 11 then [CHR 0x5C, CHR ''v''] else if n = 12 then [CHR 0x5C, CHR ''f'']
     else if n = 13 then [CHR 0x5C, CHR ''r'']
     else if n < 32 \<or> n = 127 then [CHR 0x5C, CHR ''x'', hex_digit (n div 16), hex_digit (n mod 16)]
     else [c])"

definition go_quote :: "string \<Rightarrow> string" where
  "go_quote s = [CHR 0x22] @ concat (map quote_char s) @ [CHR 0x22]"

subsection \<open>Errors\<close>

text \<open>A Go \<open>(value, error)\<close> pair is a sum: \<open>Inl\<close> the error.\<close>

type_synonym ('e, 'a) result = "'e + 'a"

abbreviation is_err :: "'e + 'a \<Rightarrow> bool" where "is_err r \<equiv> isl r"

end
