(* ===== verification/Authz_Perm.thy ===== *)
theory Authz_Perm
  imports Go_Prelude
begin

text \<open>
  Permissions and scopes: \<open>server/internal/authz/rbac.go\<close>, \<open>context.go\<close> and the
  permission part of \<open>bearer.go\<close>, with the row types of \<open>store/records.go\<close> and
  \<open>store/bindings.go\<close> they use.
  A permission is a dotted string; a grant is a permission, \<open>*\<close> or a prefix wildcard
  \<open>a.b.*\<close>. A user's grants are a map from scope keys to sets of grants. The abstract
  specification is \<open>covers\<close> (a grant covers a permission); the code's search over prefixes
  is shown to compute it. The locale \<open>coverage\<close> states the laws of a covering relation and
  proves once that narrowing an owner's grants by a token's never gains a permission.
\<close>

subsection \<open>Rows and principals\<close>

record user_row =
  ID :: string
  Username :: string
  Email :: string
  PasswordHash :: string
  TOTPSecretEnc :: string
  TOTPEnabled :: bool
  TOTPConfirmedAt :: "int option"
  IsActive :: bool
  MustChangePW :: bool
  FailedLogins :: int
  LockedUntil :: "int option"
  LastLoginAt :: "int option"
  AuthSource :: string
  ExternalID :: string
  ExternalProviderID :: string
  CreatedAt :: int
  UpdatedAt :: int

record effective_role =
  RoleID :: string
  RoleName :: string
  Permissions :: "string list"
  ScopeType :: string
  ScopeID :: string

record scope =
  sc_type :: string
  sc_id :: string

type_synonym grants = "string set"
type_synonym scoped_grants = "string \<rightharpoonup> grants"

record principal =
  row :: user_row
  SessionHashID :: string
  AMR :: string
  perms :: scoped_grants
  roles :: "effective_role list"

subsection \<open>Scope keys and the effective permission map\<close>

definition scopeKey :: "string \<Rightarrow> string \<Rightarrow> string" where
  "scopeKey typ i = (if typ = [] \<or> typ = ''global'' then [] else typ @ '':'' @ i)"

text \<open>The loop of \<open>buildUser\<close>: each role adds its permissions to the set of its scope.\<close>

fun add_roles :: "effective_role list \<Rightarrow> scoped_grants \<Rightarrow> scoped_grants" where
  "add_roles [] m = m"
| "add_roles (r # rs) m =
     (let key = scopeKey (ScopeType r) (ScopeID r);
          set0 = (case m key of None \<Rightarrow> {} | Some S \<Rightarrow> S)
      in add_roles rs (m(key \<mapsto> set0 \<union> set (Permissions r))))"

definition buildUser :: "user_row \<Rightarrow> string \<Rightarrow> string \<Rightarrow> effective_role list \<Rightarrow> principal" where
  "buildUser su sessHashID amr rs =
     \<lparr>row = su, SessionHashID = sessHashID, AMR = amr,
      perms = add_roles rs Map.empty, roles = rs\<rparr>"

definition HasGlobalSuperuser :: "principal \<Rightarrow> bool" where
  "HasGlobalSuperuser u = (case perms u [] of Some g \<Rightarrow> ''*'' \<in> g | None \<Rightarrow> False)"

subsection \<open>Permission check\<close>

text \<open>
  The loop \<open>for i := len(parts) - 1; i >= 1; i--\<close> over the proper prefixes of the dotted
  name, longest first.
\<close>

fun wild_walk :: "grants \<Rightarrow> string list \<Rightarrow> nat \<Rightarrow> bool" where
  "wild_walk S parts 0 = False"
| "wild_walk S parts (Suc i) =
     (if join_with ''.'' (take (Suc i) parts) @ ''.*'' \<in> S then True
      else wild_walk S parts i)"

definition permSetGrants :: "grants \<Rightarrow> string \<Rightarrow> bool" where
  "permSetGrants S perm =
     (if ''*'' \<in> S then True
      else if perm \<in> S then True
      else (let parts = split_on (CHR ''.'') perm in wild_walk S parts (length parts - 1)))"

fun any_key_grants :: "scoped_grants \<Rightarrow> string list \<Rightarrow> string \<Rightarrow> bool" where
  "any_key_grants m [] perm = False"
| "any_key_grants m (key # ks) perm =
     (case m key of
        None \<Rightarrow> any_key_grants m ks perm
      | Some S \<Rightarrow> (if permSetGrants S perm then True else any_key_grants m ks perm))"

text \<open>\<open>Can\<close>: a nil user holds nothing; global grants always apply.\<close>

definition Can :: "principal option \<Rightarrow> string \<Rightarrow> scope \<Rightarrow> bool" where
  "Can u perm s =
     (case u of None \<Rightarrow> False
      | Some p \<Rightarrow>
          (let k = scopeKey (sc_type s) (sc_id s);
               ks = (if k \<noteq> [] then [[], k] else [[]])
           in any_key_grants (perms p) ks perm))"

subsection \<open>Narrowing by an API token\<close>

text \<open>
  \<open>restrictPerms\<close>: a \<open>*\<close> token copies the owner's map. Otherwise, per scope, an owner
  grant is kept when the token's set grants it, and an owner's \<open>*\<close> is replaced by the
  token's own permissions; a scope that keeps nothing is dropped.
\<close>

definition kept_grants :: "grants \<Rightarrow> grants \<Rightarrow> grants" where
  "kept_grants T S =
     (if ''*'' \<in> S then T else {}) \<union> {w \<in> S. w \<noteq> ''*'' \<and> permSetGrants T w}"

definition restrictPerms :: "scoped_grants \<Rightarrow> string list \<Rightarrow> scoped_grants" where
  "restrictPerms ownerPerms tokenAllowed =
     (let T = set tokenAllowed
      in if ''*'' \<in> T then ownerPerms
         else (\<lambda>scope. case ownerPerms scope of
                 None \<Rightarrow> None
               | Some S \<Rightarrow> (let kept = kept_grants T S in if kept = {} then None else Some kept)))"

subsection \<open>Abstract specification: covering\<close>

text \<open>A grant covers a permission: \<open>*\<close>, the permission itself, or \<open>p.*\<close> for a dotted prefix.\<close>

definition covers :: "string \<Rightarrow> string \<Rightarrow> bool" where
  "covers w p \<longleftrightarrow> w = ''*'' \<or> w = p \<or> (\<exists>pre suf. p = pre @ CHR ''.'' # suf \<and> w = pre @ ''.*'')"

locale coverage =
  fixes cov :: "'g \<Rightarrow> 'p \<Rightarrow> bool" and as_perm :: "'g \<Rightarrow> 'p" and top :: 'g
  assumes cov_trans: "cov a (as_perm b) \<Longrightarrow> cov b p \<Longrightarrow> cov a p"
    and cov_top: "cov top p"
begin

text \<open>Grants of \<open>S\<close> that some grant of \<open>T\<close> covers, with \<open>top\<close> replaced by \<open>T\<close>.\<close>

definition narrow :: "'g set \<Rightarrow> 'g set \<Rightarrow> 'g set" where
  "narrow T S = (if top \<in> S then T else {}) \<union> {w \<in> S. w \<noteq> top \<and> (\<exists>t \<in> T. cov t (as_perm w))}"

lemma narrow_owner: "w \<in> narrow T S \<Longrightarrow> cov w p \<Longrightarrow> \<exists>v \<in> S. cov v p"
  unfolding narrow_def using cov_top by (auto split: if_splits)

lemma narrow_token: "w \<in> narrow T S \<Longrightarrow> cov w p \<Longrightarrow> \<exists>t \<in> T. cov t p"
  unfolding narrow_def using cov_trans by (auto split: if_splits)

lemma narrow_superuser: "top \<in> S \<Longrightarrow> t \<in> T \<Longrightarrow> t \<in> narrow T S"
  unfolding narrow_def by simp

end

lemma covers_prefix_of_wild:
  assumes "pre @ CHR ''.'' # suf = w" "w = pre2 @ ''.*''"
  shows "(\<exists>t. pre2 = pre @ CHR ''.'' # t) \<or> pre2 = pre"
proof -
  have eq: "pre @ CHR ''.'' # suf = pre2 @ [CHR ''.'', CHR ''*'']" using assms by simp
  then consider (a) us where "pre @ us = pre2" "CHR ''.'' # suf = us @ [CHR ''.'', CHR ''*'']"
    | (b) us where "pre = pre2 @ us" "us @ CHR ''.'' # suf = [CHR ''.'', CHR ''*'']"
    by (auto simp: append_eq_append_conv2)
  then show ?thesis
  proof cases
    case a
    then show ?thesis by (cases us) auto
  next
    case b
    then show ?thesis by (cases us) (auto simp: Cons_eq_append_conv append_eq_Cons_conv)
  qed
qed

lemma covers_trans: "covers a b \<Longrightarrow> covers b p \<Longrightarrow> covers a p"
proof -
  assume ab: "covers a b" and bp: "covers b p"
  consider "a = ''*''" | "a = b" | pre suf where "b = pre @ CHR ''.'' # suf" "a = pre @ ''.*''"
    using ab by (auto simp: covers_def)
  then show "covers a p"
  proof cases
    case 1
    then show ?thesis by (simp add: covers_def)
  next
    case 2
    with bp show ?thesis by simp
  next
    case 3
    consider "b = ''*''" | "b = p" | pre2 suf2 where "p = pre2 @ CHR ''.'' # suf2" "b = pre2 @ ''.*''"
      using bp by (auto simp: covers_def)
    then show ?thesis
    proof cases
      case 1
      with 3 show ?thesis by (cases pre) auto
    next
      case 2
      with 3 show ?thesis by (auto simp: covers_def)
    next
      case c: 3
      have "(\<exists>t. pre2 = pre @ CHR ''.'' # t) \<or> pre2 = pre"
        using covers_prefix_of_wild [OF 3(1) [symmetric] c(2)] by simp
      with 3 c show ?thesis by (auto simp: covers_def)
    qed
  qed
qed

interpretation perm: coverage covers id "''*''"
proof
  show "covers a p" if "covers a (id b)" "covers b p" for a b p
    using that by (simp add: covers_trans)
  show "covers ''*'' p" for p by (simp add: covers_def)
qed

subsection \<open>The prefix search computes covering\<close>

lemma wild_walk_iff:
  "wild_walk S parts n \<longleftrightarrow> (\<exists>i. 1 \<le> i \<and> i \<le> n \<and> join_with ''.'' (take i parts) @ ''.*'' \<in> S)"
proof (induction n)
  case 0
  then show ?case by simp
next
  case (Suc n)
  then show ?case by (auto simp: le_Suc_eq)
qed

lemma dotted_prefix_take:
  "(\<exists>suf. p = pre @ CHR ''.'' # suf) \<longleftrightarrow>
   (\<exists>i. 1 \<le> i \<and> i \<le> length (split_on (CHR ''.'') p) - 1
        \<and> pre = join_with ''.'' (take i (split_on (CHR ''.'') p)))"
proof
  assume "\<exists>suf. p = pre @ CHR ''.'' # suf"
  then obtain suf where p: "p = pre @ CHR ''.'' # suf" by blast
  let ?i = "length (split_on (CHR ''.'') pre)"
  have sp: "split_on (CHR ''.'') p = split_on (CHR ''.'') pre @ split_on (CHR ''.'') suf"
    by (simp add: p split_on_append)
  have pos: "1 \<le> length (split_on (CHR ''.'') q)" for q
    by (simp add: Suc_le_eq)
  have "?i \<le> length (split_on (CHR ''.'') p) - 1"
    using pos [of suf] unfolding sp length_append by linarith
  with pos [of pre] show "\<exists>i. 1 \<le> i \<and> i \<le> length (split_on (CHR ''.'') p) - 1
        \<and> pre = join_with ''.'' (take i (split_on (CHR ''.'') p))"
    by (intro exI [of _ ?i]) (simp add: sp)
next
  let ?ps = "split_on (CHR ''.'') p"
  assume "\<exists>i. 1 \<le> i \<and> i \<le> length ?ps - 1 \<and> pre = join_with ''.'' (take i ?ps)"
  then obtain i where i: "1 \<le> i" "i \<le> length ?ps - 1" "pre = join_with ''.'' (take i ?ps)"
    by blast
  then have ne: "take i ?ps \<noteq> []" "drop i ?ps \<noteq> []" by auto
  have "p = join_with ''.'' (take i ?ps @ drop i ?ps)" by simp
  also have "\<dots> = join_with ''.'' (take i ?ps) @ ''.'' @ join_with ''.'' (drop i ?ps)"
    by (rule join_with_append [OF ne])
  finally show "\<exists>suf. p = pre @ CHR ''.'' # suf" using i(3) by auto
qed

lemma permSetGrants_iff: "permSetGrants S p \<longleftrightarrow> (\<exists>w \<in> S. covers w p)"
proof -
  have "wild_walk S (split_on (CHR ''.'') p) (length (split_on (CHR ''.'') p) - 1)
        \<longleftrightarrow> (\<exists>pre. (\<exists>suf. p = pre @ CHR ''.'' # suf) \<and> pre @ ''.*'' \<in> S)"
    unfolding wild_walk_iff dotted_prefix_take by blast
  then show ?thesis by (auto simp: permSetGrants_def Let_def covers_def)
qed

lemma any_key_grants_iff:
  "any_key_grants m ks p \<longleftrightarrow> (\<exists>k \<in> set ks. \<exists>S. m k = Some S \<and> permSetGrants S p)"
  by (induction ks) (auto split: option.splits)

lemma Can_None [simp]: "\<not> Can None p s"
  by (simp add: Can_def)

lemma Can_Some_iff:
  "Can (Some u) p s \<longleftrightarrow>
     (\<exists>k \<in> {[], scopeKey (sc_type s) (sc_id s)}. \<exists>S. perms u k = Some S \<and> permSetGrants S p)"
  by (auto simp: Can_def any_key_grants_iff Let_def)

lemma kept_grants_narrow: "kept_grants T S = perm.narrow T S"
  by (simp add: kept_grants_def perm.narrow_def permSetGrants_iff)

lemma restrictPerms_Some:
  "''*'' \<notin> set toks \<Longrightarrow> restrictPerms m toks k = Some K \<Longrightarrow>
     \<exists>S. m k = Some S \<and> K = kept_grants (set toks) S"
  by (auto simp: restrictPerms_def Let_def split: option.splits if_splits)

lemma add_roles_lookup:
  "(case add_roles rs m k of None \<Rightarrow> {} | Some S \<Rightarrow> S)
     = (case m k of None \<Rightarrow> {} | Some S \<Rightarrow> S)
       \<union> (\<Union>r \<in> {r \<in> set rs. scopeKey (ScopeType r) (ScopeID r) = k}. set (Permissions r))"
  by (induction rs arbitrary: m) (auto simp: Let_def split: option.splits)

lemma Can_buildUser:
  "Can (Some (buildUser su h a rs)) p s \<longleftrightarrow>
     (\<exists>r \<in> set rs. scopeKey (ScopeType r) (ScopeID r) \<in> {[], scopeKey (sc_type s) (sc_id s)}
        \<and> permSetGrants (set (Permissions r)) p)"
proof -
  have "(\<exists>S. perms (buildUser su h a rs) k = Some S \<and> permSetGrants S p) \<longleftrightarrow>
        (\<exists>r \<in> set rs. scopeKey (ScopeType r) (ScopeID r) = k
           \<and> permSetGrants (set (Permissions r)) p)" for k
    using add_roles_lookup [of rs Map.empty k]
    by (auto simp: buildUser_def permSetGrants_iff split: option.splits)
  then show ?thesis unfolding Can_Some_iff by blast
qed

lemma restrict_bounded:
  assumes "perms u = restrictPerms (perms owner) toks" "Can (Some u) p s"
  shows "Can (Some owner) p s \<and> permSetGrants (set toks) p"
proof (cases "''*'' \<in> set toks")
  case True
  then show ?thesis using assms
    by (simp add: restrictPerms_def Can_Some_iff) (simp add: permSetGrants_def)
next
  case False
  obtain k K where k: "k \<in> {[], scopeKey (sc_type s) (sc_id s)}"
    and K: "restrictPerms (perms owner) toks k = Some K" "permSetGrants K p"
    using iffD1 [OF Can_Some_iff assms(2)] unfolding assms(1) by (elim bexE exE conjE)
  obtain S where S: "perms owner k = Some S" "K = perm.narrow (set toks) S"
    using restrictPerms_Some [OF False K(1)] unfolding kept_grants_narrow by blast
  obtain g where g: "g \<in> K" "covers g p"
    using K(2) unfolding permSetGrants_iff by (elim bexE)
  have "permSetGrants S p" "permSetGrants (set toks) p"
    using perm.narrow_owner [OF g(1) [unfolded S(2)] g(2)]
      perm.narrow_token [OF g(1) [unfolded S(2)] g(2)]
    unfolding permSetGrants_iff .
  moreover have "Can (Some owner) p s"
    unfolding Can_Some_iff by (rule bexI [OF _ k]) (intro exI conjI, rule S(1), rule calculation(1))
  ultimately show ?thesis by simp
qed

end
