(* ===== verification/Store.thy ===== *)
theory Store
  imports Authz_Perm
begin

text \<open>
  The relational store behind the server: \<open>server/internal/store\<close> (users, sessions,
  bindings, roles, API tokens, recovery codes, settings, audit log, bootstrap).
  A table is the list of its rows; each SQL statement of the source is written out as the
  selection, update, insertion or deletion it performs. The database engine itself is not
  modelled: a statement of the operations named in the field \<open>broken\<close> fails with \<open>SQLError\<close>,
  every other one succeeds, so every error branch of the callers can be taken.
  \<open>now\<close> is the clock reading of the operation, in Unix seconds.
\<close>

subsection \<open>Rows\<close>

record session_row =
  sess_id :: string
  sess_user :: string
  CSRFToken :: string
  UserAgent :: string
  sess_ip :: string
  sess_amr :: string
  sess_created :: int
  LastSeenAt :: int
  ExpiresAt :: int
  RevokedAt :: "int option"

record role_row =
  role_id :: string
  role_name :: string
  role_desc :: string
  role_builtin :: bool
  role_perms :: "string list"
  role_created :: int
  role_updated :: int

record binding_row =
  bind_id :: string
  bind_user :: string
  bind_role :: string
  bind_scope_type :: string
  bind_scope_id :: string
  bind_created :: int

record token_row =
  tok_id :: string
  tok_name :: string
  tok_user :: string
  TokenHash :: string
  tok_perms :: "string list"
  tok_expires :: "int option"
  tok_last_used :: "int option"
  tok_revoked :: "int option"
  tok_created :: int

record recovery_row =
  rc_id :: string
  rc_user :: string
  CodeHash :: string
  UsedAt :: "int option"
  rc_created :: int

record audit_row =
  au_ts :: int
  au_actor_id :: string
  au_actor_name :: string
  au_actor_ip :: string
  au_action :: string
  au_target_type :: string
  au_target_id :: string
  au_target_name :: string
  au_scope_type :: string
  au_scope_id :: string
  au_result :: string
  au_status :: int
  au_detail :: string
  au_request_id :: string

text \<open>External identity providers (the sealed secrets are empty when unset), their group mappings and the
  pending OIDC redirects.\<close>

record provider_row =
  ap_id :: string
  ap_name :: string
  ap_kind :: string
  ap_enabled :: bool
  DefaultRoleID :: string
  LDAPHost :: string
  LDAPPort :: int
  LDAPTLS :: string
  LDAPSkipVerify :: bool
  LDAPBindDN :: string
  LDAPBindPWEnc :: string
  LDAPBaseDN :: string
  LDAPUserFilter :: string
  LDAPAttrUsername :: string
  LDAPAttrEmail :: string
  LDAPAttrDisplay :: string
  LDAPGroupBaseDN :: string
  LDAPGroupFilter :: string
  LDAPAttrMember :: string
  OIDCIssuer :: string
  OIDCClientID :: string
  OIDCClientSecretEnc :: string
  OIDCRedirectURL :: string
  OIDCScopes :: string
  OIDCGroupsClaim :: string
  OIDCUsernameClaim :: string
  OIDCEmailClaim :: string
  ap_created :: int
  ap_updated :: int

record mapping_row =
  gm_id :: string
  gm_provider :: string
  ExternalGroup :: string
  gm_role :: string
  gm_created :: int

record oidc_state_row =
  os_state :: string
  os_provider :: string
  Nonce :: string
  PKCEVerifier :: string
  RedirectAfter :: string
  os_created :: int
  os_expires :: int

record db =
  users :: "user_row list"
  sessions :: "session_row list"
  role_tab :: "role_row list"
  bindings :: "binding_row list"
  tokens :: "token_row list"
  recovery :: "recovery_row list"
  settings :: "string \<rightharpoonup> string"
  audit_log :: "audit_row list"
  auth_providers :: "provider_row list"
  group_maps :: "mapping_row list"
  oidc_states :: "oidc_state_row list"
  broken :: "string set"

datatype store_error = ErrNotFound | SQLError | ErrBootstrapAlreadyDone

subsection \<open>SQL statements on a table\<close>

definition update_where :: "('r \<Rightarrow> bool) \<Rightarrow> ('r \<Rightarrow> 'r) \<Rightarrow> 'r list \<Rightarrow> 'r list" where
  "update_where P f rs = map (\<lambda>r. if P r then f r else r) rs"

definition delete_where :: "('r \<Rightarrow> bool) \<Rightarrow> 'r list \<Rightarrow> 'r list" where
  "delete_where P rs = filter (\<lambda>r. \<not> P r) rs"

definition select_one :: "('r \<Rightarrow> bool) \<Rightarrow> 'r list \<Rightarrow> store_error + 'r" where
  "select_one P rs = (case find P rs of None \<Rightarrow> Inl ErrNotFound | Some r \<Rightarrow> Inr r)"

definition query :: "string \<Rightarrow> db \<Rightarrow> (store_error + 'a) \<Rightarrow> store_error + 'a" where
  "query op s r = (if op \<in> broken s then Inl SQLError else r)"

text \<open>
  An \<open>UPDATE\<close> keyed by the primary key, with the laws of the row change: it does not touch
  the key. The lemmas say what a lookup finds afterwards.
\<close>

locale keyed_update =
  fixes key :: "'r \<Rightarrow> string" and upd :: "'r \<Rightarrow> 'r"
  assumes key_upd: "key (upd r) = key r"
begin

lemma keys_update: "map key (update_where P upd rs) = map key rs"
  unfolding update_where_def by (induction rs) (auto simp: key_upd)

lemma find_update_same:
  "find (\<lambda>r. key r = k) (update_where (\<lambda>r. key r = k) upd rs)
     = map_option upd (find (\<lambda>r. key r = k) rs)"
  unfolding update_where_def by (induction rs) (auto simp: key_upd)

lemma find_update_other:
  "k' \<noteq> k \<Longrightarrow> find (\<lambda>r. key r = k') (update_where (\<lambda>r. key r = k) upd rs)
     = find (\<lambda>r. key r = k') rs"
  unfolding update_where_def by (induction rs) (auto simp: key_upd)

lemma find_update_where:
  "find (\<lambda>r. key r = k) (update_where P upd rs)
     = map_option (\<lambda>r. if P r then upd r else r) (find (\<lambda>r. key r = k) rs)"
  unfolding update_where_def by (induction rs) (auto simp: key_upd)

end

lemma in_update_where:
  "x \<in> set (update_where P f rs) \<longleftrightarrow> (x \<in> set rs \<and> \<not> P x) \<or> (\<exists>r \<in> set rs. P r \<and> x = f r)"
  unfolding update_where_def by (induction rs) auto

lemma in_delete_where: "x \<in> set (delete_where P rs) \<longleftrightarrow> x \<in> set rs \<and> \<not> P x"
  unfolding delete_where_def by simp

lemma find_delete_where:
  "(\<And>r. key r = k \<Longrightarrow> \<not> P r) \<Longrightarrow>
     find (\<lambda>r. key r = k) (delete_where P rs) = find (\<lambda>r. key r = k) rs"
  unfolding delete_where_def by (induction rs) auto

lemma find_delete_where_None:
  "(\<And>r. key r = k \<Longrightarrow> P r) \<Longrightarrow> find (\<lambda>r. key r = k) (delete_where P rs) = None"
  unfolding delete_where_def by (auto simp: find_None_iff)

lemma find_SomeD: "find P rs = Some r \<Longrightarrow> r \<in> set rs \<and> P r"
  by (auto simp: find_Some_iff)

subsection \<open>Settings\<close>

definition GetSetting :: "db \<Rightarrow> string \<Rightarrow> store_error + string" where
  "GetSetting s k = query ''GetSetting'' s
     (case settings s k of None \<Rightarrow> Inl ErrNotFound | Some v \<Rightarrow> Inr v)"

definition GetSettingDefault :: "db \<Rightarrow> string \<Rightarrow> string \<Rightarrow> string" where
  "GetSettingDefault s k def = (case GetSetting s k of Inl _ \<Rightarrow> def | Inr v \<Rightarrow> v)"

definition SetSetting :: "db \<Rightarrow> string \<Rightarrow> string \<Rightarrow> store_error + db" where
  "SetSetting s k v = query ''SetSetting'' s (Inr (s\<lparr>settings := (settings s)(k \<mapsto> v)\<rparr>))"

definition BootstrapCompleted :: "db \<Rightarrow> store_error + bool" where
  "BootstrapCompleted s =
     (case GetSetting s ''bootstrap.completed'' of
        Inl ErrNotFound \<Rightarrow> Inr False
      | Inl e \<Rightarrow> Inl e
      | Inr v \<Rightarrow> Inr (v = ''true''))"

subsection \<open>Users\<close>

definition GetUserByID :: "db \<Rightarrow> string \<Rightarrow> store_error + user_row" where
  "GetUserByID s i = query ''GetUserByID'' s (select_one (\<lambda>u. ID u = i) (users s))"

definition GetUserByUsername :: "db \<Rightarrow> string \<Rightarrow> store_error + user_row" where
  "GetUserByUsername s n =
     query ''GetUserByUsername'' s (select_one (\<lambda>u. Username u = n) (users s))"

definition FindUserByExternalID :: "db \<Rightarrow> string \<Rightarrow> string \<Rightarrow> store_error + user_row" where
  "FindUserByExternalID s source ext = query ''FindUserByExternalID'' s
     (select_one (\<lambda>u. AuthSource u = source \<and> ExternalID u = ext \<and> ext \<noteq> []) (users s))"

definition CountUsers :: "db \<Rightarrow> store_error + int" where
  "CountUsers s = query ''CountUsers'' s (Inr (int (length (users s))))"

text \<open>
  \<open>INSERT INTO users\<close>: the primary key, the username and the external identity are unique;
  the columns the statement does not set take their defaults.
\<close>

definition user_conflict :: "user_row list \<Rightarrow> user_row \<Rightarrow> bool" where
  "user_conflict us u \<longleftrightarrow> (\<exists>v \<in> set us. ID v = ID u \<or> Username v = Username u
     \<or> (AuthSource v = AuthSource u \<and> ExternalID v = ExternalID u \<and> ExternalID u \<noteq> []))"

definition new_user_row :: "int \<Rightarrow> user_row \<Rightarrow> user_row" where
  "new_user_row now u =
     u\<lparr>TOTPSecretEnc := [], TOTPEnabled := False, TOTPConfirmedAt := None,
       FailedLogins := 0, LockedUntil := None, LastLoginAt := None,
       AuthSource := (if AuthSource u = [] then ''local'' else AuthSource u),
       CreatedAt := now, UpdatedAt := now\<rparr>"

definition CreateUser :: "db \<Rightarrow> int \<Rightarrow> user_row \<Rightarrow> store_error + db" where
  "CreateUser s now u = query ''CreateUser'' s
     (if user_conflict (users s) (new_user_row now u) then Inl SQLError
      else Inr (s\<lparr>users := users s @ [new_user_row now u]\<rparr>))"

definition upd_user :: "db \<Rightarrow> string \<Rightarrow> (user_row \<Rightarrow> user_row) \<Rightarrow> db" where
  "upd_user s i f = s\<lparr>users := update_where (\<lambda>u. ID u = i) f (users s)\<rparr>"

definition UpdateUserProfile ::
  "db \<Rightarrow> int \<Rightarrow> string \<Rightarrow> string option \<Rightarrow> bool option \<Rightarrow> store_error + db" where
  "UpdateUserProfile s now i email act = query ''UpdateUserProfile'' s
     (let s1 = (case email of None \<Rightarrow> s
                | Some e \<Rightarrow> upd_user s i (\<lambda>u. u\<lparr>Email := e, UpdatedAt := now\<rparr>));
          s2 = (case act of None \<Rightarrow> s1
                | Some a \<Rightarrow> upd_user s1 i (\<lambda>u. u\<lparr>IsActive := a, UpdatedAt := now\<rparr>))
      in Inr s2)"

definition SetPasswordHash :: "db \<Rightarrow> int \<Rightarrow> string \<Rightarrow> string \<Rightarrow> store_error + db" where
  "SetPasswordHash s now i h = query ''SetPasswordHash'' s
     (Inr (upd_user s i (\<lambda>u. u\<lparr>PasswordHash := h, MustChangePW := False, UpdatedAt := now\<rparr>)))"

text \<open>\<open>DELETE FROM users\<close> cascades to sessions, bindings, recovery codes and API tokens.\<close>

definition DeleteUser :: "db \<Rightarrow> string \<Rightarrow> store_error + db" where
  "DeleteUser s i = query ''DeleteUser'' s
     (if find (\<lambda>u. ID u = i) (users s) = None then Inl ErrNotFound
      else Inr (s\<lparr>users := delete_where (\<lambda>u. ID u = i) (users s),
                  sessions := delete_where (\<lambda>r. sess_user r = i) (sessions s),
                  bindings := delete_where (\<lambda>r. bind_user r = i) (bindings s),
                  recovery := delete_where (\<lambda>r. rc_user r = i) (recovery s),
                  tokens := delete_where (\<lambda>r. tok_user r = i) (tokens s)\<rparr>))"

definition RecordLoginSuccess :: "db \<Rightarrow> int \<Rightarrow> string \<Rightarrow> store_error + db" where
  "RecordLoginSuccess s now i = query ''RecordLoginSuccess'' s
     (Inr (upd_user s i (\<lambda>u. u\<lparr>FailedLogins := 0, LockedUntil := None,
                                LastLoginAt := Some now, UpdatedAt := now\<rparr>)))"

definition RecordLoginFailure ::
  "db \<Rightarrow> int \<Rightarrow> string \<Rightarrow> int \<Rightarrow> int \<Rightarrow> store_error + (int \<times> db)" where
  "RecordLoginFailure s now i threshold lockFor = query ''RecordLoginFailure'' s
     (case find (\<lambda>u. ID u = i) (users s) of
        None \<Rightarrow> Inl SQLError
      | Some u0 \<Rightarrow>
          (let failed = FailedLogins u0 + 1;
               locked = (if failed \<ge> threshold then Some (now + go_div lockFor second) else None)
           in Inr (failed, upd_user s i (\<lambda>u. u\<lparr>FailedLogins := failed, LockedUntil := locked,
                                               UpdatedAt := now\<rparr>))))"

definition SetTOTPPending :: "db \<Rightarrow> int \<Rightarrow> string \<Rightarrow> string \<Rightarrow> store_error + db" where
  "SetTOTPPending s now i enc = query ''SetTOTPPending'' s
     (Inr (upd_user s i (\<lambda>u. u\<lparr>TOTPSecretEnc := enc, TOTPEnabled := False,
                                TOTPConfirmedAt := None, UpdatedAt := now\<rparr>)))"

definition ConfirmTOTP :: "db \<Rightarrow> int \<Rightarrow> string \<Rightarrow> store_error + db" where
  "ConfirmTOTP s now i = query ''ConfirmTOTP'' s
     (Inr (upd_user s i (\<lambda>u. u\<lparr>TOTPEnabled := True, TOTPConfirmedAt := Some now,
                                UpdatedAt := now\<rparr>)))"

definition DisableTOTP :: "db \<Rightarrow> int \<Rightarrow> string \<Rightarrow> store_error + db" where
  "DisableTOTP s now i = query ''DisableTOTP'' s
     (Inr (upd_user s i (\<lambda>u. u\<lparr>TOTPSecretEnc := [], TOTPEnabled := False,
                                TOTPConfirmedAt := None, UpdatedAt := now\<rparr>)))"

subsection \<open>Sessions\<close>

definition GetSession :: "db \<Rightarrow> string \<Rightarrow> store_error + session_row" where
  "GetSession s h = query ''GetSession'' s (select_one (\<lambda>r. sess_id r = h) (sessions s))"

definition CreateSession :: "db \<Rightarrow> session_row \<Rightarrow> store_error + db" where
  "CreateSession s r = query ''CreateSession'' s
     (if find (\<lambda>x. sess_id x = sess_id r) (sessions s) \<noteq> None
         \<or> find (\<lambda>u. ID u = sess_user r) (users s) = None then Inl SQLError
      else Inr (s\<lparr>sessions := sessions s @ [r]\<rparr>))"

definition upd_sessions :: "db \<Rightarrow> (session_row \<Rightarrow> bool) \<Rightarrow> (session_row \<Rightarrow> session_row) \<Rightarrow> db" where
  "upd_sessions s P f = s\<lparr>sessions := update_where P f (sessions s)\<rparr>"

definition TouchSession :: "db \<Rightarrow> int \<Rightarrow> string \<Rightarrow> int \<Rightarrow> store_error + db" where
  "TouchSession s now h newExpiry = query ''TouchSession'' s
     (Inr (upd_sessions s (\<lambda>r. sess_id r = h) (\<lambda>r. r\<lparr>LastSeenAt := now, ExpiresAt := newExpiry\<rparr>)))"

definition UpgradeSessionAMR :: "db \<Rightarrow> string \<Rightarrow> string \<Rightarrow> store_error + db" where
  "UpgradeSessionAMR s h a = query ''UpgradeSessionAMR'' s
     (Inr (upd_sessions s (\<lambda>r. sess_id r = h) (\<lambda>r. r\<lparr>sess_amr := a\<rparr>)))"

definition RevokeSession :: "db \<Rightarrow> int \<Rightarrow> string \<Rightarrow> store_error + db" where
  "RevokeSession s now h = query ''RevokeSession'' s
     (Inr (upd_sessions s (\<lambda>r. sess_id r = h \<and> RevokedAt r = None) (\<lambda>r. r\<lparr>RevokedAt := Some now\<rparr>)))"

definition RevokeAllUserSessions :: "db \<Rightarrow> int \<Rightarrow> string \<Rightarrow> store_error + db" where
  "RevokeAllUserSessions s now i = query ''RevokeAllUserSessions'' s
     (Inr (upd_sessions s (\<lambda>r. sess_user r = i \<and> RevokedAt r = None) (\<lambda>r. r\<lparr>RevokedAt := Some now\<rparr>)))"

definition RevokeOtherUserSessions :: "db \<Rightarrow> int \<Rightarrow> string \<Rightarrow> string \<Rightarrow> store_error + db" where
  "RevokeOtherUserSessions s now i keep = query ''RevokeOtherUserSessions'' s
     (Inr (upd_sessions s (\<lambda>r. sess_user r = i \<and> sess_id r \<noteq> keep \<and> RevokedAt r = None)
                          (\<lambda>r. r\<lparr>RevokedAt := Some now\<rparr>)))"

definition DeleteExpiredSessions :: "db \<Rightarrow> int \<Rightarrow> store_error + (int \<times> db)" where
  "DeleteExpiredSessions s now = query ''DeleteExpiredSessions'' s
     (Inr (int (length (filter (\<lambda>r. ExpiresAt r < now) (sessions s))),
           s\<lparr>sessions := delete_where (\<lambda>r. ExpiresAt r < now) (sessions s)\<rparr>))"

text \<open>The keyed updates of the users and sessions tables.\<close>

interpretation user_lock: keyed_update ID
    "\<lambda>u. u\<lparr>FailedLogins := n, LockedUntil := l, UpdatedAt := now\<rparr>" for n l now
  by unfold_locales simp

interpretation user_login: keyed_update ID
    "\<lambda>u. u\<lparr>FailedLogins := 0, LockedUntil := None, LastLoginAt := l, UpdatedAt := now\<rparr>" for l now
  by unfold_locales simp

interpretation touch: keyed_update sess_id "\<lambda>r. r\<lparr>LastSeenAt := now, ExpiresAt := e\<rparr>" for now e
  by unfold_locales simp

interpretation revoke: keyed_update sess_id "\<lambda>r. r\<lparr>RevokedAt := t\<rparr>" for t
  by unfold_locales simp

subsection \<open>Bindings, API tokens, recovery codes, audit\<close>

text \<open>\<open>JOIN roles r ON r.id = rb.role_id\<close>: bindings in table order, each with its role.\<close>

fun join_roles :: "role_row list \<Rightarrow> binding_row list \<Rightarrow> effective_role list" where
  "join_roles rt [] = []"
| "join_roles rt (b # bs) =
     (case find (\<lambda>r. role_id r = bind_role b) rt of
        None \<Rightarrow> join_roles rt bs
      | Some r \<Rightarrow> \<lparr>RoleID = bind_role b, RoleName = role_name r, Permissions = role_perms r,
                    ScopeType = bind_scope_type b, ScopeID = bind_scope_id b\<rparr> # join_roles rt bs)"

definition EffectiveRolesForUser :: "db \<Rightarrow> string \<Rightarrow> store_error + effective_role list" where
  "EffectiveRolesForUser s i = query ''EffectiveRolesForUser'' s
     (Inr (join_roles (role_tab s) (filter (\<lambda>b. bind_user b = i) (bindings s))))"

definition CountAdminBindings :: "db \<Rightarrow> string \<Rightarrow> store_error + int" where
  "CountAdminBindings s adminRole = query ''CountAdminBindings'' s
     (Inr (int (length (filter (\<lambda>b. bind_role b = adminRole \<and> bind_scope_type b = ''global'')
                               (bindings s)))))"

definition UserHasGlobalRole :: "db \<Rightarrow> string \<Rightarrow> string \<Rightarrow> store_error + bool" where
  "UserHasGlobalRole s i role = query ''UserHasGlobalRole'' s
     (Inr (\<exists>b \<in> set (bindings s). bind_user b = i \<and> bind_role b = role \<and> bind_scope_type b = ''global''))"

definition GetAPITokenByHash :: "db \<Rightarrow> int \<Rightarrow> string \<Rightarrow> store_error + token_row" where
  "GetAPITokenByHash s now h = query ''GetAPITokenByHash'' s
     (select_one (\<lambda>t. TokenHash t = h \<and> tok_revoked t = None
                      \<and> (case tok_expires t of None \<Rightarrow> True | Some e \<Rightarrow> e > now)) (tokens s))"

definition TouchAPIToken :: "db \<Rightarrow> int \<Rightarrow> string \<Rightarrow> store_error + db" where
  "TouchAPIToken s now i = query ''TouchAPIToken'' s
     (Inr (s\<lparr>tokens := update_where (\<lambda>t. tok_id t = i) (\<lambda>t. t\<lparr>tok_last_used := Some now\<rparr>) (tokens s)\<rparr>))"

definition RevokeAPIToken :: "db \<Rightarrow> int \<Rightarrow> string \<Rightarrow> string \<Rightarrow> store_error + db" where
  "RevokeAPIToken s now i uid = query ''RevokeAPIToken'' s
     (let P = (\<lambda>t. tok_id t = i \<and> tok_user t = uid \<and> tok_revoked t = None)
      in if find P (tokens s) = None then Inl ErrNotFound
         else Inr (s\<lparr>tokens := update_where P (\<lambda>t. t\<lparr>tok_revoked := Some now\<rparr>) (tokens s)\<rparr>))"

definition ListUnusedRecoveryCodes :: "db \<Rightarrow> string \<Rightarrow> store_error + recovery_row list" where
  "ListUnusedRecoveryCodes s uid = query ''ListUnusedRecoveryCodes'' s
     (Inr (filter (\<lambda>r. rc_user r = uid \<and> UsedAt r = None) (recovery s)))"

definition ConsumeRecoveryCode :: "db \<Rightarrow> int \<Rightarrow> string \<Rightarrow> store_error + db" where
  "ConsumeRecoveryCode s now i = query ''ConsumeRecoveryCode'' s
     (let P = (\<lambda>r. rc_id r = i \<and> UsedAt r = None)
      in if find P (recovery s) = None then Inl ErrNotFound
         else Inr (s\<lparr>recovery := update_where P (\<lambda>r. r\<lparr>UsedAt := Some now\<rparr>) (recovery s)\<rparr>))"

text \<open>\<open>ReplaceRecoveryCodes\<close> runs in one transaction; a length mismatch panics (\<open>None\<close>).\<close>

definition ReplaceRecoveryCodes ::
  "db \<Rightarrow> int \<Rightarrow> string \<Rightarrow> string list \<Rightarrow> string list \<Rightarrow> (store_error + db) option" where
  "ReplaceRecoveryCodes s now uid ids hashes =
     (if length ids \<noteq> length hashes then None
      else Some (query ''ReplaceRecoveryCodes'' s
        (let kept = delete_where (\<lambda>r. rc_user r = uid) (recovery s);
             new = map (\<lambda>(i, h). \<lparr>rc_id = i, rc_user = uid, CodeHash = h, UsedAt = None,
                                   rc_created = now\<rparr>) (zip ids hashes)
         in if distinct (map rc_id (kept @ new))
               \<and> (ids = [] \<or> find (\<lambda>u. ID u = uid) (users s) \<noteq> None)
            then Inr (s\<lparr>recovery := kept @ new\<rparr>) else Inl SQLError)))"

definition InsertAudit :: "db \<Rightarrow> audit_row \<Rightarrow> store_error + db" where
  "InsertAudit s a = query ''InsertAudit'' s (Inr (s\<lparr>audit_log := audit_log s @ [a]\<rparr>))"

subsection \<open>Bootstrap\<close>

text \<open>
  One transaction: nothing is written unless every guard passes and every statement succeeds.
  The binding's role is a foreign key.
\<close>

definition RoleIDAdmin :: string where "RoleIDAdmin = ''role-admin''"

definition first_admin_row :: "int \<Rightarrow> string \<Rightarrow> string \<Rightarrow> string \<Rightarrow> string \<Rightarrow> user_row" where
  "first_admin_row now uid name email h =
     \<lparr>ID = uid, Username = name, Email = email, PasswordHash = h, TOTPSecretEnc = [],
      TOTPEnabled = False, TOTPConfirmedAt = None, IsActive = True, MustChangePW = False,
      FailedLogins = 0, LockedUntil = None, LastLoginAt = None, AuthSource = ''local'',
      ExternalID = [], ExternalProviderID = [], CreatedAt = now, UpdatedAt = now\<rparr>"

definition BootstrapFirstAdmin ::
  "db \<Rightarrow> int \<Rightarrow> string \<Rightarrow> string \<Rightarrow> string \<Rightarrow> string \<Rightarrow> string \<Rightarrow> store_error + db" where
  "BootstrapFirstAdmin s now uid name email h bid = query ''BootstrapFirstAdmin'' s
     (if settings s ''bootstrap.completed'' = Some ''true'' then Inl ErrBootstrapAlreadyDone
      else if length (users s) > 0 then Inl ErrBootstrapAlreadyDone
      else if find (\<lambda>b. bind_id b = bid) (bindings s) \<noteq> None
              \<or> find (\<lambda>r. role_id r = RoleIDAdmin) (role_tab s) = None then Inl SQLError
      else Inr (s\<lparr>users := users s @ [first_admin_row now uid name email h],
                  bindings := bindings s @
                    [\<lparr>bind_id = bid, bind_user = uid, bind_role = RoleIDAdmin,
                      bind_scope_type = ''global'', bind_scope_id = [], bind_created = now\<rparr>],
                  settings := (settings s)(''bootstrap.completed'' \<mapsto> ''true'')\<rparr>))"

end
