(* ===== verification/Json.thy ===== *)
theory Json
  imports Go_Prelude
begin

text \<open>
  JSON as \<open>encoding/json\<close> of the Go standard library writes and reads it: \<open>json_enc\<close> is \<open>Marshal\<close>
  (compact, with the escapes for HTML), \<open>json_dec\<close> is the reader behind \<open>Unmarshal\<close>, restricted to
  whole numbers in the range of \<open>int64\<close>, the only ones the stored documents have. Text is a list of
  bytes; bytes outside ASCII stand for themselves (valid UTF-8 without the line separators U+2028
  and U+2029, which \<open>Marshal\<close> would escape). A document that was written is read back
  (\<open>json_roundtrip\<close>).
\<close>

datatype jval =
    JNull
  | JBool bool
  | JNum int
  | JStr string
  | JArr "jval list"
  | JObj "(string \<times> jval) list"

subsection \<open>Writing\<close>

definition hex_char :: "nat \<Rightarrow> char" where
  "hex_char n = ''0123456789abcdef'' ! n"

definition json_esc :: "char \<Rightarrow> string" where
  "json_esc c = (let n = of_char c :: nat in
     if n = 34 then [CHR 0x5C, CHR 0x22] else if n = 92 then [CHR 0x5C, CHR 0x5C]
     else if n = 8 then [CHR 0x5C, CHR ''b''] else if n = 12 then [CHR 0x5C, CHR ''f'']
     else if n = 10 then [CHR 0x5C, CHR ''n''] else if n = 13 then [CHR 0x5C, CHR ''r'']
     else if n = 9 then [CHR 0x5C, CHR ''t'']
     else if n < 32 \<or> n = 60 \<or> n = 62 \<or> n = 38
     then [CHR 0x5C, CHR ''u'', CHR ''0'', CHR ''0'', hex_char (n div 16), hex_char (n mod 16)]
     else [c])"

definition json_quote :: "string \<Rightarrow> string" where
  "json_quote s = CHR 0x22 # concat (map json_esc s) @ [CHR 0x22]"

fun json_enc :: "jval \<Rightarrow> string" where
  "json_enc JNull = ''null''"
| "json_enc (JBool b) = (if b then ''true'' else ''false'')"
| "json_enc (JNum n) = itoa n"
| "json_enc (JStr s) = json_quote s"
| "json_enc (JArr vs) = ''['' @ join_with '','' (map json_enc vs) @ '']''"
| "json_enc (JObj m) = ''{'' @ join_with '','' (map (\<lambda>(k, v). json_quote k @ '':'' @ json_enc v) m) @ ''}''"

subsection \<open>Reading\<close>

definition json_space :: "char \<Rightarrow> bool" where
  "json_space c \<longleftrightarrow> c \<in> {CHR '' '', CHR 0x09, CHR 0x0A, CHR 0x0D}"

abbreviation json_skip :: "string \<Rightarrow> string" where "json_skip \<equiv> dropWhile json_space"

definition hex_value :: "char \<Rightarrow> nat option" where
  "hex_value c = (let n = of_char c in
     if 48 \<le> n \<and> n \<le> 57 then Some (n - 48) else if 97 \<le> n \<and> n \<le> 102 then Some (n - 87)
     else if 65 \<le> n \<and> n \<le> 70 then Some (n - 55) else None)"

fun hex4 :: "string \<Rightarrow> (nat \<times> string) option" where
  "hex4 (a # b # c # d # r) =
     (case (hex_value a, hex_value b, hex_value c, hex_value d) of
        (Some w, Some x, Some y, Some z) \<Rightarrow> Some (((w * 16 + x) * 16 + y) * 16 + z, r)
      | _ \<Rightarrow> None)"
| "hex4 _ = None"

definition utf8 :: "nat \<Rightarrow> string" where
  "utf8 n = map char_of
     (if n < 128 then [n]
      else if n < 2048 then [192 + n div 64, 128 + n mod 64]
      else if n < 65536 then [224 + n div 4096, 128 + n div 64 mod 64, 128 + n mod 64]
      else [240 + n div 262144, 128 + n div 4096 mod 64, 128 + n div 64 mod 64, 128 + n mod 64 :: nat])"

text \<open>The code point of an escape and the text after it; a lone surrogate is U+FFFD.\<close>

definition code_point :: "string \<Rightarrow> (nat \<times> string) option" where
  "code_point s =
     (case hex4 s of None \<Rightarrow> None
      | Some (n, r) \<Rightarrow>
        if 0xD800 \<le> n \<and> n < 0xE000 then
          (case (if n < 0xDC00 \<and> take 2 r = [CHR 0x5C, CHR ''u''] then hex4 (drop 2 r) else None) of
             Some (k, r2) \<Rightarrow> if 0xDC00 \<le> k \<and> k < 0xE000
               then Some (0x10000 + (n - 0xD800) * 0x400 + (k - 0xDC00), r2) else Some (0xFFFD, r)
           | None \<Rightarrow> Some (0xFFFD, r))
        else Some (n, r))"

lemma hex4_length: "hex4 s = Some (n, r) \<Longrightarrow> length r < length s"
  by (induction s rule: hex4.induct) (auto split: option.splits)

lemma code_point_length: "code_point s = Some (n, r) \<Longrightarrow> length r < length s"
proof -
  assume a: "code_point s = Some (n, r)"
  then obtain m q where h: "hex4 s = Some (m, q)" by (auto simp: code_point_def split: option.splits)
  have "k < length (drop 2 q) \<Longrightarrow> k < length s" for k using hex4_length [OF h] by simp
  then show ?thesis using a h hex4_length [OF h]
    by (auto simp: code_point_def split: option.splits if_splits dest!: hex4_length)
qed

definition simple_esc :: "char \<Rightarrow> char option" where
  "simple_esc e = map_of [(CHR 0x22, CHR 0x22), (CHR 0x5C, CHR 0x5C), (CHR ''/'', CHR ''/''), (CHR ''b'', CHR 0x08),
     (CHR ''f'', CHR 0x0C), (CHR ''n'', CHR 0x0A), (CHR ''r'', CHR 0x0D), (CHR ''t'', CHR 0x09)] e"

text \<open>The rest of a string after its opening quote.\<close>

function unquote :: "string \<Rightarrow> (string \<times> string) option" where
  "unquote s =
     (case s of [] \<Rightarrow> None
      | c # cs \<Rightarrow>
        if c = CHR 0x22 then Some ([], cs)
        else if c = CHR 0x5C then
          (case cs of [] \<Rightarrow> None
           | e # ds \<Rightarrow>
             if e = CHR ''u'' then
               (case code_point ds of None \<Rightarrow> None
                | Some (n, r) \<Rightarrow> map_option (\<lambda>(t, q). (utf8 n @ t, q)) (unquote r))
             else (case simple_esc e of None \<Rightarrow> None
                   | Some x \<Rightarrow> map_option (\<lambda>(t, q). (x # t, q)) (unquote ds)))
        else if (of_char c :: nat) < 32 then None
        else map_option (\<lambda>(t, q). (c # t, q)) (unquote cs))"
  by pat_completeness auto
termination by (relation "measure length") (auto dest: code_point_length)

declare unquote.simps [simp del]

definition read_int :: "string \<Rightarrow> (int \<times> string) option" where
  "read_int s =
     (let (neg, t) = (case s of c # cs \<Rightarrow> if c = CHR ''-'' then (True, cs) else (False, s) | [] \<Rightarrow> (False, []));
          ds = takeWhile is_digit t; r = dropWhile is_digit t
      in if ds = [] \<or> (length ds > 1 \<and> hd ds = CHR ''0'') \<or> (r \<noteq> [] \<and> hd r \<in> set ''.eE'') then None
         else (case digits_value ds 0 of None \<Rightarrow> None
               | Some n \<Rightarrow> (let v = (if neg then - int n else int n)
                           in if - (2 ^ 63) \<le> v \<and> v < 2 ^ 63 then Some (v, r) else None)))"

definition json_literal :: "string \<Rightarrow> 'a \<Rightarrow> string \<Rightarrow> ('a \<times> string) option" where
  "json_literal w v s = (if has_prefix s w then Some (v, drop (length w) s) else None)"

fun read_value :: "nat \<Rightarrow> string \<Rightarrow> (jval \<times> string) option"
  and read_elems :: "nat \<Rightarrow> string \<Rightarrow> (jval list \<times> string) option"
  and read_members :: "nat \<Rightarrow> string \<Rightarrow> ((string \<times> jval) list \<times> string) option" where
  "read_value 0 s = None"
| "read_value (Suc k) s =
     (case json_skip s of [] \<Rightarrow> None
      | c # cs \<Rightarrow>
        if c = CHR ''{'' then
          (case json_skip cs of [] \<Rightarrow> None
           | d # ds \<Rightarrow> if d = CHR ''}'' then Some (JObj [], ds)
                      else map_option (\<lambda>(m, r). (JObj m, r)) (read_members k (d # ds)))
        else if c = CHR ''['' then
          (case json_skip cs of [] \<Rightarrow> None
           | d # ds \<Rightarrow> if d = CHR '']'' then Some (JArr [], ds)
                      else map_option (\<lambda>(m, r). (JArr m, r)) (read_elems k (d # ds)))
        else if c = CHR 0x22 then map_option (\<lambda>(t, r). (JStr t, r)) (unquote cs)
        else if c = CHR ''n'' then json_literal ''null'' JNull (c # cs)
        else if c = CHR ''t'' then json_literal ''true'' (JBool True) (c # cs)
        else if c = CHR ''f'' then json_literal ''false'' (JBool False) (c # cs)
        else map_option (\<lambda>(n, r). (JNum n, r)) (read_int (c # cs)))"
| "read_elems 0 s = None"
| "read_elems (Suc k) s =
     (case read_value k s of None \<Rightarrow> None
      | Some (v, r) \<Rightarrow>
        (case json_skip r of [] \<Rightarrow> None
         | c # cs \<Rightarrow> if c = CHR '']'' then Some ([v], cs)
                    else if c = CHR '','' then map_option (\<lambda>(vs, q). (v # vs, q)) (read_elems k cs)
                    else None))"
| "read_members 0 s = None"
| "read_members (Suc k) s =
     (case json_skip s of [] \<Rightarrow> None
      | a # as \<Rightarrow>
        if a \<noteq> CHR 0x22 then None
        else (case unquote as of None \<Rightarrow> None
              | Some (name, r) \<Rightarrow>
                (case json_skip r of [] \<Rightarrow> None
                 | b # bs \<Rightarrow>
                   if b \<noteq> CHR '':'' then None
                   else (case read_value k bs of None \<Rightarrow> None
                         | Some (v, q) \<Rightarrow>
                           (case json_skip q of [] \<Rightarrow> None
                            | c # cs \<Rightarrow> if c = CHR ''}'' then Some ([(name, v)], cs)
                                       else if c = CHR '','' then map_option (\<lambda>(m, p). ((name, v) # m, p)) (read_members k cs)
                                       else None)))))"

text \<open>The fuel is the length of the text: every nested call has consumed a character.\<close>

definition json_dec :: "string \<Rightarrow> jval option" where
  "json_dec s = (case read_value (Suc (length s)) s of None \<Rightarrow> None
     | Some (v, r) \<Rightarrow> if json_skip r = [] then Some v else None)"


subsection \<open>Decoding into Go values\<close>

text \<open>A field of a struct: names match without regard to case and the last one counts; \<open>null\<close> leaves the zero
  value. \<open>None\<close> is a value of the wrong type.\<close>

definition jfield :: "(string \<times> jval) list \<Rightarrow> string \<Rightarrow> jval" where
  "jfield m k = (case filter (\<lambda>(k', _). equal_fold k' k) m of [] \<Rightarrow> JNull | e # es \<Rightarrow> snd (last (e # es)))"

definition to_str :: "jval \<Rightarrow> string option" where
  "to_str v = (case v of JNull \<Rightarrow> Some [] | JStr s \<Rightarrow> Some s | _ \<Rightarrow> None)"

definition to_int :: "jval \<Rightarrow> int option" where
  "to_int v = (case v of JNull \<Rightarrow> Some 0 | JNum n \<Rightarrow> Some n | _ \<Rightarrow> None)"

definition to_bool :: "jval \<Rightarrow> bool option" where
  "to_bool v = (case v of JNull \<Rightarrow> Some False | JBool b \<Rightarrow> Some b | _ \<Rightarrow> None)"

subsection \<open>What was written is read back\<close>

fun storable :: "jval \<Rightarrow> bool" where
  "storable (JNum n) \<longleftrightarrow> - (2 ^ 63) \<le> n \<and> n < 2 ^ 63"
| "storable (JArr vs) \<longleftrightarrow> list_all storable vs"
| "storable (JObj m) \<longleftrightarrow> list_all (\<lambda>(k, v). storable v) m"
| "storable _ \<longleftrightarrow> True"

lemma hex4_esc: "n < 128 \<Longrightarrow> hex4 ([CHR ''0'', CHR ''0'', hex_char (n div 16), hex_char (n mod 16)] @ r) = Some (n, r)"
proof -
  assume n: "n < 128"
  have h: "hex_value (hex_char k) = Some k" if "k < 16" for k
  proof -
    have "list_all (\<lambda>k. hex_value (hex_char k) = Some k) [0..<16]" by code_simp
    then show ?thesis using that by (simp add: list_all_iff)
  qed
  have z: "hex_value (CHR ''0'') = Some 0" by code_simp
  have "n div 16 * 16 + n mod 16 = n" by simp
  then show ?thesis using n by (simp add: h z)
qed

lemma unquote_simple:
  "simple_esc e = Some x \<Longrightarrow> e \<noteq> CHR ''u'' \<Longrightarrow>
     unquote (CHR 0x5C # e # s) = map_option (\<lambda>(t, q). (x # t, q)) (unquote s)"
  by (subst unquote.simps) simp

lemma unquote_u:
  "code_point s = Some (n, r) \<Longrightarrow> unquote (CHR 0x5C # CHR ''u'' # s) = map_option (\<lambda>(t, q). (utf8 n @ t, q)) (unquote r)"
  by (subst unquote.simps) simp

lemma unquote_plain:
  "c \<noteq> CHR 0x22 \<Longrightarrow> c \<noteq> CHR 0x5C \<Longrightarrow> (of_char c :: nat) \<ge> 32 \<Longrightarrow>
     unquote (c # s) = map_option (\<lambda>(t, q). (c # t, q)) (unquote s)"
  by (subst unquote.simps) simp

lemma unquote_end: "unquote (CHR 0x22 # s) = Some ([], s)"
  by (subst unquote.simps) simp

lemma char_eqI: "(of_char c :: nat) = n \<Longrightarrow> c = char_of n"
  using char_of_char [of c, where 'a = nat] by simp

lemma simple_escs:
  "simple_esc (CHR 0x22) = Some (char_of (34::nat))" "simple_esc (CHR 0x5C) = Some (char_of (92::nat))"
  "simple_esc (CHR ''b'') = Some (char_of (8::nat))" "simple_esc (CHR ''f'') = Some (char_of (12::nat))"
  "simple_esc (CHR ''n'') = Some (char_of (10::nat))" "simple_esc (CHR ''r'') = Some (char_of (13::nat))"
  "simple_esc (CHR ''t'') = Some (char_of (9::nat))"
  by code_simp+

lemma unquote_esc_simple:
  assumes "(of_char c :: nat) = k" "json_esc c = [CHR 0x5C, e]" "simple_esc e = Some (char_of k)" "e \<noteq> CHR ''u''"
  shows "unquote (json_esc c @ s) = map_option (\<lambda>(t, q). (c # t, q)) (unquote s)"
proof -
  have "simple_esc e = Some c" using char_eqI [OF assms(1)] assms(3) by simp
  then show ?thesis using unquote_simple [OF _ assms(4)] assms(2) by simp
qed

lemma unquote_esc: "unquote (json_esc c @ s) = map_option (\<lambda>(t, q). (c # t, q)) (unquote s)"
proof -
  let ?n = "of_char c :: nat"
  show ?thesis
  proof (cases "?n \<in> {34, 92, 8, 12, 10, 13, 9}")
    case True
    then consider "?n = 34" | "?n = 92" | "?n = 8" | "?n = 12" | "?n = 10" | "?n = 13" | "?n = 9" by blast
    then show ?thesis
    proof cases
      case 1 then show ?thesis by (rule unquote_esc_simple [OF _ _ simple_escs(1)]) (simp_all add: json_esc_def 1)
    next
      case 2 then show ?thesis by (rule unquote_esc_simple [OF _ _ simple_escs(2)]) (simp_all add: json_esc_def 2)
    next
      case 3 then show ?thesis by (rule unquote_esc_simple [OF _ _ simple_escs(3)]) (simp_all add: json_esc_def 3)
    next
      case 4 then show ?thesis by (rule unquote_esc_simple [OF _ _ simple_escs(4)]) (simp_all add: json_esc_def 4)
    next
      case 5 then show ?thesis by (rule unquote_esc_simple [OF _ _ simple_escs(5)]) (simp_all add: json_esc_def 5)
    next
      case 6 then show ?thesis by (rule unquote_esc_simple [OF _ _ simple_escs(6)]) (simp_all add: json_esc_def 6)
    next
      case 7 then show ?thesis by (rule unquote_esc_simple [OF _ _ simple_escs(7)]) (simp_all add: json_esc_def 7)
    qed
  next
    case other: False
    show ?thesis
    proof (cases "?n < 32 \<or> ?n = 60 \<or> ?n = 62 \<or> ?n = 38")
      case True
    then have n: "?n < 128" by auto
    note hex = other True
    have e: "json_esc c = [CHR 0x5C, CHR ''u''] @ [CHR ''0'', CHR ''0'', hex_char (?n div 16), hex_char (?n mod 16)]"
      using hex unfolding json_esc_def Let_def by simp
    have "code_point ([CHR ''0'', CHR ''0'', hex_char (?n div 16), hex_char (?n mod 16)] @ s) = Some (?n, s)"
      unfolding code_point_def hex4_esc [OF n] using n by simp
    moreover have "utf8 ?n = [c]" using n char_eqI [of c ?n] by (simp add: utf8_def)
    ultimately show ?thesis unfolding e by (simp add: unquote_u)
    next
      case False
      then have ge: "32 \<le> ?n" by simp
      have ne: "c \<noteq> CHR 0x22" "c \<noteq> CHR 0x5C" using other by auto
      have "json_esc c = [c]" using other False by (simp add: json_esc_def)
      then show ?thesis using unquote_plain [OF ne ge] by simp
    qed
  qed
qed

lemma unquote_quote: "unquote (concat (map json_esc s) @ CHR 0x22 # r) = Some (s, r)"
  by (induction s) (simp_all add: unquote_end unquote_esc)

definition json_ends :: "string \<Rightarrow> bool" where
  "json_ends r \<longleftrightarrow> r = [] \<or> (\<not> is_digit (hd r) \<and> hd r \<notin> set ''.eE'')"

lemma nat_digits_hd: "10 \<le> n \<Longrightarrow> hd (nat_digits n) \<noteq> CHR ''0''"
proof (induction n rule: nat_digits.induct)
  case (1 n)
  then have d: "nat_digits n = nat_digits (n div 10) @ [char_of (n mod 10 + 48)]" by (simp add: nat_digits.simps [of n])
  show ?case
  proof (cases "n div 10 < 10")
    case True
    have "0 < n div 10" using 1 by simp
    moreover have "list_all (\<lambda>k. char_of (k + 48 :: nat) \<noteq> CHR ''0'') [1..<10]" by code_simp
    ultimately have "char_of (n div 10 + 48) \<noteq> CHR ''0''" using True by (simp add: list_all_iff)
    then show ?thesis using True unfolding d by (simp add: nat_digits.simps [of "n div 10"])
  next
    case False
    then show ?thesis using 1 unfolding d by simp
  qed
qed

lemma nat_digits_lead: "1 < length (nat_digits n) \<Longrightarrow> hd (nat_digits n) \<noteq> CHR ''0''"
  using nat_digits_hd [of n] by (cases "n < 10") (simp_all add: nat_digits.simps [of n])

lemma digit_span:
  assumes "json_ends r"
  shows "takeWhile is_digit (nat_digits n @ r) = nat_digits n" "dropWhile is_digit (nat_digits n @ r) = r"
proof -
  have "takeWhile is_digit r = []" "dropWhile is_digit r = r" using assms by (cases r; simp add: json_ends_def)+
  then show "takeWhile is_digit (nat_digits n @ r) = nat_digits n" "dropWhile is_digit (nat_digits n @ r) = r"
    using nat_digits_digits [of _ n] by (simp_all add: takeWhile_append dropWhile_append)
qed

lemma read_int_itoa:
  assumes "- (2 ^ 63) \<le> n" "n < 2 ^ 63" "json_ends r"
  shows "read_int (itoa n @ r) = Some (n, r)"
proof -
  have v: "digits_value (nat_digits k) 0 = Some k" for k
    using digits_value_nat_digits [of k] by auto
  have lead: "\<not> (1 < length (nat_digits k) \<and> hd (nat_digits k) = CHR ''0'')" for k
    using nat_digits_lead [of k] by blast
  have r: "\<not> (r \<noteq> [] \<and> hd r \<in> set ''.eE'')" using assms(3) by (auto simp: json_ends_def)
  obtain c cs where cs: "nat_digits (nat n) = c # cs" by (metis nat_digits_neq_Nil neq_Nil_conv)
  have "is_digit c" using nat_digits_digits [of c "nat n"] cs by simp
  then have neg: "c \<noteq> CHR ''-''" by (auto simp: is_digit_def less_eq_char_def)
  show ?thesis
  proof (cases "n < 0")
    case True
    have "read_int (itoa n @ r) = (let ds = nat_digits (nat (- n)) in
        if ds = [] \<or> (1 < length ds \<and> hd ds = CHR ''0'') \<or> (r \<noteq> [] \<and> hd r \<in> set ''.eE'') then None
         else (case digits_value ds 0 of None \<Rightarrow> None
               | Some n \<Rightarrow> (let v = - int n in if - (2 ^ 63) \<le> v \<and> v < 2 ^ 63 then Some (v, r) else None)))"
      unfolding read_int_def itoa_def if_P [OF True] append_Cons append_Nil list.case if_P [OF refl] Let_def prod.case
        digit_span [OF assms(3)] if_True by (rule refl)
    then show ?thesis using True assms(1,2) v [of "nat (- n)"] lead [of "nat (- n)"] r by (simp add: Let_def)
  next
    case False
    have t: "(case nat_digits (nat n) @ r of [] \<Rightarrow> (False, [])
        | c # cs \<Rightarrow> if c = CHR ''-'' then (True, cs) else (False, nat_digits (nat n) @ r)) = (False, nat_digits (nat n) @ r)"
      by (simp add: cs neg)
    have "read_int (itoa n @ r) = (let ds = nat_digits (nat n) in
        if ds = [] \<or> (1 < length ds \<and> hd ds = CHR ''0'') \<or> (r \<noteq> [] \<and> hd r \<in> set ''.eE'') then None
         else (case digits_value ds 0 of None \<Rightarrow> None
               | Some n \<Rightarrow> (let v = int n in if - (2 ^ 63) \<le> v \<and> v < 2 ^ 63 then Some (v, r) else None)))"
      unfolding read_int_def itoa_def if_not_P [OF False] t Let_def prod.case digit_span [OF assms(3)] if_False by (rule refl)
    then show ?thesis using False assms(1,2) v [of "nat n"] lead [of "nat n"] r by (simp add: Let_def)
  qed
qed

lemma skip_digit: "is_digit c \<Longrightarrow> \<not> json_space c"
  by (auto simp: is_digit_def json_space_def less_eq_char_def)

lemma itoa_starts: "\<exists>c cs. itoa n = c # cs \<and> (is_digit c \<or> c = CHR ''-'')"
proof (cases "n < 0")
  case False
  obtain c cs where cs: "nat_digits (nat n) = c # cs" by (metis nat_digits_neq_Nil neq_Nil_conv)
  have "is_digit c" using nat_digits_digits [of c "nat n"] cs by simp
  then show ?thesis using False cs by (simp add: itoa_def)
qed (simp add: itoa_def)

text \<open>The first character of a written value decides how it is read.\<close>

lemma read_number:
  assumes "storable (JNum n)" "json_ends r"
  shows "read_value (Suc k) (itoa n @ r) = Some (JNum n, r)"
proof -
  obtain c cs where c: "itoa n = c # cs" "is_digit c \<or> c = CHR ''-''" using itoa_starts by blast
  then have "\<not> json_space c" "c \<notin> {CHR ''{'', CHR ''['', CHR 0x22, CHR ''n'', CHR ''t'', CHR ''f''}"
    using skip_digit [of c] by (auto simp: is_digit_def less_eq_char_def json_space_def)
  moreover have "read_int (c # cs @ r) = Some (n, r)" using read_int_itoa [of n r] assms c(1) by simp
  ultimately show ?thesis by (simp add: c(1))
qed

lemma json_ends_simps [simp]: "json_ends (CHR '','' # r)" "json_ends (CHR '']'' # r)" "json_ends (CHR ''}'' # r)" "json_ends []"
  by (simp_all add: json_ends_def is_digit_def less_eq_char_def)

lemma join_cons: "join_with sep (w # ws) = (if ws = [] then w else w @ sep @ join_with sep ws)"
  by (cases ws) simp_all

lemma enc_nonempty: "0 < length (json_enc v)"
  using itoa_starts by (cases v) (simp_all add: json_quote_def, metis list.discI)

lemma enc_starts: "\<exists>c cs. json_enc v = c # cs \<and> \<not> json_space c \<and> c \<noteq> CHR '']''"
proof (cases v)
  case (JNum n)
  then show ?thesis using itoa_starts [of n] skip_digit
    by (auto simp: json_space_def is_digit_def less_eq_char_def)
qed (simp_all add: json_space_def json_quote_def)

lemma read_elems_enc:
  assumes "vs \<noteq> []" "\<And>v k r. v \<in> set vs \<Longrightarrow> json_ends r \<Longrightarrow> length (json_enc v) \<le> k \<Longrightarrow> read_value k (json_enc v @ r) = Some (v, r)"
    and "length (join_with '','' (map json_enc vs)) < k"
  shows "read_elems k (join_with '','' (map json_enc vs) @ CHR '']'' # r) = Some (vs, r)"
  using assms
proof (induction vs arbitrary: k)
  case (Cons v vs)
  then obtain m where k: "k = Suc m" by (cases k) auto
  show ?case
  proof (cases "vs = []")
    case True
    then have "length (json_enc v) \<le> m" using Cons.prems(3) k by simp
    then have "read_value m (json_enc v @ CHR '']'' # r) = Some (v, CHR '']'' # r)" using Cons.prems(2) by simp
    then show ?thesis using True by (simp add: k json_space_def)
  next
    case False
    let ?rest = "join_with '','' (map json_enc vs) @ CHR '']'' # r"
    have "length (json_enc v) \<le> m" "length (join_with '','' (map json_enc vs)) < m"
      using Cons.prems(3) False enc_nonempty [of v] by (simp_all add: k join_cons)
    then have "read_value m (json_enc v @ CHR '','' # ?rest) = Some (v, CHR '','' # ?rest)" "read_elems m ?rest = Some (vs, r)"
      using Cons.prems(2) Cons.IH [OF False] by simp_all
    then show ?thesis using False by (simp add: k join_cons json_space_def)
  qed
qed simp

abbreviation member_text :: "string \<times> jval \<Rightarrow> string" where
  "member_text \<equiv> \<lambda>(k, v). json_quote k @ '':'' @ json_enc v"

lemma read_members_enc:
  assumes "m \<noteq> []" "\<And>x v k r. (x, v) \<in> set m \<Longrightarrow> json_ends r \<Longrightarrow> length (json_enc v) \<le> k \<Longrightarrow> read_value k (json_enc v @ r) = Some (v, r)"
    and "length (join_with '','' (map member_text m)) < k"
  shows "read_members k (join_with '','' (map member_text m) @ CHR 0x7D # r) = Some (m, r)"
  using assms
proof (induction m arbitrary: k)
  case (Cons a m)
  obtain x v where a: "a = (x, v)" by (rule prod.exhaust)
  obtain j where k: "k = Suc j" using Cons.prems(3) by (cases k) auto
  have name: "unquote (concat (map json_esc x) @ CHR 0x22 # CHR '':'' # q) = Some (x, CHR '':'' # q)" for q
    by (rule unquote_quote)
  have rd: "json_ends q \<Longrightarrow> length (json_enc v) \<le> i \<Longrightarrow> read_value i (json_enc v @ q) = Some (v, q)" for q i
    using Cons.prems(2) [of x v q i] by (simp add: a)
  have len: "length (json_enc v) \<le> j" using Cons.prems(3) by (simp add: k a join_cons split: if_splits)
  show ?case
  proof (cases "m = []")
    case True
    have "read_value j (json_enc v @ CHR 0x7D # r) = Some (v, CHR 0x7D # r)" using rd len by simp
    then show ?thesis using True name by (simp add: k a json_quote_def json_space_def)
  next
    case False
    let ?rest = "join_with '','' (map member_text m) @ CHR 0x7D # r"
    have "length (join_with '','' (map member_text m)) < j" using Cons.prems(3) False by (simp add: k a join_cons)
    then have "read_members j ?rest = Some (m, r)"
      by (rule Cons.IH [OF False, rotated]) (rule Cons.prems(2), auto)
    moreover have "read_value j (json_enc v @ CHR '','' # ?rest) = Some (v, CHR '','' # ?rest)" using rd len by simp
    ultimately show ?thesis using False name by (simp add: k a join_cons json_quote_def json_space_def)
  qed
qed simp

lemma read_value_enc:
  "storable v \<Longrightarrow> json_ends r \<Longrightarrow> length (json_enc v) \<le> k \<Longrightarrow> read_value k (json_enc v @ r) = Some (v, r)"
proof (induction v arbitrary: r k)
  case (JNum n)
  then show ?case using read_number [of n r] enc_nonempty [of "JNum n"] by (cases k) simp_all
next
  case (JStr s)
  then show ?case using unquote_quote [of s r] by (cases k) (simp_all add: json_quote_def json_space_def)
next
  case (JArr vs)
  then obtain m where k: "k = Suc m" by (cases k) simp_all
  show ?case
  proof (cases vs)
    case Nil
    then show ?thesis by (simp add: k json_space_def)
  next
    case (Cons v ws)
    obtain c cs where c: "json_enc v = c # cs" "\<not> json_space c" "c \<noteq> CHR '']''" using enc_starts by blast
    have h: "\<exists>t. join_with '','' (map json_enc vs) = c # t" using c(1) by (simp add: Cons join_cons)
    have "length (join_with '','' (map json_enc vs)) < m" using JArr.prems(3) by (simp add: k)
    then have "read_elems m (join_with '','' (map json_enc vs) @ CHR '']'' # r) = Some (vs, r)"
      using JArr by (intro read_elems_enc) (auto simp: Cons list_all_iff)
    then show ?thesis using h c(2,3) by (auto simp: k json_space_def)
  qed
next
  case (JObj m)
  then obtain j where k: "k = Suc j" by (cases k) simp_all
  show ?case
  proof (cases m)
    case Nil
    then show ?thesis by (simp add: k json_space_def)
  next
    case (Cons a ms)
    have h: "\<exists>t. join_with '','' (map member_text m) = CHR 0x22 # t"
      by (simp add: Cons join_cons json_quote_def split: prod.split)
    have "length (join_with '','' (map member_text m)) < j" using JObj.prems(3) by (simp add: k)
    then have "read_members j (join_with '','' (map member_text m) @ CHR 0x7D # r) = Some (m, r)"
    proof (intro read_members_enc)
      fix x v i q
      assume x: "(x, v) \<in> set m" "json_ends q" "length (json_enc v) \<le> i"
      have "storable v" using JObj.prems(1) x(1) by (auto simp: list_all_iff)
      then show "read_value i (json_enc v @ q) = Some (v, q)" using JObj.IH [of "(x, v)" v] x by simp
    qed (simp_all add: Cons)
    then show ?thesis using h by (auto simp: k json_space_def)
  qed
next
  case JNull
  then show ?case by (cases k) (simp_all add: json_space_def json_literal_def has_prefix_def)
next
  case (JBool b)
  then show ?case by (cases b; cases k) (simp_all add: json_space_def json_literal_def has_prefix_def)
qed

theorem json_roundtrip: "storable v \<Longrightarrow> json_dec (json_enc v) = Some v"
  using read_value_enc [of v "[]" "Suc (length (json_enc v))"] by (simp add: json_dec_def)

end
