(* ===== verification/Authz_Audit.thy ===== *)
theory Authz_Audit
  imports Store Json
begin

text \<open>
  The shared HTTP vocabulary of the authorization layer and its audit trail:
  \<open>authz/errors.go\<close> (the error envelope), \<open>authz/redact.go\<close> (secret scrubbing),
  \<open>authz/audit.go\<close> (the per-request accumulator), \<open>AuditWrap\<close> and \<open>persistAudit\<close> of
  \<open>authz/middleware.go\<close> and \<open>RequirePermission\<close> of \<open>authz/rbac.go\<close>.
  A handler is a function from the world (database, clock, audit accumulator of the current
  request) and the request to a response and the next world; a middleware maps handlers to
  handlers, as in the code. JSON values are the datatype \<open>jval\<close> of \<open>Json\<close>; a JSON object is the list of
  its entries, in the order Go iterates the map.
\<close>

subsection \<open>Redaction\<close>

definition redactSentinel :: string where "redactSentinel = ''[REDACTED]''"

definition secretKeyHints :: "string list" where
  "secretKeyHints =
     [''password'', ''passwd'', ''secret'', ''token'', ''authorization'', ''auth'', ''apikey'',
      ''api_key'', ''accesskey'', ''access_key'', ''privatekey'', ''private_key'',
      ''credential'', ''session'', ''cookie'', ''_key'']"

definition IsSecretKey :: "string \<Rightarrow> bool" where
  "IsSecretKey key = (let k = to_lower key in \<exists>hint \<in> set secretKeyHints. contains_str k hint)"

fun Redact :: "jval \<Rightarrow> jval" where
  "Redact (JObj m) =
     JObj (map (\<lambda>(k, v). (k, if IsSecretKey k then JStr redactSentinel else Redact v)) m)"
| "Redact (JArr vs) = JArr (map Redact vs)"
| "Redact v = v"

definition RedactMap :: "(string \<times> jval) list \<Rightarrow> (string \<times> jval) list" where
  "RedactMap m = (case Redact (JObj m) of JObj m' \<Rightarrow> m' | _ \<Rightarrow> [])"

text \<open>The values found under secret-looking keys anywhere in a JSON value.\<close>

fun secret_values :: "jval \<Rightarrow> jval list" where
  "secret_values (JObj m) =
     concat (map (\<lambda>(k, v). if IsSecretKey k then [v] else secret_values v) m)"
| "secret_values (JArr vs) = concat (map secret_values vs)"
| "secret_values v = []"

text \<open>Two JSON values that differ only in what stands under secret-looking keys.\<close>

fun low_eq :: "jval \<Rightarrow> jval \<Rightarrow> bool" where
  "low_eq (JObj m) (JObj n) \<longleftrightarrow>
     list_all2 (\<lambda>(k, v) (k', v'). k = k' \<and> (IsSecretKey k \<or> low_eq v v')) m n"
| "low_eq (JArr vs) (JArr ws) \<longleftrightarrow> list_all2 low_eq vs ws"
| "low_eq v w \<longleftrightarrow> v = w"

lemma Redact_secret_values: "x \<in> set (secret_values (Redact v)) \<Longrightarrow> x = JStr redactSentinel"
  by (induction v rule: Redact.induct) (auto split: if_splits)

lemma Redact_idem: "Redact (Redact v) = Redact v"
  by (induction v rule: Redact.induct) auto

lemma map_eq_by_all2:
  "list_all2 R xs ys \<Longrightarrow> (\<And>x y. x \<in> set xs \<Longrightarrow> y \<in> set ys \<Longrightarrow> R x y \<Longrightarrow> f x = f y)
     \<Longrightarrow> map f xs = map f ys"
  by (induction rule: list_all2_induct) auto

lemma low_eq_Redact: "low_eq v w \<Longrightarrow> Redact v = Redact w"
proof (induction v arbitrary: w)
  case (JObj m)
  then obtain n where w: "w = JObj n" by (cases w) auto
  let ?f = "\<lambda>(k, v). (k, if IsSecretKey k then JStr redactSentinel else Redact v)"
  let ?R = "\<lambda>(k, v) (k', v'). k = k' \<and> (IsSecretKey k \<or> low_eq v v')"
  have "list_all2 ?R m n" using JObj.prems w by simp
  then have "map ?f m = map ?f n"
  proof (rule map_eq_by_all2)
    fix x y
    assume "x \<in> set m" "y \<in> set n" "?R x y"
    then show "?f x = ?f y"
      using JObj.IH [of x "snd x" "snd y"] by (cases x; cases y) auto
  qed
  then show ?case by (simp add: w)
next
  case (JArr vs)
  then obtain ws where w: "w = JArr ws" by (cases w) auto
  with JArr.prems have "list_all2 low_eq vs ws" by simp
  then have "map Redact vs = map Redact ws"
    by (rule map_eq_by_all2) (use JArr.IH in blast)
  then show ?case by (simp add: w)
qed (case_tac w; simp)+

lemma RedactMap_eq:
  "RedactMap m = map (\<lambda>(k, v). (k, if IsSecretKey k then JStr redactSentinel else Redact v)) m"
  by (simp add: RedactMap_def)

subsection \<open>The error envelope\<close>

record api_error =
  ErrCode :: string
  ErrMessage :: string
  ErrStatus :: int
  ErrExtra :: "(string \<times> jval) list"

definition newErr :: "int \<Rightarrow> string \<Rightarrow> string \<Rightarrow> api_error" where
  "newErr status code msg = \<lparr>ErrCode = code, ErrMessage = msg, ErrStatus = status, ErrExtra = []\<rparr>"

definition ErrBootstrapRequired :: api_error where
  "ErrBootstrapRequired = newErr 409 ''bootstrap_required'' ''Castor has not been initialized yet.''"
definition ErrUnauthenticated :: api_error where
  "ErrUnauthenticated = newErr 401 ''unauthenticated'' ''Authentication required.''"
definition ErrAALRequired :: api_error where
  "ErrAALRequired = newErr 403 ''aal_required'' ''Two-factor verification required for this action.''"
definition ErrForbidden :: api_error where
  "ErrForbidden = newErr 403 ''forbidden'' ''You do not have permission to perform this action.''"
definition ErrCSRFFailed :: api_error where
  "ErrCSRFFailed = newErr 403 ''csrf_failed'' ''CSRF validation failed.''"
definition APIErrNotFound :: api_error where
  "APIErrNotFound = newErr 404 ''not_found'' ''The requested resource was not found.''"
definition ErrProtected :: api_error where
  "ErrProtected = newErr 409 ''protected_resource'' ''This resource is protected and cannot be modified.''"
definition ErrConflict :: api_error where
  "ErrConflict = newErr 409 ''conflict'' ''The request conflicts with the current state.''"
definition ErrMethodNotAllowed :: api_error where
  "ErrMethodNotAllowed = newErr 405 ''method_not_allowed''
     ''This operation is not supported by the target orchestrator.''"
definition ErrRateLimited :: api_error where
  "ErrRateLimited = newErr 429 ''rate_limited'' ''Too many requests. Please slow down.''"
definition ErrValidation :: api_error where
  "ErrValidation = newErr 422 ''validation_failed'' ''The request payload is invalid.''"
definition ErrInternal :: api_error where
  "ErrInternal = newErr 500 ''internal'' ''An internal error occurred.''"
definition ErrAccountLocked :: api_error where
  "ErrAccountLocked = newErr 403 ''account_locked'' ''This account is temporarily locked. Try again later.''"

lemmas api_errors = newErr_def ErrBootstrapRequired_def ErrUnauthenticated_def ErrAALRequired_def
  ErrForbidden_def ErrCSRFFailed_def APIErrNotFound_def ErrProtected_def ErrValidation_def
  ErrInternal_def ErrAccountLocked_def ErrConflict_def ErrMethodNotAllowed_def ErrRateLimited_def

definition Errorf :: "api_error \<Rightarrow> string \<Rightarrow> api_error" where
  "Errorf base msg = base\<lparr>ErrMessage := msg\<rparr>"

lemma Errorf_simps [simp]: "ErrStatus (Errorf b m) = ErrStatus b" "ErrCode (Errorf b m) = ErrCode b"
  by (simp_all add: Errorf_def)

subsection \<open>Requests, responses, the world\<close>

record request =
  Method :: string
  Headers :: "string \<rightharpoonup> string"
  Cookies :: "string \<rightharpoonup> string"
  Host :: string
  RemoteAddr :: string
  ctx_user :: "principal option"
  ctx_bearer :: bool
  ctx_request_id :: string

definition Header_Get :: "request \<Rightarrow> string \<Rightarrow> string" where
  "Header_Get r h = (case Headers r h of None \<Rightarrow> [] | Some v \<Rightarrow> v)"

record response =
  Status :: int
  Body :: jval
  SetCookies :: "(string \<times> string) list"

record audit_rec =
  Action :: string
  TargetType :: string
  TargetID :: string
  TargetName :: string
  AScopeType :: string
  AScopeID :: string
  Result :: string
  Detail :: "(string \<times> jval) list"
  resultSet :: bool

record world =
  store :: db
  clock :: int
  audit :: "audit_rec option"

text \<open>The clock counts seconds, as the columns of the store do; \<open>time.Now\<close> in nanoseconds is \<open>now_ns\<close>.\<close>

abbreviation now_ns :: "'x world_scheme \<Rightarrow> int" where "now_ns w \<equiv> clock w * second"

text \<open>A surface with state of its own extends the world; the middleware runs on any extension.\<close>

type_synonym 'x stage = "'x world_scheme \<Rightarrow> request \<Rightarrow> response \<times> 'x world_scheme"
type_synonym handler = "world \<Rightarrow> request \<Rightarrow> response \<times> world"

text \<open>
  \<open>WriteError\<close>: the envelope, with the error's extra fields merged over it
  (\<open>body[k] = v\<close>).
\<close>

definition WriteJSON :: "int \<Rightarrow> jval \<Rightarrow> response" where
  "WriteJSON status v = \<lparr>Status = status, Body = v, SetCookies = []\<rparr>"

definition WriteError :: "request \<Rightarrow> api_error \<Rightarrow> response" where
  "WriteError r e =
     \<lparr>Status = ErrStatus e,
      Body = JObj (put_all
        [(''error'', JObj [(''code'', JStr (ErrCode e)), (''message'', JStr (ErrMessage e)),
                           (''requestId'', JStr (ctx_request_id r))])] (ErrExtra e)),
      SetCookies = []\<rparr>"

lemma WriteError_Status [simp]: "Status (WriteError r e) = ErrStatus e"
  by (simp add: WriteError_def)

subsection \<open>The audit accumulator\<close>

definition fresh_audit :: "string \<Rightarrow> audit_rec" where
  "fresh_audit action = \<lparr>Action = action, TargetType = [], TargetID = [], TargetName = [],
     AScopeType = [], AScopeID = [], Result = [], Detail = [], resultSet = False\<rparr>"

definition with_audit :: "(audit_rec \<Rightarrow> audit_rec) \<Rightarrow> 'x world_scheme \<Rightarrow> 'x world_scheme" where
  "with_audit f w = w\<lparr>audit := map_option f (audit w)\<rparr>"

definition SetAuditTarget :: "'x world_scheme \<Rightarrow> string \<Rightarrow> string \<Rightarrow> string \<Rightarrow> 'x world_scheme" where
  "SetAuditTarget w t i n = with_audit (\<lambda>a. a\<lparr>TargetType := t, TargetID := i, TargetName := n\<rparr>) w"

definition SetAuditScope :: "'x world_scheme \<Rightarrow> string \<Rightarrow> string \<Rightarrow> 'x world_scheme" where
  "SetAuditScope w t i = with_audit (\<lambda>a. a\<lparr>AScopeType := t, AScopeID := i\<rparr>) w"

definition AddAuditDetail :: "'x world_scheme \<Rightarrow> string \<Rightarrow> jval \<Rightarrow> 'x world_scheme" where
  "AddAuditDetail w k v = with_audit (\<lambda>a. a\<lparr>Detail := put (Detail a) k v\<rparr>) w"

definition markDenied :: "'x world_scheme \<Rightarrow> string \<Rightarrow> 'x world_scheme" where
  "markDenied w perm = with_audit
     (\<lambda>a. a\<lparr>Result := ''denied'', resultSet := True,
            Detail := put (Detail a) ''missingPermission'' (JStr perm)\<rparr>) w"

definition markResult :: "'x world_scheme \<Rightarrow> string \<Rightarrow> (string \<times> jval) list \<Rightarrow> 'x world_scheme" where
  "markResult w res detail = with_audit
     (\<lambda>a. a\<lparr>Result := res, resultSet := True, Detail := put_all (Detail a) detail\<rparr>) w"

definition SetAuditResult :: "'x world_scheme \<Rightarrow> string \<Rightarrow> 'x world_scheme" where
  "SetAuditResult w res = markResult w res []"

text \<open>No operation on the accumulator touches the database or the clock.\<close>

lemma audit_ops_store [simp]:
  "store (SetAuditTarget w t i n) = store w" "store (SetAuditScope w t i) = store w"
  "store (AddAuditDetail w k v) = store w" "store (markDenied w p) = store w"
  "store (markResult w res d) = store w" "store (SetAuditResult w res) = store w"
  "clock (markDenied w p) = clock w" "clock (markResult w res d) = clock w"
  by (simp_all add: SetAuditTarget_def SetAuditScope_def AddAuditDetail_def markDenied_def
      markResult_def SetAuditResult_def with_audit_def)

lemma audit_markDenied [simp]:
  "audit (markDenied w p) = map_option (\<lambda>a. a\<lparr>Result := ''denied'', resultSet := True,
     Detail := put (Detail a) ''missingPermission'' (JStr p)\<rparr>) (audit w)"
  by (simp add: markDenied_def with_audit_def)

lemma audit_markResult [simp]:
  "audit (markResult w res d) = map_option (\<lambda>a. a\<lparr>Result := res, resultSet := True,
     Detail := put_all (Detail a) d\<rparr>) (audit w)"
  by (simp add: markResult_def with_audit_def)

subsection \<open>RequirePermission and AuditWrap\<close>

definition RequirePermission :: "string \<Rightarrow> (request \<Rightarrow> scope) option \<Rightarrow> 'x stage \<Rightarrow> 'x stage" where
  "RequirePermission perm scopeFn nxt w r =
     (let sf = (case scopeFn of None \<Rightarrow> (\<lambda>_. \<lparr>sc_type = ''global'', sc_id = []\<rparr>) | Some f \<Rightarrow> f)
      in case ctx_user r of
           None \<Rightarrow> (WriteError r ErrUnauthenticated, w)
         | Some u \<Rightarrow>
             (if \<not> Can (Some u) perm (sf r)
              then (WriteError r ErrForbidden, markDenied w perm)
              else nxt w r))"

definition inferred_result :: "int \<Rightarrow> string" where
  "inferred_result status =
     (if 200 \<le> status \<and> status < 300 then ''success''
      else if status = 403 \<or> status = 401 then ''denied'' else ''error'')"

text \<open>\<open>json.Marshal\<close> is the parameter \<open>enc\<close>.\<close>

definition persistAudit :: "(jval \<Rightarrow> string) \<Rightarrow> 'x world_scheme \<Rightarrow> request \<Rightarrow> audit_rec \<Rightarrow> int \<Rightarrow> 'x world_scheme" where
  "persistAudit enc w r rec status =
     (let result = (if resultSet rec then Result rec else inferred_result status);
          (actorID, actorName) = (case ctx_user r of None \<Rightarrow> ([], ''anonymous'')
                                  | Some u \<Rightarrow> (ID (row u), Username (row u)));
          detail = (if Detail rec \<noteq> [] then enc (JObj (RedactMap (Detail rec))) else []);
          a = \<lparr>au_ts = clock w, au_actor_id = actorID, au_actor_name = actorName,
               au_actor_ip = RemoteAddr r, au_action = Action rec,
               au_target_type = TargetType rec, au_target_id = TargetID rec,
               au_target_name = TargetName rec, au_scope_type = AScopeType rec,
               au_scope_id = AScopeID rec, au_result = result, au_status = status,
               au_detail = detail, au_request_id = ctx_request_id r\<rparr>
      in case InsertAudit (store w) a of Inl _ \<Rightarrow> w | Inr s' \<Rightarrow> w\<lparr>store := s'\<rparr>)"

text \<open>
  The handler runs under a fresh accumulator; the accumulator of the enclosing request
  context is back in place afterwards.
\<close>

definition AuditWrap :: "(jval \<Rightarrow> string) \<Rightarrow> string \<Rightarrow> 'x stage \<Rightarrow> 'x stage" where
  "AuditWrap enc action nxt w r =
     (case nxt (w\<lparr>audit := Some (fresh_audit action)\<rparr>) r of
        (resp, w') \<Rightarrow>
          (resp, (persistAudit enc w' r
                    (case audit w' of None \<Rightarrow> fresh_audit action | Some a \<Rightarrow> a)
                    (Status resp))\<lparr>audit := audit w\<rparr>))"

lemma persistAudit_log:
  assumes "''InsertAudit'' \<notin> broken (store w)"
  shows "\<exists>a. store (persistAudit enc w r rec status) = (store w)\<lparr>audit_log := audit_log (store w) @ [a]\<rparr>
           \<and> au_action a = Action rec \<and> au_status a = status \<and> au_ts a = clock w
           \<and> au_result a = (if resultSet rec then Result rec else inferred_result status)
           \<and> au_detail a = (if Detail rec \<noteq> [] then enc (JObj (RedactMap (Detail rec))) else [])"
  using assms unfolding persistAudit_def InsertAudit_def query_def Let_def
  by (cases "ctx_user r") auto

end
