(* ===== verification/Authz_Session.thy ===== *)
theory Authz_Session
  imports Authz_Audit
begin

text \<open>
  Session and bearer authentication, CSRF and step-up: the rest of
  \<open>server/internal/authz/middleware.go\<close> and \<open>bearer.go\<close>.
  \<open>deps\<close> is the struct \<open>Deps\<close>; SHA-256 (\<open>HashSessionID\<close>, \<open>HashAPIToken\<close>) and
  \<open>net/url.Parse\<close> (scheme and host of a URL, \<open>None\<close> for an error) are its two function
  fields. Durations are nanoseconds, as in Go; a duration's \<open>Seconds()\<close> is only used
  truncated to whole seconds.
\<close>

record deps =
  AllowedOrigins :: "string list"
  SessionTTL :: int
  SessionAbsoluteTTL :: int
  hash_hex :: "string \<Rightarrow> string"
  url_parse :: "string \<Rightarrow> (string \<times> string) option"

definition minSessionTTL :: int where "minSessionTTL = 300 * second"
definition defaultSessionTTL :: int where "defaultSessionTTL = 12 * hour"
definition defaultAbsoluteTTL :: int where "defaultAbsoluteTTL = 24 * hour"

subsection \<open>Session lifetimes\<close>

definition absoluteTTL :: "deps \<Rightarrow> int" where
  "absoluteTTL d = (if SessionAbsoluteTTL d > 0 then SessionAbsoluteTTL d else defaultAbsoluteTTL)"

definition slidingTTL :: "deps \<Rightarrow> db \<Rightarrow> int" where
  "slidingTTL d s =
     (let ttl0 = (if SessionTTL d \<le> 0 then defaultSessionTTL else SessionTTL d);
          ttl1 = (case atoi (GetSettingDefault s ''session.ttl_seconds'' []) of
                    Some secs \<Rightarrow> (if secs > 0 then wrap64 (secs * second) else ttl0)
                  | None \<Rightarrow> ttl0);
          ttl2 = (if ttl1 < minSessionTTL then minSessionTTL else ttl1)
      in if ttl2 > absoluteTTL d then absoluteTTL d else ttl2)"

text \<open>\<open>resolveUser\<close>: the cookie's session, its user and roles, then the sliding touch.\<close>

definition sliding_expiry :: "deps \<Rightarrow> db \<Rightarrow> int \<Rightarrow> session_row \<Rightarrow> int" where
  "sliding_expiry d s now sess =
     (let newExpiry = now + go_div (slidingTTL d s) second;
          cap = sess_created sess + go_div (absoluteTTL d) second
      in if newExpiry > cap then cap else newExpiry)"

definition resolveUser :: "deps \<Rightarrow> 'x world_scheme \<Rightarrow> request \<Rightarrow> (api_error + principal) \<times> 'x world_scheme" where
  "resolveUser d w r =
     (case Cookies r ''castor_session'' of
        None \<Rightarrow> (Inl ErrUnauthenticated, w)
      | Some v \<Rightarrow>
        if v = [] then (Inl ErrUnauthenticated, w) else
        (let h = hash_hex d v; now = clock w in
         case GetSession (store w) h of
           Inl _ \<Rightarrow> (Inl ErrUnauthenticated, w)
         | Inr sess \<Rightarrow>
           if RevokedAt sess \<noteq> None \<or> ExpiresAt sess < now then (Inl ErrUnauthenticated, w) else
           (case GetUserByID (store w) (sess_user sess) of
              Inl _ \<Rightarrow> (Inl ErrUnauthenticated, w)
            | Inr su \<Rightarrow>
              if \<not> IsActive su then (Inl ErrUnauthenticated, w) else
              (case EffectiveRolesForUser (store w) (ID su) of
                 Inl _ \<Rightarrow> (Inl ErrInternal, w)
               | Inr rs \<Rightarrow>
                 (let newExpiry = sliding_expiry d (store w) now sess;
                      w' = (if newExpiry > ExpiresAt sess
                            then (case TouchSession (store w) now h newExpiry of
                                    Inl _ \<Rightarrow> w | Inr s' \<Rightarrow> w\<lparr>store := s'\<rparr>)
                            else w)
                  in (Inr (buildUser su h (sess_amr sess) rs), w'))))))"

definition SessionAuth :: "deps \<Rightarrow> 'x stage \<Rightarrow> 'x stage" where
  "SessionAuth d nxt w r =
     (case resolveUser d w r of
        (Inl e, w') \<Rightarrow> (WriteError r e, w')
      | (Inr u, w') \<Rightarrow> nxt w' (r\<lparr>ctx_user := Some u\<rparr>))"

subsection \<open>Bearer tokens\<close>

definition bearerToken :: "request \<Rightarrow> string" where
  "bearerToken r =
     (let h = Header_Get r ''Authorization''; pfx = ''Bearer ''
      in if length h \<le> length pfx \<or> \<not> equal_fold (take (length pfx) h) pfx then []
         else trim_space (drop (length pfx) h))"

definition resolveBearer :: "deps \<Rightarrow> 'x world_scheme \<Rightarrow> string \<Rightarrow> (api_error + principal) \<times> 'x world_scheme" where
  "resolveBearer d w raw =
     (case GetAPITokenByHash (store w) (clock w) (hash_hex d raw) of
        Inl _ \<Rightarrow> (Inl ErrUnauthenticated, w)
      | Inr tok \<Rightarrow>
        (case GetUserByID (store w) (tok_user tok) of
           Inl _ \<Rightarrow> (Inl ErrUnauthenticated, w)
         | Inr su \<Rightarrow>
           if \<not> IsActive su then (Inl ErrUnauthenticated, w) else
           (case EffectiveRolesForUser (store w) (ID su) of
              Inl _ \<Rightarrow> (Inl ErrInternal, w)
            | Inr rs \<Rightarrow>
              (let owner = buildUser su [] (AuthSource su) rs;
                   scoped = restrictPerms (perms owner) (tok_perms tok);
                   u = \<lparr>row = su, SessionHashID = [], AMR = AuthSource su,
                        perms = scoped, roles = rs\<rparr>;
                   w' = (case TouchAPIToken (store w) (clock w) (tok_id tok) of
                           Inl _ \<Rightarrow> w | Inr s' \<Rightarrow> w\<lparr>store := s'\<rparr>)
               in (Inr u, w')))))"

definition BearerOrSession :: "deps \<Rightarrow> 'x stage \<Rightarrow> 'x stage" where
  "BearerOrSession d nxt w r =
     (let raw = bearerToken r in
      if raw \<noteq> [] then
        (case resolveBearer d w raw of
           (Inl e, w') \<Rightarrow> (WriteError r e, w')
         | (Inr u, w') \<Rightarrow> nxt w' (r\<lparr>ctx_user := Some u, ctx_bearer := True\<rparr>))
      else
        (case resolveUser d w r of
           (Inl e, w') \<Rightarrow> (WriteError r e, w')
         | (Inr u, w') \<Rightarrow> nxt w' (r\<lparr>ctx_user := Some u\<rparr>)))"

subsection \<open>CSRF\<close>

definition isMutating :: "string \<Rightarrow> bool" where
  "isMutating m \<longleftrightarrow> m \<in> {''POST'', ''PUT'', ''PATCH'', ''DELETE''}"

definition request_origin :: "deps \<Rightarrow> request \<Rightarrow> string" where
  "request_origin d r =
     (let origin = Header_Get r ''Origin'' in
      if origin \<noteq> [] then origin
      else (let ref = Header_Get r ''Referer'' in
            if ref = [] then []
            else (case url_parse d ref of None \<Rightarrow> []
                  | Some (sch, h) \<Rightarrow> sch @ ''://'' @ h)))"

definition trim_slashes :: "string \<Rightarrow> string" where
  "trim_slashes = trim_right (\<lambda>c. c = CHR ''/'')"

definition originAllowed :: "deps \<Rightarrow> request \<Rightarrow> bool" where
  "originAllowed d r =
     (let origin = request_origin d r in
      if origin = [] then False
      else if AllowedOrigins d \<noteq> [] then
        (\<exists>a \<in> set (AllowedOrigins d). equal_fold (trim_slashes a) (trim_slashes origin))
      else (case url_parse d origin of None \<Rightarrow> False | Some (_, h) \<Rightarrow> equal_fold h (Host r)))"

definition CSRF :: "deps \<Rightarrow> 'x stage \<Rightarrow> 'x stage" where
  "CSRF d nxt w r =
     (if \<not> isMutating (Method r) then nxt w r
      else if ctx_bearer r then nxt w r
      else if \<not> originAllowed d r
        then (WriteError r (Errorf ErrCSRFFailed ''Origin not allowed.''), w)
      else (case ctx_user r of
              None \<Rightarrow> (WriteError r ErrUnauthenticated, w)
            | Some u \<Rightarrow>
              (case GetSession (store w) (SessionHashID u) of
                 Inl _ \<Rightarrow> (WriteError r ErrUnauthenticated, w)
               | Inr sess \<Rightarrow>
                 (let hdr = Header_Get r ''X-Castor-Csrf'' in
                  if hdr = [] \<or> hdr \<noteq> CSRFToken sess then (WriteError r ErrCSRFFailed, w)
                  else nxt w r))))"

subsection \<open>Step-up authentication\<close>

definition AMRPassword :: string where "AMRPassword = ''pwd''"
definition AMRPasswordTOTP :: string where "AMRPasswordTOTP = ''pwd+totp''"

definition totpRequiredForMutations :: "db \<Rightarrow> bool" where
  "totpRequiredForMutations s \<longleftrightarrow>
     GetSettingDefault s ''security.totp_required_for_mutations'' ''false'' = ''true''"

definition RequireAAL :: "'x stage \<Rightarrow> 'x stage" where
  "RequireAAL nxt w r =
     (if \<not> isMutating (Method r) then nxt w r
      else (case ctx_user r of
              None \<Rightarrow> (WriteError r ErrUnauthenticated, w)
            | Some u \<Rightarrow>
              (let required = totpRequiredForMutations (store w) in
               if TOTPEnabled (row u) \<and> required \<and> AMR u \<noteq> AMRPasswordTOTP
               then (WriteError r ErrAALRequired, w)
               else nxt w r)))"

definition StepUpRequired :: "db \<Rightarrow> principal option \<Rightarrow> bool" where
  "StepUpRequired s u =
     (case u of None \<Rightarrow> True
      | Some p \<Rightarrow> TOTPEnabled (row p) \<and> totpRequiredForMutations s \<and> AMR p \<noteq> AMRPasswordTOTP)"

subsection \<open>Facts about lifetimes\<close>

lemma absoluteTTL_pos: "0 < absoluteTTL d"
  by (simp add: absoluteTTL_def defaultAbsoluteTTL_def)

lemma slidingTTL_bounds:
  "min minSessionTTL (absoluteTTL d) \<le> slidingTTL d s \<and> slidingTTL d s \<le> absoluteTTL d"
  by (simp add: slidingTTL_def Let_def)

lemma go_div_pos: "0 \<le> a \<Longrightarrow> 0 < b \<Longrightarrow> go_div a b = a div b"
  by (cases "a = 0") (simp_all add: go_div_def)

lemma sliding_expiry_cap:
  "sliding_expiry d s now sess \<le> sess_created sess + absoluteTTL d div second"
  using absoluteTTL_pos [of d]
  by (simp add: sliding_expiry_def Let_def go_div_pos)

subsection \<open>Successful authentication\<close>

lemma resolveUser_Inr:
  assumes "resolveUser d w r = (Inr u, w')"
  obtains v sess su rs where
    "Cookies r ''castor_session'' = Some v" "v \<noteq> []"
    "GetSession (store w) (hash_hex d v) = Inr sess"
    "RevokedAt sess = None" "clock w \<le> ExpiresAt sess"
    "GetUserByID (store w) (sess_user sess) = Inr su" "IsActive su"
    "EffectiveRolesForUser (store w) (ID su) = Inr rs"
    "u = buildUser su (hash_hex d v) (sess_amr sess) rs"
    "w' = w \<or> w' = w\<lparr>store := upd_sessions (store w) (\<lambda>x. sess_id x = hash_hex d v)
        (\<lambda>x. x\<lparr>LastSeenAt := clock w, ExpiresAt := sliding_expiry d (store w) (clock w) sess\<rparr>)\<rparr>"
  using assms unfolding resolveUser_def Let_def TouchSession_def query_def
  by (simp split: option.splits sum.splits if_splits)

lemma resolveUser_Inl_world: "resolveUser d w r = (Inl e, w') \<Longrightarrow> w' = w"
  unfolding resolveUser_def Let_def
  by (simp split: option.splits sum.splits if_splits)

lemma resolveBearer_Inr:
  assumes "resolveBearer d w raw = (Inr u, w')"
  obtains tok su rs where
    "GetAPITokenByHash (store w) (clock w) (hash_hex d raw) = Inr tok"
    "GetUserByID (store w) (tok_user tok) = Inr su" "IsActive su"
    "EffectiveRolesForUser (store w) (ID su) = Inr rs"
    "row u = su" "roles u = rs"
    "perms u = restrictPerms (perms (buildUser su [] (AuthSource su) rs)) (tok_perms tok)"
  using assms unfolding resolveBearer_def Let_def
  by (simp split: sum.splits if_splits) (elim conjE, drule sym, simp)+

end
