(* ===== verification/Auth_Api.thy ===== *)
theory Auth_Api
  imports Authz_Session
begin

text \<open>
  The authentication handlers, \<open>server/internal/api/auth.go\<close> and \<open>api/validate.go\<close>:
  login with lock-out, logout, TOTP verification, enrollment, confirmation and removal,
  password change, bootstrap and the minting of sessions.
  The cryptographic primitives are fields of \<open>server\<close>: argon2id verification
  (\<open>verify pw hash\<close>, \<open>None\<close> for a malformed hash), AES-GCM opening of a sealed secret, TOTP
  code validation at the current time. The random values a handler draws (tokens, ids, hashes
  of fresh codes) are arguments, \<open>None\<close> when drawing them fails. A request body arrives
  decoded; \<open>Inl\<close> is the error of \<open>decodeJSON\<close>.
\<close>

record server =
  sdeps :: deps
  verify :: "string \<Rightarrow> string \<Rightarrow> bool option"
  open_secret :: "string \<Rightarrow> string option"
  validate_totp :: "string \<Rightarrow> string \<Rightarrow> int \<Rightarrow> bool"
  BootstrapToken :: string

definition loginFailThreshold :: int where "loginFailThreshold = 5"
definition loginLockDuration :: int where "loginLockDuration = 15 * minute"
definition recoveryCodeCount :: nat where "recoveryCodeCount = 10"

record login_request =
  req_username :: string
  req_password :: string

subsection \<open>Validation\<close>

definition username_char :: "char \<Rightarrow> bool" where
  "username_char c \<longleftrightarrow> is_upper c \<or> is_lower c \<or> is_digit c \<or> c = CHR ''.'' \<or> c = CHR ''_'' \<or> c = CHR ''-''"

definition validateUsername :: "string \<Rightarrow> api_error option" where
  "validateUsername u =
     (if 3 \<le> length u \<and> length u \<le> 32 \<and> list_all username_char u then None
      else Some (Errorf ErrValidation
        ''Username must be 3-32 characters of letters, digits, '.', '-' or '_'.''))"

definition validatePassword :: "string \<Rightarrow> api_error option" where
  "validatePassword p =
     (if length p < 12 then Some (Errorf ErrValidation ''Password must be at least 12 characters.'')
      else if length p > 1024 then Some (Errorf ErrValidation ''Password is too long.'')
      else None)"

subsection \<open>Sessions\<close>

definition mintSession ::
  "server \<Rightarrow> world \<Rightarrow> request \<Rightarrow> (string \<times> string) option \<Rightarrow> string \<Rightarrow> string
     \<Rightarrow> (session_row \<times> world) option" where
  "mintSession sv w r rnd userID amr =
     (case rnd of None \<Rightarrow> None
      | Some (rawID, csrf) \<Rightarrow>
          (let now = clock w;
               sess = \<lparr>sess_id = hash_hex (sdeps sv) rawID, sess_user = userID, CSRFToken = csrf,
                       UserAgent = Header_Get r ''User-Agent'', sess_ip = RemoteAddr r,
                       sess_amr = amr, sess_created = now, LastSeenAt = now,
                       ExpiresAt = now + go_div (SessionTTL (sdeps sv)) second, RevokedAt = None\<rparr>
           in case CreateSession (store w) sess of
                Inl _ \<Rightarrow> None
              | Inr s' \<Rightarrow> Some (sess, w\<lparr>store := s'\<rparr>)))"

fun dedup_perms :: "string list \<Rightarrow> string list \<Rightarrow> string list" where
  "dedup_perms seen [] = []"
| "dedup_perms seen (p # ps) =
     (if p \<in> set seen then dedup_perms seen ps else p # dedup_perms (p # seen) ps)"

definition effectivePermissions :: "db \<Rightarrow> string \<Rightarrow> store_error + string list" where
  "effectivePermissions s uid =
     (case EffectiveRolesForUser s uid of
        Inl e \<Rightarrow> Inl e
      | Inr rs \<Rightarrow> Inr (dedup_perms [] (concat (map Permissions rs))))"

text \<open>The permissions of a response; on a store error the code ignores the error (\<open>null\<close>).\<close>

definition perms_json :: "db \<Rightarrow> string \<Rightarrow> jval" where
  "perms_json s uid = (case effectivePermissions s uid of
     Inl _ \<Rightarrow> JNull | Inr ps \<Rightarrow> JArr (map JStr ps))"

definition toUserView :: "user_row \<Rightarrow> jval" where
  "toUserView u = JObj [(''id'', JStr (ID u)), (''username'', JStr (Username u)),
     (''email'', JStr (Email u)), (''isActive'', JBool (IsActive u)),
     (''mustChangePassword'', JBool (MustChangePW u)), (''totpEnabled'', JBool (TOTPEnabled u))]"

definition noContent :: response where
  "noContent = \<lparr>Status = 204, Body = JNull, SetCookies = []\<rparr>"

subsection \<open>Login and logout\<close>

definition or_world :: "world \<Rightarrow> store_error + db \<Rightarrow> world" where
  "or_world w res = (case res of Inl _ \<Rightarrow> w | Inr s' \<Rightarrow> w\<lparr>store := s'\<rparr>)"

definition Login ::
  "server \<Rightarrow> (string \<times> string) option \<Rightarrow> api_error + login_request \<Rightarrow> handler" where
  "Login sv rnd body w r =
     (case body of Inl e \<Rightarrow> (WriteError r e, w)
      | Inr req \<Rightarrow>
        (case GetUserByUsername (store w) (req_username req) of
           Inl _ \<Rightarrow> (WriteError r ErrUnauthenticated, w)
         | Inr u \<Rightarrow>
           (let now = clock w in
            if (case LockedUntil u of None \<Rightarrow> False | Some t \<Rightarrow> t > now)
              then (WriteError r ErrAccountLocked, w)
            else if \<not> IsActive u then (WriteError r ErrUnauthenticated, w)
            else if verify sv (req_password req) (PasswordHash u) \<noteq> Some True then
              (WriteError r ErrUnauthenticated,
               (case RecordLoginFailure (store w) now (ID u) loginFailThreshold loginLockDuration of
                  Inl _ \<Rightarrow> w | Inr (_, s') \<Rightarrow> w\<lparr>store := s'\<rparr>))
            else
              (let w1 = or_world w (RecordLoginSuccess (store w) now (ID u)) in
               case mintSession sv w1 r rnd (ID u) AMRPassword of
                 None \<Rightarrow> (WriteError r ErrInternal, w1)
               | Some (sess, w2) \<Rightarrow>
                 (let cookies = [(''castor_session'', (case rnd of Some (raw, _) \<Rightarrow> raw | None \<Rightarrow> [])),
                                 (''castor_csrf'', CSRFToken sess)];
                      body = (if TOTPEnabled u then
                          [(''requiresTotp'', JBool True), (''amr'', JStr AMRPassword),
                           (''csrfToken'', JStr (CSRFToken sess))]
                        else
                          [(''user'', toUserView u), (''amr'', JStr AMRPassword),
                           (''csrfToken'', JStr (CSRFToken sess)),
                           (''permissions'', perms_json (store w2) (ID u)),
                           (''requiresTotp'', JBool False)])
                  in (\<lparr>Status = 200, Body = JObj body, SetCookies = cookies\<rparr>, w2))))))"

definition Logout :: "server \<Rightarrow> handler" where
  "Logout sv w r =
     (let w1 = (case ctx_user r of None \<Rightarrow> w
                | Some u \<Rightarrow> or_world w (RevokeSession (store w) (clock w) (SessionHashID u)))
      in (noContent\<lparr>SetCookies := [(''castor_session'', []), (''castor_csrf'', [])]\<rparr>, w1))"

subsection \<open>TOTP\<close>

text \<open>
  The loop over the unused recovery codes: a matching code that cannot be consumed does not
  count, and the loop goes on.
\<close>

fun try_recovery :: "server \<Rightarrow> string \<Rightarrow> recovery_row list \<Rightarrow> world \<Rightarrow> bool \<times> world" where
  "try_recovery sv code [] w = (False, w)"
| "try_recovery sv code (rc # rcs) w =
     (if verify sv code (CodeHash rc) = Some True then
        (case ConsumeRecoveryCode (store w) (clock w) (rc_id rc) of
           Inr s' \<Rightarrow> (True, w\<lparr>store := s'\<rparr>)
         | Inl _ \<Rightarrow> try_recovery sv code rcs w)
      else try_recovery sv code rcs w)"

definition verifyTOTPOrRecovery :: "server \<Rightarrow> world \<Rightarrow> principal \<Rightarrow> string \<Rightarrow> bool \<times> world" where
  "verifyTOTPOrRecovery sv w u code0 =
     (let code = trim_space code0 in
      if code = [] then (False, w)
      else if (case open_secret sv (TOTPSecretEnc (row u)) of None \<Rightarrow> False
               | Some sec \<Rightarrow> validate_totp sv code sec (clock w)) then (True, w)
      else (case ListUnusedRecoveryCodes (store w) (ID (row u)) of
              Inl _ \<Rightarrow> (False, w)
            | Inr codes \<Rightarrow> try_recovery sv code codes w))"

definition TOTPVerify :: "server \<Rightarrow> api_error + string \<Rightarrow> handler" where
  "TOTPVerify sv body w r =
     (case ctx_user r of None \<Rightarrow> (WriteError r ErrUnauthenticated, w)
      | Some u \<Rightarrow>
        (case body of Inl e \<Rightarrow> (WriteError r e, w)
         | Inr code \<Rightarrow>
           if \<not> TOTPEnabled (row u) \<or> TOTPSecretEnc (row u) = [] then
             (WriteError r (Errorf ErrValidation ''TOTP is not enabled for this account.''), w)
           else
             (case verifyTOTPOrRecovery sv w u code of
                (False, w1) \<Rightarrow> (WriteError r ErrUnauthenticated, w1)
              | (True, w1) \<Rightarrow>
                (case UpgradeSessionAMR (store w1) (SessionHashID u) AMRPasswordTOTP of
                   Inl _ \<Rightarrow> (WriteError r ErrInternal, w1)
                 | Inr s2 \<Rightarrow>
                   (let csrf = (case GetSession s2 (SessionHashID u) of Inl _ \<Rightarrow> []
                                | Inr sess \<Rightarrow> CSRFToken sess)
                    in (WriteJSON 200 (JObj [(''user'', toUserView (row u)),
                          (''amr'', JStr AMRPasswordTOTP), (''csrfToken'', JStr csrf),
                          (''permissions'', perms_json s2 (ID (row u)))]),
                        w1\<lparr>store := s2\<rparr>))))))"

text \<open>\<open>sealed\<close> is the sealed fresh secret, \<open>None\<close> when generating or sealing it failed.\<close>

definition TOTPEnroll :: "server \<Rightarrow> (string \<times> string) option \<Rightarrow> handler" where
  "TOTPEnroll sv sealed w r =
     (case ctx_user r of None \<Rightarrow> (WriteError r ErrUnauthenticated, w)
      | Some u \<Rightarrow>
        (case sealed of None \<Rightarrow> (WriteError r ErrInternal, w)
         | Some (secret, enc) \<Rightarrow>
           (case SetTOTPPending (store w) (clock w) (ID (row u)) enc of
              Inl _ \<Rightarrow> (WriteError r ErrInternal, w)
            | Inr s' \<Rightarrow> (WriteJSON 200 (JObj [(''secret'', JStr secret)]), w\<lparr>store := s'\<rparr>))))"

definition TOTPConfirm ::
  "server \<Rightarrow> (string list \<times> string list \<times> string list) option \<Rightarrow> api_error + string \<Rightarrow> handler" where
  "TOTPConfirm sv fresh_codes body w r =
     (case ctx_user r of None \<Rightarrow> (WriteError r ErrUnauthenticated, w)
      | Some u \<Rightarrow>
        (case body of Inl e \<Rightarrow> (WriteError r e, w)
         | Inr code \<Rightarrow>
           (case GetUserByID (store w) (ID (row u)) of
              Inl _ \<Rightarrow> (WriteError r (Errorf ErrValidation
                         ''No pending TOTP enrollment. Start enrollment first.''), w)
            | Inr fresh \<Rightarrow>
              if TOTPSecretEnc fresh = [] then
                (WriteError r (Errorf ErrValidation
                   ''No pending TOTP enrollment. Start enrollment first.''), w)
              else if (case open_secret sv (TOTPSecretEnc fresh) of None \<Rightarrow> True
                       | Some sec \<Rightarrow> \<not> validate_totp sv (trim_space code) sec (clock w)) then
                (WriteError r ErrUnauthenticated, w)
              else (case ConfirmTOTP (store w) (clock w) (ID (row u)) of
                 Inl _ \<Rightarrow> (WriteError r ErrInternal, w)
               | Inr s1 \<Rightarrow>
                 (let w1 = w\<lparr>store := s1\<rparr> in
                  case fresh_codes of None \<Rightarrow> (WriteError r ErrInternal, w1)
                  | Some (plain, ids, hashes) \<Rightarrow>
                    (case ReplaceRecoveryCodes s1 (clock w) (ID (row u)) ids hashes of
                       Some (Inr s2) \<Rightarrow>
                         (WriteJSON 200 (JObj [(''recoveryCodes'', JArr (map JStr plain))]),
                          or_world (w1\<lparr>store := s2\<rparr>)
                            (UpgradeSessionAMR s2 (SessionHashID u) AMRPasswordTOTP))
                     | _ \<Rightarrow> (WriteError r ErrInternal, w1)))))))"

definition TOTPDisable :: "server \<Rightarrow> api_error + string \<Rightarrow> handler" where
  "TOTPDisable sv body w r =
     (case ctx_user r of None \<Rightarrow> (WriteError r ErrUnauthenticated, w)
      | Some u \<Rightarrow>
        (case body of Inl e \<Rightarrow> (WriteError r e, w)
         | Inr password \<Rightarrow>
           if verify sv password (PasswordHash (row u)) \<noteq> Some True
             then (WriteError r ErrUnauthenticated, w)
           else (case DisableTOTP (store w) (clock w) (ID (row u)) of
              Inl _ \<Rightarrow> (WriteError r ErrInternal, w)
            | Inr s1 \<Rightarrow>
              (let w1 = w\<lparr>store := s1\<rparr>;
                   w2 = (case ReplaceRecoveryCodes s1 (clock w) (ID (row u)) [] [] of
                           Some res \<Rightarrow> or_world w1 res | None \<Rightarrow> w1);
                   w3 = or_world w2 (UpgradeSessionAMR (store w2) (SessionHashID u) AMRPassword)
               in (noContent, w3)))))"

subsection \<open>Password change and bootstrap\<close>

definition PasswordChange :: "server \<Rightarrow> string option \<Rightarrow> api_error + (string \<times> string) \<Rightarrow> handler" where
  "PasswordChange sv new_hash body w r =
     (case ctx_user r of None \<Rightarrow> (WriteError r ErrUnauthenticated, w)
      | Some u \<Rightarrow>
        (case body of Inl e \<Rightarrow> (WriteError r e, w)
         | Inr (current, new) \<Rightarrow>
           if verify sv current (PasswordHash (row u)) \<noteq> Some True
             then (WriteError r ErrUnauthenticated, w)
           else (case validatePassword new of Some e \<Rightarrow> (WriteError r e, w)
            | None \<Rightarrow>
              (case new_hash of None \<Rightarrow> (WriteError r ErrInternal, w)
               | Some h \<Rightarrow>
                 (case SetPasswordHash (store w) (clock w) (ID (row u)) h of
                    Inl _ \<Rightarrow> (WriteError r ErrInternal, w)
                  | Inr s1 \<Rightarrow>
                    (noContent, or_world (w\<lparr>store := s1\<rparr>)
                       (RevokeOtherUserSessions s1 (clock w) (ID (row u)) (SessionHashID u))))))))"

definition bootstrapRequired :: "db \<Rightarrow> bool" where
  "bootstrapRequired s =
     (case BootstrapCompleted s of
        Inl _ \<Rightarrow> False
      | Inr completed \<Rightarrow>
          if completed then False
          else (case CountUsers s of Inl _ \<Rightarrow> False | Inr n \<Rightarrow> n = 0))"

record bootstrap_request =
  br_username :: string
  br_password :: string
  br_email :: string
  br_token :: string

definition Bootstrap ::
  "server \<Rightarrow> string option \<Rightarrow> string \<Rightarrow> string \<Rightarrow> api_error + bootstrap_request \<Rightarrow> handler" where
  "Bootstrap sv hash uid bid body w r =
     (if \<not> bootstrapRequired (store w) then (WriteError r ErrBootstrapRequired, w)
      else case body of Inl e \<Rightarrow> (WriteError r e, w)
      | Inr req \<Rightarrow>
        if BootstrapToken sv \<noteq> [] \<and> br_token req \<noteq> BootstrapToken sv
          then (WriteError r ErrForbidden, w)
        else case validateUsername (br_username req) of Some e \<Rightarrow> (WriteError r e, w)
        | None \<Rightarrow> (case validatePassword (br_password req) of Some e \<Rightarrow> (WriteError r e, w)
          | None \<Rightarrow> (case hash of None \<Rightarrow> (WriteError r ErrInternal, w)
            | Some h \<Rightarrow>
              (case BootstrapFirstAdmin (store w) (clock w) uid (br_username req) (br_email req) h bid of
                 Inl Store.ErrBootstrapAlreadyDone \<Rightarrow> (WriteError r ErrBootstrapRequired, w)
               | Inl Store.ErrNotFound \<Rightarrow> (WriteError r APIErrNotFound, w)
               | Inl SQLError \<Rightarrow> (WriteError r ErrInternal, w)
               | Inr s' \<Rightarrow> (WriteJSON 201 (JObj
                     [(''user'', toUserView (first_admin_row (clock w) uid (br_username req) (br_email req) h)),
                      (''totpEnrollOffered'', JBool True)]), w\<lparr>store := s'\<rparr>)))))"

end
