(* ===== verification/Authz_Guard.thy ===== *)
theory Authz_Guard
  imports Authz_Audit
begin

text \<open>
  The guard on destructive container actions, \<open>server/internal/authz/guard.go\<close>. A guard
  decision is \<open>None\<close> (proceed) or \<open>Some\<close> error; the guard also writes to the audit
  accumulator of the request. \<open>json.Unmarshal\<close> into a string list is the parameter \<open>dec\<close>
  (\<open>None\<close> for a decoding error).
\<close>

record container_ref =
  RefID :: string
  RefName :: string
  Labels :: "string \<rightharpoonup> string"
  Protected :: bool
  Kind :: string
  IsDataVolume :: bool

record guard =
  selfContainerID :: string
  selfResolved :: bool

definition default_labels :: "string list" where
  "default_labels = [''io.castor.protected'']"

definition protectedLabels :: "(string \<Rightarrow> string list option) \<Rightarrow> db \<Rightarrow> string list" where
  "protectedLabels dec s =
     (let raw = GetSettingDefault s ''security.protected_labels'' ''[\"io.castor.protected\"]''
      in case dec raw of None \<Rightarrow> default_labels
         | Some out \<Rightarrow> if out = [] then default_labels else out)"

text \<open>Container ids may be short or long; both must be at least 12 bytes to match by prefix.\<close>

definition isSelf :: "guard \<Rightarrow> container_ref \<Rightarrow> bool" where
  "isSelf g ref =
     (if IsDataVolume ref then True
      else if Kind ref \<noteq> ''container'' then False
      else if selfContainerID g = [] then False
      else (let a = RefID ref; b = selfContainerID g in
            if a = b then True
            else if length a \<ge> 12 \<and> length b \<ge> 12 then has_prefix a b \<or> has_prefix b a
            else False))"

text \<open>An empty label map has no entry for any key, which the first test of the code only
  short-cuts.\<close>

definition hasProtectedLabel :: "(string \<Rightarrow> string list option) \<Rightarrow> db \<Rightarrow> container_ref \<Rightarrow> bool" where
  "hasProtectedLabel dec s ref \<longleftrightarrow>
     (\<exists>key \<in> set (protectedLabels dec s).
        case Labels ref key of None \<Rightarrow> False | Some v \<Rightarrow> equal_fold (trim_space v) ''true'')"

definition GuardDestructive ::
  "(string \<Rightarrow> string list option) \<Rightarrow> guard \<Rightarrow> world \<Rightarrow> container_ref \<Rightarrow> principal option
     \<Rightarrow> bool \<Rightarrow> string \<Rightarrow> api_error option \<times> world" where
  "GuardDestructive dec g w ref actor confirm reason =
     (if Kind ref = ''container'' \<and> \<not> selfResolved g then
        (Some (Errorf ErrProtected
           ''Refusing destructive action: Castor cannot positively identify its own container.''),
         markResult w ''denied'' [(''protected'', JStr ''self_unresolved'')])
      else if isSelf g ref then
        (Some (Errorf ErrProtected ''This is Castor's own resource and is permanently protected.''),
         markResult w ''denied'' [(''protected'', JStr ''self'')])
      else if hasProtectedLabel dec (store w) ref \<or> Protected ref then
        (if (case actor of None \<Rightarrow> True | Some u \<Rightarrow> \<not> HasGlobalSuperuser u) then
           (Some (Errorf ErrProtected
              ''This resource is marked protected. Only an administrator may modify it.''),
            markResult w ''denied'' [(''protected'', JStr ''label'')])
         else if \<not> confirm \<or> trim_space reason = [] then
           (Some (Errorf ErrProtected
              ''This resource is protected. Provide confirm=true and a reason to override.''),
            markResult w ''denied'' [(''protected'', JStr ''label_admin_unconfirmed'')])
         else
           (None, AddAuditDetail (AddAuditDetail (AddAuditDetail w ''override'' (JBool True))
                    ''reason'' (JStr reason)) ''protected'' (JStr ''label_admin_override'')))
      else (None, w))"

lemma isSelf_same_id:
  "Kind ref = ''container'' \<Longrightarrow> RefID ref = selfContainerID g \<Longrightarrow> selfContainerID g \<noteq> [] \<Longrightarrow> isSelf g ref"
  by (simp add: isSelf_def Let_def)

lemma isSelf_data_volume [simp]: "IsDataVolume ref \<Longrightarrow> isSelf g ref"
  by (simp add: isSelf_def)

text \<open>A short (12-byte or longer) prefix of the full id, in either direction, is recognised.\<close>

lemma isSelf_short_id:
  assumes "Kind ref = ''container''" "12 \<le> length short" "short @ rest = full"
    and "(RefID ref = short \<and> selfContainerID g = full) \<or> (RefID ref = full \<and> selfContainerID g = short)"
  shows "isSelf g ref"
proof -
  have "has_prefix full short" using assms(3) by (auto simp: has_prefix_iff)
  moreover have "12 \<le> length full" using assms(2) assms(3) [symmetric] by simp
  moreover have "short \<noteq> []" "full \<noteq> []" using calculation(2) assms(2) by auto
  ultimately show ?thesis using assms(1,2,4) by (elim disjE) (simp_all add: isSelf_def Let_def)
qed

lemma guard_passes_iff:
  "fst (GuardDestructive dec g w ref actor confirm reason) = None \<longleftrightarrow>
     (Kind ref = ''container'' \<longrightarrow> selfResolved g) \<and> \<not> isSelf g ref
     \<and> (hasProtectedLabel dec (store w) ref \<or> Protected ref \<longrightarrow>
          (\<exists>u. actor = Some u \<and> HasGlobalSuperuser u) \<and> confirm \<and> trim_space reason \<noteq> [])"
  by (simp add: GuardDestructive_def split: option.splits)

lemma guard_store [simp]: "store (snd (GuardDestructive dec g w ref actor confirm reason)) = store w"
  by (simp add: GuardDestructive_def)

lemma guard_denial:
  assumes "GuardDestructive dec g w ref actor confirm reason = (Some e, w')" "audit w = Some a"
  shows "ErrStatus e = 409"
    and "\<exists>d. audit w' = Some (a\<lparr>Result := ''denied'', resultSet := True, Detail := d\<rparr>)"
proof -
  have "ErrStatus ErrProtected = 409" by (simp add: api_errors)
  with assms(1) show "ErrStatus e = 409"
    unfolding GuardDestructive_def by (simp split: if_splits) (elim conjE, drule sym, simp)+
  have "\<exists>ds. w' = markResult w ''denied'' ds"
    using assms(1) unfolding GuardDestructive_def by (simp split: if_splits) blast+
  with assms(2) show "\<exists>d. audit w' = Some (a\<lparr>Result := ''denied'', resultSet := True, Detail := d\<rparr>)"
    by (elim exE) (simp, rule exI, rule refl)
qed

end
