(* ===== verification/Store_Steps.thy ===== *)
theory Store_Steps
  imports Authz_Session
begin

text \<open>
  The writes of the store as one labelled step function, and what every sequence of them keeps:
  the integrity of the tables (\<open>store_ok\<close>: primary keys, the unique username, the foreign
  keys of sessions and bindings) and the death of a revoked session.
\<close>

datatype db_op =
    OpCreateUser int user_row
  | OpProfile int string "string option" "bool option"
  | OpSetPassword int string string
  | OpDeleteUser string
  | OpLoginSuccess int string
  | OpLoginFailure int string int int
  | OpTOTPPending int string string
  | OpTOTPConfirm int string
  | OpTOTPDisable int string
  | OpCreateSession session_row
  | OpTouch int string int
  | OpUpgrade string string
  | OpRevoke int string
  | OpRevokeAll int string
  | OpRevokeOther int string string
  | OpDeleteExpired int
  | OpConsume int string
  | OpTouchToken int string
  | OpRevokeToken int string string
  | OpSetSetting string string
  | OpAudit audit_row

definition or_same :: "db \<Rightarrow> store_error + db \<Rightarrow> db" where
  "or_same s res = (case res of Inl _ \<Rightarrow> s | Inr s' \<Rightarrow> s')"

definition or_same_snd :: "db \<Rightarrow> store_error + ('a \<times> db) \<Rightarrow> db" where
  "or_same_snd s res = (case res of Inl _ \<Rightarrow> s | Inr p \<Rightarrow> snd p)"

fun db_step :: "db \<Rightarrow> db_op \<Rightarrow> db" where
  "db_step s (OpCreateUser now u) = or_same s (CreateUser s now u)"
| "db_step s (OpProfile now i e a) = or_same s (UpdateUserProfile s now i e a)"
| "db_step s (OpSetPassword now i h) = or_same s (SetPasswordHash s now i h)"
| "db_step s (OpDeleteUser i) = or_same s (DeleteUser s i)"
| "db_step s (OpLoginSuccess now i) = or_same s (RecordLoginSuccess s now i)"
| "db_step s (OpLoginFailure now i t l) = or_same_snd s (RecordLoginFailure s now i t l)"
| "db_step s (OpTOTPPending now i e) = or_same s (SetTOTPPending s now i e)"
| "db_step s (OpTOTPConfirm now i) = or_same s (ConfirmTOTP s now i)"
| "db_step s (OpTOTPDisable now i) = or_same s (DisableTOTP s now i)"
| "db_step s (OpCreateSession r) = or_same s (CreateSession s r)"
| "db_step s (OpTouch now h e) = or_same s (TouchSession s now h e)"
| "db_step s (OpUpgrade h a) = or_same s (UpgradeSessionAMR s h a)"
| "db_step s (OpRevoke now h) = or_same s (RevokeSession s now h)"
| "db_step s (OpRevokeAll now i) = or_same s (RevokeAllUserSessions s now i)"
| "db_step s (OpRevokeOther now i k) = or_same s (RevokeOtherUserSessions s now i k)"
| "db_step s (OpDeleteExpired now) = or_same_snd s (DeleteExpiredSessions s now)"
| "db_step s (OpConsume now i) = or_same s (ConsumeRecoveryCode s now i)"
| "db_step s (OpTouchToken now i) = or_same s (TouchAPIToken s now i)"
| "db_step s (OpRevokeToken now i u) = or_same s (RevokeAPIToken s now i u)"
| "db_step s (OpSetSetting k v) = or_same s (SetSetting s k v)"
| "db_step s (OpAudit a) = or_same s (InsertAudit s a)"

definition db_run :: "db \<Rightarrow> db_op list \<Rightarrow> db" where
  "db_run s ops = foldl db_step s ops"

lemmas db_op_defs = or_same_def or_same_snd_def query_def CreateUser_def UpdateUserProfile_def
  SetPasswordHash_def DeleteUser_def RecordLoginSuccess_def RecordLoginFailure_def
  SetTOTPPending_def ConfirmTOTP_def DisableTOTP_def CreateSession_def TouchSession_def
  UpgradeSessionAMR_def RevokeSession_def RevokeAllUserSessions_def RevokeOtherUserSessions_def
  DeleteExpiredSessions_def ConsumeRecoveryCode_def TouchAPIToken_def RevokeAPIToken_def
  SetSetting_def InsertAudit_def

subsection \<open>Invariants of runs\<close>

subsection \<open>Integrity\<close>

definition store_ok :: "db \<Rightarrow> bool" where
  "store_ok s \<longleftrightarrow>
     distinct (map ID (users s)) \<and> distinct (map Username (users s))
     \<and> distinct (map sess_id (sessions s))
     \<and> sess_user ` set (sessions s) \<subseteq> ID ` set (users s)"

lemma store_okI:
  "distinct (map ID (users s)) \<Longrightarrow> distinct (map Username (users s)) \<Longrightarrow>
   distinct (map sess_id (sessions s)) \<Longrightarrow> sess_user ` set (sessions s) \<subseteq> ID ` set (users s)
   \<Longrightarrow> store_ok s"
  by (simp add: store_ok_def)

lemma map_update_where: "(\<And>r. g (f r) = g r) \<Longrightarrow> map g (update_where P f rs) = map g rs"
  by (simp add: update_where_def)

lemma image_update_where: "(\<And>r. g (f r) = g r) \<Longrightarrow> g ` set (update_where P f rs) = g ` set rs"
  by (metis map_update_where set_map)

lemma store_ok_upd_user:
  "store_ok s \<Longrightarrow> (\<And>u. ID (f u) = ID u) \<Longrightarrow> (\<And>u. Username (f u) = Username u)
     \<Longrightarrow> store_ok (upd_user s i f)"
  by (simp add: store_ok_def upd_user_def map_update_where image_update_where)

lemma store_ok_upd_sessions:
  "store_ok s \<Longrightarrow> (\<And>r. sess_id (f r) = sess_id r) \<Longrightarrow> (\<And>r. sess_user (f r) = sess_user r)
     \<Longrightarrow> store_ok (upd_sessions s P f)"
  by (simp add: store_ok_def upd_sessions_def map_update_where image_update_where)

lemma distinct_map_delete_where: "distinct (map g rs) \<Longrightarrow> distinct (map g (delete_where P rs))"
  by (simp add: delete_where_def distinct_map inj_on_def)

lemma CreateUser_Inr:
  assumes "CreateUser s now u = Inr s'"
  shows "s' = s\<lparr>users := users s @ [new_user_row now u]\<rparr>"
    and "\<not> user_conflict (users s) (new_user_row now u)"
  using assms by (simp_all add: CreateUser_def query_def split: if_splits)

lemma not_bex_image:
  "\<not> (\<exists>v \<in> A. P v) \<Longrightarrow> (\<And>v. f v = x \<Longrightarrow> P v) \<Longrightarrow> x \<notin> f ` A"
  by blast

lemma fresh_user:
  assumes "\<not> user_conflict us u"
  shows "ID u \<notin> ID ` set us" "Username u \<notin> Username ` set us"
  using assms unfolding user_conflict_def by (rule not_bex_image, simp)+

lemma store_ok_CreateUser:
  assumes "store_ok s" "CreateUser s now u = Inr s'"
  shows "store_ok s'"
  using assms(1) fresh_user [OF CreateUser_Inr(2) [OF assms(2)]]
  unfolding CreateUser_Inr(1) [OF assms(2)] store_ok_def by (simp add: subset_insertI2)

lemma DeleteUser_Inr:
  assumes "DeleteUser s i = Inr s'"
  shows "users s' = delete_where (\<lambda>u. ID u = i) (users s)"
    and "sessions s' = delete_where (\<lambda>r. sess_user r = i) (sessions s)"
  using assms by (simp_all add: DeleteUser_def query_def split: if_splits) (drule sym, simp)+

lemma image_delete_where:
  "g ` set (delete_where (\<lambda>r. g r = k) rs) = g ` set rs - {k}"
  by (induction rs) (auto simp: delete_where_def)

lemma store_ok_DeleteUser:
  assumes "store_ok s" "DeleteUser s i = Inr s'"
  shows "store_ok s'"
proof -
  have "sess_user ` set (sessions s) - {i} \<subseteq> ID ` set (users s) - {i}"
    using assms(1) unfolding store_ok_def by blast
  then show ?thesis
    using assms(1) unfolding store_ok_def DeleteUser_Inr [OF assms(2)]
    by (simp add: distinct_map_delete_where image_delete_where)
qed

lemma CreateSession_Inr:
  assumes "CreateSession s r = Inr s'"
  shows "s' = s\<lparr>sessions := sessions s @ [r]\<rparr>"
    and "find (\<lambda>x. sess_id x = sess_id r) (sessions s) = None"
    and "find (\<lambda>u. ID u = sess_user r) (users s) \<noteq> None"
  using assms by (simp_all add: CreateSession_def query_def split: if_splits)

lemma find_key_None: "find (\<lambda>x. g x = k) rs = None \<longleftrightarrow> k \<notin> g ` set rs"
  by (induction rs) auto

lemma store_ok_CreateSession:
  assumes "store_ok s" "CreateSession s r = Inr s'"
  shows "store_ok s'"
  using assms(1) CreateSession_Inr(2,3) [OF assms(2)]
  unfolding CreateSession_Inr(1) [OF assms(2)] store_ok_def find_key_None by simp

lemma or_same_cases: "(\<And>s'. res = Inr s' \<Longrightarrow> Q s') \<Longrightarrow> Q s \<Longrightarrow> Q (or_same s res)"
  by (cases res) (simp_all add: or_same_def)

lemma db_step_store_ok:
  assumes "store_ok s"
  shows "store_ok (db_step s op)"
proof (cases op)
  case (OpCreateUser now u)
  then show ?thesis using assms by (simp add: or_same_cases store_ok_CreateUser)
next
  case (OpDeleteUser i)
  then show ?thesis using assms by (simp add: or_same_cases store_ok_DeleteUser)
next
  case (OpCreateSession r)
  then show ?thesis using assms by (simp add: or_same_cases store_ok_CreateSession)
next
  case (OpProfile now i e a)
  then show ?thesis using assms
    by (simp add: db_op_defs Let_def store_ok_upd_user split: option.split)
next
  case (OpLoginFailure now i t l)
  then show ?thesis using assms
    by (simp add: db_op_defs Let_def store_ok_upd_user split: option.split)
next
  case (OpDeleteExpired now)
  have "sess_user ` set (delete_where (\<lambda>r. ExpiresAt r < now) (sessions s)) \<subseteq> ID ` set (users s)"
    using assms unfolding store_ok_def delete_where_def by (simp add: subset_iff) blast
  then show ?thesis using OpDeleteExpired assms
    by (simp add: db_op_defs store_ok_def distinct_map_delete_where)
next
  case (OpConsume now i)
  then show ?thesis using assms by (simp add: db_op_defs Let_def store_ok_def)
next
  case (OpRevokeToken now i u)
  then show ?thesis using assms by (simp add: db_op_defs Let_def store_ok_def)
next
  case (OpTouchToken now i)
  then show ?thesis using assms by (simp add: db_op_defs store_ok_def)
next
  case (OpSetSetting k v)
  then show ?thesis using assms by (simp add: db_op_defs store_ok_def)
next
  case (OpAudit a)
  then show ?thesis using assms by (simp add: db_op_defs store_ok_def)
qed (simp_all add: db_op_defs assms store_ok_upd_user store_ok_upd_sessions)

interpretation integrity: run_invariant db_step "\<lambda>_. True" store_ok
  by unfold_locales (rule db_step_store_ok)

subsection \<open>A revoked session stays dead\<close>

text \<open>No row with this id is usable: every one is revoked.\<close>

definition dead_session :: "string \<Rightarrow> db \<Rightarrow> bool" where
  "dead_session h s \<longleftrightarrow> (\<forall>r \<in> set (sessions s). sess_id r = h \<longrightarrow> RevokedAt r \<noteq> None)"

lemma dead_sessionI:
  "(\<And>r. r \<in> set (sessions s) \<Longrightarrow> sess_id r = h \<Longrightarrow> RevokedAt r \<noteq> None) \<Longrightarrow> dead_session h s"
  unfolding dead_session_def by blast

lemma dead_sessionD:
  "dead_session h s \<Longrightarrow> r \<in> set (sessions s) \<Longrightarrow> sess_id r = h \<Longrightarrow> RevokedAt r \<noteq> None"
  unfolding dead_session_def by blast

lemma upd_sessions_cases:
  assumes "x \<in> set (sessions (upd_sessions s P f))"
  obtains (kept) "x \<in> set (sessions s)" "\<not> P x"
    | (changed) r where "r \<in> set (sessions s)" "P r" "x = f r"
  using assms by (simp add: upd_sessions_def in_update_where) blast

lemma dead_upd_sessions:
  assumes dead: "dead_session h s" and ids: "\<And>r. sess_id (f r) = sess_id r"
    and rev: "\<And>r. RevokedAt r \<noteq> None \<Longrightarrow> RevokedAt (f r) \<noteq> None"
  shows "dead_session h (upd_sessions s P f)"
proof (rule dead_sessionI)
  fix x
  assume "x \<in> set (sessions (upd_sessions s P f))" and h: "sess_id x = h"
  then show "RevokedAt x \<noteq> None"
  proof (cases rule: upd_sessions_cases)
    case kept
    then show ?thesis using dead_sessionD [OF dead _ h] by blast
  next
    case (changed r)
    then have "sess_id r = h" using ids [of r] h by simp
    then have "RevokedAt r \<noteq> None" by (rule dead_sessionD [OF dead changed(1)])
    then show ?thesis unfolding changed(3) by (rule rev)
  qed
qed

lemma dead_subset: "dead_session h s \<Longrightarrow> set (sessions s') \<subseteq> set (sessions s) \<Longrightarrow> dead_session h s'"
  unfolding dead_session_def by blast

lemma sessions_upd_user [simp]: "sessions (upd_user s i f) = sessions s"
  by (simp add: upd_user_def)

text \<open>The writes that may bring a session id into the table.\<close>

fun creates :: "string \<Rightarrow> db_op \<Rightarrow> bool" where
  "creates h (OpCreateSession r) = (sess_id r = h)"
| "creates h op = False"

lemma db_step_dead:
  assumes dead: "dead_session h s" and ids: "\<not> creates h op"
  shows "dead_session h (db_step s op)"
proof (cases op)
  case (OpCreateSession r)
  have "dead_session h (s\<lparr>sessions := sessions s @ [r]\<rparr>)"
    using dead ids OpCreateSession unfolding dead_session_def by simp
  with dead OpCreateSession show ?thesis by (simp add: db_op_defs)
next
  case (OpDeleteExpired now)
  then show ?thesis
    by (intro dead_subset [OF dead]) (auto simp: db_op_defs in_delete_where)
next
  case (OpDeleteUser i)
  then show ?thesis
    by (intro dead_subset [OF dead]) (auto simp: db_op_defs in_delete_where)
qed (simp_all add: db_op_defs dead dead_upd_sessions dead_subset [OF dead] Let_def split: option.split)

interpretation dead: run_invariant db_step "\<lambda>op. \<not> creates h op" "dead_session h" for h
  by unfold_locales (rule db_step_dead)

lemma GetSession_InrD: "GetSession s h = Inr sess \<Longrightarrow> sess \<in> set (sessions s) \<and> sess_id sess = h"
  unfolding GetSession_def query_def select_one_def
  by (simp split: if_splits option.splits) (blast dest: find_SomeD)

lemma dead_GetSession: "dead_session h s \<Longrightarrow> GetSession s h = Inr sess \<Longrightarrow> RevokedAt sess \<noteq> None"
  by (blast dest: dead_sessionD GetSession_InrD)

lemma revoke_dead:
  assumes covers: "\<And>r. sess_id r = h \<Longrightarrow> r \<in> set (sessions s) \<Longrightarrow> RevokedAt r = None \<Longrightarrow> P r"
  shows "dead_session h (upd_sessions s P (\<lambda>r. r\<lparr>RevokedAt := Some now\<rparr>))"
proof (rule dead_sessionI)
  fix x
  assume x: "x \<in> set (sessions (upd_sessions s P (\<lambda>r. r\<lparr>RevokedAt := Some now\<rparr>)))" "sess_id x = h"
  from x(1) show "RevokedAt x \<noteq> None"
    by (cases rule: upd_sessions_cases) (use covers x(2) in \<open>blast, simp\<close>)
qed

lemma RevokeSession_dead:
  "RevokeSession s now h = Inr s' \<Longrightarrow> dead_session h s'"
  by (simp add: RevokeSession_def query_def split: if_splits) (drule sym, simp add: revoke_dead)

lemma dead_resolveUser:
  assumes "dead_session (hash_hex d v) (store w)" "Cookies r ''castor_session'' = Some v"
  shows "fst (resolveUser d w r) = Inl ErrUnauthenticated"
  using assms by (simp add: resolveUser_def Let_def split: sum.splits) (blast dest: dead_GetSession)

end
