(* ===== verification/Auth_Props.thy ===== *)
theory Auth_Props
  imports Auth_Api Authz_Guard Store_Steps
begin

text \<open>
  The properties of authentication and authorization, over the handlers and middlewares of
  \<open>Authz_Perm\<close>, \<open>Authz_Audit\<close>, \<open>Authz_Session\<close>, \<open>Authz_Guard\<close> and \<open>Auth_Api\<close> and the store
  operations, with a small concrete installation (\<open>demo_db\<close>) on which they are applied.
\<close>

subsection \<open>A concrete installation\<close>

definition demo_user :: "string \<Rightarrow> string \<Rightarrow> user_row" where
  "demo_user i n =
     \<lparr>ID = i, Username = n, Email = [], PasswordHash = ''argon'', TOTPSecretEnc = [],
      TOTPEnabled = False, TOTPConfirmedAt = None, IsActive = True, MustChangePW = False,
      FailedLogins = 0, LockedUntil = None, LastLoginAt = None, AuthSource = ''local'',
      ExternalID = [], ExternalProviderID = [], CreatedAt = 0, UpdatedAt = 0\<rparr>"

definition demo_session :: "string \<Rightarrow> string \<Rightarrow> session_row" where
  "demo_session h i =
     \<lparr>sess_id = h, sess_user = i, CSRFToken = ''csrf'', UserAgent = [], sess_ip = [],
      sess_amr = ''pwd'', sess_created = 0, LastSeenAt = 0, ExpiresAt = 600, RevokedAt = None\<rparr>"

definition demo_db :: db where
  "demo_db =
     \<lparr>users = [demo_user ''u1'' ''ann'', demo_user ''u2'' ''bob''],
      sessions = [demo_session ''#s1'' ''u1'', demo_session ''#s2'' ''u1''],
      role_tab = [\<lparr>role_id = ''r1'', role_name = ''ops'', role_desc = [], role_builtin = False,
                    role_perms = [''vm.start'', ''net.*''], role_created = 0, role_updated = 0\<rparr>],
      bindings = [\<lparr>bind_id = ''b1'', bind_user = ''u1'', bind_role = ''r1'',
                    bind_scope_type = ''global'', bind_scope_id = [], bind_created = 0\<rparr>],
      tokens = [\<lparr>tok_id = ''t1'', tok_name = ''ci'', tok_user = ''u1'', TokenHash = ''#tok'',
                  tok_perms = [''vm.*''], tok_expires = None, tok_last_used = None,
                  tok_revoked = None, tok_created = 0\<rparr>],
      recovery = [\<lparr>rc_id = ''c1'', rc_user = ''u1'', CodeHash = ''k1'', UsedAt = None, rc_created = 0\<rparr>],
      settings = Map.empty, audit_log = [], auth_providers = [], group_maps = [],
      oidc_states = [], broken = {}\<rparr>"

definition demo_deps :: deps where
  "demo_deps = \<lparr>AllowedOrigins = [], SessionTTL = 600 * second, SessionAbsoluteTTL = 3600 * second,
     hash_hex = Cons (CHR ''#''), url_parse = (\<lambda>_. None)\<rparr>"

definition demo_server :: server where
  "demo_server = \<lparr>sdeps = demo_deps, verify = (\<lambda>pw h. Some (pw = ''right'' \<and> h = ''argon'')),
     open_secret = (\<lambda>s. Some s), validate_totp = (\<lambda>c s t. c = s), BootstrapToken = []\<rparr>"

definition demo_world :: world where
  "demo_world = \<lparr>store = demo_db, clock = 100, audit = None\<rparr>"

definition demo_request :: "string \<Rightarrow> string \<Rightarrow> request" where
  "demo_request m cookie =
     \<lparr>Method = m, Headers = Map.empty, Cookies = [''castor_session'' \<mapsto> cookie], Host = ''h'',
      RemoteAddr = ''ip'', ctx_user = None, ctx_bearer = False, ctx_request_id = ''q''\<rparr>"

definition demo_principal :: principal where
  "demo_principal = buildUser (demo_user ''u1'' ''ann'') ''#s1'' ''pwd''
     [\<lparr>RoleID = ''r1'', RoleName = ''ops'', Permissions = [''vm.start'', ''net.*''],
       ScopeType = ''global'', ScopeID = []\<rparr>]"

lemmas demo_defs = demo_user_def demo_session_def demo_db_def demo_deps_def demo_server_def
  demo_world_def demo_request_def demo_principal_def

lemma demo_roles [simp]:
  "EffectiveRolesForUser demo_db ''u1'' = Inr (roles demo_principal)"
  by (simp add: demo_defs EffectiveRolesForUser_def query_def buildUser_def)

lemma demo_users [simp]:
  "GetUserByID demo_db ''u1'' = Inr (demo_user ''u1'' ''ann'')"
  "GetUserByUsername demo_db ''ann'' = Inr (demo_user ''u1'' ''ann'')"
  by (simp_all add: demo_defs GetUserByID_def GetUserByUsername_def query_def select_one_def)

lemma demo_sessions [simp]:
  "GetSession demo_db ''#s1'' = Inr (demo_session ''#s1'' ''u1'')"
  "GetSession demo_db ''#s2'' = Inr (demo_session ''#s2'' ''u1'')"
  by (simp_all add: demo_db_def demo_session_def GetSession_def query_def select_one_def)

lemma demo_store_ok: "store_ok demo_db"
  by (simp add: demo_defs store_ok_def)

lemma demo_parts [simp]:
  "store demo_world = demo_db" "clock demo_world = 100" "broken demo_db = {}"
  "ID (demo_user i n) = i" "IsActive (demo_user i n)" "PasswordHash (demo_user i n) = ''argon''"
  "LockedUntil (demo_user i n) = None" "FailedLogins (demo_user i n) = 0"
  "RevokedAt (demo_session h i) = None" "ExpiresAt (demo_session h i) = 600"
  "sess_user (demo_session h i) = i" "sess_created (demo_session h i) = 0"
  "row demo_principal = demo_user ''u1'' ''ann''"
  "SessionHashID demo_principal = ''#s1''"
  "Cookies (demo_request m c) ''castor_session'' = Some c" "Method (demo_request m c) = m"
  "hash_hex demo_deps v = CHR ''#'' # v" "sdeps demo_server = demo_deps"
  by (simp_all add: demo_defs buildUser_def)

subsection \<open>Permissions\<close>

text \<open>C1. A permission check succeeds exactly when some role of the user, bound globally or at
  the scope of the request, has a grant that covers the permission: \<open>*\<close>, the permission
  itself, or \<open>p.*\<close> for a dotted prefix \<open>p\<close> of it.\<close>

theorem permission_check:
  "Can (Some (buildUser su h a rs)) p s \<longleftrightarrow>
     (\<exists>r \<in> set rs. scopeKey (ScopeType r) (ScopeID r) \<in> {[], scopeKey (sc_type s) (sc_id s)}
        \<and> (\<exists>g \<in> set (Permissions r). covers g p))"
  unfolding Can_buildUser permSetGrants_iff by (rule refl)

text \<open>C2. A request authenticated by an API token holds only permissions that its owner's roles
  grant at that scope and that the token itself grants.\<close>

theorem bearer_bounded:
  assumes "resolveBearer d w raw = (Inr u, w')"
    and "GetAPITokenByHash (store w) (clock w) (hash_hex d raw) = Inr tok"
    and "Can (Some u) p s"
  shows "\<exists>rs. EffectiveRolesForUser (store w) (ID (row u)) = Inr rs
           \<and> Can (Some (buildUser (row u) [] (AuthSource (row u)) rs)) p s
           \<and> permSetGrants (set (tok_perms tok)) p"
  using assms(1)
proof (cases rule: resolveBearer_Inr)
  case (1 tok' su rs)
  then show ?thesis using restrict_bounded [OF 1(7) assms(3)] assms(2) by simp
qed

theorem bearer_bounded_witness:
  "\<exists>u w'. resolveBearer demo_deps demo_world ''tok'' = (Inr u, w')
     \<and> Can (Some u) ''vm.start'' \<lparr>sc_type = ''global'', sc_id = []\<rparr>
     \<and> permSetGrants {''vm.*''} ''vm.start''"
proof -
  let ?tok = "hd (tokens demo_db)"
  have tok: "GetAPITokenByHash (store demo_world) (clock demo_world) (hash_hex demo_deps ''tok'') = Inr ?tok"
    by (simp add: demo_defs GetAPITokenByHash_def query_def select_one_def)
  have owner: "tok_user ?tok = ''u1''" "tok_perms ?tok = [''vm.*'']"
    by (simp_all add: demo_defs)
  obtain u w' where u: "resolveBearer demo_deps demo_world ''tok'' = (Inr u, w')"
    "perms u = restrictPerms (perms demo_principal) [''vm.*'']"
    using tok owner by (simp add: resolveBearer_def Let_def demo_defs(1) buildUser_def demo_principal_def)
  have "perms u [] = Some {''vm.start''}"
    unfolding u(2) by (simp add: demo_principal_def buildUser_def restrictPerms_def
        scopeKey_def kept_grants_def permSetGrants_iff covers_def) (auto simp: append_eq_Cons_conv)
  then have can: "Can (Some u) ''vm.start'' \<lparr>sc_type = ''global'', sc_id = []\<rparr>"
    by (simp add: Can_Some_iff permSetGrants_def)
  then show ?thesis
    using u bearer_bounded [OF u(1) tok can] owner by auto
qed


subsection \<open>The mutation chain\<close>

text \<open>A mutating request of a signed-in user without the required permission, sent through
  the chain every mutation is mounted behind, is answered 403 by the middleware whatever the
  handler is; the store is unchanged except for one audit row, which names the route's action
  and records the denial.\<close>

theorem denied_mutation_audited:
  assumes "ctx_user r = Some u" "\<not> Can (Some u) perm (sf r)"
    and "''InsertAudit'' \<notin> broken (store w)"
    and "AuditWrap enc action (RequireAAL (RequirePermission perm (Some sf) h)) w r = (resp, w')"
  shows "Status resp = 403
    \<and> (\<exists>a. store w' = (store w)\<lparr>audit_log := audit_log (store w) @ [a]\<rparr>
         \<and> au_action a = action \<and> au_result a = ''denied'' \<and> au_status a = 403)"
proof -
  let ?w = "w\<lparr>audit := Some (fresh_audit action)\<rparr>"
  let ?aal = "isMutating (Method r) \<and> TOTPEnabled (row u) \<and> totpRequiredForMutations (store w)
     \<and> AMR u \<noteq> AMRPasswordTOTP"
  have st: "ErrStatus ErrForbidden = 403" "ErrStatus ErrAALRequired = 403"
    by (simp_all add: api_errors)
  have br: "''InsertAudit'' \<notin> broken (store ?w)"
    "''InsertAudit'' \<notin> broken (store (markDenied ?w perm))"
    using assms(3) by simp_all
  show ?thesis
  proof (cases ?aal)
    case True
    then have "AuditWrap enc action (RequireAAL (RequirePermission perm (Some sf) h)) w r
      = (WriteError r ErrAALRequired,
         (persistAudit enc ?w r (fresh_audit action) 403)\<lparr>audit := audit w\<rparr>)"
      using assms(1) st by (simp add: AuditWrap_def RequireAAL_def Let_def)
    then show ?thesis
      using persistAudit_log [OF br(1), of enc r "fresh_audit action" 403] assms(4) st
      by (elim exE conjE) (simp add: fresh_audit_def inferred_result_def, rule exI, auto)
  next
    case False
    let ?rec = "(fresh_audit action)\<lparr>Result := ''denied'', resultSet := True,
        Detail := put (Detail (fresh_audit action)) ''missingPermission'' (JStr perm)\<rparr>"
    have "AuditWrap enc action (RequireAAL (RequirePermission perm (Some sf) h)) w r
      = (WriteError r ErrForbidden,
         (persistAudit enc (markDenied ?w perm) r ?rec 403)\<lparr>audit := audit w\<rparr>)"
      using False assms(1,2) st by (auto simp: AuditWrap_def RequireAAL_def RequirePermission_def Let_def)
    then show ?thesis
      using persistAudit_log [OF br(2), of enc r ?rec 403] assms(4) st
      by (elim exE conjE) (simp add: fresh_audit_def, rule exI, auto)
  qed
qed

theorem denied_mutation_audited_witness:
  "\<exists>resp w' a. AuditWrap (\<lambda>_. ''{}'') ''host.delete''
       (RequireAAL (RequirePermission ''host.delete'' (Some (\<lambda>_. \<lparr>sc_type = ''host'', sc_id = ''h1''\<rparr>))
          (\<lambda>w r. (noContent, w\<lparr>store := (store w)\<lparr>users := []\<rparr>\<rparr>))))
       demo_world ((demo_request ''DELETE'' ''s1'')\<lparr>ctx_user := Some demo_principal\<rparr>) = (resp, w')
     \<and> Status resp = 403 \<and> store w' = demo_db\<lparr>audit_log := [a]\<rparr> \<and> au_result a = ''denied''"
proof -
  let ?r = "(demo_request ''DELETE'' ''s1'')\<lparr>ctx_user := Some demo_principal\<rparr>"
  let ?sf = "\<lambda>_ :: request. \<lparr>sc_type = ''host'', sc_id = ''h1''\<rparr>"
  let ?h = "\<lambda>w r. (noContent, w\<lparr>store := (store w)\<lparr>users := []\<rparr>\<rparr>)"
  have no: "\<not> Can (Some demo_principal) ''host.delete'' (?sf ?r)"
    unfolding demo_principal_def permission_check by (simp add: covers_def append_eq_Cons_conv)
  obtain resp w' where run: "AuditWrap (\<lambda>_. ''{}'') ''host.delete''
      (RequireAAL (RequirePermission ''host.delete'' (Some ?sf) ?h)) demo_world ?r = (resp, w')"
    by (rule prod.exhaust)
  have log: "audit_log demo_db = []" by (simp add: demo_db_def)
  from denied_mutation_audited [OF _ no _ run] log
  have "Status resp = 403 \<and> (\<exists>a. store w' = demo_db\<lparr>audit_log := [a]\<rparr> \<and> au_result a = ''denied'')"
    by simp blast
  with run show ?thesis by blast
qed

subsection \<open>CSRF\<close>

text \<open>A mutating request that does not carry a bearer token reaches the handler only when its
  origin is allowed and its CSRF header repeats the token stored with the caller's session; every
  other one is refused with 401 or 403 and changes nothing, whatever the handler is.\<close>

theorem csrf_refuses:
  assumes "isMutating (Method r)" "\<not> ctx_bearer r"
    and "\<not> (originAllowed d r \<and> (\<exists>u sess. ctx_user r = Some u
             \<and> GetSession (store w) (SessionHashID u) = Inr sess
             \<and> Header_Get r ''X-Castor-Csrf'' = CSRFToken sess \<and> CSRFToken sess \<noteq> []))"
  shows "\<exists>e. CSRF d h w r = (WriteError r e, w) \<and> ErrStatus e \<in> {401, 403}"
proof -
  have "ErrStatus ErrCSRFFailed = 403" "ErrStatus ErrUnauthenticated = 401"
    by (simp_all add: api_errors)
  then have "\<exists>e. CSRF d h w r = (WriteError r e, w) \<and> ErrStatus e = 403
      \<or> CSRF d h w r = (WriteError r ErrUnauthenticated, w)"
    using assms unfolding CSRF_def Let_def
    by (cases "ctx_user r"; cases "originAllowed d r") (force split: sum.splits)+
  then show ?thesis by (auto simp: api_errors)
qed

theorem csrf_refuses_witness:
  "\<exists>e. CSRF demo_deps (\<lambda>w r. (noContent, w)) demo_world
         ((demo_request ''POST'' ''s1'')\<lparr>ctx_user := Some demo_principal\<rparr>)
       = (WriteError ((demo_request ''POST'' ''s1'')\<lparr>ctx_user := Some demo_principal\<rparr>) e, demo_world)"
proof -
  let ?r = "(demo_request ''POST'' ''s1'')\<lparr>ctx_user := Some demo_principal\<rparr>"
  have "isMutating (Method ?r)" "\<not> ctx_bearer ?r" "\<not> originAllowed demo_deps ?r"
    by (simp_all add: isMutating_def originAllowed_def request_origin_def Header_Get_def
        demo_request_def Let_def)
  then show ?thesis using csrf_refuses [of ?r demo_deps demo_world "\<lambda>w r. (noContent, w)"] by blast
qed

subsection \<open>Sessions\<close>

lemma Logout_dead:
  assumes "ctx_user r = Some u" "''RevokeSession'' \<notin> broken (store w)"
  shows "dead_session (SessionHashID u) (store (snd (Logout sv w r)))"
proof -
  obtain s' where s': "RevokeSession (store w) (clock w) (SessionHashID u) = Inr s'"
    using assms(2) by (simp add: RevokeSession_def query_def)
  have "store (snd (Logout sv w r)) = s'"
    using assms(1) s' by (simp add: Logout_def Let_def or_world_def)
  then show ?thesis using RevokeSession_dead [OF s'] by simp
qed

text \<open>C5. After a logout the session's cookie never authenticates again: whatever writes follow,
  in any order (as long as no new session is created under the same 256-bit hash), the cookie
  resolves to 401.\<close>

theorem logout_is_final:
  assumes "ctx_user r = Some u" "''RevokeSession'' \<notin> broken (store w)"
    and "list_all (\<lambda>op. \<not> creates (SessionHashID u) op) ops"
    and "store w2 = db_run (store (snd (Logout sv w r))) ops"
    and "Cookies r2 ''castor_session'' = Some v" "hash_hex d v = SessionHashID u"
  shows "fst (resolveUser d w2 r2) = Inl ErrUnauthenticated"
proof -
  have "dead_session (SessionHashID u) (store w2)"
    unfolding assms(4) db_run_def by (rule dead.run_inv [OF Logout_dead [OF assms(1,2)] assms(3)])
  then show ?thesis using dead_resolveUser assms(5,6) by metis
qed

theorem logout_is_final_witness:
  "fst (resolveUser demo_deps demo_world (demo_request ''GET'' ''s1'')) \<noteq> Inl ErrUnauthenticated
   \<and> fst (resolveUser demo_deps
        (demo_world\<lparr>store := db_run (store (snd (Logout demo_server demo_world
             ((demo_request ''POST'' ''s1'')\<lparr>ctx_user := Some demo_principal\<rparr>))))
             [OpTouch 120 ''#s1'' 900, OpUpgrade ''#s1'' ''pwd+totp'']\<rparr>) (demo_request ''GET'' ''s1''))
     = Inl ErrUnauthenticated"
proof
  show "fst (resolveUser demo_deps demo_world (demo_request ''GET'' ''s1'')) \<noteq> Inl ErrUnauthenticated"
    by (simp add: resolveUser_def Let_def)
qed (rule logout_is_final [where u = demo_principal], simp_all)


lemma store_or_world: "store (or_world w res) = or_same (store w) res"
  by (simp add: or_world_def or_same_def split: sum.split)

lemma PasswordChange_success:
  assumes "PasswordChange sv hash (Inr (cur, new)) w r = (resp, w')" "Status resp = 204"
    and "ctx_user r = Some u" "''RevokeOtherUserSessions'' \<notin> broken (store w)"
  obtains h where "verify sv cur (PasswordHash (row u)) = Some True" "validatePassword new = None"
    "store w' = upd_sessions (upd_user (store w) (ID (row u))
        (\<lambda>x. x\<lparr>PasswordHash := h, MustChangePW := False, UpdatedAt := clock w\<rparr>))
        (\<lambda>x. sess_user x = ID (row u) \<and> sess_id x \<noteq> SessionHashID u \<and> RevokedAt x = None)
        (\<lambda>x. x\<lparr>RevokedAt := Some (clock w)\<rparr>)"
proof -
  have st: "ErrStatus ErrUnauthenticated = 401" "ErrStatus ErrInternal = 500"
    by (simp_all add: api_errors)
  have val: "validatePassword new = Some e \<Longrightarrow> ErrStatus e = 422" for e
    unfolding validatePassword_def by (simp split: if_splits) (drule sym, simp add: api_errors)+
  note run = assms(1)[unfolded PasswordChange_def]
  have v: "verify sv cur (PasswordHash (row u)) = Some True"
  proof (rule ccontr)
    assume "verify sv cur (PasswordHash (row u)) \<noteq> Some True"
    with run assms(3) have "resp = WriteError r ErrUnauthenticated" by simp
    with st assms(2) show False by simp
  qed
  have p: "validatePassword new = None"
  proof (rule ccontr)
    assume "validatePassword new \<noteq> None"
    then obtain e where "validatePassword new = Some e" by blast
    moreover from this run v assms(3) have "resp = WriteError r e" by simp
    ultimately show False using val assms(2) by simp
  qed
  have "hash \<noteq> None"
    using run v p assms(2,3) st by (cases hash) auto
  then obtain h where h: "hash = Some h" by blast
  obtain s1 where s: "SetPasswordHash (store w) (clock w) (ID (row u)) h = Inr s1"
    using run v p h assms(2,3) st by (cases "SetPasswordHash (store w) (clock w) (ID (row u)) h") auto
  have w': "w' = or_world (w\<lparr>store := s1\<rparr>) (RevokeOtherUserSessions s1 (clock w) (ID (row u)) (SessionHashID u))"
    using run v p h s assms(3) by simp
  note ok = v p s w'
  have s1: "s1 = upd_user (store w) (ID (row u))
        (\<lambda>x. x\<lparr>PasswordHash := h, MustChangePW := False, UpdatedAt := clock w\<rparr>)"
    using ok(3) by (simp add: SetPasswordHash_def query_def split: if_splits)
  then have "broken s1 = broken (store w)" by (simp add: upd_user_def)
  then show thesis using that [OF ok(1,2), of h] assms(4) ok(4) s1
    by (simp add: store_or_world or_same_def RevokeOtherUserSessions_def query_def)
qed

lemma distinct_key_eq: "distinct (map f xs) \<Longrightarrow> x \<in> set xs \<Longrightarrow> y \<in> set xs \<Longrightarrow> f x = f y \<Longrightarrow> x = y"
  by (simp add: distinct_map inj_on_def)

lemma find_update_untouched:
  assumes "\<And>x. find Q xs = Some x \<Longrightarrow> \<not> P x"
    and "find Q (update_where P f xs) = map_option (\<lambda>x. if P x then f x else x) (find Q xs)"
  shows "find Q (update_where P f xs) = find Q xs"
  using assms by (cases "find Q xs") simp_all

lemma revoke_others_keeps:
  "find (\<lambda>x. sess_id x = k) (update_where (\<lambda>x. sess_user x = i \<and> sess_id x \<noteq> k \<and> RevokedAt x = None)
      (\<lambda>x. x\<lparr>RevokedAt := t\<rparr>) xs) = find (\<lambda>x. sess_id x = k) xs"
  by (rule find_update_untouched [OF _ revoke.find_update_where]) (drule find_SomeD, simp)

text \<open>A successful password change cuts off every other session of the user: a cookie of
  another session of the same account does not authenticate any more, while the session that made
  the change is still there as it was.\<close>

theorem password_change_kills_others:
  assumes "PasswordChange sv hash (Inr (cur, new)) w r = (resp, w')" "Status resp = 204"
    and "ctx_user r = Some u" "''RevokeOtherUserSessions'' \<notin> broken (store w)"
    and "GetSession (store w) (hash_hex d v) = Inr sess" "sess_user sess = ID (row u)"
    and "hash_hex d v \<noteq> SessionHashID u" "store_ok (store w)"
    and "Cookies r2 ''castor_session'' = Some v" "store w2 = store w'"
  shows "fst (resolveUser d w2 r2) = Inl ErrUnauthenticated
    \<and> GetSession (store w') (SessionHashID u) = GetSession (store w) (SessionHashID u)"
  using assms(1-4)
proof (cases rule: PasswordChange_success)
  case (1 h)
  let ?s = "upd_user (store w) (ID (row u))
        (\<lambda>x. x\<lparr>PasswordHash := h, MustChangePW := False, UpdatedAt := clock w\<rparr>)"
  have dist: "distinct (map sess_id (sessions (store w)))" using assms(8) by (simp add: store_ok_def)
  have "sess_user x = ID (row u)" if "sess_id x = hash_hex d v" "x \<in> set (sessions ?s)" for x
    using distinct_key_eq [OF dist, of x sess] that GetSession_InrD [OF assms(5)] assms(6) by simp
  then have "dead_session (hash_hex d v) (store w2)"
    unfolding assms(10) 1(3) using assms(7) by (intro revoke_dead) simp
  then have "fst (resolveUser d w2 r2) = Inl ErrUnauthenticated" using assms(9) by (rule dead_resolveUser)
  moreover have "GetSession (store w') (SessionHashID u) = GetSession (store w) (SessionHashID u)"
    unfolding 1(3) GetSession_def query_def select_one_def upd_sessions_def upd_user_def
    by (simp add: revoke_others_keeps)
  ultimately show ?thesis by simp
qed

theorem password_change_kills_others_witness:
  "fst (resolveUser demo_deps
      (snd (PasswordChange demo_server (Some ''argon2'') (Inr (''right'', ''correct horse''))
         demo_world ((demo_request ''POST'' ''s1'')\<lparr>ctx_user := Some demo_principal\<rparr>)))
      (demo_request ''GET'' ''s2'')) = Inl ErrUnauthenticated"
proof -
  let ?r = "(demo_request ''POST'' ''s1'')\<lparr>ctx_user := Some demo_principal\<rparr>"
  obtain resp w' where run: "PasswordChange demo_server (Some ''argon2'')
      (Inr (''right'', ''correct horse'')) demo_world ?r = (resp, w')" by (rule prod.exhaust)
  moreover have "Status resp = 204"
    using run by (simp add: PasswordChange_def demo_server_def validatePassword_def SetPasswordHash_def
        query_def noContent_def) (elim conjE, drule sym, simp)
  ultimately show ?thesis
    using password_change_kills_others [OF run, of demo_principal demo_deps "''s2''"
        "demo_session ''#s2'' ''u1''" "demo_request ''GET'' ''s2''" w'] demo_store_ok by simp
qed

subsection \<open>The absolute session lifetime\<close>

text \<open>No session may outlive its creation by more than the absolute lifetime.\<close>

definition sess_capped :: "deps \<Rightarrow> db \<Rightarrow> bool" where
  "sess_capped d s \<longleftrightarrow> (\<forall>r \<in> set (sessions s). ExpiresAt r \<le> sess_created r + absoluteTTL d div second)"

lemma sess_capped_upd:
  assumes "sess_capped d s" "distinct (map sess_id (sessions s))"
    and "sess \<in> set (sessions s)"
    and "e \<le> sess_created sess + absoluteTTL d div second"
  shows "sess_capped d (upd_sessions s (\<lambda>x. sess_id x = sess_id sess)
           (\<lambda>x. x\<lparr>LastSeenAt := t, ExpiresAt := e\<rparr>))"
  unfolding sess_capped_def
proof
  fix x
  assume "x \<in> set (sessions (upd_sessions s (\<lambda>x. sess_id x = sess_id sess)
           (\<lambda>x. x\<lparr>LastSeenAt := t, ExpiresAt := e\<rparr>)))"
  then show "ExpiresAt x \<le> sess_created x + absoluteTTL d div second"
  proof (cases rule: upd_sessions_cases)
    case kept
    then show ?thesis using assms(1) unfolding sess_capped_def by blast
  next
    case (changed r)
    have "r = sess" by (rule distinct_key_eq [OF assms(2) changed(1) assms(3) changed(2)])
    then show ?thesis using assms(4) unfolding changed(3) by simp
  qed
qed

definition capped_ok :: "deps \<Rightarrow> world \<Rightarrow> bool" where
  "capped_ok d w \<longleftrightarrow> sess_capped d (store w) \<and> distinct (map sess_id (sessions (store w)))"

lemma sessions_distinct_touch:
  "distinct (map sess_id (sessions (upd_sessions s P (\<lambda>x. x\<lparr>LastSeenAt := t, ExpiresAt := e\<rparr>))))
     = distinct (map sess_id (sessions s))"
  by (simp add: upd_sessions_def touch.keys_update)

lemma resolveUser_capped:
  assumes "capped_ok d w"
  shows "capped_ok d (snd (resolveUser d w r))"
proof (cases "resolveUser d w r")
  case (Pair res w')
  show ?thesis
  proof (cases res)
    case (Inl e)
    with Pair have "w' = w" by (simp add: resolveUser_Inl_world)
    with Pair assms show ?thesis by simp
  next
    case (Inr u)
    with Pair have "resolveUser d w r = (Inr u, w')" by simp
    then show ?thesis
    proof (cases rule: resolveUser_Inr)
      case (1 v sess su rs)
      note sess = GetSession_InrD [OF 1(3)]
      have "capped_ok d (w\<lparr>store := upd_sessions (store w) (\<lambda>x. sess_id x = hash_hex d v)
        (\<lambda>x. x\<lparr>LastSeenAt := clock w, ExpiresAt := sliding_expiry d (store w) (clock w) sess\<rparr>)\<rparr>)"
        using assms sess_capped_upd [of d "store w" sess "sliding_expiry d (store w) (clock w) sess" "clock w"]
          sess sliding_expiry_cap
        by (simp add: capped_ok_def sessions_distinct_touch)
      with assms 1(10) Pair show ?thesis by (elim disjE) simp_all
    qed
  qed
qed

text \<open>A sequence of requests, each at its own time, that all go through \<open>resolveUser\<close>.\<close>

definition auth_requests :: "deps \<Rightarrow> world \<Rightarrow> (int \<times> request) list \<Rightarrow> world" where
  "auth_requests d w reqs = foldl (\<lambda>w (t, r). snd (resolveUser d (w\<lparr>clock := t\<rparr>) r)) w reqs"

interpretation capped: run_invariant
    "\<lambda>w (t, r). snd (resolveUser d (w\<lparr>clock := t\<rparr>) r)" "\<lambda>_. True" "capped_ok d" for d
proof (unfold_locales, clarify)
  show "capped_ok d (snd (resolveUser d (w\<lparr>clock := t\<rparr>) r))" if "capped_ok d w" for d w t r
    using that by (intro resolveUser_capped) (simp add: capped_ok_def)
qed

lemma touch_GetSession:
  assumes "GetSession s h = Inr sess"
  obtains sess' where "GetSession (upd_sessions s P (\<lambda>x. x\<lparr>LastSeenAt := t, ExpiresAt := e\<rparr>)) h = Inr sess'"
    "sess_created sess' = sess_created sess"
proof -
  have nb: "''GetSession'' \<notin> broken s" and f: "find (\<lambda>x. sess_id x = h) (sessions s) = Some sess"
    using assms by (simp_all add: GetSession_def query_def select_one_def split: if_splits option.splits)
  let ?x = "if P sess then sess\<lparr>LastSeenAt := t, ExpiresAt := e\<rparr> else sess"
  have "GetSession (upd_sessions s P (\<lambda>x. x\<lparr>LastSeenAt := t, ExpiresAt := e\<rparr>)) h = Inr ?x"
    using nb f by (simp add: GetSession_def query_def select_one_def upd_sessions_def touch.find_update_where)
  then show thesis by (rule that) simp
qed

lemma resolveUser_keeps_created:
  assumes "GetSession (store w) h = Inr sess"
  shows "\<exists>sess'. GetSession (store (snd (resolveUser d w r))) h = Inr sess' \<and> sess_created sess' = sess_created sess"
proof (cases "resolveUser d w r")
  case (Pair res w')
  show ?thesis
  proof (cases res)
    case (Inl e)
    with Pair have "w' = w" by (simp add: resolveUser_Inl_world)
    with Pair assms show ?thesis by simp
  next
    case (Inr u)
    with Pair have "resolveUser d w r = (Inr u, w')" by simp
    then show ?thesis
    proof (cases rule: resolveUser_Inr)
      case (1 v x su rs)
      let ?P = "\<lambda>x. sess_id x = hash_hex d v"
      obtain sess' where "GetSession (upd_sessions (store w) ?P (\<lambda>y. y\<lparr>LastSeenAt := clock w,
          ExpiresAt := sliding_expiry d (store w) (clock w) x\<rparr>)) h = Inr sess'"
        "sess_created sess' = sess_created sess" by (rule touch_GetSession [OF assms])
      with 1(10) assms Pair show ?thesis by (elim disjE) simp_all
    qed
  qed
qed

interpretation created: run_invariant
    "\<lambda>(w :: world) (t, r). snd (resolveUser d (w\<lparr>clock := t\<rparr>) r)" "\<lambda>_. True"
    "\<lambda>w. \<exists>sess. GetSession (store w) h = Inr sess \<and> sess_created sess = c" for d h c
proof (unfold_locales, clarify)
  fix d h c w t r sess
  assume "GetSession (store (w :: world)) h = Inr sess"
  then show "\<exists>sess'. GetSession (store (snd (resolveUser d (w\<lparr>clock := t\<rparr>) r))) h = Inr sess'
      \<and> sess_created sess' = sess_created sess"
    using resolveUser_keeps_created [of "w\<lparr>clock := t\<rparr>" h sess d r] by simp
qed



subsection \<open>Login\<close>

interpretation name_lock: keyed_update Username
    "\<lambda>u. u\<lparr>FailedLogins := n, LockedUntil := l, UpdatedAt := now\<rparr>" for n l now
  by unfold_locales simp

interpretation name_login: keyed_update Username
    "\<lambda>u. u\<lparr>FailedLogins := 0, LockedUntil := None, LastLoginAt := l, UpdatedAt := now\<rparr>" for l now
  by unfold_locales simp

text \<open>The account \<open>u\<close> is found by name and by id, with \<open>k\<close> failures and the lock \<open>l\<close>.\<close>

definition account :: "user_row \<Rightarrow> int \<Rightarrow> int option \<Rightarrow> db \<Rightarrow> bool" where
  "account u k l s \<longleftrightarrow> (\<exists>x. find (\<lambda>v. Username v = Username u) (users s) = Some x
     \<and> find (\<lambda>v. ID v = ID u) (users s) = Some x \<and> IsActive x = IsActive u
     \<and> PasswordHash x = PasswordHash u \<and> FailedLogins x = k \<and> LockedUntil x = l
     \<and> broken s \<inter> {''GetUserByUsername'', ''RecordLoginFailure''} = {})"

lemma accountE:
  assumes "account u k l s"
  obtains x where "find (\<lambda>v. Username v = Username u) (users s) = Some x"
    "find (\<lambda>v. ID v = ID u) (users s) = Some x" "IsActive x = IsActive u"
    "PasswordHash x = PasswordHash u" "FailedLogins x = k" "LockedUntil x = l"
    "''GetUserByUsername'' \<notin> broken s" "''RecordLoginFailure'' \<notin> broken s" "ID x = ID u"
    "GetUserByUsername s (Username u) = Inr x"
proof -
  obtain x where x: "find (\<lambda>v. Username v = Username u) (users s) = Some x"
    "find (\<lambda>v. ID v = ID u) (users s) = Some x" "IsActive x = IsActive u"
    "PasswordHash x = PasswordHash u" "FailedLogins x = k" "LockedUntil x = l"
    "broken s \<inter> {''GetUserByUsername'', ''RecordLoginFailure''} = {}"
    using assms unfolding account_def by (elim exE conjE)
  have "ID x = ID u" using find_SomeD [OF x(2)] by simp
  moreover have "GetUserByUsername s (Username u) = Inr x"
    using x(1,7) by (simp add: GetUserByUsername_def query_def select_one_def)
  ultimately show thesis using that x by simp
qed

lemma failed_login_step:
  assumes acc: "account u k None (store w)" and act: "IsActive u"
    and wrong: "verify sv (req_password req) (PasswordHash u) \<noteq> Some True"
    and name: "req_username req = Username u"
  shows "account u (k + 1) (if 5 \<le> k + 1 then Some (clock w + 900) else None)
           (store (snd (Login sv rnd (Inr req) w r)))"
  using acc
proof (cases rule: accountE)
  case (1 x)
  let ?l = "if 5 \<le> k + 1 then Some (clock w + 900) else None"
  let ?f = "\<lambda>v. v\<lparr>FailedLogins := k + 1, LockedUntil := ?l, UpdatedAt := clock w\<rparr>"
  have lock: "go_div loginLockDuration second = 900"
    by (simp add: loginLockDuration_def go_div_def)
  have rec: "RecordLoginFailure (store w) (clock w) (ID u) loginFailThreshold loginLockDuration
      = Inr (k + 1, upd_user (store w) (ID u) ?f)"
    using 1 by (simp add: RecordLoginFailure_def query_def Let_def lock loginFailThreshold_def)
  have st: "store (snd (Login sv rnd (Inr req) w r)) = upd_user (store w) (ID u) ?f"
    using 1 act wrong name rec by (simp add: Login_def Let_def)
  have f: "find (\<lambda>v. Username v = Username u) (users (upd_user (store w) (ID u) ?f)) = Some (?f x)"
    "find (\<lambda>v. ID v = ID u) (users (upd_user (store w) (ID u) ?f)) = Some (?f x)"
    using 1 by (simp_all add: upd_user_def name_lock.find_update_where user_lock.find_update_same)
  show ?thesis unfolding st account_def
    by (rule exI [of _ "?f x"]) (use 1 f in \<open>simp add: upd_user_def\<close>)
qed

definition login_attempts ::
  "server \<Rightarrow> request \<Rightarrow> world \<Rightarrow> (int \<times> (string \<times> string) option \<times> login_request) list \<Rightarrow> world" where
  "login_attempts sv r w as = foldl (\<lambda>w (t, rnd, req). snd (Login sv rnd (Inr req) (w\<lparr>clock := t\<rparr>) r)) w as"

definition wrong_attempts where
  "wrong_attempts sv u as \<longleftrightarrow> list_all (\<lambda>(t :: int, rnd :: (string \<times> string) option, req).
     req_username req = Username u \<and> verify sv (req_password req) (PasswordHash u) \<noteq> Some True) as"

lemma failed_logins:
  "account u k None (store w) \<Longrightarrow> IsActive u \<Longrightarrow> wrong_attempts sv u as \<Longrightarrow> k + int (length as) < 5
     \<Longrightarrow> account u (k + int (length as)) None (store (login_attempts sv r w as))"
proof (induction as arbitrary: w k)
  case Nil
  then show ?case by (simp add: login_attempts_def)
next
  case (Cons a as)
  obtain t rnd req where a: "a = (t, rnd, req)" by (rule prod_cases3)
  let ?w = "snd (Login sv rnd (Inr req) (w\<lparr>clock := t\<rparr>) r)"
  have "account u (k + 1) None (store ?w)"
    using failed_login_step [of u k "w\<lparr>clock := t\<rparr>" sv req rnd r] Cons.prems a
    by (simp add: wrong_attempts_def)
  then have "account u (k + 1 + int (length as)) None (store (login_attempts sv r ?w as))"
    using Cons.prems by (intro Cons.IH) (simp_all add: wrong_attempts_def)
  then show ?case by (simp add: login_attempts_def a ac_simps)
qed

text \<open>C8. Five wrong passwords in a row lock the account: for 15 minutes after the fifth attempt a
  login with any password, the right one included, is answered 403 \<open>account_locked\<close> and changes
  nothing.\<close>

theorem lockout_after_five:
  assumes "account u 0 None (store w)" "IsActive u" "wrong_attempts sv u as" "length as = 5"
    and "now < fst (last as) + 900" "req_username req = Username u"
    and "w5 = (login_attempts sv r w as)\<lparr>clock := now\<rparr>"
  shows "Login sv rnd (Inr req) w5 r = (WriteError r ErrAccountLocked, w5)"
proof -
  obtain bs a where "as = bs @ [a]" using assms(4) by (cases as rule: rev_cases) auto
  then obtain t rnd' req' where as: "as = bs @ [(t, rnd', req')]" by (cases a) blast
  let ?w = "login_attempts sv r w bs"
  have wr: "wrong_attempts sv u bs" "wrong_attempts sv u [(t, rnd', req')]"
    using assms(3) unfolding as wrong_attempts_def by simp_all
  have "account u 4 None (store ?w)"
    using failed_logins [OF assms(1,2) wr(1), of r] assms(4) as by simp
  then have "account u 5 (Some (t + 900)) (store (snd (Login sv rnd' (Inr req') (?w\<lparr>clock := t\<rparr>) r)))"
    using failed_login_step [of u 4 "?w\<lparr>clock := t\<rparr>" sv req' rnd' r] wr(2) assms(2)
    by (simp add: wrong_attempts_def)
  moreover have "login_attempts sv r w as = snd (Login sv rnd' (Inr req') (?w\<lparr>clock := t\<rparr>) r)"
    by (simp add: as login_attempts_def)
  ultimately have "account u 5 (Some (t + 900)) (store w5)" unfolding assms(7) by simp
  then show ?thesis
  proof (cases rule: accountE)
    case (1 x)
    moreover have "clock w5 = now" "now < t + 900" using assms(5,7) as by simp_all
    ultimately show ?thesis using assms(6) by (simp add: Login_def Let_def)
  qed
qed

theorem lockout_after_five_witness:
  "fst (Login demo_server (Some (''raw'', ''c'')) (Inr \<lparr>req_username = ''ann'', req_password = ''right''\<rparr>)
     ((login_attempts demo_server (demo_request ''POST'' []) demo_world
         (replicate 5 (100, None, \<lparr>req_username = ''ann'', req_password = ''wrong''\<rparr>)))\<lparr>clock := 999\<rparr>)
     (demo_request ''POST'' []))
   = WriteError (demo_request ''POST'' []) ErrAccountLocked"
proof -
  let ?as = "replicate 5 (100, None, \<lparr>req_username = ''ann'', req_password = ''wrong''\<rparr>)"
  have "account (demo_user ''u1'' ''ann'') 0 None (store demo_world)"
    by (simp add: account_def demo_db_def demo_user_def)
  moreover have "Username (demo_user ''u1'' ''ann'') = ''ann''" by (simp add: demo_user_def)
  moreover have "wrong_attempts demo_server (demo_user ''u1'' ''ann'') ?as"
    using calculation(2) by (simp add: wrong_attempts_def demo_server_def numeral_eq_Suc)
  ultimately show ?thesis
    using lockout_after_five [of "demo_user ''u1'' ''ann''" demo_world demo_server ?as 999
        "\<lparr>req_username = ''ann'', req_password = ''right''\<rparr>"] by simp
qed

lemma RecordLoginSuccess_users:
  "RecordLoginSuccess s now i = Inr s' \<Longrightarrow>
     s' = upd_user s i (\<lambda>u. u\<lparr>FailedLogins := 0, LockedUntil := None, LastLoginAt := Some now, UpdatedAt := now\<rparr>)"
  by (simp add: RecordLoginSuccess_def query_def split: if_splits)

lemma Login_success:
  assumes "Login sv (Some (raw, csrf)) (Inr req) w r = (resp, w')" "Status resp = 200"
  obtains u sess where "GetUserByUsername (store w) (req_username req) = Inr u" "IsActive u"
    "verify sv (req_password req) (PasswordHash u) = Some True"
    "mintSession sv (or_world w (RecordLoginSuccess (store w) (clock w) (ID u))) r (Some (raw, csrf))
       (ID u) AMRPassword = Some (sess, w')"
    "SetCookies resp = [(''castor_session'', raw), (''castor_csrf'', CSRFToken sess)]"
proof -
  have st: "ErrStatus ErrUnauthenticated = 401" "ErrStatus ErrAccountLocked = 403" "ErrStatus ErrInternal = 500"
    by (simp_all add: api_errors)
  note run = assms(1)[unfolded Login_def Let_def]
  obtain u where u: "GetUserByUsername (store w) (req_username req) = Inr u"
    using run assms(2) st by (cases "GetUserByUsername (store w) (req_username req)") auto
  have nl: "\<not> (case LockedUntil u of None \<Rightarrow> False | Some t \<Rightarrow> t > clock w)"
    using run assms(2) st u by (cases "case LockedUntil u of None \<Rightarrow> False | Some t \<Rightarrow> t > clock w") auto
  have act: "IsActive u"
    using run assms(2) st u nl by (cases "IsActive u") auto
  have ver: "verify sv (req_password req) (PasswordHash u) = Some True"
    using run assms(2) st u nl act
    by (cases "verify sv (req_password req) (PasswordHash u) = Some True") auto
  let ?w1 = "or_world w (RecordLoginSuccess (store w) (clock w) (ID u))"
  obtain sess w2 where m: "mintSession sv ?w1 r (Some (raw, csrf)) (ID u) AMRPassword = Some (sess, w2)"
    using run assms(2) st u nl act ver
    by (cases "mintSession sv ?w1 r (Some (raw, csrf)) (ID u) AMRPassword") auto
  then have "w2 = w'" "SetCookies resp = [(''castor_session'', raw), (''castor_csrf'', CSRFToken sess)]"
    using run u nl act ver by auto
  with m show thesis using that [OF u act ver] by simp
qed

lemma find_append_fresh:
  "find P xs = None \<Longrightarrow> P x \<Longrightarrow> find P (xs @ [x]) = Some x"
  by (induction xs) auto

lemma mintSession_Some:
  assumes "mintSession sv w r (Some (raw, csrf)) i amr = Some (sess, w')"
  shows "find (\<lambda>x. sess_id x = sess_id sess) (sessions (store w)) = None"
    and "w' = w\<lparr>store := (store w)\<lparr>sessions := sessions (store w) @ [sess]\<rparr>\<rparr>"
    and "sess = \<lparr>sess_id = hash_hex (sdeps sv) raw, sess_user = i, CSRFToken = csrf,
           UserAgent = Header_Get r ''User-Agent'', sess_ip = RemoteAddr r, sess_amr = amr,
           sess_created = clock w, LastSeenAt = clock w,
           ExpiresAt = clock w + go_div (SessionTTL (sdeps sv)) second, RevokedAt = None\<rparr>"
proof -
  let ?sess = "\<lparr>sess_id = hash_hex (sdeps sv) raw, sess_user = i, CSRFToken = csrf,
           UserAgent = Header_Get r ''User-Agent'', sess_ip = RemoteAddr r, sess_amr = amr,
           sess_created = clock w, LastSeenAt = clock w,
           ExpiresAt = clock w + go_div (SessionTTL (sdeps sv)) second, RevokedAt = None\<rparr>"
  obtain s' where c: "CreateSession (store w) ?sess = Inr s'" and w': "sess = ?sess" "w' = w\<lparr>store := s'\<rparr>"
    using assms by (cases "CreateSession (store w) ?sess") (simp_all add: mintSession_def Let_def)
  show "find (\<lambda>x. sess_id x = sess_id sess) (sessions (store w)) = None"
    using CreateSession_Inr(2) [OF c] w'(1) by simp
  show "w' = w\<lparr>store := (store w)\<lparr>sessions := sessions (store w) @ [sess]\<rparr>\<rparr>"
    using CreateSession_Inr(1) [OF c] w' by simp
  show "sess = ?sess" by (rule w'(1))
qed

text \<open>A successful login hands out a cookie under which the very next request is authenticated
  as the user who logged in, with the password-only assurance level and the permissions of the
  user's roles.\<close>

theorem login_then_authenticated:
  assumes "Login sv (Some (raw, csrf)) (Inr req) w r = (resp, w')" "Status resp = 200"
    and "broken (store w) = {}" "0 \<le> SessionTTL (sdeps sv)" "raw \<noteq> []"
    and "Cookies r2 ''castor_session'' = Some raw"
    and "GetUserByUsername (store w) (req_username req) = Inr u"
    and "GetUserByID (store w) (ID u) = Inr u"
  shows "\<exists>x rs. fst (resolveUser (sdeps sv) w' r2) = Inr (buildUser x (hash_hex (sdeps sv) raw) AMRPassword rs)
    \<and> ID x = ID u \<and> Username x = Username u
    \<and> EffectiveRolesForUser (store w) (ID u) = Inr rs"
  using assms(1,2)
proof (cases rule: Login_success)
  case (1 u' sess)
  have u': "u' = u" using 1(1) assms(7) by simp
  let ?f = "\<lambda>v. v\<lparr>FailedLogins := 0, LockedUntil := None, LastLoginAt := Some (clock w), UpdatedAt := clock w\<rparr>"
  let ?w1 = "or_world w (RecordLoginSuccess (store w) (clock w) (ID u))"
  have w1: "?w1 = w\<lparr>store := upd_user (store w) (ID u) ?f\<rparr>"
    using assms(3) by (simp add: or_world_def RecordLoginSuccess_def query_def)
  note m = mintSession_Some [OF 1(4) [unfolded u']]
  have found: "find (\<lambda>v. ID v = ID u) (users (store w)) = Some u"
    using assms(8) by (simp add: GetUserByID_def query_def select_one_def split: if_splits option.splits)
  have "find (\<lambda>v. ID v = ID u) (users (store w')) = Some (?f u)"
    using found unfolding m(2) w1 by (simp add: upd_user_def user_login.find_update_same)
  then have us: "GetUserByID (store w') (ID u) = Inr (?f u)"
    using assms(3) unfolding m(2) w1
    by (simp add: GetUserByID_def query_def select_one_def upd_user_def)
  have "find (\<lambda>x. sess_id x = sess_id sess) (sessions (store w')) = Some sess"
    unfolding m(2) using find_append_fresh [OF m(1)] by simp
  moreover have ck: "clock w' = clock w" "clock ?w1 = clock w"
    unfolding m(2) w1 by simp_all
  moreover have sid: "sess_id sess = hash_hex (sdeps sv) raw" "sess_user sess = ID u"
      "sess_amr sess = AMRPassword" "RevokedAt sess = None" "clock w' \<le> ExpiresAt sess"
    using assms(4) unfolding m(3) ck by (simp_all add: go_div_pos ck)
  ultimately have se: "GetSession (store w') (hash_hex (sdeps sv) raw) = Inr sess"
    using assms(3) unfolding m(2) w1 by (simp add: GetSession_def query_def select_one_def upd_user_def)
  have ro: "EffectiveRolesForUser (store w') (ID u) = EffectiveRolesForUser (store w) (ID u)"
    unfolding m(2) w1 by (simp add: EffectiveRolesForUser_def query_def upd_user_def)
  obtain rs where rs: "EffectiveRolesForUser (store w) (ID u) = Inr rs"
    using assms(3) by (simp add: EffectiveRolesForUser_def query_def)
  have "fst (resolveUser (sdeps sv) w' r2) = Inr (buildUser (?f u) (hash_hex (sdeps sv) raw) AMRPassword rs)"
    using assms(5,6) se us sid ro rs 1(2) u' by (simp add: resolveUser_def Let_def)
  then show ?thesis using rs by (intro exI [of _ "?f u"] exI [of _ rs]) simp
qed

theorem login_then_authenticated_witness:
  "\<exists>p. fst (resolveUser demo_deps (snd (Login demo_server (Some (''s9'', ''c''))
        (Inr \<lparr>req_username = ''ann'', req_password = ''right''\<rparr>) demo_world (demo_request ''POST'' [])))
        (demo_request ''GET'' ''s9'')) = Inr p \<and> ID (row p) = ''u1'' \<and> AMR p = ''pwd''"
proof -
  let ?req = "\<lparr>req_username = ''ann'', req_password = ''right''\<rparr>"
  obtain resp w' where run: "Login demo_server (Some (''s9'', ''c'')) (Inr ?req) demo_world
      (demo_request ''POST'' []) = (resp, w')" by (rule prod.exhaust)
  have "Status (fst (Login demo_server (Some (''s9'', ''c'')) (Inr ?req) demo_world (demo_request ''POST'' []))) = 200"
    by (simp add: Login_def Let_def demo_defs GetUserByUsername_def query_def select_one_def or_world_def
        RecordLoginSuccess_def mintSession_def CreateSession_def upd_user_def update_where_def)
  then have "Status resp = 200" using run by simp
  moreover have "SessionTTL (sdeps demo_server) = 600 * second" by (simp add: demo_defs)
  ultimately show ?thesis
    using login_then_authenticated [OF run, of "demo_request ''GET'' ''s9''" "demo_user ''u1'' ''ann''"]
    by (simp add: run buildUser_def AMRPassword_def) (elim exE conjE, simp)
qed

subsection \<open>Recovery codes, audit redaction, self-protection\<close>

lemma length_filter_update_one:
  assumes "distinct (map key rs)" "find (\<lambda>r. key r = k \<and> Q r) rs = Some x"
    and "\<And>r. key (f r) = key r" "\<And>r. \<not> Q (f r)" "\<And>r. U (f r) = U r" "U x"
  shows "length (filter (\<lambda>r. U r \<and> Q r) rs)
    = Suc (length (filter (\<lambda>r. U r \<and> Q r) (update_where (\<lambda>r. key r = k \<and> Q r) f rs)))"
  using assms(1,2)
proof (induction rs)
  case Nil
  then show ?case by simp
next
  case (Cons r rs)
  show ?case
  proof (cases "key r = k \<and> Q r")
    case True
    then have "x = r" using Cons.prems(2) by simp
    have "update_where (\<lambda>r. key r = k \<and> Q r) f rs = rs"
      unfolding update_where_def
    proof (rule map_idI)
      fix y
      assume "y \<in> set rs"
      then have "key y \<noteq> key r" using Cons.prems(1) by (metis distinct.simps(2) image_eqI list.map(2) set_map)
      then show "(if key y = k \<and> Q y then f y else y) = y" using True by simp
    qed
    then show ?thesis using True assms(4,6) \<open>x = r\<close> by (simp add: update_where_def)
  next
    case False
    then have "find (\<lambda>r. key r = k \<and> Q r) rs = Some x" using Cons.prems(2) by auto
    from Cons.IH [OF _ this] Cons.prems(1) False show ?thesis
      by (auto simp: update_where_def)
  qed
qed

definition unused_codes :: "db \<Rightarrow> string \<Rightarrow> nat" where
  "unused_codes s uid = length (filter (\<lambda>r. rc_user r = uid \<and> UsedAt r = None) (recovery s))"

lemma Consume_one:
  assumes "ConsumeRecoveryCode s now i = Inr s'" "distinct (map rc_id (recovery s))"
    and "x \<in> set (recovery s)" "rc_id x = i" "rc_user x = uid"
  shows "unused_codes s uid = Suc (unused_codes s' uid)"
proof -
  obtain y where y: "find (\<lambda>r. rc_id r = i \<and> UsedAt r = None) (recovery s) = Some y"
    and s': "s' = s\<lparr>recovery := update_where (\<lambda>r. rc_id r = i \<and> UsedAt r = None)
                     (\<lambda>r. r\<lparr>UsedAt := Some now\<rparr>) (recovery s)\<rparr>"
    using assms(1) by (simp add: ConsumeRecoveryCode_def query_def Let_def split: if_splits)
      (elim exE conjE, drule sym, simp)
  have "y = x" by (rule distinct_key_eq [OF assms(2)]) (use find_SomeD [OF y] assms(3,4) in simp_all)
  then show ?thesis unfolding unused_codes_def s'
    using length_filter_update_one [OF assms(2) y, of "\<lambda>r. r\<lparr>UsedAt := Some now\<rparr>" "\<lambda>r. rc_user r = uid"]
      assms(5) by simp
qed

lemma try_recovery_one:
  assumes "try_recovery sv code rcs w = (True, w')" "distinct (map rc_id (recovery (store w)))"
    and "set rcs \<subseteq> {r \<in> set (recovery (store w)). rc_user r = uid}"
  shows "unused_codes (store w) uid = Suc (unused_codes (store w') uid)
    \<and> (\<exists>rc \<in> set rcs. verify sv code (CodeHash rc) = Some True)"
  using assms
proof (induction rcs)
  case Nil
  then show ?case by simp
next
  case (Cons rc rcs)
  show ?case
  proof (cases "verify sv code (CodeHash rc) = Some True")
    case True
    show ?thesis
    proof (cases "ConsumeRecoveryCode (store w) (clock w) (rc_id rc)")
      case (Inl e)
      with True Cons show ?thesis by simp
    next
      case (Inr s')
      with True Cons.prems(1) have "w' = w\<lparr>store := s'\<rparr>" by simp
      then show ?thesis using Consume_one [OF Inr Cons.prems(2), of rc uid] Cons.prems(3) True by simp
    qed
  next
    case False
    with Cons show ?thesis by simp
  qed
qed

text \<open>C10. A second factor that is not a valid time-based code is accepted only if it matches an
  unused recovery code of the user, and each acceptance uses up exactly one of them.\<close>

theorem recovery_code_single_use:
  assumes "verifyTOTPOrRecovery sv w u code = (True, w')"
    and "\<And>sec. open_secret sv (TOTPSecretEnc (row u)) = Some sec \<Longrightarrow>
           \<not> validate_totp sv (trim_space code) sec (clock w)"
    and "distinct (map rc_id (recovery (store w)))"
  shows "unused_codes (store w) (ID (row u)) = Suc (unused_codes (store w') (ID (row u)))"
proof -
  obtain codes where codes: "ListUnusedRecoveryCodes (store w) (ID (row u)) = Inr codes"
    and run: "try_recovery sv (trim_space code) codes w = (True, w')"
    using assms(1,2) unfolding verifyTOTPOrRecovery_def Let_def
    by (simp split: if_splits option.splits sum.splits)
  have "set codes \<subseteq> {r \<in> set (recovery (store w)). rc_user r = ID (row u)}"
    using codes by (simp add: ListUnusedRecoveryCodes_def query_def split: if_splits) (drule sym, simp add: subset_iff)
  then show ?thesis using try_recovery_one [OF run assms(3)] by simp
qed

theorem recovery_code_single_use_witness:
  "\<exists>w'. verifyTOTPOrRecovery (demo_server\<lparr>verify := (\<lambda>c h. Some (c = h))\<rparr>) demo_world demo_principal ''k1''
       = (True, w') \<and> unused_codes (store w') ''u1'' = 0"
proof -
  let ?sv = "demo_server\<lparr>verify := (\<lambda>c h. Some (c = h))\<rparr>"
  have t: "trim_space ''k1'' = ''k1''" by code_simp
  have run: "\<exists>w'. verifyTOTPOrRecovery ?sv demo_world demo_principal ''k1'' = (True, w')"
    by (simp add: verifyTOTPOrRecovery_def t demo_server_def demo_user_def ListUnusedRecoveryCodes_def query_def)
      (simp add: demo_db_def ConsumeRecoveryCode_def query_def)
  then obtain w' where w': "verifyTOTPOrRecovery ?sv demo_world demo_principal ''k1'' = (True, w')" by blast
  have "unused_codes demo_db ''u1'' = 1" "distinct (map rc_id (recovery demo_db))"
    by (simp_all add: unused_codes_def demo_db_def)
  then show ?thesis
    using recovery_code_single_use [OF w'] w' by (simp add: t demo_server_def demo_user_def)
qed

lemma low_eq_RedactMap: "low_eq (JObj m) (JObj n) \<Longrightarrow> RedactMap m = RedactMap n"
  using low_eq_Redact [of "JObj m" "JObj n"] by (simp add: RedactMap_def)

text \<open>C11. The audit trail does not depend on secrets: two requests whose audit details differ
  only in values under secret-looking keys, at any depth, leave the same store behind.\<close>

theorem audit_hides_secrets:
  assumes "low_eq (JObj m) (JObj n)"
  shows "persistAudit enc w r (a\<lparr>Detail := m\<rparr>) status = persistAudit enc w r (a\<lparr>Detail := n\<rparr>) status"
proof -
  have "m = [] \<longleftrightarrow> n = []" using assms by (cases m; cases n) auto
  with low_eq_RedactMap [OF assms] show ?thesis by (simp add: persistAudit_def)
qed

theorem audit_hides_secrets_witness:
  "persistAudit (\<lambda>_. ''{}'') demo_world (demo_request ''POST'' []) ((fresh_audit ''user.create'')\<lparr>Detail :=
       [(''body'', JObj [(''userPassword'', JStr ''hunter2''), (''name'', JStr ''x'')])]\<rparr>) 200
   = persistAudit (\<lambda>_. ''{}'') demo_world (demo_request ''POST'' []) ((fresh_audit ''user.create'')\<lparr>Detail :=
       [(''body'', JObj [(''userPassword'', JStr ''other''), (''name'', JStr ''x'')])]\<rparr>) 200"
proof (rule audit_hides_secrets)
  have "IsSecretKey ''userPassword''" by code_simp
  then show "low_eq (JObj [(''body'', JObj [(''userPassword'', JStr ''hunter2''), (''name'', JStr ''x'')])])
      (JObj [(''body'', JObj [(''userPassword'', JStr ''other''), (''name'', JStr ''x'')])])"
    by simp
qed


definition demo_guard :: guard where
  "demo_guard = \<lparr>selfContainerID = ''0123456789abcdef'', selfResolved = True\<rparr>"

definition demo_ref :: "string \<Rightarrow> container_ref" where
  "demo_ref i = \<lparr>RefID = i, RefName = ''n'', Labels = Map.empty, Protected = False,
     Kind = ''container'', IsDataVolume = False\<rparr>"


subsection \<open>Integrity and bootstrap\<close>



definition flag_set :: "db \<Rightarrow> bool" where
  "flag_set s \<longleftrightarrow> settings s ''bootstrap.completed'' = Some ''true''"

fun sets_flag :: "db_op \<Rightarrow> bool" where
  "sets_flag (OpSetSetting k v) = (k = ''bootstrap.completed'')"
| "sets_flag op = False"

lemma settings_upd [simp]:
  "settings (upd_user s i f) = settings s" "settings (upd_sessions s P g) = settings s"
  by (simp_all add: upd_user_def upd_sessions_def)

lemma db_step_flag: "flag_set s \<Longrightarrow> \<not> sets_flag op \<Longrightarrow> flag_set (db_step s op)"
  by (cases op) (simp_all add: flag_set_def db_op_defs Let_def split: option.split)

interpretation flag: run_invariant db_step "\<lambda>op. \<not> sets_flag op" flag_set
  by unfold_locales (rule db_step_flag)

lemma flag_bootstrapRequired: "flag_set s \<Longrightarrow> \<not> bootstrapRequired s"
  by (simp add: flag_set_def bootstrapRequired_def BootstrapCompleted_def GetSetting_def query_def)

lemma BootstrapFirstAdmin_Inr:
  assumes "BootstrapFirstAdmin s now uid name email h bid = Inr s'"
  shows "flag_set s'" and "users s' = [first_admin_row now uid name email h]"
    and "bindings s' = bindings s @ [\<lparr>bind_id = bid, bind_user = uid, bind_role = RoleIDAdmin,
                      bind_scope_type = ''global'', bind_scope_id = [], bind_created = now\<rparr>]"
  using assms by (simp_all add: BootstrapFirstAdmin_def query_def flag_set_def split: if_splits)
    (drule sym, simp)+

lemma Bootstrap_created:
  assumes "Bootstrap sv hash uid bid body w r = (resp, w')" "Status resp = 201" "isl body \<longrightarrow> ErrStatus (projl body) \<noteq> 201"
  obtains req h where "body = Inr req"
    "BootstrapFirstAdmin (store w) (clock w) uid (br_username req) (br_email req) h bid = Inr (store w')"
proof -
  have st: "ErrStatus ErrBootstrapRequired = 409" "ErrStatus ErrForbidden = 403" "ErrStatus ErrInternal = 500"
    "ErrStatus APIErrNotFound = 404"
    by (simp_all add: api_errors)
  have vu: "validateUsername x = Some e \<Longrightarrow> ErrStatus e = 422" for x e
    unfolding validateUsername_def by (simp split: if_splits) (drule sym, simp add: api_errors)+
  have vp: "validatePassword x = Some e \<Longrightarrow> ErrStatus e = 422" for x e
    unfolding validatePassword_def by (simp split: if_splits) (drule sym, simp add: api_errors)+
  note run = assms(1)[unfolded Bootstrap_def]
  have b: "bootstrapRequired (store w)" using run assms(2) st by (cases "bootstrapRequired (store w)") auto
  obtain req where req: "body = Inr req" using run assms(2,3) b by (cases body) auto
  have t: "\<not> (BootstrapToken sv \<noteq> [] \<and> br_token req \<noteq> BootstrapToken sv)"
    using run assms(2) st b req by (cases "BootstrapToken sv \<noteq> [] \<and> br_token req \<noteq> BootstrapToken sv") auto
  have u: "validateUsername (br_username req) = None"
    using run assms(2) b req t vu by (cases "validateUsername (br_username req)") auto
  have p: "validatePassword (br_password req) = None"
    using run assms(2) b req t u vp by (cases "validatePassword (br_password req)") auto
  obtain h where h: "hash = Some h" using run assms(2) st b req t u p by (cases hash) auto
  let ?res = "BootstrapFirstAdmin (store w) (clock w) uid (br_username req) (br_email req) h bid"
  obtain s' where s': "?res = Inr s'"
    using run assms(2) st b req t u p h by (cases ?res) (auto split: store_error.splits)
  then have "w' = w\<lparr>store := s'\<rparr>" using run b req t u p h by auto
  with that [OF req] s' show thesis by simp
qed

text \<open>C14. Bootstrap happens at most once: after a bootstrap request that answered 201, every later
  one is refused with 409 whatever it carries, as long as no write sets the flag; the one user of
  the installation is then the administrator it created, bound globally to the built-in role.\<close>

theorem bootstrap_once:
  assumes "Bootstrap sv hash uid bid (Inr req) w r = (resp, w')" "Status resp = 201"
    and "store w2 = db_run (store w') ops" "list_all (\<lambda>op. \<not> sets_flag op) ops"
  shows "Bootstrap sv hash2 uid2 bid2 body2 w2 r2 = (WriteError r2 ErrBootstrapRequired, w2)
    \<and> map ID (users (store w')) = [uid]
    \<and> (\<exists>b \<in> set (bindings (store w')). bind_user b = uid \<and> bind_role b = RoleIDAdmin
         \<and> bind_scope_type b = ''global'')"
proof -
  obtain req' h where ok: "Inr req = (Inr req' :: api_error + bootstrap_request)"
      "BootstrapFirstAdmin (store w) (clock w) uid (br_username req') (br_email req') h bid = Inr (store w')"
    by (rule Bootstrap_created [OF assms(1,2)]) simp
  note created = BootstrapFirstAdmin_Inr [OF ok(2)]
  have "flag_set (store w2)"
    unfolding assms(3) db_run_def by (rule flag.run_inv [OF created(1) assms(4)])
  then have "Bootstrap sv hash2 uid2 bid2 body2 w2 r2 = (WriteError r2 ErrBootstrapRequired, w2)"
    by (simp add: Bootstrap_def flag_bootstrapRequired)
  then show ?thesis using created by (simp add: first_admin_row_def)
qed

theorem bootstrap_once_witness:
  "\<exists>w'. Status (fst (Bootstrap demo_server (Some ''h'') ''u0'' ''b0'' (Inr \<lparr>br_username = ''root'',
        br_password = ''correct horse'', br_email = [], br_token = []\<rparr>)
        (demo_world\<lparr>store := demo_db\<lparr>users := [], role_tab := [\<lparr>role_id = RoleIDAdmin, role_name = ''admin'', role_desc = [],
            role_builtin = True, role_perms = [''*''], role_created = 0, role_updated = 0\<rparr>]\<rparr>\<rparr>) (demo_request ''POST'' []))) = 201
   \<and> Bootstrap demo_server (Some ''h2'') ''u1'' ''b1'' (Inl ErrInternal) w' (demo_request ''POST'' [])
       = (WriteError (demo_request ''POST'' []) ErrBootstrapRequired, w')"
proof -
  let ?req = "\<lparr>br_username = ''root'', br_password = ''correct horse'', br_email = [], br_token = []\<rparr>"
  let ?w = "demo_world\<lparr>store := demo_db\<lparr>users := [], role_tab := [\<lparr>role_id = RoleIDAdmin, role_name = ''admin'', role_desc = [],
            role_builtin = True, role_perms = [''*''], role_created = 0, role_updated = 0\<rparr>]\<rparr>\<rparr>"
  obtain resp w' where run: "Bootstrap demo_server (Some ''h'') ''u0'' ''b0'' (Inr ?req) ?w
      (demo_request ''POST'' []) = (resp, w')" by (rule prod.exhaust)
  have v: "validateUsername ''root'' = None" by code_simp
  have d: "BootstrapToken demo_server = []" "settings demo_db = Map.empty"
    "find (\<lambda>b. bind_id b = ''b0'') (bindings demo_db) = None" by (simp_all add: demo_defs)
  have "bootstrapRequired (store ?w)"
    by (simp add: bootstrapRequired_def BootstrapCompleted_def GetSetting_def query_def CountUsers_def d)
  with d have st: "Status (fst (Bootstrap demo_server (Some ''h'') ''u0'' ''b0'' (Inr ?req) ?w
      (demo_request ''POST'' []))) = 201"
    by (simp add: Bootstrap_def v validatePassword_def BootstrapFirstAdmin_def query_def WriteJSON_def)
  then have "Status resp = 201" using run by simp
  then have "Bootstrap demo_server (Some ''h2'') ''u1'' ''b1'' (Inl ErrInternal) w' (demo_request ''POST'' [])
      = (WriteError (demo_request ''POST'' []) ErrBootstrapRequired, w')"
    using bootstrap_once [OF run _ , of w' "[]" "Some ''h2''" "''u1''" "''b1''" "Inl ErrInternal" "demo_request ''POST'' []"]
    by (simp add: db_run_def)
  with st show ?thesis by (intro exI [of _ w'] conjI)
qed

subsection \<open>Step-up and enrollment\<close>

text \<open>
  \<open>TOTPEnroll\<close> is mounted without the step-up middleware and resets the enabled flag of the
  caller's account: a session that has only proved the password, of a user for whom the
  second factor is required, passes \<open>RequireAAL\<close> on its next request.
\<close>

interpretation pending: keyed_update ID
    "\<lambda>u. u\<lparr>TOTPSecretEnc := enc, TOTPEnabled := False, TOTPConfirmedAt := None, UpdatedAt := now\<rparr>" for enc now
  by unfold_locales simp

lemma enroll_clears_step_up:
  assumes "ctx_user r = Some u" "''SetTOTPPending'' \<notin> broken (store w)"
    and "find (\<lambda>v. ID v = ID (row u)) (users (store w)) = Some x"
    and "w' = snd (TOTPEnroll sv (Some (secret, enc)) w r)"
    and "''GetUserByID'' \<notin> broken (store w)"
  shows "\<exists>y. GetUserByID (store w') (ID (row u)) = Inr y \<and> \<not> TOTPEnabled y
    \<and> (\<forall>p h r2. row p = y \<longrightarrow> ctx_user r2 = Some p \<longrightarrow> RequireAAL h w' r2 = h w' r2)"
proof -
  let ?f = "\<lambda>u. u\<lparr>TOTPSecretEnc := enc, TOTPEnabled := False, TOTPConfirmedAt := None, UpdatedAt := clock w\<rparr>"
  have w': "store w' = upd_user (store w) (ID (row u)) ?f"
    using assms(1,2) by (simp add: assms(4) TOTPEnroll_def SetTOTPPending_def query_def)
  have "find (\<lambda>v. ID v = ID (row u)) (users (store w')) = Some (?f x)"
    using assms(3) unfolding w' upd_user_def by (simp add: pending.find_update_same)
  then have "GetUserByID (store w') (ID (row u)) = Inr (?f x)"
    using assms(5) unfolding w' by (simp add: GetUserByID_def query_def select_one_def upd_user_def)
  then show ?thesis by (intro exI [of _ "?f x"]) (simp add: RequireAAL_def)
qed

end
