(* ===== verification/Compose_Parse.thy ===== *)
theory Compose_Parse
  imports Go_Prelude
begin

text \<open>
  Parsing of compose documents, \<open>server/internal/compose/parse.go\<close> and \<open>errors.go\<close>.
  The YAML library is a parameter: \<open>decode_doc\<close> gives the services of a document in the
  order the code's iteration over the map visits them, \<open>decode_raw\<close> decodes one service node
  into \<open>raw_service\<close>; both may fail with a message. A node is the datatype \<open>yaml\<close> (\<open>NoNode\<close> is a
  node of kind 0). A validation error keeps the format and the string arguments of
  \<open>validationf\<close>. \<open>nil\<close> and an empty slice are both the empty list: no caller tells them apart.
\<close>

datatype validation_error = Validationf string "string list"

datatype yaml =
    NoNode
  | Scalar string string
  | Sequence "yaml list"
  | Mapping "(yaml \<times> yaml) list"
  | Alias string

fun yaml_value :: "yaml \<Rightarrow> string" where
  "yaml_value (Scalar tag v) = v"
| "yaml_value (Alias v) = v"
| "yaml_value _ = []"

record service =
  Image :: string
  ContainerName :: string
  Ports :: "string list"
  Environment :: "string list"
  Volumes :: "string list"
  Networks :: "string list"
  Restart :: string
  Command :: "string list"
  DependsOn :: "string list"

text \<open>\<open>Model.Services\<close>: the entries of the map, each name once.\<close>

type_synonym model = "(string \<times> service) list"

record raw_service =
  raw_image :: string
  raw_container_name :: string
  raw_ports :: yaml
  raw_environment :: yaml
  raw_volumes :: yaml
  raw_networks :: yaml
  raw_restart :: string
  raw_command :: yaml
  raw_depends_on :: yaml

definition zero_raw :: raw_service where
  "zero_raw = \<lparr>raw_image = [], raw_container_name = [], raw_ports = NoNode, raw_environment = NoNode,
     raw_volumes = NoNode, raw_networks = NoNode, raw_restart = [], raw_command = NoNode,
     raw_depends_on = NoNode\<rparr>"

definition oneLine :: "string \<Rightarrow> string" where
  "oneLine s = trim_space (replace_all ''  '' '' '' (replace_all [CHR 0x0A] ''; '' s))"

subsection \<open>Names\<close>

definition name_start :: "char \<Rightarrow> bool" where
  "name_start c \<longleftrightarrow> is_lower c \<or> is_upper c \<or> is_digit c"

definition name_char :: "char \<Rightarrow> bool" where
  "name_char c \<longleftrightarrow> name_start c \<or> c = CHR ''_'' \<or> c = CHR ''.'' \<or> c = CHR ''-''"

fun valid_name :: "nat \<Rightarrow> string \<Rightarrow> bool" where
  "valid_name limit [] = False"
| "valid_name limit (c # cs) = (length (c # cs) \<le> limit \<and> name_start c \<and> list_all name_char cs)"

definition validServiceName :: "string \<Rightarrow> bool" where "validServiceName = valid_name 63"
definition validContainerName :: "string \<Rightarrow> bool" where "validContainerName = valid_name 255"

subsection \<open>Flexible fields\<close>

fun trimmed_scalars :: "validation_error \<Rightarrow> yaml list \<Rightarrow> validation_error + string list" where
  "trimmed_scalars e [] = Inr []"
| "trimmed_scalars e (Scalar tag v # ns) =
     (case trimmed_scalars e ns of Inl x \<Rightarrow> Inl x
      | Inr out \<Rightarrow> Inr (if trim_space v \<noteq> [] then trim_space v # out else out))"
| "trimmed_scalars e (_ # ns) = Inl e"

fun normalizeStringList :: "string \<Rightarrow> string \<Rightarrow> yaml \<Rightarrow> validation_error + string list" where
  "normalizeStringList svc field NoNode = Inr []"
| "normalizeStringList svc field (Scalar tag v) =
     (if tag = ''!!null'' \<or> trim_space v = [] then Inr [] else Inr [trim_space v])"
| "normalizeStringList svc field (Sequence ns) =
     trimmed_scalars (Validationf ''Service %q: %s entries must be scalars.'' [svc, field]) ns"
| "normalizeStringList svc field _ = Inl (Validationf ''Service %q: %s must be a list.'' [svc, field])"

definition mapping_keys :: "(yaml \<times> yaml) list \<Rightarrow> string list" where
  "mapping_keys kvs = map (\<lambda>(k, v). trim_space (yaml_value k)) kvs"

fun normalizeNetworks :: "string \<Rightarrow> yaml \<Rightarrow> validation_error + string list" where
  "normalizeNetworks svc (Mapping kvs) = Inr (mapping_keys kvs)"
| "normalizeNetworks svc n = normalizeStringList svc ''networks'' n"

fun normalizeDependsOn :: "string \<Rightarrow> yaml \<Rightarrow> validation_error + string list" where
  "normalizeDependsOn svc (Mapping kvs) = Inr (mapping_keys kvs)"
| "normalizeDependsOn svc n = normalizeStringList svc ''depends_on'' n"

fun raw_scalars :: "validation_error \<Rightarrow> yaml list \<Rightarrow> validation_error + string list" where
  "raw_scalars e [] = Inr []"
| "raw_scalars e (Scalar tag v # ns) =
     (case raw_scalars e ns of Inl x \<Rightarrow> Inl x | Inr out \<Rightarrow> Inr (v # out))"
| "raw_scalars e (_ # ns) = Inl e"

fun normalizeCommand :: "string \<Rightarrow> string \<Rightarrow> yaml \<Rightarrow> validation_error + string list" where
  "normalizeCommand svc field NoNode = Inr []"
| "normalizeCommand svc field (Scalar tag v) = (if tag = ''!!null'' then Inr [] else Inr (str_fields v))"
| "normalizeCommand svc field (Sequence ns) =
     raw_scalars (Validationf ''Service %q: %s entries must be scalars.'' [svc, field]) ns"
| "normalizeCommand svc field _ =
     Inl (Validationf ''Service %q: %s must be a string or list.'' [svc, field])"

fun env_value :: "yaml \<Rightarrow> string" where
  "env_value (Scalar tag v) = (if tag \<noteq> ''!!null'' then v else [])"
| "env_value _ = []"

fun env_pairs :: "string \<Rightarrow> (yaml \<times> yaml) list \<Rightarrow> validation_error + (string \<times> string) list" where
  "env_pairs svc [] = Inr []"
| "env_pairs svc ((kn, vn) # kvs) =
     (let k = trim_space (yaml_value kn) in
      if k = [] then Inl (Validationf ''Service %q: environment keys must be non-empty.'' [svc])
      else (case env_pairs svc kvs of Inl e \<Rightarrow> Inl e | Inr ps \<Rightarrow> Inr ((k, env_value vn) # ps)))"

fun env_entries :: "string \<Rightarrow> yaml list \<Rightarrow> validation_error + string list" where
  "env_entries svc [] = Inr []"
| "env_entries svc (Scalar tag v # ns) =
     (case env_entries svc ns of Inl x \<Rightarrow> Inl x
      | Inr out \<Rightarrow>
          (let e = trim_space v in
           if e = [] then Inr out
           else if CHR ''='' \<notin> set e then Inr ((e @ ''='') # out) else Inr (e # out)))"
| "env_entries svc (_ # ns) =
     Inl (Validationf ''Service %q: environment entries must be scalars.'' [svc])"

text \<open>\<open>sort.Slice\<close> by key; the code leaves the order of equal keys open, here they keep theirs.\<close>

fun normalizeEnvironment :: "string \<Rightarrow> yaml \<Rightarrow> validation_error + string list" where
  "normalizeEnvironment svc NoNode = Inr []"
| "normalizeEnvironment svc (Mapping kvs) =
     (case env_pairs svc kvs of Inl e \<Rightarrow> Inl e
      | Inr ps \<Rightarrow> Inr (map (\<lambda>(k, v). k @ ''='' @ v) (sort_key fst ps)))"
| "normalizeEnvironment svc (Sequence ns) = env_entries svc ns"
| "normalizeEnvironment svc _ =
     Inl (Validationf ''Service %q: environment must be a mapping or list.'' [svc])"

subsection \<open>One service, the document\<close>

definition knownServiceKeys :: "string list" where
  "knownServiceKeys =
     [''image'', ''container_name'', ''ports'', ''environment'', ''volumes'', ''networks'', ''restart'',
      ''command'', ''entrypoint'', ''depends_on'', ''build'', ''labels'', ''healthcheck'', ''deploy'',
      ''expose'', ''working_dir'', ''user'', ''hostname'', ''privileged'', ''tty'', ''stdin_open'']"

fun strictUnknownKeys :: "string \<Rightarrow> yaml \<Rightarrow> validation_error option" where
  "strictUnknownKeys name (Mapping kvs) =
     (case find (\<lambda>(k, v). yaml_value k \<notin> set knownServiceKeys) kvs of
        None \<Rightarrow> None
      | Some (k, v) \<Rightarrow> Some (Validationf ''Service %q: unsupported key %q.'' [name, yaml_value k]))"
| "strictUnknownKeys name (Scalar tag v) =
     (if tag = ''!!null'' then None else Some (Validationf ''Service %q must be a mapping.'' [name]))"
| "strictUnknownKeys name _ = Some (Validationf ''Service %q must be a mapping.'' [name])"

definition raw_of ::
  "(yaml \<Rightarrow> string + raw_service) \<Rightarrow> string \<Rightarrow> yaml \<Rightarrow> validation_error + raw_service" where
  "raw_of decode_raw name node =
     (if node = NoNode then Inr zero_raw
      else (case decode_raw node of
              Inl msg \<Rightarrow> Inl (Validationf ''Service %q: %s'' [name, oneLine msg])
            | Inr rs \<Rightarrow> (case strictUnknownKeys name node of Some e \<Rightarrow> Inl e | None \<Rightarrow> Inr rs)))"

definition decodeService ::
  "(yaml \<Rightarrow> string + raw_service) \<Rightarrow> string \<Rightarrow> yaml \<Rightarrow> validation_error + service" where
  "decodeService decode_raw name node =
     (case raw_of decode_raw name node of Inl e \<Rightarrow> Inl e | Inr rs \<Rightarrow>
     (case normalizeEnvironment name (raw_environment rs) of Inl e \<Rightarrow> Inl e | Inr env \<Rightarrow>
     (case normalizeStringList name ''ports'' (raw_ports rs) of Inl e \<Rightarrow> Inl e | Inr ports \<Rightarrow>
     (case normalizeStringList name ''volumes'' (raw_volumes rs) of Inl e \<Rightarrow> Inl e | Inr vols \<Rightarrow>
     (case normalizeNetworks name (raw_networks rs) of Inl e \<Rightarrow> Inl e | Inr nets \<Rightarrow>
     (case normalizeCommand name ''command'' (raw_command rs) of Inl e \<Rightarrow> Inl e | Inr cmd \<Rightarrow>
     (case normalizeDependsOn name (raw_depends_on rs) of Inl e \<Rightarrow> Inl e | Inr deps \<Rightarrow>
       Inr \<lparr>Image = trim_space (raw_image rs), ContainerName = trim_space (raw_container_name rs),
            Ports = ports, Environment = env, Volumes = vols, Networks = nets,
            Restart = trim_space (raw_restart rs), Command = cmd, DependsOn = deps\<rparr>)))))))"

fun check_deps :: "model \<Rightarrow> string \<Rightarrow> string list \<Rightarrow> validation_error option" where
  "check_deps m name [] = None"
| "check_deps m name (dep # deps) =
     (if dep \<notin> set (keys m) then Some (Validationf ''Service %q depends_on unknown service %q.'' [name, dep])
      else if dep = name then Some (Validationf ''Service %q cannot depend on itself.'' [name])
      else check_deps m name deps)"

fun validate_services :: "model \<Rightarrow> model \<Rightarrow> validation_error option" where
  "validate_services m [] = None"
| "validate_services m ((name, svc) # rest) =
     (if Image svc = [] then
        Some (Validationf ''Service %q: 'image' is required (build is not supported).'' [name])
      else if ContainerName svc \<noteq> [] \<and> \<not> validContainerName (ContainerName svc) then
        Some (Validationf ''Service %q: invalid container_name %q.'' [name, ContainerName svc])
      else (case check_deps m name (DependsOn svc) of Some e \<Rightarrow> Some e
            | None \<Rightarrow> validate_services m rest))"

definition validate :: "model \<Rightarrow> validation_error option" where
  "validate m = validate_services m m"

fun parse_services ::
  "(yaml \<Rightarrow> string + raw_service) \<Rightarrow> (string \<times> yaml) list \<Rightarrow> validation_error + model" where
  "parse_services dec [] = Inr []"
| "parse_services dec ((name, node) # rest) =
     (if \<not> validServiceName name then
        Inl (Validationf ''Invalid service name %q (use letters, digits, '.', '_' or '-').'' [name])
      else (case decodeService dec name node of Inl e \<Rightarrow> Inl e
            | Inr svc \<Rightarrow> (case parse_services dec rest of Inl e \<Rightarrow> Inl e
                         | Inr m \<Rightarrow> Inr ((name, svc) # m))))"

definition Parse ::
  "(string \<Rightarrow> string + (string \<times> yaml) list) \<Rightarrow> (yaml \<Rightarrow> string + raw_service) \<Rightarrow> string
     \<Rightarrow> validation_error + model" where
  "Parse decode_doc decode_raw src =
     (if trim_space src = [] then Inl (Validationf ''Compose document is empty.'' [])
      else (case decode_doc src of
              Inl msg \<Rightarrow> Inl (Validationf ''Invalid compose YAML: %s'' [oneLine msg])
            | Inr doc \<Rightarrow>
              if doc = [] then Inl (Validationf ''Compose document defines no services.'' [])
              else (case parse_services decode_raw doc of Inl e \<Rightarrow> Inl e
                    | Inr m \<Rightarrow> (case validate m of Some e \<Rightarrow> Inl e | None \<Rightarrow> Inr m))))"

definition ServiceNamesSorted :: "model \<Rightarrow> string list" where
  "ServiceNamesSorted m = sort (keys m)"

subsection \<open>What a parsed model satisfies\<close>

definition service_ok :: "model \<Rightarrow> string \<Rightarrow> service \<Rightarrow> bool" where
  "service_ok m name svc \<longleftrightarrow> Image svc \<noteq> [] \<and> set (DependsOn svc) \<subseteq> set (keys m) - {name}
     \<and> (ContainerName svc \<noteq> [] \<longrightarrow> validContainerName (ContainerName svc))"

definition model_ok :: "model \<Rightarrow> bool" where
  "model_ok m \<longleftrightarrow> distinct (keys m) \<and> (\<forall>(name, svc) \<in> set m. service_ok m name svc)"

lemma check_deps_None: "check_deps m name deps = None \<longleftrightarrow> set deps \<subseteq> set (keys m) - {name}"
  by (induction deps) auto

lemma validate_services_Cons:
  "validate_services m ((name, svc) # rest) = None \<longleftrightarrow>
     service_ok m name svc \<and> validate_services m rest = None"
  using check_deps_None [of m name "DependsOn svc"]
  by (cases "check_deps m name (DependsOn svc)") (simp_all add: service_ok_def)

declare validate_services.simps(2) [simp del]

lemma validate_services_None:
  "validate_services m ms = None \<longleftrightarrow> (\<forall>(name, svc) \<in> set ms. service_ok m name svc)"
proof (induction ms)
  case (Cons x ms)
  then show ?case by (cases x) (simp add: validate_services_Cons)
qed simp

lemma parse_services_keys: "parse_services dec doc = Inr m \<Longrightarrow> keys m = keys doc"
  by (induction doc arbitrary: m) (auto split: if_splits sum.splits)

lemma parse_services_names:
  "parse_services dec doc = Inr m \<Longrightarrow> (name, svc) \<in> set m \<Longrightarrow> validServiceName name"
  by (induction doc arbitrary: m) (auto split: if_splits sum.splits)

lemma Parse_ok:
  assumes "Parse decode_doc decode_raw src = Inr m"
    and "\<And>doc. decode_doc src = Inr doc \<Longrightarrow> distinct (keys doc)"
  shows "model_ok m" and "m \<noteq> []" and "(name, svc) \<in> set m \<Longrightarrow> validServiceName name"
proof -
  obtain doc where doc: "decode_doc src = Inr doc" "doc \<noteq> []" "parse_services decode_raw doc = Inr m"
    "validate m = None"
    using assms(1) unfolding Parse_def by (simp split: if_splits sum.splits option.splits)
  then have k: "keys m = keys doc" by (simp add: parse_services_keys)
  show "model_ok m"
    using doc assms(2) k unfolding model_ok_def validate_def validate_services_None by simp
  show "m \<noteq> []" using k doc(2) by (cases m; cases doc) auto
  show "(name, svc) \<in> set m \<Longrightarrow> validServiceName name" by (rule parse_services_names [OF doc(3)])
qed

end
