(* ===== verification/Mounts.thy ===== *)
theory Mounts
  imports Authz_Audit
begin

text \<open>
  The host-mount escalation guard, \<open>server/internal/provider/docker/mounts.go\<close>, with the deploy
  specification and the mount construction of \<open>docker/deploy.go\<close>.
  A mount request with a host path becomes a bind mount, every other one a volume. The daemon's
  calls (image lookup and pull, create, start, remove) are the fields of \<open>daemon\<close>, functions of
  an unknown daemon state; \<open>nat.NewPort\<close> is the parameter \<open>new_port\<close>.
\<close>

record port_map =
  Host :: int
  Container :: int
  Proto :: string

record vol_mount =
  Source :: string
  Target :: string

record deploy_spec =
  spec_Image :: string
  Name :: string
  Env :: "string \<rightharpoonup> string"
  spec_Ports :: "port_map list"
  spec_Volumes :: "vol_mount list"
  spec_Labels :: "string \<rightharpoonup> string"
  RestartPolicy :: string
  AllowHostMounts :: bool

subsection \<open>Host paths\<close>

definition alwaysBlockedHostPaths :: "string list" where
  "alwaysBlockedHostPaths =
     [''/var/run/docker.sock'', ''/run/docker.sock'', ''/'', ''/etc'', ''/root'', ''/home'', ''/boot'',
      ''/var/lib/docker'', ''/var/run'', ''/run'', ''/proc'', ''/sys'', ''/dev'']"

abbreviation backslash :: char where "backslash \<equiv> CHR 0x5C"

definition isDriveLetter :: "char \<Rightarrow> bool" where
  "isDriveLetter c \<longleftrightarrow> is_lower c \<or> is_upper c"

definition isHostPath :: "string \<Rightarrow> bool" where
  "isHostPath source =
     (let s = trim_space source in
      if s = [] then False
      else if s ! 0 = CHR ''/'' \<or> s ! 0 = backslash then True
      else if length s \<ge> 3 \<and> isDriveLetter (s ! 0) \<and> s ! 1 = CHR '':''
              \<and> (s ! 2 = backslash \<or> s ! 2 = CHR ''/'') then True
      else False)"

definition normalizeHostPath :: "string \<Rightarrow> string" where
  "normalizeHostPath source =
     (let s0 = to_lower (trim_space source);
          s1 = map (\<lambda>c. if c = backslash then CHR ''/'' else c) s0;
          s2 = (if length s1 > 1 then trim_right (\<lambda>c. c = CHR ''/'') s1 else s1)
      in if s2 = [] then ''/'' else s2)"

definition isAlwaysBlockedHostPath :: "string \<Rightarrow> bool" where
  "isAlwaysBlockedHostPath source =
     (let n = normalizeHostPath source in
      \<exists>blocked \<in> set alwaysBlockedHostPaths.
        if blocked = ''/'' then n = ''/'' else n = blocked \<or> has_prefix n (blocked @ ''/''))"

subsection \<open>The policy\<close>

datatype mount_error = ErrHostMountDenied string string

fun ValidateMounts :: "vol_mount list \<Rightarrow> bool \<Rightarrow> mount_error option" where
  "ValidateMounts [] allowHostMounts = None"
| "ValidateMounts (v # vs) allowHostMounts =
     (if \<not> isHostPath (Source v) then ValidateMounts vs allowHostMounts
      else if isAlwaysBlockedHostPath (Source v) then
        Some (ErrHostMountDenied (Source v) ''protected host path'')
      else if \<not> allowHostMounts then Some (ErrHostMountDenied (Source v) ''host path'')
      else ValidateMounts vs allowHostMounts)"

definition HostMountSources :: "vol_mount list \<Rightarrow> string list" where
  "HostMountSources vols = map Source (filter (\<lambda>v. isHostPath (Source v)) vols)"

datatype mount_type = TypeBind | TypeVolume

record mount =
  mt_type :: mount_type
  mt_source :: string
  mt_target :: string

definition buildMounts :: "vol_mount list \<Rightarrow> mount list" where
  "buildMounts vols =
     map (\<lambda>v. \<lparr>mt_type = (if isHostPath (Source v) then TypeBind else TypeVolume),
               mt_source = Source v, mt_target = Target v\<rparr>)
       (filter (\<lambda>v. Target v \<noteq> []) vols)"

subsection \<open>Creating a container\<close>

text \<open>
  The configuration sent to the daemon: image, environment, mounts, labels, port bindings (the
  host ports published for each container port), restart policy and name.
\<close>

record create_config =
  cc_image :: string
  cc_env :: "string \<rightharpoonup> string"
  cc_labels :: "string \<rightharpoonup> string"
  cc_mounts :: "mount list"
  cc_bindings :: "string \<rightharpoonup> string list"
  cc_restart :: string
  cc_name :: string

record 'd daemon =
  image_present :: "string \<Rightarrow> 'd \<Rightarrow> bool"
  image_pull :: "string \<Rightarrow> 'd \<Rightarrow> (string + unit) \<times> 'd"
  container_create :: "create_config \<Rightarrow> 'd \<Rightarrow> (string + string) \<times> 'd"
  container_start :: "string \<Rightarrow> 'd \<Rightarrow> (string + unit) \<times> 'd"
  container_remove :: "string \<Rightarrow> 'd \<Rightarrow> 'd"

datatype deploy_error = ImageRequired | MountDenied mount_error | InvalidPort | DaemonError string

definition ensureImage :: "'d daemon \<Rightarrow> string \<Rightarrow> 'd \<Rightarrow> deploy_error option \<times> 'd" where
  "ensureImage dm ref d =
     (if image_present dm ref d then (None, d)
      else (case image_pull dm ref d of
              (Inl e, d') \<Rightarrow> (Some (DaemonError e), d')
            | (Inr _, d') \<Rightarrow> (None, d')))"

fun port_bindings ::
  "(string \<Rightarrow> int \<Rightarrow> string option) \<Rightarrow> port_map list \<Rightarrow> (string \<rightharpoonup> string list)
     \<Rightarrow> deploy_error + (string \<rightharpoonup> string list)" where
  "port_bindings new_port [] b = Inr b"
| "port_bindings new_port (pm # pms) b =
     (if Container pm \<le> 0 then port_bindings new_port pms b
      else (case new_port (if Proto pm = [] then ''tcp'' else Proto pm) (Container pm) of
              None \<Rightarrow> Inl InvalidPort
            | Some port \<Rightarrow>
                (let hostPort = (if Host pm > 0 then itoa (Host pm) else []);
                     old = (case b port of None \<Rightarrow> [] | Some hs \<Rightarrow> hs)
                 in port_bindings new_port pms (b(port \<mapsto> old @ [hostPort])))))"

definition buildPortMaps ::
  "(string \<Rightarrow> int \<Rightarrow> string option) \<Rightarrow> port_map list \<Rightarrow> deploy_error + (string \<rightharpoonup> string list)" where
  "buildPortMaps new_port pms = port_bindings new_port pms Map.empty"

definition restartPolicy :: "string \<Rightarrow> string" where
  "restartPolicy name =
     (if name = ''always'' \<or> name = ''on-failure'' \<or> name = ''unless-stopped'' then name else ''no'')"

definition ContainerCreateAndStart ::
  "(string \<Rightarrow> int \<Rightarrow> string option) \<Rightarrow> 'd daemon \<Rightarrow> deploy_spec \<Rightarrow> 'd
     \<Rightarrow> (deploy_error + string) \<times> 'd" where
  "ContainerCreateAndStart new_port dm spec d =
     (if spec_Image spec = [] then (Inl ImageRequired, d)
      else (case ValidateMounts (spec_Volumes spec) (AllowHostMounts spec) of
         Some e \<Rightarrow> (Inl (MountDenied e), d)
       | None \<Rightarrow>
         (case ensureImage dm (spec_Image spec) d of (Some e, d1) \<Rightarrow> (Inl e, d1)
          | (None, d1) \<Rightarrow>
            (case buildPortMaps new_port (spec_Ports spec) of Inl e \<Rightarrow> (Inl e, d1)
             | Inr pb \<Rightarrow>
               (case container_create dm
                       \<lparr>cc_image = spec_Image spec, cc_env = Env spec, cc_labels = spec_Labels spec,
                        cc_mounts = buildMounts (spec_Volumes spec), cc_bindings = pb,
                        cc_restart = restartPolicy (RestartPolicy spec), cc_name = Name spec\<rparr> d1 of
                  (Inl e, d2) \<Rightarrow> (Inl (DaemonError e), d2)
                | (Inr i, d2) \<Rightarrow>
                  (case container_start dm i d2 of
                     (Inl e, d3) \<Rightarrow> (Inl (DaemonError e), container_remove dm i d3)
                   | (Inr _, d3) \<Rightarrow> (Inr i, d3)))))))"

subsection \<open>Facts\<close>

lemma ValidateMounts_None:
  "ValidateMounts vs allow = None \<longleftrightarrow>
     (\<forall>v \<in> set vs. isHostPath (Source v) \<longrightarrow> allow \<and> \<not> isAlwaysBlockedHostPath (Source v))"
  by (induction vs) auto

lemma HostMountSources_Nil: "HostMountSources vs = [] \<longleftrightarrow> (\<forall>v \<in> set vs. \<not> isHostPath (Source v))"
  unfolding HostMountSources_def by (induction vs) auto

lemma buildMounts_bind:
  assumes "m \<in> set (buildMounts vs)" "mt_type m = TypeBind"
  shows "\<exists>v \<in> set vs. mt_source m = Source v \<and> isHostPath (Source v)"
  using assms unfolding buildMounts_def by (induction vs) (auto split: if_splits)

text \<open>The blocked set does not resolve \<open>..\<close>, \<open>.\<close> or doubled slashes.\<close>

lemma blocked_path_not_resolved:
  "isHostPath ''/srv/../etc'' \<and> \<not> isAlwaysBlockedHostPath ''/srv/../etc''"
  "isHostPath ''//etc'' \<and> \<not> isAlwaysBlockedHostPath ''//etc''"
  by code_simp+

end
