(* ===== verification/Compose_Plan.thy ===== *)
theory Compose_Plan
  imports Compose_Parse Mounts
begin

text \<open>
  Planning of a compose deployment, \<open>server/internal/compose/plan.go\<close>: project-name
  sanitation, ports, volumes, environment, the dependency order (Kahn's algorithm, smallest ready
  name first) and the ordered plan; then \<open>authorizePlanHostMounts\<close> and \<open>deployPlan\<close> of
  \<open>api/stacks.go\<close>, which run it. The iteration order of the set of explicit network names is not
  fixed by the code: \<open>plan_Networks\<close> holds them in the order of their first use.
\<close>

subsection \<open>Project names\<close>

fun sanitize_loop :: "string \<Rightarrow> bool \<Rightarrow> string \<Rightarrow> string" where
  "sanitize_loop b prevSep [] = b"
| "sanitize_loop b prevSep (c # cs) =
     (if is_lower c \<or> is_digit c then sanitize_loop (b @ [c]) False cs
      else if c = CHR ''-'' \<or> c = CHR ''_'' then
        (if length b > 0 \<and> \<not> prevSep then sanitize_loop (b @ [c]) True cs else sanitize_loop b prevSep cs)
      else if c = CHR '' '' \<or> c = CHR ''.'' \<or> c = CHR ''/'' then
        (if length b > 0 \<and> \<not> prevSep then sanitize_loop (b @ ''-'') True cs else sanitize_loop b prevSep cs)
      else sanitize_loop b prevSep cs)"

definition SanitizeProjectName :: "string \<Rightarrow> string" where
  "SanitizeProjectName s = trim_chars ''-_'' (sanitize_loop [] False (to_lower (trim_space s)))"

definition SanitizeNetworkSuffix :: "string \<Rightarrow> string" where
  "SanitizeNetworkSuffix s = (let out = SanitizeProjectName s in if out = [] then ''net'' else out)"

subsection \<open>Ports, volumes, environment, restart policy\<close>

definition parsePortNum :: "string \<Rightarrow> int option" where
  "parsePortNum s =
     (case atoi (trim_space s) of None \<Rightarrow> None
      | Some n \<Rightarrow> if n < 1 \<or> n > 65535 then None else Some n)"

definition port_parts :: "string \<Rightarrow> (string \<times> string) option" where
  "port_parts s =
     (case split_on (CHR '':'') s of
        [a] \<Rightarrow> Some ([], a)
      | [a, b] \<Rightarrow> Some (a, b)
      | [a, b, c] \<Rightarrow> Some (b, c)
      | _ \<Rightarrow> None)"

definition parse_port :: "string \<Rightarrow> string \<Rightarrow> validation_error + port_map option" where
  "parse_port svc raw =
     (let s0 = trim_space raw in
      if s0 = [] then Inr None else
      (let (proto, s) = (case cut_last (CHR ''/'') s0 of None \<Rightarrow> (''tcp'', s0)
                         | Some (a, b) \<Rightarrow> (to_lower (trim_space b), a)) in
       if proto \<noteq> ''tcp'' \<and> proto \<noteq> ''udp'' \<and> proto \<noteq> ''sctp''
         then Inl (Validationf ''Service %q: invalid port protocol %q.'' [svc, proto])
       else (case port_parts s of
         None \<Rightarrow> Inl (Validationf ''Service %q: invalid port mapping %q.'' [svc, raw])
       | Some (hostStr, contStr) \<Rightarrow>
         if contains_str contStr ''-'' \<or> contains_str hostStr ''-''
           then Inl (Validationf ''Service %q: port ranges are not supported (%q).'' [svc, raw])
         else (case parsePortNum contStr of
           None \<Rightarrow> Inl (Validationf ''Service %q: invalid container port in %q.'' [svc, raw])
         | Some cont \<Rightarrow>
           if trim_space hostStr \<noteq> [] then
             (case parsePortNum hostStr of
                None \<Rightarrow> Inl (Validationf ''Service %q: invalid host port in %q.'' [svc, raw])
              | Some host \<Rightarrow> Inr (Some \<lparr>Host = host, Container = cont, Proto = proto\<rparr>))
           else Inr (Some \<lparr>Host = 0, Container = cont, Proto = proto\<rparr>)))))"

fun parsePorts :: "string \<Rightarrow> string list \<Rightarrow> validation_error + port_map list" where
  "parsePorts svc [] = Inr []"
| "parsePorts svc (raw # specs) =
     (case parse_port svc raw of Inl e \<Rightarrow> Inl e
      | Inr pm \<Rightarrow> (case parsePorts svc specs of Inl e \<Rightarrow> Inl e
                  | Inr out \<Rightarrow> Inr (case pm of None \<Rightarrow> out | Some p \<Rightarrow> p # out)))"

fun parseVolumes :: "string \<Rightarrow> string list \<Rightarrow> validation_error + vol_mount list" where
  "parseVolumes svc [] = Inr []"
| "parseVolumes svc (raw # specs) =
     (let s = trim_space raw;
          rest = (\<lambda>vs. case parseVolumes svc specs of Inl e \<Rightarrow> Inl e | Inr out \<Rightarrow> Inr (vs @ out)) in
      if s = [] then rest []
      else (case split_on (CHR '':'') s of
          [a] \<Rightarrow> rest [\<lparr>Source = [], Target = a\<rparr>]
        | [a, b] \<Rightarrow> rest [\<lparr>Source = a, Target = b\<rparr>]
        | [a, b, c] \<Rightarrow> rest [\<lparr>Source = a, Target = b\<rparr>]
        | _ \<Rightarrow> Inl (Validationf ''Service %q: invalid volume mapping %q.'' [svc, raw])))"

fun env_map :: "string list \<Rightarrow> (string \<rightharpoonup> string) \<Rightarrow> (string \<rightharpoonup> string)" where
  "env_map [] out = out"
| "env_map (e # es) out =
     (let (k0, v, found) = cut_at (CHR ''='') e; k = trim_space k0 in
      if k = [] then env_map es out
      else env_map es (out(k \<mapsto> (if found then v else []))))"

definition envMap :: "string list \<Rightarrow> (string \<rightharpoonup> string)" where
  "envMap env = env_map env Map.empty"

definition normalizeRestart :: "string \<Rightarrow> string" where
  "normalizeRestart v =
     (let r = to_lower (trim_space v) in
      if r \<in> {''always'', ''on-failure'', ''unless-stopped'', ''no''} then r else [])"

subsection \<open>The dependency order\<close>

definition deps_of :: "model \<Rightarrow> string \<Rightarrow> string list" where
  "deps_of m n = (case map_of m n of None \<Rightarrow> [] | Some svc \<Rightarrow> DependsOn svc)"

text \<open>
  The two maps the first loop builds: the number of (unsatisfied) dependencies of a service, and
  for each name the services that depend on it, once per mention, in alphabetical order.
\<close>

definition indegree0 :: "model \<Rightarrow> string \<Rightarrow> int" where
  "indegree0 m n = (if n \<in> set (ServiceNamesSorted m) then int (length (deps_of m n)) else 0)"

definition dependents :: "model \<Rightarrow> string \<Rightarrow> string list" where
  "dependents m d =
     concat (map (\<lambda>n. map (\<lambda>_. n) (filter (\<lambda>dep. dep = d) (deps_of m n))) (ServiceNamesSorted m))"

definition min_index :: "string list \<Rightarrow> nat" where
  "min_index queue = foldl (\<lambda>m i. if queue ! i < queue ! m then i else m) 0 [1..<length queue]"

fun release :: "string list \<Rightarrow> (string \<Rightarrow> int) \<Rightarrow> string list \<Rightarrow> (string \<Rightarrow> int) \<times> string list" where
  "release [] indegree queue = (indegree, queue)"
| "release (x # xs) indegree queue =
     (let d = indegree x - 1
      in release xs (indegree(x := d)) (if d = 0 then queue @ [x] else queue))"

lemma release_total:
  assumes "finite X" "set xs \<subseteq> X" "release xs ind q = (ind', q')"
  shows "length q' + (\<Sum>x\<in>X. nat (ind' x)) \<le> length q + (\<Sum>x\<in>X. nat (ind x))"
  using assms(2,3)
proof (induction xs arbitrary: ind q)
  case Nil
  then show ?case by simp
next
  case (Cons y ys)
  let ?ind = "ind(y := ind y - 1)" and ?q = "if ind y - 1 = 0 then q @ [y] else q"
  have "length q' + (\<Sum>x\<in>X. nat (ind' x)) \<le> length ?q + (\<Sum>x\<in>X. nat (?ind x))"
    by (rule Cons.IH) (use Cons.prems in \<open>simp_all only: release.simps Let_def list.set insert_subset\<close>)
  also have "(\<Sum>x\<in>X. nat (?ind x)) = nat (ind y - 1) + (\<Sum>x\<in>X - {y}. nat (ind x))"
    using Cons.prems(1) assms(1) by (simp add: sum.remove [of X y])
  also have "length ?q + (nat (ind y - 1) + (\<Sum>x\<in>X - {y}. nat (ind x)))
      \<le> length q + (nat (ind y) + (\<Sum>x\<in>X - {y}. nat (ind x)))"
    by (cases "ind y = 1") (simp_all add: nat_mono)
  also have "nat (ind y) + (\<Sum>x\<in>X - {y}. nat (ind x)) = (\<Sum>x\<in>X. nat (ind x))"
    using Cons.prems(1) assms(1) by (simp add: sum.remove [of X y])
  finally show ?case .
qed

lemma dependents_names: "set (dependents m d) \<subseteq> set (ServiceNamesSorted m)"
  by (auto simp: dependents_def)

lemma min_index_upto:
  "0 < k \<Longrightarrow> k \<le> length q \<Longrightarrow>
     foldl (\<lambda>m i. if q ! i < q ! m then i else m) 0 [1..<k] < k
     \<and> (\<forall>i < k. q ! (foldl (\<lambda>m i. if q ! i < q ! m then i else m) 0 [1..<k]) \<le> q ! i)"
  for q :: "string list"
proof (induction k)
  case 0
  then show ?case by simp
next
  case (Suc k)
  show ?case
  proof (cases "k = 0")
    case True
    then show ?thesis by simp
  next
    case False
    let ?m = "foldl (\<lambda>m i. if q ! i < q ! m then i else m) 0 [1..<k]"
    have IH: "?m < k" "\<forall>i < k. q ! ?m \<le> q ! i" using Suc False by simp_all
    have "[1..<Suc k] = [1..<k] @ [k]" using False by (simp add: upt_Suc_append)
    then show ?thesis using IH by (auto simp: less_Suc_eq intro: less_imp_le dest: less_le_trans)
  qed
qed

lemma min_index_least:
  "q \<noteq> [] \<Longrightarrow> min_index q < length q \<and> (\<forall>x \<in> set q. q ! min_index q \<le> x)"
  using min_index_upto [of "length q" q] by (auto simp: min_index_def in_set_conv_nth)

function kahn :: "model \<Rightarrow> string list \<Rightarrow> (string \<Rightarrow> int) \<Rightarrow> string list \<Rightarrow> string list" where
  "kahn m queue indegree out =
     (if queue = [] then out
      else (let i = min_index queue;
                n = queue ! i;
                (indegree', queue') = release (dependents m n) indegree (take i queue @ drop (Suc i) queue)
            in kahn m queue' indegree' (out @ [n])))"
  by pat_completeness auto
termination
proof (relation "measure (\<lambda>(m, q, ind, out). length q + (\<Sum>x\<in>set (ServiceNamesSorted m). nat (ind x)))")
  fix m :: model and q :: "string list" and ind :: "string \<Rightarrow> int" and out i n p ind' q'
  assume ne: "q \<noteq> []" and i: "i = min_index q" and n: "n = q ! i"
    and p: "p = release (dependents m n) ind (take i q @ drop (Suc i) q)" and pq: "(ind', q') = p"
  have "length (take i q @ drop (Suc i) q) < length q"
    using min_index_least [OF ne] i by (simp add: min_def) linarith
  moreover have "length q' + (\<Sum>x\<in>set (ServiceNamesSorted m). nat (ind' x))
      \<le> length (take i q @ drop (Suc i) q) + (\<Sum>x\<in>set (ServiceNamesSorted m). nat (ind x))"
    by (rule release_total [OF _ dependents_names]) (use p pq in simp_all)
  ultimately show "((m, q', ind', out @ [n]), (m, q, ind, out))
      \<in> measure (\<lambda>(m, q, ind, out). length q + (\<Sum>x\<in>set (ServiceNamesSorted m). nat (ind x)))"
    by simp
qed simp

declare kahn.simps [simp del]

definition topoSort :: "model \<Rightarrow> validation_error + string list" where
  "topoSort m =
     (let names = ServiceNamesSorted m;
          queue = filter (\<lambda>n. indegree0 m n = 0) names;
          out = kahn m queue (indegree0 m) []
      in if length out \<noteq> length names
         then Inl (Validationf ''depends_on contains a cycle; services cannot be ordered.'' [])
         else Inr out)"

subsection \<open>The plan\<close>

record plan =
  Project :: string
  Specs :: "deploy_spec list"
  Aliases :: "string \<rightharpoonup> string list"
  ExtraNetworks :: "string \<rightharpoonup> string list"
  plan_Networks :: "string list"

definition compose_labels :: "string \<Rightarrow> string \<Rightarrow> (string \<rightharpoonup> string)" where
  "compose_labels project name =
     [''com.docker.compose.project'' \<mapsto> project, ''com.docker.compose.service'' \<mapsto> name,
      ''com.docker.compose.container-number'' \<mapsto> ''1'', ''io.castor.stack'' \<mapsto> project,
      ''io.castor.managed'' \<mapsto> ''true'']"

definition container_name :: "string \<Rightarrow> string \<Rightarrow> service \<Rightarrow> string" where
  "container_name project name svc =
     (if ContainerName svc = [] then project @ ''-'' @ name else ContainerName svc)"

definition service_spec ::
  "string \<Rightarrow> string \<Rightarrow> service \<Rightarrow> port_map list \<Rightarrow> vol_mount list \<Rightarrow> deploy_spec" where
  "service_spec project name svc ports vols =
     \<lparr>spec_Image = Image svc, Name = container_name project name svc,
      Env = envMap (Environment svc), spec_Ports = ports, spec_Volumes = vols,
      spec_Labels = compose_labels project name,
      RestartPolicy = normalizeRestart (Restart svc), AllowHostMounts = False\<rparr>"

definition add_service :: "plan \<Rightarrow> string \<Rightarrow> service \<Rightarrow> validation_error + plan" where
  "add_service plan name svc =
     (case parsePorts name (Ports svc) of Inl e \<Rightarrow> Inl e | Inr ports \<Rightarrow>
     (case parseVolumes name (Volumes svc) of Inl e \<Rightarrow> Inl e | Inr vols \<Rightarrow>
       (let project = Project plan;
            cname = container_name project name svc;
            nets = map (\<lambda>n. project @ ''_'' @ SanitizeNetworkSuffix n) (Networks svc);
            old = (case ExtraNetworks plan cname of None \<Rightarrow> [] | Some ns \<Rightarrow> ns)
        in Inr (plan\<lparr>
             Specs := Specs plan @ [service_spec project name svc ports vols],
             Aliases := (Aliases plan)(cname \<mapsto> (if cname \<noteq> name then [name, cname] else [name])),
             ExtraNetworks := (if nets = [] then ExtraNetworks plan
                               else (ExtraNetworks plan)(cname \<mapsto> old @ nets)),
             plan_Networks := fold (\<lambda>n ns. if n \<in> set ns then ns else ns @ [n]) nets (plan_Networks plan)\<rparr>))))"

text \<open>\<open>m.Services[name]\<close> of a name that is not in the map is the zero service.\<close>

definition zero_service :: service where
  "zero_service = \<lparr>Image = [], ContainerName = [], Ports = [], Environment = [], Volumes = [],
     Networks = [], Restart = [], Command = [], DependsOn = []\<rparr>"

fun add_services :: "model \<Rightarrow> string list \<Rightarrow> plan \<Rightarrow> validation_error + plan" where
  "add_services m [] plan = Inr plan"
| "add_services m (name # names) plan =
     (case add_service plan name (case map_of m name of None \<Rightarrow> zero_service | Some svc \<Rightarrow> svc) of
        Inl e \<Rightarrow> Inl e | Inr plan' \<Rightarrow> add_services m names plan')"

definition BuildPlan :: "string \<Rightarrow> model \<Rightarrow> validation_error + plan" where
  "BuildPlan rawProject m =
     (let project = SanitizeProjectName rawProject in
      if project = [] then
        Inl (Validationf ''Invalid project name (use letters, digits, '-' or '_').'' [])
      else (case topoSort m of Inl e \<Rightarrow> Inl e
            | Inr order \<Rightarrow> add_services m order
                \<lparr>Project = project, Specs = [], Aliases = Map.empty, ExtraNetworks = Map.empty,
                 plan_Networks = []\<rparr>))"

definition DefaultNetworkName :: "plan \<Rightarrow> string" where
  "DefaultNetworkName p = Project p @ ''_default''"

definition plan_HostMountSources :: "plan \<Rightarrow> string list" where
  "plan_HostMountSources p = concat (map (\<lambda>s. HostMountSources (spec_Volumes s)) (Specs p))"

subsection \<open>Deployment\<close>

definition authorizePlanHostMounts ::
  "world \<Rightarrow> request \<Rightarrow> plan \<Rightarrow> bool \<Rightarrow> (api_error + plan) \<times> world" where
  "authorizePlanHostMounts w r plan requested =
     (let hostPaths = plan_HostMountSources plan;
          isAdmin = (case ctx_user r of None \<Rightarrow> False | Some u \<Rightarrow> HasGlobalSuperuser u)
      in if \<not> isAdmin \<and> (length hostPaths > 0 \<or> requested) then
           (let w1 = AddAuditDetail w ''denied'' (JStr ''host_mount'');
                w2 = (if length hostPaths > 0
                      then AddAuditDetail w1 ''hostPaths'' (JArr (map JStr hostPaths)) else w1)
            in (Inl (Errorf ErrForbidden
                  ''This stack declares host bind mounts, which require administrator privileges; use named volumes instead.''),
                SetAuditResult w2 ''denied''))
         else
           (let allow = isAdmin \<and> requested;
                plan' = plan\<lparr>Specs := map (\<lambda>s. s\<lparr>AllowHostMounts := allow\<rparr>) (Specs plan)\<rparr>;
                w1 = (if length hostPaths > 0
                      then AddAuditDetail w ''hostMounts'' (JArr (map JStr hostPaths)) else w)
            in (Inr plan', w1)))"

text \<open>
  The daemon calls of \<open>deployPlan\<close>: each takes the daemon's state and gives an error or a result,
  and the next state.
\<close>

record 'd engine =
  eng_daemon :: "'d daemon"
  eng_port :: "string \<Rightarrow> int \<Rightarrow> string option"
  EnsureProjectNetwork :: "string \<Rightarrow> 'd \<Rightarrow> (string + string) \<times> 'd"
  ConnectToNetwork :: "string \<Rightarrow> string \<Rightarrow> string list \<Rightarrow> 'd \<Rightarrow> (string + unit) \<times> 'd"

fun ensure_networks ::
  "'d engine \<Rightarrow> string list \<Rightarrow> (string \<rightharpoonup> string) \<Rightarrow> 'd \<Rightarrow> (string \<rightharpoonup> string) option \<times> 'd" where
  "ensure_networks en [] ids d = (Some ids, d)"
| "ensure_networks en (n # ns) ids d =
     (case EnsureProjectNetwork en n d of
        (Inl e, d') \<Rightarrow> (None, d')
      | (Inr i, d') \<Rightarrow> ensure_networks en ns (ids(n \<mapsto> i)) d')"

fun connect_networks ::
  "'d engine \<Rightarrow> (string \<rightharpoonup> string) \<Rightarrow> string \<Rightarrow> string list \<Rightarrow> string list \<Rightarrow> 'd \<Rightarrow> bool \<times> 'd" where
  "connect_networks en ids i aliases [] d = (True, d)"
| "connect_networks en ids i aliases (n # ns) d =
     (case ids n of None \<Rightarrow> connect_networks en ids i aliases ns d
      | Some nid \<Rightarrow>
          (case ConnectToNetwork en nid i aliases d of
             (Inl e, d') \<Rightarrow> (False, d')
           | (Inr _, d') \<Rightarrow> connect_networks en ids i aliases ns d'))"

datatype stack_status = StackRunning | StackPartial | StackError

fun deploy_specs ::
  "'d engine \<Rightarrow> plan \<Rightarrow> string \<Rightarrow> (string \<rightharpoonup> string) \<Rightarrow> nat \<Rightarrow> deploy_spec list \<Rightarrow> 'd
     \<Rightarrow> stack_status \<times> 'd" where
  "deploy_specs en p defaultNet ids deployed [] d = (StackRunning, d)"
| "deploy_specs en p defaultNet ids deployed (spec # specs) d =
     (case ContainerCreateAndStart (eng_port en) (eng_daemon en) spec d of
        (Inl e, d1) \<Rightarrow> (if deployed = 0 then StackError else StackPartial, d1)
      | (Inr i, d1) \<Rightarrow>
        (let aliases = (case Aliases p (Name spec) of None \<Rightarrow> [] | Some as \<Rightarrow> as) in
         case ConnectToNetwork en defaultNet i aliases d1 of
           (Inl e, d2) \<Rightarrow> (StackPartial, d2)
         | (Inr _, d2) \<Rightarrow>
           (case connect_networks en ids i aliases
                   (case ExtraNetworks p (Name spec) of None \<Rightarrow> [] | Some ns \<Rightarrow> ns) d2 of
              (False, d3) \<Rightarrow> (StackPartial, d3)
            | (True, d3) \<Rightarrow> deploy_specs en p defaultNet ids (deployed + 1) specs d3)))"

definition deployPlan :: "'d engine \<Rightarrow> plan \<Rightarrow> 'd \<Rightarrow> stack_status \<times> 'd" where
  "deployPlan en p d =
     (case EnsureProjectNetwork en (DefaultNetworkName p) d of
        (Inl e, d1) \<Rightarrow> (StackError, d1)
      | (Inr defaultNet, d1) \<Rightarrow>
        (case ensure_networks en (plan_Networks p) Map.empty d1 of
           (None, d2) \<Rightarrow> (StackError, d2)
         | (Some ids, d2) \<Rightarrow> deploy_specs en p defaultNet ids 0 (Specs p) d2))"

end
