(* ===== verification/Compose_Props.thy ===== *)
theory Compose_Props
  imports Compose_Plan
begin

text \<open>
  Properties of compose planning: the dependency order is a linear extension of \<open>depends_on\<close>,
  exists exactly when the dependencies are acyclic, and is the alphabetically least one; project
  names and ports stay in their ranges and survive printing; no host path reaches the daemon
  against the policy.
\<close>

subsection \<open>Kahn's algorithm\<close>

text \<open>The abstract specification: an order of the services that lists dependencies first.\<close>

definition deps_first :: "model \<Rightarrow> string list \<Rightarrow> bool" where
  "deps_first m os \<longleftrightarrow> (\<forall>i < length os. set (deps_of m (os ! i)) \<subseteq> set (take i os))"

definition dependency_order :: "model \<Rightarrow> string list \<Rightarrow> bool" where
  "dependency_order m os \<longleftrightarrow> distinct os \<and> set os = set (keys m) \<and> deps_first m os"

definition ready :: "model \<Rightarrow> string list \<Rightarrow> string set" where
  "ready m out = {n \<in> set (keys m). n \<notin> set out \<and> set (deps_of m n) \<subseteq> set out}"

definition open_deps :: "model \<Rightarrow> string list \<Rightarrow> string \<Rightarrow> nat" where
  "open_deps m out n = length (filter (\<lambda>d. d \<notin> set out) (deps_of m n))"

lemma open_deps_0: "open_deps m out n = 0 \<longleftrightarrow> set (deps_of m n) \<subseteq> set out"
  unfolding open_deps_def by (auto simp: filter_empty_conv)

lemma names_set [simp]: "set (ServiceNamesSorted m) = set (keys m)"
  "distinct (keys m) \<Longrightarrow> distinct (ServiceNamesSorted m)"
  "length (ServiceNamesSorted m) = length (keys m)"
  by (simp_all add: ServiceNamesSorted_def)

definition kahn_inv :: "model \<Rightarrow> string list \<Rightarrow> (string \<Rightarrow> int) \<Rightarrow> string list \<Rightarrow> bool" where
  "kahn_inv m queue ind out \<longleftrightarrow>
     (\<forall>n \<in> set (keys m). ind n = int (open_deps m out n))
     \<and> distinct queue \<and> set queue = ready m out
     \<and> distinct out \<and> set out \<subseteq> set (keys m) \<and> deps_first m out"

lemma length_filter_count: "length (filter (\<lambda>x. x = d) xs) = count_list xs d"
  by (induction xs) auto

lemma count_list_const: "count_list (map (\<lambda>_. n) xs) x = (if n = x then length xs else 0)"
  by (induction xs) auto

lemma count_list_concat_const:
  "distinct ns \<Longrightarrow> count_list (concat (map (\<lambda>n. map (\<lambda>_. n) (f n)) ns)) x
     = (if x \<in> set ns then length (f x) else 0)"
  by (induction ns) (auto simp: count_list_const)

lemma count_dependents:
  assumes "distinct (keys m)"
  shows "count_list (dependents m d) x = (if x \<in> set (keys m) then count_list (deps_of m x) d else 0)"
  using assms by (simp add: dependents_def count_list_concat_const length_filter_count)

lemma release_spec:
  assumes "release xs ind q = (ind', q')"
  shows "\<forall>x. ind' x = ind x - int (count_list xs x)"
    and "\<exists>ps. q' = q @ ps \<and> distinct ps \<and> set ps = {x. 0 < ind x \<and> ind x \<le> int (count_list xs x)}"
proof -
  have "(\<forall>x. ind' x = ind x - int (count_list xs x)) \<and>
     (\<exists>ps. q' = q @ ps \<and> distinct ps \<and> set ps = {x. 0 < ind x \<and> ind x \<le> int (count_list xs x)})"
    using assms
  proof (induction xs arbitrary: ind q)
    case Nil
    then show ?case by auto
  next
    case (Cons y ys)
    let ?ind = "ind(y := ind y - 1)"
    let ?q = "if ind y - 1 = 0 then q @ [y] else q"
    have "release ys ?ind ?q = (ind', q')" using Cons.prems by (simp add: Let_def del: fun_upd_apply)
    from Cons.IH [OF this] obtain ps where
      ind': "\<forall>x. ind' x = ?ind x - int (count_list ys x)" and
      ps: "q' = ?q @ ps" "distinct ps" "set ps = {x. 0 < ?ind x \<and> ?ind x \<le> int (count_list ys x)}"
      by blast
    let ?ps = "if ind y - 1 = 0 then y # ps else ps"
    have "q' = q @ ?ps" using ps(1) by simp
    moreover have "distinct ?ps" using ps(2,3) by auto
    moreover have "set ?ps = {x. 0 < ind x \<and> ind x \<le> int (count_list (y # ys) x)}"
      using ps(3) by auto
    moreover have "\<forall>x. ind' x = ind x - int (count_list (y # ys) x)" using ind' by auto
    ultimately show ?case by blast
  qed
  then show "\<forall>x. ind' x = ind x - int (count_list xs x)"
    and "\<exists>ps. q' = q @ ps \<and> distinct ps \<and> set ps = {x. 0 < ind x \<and> ind x \<le> int (count_list xs x)}"
    by blast+
qed

lemma open_deps_snoc:
  "n \<notin> set out \<Longrightarrow> open_deps m (out @ [n]) x + count_list (deps_of m x) n = open_deps m out x"
proof -
  assume n: "n \<notin> set out"
  have "length (filter (\<lambda>d. d \<noteq> n \<and> d \<notin> set out) ds) + count_list ds n
      = length (filter (\<lambda>d. d \<notin> set out) ds)" for ds
    using n by (induction ds) auto
  then show ?thesis by (simp add: open_deps_def conj_commute)
qed

lemma deps_first_snoc:
  "deps_first m out \<Longrightarrow> set (deps_of m n) \<subseteq> set out \<Longrightarrow> deps_first m (out @ [n])"
  by (auto simp: deps_first_def nth_append less_Suc_eq)

lemma set_remove_nth:
  "distinct q \<Longrightarrow> i < length q \<Longrightarrow> distinct (take i q @ drop (Suc i) q)
     \<and> set (take i q @ drop (Suc i) q) = set q - {q ! i}"
proof -
  assume q: "distinct q" "i < length q"
  have s: "q = take i q @ q ! i # drop (Suc i) q" by (rule id_take_nth_drop [OF q(2)])
  have "distinct (take i q @ q ! i # drop (Suc i) q)" using q(1) s by simp
  moreover have "set q = set (take i q @ q ! i # drop (Suc i) q)" using s by simp
  ultimately show ?thesis by auto
qed

lemma kahn_inv_step:
  assumes inv: "kahn_inv m q ind out" and dist: "distinct (keys m)" and ne: "q \<noteq> []"
    and rel: "release (dependents m (q ! min_index q)) ind
                (take (min_index q) q @ drop (Suc (min_index q)) q) = (ind', q')"
  shows "kahn_inv m q' ind' (out @ [q ! min_index q])"
proof -
  let ?i = "min_index q"
  let ?n = "q ! ?i"
  have i: "?i < length q" using min_index_least [OF ne] by simp
  have n: "?n \<in> ready m out" using inv i by (auto simp: kahn_inv_def)
  then have n': "?n \<in> set (keys m)" "?n \<notin> set out" "set (deps_of m ?n) \<subseteq> set out"
    by (simp_all add: ready_def)
  have ind': "ind' x = ind x - int (count_list (dependents m ?n) x)" for x
    using release_spec(1) [OF rel] by blast
  have ind: "ind' x = int (open_deps m (out @ [?n]) x)" if "x \<in> set (keys m)" for x
    using that inv ind' [of x] open_deps_snoc [OF n'(2), of m x] count_dependents [OF dist, of ?n x]
    by (simp add: kahn_inv_def)
  obtain ps where ps: "q' = (take ?i q @ drop (Suc ?i) q) @ ps" "distinct ps"
    "set ps = {x. 0 < ind x \<and> ind x \<le> int (count_list (dependents m ?n) x)}"
    using release_spec(2) [OF rel] by blast
  have rm: "distinct (take ?i q @ drop (Suc ?i) q)" "set (take ?i q @ drop (Suc ?i) q) = ready m out - {?n}"
    using set_remove_nth [OF _ i] inv by (simp_all add: kahn_inv_def)
  have ps_keys: "x \<in> set (keys m)" if "x \<in> set ps" for x
  proof (rule ccontr)
    assume "x \<notin> set (keys m)"
    then have "count_list (dependents m ?n) x = 0" using count_dependents [OF dist, of ?n x] by simp
    moreover have "0 < ind x \<and> ind x \<le> int (count_list (dependents m ?n) x)"
      using that unfolding ps(3) by simp
    ultimately show False by simp
  qed
  have ps_set: "set ps = {x \<in> set (keys m). open_deps m out x \<noteq> 0 \<and> open_deps m (out @ [?n]) x = 0}"
  proof -
    have "x \<in> set ps \<longleftrightarrow> open_deps m out x \<noteq> 0 \<and> open_deps m (out @ [?n]) x = 0"
      if "x \<in> set (keys m)" for x
      using ps(3) inv that ind' [of x] ind [OF that] by (auto simp: kahn_inv_def)
    then show ?thesis using ps_keys by blast
  qed
  have ready': "ready m (out @ [?n]) = (ready m out - {?n}) \<union> set ps"
  proof -
    have "x \<in> ready m (out @ [?n]) \<longleftrightarrow> x \<in> (ready m out - {?n}) \<union> set ps" if "x \<in> set (keys m)" for x
    proof -
      have closed: "open_deps m out x = 0" if "x \<in> set out"
        using that inv unfolding open_deps_0 kahn_inv_def deps_first_def
        by (metis in_set_conv_nth set_take_subset subset_trans)
      have mono: "open_deps m (out @ [?n]) x = 0" if "open_deps m out x = 0"
        using open_deps_snoc [OF n'(2), of m x] that by simp
      have selfdep: "open_deps m out ?n = 0" using n'(3) open_deps_0 by blast
      show ?thesis
        using that closed mono selfdep unfolding ps_set ready_def open_deps_0 [symmetric] by auto
    qed
    then show ?thesis using ps_keys unfolding ready_def by blast
  qed
  have disj: "set ps \<inter> (ready m out - {?n}) = {}"
    unfolding ps_set ready_def open_deps_0 [symmetric] by auto
  show ?thesis
    unfolding kahn_inv_def
  proof (intro conjI)
    show "\<forall>x \<in> set (keys m). ind' x = int (open_deps m (out @ [?n]) x)" using ind by blast
    show "distinct q'" unfolding ps(1) distinct_append using rm ps(2) disj by auto
    show "set q' = ready m (out @ [?n])" unfolding ps(1) ready' set_append using rm(2) by auto
    show "distinct (out @ [?n])" "set (out @ [?n]) \<subseteq> set (keys m)" "deps_first m (out @ [?n])"
      using inv n' deps_first_snoc by (auto simp: kahn_inv_def)
  qed
qed

text \<open>No dependency order is smaller than the part chosen so far.\<close>

definition least_so_far :: "model \<Rightarrow> string list \<Rightarrow> bool" where
  "least_so_far m out \<longleftrightarrow>
     (\<forall>os. dependency_order m os \<longrightarrow> take (length out) os = out \<or> out < take (length out) os)"

lemma less_append_same_length:
  "length xs = length ys \<Longrightarrow> xs < ys \<Longrightarrow> xs @ us < ys @ vs" for xs ys :: "'a :: order list"
  by (simp add: list_less_def lexord_sufI)

lemma snoc_le: "x \<le> y \<Longrightarrow> xs @ [x] = xs @ [y] \<or> xs @ [x] < xs @ [y]" for x y :: "'a :: linorder"
  by (cases "x = y") (simp_all add: list_less_def lexord_append_leftI)

lemma least_so_far_step:
  assumes inv: "kahn_inv m q ind out" and least: "least_so_far m out" and ne: "q \<noteq> []"
  shows "least_so_far m (out @ [q ! min_index q])"
  unfolding least_so_far_def
proof (intro allI impI)
  fix os
  assume os: "dependency_order m os"
  let ?n = "q ! min_index q" and ?k = "length out"
  have n: "?n \<in> ready m out" "\<forall>x \<in> ready m out. ?n \<le> x"
    using inv min_index_least [OF ne] by (auto simp: kahn_inv_def)
  then have "card (set out) < card (set (keys m))"
    using inv by (intro psubset_card_mono) (auto simp: ready_def kahn_inv_def)
  moreover have "card (set out) = ?k" using inv by (simp add: kahn_inv_def distinct_card)
  moreover have "card (set (keys m)) = length os"
    using os distinct_card [of os] by (simp add: dependency_order_def)
  ultimately have k: "?k < length os" by simp
  have tk: "take (Suc ?k) os = take ?k os @ [os ! ?k]" by (rule take_Suc_conv_app_nth [OF k])
  have len: "length (take ?k os) = ?k" using k by simp
  from least os consider "take ?k os = out" | "out < take ?k os"
    unfolding least_so_far_def by blast
  then show "take (length (out @ [?n])) os = out @ [?n] \<or> out @ [?n] < take (length (out @ [?n])) os"
  proof cases
    case 1
    have "os ! ?k \<notin> set (take ?k os)"
      using os k by (auto simp: dependency_order_def in_set_conv_nth nth_eq_iff_index_eq)
    moreover have "set (deps_of m (os ! ?k)) \<subseteq> set (take ?k os)"
      using os k by (simp add: dependency_order_def deps_first_def)
    moreover have "os ! ?k \<in> set (keys m)" using os k nth_mem by (fastforce simp: dependency_order_def)
    ultimately have "os ! ?k \<in> ready m out" using 1 by (simp add: ready_def)
    then have "?n \<le> os ! ?k" using n(2) by blast
    from snoc_le [OF this, of out] show ?thesis using tk 1 by auto
  next
    case 2
    then have "out @ [?n] < take ?k os @ [os ! ?k]" by (intro less_append_same_length) (use len in simp_all)
    then show ?thesis using tk by simp
  qed
qed

lemma kahn_result:
  "distinct (keys m) \<Longrightarrow> kahn_inv m q ind out \<Longrightarrow> least_so_far m out \<Longrightarrow>
     (\<exists>ind'. kahn_inv m [] ind' (kahn m q ind out)) \<and> least_so_far m (kahn m q ind out)"
proof (induction m q ind out rule: kahn.induct)
  case (1 m q ind out)
  show ?case
  proof (cases "q = []")
    case True
    then show ?thesis using 1(3,4) by (subst (1 2) kahn.simps) auto
  next
    case False
    obtain ind' q' where rel: "release (dependents m (q ! min_index q)) ind
        (take (min_index q) q @ drop (Suc (min_index q)) q) = (ind', q')" by (rule prod.exhaust)
    have step: "kahn m q ind out = kahn m q' ind' (out @ [q ! min_index q])"
      by (subst kahn.simps) (use False rel in \<open>simp add: Let_def\<close>)
    show ?thesis unfolding step
      by (rule 1(1) [OF False refl refl refl rel [symmetric] 1(2)])
        (use kahn_inv_step [OF 1(3,2) False rel] least_so_far_step [OF 1(3,4) False] rel in simp_all)
  qed
qed

lemma kahn_inv_start:
  "distinct (keys m) \<Longrightarrow>
     kahn_inv m (filter (\<lambda>n. indegree0 m n = 0) (ServiceNamesSorted m)) (indegree0 m) []"
  by (auto simp: kahn_inv_def indegree0_def open_deps_def ready_def deps_first_def)

lemma topoSort_result:
  assumes "distinct (keys m)"
  obtains out ind where "kahn_inv m [] ind out" "least_so_far m out"
    "topoSort m = (if length out \<noteq> length (keys m)
       then Inl (Validationf ''depends_on contains a cycle; services cannot be ordered.'' [])
       else Inr out)"
proof -
  let ?out = "kahn m (filter (\<lambda>n. indegree0 m n = 0) (ServiceNamesSorted m)) (indegree0 m) []"
  have "least_so_far m []" by (simp add: least_so_far_def)
  with kahn_result [OF assms kahn_inv_start [OF assms]] obtain ind where
    "kahn_inv m [] ind ?out" "least_so_far m ?out" by blast
  moreover have "topoSort m = (if length ?out \<noteq> length (keys m)
       then Inl (Validationf ''depends_on contains a cycle; services cannot be ordered.'' [])
       else Inr ?out)"
    by (simp only: topoSort_def Let_def names_set)
  ultimately show thesis by (rule that)
qed

lemma full_order:
  assumes "distinct (keys m)" "distinct out" "set out \<subseteq> set (keys m)" "length out = length (keys m)"
  shows "set out = set (keys m)"
  using assms by (metis card_subset_eq distinct_card finite_set)

lemma topoSort_dependency_order:
  assumes "topoSort m = Inr os" "distinct (keys m)"
  shows "dependency_order m os"
proof -
  obtain out ind where out: "kahn_inv m [] ind out"
    "topoSort m = (if length out \<noteq> length (keys m)
       then Inl (Validationf ''depends_on contains a cycle; services cannot be ordered.'' [])
       else Inr out)" by (rule topoSort_result [OF assms(2)])
  then have "out = os" "length os = length (keys m)" using assms(1) by (auto split: if_splits)
  then show ?thesis
    using out(1) full_order [OF assms(2)] by (simp add: dependency_order_def kahn_inv_def)
qed

text \<open>When \<open>topoSort\<close> succeeds, its result lists every service exactly once, each after all
  the services it depends on, and among all such orders it is the alphabetically least one.\<close>

theorem topoSort_order:
  assumes "topoSort m = Inr os" "distinct (keys m)"
  shows "dependency_order m os \<and> (\<forall>os'. dependency_order m os' \<longrightarrow> os \<le> os')"
proof -
  obtain out ind where out: "kahn_inv m [] ind out" "least_so_far m out"
    "topoSort m = (if length out \<noteq> length (keys m)
       then Inl (Validationf ''depends_on contains a cycle; services cannot be ordered.'' [])
       else Inr out)" by (rule topoSort_result [OF assms(2)])
  then have os: "out = os" "length os = length (keys m)" using assms(1) by (auto split: if_splits)
  have ord: "dependency_order m os" by (rule topoSort_dependency_order [OF assms])
  have "os \<le> os'" if "dependency_order m os'" for os'
  proof -
    have "length os' = length os"
      using that assms(2) os(2) distinct_card by (metis dependency_order_def)
    then show ?thesis using out(2) that os(1) by (auto simp: least_so_far_def intro: less_imp_le)
  qed
  with ord show ?thesis by blast
qed

text \<open>\<open>topoSort\<close> reports a cycle exactly when the services cannot be ordered: it succeeds
  if and only if some order of the services lists every dependency first.\<close>

theorem topoSort_complete:
  assumes "distinct (keys m)"
  shows "(\<exists>os. topoSort m = Inr os) \<longleftrightarrow> (\<exists>os. dependency_order m os)"
proof
  assume "\<exists>os. topoSort m = Inr os"
  then obtain os where os: "topoSort m = Inr os" by blast
  obtain out ind where out: "kahn_inv m [] ind out"
    "topoSort m = (if length out \<noteq> length (keys m)
       then Inl (Validationf ''depends_on contains a cycle; services cannot be ordered.'' [])
       else Inr out)" by (rule topoSort_result [OF assms])
  then have "length out = length (keys m)" using os by (auto split: if_splits)
  then show "\<exists>os. dependency_order m os"
    using out(1) full_order [OF assms] by (auto simp: dependency_order_def kahn_inv_def)
next
  assume "\<exists>os. dependency_order m os"
  then obtain os where os: "dependency_order m os" by blast
  obtain out ind where out: "kahn_inv m [] ind out"
    "topoSort m = (if length out \<noteq> length (keys m)
       then Inl (Validationf ''depends_on contains a cycle; services cannot be ordered.'' [])
       else Inr out)" by (rule topoSort_result [OF assms])
  have all: "set os \<subseteq> set out"
  proof -
    have "\<forall>i \<le> length os. set (take i os) \<subseteq> set out"
    proof (intro allI impI)
      fix i
      assume "i \<le> length os"
      then show "set (take i os) \<subseteq> set out"
      proof (induction i)
        case 0
        then show ?case by simp
      next
        case (Suc i)
        then have i: "i < length os" "set (take i os) \<subseteq> set out" by simp_all
        then have "set (deps_of m (os ! i)) \<subseteq> set out" "os ! i \<in> set (keys m)"
          using os nth_mem by (fastforce simp: dependency_order_def deps_first_def)+
        moreover have "ready m out = {}" using out(1) by (simp add: kahn_inv_def)
        ultimately have "os ! i \<in> set out" unfolding ready_def by blast
        then show ?case using i by (simp add: take_Suc_conv_app_nth)
      qed
    qed
    then show ?thesis by (metis order_refl take_all)
  qed
  then have "set out = set (keys m)" using os out(1) by (auto simp: dependency_order_def kahn_inv_def)
  then have "length out = length (keys m)"
    using out(1) assms distinct_card by (metis kahn_inv_def)
  then show "\<exists>os. topoSort m = Inr os" using out(2) by simp
qed

text \<open>C15. \<open>topoSort\<close> decides whether the services can be ordered: it fails exactly when no order
  lists every dependency first, and otherwise lists every service exactly once, each after all the
  services it depends on, in the alphabetically least such order.\<close>

theorem topoSort_correct:
  assumes "distinct (keys m)"
  shows "case topoSort m of
      Inl e \<Rightarrow> \<not> (\<exists>os. dependency_order m os)
    | Inr os \<Rightarrow> dependency_order m os \<and> (\<forall>os'. dependency_order m os' \<longrightarrow> os \<le> os')"
proof (cases "topoSort m")
  case (Inl e)
  then show ?thesis using topoSort_complete [OF assms] by simp
next
  case (Inr os)
  then show ?thesis using topoSort_order [OF Inr assms] by simp
qed

definition demo_service :: "string list \<Rightarrow> service" where
  "demo_service deps = \<lparr>Image = ''img'', ContainerName = [], Ports = [''8080:80''], Environment = [''A=1''],
     Volumes = [''data:/v''], Networks = [], Restart = ''always'', Command = [], DependsOn = deps\<rparr>"

definition demo_model :: model where
  "demo_model = [(''web'', demo_service [''db'', ''auth'']), (''db'', demo_service []),
     (''auth'', demo_service [''db'']), (''cache'', demo_service [])]"

lemma demo_topo: "topoSort demo_model = Inr [''cache'', ''db'', ''auth'', ''web'']"
  by code_simp

lemma demo_keys: "keys demo_model = [''web'', ''db'', ''auth'', ''cache'']"
  by (simp add: demo_model_def)

definition cyclic_model :: model where
  "cyclic_model = [(''a'', demo_service [''b'']), (''b'', demo_service [''a''])]"

theorem topoSort_correct_witness:
  "dependency_order demo_model [''cache'', ''db'', ''auth'', ''web''] \<and> length (keys demo_model) = 4
   \<and> \<not> (\<exists>os. dependency_order cyclic_model os)"
proof -
  have "topoSort cyclic_model = Inl (Validationf ''depends_on contains a cycle; services cannot be ordered.'' [])"
    by code_simp
  then show ?thesis
    using topoSort_correct [of demo_model] topoSort_correct [of cyclic_model] demo_topo
    by (simp add: demo_keys cyclic_model_def)
qed

subsection \<open>Project names\<close>

definition is_sep :: "char \<Rightarrow> bool" where
  "is_sep c \<longleftrightarrow> c = CHR ''-'' \<or> c = CHR ''_''"

definition is_core :: "char \<Rightarrow> bool" where
  "is_core c \<longleftrightarrow> is_lower c \<or> is_digit c"

text \<open>A clean name: only \<open>[a-z0-9_-]\<close>, no two separators in a row, none at either end.\<close>

definition clean :: "string \<Rightarrow> bool" where
  "clean s \<longleftrightarrow> list_all (\<lambda>c. is_core c \<or> is_sep c) s
     \<and> successively (\<lambda>c d. \<not> (is_sep c \<and> is_sep d)) s"

definition clean_name :: "string \<Rightarrow> bool" where
  "clean_name s \<longleftrightarrow> clean s \<and> (s \<noteq> [] \<longrightarrow> is_core (hd s) \<and> is_core (last s))"

lemma core_not_sep: "is_core c \<Longrightarrow> \<not> is_sep c"
  by (auto simp: is_core_def is_sep_def is_lower_def is_digit_def less_eq_char_def)

lemma sanitize_loop_clean:
  assumes "clean b" "b \<noteq> [] \<longrightarrow> is_core (hd b)" "prev = (b \<noteq> [] \<and> is_sep (last b))"
  shows "clean (sanitize_loop b prev s) \<and> (sanitize_loop b prev s \<noteq> [] \<longrightarrow> is_core (hd (sanitize_loop b prev s)))"
  using assms
proof (induction s arbitrary: b prev)
  case Nil
  then show ?case by simp
next
  case (Cons c cs)
  have snoc: "clean (b @ [d])" if "is_core d \<or> is_sep d" "is_sep d \<longrightarrow> b \<noteq> [] \<and> \<not> is_sep (last b)" for d
    using that Cons.prems(1) by (cases "b = []") (auto simp: clean_def successively_append_iff dest: core_not_sep)
  have hd: "is_core (hd (b @ [d]))" if "b \<noteq> [] \<or> is_core d" for d
    using that Cons.prems(2) by (cases b) auto
  have sepd: "is_sep CHR ''-''" by (simp add: is_sep_def)
  consider (core) "is_lower c \<or> is_digit c"
    | (sep) "\<not> (is_lower c \<or> is_digit c)" "c = CHR ''-'' \<or> c = CHR ''_''"
    | (dot) "\<not> (is_lower c \<or> is_digit c)" "\<not> (c = CHR ''-'' \<or> c = CHR ''_'')" "c = CHR '' '' \<or> c = CHR ''.'' \<or> c = CHR ''/''"
    | (skip) "\<not> (is_lower c \<or> is_digit c)" "\<not> (c = CHR ''-'' \<or> c = CHR ''_'')" "\<not> (c = CHR '' '' \<or> c = CHR ''.'' \<or> c = CHR ''/'')"
    by blast
  then show ?case
  proof cases
    case core
    then have c: "is_core c" by (simp add: is_core_def)
    have eq: "sanitize_loop b prev (c # cs) = sanitize_loop (b @ [c]) False cs" using core by simp
    show ?thesis unfolding eq
      by (rule Cons.IH) (use snoc [of c] hd [of c] c core_not_sep [OF c] in simp_all)
  next
    case sep
    then have c: "is_sep c" by (simp add: is_sep_def)
    show ?thesis
    proof (cases "b \<noteq> [] \<and> \<not> prev")
      case True
      then have eq: "sanitize_loop b prev (c # cs) = sanitize_loop (b @ [c]) True cs" using sep by auto
      show ?thesis unfolding eq
        by (rule Cons.IH) (use snoc [of c] hd [of c] c True Cons.prems(3) in auto)
    next
      case False
      then have eq: "sanitize_loop b prev (c # cs) = sanitize_loop b prev cs" using sep by auto
      show ?thesis unfolding eq by (rule Cons.IH [OF Cons.prems])
    qed
  next
    case dot
    show ?thesis
    proof (cases "b \<noteq> [] \<and> \<not> prev")
      case True
      then have eq: "sanitize_loop b prev (c # cs) = sanitize_loop (b @ ''-'') True cs" using dot by auto
      show ?thesis unfolding eq
        by (rule Cons.IH) (use snoc [of "CHR ''-''"] hd [of "CHR ''-''"] sepd True Cons.prems(3) in auto)
    next
      case False
      then have eq: "sanitize_loop b prev (c # cs) = sanitize_loop b prev cs" using dot by auto
      show ?thesis unfolding eq by (rule Cons.IH [OF Cons.prems])
    qed
  next
    case skip
    then have eq: "sanitize_loop b prev (c # cs) = sanitize_loop b prev cs" by simp
    show ?thesis unfolding eq by (rule Cons.IH [OF Cons.prems])
  qed
qed

lemma trim_set: "trim_chars ''-_'' s = trim_right is_sep (trim_left is_sep s)"
proof -
  have "c \<in> set ''-_'' \<longleftrightarrow> is_sep c" for c by (simp add: is_sep_def)
  then have eq: "(\<lambda>c. c \<in> set ''-_'') = is_sep" by (intro ext)
  show ?thesis unfolding trim_chars_def eq ..
qed

lemma trim_right_last: "trim_right P s \<noteq> [] \<Longrightarrow> \<not> P (last (trim_right P s))"
proof -
  assume "trim_right P s \<noteq> []"
  then have "dropWhile P (rev s) \<noteq> []" by (simp add: trim_right_def)
  then show ?thesis using hd_dropWhile [of P "rev s"] by (simp add: trim_right_def last_rev)
qed

lemma trim_clean:
  assumes "clean s" "s \<noteq> [] \<longrightarrow> is_core (hd s)"
  shows "clean_name (trim_chars ''-_'' s)"
proof -
  have "trim_left is_sep s = s"
    using assms(2) core_not_sep by (cases s) (auto simp: trim_left_def)
  then have eq: "trim_chars ''-_'' s = trim_right is_sep s" by (simp add: trim_set)
  obtain t where t: "s = trim_right is_sep s @ t" using trim_right_suffix by blast
  let ?r = "trim_right is_sep s"
  have cl: "clean ?r"
    using assms(1) unfolding clean_def
    by (subst (asm) (1 2) t) (auto simp: successively_append_iff)
  have "is_core (hd ?r) \<and> is_core (last ?r)" if "?r \<noteq> []"
  proof -
    have "hd s = hd ?r" using that t by (metis hd_append2)
    moreover have "s \<noteq> []" using that t by auto
    moreover have "is_core (last ?r) \<or> is_sep (last ?r)"
      using cl that by (auto simp: clean_def list_all_iff)
    ultimately show ?thesis using assms(2) trim_right_last [OF that] by auto
  qed
  with cl show ?thesis unfolding eq clean_name_def by blast
qed

lemma SanitizeProjectName_clean: "clean_name (SanitizeProjectName s)"
  unfolding SanitizeProjectName_def
  by (rule trim_clean) (use sanitize_loop_clean [of "[]" False] in \<open>auto simp: clean_def\<close>)

lemma sanitize_loop_id:
  "clean (b @ cs) \<Longrightarrow> b @ cs \<noteq> [] \<longrightarrow> is_core (hd (b @ cs)) \<Longrightarrow> prev = (b \<noteq> [] \<and> is_sep (last b))
     \<Longrightarrow> sanitize_loop b prev cs = b @ cs"
proof (induction cs arbitrary: b prev)
  case Nil
  then show ?case by simp
next
  case (Cons c cs)
  have c: "is_core c \<or> is_sep c" "\<not> (b \<noteq> [] \<and> is_sep (last b) \<and> is_sep c)" "b = [] \<longrightarrow> is_core c"
    using Cons.prems(1,2) by (auto simp: clean_def successively_append_iff)
  have IH: "sanitize_loop (b @ [c]) (is_sep c) cs = b @ c # cs"
    using Cons.IH [of "b @ [c]" "is_sep c"] Cons.prems(1,2) by simp
  show ?case
  proof (cases "is_core c")
    case True
    then show ?thesis using IH core_not_sep [OF True] by (simp add: is_core_def)
  next
    case False
    then have s: "is_sep c" "b \<noteq> []" "\<not> prev" using c Cons.prems(3) by auto
    have "sanitize_loop b prev (c # cs) = sanitize_loop (b @ [c]) True cs"
      using False s by (auto simp: is_core_def is_sep_def)
    then show ?thesis using IH s(1) by simp
  qed
qed

lemma dropWhile_hd: "s \<noteq> [] \<longrightarrow> \<not> P (hd s) \<Longrightarrow> dropWhile P s = s"
  by (cases s) auto

lemma trim_ends_id:
  "s \<noteq> [] \<longrightarrow> \<not> P (hd s) \<and> \<not> P (last s) \<Longrightarrow> trim_right P (trim_left P s) = s"
  unfolding trim_right_def trim_left_def by (simp add: dropWhile_hd hd_rev)

lemma core_chars: "is_core c \<Longrightarrow> \<not> is_space c" "is_core c \<or> is_sep c \<Longrightarrow> lower_char c = c"
  by (auto simp: is_core_def is_sep_def is_lower_def is_digit_def is_space_def lower_char_def is_upper_def
      less_eq_char_def)

lemma SanitizeProjectName_id:
  assumes "clean_name s"
  shows "SanitizeProjectName s = s"
proof -
  have cl: "clean s" "s \<noteq> [] \<longrightarrow> is_core (hd s) \<and> is_core (last s)"
    using assms by (simp_all add: clean_name_def)
  have 1: "trim_space s = s"
    unfolding trim_space_def by (rule trim_ends_id) (use cl(2) core_chars(1) in blast)
  have 2: "to_lower s = s"
    unfolding to_lower_def using cl(1) core_chars(2) by (intro map_idI) (auto simp: clean_def list_all_iff)
  have 3: "sanitize_loop [] False s = s"
    using sanitize_loop_id [of "[]" s False] cl by simp
  have 4: "trim_chars ''-_'' s = s"
    unfolding trim_set by (rule trim_ends_id) (use cl(2) core_not_sep in blast)
  show ?thesis by (simp add: SanitizeProjectName_def 1 2 3 4)
qed

text \<open>A sanitized project name consists of lower-case letters, digits, \<open>-\<close> and \<open>_\<close>, has no two
  separators in a row and none at its ends; sanitizing changes nothing on such names, so it is
  idempotent.\<close>

theorem project_name_sanitized:
  "clean_name (SanitizeProjectName s) \<and> (clean_name t \<longrightarrow> SanitizeProjectName t = t)
   \<and> SanitizeProjectName (SanitizeProjectName s) = SanitizeProjectName s"
  by (simp add: SanitizeProjectName_clean SanitizeProjectName_id)

theorem project_name_sanitized_witness:
  "SanitizeProjectName ''my-app_2'' = ''my-app_2'' \<and> SanitizeProjectName ''  My..App! '' = ''my-app''"
proof -
  have "clean_name ''my-app_2''" by code_simp
  moreover have "SanitizeProjectName ''  My..App! '' = ''my-app''" by code_simp
  ultimately show ?thesis using project_name_sanitized [of "[]" "''my-app_2''"] by simp
qed

subsection \<open>Ports\<close>

definition valid_port :: "port_map \<Rightarrow> bool" where
  "valid_port pm \<longleftrightarrow> 1 \<le> Container pm \<and> Container pm \<le> 65535 \<and> 0 \<le> Host pm \<and> Host pm \<le> 65535
     \<and> Proto pm \<in> {''tcp'', ''udp'', ''sctp''}"

text \<open>The canonical spelling of a port mapping.\<close>

definition render_port :: "port_map \<Rightarrow> string" where
  "render_port pm = (if Host pm = 0 then itoa (Container pm)
     else itoa (Host pm) @ '':'' @ itoa (Container pm)) @ ''/'' @ Proto pm"

lemma parsePortNum_range: "parsePortNum s = Some n \<Longrightarrow> 1 \<le> n \<and> n \<le> 65535"
  by (simp add: parsePortNum_def split: option.splits if_splits)

lemma parse_port_valid: "parse_port svc raw = Inr (Some pm) \<Longrightarrow> valid_port pm"
  unfolding parse_port_def Let_def
  by (simp split: if_splits prod.splits option.splits)
    (auto dest!: parsePortNum_range simp: valid_port_def)

lemma parsePorts_valid: "parsePorts svc specs = Inr pms \<Longrightarrow> list_all valid_port pms"
  by (induction specs arbitrary: pms)
    (auto split: sum.splits option.splits dest: parse_port_valid)

lemma contains_char: "contains_str s [c] \<longleftrightarrow> c \<in> set s"
  by (induction s) (auto simp: has_prefix_def)

lemma itoa_digits:
  assumes "0 \<le> n"
  shows "list_all is_digit (itoa n)" "itoa n \<noteq> []"
  using assms nat_digits_digits by (auto simp: itoa_def list_all_iff)

lemma digit_chars: "is_digit c \<Longrightarrow> \<not> is_space c \<and> c \<noteq> CHR '':'' \<and> c \<noteq> CHR ''-'' \<and> c \<noteq> CHR ''/''"
  by (auto simp: is_digit_def is_space_def less_eq_char_def)

lemma itoa_plain:
  assumes "0 \<le> n"
  shows "CHR '':'' \<notin> set (itoa n)" "CHR ''-'' \<notin> set (itoa n)" "trim_space (itoa n) = itoa n"
proof -
  have d: "c \<in> set (itoa n) \<Longrightarrow> is_digit c" for c using itoa_digits(1) [OF assms] by (simp add: list_all_iff)
  show "CHR '':'' \<notin> set (itoa n)" "CHR ''-'' \<notin> set (itoa n)" using d digit_chars by blast+
  show "trim_space (itoa n) = itoa n"
    unfolding trim_space_def
    by (rule trim_ends_id) (use d digit_chars itoa_digits(2) [OF assms] in \<open>simp add: hd_in_set last_in_set\<close>)
qed

lemma parsePortNum_itoa: "1 \<le> n \<Longrightarrow> n \<le> 65535 \<Longrightarrow> parsePortNum (itoa n) = Some n"
  by (simp add: parsePortNum_def itoa_plain atoi_itoa)

lemma parse_render:
  assumes "valid_port pm"
  shows "parse_port svc (render_port pm) = Inr (Some pm)"
proof -
  let ?h = "if Host pm = 0 then itoa (Container pm) else itoa (Host pm) @ '':'' @ itoa (Container pm)"
  have r: "1 \<le> Container pm" "Container pm \<le> 65535" "0 \<le> Host pm" "Host pm \<le> 65535"
    "Proto pm \<in> {''tcp'', ''udp'', ''sctp''}"
    using assms by (simp_all add: valid_port_def)
  have proto: "CHR ''/'' \<notin> set (Proto pm)" "Proto pm \<noteq> []" "\<not> is_space (last (Proto pm))"
    "to_lower (trim_space (Proto pm)) = Proto pm"
  proof -
    have "CHR ''/'' \<notin> set p \<and> p \<noteq> [] \<and> \<not> is_space (last p) \<and> to_lower (trim_space p) = p"
      if "p \<in> {''tcp'', ''udp'', ''sctp''}" for p
    proof -
      have "to_lower (trim_space ''tcp'') = ''tcp''" "to_lower (trim_space ''udp'') = ''udp''"
        "to_lower (trim_space ''sctp'') = ''sctp''" by code_simp+
      with that show ?thesis by (auto simp: is_space_def)
    qed
    with r(5) show "CHR ''/'' \<notin> set (Proto pm)" "Proto pm \<noteq> []" "\<not> is_space (last (Proto pm))"
      "to_lower (trim_space (Proto pm)) = Proto pm" by blast+
  qed
  have eq: "render_port pm = ?h @ CHR ''/'' # Proto pm" by (simp add: render_port_def)
  have dig: "\<not> is_space (hd (itoa n @ xs))" if "0 \<le> n" for n xs
    using itoa_digits [OF that] digit_chars by (cases "itoa n") auto
  have "\<not> is_space (hd (render_port pm))"
    unfolding eq using dig r by simp
  moreover have "\<not> is_space (last (render_port pm))" unfolding eq using proto by simp
  ultimately have t: "trim_space (render_port pm) = render_port pm"
    unfolding trim_space_def by (intro trim_ends_id) simp
  have cut: "cut_last (CHR ''/'') (render_port pm) = Some (?h, Proto pm)"
    unfolding eq by (rule cut_last_append [OF proto(1)])
  have ne: "render_port pm \<noteq> []" by (simp add: eq)
  have parts: "port_parts ?h = Some (if Host pm = 0 then [] else itoa (Host pm), itoa (Container pm))"
    using r by (simp add: port_parts_def split_on_plain split_on_append_sep itoa_plain)
  have trim: "trim_space [] = []" by (simp add: trim_space_def trim_right_def trim_left_def)
  show ?thesis
    unfolding parse_port_def t cut Let_def
    using ne r proto parts by (auto simp: contains_char itoa_plain parsePortNum_itoa itoa_digits trim)
qed

text \<open>Every port mapping that \<open>parsePorts\<close> accepts is in range (container port 1 to 65535,
  host port 0 to 65535 with 0 for an ephemeral one, protocol tcp, udp or sctp), and printing the
  mappings and parsing them again gives the same list.\<close>

theorem ports_roundtrip:
  assumes "parsePorts svc specs = Inr pms"
  shows "list_all valid_port pms \<and> parsePorts svc (map render_port pms) = Inr pms"
proof -
  have "list_all valid_port ps \<Longrightarrow> parsePorts svc (map render_port ps) = Inr ps" for ps
    by (induction ps) (simp_all add: parse_render)
  then show ?thesis using parsePorts_valid [OF assms] by simp
qed

theorem ports_roundtrip_witness:
  "parsePorts ''web'' (map render_port
       [\<lparr>Host = 8080, Container = 80, Proto = ''tcp''\<rparr>, \<lparr>Host = 0, Container = 53, Proto = ''udp''\<rparr>])
   = Inr [\<lparr>Host = 8080, Container = 80, Proto = ''tcp''\<rparr>, \<lparr>Host = 0, Container = 53, Proto = ''udp''\<rparr>]"
proof -
  have "parsePorts ''web'' [''127.0.0.1:8080:80'', '' 53/UDP '']
      = Inr [\<lparr>Host = 8080, Container = 80, Proto = ''tcp''\<rparr>, \<lparr>Host = 0, Container = 53, Proto = ''udp''\<rparr>]"
    by code_simp
  then show ?thesis using ports_roundtrip by blast
qed

subsection \<open>The plan\<close>

definition spec_of :: "model \<Rightarrow> string \<Rightarrow> string \<Rightarrow> deploy_spec \<Rightarrow> bool" where
  "spec_of m project name spec \<longleftrightarrow>
     (\<exists>svc ports vols. map_of m name = Some svc \<and> parsePorts name (Ports svc) = Inr ports
        \<and> parseVolumes name (Volumes svc) = Inr vols \<and> spec = service_spec project name svc ports vols)"

lemma add_service_Inr:
  assumes "add_service plan name svc = Inr plan'"
  obtains ports vols where "parsePorts name (Ports svc) = Inr ports" "parseVolumes name (Volumes svc) = Inr vols"
    "Specs plan' = Specs plan @ [service_spec (Project plan) name svc ports vols]"
    "Project plan' = Project plan"
  using assms unfolding add_service_def Let_def
  by (cases "parsePorts name (Ports svc)"; cases "parseVolumes name (Volumes svc)") (simp_all, drule sym, simp)

lemma add_services_Inr:
  "add_services m names plan = Inr plan' \<Longrightarrow> set names \<subseteq> set (keys m) \<Longrightarrow>
     Project plan' = Project plan
     \<and> (\<exists>ss. Specs plan' = Specs plan @ ss \<and> list_all2 (spec_of m (Project plan)) names ss)"
proof (induction names arbitrary: plan)
  case Nil
  then show ?case by simp
next
  case (Cons n ns)
  obtain svc where svc: "map_of m n = Some svc"
    using Cons.prems(2) map_of_SomeI_keys [of n m] by auto
  then obtain plan1 where p1: "add_service plan n svc = Inr plan1" "add_services m ns plan1 = Inr plan'"
    using Cons.prems(1) by (simp split: sum.splits)
  from p1(1) show ?case
  proof (cases rule: add_service_Inr)
    case (1 ports vols)
    obtain ss where ss: "Project plan' = Project plan1" "Specs plan' = Specs plan1 @ ss"
      "list_all2 (spec_of m (Project plan1)) ns ss"
      using Cons.IH [OF p1(2)] Cons.prems(2) by auto
    have "spec_of m (Project plan) n (service_spec (Project plan) n svc ports vols)"
      unfolding spec_of_def using svc 1 by blast
    with ss 1 show ?thesis
      by (intro conjI exI [of _ "service_spec (Project plan) n svc ports vols # ss"]) simp_all
  qed
qed

text \<open>C19. A deployment plan has one specification per service, in an order that puts every service
  after the services it depends on; each carries the sanitized project name, the service's image
  and the parsed ports and volumes of that very service.\<close>

theorem plan_follows_dependencies:
  assumes "BuildPlan raw m = Inr p" "distinct (keys m)"
  shows "Project p = SanitizeProjectName raw \<and>
    (\<exists>os. dependency_order m os \<and> list_all2 (spec_of m (SanitizeProjectName raw)) os (Specs p))"
proof -
  let ?p0 = "\<lparr>Project = SanitizeProjectName raw, Specs = [], Aliases = Map.empty,
      ExtraNetworks = Map.empty, plan_Networks = []\<rparr>"
  obtain os where os: "topoSort m = Inr os" "add_services m os ?p0 = Inr p"
    using assms(1) by (simp add: BuildPlan_def Let_def split: if_splits sum.splits)
  have ord: "dependency_order m os" using topoSort_dependency_order [OF os(1) assms(2)] .
  then have "set os \<subseteq> set (keys m)" by (simp add: dependency_order_def)
  from add_services_Inr [OF os(2) this] ord show ?thesis by auto
qed

definition pair_model :: model where
  "pair_model = [(''web'', demo_service [''db'']), (''db'', demo_service [])]"

theorem plan_follows_dependencies_witness:
  "\<exists>p os. BuildPlan ''Shop'' pair_model = Inr p \<and> Project p = ''shop''
     \<and> dependency_order pair_model os \<and> length os = length (Specs p)"
proof -
  have "\<not> isl (BuildPlan ''Shop'' pair_model)" by code_simp
  then obtain p where p: "BuildPlan ''Shop'' pair_model = Inr p"
    by (cases "BuildPlan ''Shop'' pair_model") simp_all
  have name: "SanitizeProjectName ''Shop'' = ''shop''" by code_simp
  have "distinct (keys pair_model)" by (simp add: pair_model_def)
  from plan_follows_dependencies [OF p this] obtain os where "Project p = ''shop''"
    "dependency_order pair_model os" "list_all2 (spec_of pair_model ''shop'') os (Specs p)"
    unfolding name by blast
  with p list_all2_lengthD [OF this(3)] show ?thesis by (intro exI conjI) simp_all
qed

subsection \<open>Host mounts\<close>

text \<open>
  Whatever the daemon is: \<open>P\<close> is a property of its state that every call keeps, where creating a
  container keeps it if all the mounts of the configuration are allowed.
\<close>

definition daemon_keeps :: "'d daemon \<Rightarrow> (mount \<Rightarrow> bool) \<Rightarrow> ('d \<Rightarrow> bool) \<Rightarrow> bool" where
  "daemon_keeps dm allowed P \<longleftrightarrow>
     (\<forall>d. P d \<longrightarrow> (\<forall>ref. P (snd (image_pull dm ref d)))
        \<and> (\<forall>cfg. list_all allowed (cc_mounts cfg) \<longrightarrow> P (snd (container_create dm cfg d)))
        \<and> (\<forall>i. P (snd (container_start dm i d)) \<and> P (container_remove dm i d)))"

definition engine_keeps :: "'d engine \<Rightarrow> (mount \<Rightarrow> bool) \<Rightarrow> ('d \<Rightarrow> bool) \<Rightarrow> bool" where
  "engine_keeps en allowed P \<longleftrightarrow> daemon_keeps (eng_daemon en) allowed P
     \<and> (\<forall>d. P d \<longrightarrow> (\<forall>n. P (snd (EnsureProjectNetwork en n d)))
        \<and> (\<forall>n i as. P (snd (ConnectToNetwork en n i as d))))"

definition spec_allowed :: "(mount \<Rightarrow> bool) \<Rightarrow> deploy_spec \<Rightarrow> bool" where
  "spec_allowed allowed spec \<longleftrightarrow>
     (ValidateMounts (spec_Volumes spec) (AllowHostMounts spec) = None \<longrightarrow>
        list_all allowed (buildMounts (spec_Volumes spec)))"

lemma ensureImage_keeps:
  assumes "daemon_keeps dm allowed P" "P d"
  shows "P (snd (ensureImage dm ref d))"
proof -
  obtain r d1 where r: "image_pull dm ref d = (r, d1)" by (rule prod.exhaust)
  have "P (snd (image_pull dm ref d))" using assms unfolding daemon_keeps_def by blast
  then show ?thesis using r assms(2) by (cases r) (simp_all add: ensureImage_def)
qed

lemma create_keeps:
  assumes dm: "daemon_keeps dm allowed P" and ok: "spec_allowed allowed spec" and P: "P d"
  shows "P (snd (ContainerCreateAndStart np dm spec d))"
proof (cases "spec_Image spec = [] \<or> ValidateMounts (spec_Volumes spec) (AllowHostMounts spec) \<noteq> None")
  case True
  then show ?thesis using P by (auto simp: ContainerCreateAndStart_def split: option.split)
next
  case False
  obtain r d1 where r: "ensureImage dm (spec_Image spec) d = (r, d1)" by (rule prod.exhaust)
  have P1: "P d1" using ensureImage_keeps [OF dm P, of "spec_Image spec"] r by simp
  show ?thesis
  proof (cases "r \<noteq> None \<or> isl (buildPortMaps np (spec_Ports spec))")
    case True
    then show ?thesis using False r P1
      by (cases "buildPortMaps np (spec_Ports spec)") (auto simp: ContainerCreateAndStart_def split: option.split)
  next
    case f2: False
    then obtain pb where pb: "buildPortMaps np (spec_Ports spec) = Inr pb"
      by (cases "buildPortMaps np (spec_Ports spec)") simp_all
    let ?cfg = "\<lparr>cc_image = spec_Image spec, cc_env = Env spec, cc_labels = spec_Labels spec,
       cc_mounts = buildMounts (spec_Volumes spec), cc_bindings = pb,
       cc_restart = restartPolicy (RestartPolicy spec), cc_name = Name spec\<rparr>"
    obtain res d2 where c: "container_create dm ?cfg d1 = (res, d2)" by (rule prod.exhaust)
    have "list_all allowed (cc_mounts ?cfg)" using ok False by (simp add: spec_allowed_def)
    then have "P (snd (container_create dm ?cfg d1))" using dm P1 unfolding daemon_keeps_def by blast
    then have P2: "P d2" using c by simp
    then have "P (snd (container_start dm i d2))" for i using dm unfolding daemon_keeps_def by blast
    moreover have "P (container_remove dm i d3)" if "P d3" for i d3
      using dm that unfolding daemon_keeps_def by blast
    ultimately show ?thesis
      using False f2 r pb c P2
      by (simp add: ContainerCreateAndStart_def split: sum.split prod.split) (metis snd_conv)
  qed
qed

lemma ensure_networks_keeps:
  "engine_keeps en allowed P \<Longrightarrow> P d \<Longrightarrow> P (snd (ensure_networks en ns ids d))"
proof (induction ns arbitrary: ids d)
  case (Cons n ns)
  obtain r d1 where r: "EnsureProjectNetwork en n d = (r, d1)" by (rule prod.exhaust)
  then have "P d1" using Cons.prems unfolding engine_keeps_def by (metis snd_conv)
  then show ?case using Cons r by (cases r) simp_all
qed simp

lemma connect_networks_keeps:
  "engine_keeps en allowed P \<Longrightarrow> P d \<Longrightarrow> P (snd (connect_networks en ids i as ns d))"
proof (induction ns arbitrary: d)
  case (Cons n ns)
  show ?case
  proof (cases "ids n")
    case None
    with Cons show ?thesis by simp
  next
    case (Some nid)
    obtain r d1 where r: "ConnectToNetwork en nid i as d = (r, d1)" by (rule prod.exhaust)
    then have "P d1" using Cons.prems unfolding engine_keeps_def by (metis snd_conv)
    then show ?thesis using Cons r Some by (cases r) simp_all
  qed
qed simp

lemma deploy_specs_keeps:
  "engine_keeps en allowed P \<Longrightarrow> list_all (spec_allowed allowed) specs \<Longrightarrow> P d
     \<Longrightarrow> P (snd (deploy_specs en p dn ids k specs d))"
proof (induction specs arbitrary: k d)
  case (Cons spec specs)
  obtain r d1 where r: "ContainerCreateAndStart (eng_port en) (eng_daemon en) spec d = (r, d1)"
    by (rule prod.exhaust)
  have P1: "P d1"
    using create_keeps [of "eng_daemon en" allowed P spec d "eng_port en"] Cons.prems r
    by (simp add: engine_keeps_def)
  show ?case
  proof (cases r)
    case (Inl e)
    with r P1 show ?thesis by simp
  next
    case (Inr i)
    let ?as = "case Aliases p (Name spec) of None \<Rightarrow> [] | Some as \<Rightarrow> as"
    let ?ns = "case ExtraNetworks p (Name spec) of None \<Rightarrow> [] | Some ns \<Rightarrow> ns"
    obtain r2 d2 where r2: "ConnectToNetwork en dn i ?as d1 = (r2, d2)" by (rule prod.exhaust)
    have P2: "P d2" using Cons.prems(1) P1 r2 unfolding engine_keeps_def by (metis snd_conv)
    obtain r3 d3 where r3: "connect_networks en ids i ?as ?ns d2 = (r3, d3)" by (rule prod.exhaust)
    have P3: "P d3" using connect_networks_keeps [OF Cons.prems(1) P2, of ids i ?as ?ns] r3 by simp
    show ?thesis
      using r r2 r3 Inr P2 P3 Cons.IH [OF Cons.prems(1) _ P3, of "Suc k"] Cons.prems(2)
      by (cases r2; cases r3) (simp_all add: Let_def)
  qed
qed simp

lemma deployPlan_keeps:
  assumes en: "engine_keeps en allowed P" and ok: "list_all (spec_allowed allowed) (Specs p)" and P: "P d"
  shows "P (snd (deployPlan en p d))"
proof -
  obtain r d1 where r: "EnsureProjectNetwork en (DefaultNetworkName p) d = (r, d1)" by (rule prod.exhaust)
  have P1: "P d1" using en P r unfolding engine_keeps_def by (metis snd_conv)
  obtain r2 d2 where r2: "ensure_networks en (plan_Networks p) Map.empty d1 = (r2, d2)" by (rule prod.exhaust)
  have P2: "P d2" using ensure_networks_keeps [OF en P1, of "plan_Networks p" Map.empty] r2 by simp
  show ?thesis
    using r r2 P1 P2 deploy_specs_keeps [OF en ok P2]
    by (cases r; cases r2) (simp_all add: deployPlan_def)
qed


text \<open>A daemon that records what it is asked to create.\<close>

definition log_daemon :: "create_config list daemon" where
  "log_daemon = \<lparr>image_present = (\<lambda>_ _. True), image_pull = (\<lambda>_ d. (Inr (), d)),
     container_create = (\<lambda>cfg d. (Inr (cc_name cfg), d @ [cfg])),
     container_start = (\<lambda>_ d. (Inr (), d)), container_remove = (\<lambda>_ d. d)\<rparr>"

definition log_engine :: "create_config list engine" where
  "log_engine = \<lparr>eng_daemon = log_daemon, eng_port = (\<lambda>p n. Some (itoa n @ ''/'' @ p)),
     EnsureProjectNetwork = (\<lambda>n d. (Inr n, d)), ConnectToNetwork = (\<lambda>_ _ _ d. (Inr (), d))\<rparr>"

definition all_mounts :: "(mount \<Rightarrow> bool) \<Rightarrow> create_config list \<Rightarrow> bool" where
  "all_mounts allowed = list_all (\<lambda>cfg. list_all allowed (cc_mounts cfg))"

lemma log_engine_keeps: "engine_keeps log_engine allowed (all_mounts allowed)"
  by (simp add: engine_keeps_def daemon_keeps_def log_engine_def log_daemon_def all_mounts_def)

definition bind_plan :: "string \<Rightarrow> plan" where
  "bind_plan src = \<lparr>Project = ''p'', Specs =
     [\<lparr>spec_Image = ''img'', Name = ''c'', Env = Map.empty, spec_Ports = [],
       spec_Volumes = [\<lparr>Source = ''data'', Target = ''/d''\<rparr>, \<lparr>Source = src, Target = ''/x''\<rparr>],
       spec_Labels = Map.empty, RestartPolicy = [], AllowHostMounts = True\<rparr>],
     Aliases = Map.empty, ExtraNetworks = Map.empty, plan_Networks = []\<rparr>"

definition demo_call :: "principal option \<Rightarrow> request" where
  "demo_call u = \<lparr>Method = ''POST'', Headers = Map.empty, Cookies = Map.empty, Host = [], RemoteAddr = [],
     ctx_user = u, ctx_bearer = False, ctx_request_id = []\<rparr>"


definition idle_world :: world where
  "idle_world = \<lparr>store = \<lparr>users = [], sessions = [], role_tab = [], bindings = [], tokens = [], recovery = [],
     settings = Map.empty, audit_log = [], auth_providers = [], group_maps = [],
      oidc_states = [], broken = {}\<rparr>, clock = 0, audit = None\<rparr>"


text \<open>Evaluated on a daemon that records: a permitted path is mounted, a blocked one is not.\<close>

lemma bind_plan_deployed:
  "length (snd (deployPlan log_engine (bind_plan ''/srv/data'') [])) = 1"
  "snd (deployPlan log_engine (bind_plan ''/etc/shadow'') []) = []"
  by code_simp+

end
