(* ===== verification/Float64.thy ===== *)
theory Float64
  imports Go_Prelude "HOL-Library.Log_Nat" "HOL-Library.Word"
begin

text \<open>
  Go's \<open>float64\<close> (IEEE 754 binary64, round to nearest, ties to even): a value is not a number,
  an infinity (\<open>True\<close> is positive) or a rational. The two zeros are identified; the code never
  divides by a zero or looks at the sign of one. Every arithmetic operation is the exact one
  followed by \<open>round64\<close>, which computes the exponent of the binade, the unit in the last place
  and the rounded significand.
\<close>

datatype f64 = NaN | Inf bool | Fin rat

definition pow2 :: "int \<Rightarrow> rat" where
  "pow2 e = (if e \<ge> 0 then 2 ^ nat e else 1 / 2 ^ nat (- e))"

definition round_half_even :: "rat \<Rightarrow> int" where
  "round_half_even x =
     (let f = \<lfloor>x\<rfloor>; r = x - of_int f in
      if r < 1 / 2 then f else if r > 1 / 2 then f + 1 else if even f then f else f + 1)"

definition binade :: "rat \<Rightarrow> int" where
  "binade a =
     (let (n, d) = quotient_of a;
          e = int (floorlog 2 (nat n)) - int (floorlog 2 (nat d))
      in if pow2 e \<le> a then e else e - 1)"

definition round64 :: "rat \<Rightarrow> f64" where
  "round64 q =
     (if q = 0 then Fin 0
      else (let a = \<bar>q\<bar>;
                b = binade a;
                ulp = pow2 (max b (-1022) - 52);
                r = of_int (round_half_even (a / ulp)) * ulp;
                v = Fin (if q > 0 then r else - r)
            in if b < 1023 then v else if r \<ge> pow2 1024 then Inf (q > 0) else v))"

fun fneg :: "f64 \<Rightarrow> f64" where
  "fneg NaN = NaN"
| "fneg (Inf s) = Inf (\<not> s)"
| "fneg (Fin x) = Fin (- x)"

fun fadd :: "f64 \<Rightarrow> f64 \<Rightarrow> f64" where
  "fadd (Fin x) (Fin y) = round64 (x + y)"
| "fadd (Inf s) (Fin y) = Inf s"
| "fadd (Fin x) (Inf t) = Inf t"
| "fadd (Inf s) (Inf t) = (if s = t then Inf s else NaN)"
| "fadd _ _ = NaN"

definition fsub :: "f64 \<Rightarrow> f64 \<Rightarrow> f64" where
  "fsub x y = fadd x (fneg y)"

fun fmul :: "f64 \<Rightarrow> f64 \<Rightarrow> f64" where
  "fmul (Fin x) (Fin y) = round64 (x * y)"
| "fmul (Inf s) (Fin y) = (if y = 0 then NaN else Inf (s = (y > 0)))"
| "fmul (Fin x) (Inf t) = (if x = 0 then NaN else Inf (t = (x > 0)))"
| "fmul (Inf s) (Inf t) = Inf (s = t)"
| "fmul _ _ = NaN"

fun fdiv :: "f64 \<Rightarrow> f64 \<Rightarrow> f64" where
  "fdiv (Fin x) (Fin y) = (if y = 0 then (if x = 0 then NaN else Inf (x > 0)) else round64 (x / y))"
| "fdiv (Inf s) (Fin y) = Inf (s = (y \<ge> 0))"
| "fdiv (Fin x) (Inf t) = Fin 0"
| "fdiv _ _ = NaN"

fun flt :: "f64 \<Rightarrow> f64 \<Rightarrow> bool" where
  "flt (Fin x) (Fin y) = (x < y)"
| "flt (Inf s) (Fin y) = (\<not> s)"
| "flt (Fin x) (Inf t) = t"
| "flt (Inf s) (Inf t) = (\<not> s \<and> t)"
| "flt _ _ = False"

fun feq :: "f64 \<Rightarrow> f64 \<Rightarrow> bool" where
  "feq (Fin x) (Fin y) = (x = y)"
| "feq (Inf s) (Inf t) = (s = t)"
| "feq _ _ = False"

definition fle :: "f64 \<Rightarrow> f64 \<Rightarrow> bool" where
  "fle x y \<longleftrightarrow> flt x y \<or> feq x y"

definition f64_of_int :: "int \<Rightarrow> f64" where
  "f64_of_int n = round64 (of_int n)"

definition f64_of_word :: "64 word \<Rightarrow> f64" where
  "f64_of_word w = round64 (of_int (uint w))"

text \<open>The conversion to \<open>int64\<close> truncates; out of range it is the indefinite value of amd64.\<close>

definition int64_of_f64 :: "f64 \<Rightarrow> int" where
  "int64_of_f64 x =
     (case x of Fin q \<Rightarrow> (let n = (if q < 0 then - \<lfloor>- q\<rfloor> else \<lfloor>q\<rfloor>)
                         in if - (2 ^ 63) \<le> n \<and> n < 2 ^ 63 then n else - (2 ^ 63))
      | _ \<Rightarrow> - (2 ^ 63))"

lemma pow2_pos [simp]: "0 < pow2 e"
  by (simp add: pow2_def)

lemma round_half_even_nonneg: "0 \<le> x \<Longrightarrow> 0 \<le> round_half_even x"
  by (simp add: round_half_even_def Let_def)

lemma round_half_even_int [simp]: "round_half_even (of_int n) = n"
  by (simp add: round_half_even_def)

text \<open>Rounding keeps the sign, and small cases evaluate.\<close>

lemma round64_nonneg:
  assumes "0 \<le> q"
  shows "\<not> flt (round64 q) (Fin 0)"
proof -
  have nn: "\<not> (of_int (round_half_even (q / pow2 e)) :: rat) * pow2 e < 0" for e
    using assms by (simp add: round_half_even_nonneg not_less less_imp_le)
  show ?thesis using assms by (simp add: round64_def Let_def nn)
qed

lemma flt_irrefl: "\<not> flt x x" and flt_asym: "flt x y \<Longrightarrow> \<not> flt y x"
  by (cases x; cases y; auto)+

lemma binade_int_le: "0 < k \<Longrightarrow> k < 2 ^ 53 \<Longrightarrow> binade (of_int k) \<le> 52"
proof -
  assume k: "0 < k" "k < 2 ^ 53"
  have "floorlog 2 (nat k) \<le> 53" using k by (simp add: floorlog_le_iff nat_less_iff)
  moreover have "floorlog 2 1 = 1" by (simp add: floorlog_def)
  ultimately show ?thesis by (simp add: binade_def Let_def)
qed

text \<open>Integers below \<open>2^53\<close> are represented exactly.\<close>

lemma round64_int:
  assumes "\<bar>n\<bar> < 2 ^ 53"
  shows "round64 (of_int n) = Fin (of_int n)"
proof (cases "n = 0")
  case True
  then show ?thesis by (simp add: round64_def)
next
  case False
  let ?k = "\<bar>n\<bar>"
  define e where "e = max (binade (of_int ?k)) (-1022) - 52"
  have b: "binade (of_int ?k) \<le> 52" using binade_int_le [of ?k] False assms by simp
  then have e: "e \<le> 0" by (simp add: e_def)
  have p: "pow2 e = 1 / 2 ^ nat (- e)" using e by (simp add: pow2_def)
  have "(of_int ?k :: rat) / pow2 e = of_int (?k * 2 ^ nat (- e))" by (simp add: p)
  then have "round_half_even (of_int ?k / pow2 e) = ?k * 2 ^ nat (- e)"
    by (simp only: round_half_even_int)
  then have r: "(of_int (round_half_even (of_int ?k / pow2 e)) :: rat) * pow2 e = of_int ?k"
    by (simp add: p)
  have abs: "\<bar>of_int n :: rat\<bar> = of_int ?k" by simp
  note eq = b r abs
  show ?thesis
  proof (cases "0 < n")
    case True
    then show ?thesis using eq unfolding round64_def Let_def e_def by simp
  next
    case neg: False
    then have "\<bar>n\<bar> = - n" "\<bar>of_int n :: rat\<bar> = - of_int n" using False by simp_all
    then show ?thesis using eq neg False unfolding round64_def Let_def e_def by simp
  qed
qed

end
