(* ===== verification/VTypes.thy ===== *)
theory VTypes
  imports Go_Prelude Float64
begin

text \<open>
  The types of the hypervisor seam, \<open>server/internal/vprovider\<close> (\<open>types.go\<close>, \<open>vprovider.go\<close>,
  \<open>extended.go\<close>, \<open>task.go\<close>) and the capability matrix of \<open>capability.go\<close>. Named string types
  stay strings, times are instants in nanoseconds (the zero \<open>time.Time\<close> of an unset field is
  \<open>None\<close>), an \<open>int\<close> is an integer, pointers are options and maps are association lists.
\<close>

unbundle bit_operations_syntax

subsection \<open>Errors and enumerations\<close>

datatype verror = ErrUnsupported | ErrNotFound | ErrConflict | ErrInvalidSpec | Other_Error string

primrec Error_text :: "verror \<Rightarrow> string" where
  "Error_text ErrUnsupported = ''vprovider: operation not supported by this hypervisor''"
| "Error_text ErrNotFound = ''vprovider: entity not found''"
| "Error_text ErrConflict = ''vprovider: operation conflicts with current state''"
| "Error_text ErrInvalidSpec = ''vprovider: invalid specification for this hypervisor''"
| "Error_text (Other_Error s) = s"

definition StateRunning :: string where "StateRunning = ''running''"
definition StateStopped :: string where "StateStopped = ''stopped''"
definition StateSuspended :: string where "StateSuspended = ''suspended''"

lemma vm_states [simp]: "StateRunning \<noteq> StateStopped" "StateStopped \<noteq> StateRunning"
  by (simp_all add: StateRunning_def StateStopped_def)

definition DiskFormat_Valid :: "string \<Rightarrow> bool" where
  "DiskFormat_Valid f \<longleftrightarrow> f \<in> {''vmdk'', ''qcow2'', ''raw'', ''vhdx'', ''vhd''}"

definition PowerOp_Valid :: "string \<Rightarrow> bool" where
  "PowerOp_Valid op \<longleftrightarrow> op \<in> {''start'', ''stop'', ''reset'', ''suspend'', ''resume''}"

subsection \<open>Capabilities\<close>

type_synonym caps = "64 word"

definition cap_bit :: "nat \<Rightarrow> caps" where "cap_bit n = push_bit n 1"

definition CapListHosts where "CapListHosts = cap_bit 0"
definition CapListVMs where "CapListVMs = cap_bit 1"
definition CapGetVM where "CapGetVM = cap_bit 2"
definition CapListClusters where "CapListClusters = cap_bit 3"
definition CapListStorage where "CapListStorage = cap_bit 4"
definition CapListNetworks where "CapListNetworks = cap_bit 5"
definition CapCreateVM where "CapCreateVM = cap_bit 6"
definition CapPowerStart where "CapPowerStart = cap_bit 7"
definition CapPowerStop where "CapPowerStop = cap_bit 8"
definition CapPowerReset where "CapPowerReset = cap_bit 9"
definition CapPowerSuspend where "CapPowerSuspend = cap_bit 10"
definition CapDeleteVM where "CapDeleteVM = cap_bit 11"
definition CapReconfigureVM where "CapReconfigureVM = cap_bit 12"
definition CapSnapshot where "CapSnapshot = cap_bit 13"
definition CapRevertSnapshot where "CapRevertSnapshot = cap_bit 14"
definition CapClone where "CapClone = cap_bit 15"
definition CapMigrate where "CapMigrate = cap_bit 16"
definition CapExport where "CapExport = cap_bit 17"
definition CapClusterTopology where "CapClusterTopology = cap_bit 18"
definition CapNodeState where "CapNodeState = cap_bit 19"
definition CapMetrics where "CapMetrics = cap_bit 20"
definition CapEvents where "CapEvents = cap_bit 21"
definition CapConsole where "CapConsole = cap_bit 32"
definition CapNetworkWrite where "CapNetworkWrite = cap_bit 33"
definition CapStorageWrite where "CapStorageWrite = cap_bit 34"
definition CapHotPlug where "CapHotPlug = cap_bit 35"
definition CapGuestAgent where "CapGuestAgent = cap_bit 36"
definition CapDiskResize where "CapDiskResize = cap_bit 37"
definition CapMaintenance where "CapMaintenance = cap_bit 38"
definition CapTemplates where "CapTemplates = cap_bit 39"
definition CapResourceControl where "CapResourceControl = cap_bit 40"
definition CapDiskQoS where "CapDiskQoS = cap_bit 41"
definition CapStorageMigrate where "CapStorageMigrate = cap_bit 42"

lemmas cap_defs =
  CapListHosts_def CapListVMs_def CapGetVM_def CapListClusters_def CapListStorage_def CapListNetworks_def
  CapCreateVM_def CapPowerStart_def CapPowerStop_def CapPowerReset_def CapPowerSuspend_def CapDeleteVM_def
  CapReconfigureVM_def CapSnapshot_def CapRevertSnapshot_def CapClone_def CapMigrate_def CapExport_def
  CapClusterTopology_def CapNodeState_def CapMetrics_def CapEvents_def
  CapConsole_def CapNetworkWrite_def CapStorageWrite_def CapHotPlug_def CapGuestAgent_def CapDiskResize_def
  CapMaintenance_def CapTemplates_def CapResourceControl_def CapDiskQoS_def CapStorageMigrate_def

definition Has :: "caps \<Rightarrow> caps \<Rightarrow> bool" where
  "Has c want \<longleftrightarrow> c AND want = want"

definition capTokens :: "(caps \<times> string) list" where
  "capTokens =
    [(CapListHosts, ''list_hosts''), (CapListVMs, ''list_vms''), (CapGetVM, ''get_vm''),
     (CapListClusters, ''list_clusters''), (CapListStorage, ''list_storage''),
     (CapListNetworks, ''list_networks''), (CapCreateVM, ''create_vm''),
     (CapPowerStart, ''power_start''), (CapPowerStop, ''power_stop''), (CapPowerReset, ''power_reset''),
     (CapPowerSuspend, ''power_suspend''), (CapDeleteVM, ''delete_vm''),
     (CapReconfigureVM, ''reconfigure_vm''), (CapSnapshot, ''snapshot''),
     (CapRevertSnapshot, ''revert_snapshot''), (CapClone, ''clone''), (CapMigrate, ''migrate''),
     (CapExport, ''export''), (CapClusterTopology, ''cluster_topology''),
     (CapNodeState, ''node_state''), (CapMetrics, ''metrics''), (CapEvents, ''events'')]"

definition extTokens :: "(caps \<times> string) list" where
  "extTokens =
    [(CapConsole, ''console''), (CapNetworkWrite, ''network_write''), (CapStorageWrite, ''storage_write''),
     (CapHotPlug, ''hotplug''), (CapGuestAgent, ''guest_agent''), (CapDiskResize, ''disk_resize''),
     (CapMaintenance, ''maintenance''), (CapTemplates, ''templates''),
     (CapResourceControl, ''resource_control''), (CapDiskQoS, ''disk_qos''),
     (CapStorageMigrate, ''storage_migrate'')]"

definition ExtStrings :: "caps \<Rightarrow> string list" where
  "ExtStrings c = map snd (filter (\<lambda>(b, _). Has c b) extTokens)"

definition Strings :: "caps \<Rightarrow> string list" where
  "Strings c = map snd (filter (\<lambda>(b, _). Has c b) capTokens) @ ExtStrings c"

definition PowerOpCapability :: "string \<Rightarrow> caps" where
  "PowerOpCapability op =
     (if op = ''start'' then CapPowerStart
      else if op = ''stop'' then CapPowerStop
      else if op = ''reset'' then CapPowerReset
      else if op = ''suspend'' \<or> op = ''resume'' then CapPowerSuspend
      else 0)"

lemma Has_cap_bit: "n < 64 \<Longrightarrow> Has c (cap_bit n) \<longleftrightarrow> bit c n"
proof -
  assume n: "n < 64"
  have b: "bit (cap_bit n) i \<longleftrightarrow> i = n" for i
    using n by (auto simp: cap_bit_def bit_simps)
  have "c AND cap_bit n = cap_bit n \<longleftrightarrow> (\<forall>i. bit (c AND cap_bit n) i = bit (cap_bit n) i)"
    by (metis bit_eqI)
  then show ?thesis unfolding Has_def b bit_and_iff by blast
qed

subsection \<open>Entities\<close>

record disk =
  dk_ID :: string
  dk_Label :: string
  dk_Format :: string
  dk_CapacityGB :: f64
  dk_StorageID :: string
  dk_Path :: string

record nic =
  nic_ID :: string
  nic_MAC :: string
  nic_NetworkID :: string
  nic_Model :: string
  nic_Connected :: bool

record vm =
  vm_ID :: string
  vm_Name :: string
  vm_Kind :: string
  vm_ProviderID :: string
  vm_HostID :: string
  vm_ClusterID :: string
  vm_State :: string
  vm_StateRaw :: string
  vm_VCPUs :: int
  vm_MemoryMB :: int
  vm_GuestOS :: string
  vm_Firmware :: string
  vm_Disks :: "disk list"
  vm_NICs :: "nic list"
  vm_IPAddresses :: "string list"
  vm_Labels :: "(string \<times> string) list"
  vm_SnapshotCount :: int
  vm_CreatedAt :: "int option"
  vm_Protected :: bool

record vhost =
  host_ID :: string
  host_Name :: string
  host_Kind :: string
  host_ProviderID :: string
  host_ClusterID :: string
  host_State :: string
  CPUCores :: int
  CPUMHz :: int
  MemoryMB :: int
  MemUsedMB :: int
  host_VMCount :: int
  host_Version :: string
  host_Labels :: "(string \<times> string) list"

record cluster =
  cl_ID :: string
  cl_Name :: string
  cl_Kind :: string
  cl_ProviderID :: string
  cl_HostIDs :: "string list"
  HAEnabled :: bool
  DRSEnabled :: bool

record storage_pool =
  sp_ID :: string
  sp_Name :: string
  sp_Kind :: string
  sp_ProviderID :: string
  sp_Type :: string
  CapacityGB :: f64
  FreeGB :: f64
  sp_HostIDs :: "string list"
  Accessible :: bool

record network =
  net_ID :: string
  net_Name :: string
  net_Kind :: string
  net_ProviderID :: string
  net_Type :: string
  net_VLAN :: int

record snapshot =
  snap_ID :: string
  snap_VMID :: string
  snap_Name :: string
  snap_Description :: string
  snap_ParentID :: string
  HasMemory :: bool
  IsCurrent :: bool
  snap_CreatedAt :: "int option"

record volume =
  vol_ID :: string
  vol_Name :: string
  vol_StorageID :: string
  vol_Format :: string
  vol_CapacityGB :: f64
  vol_AllocGB :: f64
  IsISO :: bool
  vol_Path :: string

record node_state =
  NodeID :: string
  node_State :: string
  node_Message :: string
  node_VMCount :: int
  node_UpdatedAt :: "int option"

record topology =
  top_ClusterID :: string
  Nodes :: "node_state list"
  Placement :: "(string \<times> string) list"

record metric_sample =
  sm_Timestamp :: int
  CPUPercent :: f64
  MemUsageBytes :: "64 word"
  MemLimitBytes :: "64 word"
  NetRxBytes :: "64 word"
  NetTxBytes :: "64 word"
  DiskReadBytes :: "64 word"
  DiskWriteBytes :: "64 word"

record metric_series =
  EntityID :: string
  Samples :: "metric_sample list"

text \<open>\<open>GetVM\<close>'s payload; \<open>Raw\<close> is opaque.\<close>

record vm_detail =
  detail_VM :: vm
  Raw :: string

subsection \<open>Specifications and options\<close>

record disk_qos =
  ReadIOPS :: int
  WriteIOPS :: int
  TotalIOPS :: int
  ReadBytesSec :: int
  WriteBytesSec :: int
  TotalBytesSec :: int

record disk_spec =
  ds_CapacityGB :: f64
  ds_Format :: string
  ds_StorageID :: string
  ds_SourcePath :: string
  ds_QoS :: "disk_qos option"
  ds_Provisioning :: string
  ds_Discard :: bool

record nic_spec =
  ns_NetworkID :: string
  ns_Model :: string
  ns_MAC :: string

record cpu_spec =
  Sockets :: int
  CoresPerSocket :: int
  ThreadsPerCore :: int
  cpu_Model :: string

record sysprep_spec =
  ComputerName :: string
  AdminPassword :: string
  ProductKey :: string
  OrgName :: string
  TimeZone :: string
  Locale :: string
  UnattendXMLExtra :: string

record cloudinit_spec =
  ci_Hostname :: string
  ci_Username :: string
  ci_Password :: string
  SSHAuthorizedKeys :: "string list"
  RunCmd :: "string list"
  NetworkConfig :: string
  UserDataExtra :: string

record vm_spec =
  vs_Name :: string
  vs_HostID :: string
  vs_ClusterID :: string
  vs_VCPUs :: int
  vs_MemoryMB :: int
  vs_GuestOS :: string
  vs_Firmware :: string
  vs_Disks :: "disk_spec list"
  vs_NICs :: "nic_spec list"
  vs_Labels :: "(string \<times> string) list"
  BootISO :: string
  TPM :: bool
  SecureBoot :: bool
  CloudInit :: "cloudinit_spec option"
  CPU :: "cpu_spec option"
  IsTemplate :: bool
  Sysprep :: "sysprep_spec option"

record resource_spec =
  CPUShares :: int
  CPUReservationMHz :: int
  CPULimitMHz :: int
  MemoryShares :: int
  MemoryReservationMB :: int
  MemoryLimitMB :: int

record reconfigure_spec =
  rs_VCPUs :: "int option"
  rs_MemoryMB :: "int option"
  AddDisks :: "disk_spec list"
  AddNICs :: "nic_spec list"
  rs_Labels :: "(string \<times> string) list"
  Resources :: "resource_spec option"

record clone_spec =
  cs_Name :: string
  cs_HostID :: string
  cs_StorageID :: string
  Linked :: bool
  PowerOn :: bool

record list_options =
  lo_HostID :: string
  lo_ClusterID :: string
  lo_State :: string
  lo_Labels :: "(string \<times> string) list"

record delete_options =
  Force :: bool
  DeleteDisks :: bool

record snapshot_options =
  so_Name :: string
  so_Description :: string
  so_Memory :: bool
  so_Quiesce :: bool

record migrate_options =
  Live :: bool
  TargetStorage :: string

record export_info =
  ex_Format :: string
  SizeBytes :: int
  DiskCount :: int
  ex_SourceVMID :: string
  ex_GuestOS :: string
  ex_Firmware :: string

record metric_window =
  Since :: "int option"
  Until :: "int option"
  StepSecond :: int

record network_spec =
  nw_Name :: string
  nw_Type :: string
  nw_Bridge :: string
  nw_VLAN :: int
  nw_CIDR :: string
  nw_HostID :: string

record volume_spec =
  vo_Name :: string
  vo_StorageID :: string
  vo_CapacityGB :: f64
  vo_Format :: string

record console_endpoint =
  con_Kind :: string
  con_Host :: string
  con_Port :: int
  con_Password :: string
  TLSPort :: int
  con_Path :: string

record health_status =
  Healthy :: bool
  hs_Message :: string
  hs_Version :: string
  CheckedAt :: int

subsection \<open>Tasks\<close>

record task =
  task_ID :: string
  task_Kind :: string
  task_ProviderID :: string
  task_EntityID :: string
  task_State :: string
  Progress :: int
  task_Message :: string
  task_Error :: string
  task_StartedAt :: "int option"
  task_UpdatedAt :: "int option"
  FinishedAt :: "int option"

definition Done :: "task \<Rightarrow> bool" where
  "Done t \<longleftrightarrow> task_State t \<in> {''succeeded'', ''failed'', ''cancelled''}"

type_synonym tracker = "(string \<times> task) list"

definition Start :: "tracker \<Rightarrow> string \<Rightarrow> string \<Rightarrow> string \<Rightarrow> string \<Rightarrow> int \<Rightarrow> tracker \<times> task" where
  "Start tt i kind provider entity now =
     (let t = \<lparr>task_ID = i, task_Kind = kind, task_ProviderID = provider, task_EntityID = entity,
               task_State = ''running'', Progress = 0, task_Message = [], task_Error = [],
               task_StartedAt = Some now, task_UpdatedAt = Some now, FinishedAt = None\<rparr>
      in (put tt i t, t))"

definition Update :: "tracker \<Rightarrow> string \<Rightarrow> int \<Rightarrow> string \<Rightarrow> int \<Rightarrow> tracker \<times> task option" where
  "Update tt i progress message now =
     (case map_of tt i of None \<Rightarrow> (tt, None)
      | Some t \<Rightarrow> (let t' = t\<lparr>Progress := progress, task_Message := message, task_UpdatedAt := Some now\<rparr>
                   in (put tt i t', Some t')))"

definition Finish :: "tracker \<Rightarrow> string \<Rightarrow> string \<Rightarrow> string \<Rightarrow> int \<Rightarrow> tracker \<times> task option" where
  "Finish tt i st errMsg now =
     (case map_of tt i of None \<Rightarrow> (tt, None)
      | Some t \<Rightarrow> (let t' = t\<lparr>task_State := st,
                              Progress := (if st = ''succeeded'' then 100 else Progress t),
                              task_Error := errMsg, task_UpdatedAt := Some now, FinishedAt := Some now\<rparr>
                   in (put tt i t', Some t')))"

definition Task_Get :: "tracker \<Rightarrow> string \<Rightarrow> task option" where
  "Task_Get tt i = map_of tt i"

end
