(* ===== verification/Alarms.thy ===== *)
theory Alarms
  imports VTypes "HOL-Library.Product_Lexorder"
begin

text \<open>
  The alarm engine, \<open>server/internal/alarms/alarms.go\<close>: the comparison of a reading with a
  threshold, the pure state machine \<open>Evaluate\<close>, one evaluation pass \<open>Tick\<close> with what it persists
  and notifies, \<open>Resume\<close> and the sorted view \<open>Active\<close>; the readings over the unified inventory.
  Times are instants in nanoseconds; the zero \<open>time.Time\<close> is \<open>None\<close>. \<open>Sub\<close> saturates and the
  product \<open>DurationSec * time.Second\<close> wraps at 64 bits, as in Go. Named string types stay strings.
\<close>

subsection \<open>Definitions, instances, readings\<close>

record definition_row =
  def_ID :: string
  def_Name :: string
  def_Target :: string
  Metric :: string
  Comparator :: string
  Threshold :: f64
  StateValue :: string
  DurationSec :: int
  Severity :: string
  Enabled :: bool
  NotifyChannelIDs :: "string list"

record instance_row =
  inst_ID :: string
  DefinitionID :: string
  DefinitionName :: string
  ObjectID :: string
  ObjectName :: string
  ObjectType :: string
  inst_Severity :: string
  inst_Metric :: string
  State :: string
  Value :: f64
  StateRaw :: string
  RaisedAt :: "int option"
  ClearedAt :: "int option"
  LastNotifiedAt :: "int option"
  breachSince :: "int option"

record reading =
  objectID :: string
  objectName :: string
  objectType :: string
  rd_value :: f64
  rd_stateRaw :: string
  hasData :: bool

definition StateActive :: string where "StateActive = ''active''"
definition StateCleared :: string where "StateCleared = ''cleared''"
definition MetricState :: string where "MetricState = ''state''"

lemma states_distinct [simp]: "StateActive \<noteq> StateCleared" "StateCleared \<noteq> StateActive"
  by (simp_all add: StateActive_def StateCleared_def)

definition breaches :: "definition_row \<Rightarrow> reading \<Rightarrow> bool" where
  "breaches d r =
     (if \<not> hasData r then False
      else if Metric d = MetricState then equal_fold (rd_stateRaw r) (StateValue d)
      else if Comparator d = ''gt'' then flt (Threshold d) (rd_value r)
      else if Comparator d = ''lt'' then flt (rd_value r) (Threshold d)
      else if Comparator d = ''eq'' then feq (rd_value r) (Threshold d)
      else False)"

subsection \<open>The state machine\<close>

definition alarm_key :: "definition_row \<Rightarrow> reading \<Rightarrow> string" where
  "alarm_key d r = def_ID d @ '':'' @ objectID r"

definition base_instance :: "definition_row \<Rightarrow> reading \<Rightarrow> instance_row option \<Rightarrow> instance_row" where
  "base_instance d r cur =
     \<lparr>inst_ID = alarm_key d r, DefinitionID = def_ID d, DefinitionName = def_Name d,
      ObjectID = objectID r, ObjectName = objectName r, ObjectType = objectType r,
      inst_Severity = Severity d, inst_Metric = Metric d, State = [], Value = rd_value r,
      StateRaw = rd_stateRaw r,
      RaisedAt = (case cur of None \<Rightarrow> None | Some c \<Rightarrow> RaisedAt c),
      ClearedAt = None,
      LastNotifiedAt = (case cur of None \<Rightarrow> None | Some c \<Rightarrow> LastNotifiedAt c),
      breachSince = (case cur of None \<Rightarrow> None | Some c \<Rightarrow> breachSince c)\<rparr>"

definition duration_ns :: "definition_row \<Rightarrow> int" where
  "duration_ns d = wrap64 (DurationSec d * second)"

text \<open>
  The body of the inner loop: the instance kept in \<open>next\<close>, if any, and those appended to
  \<open>raised\<close> and \<open>cleared\<close>.
\<close>

definition transition ::
  "definition_row \<Rightarrow> reading \<Rightarrow> instance_row option \<Rightarrow> int
     \<Rightarrow> instance_row option \<times> instance_row list \<times> instance_row list" where
  "transition d r cur now =
     (let inst = base_instance d r cur;
          breaching = breaches d r;
          active = (case cur of None \<Rightarrow> False | Some c \<Rightarrow> State c = StateActive);
          inactive = (case cur of None \<Rightarrow> True | Some c \<Rightarrow> State c = StateCleared)
      in if breaching \<and> inactive then
           (let t0 = (case breachSince inst of None \<Rightarrow> now | Some t \<Rightarrow> t);
                inst1 = inst\<lparr>breachSince := Some t0\<rparr>
            in if sat64 (now - t0) \<ge> duration_ns d then
                 (let inst2 = inst1\<lparr>State := StateActive, RaisedAt := Some now,
                                     LastNotifiedAt := Some now\<rparr>
                  in (Some inst2, [inst2], []))
               else (Some (inst1\<lparr>State := StateCleared\<rparr>), [], []))
         else if breaching \<and> active then (Some (inst\<lparr>State := StateActive\<rparr>), [], [])
         else if \<not> breaching \<and> active then
           (None, [], [inst\<lparr>State := StateCleared, ClearedAt := Some now,
                            LastNotifiedAt := Some now, breachSince := None\<rparr>])
         else (None, [], []))"

type_synonym evaluation =
  "(string \<times> instance_row) list \<times> instance_row list \<times> instance_row list"

fun eval_readings ::
  "(string \<Rightarrow> instance_row option) \<Rightarrow> int \<Rightarrow> definition_row \<Rightarrow> reading list \<Rightarrow> evaluation \<Rightarrow> evaluation" where
  "eval_readings prior now d [] acc = acc"
| "eval_readings prior now d (r # rs) (nxt, raised, cleared) =
     (let key = alarm_key d r;
          (kept, ups, downs) = transition d r (prior key) now
      in eval_readings prior now d rs
           (case kept of None \<Rightarrow> nxt | Some i \<Rightarrow> put nxt key i, raised @ ups, cleared @ downs))"

fun eval_defs ::
  "(string \<Rightarrow> instance_row option) \<Rightarrow> int \<Rightarrow> (string \<Rightarrow> reading list) \<Rightarrow> definition_row list
     \<Rightarrow> evaluation \<Rightarrow> evaluation" where
  "eval_defs prior now readings [] acc = acc"
| "eval_defs prior now readings (d # ds) acc =
     (if \<not> Enabled d then eval_defs prior now readings ds acc
      else eval_defs prior now readings ds (eval_readings prior now d (readings (def_ID d)) acc))"

definition Evaluate ::
  "definition_row list \<Rightarrow> (string \<Rightarrow> reading list) \<Rightarrow> (string \<Rightarrow> instance_row option) \<Rightarrow> int
     \<Rightarrow> evaluation" where
  "Evaluate defs readings prior now = eval_defs prior now readings defs ([], [], [])"

subsection \<open>Readings over the inventory\<close>

text \<open>The fields of the unified inventory that the engine reads.\<close>

record unified =
  VMs :: "vm list"
  Hosts :: "vhost list"
  Storage :: "storage_pool list"

definition metricValue :: "string \<Rightarrow> metric_sample \<Rightarrow> f64" where
  "metricValue m s =
     (if m = ''cpu'' then CPUPercent s
      else if m = ''memory'' then
        (if MemLimitBytes s > 0
         then fmul (fdiv (f64_of_word (MemUsageBytes s)) (f64_of_word (MemLimitBytes s))) (Fin 100)
         else Fin 0)
      else if m = ''disk'' then f64_of_word (DiskReadBytes s + DiskWriteBytes s)
      else Fin 0)"

definition no_reading :: "string \<Rightarrow> string \<Rightarrow> string \<Rightarrow> reading" where
  "no_reading i n t = \<lparr>objectID = i, objectName = n, objectType = t, rd_value = Fin 0,
     rd_stateRaw = [], hasData = False\<rparr>"

text \<open>\<open>LatestSample\<close> is the parameter \<open>latest\<close>; a nil metrics source has no samples.\<close>

type_synonym metrics_source = "(string \<Rightarrow> string \<Rightarrow> metric_sample option) option"

definition sampled :: "metrics_source \<Rightarrow> definition_row \<Rightarrow> string \<Rightarrow> string \<Rightarrow> reading \<Rightarrow> reading" where
  "sampled metrics d provider entity r =
     (case metrics of None \<Rightarrow> r
      | Some latest \<Rightarrow> (case latest provider entity of None \<Rightarrow> r
                       | Some s \<Rightarrow> r\<lparr>rd_value := metricValue (Metric d) s, hasData := True\<rparr>))"

definition vmReading :: "metrics_source \<Rightarrow> definition_row \<Rightarrow> vm \<Rightarrow> reading" where
  "vmReading metrics d vm =
     (let r = no_reading (vm_ID vm) (vm_Name vm) ''vm'' in
      if Metric d = MetricState then r\<lparr>rd_stateRaw := vm_State vm, hasData := True\<rparr>
      else sampled metrics d (vm_ProviderID vm) (vm_ID vm) r)"

definition hostReading :: "metrics_source \<Rightarrow> definition_row \<Rightarrow> vhost \<Rightarrow> reading" where
  "hostReading metrics d h =
     (let r = no_reading (host_ID h) (host_Name h) ''host'' in
      if Metric d = MetricState then r\<lparr>rd_stateRaw := host_State h, hasData := True\<rparr>
      else if Metric d = ''memory'' \<and> MemoryMB h > 0 then
        r\<lparr>rd_value := fmul (fdiv (f64_of_int (MemUsedMB h)) (f64_of_int (MemoryMB h))) (Fin 100),
          hasData := True\<rparr>
      else sampled metrics d (host_ProviderID h) (host_ID h) r)"

definition dsReading :: "definition_row \<Rightarrow> storage_pool \<Rightarrow> reading" where
  "dsReading d sp =
     (let r = no_reading (sp_ID sp) (sp_Name sp) ''datastore'' in
      if Metric d = ''storage_pct'' \<and> flt (Fin 0) (CapacityGB sp) then
        (let used0 = fsub (CapacityGB sp) (FreeGB sp);
             used = (if flt used0 (Fin 0) then Fin 0 else used0)
         in r\<lparr>rd_value := fmul (fdiv used (CapacityGB sp)) (Fin 100), hasData := True\<rparr>)
      else r)"

definition target_readings :: "metrics_source \<Rightarrow> unified \<Rightarrow> definition_row \<Rightarrow> reading list" where
  "target_readings metrics u d =
     (if def_Target d = ''vm'' then map (vmReading metrics d) (VMs u)
      else if def_Target d = ''host'' then map (hostReading metrics d) (Hosts u)
      else if def_Target d = ''datastore'' then map (dsReading d) (Storage u)
      else [])"

fun collect_from ::
  "metrics_source \<Rightarrow> unified \<Rightarrow> definition_row list \<Rightarrow> (string \<Rightarrow> reading list) \<Rightarrow> string \<Rightarrow> reading list" where
  "collect_from metrics u [] out = out"
| "collect_from metrics u (d # ds) out =
     (if \<not> Enabled d then collect_from metrics u ds out
      else collect_from metrics u ds
             (out(def_ID d := out (def_ID d) @ target_readings metrics u d)))"

definition collect :: "metrics_source \<Rightarrow> definition_row list \<Rightarrow> unified \<Rightarrow> string \<Rightarrow> reading list" where
  "collect metrics defs u = collect_from metrics u defs (\<lambda>_. [])"

subsection \<open>The engine\<close>

record channel =
  ch_ID :: string
  ch_Name :: string
  ch_Type :: string
  ch_Config :: string
  ch_Secret :: string

record notify_event =
  Event :: string
  AlarmID :: string
  Definition :: string
  ev_Severity :: string
  ev_ObjectID :: string
  ev_ObjectName :: string
  ev_ObjectType :: string
  ev_Metric :: string
  ev_Value :: f64
  ev_StateRaw :: string
  Message :: string
  Timestamp :: int

text \<open>
  The engine's instances (the entries of its map), what \<open>SaveInstances\<close> last stored, and the
  notifications sent so far. The definitions and channels live in the state store.
\<close>

record engine =
  instances :: "(string \<times> instance_row) list"
  persisted :: "instance_row list"
  outbox :: "(channel \<times> notify_event) list"

definition buildMessage :: "instance_row \<Rightarrow> string \<Rightarrow> string" where
  "buildMessage i event =
     (let verb = (if event = ''cleared'' then ''CLEARED'' else ''RAISED'')
      in ''['' @ to_upper (inst_Severity i) @ ''] alarm '' @ verb @ '': '' @ DefinitionName i @ '' on ''
         @ ObjectType i @ '' '' @ ObjectName i
         @ (if inst_Metric i = MetricState then '' (state='' @ StateRaw i @ '')'' else []))"

definition activeOnly :: "instance_row list \<Rightarrow> instance_row list" where
  "activeOnly is = filter (\<lambda>x. State x = StateActive) is"

text \<open>\<open>fire\<close>: \<open>defs\<close> is what the second \<open>ListDefinitions\<close> returns (empty on an error).\<close>

definition fire ::
  "definition_row list \<Rightarrow> (string \<Rightarrow> channel option) \<Rightarrow> int \<Rightarrow> string \<Rightarrow> instance_row
     \<Rightarrow> (channel \<times> notify_event) list" where
  "fire defs get_channel ts event i =
     (let ev = \<lparr>Event = event, AlarmID = inst_ID i, Definition = DefinitionName i,
                ev_Severity = inst_Severity i, ev_ObjectID = ObjectID i, ev_ObjectName = ObjectName i,
                ev_ObjectType = ObjectType i, ev_Metric = inst_Metric i, ev_Value = Value i,
                ev_StateRaw = StateRaw i, Message = buildMessage i event, Timestamp = ts\<rparr>;
          chIDs = (case find (\<lambda>d. def_ID d = DefinitionID i) defs of None \<Rightarrow> []
                   | Some d \<Rightarrow> NotifyChannelIDs d)
      in concat (map (\<lambda>c. case get_channel c of None \<Rightarrow> [] | Some ch \<Rightarrow> [(ch, ev)]) chIDs))"

text \<open>
  \<open>Tick\<close>: \<open>defs\<close> is \<open>None\<close> when \<open>ListDefinitions\<close> fails; \<open>save_ok\<close> tells whether
  \<open>SaveInstances\<close> succeeds (its error is ignored).
\<close>

definition Tick ::
  "metrics_source \<Rightarrow> definition_row list option \<Rightarrow> unified \<Rightarrow> bool
     \<Rightarrow> definition_row list \<Rightarrow> (string \<Rightarrow> channel option) \<Rightarrow> int \<Rightarrow> int \<Rightarrow> engine \<Rightarrow> engine" where
  "Tick metrics defs u save_ok fire_defs get_channel ts now e =
     (case defs of None \<Rightarrow> e
      | Some ds \<Rightarrow>
        (let (nxt, raised, cleared) = Evaluate ds (collect metrics ds u) (map_of (instances e)) now;
             sent = concat (map (fire fire_defs get_channel ts ''raised'') raised)
                    @ concat (map (fire fire_defs get_channel ts ''cleared'') cleared)
         in e\<lparr>instances := nxt,
              persisted := (if save_ok then activeOnly (map snd nxt) else persisted e),
              outbox := outbox e @ sent\<rparr>))"

definition Resume :: "instance_row list option \<Rightarrow> engine \<Rightarrow> engine" where
  "Resume loaded e =
     (case loaded of None \<Rightarrow> e
      | Some is \<Rightarrow> e\<lparr>instances := fold (\<lambda>i m. put m (inst_ID i) i) is (instances e)\<rparr>)"

text \<open>
  What of an active instance survives \<open>SaveInstances\<close> and \<open>LoadInstances\<close> (the adapter of
  \<open>api/alarms.go\<close>): the raise time to the second; neither the last notification nor the start
  of the breach is read back, and the state is set to active.
\<close>

definition reloaded :: "instance_row \<Rightarrow> instance_row" where
  "reloaded i = i\<lparr>State := StateActive,
     RaisedAt := map_option (\<lambda>t. t div second * second) (RaisedAt i),
     ClearedAt := None, LastNotifiedAt := None, breachSince := None\<rparr>"

definition sevRank :: "string \<Rightarrow> int" where
  "sevRank s = (if s = ''critical'' then 0 else if s = ''warning'' then 1 else 2)"

text \<open>\<open>sort.SliceStable\<close> by severity rank, then name, then id.\<close>

definition Active :: "engine \<Rightarrow> instance_row list" where
  "Active e = sort_key (\<lambda>i. (sevRank (inst_Severity i), ObjectName i, inst_ID i))
     (activeOnly (map snd (instances e)))"

end
