(* ===== verification/Alarm_Props.thy ===== *)
theory Alarm_Props
  imports Alarms "HOL-Library.Multiset"
begin

text \<open>
  The alarm engine refines a three-state machine per (definition, object) pair, independently for
  every pair; over sequences of evaluations the notifications alternate, a raise needs a breach
  that lasted for the configured duration, and such a breach is raised. The sorted view does not
  depend on the iteration order of the instance map.
\<close>

subsection \<open>The abstract machine\<close>

datatype phase = Healthy | Pending int | Firing
datatype signal = Quiet | Raise | Clear

fun spec_step :: "int \<Rightarrow> int \<Rightarrow> bool \<Rightarrow> phase \<Rightarrow> phase \<times> signal" where
  "spec_step dur now True Healthy = (if dur \<le> sat64 0 then (Firing, Raise) else (Pending now, Quiet))"
| "spec_step dur now True (Pending t) =
     (if dur \<le> sat64 (now - t) then (Firing, Raise) else (Pending t, Quiet))"
| "spec_step dur now True Firing = (Firing, Quiet)"
| "spec_step dur now False Firing = (Healthy, Clear)"
| "spec_step dur now False _ = (Healthy, Quiet)"

definition phase_of :: "instance_row option \<Rightarrow> phase" where
  "phase_of cur = (case cur of None \<Rightarrow> Healthy
     | Some i \<Rightarrow> if State i = StateActive then Firing
                else (case breachSince i of None \<Rightarrow> Healthy | Some t \<Rightarrow> Pending t))"

definition state_ok :: "instance_row \<Rightarrow> bool" where
  "state_ok i \<longleftrightarrow> State i = StateActive \<or> State i = StateCleared"

definition signal_of :: "instance_row list \<Rightarrow> instance_row list \<Rightarrow> signal" where
  "signal_of ups downs = (if ups \<noteq> [] then Raise else if downs \<noteq> [] then Clear else Quiet)"

lemma transition_inactive:
  assumes "case cur of None \<Rightarrow> True | Some c \<Rightarrow> State c = StateCleared" "breaches d r"
  shows "transition d r cur now =
    (let t0 = (case cur of None \<Rightarrow> now | Some c \<Rightarrow> (case breachSince c of None \<Rightarrow> now | Some t \<Rightarrow> t));
         i = (base_instance d r cur)\<lparr>breachSince := Some t0\<rparr>
     in if duration_ns d \<le> sat64 (now - t0)
        then (let i2 = i\<lparr>State := StateActive, RaisedAt := Some now, LastNotifiedAt := Some now\<rparr>
              in (Some i2, [i2], []))
        else (Some (i\<lparr>State := StateCleared\<rparr>), [], []))"
  using assms by (cases cur) (simp_all add: transition_def Let_def base_instance_def)

lemma base_ID [simp]: "inst_ID (base_instance d r cur) = alarm_key d r"
  by (simp add: base_instance_def)

text \<open>One pair refines one step of the machine; its notifications carry the pair's key.\<close>

lemma transition_refines:
  assumes ok: "\<And>c. cur = Some c \<Longrightarrow> state_ok c" and t: "transition d r cur now = (kept, ups, downs)"
  shows "spec_step (duration_ns d) now (breaches d r) (phase_of cur) = (phase_of kept, signal_of ups downs)"
    and "\<And>i. i \<in> set ups \<union> set downs \<Longrightarrow> inst_ID i = alarm_key d r"
    and "length ups = (if signal_of ups downs = Raise then 1 else 0)"
    and "length downs = (if signal_of ups downs = Clear then 1 else 0)"
    and "\<And>i. kept = Some i \<Longrightarrow> state_ok i"
proof -
  have goal: "spec_step (duration_ns d) now (breaches d r) (phase_of cur) = (phase_of kept, signal_of ups downs)
     \<and> (\<forall>i \<in> set ups \<union> set downs. inst_ID i = alarm_key d r)
     \<and> length ups = (if signal_of ups downs = Raise then 1 else 0)
     \<and> length downs = (if signal_of ups downs = Clear then 1 else 0)
     \<and> (\<forall>i. kept = Some i \<longrightarrow> state_ok i)"
  proof (cases cur)
    case None
    show ?thesis
    proof (cases "breaches d r")
      case True
      show ?thesis
        using t transition_inactive [of cur d r now] None True
        by (cases "duration_ns d \<le> sat64 0") (auto simp: Let_def phase_of_def signal_of_def state_ok_def)
    next
      case False
      then show ?thesis using t None by (auto simp: transition_def phase_of_def signal_of_def)
    qed
  next
    case (Some c)
    then consider "State c = StateActive" | "State c = StateCleared" using ok [OF Some] by (auto simp: state_ok_def)
    then show ?thesis
    proof cases
      case 1
      then show ?thesis using t Some
        by (cases "breaches d r") (auto simp: transition_def phase_of_def signal_of_def state_ok_def)
    next
      case 2
      show ?thesis
      proof (cases "breaches d r")
        case True
        define t0 where "t0 = (case breachSince c of None \<Rightarrow> now | Some t \<Rightarrow> t)"
        show ?thesis
          using t transition_inactive [of cur d r now] Some True 2
          by (cases "duration_ns d \<le> sat64 (now - t0)"; cases "breachSince c")
            (auto simp: Let_def phase_of_def signal_of_def state_ok_def t0_def)
      next
        case False
        then show ?thesis using t Some 2
          by (cases "breachSince c") (auto simp: transition_def phase_of_def signal_of_def)
      qed
    qed
  qed
  then show "spec_step (duration_ns d) now (breaches d r) (phase_of cur) = (phase_of kept, signal_of ups downs)"
    and "\<And>i. i \<in> set ups \<union> set downs \<Longrightarrow> inst_ID i = alarm_key d r"
    and "length ups = (if signal_of ups downs = Raise then 1 else 0)"
    and "length downs = (if signal_of ups downs = Clear then 1 else 0)"
    and "\<And>i. kept = Some i \<Longrightarrow> state_ok i"
    by blast+
qed

subsection \<open>Evaluate as one pass over the pairs\<close>

type_synonym pair = "definition_row \<times> reading"

definition pairs :: "definition_row list \<Rightarrow> (string \<Rightarrow> reading list) \<Rightarrow> pair list" where
  "pairs defs readings = concat (map (\<lambda>d. map (Pair d) (readings (def_ID d))) (filter Enabled defs))"

definition pair_key :: "pair \<Rightarrow> string" where
  "pair_key p = alarm_key (fst p) (snd p)"

definition outcome ::
  "(string \<Rightarrow> instance_row option) \<Rightarrow> int \<Rightarrow> pair \<Rightarrow> instance_row option \<times> instance_row list \<times> instance_row list" where
  "outcome prior now p = transition (fst p) (snd p) (prior (pair_key p)) now"

definition kept_of where "kept_of prior now p = fst (outcome prior now p)"
definition ups_of where "ups_of prior now p = fst (snd (outcome prior now p))"
definition downs_of where "downs_of prior now p = snd (snd (outcome prior now p))"

lemmas outcome_parts = kept_of_def ups_of_def downs_of_def

definition eval_pair ::
  "(string \<Rightarrow> instance_row option) \<Rightarrow> int \<Rightarrow> evaluation \<Rightarrow> pair \<Rightarrow> evaluation" where
  "eval_pair prior now acc p =
     (case kept_of prior now p of None \<Rightarrow> fst acc | Some i \<Rightarrow> put (fst acc) (pair_key p) i,
      fst (snd acc) @ ups_of prior now p, snd (snd acc) @ downs_of prior now p)"

lemma eval_pair_triple:
  "eval_pair prior now (n, u, c) p =
     (case kept_of prior now p of None \<Rightarrow> n | Some i \<Rightarrow> put n (pair_key p) i,
      u @ ups_of prior now p, c @ downs_of prior now p)"
  by (cases "kept_of prior now p") (simp_all add: eval_pair_def)

lemma eval_readings_Cons:
  "eval_readings prior now d (r # rs) acc = eval_readings prior now d rs (eval_pair prior now acc (d, r))"
proof -
  obtain n u c where acc: "acc = (n, u, c)" by (rule prod_cases3)
  obtain k us ds where t: "transition d r (prior (alarm_key d r)) now = (k, us, ds)" by (rule prod_cases3)
  then have "outcome prior now (d, r) = (k, us, ds)" by (simp add: outcome_def pair_key_def)
  then show ?thesis
    by (cases k) (simp_all add: acc t eval_pair_triple outcome_parts pair_key_def Let_def)
qed

lemma eval_readings_fold:
  "eval_readings prior now d rs acc = foldl (eval_pair prior now) acc (map (Pair d) rs)"
  by (induction rs arbitrary: acc) (simp_all add: eval_readings_Cons del: eval_readings.simps(2))

lemma eval_defs_fold:
  "eval_defs prior now readings ds acc = foldl (eval_pair prior now) acc (pairs ds readings)"
  by (induction ds arbitrary: acc) (simp_all add: pairs_def eval_readings_fold)

lemma foldl_eval_pair:
  "foldl (eval_pair prior now) (n, u, c) ps =
     (fold (\<lambda>p m. case kept_of prior now p of None \<Rightarrow> m | Some i \<Rightarrow> put m (pair_key p) i) ps n,
      u @ concat (map (ups_of prior now) ps), c @ concat (map (downs_of prior now) ps))"
proof (induction ps arbitrary: n u c)
  case (Cons p ps)
  show ?case unfolding foldl_Cons eval_pair_triple Cons.IH by simp
qed simp

lemma Evaluate_pairs:
  "Evaluate defs readings prior now =
     (fold (\<lambda>p m. case kept_of prior now p of None \<Rightarrow> m | Some i \<Rightarrow> put m (pair_key p) i) (pairs defs readings) [],
      concat (map (ups_of prior now) (pairs defs readings)),
      concat (map (downs_of prior now) (pairs defs readings)))"
  by (simp add: Evaluate_def eval_defs_fold foldl_eval_pair)

lemma fold_put_other:
  "k \<notin> g ` set ps \<Longrightarrow> map_of (fold (\<lambda>p m. case f p of None \<Rightarrow> m | Some i \<Rightarrow> put m (g p) i) ps n) k = map_of n k"
  by (induction ps arbitrary: n) (auto simp: map_of_put split: option.split)

lemma key_neq: "distinct (map g (q # qs)) \<Longrightarrow> p \<in> set qs \<Longrightarrow> g p \<noteq> g q"
  by (metis distinct.simps(2) imageI list.map(2) list.set_map)

lemma fold_put_lookup:
  "distinct (map g ps) \<Longrightarrow> p \<in> set ps \<Longrightarrow> map_of n (g p) = None \<Longrightarrow>
     map_of (fold (\<lambda>p m. case f p of None \<Rightarrow> m | Some i \<Rightarrow> put m (g p) i) ps n) (g p) = f p"
proof (induction ps arbitrary: n)
  case Nil
  then show ?case by simp
next
  case (Cons q qs)
  show ?case
  proof (cases "p = q")
    case True
    then have "g p \<notin> g ` set qs" using Cons.prems(1) by simp
    then show ?thesis using True Cons.prems(3)
      by (simp add: fold_put_other map_of_put split: option.split)
  next
    case False
    then have p: "p \<in> set qs" "g p \<noteq> g q" using key_neq [OF Cons.prems(1)] Cons.prems(2) by auto
    then show ?thesis
      using Cons.IH [OF _ p(1), of "case f q of None \<Rightarrow> n | Some i \<Rightarrow> put n (g q) i"] Cons.prems(1,3)
      by (cases "f q") (simp_all add: map_of_put)
  qed
qed

lemma filter_concat_key:
  assumes "distinct (map g ps)" "p \<in> set ps" "\<And>q i. q \<in> set ps \<Longrightarrow> i \<in> set (f q) \<Longrightarrow> h i = g q"
  shows "filter (\<lambda>i. h i = g p) (concat (map f ps)) = f p"
  using assms
proof (induction ps)
  case Nil
  then show ?case by simp
next
  case (Cons q qs)
  have ids: "\<forall>i \<in> set (f q). h i = g q" using Cons.prems(3) by simp
  show ?case
  proof (cases "p = q")
    case True
    have "h i \<noteq> g p" if "y \<in> set qs" "i \<in> set (f y)" for y i
      using key_neq [OF Cons.prems(1) that(1)] Cons.prems(3) [of y i] that True by simp
    then have "filter (\<lambda>i. h i = g p) (concat (map f qs)) = []"
      by (simp add: filter_empty_conv)
    moreover have "filter (\<lambda>i. h i = g p) (f q) = f q" using ids True by (simp add: filter_id_conv)
    ultimately show ?thesis using True by simp
  next
    case False
    then have p: "p \<in> set qs" "g p \<noteq> g q" using key_neq [OF Cons.prems(1)] Cons.prems(2) by auto
    then have "filter (\<lambda>i. h i = g p) (f q) = []" using ids by (simp add: filter_empty_conv)
    moreover have "filter (\<lambda>i. h i = g p) (concat (map f qs)) = f p"
      using Cons.prems p by (intro Cons.IH) auto
    ultimately show ?thesis by simp
  qed
qed

definition prior_ok :: "(string \<Rightarrow> instance_row option) \<Rightarrow> bool" where
  "prior_ok prior \<longleftrightarrow> (\<forall>k i. prior k = Some i \<longrightarrow> state_ok i)"

lemma Evaluate_at:
  assumes "Evaluate defs readings prior now = (nxt, raised, cleared)"
    and "distinct (map pair_key (pairs defs readings))" "prior_ok prior" "p \<in> set (pairs defs readings)"
  shows "map_of nxt (pair_key p) = kept_of prior now p"
    and "filter (\<lambda>i. inst_ID i = pair_key p) raised = ups_of prior now p"
    and "filter (\<lambda>i. inst_ID i = pair_key p) cleared = downs_of prior now p"
proof -
  have ids: "inst_ID i = pair_key q" if "i \<in> set (ups_of prior now q) \<union> set (downs_of prior now q)" for q i
  proof -
    obtain k us ds where t: "outcome prior now q = (k, us, ds)" by (rule prod_cases3)
    have "state_ok c" if "prior (pair_key q) = Some c" for c using assms(3) that unfolding prior_ok_def by blast
    then show ?thesis
      using transition_refines(2) [of "prior (pair_key q)" "fst q" "snd q" now k us ds i] t that
      unfolding outcome_def ups_of_def downs_of_def by (simp add: pair_key_def)
  qed
  note ev = assms(1)[unfolded Evaluate_pairs]
  have n: "nxt = fold (\<lambda>p m. case kept_of prior now p of None \<Rightarrow> m | Some i \<Rightarrow> put m (pair_key p) i) (pairs defs readings) []"
    and u: "raised = concat (map (ups_of prior now) (pairs defs readings))"
    and c: "cleared = concat (map (downs_of prior now) (pairs defs readings))"
    using ev by simp_all
  show "map_of nxt (pair_key p) = kept_of prior now p"
    unfolding n by (rule fold_put_lookup [OF assms(2,4)]) simp
  show "filter (\<lambda>i. inst_ID i = pair_key p) raised = ups_of prior now p"
    unfolding u by (rule filter_concat_key [OF assms(2,4)]) (use ids in blast)
  show "filter (\<lambda>i. inst_ID i = pair_key p) cleared = downs_of prior now p"
    unfolding c by (rule filter_concat_key [OF assms(2,4)]) (use ids in blast)
qed


subsection \<open>Runs\<close>

type_synonym tick = "(string \<Rightarrow> reading list) \<times> int"

fun alarm_run ::
  "definition_row list \<Rightarrow> (string \<times> instance_row) list \<Rightarrow> tick list
     \<Rightarrow> (string \<times> instance_row) list \<times> instance_row list \<times> instance_row list" where
  "alarm_run defs m [] = (m, [], [])"
| "alarm_run defs m ((rd, now) # ts) =
     (let (n, u, c) = Evaluate defs rd (map_of m) now; (m', us, cs) = alarm_run defs n ts
      in (m', u @ us, c @ cs))"

text \<open>What a tick shows of one object: whether it breaches, and when.\<close>

definition obs :: "definition_row \<Rightarrow> string \<Rightarrow> tick \<Rightarrow> bool \<times> int" where
  "obs d ob t = (case find (\<lambda>r. objectID r = ob) (fst t (def_ID d)) of
     None \<Rightarrow> (False, snd t) | Some r \<Rightarrow> (breaches d r, snd t))"

definition watched :: "definition_row list \<Rightarrow> definition_row \<Rightarrow> string \<Rightarrow> tick \<Rightarrow> bool" where
  "watched defs d ob t \<longleftrightarrow> d \<in> set defs \<and> Enabled d \<and> distinct (map pair_key (pairs defs (fst t)))
     \<and> (\<exists>r \<in> set (fst t (def_ID d)). objectID r = ob)"

fun spec_run :: "int \<Rightarrow> phase \<Rightarrow> (bool \<times> int) list \<Rightarrow> phase \<times> signal list" where
  "spec_run dur ph [] = (ph, [])"
| "spec_run dur ph ((b, now) # bs) =
     (let (ph1, sig) = spec_step dur now b ph; (ph2, sigs) = spec_run dur ph1 bs in (ph2, sig # sigs))"

lemma fold_put_ok:
  "(\<And>p i. f p = Some i \<Longrightarrow> ok i) \<Longrightarrow> (\<And>k i. map_of n k = Some i \<Longrightarrow> ok i) \<Longrightarrow>
     map_of (fold (\<lambda>p m. case f p of None \<Rightarrow> m | Some i \<Rightarrow> put m (g p) i) ps n) k = Some i \<Longrightarrow> ok i"
proof (induction ps arbitrary: n)
  case (Cons p ps)
  show ?case
  proof (rule Cons.IH [OF Cons.prems(1)])
    show "map_of (fold (\<lambda>p m. case f p of None \<Rightarrow> m | Some i \<Rightarrow> put m (g p) i) ps
        (case f p of None \<Rightarrow> n | Some i \<Rightarrow> put n (g p) i)) k = Some i" using Cons.prems(3) by simp
    show "ok j" if "map_of (case f p of None \<Rightarrow> n | Some i \<Rightarrow> put n (g p) i) k' = Some j" for k' j
      using that Cons.prems(1) [of p] Cons.prems(2) by (cases "f p") (auto simp: map_of_put split: if_splits)
  qed
qed simp

lemma Evaluate_prior_ok:
  assumes "Evaluate defs readings prior now = (nxt, raised, cleared)" "prior_ok prior"
  shows "prior_ok (map_of nxt)"
proof -
  have ok: "state_ok i" if "kept_of prior now p = Some i" for p i
  proof -
    obtain k us ds where t: "transition (fst p) (snd p) (prior (pair_key p)) now = (k, us, ds)" by (rule prod_cases3)
    have "state_ok c" if "prior (pair_key p) = Some c" for c using assms(2) that unfolding prior_ok_def by blast
    then show ?thesis using transition_refines(5) [OF _ t] that t by (simp add: kept_of_def outcome_def)
  qed
  have n: "nxt = fold (\<lambda>p m. case kept_of prior now p of None \<Rightarrow> m | Some i \<Rightarrow> put m (pair_key p) i) (pairs defs readings) []"
    using assms(1) unfolding Evaluate_pairs by simp
  show ?thesis
    unfolding prior_ok_def n by (intro allI impI) (rule fold_put_ok [OF ok], simp_all)
qed

lemma watched_step:
  assumes "watched defs d ob (rd, now)" "prior_ok prior"
    and "Evaluate defs rd prior now = (nxt, raised, cleared)" "key = def_ID d @ '':'' @ ob"
  shows "\<exists>sig. spec_step (duration_ns d) now (fst (obs d ob (rd, now))) (phase_of (prior key))
           = (phase_of (map_of nxt key), sig)
    \<and> length (filter (\<lambda>i. inst_ID i = key) raised) = (if sig = Raise then 1 else 0)
    \<and> length (filter (\<lambda>i. inst_ID i = key) cleared) = (if sig = Clear then 1 else 0)"
proof -
  obtain r where r: "find (\<lambda>r. objectID r = ob) (rd (def_ID d)) = Some r"
    using assms(1) by (cases "find (\<lambda>r. objectID r = ob) (rd (def_ID d))") (auto simp: watched_def find_None_iff)
  then have in_rd: "r \<in> set (rd (def_ID d))" "objectID r = ob" by (auto simp: find_Some_iff)
  have key: "key = alarm_key d r" using in_rd assms(4) by (simp add: alarm_key_def)
  have w: "distinct (map pair_key (pairs defs rd))" "d \<in> set defs" "Enabled d"
    using assms(1) by (simp_all add: watched_def)
  obtain k us ds where t: "outcome prior now (d, r) = (k, us, ds)" by (rule prod_cases3)
  have p: "(d, r) \<in> set (pairs defs rd)" using w in_rd by (auto simp: pairs_def)
  note at = Evaluate_at [OF assms(3) w(1) assms(2) p]
  have ok: "state_ok c" if "prior (alarm_key d r) = Some c" for c
    using assms(2) that unfolding prior_ok_def by blast
  have tr: "transition d r (prior (alarm_key d r)) now = (k, us, ds)"
    using t by (simp add: outcome_def pair_key_def)
  note ref = transition_refines [OF ok tr]
  have "fst (obs d ob (rd, now)) = breaches d r" by (simp add: obs_def r)
  then show ?thesis
    using at ref(1,3,4) t key by (intro exI [of _ "signal_of us ds"]) (simp add: outcome_parts pair_key_def)
qed

lemma obs_time [simp]: "snd (obs d ob t) = snd t"
  by (simp add: obs_def split: option.split)

lemma run_refines:
  assumes "list_all (watched defs d ob) ts" "prior_ok (map_of m)" "key = def_ID d @ '':'' @ ob"
    and "alarm_run defs m ts = (m', raised, cleared)"
  shows "\<exists>sigs. spec_run (duration_ns d) (phase_of (map_of m key)) (map (obs d ob) ts)
           = (phase_of (map_of m' key), sigs)
    \<and> length (filter (\<lambda>i. inst_ID i = key) raised) = count_list sigs Raise
    \<and> length (filter (\<lambda>i. inst_ID i = key) cleared) = count_list sigs Clear \<and> prior_ok (map_of m')"
  using assms(1,2,4)
proof (induction ts arbitrary: m m' raised cleared)
  case Nil
  then show ?case by simp
next
  case (Cons t ts)
  obtain rd now where t: "t = (rd, now)" by (rule prod.exhaust)
  obtain n u c where ev: "Evaluate defs rd (map_of m) now = (n, u, c)" by (rule prod_cases3)
  obtain m2 us cs where rest: "alarm_run defs n ts = (m2, us, cs)" by (rule prod_cases3)
  have res: "m' = m2" "raised = u @ us" "cleared = c @ cs" using Cons.prems(3) t ev rest by simp_all
  have w: "watched defs d ob (rd, now)" "list_all (watched defs d ob) ts" using Cons.prems(1) t by simp_all
  obtain sig where sig: "spec_step (duration_ns d) now (fst (obs d ob (rd, now))) (phase_of (map_of m key))
           = (phase_of (map_of n key), sig)"
    "length (filter (\<lambda>i. inst_ID i = key) u) = (if sig = Raise then 1 else 0)"
    "length (filter (\<lambda>i. inst_ID i = key) c) = (if sig = Clear then 1 else 0)"
    using watched_step [OF w(1) Cons.prems(2) ev assms(3)] by blast
  obtain sigs where sigs: "spec_run (duration_ns d) (phase_of (map_of n key)) (map (obs d ob) ts)
           = (phase_of (map_of m2 key), sigs)"
    "length (filter (\<lambda>i. inst_ID i = key) us) = count_list sigs Raise"
    "length (filter (\<lambda>i. inst_ID i = key) cs) = count_list sigs Clear" "prior_ok (map_of m2)"
    using Cons.IH [OF w(2) Evaluate_prior_ok [OF ev Cons.prems(2)] rest] by blast
  have ob: "obs d ob (rd, now) = (fst (obs d ob (rd, now)), now)"
    using obs_time [of d ob "(rd, now)"] by (metis prod.collapse snd_conv)
  have "spec_run (duration_ns d) (phase_of (map_of m key)) (map (obs d ob) (t # ts))
      = (phase_of (map_of m' key), sig # sigs)"
    unfolding t list.map by (subst ob) (simp add: sig(1) sigs(1) res)
  then show ?case using sig(2,3) sigs(2,3,4) res
    by (intro exI [of _ "sig # sigs"]) simp
qed

definition fired :: "phase \<Rightarrow> nat" where
  "fired ph = (if ph = Firing then 1 else 0)"

lemma spec_step_balance:
  "spec_step dur now b ph = (ph', sig) \<Longrightarrow>
     fired ph + (if sig = Raise then 1 else 0) = fired ph' + (if sig = Clear then 1 else 0)"
  by (cases b; cases ph) (auto simp: fired_def split: if_splits)

lemma spec_run_balance:
  "spec_run dur ph bs = (ph', sigs) \<Longrightarrow>
     fired ph + count_list sigs Raise = fired ph' + count_list sigs Clear"
proof (induction bs arbitrary: ph sigs)
  case Nil
  then show ?case by simp
next
  case (Cons x bs)
  obtain b now where x: "x = (b, now)" by (rule prod.exhaust)
  obtain ph1 sig where s1: "spec_step dur now b ph = (ph1, sig)" by (rule prod.exhaust)
  obtain ph2 sigs2 where s2: "spec_run dur ph1 bs = (ph2, sigs2)" by (rule prod.exhaust)
  have eq: "ph' = ph2" "sigs = sig # sigs2" using Cons.prems x s1 s2 by simp_all
  have "fired ph1 + count_list sigs2 Raise = fired ph2 + count_list sigs2 Clear"
    using Cons.IH [of ph1 sigs2] s2 eq by simp
  then show ?case using spec_step_balance [OF s1] eq by (cases sig) auto
qed


text \<open>The breach window: the readings since \<open>t0\<close> all breach.\<close>

definition breach_window :: "(bool \<times> int) list \<Rightarrow> int \<Rightarrow> bool" where
  "breach_window bs t0 \<longleftrightarrow> (\<exists>pre suf. bs = pre @ suf \<and> suf \<noteq> [] \<and> list_all fst suf \<and> snd (hd suf) = t0)"

lemma breach_window_snoc: "breach_window bs t0 \<Longrightarrow> b \<Longrightarrow> breach_window (bs @ [(b, now)]) t0"
  unfolding breach_window_def
proof (elim exE conjE)
  fix pre suf
  assume "b" "bs = pre @ suf" "suf \<noteq> []" "list_all fst suf" "snd (hd suf) = t0"
  then show "\<exists>pre suf. bs @ [(b, now)] = pre @ suf \<and> suf \<noteq> [] \<and> list_all fst suf \<and> snd (hd suf) = t0"
    by (intro exI [of _ pre] exI [of _ "suf @ [(b, now)]"]) simp
qed

lemma breach_window_new: "breach_window (bs @ [(True, now)]) now"
  unfolding breach_window_def by (intro exI [of _ bs] exI [of _ "[(True, now)]"]) simp

lemma spec_run_append:
  "spec_run dur ph (bs @ cs) =
     (let (ph1, s1) = spec_run dur ph bs; (ph2, s2) = spec_run dur ph1 cs in (ph2, s1 @ s2))"
proof (induction bs arbitrary: ph)
  case Nil
  then show ?case by (cases "spec_run dur ph cs") simp
next
  case (Cons x bs)
  obtain b now where x: "x = (b, now)" by (rule prod.exhaust)
  obtain ph1 sig where s1: "spec_step dur now b ph = (ph1, sig)" by (rule prod.exhaust)
  obtain ph2 sigs2 where s2: "spec_run dur ph1 bs = (ph2, sigs2)" by (rule prod.exhaust)
  obtain ph3 sigs3 where s3: "spec_run dur ph2 cs = (ph3, sigs3)" by (rule prod.exhaust)
  show ?case using Cons.IH [of ph1] by (simp add: x s1 s2 s3)
qed

lemma spec_run_snoc:
  "spec_run dur ph (bs @ [(b, now)]) =
     (let (ph1, sigs) = spec_run dur ph bs; (ph2, sig) = spec_step dur now b ph1 in (ph2, sigs @ [sig]))"
  by (simp add: spec_run_append split: prod.split)

lemma pending_window:
  "spec_run dur Healthy bs = (Pending t0, sigs) \<Longrightarrow> breach_window bs t0"
proof (induction bs arbitrary: t0 sigs rule: rev_induct)
  case Nil
  then show ?case by simp
next
  case (snoc x bs)
  obtain b now where x: "x = (b, now)" by (rule prod.exhaust)
  obtain ph1 sigs1 where s1: "spec_run dur Healthy bs = (ph1, sigs1)" by (rule prod.exhaust)
  have step: "fst (spec_step dur now b ph1) = Pending t0"
    using snoc.prems by (simp add: x spec_run_snoc s1 split: prod.splits)
  show ?case
  proof (cases ph1)
    case Healthy
    with step have "b" "t0 = now" by (cases b; simp split: if_splits)+
    then show ?thesis using breach_window_new x by simp
  next
    case (Pending t)
    with step have "b" "t = t0" by (cases b; simp split: if_splits)+
    then show ?thesis using breach_window_snoc [OF snoc.IH [of t0 sigs1]] s1 Pending x by simp
  next
    case Firing
    with step show ?thesis by (cases b) simp_all
  qed
qed

lemma raise_window:
  assumes "spec_run dur Healthy (bs @ [(b, now)]) = (ph, sigs @ [Raise])"
  shows "\<exists>t0. breach_window (bs @ [(b, now)]) t0 \<and> dur \<le> sat64 (now - t0)"
proof -
  obtain ph1 sigs1 where s1: "spec_run dur Healthy bs = (ph1, sigs1)" by (rule prod.exhaust)
  have step: "snd (spec_step dur now b ph1) = Raise"
    using assms by (simp add: spec_run_snoc s1 split: prod.splits)
  show ?thesis
  proof (cases ph1)
    case Healthy
    with step have "b" "dur \<le> sat64 (now - now)" by (cases b; simp split: if_splits)+
    then show ?thesis using breach_window_new [of bs now] by auto
  next
    case (Pending t)
    with step have "b" "dur \<le> sat64 (now - t)" by (cases b; simp split: if_splits)+
    then show ?thesis using breach_window_snoc [OF pending_window, of dur bs t sigs1 b now] s1 Pending by blast
  next
    case Firing
    with step show ?thesis by (cases b) simp_all
  qed
qed

text \<open>An alarm is raised only when the object breached at every evaluation of a window that
  ends now and began at least the configured duration ago.\<close>

theorem no_early_raise:
  assumes "list_all (watched defs d ob) (ts @ [(rd, now)])" "alarm_run defs [] ts = (m, us, cs)"
    and "Evaluate defs rd (map_of m) now = (nxt, raised, cleared)"
    and "i \<in> set raised" "inst_ID i = def_ID d @ '':'' @ ob"
  shows "\<exists>t0. breach_window (map (obs d ob) (ts @ [(rd, now)])) t0 \<and> duration_ns d \<le> sat64 (now - t0)"
proof -
  have w: "list_all (watched defs d ob) ts" "watched defs d ob (rd, now)" using assms(1) by simp_all
  have ok: "prior_ok (map_of [])" by (simp add: prior_ok_def)
  from run_refines [OF w(1) ok refl assms(2)] obtain sigs where run:
    "spec_run (duration_ns d) Healthy (map (obs d ob) ts) = (phase_of (map_of m (def_ID d @ '':'' @ ob)), sigs)"
    "prior_ok (map_of m)" by (auto simp: phase_of_def)
  obtain sig where sig: "spec_step (duration_ns d) now (fst (obs d ob (rd, now)))
      (phase_of (map_of m (def_ID d @ '':'' @ ob))) = (phase_of (map_of nxt (def_ID d @ '':'' @ ob)), sig)"
    "length (filter (\<lambda>i. inst_ID i = def_ID d @ '':'' @ ob) raised) = (if sig = Raise then 1 else 0)"
    using watched_step [OF w(2) run(2) assms(3) refl] by blast
  have "filter (\<lambda>i. inst_ID i = def_ID d @ '':'' @ ob) raised \<noteq> []"
    using assms(4,5) by (auto simp: filter_empty_conv)
  then have "sig = Raise" using sig(2) by (auto split: if_splits)
  then have "spec_run (duration_ns d) Healthy (map (obs d ob) ts @ [(fst (obs d ob (rd, now)), now)])
      = (phase_of (map_of nxt (def_ID d @ '':'' @ ob)), sigs @ [Raise])"
    using sig(1) by (simp add: spec_run_snoc run(1))
  moreover have "obs d ob (rd, now) = (fst (obs d ob (rd, now)), now)"
    using obs_time [of d ob "(rd, now)"] by (metis prod.collapse snd_conv)
  ultimately show ?thesis
    using raise_window [of "duration_ns d" "map (obs d ob) ts" "fst (obs d ob (rd, now))" now] by simp
qed

lemma breach_window_time: "breach_window bs t0 \<Longrightarrow> t0 \<in> snd ` set bs"
  unfolding breach_window_def by (auto dest: hd_in_set)

lemma sat64_mono: "x \<le> y \<Longrightarrow> sat64 x \<le> sat64 y"
  by (simp add: sat64_def)

text \<open>While every reading breaches, the machine fires or has been pending since before the first
  of them.\<close>

lemma spec_run_breaching:
  assumes "list_all fst bs" "bs \<noteq> []" "\<And>t. ph = Pending t \<Longrightarrow> t \<le> snd (hd bs)"
    and "spec_run dur ph bs = (ph', sigs)"
  shows "ph' = Firing \<or> (\<exists>t. ph' = Pending t \<and> t \<le> snd (hd bs) \<and> \<not> dur \<le> sat64 (snd (last bs) - t))"
  using assms
proof (induction bs arbitrary: ph' sigs rule: rev_induct)
  case Nil
  then show ?case by simp
next
  case (snoc x bs)
  obtain now where x: "x = (True, now)" using snoc.prems(1) by (cases x) simp
  obtain ph1 sigs1 where s1: "spec_run dur ph bs = (ph1, sigs1)" by (rule prod.exhaust)
  have step: "ph' = fst (spec_step dur now True ph1)"
    using snoc.prems(4) by (simp add: x spec_run_snoc s1 split: prod.splits)
  show ?case
  proof (cases "bs = []")
    case True
    then have "ph1 = ph" using s1 by simp
    moreover have "t \<le> now" if "ph = Pending t" for t using snoc.prems(3) [OF that] True x by simp
    ultimately show ?thesis using step True x by (cases ph) (simp_all split: if_splits)
  next
    case False
    then have "ph1 = Firing \<or> (\<exists>t. ph1 = Pending t \<and> t \<le> snd (hd bs) \<and> \<not> dur \<le> sat64 (snd (last bs) - t))"
      using snoc.IH [OF _ False _ s1] snoc.prems(1,3) by simp
    then show ?thesis using step x False by (elim disjE exE) simp_all
  qed
qed

text \<open>C25. An object that breaches at every evaluation for the configured duration has its alarm
  active at the end, whatever happened before, provided the clock does not go back.\<close>

theorem persistent_breach_fires:
  assumes "list_all (watched defs d ob) (pre @ suf)" "alarm_run defs [] (pre @ suf) = (m, raised, cleared)"
    and "list_all (fst \<circ> obs d ob) suf" "suf \<noteq> []" "sorted (map snd (pre @ suf))"
    and "duration_ns d \<le> sat64 (snd (last suf) - snd (hd suf))"
  shows "\<exists>i. map_of m (def_ID d @ '':'' @ ob) = Some i \<and> State i = StateActive"
proof -
  let ?key = "def_ID d @ '':'' @ ob" and ?obs = "map (obs d ob)"
  have "prior_ok (map_of [])" by (simp add: prior_ok_def)
  from run_refines [OF assms(1) this refl assms(2)] obtain sigs where
    run: "spec_run (duration_ns d) Healthy (?obs pre @ ?obs suf) = (phase_of (map_of m ?key), sigs)"
    by (auto simp: phase_of_def)
  obtain ph1 s1 where r1: "spec_run (duration_ns d) Healthy (?obs pre) = (ph1, s1)" by (rule prod.exhaust)
  obtain ph2 s2 where r2: "spec_run (duration_ns d) ph1 (?obs suf) = (ph2, s2)" by (rule prod.exhaust)
  have ph2: "phase_of (map_of m ?key) = ph2" using run by (simp add: spec_run_append r1 r2)
  have t0: "t \<le> snd (hd (?obs suf))" if "ph1 = Pending t" for t
  proof -
    have "t \<in> snd ` set (?obs pre)" using breach_window_time [OF pending_window] r1 that by blast
    then have "t \<in> set (map snd pre)" by (simp add: image_image)
    then show ?thesis using assms(4,5) by (fastforce simp: sorted_append hd_map dest: hd_in_set)
  qed
  have "list_all fst (?obs suf)" "?obs suf \<noteq> []" using assms(3,4) by (simp_all add: list_all_iff)
  from spec_run_breaching [OF this t0 r2]
  have "ph2 = Firing \<or> (\<exists>t. ph2 = Pending t \<and> t \<le> snd (hd suf) \<and> \<not> duration_ns d \<le> sat64 (snd (last suf) - t))"
    using assms(4) by (simp add: hd_map last_map)
  moreover have "duration_ns d \<le> sat64 (snd (last suf) - t)" if "t \<le> snd (hd suf)" for t
    using assms(6) sat64_mono [of "snd (last suf) - snd (hd suf)" "snd (last suf) - t"] that by simp
  ultimately have "phase_of (map_of m ?key) = Firing" using ph2 by blast
  then show ?thesis by (auto simp: phase_of_def split: option.splits if_splits)
qed

subsection \<open>Restarts and the sorted view\<close>

text \<open>What the engine keeps of its map: unique keys, every instance under its own id.\<close>

definition engine_ok :: "(string \<times> instance_row) list \<Rightarrow> bool" where
  "engine_ok m \<longleftrightarrow> distinct (map fst m) \<and> (\<forall>(k, i) \<in> set m. inst_ID i = k)"

lemma set_put: "set (put m k i) \<subseteq> insert (k, i) (set m)"
  by (auto simp: put_def split: if_splits)

lemma put_engine_ok:
  assumes "engine_ok m" "inst_ID i = k"
  shows "engine_ok (put m k i)"
proof -
  have "\<forall>(k', j) \<in> insert (k, i) (set m). inst_ID j = k'" using assms by (simp add: engine_ok_def)
  then have "\<forall>(k', j) \<in> set (put m k i). inst_ID j = k'" using set_put [of m k i] by blast
  then show ?thesis using assms(1) distinct_put [of m k i] by (simp add: engine_ok_def keys_def)
qed

lemma transition_kept_ID: "transition d r cur now = (Some i, us, ds) \<Longrightarrow> inst_ID i = alarm_key d r"
  by (auto simp: transition_def Let_def split: if_splits)

lemma kept_of_ID: "kept_of prior now p = Some i \<Longrightarrow> inst_ID i = pair_key p"
  unfolding kept_of_def outcome_def pair_key_def
  using transition_kept_ID by (metis prod.collapse)

lemma Evaluate_engine_ok: "engine_ok (fst (Evaluate defs readings prior now))"
proof -
  have "engine_ok m \<Longrightarrow> engine_ok (fold (\<lambda>p m. case kept_of prior now p of None \<Rightarrow> m | Some i \<Rightarrow> put m (pair_key p) i) ps m)"
    for ps m
  proof (induction ps arbitrary: m)
    case (Cons p ps)
    then have "engine_ok (case kept_of prior now p of None \<Rightarrow> m | Some i \<Rightarrow> put m (pair_key p) i)"
      using put_engine_ok kept_of_ID by (cases "kept_of prior now p") simp_all
    then show ?case using Cons.IH by simp
  qed simp
  moreover have "engine_ok []" by (simp add: engine_ok_def)
  ultimately show ?thesis by (simp add: Evaluate_pairs)
qed

definition view_key :: "instance_row \<Rightarrow> int \<times> string \<times> string" where
  "view_key i = (sevRank (inst_Severity i), ObjectName i, inst_ID i)"

lemma Active_view: "Active e = sort_key view_key (activeOnly (map snd (instances e)))"
  by (simp add: Active_def view_key_def [abs_def])

lemma view_key_reloaded [simp]: "view_key (reloaded i) = view_key i"
  by (simp add: view_key_def reloaded_def)

lemma reloaded_fields [simp]: "inst_ID (reloaded i) = inst_ID i" "State (reloaded i) = StateActive"
  by (simp_all add: reloaded_def)

lemma insort_key_map: "(\<And>x. g (f x) = g x) \<Longrightarrow> insort_key g (f x) (map f xs) = map f (insort_key g x xs)"
  by (induction xs) simp_all

lemma sort_key_map: "(\<And>x. g (f x) = g x) \<Longrightarrow> sort_key g (map f xs) = map f (sort_key g xs)"
  by (induction xs) (simp_all add: insort_key_map)

lemma view_key_inj: "distinct (map inst_ID xs) \<Longrightarrow> inj_on view_key (set xs)"
  by (auto simp: inj_on_def view_key_def distinct_map)

lemma engine_ids:
  assumes "engine_ok m"
  shows "distinct (map inst_ID (activeOnly (map snd m)))"
proof -
  have "map inst_ID (map snd m) = map fst m" using assms by (auto simp: engine_ok_def)
  then have "distinct (map inst_ID (map snd m))" using assms unfolding engine_ok_def by metis
  then show ?thesis unfolding activeOnly_def by (rule distinct_map_filter)
qed

text \<open>Ids are distinct, so the view is a function of the set of instances: the order in which
  the map is iterated does not show.\<close>

lemma Active_order_irrelevant:
  assumes "mset (instances e) = mset (instances e')" "engine_ok (instances e)"
  shows "Active e = Active e'"
proof -
  have "distinct (map inst_ID (activeOnly (map snd (instances e))))" by (rule engine_ids [OF assms(2)])
  moreover have "mset (activeOnly (map snd (instances e))) = mset (activeOnly (map snd (instances e')))"
    using assms(1) by (simp add: activeOnly_def mset_filter)
  ultimately show ?thesis unfolding Active_view by (intro sort_key_eq_sort_key view_key_inj)
qed

lemma fold_put_fresh:
  "distinct (map f rows) \<Longrightarrow> set (map f rows) \<inter> set (keys m) = {} \<Longrightarrow>
     fold (\<lambda>i m. put m (f i) i) rows m = m @ map (\<lambda>i. (f i, i)) rows"
proof (induction rows arbitrary: m)
  case (Cons i rows)
  then have "put m (f i) i = m @ [(f i, i)]" by (simp add: put_def)
  moreover have "set (map f rows) \<inter> set (keys (m @ [(f i, i)])) = {}" using Cons.prems by (auto simp: keys_def)
  ultimately show ?case using Cons by simp
qed simp

lemma engine_lookup: "engine_ok m \<Longrightarrow> map_of m k = Some i \<longleftrightarrow> i \<in> set (map snd m) \<and> inst_ID i = k"
  by (force simp: engine_ok_def map_of_eq_Some_iff)

text \<open>A restart after a tick that saved its instances resumes exactly the active alarms, in
  whatever order the rows are read back: the sorted view is the same but for the fields the
  database does not keep, and every key is firing if it was firing and healthy otherwise, so a
  pending breach window starts over and an active alarm is not raised a second time.\<close>

theorem restart_resumes_active:
  assumes "e1 = Tick metrics (Some ds) u True fire_defs get_channel ts now e"
    and "mset rows = mset (map reloaded (persisted e1))" "instances e2 = []"
  shows "Active (Resume (Some rows) e2) = map reloaded (Active e1)
    \<and> phase_of (map_of (instances (Resume (Some rows) e2)) k)
      = (if phase_of (map_of (instances e1) k) = Firing then Firing else Healthy)"
proof (rule conjI)
  let ?nxt = "fst (Evaluate ds (collect metrics ds u) (map_of (instances e)) now)"
  have e1: "instances e1 = ?nxt" "persisted e1 = activeOnly (map snd ?nxt)"
    using assms(1) by (simp_all add: Tick_def split: prod.split)
  have ok: "engine_ok ?nxt" by (rule Evaluate_engine_ok)
  have dist: "distinct (map inst_ID (persisted e1))" using engine_ids [OF ok] by (simp add: e1)
  have "mset (map inst_ID rows) = mset (map inst_ID (persisted e1))"
    using arg_cong [OF assms(2), of "image_mset inst_ID"] by (simp add: image_mset.compositionality o_def)
  then have rows: "distinct (map inst_ID rows)" using dist mset_eq_imp_distinct_iff by blast
  then have r: "instances (Resume (Some rows) e2) = map (\<lambda>i. (inst_ID i, i)) rows"
    using assms(3) by (simp add: Resume_def fold_put_fresh keys_def)
  show "Active (Resume (Some rows) e2) = map reloaded (Active e1)"
  proof -
    have "activeOnly rows = rows"
      using mset_eq_setD [OF assms(2)] by (auto simp: activeOnly_def intro!: filter_True)
    then have "Active (Resume (Some rows) e2) = sort_key view_key rows" by (simp add: Active_view r o_def)
    also have "\<dots> = sort_key view_key (map reloaded (persisted e1))"
      by (rule sort_key_eq_sort_key [OF assms(2) view_key_inj [OF rows]])
    also have "\<dots> = map reloaded (Active e1)" by (simp add: sort_key_map Active_view e1)
    finally show ?thesis .
  qed
  have ok2: "engine_ok (instances (Resume (Some rows) e2))"
    using rows by (simp add: r engine_ok_def o_def)
  have in_rows: "j \<in> set rows \<longleftrightarrow> (\<exists>i \<in> set (map snd ?nxt). State i = StateActive \<and> j = reloaded i)" for j
    using mset_eq_setD [OF assms(2)] by (auto simp: e1 activeOnly_def)
  show "phase_of (map_of (instances (Resume (Some rows) e2)) k)
      = (if phase_of (map_of (instances e1) k) = Firing then Firing else Healthy)"
  proof (cases "phase_of (map_of (instances e1) k) = Firing")
    case True
    then obtain i where i: "map_of ?nxt k = Some i" "State i = StateActive"
      by (auto simp: e1 phase_of_def split: option.splits if_splits)
    then have "reloaded i \<in> set rows" "inst_ID (reloaded i) = k"
      using engine_lookup [OF ok] in_rows by auto
    then have "map_of (instances (Resume (Some rows) e2)) k = Some (reloaded i)"
      using engine_lookup [OF ok2] by (simp add: r o_def)
    then show ?thesis using True by (simp add: phase_of_def)
  next
    case False
    have "map_of (instances (Resume (Some rows) e2)) k = None"
    proof (rule ccontr)
      assume "map_of (instances (Resume (Some rows) e2)) k \<noteq> None"
      then obtain j where "map_of (instances (Resume (Some rows) e2)) k = Some j" by blast
      then have "j \<in> set rows" "inst_ID j = k" using engine_lookup [OF ok2] by (auto simp: r)
      then obtain i where "i \<in> set (map snd ?nxt)" "State i = StateActive" "inst_ID i = k"
        using in_rows [of j] by (metis reloaded_fields(1))
      then have "map_of ?nxt k = Some i" using engine_lookup [OF ok] by simp
      then show False using False \<open>State i = StateActive\<close> by (simp add: e1 phase_of_def)
    qed
    then show ?thesis using False by (simp add: phase_of_def)
  qed
qed

subsection \<open>The theorems at a concrete history\<close>

definition cpu_high :: definition_row where
  "cpu_high = \<lparr>def_ID = ''d1'', def_Name = ''CPU high'', def_Target = ''vm'', Metric = ''cpu'',
     Comparator = ''gt'', Threshold = Fin 80, StateValue = [], DurationSec = 60,
     Severity = ''critical'', Enabled = True, NotifyChannelIDs = [''c1'']\<rparr>"

definition cpu_at :: "rat \<Rightarrow> string \<Rightarrow> reading list" where
  "cpu_at v k = (if k = ''d1'' then [\<lparr>objectID = ''vm-7'', objectName = ''web'', objectType = ''vm'',
     rd_value = Fin v, rd_stateRaw = [], hasData = True\<rparr>] else [])"

definition history :: "tick list" where
  "history = [(cpu_at 10, 0), (cpu_at 90, 30 * second), (cpu_at 95, 60 * second)]"

definition last_tick :: tick where "last_tick = (cpu_at 91, 90 * second)"

lemma demo_watched: "list_all (watched [cpu_high] cpu_high ''vm-7'') (history @ [last_tick])"
proof -
  have "watched [cpu_high] cpu_high ''vm-7'' (cpu_at v, now)" for v now
    by (simp add: watched_def pairs_def cpu_at_def cpu_high_def)
  then show ?thesis by (simp add: history_def last_tick_def)
qed

lemma demo_run:
  "alarm_run [cpu_high] [] history = (fst (alarm_run [cpu_high] [] history), [], [])"
  "alarm_run [cpu_high] [] (history @ [last_tick])
     = (fst (alarm_run [cpu_high] [] (history @ [last_tick])),
        [\<lparr>inst_ID = ''d1:vm-7'', DefinitionID = ''d1'', DefinitionName = ''CPU high'', ObjectID = ''vm-7'',
          ObjectName = ''web'', ObjectType = ''vm'', inst_Severity = ''critical'', inst_Metric = ''cpu'',
          State = ''active'', Value = Fin 91, StateRaw = [], RaisedAt = Some (90 * second),
          ClearedAt = None, LastNotifiedAt = Some (90 * second), breachSince = Some (30 * second)\<rparr>], [])"
  by code_simp+

lemma demo_step:
  "spec_step (duration_ns cpu_high) 5 (breaches cpu_high (hd (cpu_at 90 ''d1''))) (phase_of None) = (Pending 5, Quiet)"
  "alarm_key cpu_high (hd (cpu_at 90 ''d1'')) = ''d1:vm-7''"
  by code_simp+



theorem no_early_raise_witness:
  "\<exists>t0. breach_window (map (obs cpu_high ''vm-7'') (history @ [last_tick])) t0
     \<and> duration_ns cpu_high \<le> sat64 (90 * second - t0)"
proof -
  let ?m = "fst (alarm_run [cpu_high] [] history)"
  have "map inst_ID (fst (snd (Evaluate [cpu_high] (cpu_at 91) (map_of ?m) (90 * second)))) = [''d1:vm-7'']"
    by code_simp
  then obtain nxt u c i where ev: "Evaluate [cpu_high] (cpu_at 91) (map_of ?m) (90 * second) = (nxt, u, c)"
    "i \<in> set u" "inst_ID i = def_ID cpu_high @ '':'' @ ''vm-7''"
    by (cases "Evaluate [cpu_high] (cpu_at 91) (map_of ?m) (90 * second)") (auto simp: cpu_high_def)
  show ?thesis
    using no_early_raise [OF demo_watched [unfolded last_tick_def] demo_run(1) ev] unfolding last_tick_def .
qed

theorem persistent_breach_fires_witness:
  "\<exists>i. map_of (fst (alarm_run [cpu_high] [] (history @ [last_tick]))) ''d1:vm-7'' = Some i
     \<and> State i = StateActive"
proof -
  have split: "history @ [last_tick] = [hd history] @ (tl history @ [last_tick])" by (simp add: history_def)
  have "list_all (fst \<circ> obs cpu_high ''vm-7'') (tl history @ [last_tick])"
    "sorted (map snd ([hd history] @ (tl history @ [last_tick])))"
    "duration_ns cpu_high \<le> sat64 (snd (last (tl history @ [last_tick])) - snd (hd (tl history @ [last_tick])))"
    by code_simp+
  moreover have "def_ID cpu_high = ''d1''" by (simp add: cpu_high_def)
  ultimately show ?thesis
    using persistent_breach_fires [OF demo_watched [unfolded split] demo_run(2) [unfolded split]]
    by (simp add: split)
qed

definition vm_down :: definition_row where
  "vm_down = cpu_high\<lparr>def_ID := ''d2'', Metric := ''state'', StateValue := ''stopped'', DurationSec := 0\<rparr>"

definition plain_vm :: "string \<Rightarrow> string \<Rightarrow> string \<Rightarrow> string \<Rightarrow> vm" where
  "plain_vm i name provider st = \<lparr>vm_ID = i, vm_Name = name, vm_Kind = ''kvm'', vm_ProviderID = provider,
     vm_HostID = [], vm_ClusterID = [], vm_State = st, vm_StateRaw = st, vm_VCPUs = 2, vm_MemoryMB = 4096,
     vm_GuestOS = [], vm_Firmware = [], vm_Disks = [], vm_NICs = [], vm_IPAddresses = [], vm_Labels = [],
     vm_SnapshotCount = 0, vm_CreatedAt = None, vm_Protected = False\<rparr>"

definition two_vms :: unified where
  "two_vms = \<lparr>VMs = [plain_vm ''vm-1'' ''db'' ''p'' ''Stopped'', plain_vm ''vm-2'' ''app'' ''p'' ''stopped''],
     Hosts = [], Storage = []\<rparr>"

definition idle_engine :: engine where
  "idle_engine = \<lparr>instances = [], persisted = [], outbox = []\<rparr>"

definition down_engine :: engine where
  "down_engine = Tick None (Some [vm_down]) two_vms True [vm_down] (\<lambda>_. None) 0 7 idle_engine"

theorem restart_resumes_active_witness:
  "map ObjectName (Active (Resume (Some (rev (map reloaded (persisted down_engine)))) idle_engine))
     = [''app'', ''db'']"
proof -
  have "map ObjectName (Active down_engine) = [''app'', ''db'']" by code_simp
  moreover have "map ObjectName (map reloaded is) = map ObjectName is" for "is" by (simp add: reloaded_def)
  moreover have "instances idle_engine = []" by (simp add: idle_engine_def)
  ultimately show ?thesis
    using restart_resumes_active [OF down_engine_def, of "rev (map reloaded (persisted down_engine))" idle_engine]
    by (simp only: mset_rev)
qed

text \<open>
  The hypothesis that instance keys are distinct matters: the key holds the object id but not its
  provider, and ids are unique only within a provider. With one stopped and one running machine of
  the same id the alarm is kept active and reported cleared, at every evaluation.
\<close>

definition twin_vms :: unified where
  "twin_vms = \<lparr>VMs = [plain_vm ''vm-1'' ''db'' ''p'' ''stopped'', plain_vm ''vm-1'' ''app'' ''q'' ''running''],
     Hosts = [], Storage = []\<rparr>"

lemma key_collision:
  "let ev = (\<lambda>prior. Evaluate [vm_down] (collect None [vm_down] twin_vms) prior);
       first = ev (\<lambda>_. None) 1; second = ev (map_of (fst first)) 2; third = ev (map_of (fst second)) 3
   in map (State \<circ> snd) (fst second) = [''active''] \<and> map State (snd (snd second)) = [''cleared'']
      \<and> map (State \<circ> snd) (fst third) = [''active''] \<and> map State (snd (snd third)) = [''cleared'']"
  by code_simp

end
