(* ===== verification/Migrate.thy ===== *)
theory Migrate
  imports VTypes
begin

text \<open>
  The migration engine, \<open>server/internal/migrate/migrate.go\<close> and \<open>convert.go\<close>, and the provider
  registry (\<open>vprovider/registry.go\<close>). A provider is a value of the type \<open>'p\<close> together with the
  operations of the interface that the engines of migration, replication and backup call (the record
  \<open>hv\<close>; \<open>DeleteSnapshot\<close> is an optional interface of a provider); reading a machine, listing its
  snapshots and exporting its disks do not change the provider. The jobs are a map of the engine, its clock
  (\<open>now\<close>, a field of the Go struct) is a sequence of readings, the wall clock the providers read
  is \<open>wall\<close>. A nil dereference is the result \<open>None\<close>.
\<close>

subsection \<open>Streams and converters\<close>

text \<open>What a reader delivers before it ends, or fails with an error.\<close>

type_synonym stream = "string \<times> string option"

type_synonym converter = "stream \<Rightarrow> string \<Rightarrow> string \<Rightarrow> stream"

definition qemuImgFormat :: "string \<Rightarrow> string \<times> bool" where
  "qemuImgFormat f =
     (if f = ''vmdk'' then (''vmdk'', True) else if f = ''qcow2'' then (''qcow2'', True)
      else if f = ''raw'' then (''raw'', True) else if f = ''vhdx'' then (''vhdx'', True)
      else if f = ''vhd'' then (''vpc'', True) else ([], False))"

text \<open>
  The host: whether \<open>qemu-img\<close> is on the path, the errors of the temporary files, and the command
  itself, from the input image and the two format tokens to the output image or its failure text.
\<close>

record tool_host =
  qemu_found :: bool
  mkdir_error :: "string option"
  create_error :: "string option"
  write_error :: "string option"
  close_error :: "string option"
  qemu_img :: "string \<Rightarrow> string \<Rightarrow> string \<Rightarrow> string + string"
  open_error :: "string option"

definition QemuImgConverter :: "tool_host \<Rightarrow> converter" where
  "QemuImgConverter h src from to =
     (if from = to then src
      else (let (fromTok, ok1) = qemuImgFormat from; (toTok, ok2) = qemuImgFormat to
            in if \<not> ok1 \<or> \<not> ok2 \<or> \<not> qemu_found h then src
               else (case mkdir_error h of Some e \<Rightarrow> ([], Some e) | None \<Rightarrow>
                    (case create_error h of Some e \<Rightarrow> ([], Some e) | None \<Rightarrow>
                    (case write_error h of Some e \<Rightarrow> ([], Some e) | None \<Rightarrow>
                    (case snd src of Some e \<Rightarrow> ([], Some e) | None \<Rightarrow>
                    (case close_error h of Some e \<Rightarrow> ([], Some e) | None \<Rightarrow>
                    (case qemu_img h (fst src) fromTok toTok of
                       Inl e \<Rightarrow> ([], Some (''qemu-img convert failed: '' @ e))
                     | Inr out \<Rightarrow>
                       (case open_error h of Some e \<Rightarrow> ([], Some e) | None \<Rightarrow> (out, None))))))))))"

definition PassthroughConverter :: converter where
  "PassthroughConverter src from to = src"

text \<open>The pipe between the converter and the drain: \<open>CloseWithError\<close> passes the error on.\<close>

definition drain :: "stream \<Rightarrow> int \<times> string option" where
  "drain s = (int (length (fst s)), snd s)"

subsection \<open>Providers and the registry\<close>

record 'p hv =
  hv_ID :: "'p \<Rightarrow> string"
  hv_Kind :: "'p \<Rightarrow> string"
  hv_Capabilities :: "'p \<Rightarrow> caps"
  hv_GetVM :: "'p \<Rightarrow> string \<Rightarrow> verror + vm_detail"
  hv_ExportVM :: "'p \<Rightarrow> string \<Rightarrow> string \<Rightarrow> verror + (stream \<times> export_info option)"
  hv_CreateVM :: "'p \<Rightarrow> vm_spec \<Rightarrow> int \<Rightarrow> 'p \<times> (verror + task option)"
  hv_PowerOp :: "'p \<Rightarrow> string \<Rightarrow> string \<Rightarrow> int \<Rightarrow> 'p \<times> (verror + task option)"
  hv_Snapshot :: "'p \<Rightarrow> string \<Rightarrow> snapshot_options \<Rightarrow> int \<Rightarrow> 'p \<times> (verror + task option)"
  hv_ListSnapshots :: "'p \<Rightarrow> string \<Rightarrow> verror + snapshot list"
  hv_DeleteSnapshot :: "'p \<Rightarrow> (string \<Rightarrow> string \<Rightarrow> int \<Rightarrow> 'p \<times> (verror + task option)) option"

type_synonym 'p registry = "(string \<times> 'p) list"

definition Register :: "'p hv \<Rightarrow> 'p registry \<Rightarrow> 'p \<Rightarrow> 'p registry" where
  "Register hv r p = put r (hv_ID hv p) p"

definition Deregister :: "'p registry \<Rightarrow> string \<Rightarrow> 'p registry \<times> 'p option" where
  "Deregister r i = (case map_of r i of None \<Rightarrow> (r, None) | Some p \<Rightarrow> (del r i, Some p))"

definition Registry_Get :: "'p registry \<Rightarrow> string \<Rightarrow> 'p option" where
  "Registry_Get r i = map_of r i"

definition Registry_List :: "'p registry \<Rightarrow> 'p list" where
  "Registry_List r = map snd r"

definition Len :: "'p registry \<Rightarrow> int" where
  "Len r = int (length r)"

subsection \<open>Requests and jobs\<close>

record request =
  SourceProviderID :: string
  SourceVMID :: string
  TargetProviderID :: string
  TargetHostID :: string
  TargetStorageID :: string
  TargetName :: string
  PowerOnAfter :: bool

record progress =
  pr_ID :: string
  Phase :: string
  Percent :: int
  pr_Message :: string
  pr_SourceVMID :: string
  TargetVMID :: string
  pr_Error :: string
  StartedAt :: int
  UpdatedAt :: int

definition finished :: "progress \<Rightarrow> bool" where
  "finished p \<longleftrightarrow> Phase p = ''done'' \<or> Phase p = ''failed''"

record engine =
  now_fn :: "nat \<Rightarrow> int"
  readings_taken :: nat
  jobs :: "(string \<times> progress) list"
  job_seq :: int

definition now_of :: "engine \<Rightarrow> int \<times> engine" where
  "now_of e = (now_fn e (readings_taken e), e\<lparr>readings_taken := Suc (readings_taken e)\<rparr>)"

definition job_id :: "int \<Rightarrow> string" where
  "job_id n = ''mig-'' @ itoa n"

definition newID :: "engine \<Rightarrow> string \<times> engine" where
  "newID e = (let n = wrap64 (job_seq e + 1) in (job_id n, e\<lparr>job_seq := n\<rparr>))"

definition put_job :: "engine \<Rightarrow> progress \<Rightarrow> engine" where
  "put_job e p = e\<lparr>jobs := put (jobs e) (pr_ID p) p\<rparr>"

definition update :: "engine \<Rightarrow> string \<Rightarrow> string \<Rightarrow> int \<Rightarrow> string \<Rightarrow> engine" where
  "update e i ph pct msg =
     (case map_of (jobs e) i of None \<Rightarrow> e
      | Some j \<Rightarrow> (let (t, e1) = now_of e in
          e1\<lparr>jobs := put (jobs e1) i (j\<lparr>Phase := ph, Percent := pct, pr_Message := msg, UpdatedAt := t\<rparr>)\<rparr>))"

definition annotate :: "engine \<Rightarrow> string \<Rightarrow> string \<Rightarrow> engine" where
  "annotate e i msg =
     (case map_of (jobs e) i of None \<Rightarrow> e
      | Some j \<Rightarrow> (let (t, e1) = now_of e in
          e1\<lparr>jobs := put (jobs e1) i (j\<lparr>pr_Message := msg, UpdatedAt := t\<rparr>)\<rparr>))"

definition fail :: "engine \<Rightarrow> string \<Rightarrow> string \<Rightarrow> engine \<times> progress option" where
  "fail e i msg =
     (case map_of (jobs e) i of None \<Rightarrow> (e, None)
      | Some j \<Rightarrow> (let (t, e1) = now_of e;
                      j1 = j\<lparr>Phase := ''failed'', pr_Error := msg, pr_Message := msg, UpdatedAt := t\<rparr>
                  in (e1\<lparr>jobs := put (jobs e1) i j1\<rparr>, Some j1)))"

definition finishOK :: "engine \<Rightarrow> string \<Rightarrow> string \<Rightarrow> (engine \<times> progress) option" where
  "finishOK e i target =
     (case map_of (jobs e) i of None \<Rightarrow> None
      | Some j \<Rightarrow> (let (t, e1) = now_of e;
                      j1 = j\<lparr>Phase := ''done'', Percent := 100, TargetVMID := target,
                             pr_Message := ''migration complete'', UpdatedAt := t\<rparr>
                  in Some (e1\<lparr>jobs := put (jobs e1) i j1\<rparr>, j1)))"

definition Job_Get :: "engine \<Rightarrow> string \<Rightarrow> progress option" where
  "Job_Get e i = map_of (jobs e) i"

definition Job_List :: "engine \<Rightarrow> progress list" where
  "Job_List e = map snd (jobs e)"

subsection \<open>Preflight\<close>

record preflight =
  OK :: bool
  Issues :: "string list"
  SourceFormat :: string
  TargetFormat :: string
  SourceKind :: string
  TargetKind :: string

definition nativeFormat :: "string \<Rightarrow> string" where
  "nativeFormat k = (if k = ''vmware'' then ''vmdk'' else if k = ''hyperv'' then ''vhdx''
     else if k = ''kvm'' \<or> k = ''xen'' then ''qcow2'' else ''raw'')"

definition when_issue :: "bool \<Rightarrow> string \<Rightarrow> string list" where
  "when_issue b msg = (if b then [msg] else [])"

definition Preflight :: "'p hv \<Rightarrow> request \<Rightarrow> 'p registry \<Rightarrow> string + preflight" where
  "Preflight hv req reg =
     (case Registry_Get reg (SourceProviderID req) of
        None \<Rightarrow> Inl (''migrate: unknown source provider '' @ go_quote (SourceProviderID req))
      | Some src \<Rightarrow>
     (case Registry_Get reg (TargetProviderID req) of
        None \<Rightarrow> Inl (''migrate: unknown target provider '' @ go_quote (TargetProviderID req))
      | Some tgt \<Rightarrow>
        (let same = SourceProviderID req = TargetProviderID req;
             no_export = \<not> Has (hv_Capabilities hv src) CapExport;
             no_create = \<not> Has (hv_Capabilities hv tgt) CapCreateVM;
             missing = Has (hv_Capabilities hv src) CapGetVM \<and> isl (hv_GetVM hv src (SourceVMID req));
             issues = when_issue same
                 ''source and target providers are identical (use intra-hypervisor migrate instead)''
               @ when_issue no_export ''source hypervisor cannot export disks (no export capability)''
               @ when_issue no_create ''target hypervisor cannot create VMs (no create capability)''
               @ when_issue missing (''source VM not found: '' @ SourceVMID req)
         in Inr \<lparr>OK = \<not> (same \<or> no_export \<or> no_create \<or> missing), Issues = issues,
                 SourceFormat = nativeFormat (hv_Kind hv src), TargetFormat = nativeFormat (hv_Kind hv tgt),
                 SourceKind = hv_Kind hv src, TargetKind = hv_Kind hv tgt\<rparr>)))"

subsection \<open>Hardware mapping\<close>

definition mapToTargetSpec :: "request \<Rightarrow> export_info option \<Rightarrow> string \<Rightarrow> int \<Rightarrow> vm_spec" where
  "mapToTargetSpec req info targetFmt sizeBytes =
     (let name = (if TargetName req = [] then SourceVMID req @ ''-migrated'' else TargetName req);
          fw = (case info of None \<Rightarrow> ''uefi''
                | Some i \<Rightarrow> if ex_Firmware i \<noteq> [] then ex_Firmware i else ''uefi'');
          gos = (case info of None \<Rightarrow> [] | Some i \<Rightarrow> ex_GuestOS i);
          disks = (case info of None \<Rightarrow> 1 | Some i \<Rightarrow> if DiskCount i > 0 then DiskCount i else 1);
          gb0 = fdiv (f64_of_int sizeBytes) (Fin (2 ^ 30));
          gb = (if flt gb0 (Fin 1) then Fin 20 else gb0)
      in \<lparr>vs_Name = name, vs_HostID = TargetHostID req, vs_ClusterID = [], vs_VCPUs = 2,
          vs_MemoryMB = 4096, vs_GuestOS = gos, vs_Firmware = fw,
          vs_Disks = replicate (nat disks) \<lparr>ds_CapacityGB = gb, ds_Format = targetFmt,
            ds_StorageID = TargetStorageID req, ds_SourcePath = [], ds_QoS = None,
            ds_Provisioning = [], ds_Discard = False\<rparr>,
          vs_NICs = [], vs_Labels = [], BootISO = [], TPM = False, SecureBoot = False,
          CloudInit = None, CPU = None, IsTemplate = False, Sysprep = None\<rparr>)"

subsection \<open>The migration\<close>

text \<open>
  What \<open>Run\<close> returns: the providers, the engine, the progress and the error; \<open>None\<close> is a panic.
\<close>

type_synonym 'p run_result = "('p registry \<times> engine \<times> progress option \<times> string option) option"

definition failed :: "'p registry \<Rightarrow> engine \<Rightarrow> string \<Rightarrow> string \<Rightarrow> string \<Rightarrow> 'p run_result" where
  "failed reg e i msg err = (let (e1, j) = fail e i msg in Some (reg, e1, j, Some err))"

text \<open>The optional power-on; its failure is only recorded.\<close>

definition finalize ::
  "'p hv \<Rightarrow> request \<Rightarrow> int \<Rightarrow> 'p registry \<Rightarrow> 'p \<Rightarrow> engine \<Rightarrow> string \<Rightarrow> string \<Rightarrow> 'p run_result" where
  "finalize hv req wall reg tgt e i targetVMID =
     (let e1 = update e i ''finalize'' 95 ''finalizing'';
          (reg2, e2) =
            (if PowerOnAfter req \<and> Has (hv_Capabilities hv tgt) CapPowerStart then
               (let (tgt2, r) = hv_PowerOp hv tgt targetVMID ''start'' wall
                in (put reg (TargetProviderID req) tgt2,
                    case r of
                      Inl err \<Rightarrow> annotate e1 i (''warning: power-on after migrate failed: '' @ Error_text err)
                    | Inr _ \<Rightarrow> e1))
             else (reg, e1))
      in case finishOK e2 i targetVMID of None \<Rightarrow> None
         | Some (e3, final) \<Rightarrow> Some (reg2, e3, Some final, None))"

definition import_vm ::
  "'p hv \<Rightarrow> request \<Rightarrow> int \<Rightarrow> 'p registry \<Rightarrow> 'p \<Rightarrow> vm_spec \<Rightarrow> engine \<Rightarrow> string \<Rightarrow> 'p run_result" where
  "import_vm hv req wall reg tgt spec e i =
     (case hv_CreateVM hv tgt spec wall of
        (tgt1, Inl err) \<Rightarrow> failed (put reg (TargetProviderID req) tgt1) e i
            (''target create failed: '' @ Error_text err) (Error_text err)
      | (tgt1, Inr None) \<Rightarrow> None
      | (tgt1, Inr (Some t)) \<Rightarrow>
          finalize hv req wall (put reg (TargetProviderID req) tgt1) tgt1 e i (task_EntityID t))"

definition transfer ::
  "'p hv \<Rightarrow> converter \<Rightarrow> request \<Rightarrow> int \<Rightarrow> preflight \<Rightarrow> 'p registry \<Rightarrow> 'p \<Rightarrow> 'p \<Rightarrow> engine \<Rightarrow> string
     \<Rightarrow> 'p run_result" where
  "transfer hv conv req wall pf reg src tgt e i =
     (let e1 = update e i ''export'' 10 ''exporting source disks''
      in case hv_ExportVM hv src (SourceVMID req) (SourceFormat pf) of
           Inl err \<Rightarrow> failed reg e1 i (''export failed: '' @ Error_text err) (Error_text err)
         | Inr (rc, info) \<Rightarrow>
           (let e2 = update e1 i ''convert'' 45 (''converting '' @ SourceFormat pf @ '' -> '' @ TargetFormat pf);
                out = conv rc (SourceFormat pf) (TargetFormat pf);
                (convertedBytes, drainErr) = drain out
            in case snd out of
                 Some cerr \<Rightarrow> failed reg e2 i (''conversion failed: '' @ cerr) cerr
               | None \<Rightarrow>
                 (case drainErr of
                    Some derr \<Rightarrow> failed reg e2 i (''conversion drain failed: '' @ derr) derr
                  | None \<Rightarrow>
                    import_vm hv req wall reg tgt (mapToTargetSpec req info (TargetFormat pf) convertedBytes)
                      (update e2 i ''import'' 80 ''creating VM on target hypervisor'') i)))"

definition Run :: "'p hv \<Rightarrow> converter \<Rightarrow> request \<Rightarrow> int \<Rightarrow> 'p registry \<Rightarrow> engine \<Rightarrow> 'p run_result" where
  "Run hv conv req wall reg e0 =
     (let (i, e1) = newID e0;
          (t1, e2) = now_of e1;
          (t2, e3) = now_of e2;
          e4 = put_job e3 \<lparr>pr_ID = i, Phase = ''preflight'', Percent = 0,
                 pr_Message = ''running pre-flight checks'', pr_SourceVMID = SourceVMID req,
                 TargetVMID = [], pr_Error = [], StartedAt = t1, UpdatedAt = t2\<rparr>
      in case Preflight hv req reg of
           Inl err \<Rightarrow> failed reg e4 i err err
         | Inr pf \<Rightarrow>
           if \<not> OK pf then
             (let msg = ''pre-flight failed: '' @ join_with ''; '' (Issues pf) in failed reg e4 i msg msg)
           else (case Registry_Get reg (SourceProviderID req) of None \<Rightarrow> None
                 | Some src \<Rightarrow>
                   (case Registry_Get reg (TargetProviderID req) of None \<Rightarrow> None
                    | Some tgt \<Rightarrow> transfer hv conv req wall pf reg src tgt e4 i)))"

subsection \<open>Background jobs\<close>

text \<open>\<open>Start\<close> queues the job; its goroutine is the later step \<open>runUnder\<close>.\<close>

definition Start_job :: "request \<Rightarrow> engine \<Rightarrow> string \<times> engine" where
  "Start_job req e0 =
     (let (i, e1) = newID e0;
          (t1, e2) = now_of e1;
          (t2, e3) = now_of e2
      in (i, put_job e3 \<lparr>pr_ID = i, Phase = ''preflight'', Percent = 0, pr_Message = ''queued'',
               pr_SourceVMID = SourceVMID req, TargetVMID = [], pr_Error = [],
               StartedAt = t1, UpdatedAt = t2\<rparr>))"

definition adopt :: "engine \<Rightarrow> string \<Rightarrow> progress \<Rightarrow> engine" where
  "adopt e i res =
     (case map_of (jobs e) (pr_ID res) of None \<Rightarrow> e
      | Some j \<Rightarrow> if pr_ID res \<noteq> i
                  then e\<lparr>jobs := del (put (jobs e) i (j\<lparr>pr_ID := i\<rparr>)) (pr_ID res)\<rparr> else e)"

definition runUnder ::
  "'p hv \<Rightarrow> converter \<Rightarrow> string \<Rightarrow> request \<Rightarrow> int \<Rightarrow> 'p registry \<Rightarrow> engine \<Rightarrow> ('p registry \<times> engine) option" where
  "runUnder hv conv i req wall reg e =
     (case Run hv conv req wall reg e of None \<Rightarrow> None
      | Some (reg', e', None, _) \<Rightarrow> Some (reg', e')
      | Some (reg', e', Some res, _) \<Rightarrow> Some (reg', adopt e' i res))"

end
