(* ===== verification/Replication.thy ===== *)
theory Replication
  imports Migrate
begin

text \<open>
  Cross-hypervisor replication for disaster recovery: the engine
  \<open>server/internal/replication/replication.go\<close>, the durable policies \<open>store/replication.go\<close> and the
  handlers of \<open>api/replication.go\<close>. A policy's job is a Go object with its own mutex: \<open>job_obj\<close> is
  the object's identity and \<open>job_ticker\<close> the interval of its running scheduler goroutine (the Go
  field \<open>cancel\<close>). The clock \<open>now\<close> of the engine is a sequence of readings, the wall clock of the
  database and the providers is an argument \<open>wall\<close>; both count nanoseconds. The engine writes its
  summary to the policy table, which is part of its state (\<open>repl_rows\<close>); the database does not
  fail. The lock of a cycle is held across its long calls, so a cycle is split where other calls
  can come between: \<open>check_cycle\<close>, \<open>begin_cycle\<close>, \<open>copy_cycle\<close>, \<open>finish_cycle\<close>; \<open>runCycle\<close>
  is the four in a row.
\<close>

subsection \<open>Data\<close>

record repl_policy =
  po_ID :: string
  po_Name :: string
  po_SourceProviderID :: string
  po_SourceVMID :: string
  po_TargetProviderID :: string
  po_TargetHostID :: string
  IntervalSeconds :: int
  Retain :: int
  po_Enabled :: bool

record cycle =
  cy_StartedAt :: int
  cy_FinishedAt :: "int option"
  DurationMs :: int
  cy_Bytes :: int
  cy_ReplicaVMID :: string
  cy_OK :: bool
  cy_Error :: string
  FirstCycle :: bool

record repl_state =
  rs_Policy :: repl_policy
  Status :: string
  LastSyncAt :: "int option"
  LastDurationMs :: int
  BytesTransferred :: int
  ReplicaVMID :: string
  LastError :: string
  MeasuredRPOSeconds :: int
  RPOTargetSeconds :: int
  CycleCount :: int
  History :: "cycle list"

record repl_job =
  job_State :: repl_state
  job_ticker :: "int option"
  job_obj :: nat

text \<open>A row of \<open>replication_policies\<close>; a NULL column is the zero value its scan gives.\<close>

record repl_row =
  rr_Policy :: repl_policy
  rr_Status :: string
  rr_LastSyncAt :: int
  rr_ReplicaVMID :: string
  rr_LastError :: string
  rr_CreatedAt :: int
  rr_UpdatedAt :: int

record repl =
  clock :: "nat \<Rightarrow> int"
  clock_reads :: nat
  repl_jobs :: "(string \<times> repl_job) list"
  repl_running :: bool
  next_obj :: nat
  repl_rows :: "repl_row list"

definition maxHistory :: nat where "maxHistory = 50"

definition unix :: "int \<Rightarrow> int" where "unix t = t div second"

definition read_clock :: "repl \<Rightarrow> int \<times> repl" where
  "read_clock e = (clock e (clock_reads e), e\<lparr>clock_reads := Suc (clock_reads e)\<rparr>)"

subsection \<open>The policy table\<close>

definition ListReplicationPolicies :: "repl \<Rightarrow> repl_row list" where
  "ListReplicationPolicies e = sort_key (\<lambda>r. po_Name (rr_Policy r)) (repl_rows e)"

definition GetReplicationPolicy :: "repl \<Rightarrow> string \<Rightarrow> repl_row option" where
  "GetReplicationPolicy e i = find (\<lambda>r. po_ID (rr_Policy r) = i) (repl_rows e)"

definition CreateReplicationPolicy_row :: "repl \<Rightarrow> repl_row \<Rightarrow> int \<Rightarrow> repl \<times> repl_row" where
  "CreateReplicationPolicy_row e r wall =
     (let p = rr_Policy r;
          p1 = p\<lparr>IntervalSeconds := (if IntervalSeconds p \<le> 0 then 300 else IntervalSeconds p),
                 Retain := (if Retain p \<le> 0 then 5 else Retain p)\<rparr>;
          r1 = r\<lparr>rr_Policy := p1, rr_Status := (if rr_Status r = [] then ''idle'' else rr_Status r),
                 rr_CreatedAt := unix wall, rr_UpdatedAt := unix wall\<rparr>
      in (e\<lparr>repl_rows := repl_rows e @ [r1\<lparr>rr_LastSyncAt := 0, rr_ReplicaVMID := [], rr_LastError := []\<rparr>]\<rparr>, r1))"

definition UpdateReplicationPolicyState ::
  "repl \<Rightarrow> string \<Rightarrow> string \<Rightarrow> string \<Rightarrow> string \<Rightarrow> int \<Rightarrow> int \<Rightarrow> repl" where
  "UpdateReplicationPolicyState e i status lastErr replicaVMID lastSync wall =
     e\<lparr>repl_rows := map (\<lambda>r. if po_ID (rr_Policy r) = i
        then r\<lparr>rr_Status := status, rr_LastError := lastErr,
               rr_LastSyncAt := (if lastSync > 0 then lastSync else rr_LastSyncAt r),
               rr_ReplicaVMID := (if replicaVMID \<noteq> [] then replicaVMID else rr_ReplicaVMID r),
               rr_UpdatedAt := unix wall\<rparr>
        else r) (repl_rows e)\<rparr>"

definition DeleteReplicationPolicy_row :: "repl \<Rightarrow> string \<Rightarrow> repl \<times> bool" where
  "DeleteReplicationPolicy_row e i =
     (e\<lparr>repl_rows := filter (\<lambda>r. po_ID (rr_Policy r) \<noteq> i) (repl_rows e)\<rparr>, GetReplicationPolicy e i \<noteq> None)"

definition persist :: "repl \<Rightarrow> string \<Rightarrow> string \<Rightarrow> string \<Rightarrow> string \<Rightarrow> int \<Rightarrow> int \<Rightarrow> repl" where
  "persist e i status lastErr replicaVMID syncAt wall =
     (if i = [] then e else UpdateReplicationPolicyState e i status lastErr replicaVMID syncAt wall)"

subsection \<open>Jobs and their schedulers\<close>

definition Repl_New :: "(nat \<Rightarrow> int) \<Rightarrow> repl_row list \<Rightarrow> repl" where
  "Repl_New now rs = \<lparr>clock = now, clock_reads = 0, repl_jobs = [], repl_running = False, next_obj = 0,
     repl_rows = rs\<rparr>"

definition Repl_Start :: "repl \<Rightarrow> repl" where
  "Repl_Start e = e\<lparr>repl_running := True\<rparr>"

definition Repl_Stop :: "repl \<Rightarrow> repl" where
  "Repl_Stop e = e\<lparr>repl_running := False, repl_jobs := map (\<lambda>(i, j). (i, j\<lparr>job_ticker := None\<rparr>)) (repl_jobs e)\<rparr>"

definition scheduleLocked :: "repl_job \<Rightarrow> repl_job" where
  "scheduleLocked j =
     (let interval = wrap64 (IntervalSeconds (rs_Policy (job_State j)) * second)
      in j\<lparr>job_ticker := Some (if interval \<le> 0 then 5 * minute else interval)\<rparr>)"

definition new_job :: "repl_policy \<Rightarrow> nat \<Rightarrow> repl_job" where
  "new_job p obj = \<lparr>job_State = \<lparr>rs_Policy = p, Status = ''idle'', LastSyncAt = None, LastDurationMs = 0,
     BytesTransferred = 0, ReplicaVMID = [], LastError = [], MeasuredRPOSeconds = 0, RPOTargetSeconds = 0,
     CycleCount = 0, History = []\<rparr>, job_ticker = None, job_obj = obj\<rparr>"

definition refreshed :: "repl_policy \<Rightarrow> bool \<Rightarrow> repl_job \<Rightarrow> repl_job" where
  "refreshed p running j =
     (let st = job_State j;
          st1 = st\<lparr>rs_Policy := p, RPOTargetSeconds := IntervalSeconds p,
                   Status := (if Status st = [] then ''idle'' else Status st)\<rparr>;
          j1 = j\<lparr>job_State := st1, job_ticker := None\<rparr>
      in if running \<and> po_Enabled p \<and> Status st1 \<noteq> ''failed_over'' then scheduleLocked j1 else j1)"

definition Repl_Upsert :: "repl \<Rightarrow> repl_policy \<Rightarrow> repl \<times> repl_state" where
  "Repl_Upsert e p =
     (let (j, e1) = (case map_of (repl_jobs e) (po_ID p) of
                       Some j \<Rightarrow> (j, e)
                     | None \<Rightarrow> (new_job p (next_obj e), e\<lparr>next_obj := Suc (next_obj e)\<rparr>));
          j1 = refreshed p (repl_running e) j
      in (e1\<lparr>repl_jobs := put (repl_jobs e1) (po_ID p) j1\<rparr>, job_State j1))"

definition Repl_Remove :: "repl \<Rightarrow> string \<Rightarrow> repl" where
  "Repl_Remove e i = e\<lparr>repl_jobs := del (repl_jobs e) i\<rparr>"

subsection \<open>The recorded state\<close>

definition setStatus :: "repl \<Rightarrow> string \<Rightarrow> string \<Rightarrow> string \<Rightarrow> repl" where
  "setStatus e i s lastErr =
     (case map_of (repl_jobs e) i of None \<Rightarrow> e
      | Some j \<Rightarrow> e\<lparr>repl_jobs := put (repl_jobs e) i (j\<lparr>job_State := (job_State j)\<lparr>Status := s,
            LastError := (if lastErr \<noteq> [] then lastErr else LastError (job_State j))\<rparr>\<rparr>)\<rparr>)"

text \<open>The tail of a list: its last \<open>n\<close> entries.\<close>

definition newest :: "nat \<Rightarrow> 'a list \<Rightarrow> 'a list" where
  "newest n xs = drop (length xs - n) xs"

definition folded :: "repl_state \<Rightarrow> cycle \<Rightarrow> string \<Rightarrow> string \<Rightarrow> string \<Rightarrow> int option \<Rightarrow> repl_state" where
  "folded st c status lastErr replicaVMID syncAt =
     (let st1 = st\<lparr>Status := status, LastError := lastErr, LastDurationMs := DurationMs c,
                   CycleCount := wrap64 (CycleCount st + 1)\<rparr>;
          st2 = (if cy_OK c then
                   (let a = st1\<lparr>BytesTransferred := wrap64 (BytesTransferred st1 + cy_Bytes c),
                               ReplicaVMID := (if replicaVMID \<noteq> [] then replicaVMID else ReplicaVMID st1)\<rparr>
                    in case syncAt of None \<Rightarrow> a
                       | Some t \<Rightarrow> a\<lparr>LastSyncAt := Some t, MeasuredRPOSeconds := 0\<rparr>)
                 else st1);
          h = History st2 @ [c]
      in st2\<lparr>History := (if length h > maxHistory then newest maxHistory h else h)\<rparr>)"

definition recordCycle ::
  "repl \<Rightarrow> string \<Rightarrow> cycle \<Rightarrow> string \<Rightarrow> string \<Rightarrow> string \<Rightarrow> int option \<Rightarrow> int \<Rightarrow> repl" where
  "recordCycle e i c status lastErr replicaVMID syncAt wall =
     (case map_of (repl_jobs e) i of None \<Rightarrow> e
      | Some j \<Rightarrow>
        (let j1 = j\<lparr>job_State := folded (job_State j) c status lastErr replicaVMID syncAt\<rparr>;
             e1 = e\<lparr>repl_jobs := put (repl_jobs e) i j1\<rparr>
         in persist e1 (po_ID (rs_Policy (job_State j1))) status lastErr replicaVMID
              (case syncAt of None \<Rightarrow> 0 | Some t \<Rightarrow> unix t) wall))"

text \<open>\<open>Duration.Seconds\<close> is computed in floating point.\<close>

definition duration_seconds :: "int \<Rightarrow> f64" where
  "duration_seconds d =
     (let sec = go_div d second
      in fadd (f64_of_int sec) (fdiv (f64_of_int (d - sec * second)) (Fin 1000000000)))"

definition snapshotState :: "repl \<Rightarrow> string \<Rightarrow> repl \<times> repl_state option" where
  "snapshotState e i =
     (case map_of (repl_jobs e) i of None \<Rightarrow> (e, None)
      | Some j \<Rightarrow>
        (let st = job_State j
         in case LastSyncAt st of
              None \<Rightarrow> (e, Some st)
            | Some synced \<Rightarrow>
              if Status st = ''failed_over'' then (e, Some st)
              else (let (t, e1) = read_clock e
                    in (e1, Some (st\<lparr>MeasuredRPOSeconds := int64_of_f64 (duration_seconds (sat64 (t - synced)))\<rparr>)))))"

definition Repl_State :: "repl \<Rightarrow> string \<Rightarrow> repl \<times> repl_state option" where
  "Repl_State e i = (if map_of (repl_jobs e) i = None then (e, None) else snapshotState e i)"

definition Repl_List :: "repl \<Rightarrow> repl \<times> repl_state list" where
  "Repl_List e = fold (\<lambda>i (e, out). case snapshotState e i of
       (e1, None) \<Rightarrow> (e1, out) | (e1, Some st) \<Rightarrow> (e1, out @ [st])) (keys (repl_jobs e)) (e, [])"

subsection \<open>A cycle\<close>

text \<open>What a cycle reads before it waits for the job's lock.\<close>

record ticket =
  tk_id :: string
  tk_obj :: nat
  tk_policy :: repl_policy
  tk_prior :: string

definition check_cycle :: "repl \<Rightarrow> string \<Rightarrow> string + ticket" where
  "check_cycle e i =
     (case map_of (repl_jobs e) i of
        None \<Rightarrow> Inl (''replication: unknown policy '' @ go_quote i)
      | Some j \<Rightarrow>
        if Status (job_State j) = ''failed_over''
        then Inl (''replication: policy '' @ go_quote i @ '' is failed-over; replication is paused'')
        else Inr \<lparr>tk_id = i, tk_obj = job_obj j, tk_policy = rs_Policy (job_State j),
                  tk_prior = ReplicaVMID (job_State j)\<rparr>)"

definition begin_cycle :: "repl \<Rightarrow> ticket \<Rightarrow> repl \<times> cycle" where
  "begin_cycle e tk =
     (let (start, e1) = read_clock e
      in (setStatus e1 (tk_id tk) ''syncing'' [],
          \<lparr>cy_StartedAt = start, cy_FinishedAt = None, DurationMs = 0, cy_Bytes = 0, cy_ReplicaVMID = [],
           cy_OK = False, cy_Error = [], FirstCycle = (tk_prior tk = [])\<rparr>))"

definition repl_request :: "repl_policy \<Rightarrow> request" where
  "repl_request p = \<lparr>SourceProviderID = po_SourceProviderID p, SourceVMID = po_SourceVMID p,
     TargetProviderID = po_TargetProviderID p, TargetHostID = po_TargetHostID p, TargetStorageID = [],
     TargetName = po_SourceVMID p @ ''-replica'', PowerOnAfter = False\<rparr>"

text \<open>The consistency snapshot of the source: the registry and the warning.\<close>

definition source_snapshot :: "'p hv \<Rightarrow> repl_policy \<Rightarrow> int \<Rightarrow> int \<Rightarrow> 'p registry \<Rightarrow> 'p registry \<times> string" where
  "source_snapshot hv pol start wall reg =
     (case Registry_Get reg (po_SourceProviderID pol) of None \<Rightarrow> (reg, [])
      | Some src \<Rightarrow>
        if \<not> Has (hv_Capabilities hv src) CapSnapshot then (reg, [])
        else (case hv_Snapshot hv src (po_SourceVMID pol)
                \<lparr>so_Name = ''unihv-repl-'' @ itoa (unix start),
                 so_Description = ''UniHV replication consistency point'', so_Memory = False, so_Quiesce = True\<rparr> wall of
                (src1, r) \<Rightarrow> (put reg (po_SourceProviderID pol) src1,
                  case r of Inl err \<Rightarrow> ''snapshot warning: '' @ Error_text err | Inr _ \<Rightarrow> [])))"

definition copy_cycle ::
  "'p hv \<Rightarrow> converter \<Rightarrow> int \<Rightarrow> ticket \<Rightarrow> cycle \<Rightarrow> 'p registry \<Rightarrow> engine
     \<Rightarrow> ('p registry \<times> engine \<times> cycle \<times> progress option \<times> string option) option" where
  "copy_cycle hv conv wall tk cyc reg mig =
     (let (reg1, warning) = source_snapshot hv (tk_policy tk) (cy_StartedAt cyc) wall reg
      in case Run hv conv (repl_request (tk_policy tk)) wall reg1 mig of None \<Rightarrow> None
         | Some (reg2, mig2, prog, err) \<Rightarrow> Some (reg2, mig2, cyc\<lparr>cy_Error := warning\<rparr>, prog, err))"

definition estimateBytes :: "'p hv \<Rightarrow> 'p registry \<Rightarrow> string \<Rightarrow> string \<Rightarrow> int" where
  "estimateBytes hv reg providerID vmID =
     (case Registry_Get reg providerID of None \<Rightarrow> 0
      | Some tgt \<Rightarrow>
        if vmID = [] then 0
        else (case hv_GetVM hv tgt vmID of Inl _ \<Rightarrow> 0
              | Inr d \<Rightarrow> int64_of_f64 (fmul (foldl (\<lambda>t k. fadd t (dk_CapacityGB k)) (Fin 0) (vm_Disks (detail_VM d)))
                           (Fin (2 ^ 30)))))"

text \<open>Whether the copy succeeded, and the message of a failure.\<close>

definition copy_failure :: "cycle \<Rightarrow> progress option \<Rightarrow> string option \<Rightarrow> string option" where
  "copy_failure cyc prog err =
     (let bad = (err \<noteq> None \<or> (case prog of None \<Rightarrow> True | Some p \<Rightarrow> Phase p \<noteq> ''done''));
          msg = (case err of Some m \<Rightarrow> m
                 | None \<Rightarrow> (case prog of None \<Rightarrow> ''replication cycle failed''
                    | Some p \<Rightarrow> if pr_Error p \<noteq> [] then pr_Error p else ''replication cycle failed''))
      in if bad then Some (if cy_Error cyc \<noteq> [] then cy_Error cyc @ ''; '' @ msg else msg) else None)"

definition finish_cycle ::
  "'p hv \<Rightarrow> int \<Rightarrow> 'p registry \<Rightarrow> repl \<Rightarrow> ticket \<Rightarrow> cycle \<Rightarrow> progress option \<Rightarrow> string option
     \<Rightarrow> repl \<times> cycle \<times> string option" where
  "finish_cycle hv wall reg e tk cyc prog err =
     (let (fin, e1) = read_clock e;
          cyc1 = cyc\<lparr>cy_FinishedAt := Some fin, DurationMs := go_div (sat64 (fin - cy_StartedAt cyc)) 1000000\<rparr>;
          pol = tk_policy tk
      in case copy_failure cyc prog err of
           Some msg \<Rightarrow>
             (let c = cyc1\<lparr>cy_OK := False, cy_Error := msg\<rparr>
              in (recordCycle e1 (tk_id tk) c ''error'' msg [] None wall, c, Some (''replication: '' @ msg)))
         | None \<Rightarrow>
             (let target = (case prog of None \<Rightarrow> [] | Some p \<Rightarrow> TargetVMID p);
                  c = cyc1\<lparr>cy_OK := True, cy_ReplicaVMID := target,
                           cy_Bytes := estimateBytes hv reg (po_TargetProviderID pol) target\<rparr>;
                  status = (if IntervalSeconds pol > 0 \<and> go_div (DurationMs c) 1000 > IntervalSeconds pol
                            then ''degraded'' else ''idle'')
              in (recordCycle e1 (tk_id tk) c status [] target (Some fin) wall, c, None)))"

text \<open>A whole cycle, with nothing in between. \<open>None\<close> is a panic.\<close>

definition runCycle ::
  "'p hv \<Rightarrow> converter \<Rightarrow> int \<Rightarrow> string \<Rightarrow> 'p registry \<Rightarrow> engine \<Rightarrow> repl
     \<Rightarrow> ('p registry \<times> engine \<times> repl \<times> cycle option \<times> string option) option" where
  "runCycle hv conv wall i reg mig e =
     (case check_cycle e i of
        Inl err \<Rightarrow> Some (reg, mig, e, None, Some err)
      | Inr tk \<Rightarrow>
        (let (e1, cyc) = begin_cycle e tk
         in case copy_cycle hv conv wall tk cyc reg mig of None \<Rightarrow> None
            | Some (reg1, mig1, cyc1, prog, err) \<Rightarrow>
                (let (e2, c, res) = finish_cycle hv wall reg1 e1 tk cyc1 prog err
                 in Some (reg1, mig1, e2, Some c, res))))"

subsection \<open>Failover\<close>

text \<open>The replica that was powered on, or the refusal with the state it comes with.\<close>

definition failover_power ::
  "'p hv \<Rightarrow> int \<Rightarrow> 'p registry \<Rightarrow> repl \<Rightarrow> string
     \<Rightarrow> 'p registry \<times> repl \<times> ((repl_state option \<times> string) + string)" where
  "failover_power hv wall reg e i =
     (case map_of (repl_jobs e) i of
        None \<Rightarrow> (reg, e, Inl (None, ''replication: unknown policy '' @ go_quote i))
      | Some j \<Rightarrow>
        (let pol = rs_Policy (job_State j); replica = ReplicaVMID (job_State j)
         in if replica = [] then
              (reg, e, Inl (None, ''replication: policy '' @ go_quote i @ '' has no replica yet (run a cycle first)''))
            else (case Registry_Get reg (po_TargetProviderID pol) of
                    None \<Rightarrow> (reg, e, Inl (None, ''replication: target provider '' @ go_quote (po_TargetProviderID pol) @ '' not found''))
                  | Some tgt \<Rightarrow>
                    if \<not> Has (hv_Capabilities hv tgt) CapPowerStart then (reg, e, Inr replica)
                    else (case hv_PowerOp hv tgt replica ''start'' wall of
                            (tgt1, Inr _) \<Rightarrow> (put reg (po_TargetProviderID pol) tgt1, e, Inr replica)
                          | (tgt1, Inl err) \<Rightarrow>
                            (let e1 = setStatus e i ''error'' (''failover power-on failed: '' @ Error_text err);
                                 (e2, st) = snapshotState e1 i
                             in (put reg (po_TargetProviderID pol) tgt1, e2,
                                 Inl (st, ''replication: failover power-on failed: '' @ Error_text err)))))))"

definition failover_commit :: "int \<Rightarrow> repl \<Rightarrow> string \<Rightarrow> string \<Rightarrow> repl \<times> repl_state option" where
  "failover_commit wall e i replica =
     (let e1 = (case map_of (repl_jobs e) i of None \<Rightarrow> e
                | Some j \<Rightarrow> e\<lparr>repl_jobs := put (repl_jobs e) i
                    (j\<lparr>job_ticker := None,
                       job_State := (job_State j)\<lparr>Status := ''failed_over'', LastError := []\<rparr>\<rparr>)\<rparr>)
      in snapshotState (persist e1 i ''failed_over'' [] replica 0 wall) i)"

definition Failover ::
  "'p hv \<Rightarrow> int \<Rightarrow> 'p registry \<Rightarrow> repl \<Rightarrow> string
     \<Rightarrow> 'p registry \<times> repl \<times> repl_state option \<times> string option" where
  "Failover hv wall reg e i =
     (case failover_power hv wall reg e i of
        (reg1, e1, Inl (st, err)) \<Rightarrow> (reg1, e1, st, Some err)
      | (reg1, e1, Inr replica) \<Rightarrow> (let (e2, st) = failover_commit wall e1 i replica in (reg1, e2, st, None)))"

end
