(* ===== verification/Repl_Api.thy ===== *)
theory Repl_Api
  imports Replication
begin

text \<open>
  The handlers of \<open>server/internal/api/replication.go\<close> over the engine of \<open>Replication\<close>. The
  guards of the routes (audit, second factor, permission) are those of \<open>Authz_Guard\<close>; a handler
  here starts from the decoded body. The identifier of a new policy is an argument.
\<close>

record repl_input =
  in_Name :: string
  in_SourceProviderID :: string
  in_SourceVMID :: string
  in_TargetProviderID :: string
  in_TargetHostID :: string
  in_IntervalSeconds :: int
  in_Retain :: int
  in_Enabled :: bool

datatype repl_error = Invalid string | No_row

definition repl_validate :: "repl_input \<Rightarrow> string option" where
  "repl_validate x =
     (if trim_space (in_Name x) = [] then Some ''name is required''
      else if trim_space (in_SourceProviderID x) = [] \<or> trim_space (in_SourceVMID x) = []
      then Some ''sourceProviderId and sourceVmId are required''
      else if trim_space (in_TargetProviderID x) = [] then Some ''targetProviderId is required''
      else if in_SourceProviderID x = in_TargetProviderID x
      then Some ''source and target providers must differ (cross-hypervisor DR)''
      else if in_IntervalSeconds x < 0 \<or> in_Retain x < 0
      then Some ''intervalSeconds and retain must be non-negative''
      else None)"

record repl_view =
  view_row :: repl_row
  view_state :: "repl_state option"

definition toReplView :: "repl \<Rightarrow> repl_row \<Rightarrow> repl \<times> repl_view" where
  "toReplView e r = (let (e1, st) = Repl_State e (po_ID (rr_Policy r)) in (e1, \<lparr>view_row = r, view_state = st\<rparr>))"

definition toEnginePolicy :: "repl_row \<Rightarrow> repl_policy" where
  "toEnginePolicy r = rr_Policy r"

definition ListReplicationPolicies_view :: "repl \<Rightarrow> repl \<times> repl_view list" where
  "ListReplicationPolicies_view e =
     fold (\<lambda>r (e, out). let (e1, v) = toReplView e r in (e1, out @ [v])) (ListReplicationPolicies e) (e, [])"

definition GetReplicationPolicy_view :: "repl \<Rightarrow> string \<Rightarrow> repl \<times> (repl_error + repl_view)" where
  "GetReplicationPolicy_view e i =
     (case GetReplicationPolicy e i of None \<Rightarrow> (e, Inl No_row)
      | Some r \<Rightarrow> (let (e1, v) = toReplView e r in (e1, Inr v)))"

definition CreateReplicationPolicy :: "repl \<Rightarrow> string \<Rightarrow> repl_input \<Rightarrow> int \<Rightarrow> repl \<times> (repl_error + repl_view)" where
  "CreateReplicationPolicy e uuid x wall =
     (case repl_validate x of Some msg \<Rightarrow> (e, Inl (Invalid msg))
      | None \<Rightarrow>
        (let (e1, r) = CreateReplicationPolicy_row e
               \<lparr>rr_Policy = \<lparr>po_ID = uuid, po_Name = in_Name x, po_SourceProviderID = in_SourceProviderID x,
                  po_SourceVMID = in_SourceVMID x, po_TargetProviderID = in_TargetProviderID x,
                  po_TargetHostID = in_TargetHostID x, IntervalSeconds = in_IntervalSeconds x,
                  Retain = in_Retain x, po_Enabled = in_Enabled x\<rparr>,
                rr_Status = ''idle'', rr_LastSyncAt = 0, rr_ReplicaVMID = [], rr_LastError = [],
                rr_CreatedAt = 0, rr_UpdatedAt = 0\<rparr> wall;
             (e2, _) = Repl_Upsert e1 (toEnginePolicy r);
             (e3, v) = toReplView e2 r
         in (e3, Inr v)))"

definition DeleteReplicationPolicy :: "repl \<Rightarrow> string \<Rightarrow> repl \<times> (repl_error + unit)" where
  "DeleteReplicationPolicy e i =
     (let (e1, found) = DeleteReplicationPolicy_row (Repl_Remove e i) i
      in (e1, if found then Inr () else Inl No_row))"

text \<open>The engine as the run handler calls it: a policy it does not know is registered again.\<close>

definition reregistered :: "repl \<Rightarrow> string \<Rightarrow> repl_row \<Rightarrow> repl" where
  "reregistered e i r =
     (let (e1, st) = Repl_State e i
      in case st of None \<Rightarrow> fst (Repl_Upsert e1 (toEnginePolicy r)) | Some _ \<Rightarrow> e1)"

definition RunReplicationPolicy ::
  "'p hv \<Rightarrow> converter \<Rightarrow> int \<Rightarrow> string \<Rightarrow> 'p registry \<Rightarrow> engine \<Rightarrow> repl
     \<Rightarrow> ('p registry \<times> engine \<times> repl \<times> (repl_error + cycle option)) option" where
  "RunReplicationPolicy hv conv wall i reg mig e =
     (case GetReplicationPolicy e i of None \<Rightarrow> Some (reg, mig, e, Inl No_row)
      | Some r \<Rightarrow>
        (case runCycle hv conv wall i reg mig (reregistered e i r) of None \<Rightarrow> None
         | Some (reg1, mig1, e1, _, Some err) \<Rightarrow> Some (reg1, mig1, e1, Inl (Invalid err))
         | Some (reg1, mig1, e1, c, None) \<Rightarrow> Some (reg1, mig1, e1, Inr c)))"

definition FailoverReplicationPolicy ::
  "'p hv \<Rightarrow> int \<Rightarrow> string \<Rightarrow> 'p registry \<Rightarrow> repl
     \<Rightarrow> 'p registry \<times> repl \<times> (repl_error + repl_state option)" where
  "FailoverReplicationPolicy hv wall i reg e =
     (case GetReplicationPolicy e i of None \<Rightarrow> (reg, e, Inl No_row)
      | Some r \<Rightarrow>
        (case Failover hv wall reg e i of
           (reg1, e1, st, Some err) \<Rightarrow> (reg1, e1, Inl (Invalid err))
         | (reg1, e1, st, None) \<Rightarrow> (reg1, e1, Inr st)))"

text \<open>At startup: every policy that has not failed over is registered.\<close>

definition LoadReplicationPolicies :: "repl \<Rightarrow> repl" where
  "LoadReplicationPolicies e =
     (let e1 = Repl_Start e
      in fold (\<lambda>r e. if rr_Status r = ''failed_over'' then e else fst (Repl_Upsert e (toEnginePolicy r)))
           (ListReplicationPolicies e1) e1)"

text \<open>A restart of the server: the table survives, the engine is new.\<close>

definition repl_restarted :: "(nat \<Rightarrow> int) \<Rightarrow> repl \<Rightarrow> repl" where
  "repl_restarted now e = LoadReplicationPolicies (Repl_New now (repl_rows e))"

end
