(* ===== verification/Sim.thy ===== *)
theory Sim
  imports VTypes
begin

text \<open>
  The in-memory hypervisor, \<open>server/internal/vprovider/sim/sim.go\<close>: the reference implementation
  of the provider contract that the conformance suite and the migration engine run against. Its
  maps are association lists in the order of the iteration. Every operation holds the provider's
  lock while it touches the maps and is one step here; it reads the clock once (\<open>now\<close>). The
  event stream (a goroutine ticking heartbeats) is not modelled. Struct copies share their slices
  in Go; no operation writes to a shared slice, so the copies are values here.
\<close>

subsection \<open>The provider\<close>

record sim =
  p_id :: string
  p_kind :: string
  p_caps :: caps
  hosts :: "(string \<times> vhost) list"
  vms :: "(string \<times> vm) list"
  clusters :: "(string \<times> cluster) list"
  storage :: "(string \<times> storage_pool) list"
  networks :: "(string \<times> network) list"
  snapshots :: "(string \<times> snapshot list) list"
  volumes :: "(string \<times> volume list) list"
  tracker :: tracker
  seq :: int
  closed :: bool

definition FullCaps :: caps where
  "FullCaps = fold (OR)
    [CapListHosts, CapListVMs, CapGetVM, CapListClusters, CapListStorage, CapListNetworks,
     CapCreateVM, CapPowerStart, CapPowerStop, CapPowerReset, CapPowerSuspend, CapDeleteVM,
     CapReconfigureVM, CapSnapshot, CapRevertSnapshot, CapClone, CapMigrate, CapExport,
     CapClusterTopology, CapNodeState, CapMetrics, CapEvents,
     CapConsole, CapNetworkWrite, CapStorageWrite] 0"

definition WithCaps :: "caps \<Rightarrow> sim \<Rightarrow> sim" where "WithCaps c p = p\<lparr>p_caps := c\<rparr>"

definition WithKind :: "string \<Rightarrow> sim \<Rightarrow> sim" where "WithKind k p = p\<lparr>p_kind := k\<rparr>"

definition seed_host :: "sim \<Rightarrow> string \<Rightarrow> string \<Rightarrow> int \<Rightarrow> vhost" where
  "seed_host p i name n = \<lparr>host_ID = i, host_Name = name, host_Kind = p_kind p, host_ProviderID = p_id p,
     host_ClusterID = ''cluster-1'', host_State = ''up'', CPUCores = 16, CPUMHz = 0, MemoryMB = 65536,
     MemUsedMB = 0, host_VMCount = n, host_Version = ''sim-1.0'', host_Labels = []\<rparr>"

definition seed_vm :: "sim \<Rightarrow> nat \<Rightarrow> string \<Rightarrow> vm" where
  "seed_vm p i st = (let id = ''vm-'' @ itoa (int i + 1) in
     \<lparr>vm_ID = id, vm_Name = ''sim-vm-'' @ itoa (int i + 1), vm_Kind = p_kind p, vm_ProviderID = p_id p,
      vm_HostID = (if i = 2 then ''host-2'' else ''host-1''), vm_ClusterID = ''cluster-1'',
      vm_State = st, vm_StateRaw = st, vm_VCPUs = 2, vm_MemoryMB = 4096, vm_GuestOS = ''linux'',
      vm_Firmware = ''uefi'',
      vm_Disks = [\<lparr>dk_ID = id @ ''-d0'', dk_Label = [], dk_Format = ''qcow2'', dk_CapacityGB = Fin 40,
                   dk_StorageID = ''ds-1'', dk_Path = []\<rparr>],
      vm_NICs = [\<lparr>nic_ID = id @ ''-n0'', nic_MAC = ''52:54:00:00:00:0'' @ itoa (int i),
                  nic_NetworkID = ''net-1'', nic_Model = [], nic_Connected = True\<rparr>],
      vm_IPAddresses = [], vm_Labels = [], vm_SnapshotCount = 0,
      vm_CreatedAt = Some (1700000000 * second), vm_Protected = False\<rparr>)"

definition seed :: "sim \<Rightarrow> sim" where
  "seed p = p\<lparr>
     clusters := put (clusters p) ''cluster-1''
       \<lparr>cl_ID = ''cluster-1'', cl_Name = ''sim-cluster'', cl_Kind = p_kind p, cl_ProviderID = p_id p,
        cl_HostIDs = [''host-1'', ''host-2''], HAEnabled = True, DRSEnabled = False\<rparr>,
     hosts := put (put (hosts p) ''host-1'' (seed_host p ''host-1'' ''sim-host-1'' 2))
                ''host-2'' (seed_host p ''host-2'' ''sim-host-2'' 1),
     storage := put (storage p) ''ds-1''
       \<lparr>sp_ID = ''ds-1'', sp_Name = ''sim-datastore'', sp_Kind = p_kind p, sp_ProviderID = p_id p,
        sp_Type = ''nfs'', CapacityGB = Fin 4096, FreeGB = Fin 3000,
        sp_HostIDs = [''host-1'', ''host-2''], Accessible = True\<rparr>,
     networks := put (networks p) ''net-1''
       \<lparr>net_ID = ''net-1'', net_Name = ''sim-vmnet'', net_Kind = p_kind p, net_ProviderID = p_id p,
        net_Type = ''bridge'', net_VLAN = 0\<rparr>,
     volumes := put (volumes p) ''ds-1''
       [\<lparr>vol_ID = ''vol-1'', vol_Name = ''vm-1-disk0.qcow2'', vol_StorageID = ''ds-1'', vol_Format = ''qcow2'',
         vol_CapacityGB = Fin 40, vol_AllocGB = Fin 8, IsISO = False, vol_Path = []\<rparr>,
        \<lparr>vol_ID = ''iso-1'', vol_Name = ''ubuntu-24.04.iso'', vol_StorageID = ''ds-1'', vol_Format = ''raw'',
         vol_CapacityGB = Fin 2, vol_AllocGB = Fin 2, IsISO = True, vol_Path = []\<rparr>],
     vms := fold (\<lambda>(i, st) m. put m (vm_ID (seed_vm p i st)) (seed_vm p i st))
              (enumerate 0 [StateRunning, StateRunning, StateStopped]) (vms p)\<rparr>"

definition New :: "string \<Rightarrow> (sim \<Rightarrow> sim) list \<Rightarrow> sim" where
  "New i opts = seed (fold (\<lambda>opt p. opt p) opts
     \<lparr>p_id = i, p_kind = ''kvm'', p_caps = FullCaps, hosts = [], vms = [], clusters = [], storage = [],
      networks = [], snapshots = [], volumes = [], tracker = [], seq = 0, closed = False\<rparr>)"

subsection \<open>Identifiers and tasks\<close>

definition id_of :: "string \<Rightarrow> int \<Rightarrow> string" where
  "id_of pre n = pre @ ''-'' @ itoa n"

definition nextID :: "sim \<Rightarrow> string \<Rightarrow> sim \<times> string" where
  "nextID p pre = (let n = wrap64 (seq p + 1) in (p\<lparr>seq := n\<rparr>, id_of pre n))"

text \<open>The last lines of every operation: start a task for the entity and finish it at once.\<close>

definition succeed :: "sim \<Rightarrow> string \<Rightarrow> string \<Rightarrow> int \<Rightarrow> sim \<times> (verror + task option)" where
  "succeed p kind entity now =
     (let (p1, tid) = nextID p ''task'';
          (tt, t) = Start (tracker p1) tid kind (p_id p1) entity now;
          (tt2, r) = Finish tt (task_ID t) ''succeeded'' [] now
      in (p1\<lparr>tracker := tt2\<rparr>, Inr r))"

type_synonym sim_result = "sim \<times> (verror + task option)"

subsection \<open>Health and inventory\<close>

definition HealthCheck :: "sim \<Rightarrow> int \<Rightarrow> health_status" where
  "HealthCheck p now =
     (if closed p then \<lparr>Healthy = False, hs_Message = ''closed'', hs_Version = [], CheckedAt = now\<rparr>
      else \<lparr>Healthy = True, hs_Message = [], hs_Version = ''sim-1.0'', CheckedAt = now\<rparr>)"

definition Close :: "sim \<Rightarrow> sim" where "Close p = p\<lparr>closed := True\<rparr>"

definition ListHosts :: "sim \<Rightarrow> verror + vhost list" where
  "ListHosts p = (if \<not> Has (p_caps p) CapListHosts then Inl ErrUnsupported else Inr (map snd (hosts p)))"

definition ListVMs :: "sim \<Rightarrow> list_options \<Rightarrow> verror + vm list" where
  "ListVMs p opts =
     (if \<not> Has (p_caps p) CapListVMs then Inl ErrUnsupported
      else Inr (filter (\<lambda>v. \<not> (lo_HostID opts \<noteq> [] \<and> vm_HostID v \<noteq> lo_HostID opts)
                  \<and> \<not> (lo_ClusterID opts \<noteq> [] \<and> vm_ClusterID v \<noteq> lo_ClusterID opts)
                  \<and> \<not> (lo_State opts \<noteq> [] \<and> vm_State v \<noteq> lo_State opts)) (map snd (vms p))))"

text \<open>
  The raw object is the JSON text of a map with the keys in order; the ids and states of the
  provider's machines contain no character that JSON escapes.
\<close>

definition GetVM :: "sim \<Rightarrow> string \<Rightarrow> verror + vm_detail" where
  "GetVM p i =
     (if \<not> Has (p_caps p) CapGetVM then Inl ErrUnsupported
      else (case map_of (vms p) i of None \<Rightarrow> Inl ErrNotFound
            | Some v \<Rightarrow> Inr \<lparr>detail_VM = v,
                Raw = ''{\"id\":\"'' @ i @ ''\",\"simNative\":true,\"state\":\"'' @ vm_State v @ ''\"}''\<rparr>))"

definition ListClusters :: "sim \<Rightarrow> verror + cluster list" where
  "ListClusters p =
     (if \<not> Has (p_caps p) CapListClusters then Inl ErrUnsupported else Inr (map snd (clusters p)))"

definition ListStorage :: "sim \<Rightarrow> verror + storage_pool list" where
  "ListStorage p =
     (if \<not> Has (p_caps p) CapListStorage then Inl ErrUnsupported else Inr (map snd (storage p)))"

definition ListNetworks :: "sim \<Rightarrow> verror + network list" where
  "ListNetworks p =
     (if \<not> Has (p_caps p) CapListNetworks then Inl ErrUnsupported else Inr (map snd (networks p)))"

subsection \<open>Lifecycle\<close>

definition created_disks :: "string \<Rightarrow> disk_spec list \<Rightarrow> disk list" where
  "created_disks i ds = map (\<lambda>(n, d). \<lparr>dk_ID = i @ ''-d'' @ itoa (int n), dk_Label = [],
     dk_Format = ds_Format d, dk_CapacityGB = ds_CapacityGB d, dk_StorageID = ds_StorageID d,
     dk_Path = []\<rparr>) (enumerate 0 ds)"

definition created_nics :: "string \<Rightarrow> nic_spec list \<Rightarrow> nic list" where
  "created_nics i ns = map (\<lambda>(n, s). \<lparr>nic_ID = i @ ''-n'' @ itoa (int n), nic_MAC = ns_MAC s,
     nic_NetworkID = ns_NetworkID s, nic_Model = ns_Model s, nic_Connected = True\<rparr>) (enumerate 0 ns)"

definition created_vm :: "sim \<Rightarrow> string \<Rightarrow> vm_spec \<Rightarrow> int \<Rightarrow> vm" where
  "created_vm p i spec now =
     \<lparr>vm_ID = i, vm_Name = vs_Name spec, vm_Kind = p_kind p, vm_ProviderID = p_id p,
      vm_HostID = vs_HostID spec, vm_ClusterID = vs_ClusterID spec,
      vm_State = StateStopped, vm_StateRaw = ''stopped'', vm_VCPUs = vs_VCPUs spec,
      vm_MemoryMB = vs_MemoryMB spec, vm_GuestOS = vs_GuestOS spec, vm_Firmware = vs_Firmware spec,
      vm_Disks = created_disks i (vs_Disks spec), vm_NICs = created_nics i (vs_NICs spec),
      vm_IPAddresses = [], vm_Labels = vs_Labels spec, vm_SnapshotCount = 0,
      vm_CreatedAt = Some now, vm_Protected = False\<rparr>"

definition CreateVM :: "sim \<Rightarrow> vm_spec \<Rightarrow> int \<Rightarrow> sim_result" where
  "CreateVM p spec now =
     (if \<not> Has (p_caps p) CapCreateVM then (p, Inl ErrUnsupported)
      else if trim_space (vs_Name spec) = [] \<or> vs_VCPUs spec \<le> 0 \<or> vs_MemoryMB spec \<le> 0
      then (p, Inl ErrInvalidSpec)
      else (let (p1, i) = nextID p ''vm'';
                v = created_vm p1 i spec now
            in succeed (p1\<lparr>vms := put (vms p1) i v\<rparr>) ''createVM'' i now))"

definition power_state :: "string \<Rightarrow> string \<Rightarrow> string" where
  "power_state op st =
     (if op = ''start'' \<or> op = ''resume'' then StateRunning
      else if op = ''stop'' then StateStopped
      else if op = ''reset'' then StateRunning
      else if op = ''suspend'' then StateSuspended
      else st)"

definition PowerOp :: "sim \<Rightarrow> string \<Rightarrow> string \<Rightarrow> int \<Rightarrow> sim_result" where
  "PowerOp p vmID op now =
     (if \<not> PowerOp_Valid op then (p, Inl ErrInvalidSpec)
      else if \<not> Has (p_caps p) (PowerOpCapability op) then (p, Inl ErrUnsupported)
      else (case map_of (vms p) vmID of None \<Rightarrow> (p, Inl ErrNotFound)
            | Some v \<Rightarrow>
              (let st = power_state op (vm_State v);
                   v1 = v\<lparr>vm_State := st, vm_StateRaw := st\<rparr>
               in succeed (p\<lparr>vms := put (vms p) vmID v1\<rparr>) ''powerOp'' vmID now)))"

definition DeleteVM :: "sim \<Rightarrow> string \<Rightarrow> delete_options \<Rightarrow> int \<Rightarrow> sim_result" where
  "DeleteVM p vmID opts now =
     (if \<not> Has (p_caps p) CapDeleteVM then (p, Inl ErrUnsupported)
      else (case map_of (vms p) vmID of None \<Rightarrow> (p, Inl ErrNotFound)
            | Some v \<Rightarrow>
              if vm_Protected v then (p, Inl ErrConflict)
              else if vm_State v = StateRunning \<and> \<not> Force opts then (p, Inl ErrConflict)
              else succeed (p\<lparr>vms := del (vms p) vmID, snapshots := del (snapshots p) vmID\<rparr>)
                     ''deleteVM'' vmID now))"

definition ReconfigureVM :: "sim \<Rightarrow> string \<Rightarrow> reconfigure_spec \<Rightarrow> int \<Rightarrow> sim_result" where
  "ReconfigureVM p vmID spec now =
     (if \<not> Has (p_caps p) CapReconfigureVM then (p, Inl ErrUnsupported)
      else (case map_of (vms p) vmID of None \<Rightarrow> (p, Inl ErrNotFound)
            | Some v \<Rightarrow>
              (let v1 = v\<lparr>vm_VCPUs := (case rs_VCPUs spec of None \<Rightarrow> vm_VCPUs v | Some n \<Rightarrow> n),
                          vm_MemoryMB := (case rs_MemoryMB spec of None \<Rightarrow> vm_MemoryMB v | Some n \<Rightarrow> n)\<rparr>
               in succeed (p\<lparr>vms := put (vms p) vmID v1\<rparr>) ''reconfigureVM'' vmID now)))"

subsection \<open>Snapshots and clones\<close>

definition snaps_of :: "sim \<Rightarrow> string \<Rightarrow> snapshot list" where
  "snaps_of p vmID = (case map_of (snapshots p) vmID of None \<Rightarrow> [] | Some ss \<Rightarrow> ss)"

definition Snapshot :: "sim \<Rightarrow> string \<Rightarrow> snapshot_options \<Rightarrow> int \<Rightarrow> sim_result" where
  "Snapshot p vmID opts now =
     (if \<not> Has (p_caps p) CapSnapshot then (p, Inl ErrUnsupported)
      else (case map_of (vms p) vmID of None \<Rightarrow> (p, Inl ErrNotFound)
            | Some v \<Rightarrow>
              (let (p1, sid) = nextID p ''snap'';
                   snap = \<lparr>snap_ID = sid, snap_VMID = vmID, snap_Name = so_Name opts,
                           snap_Description = so_Description opts, snap_ParentID = [],
                           HasMemory = so_Memory opts, IsCurrent = True, snap_CreatedAt = Some now\<rparr>;
                   ss = map (\<lambda>s. s\<lparr>IsCurrent := False\<rparr>) (snaps_of p1 vmID) @ [snap];
                   v1 = v\<lparr>vm_SnapshotCount := int (length ss)\<rparr>
               in succeed (p1\<lparr>snapshots := put (snapshots p1) vmID ss, vms := put (vms p1) vmID v1\<rparr>)
                    ''snapshot'' vmID now)))"

definition RevertSnapshot :: "sim \<Rightarrow> string \<Rightarrow> string \<Rightarrow> int \<Rightarrow> sim_result" where
  "RevertSnapshot p vmID snapID now =
     (if \<not> Has (p_caps p) CapRevertSnapshot then (p, Inl ErrUnsupported)
      else (case map_of (snapshots p) vmID of None \<Rightarrow> (p, Inl ErrNotFound)
            | Some ss \<Rightarrow>
              (let ss1 = map (\<lambda>s. s\<lparr>IsCurrent := (snap_ID s = snapID)\<rparr>) ss;
                   p1 = p\<lparr>snapshots := put (snapshots p) vmID ss1\<rparr>
               in if \<not> list_ex (\<lambda>s. snap_ID s = snapID) ss then (p1, Inl ErrNotFound)
                  else succeed p1 ''revertSnapshot'' vmID now)))"

definition ListSnapshots :: "sim \<Rightarrow> string \<Rightarrow> verror + snapshot list" where
  "ListSnapshots p vmID =
     (if \<not> Has (p_caps p) CapSnapshot then Inl ErrUnsupported
      else (case map_of (vms p) vmID of None \<Rightarrow> Inl ErrNotFound | Some _ \<Rightarrow> Inr (snaps_of p vmID)))"

definition cloned_vm :: "vm \<Rightarrow> string \<Rightarrow> clone_spec \<Rightarrow> vm" where
  "cloned_vm src i spec =
     (let st = (if PowerOn spec then StateRunning else StateStopped)
      in src\<lparr>vm_ID := i, vm_Name := cs_Name spec, vm_State := st, vm_StateRaw := st,
             vm_SnapshotCount := 0\<rparr>)"

definition Clone :: "sim \<Rightarrow> string \<Rightarrow> clone_spec \<Rightarrow> int \<Rightarrow> sim_result" where
  "Clone p vmID spec now =
     (if \<not> Has (p_caps p) CapClone then (p, Inl ErrUnsupported)
      else (case map_of (vms p) vmID of None \<Rightarrow> (p, Inl ErrNotFound)
            | Some src \<Rightarrow>
              (let (p1, i) = nextID p ''vm''
               in succeed (p1\<lparr>vms := put (vms p1) i (cloned_vm src i spec)\<rparr>) ''clone'' i now)))"

subsection \<open>Migration between hosts, export\<close>

definition MigrateVM :: "sim \<Rightarrow> string \<Rightarrow> string \<Rightarrow> migrate_options \<Rightarrow> int \<Rightarrow> sim_result" where
  "MigrateVM p vmID targetHost opts now =
     (if \<not> Has (p_caps p) CapMigrate then (p, Inl ErrUnsupported)
      else (case map_of (vms p) vmID of None \<Rightarrow> (p, Inl ErrNotFound)
            | Some v \<Rightarrow>
              (case map_of (hosts p) targetHost of None \<Rightarrow> (p, Inl ErrInvalidSpec)
               | Some _ \<Rightarrow> succeed (p\<lparr>vms := put (vms p) vmID (v\<lparr>vm_HostID := targetHost\<rparr>)\<rparr>)
                             ''migrate'' vmID now)))"

definition ExportVM :: "sim \<Rightarrow> string \<Rightarrow> string \<Rightarrow> verror + (string \<times> export_info)" where
  "ExportVM p vmID format =
     (if \<not> Has (p_caps p) CapExport then Inl ErrUnsupported
      else if \<not> DiskFormat_Valid format then Inl ErrInvalidSpec
      else (case map_of (vms p) vmID of None \<Rightarrow> Inl ErrNotFound
            | Some v \<Rightarrow>
              (let payload = ''SIMDISK:'' @ p_id p @ '':'' @ vmID @ '':'' @ format @ [CHR 0x0A]
               in Inr (payload, \<lparr>ex_Format = format, SizeBytes = int (length payload),
                    DiskCount = int (length (vm_Disks v)), ex_SourceVMID = vmID,
                    ex_GuestOS = vm_GuestOS v, ex_Firmware = vm_Firmware v\<rparr>))))"

subsection \<open>Cluster, nodes, metrics, console\<close>

definition GetClusterTopology :: "sim \<Rightarrow> string \<Rightarrow> int \<Rightarrow> verror + topology" where
  "GetClusterTopology p clusterID now =
     (if \<not> Has (p_caps p) CapClusterTopology then Inl ErrUnsupported
      else (case map_of (clusters p) clusterID of None \<Rightarrow> Inl ErrNotFound
            | Some cl \<Rightarrow> Inr
                \<lparr>top_ClusterID = clusterID,
                 Nodes = map (\<lambda>hid. case map_of (hosts p) hid of
                     None \<Rightarrow> \<lparr>NodeID = hid, node_State = [], node_Message = [], node_VMCount = 0,
                              node_UpdatedAt = Some now\<rparr>
                   | Some h \<Rightarrow> \<lparr>NodeID = hid, node_State = host_State h, node_Message = [],
                                node_VMCount = host_VMCount h, node_UpdatedAt = Some now\<rparr>) (cl_HostIDs cl),
                 Placement = map (\<lambda>(i, v). (i, vm_HostID v))
                   (filter (\<lambda>(i, v). vm_ClusterID v = clusterID) (vms p))\<rparr>))"

definition NodeState :: "sim \<Rightarrow> string \<Rightarrow> int \<Rightarrow> verror + node_state" where
  "NodeState p nodeID now =
     (if \<not> Has (p_caps p) CapNodeState then Inl ErrUnsupported
      else (case map_of (hosts p) nodeID of None \<Rightarrow> Inl ErrNotFound
            | Some h \<Rightarrow> Inr \<lparr>NodeID = nodeID, node_State = host_State h, node_Message = [],
                             node_VMCount = host_VMCount h, node_UpdatedAt = Some now\<rparr>))"

definition GetMetrics :: "sim \<Rightarrow> string \<Rightarrow> metric_window \<Rightarrow> int \<Rightarrow> verror + metric_series" where
  "GetMetrics p entityID window now =
     (if \<not> Has (p_caps p) CapMetrics then Inl ErrUnsupported
      else if map_of (vms p) entityID = None \<and> map_of (hosts p) entityID = None then Inl ErrNotFound
      else (let base = (case Since window of None \<Rightarrow> now - 5 * minute | Some t \<Rightarrow> t);
                step = (if StepSecond window \<le> 0 then 30 else StepSecond window)
            in Inr \<lparr>EntityID = entityID,
                 Samples = map (\<lambda>i. \<lparr>sm_Timestamp = base + wrap64 (wrap64 (int i * step) * second),
                     CPUPercent = f64_of_int (10 + int i * 5),
                     MemUsageBytes = push_bit 30 1 + push_bit 20 (of_nat i),
                     MemLimitBytes = push_bit 30 4, NetRxBytes = of_nat i * 1000,
                     NetTxBytes = of_nat i * 800, DiskReadBytes = 0, DiskWriteBytes = 0\<rparr>) [0..<5]\<rparr>))"

definition Console :: "sim \<Rightarrow> string \<Rightarrow> verror + console_endpoint" where
  "Console p vmID =
     (if \<not> Has (p_caps p) CapConsole then Inl ErrUnsupported
      else (case map_of (vms p) vmID of None \<Rightarrow> Inl ErrNotFound
            | Some _ \<Rightarrow> Inr \<lparr>con_Kind = ''vnc'', con_Host = ''127.0.0.1'', con_Port = 5901,
                             con_Password = ''sim-ticket'', TLSPort = 0, con_Path = []\<rparr>))"

subsection \<open>Networks and volumes\<close>

definition CreateNetwork :: "sim \<Rightarrow> network_spec \<Rightarrow> int \<Rightarrow> sim_result" where
  "CreateNetwork p spec now =
     (if \<not> Has (p_caps p) CapNetworkWrite then (p, Inl ErrUnsupported)
      else if trim_space (nw_Name spec) = [] then (p, Inl ErrInvalidSpec)
      else (let (p1, i) = nextID p ''net'';
                n = \<lparr>net_ID = i, net_Name = nw_Name spec, net_Kind = p_kind p, net_ProviderID = p_id p,
                     net_Type = nw_Type spec, net_VLAN = nw_VLAN spec\<rparr>
            in succeed (p1\<lparr>networks := put (networks p1) i n\<rparr>) ''createNetwork'' i now))"

definition DeleteNetwork :: "sim \<Rightarrow> string \<Rightarrow> int \<Rightarrow> sim_result" where
  "DeleteNetwork p networkID now =
     (if \<not> Has (p_caps p) CapNetworkWrite then (p, Inl ErrUnsupported)
      else (case map_of (networks p) networkID of None \<Rightarrow> (p, Inl ErrNotFound)
            | Some _ \<Rightarrow> succeed (p\<lparr>networks := del (networks p) networkID\<rparr>) ''deleteNetwork'' networkID now))"

definition vols_of :: "sim \<Rightarrow> string \<Rightarrow> volume list" where
  "vols_of p storageID = (case map_of (volumes p) storageID of None \<Rightarrow> [] | Some vs \<Rightarrow> vs)"

definition ListVolumes :: "sim \<Rightarrow> string \<Rightarrow> verror + volume list" where
  "ListVolumes p storageID =
     (if \<not> Has (p_caps p) CapListStorage then Inl ErrUnsupported
      else (case map_of (storage p) storageID of None \<Rightarrow> Inl ErrNotFound
            | Some _ \<Rightarrow> Inr (vols_of p storageID)))"

definition CreateVolume :: "sim \<Rightarrow> volume_spec \<Rightarrow> int \<Rightarrow> sim_result" where
  "CreateVolume p spec now =
     (if \<not> Has (p_caps p) CapStorageWrite then (p, Inl ErrUnsupported)
      else if vo_Name spec = [] \<or> fle (vo_CapacityGB spec) (Fin 0) then (p, Inl ErrInvalidSpec)
      else (case map_of (storage p) (vo_StorageID spec) of None \<Rightarrow> (p, Inl ErrNotFound)
            | Some _ \<Rightarrow>
              (let (p1, i) = nextID p ''vol'';
                   v = \<lparr>vol_ID = i, vol_Name = vo_Name spec, vol_StorageID = vo_StorageID spec,
                        vol_Format = vo_Format spec, vol_CapacityGB = vo_CapacityGB spec,
                        vol_AllocGB = Fin 0, IsISO = False, vol_Path = []\<rparr>
               in succeed (p1\<lparr>volumes := put (volumes p1) (vo_StorageID spec)
                                 (vols_of p1 (vo_StorageID spec) @ [v])\<rparr>) ''createVolume'' i now)))"

fun remove_volume :: "string \<Rightarrow> volume list \<Rightarrow> volume list" where
  "remove_volume i [] = []"
| "remove_volume i (v # vs) = (if vol_ID v = i then vs else v # remove_volume i vs)"

definition DeleteVolume :: "sim \<Rightarrow> string \<Rightarrow> string \<Rightarrow> int \<Rightarrow> sim_result" where
  "DeleteVolume p storageID volumeID now =
     (if \<not> Has (p_caps p) CapStorageWrite then (p, Inl ErrUnsupported)
      else if \<not> list_ex (\<lambda>v. vol_ID v = volumeID) (vols_of p storageID) then (p, Inl ErrNotFound)
      else succeed (p\<lparr>volumes := put (volumes p) storageID (remove_volume volumeID (vols_of p storageID))\<rparr>)
             ''deleteVolume'' volumeID now)"

text \<open>\<open>n\<close> is the number of bytes the upload stream delivers before it ends or fails.\<close>

definition UploadISO :: "sim \<Rightarrow> string \<Rightarrow> string \<Rightarrow> int \<Rightarrow> int \<Rightarrow> sim \<times> (verror + volume)" where
  "UploadISO p storageID name size_hint n =
     (if \<not> Has (p_caps p) CapStorageWrite then (p, Inl ErrUnsupported)
      else if name = [] then (p, Inl ErrInvalidSpec)
      else (let gb0 = fdiv (f64_of_int n) (Fin (2 ^ 30));
                gb = (if fle gb0 (Fin 0) then fdiv (f64_of_int size_hint) (Fin (2 ^ 30)) else gb0)
            in case map_of (storage p) storageID of None \<Rightarrow> (p, Inl ErrNotFound)
               | Some _ \<Rightarrow>
                 (let (p1, i) = nextID p ''iso'';
                      v = \<lparr>vol_ID = i, vol_Name = name, vol_StorageID = storageID, vol_Format = ''raw'',
                           vol_CapacityGB = gb, vol_AllocGB = gb, IsISO = True, vol_Path = []\<rparr>
                  in (p1\<lparr>volumes := put (volumes p1) storageID (vols_of p1 storageID @ [v])\<rparr>, Inr v))))"

subsection \<open>The operations as steps\<close>

datatype sim_op =
    Op_Create vm_spec
  | Op_Power string string
  | Op_Delete string delete_options
  | Op_Reconfigure string reconfigure_spec
  | Op_Snapshot string snapshot_options
  | Op_Revert string string
  | Op_Clone string clone_spec
  | Op_Migrate string string migrate_options
  | Op_CreateNetwork network_spec
  | Op_DeleteNetwork string
  | Op_CreateVolume volume_spec
  | Op_DeleteVolume string string
  | Op_UploadISO string string int int
  | Op_Close

fun call :: "sim \<Rightarrow> sim_op \<times> int \<Rightarrow> sim_result" where
  "call p (Op_Create spec, now) = CreateVM p spec now"
| "call p (Op_Power i op, now) = PowerOp p i op now"
| "call p (Op_Delete i opts, now) = DeleteVM p i opts now"
| "call p (Op_Reconfigure i spec, now) = ReconfigureVM p i spec now"
| "call p (Op_Snapshot i opts, now) = Snapshot p i opts now"
| "call p (Op_Revert i s, now) = RevertSnapshot p i s now"
| "call p (Op_Clone i spec, now) = Clone p i spec now"
| "call p (Op_Migrate i h opts, now) = MigrateVM p i h opts now"
| "call p (Op_CreateNetwork spec, now) = CreateNetwork p spec now"
| "call p (Op_DeleteNetwork i, now) = DeleteNetwork p i now"
| "call p (Op_CreateVolume spec, now) = CreateVolume p spec now"
| "call p (Op_DeleteVolume s v, now) = DeleteVolume p s v now"
| "call p (Op_UploadISO s name k n, now) =
     (case UploadISO p s name k n of (p', Inl e) \<Rightarrow> (p', Inl e) | (p', Inr _) \<Rightarrow> (p', Inr None))"
| "call p (Op_Close, now) = (Close p, Inr None)"

definition sim_step :: "sim \<Rightarrow> sim_op \<times> int \<Rightarrow> sim" where
  "sim_step p c = fst (call p c)"

text \<open>The capability each operation is declared to need.\<close>

fun needed :: "sim_op \<Rightarrow> caps option" where
  "needed (Op_Create _) = Some CapCreateVM"
| "needed (Op_Power _ op) = (if PowerOp_Valid op then Some (PowerOpCapability op) else None)"
| "needed (Op_Delete _ _) = Some CapDeleteVM"
| "needed (Op_Reconfigure _ _) = Some CapReconfigureVM"
| "needed (Op_Snapshot _ _) = Some CapSnapshot"
| "needed (Op_Revert _ _) = Some CapRevertSnapshot"
| "needed (Op_Clone _ _) = Some CapClone"
| "needed (Op_Migrate _ _ _) = Some CapMigrate"
| "needed (Op_CreateNetwork _) = Some CapNetworkWrite"
| "needed (Op_DeleteNetwork _) = Some CapNetworkWrite"
| "needed (Op_CreateVolume _) = Some CapStorageWrite"
| "needed (Op_DeleteVolume _ _) = Some CapStorageWrite"
| "needed (Op_UploadISO _ _ _ _) = Some CapStorageWrite"
| "needed Op_Close = None"

end
