(* ===== verification/Sim_Props.thy ===== *)
theory Sim_Props
  imports Sim
begin

text \<open>
  What the simulated hypervisor guarantees: operations without their capability and failed
  operations change nothing; identifiers are fresh and the snapshot bookkeeping is right after
  every run once the sequence has passed the seeded machines; a protected machine survives every
  run. The seeded provider itself is not in that state: its first creations overwrite seeded
  machines (\<open>first_create_overwrites\<close>).
\<close>

subsection \<open>One operation\<close>

definition done_task :: "sim \<Rightarrow> string \<Rightarrow> string \<Rightarrow> int \<Rightarrow> task" where
  "done_task p kind entity now =
     \<lparr>task_ID = id_of ''task'' (wrap64 (seq p + 1)), task_Kind = kind, task_ProviderID = p_id p,
      task_EntityID = entity, task_State = ''succeeded'', Progress = 100, task_Message = [],
      task_Error = [], task_StartedAt = Some now, task_UpdatedAt = Some now, FinishedAt = Some now\<rparr>"

lemma succeed_eq:
  "succeed p kind entity now =
     (p\<lparr>seq := wrap64 (seq p + 1),
        tracker := put (put (tracker p) (task_ID (done_task p kind entity now))
            ((done_task p kind entity now)\<lparr>task_State := ''running'', Progress := 0, FinishedAt := None\<rparr>))
          (task_ID (done_task p kind entity now)) (done_task p kind entity now)\<rparr>,
      Inr (Some (done_task p kind entity now)))"
  by (simp add: succeed_def nextID_def Start_def Finish_def map_of_put done_task_def Let_def)

lemma succeed_fields [simp]:
  "vms (fst (succeed p k e now)) = vms p"
  "snapshots (fst (succeed p k e now)) = snapshots p"
  "hosts (fst (succeed p k e now)) = hosts p"
  "p_caps (fst (succeed p k e now)) = p_caps p"
  "p_kind (fst (succeed p k e now)) = p_kind p"
  "p_id (fst (succeed p k e now)) = p_id p"
  "seq (fst (succeed p k e now)) = wrap64 (seq p + 1)"
  "snd (succeed p k e now) = Inr (Some (done_task p k e now))"
  by (simp_all add: succeed_eq)

lemma succeed_not_Inl: "succeed p k e now \<noteq> (p', Inl err)"
  by (simp add: succeed_eq)

text \<open>The state-changing operations, unfolded.\<close>

lemmas op_defs = CreateVM_def PowerOp_def DeleteVM_def ReconfigureVM_def Snapshot_def RevertSnapshot_def
  Clone_def MigrateVM_def CreateNetwork_def DeleteNetwork_def CreateVolume_def DeleteVolume_def
  UploadISO_def Close_def

lemma call_unsupported:
  "needed op = Some cap \<Longrightarrow> \<not> Has (p_caps p) cap \<Longrightarrow> call p (op, now) = (p, Inl ErrUnsupported)"
  by (cases op) (simp_all add: op_defs split: if_splits)

lemma call_error:
  assumes "call p (op, now) = (p', Inl e)"
  shows "p' = p \<or> (\<exists>i s ss. op = Op_Revert i s \<and> e = ErrNotFound \<and> map_of (snapshots p) i = Some ss
    \<and> \<not> list_ex (\<lambda>x. snap_ID x = s) ss
    \<and> p' = p\<lparr>snapshots := put (snapshots p) i (map (\<lambda>x. x\<lparr>IsCurrent := (snap_ID x = s)\<rparr>) ss)\<rparr>)"
  using assms
  by (cases op) (simp_all add: op_defs nextID_def Let_def succeed_not_Inl split: if_splits option.splits)

subsection \<open>The abstract provider\<close>

text \<open>
  What the operations do to the machines, their snapshots and the identifier sequence, whatever
  the maps look like: a machine is modified, created under the next identifier, deleted with its
  snapshots unless protected, gets a snapshot, or is reverted to one.
\<close>

type_synonym view = "(string \<Rightarrow> vm option) \<times> (string \<Rightarrow> snapshot list option) \<times> int"

definition abs_of :: "sim \<Rightarrow> view" where
  "abs_of p = (map_of (vms p), map_of (snapshots p), seq p)"

definition snaps_in :: "(string \<Rightarrow> snapshot list option) \<Rightarrow> string \<Rightarrow> snapshot list" where
  "snaps_in S k = (case S k of None \<Rightarrow> [] | Some ss \<Rightarrow> ss)"

definition mark_current :: "string \<Rightarrow> snapshot list \<Rightarrow> snapshot list" where
  "mark_current sid = map (\<lambda>s. s\<lparr>IsCurrent := (snap_ID s = sid)\<rparr>)"

inductive vm_change :: "view \<Rightarrow> view \<Rightarrow> bool" where
  other: "q \<le> q' \<Longrightarrow> q' \<le> q + 2 \<Longrightarrow> vm_change (V, S, q) (V, S, q')"
| modify: "V i = Some v \<Longrightarrow> vm_ID v' = vm_ID v \<Longrightarrow> vm_SnapshotCount v' = vm_SnapshotCount v \<Longrightarrow>
    vm_Protected v' = vm_Protected v \<Longrightarrow> vm_change (V, S, q) (V(i \<mapsto> v'), S, q + 1)"
| create: "i = id_of ''vm'' (q + 1) \<Longrightarrow> vm_ID v = i \<Longrightarrow> vm_SnapshotCount v = 0 \<Longrightarrow>
    vm_change (V, S, q) (V(i \<mapsto> v), S, q + 2)"
| delete: "V i = Some v \<Longrightarrow> \<not> vm_Protected v \<Longrightarrow>
    vm_change (V, S, q) (V(i := None), S(i := None), q + 1)"
| take: "V i = Some v \<Longrightarrow> snap_ID s = id_of ''snap'' (q + 1) \<Longrightarrow> snap_VMID s = i \<Longrightarrow>
    ss = map (\<lambda>s. s\<lparr>IsCurrent := False\<rparr>) (snaps_in S i) @ [s] \<Longrightarrow>
    vm_change (V, S, q) (V(i \<mapsto> v\<lparr>vm_SnapshotCount := int (length ss)\<rparr>), S(i \<mapsto> ss), q + 2)"
| revert: "S i = Some ss \<Longrightarrow> q \<le> q' \<Longrightarrow> q' \<le> q + 1 \<Longrightarrow>
    vm_change (V, S, q) (V, S(i \<mapsto> mark_current sid ss), q')"

lemma change_seq: "vm_change (V, S, q) (V', S', q') \<Longrightarrow> q \<le> q' \<and> q' \<le> q + 2"
  by (cases rule: vm_change.cases) auto

definition room :: "nat \<Rightarrow> sim \<Rightarrow> bool" where
  "room n p \<longleftrightarrow> 0 \<le> seq p \<and> seq p + 2 * int n < 2 ^ 63"

lemma room_seq: "room (Suc n) p \<Longrightarrow> wrap64 (seq p + 1) = seq p + 1"
  "room (Suc n) p \<Longrightarrow> wrap64 (seq p + 1 + 1) = seq p + 2"
  by (simp_all add: room_def wrap64_id)

lemma abs_succeed: "abs_of (fst (succeed p k e now)) = (map_of (vms p), map_of (snapshots p), wrap64 (seq p + 1))"
  by (simp add: abs_of_def)

lemma nextID_eq: "nextID p pre = (p\<lparr>seq := wrap64 (seq p + 1)\<rparr>, id_of pre (wrap64 (seq p + 1)))"
  by (simp add: nextID_def Let_def)

lemma step_result: "sim_step p (op, now) = fst (call p (op, now))"
  by (simp add: sim_step_def)

lemma snaps_of_in: "snaps_of p i = snaps_in (map_of (snapshots p)) i"
  by (simp add: snaps_of_def snaps_in_def)

text \<open>Every call refines one abstract change.\<close>

lemma same_change: "vm_change (abs_of p) (abs_of p)"
  unfolding abs_of_def by (rule vm_change.other) simp_all

lemma create_change:
  "room (Suc n) p \<Longrightarrow> vm_ID v = id_of ''vm'' (seq p + 1) \<Longrightarrow> vm_SnapshotCount v = 0 \<Longrightarrow>
     vm_change (abs_of p)
       (abs_of (fst (succeed (p\<lparr>seq := seq p + 1, vms := put (vms p) (id_of ''vm'' (seq p + 1)) v\<rparr>) k e now)))"
  using vm_change.create [OF refl, of v "seq p" "map_of (vms p)" "map_of (snapshots p)"] room_seq(2) [of n p]
  unfolding abs_succeed by (simp add: map_of_put) (simp add: abs_of_def)

lemma modify_change:
  "room (Suc n) p \<Longrightarrow> map_of (vms p) i = Some v \<Longrightarrow> vm_ID v' = vm_ID v \<Longrightarrow>
     vm_SnapshotCount v' = vm_SnapshotCount v \<Longrightarrow> vm_Protected v' = vm_Protected v \<Longrightarrow>
     vm_change (abs_of p) (abs_of (fst (succeed (p\<lparr>vms := put (vms p) i v'\<rparr>) k e now)))"
  using vm_change.modify [of "map_of (vms p)" i v v']
  by (simp add: abs_succeed room_seq map_of_put) (simp add: abs_of_def)

lemma other_change:
  assumes "vms p' = vms p" "snapshots p' = snapshots p" "seq p \<le> seq p'" "seq p' \<le> seq p + 2"
  shows "vm_change (abs_of p) (abs_of p')"
  unfolding abs_of_def assms(1,2) by (rule vm_change.other) (use assms in simp_all)

lemma delete_change:
  "room (Suc n) p \<Longrightarrow> map_of (vms p) i = Some v \<Longrightarrow> \<not> vm_Protected v \<Longrightarrow>
     vm_change (abs_of p)
       (abs_of (fst (succeed (p\<lparr>vms := del (vms p) i, snapshots := del (snapshots p) i\<rparr>) k e now)))"
  using vm_change.delete [of "map_of (vms p)" i v]
  by (simp add: abs_succeed room_seq map_of_del) (simp add: abs_of_def)

lemma take_change:
  assumes "room (Suc n) p" "map_of (vms p) i = Some v" "snap_ID s = id_of ''snap'' (seq p + 1)" "snap_VMID s = i"
    and "ss = map (\<lambda>s. s\<lparr>IsCurrent := False\<rparr>) (snaps_of p i) @ [s]"
  shows "vm_change (abs_of p) (abs_of (fst (succeed (p\<lparr>seq := seq p + 1, snapshots := put (snapshots p) i ss,
      vms := put (vms p) i (v\<lparr>vm_SnapshotCount := int (length ss)\<rparr>)\<rparr>) k e now)))"
  using vm_change.take [of "map_of (vms p)" i v s "seq p" ss "map_of (snapshots p)"] assms(2-5) room_seq(2) [OF assms(1)]
  unfolding abs_succeed by (simp add: map_of_put snaps_of_in) (simp add: abs_of_def)

lemma step_change:
  assumes "room (Suc n) p"
  shows "vm_change (abs_of p) (abs_of (sim_step p c))"
proof -
  obtain op now where c: "c = (op, now)" by (rule prod.exhaust)
  note seqs = room_seq [OF assms] room_seq(2) [OF assms, simplified] and chg = create_change [OF assms] modify_change [OF assms]
    delete_change [OF assms] take_change [OF assms]
  show ?thesis
  proof (cases op)
    case (Op_Create spec)
    then show ?thesis
      using chg(1) same_change by (simp add: c sim_step_def CreateVM_def nextID_eq seqs created_vm_def Let_def)
  next
    case (Op_Power i op)
    then show ?thesis
      using chg(2) same_change by (simp add: c sim_step_def PowerOp_def Let_def split: option.split)
  next
    case (Op_Delete i opts)
    then show ?thesis
      using chg(3) same_change by (simp add: c sim_step_def DeleteVM_def split: option.split)
  next
    case (Op_Reconfigure i spec)
    then show ?thesis
      using chg(2) same_change by (simp add: c sim_step_def ReconfigureVM_def Let_def split: option.split)
  next
    case (Op_Snapshot i opts)
    then show ?thesis
      using chg(4) same_change
      by (simp add: c sim_step_def Snapshot_def nextID_eq seqs Let_def snaps_of_def split: option.split)
  next
    case (Op_Revert i s)
    then show ?thesis
      using vm_change.revert [of "map_of (snapshots p)" i _ "seq p", unfolded mark_current_def] same_change seqs
      by (simp add: c sim_step_def RevertSnapshot_def Let_def abs_succeed map_of_put abs_of_def split: option.split)
  next
    case (Op_Clone i spec)
    then show ?thesis
      using chg(1) same_change
      by (simp add: c sim_step_def Clone_def nextID_eq seqs cloned_vm_def Let_def split: option.split)
  next
    case (Op_Migrate i h opts)
    then show ?thesis
      using chg(2) same_change by (simp add: c sim_step_def MigrateVM_def split: option.split)
  qed (simp_all add: c sim_step_def op_defs nextID_eq seqs Let_def other_change same_change split: option.split)
qed

subsection \<open>Identifiers and snapshots\<close>

definition fresh_id :: "string \<Rightarrow> int \<Rightarrow> string \<Rightarrow> bool" where
  "fresh_id pre q k \<longleftrightarrow> (\<exists>n. 0 \<le> n \<and> n \<le> q \<and> n < 2 ^ 63 \<and> k = id_of pre n)"

fun view_ok :: "view \<Rightarrow> bool" where
  "view_ok (V, S, q) \<longleftrightarrow> 0 \<le> q
     \<and> (\<forall>k v. V k = Some v \<longrightarrow> vm_ID v = k \<and> fresh_id ''vm'' q k
          \<and> vm_SnapshotCount v = int (length (snaps_in S k)))
     \<and> (\<forall>k ss. S k = Some ss \<longrightarrow> V k \<noteq> None \<and> length (filter IsCurrent ss) \<le> 1
          \<and> distinct (map snap_ID ss)
          \<and> (\<forall>s \<in> set ss. snap_VMID s = k \<and> fresh_id ''snap'' q (snap_ID s)))"

lemma fresh_id_mono: "fresh_id pre q k \<Longrightarrow> q \<le> q' \<Longrightarrow> fresh_id pre q' k"
  unfolding fresh_id_def by force

lemma next_not_fresh: "0 \<le> q \<Longrightarrow> q + 1 < 2 ^ 63 \<Longrightarrow> \<not> fresh_id pre q (id_of pre (q + 1))"
  unfolding fresh_id_def id_of_def by (auto simp: itoa_inject)

lemma next_fresh: "0 \<le> q \<Longrightarrow> q + 1 < 2 ^ 63 \<Longrightarrow> q + 1 \<le> q' \<Longrightarrow> fresh_id pre q' (id_of pre (q + 1))"
  unfolding fresh_id_def by (intro exI [of _ "q + 1"]) simp

lemma mark_current_fields:
  "length (mark_current sid ss) = length ss" "map snap_ID (mark_current sid ss) = map snap_ID ss"
  "s \<in> set (mark_current sid ss) \<Longrightarrow> \<exists>x \<in> set ss. snap_ID s = snap_ID x \<and> snap_VMID s = snap_VMID x"
  by (auto simp: mark_current_def)

lemma mark_current_one: "distinct (map snap_ID ss) \<Longrightarrow> length (filter IsCurrent (mark_current sid ss)) \<le> 1"
proof (induction ss)
  case (Cons s ss)
  show ?case
  proof (cases "snap_ID s = sid")
    case True
    then have "filter IsCurrent (mark_current sid ss) = []"
      using Cons.prems by (force simp: mark_current_def filter_empty_conv image_iff)
    then show ?thesis by (simp add: mark_current_def)
  next
    case False
    then show ?thesis using Cons by (simp add: mark_current_def)
  qed
qed (simp add: mark_current_def)

lemma view_okI:
  assumes "0 \<le> q"
    and "\<And>k v. V k = Some v \<Longrightarrow> vm_ID v = k \<and> fresh_id ''vm'' q k \<and> vm_SnapshotCount v = int (length (snaps_in S k))"
    and "\<And>k ss. S k = Some ss \<Longrightarrow> V k \<noteq> None \<and> length (filter IsCurrent ss) \<le> 1 \<and> distinct (map snap_ID ss)
          \<and> (\<forall>s \<in> set ss. snap_VMID s = k \<and> fresh_id ''snap'' q (snap_ID s))"
  shows "view_ok (V, S, q)"
  using assms by simp

lemma view_ok_vm: "view_ok (V, S, q) \<Longrightarrow> V k = Some v \<Longrightarrow> q \<le> q' \<Longrightarrow>
    vm_ID v = k \<and> fresh_id ''vm'' q' k \<and> vm_SnapshotCount v = int (length (snaps_in S k))"
  using fresh_id_mono [of "''vm''" q k q'] by simp

lemma view_ok_snaps: "view_ok (V, S, q) \<Longrightarrow> S k = Some ss \<Longrightarrow> q \<le> q' \<Longrightarrow>
    V k \<noteq> None \<and> length (filter IsCurrent ss) \<le> 1 \<and> distinct (map snap_ID ss)
      \<and> (\<forall>s \<in> set ss. snap_VMID s = k \<and> fresh_id ''snap'' q' (snap_ID s))"
  using fresh_id_mono [of "''snap''" q _ q'] by simp

lemma view_ok_room: "view_ok (V, S, q) \<Longrightarrow> q + 1 < 2 ^ 63 \<Longrightarrow> V (id_of ''vm'' (q + 1)) = None"
proof (rule ccontr)
  assume ok: "view_ok (V, S, q)" and q: "q + 1 < 2 ^ 63" and "V (id_of ''vm'' (q + 1)) \<noteq> None"
  then obtain v where "V (id_of ''vm'' (q + 1)) = Some v" by blast
  from view_ok_vm [OF ok this order_refl] have "fresh_id ''vm'' q (id_of ''vm'' (q + 1))" by blast
  moreover have "0 \<le> q" using ok by simp
  ultimately show False using next_not_fresh q by blast
qed

text \<open>Replacing a machine by one with the same id and count.\<close>

lemma view_ok_upd:
  assumes "view_ok (V, S, q)" "q \<le> q'" "vm_ID v' = i" "fresh_id ''vm'' q' i"
    and "vm_SnapshotCount v' = int (length (snaps_in S i))"
  shows "view_ok (V(i \<mapsto> v'), S, q')"
proof (rule view_okI)
  show "0 \<le> q'" using assms(1,2) by simp
  show "vm_ID v = k \<and> fresh_id ''vm'' q' k \<and> vm_SnapshotCount v = int (length (snaps_in S k))"
    if "(V(i \<mapsto> v')) k = Some v" for k v
    using that assms view_ok_vm [OF assms(1) _ assms(2), of k v] by (cases "k = i") simp_all
  show "(V(i \<mapsto> v')) k \<noteq> None \<and> length (filter IsCurrent ss) \<le> 1 \<and> distinct (map snap_ID ss)
      \<and> (\<forall>s \<in> set ss. snap_VMID s = k \<and> fresh_id ''snap'' q' (snap_ID s))" if "S k = Some ss" for k ss
    using view_ok_snaps [OF assms(1) that assms(2)] by simp
qed

text \<open>Replacing the snapshots of a machine.\<close>

lemma view_ok_snaps_upd:
  assumes "view_ok (V, S, q)" "q \<le> q'" "V i = Some v" "length (filter IsCurrent ss) \<le> 1" "distinct (map snap_ID ss)"
    and "\<forall>s \<in> set ss. snap_VMID s = i \<and> fresh_id ''snap'' q' (snap_ID s)"
  shows "view_ok (V(i \<mapsto> v\<lparr>vm_SnapshotCount := int (length ss)\<rparr>), S(i \<mapsto> ss), q')"
proof (rule view_okI)
  show "0 \<le> q'" using assms(1,2) by simp
  show "vm_ID w = k \<and> fresh_id ''vm'' q' k \<and> vm_SnapshotCount w = int (length (snaps_in (S(i \<mapsto> ss)) k))"
    if "(V(i \<mapsto> v\<lparr>vm_SnapshotCount := int (length ss)\<rparr>)) k = Some w" for k w
    using that view_ok_vm [OF assms(1) _ assms(2), of k] view_ok_vm [OF assms(1,3,2)]
    by (cases "k = i") (auto simp: snaps_in_def)
  show "(V(i \<mapsto> v\<lparr>vm_SnapshotCount := int (length ss)\<rparr>)) k \<noteq> None \<and> length (filter IsCurrent xs) \<le> 1
      \<and> distinct (map snap_ID xs) \<and> (\<forall>s \<in> set xs. snap_VMID s = k \<and> fresh_id ''snap'' q' (snap_ID s))"
    if "(S(i \<mapsto> ss)) k = Some xs" for k xs
    using that view_ok_snaps [OF assms(1) _ assms(2), of k xs] assms(4-6) by (cases "k = i") simp_all
qed

lemma change_ok:
  assumes "vm_change a b" "view_ok a" "snd (snd a) + 1 < 2 ^ 63"
  shows "view_ok b"
  using assms(1)
proof (cases rule: vm_change.cases)
  case (other q q' V S)
  have ok: "view_ok (V, S, q)" using assms(2) other by simp
  show ?thesis unfolding other(2)
  proof (rule view_okI)
    show "0 \<le> q'" using ok other by simp
  qed (use view_ok_vm [OF ok _ other(3)] view_ok_snaps [OF ok _ other(3)] in blast)+
next
  case (modify V i v v' S q)
  have ok: "view_ok (V, S, q)" using assms(2) modify by simp
  show ?thesis unfolding modify(2)
    by (rule view_ok_upd [OF ok]) (use view_ok_vm [OF ok modify(3), of "q + 1"] modify in simp_all)
next
  case (create i q v V S)
  have ok: "view_ok (V, S, q)" and q: "q + 1 < 2 ^ 63" using assms(2,3) create by simp_all
  have "S i = None" using view_ok_snaps [OF ok, of i _ q] view_ok_room [OF ok q] create(3) by (cases "S i") simp_all
  then show ?thesis unfolding create(2)
    by (intro view_ok_upd [OF ok]) (use ok q create next_fresh [of q "q + 2" "''vm''"] in \<open>simp_all add: snaps_in_def\<close>)
next
  case (delete V i v S q)
  have ok: "view_ok (V, S, q)" using assms(2) delete by simp
  show ?thesis unfolding delete(2)
  proof (rule view_okI)
    show "0 \<le> q + 1" using ok by simp
    show "vm_ID w = k \<and> fresh_id ''vm'' (q + 1) k \<and> vm_SnapshotCount w = int (length (snaps_in (S(i := None)) k))"
      if "(V(i := None)) k = Some w" for k w
      using that view_ok_vm [OF ok, of k w "q + 1"] by (cases "k = i") (simp_all add: snaps_in_def)
    show "(V(i := None)) k \<noteq> None \<and> length (filter IsCurrent ss) \<le> 1 \<and> distinct (map snap_ID ss)
        \<and> (\<forall>s \<in> set ss. snap_VMID s = k \<and> fresh_id ''snap'' (q + 1) (snap_ID s))" if "(S(i := None)) k = Some ss" for k ss
      using that view_ok_snaps [OF ok, of k ss "q + 1"] by (cases "k = i") simp_all
  qed
next
  case (take V i v s q ss S)
  have ok: "view_ok (V, S, q)" and q: "q + 1 < 2 ^ 63" using assms(2,3) take by simp_all
  have old: "distinct (map snap_ID (snaps_in S i)) \<and> (\<forall>x \<in> set (snaps_in S i). snap_VMID x = i
      \<and> fresh_id ''snap'' q (snap_ID x))"
    using view_ok_snaps [OF ok, of i _ q] by (cases "S i") (simp_all add: snaps_in_def)
  have new: "snap_ID s \<notin> snap_ID ` set (snaps_in S i)"
    using old next_not_fresh [of q "''snap''"] ok q take(4) by auto
  show ?thesis unfolding take(2)
  proof (rule view_ok_snaps_upd [OF ok _ take(3)])
    show "length (filter IsCurrent ss) \<le> 1" unfolding take(6) by (simp add: o_def)
    show "distinct (map snap_ID ss)" unfolding take(6) using old new by (simp add: o_def)
    have "fresh_id ''snap'' (q + 2) (snap_ID s)" using next_fresh [of q "q + 2" "''snap''"] ok q take(4) by simp
    then show "\<forall>x \<in> set ss. snap_VMID x = i \<and> fresh_id ''snap'' (q + 2) (snap_ID x)"
      unfolding take(6) using old take(5) fresh_id_mono [of "''snap''" q _ "q + 2"] by auto
  qed simp
next
  case (revert S i ss q q' V sid)
  have ok: "view_ok (V, S, q)" using assms(2) revert by simp
  note old = view_ok_snaps [OF ok revert(3,4)]
  obtain v where v: "V i = Some v" using old by blast
  have "\<forall>s \<in> set (mark_current sid ss). snap_VMID s = i \<and> fresh_id ''snap'' q' (snap_ID s)"
    using old mark_current_fields(3) [of _ sid ss] by metis
  then have new: "view_ok (V(i \<mapsto> v\<lparr>vm_SnapshotCount := int (length (mark_current sid ss))\<rparr>), S(i \<mapsto> mark_current sid ss), q')"
    using view_ok_snaps_upd [OF ok revert(4) v, of "mark_current sid ss"] old mark_current_one [of ss sid]
    by (simp add: mark_current_fields)
  have "vm_SnapshotCount v = int (length (mark_current sid ss))"
    using view_ok_vm [OF ok v revert(4)] revert(3) by (simp add: snaps_in_def mark_current_fields)
  then have "V(i \<mapsto> v\<lparr>vm_SnapshotCount := int (length (mark_current sid ss))\<rparr>) = V" using v by auto
  then show ?thesis using new revert(2) by simp
qed

subsection \<open>Runs\<close>

definition sim_ok :: "sim \<Rightarrow> bool" where
  "sim_ok p \<longleftrightarrow> view_ok (abs_of p)"

lemma step_ok: "room (Suc n) p \<Longrightarrow> sim_ok p \<Longrightarrow> sim_ok (sim_step p c) \<and> room n (sim_step p c)"
proof -
  assume r: "room (Suc n) p" and ok: "sim_ok p"
  note chg = step_change [OF r, of c]
  have "snd (snd (abs_of p)) + 1 < 2 ^ 63" using r by (simp add: room_def abs_of_def)
  then have "sim_ok (sim_step p c)" using change_ok [OF chg] ok by (simp add: sim_ok_def)
  moreover have "seq p \<le> seq (sim_step p c)" "seq (sim_step p c) \<le> seq p + 2"
    using change_seq chg unfolding abs_of_def by blast+
  ultimately show ?thesis using r by (simp add: room_def)
qed

text \<open>The number of operations left is part of the state of a run, so that the sequence does not
  wrap around while it is not negative.\<close>

definition budget_step :: "sim \<times> int \<Rightarrow> sim_op \<times> int \<Rightarrow> sim \<times> int" where
  "budget_step s c = (sim_step (fst s) c, snd s - 1)"

definition budget_inv :: "(sim \<Rightarrow> bool) \<Rightarrow> sim \<times> int \<Rightarrow> bool" where
  "budget_inv P s \<longleftrightarrow> (0 \<le> snd s \<longrightarrow> sim_ok (fst s) \<and> room (nat (snd s)) (fst s) \<and> P (fst s))"

lemma budget_run: "foldl budget_step (p, n) cs = (foldl sim_step p cs, n - int (length cs))"
  by (induction cs arbitrary: p n) (simp_all add: budget_step_def)

lemma budget_step_inv:
  assumes "budget_inv P s" "\<And>n p. sim_ok p \<Longrightarrow> room (Suc n) p \<Longrightarrow> P p \<Longrightarrow> P (sim_step p c)"
  shows "budget_inv P (budget_step s c)"
  unfolding budget_inv_def
proof (rule impI)
  assume "0 \<le> snd (budget_step s c)"
  then have n: "0 \<le> snd s" "nat (snd s) = Suc (nat (snd s - 1))" by (simp_all add: budget_step_def)
  then have "sim_ok (fst s)" "room (Suc (nat (snd s - 1))) (fst s)" "P (fst s)"
    using assms(1) by (simp_all add: budget_inv_def)
  then show "sim_ok (fst (budget_step s c)) \<and> room (nat (snd (budget_step s c))) (fst (budget_step s c))
      \<and> P (fst (budget_step s c))"
    using step_ok assms(2) by (simp add: budget_step_def)
qed

interpretation consistent: run_invariant budget_step "\<lambda>_. True" "budget_inv (\<lambda>_. True)"
  by unfold_locales (rule budget_step_inv, simp_all)

text \<open>A protected machine is protected still.\<close>

definition protected_in :: "string \<Rightarrow> sim \<Rightarrow> bool" where
  "protected_in k p \<longleftrightarrow> (\<exists>v. map_of (vms p) k = Some v \<and> vm_Protected v)"

lemma change_protected:
  assumes "vm_change (V, S, q) (V', S', q')" "view_ok (V, S, q)" "q + 1 < 2 ^ 63" "V k = Some v" "vm_Protected v"
  shows "\<exists>v'. V' k = Some v' \<and> vm_Protected v'"
  using assms(1)
proof (cases rule: vm_change.cases)
  case (create i w)
  have "V i = None" using view_ok_room [OF assms(2,3)] create by simp
  then have "k \<noteq> i" using assms(4) by auto
  then show ?thesis using create assms by simp
next
  case (modify i w w')
  then show ?thesis using assms by (cases "k = i") auto
next
  case (delete i w)
  then show ?thesis using assms by (cases "k = i") auto
next
  case (take i w s ss)
  then show ?thesis using assms by (cases "k = i") auto
qed (use assms in auto)

interpretation guarded: run_invariant budget_step "\<lambda>_. True" "budget_inv (protected_in k)" for k
proof
  fix s op
  assume "budget_inv (protected_in k) s"
  then show "budget_inv (protected_in k) (budget_step s op)"
  proof (rule budget_step_inv)
    fix n p
    assume "sim_ok p" and r: "room (Suc n) p" and "protected_in k p"
    then obtain v where v: "map_of (vms p) k = Some v" "vm_Protected v"
      and ok: "view_ok (map_of (vms p), map_of (snapshots p), seq p)"
      by (auto simp: protected_in_def sim_ok_def abs_of_def)
    have "seq p + 1 < 2 ^ 63" using r by (simp add: room_def)
    from change_protected [OF step_change [OF r, of op, unfolded abs_of_def] ok this v]
    show "protected_in k (sim_step p op)" by (simp add: protected_in_def)
  qed
qed

subsection \<open>The properties\<close>

lemma token_unique:
  "distinct (map snd ts) \<Longrightarrow> (b, t) \<in> set ts \<Longrightarrow> t \<in> set (map snd (filter (\<lambda>(b, _). Has c b) ts)) \<longleftrightarrow> Has c b"
proof -
  assume "distinct (map snd ts)" and b: "(b, t) \<in> set ts"
  then have inj: "inj_on snd (set ts)" by (simp add: distinct_map)
  have "b' = b" if "(b', t) \<in> set ts" for b' using inj_onD [OF inj _ that b] by simp
  moreover have "t \<in> set (map snd (filter (\<lambda>(b, _). Has c b) ts)) \<longleftrightarrow> (\<exists>b'. (b', t) \<in> set ts \<and> Has c b')" by force
  ultimately show ?thesis using b by metis
qed

lemma tokens_distinct: "distinct (map snd (capTokens @ extTokens))"
  by code_simp

lemma Strings_token: "(b, t) \<in> set (capTokens @ extTokens) \<Longrightarrow> t \<in> set (Strings c) \<longleftrightarrow> Has c b"
proof -
  assume b: "(b, t) \<in> set (capTokens @ extTokens)"
  have "Strings c = map snd (filter (\<lambda>(b, _). Has c b) (capTokens @ extTokens))"
    by (simp add: Strings_def ExtStrings_def)
  then show ?thesis using token_unique [OF tokens_distinct b, of c] by (simp only:)
qed

lemma needed_has_token: "needed op = Some cap \<Longrightarrow> cap \<in> set (map fst (capTokens @ extTokens))"
  by (cases op)
    (simp_all add: capTokens_def extTokens_def PowerOpCapability_def PowerOp_Valid_def split: if_splits)

lemma call_supported: "needed op = Some cap \<Longrightarrow> Has (p_caps p) cap \<Longrightarrow> snd (call p (op, now)) \<noteq> Inl ErrUnsupported"
  by (cases op) (simp_all add: op_defs nextID_eq Let_def split: if_splits option.split)

definition golden :: clone_spec where
  "golden = \<lparr>cs_Name = ''golden'', cs_HostID = [], cs_StorageID = [], Linked = False, PowerOn = False\<rparr>"

text \<open>The capability tokens the interface greys its actions out with are exact: an operation
  is answered with the unsupported error precisely when its token is missing from the list, and it
  then leaves the provider as it was.\<close>

theorem capability_tokens_gate:
  assumes "needed op = Some cap" "(cap, token) \<in> set (capTokens @ extTokens)"
  shows "(token \<in> set (Strings (p_caps p)) \<longleftrightarrow> snd (call p (op, now)) \<noteq> Inl ErrUnsupported)
    \<and> (token \<in> set (Strings (p_caps p)) \<or> fst (call p (op, now)) = p)"
  unfolding Strings_token [OF assms(2)]
  using call_supported [OF assms(1)] call_unsupported [OF assms(1)] by (metis fst_conv snd_conv)

theorem capability_tokens_gate_witness:
  "snd (call (New ''ro'' [WithCaps CapListVMs]) (Op_Clone ''vm-1'' golden, 7)) = Inl ErrUnsupported"
proof -
  have "needed (Op_Clone ''vm-1'' golden) = Some CapClone" by simp
  moreover have "(CapClone, ''clone'') \<in> set (capTokens @ extTokens)" by (simp add: capTokens_def)
  moreover have "\<not> list_ex (\<lambda>t. t = ''clone'') (Strings (p_caps (New ''ro'' [WithCaps CapListVMs])))"
    by code_simp
  then have "''clone'' \<notin> set (Strings (p_caps (New ''ro'' [WithCaps CapListVMs])))"
    by (simp add: list_ex_iff)
  ultimately show ?thesis using capability_tokens_gate by blast
qed

text \<open>Once the identifier sequence has passed the seeded machines, every run of operations
  keeps the records consistent: machines are filed under their own id, the snapshot count is the
  number of snapshots, at most one snapshot is current and their ids are distinct.\<close>

theorem sim_run_consistent:
  assumes "sim_ok p" "0 \<le> seq p" "seq p + 2 * int (length cs) < 2 ^ 63"
    and "map_of (vms (foldl sim_step p cs)) k = Some v"
  shows "vm_ID v = k \<and> vm_SnapshotCount v = int (length (snaps_of (foldl sim_step p cs) k))
    \<and> length (filter IsCurrent (snaps_of (foldl sim_step p cs) k)) \<le> 1
    \<and> distinct (map snap_ID (snaps_of (foldl sim_step p cs) k))"
proof -
  let ?p = "foldl sim_step p cs"
  have "budget_inv (\<lambda>_. True) (p, int (length cs))" using assms(1-3) by (simp add: budget_inv_def room_def)
  from consistent.run_inv [OF this, of cs] have "sim_ok ?p"
    by (simp add: budget_run budget_inv_def list.pred_True)
  then have ok: "view_ok (map_of (vms ?p), map_of (snapshots ?p), seq ?p)" by (simp add: sim_ok_def abs_of_def)
  show ?thesis
    using view_ok_vm [OF ok assms(4) order_refl] view_ok_snaps [OF ok, of k _ "seq ?p"]
    by (cases "map_of (snapshots ?p) k") (simp_all add: snaps_of_in snaps_in_def)
qed

lemma step_removes:
  assumes "map_of (vms p) k = Some v" "map_of (vms (sim_step p (op, now))) k = None"
  shows "\<exists>opts. op = Op_Delete k opts \<and> \<not> vm_Protected v \<and> (vm_State v = StateRunning \<longrightarrow> Force opts)"
  using assms
  by (cases op)
    (simp_all add: sim_step_def op_defs nextID_eq Let_def map_of_put map_of_del split: if_splits option.splits)

text \<open>A machine disappears only by a delete call that names it, made at a moment when it was
  not protected and either not running or deleted by force.\<close>

theorem removal_needs_delete:
  assumes "map_of (vms p) k \<noteq> None" "map_of (vms (foldl sim_step p cs)) k = None"
  shows "\<exists>before opts now after v. cs = before @ (Op_Delete k opts, now) # after
    \<and> map_of (vms (foldl sim_step p before)) k = Some v \<and> \<not> vm_Protected v
    \<and> (vm_State v = StateRunning \<longrightarrow> Force opts)"
  using assms
proof (induction cs arbitrary: p)
  case Nil
  then show ?case by simp
next
  case (Cons c cs)
  obtain op now where c: "c = (op, now)" by (rule prod.exhaust)
  obtain v where v: "map_of (vms p) k = Some v" using Cons.prems(1) by blast
  show ?case
  proof (cases "map_of (vms (sim_step p c)) k")
    case None
    then obtain opts where "op = Op_Delete k opts" "\<not> vm_Protected v" "vm_State v = StateRunning \<longrightarrow> Force opts"
      using step_removes [OF v] c by blast
    then show ?thesis using c v by (intro exI [of _ "[]"] exI [of _ opts] exI [of _ now] exI [of _ cs]) simp
  next
    case (Some w)
    then obtain before opts t after x where "cs = before @ (Op_Delete k opts, t) # after"
      "map_of (vms (foldl sim_step (sim_step p c) before)) k = Some x" "\<not> vm_Protected x"
      "vm_State x = StateRunning \<longrightarrow> Force opts"
      using Cons.IH [of "sim_step p c"] Cons.prems(2) by auto
    then show ?thesis
      by (intro exI [of _ "c # before"] exI [of _ opts] exI [of _ t] exI [of _ after]) simp
  qed
qed

text \<open>A checkable form of the invariant for a provider without snapshots.\<close>

lemma sim_ok_no_snapshots:
  assumes "snapshots p = []" "0 \<le> seq p" "seq p < 2 ^ 63"
    and "list_all (\<lambda>(k, v). vm_ID v = k \<and> vm_SnapshotCount v = 0 \<and> list_ex (\<lambda>n. k = id_of ''vm'' n) [0..seq p]) (vms p)"
  shows "sim_ok p"
  unfolding sim_ok_def abs_of_def
proof (rule view_okI)
  fix k v
  assume "map_of (vms p) k = Some v"
  then have "(k, v) \<in> set (vms p)" by (rule map_of_SomeD)
  then have v: "vm_ID v = k" "vm_SnapshotCount v = 0" "list_ex (\<lambda>n. k = id_of ''vm'' n) [0..seq p]"
    using assms(4) by (auto simp: list_all_iff)
  then obtain n where "n \<in> set [0..seq p]" "k = id_of ''vm'' n" unfolding list_ex_iff by blast
  then have "fresh_id ''vm'' (seq p) k" unfolding fresh_id_def using assms(3) by (intro exI [of _ n]) simp
  with v show "vm_ID v = k \<and> fresh_id ''vm'' (seq p) k
      \<and> vm_SnapshotCount v = int (length (snaps_in (map_of (snapshots p)) k))"
    by (simp add: assms(1) snaps_in_def)
qed (simp_all add: assms)

definition used_sim :: "string \<Rightarrow> sim" where
  "used_sim i = foldl sim_step (New i [])
     [(Op_Power ''vm-3'' ''start'', 1), (Op_Power ''vm-3'' ''suspend'', 2), (Op_Power ''vm-3'' ''stop'', 3)]"

lemma used_sim_ok: "sim_ok (used_sim ''s'')" "seq (used_sim ''s'') = 3"
proof -
  have "snapshots (used_sim ''s'') = []" "seq (used_sim ''s'') = 3"
    "list_all (\<lambda>(k, v). vm_ID v = k \<and> vm_SnapshotCount v = 0 \<and> list_ex (\<lambda>n. k = id_of ''vm'' n) [0..3]) (vms (used_sim ''s''))"
    by code_simp+
  then show "sim_ok (used_sim ''s'')" "seq (used_sim ''s'') = 3"
    using sim_ok_no_snapshots [of "used_sim ''s''"] by simp_all
qed

definition two_snapshots :: "(sim_op \<times> int) list" where
  "two_snapshots = (let o1 = \<lparr>so_Name = ''a'', so_Description = [], so_Memory = False, so_Quiesce = False\<rparr>
     in [(Op_Snapshot ''vm-3'' o1, 4), (Op_Snapshot ''vm-3'' o1, 5), (Op_Revert ''vm-3'' ''snap-4'', 6)])"

theorem sim_run_consistent_witness:
  "map_option vm_SnapshotCount (map_of (vms (foldl sim_step (used_sim ''s'') two_snapshots)) ''vm-3'') = Some 2
    \<and> length (filter IsCurrent (snaps_of (foldl sim_step (used_sim ''s'') two_snapshots) ''vm-3'')) = 1"
proof -
  let ?p = "foldl sim_step (used_sim ''s'') two_snapshots"
  have len: "length (snaps_of ?p ''vm-3'') = 2" "length (filter IsCurrent (snaps_of ?p ''vm-3'')) = 1"
    "map_of (vms ?p) ''vm-3'' \<noteq> None" "length two_snapshots = 3"
    by code_simp+
  then obtain v where v: "map_of (vms ?p) ''vm-3'' = Some v" by blast
  have "0 \<le> seq (used_sim ''s'')" "seq (used_sim ''s'') + 2 * int (length two_snapshots) < 2 ^ 63"
    using used_sim_ok(2) len(4) by simp_all
  from sim_run_consistent [OF used_sim_ok(1) this v] show ?thesis using v len by simp
qed

theorem removal_needs_delete_witness:
  "\<exists>opts now v. map_of (vms (New ''s'' [])) ''vm-1'' = Some v \<and> vm_State v = StateRunning \<and> Force opts
     \<and> [(Op_Delete ''vm-1'' \<lparr>Force = True, DeleteDisks = False\<rparr>, 9)] = [(Op_Delete ''vm-1'' opts, now :: int)]"
proof -
  let ?cs = "[(Op_Delete ''vm-1'' \<lparr>Force = True, DeleteDisks = False\<rparr>, 9)]"
  have "map_option vm_State (map_of (vms (New ''s'' [])) ''vm-1'') = Some StateRunning"
    "map_of (vms (foldl sim_step (New ''s'' []) ?cs)) ''vm-1'' = None" by code_simp+
  then have st: "map_of (vms (New ''s'' [])) ''vm-1'' \<noteq> None" "map_of (vms (foldl sim_step (New ''s'' []) ?cs)) ''vm-1'' = None"
    and run: "map_option vm_State (map_of (vms (New ''s'' [])) ''vm-1'') = Some StateRunning" by auto
  from removal_needs_delete [OF st] obtain before opts now after v where
    cs: "?cs = before @ (Op_Delete ''vm-1'' opts, now) # after"
    and v: "map_of (vms (foldl sim_step (New ''s'' []) before)) ''vm-1'' = Some v"
    "vm_State v = StateRunning \<longrightarrow> Force opts" by blast
  have "before = []" "after = []" using cs by (cases before; simp)+
  then show ?thesis using cs v run by auto
qed

text \<open>
  The seeded provider numbers from one although its machines are called \<open>vm-1\<close> to \<open>vm-3\<close>: the
  first creation replaces a seeded machine.
\<close>

definition small_vm :: vm_spec where
  "small_vm = \<lparr>vs_Name = ''new'', vs_HostID = [], vs_ClusterID = [], vs_VCPUs = 1, vs_MemoryMB = 512,
     vs_GuestOS = [], vs_Firmware = [], vs_Disks = [], vs_NICs = [], vs_Labels = [], BootISO = [],
     TPM = False, SecureBoot = False, CloudInit = None, CPU = None, IsTemplate = False, Sysprep = None\<rparr>"

lemma first_create_overwrites:
  "map (\<lambda>(k, v). (k, vm_Name v)) (vms (sim_step (New ''s'' []) (Op_Create small_vm, 1)))
     = [(''vm-1'', ''new''), (''vm-2'', ''sim-vm-2''), (''vm-3'', ''sim-vm-3'')]"
  by code_simp

text \<open>Reverting to an unknown snapshot is refused, but no snapshot is current afterwards.\<close>

lemma failed_revert_clears_current:
  "let p = foldl sim_step (used_sim ''s'') (take 1 two_snapshots); (p', r) = RevertSnapshot p ''vm-3'' ''nope'' 9
   in r = Inl ErrNotFound \<and> map IsCurrent (snaps_of p ''vm-3'') = [True] \<and> map IsCurrent (snaps_of p' ''vm-3'') = [False]"
  by code_simp

end
