(* ===== verification/Migrate_Props.thy ===== *)
theory Migrate_Props
  imports Migrate Sim_Props
begin

text \<open>
  The migration engine over any provider that keeps the contract of the locale \<open>hypervisor\<close>: a
  migration always ends, in a job that is done or failed; if it failed no provider has changed, if
  it is done the target has exactly one machine more. The simulated provider of \<open>Sim\<close> keeps the
  contract. Background jobs get a fresh id, under which the terminal state of the run appears.
\<close>

subsection \<open>The jobs of the engine\<close>

text \<open>The job \<open>i\<close> exists and every other job is as in \<open>e0\<close>.\<close>

definition owns :: "engine \<Rightarrow> engine \<Rightarrow> string \<Rightarrow> bool" where
  "owns e0 e i \<longleftrightarrow> (\<exists>j. map_of (jobs e) i = Some j \<and> pr_ID j = i) \<and> job_seq e = job_seq e0
     \<and> (\<forall>k. k \<noteq> i \<longrightarrow> map_of (jobs e) k = map_of (jobs e0) k)"

lemmas job_defs = update_def annotate_def fail_def finishOK_def now_of_def Let_def

lemma owns_update: "owns e0 e i \<Longrightarrow> owns e0 (update e i ph pct msg) i"
  by (auto simp: owns_def job_defs map_of_put)

lemma owns_annotate: "owns e0 e i \<Longrightarrow> owns e0 (annotate e i msg) i"
  by (auto simp: owns_def job_defs map_of_put)

lemma owns_fail:
  assumes "owns e0 e i"
  obtains e' j where "fail e i msg = (e', Some j)" "owns e0 e' i" "map_of (jobs e') i = Some j"
    "pr_ID j = i" "Phase j = ''failed''"
  using assms by (auto simp: owns_def job_defs map_of_put)

lemma owns_finishOK:
  assumes "owns e0 e i"
  obtains e' j where "finishOK e i target = Some (e', j)" "owns e0 e' i" "map_of (jobs e') i = Some j"
    "pr_ID j = i" "Phase j = ''done''" "TargetVMID j = target"
  using assms by (auto simp: owns_def job_defs map_of_put)

subsection \<open>The provider contract\<close>

text \<open>A machine made to a specification.\<close>

definition built_to :: "vm_spec \<Rightarrow> vm \<Rightarrow> bool" where
  "built_to spec v \<longleftrightarrow> vm_Name v = vs_Name spec \<and> vm_HostID v = vs_HostID spec
     \<and> vm_VCPUs v = vs_VCPUs spec \<and> vm_MemoryMB v = vs_MemoryMB spec \<and> vm_GuestOS v = vs_GuestOS spec
     \<and> vm_Firmware v = vs_Firmware spec
     \<and> map (\<lambda>d. (dk_Format d, dk_CapacityGB d, dk_StorageID d)) (vm_Disks v)
       = map (\<lambda>d. (ds_Format d, ds_CapacityGB d, ds_StorageID d)) (vs_Disks spec)"

text \<open>
  What the engine relies on. \<open>ready n p\<close> says that the provider \<open>p\<close> is consistent and has room for
  \<open>n\<close> more operations.
\<close>

locale hypervisor =
  fixes hv :: "'p hv" and vm_at :: "'p \<Rightarrow> string \<Rightarrow> vm option" and ready :: "nat \<Rightarrow> 'p \<Rightarrow> bool"
  assumes create_error: "hv_CreateVM hv p spec w = (p', Inl e) \<Longrightarrow> p' = p"
    and create_new: "ready (Suc n) p \<Longrightarrow> hv_CreateVM hv p spec w = (p', Inr r) \<Longrightarrow>
      ready n p' \<and> (\<exists>t v. r = Some t \<and> task_EntityID t \<noteq> [] \<and> vm_at p (task_EntityID t) = None
        \<and> vm_at p' = (vm_at p)(task_EntityID t \<mapsto> v) \<and> vm_ID v = task_EntityID t \<and> built_to spec v)"
    and power_frame: "ready (Suc n) p \<Longrightarrow> hv_PowerOp hv p i op w = (p', res) \<Longrightarrow>
      ready n p' \<and> (vm_at p' = vm_at p \<or> (\<exists>v v'. vm_at p i = Some v \<and> vm_at p' = (vm_at p)(i \<mapsto> v')
        \<and> vm_ID v' = vm_ID v \<and> (\<forall>spec. built_to spec v \<longrightarrow> built_to spec v')))"
begin

text \<open>The target \<open>tgt'\<close> is \<open>tgt\<close> with one new machine, made to the specification.\<close>

definition gained :: "vm_spec \<Rightarrow> 'p \<Rightarrow> 'p \<Rightarrow> string \<Rightarrow> bool" where
  "gained spec tgt tgt' i \<longleftrightarrow> i \<noteq> [] \<and> vm_at tgt i = None
     \<and> (\<exists>v. vm_at tgt' = (vm_at tgt)(i \<mapsto> v) \<and> vm_ID v = i \<and> built_to spec v)"

text \<open>The run ended for the job \<open>i\<close>: the outcome is recorded and no other job has changed.\<close>

definition ended ::
  "engine \<Rightarrow> string \<Rightarrow> ('p registry \<Rightarrow> progress \<Rightarrow> string option \<Rightarrow> bool) \<Rightarrow> 'p run_result \<Rightarrow> bool" where
  "ended e0 i P r \<longleftrightarrow> (\<exists>reg' e' j err. r = Some (reg', e', Some j, err) \<and> owns e0 e' i
     \<and> map_of (jobs e') i = Some j \<and> pr_ID j = i \<and> P reg' j err)"

definition verdict ::
  "request \<Rightarrow> 'p registry \<Rightarrow> vm_spec option \<Rightarrow> 'p registry \<Rightarrow> progress \<Rightarrow> string option \<Rightarrow> bool" where
  "verdict req reg spec reg' j err \<longleftrightarrow>
     (case err of
        Some msg \<Rightarrow> Phase j = ''failed'' \<and> map_of reg' = map_of reg
      | None \<Rightarrow> Phase j = ''done'' \<and> (\<exists>sp tgt tgt'. spec = Some sp \<and> map_of reg (TargetProviderID req) = Some tgt
          \<and> map_of reg' = (map_of reg)(TargetProviderID req \<mapsto> tgt') \<and> gained sp tgt tgt' (TargetVMID j)))"

lemma failed_ended:
  assumes "owns e0 e i" "map_of reg' = map_of reg"
  shows "ended e0 i (verdict req reg spec) (failed reg' e i msg err)"
proof -
  obtain e' j where "fail e i msg = (e', Some j)" "owns e0 e' i" "map_of (jobs e') i = Some j" "pr_ID j = i"
    "Phase j = ''failed''" by (rule owns_fail [OF assms(1)])
  then show ?thesis using assms(2) unfolding ended_def failed_def verdict_def by simp
qed

lemma finish_ended:
  assumes "owns e0 e i" "map_of reg (TargetProviderID req) = Some tgt" "gained spec tgt tgt' new"
    and "map_of reg' = (map_of reg)(TargetProviderID req \<mapsto> tgt')"
  shows "ended e0 i (verdict req reg (Some spec))
    (case finishOK e i new of None \<Rightarrow> None | Some (e3, final) \<Rightarrow> Some (reg', e3, Some final, None))"
proof -
  obtain e' j where "finishOK e i new = Some (e', j)" "owns e0 e' i" "map_of (jobs e') i = Some j" "pr_ID j = i"
    "Phase j = ''done''" "TargetVMID j = new" by (rule owns_finishOK [OF assms(1)])
  then show ?thesis using assms(2-4) unfolding ended_def verdict_def by simp blast
qed

lemma finalize_ended:
  assumes own: "owns e0 e i" and r: "ready (Suc n) tgt1" and g: "gained spec tgt tgt1 new"
    and t: "map_of reg (TargetProviderID req) = Some tgt"
  shows "ended e0 i (verdict req reg (Some spec))
    (finalize hv req w (put reg (TargetProviderID req) tgt1) tgt1 e i new)"
proof -
  let ?T = "TargetProviderID req"
  obtain tgt2 res where pw: "hv_PowerOp hv tgt1 new ''start'' w = (tgt2, res)" by (rule prod.exhaust)
  have g2: "gained spec tgt tgt2 new"
    using power_frame [OF r pw] g by (auto simp: gained_def)
  note own1 = owns_update [OF own, of "''finalize''" 95 "''finalizing''"]
  have m: "map_of (put reg ?T tgt1) = (map_of reg)(?T \<mapsto> tgt1)"
    "map_of (put (put reg ?T tgt1) ?T tgt2) = (map_of reg)(?T \<mapsto> tgt2)" by (simp_all add: map_of_put)
  show ?thesis
  proof (cases "PowerOnAfter req \<and> Has (hv_Capabilities hv tgt1) CapPowerStart")
    case True
    then show ?thesis
      using finish_ended [OF own1 t g2 m(2)] finish_ended [OF owns_annotate [OF own1] t g2 m(2)]
      by (cases res) (simp_all add: finalize_def pw)
  next
    case False
    then show ?thesis using finish_ended [OF own1 t g m(1)] unfolding finalize_def Let_def if_not_P [OF False] by simp
  qed
qed

lemma import_ended:
  assumes own: "owns e0 e i" and r: "ready 2 tgt" and t: "map_of reg (TargetProviderID req) = Some tgt"
  shows "ended e0 i (verdict req reg (Some spec)) (import_vm hv req w reg tgt spec e i)"
proof -
  obtain tgt1 res where c: "hv_CreateVM hv tgt spec w = (tgt1, res)" by (rule prod.exhaust)
  show ?thesis
  proof (cases res)
    case (Inl err)
    then have "tgt1 = tgt" using create_error c by simp
    then have "map_of (put reg (TargetProviderID req) tgt1) = map_of reg" using t by (auto simp: map_of_put)
    then show ?thesis using failed_ended [OF own] by (simp add: import_vm_def c Inl)
  next
    case (Inr ot)
    have "ready (Suc 1) tgt" using r by (simp add: numeral_2_eq_2)
    from create_new [OF this c [unfolded Inr]] obtain tk where tk: "ot = Some tk" "ready 1 tgt1"
      "gained spec tgt tgt1 (task_EntityID tk)" by (auto simp: gained_def)
    then show ?thesis using finalize_ended [OF own, of 0 tgt1 spec tgt "task_EntityID tk" reg req w] t
      by (simp add: import_vm_def c Inr)
  qed
qed

text \<open>The specification a migration asks the target for, if the export and the conversion succeed.\<close>

definition planned :: "converter \<Rightarrow> request \<Rightarrow> 'p registry \<Rightarrow> vm_spec option" where
  "planned conv req reg =
     (case (map_of reg (SourceProviderID req), map_of reg (TargetProviderID req)) of
        (Some src, Some tgt) \<Rightarrow>
          (let from = nativeFormat (hv_Kind hv src); to = nativeFormat (hv_Kind hv tgt)
           in case hv_ExportVM hv src (SourceVMID req) from of
                Inl _ \<Rightarrow> None
              | Inr (rc, info) \<Rightarrow>
                  if snd (conv rc from to) \<noteq> None then None
                  else Some (mapToTargetSpec req info to (int (length (fst (conv rc from to))))))
      | _ \<Rightarrow> None)"

lemma transfer_ended:
  assumes own: "owns e0 e i" and r: "ready 2 tgt"
    and t: "map_of reg (SourceProviderID req) = Some src" "map_of reg (TargetProviderID req) = Some tgt"
    and pf: "SourceFormat pf = nativeFormat (hv_Kind hv src)" "TargetFormat pf = nativeFormat (hv_Kind hv tgt)"
  shows "ended e0 i (verdict req reg (planned conv req reg)) (transfer hv conv req w pf reg src tgt e i)"
proof -
  note own1 = owns_update [OF own, of "''export''" 10 "''exporting source disks''"]
  show ?thesis
  proof (cases "hv_ExportVM hv src (SourceVMID req) (nativeFormat (hv_Kind hv src))")
    case (Inl err)
    then show ?thesis using failed_ended [OF own1] by (simp add: transfer_def pf)
  next
    case (Inr x)
    obtain rc info where x: "x = (rc, info)" by (rule prod.exhaust)
    obtain out cerr where cv: "conv rc (nativeFormat (hv_Kind hv src)) (nativeFormat (hv_Kind hv tgt)) = (out, cerr)"
      by (rule prod.exhaust)
    show ?thesis
    proof (cases cerr)
      case (Some c)
      then show ?thesis using failed_ended [OF owns_update [OF own1]]
        by (simp add: transfer_def pf Inr x cv drain_def)
    next
      case None
      then have "planned conv req reg
          = Some (mapToTargetSpec req info (nativeFormat (hv_Kind hv tgt)) (int (length out)))"
        by (simp add: planned_def t Inr x cv)
      then show ?thesis using import_ended [OF owns_update [OF owns_update [OF own1]] r t(2)] None
        by (simp add: transfer_def pf Inr x cv drain_def)
    qed
  qed
qed

theorem run_ended:
  assumes own: "newID e0 = (i, e1)" and r: "\<And>tgt. map_of reg (TargetProviderID req) = Some tgt \<Longrightarrow> ready 2 tgt"
  shows "ended e1 i (verdict req reg (planned conv req reg)) (Run hv conv req w reg e0)"
proof -
  define prog where "prog t1 t2 = \<lparr>pr_ID = i, Phase = ''preflight'', Percent = 0,
     pr_Message = ''running pre-flight checks'', pr_SourceVMID = SourceVMID req,
     TargetVMID = [], pr_Error = [], StartedAt = t1, UpdatedAt = t2\<rparr>" for t1 t2
  let ?e3 = "snd (now_of (snd (now_of e1)))"
  let ?e4 = "put_job ?e3 (prog (fst (now_of e1)) (fst (now_of (snd (now_of e1)))))"
  have own4: "owns e1 ?e4 i" by (simp add: owns_def put_job_def now_of_def prog_def map_of_put)
  have run: "Run hv conv req w reg e0 =
      (case Preflight hv req reg of
         Inl err \<Rightarrow> failed reg ?e4 i err err
       | Inr pf \<Rightarrow> if \<not> OK pf then
             (let msg = ''pre-flight failed: '' @ join_with ''; '' (Issues pf) in failed reg ?e4 i msg msg)
           else (case Registry_Get reg (SourceProviderID req) of None \<Rightarrow> None
                 | Some src \<Rightarrow> (case Registry_Get reg (TargetProviderID req) of None \<Rightarrow> None
                    | Some tgt \<Rightarrow> transfer hv conv req w pf reg src tgt ?e4 i)))"
    unfolding Run_def own now_of_def prog_def Let_def prod.case fst_conv snd_conv by (rule refl)
  show ?thesis
  proof (cases "Preflight hv req reg")
    case (Inl err)
    then show ?thesis using failed_ended [OF own4] by (simp add: run)
  next
    case (Inr pf)
    then obtain src tgt where t: "map_of reg (SourceProviderID req) = Some src"
      "map_of reg (TargetProviderID req) = Some tgt"
      and pf: "SourceFormat pf = nativeFormat (hv_Kind hv src)" "TargetFormat pf = nativeFormat (hv_Kind hv tgt)"
      by (auto simp: Preflight_def Registry_Get_def Let_def split: option.splits)
    show ?thesis
    proof (cases "OK pf")
      case True
      then show ?thesis using transfer_ended [OF own4 r [OF t(2)] t pf, of conv w] t
        by (simp add: run Inr Registry_Get_def)
    next
      case False
      then show ?thesis using failed_ended [OF own4] by (simp add: run Inr Let_def)
    qed
  qed
qed

end

subsection \<open>The simulated provider keeps the contract\<close>

definition sim_hv :: "sim hv" where
  "sim_hv = \<lparr>hv_ID = p_id, hv_Kind = p_kind, hv_Capabilities = p_caps, hv_GetVM = GetVM,
     hv_ExportVM = (\<lambda>p i f. case ExportVM p i f of Inl e \<Rightarrow> Inl e
       | Inr (payload, info) \<Rightarrow> Inr ((payload, None), Some info)),
     hv_CreateVM = CreateVM, hv_PowerOp = PowerOp, hv_Snapshot = Snapshot, hv_ListSnapshots = ListSnapshots,
     hv_DeleteSnapshot = (\<lambda>_. None)\<rparr>"

lemma sim_hv_sel [simp]:
  "hv_Kind sim_hv = p_kind" "hv_Capabilities sim_hv = p_caps" "hv_GetVM sim_hv = GetVM"
  "hv_CreateVM sim_hv = CreateVM" "hv_PowerOp sim_hv = PowerOp"
  "hv_Snapshot sim_hv = Snapshot" "hv_ListSnapshots sim_hv = ListSnapshots" "hv_DeleteSnapshot sim_hv = (\<lambda>_. None)"
  "hv_ExportVM sim_hv p i f = (case ExportVM p i f of Inl e \<Rightarrow> Inl e
     | Inr (payload, info) \<Rightarrow> Inr ((payload, None), Some info))"
  by (simp_all add: sim_hv_def)

definition sim_ready :: "nat \<Rightarrow> sim \<Rightarrow> bool" where
  "sim_ready n p \<longleftrightarrow> sim_ok p \<and> room n p"

lemma sim_ready_step: "sim_ready (Suc n) p \<Longrightarrow> sim_ready n (sim_step p c)"
  using step_ok [of n p c] by (simp add: sim_ready_def)

lemma map_enumerate_snd: "map (\<lambda>x. g (snd x)) (enumerate k xs) = map g xs"
  by (induction xs arbitrary: k) simp_all

lemma created_vm_ID [simp]: "vm_ID (created_vm p i spec now) = i"
  by (simp add: created_vm_def)

lemma created_vm_built: "built_to spec (created_vm p i spec now)"
  by (simp add: built_to_def created_vm_def created_disks_def split_def o_def
      map_enumerate_snd [of "\<lambda>d. (ds_Format d, ds_CapacityGB d, ds_StorageID d)"])

interpretation simulated: hypervisor sim_hv "\<lambda>p. map_of (vms p)" sim_ready
proof
  fix p :: sim and spec w p' e
  assume "hv_CreateVM sim_hv p spec w = (p', Inl e)"
  then show "p' = p" by (simp add: CreateVM_def nextID_eq succeed_not_Inl split: if_splits)
next
  fix n p spec w p' r
  assume rd: "sim_ready (Suc n) p" and c: "hv_CreateVM sim_hv p spec w = (p', Inr r)"
  have "p' = sim_step p (Op_Create spec, w)" using c by (simp add: sim_step_def)
  then have "sim_ready n p'" using sim_ready_step [OF rd] by simp
  moreover have "\<exists>t v. r = Some t \<and> task_EntityID t \<noteq> [] \<and> map_of (vms p) (task_EntityID t) = None
        \<and> map_of (vms p') = (map_of (vms p))(task_EntityID t \<mapsto> v) \<and> vm_ID v = task_EntityID t \<and> built_to spec v"
  proof -
    let ?i = "id_of ''vm'' (seq p + 1)"
    have rm: "room (Suc n) p" and ok: "view_ok (map_of (vms p), map_of (snapshots p), seq p)"
      using rd by (simp_all add: sim_ready_def sim_ok_def abs_of_def)
    have "seq p + 1 < 2 ^ 63" using rm by (simp add: room_def)
    from view_ok_room [OF ok this] have new: "map_of (vms p) ?i = None" .
    define q where "q = p\<lparr>seq := seq p + 1\<rparr>"
    define x where "x = q\<lparr>vms := put (vms q) ?i (created_vm q ?i spec w)\<rparr>"
    have s: "succeed x ''createVM'' ?i w = (p', Inr r)"
      using c by (simp add: CreateVM_def nextID_eq room_seq [OF rm] q_def x_def Let_def split: if_splits)
    have "fst (succeed x ''createVM'' ?i w) = p'" "snd (succeed x ''createVM'' ?i w) = Inr r"
      unfolding s by simp_all
    then have eqs: "r = Some (done_task x ''createVM'' ?i w)" "vms p' = put (vms q) ?i (created_vm q ?i spec w)"
      using succeed_fields(1) [of x "''createVM''" ?i w] succeed_fields(8) [of x "''createVM''" ?i w]
      by (simp_all add: x_def)
    show ?thesis
      using new created_vm_built [of spec q ?i w]
      by (intro exI [of _ "done_task x ''createVM'' ?i w"] exI [of _ "created_vm q ?i spec w"])
        (simp add: eqs map_of_put q_def done_task_def id_of_def)
  qed
  ultimately show "sim_ready n p' \<and> (\<exists>t v. r = Some t \<and> task_EntityID t \<noteq> [] \<and> map_of (vms p) (task_EntityID t) = None
        \<and> map_of (vms p') = (map_of (vms p))(task_EntityID t \<mapsto> v) \<and> vm_ID v = task_EntityID t \<and> built_to spec v)"
    by blast
next
  fix n p i op w p' res
  assume rd: "sim_ready (Suc n) p" and c: "hv_PowerOp sim_hv p i op w = (p', res)"
  have p': "p' = sim_step p (Op_Power i op, w)" using c by (simp add: sim_step_def)
  have "map_of (vms p') = map_of (vms p) \<or> (\<exists>v v'. map_of (vms p) i = Some v \<and> map_of (vms p') = (map_of (vms p))(i \<mapsto> v')
        \<and> vm_ID v' = vm_ID v \<and> (\<forall>spec. built_to spec v \<longrightarrow> built_to spec v'))"
  proof -
    have "map_of (vms p') = map_of (vms p) \<or> (\<exists>v st. map_of (vms p) i = Some v
        \<and> map_of (vms p') = (map_of (vms p))(i \<mapsto> v\<lparr>vm_State := st, vm_StateRaw := st\<rparr>))"
      unfolding p' by (simp add: sim_step_def PowerOp_def Let_def map_of_put split: option.split) blast
    then consider "map_of (vms p') = map_of (vms p)"
      | v st where "map_of (vms p) i = Some v" "map_of (vms p') = (map_of (vms p))(i \<mapsto> v\<lparr>vm_State := st, vm_StateRaw := st\<rparr>)"
      by blast
    then show ?thesis
    proof cases
      case 2
      then show ?thesis
        by (intro disjI2 exI [of _ v] exI [of _ "v\<lparr>vm_State := st, vm_StateRaw := st\<rparr>"]) (simp add: built_to_def)
    qed simp
  qed
  then show "sim_ready n p' \<and> (map_of (vms p') = map_of (vms p) \<or> (\<exists>v v'. map_of (vms p) i = Some v \<and> map_of (vms p') = (map_of (vms p))(i \<mapsto> v')
        \<and> vm_ID v' = vm_ID v \<and> (\<forall>spec. built_to spec v \<longrightarrow> built_to spec v')))"
    using sim_ready_step [OF rd] p' by blast
qed

subsection \<open>The properties\<close>


definition jobs_ok :: "engine \<Rightarrow> bool" where
  "jobs_ok e \<longleftrightarrow> 0 \<le> job_seq e \<and> job_seq e < 2 ^ 63 \<and> (\<forall>k j. map_of (jobs e) k = Some j \<longrightarrow>
     pr_ID j = k \<and> (\<exists>n. 0 \<le> n \<and> n \<le> job_seq e \<and> k = job_id n))"

lemma newID_fresh:
  assumes "jobs_ok e" "job_seq e + 1 < 2 ^ 63" "newID e = (i, e1)"
  shows "map_of (jobs e) i = None" "jobs e1 = jobs e" "job_seq e1 = job_seq e + 1" "i = job_id (job_seq e + 1)"
proof -
  have s: "0 \<le> job_seq e" using assms(1) by (simp add: jobs_ok_def)
  show i: "i = job_id (job_seq e + 1)" "jobs e1 = jobs e" "job_seq e1 = job_seq e + 1"
    using assms(2,3) s by (auto simp: newID_def Let_def wrap64_id)
  show "map_of (jobs e) i = None"
  proof (rule ccontr)
    assume "map_of (jobs e) i \<noteq> None"
    then obtain n where "0 \<le> n" "n \<le> job_seq e" "job_id (job_seq e + 1) = job_id n"
      using assms(1) i unfolding jobs_ok_def by blast
    then show False using s assms(2) by (simp add: job_id_def itoa_inject)
  qed
qed


subsection \<open>The theorems at a concrete migration\<close>

definition lab :: "sim registry" where
  "lab = [(''a'', used_sim ''a''), (''b'', (used_sim ''b'')\<lparr>p_kind := ''vmware''\<rparr>)]"

definition move_vm :: request where
  "move_vm = \<lparr>SourceProviderID = ''a'', SourceVMID = ''vm-3'', TargetProviderID = ''b'', TargetHostID = ''host-1'',
     TargetStorageID = ''ds-1'', TargetName = [], PowerOnAfter = True\<rparr>"

definition idle :: engine where
  "idle = \<lparr>now_fn = int, readings_taken = 0, jobs = [], job_seq = 0\<rparr>"

lemma lab_ready: "\<forall>tgt. map_of lab (TargetProviderID move_vm) = Some tgt \<longrightarrow> sim_ready 2 tgt"
proof (intro allI impI)
  fix tgt
  let ?b = "(used_sim ''b'')\<lparr>p_kind := ''vmware''\<rparr>"
  assume "map_of lab (TargetProviderID move_vm) = Some tgt"
  then have tgt: "tgt = ?b" by (simp add: lab_def move_vm_def)
  have "snapshots ?b = []" "seq ?b = 3"
    "list_all (\<lambda>(k, v). vm_ID v = k \<and> vm_SnapshotCount v = 0 \<and> list_ex (\<lambda>n. k = id_of ''vm'' n) [0..3]) (vms ?b)"
    by code_simp+
  then show "sim_ready 2 tgt" using sim_ok_no_snapshots [of ?b] unfolding tgt sim_ready_def room_def by simp
qed

lemma finalize_no_error: "finalize hv req w reg tgt e i new = Some (reg', e', j, err) \<Longrightarrow> err = None"
  by (simp add: finalize_def Let_def split: option.splits prod.splits)

text \<open>A run without obstacle reports no error.\<close>

lemma run_no_error:
  assumes "Preflight hv req reg = Inr pf" "OK pf"
    and "map_of reg (SourceProviderID req) = Some src" "map_of reg (TargetProviderID req) = Some tgt"
    and "hv_ExportVM hv src (SourceVMID req) (SourceFormat pf) = Inr (rc, info)"
    and "snd (conv rc (SourceFormat pf) (TargetFormat pf)) = None"
    and "\<And>n. snd (hv_CreateVM hv tgt (mapToTargetSpec req info (TargetFormat pf) n) w) = Inr (Some (t n))"
    and "Run hv conv req w reg e = Some (reg', e', j, err)"
  shows "err = None"
proof -
  obtain tgt' where "hv_CreateVM hv tgt (mapToTargetSpec req info (TargetFormat pf)
      (int (length (fst (conv rc (SourceFormat pf) (TargetFormat pf)))))) w = (tgt', Inr (Some (t (int (length (fst (conv rc (SourceFormat pf) (TargetFormat pf))))))))"
    using assms(7) by (metis prod.collapse)
  then obtain e'' i where "finalize hv req w (put reg (TargetProviderID req) tgt') tgt' e'' i
      (task_EntityID (t (int (length (fst (conv rc (SourceFormat pf) (TargetFormat pf))))))) = Some (reg', e', j, err)"
    using assms(1-6,8)
    by (simp add: Run_def Registry_Get_def transfer_def import_vm_def drain_def Let_def split: prod.splits)
  then show ?thesis by (rule finalize_no_error)
qed



text \<open>
  A failed power-on is recorded by \<open>annotate\<close>, but \<open>finishOK\<close> overwrites the message: the warning is
  never seen.
\<close>

lemma power_on_warning_lost:
  assumes "map_of (jobs e) i = Some j"
  shows "\<exists>e' f. finishOK (annotate e i msg) i target = Some (e', f) \<and> pr_Message f = ''migration complete''"
  using assms by (auto simp: job_defs map_of_put)

end
