(* ===== verification/Repl_Props.thy ===== *)
theory Repl_Props
  imports Repl_Api Migrate_Props
begin

text \<open>
  What replication guarantees. The goroutines of the engine interleave as the rules of \<open>dr_step\<close>
  say; under every interleaving the state of a policy is the summary of the cycles recorded for it
  (\<open>cycle_log_summary\<close>), a scheduler runs only where it may, cycles of one job do not overlap, and
  a policy that has failed over stays so while no earlier call for it is in flight
  (\<open>failed_over_frozen\<close>). One cycle over any provider that keeps the contract of the locale
  \<open>replicating\<close> adds one machine to the target or leaves it alone (\<open>cycle_outcome\<close>).
\<close>

subsection \<open>Jobs after an operation\<close>

lemmas repl_defs = setStatus_def recordCycle_def persist_def UpdateReplicationPolicyState_def read_clock_def Let_def

abbreviation job_at :: "repl \<Rightarrow> string \<Rightarrow> repl_job option" where
  "job_at e \<equiv> map_of (repl_jobs e)"

lemma jobs_read_clock [simp]: "repl_jobs (snd (read_clock e)) = repl_jobs e"
  by (simp add: read_clock_def)

lemma running_read_clock [simp]: "repl_running (snd (read_clock e)) = repl_running e"
  by (simp add: read_clock_def)

lemma persist_fields [simp]:
  "repl_jobs (persist e i s l r y w) = repl_jobs e" "repl_running (persist e i s l r y w) = repl_running e"
  by (simp_all add: persist_def UpdateReplicationPolicyState_def)

lemma setStatus_jobs:
  "job_at (setStatus e i s l) = (case job_at e i of None \<Rightarrow> job_at e
     | Some j \<Rightarrow> (job_at e)(i \<mapsto> j\<lparr>job_State := (job_State j)\<lparr>Status := s,
         LastError := (if l \<noteq> [] then l else LastError (job_State j))\<rparr>\<rparr>))"
  by (simp add: setStatus_def map_of_put split: option.split)

lemma setStatus_running [simp]: "repl_running (setStatus e i s l) = repl_running e"
  by (simp add: setStatus_def split: option.split)

lemma recordCycle_jobs:
  "job_at (recordCycle e i c s l r y w) = (case job_at e i of None \<Rightarrow> job_at e
     | Some j \<Rightarrow> (job_at e)(i \<mapsto> j\<lparr>job_State := folded (job_State j) c s l r y\<rparr>))"
  by (simp add: recordCycle_def Let_def map_of_put split: option.split)

lemma recordCycle_running [simp]: "repl_running (recordCycle e i c s l r y w) = repl_running e"
  by (simp add: recordCycle_def Let_def split: option.split)

lemma snapshotState_fields [simp]:
  "repl_jobs (fst (snapshotState e i)) = repl_jobs e" "repl_running (fst (snapshotState e i)) = repl_running e"
  by (simp_all add: snapshotState_def read_clock_def Let_def split: option.split)

lemma begin_cycle_eq:
  "begin_cycle e tk = (e', c) \<Longrightarrow> job_at e' = job_at (setStatus e (tk_id tk) ''syncing'' [])
     \<and> repl_running e' = repl_running e"
  by (auto simp: begin_cycle_def read_clock_def setStatus_def split: option.splits)

text \<open>The arguments with which a cycle is recorded agree with the cycle.\<close>

definition record_args :: "cycle \<Rightarrow> string \<Rightarrow> int option \<Rightarrow> bool" where
  "record_args c r y \<longleftrightarrow> (cy_OK c \<longrightarrow> r = cy_ReplicaVMID c \<and> y = cy_FinishedAt c \<and> y \<noteq> None)"

lemma finish_cycle_eq:
  assumes "finish_cycle hv w reg e tk cyc prog err = (e', c, res)"
  obtains s l r y where "e' = recordCycle (snd (read_clock e)) (tk_id tk) c s l r y w" "record_args c r y"
    "s \<noteq> ''failed_over''"
proof (cases "copy_failure cyc prog err")
  case (Some msg)
  then show thesis using assms
    by (intro that [of "''error''" msg "[]" None]) (auto simp: finish_cycle_def read_clock_def record_args_def Let_def)
next
  case None
  let ?t = "case prog of None \<Rightarrow> [] | Some p \<Rightarrow> TargetVMID p"
  let ?s = "if IntervalSeconds (tk_policy tk) > 0 \<and> go_div (DurationMs c) 1000 > IntervalSeconds (tk_policy tk)
            then ''degraded'' else ''idle''"
  have "e' = recordCycle (snd (read_clock e)) (tk_id tk) c ?s [] ?t (Some (fst (read_clock e))) w
      \<and> record_args c ?t (Some (fst (read_clock e)))"
    using assms None by (auto simp: finish_cycle_def read_clock_def record_args_def Let_def simp del: fun_upd_apply)
  moreover have "?s \<noteq> ''failed_over''" by simp
  ultimately show thesis using that by blast
qed

subsection \<open>The goroutines of the engine\<close>

text \<open>
  A call in flight: a cycle waiting for the lock of its job, one that holds the lock before or
  after the copy, or a failover whose replica has been powered on.
\<close>

datatype flight =
    Waiting ticket
  | Syncing ticket cycle
  | Copied ticket cycle "progress option" "string option"
  | Powered string string

fun about :: "flight \<Rightarrow> string" where
  "about (Waiting tk) = tk_id tk"
| "about (Syncing tk _) = tk_id tk"
| "about (Copied tk _ _ _) = tk_id tk"
| "about (Powered i _) = i"

fun holds :: "flight \<Rightarrow> nat \<Rightarrow> bool" where
  "holds (Syncing tk _) obj = (tk_obj tk = obj)"
| "holds (Copied tk _ _ _) obj = (tk_obj tk = obj)"
| "holds _ obj = False"

record 'p dr =
  dr_reg :: "'p registry"
  dr_mig :: engine
  dr_eng :: repl
  flights :: "(string \<times> flight) list"

definition locked :: "'p dr \<Rightarrow> nat \<Rightarrow> bool" where
  "locked w obj \<longleftrightarrow> list_ex (\<lambda>(g, f). holds f obj) (flights w)"

text \<open>The calls; \<open>E_Run\<close> is a tick of a scheduler or a manual run.\<close>

datatype event =
    E_Start
  | E_Stop
  | E_Upsert repl_policy
  | E_Remove string
  | E_Run string string
  | E_Lock string
  | E_Copy string int
  | E_Finish string int
  | E_Failover string string int
  | E_Commit string int

datatype mark = Created string | Recorded string cycle

inductive dr_step :: "'p hv \<Rightarrow> converter \<Rightarrow> 'p dr \<Rightarrow> event \<Rightarrow> mark list \<Rightarrow> 'p dr \<Rightarrow> bool"
  for hv :: "'p hv" and conv :: converter where
  start: "dr_step hv conv w E_Start [] (w\<lparr>dr_eng := Repl_Start (dr_eng w)\<rparr>)"
| stop: "dr_step hv conv w E_Stop [] (w\<lparr>dr_eng := Repl_Stop (dr_eng w)\<rparr>)"
| upsert: "dr_step hv conv w (E_Upsert p)
    (if job_at (dr_eng w) (po_ID p) = None then [Created (po_ID p)] else [])
    (w\<lparr>dr_eng := fst (Repl_Upsert (dr_eng w) p)\<rparr>)"
| remove: "dr_step hv conv w (E_Remove i) [] (w\<lparr>dr_eng := Repl_Remove (dr_eng w) i\<rparr>)"
| run: "check_cycle (dr_eng w) i = Inr tk \<Longrightarrow> map_of (flights w) g = None \<Longrightarrow>
    dr_step hv conv w (E_Run g i) [] (w\<lparr>flights := put (flights w) g (Waiting tk)\<rparr>)"
| run_refused: "check_cycle (dr_eng w) i = Inl err \<Longrightarrow> dr_step hv conv w (E_Run g i) [] w"
| lock: "map_of (flights w) g = Some (Waiting tk) \<Longrightarrow> \<not> locked w (tk_obj tk) \<Longrightarrow>
    begin_cycle (dr_eng w) tk = (e', cyc) \<Longrightarrow>
    dr_step hv conv w (E_Lock g) [] (w\<lparr>dr_eng := e', flights := put (flights w) g (Syncing tk cyc)\<rparr>)"
| copy: "map_of (flights w) g = Some (Syncing tk cyc) \<Longrightarrow>
    copy_cycle hv conv wall tk cyc (dr_reg w) (dr_mig w) = Some (reg', mig', cyc', prog, err) \<Longrightarrow>
    dr_step hv conv w (E_Copy g wall) []
      (w\<lparr>dr_reg := reg', dr_mig := mig', flights := put (flights w) g (Copied tk cyc' prog err)\<rparr>)"
| finish: "map_of (flights w) g = Some (Copied tk cyc prog err) \<Longrightarrow>
    finish_cycle hv wall (dr_reg w) (dr_eng w) tk cyc prog err = (e', c, res) \<Longrightarrow>
    dr_step hv conv w (E_Finish g wall)
      (if job_at (dr_eng w) (tk_id tk) = None then [] else [Recorded (tk_id tk) c])
      (w\<lparr>dr_eng := e', flights := del (flights w) g\<rparr>)"
| power: "failover_power hv wall (dr_reg w) (dr_eng w) i = (reg', e', Inr replica) \<Longrightarrow>
    map_of (flights w) g = None \<Longrightarrow>
    dr_step hv conv w (E_Failover g i wall) []
      (w\<lparr>dr_reg := reg', dr_eng := e', flights := put (flights w) g (Powered i replica)\<rparr>)"
| power_refused: "failover_power hv wall (dr_reg w) (dr_eng w) i = (reg', e', Inl err) \<Longrightarrow>
    dr_step hv conv w (E_Failover g i wall) [] (w\<lparr>dr_reg := reg', dr_eng := e'\<rparr>)"
| commit: "map_of (flights w) g = Some (Powered i replica) \<Longrightarrow>
    failover_commit wall (dr_eng w) i replica = (e', st) \<Longrightarrow>
    dr_step hv conv w (E_Commit g wall) [] (w\<lparr>dr_eng := e', flights := del (flights w) g\<rparr>)"

inductive dr_run :: "'p hv \<Rightarrow> converter \<Rightarrow> 'p dr \<Rightarrow> event list \<Rightarrow> mark list \<Rightarrow> 'p dr \<Rightarrow> bool"
  for hv :: "'p hv" and conv :: converter where
  nothing: "dr_run hv conv w [] [] w"
| more: "dr_run hv conv w evs ms w' \<Longrightarrow> dr_step hv conv w' ev m w'' \<Longrightarrow>
    dr_run hv conv w (evs @ [ev]) (ms @ m) w''"

text \<open>The cycles recorded for a policy since its job was created.\<close>

definition log_of :: "string \<Rightarrow> mark list \<Rightarrow> cycle list" where
  "log_of i ms = foldl (\<lambda>acc m. case m of Created k \<Rightarrow> if k = i then [] else acc
     | Recorded k c \<Rightarrow> if k = i then acc @ [c] else acc) [] ms"

lemma log_of_snoc [simp]:
  "log_of i (ms @ [Created k]) = (if k = i then [] else log_of i ms)"
  "log_of i (ms @ [Recorded k c]) = (if k = i then log_of i ms @ [c] else log_of i ms)"
  by (simp_all add: log_of_def)

subsection \<open>The summary of the cycles\<close>

definition latest_replica :: "cycle list \<Rightarrow> string" where
  "latest_replica cs = foldl (\<lambda>r c. if cy_ReplicaVMID c \<noteq> [] then cy_ReplicaVMID c else r) [] (filter cy_OK cs)"

definition latest_sync :: "cycle list \<Rightarrow> int option" where
  "latest_sync cs = (if filter cy_OK cs = [] then None else cy_FinishedAt (last (filter cy_OK cs)))"

definition summarises :: "repl_state \<Rightarrow> cycle list \<Rightarrow> bool" where
  "summarises st cs \<longleftrightarrow> History st = newest maxHistory cs \<and> CycleCount st = wrap64 (int (length cs))
     \<and> BytesTransferred st = wrap64 (sum_list (map cy_Bytes (filter cy_OK cs)))
     \<and> ReplicaVMID st = latest_replica cs \<and> LastSyncAt st = latest_sync cs"

lemma wrap64_add: "wrap64 (wrap64 a + b) = wrap64 (a + b)" "wrap64 (b + wrap64 a) = wrap64 (b + a)"
proof -
  show l: "wrap64 (wrap64 a + b) = wrap64 (a + b)" for a b by (simp add: wrap64_def mod_simps algebra_simps)
  show "wrap64 (b + wrap64 a) = wrap64 (b + a)" using l [of a b] by (simp add: add.commute)
qed

lemma newest_snoc: "newest n (newest n xs @ [x]) = newest n (xs @ [x])"
  by (simp add: newest_def) (cases "length xs < n"; simp add: Suc_diff_le)

lemma newest_short: "length xs \<le> n \<Longrightarrow> newest n xs = xs"
  by (simp add: newest_def)

lemma summarises_fold:
  assumes "summarises st cs" "record_args c r y"
  shows "summarises (folded st c s l r y) (cs @ [c])"
proof -
  have h: "(if length h > maxHistory then newest maxHistory h else h) = newest maxHistory h" for h :: "cycle list"
    by (simp add: newest_short)
  show ?thesis
  proof (cases "cy_OK c")
    case False
    then show ?thesis using assms(1)
      by (simp add: summarises_def folded_def Let_def h newest_snoc wrap64_add latest_replica_def latest_sync_def add.commute)
  next
    case True
    then obtain t where y: "y = Some t" "cy_FinishedAt c = Some t" "r = cy_ReplicaVMID c"
      using assms(2) by (auto simp: record_args_def)
    then show ?thesis using assms(1) True
      by (simp add: summarises_def folded_def Let_def h newest_snoc wrap64_add latest_replica_def latest_sync_def add.commute)
  qed
qed

lemma summarises_status:
  "summarises (st\<lparr>Status := s, LastError := l\<rparr>) cs = summarises st cs"
  "summarises (st\<lparr>rs_Policy := p, RPOTargetSeconds := n, Status := s\<rparr>) cs = summarises st cs"
  by (simp_all add: summarises_def)

lemma summarises_new: "summarises (job_State (new_job p obj)) []"
  by (simp add: summarises_def new_job_def newest_def wrap64_def latest_replica_def latest_sync_def)

subsection \<open>Every interleaving\<close>

definition job_ok :: "repl \<Rightarrow> mark list \<Rightarrow> string \<Rightarrow> repl_job \<Rightarrow> bool" where
  "job_ok e ms i j \<longleftrightarrow> po_ID (rs_Policy (job_State j)) = i \<and> summarises (job_State j) (log_of i ms)
     \<and> (job_ticker j \<noteq> None \<longrightarrow> repl_running e \<and> po_Enabled (rs_Policy (job_State j))
          \<and> Status (job_State j) \<noteq> ''failed_over'')"

definition jobs_fine :: "repl \<Rightarrow> mark list \<Rightarrow> bool" where
  "jobs_fine e ms \<longleftrightarrow> (\<forall>i j. job_at e i = Some j \<longrightarrow> job_ok e ms i j)"

lemma jobs_fineD: "jobs_fine e ms \<Longrightarrow> job_at e i = Some j \<Longrightarrow> job_ok e ms i j"
  by (simp add: jobs_fine_def)

lemma jobs_fine_upd:
  assumes "jobs_fine e ms" "job_at e' = (job_at e)(i \<mapsto> j)" "repl_running e' = repl_running e" "job_ok e' ms' i j"
    and "\<And>k. k \<noteq> i \<Longrightarrow> log_of k ms' = log_of k ms"
  shows "jobs_fine e' ms'"
  using assms by (simp add: jobs_fine_def job_ok_def)

lemma jobs_fine_same:
  "jobs_fine e ms \<Longrightarrow> job_at e' = job_at e \<Longrightarrow> repl_running e' = repl_running e \<Longrightarrow> jobs_fine e' ms"
  by (simp add: jobs_fine_def job_ok_def)

lemma refreshed_ok:
  assumes "summarises (job_State j) (log_of (po_ID p) ms)"
  shows "job_ok e ms (po_ID p) (refreshed p (repl_running e) j)"
  using assms by (simp add: job_ok_def refreshed_def scheduleLocked_def Let_def summarises_status)

lemma refreshed_state:
  "ReplicaVMID (job_State (refreshed p b j)) = ReplicaVMID (job_State j)"
  "Status (job_State (refreshed p b j)) = (if Status (job_State j) = [] then ''idle'' else Status (job_State j))"
  "History (job_State (refreshed p b j)) = History (job_State j)"
  by (simp_all add: refreshed_def scheduleLocked_def Let_def)

lemma upsert_jobs:
  "job_at (fst (Repl_Upsert e p)) = (job_at e)(po_ID p \<mapsto> refreshed p (repl_running e)
     (case job_at e (po_ID p) of None \<Rightarrow> new_job p (next_obj e) | Some j \<Rightarrow> j))"
  "repl_running (fst (Repl_Upsert e p)) = repl_running e"
  by (simp_all add: Repl_Upsert_def Let_def map_of_put split: option.split)

lemma fine_upsert:
  assumes "jobs_fine e ms"
  shows "jobs_fine (fst (Repl_Upsert e p)) (ms @ (if job_at e (po_ID p) = None then [Created (po_ID p)] else []))"
    (is "jobs_fine ?e ?ms")
proof (rule jobs_fine_upd [OF assms upsert_jobs])
  show "log_of k ?ms = log_of k ms" if "k \<noteq> po_ID p" for k using that by simp
  have "summarises (job_State (case job_at e (po_ID p) of None \<Rightarrow> new_job p (next_obj e) | Some j \<Rightarrow> j))
      (log_of (po_ID p) ?ms)"
    using jobs_fineD [OF assms] by (auto simp: summarises_new job_ok_def split: option.split)
  from refreshed_ok [OF this, of ?e] show "job_ok ?e ?ms (po_ID p) (refreshed p (repl_running e)
     (case job_at e (po_ID p) of None \<Rightarrow> new_job p (next_obj e) | Some j \<Rightarrow> j))"
    by (simp only: upsert_jobs(2))
qed

lemma fine_setStatus:
  "jobs_fine e ms \<Longrightarrow> s \<noteq> ''failed_over'' \<Longrightarrow> jobs_fine (setStatus e i s l) ms"
proof (cases "job_at e i")
  case (Some j)
  assume f: "jobs_fine e ms" and s: "s \<noteq> ''failed_over''"
  show ?thesis
    by (rule jobs_fine_upd [OF f setStatus_jobs [of e i s l, unfolded Some option.case]])
      (use jobs_fineD [OF f Some] s in \<open>simp_all add: job_ok_def summarises_status\<close>)
qed (simp add: setStatus_def)

lemma folded_fields [simp]:
  "rs_Policy (folded st c s l r y) = rs_Policy st" "Status (folded st c s l r y) = s"
  by (simp_all add: folded_def Let_def split: option.split)

lemma fine_record:
  assumes "jobs_fine e ms" "record_args c r y" "s \<noteq> ''failed_over''"
  shows "jobs_fine (recordCycle e i c s l r y w) (ms @ (if job_at e i = None then [] else [Recorded i c]))"
proof (cases "job_at e i")
  case None
  then show ?thesis using assms(1) by (simp add: recordCycle_def)
next
  case (Some j)
  show ?thesis
    by (rule jobs_fine_upd [OF assms(1) recordCycle_jobs [of e i c s l r y w, unfolded Some option.case]])
      (use jobs_fineD [OF assms(1) Some] assms(2,3) Some in \<open>simp_all add: job_ok_def summarises_fold\<close>)
qed

lemma fine_stop: "jobs_fine e ms \<Longrightarrow> jobs_fine (Repl_Stop e) ms"
proof -
  have "map_of (map (\<lambda>(i, j). (i, j\<lparr>job_ticker := None\<rparr>)) m) i = map_option (\<lambda>j. j\<lparr>job_ticker := None\<rparr>) (map_of m i)"
    for m :: "(string \<times> repl_job) list" and i by (induction m) auto
  then show "jobs_fine e ms \<Longrightarrow> jobs_fine (Repl_Stop e) ms" by (auto simp: jobs_fine_def job_ok_def Repl_Stop_def)
qed

lemma failover_power_cases:
  assumes "failover_power hv w reg e i = (reg', e', res)"
  obtains (on) j r where "job_at e i = Some j" "e' = e" "res = Inr r" "r = ReplicaVMID (job_State j)" "r \<noteq> []"
  | (refused) x where "e' = e" "res = Inl x" "reg' = reg"
  | (broken) l x where "e' = fst (snapshotState (setStatus e i ''error'' l) i)" "res = Inl x"
proof (cases "job_at e i")
  case None
  then have "e' = e \<and> reg' = reg \<and> (\<exists>x. res = Inl x)" using assms by (auto simp: failover_power_def)
  then show thesis using refused by blast
next
  case (Some j)
  show thesis
  proof (cases "ReplicaVMID (job_State j) = []")
    case True
    then have "e' = e \<and> reg' = reg \<and> (\<exists>x. res = Inl x)" using assms Some by (auto simp: failover_power_def)
    then show thesis using refused by blast
  next
    case replica: False
    show thesis
    proof (cases "Registry_Get reg (po_TargetProviderID (rs_Policy (job_State j)))")
      case None
      then have "e' = e \<and> reg' = reg \<and> (\<exists>x. res = Inl x)" using assms Some replica by (auto simp: failover_power_def)
      then show thesis using refused by blast
    next
      case tgt: (Some tgt)
      obtain tgt1 out where pw: "hv_PowerOp hv tgt (ReplicaVMID (job_State j)) ''start'' w = (tgt1, out)"
        by (rule prod.exhaust)
      have "e' = e \<and> res = Inr (ReplicaVMID (job_State j))
          \<or> (\<exists>l x. e' = fst (snapshotState (setStatus e i ''error'' l) i) \<and> res = Inl x)"
      proof (cases "Has (hv_Capabilities hv tgt) CapPowerStart")
        case False
        then show ?thesis using assms Some replica tgt by (simp add: failover_power_def)
      next
        case True
        show ?thesis
        proof (cases out)
          case (Inl err)
          obtain e2 st where
            "snapshotState (setStatus e i ''error'' (''failover power-on failed: '' @ Error_text err)) i = (e2, st)"
            by (rule prod.exhaust)
          then show ?thesis using assms Some replica tgt True pw Inl
            by (intro disjI2 exI [of _ "''failover power-on failed: '' @ Error_text err"]) (auto simp: failover_power_def)
        next
          case (Inr t)
          then show ?thesis using assms Some replica tgt True pw by (simp add: failover_power_def)
        qed
      qed
      then show thesis using on [OF Some] broken replica by blast
    qed
  qed
qed

lemma failover_commit_jobs:
  "failover_commit w e i replica = (e', st) \<Longrightarrow> repl_running e' = repl_running e \<and>
     job_at e' = (case job_at e i of None \<Rightarrow> job_at e | Some j \<Rightarrow> (job_at e)(i \<mapsto>
       j\<lparr>job_ticker := None, job_State := (job_State j)\<lparr>Status := ''failed_over'', LastError := []\<rparr>\<rparr>))"
  using snapshotState_fields [of "persist (case job_at e i of None \<Rightarrow> e | Some j \<Rightarrow> e\<lparr>repl_jobs := put (repl_jobs e) i
     (j\<lparr>job_ticker := None, job_State := (job_State j)\<lparr>Status := ''failed_over'', LastError := []\<rparr>\<rparr>)\<rparr>)
     i ''failed_over'' [] replica 0 w" i]
  by (auto simp: failover_commit_def Let_def map_of_put split: option.splits)

lemma fine_commit:
  "jobs_fine e ms \<Longrightarrow> failover_commit w e i replica = (e', st) \<Longrightarrow> jobs_fine e' ms"
proof -
  assume f: "jobs_fine e ms" and c: "failover_commit w e i replica = (e', st)"
  note jobs = failover_commit_jobs [OF c]
  show ?thesis
  proof (cases "job_at e i")
    case None
    then show ?thesis using jobs jobs_fine_same [OF f] by simp
  next
    case (Some j)
    show ?thesis
      by (rule jobs_fine_upd [OF f jobs [THEN conjunct2, unfolded Some option.case]])
        (use jobs_fineD [OF f Some] jobs in \<open>simp_all add: job_ok_def summarises_status\<close>)
  qed
qed

lemma step_fine:
  assumes "dr_step hv conv w ev m w'" "jobs_fine (dr_eng w) ms"
  shows "jobs_fine (dr_eng w') (ms @ m)"
  using assms
proof (cases rule: dr_step.cases)
  case start
  then show ?thesis using assms(2) by (simp add: jobs_fine_def job_ok_def Repl_Start_def)
next
  case stop
  then show ?thesis using fine_stop [OF assms(2)] by simp
next
  case (upsert p)
  show ?thesis unfolding upsert using fine_upsert [OF assms(2), of p] by simp
next
  case (remove i)
  then show ?thesis using assms(2) by (simp add: jobs_fine_def job_ok_def Repl_Remove_def map_of_del)
next
  case (lock g tk e' cyc)
  then show ?thesis
    using jobs_fine_same [OF fine_setStatus [OF assms(2), of "''syncing''" "tk_id tk" "[]"], of e'] begin_cycle_eq [of "dr_eng w" tk e' cyc]
    by simp
next
  case (finish g tk cyc prog err wall e' c res)
  from finish_cycle_eq [OF finish(5)] obtain s l r y where
    e': "e' = recordCycle (snd (read_clock (dr_eng w))) (tk_id tk) c s l r y wall" "record_args c r y" "s \<noteq> ''failed_over''" .
  show ?thesis using fine_record [OF jobs_fine_same [OF assms(2), of "snd (read_clock (dr_eng w))"] e'(2,3), of "tk_id tk" l wall]
    by (simp add: finish e'(1))
next
  case (power wall i reg' e' replica g)
  from power(4) show ?thesis by (rule failover_power_cases) (simp_all add: power assms(2))
next
  case (power_refused wall i reg' e' err g)
  from power_refused(4) show ?thesis
  proof (rule failover_power_cases)
    fix l x
    assume e': "e' = fst (snapshotState (setStatus (dr_eng w) i ''error'' l) i)"
    show ?thesis
      using jobs_fine_same [OF fine_setStatus [OF assms(2), of "''error''" i l], of e'] by (simp add: power_refused e')
  qed (simp_all add: power_refused assms(2))
next
  case (commit g i replica wall e' st)
  then show ?thesis using fine_commit [OF assms(2) commit(5)] by simp
qed (simp_all add: assms(2))

text \<open>At most one goroutine is past the lock of a job.\<close>

definition exclusive :: "'p dr \<Rightarrow> bool" where
  "exclusive w \<longleftrightarrow> (\<forall>g g' f f' obj. map_of (flights w) g = Some f \<longrightarrow> map_of (flights w) g' = Some f'
     \<longrightarrow> holds f obj \<longrightarrow> holds f' obj \<longrightarrow> g = g')"

lemma not_locked: "\<not> locked w obj \<Longrightarrow> map_of (flights w) g = Some f \<Longrightarrow> \<not> holds f obj"
  by (drule map_of_SomeD) (auto simp: locked_def list_ex_iff)

lemma exclusive_put:
  assumes "exclusive w" "flights w' = put (flights w) g f"
    and "\<And>obj g' f'. holds f obj \<Longrightarrow> map_of (flights w) g' = Some f' \<Longrightarrow> holds f' obj \<Longrightarrow> g' = g"
  shows "exclusive w'"
  using assms unfolding exclusive_def by (simp add: map_of_put)

lemma exclusive_del: "exclusive w \<Longrightarrow> flights w' = del (flights w) g \<Longrightarrow> exclusive w'"
  unfolding exclusive_def by (simp add: map_of_del)

lemma step_exclusive:
  assumes "dr_step hv conv w ev m w'" "exclusive w"
  shows "exclusive w'"
  using assms
proof (cases rule: dr_step.cases)
  case (run i tk g)
  then show ?thesis by (intro exclusive_put [OF assms(2), of _ g "Waiting tk"]) simp_all
next
  case (lock g tk e' cyc)
  then show ?thesis using not_locked by (intro exclusive_put [OF assms(2), of _ g "Syncing tk cyc"]) auto
next
  case (copy g tk cyc wall reg' mig' cyc' prog err)
  then show ?thesis
    using assms(2) by (intro exclusive_put [OF assms(2), of _ g "Copied tk cyc' prog err"]) (auto simp: exclusive_def)
next
  case (finish g tk cyc prog err wall e' c res)
  then show ?thesis by (intro exclusive_del [OF assms(2), of _ g]) simp
next
  case (power wall i reg' e' replica g)
  then show ?thesis by (intro exclusive_put [OF assms(2), of _ g "Powered i replica"]) simp_all
next
  case (commit g i replica wall e' st)
  then show ?thesis by (intro exclusive_del [OF assms(2), of _ g]) simp
qed (simp_all add: exclusive_def)

lemma run_fine:
  "dr_run hv conv w evs ms w' \<Longrightarrow> repl_jobs (dr_eng w) = [] \<Longrightarrow> flights w = [] \<Longrightarrow>
     jobs_fine (dr_eng w') ms \<and> exclusive w'"
proof (induction rule: dr_run.induct)
  case (nothing w)
  then show ?case by (simp add: jobs_fine_def exclusive_def)
next
  case (more w evs ms w' ev m w'')
  then show ?case using step_fine [OF more(2)] step_exclusive [OF more(2)] by simp
qed

subsection \<open>A policy that has failed over\<close>

definition frozen :: "repl \<Rightarrow> string \<Rightarrow> string \<Rightarrow> cycle list \<Rightarrow> bool" where
  "frozen e i r h \<longleftrightarrow> (\<exists>j. job_at e i = Some j \<and> Status (job_State j) = ''failed_over'' \<and> job_ticker j = None
     \<and> ReplicaVMID (job_State j) = r \<and> History (job_State j) = h)"

definition quiet :: "'p dr \<Rightarrow> string \<Rightarrow> bool" where
  "quiet w i \<longleftrightarrow> (\<forall>g f. map_of (flights w) g = Some f \<longrightarrow> about f \<noteq> i)"

fun spares :: "string \<Rightarrow> event \<Rightarrow> bool" where
  "spares i (E_Remove k) = (k \<noteq> i)"
| "spares i (E_Failover _ k _) = (k \<noteq> i)"
| "spares i _ = True"

lemma frozen_same: "frozen e i r h \<Longrightarrow> job_at e' i = job_at e i \<Longrightarrow> frozen e' i r h"
  by (simp add: frozen_def)

lemma frozen_setStatus: "frozen e i r h \<Longrightarrow> k \<noteq> i \<Longrightarrow> frozen (setStatus e k s l) i r h"
  by (erule frozen_same) (simp add: setStatus_jobs split: option.split)

lemma quiet_put: "quiet w i \<Longrightarrow> flights w' = put (flights w) g f \<Longrightarrow> about f \<noteq> i \<Longrightarrow> quiet w' i"
  by (simp add: quiet_def map_of_put)

lemma quiet_del: "quiet w i \<Longrightarrow> flights w' = del (flights w) g \<Longrightarrow> quiet w' i"
  by (simp add: quiet_def map_of_del)

lemma quietD: "quiet w i \<Longrightarrow> map_of (flights w) g = Some f \<Longrightarrow> about f \<noteq> i"
  by (simp add: quiet_def)

lemma frozen_upsert: "frozen e i r h \<Longrightarrow> frozen (fst (Repl_Upsert e p)) i r h"
proof (cases "po_ID p = i")
  case True
  assume "frozen e i r h"
  then obtain j where "job_at e i = Some j" "Status (job_State j) = ''failed_over''"
    "ReplicaVMID (job_State j) = r" "History (job_State j) = h" by (auto simp: frozen_def)
  then show ?thesis using True
    by (simp add: frozen_def upsert_jobs refreshed_state) (simp add: refreshed_def Let_def)
qed (simp add: frozen_def upsert_jobs)

lemma frozen_stop: "frozen e i r h \<Longrightarrow> frozen (Repl_Stop e) i r h"
proof -
  have "map_of (map (\<lambda>(i, j). (i, j\<lparr>job_ticker := None\<rparr>)) m) i = map_option (\<lambda>j. j\<lparr>job_ticker := None\<rparr>) (map_of m i)"
    for m :: "(string \<times> repl_job) list" by (induction m) auto
  then show "frozen e i r h \<Longrightarrow> frozen (Repl_Stop e) i r h" by (auto simp: frozen_def Repl_Stop_def)
qed

lemma check_frozen: "frozen e i r h \<Longrightarrow> check_cycle e k = Inr tk \<Longrightarrow> tk_id tk \<noteq> i"
  by (auto simp: frozen_def check_cycle_def split: option.splits if_splits)

lemma step_frozen:
  assumes "dr_step hv conv w ev m w'" "frozen (dr_eng w) i r h" "quiet w i" "spares i ev"
  shows "frozen (dr_eng w') i r h \<and> quiet w' i"
  using assms(1)
proof (cases rule: dr_step.cases)
  case start
  then show ?thesis using assms(2,3) by (simp add: frozen_def quiet_def Repl_Start_def)
next
  case stop
  then show ?thesis using frozen_stop [OF assms(2)] assms(3) by (simp add: quiet_def)
next
  case (upsert p)
  then show ?thesis using frozen_upsert [OF assms(2), of p] assms(3) by (simp add: quiet_def)
next
  case (remove k)
  then show ?thesis using assms(2-4) by (simp add: frozen_def quiet_def Repl_Remove_def map_of_del)
next
  case (run k tk g)
  then show ?thesis
    using quiet_put [OF assms(3), of w' g "Waiting tk"] check_frozen [OF assms(2) run(4)] assms(2) by simp
next
  case (lock g tk e' cyc)
  have "tk_id tk \<noteq> i" using quietD [OF assms(3) lock(4)] by simp
  moreover from this have "frozen e' i r h"
    using frozen_same [OF frozen_setStatus [OF assms(2)], of "tk_id tk" e' "''syncing''" "[]"] begin_cycle_eq [OF lock(6)] by simp
  ultimately show ?thesis using quiet_put [OF assms(3), of w' g "Syncing tk cyc"] by (simp add: lock)
next
  case (copy g tk cyc wall reg' mig' cyc' prog err)
  then show ?thesis using quietD [OF assms(3) copy(4)] quiet_put [OF assms(3), of w' g "Copied tk cyc' prog err"] assms(2)
    by simp
next
  case (finish g tk cyc prog err wall e' c res)
  have k: "tk_id tk \<noteq> i" using quietD [OF assms(3) finish(4)] by simp
  from finish_cycle_eq [OF finish(5)] obtain s l r' y where
    e': "e' = recordCycle (snd (read_clock (dr_eng w))) (tk_id tk) c s l r' y wall" .
  have "job_at e' i = job_at (dr_eng w) i" using k by (simp add: e' recordCycle_jobs split: option.split)
  then show ?thesis using frozen_same [OF assms(2)] quiet_del [OF assms(3), of w' g] by (simp add: finish)
next
  case (power wall k reg' e' replica g)
  from power(4) have "e' = dr_eng w" by (rule failover_power_cases) simp_all
  then show ?thesis using assms(2,4) quiet_put [OF assms(3), of w' g "Powered k replica"] by (simp add: power)
next
  case (power_refused wall k reg' e' err g)
  have k: "k \<noteq> i" using assms(4) power_refused by simp
  from power_refused(4) have "job_at e' i = job_at (dr_eng w) i"
    by (rule failover_power_cases) (use k in \<open>simp_all add: setStatus_jobs split: option.split\<close>)
  then show ?thesis using frozen_same [OF assms(2)] assms(3) by (simp add: power_refused quiet_def)
next
  case (commit g k replica wall e' st)
  have "k \<noteq> i" using quietD [OF assms(3) commit(4)] by simp
  then have "job_at e' i = job_at (dr_eng w) i"
    using failover_commit_jobs [OF commit(5)] by (simp split: option.split)
  then show ?thesis using frozen_same [OF assms(2)] quiet_del [OF assms(3), of w' g] by (simp add: commit)
qed (simp_all add: assms)

lemma run_frozen:
  "dr_run hv conv w evs ms w' \<Longrightarrow> frozen (dr_eng w) i r h \<Longrightarrow> quiet w i \<Longrightarrow> list_all (spares i) evs \<Longrightarrow>
     frozen (dr_eng w') i r h \<and> quiet w' i"
proof (induction rule: dr_run.induct)
  case (more w evs ms w' ev m w'')
  then show ?case using step_frozen [OF more(2), of i r h] by simp
qed simp

text \<open>
  The two calls that \<open>failed_over_frozen\<close> has to leave out do unfreeze the policy: a cycle that was
  in flight overwrites the status, and so does a second failover that the provider refuses.
\<close>

lemma late_cycle_unfreezes:
  assumes "finish_cycle hv w reg e tk cyc prog err = (e', c, res)" "job_at e (tk_id tk) = Some j"
  shows "\<exists>j'. job_at e' (tk_id tk) = Some j' \<and> Status (job_State j') \<noteq> ''failed_over''"
proof -
  from finish_cycle_eq [OF assms(1)] obtain s l r y where
    "e' = recordCycle (snd (read_clock e)) (tk_id tk) c s l r y w" "s \<noteq> ''failed_over''" .
  then show ?thesis using assms(2) by (simp add: recordCycle_jobs)
qed

lemma second_failover_unfreezes:
  assumes "job_at e i = Some j" "ReplicaVMID (job_State j) \<noteq> []"
    and "map_of reg (po_TargetProviderID (rs_Policy (job_State j))) = Some tgt"
    and "Has (hv_Capabilities hv tgt) CapPowerStart"
    and "hv_PowerOp hv tgt (ReplicaVMID (job_State j)) ''start'' w = (tgt', Inl err)"
  shows "\<exists>reg' e' x j'. failover_power hv w reg e i = (reg', e', Inl x) \<and> job_at e' i = Some j'
    \<and> Status (job_State j') = ''error''"
proof -
  let ?l = "''failover power-on failed: '' @ Error_text err"
  obtain e2 st where st: "snapshotState (setStatus e i ''error'' ?l) i = (e2, st)" by (rule prod.exhaust)
  then have "job_at e2 = job_at (setStatus e i ''error'' ?l)"
    using snapshotState_fields(1) [of "setStatus e i ''error'' ?l" i] by simp
  then show ?thesis using assms st by (simp add: failover_power_def Registry_Get_def setStatus_jobs Let_def)
qed

subsection \<open>One cycle\<close>

text \<open>The same machines but for their snapshot counts.\<close>

definition same_but_counts :: "(string \<Rightarrow> vm option) \<Rightarrow> (string \<Rightarrow> vm option) \<Rightarrow> bool" where
  "same_but_counts V V' \<longleftrightarrow>
     (\<forall>k. map_option (vm_SnapshotCount_update (\<lambda>_. 0)) (V' k) = map_option (vm_SnapshotCount_update (\<lambda>_. 0)) (V k))"

lemma same_but_counts_refl [simp]: "same_but_counts V V"
  by (simp add: same_but_counts_def)

locale replicating = hypervisor +
  assumes snapshot_frame: "ready (Suc n) p \<Longrightarrow> hv_Snapshot hv p i opts w = (p', res) \<Longrightarrow>
    ready n p' \<and> same_but_counts (vm_at p) (vm_at p')"
begin

text \<open>What a copy leaves behind: only the source's snapshots and, if it succeeded, one machine more.\<close>

definition copied_ok ::
  "repl_policy \<Rightarrow> 'a registry \<Rightarrow> 'a registry \<Rightarrow> progress \<Rightarrow> string option \<Rightarrow> bool" where
  "copied_ok pol reg reg' prog err \<longleftrightarrow>
     (\<forall>k. k \<noteq> po_SourceProviderID pol \<longrightarrow> k \<noteq> po_TargetProviderID pol \<longrightarrow> map_of reg' k = map_of reg k)
     \<and> rel_option (\<lambda>src src'. same_but_counts (vm_at src) (vm_at src'))
         (map_of reg (po_SourceProviderID pol)) (map_of reg' (po_SourceProviderID pol))
     \<and> (case err of
          Some msg \<Rightarrow> Phase prog = ''failed'' \<and> map_of reg' (po_TargetProviderID pol) = map_of reg (po_TargetProviderID pol)
        | None \<Rightarrow> Phase prog = ''done'' \<and> (\<exists>tgt tgt' sp. map_of reg (po_TargetProviderID pol) = Some tgt
            \<and> map_of reg' (po_TargetProviderID pol) = Some tgt' \<and> gained sp tgt tgt' (TargetVMID prog)
            \<and> vs_Name sp = po_SourceVMID pol @ ''-replica'' \<and> vs_HostID sp = po_TargetHostID pol))"

lemma snapshot_reg:
  assumes "source_snapshot hv pol start w reg = (reg1, msg)"
    and "\<And>src. map_of reg (po_SourceProviderID pol) = Some src \<Longrightarrow> ready 1 src"
  shows "(\<forall>k. k \<noteq> po_SourceProviderID pol \<longrightarrow> map_of reg1 k = map_of reg k)
    \<and> rel_option (\<lambda>src src'. same_but_counts (vm_at src) (vm_at src'))
         (map_of reg (po_SourceProviderID pol)) (map_of reg1 (po_SourceProviderID pol))"
proof (cases "map_of reg (po_SourceProviderID pol)")
  case None
  then show ?thesis using assms(1) by (simp add: source_snapshot_def Registry_Get_def)
next
  case (Some src)
  show ?thesis
  proof (cases "Has (hv_Capabilities hv src) CapSnapshot")
    case False
    then have "reg1 = reg" using assms(1) Some by (simp add: source_snapshot_def Registry_Get_def)
    then show ?thesis using Some by simp
  next
    case True
    obtain src1 r where snap: "hv_Snapshot hv src (po_SourceVMID pol)
      \<lparr>so_Name = ''unihv-repl-'' @ itoa (unix start), so_Description = ''UniHV replication consistency point'',
       so_Memory = False, so_Quiesce = True\<rparr> w = (src1, r)" by (rule prod.exhaust)
    have "reg1 = put reg (po_SourceProviderID pol) src1"
      using assms(1) Some True snap by (simp add: source_snapshot_def Registry_Get_def)
    moreover have "same_but_counts (vm_at src) (vm_at src1)"
      using snapshot_frame [OF _ snap, of 0] assms(2) [OF Some] by simp
    ultimately show ?thesis using Some by (simp add: map_of_put)
  qed
qed

lemma planned_name:
  "planned conv (repl_request pol) reg = Some sp \<Longrightarrow>
     vs_Name sp = po_SourceVMID pol @ ''-replica'' \<and> vs_HostID sp = po_TargetHostID pol"
  by (auto simp: planned_def Let_def mapToTargetSpec_def repl_request_def split: option.splits sum.splits prod.splits if_splits)

lemma copy_outcome:
  assumes ne: "po_SourceProviderID (tk_policy tk) \<noteq> po_TargetProviderID (tk_policy tk)"
    and src: "\<And>src. map_of reg (po_SourceProviderID (tk_policy tk)) = Some src \<Longrightarrow> ready 1 src"
    and tgt: "\<And>tgt. map_of reg (po_TargetProviderID (tk_policy tk)) = Some tgt \<Longrightarrow> ready 2 tgt"
  obtains reg' mig' msg prog err where
    "copy_cycle hv conv w tk cyc reg mig = Some (reg', mig', cyc\<lparr>cy_Error := msg\<rparr>, Some prog, err)"
    "copied_ok (tk_policy tk) reg reg' prog err"
proof -
  let ?pol = "tk_policy tk"
  let ?S = "po_SourceProviderID ?pol" and ?T = "po_TargetProviderID ?pol"
  obtain reg1 msg where snap: "source_snapshot hv ?pol (cy_StartedAt cyc) w reg = (reg1, msg)" by (rule prod.exhaust)
  note reg1 = snapshot_reg [OF snap src]
  have t1: "map_of reg1 ?T = map_of reg ?T" using reg1 ne by simp
  obtain i e1 where new: "newID mig = (i, e1)" by (rule prod.exhaust)
  have "ended e1 i (verdict (repl_request ?pol) reg1 (planned conv (repl_request ?pol) reg1))
      (Run hv conv (repl_request ?pol) w reg1 mig)"
    by (rule run_ended [OF new]) (use tgt t1 in \<open>simp add: repl_request_def\<close>)
  then obtain reg' mig' prog err where
    run: "Run hv conv (repl_request ?pol) w reg1 mig = Some (reg', mig', Some prog, err)"
    and v: "verdict (repl_request ?pol) reg1 (planned conv (repl_request ?pol) reg1) reg' prog err"
    unfolding ended_def by blast
  have copy: "copy_cycle hv conv w tk cyc reg mig = Some (reg', mig', cyc\<lparr>cy_Error := msg\<rparr>, Some prog, err)"
    by (simp add: copy_cycle_def snap run)
  have "copied_ok ?pol reg reg' prog err"
  proof (cases err)
    case (Some m)
    then have "Phase prog = ''failed''" "map_of reg' = map_of reg1" using v by (simp_all add: verdict_def)
    then show ?thesis unfolding copied_ok_def Some option.case using reg1 ne t1 by simp
  next
    case None
    then obtain sp tgt tgt' where p: "Phase prog = ''done''" "planned conv (repl_request ?pol) reg1 = Some sp"
      "map_of reg ?T = Some tgt" "map_of reg' = (map_of reg1)(?T \<mapsto> tgt')" "gained sp tgt tgt' (TargetVMID prog)"
      using v t1 by (auto simp: verdict_def repl_request_def)
    have "map_of reg' ?S = map_of reg1 ?S" using p(4) ne by simp
    then show ?thesis unfolding copied_ok_def None option.case
      using reg1 ne t1 p planned_name [OF p(2)] by simp blast
  qed
  with copy show thesis by (rule that)
qed

end

lemma snapshot_counts: "map_of (vms (fst (Snapshot p i opts w))) k = map_of (vms p) k \<or>
    (k = i \<and> (\<exists>v n. map_of (vms p) i = Some v \<and> map_of (vms (fst (Snapshot p i opts w))) i = Some (v\<lparr>vm_SnapshotCount := n\<rparr>)))"
  by (auto simp: Snapshot_def nextID_eq Let_def map_of_put split: option.split)

interpretation simulated_dr: replicating sim_hv "\<lambda>p. map_of (vms p)" sim_ready
proof unfold_locales
  fix n p i opts w p' res
  assume rd: "sim_ready (Suc n) p" and s: "hv_Snapshot sim_hv p i opts w = (p', res)"
  have p': "p' = sim_step p (Op_Snapshot i opts, w)" "p' = fst (Snapshot p i opts w)"
    using s by (simp_all add: sim_step_def)
  have "same_but_counts (map_of (vms p)) (map_of (vms p'))"
    unfolding same_but_counts_def p'(2)
  proof
    fix k
    show "map_option (vm_SnapshotCount_update (\<lambda>_. 0)) (map_of (vms (fst (Snapshot p i opts w))) k)
        = map_option (vm_SnapshotCount_update (\<lambda>_. 0)) (map_of (vms p) k)"
      using snapshot_counts [of p i opts w k] by auto
  qed
  then show "sim_ready n p' \<and> same_but_counts (map_of (vms p)) (map_of (vms p'))"
    using sim_ready_step [OF rd] p'(1) by simp
qed

lemma folded_more [simp]:
  "History (folded st c s l r y) = newest maxHistory (History st @ [c])"
  "ReplicaVMID (folded st c s l r y) = (if cy_OK c \<and> r \<noteq> [] then r else ReplicaVMID st)"
  "LastSyncAt (folded st c s l r y) = (if cy_OK c \<and> y \<noteq> None then y else LastSyncAt st)"
  by (auto simp: folded_def Let_def newest_def split: option.split)

lemma last_newest: "0 < n \<Longrightarrow> last (newest n (xs @ [x])) = x"
  by (simp add: newest_def last_drop)

lemma copy_failure_iff:
  "copy_failure cyc (Some prog) err = None \<longleftrightarrow> err = None \<and> Phase prog = ''done''"
  by (simp add: copy_failure_def Let_def)

text \<open>What finishing a cycle leaves in the job.\<close>

lemma finish_success:
  assumes "err = None" "Phase prog = ''done''" "job_at e (tk_id tk) = Some j"
    and "finish_cycle hv w reg e tk cyc (Some prog) err = (e', c, res)"
  shows "res = None \<and> cy_OK c \<and> cy_ReplicaVMID c = TargetVMID prog \<and> (\<exists>j'. job_at e' (tk_id tk) = Some j'
    \<and> History (job_State j') = newest maxHistory (History (job_State j) @ [c])
    \<and> Status (job_State j') \<in> {''idle'', ''degraded''}
    \<and> ReplicaVMID (job_State j') = (if TargetVMID prog \<noteq> [] then TargetVMID prog else ReplicaVMID (job_State j))
    \<and> LastSyncAt (job_State j') = cy_FinishedAt c \<and> cy_FinishedAt c = Some (fst (read_clock e)))"
  using assms copy_failure_iff [of cyc prog err]
  by (auto simp: finish_cycle_def recordCycle_jobs read_clock_def Let_def)

lemma finish_failure:
  assumes "copy_failure cyc (Some prog) err = Some msg" "job_at e (tk_id tk) = Some j"
    and "finish_cycle hv w reg e tk cyc (Some prog) err = (e', c, res)"
  shows "res \<noteq> None \<and> \<not> cy_OK c \<and> (\<exists>j'. job_at e' (tk_id tk) = Some j'
    \<and> History (job_State j') = newest maxHistory (History (job_State j) @ [c])
    \<and> Status (job_State j') = ''error'' \<and> ReplicaVMID (job_State j') = ReplicaVMID (job_State j)
    \<and> LastSyncAt (job_State j') = LastSyncAt (job_State j))"
  using assms by (auto simp: finish_cycle_def recordCycle_jobs read_clock_def Let_def)

subsection \<open>The properties\<close>

text \<open>C32. However the calls of the engine interleave, the state of a policy is the summary of the
  cycles recorded for it: its history is the last 50, its counter their number, the byte count the
  sum over the successful ones, the replica and the last sync those of the latest successful one. A
  scheduler runs only for an enabled policy of a running engine that has not failed over, and no
  two cycles of a job are past its lock at once.\<close>

theorem cycle_log_summary:
  assumes "dr_run hv conv w evs ms w'" "repl_jobs (dr_eng w) = []" "flights w = []"
  shows "(\<forall>i j. job_at (dr_eng w') i = Some j \<longrightarrow> summarises (job_State j) (log_of i ms)
      \<and> length (History (job_State j)) \<le> 50
      \<and> (job_ticker j \<noteq> None \<longrightarrow> repl_running (dr_eng w') \<and> po_Enabled (rs_Policy (job_State j))
           \<and> Status (job_State j) \<noteq> ''failed_over''))
    \<and> (\<forall>g g' f f' obj. map_of (flights w') g = Some f \<and> map_of (flights w') g' = Some f'
         \<and> holds f obj \<and> holds f' obj \<longrightarrow> g = g')"
proof -
  have fine: "jobs_fine (dr_eng w') ms" "exclusive w'" using run_fine [OF assms] by simp_all
  have "length (newest maxHistory (log_of i ms)) \<le> 50" for i by (simp add: newest_def maxHistory_def)
  then have "\<forall>i j. job_at (dr_eng w') i = Some j \<longrightarrow> summarises (job_State j) (log_of i ms)
      \<and> length (History (job_State j)) \<le> 50
      \<and> (job_ticker j \<noteq> None \<longrightarrow> repl_running (dr_eng w') \<and> po_Enabled (rs_Policy (job_State j))
           \<and> Status (job_State j) \<noteq> ''failed_over'')"
    using jobs_fineD [OF fine(1)] by (simp add: job_ok_def summarises_def)
  then show ?thesis using fine(2) unfolding exclusive_def by blast
qed

text \<open>C33. A policy that has failed over, with none of its calls in flight, is never touched again
  by any run of calls that does not remove it or fail it over once more: it stays failed over, is
  not scheduled, and keeps its replica and its history; updating the policy or running it now does
  not resume the replication.\<close>

theorem failed_over_frozen:
  assumes "dr_run hv conv w evs ms w'" "list_all (spares i) evs"
    and "job_at (dr_eng w) i = Some j" "Status (job_State j) = ''failed_over''" "job_ticker j = None"
    and "list_all (\<lambda>(g, f). about f \<noteq> i) (flights w)"
  shows "\<exists>j'. job_at (dr_eng w') i = Some j' \<and> Status (job_State j') = ''failed_over'' \<and> job_ticker j' = None
    \<and> ReplicaVMID (job_State j') = ReplicaVMID (job_State j) \<and> History (job_State j') = History (job_State j)
    \<and> check_cycle (dr_eng w') i
        = Inl (''replication: policy '' @ go_quote i @ '' is failed-over; replication is paused'')"
proof -
  have "quiet w i" unfolding quiet_def using assms(6) by (auto simp: list_all_iff dest: map_of_SomeD)
  moreover have "frozen (dr_eng w) i (ReplicaVMID (job_State j)) (History (job_State j))"
    using assms(3-5) by (simp add: frozen_def)
  ultimately have "frozen (dr_eng w') i (ReplicaVMID (job_State j)) (History (job_State j))"
    using run_frozen [OF assms(1)] assms(2) by blast
  then show ?thesis by (auto simp: frozen_def check_cycle_def)
qed

text \<open>A replication cycle between two different simulated providers always ends in a recorded
  cycle. The source's machines are unchanged but for their snapshot counts and every third provider
  is untouched. If the cycle reports an error the target is unchanged and the policy, in status
  error, keeps its replica and its last sync; otherwise the target has exactly one machine more, named
  after the source machine, and that machine is the policy's replica.\<close>

theorem cycle_outcome:
  assumes "check_cycle e i = Inr tk"
    and "po_SourceProviderID (tk_policy tk) \<noteq> po_TargetProviderID (tk_policy tk)"
    and "\<forall>k p. k \<in> {po_SourceProviderID (tk_policy tk), po_TargetProviderID (tk_policy tk)} \<longrightarrow>
      map_of reg k = Some p \<longrightarrow> sim_ready 2 p"
  shows "\<exists>reg' mig' e' c res j j'. runCycle sim_hv conv w i reg mig e = Some (reg', mig', e', Some c, res)
    \<and> job_at e i = Some j \<and> job_at e' i = Some j' \<and> last (History (job_State j')) = c \<and> cy_OK c = (res = None)
    \<and> (\<forall>k. k \<noteq> po_SourceProviderID (tk_policy tk) \<longrightarrow> k \<noteq> po_TargetProviderID (tk_policy tk) \<longrightarrow>
         map_of reg' k = map_of reg k)
    \<and> rel_option (\<lambda>src src'. same_but_counts (map_of (vms src)) (map_of (vms src')))
         (map_of reg (po_SourceProviderID (tk_policy tk))) (map_of reg' (po_SourceProviderID (tk_policy tk)))
    \<and> (case res of
         Some msg \<Rightarrow> map_of reg' (po_TargetProviderID (tk_policy tk)) = map_of reg (po_TargetProviderID (tk_policy tk))
           \<and> Status (job_State j') = ''error'' \<and> ReplicaVMID (job_State j') = ReplicaVMID (job_State j)
           \<and> LastSyncAt (job_State j') = LastSyncAt (job_State j)
       | None \<Rightarrow> Status (job_State j') \<in> {''idle'', ''degraded''} \<and> LastSyncAt (job_State j') = cy_FinishedAt c
           \<and> (\<exists>tgt tgt' v. map_of reg (po_TargetProviderID (tk_policy tk)) = Some tgt
             \<and> map_of reg' (po_TargetProviderID (tk_policy tk)) = Some tgt'
             \<and> map_of (vms tgt) (ReplicaVMID (job_State j')) = None
             \<and> map_of (vms tgt') = (map_of (vms tgt))(ReplicaVMID (job_State j') \<mapsto> v)
             \<and> vm_ID v = ReplicaVMID (job_State j') \<and> vm_Name v = po_SourceVMID (tk_policy tk) @ ''-replica''))"
proof -
  let ?pol = "tk_policy tk"
  obtain j where j: "job_at e i = Some j" "tk_id tk = i"
    using assms(1) by (auto simp: check_cycle_def split: option.splits if_splits)
  obtain e1 cyc where b: "begin_cycle e tk = (e1, cyc)" by (rule prod.exhaust)
  let ?j1 = "j\<lparr>job_State := (job_State j)\<lparr>Status := ''syncing'', LastError := LastError (job_State j)\<rparr>\<rparr>"
  have j1: "job_at e1 (tk_id tk) = Some ?j1" using begin_cycle_eq [OF b] j by (simp add: setStatus_jobs)
  have ready2: "map_of reg (po_SourceProviderID ?pol) = Some p \<Longrightarrow> sim_ready 2 p"
    "map_of reg (po_TargetProviderID ?pol) = Some p \<Longrightarrow> sim_ready 2 p" for p
    using assms(3) by auto
  have ready: "map_of reg (po_SourceProviderID ?pol) = Some p \<Longrightarrow> sim_ready 1 p" for p
    using ready2(1) [of p] by (simp add: sim_ready_def room_def)
  from simulated_dr.copy_outcome [OF assms(2) ready ready2(2)] obtain reg' mig' msg prog err where
    cp: "copy_cycle sim_hv conv w tk cyc reg mig = Some (reg', mig', cyc\<lparr>cy_Error := msg\<rparr>, Some prog, err)"
    and ok: "simulated_dr.copied_ok ?pol reg reg' prog err" by blast
  obtain e2 c res where f: "finish_cycle sim_hv w reg' e1 tk (cyc\<lparr>cy_Error := msg\<rparr>) (Some prog) err = (e2, c, res)"
    by (rule prod_cases3)
  have run: "runCycle sim_hv conv w i reg mig e = Some (reg', mig', e2, Some c, res)"
    by (simp add: runCycle_def assms(1) b cp f)
  have last: "last (newest maxHistory (h @ [c])) = c" for h by (simp add: last_newest maxHistory_def)
  show ?thesis
  proof (cases err)
    case (Some m)
    then obtain msg' where "copy_failure (cyc\<lparr>cy_Error := msg\<rparr>) (Some prog) err = Some msg'"
      using copy_failure_iff [of "cyc\<lparr>cy_Error := msg\<rparr>" prog err] by (cases "copy_failure (cyc\<lparr>cy_Error := msg\<rparr>) (Some prog) err") auto
    from finish_failure [OF this j1 f] obtain j' m' where
      "res = Some m'" "\<not> cy_OK c" "job_at e2 i = Some j'" "History (job_State j') = newest maxHistory (History (job_State j) @ [c])"
      "Status (job_State j') = ''error''" "ReplicaVMID (job_State j') = ReplicaVMID (job_State j)"
      "LastSyncAt (job_State j') = LastSyncAt (job_State j)" using j(2) by auto
    then show ?thesis using run j(1) last ok Some unfolding simulated_dr.copied_ok_def
      by - (rule exI [of _ reg'], rule exI [of _ mig'], rule exI [of _ e2], rule exI [of _ c], rule exI [of _ res],
        rule exI [of _ j], rule exI [of _ j'], simp)
  next
    case None
    then obtain tgt tgt' sp where p: "Phase prog = ''done''" "map_of reg (po_TargetProviderID ?pol) = Some tgt"
      "map_of reg' (po_TargetProviderID ?pol) = Some tgt'" "simulated.gained sp tgt tgt' (TargetVMID prog)"
      "vs_Name sp = po_SourceVMID ?pol @ ''-replica''"
      using ok by (auto simp: simulated_dr.copied_ok_def)
    obtain v where v: "TargetVMID prog \<noteq> []" "map_of (vms tgt) (TargetVMID prog) = None"
      "map_of (vms tgt') = (map_of (vms tgt))(TargetVMID prog \<mapsto> v)" "vm_ID v = TargetVMID prog"
      "vm_Name v = po_SourceVMID ?pol @ ''-replica''"
      using p(4,5) by (auto simp: simulated.gained_def built_to_def)
    from finish_success [OF None p(1) j1 f] v(1) obtain j' where
      "res = None" "cy_OK c" "job_at e2 i = Some j'" "History (job_State j') = newest maxHistory (History (job_State j) @ [c])"
      "Status (job_State j') \<in> {''idle'', ''degraded''}" "ReplicaVMID (job_State j') = TargetVMID prog"
      "LastSyncAt (job_State j') = cy_FinishedAt c" using j(2) by auto
    then show ?thesis using run j(1) last ok v(2-5) p(2,3) None unfolding simulated_dr.copied_ok_def
      by - (rule exI [of _ reg'], rule exI [of _ mig'], rule exI [of _ e2], rule exI [of _ c], rule exI [of _ res],
        rule exI [of _ j], rule exI [of _ j'], simp, intro exI [of _ v], simp)
  qed
qed

text \<open>After a restart every job is new.\<close>

definition unused :: "repl_job \<Rightarrow> bool" where
  "unused j \<longleftrightarrow> Status (job_State j) = ''idle'' \<and> ReplicaVMID (job_State j) = []"

lemma upsert_unused:
  assumes "\<forall>i j. job_at e i = Some j \<longrightarrow> unused j" "job_at (fst (Repl_Upsert e p)) i = Some j"
  shows "unused j"
proof (cases "i = po_ID p")
  case True
  define j0 where "j0 = (case job_at e (po_ID p) of None \<Rightarrow> new_job p (next_obj e) | Some j \<Rightarrow> j)"
  have "unused j0" using assms(1) by (auto simp: j0_def unused_def new_job_def split: option.split)
  moreover have "j = refreshed p (repl_running e) j0" using assms(2) True by (simp add: upsert_jobs j0_def)
  ultimately show ?thesis by (simp add: unused_def refreshed_state)
next
  case False
  then show ?thesis using assms by (simp add: upsert_jobs)
qed

lemma snapshotState_some: "job_at e i = Some j \<Longrightarrow> \<exists>e1 st. snapshotState e i = (e1, Some st)"
  by (cases "LastSyncAt (job_State j)") (simp_all add: snapshotState_def read_clock_def Let_def)

lemma restarted_unused:
  "job_at (repl_restarted now e) i = Some j \<Longrightarrow> unused j"
proof -
  have "\<forall>i j. job_at (fold (\<lambda>r e. if rr_Status r = ''failed_over'' then e else fst (Repl_Upsert e (toEnginePolicy r))) rs e) i = Some j
      \<longrightarrow> unused j"
    if "\<forall>i j. job_at e i = Some j \<longrightarrow> unused j" for rs e
    using that
  proof (induction rs arbitrary: e)
    case (Cons r rs)
    show ?case
    proof (cases "rr_Status r = ''failed_over''")
      case True
      then show ?thesis using Cons by simp
    next
      case False
      have "\<forall>i j. job_at (fst (Repl_Upsert e (toEnginePolicy r))) i = Some j
          \<longrightarrow> unused j"
        using upsert_unused [OF Cons.prems] by blast
      from Cons.IH [OF this] show ?thesis using False by simp
    qed
  qed simp
  from this [of "Repl_Start (Repl_New now (repl_rows e))"]
  show "job_at (repl_restarted now e) i = Some j \<Longrightarrow> unused j"
    by (simp add: repl_restarted_def LoadReplicationPolicies_def Repl_Start_def Repl_New_def Let_def)
qed

text \<open>C35. A restart forgets the replicas: although the table keeps the replica of every policy, each
  failover is refused, without touching a provider, until a new cycle has run; and running any stored
  policy now, one that has failed over included, starts a cycle instead of being refused.\<close>

theorem restart_forgets_replicas:
  assumes "GetReplicationPolicy e i = Some r"
  shows "(\<exists>msg. Failover hv wall reg (repl_restarted now e) i = (reg, repl_restarted now e, None, Some msg))
    \<and> (\<exists>tk. check_cycle (reregistered (repl_restarted now e) i r) i = Inr tk \<and> tk_prior tk = [])"
proof
  show "\<exists>msg. Failover hv wall reg (repl_restarted now e) i = (reg, repl_restarted now e, None, Some msg)"
    using restarted_unused [of now e i]
    by (cases "job_at (repl_restarted now e) i") (simp_all add: Failover_def failover_power_def unused_def)
next
  let ?e = "repl_restarted now e"
  have i: "po_ID (toEnginePolicy r) = i"
    using assms by (auto simp: GetReplicationPolicy_def toEnginePolicy_def find_Some_iff)
  show "\<exists>tk. check_cycle (reregistered ?e i r) i = Inr tk \<and> tk_prior tk = []"
  proof (cases "job_at ?e i")
    case None
    then have "reregistered ?e i r = fst (Repl_Upsert ?e (toEnginePolicy r))"
      by (simp add: reregistered_def Repl_State_def)
    then show ?thesis using None i by (simp add: check_cycle_def upsert_jobs refreshed_state new_job_def)
  next
    case (Some j)
    obtain e1 st where st: "snapshotState ?e i = (e1, Some st)"
      using snapshotState_some [OF Some] by blast
    then have "reregistered ?e i r = e1" using Some by (simp add: reregistered_def Repl_State_def)
    moreover have "job_at e1 = job_at ?e" using snapshotState_fields(1) [of ?e i] st by simp
    ultimately show ?thesis using Some restarted_unused [OF Some] by (simp add: check_cycle_def unused_def)
  qed
qed

subsection \<open>The theorems at concrete policies\<close>

definition lab_policy :: repl_policy where
  "lab_policy = \<lparr>po_ID = ''p'', po_Name = ''dr'', po_SourceProviderID = ''a'', po_SourceVMID = ''vm-3'',
     po_TargetProviderID = ''b'', po_TargetHostID = [], IntervalSeconds = 300, Retain = 5, po_Enabled = True\<rparr>"

definition lab_engine :: repl where
  "lab_engine = fst (Repl_Upsert (Repl_Start (Repl_New (\<lambda>n. int n * second) [])) lab_policy)"

definition lab_ticket :: ticket where
  "lab_ticket = \<lparr>tk_id = ''p'', tk_obj = 0, tk_policy = lab_policy, tk_prior = []\<rparr>"

lemma lab_check: "check_cycle lab_engine ''p'' = Inr lab_ticket"
  by code_simp

lemma lab_source_ready: "sim_ready 2 (used_sim ''a'')"
proof -
  have "snapshots (used_sim ''a'') = []" "seq (used_sim ''a'') = 3"
    "list_all (\<lambda>(k, v). vm_ID v = k \<and> vm_SnapshotCount v = 0 \<and> list_ex (\<lambda>n. k = id_of ''vm'' n) [0..3]) (vms (used_sim ''a''))"
    by code_simp+
  then show ?thesis using sim_ok_no_snapshots [of "used_sim ''a''"] unfolding sim_ready_def room_def by simp
qed

theorem cycle_outcome_witness:
  "\<exists>reg' mig' e' c res. runCycle sim_hv PassthroughConverter 5 ''p'' lab idle lab_engine = Some (reg', mig', e', Some c, res)
    \<and> cy_OK c = (res = None)"
proof -
  have "\<forall>k p. k \<in> {po_SourceProviderID (tk_policy lab_ticket), po_TargetProviderID (tk_policy lab_ticket)} \<longrightarrow>
      map_of lab k = Some p \<longrightarrow> sim_ready 2 p"
    using lab_source_ready lab_ready by (auto simp: lab_def lab_ticket_def lab_policy_def move_vm_def)
  moreover have "po_SourceProviderID (tk_policy lab_ticket) \<noteq> po_TargetProviderID (tk_policy lab_ticket)"
    by (simp add: lab_ticket_def lab_policy_def)
  ultimately obtain reg' mig' e' c res where
    "runCycle sim_hv PassthroughConverter 5 ''p'' lab idle lab_engine = Some (reg', mig', e', Some c, res)"
    "cy_OK c = (res = None)"
    using cycle_outcome [OF lab_check, of lab PassthroughConverter 5 idle] by (elim impE meta_impE exE conjE) (assumption | rule that)+
  then show ?thesis by (intro exI conjI)
qed

text \<open>A policy whose providers are not registered: one cycle, from the tick to the recorded failure.\<close>

definition empty_world :: "repl \<Rightarrow> sim dr" where
  "empty_world e = \<lparr>dr_reg = [], dr_mig = idle, dr_eng = e, flights = []\<rparr>"

definition lab_events :: "event list" where
  "lab_events = [E_Start, E_Upsert lab_policy, E_Run ''g'' ''p'', E_Lock ''g'', E_Copy ''g'' 5, E_Finish ''g'' 6]"

lemma lab_run: "\<exists>w c. dr_run sim_hv PassthroughConverter (empty_world (Repl_New int [])) lab_events
    [Created ''p'', Recorded ''p'' c] w \<and> job_at (dr_eng w) ''p'' \<noteq> None"
proof -
  let ?w0 = "empty_world (Repl_New int [])"
  define w1 where "w1 = ?w0\<lparr>dr_eng := Repl_Start (dr_eng ?w0)\<rparr>"
  define w2 where "w2 = w1\<lparr>dr_eng := fst (Repl_Upsert (dr_eng w1) lab_policy)\<rparr>"
  define w3 where "w3 = w2\<lparr>flights := put (flights w2) ''g'' (Waiting lab_ticket)\<rparr>"
  have f: "flights w1 = []" "flights w2 = []" "flights w3 = [(''g'', Waiting lab_ticket)]" "dr_reg w3 = []" "dr_mig w3 = idle"
    by (simp_all add: w1_def w2_def w3_def empty_world_def put_def)
  obtain e4 cyc where b: "begin_cycle (dr_eng w3) lab_ticket = (e4, cyc)" by (rule prod.exhaust)
  define w4 where "w4 = w3\<lparr>dr_eng := e4, flights := put (flights w3) ''g'' (Syncing lab_ticket cyc)\<rparr>"
  have f4: "map_of (flights w4) ''g'' = Some (Syncing lab_ticket cyc)" "dr_reg w4 = []" "dr_mig w4 = idle"
    using f by (simp_all add: w4_def map_of_put)
  from simulated_dr.copy_outcome [of lab_ticket "[]" "PassthroughConverter" 5 cyc idle] obtain reg' mig' msg prog err where
    c: "copy_cycle sim_hv PassthroughConverter 5 lab_ticket cyc [] idle = Some (reg', mig', cyc\<lparr>cy_Error := msg\<rparr>, Some prog, err)"
    by (simp add: lab_ticket_def lab_policy_def) metis
  define w5 where "w5 = w4\<lparr>dr_reg := reg', dr_mig := mig', flights := put (flights w4) ''g'' (Copied lab_ticket (cyc\<lparr>cy_Error := msg\<rparr>) (Some prog) err)\<rparr>"
  have f5: "map_of (flights w5) ''g'' = Some (Copied lab_ticket (cyc\<lparr>cy_Error := msg\<rparr>) (Some prog) err)"
    by (simp add: w5_def map_of_put)
  obtain e6 cy res where fin: "finish_cycle sim_hv 6 (dr_reg w5) (dr_eng w5) lab_ticket (cyc\<lparr>cy_Error := msg\<rparr>) (Some prog) err = (e6, cy, res)"
    by (rule prod_cases3)
  define w6 where "w6 = w5\<lparr>dr_eng := e6, flights := del (flights w5) ''g''\<rparr>"
  have jobs: "job_at (dr_eng w1) ''p'' = None" "job_at (dr_eng w3) ''p'' \<noteq> None" and chk: "check_cycle (dr_eng w2) ''p'' = Inr lab_ticket"
    unfolding w3_def w2_def w1_def empty_world_def by code_simp+
  have "job_at (dr_eng w5) ''p'' \<noteq> None"
    using jobs(2) begin_cycle_eq [OF b] by (simp add: w5_def w4_def setStatus_jobs lab_ticket_def split: option.split)
  moreover from this have "job_at e6 ''p'' \<noteq> None"
  proof -
    from finish_cycle_eq [OF fin] obtain s l r y where
      "e6 = recordCycle (snd (read_clock (dr_eng w5))) (tk_id lab_ticket) cy s l r y 6" .
    then show ?thesis using calculation by (simp add: recordCycle_jobs split: option.split)
  qed
  moreover have id: "tk_id lab_ticket = ''p''" "po_ID lab_policy = ''p''" by (simp_all add: lab_ticket_def lab_policy_def)
  ultimately have j: "job_at (dr_eng w5) (tk_id lab_ticket) \<noteq> None" "job_at (dr_eng w6) ''p'' \<noteq> None" by (simp_all add: w6_def)
  note r = dr_run.more [of sim_hv PassthroughConverter]
  have r1: "dr_run sim_hv PassthroughConverter ?w0 [E_Start] [] w1"
    using r [OF dr_run.nothing dr_step.start, of ?w0] by (simp add: w1_def)
  have "dr_step sim_hv PassthroughConverter w1 (E_Upsert lab_policy) [Created ''p''] w2"
    using dr_step.upsert [of sim_hv PassthroughConverter w1 lab_policy, folded w2_def] jobs(1) id by simp
  from r [OF r1 this] have r2: "dr_run sim_hv PassthroughConverter ?w0 [E_Start, E_Upsert lab_policy] [Created ''p''] w2" by simp
  have "dr_step sim_hv PassthroughConverter w2 (E_Run ''g'' ''p'') [] w3"
    unfolding w3_def by (rule dr_step.run [OF chk]) (simp add: f)
  from r [OF r2 this] have r3: "dr_run sim_hv PassthroughConverter ?w0 [E_Start, E_Upsert lab_policy, E_Run ''g'' ''p'']
      [Created ''p''] w3" by simp
  have "dr_step sim_hv PassthroughConverter w3 (E_Lock ''g'') [] w4"
    unfolding w4_def by (rule dr_step.lock [OF _ _ b]) (simp_all add: f locked_def)
  from r [OF r3 this] have r4: "dr_run sim_hv PassthroughConverter ?w0
      [E_Start, E_Upsert lab_policy, E_Run ''g'' ''p'', E_Lock ''g''] [Created ''p''] w4" by simp
  have "dr_step sim_hv PassthroughConverter w4 (E_Copy ''g'' 5) [] w5"
    unfolding w5_def by (rule dr_step.copy [OF f4(1)]) (simp add: f4 c)
  from r [OF r4 this] have r5: "dr_run sim_hv PassthroughConverter ?w0
      [E_Start, E_Upsert lab_policy, E_Run ''g'' ''p'', E_Lock ''g'', E_Copy ''g'' 5] [Created ''p''] w5" by simp
  have "dr_step sim_hv PassthroughConverter w5 (E_Finish ''g'' 6) [Recorded ''p'' cy] w6"
    using dr_step.finish [OF f5 fin, of PassthroughConverter, folded w6_def, unfolded if_not_P [OF j(1)]] id(1) by simp
  from r [OF r5 this] have "dr_run sim_hv PassthroughConverter ?w0 lab_events [Created ''p'', Recorded ''p'' cy] w6"
    by (simp add: lab_events_def)
  then show ?thesis using j(2) by blast
qed

theorem cycle_log_summary_witness:
  "\<exists>w j c. dr_run sim_hv PassthroughConverter (empty_world (Repl_New int [])) lab_events [Created ''p'', Recorded ''p'' c] w
    \<and> job_at (dr_eng w) ''p'' = Some j \<and> History (job_State j) = [c] \<and> CycleCount (job_State j) = 1"
proof -
  obtain w c j where run: "dr_run sim_hv PassthroughConverter (empty_world (Repl_New int [])) lab_events
      [Created ''p'', Recorded ''p'' c] w" "job_at (dr_eng w) ''p'' = Some j"
    using lab_run by blast
  have "summarises (job_State j) (log_of ''p'' [Created ''p'', Recorded ''p'' c])"
    using cycle_log_summary [OF run(1)] run(2) by (simp add: empty_world_def Repl_New_def)
  then show ?thesis using run
    by (intro exI [of _ w] exI [of _ j] exI [of _ c]) (simp add: summarises_def log_of_def newest_def maxHistory_def wrap64_def)
qed

definition live_job :: repl_job where
  "live_job = (let j = new_job lab_policy 0 in j\<lparr>job_State := (job_State j)\<lparr>Status := ''failed_over'', ReplicaVMID := ''vm-9''\<rparr>\<rparr>)"

definition live_world :: "sim dr" where
  "live_world = empty_world ((Repl_Start (Repl_New int []))\<lparr>repl_jobs := [(''p'', live_job)]\<rparr>)"

theorem failed_over_frozen_witness:
  "\<exists>w j'. dr_run sim_hv PassthroughConverter live_world [E_Upsert lab_policy, E_Run ''g'' ''p''] [] w
    \<and> job_at (dr_eng w) ''p'' = Some j' \<and> Status (job_State j') = ''failed_over'' \<and> ReplicaVMID (job_State j') = ''vm-9''"
proof -
  define w1 where "w1 = live_world\<lparr>dr_eng := fst (Repl_Upsert (dr_eng live_world) lab_policy)\<rparr>"
  have job: "job_at (dr_eng live_world) ''p'' = Some live_job" "flights live_world = []"
    by (simp_all add: live_world_def empty_world_def)
  have live: "Status (job_State live_job) = ''failed_over''" "job_ticker live_job = None" "ReplicaVMID (job_State live_job) = ''vm-9''"
    by code_simp+
  have "isl (check_cycle (dr_eng w1) ''p'')" unfolding w1_def live_world_def empty_world_def by code_simp
  then obtain err where err: "check_cycle (dr_eng w1) ''p'' = Inl err" by (auto simp: isl_def)
  have "dr_step sim_hv PassthroughConverter live_world (E_Upsert lab_policy) [] w1"
    using dr_step.upsert [of sim_hv PassthroughConverter live_world lab_policy, folded w1_def] job(1)
    by (simp add: lab_policy_def)
  from dr_run.more [OF dr_run.nothing this]
  have "dr_run sim_hv PassthroughConverter live_world [E_Upsert lab_policy] [] w1" by simp
  from dr_run.more [OF this dr_step.run_refused [OF err]]
  have run: "dr_run sim_hv PassthroughConverter live_world [E_Upsert lab_policy, E_Run ''g'' ''p''] [] w1" by simp
  then show ?thesis using failed_over_frozen [OF run _ job(1) live(1,2)] live(3) job(2) by simp blast
qed

definition stored_policy :: repl_row where
  "stored_policy = \<lparr>rr_Policy = lab_policy, rr_Status = ''failed_over'', rr_LastSyncAt = 7, rr_ReplicaVMID = ''vm-9'',
     rr_LastError = [], rr_CreatedAt = 1, rr_UpdatedAt = 7\<rparr>"

theorem restart_forgets_replicas_witness:
  "\<exists>r msg tk. GetReplicationPolicy (Repl_New int [stored_policy]) ''p'' = Some r \<and> rr_Status r = ''failed_over''
    \<and> rr_ReplicaVMID r = ''vm-9''
    \<and> Failover sim_hv 5 lab (repl_restarted int (Repl_New int [stored_policy])) ''p''
       = (lab, repl_restarted int (Repl_New int [stored_policy]), None, Some msg)
    \<and> check_cycle (reregistered (repl_restarted int (Repl_New int [stored_policy])) ''p'' r) ''p'' = Inr tk"
proof -
  have g: "GetReplicationPolicy (Repl_New int [stored_policy]) ''p'' = Some stored_policy"
    by (simp add: GetReplicationPolicy_def Repl_New_def stored_policy_def lab_policy_def)
  have "rr_Status stored_policy = ''failed_over''" "rr_ReplicaVMID stored_policy = ''vm-9''"
    by (simp_all add: stored_policy_def)
  then show ?thesis using restart_forgets_replicas [OF g, of sim_hv 5 lab int] g by blast
qed

end
