(* ===== verification/Storage.thy ===== *)
theory Storage
  imports Go_Prelude
begin

text \<open>
  Storage backends, \<open>server/internal/storage\<close>: the configuration and its validation
  (\<open>storage.go\<close>), the object operations of a local directory (\<open>local.go\<close>) and of a mounted NFS or
  SMB pool, which delegates to them, with the pool's name, mount path and XML (\<open>san.go\<close>). The
  file system is a finite map from paths, as lists of their elements, to directories and files; it
  does not run out of space, and the texts of errors of the operating system are left out. The functions of \<open>path/filepath\<close> are lexical, on Unix paths. A reader
  delivers its bytes and then ends or fails.
\<close>

subsection \<open>Configuration\<close>

record storage_config =
  sc_Type :: string
  sc_Name :: string
  Endpoint :: string
  Target :: string
  sc_Username :: string
  Secret :: string
  sc_ProviderID :: string
  PoolName :: string
  LibvirtEndpoint :: string
  Account :: string
  Container :: string
  Region :: string
  ServiceURL :: string

definition ValidType :: "string \<Rightarrow> bool" where
  "ValidType t \<longleftrightarrow> t \<in> {''nfs'', ''iscsi'', ''smb'', ''azureblob'', ''s3'', ''local''}"

definition IsSAN :: "string \<Rightarrow> bool" where
  "IsSAN t \<longleftrightarrow> t = ''nfs'' \<or> t = ''iscsi'' \<or> t = ''smb''"

definition IsCloud :: "string \<Rightarrow> bool" where
  "IsCloud t \<longleftrightarrow> t = ''azureblob'' \<or> t = ''s3''"

definition firstNonEmpty :: "string list \<Rightarrow> string" where
  "firstNonEmpty vals = (case filter (\<lambda>v. trim_space v \<noteq> []) vals of [] \<Rightarrow> [] | v # _ \<Rightarrow> v)"

abbreviation blank :: "string \<Rightarrow> bool" where "blank s \<equiv> trim_space s = []"

text \<open>\<open>None\<close> is no error; the unknown type is quoted by the error, which is left to the caller.\<close>

definition Storage_Validate :: "storage_config \<Rightarrow> string option" where
  "Storage_Validate c =
     (if sc_Type c = ''nfs'' then
        (if blank (Endpoint c) \<or> blank (Target c)
         then Some ''nfs requires host (endpoint) and export path (target)'' else None)
      else if sc_Type c = ''iscsi'' then
        (if blank (Endpoint c) \<or> blank (Target c)
         then Some ''iscsi requires portal host (endpoint) and target IQN (target)'' else None)
      else if sc_Type c = ''smb'' then
        (if blank (Endpoint c) \<or> blank (Target c)
         then Some ''smb requires server (endpoint) and share/UNC (target)'' else None)
      else if sc_Type c = ''azureblob'' then
        (if blank (firstNonEmpty [Account c, sc_Username c]) \<or> blank (firstNonEmpty [Container c, Target c])
         then Some ''azureblob requires account (username) and container (target)''
         else if blank (Secret c) then Some ''azureblob requires an account key'' else None)
      else if sc_Type c = ''s3'' then
        (if blank (firstNonEmpty [Container c, Target c]) then Some ''s3 requires a bucket (target)''
         else if blank (firstNonEmpty [Account c, sc_Username c]) \<or> blank (Secret c)
         then Some ''s3 requires an access key id (username) and secret access key''
         else if blank (Region c) then Some ''s3 requires a region'' else None)
      else if sc_Type c = ''local'' then
        (if blank (Target c) then Some ''local requires a base directory (target)'' else None)
      else Some (''storage: unsupported backend type: '' @ sc_Type c))"

subsection \<open>Paths\<close>

fun clean_step :: "bool \<Rightarrow> string list \<Rightarrow> string \<Rightarrow> string list" where
  "clean_step rooted out s =
     (if s = [] \<or> s = ''.'' then out
      else if s = ''..'' then
        (case out of [] \<Rightarrow> if rooted then [] else [''..'']
         | p # ps \<Rightarrow> if p = ''..'' then ''..'' # out else ps)
      else s # out)"

text \<open>The elements of the cleaned path.\<close>

definition clean_elems :: "string \<Rightarrow> string list" where
  "clean_elems p = rev (foldl (clean_step (has_prefix p ''/'')) [] (split_on CHR ''/'' p))"

definition path_text :: "bool \<Rightarrow> string list \<Rightarrow> string" where
  "path_text rooted es =
     (if rooted then CHR ''/'' # join_with ''/'' es else if es = [] then ''.'' else join_with ''/'' es)"

definition Clean :: "string \<Rightarrow> string" where
  "Clean p = path_text (has_prefix p ''/'') (clean_elems p)"

definition Join :: "string \<Rightarrow> string \<Rightarrow> string" where
  "Join a b = (let parts = filter (\<lambda>s. s \<noteq> []) [a, b] in if parts = [] then [] else Clean (join_with ''/'' parts))"

fun drop_common :: "string list \<Rightarrow> string list \<Rightarrow> string list \<times> string list" where
  "drop_common (a # as) (b # bs) = (if a = b then drop_common as bs else (a # as, b # bs))"
| "drop_common as bs = (as, bs)"

definition Rel :: "string \<Rightarrow> string \<Rightarrow> string option" where
  "Rel base target =
     (if Clean target = Clean base then Some ''.''
      else if has_prefix base ''/'' \<noteq> has_prefix target ''/'' then None
      else (case drop_common (clean_elems base) (clean_elems target) of
              (b, t) \<Rightarrow> if b \<noteq> [] \<and> hd b = ''..'' then None
                       else Some (join_with ''/'' (replicate (length b) ''..'' @ t))))"

definition trim_prefix :: "string \<Rightarrow> string \<Rightarrow> string" where
  "trim_prefix p s = (if has_prefix s p then drop (length p) s else s)"

subsection \<open>The file system\<close>

datatype node = Folder | File string

type_synonym fs = "(string list \<times> node) list"

definition is_file :: "fs \<Rightarrow> string list \<Rightarrow> bool" where
  "is_file t p \<longleftrightarrow> (case map_of t p of Some (File _) \<Rightarrow> True | _ \<Rightarrow> False)"

definition MkdirAll :: "fs \<Rightarrow> string list \<Rightarrow> fs option" where
  "MkdirAll t d =
     (if list_ex (is_file t) (prefixes d) then None
      else Some (fold (\<lambda>p t. if map_of t p = None then put t p Folder else t) (prefixes d) t))"

datatype remove_result = Removed | Not_exist | Remove_failed

definition fs_remove :: "fs \<Rightarrow> string list \<Rightarrow> fs \<times> remove_result" where
  "fs_remove t p =
     (case map_of t p of
        None \<Rightarrow> (t, if list_ex (is_file t) (butlast (prefixes p)) then Remove_failed else Not_exist)
      | Some (File _) \<Rightarrow> (del t p, Removed)
      | Some Folder \<Rightarrow> if list_ex (\<lambda>(q, _). strict_prefix p q) t then (t, Remove_failed) else (del t p, Removed))"

subsection \<open>The local directory\<close>

type_synonym reader = "string \<times> string option"

record local_store =
  base :: string
  tree :: fs

definition newLocalBackend :: "storage_config \<Rightarrow> fs \<Rightarrow> string + local_store" where
  "newLocalBackend c t =
     (case Storage_Validate c of Some e \<Rightarrow> Inl e
      | None \<Rightarrow> Inr \<lparr>base = Clean (trim_space (Target c)), tree = t\<rparr>)"

definition probe_key :: string where "probe_key = ''.unihv-write-probe''"

text \<open>The path of a key, and whether it is accepted.\<close>

definition resolve :: "string \<Rightarrow> string \<Rightarrow> string + string" where
  "resolve b key =
     (let clean = Clean (CHR ''/'' # trim_prefix ''/'' key); p = Join b clean
      in case Rel b p of
           None \<Rightarrow> Inl (''local: invalid key '' @ key)
         | Some rel \<Rightarrow> if rel = ''..'' \<or> has_prefix rel ''../'' then Inl (''local: invalid key '' @ key) else Inr p)"

definition Local_Test :: "local_store \<Rightarrow> local_store \<times> string option" where
  "Local_Test s =
     (case MkdirAll (tree s) (clean_elems (base s)) of
        None \<Rightarrow> (s, Some ''local: create base dir'')
      | Some t \<Rightarrow>
        (let probe = clean_elems (Join (base s) probe_key)
         in case map_of t probe of
              Some Folder \<Rightarrow> (s\<lparr>tree := t\<rparr>, Some ''local: base dir not writable'')
            | _ \<Rightarrow> (s\<lparr>tree := fst (fs_remove (put t probe (File ''ok'')) probe)\<rparr>, None)))"

definition Local_Put :: "local_store \<Rightarrow> string \<Rightarrow> reader \<Rightarrow> local_store \<times> (string + int)" where
  "Local_Put s key r =
     (case resolve (base s) key of Inl e \<Rightarrow> (s, Inl e)
      | Inr p \<Rightarrow>
        (let q = clean_elems p
         in case MkdirAll (tree s) (butlast q) of None \<Rightarrow> (s, Inl ''local: mkdir'')
            | Some t \<Rightarrow>
              (if q = [] \<or> map_of t q = Some Folder then (s\<lparr>tree := t\<rparr>, Inl ''local: create object'')
               else (case snd r of
                       Some e \<Rightarrow> (s\<lparr>tree := del t q\<rparr>, Inl (''local: write object: '' @ e))
                     | None \<Rightarrow> (s\<lparr>tree := put t q (File (fst r))\<rparr>, Inr (int (length (fst r))))))))"

definition Local_Get :: "local_store \<Rightarrow> string \<Rightarrow> string + reader" where
  "Local_Get s key =
     (case resolve (base s) key of Inl e \<Rightarrow> Inl e
      | Inr p \<Rightarrow>
        (let q = clean_elems p
         in case map_of (tree s) q of
              None \<Rightarrow> if list_ex (is_file (tree s)) (butlast (prefixes q))
                      then Inl ''local: open object'' else Inl (''local: object not found: '' @ key)
            | Some Folder \<Rightarrow> Inr ([], Some ''is a directory'')
            | Some (File c) \<Rightarrow> Inr (c, None)))"

text \<open>The walk visits the files in the order of their paths; \<open>size\<close> is the length.\<close>

definition key_of :: "string list \<Rightarrow> string list \<Rightarrow> string" where
  "key_of b p = (if p = b then ''.'' else join_with ''/'' (drop (length b) p))"

definition listed :: "local_store \<Rightarrow> string \<Rightarrow> string list \<Rightarrow> bool" where
  "listed s pre p \<longleftrightarrow> prefix (clean_elems (base s)) p
     \<and> (let k = key_of (clean_elems (base s)) p in k \<noteq> probe_key \<and> (pre = [] \<or> has_prefix k pre))"

definition Local_List :: "local_store \<Rightarrow> string \<Rightarrow> string + (string \<times> int) list" where
  "Local_List s pre =
     (let b = clean_elems (base s)
      in if b \<noteq> [] \<and> map_of (tree s) b = None then Inl ''local: list objects''
         else Inr (map (\<lambda>p. (key_of b p, case map_of (tree s) p of Some (File c) \<Rightarrow> int (length c) | _ \<Rightarrow> 0))
           (sort (filter (\<lambda>p. is_file (tree s) p \<and> listed s pre p) (keys (tree s))))))"

text \<open>\<open>filepath.Dir\<close> of a cleaned path, as its elements, and the loop that prunes empty folders.\<close>

function prune_empty :: "string \<Rightarrow> bool \<Rightarrow> fs \<Rightarrow> string list \<Rightarrow> fs" where
  "prune_empty b rooted t d =
     (if path_text rooted d = b \<or> \<not> has_prefix (path_text rooted d) b \<or> d = [] then t
      else (case fs_remove t d of (t1, Removed) \<Rightarrow> prune_empty b rooted t1 (butlast d) | (t1, _) \<Rightarrow> t1))"
  by pat_completeness auto
termination by (relation "measure (\<lambda>(_, _, _, d). length d)") simp_all

declare prune_empty.simps [simp del]

definition Local_Delete :: "local_store \<Rightarrow> string \<Rightarrow> local_store \<times> string option" where
  "Local_Delete s key =
     (case resolve (base s) key of Inl e \<Rightarrow> (s, Some e)
      | Inr p \<Rightarrow>
        (let q = clean_elems p; (t, r) = fs_remove (tree s) q
         in if r = Remove_failed then (s, Some ''local: delete object'')
            else (s\<lparr>tree := prune_empty (base s) (has_prefix p ''/'') t (butlast q)\<rparr>, None)))"

subsection \<open>Pools of a SAN or NAS\<close>

record san_backend =
  san_cfg :: storage_config
  poolName :: string

definition sanitizeName :: "string \<Rightarrow> string" where
  "sanitizeName s =
     (let out = map (\<lambda>c. if is_lower c \<or> is_upper c \<or> is_digit c \<or> c = CHR ''-'' \<or> c = CHR ''_'' \<or> c = CHR ''.''
                        then c else CHR ''-'') s
      in if out = [] then ''unihv-pool'' else out)"

definition hostOnly :: "string \<Rightarrow> string" where
  "hostOnly s =
     (let t = trim_prefix ''//'' (trim_prefix ''nfs://'' (trim_prefix ''cifs://'' (trim_prefix ''smb://'' (trim_space s))));
          u = takeWhile (\<lambda>c. c \<noteq> CHR ''/'' \<and> c \<noteq> CHR 0x5C) t
      in case cut_last CHR '':'' u of None \<Rightarrow> u | Some (a, _) \<Rightarrow> a)"

definition hostPort :: "string \<Rightarrow> string \<Rightarrow> string \<times> string" where
  "hostPort s d = (let t = trim_space s in case cut_last CHR '':'' t of None \<Rightarrow> (t, d) | Some ab \<Rightarrow> ab)"

definition derivePoolName :: "storage_config \<Rightarrow> string" where
  "derivePoolName c = sanitizeName (''unihv-'' @ sc_Type c @ ''-'' @ hostOnly (Endpoint c))"

definition newSANBackend :: "storage_config \<Rightarrow> string + san_backend" where
  "newSANBackend c =
     (case Storage_Validate c of Some e \<Rightarrow> Inl e
      | None \<Rightarrow> (let n = trim_space (PoolName c)
                in Inr \<lparr>san_cfg = c, poolName = (if n = [] then derivePoolName c else n)\<rparr>))"

definition unslash :: "string \<Rightarrow> string" where
  "unslash t = map (\<lambda>c. if c = CHR 0x5C then CHR ''/'' else c) (trim_space t)"

definition smbHost :: "string \<Rightarrow> string \<Rightarrow> string" where
  "smbHost endpoint target =
     (let h = hostOnly endpoint
      in if h \<noteq> [] then h else takeWhile (\<lambda>c. c \<noteq> CHR ''/'') (trim_prefix ''//'' (unslash target)))"

definition smbShare :: "string \<Rightarrow> string" where
  "smbShare target =
     (let t = trim_prefix ''//'' (unslash target);
          u = (if CHR ''/'' \<in> set t then tl (dropWhile (\<lambda>c. c \<noteq> CHR ''/'') t) else t)
      in CHR ''/'' # trim_prefix ''/'' u)"

text \<open>\<open>xml.EscapeText\<close>, on text that is valid in XML.\<close>

definition xml_char :: "char \<Rightarrow> string" where
  "xml_char c =
     (if c = CHR 0x22 then ''&#34;'' else if c = CHR 0x27 then ''&#39;'' else if c = CHR ''&'' then ''&amp;''
      else if c = CHR ''<'' then ''&lt;'' else if c = CHR ''>'' then ''&gt;''
      else if c = CHR 0x09 then ''&#x9;'' else if c = CHR 0x0A then ''&#xA;'' else if c = CHR 0x0D then ''&#xD;''
      else [c])"

definition xmlEsc :: "string \<Rightarrow> string" where
  "xmlEsc s = concat (map xml_char s)"

definition mount_path :: "string \<Rightarrow> string" where
  "mount_path pool = ''/var/lib/libvirt/storage/'' @ sanitizeName pool"

definition line :: "string list \<Rightarrow> string" where
  "line parts = concat parts @ [CHR 0x0A]"

definition attr :: "string \<Rightarrow> string" where
  "attr v = [CHR 0x27] @ xmlEsc v @ [CHR 0x27]"

definition netfs_pool :: "string \<Rightarrow> string \<Rightarrow> string \<Rightarrow> string \<Rightarrow> string" where
  "netfs_pool pool host dir fmt =
     line [''<pool type='', [CHR 0x27], ''netfs'', [CHR 0x27], ''>''] @ line [''  <name>'', xmlEsc pool, ''</name>''] @
     line [''  <source>''] @ line [''    <host name='', attr host, ''/>''] @ line [''    <dir path='', attr dir, ''/>''] @
     line [''    <format type='', [CHR 0x27], fmt, [CHR 0x27], ''/>''] @ line [''  </source>''] @
     line [''  <target><path>'', xmlEsc (mount_path pool), ''</path></target>''] @ line [''</pool>'']"

definition renderPoolXML :: "storage_config \<Rightarrow> string \<Rightarrow> string" where
  "renderPoolXML c pool =
     (if sc_Type c = ''nfs'' then netfs_pool pool (hostOnly (Endpoint c)) (Target c) ''nfs''
      else if sc_Type c = ''smb'' then
        netfs_pool pool (smbHost (Endpoint c) (Target c)) (smbShare (Target c)) ''cifs''
      else if sc_Type c = ''iscsi'' then
        (let (host, port) = hostPort (Endpoint c) ''3260''
         in line [''<pool type='', [CHR 0x27], ''iscsi'', [CHR 0x27], ''>''] @ line [''  <name>'', xmlEsc pool, ''</name>''] @
            line [''  <source>''] @ line [''    <host name='', attr host, '' port='', attr port, ''/>''] @
            line [''    <device path='', attr (Target c), ''/>''] @ line [''  </source>''] @
            line [''  <target><path>/dev/disk/by-path</path></target>''] @ line [''</pool>''])
      else [])"

definition parseLibvirtEndpoint :: "string \<Rightarrow> string \<times> string" where
  "parseLibvirtEndpoint e =
     (let s = trim_space e
      in if s = [] then (''unix'', ''/var/run/libvirt/libvirt-sock'')
         else if has_prefix s ''unix://'' then (''unix'', trim_prefix ''unix://'' s)
         else if has_prefix s ''tcp://'' then (''tcp'', trim_prefix ''tcp://'' s)
         else if has_prefix s ''/'' then (''unix'', s)
         else if CHR '':'' \<in> set s then (''tcp'', s)
         else (''unix'', s))"

text \<open>The directory that stands for the pool; an iSCSI target has none.\<close>

definition fsDelegate :: "san_backend \<Rightarrow> fs \<Rightarrow> string + local_store" where
  "fsDelegate b t =
     (if sc_Type (san_cfg b) = ''iscsi''
      then Inl ''storage: iscsi backend does not support object operations (raw block target)''
      else Inr \<lparr>base = mount_path (poolName b), tree = t\<rparr>)"

definition SAN_Put :: "san_backend \<Rightarrow> fs \<Rightarrow> string \<Rightarrow> reader \<Rightarrow> fs \<times> (string + int)" where
  "SAN_Put b t key r = (case fsDelegate b t of Inl e \<Rightarrow> (t, Inl e)
     | Inr d \<Rightarrow> (let (d1, res) = Local_Put d key r in (tree d1, res)))"

definition SAN_Get :: "san_backend \<Rightarrow> fs \<Rightarrow> string \<Rightarrow> string + reader" where
  "SAN_Get b t key = (case fsDelegate b t of Inl e \<Rightarrow> Inl e | Inr d \<Rightarrow> Local_Get d key)"

definition SAN_List :: "san_backend \<Rightarrow> fs \<Rightarrow> string \<Rightarrow> string + (string \<times> int) list" where
  "SAN_List b t pre = (case fsDelegate b t of Inl e \<Rightarrow> Inl e | Inr d \<Rightarrow> Local_List d pre)"

definition SAN_Delete :: "san_backend \<Rightarrow> fs \<Rightarrow> string \<Rightarrow> fs \<times> string option" where
  "SAN_Delete b t key = (case fsDelegate b t of Inl e \<Rightarrow> (t, Some e)
     | Inr d \<Rightarrow> (let (d1, res) = Local_Delete d key in (tree d1, res)))"

text \<open>The dispatch of \<open>New\<close>; the cloud backends are clients of a remote service.\<close>

datatype backend = Local local_store | San san_backend | Cloud storage_config

definition Storage_New :: "storage_config \<Rightarrow> fs \<Rightarrow> string + backend" where
  "Storage_New c t =
     (if IsSAN (sc_Type c) then map_sum (\<lambda>e. e) San (newSANBackend c)
      else if IsCloud (sc_Type c) then
        (case Storage_Validate c of Some e \<Rightarrow> Inl e | None \<Rightarrow> Inr (Cloud c))
      else if sc_Type c = ''local'' then map_sum (\<lambda>e. e) Local (newLocalBackend c t)
      else Inl (''storage: unsupported backend type: '' @ sc_Type c))"

end
