(* ===== verification/Backup.thy ===== *)
theory Backup
  imports Migrate Storage Json
begin

text \<open>
  Virtual machine backups: the engine \<open>server/internal/backup/backup.go\<close>, its rows and policies
  (\<open>store/vm_backups.go\<close>), and the recorder and the handlers of \<open>api/backups_vm.go\<close>. An object store
  is a value of the type \<open>'o\<close> with the operations \<open>objops\<close>; \<open>bk_stores\<close> are the backends the resolver
  can open. The clock and the identifiers the engine draws are sequences. A call runs as one step;
  the database and the temporary files do not fail, except that a row's identifier must be new. JSON
  documents are read and written as in \<open>Json\<close>; field names are matched as \<open>encoding/json\<close> does, and a
  document with a field of the wrong type is not read at all.
\<close>

subsection \<open>Data\<close>

record artifact =
  ar_Key :: string
  ar_SizeBytes :: int
  ar_Format :: string

record backup_rec =
  br_ID :: string
  br_VMID :: string
  br_VMName :: string
  br_ProviderID :: string
  br_BackendID :: string
  br_PolicyID :: string
  KeyPrefix :: string
  br_SizeBytes :: int
  br_DiskCount :: int
  br_Disks :: "artifact list"
  br_GuestOS :: string
  br_Firmware :: string
  br_Status :: string
  br_Error :: string
  br_CreatedAt :: int

record manifest =
  mf_VMID :: string
  mf_VMName :: string
  mf_GuestOS :: string
  mf_Firmware :: string
  mf_Disks :: "artifact list"
  mf_CreatedAt :: int

text \<open>A row of \<open>vm_backups\<close>; NULL is the zero value of the column.\<close>

record backup_row =
  vb_ID :: string
  vb_VMID :: string
  vb_VMName :: string
  vb_ProviderID :: string
  vb_BackendID :: string
  vb_PolicyID :: string
  vb_KeyPrefix :: string
  vb_SizeBytes :: int
  vb_DiskCount :: int
  DisksJSON :: string
  vb_GuestOS :: string
  vb_Firmware :: string
  vb_Status :: string
  vb_Error :: string
  vb_CreatedAt :: int

record backup_policy =
  bp_ID :: string
  bp_Name :: string
  bp_ProviderID :: string
  bp_VMID :: string
  bp_BackendID :: string
  bp_IntervalSeconds :: int
  RetentionCount :: int
  bp_Enabled :: bool

record backup_policy_row =
  pr_Policy :: backup_policy
  pr_Status :: string
  LastRunAt :: int
  pr_LastError :: string
  pr_CreatedAt :: int
  pr_UpdatedAt :: int

record 'o objops =
  ob_Put :: "'o \<Rightarrow> string \<Rightarrow> reader \<Rightarrow> 'o \<times> (string + int)"
  ob_Get :: "'o \<Rightarrow> string \<Rightarrow> string + reader"
  ob_List :: "'o \<Rightarrow> string \<Rightarrow> string + (string \<times> int) list"
  ob_Delete :: "'o \<Rightarrow> string \<Rightarrow> 'o \<times> string option"

record bk_job =
  bj_policy :: backup_policy
  bj_ticker :: "int option"

record ('p, 'o) bk =
  bk_reg :: "'p registry"
  bk_stores :: "(string \<times> 'o) list"
  bk_clock :: "nat \<Rightarrow> int"
  bk_reads :: nat
  bk_newID :: "nat \<Rightarrow> string"
  bk_drawn :: nat
  bk_rows :: "backup_row list"
  bk_policies :: "backup_policy_row list"
  bk_jobs :: "(string \<times> bk_job) list"
  bk_running :: bool

definition seconds_of :: "int \<Rightarrow> int" where "seconds_of t = t div second"

subsection \<open>JSON documents\<close>

definition artifact_json :: "artifact \<Rightarrow> jval" where
  "artifact_json a = JObj [(''key'', JStr (ar_Key a)), (''sizeBytes'', JNum (ar_SizeBytes a)), (''format'', JStr (ar_Format a))]"

definition omit_empty :: "string \<Rightarrow> string \<Rightarrow> (string \<times> jval) list" where
  "omit_empty k s = (if s = [] then [] else [(k, JStr s)])"

definition manifest_json :: "manifest \<Rightarrow> jval" where
  "manifest_json m = JObj ([(''vmId'', JStr (mf_VMID m)), (''vmName'', JStr (mf_VMName m))]
     @ omit_empty ''guestOs'' (mf_GuestOS m) @ omit_empty ''firmware'' (mf_Firmware m)
     @ [(''disks'', JArr (map artifact_json (mf_Disks m))), (''createdAt'', JNum (mf_CreatedAt m))])"

definition read_artifact :: "jval \<Rightarrow> artifact option" where
  "read_artifact v =
     (case v of JNull \<Rightarrow> Some \<lparr>ar_Key = [], ar_SizeBytes = 0, ar_Format = []\<rparr>
      | JObj m \<Rightarrow>
        (case (to_str (jfield m ''key''), to_int (jfield m ''sizeBytes''), to_str (jfield m ''format'')) of
           (Some k, Some n, Some f) \<Rightarrow> Some \<lparr>ar_Key = k, ar_SizeBytes = n, ar_Format = f\<rparr>
         | _ \<Rightarrow> None)
      | _ \<Rightarrow> None)"

definition read_artifacts :: "jval \<Rightarrow> artifact list option" where
  "read_artifacts v =
     (case v of JNull \<Rightarrow> Some [] | JArr vs \<Rightarrow> those (map read_artifact vs) | _ \<Rightarrow> None)"

definition read_manifest :: "jval \<Rightarrow> manifest option" where
  "read_manifest v =
     (case v of JNull \<Rightarrow> Some \<lparr>mf_VMID = [], mf_VMName = [], mf_GuestOS = [], mf_Firmware = [], mf_Disks = [],
                              mf_CreatedAt = 0\<rparr>
      | JObj m \<Rightarrow>
        (case (to_str (jfield m ''vmId''), to_str (jfield m ''vmName''), to_str (jfield m ''guestOs''),
               to_str (jfield m ''firmware''), read_artifacts (jfield m ''disks''), to_int (jfield m ''createdAt'')) of
           (Some i, Some n, Some g, Some f, Some ds, Some t) \<Rightarrow>
             Some \<lparr>mf_VMID = i, mf_VMName = n, mf_GuestOS = g, mf_Firmware = f, mf_Disks = ds, mf_CreatedAt = t\<rparr>
         | _ \<Rightarrow> None)
      | _ \<Rightarrow> None)"

subsection \<open>The tables\<close>

definition CreateVMBackup :: "('p, 'o) bk \<Rightarrow> backup_row \<Rightarrow> int \<Rightarrow> ('p, 'o) bk option" where
  "CreateVMBackup w b wall =
     (let b1 = b\<lparr>vb_CreatedAt := (if vb_CreatedAt b = 0 then seconds_of wall else vb_CreatedAt b),
                vb_Status := (if vb_Status b = [] then ''pending'' else vb_Status b)\<rparr>
      in if list_ex (\<lambda>r. vb_ID r = vb_ID b) (bk_rows w) then None else Some (w\<lparr>bk_rows := bk_rows w @ [b1]\<rparr>))"

definition UpdateVMBackupResult ::
  "('p, 'o) bk \<Rightarrow> string \<Rightarrow> string \<Rightarrow> int \<Rightarrow> int \<Rightarrow> string \<Rightarrow> string \<Rightarrow> ('p, 'o) bk" where
  "UpdateVMBackupResult w i status bytes disks json err =
     w\<lparr>bk_rows := map (\<lambda>r. if vb_ID r = i then r\<lparr>vb_Status := status, vb_SizeBytes := bytes, vb_DiskCount := disks,
        DisksJSON := json, vb_Error := err\<rparr> else r) (bk_rows w)\<rparr>"

definition GetVMBackup :: "('p, 'o) bk \<Rightarrow> string \<Rightarrow> backup_row option" where
  "GetVMBackup w i = find (\<lambda>r. vb_ID r = i) (bk_rows w)"

definition ListVMBackups :: "('p, 'o) bk \<Rightarrow> string \<Rightarrow> backup_row list" where
  "ListVMBackups w vmID =
     rev (sort_key vb_CreatedAt (filter (\<lambda>r. vmID = [] \<or> vb_VMID r = vmID) (bk_rows w)))"

definition ListVMBackupsForPolicy :: "('p, 'o) bk \<Rightarrow> string \<Rightarrow> backup_row list" where
  "ListVMBackupsForPolicy w pid =
     sort_key vb_CreatedAt (filter (\<lambda>r. vb_PolicyID r = pid \<and> pid \<noteq> [] \<and> vb_Status r = ''completed'') (bk_rows w))"

definition DeleteVMBackup_row :: "('p, 'o) bk \<Rightarrow> string \<Rightarrow> ('p, 'o) bk \<times> string option" where
  "DeleteVMBackup_row w i =
     (if list_ex (\<lambda>r. vb_ID r = i) (bk_rows w) then (w\<lparr>bk_rows := filter (\<lambda>r. vb_ID r \<noteq> i) (bk_rows w)\<rparr>, None)
      else (w, Some ''store: not found''))"

definition ListVMBackupPolicies :: "('p, 'o) bk \<Rightarrow> backup_policy_row list" where
  "ListVMBackupPolicies w = sort_key (\<lambda>r. bp_Name (pr_Policy r)) (bk_policies w)"

definition GetVMBackupPolicy :: "('p, 'o) bk \<Rightarrow> string \<Rightarrow> backup_policy_row option" where
  "GetVMBackupPolicy w i = find (\<lambda>r. bp_ID (pr_Policy r) = i) (bk_policies w)"

definition CreateVMBackupPolicy_row :: "('p, 'o) bk \<Rightarrow> backup_policy_row \<Rightarrow> int \<Rightarrow> ('p, 'o) bk \<times> backup_policy_row" where
  "CreateVMBackupPolicy_row w r wall =
     (let p = pr_Policy r;
          p1 = p\<lparr>bp_IntervalSeconds := (if bp_IntervalSeconds p \<le> 0 then 86400 else bp_IntervalSeconds p),
                 RetentionCount := (if RetentionCount p \<le> 0 then 7 else RetentionCount p)\<rparr>;
          r1 = r\<lparr>pr_Policy := p1, pr_Status := (if pr_Status r = [] then ''idle'' else pr_Status r),
                 pr_CreatedAt := seconds_of wall, pr_UpdatedAt := seconds_of wall\<rparr>
      in (w\<lparr>bk_policies := bk_policies w @ [r1\<lparr>LastRunAt := 0, pr_LastError := []\<rparr>]\<rparr>, r1))"

definition UpdateVMBackupPolicyState :: "('p, 'o) bk \<Rightarrow> string \<Rightarrow> string \<Rightarrow> string \<Rightarrow> int \<Rightarrow> int \<Rightarrow> ('p, 'o) bk" where
  "UpdateVMBackupPolicyState w i status err lastRun wall =
     w\<lparr>bk_policies := map (\<lambda>r. if bp_ID (pr_Policy r) = i
        then r\<lparr>pr_Status := status, pr_LastError := err,
               LastRunAt := (if lastRun > 0 then lastRun else LastRunAt r), pr_UpdatedAt := seconds_of wall\<rparr>
        else r) (bk_policies w)\<rparr>"

definition DeleteVMBackupPolicy_row :: "('p, 'o) bk \<Rightarrow> string \<Rightarrow> ('p, 'o) bk \<times> bool" where
  "DeleteVMBackupPolicy_row w i =
     (w\<lparr>bk_policies := filter (\<lambda>r. bp_ID (pr_Policy r) \<noteq> i) (bk_policies w)\<rparr>, GetVMBackupPolicy w i \<noteq> None)"

text \<open>The recorder between the engine's records and the rows.\<close>

definition disks_text :: "artifact list \<Rightarrow> string" where
  "disks_text ds = json_enc (JArr (map artifact_json ds))"

definition RecordBackup :: "('p, 'o) bk \<Rightarrow> backup_rec \<Rightarrow> int \<Rightarrow> ('p, 'o) bk option" where
  "RecordBackup w b wall = CreateVMBackup w
     \<lparr>vb_ID = br_ID b, vb_VMID = br_VMID b, vb_VMName = br_VMName b, vb_ProviderID = br_ProviderID b,
      vb_BackendID = br_BackendID b, vb_PolicyID = br_PolicyID b, vb_KeyPrefix = KeyPrefix b,
      vb_SizeBytes = br_SizeBytes b, vb_DiskCount = br_DiskCount b,
      DisksJSON = (if br_Disks b = [] then ''null'' else disks_text (br_Disks b)), vb_GuestOS = br_GuestOS b,
      vb_Firmware = br_Firmware b, vb_Status = br_Status b, vb_Error = [], vb_CreatedAt = br_CreatedAt b\<rparr> wall"

definition storeBackupToRecord :: "backup_row \<Rightarrow> backup_rec" where
  "storeBackupToRecord r =
     \<lparr>br_ID = vb_ID r, br_VMID = vb_VMID r, br_VMName = vb_VMName r, br_ProviderID = vb_ProviderID r,
      br_BackendID = vb_BackendID r, br_PolicyID = vb_PolicyID r, KeyPrefix = vb_KeyPrefix r,
      br_SizeBytes = vb_SizeBytes r, br_DiskCount = vb_DiskCount r,
      br_Disks = (if DisksJSON r = [] then []
                  else (case Option.bind (json_dec (DisksJSON r)) read_artifacts of None \<Rightarrow> [] | Some ds \<Rightarrow> ds)),
      br_GuestOS = vb_GuestOS r, br_Firmware = vb_Firmware r, br_Status = vb_Status r, br_Error = vb_Error r,
      br_CreatedAt = vb_CreatedAt r\<rparr>"

definition GetBackupRecord :: "('p, 'o) bk \<Rightarrow> string \<Rightarrow> backup_rec option" where
  "GetBackupRecord w i = map_option storeBackupToRecord (GetVMBackup w i)"

definition ListPolicyBackups :: "('p, 'o) bk \<Rightarrow> string \<Rightarrow> backup_rec list" where
  "ListPolicyBackups w pid = map storeBackupToRecord (ListVMBackupsForPolicy w pid)"

subsection \<open>A backup\<close>

record backup_request =
  bq_ProviderID :: string
  bq_VMID :: string
  bq_BackendID :: string
  bq_PolicyID :: string

definition ObjectStore :: "('p, 'o) bk \<Rightarrow> string \<Rightarrow> string + 'o" where
  "ObjectStore w i = (case map_of (bk_stores w) i of None \<Rightarrow> Inl ''store: not found'' | Some x \<Rightarrow> Inr x)"

definition manifestKey :: string where "manifestKey = ''manifest.json''"

definition key_prefix :: "string \<Rightarrow> int \<Rightarrow> string" where
  "key_prefix vmID ts = ''vm/'' @ vmID @ ''/'' @ itoa (seconds_of ts) @ ''/''"

text \<open>Name, guest and firmware of the machine, if they can be had.\<close>

definition backup_meta :: "'p hv \<Rightarrow> 'p \<Rightarrow> string \<Rightarrow> string \<times> string \<times> string" where
  "backup_meta hv src vmID =
     (if Has (hv_Capabilities hv src) CapGetVM then
        (case hv_GetVM hv src vmID of Inl _ \<Rightarrow> ([], [], [])
         | Inr d \<Rightarrow> (vm_Name (detail_VM d), vm_GuestOS (detail_VM d), vm_Firmware (detail_VM d)))
      else ([], [], []))"

definition snapshot_name :: "int \<Rightarrow> string" where
  "snapshot_name ts = ''unihv-backup-'' @ itoa (seconds_of ts)"

definition take_snapshot :: "'p hv \<Rightarrow> 'p \<Rightarrow> string \<Rightarrow> int \<Rightarrow> int \<Rightarrow> 'p \<times> bool" where
  "take_snapshot hv src vmID ts wall =
     (if \<not> Has (hv_Capabilities hv src) CapSnapshot then (src, False)
      else (case hv_Snapshot hv src vmID
              \<lparr>so_Name = snapshot_name ts, so_Description = ''UniHV backup consistency point'', so_Memory = False,
               so_Quiesce = Has (hv_Capabilities hv src) CapGuestAgent\<rparr> wall of
              (src1, Inl _) \<Rightarrow> (src1, False) | (src1, Inr _) \<Rightarrow> (src1, True)))"

definition dropSnapshot :: "'p hv \<Rightarrow> string \<Rightarrow> int \<Rightarrow> string \<Rightarrow> 'p \<Rightarrow> 'p" where
  "dropSnapshot hv vmID wall snapID src =
     (case hv_DeleteSnapshot hv src of None \<Rightarrow> src | Some del_snap \<Rightarrow> fst (del_snap vmID snapID wall))"

definition drop_snapshots :: "'p hv \<Rightarrow> 'p \<Rightarrow> string \<Rightarrow> int \<Rightarrow> int \<Rightarrow> 'p" where
  "drop_snapshots hv src vmID ts wall =
     (case hv_ListSnapshots hv src vmID of Inl _ \<Rightarrow> src
      | Inr snaps \<Rightarrow> fold (\<lambda>s p. if snap_Name s = snapshot_name ts then dropSnapshot hv vmID wall (snap_ID s) p else p)
          snaps src)"

definition exportAndUpload ::
  "'p hv \<Rightarrow> 'o objops \<Rightarrow> converter \<Rightarrow> 'p \<Rightarrow> 'o \<Rightarrow> string \<Rightarrow> string \<Rightarrow> 'o \<times> (string + artifact list \<times> int)" where
  "exportAndUpload hv ob conv src objs vmID pre =
     (let f0 = nativeFormat (hv_Kind hv src)
      in case hv_ExportVM hv src vmID f0 of
           Inl e \<Rightarrow> (objs, Inl (''export: '' @ Error_text e))
         | Inr (rc, info) \<Rightarrow>
           (let srcFmt = (case info of None \<Rightarrow> f0 | Some i \<Rightarrow> if ex_Format i \<noteq> [] then ex_Format i else f0);
                out = conv rc srcFmt ''qcow2''
            in case snd out of
                 Some e \<Rightarrow> (objs, Inl (''convert: '' @ e))
               | None \<Rightarrow>
                 (case ob_Put ob objs (pre @ ''disk-0.qcow2'') (fst out, None) of
                    (objs1, Inl e) \<Rightarrow> (objs1, Inl (''upload: '' @ e))
                  | (objs1, Inr n) \<Rightarrow>
                      (objs1, Inr ([\<lparr>ar_Key = pre @ ''disk-0.qcow2'', ar_SizeBytes = n, ar_Format = ''qcow2''\<rparr>], n)))))"

definition store_at :: "('p, 'o) bk \<Rightarrow> string \<Rightarrow> 'o \<Rightarrow> ('p, 'o) bk" where
  "store_at w i x = w\<lparr>bk_stores := put (bk_stores w) i x\<rparr>"

definition provider_at :: "('p, 'o) bk \<Rightarrow> string \<Rightarrow> 'p \<Rightarrow> ('p, 'o) bk" where
  "provider_at w i p = w\<lparr>bk_reg := put (bk_reg w) i p\<rparr>"

definition new_record :: "backup_request \<Rightarrow> string \<Rightarrow> int \<Rightarrow> string \<times> string \<times> string \<Rightarrow> backup_rec" where
  "new_record req i ts = (\<lambda>(vmName, guestOS, firmware).
     \<lparr>br_ID = i, br_VMID = bq_VMID req, br_VMName = vmName, br_ProviderID = bq_ProviderID req,
      br_BackendID = bq_BackendID req, br_PolicyID = bq_PolicyID req, KeyPrefix = key_prefix (bq_VMID req) ts,
      br_SizeBytes = 0, br_DiskCount = 0, br_Disks = [], br_GuestOS = guestOS, br_Firmware = firmware,
      br_Status = ''pending'', br_Error = [], br_CreatedAt = seconds_of ts\<rparr>)"

text \<open>The end of a backup that failed, or whose artifacts are uploaded.\<close>

definition backup_failed :: "('p, 'o) bk \<Rightarrow> backup_rec \<Rightarrow> string \<Rightarrow> string \<Rightarrow> ('p, 'o) bk \<times> backup_rec option \<times> string option" where
  "backup_failed w r msg err =
     (UpdateVMBackupResult w (br_ID r) ''error'' 0 0 [] msg, Some (r\<lparr>br_Status := ''error'', br_Error := msg\<rparr>), Some err)"

definition finalize_backup ::
  "'o objops \<Rightarrow> ('p, 'o) bk \<Rightarrow> 'o \<Rightarrow> backup_rec \<Rightarrow> artifact list \<Rightarrow> int \<Rightarrow> ('p, 'o) bk \<times> backup_rec option \<times> string option" where
  "finalize_backup ob w objs r disks total_bytes =
     (let man = \<lparr>mf_VMID = br_VMID r, mf_VMName = br_VMName r, mf_GuestOS = br_GuestOS r, mf_Firmware = br_Firmware r,
                 mf_Disks = disks, mf_CreatedAt = br_CreatedAt r\<rparr>
      in case ob_Put ob objs (KeyPrefix r @ manifestKey) (json_enc (manifest_json man), None) of
           (objs1, Inl e) \<Rightarrow>
             backup_failed (store_at w (br_BackendID r) objs1) r (''upload manifest: '' @ e) (''backup: upload manifest: '' @ e)
         | (objs1, Inr _) \<Rightarrow>
             (UpdateVMBackupResult (store_at w (br_BackendID r) objs1) (br_ID r) ''completed'' total_bytes (int (length disks))
                (disks_text disks) [],
              Some (r\<lparr>br_Disks := disks, br_DiskCount := int (length disks), br_SizeBytes := total_bytes,
                      br_Status := ''completed''\<rparr>), None))"

definition BackupNow ::
  "'p hv \<Rightarrow> 'o objops \<Rightarrow> converter \<Rightarrow> int \<Rightarrow> backup_request \<Rightarrow> ('p, 'o) bk \<Rightarrow> ('p, 'o) bk \<times> backup_rec option \<times> string option" where
  "BackupNow hv ob conv wall req w =
     (case Registry_Get (bk_reg w) (bq_ProviderID req) of
        None \<Rightarrow> (w, None, Some (''backup: unknown provider '' @ go_quote (bq_ProviderID req)))
      | Some src \<Rightarrow>
        if \<not> Has (hv_Capabilities hv src) CapExport
        then (w, None, Some (''backup: provider '' @ go_quote (bq_ProviderID req) @ '' cannot export disks''))
        else (case ObjectStore w (bq_BackendID req) of
           Inl e \<Rightarrow> (w, None, Some (''backup: storage backend: '' @ e))
         | Inr objs \<Rightarrow>
           (let meta = backup_meta hv src (bq_VMID req);
                ts = bk_clock w (bk_reads w);
                r = new_record req (bk_newID w (bk_drawn w)) ts meta;
                w1 = w\<lparr>bk_reads := Suc (bk_reads w), bk_drawn := Suc (bk_drawn w)\<rparr>
            in case RecordBackup w1 r wall of
                 None \<Rightarrow> (w1, None, Some ''backup: record: UNIQUE constraint failed: vm_backups.id'')
               | Some w2 \<Rightarrow>
                 (let (src1, taken) = take_snapshot hv src (bq_VMID req) ts wall;
                      (objs1, res) = exportAndUpload hv ob conv src1 objs (bq_VMID req) (KeyPrefix r);
                      src2 = (if taken then drop_snapshots hv src1 (bq_VMID req) ts wall else src1);
                      w3 = store_at (provider_at w2 (bq_ProviderID req) src2) (bq_BackendID req) objs1
                  in case res of
                       Inl e \<Rightarrow> backup_failed w3 r e e
                     | Inr (disks, total_bytes) \<Rightarrow> finalize_backup ob w3 objs1 r disks total_bytes))))"

subsection \<open>Restore\<close>

record restore_request =
  BackupID :: string
  rq_TargetProviderID :: string
  rq_TargetHostID :: string
  rq_TargetName :: string
  rq_PowerOnAfter :: bool

definition restore_manifest :: "'o objops \<Rightarrow> 'o \<Rightarrow> backup_rec \<Rightarrow> manifest" where
  "restore_manifest ob objs r =
     (let man = \<lparr>mf_VMID = br_VMID r, mf_VMName = br_VMName r, mf_GuestOS = br_GuestOS r, mf_Firmware = br_Firmware r,
                 mf_Disks = br_Disks r, mf_CreatedAt = 0\<rparr>
      in case ob_Get ob objs (KeyPrefix r @ manifestKey) of
           Inl _ \<Rightarrow> man
         | Inr (text, _) \<Rightarrow>
           (case Option.bind (json_dec text) read_manifest of
              Some parsed \<Rightarrow> if mf_Disks parsed \<noteq> [] then parsed else man
            | None \<Rightarrow> man))"

definition restore_spec :: "restore_request \<Rightarrow> backup_rec \<Rightarrow> manifest \<Rightarrow> string \<Rightarrow> int \<Rightarrow> vm_spec" where
  "restore_spec req r man fmt sizeBytes =
     (let name = (if rq_TargetName req \<noteq> [] then rq_TargetName req
                  else (if mf_VMName man = [] then br_VMID r else mf_VMName man) @ ''-restored'');
          fw = (if mf_Firmware man = [] then ''uefi'' else mf_Firmware man);
          gb0 = fdiv (f64_of_int sizeBytes) (Fin (2 ^ 30));
          gb = (if flt gb0 (Fin 1) then Fin 20 else gb0)
      in \<lparr>vs_Name = name, vs_HostID = rq_TargetHostID req, vs_ClusterID = [], vs_VCPUs = 2, vs_MemoryMB = 4096,
          vs_GuestOS = mf_GuestOS man, vs_Firmware = fw,
          vs_Disks = map (\<lambda>_. \<lparr>ds_CapacityGB = gb, ds_Format = fmt, ds_StorageID = [], ds_SourcePath = [],
            ds_QoS = None, ds_Provisioning = [], ds_Discard = False\<rparr>) (mf_Disks man),
          vs_NICs = [], vs_Labels = [], BootISO = [], TPM = False, SecureBoot = False,
          CloudInit = None, CPU = None, IsTemplate = False, Sysprep = None\<rparr>)"

text \<open>The import: the machine is created and, if asked for, started. \<open>None\<close> is a panic.\<close>

definition restore_import ::
  "'p hv \<Rightarrow> int \<Rightarrow> restore_request \<Rightarrow> 'p \<Rightarrow> vm_spec \<Rightarrow> ('p, 'o) bk \<Rightarrow> (('p, 'o) bk \<times> (string + string)) option" where
  "restore_import hv wall req tgt spec w =
     (case hv_CreateVM hv tgt spec wall of
        (tgt1, Inl e) \<Rightarrow> Some (provider_at w (rq_TargetProviderID req) tgt1, Inl (''backup: create restored VM: '' @ Error_text e))
      | (tgt1, Inr None) \<Rightarrow> None
      | (tgt1, Inr (Some t)) \<Rightarrow>
          (let tgt2 = (if rq_PowerOnAfter req \<and> Has (hv_Capabilities hv tgt1) CapPowerStart
                       then fst (hv_PowerOp hv tgt1 (task_EntityID t) ''start'' wall) else tgt1)
           in Some (provider_at w (rq_TargetProviderID req) tgt2, Inr (task_EntityID t))))"

definition Restore ::
  "'p hv \<Rightarrow> 'o objops \<Rightarrow> converter \<Rightarrow> int \<Rightarrow> restore_request \<Rightarrow> ('p, 'o) bk \<Rightarrow> (('p, 'o) bk \<times> (string + string)) option" where
  "Restore hv ob conv wall req w =
     (case GetBackupRecord w (BackupID req) of None \<Rightarrow> Some (w, Inl ''store: not found'')
      | Some r \<Rightarrow>
        if br_Status r \<noteq> ''completed'' then Some (w, Inl (''backup: cannot restore a '' @ br_Status r @ '' backup''))
        else (case Registry_Get (bk_reg w) (rq_TargetProviderID req) of
           None \<Rightarrow> Some (w, Inl (''backup: unknown target provider '' @ go_quote (rq_TargetProviderID req)))
         | Some tgt \<Rightarrow>
           if \<not> Has (hv_Capabilities hv tgt) CapCreateVM
           then Some (w, Inl (''backup: target provider '' @ go_quote (rq_TargetProviderID req) @ '' cannot create VMs''))
           else (case ObjectStore w (br_BackendID r) of Inl e \<Rightarrow> Some (w, Inl (''backup: storage backend: '' @ e))
              | Inr objs \<Rightarrow>
                (let man = restore_manifest ob objs r
                 in case mf_Disks man of
                      [] \<Rightarrow> Some (w, Inl (''backup: backup '' @ go_quote (BackupID req) @ '' has no disk artifacts''))
                    | d # _ \<Rightarrow>
                      (case ob_Get ob objs (ar_Key d) of
                         Inl e \<Rightarrow> Some (w, Inl (''backup: download artifact: '' @ e))
                       | Inr rd \<Rightarrow>
                         (let fmt = nativeFormat (hv_Kind hv tgt); out = conv rd ''qcow2'' fmt
                          in case snd out of
                               Some e \<Rightarrow> Some (w, Inl (''backup: convert: '' @ e))
                             | None \<Rightarrow> restore_import hv wall req tgt
                                 (restore_spec req r man fmt (int (length (fst out)))) w))))))"

subsection \<open>Deletion and retention\<close>

definition delete_all :: "'o objops \<Rightarrow> string list \<Rightarrow> 'o \<Rightarrow> 'o" where
  "delete_all ob ks objs = foldl (\<lambda>s k. fst (ob_Delete ob s k)) objs ks"

definition delete_artifacts :: "'o objops \<Rightarrow> backup_rec \<Rightarrow> 'o \<Rightarrow> 'o" where
  "delete_artifacts ob r objs =
     (case ob_List ob objs (KeyPrefix r) of
        Inr listing \<Rightarrow> delete_all ob (map fst listing) objs
      | Inl _ \<Rightarrow> delete_all ob (map ar_Key (br_Disks r) @ [KeyPrefix r @ manifestKey]) objs)"

definition deleteBackupArtifactsAndRow :: "'o objops \<Rightarrow> backup_rec \<Rightarrow> ('p, 'o) bk \<Rightarrow> ('p, 'o) bk \<times> string option" where
  "deleteBackupArtifactsAndRow ob r w =
     (let w1 = (case ObjectStore w (br_BackendID r) of Inl _ \<Rightarrow> w
                | Inr objs \<Rightarrow> store_at w (br_BackendID r) (delete_artifacts ob r objs))
      in DeleteVMBackup_row w1 (br_ID r))"

definition DeleteBackup :: "'o objops \<Rightarrow> string \<Rightarrow> ('p, 'o) bk \<Rightarrow> ('p, 'o) bk \<times> string option" where
  "DeleteBackup ob i w =
     (case GetBackupRecord w i of None \<Rightarrow> (w, Some ''store: not found'')
      | Some r \<Rightarrow> deleteBackupArtifactsAndRow ob r w)"

definition prune_step :: "'o objops \<Rightarrow> backup_rec \<Rightarrow> ('p, 'o) bk \<times> string option \<Rightarrow> ('p, 'o) bk \<times> string option" where
  "prune_step ob r = (\<lambda>(w, first).
     (let (w1, e) = deleteBackupArtifactsAndRow ob r w in (w1, if first = None then e else first)))"

definition pruneRetention :: "'o objops \<Rightarrow> string \<Rightarrow> int \<Rightarrow> ('p, 'o) bk \<Rightarrow> ('p, 'o) bk \<times> string option" where
  "pruneRetention ob pid keep w =
     (if keep \<le> 0 then (w, None)
      else (let rows = ListPolicyBackups w pid
            in if int (length rows) \<le> keep then (w, None)
               else fold (prune_step ob) (take (length rows - nat keep) rows) (w, None)))"

subsection \<open>Policies\<close>

definition Bkp_Start :: "('p, 'o) bk \<Rightarrow> ('p, 'o) bk" where
  "Bkp_Start w = w\<lparr>bk_running := True\<rparr>"

definition Bkp_Stop :: "('p, 'o) bk \<Rightarrow> ('p, 'o) bk" where
  "Bkp_Stop w = w\<lparr>bk_running := False, bk_jobs := map (\<lambda>(i, j). (i, j\<lparr>bj_ticker := None\<rparr>)) (bk_jobs w)\<rparr>"

definition Bkp_scheduleLocked :: "bk_job \<Rightarrow> bk_job" where
  "Bkp_scheduleLocked j =
     (let interval = wrap64 (bp_IntervalSeconds (bj_policy j) * second)
      in j\<lparr>bj_ticker := Some (if interval \<le> 0 then 24 * hour else interval)\<rparr>)"

definition Bkp_Upsert :: "backup_policy \<Rightarrow> ('p, 'o) bk \<Rightarrow> ('p, 'o) bk" where
  "Bkp_Upsert p w =
     (let j = \<lparr>bj_policy = p, bj_ticker = None\<rparr>
      in w\<lparr>bk_jobs := put (bk_jobs w) (bp_ID p) (if bk_running w \<and> bp_Enabled p then Bkp_scheduleLocked j else j)\<rparr>)"

definition Bkp_Remove :: "string \<Rightarrow> ('p, 'o) bk \<Rightarrow> ('p, 'o) bk" where
  "Bkp_Remove i w = w\<lparr>bk_jobs := del (bk_jobs w) i\<rparr>"

definition runPolicy ::
  "'p hv \<Rightarrow> 'o objops \<Rightarrow> converter \<Rightarrow> int \<Rightarrow> string \<Rightarrow> ('p, 'o) bk \<Rightarrow> ('p, 'o) bk \<times> string option" where
  "runPolicy hv ob conv wall i w =
     (case map_of (bk_jobs w) i of None \<Rightarrow> (w, Some (''backup: unknown policy '' @ go_quote i))
      | Some j \<Rightarrow>
        (let pol = bj_policy j;
             w1 = UpdateVMBackupPolicyState w i ''running'' [] 0 wall
         in case BackupNow hv ob conv wall \<lparr>bq_ProviderID = bp_ProviderID pol, bq_VMID = bp_VMID pol,
                   bq_BackendID = bp_BackendID pol, bq_PolicyID = bp_ID pol\<rparr> w1 of
              (w2, r, Some err) \<Rightarrow> (UpdateVMBackupPolicyState w2 i ''error'' err 0 wall, Some err)
            | (w2, r, None) \<Rightarrow>
              (let ran = (case r of None \<Rightarrow> 0 | Some r \<Rightarrow> br_CreatedAt r);
                   (w3, e) = pruneRetention ob (bp_ID pol) (RetentionCount pol) w2
               in (UpdateVMBackupPolicyState w3 i ''idle''
                     (case e of None \<Rightarrow> [] | Some m \<Rightarrow> ''retention prune warning: '' @ m) ran wall, None))))"

subsection \<open>Handlers\<close>

datatype backup_error = Bad_input string | No_backup

definition RunVMBackup ::
  "'p hv \<Rightarrow> 'o objops \<Rightarrow> converter \<Rightarrow> int \<Rightarrow> backup_request \<Rightarrow> ('p, 'o) bk \<Rightarrow> ('p, 'o) bk \<times> (backup_error + backup_rec option)" where
  "RunVMBackup hv ob conv wall req w =
     (if trim_space (bq_ProviderID req) = [] \<or> trim_space (bq_VMID req) = [] \<or> trim_space (bq_BackendID req) = []
      then (w, Inl (Bad_input ''providerId, vmId and backendId are required''))
      else (case BackupNow hv ob conv wall (req\<lparr>bq_PolicyID := []\<rparr>) w of
              (w1, r, Some e) \<Rightarrow> (w1, Inl (Bad_input e)) | (w1, r, None) \<Rightarrow> (w1, Inr r)))"

definition ListVMBackups_view :: "('p, 'o) bk \<Rightarrow> string \<Rightarrow> backup_rec list" where
  "ListVMBackups_view w vmID = map storeBackupToRecord (ListVMBackups w vmID)"

definition DeleteVMBackup :: "'o objops \<Rightarrow> string \<Rightarrow> ('p, 'o) bk \<Rightarrow> ('p, 'o) bk \<times> (backup_error + unit)" where
  "DeleteVMBackup ob i w =
     (case GetVMBackup w i of None \<Rightarrow> (w, Inl No_backup)
      | Some _ \<Rightarrow> (case DeleteBackup ob i w of (w1, Some e) \<Rightarrow> (w1, Inl (Bad_input e)) | (w1, None) \<Rightarrow> (w1, Inr ())))"

definition RestoreVMBackup ::
  "'p hv \<Rightarrow> 'o objops \<Rightarrow> converter \<Rightarrow> int \<Rightarrow> restore_request \<Rightarrow> ('p, 'o) bk
     \<Rightarrow> (('p, 'o) bk \<times> (backup_error + string)) option" where
  "RestoreVMBackup hv ob conv wall req w =
     (if trim_space (rq_TargetProviderID req) = [] then Some (w, Inl (Bad_input ''targetProviderId is required''))
      else (case Restore hv ob conv wall req w of None \<Rightarrow> None
            | Some (w1, Inl e) \<Rightarrow> Some (w1, Inl (Bad_input e)) | Some (w1, Inr i) \<Rightarrow> Some (w1, Inr i)))"

definition backup_validate :: "backup_policy \<Rightarrow> string option" where
  "backup_validate x =
     (if trim_space (bp_Name x) = [] then Some ''name is required''
      else if trim_space (bp_ProviderID x) = [] \<or> trim_space (bp_VMID x) = [] then Some ''providerId and vmId are required''
      else if trim_space (bp_BackendID x) = [] then Some ''backendId is required''
      else if bp_IntervalSeconds x < 0 \<or> RetentionCount x < 0
      then Some ''intervalSeconds and retentionCount must be non-negative'' else None)"

definition toBackupEnginePolicy :: "backup_policy_row \<Rightarrow> backup_policy" where
  "toBackupEnginePolicy r = pr_Policy r"

text \<open>The body of the request is a policy whose identifier the handler replaces.\<close>

definition CreateVMBackupPolicy ::
  "string \<Rightarrow> backup_policy \<Rightarrow> int \<Rightarrow> ('p, 'o) bk \<Rightarrow> ('p, 'o) bk \<times> (backup_error + backup_policy_row)" where
  "CreateVMBackupPolicy uuid x wall w =
     (case backup_validate x of Some msg \<Rightarrow> (w, Inl (Bad_input msg))
      | None \<Rightarrow>
        (let (w1, r) = CreateVMBackupPolicy_row w \<lparr>pr_Policy = x\<lparr>bp_ID := uuid\<rparr>, pr_Status = ''idle'', LastRunAt = 0,
               pr_LastError = [], pr_CreatedAt = 0, pr_UpdatedAt = 0\<rparr> wall
         in (Bkp_Upsert (toBackupEnginePolicy r) w1, Inr r)))"

definition RunVMBackupPolicy ::
  "'p hv \<Rightarrow> 'o objops \<Rightarrow> converter \<Rightarrow> int \<Rightarrow> string \<Rightarrow> ('p, 'o) bk \<Rightarrow> ('p, 'o) bk \<times> (backup_error + unit)" where
  "RunVMBackupPolicy hv ob conv wall i w =
     (case GetVMBackupPolicy w i of None \<Rightarrow> (w, Inl No_backup)
      | Some r \<Rightarrow>
        (case runPolicy hv ob conv wall i (Bkp_Upsert (toBackupEnginePolicy r) w) of
           (w1, Some e) \<Rightarrow> (w1, Inl (Bad_input e)) | (w1, None) \<Rightarrow> (w1, Inr ())))"

definition DeleteVMBackupPolicy :: "string \<Rightarrow> ('p, 'o) bk \<Rightarrow> ('p, 'o) bk \<times> (backup_error + unit)" where
  "DeleteVMBackupPolicy i w =
     (let (w1, found) = DeleteVMBackupPolicy_row (Bkp_Remove i w) i in (w1, if found then Inr () else Inl No_backup))"

definition LoadVMBackupPolicies :: "('p, 'o) bk \<Rightarrow> ('p, 'o) bk" where
  "LoadVMBackupPolicies w =
     (let w1 = Bkp_Start w in fold (\<lambda>r. Bkp_Upsert (toBackupEnginePolicy r)) (ListVMBackupPolicies w1) w1)"

end
