(* ===== verification/Storage_Props.thy ===== *)
theory Storage_Props
  imports Storage
begin

text \<open>
  Object keys stay below the base directory (\<open>local_confined\<close>); the locale \<open>object_store\<close> is the
  contract of \<open>object.go\<close> that the backup engine relies on, and the local directory keeps it.
\<close>

subsection \<open>Clean paths\<close>

text \<open>An ordinary path element.\<close>

definition plain :: "string \<Rightarrow> bool" where
  "plain s \<longleftrightarrow> s \<noteq> [] \<and> s \<noteq> ''.'' \<and> s \<noteq> ''..'' \<and> CHR ''/'' \<notin> set s"

definition climbs :: "string list \<Rightarrow> bool" where
  "climbs es \<longleftrightarrow> (\<exists>n qs. es = replicate n ''..'' @ qs \<and> list_all plain qs)"

definition tidy :: "bool \<Rightarrow> string list \<Rightarrow> bool" where
  "tidy rooted es \<longleftrightarrow> (if rooted then list_all plain es else climbs es)"

lemma tidy_append: "tidy r es \<Longrightarrow> list_all plain fs \<Longrightarrow> tidy r (es @ fs)"
proof (cases r)
  case False
  assume "tidy r es" and f: "list_all plain fs"
  then obtain n qs where "es = replicate n ''..'' @ qs" "list_all plain qs" using False by (auto simp: tidy_def climbs_def)
  then have "es @ fs = replicate n ''..'' @ (qs @ fs)" "list_all plain (qs @ fs)" using f by simp_all
  then have "climbs (es @ fs)" unfolding climbs_def by blast
  then show ?thesis using False by (simp add: tidy_def)
qed (simp add: tidy_def)

lemma tidy_dots: "climbs es \<Longrightarrow> es = [] \<or> last es = ''..'' \<Longrightarrow> climbs (es @ [''..''])"
proof -
  assume "climbs es" and l: "es = [] \<or> last es = ''..''"
  then obtain n qs where q: "es = replicate n ''..'' @ qs" "list_all plain qs" by (auto simp: climbs_def)
  have "qs = []"
  proof (rule ccontr)
    assume ne: "qs \<noteq> []"
    then have "plain (last qs)" "last es = last qs" using q by (simp_all add: list_all_iff)
    then show False using l q(1) ne by (simp add: plain_def)
  qed
  then have "es @ [''..''] = replicate (Suc n) ''..''" using q(1) by (simp add: replicate_append_same)
  then show ?thesis unfolding climbs_def by (intro exI [of _ "Suc n"] exI [of _ "[]"]) simp
qed

lemma tidy_butlast: "climbs es \<Longrightarrow> es \<noteq> [] \<Longrightarrow> last es \<noteq> ''..'' \<Longrightarrow> climbs (butlast es)"
proof -
  assume "climbs es" and ne: "es \<noteq> []" "last es \<noteq> ''..''"
  then obtain n qs where q: "es = replicate n ''..'' @ qs" "list_all plain qs" by (auto simp: climbs_def)
  have "qs \<noteq> []"
  proof
    assume "qs = []"
    then have "es = replicate n ''..''" "n \<noteq> 0" using q(1) ne(1) by auto
    then show False using ne(2) by (simp add: last_replicate)
  qed
  then have "butlast es = replicate n ''..'' @ butlast qs" "list_all plain (butlast qs)"
    using q by (simp_all add: butlast_append list_all_iff in_set_butlastD)
  then show ?thesis unfolding climbs_def by auto
qed

lemma clean_step_tidy:
  assumes "tidy r (rev out)" "CHR ''/'' \<notin> set s"
  shows "tidy r (rev (clean_step r out s))"
proof -
  consider "s = [] \<or> s = ''.''" | "s = ''..''" "out = []" | p ps where "s = ''..''" "out = p # ps"
    | "plain s" using assms(2) by (cases out) (auto simp: plain_def)
  then show ?thesis
  proof cases
    case 1
    then show ?thesis using assms(1) by auto
  next
    case 2
    then show ?thesis using tidy_dots [of "[]"] by (simp add: tidy_def climbs_def)
  next
    case 3
    show ?thesis
    proof (cases "p = ''..''")
      case True
      then have "\<not> r" using assms(1) 3 by (auto simp: tidy_def plain_def split: if_splits)
      then show ?thesis using 3 True assms(1) tidy_dots [of "rev out"] by (simp add: tidy_def)
    next
      case False
      then show ?thesis using 3 assms(1) tidy_butlast [of "rev out"] by (cases r) (simp_all add: tidy_def)
    qed
  next
    case 4
    then have "clean_step r out s = s # out" by (simp add: plain_def)
    then show ?thesis using tidy_append [OF assms(1), of "[s]"] 4 by simp
  qed
qed

lemma clean_elems_tidy: "tidy (has_prefix p ''/'') (clean_elems p)"
proof -
  have "tidy r (rev (foldl (clean_step r) out ss))"
    if "tidy r (rev out)" "\<And>s. s \<in> set ss \<Longrightarrow> CHR ''/'' \<notin> set s" for r out ss
    using that by (induction ss arbitrary: out) (simp_all add: clean_step_tidy del: clean_step.simps)
  note this [of "has_prefix p ''/''" "[]" "split_on CHR ''/'' p"]
  moreover have "tidy r (rev [])" for r by (simp add: tidy_def climbs_def)
  ultimately show ?thesis unfolding clean_elems_def using split_on_no_sep by blast
qed

lemma clean_step_plain: "plain s \<Longrightarrow> clean_step r out s = s # out"
  by (simp add: plain_def)

lemma clean_plain: "list_all plain ss \<Longrightarrow> foldl (clean_step r) out ss = rev ss @ out"
  by (induction ss arbitrary: out) (simp_all add: clean_step_plain del: clean_step.simps)

lemma clean_dots: "foldl (clean_step False) (replicate m ''..'') (replicate n ''..'') = replicate (n + m) ''..''"
proof (induction n arbitrary: m)
  case (Suc n)
  have "clean_step False (replicate m ''..'') ''..'' = replicate (Suc m) ''..''" by (cases m) simp_all
  then show ?case using Suc [of "Suc m"] by (simp del: clean_step.simps)
qed simp

lemma clean_tidy: "tidy r es \<Longrightarrow> foldl (clean_step r) [] es = rev es"
proof (cases r)
  case False
  assume "tidy r es"
  then obtain n qs where q: "es = replicate n ''..'' @ qs" "list_all plain qs" using False by (auto simp: tidy_def climbs_def)
  then show ?thesis using False clean_dots [of 0 n] by (simp add: clean_plain)
qed (simp add: tidy_def clean_plain)

lemma tidy_elem: "tidy r es \<Longrightarrow> s \<in> set es \<Longrightarrow> plain s \<or> s = ''..''"
proof (cases r)
  case False
  assume "tidy r es" "s \<in> set es"
  then obtain n qs where "es = replicate n ''..'' @ qs" "list_all plain qs" "s \<in> set es"
    using False by (auto simp: tidy_def climbs_def)
  then show ?thesis by (simp add: list_all_iff) blast
qed (simp add: tidy_def list_all_iff)

lemma tidy_no_slash: "tidy r es \<Longrightarrow> s \<in> set es \<Longrightarrow> CHR ''/'' \<notin> set s"
  by (drule (1) tidy_elem) (auto simp: plain_def)

lemma tidy_nonempty: "tidy r es \<Longrightarrow> s \<in> set es \<Longrightarrow> s \<noteq> []"
  by (drule (1) tidy_elem) (auto simp: plain_def)

lemma split_tidy: "tidy r es \<Longrightarrow> es \<noteq> [] \<Longrightarrow> split_on CHR ''/'' (join_with ''/'' es) = es"
  by (rule split_join) (auto dest: tidy_no_slash)

lemma join_rooted: "tidy r es \<Longrightarrow> \<not> has_prefix (join_with ''/'' es) ''/''"
proof (cases es)
  case (Cons e rest)
  assume t: "tidy r es"
  obtain c cs where "e = c # cs" using tidy_nonempty [OF t, of e] Cons by (cases e) auto
  moreover have "CHR ''/'' \<notin> set e" using tidy_no_slash [OF t] Cons by simp
  ultimately show ?thesis by (cases rest) (auto simp: Cons has_prefix_def)
qed (simp add: has_prefix_def)

lemma path_text_rooted: "tidy r es \<Longrightarrow> has_prefix (path_text r es) ''/'' = r"
  using join_rooted [of r es] by (auto simp: path_text_def has_prefix_def)

lemma segments_path: "tidy r es \<Longrightarrow>
    foldl (clean_step r) [] (split_on CHR ''/'' (path_text r es)) = rev es"
proof (cases "es = []")
  case True
  then show ?thesis by (cases r) (simp_all add: path_text_def)
next
  case False
  assume t: "tidy r es"
  show ?thesis using split_tidy [OF t False] clean_tidy [OF t] False
    by (cases r) (simp_all add: path_text_def)
qed

lemma clean_elems_path: "tidy r es \<Longrightarrow> clean_elems (path_text r es) = es"
  unfolding clean_elems_def by (simp only: path_text_rooted segments_path) simp

lemma path_text_inject: "tidy r es \<Longrightarrow> tidy r fs \<Longrightarrow> path_text r es = path_text r fs \<Longrightarrow> es = fs"
  by (metis clean_elems_path)

subsection \<open>Keys stay below the base\<close>

definition key_elems :: "string \<Rightarrow> string list" where
  "key_elems key = clean_elems (CHR ''/'' # trim_prefix ''/'' key)"

lemma key_elems_plain: "list_all plain (key_elems key)"
  using clean_elems_tidy [of "CHR ''/'' # trim_prefix ''/'' key"] by (simp add: key_elems_def tidy_def has_prefix_def)

lemma path_text_neq_Nil: "tidy r es \<Longrightarrow> path_text r es \<noteq> []"
  using tidy_nonempty [of r es] by (cases es; cases "tl es") (auto simp: path_text_def)

lemma Join_below:
  assumes "Clean b = b"
  shows "Join b (Clean (CHR ''/'' # trim_prefix ''/'' key)) = path_text (has_prefix b ''/'') (clean_elems b @ key_elems key)"
proof -
  let ?r = "has_prefix b ''/''" and ?es = "clean_elems b" and ?ks = "key_elems key"
  note tb = clean_elems_tidy [of b]
  have b: "path_text ?r ?es = b" using assms by (simp add: Clean_def)
  have bne: "b \<noteq> []" using path_text_neq_Nil [OF tb] b by simp
  have ck: "Clean (CHR ''/'' # trim_prefix ''/'' key) = CHR ''/'' # join_with ''/'' ?ks"
    by (simp add: Clean_def key_elems_def has_prefix_def path_text_def)
  have tk: "tidy True ?ks" using key_elems_plain by (simp add: tidy_def)
  have jw: "join_with ''/'' [b, CHR ''/'' # join_with ''/'' ?ks] = b @ CHR ''/'' # CHR ''/'' # join_with ''/'' ?ks" by simp
  have root: "has_prefix (b @ CHR ''/'' # CHR ''/'' # join_with ''/'' ?ks) ''/'' = ?r"
    using bne by (cases b) (simp_all add: has_prefix_def)
  have seg_b: "foldl (clean_step ?r) [] (split_on CHR ''/'' b) = rev ?es" using segments_path [OF tb] b by simp
  have seg_k: "foldl (clean_step ?r) (rev ?es) (split_on CHR ''/'' (join_with ''/'' ?ks)) = rev ?ks @ rev ?es"
    using split_tidy [OF tk] clean_plain [OF key_elems_plain, of ?r "rev ?es"] by (cases "?ks = []") simp_all
  have "clean_elems (b @ CHR ''/'' # CHR ''/'' # join_with ''/'' ?ks) = ?es @ ?ks"
    unfolding clean_elems_def root using seg_b seg_k by (simp add: split_on_append del: clean_step.simps) simp
  then show ?thesis unfolding Join_def ck using bne root jw by (simp add: Clean_def)
qed

lemma drop_common_prefix: "drop_common es (es @ fs) = ([], fs)"
  by (induction es) (cases fs; simp)+

lemma not_up: "list_all plain ks \<Longrightarrow> join_with ''/'' ks \<noteq> ''..'' \<and> \<not> has_prefix (join_with ''/'' ks) ''../''"
proof (rule ccontr)
  assume p: "list_all plain ks" and "\<not> (join_with ''/'' ks \<noteq> ''..'' \<and> \<not> has_prefix (join_with ''/'' ks) ''../'')"
  then have h: "join_with ''/'' ks = ''..'' \<or> (\<exists>t. join_with ''/'' ks = ''..'' @ CHR ''/'' # t)"
    by (auto simp: has_prefix_iff)
  then have "ks \<noteq> []" by auto
  then have s: "split_on CHR ''/'' (join_with ''/'' ks) = ks"
    by (rule split_join) (use p in \<open>auto simp: plain_def list_all_iff\<close>)
  have d: "CHR ''/'' \<notin> set ''..''" by simp
  have "hd (split_on CHR ''/'' (join_with ''/'' ks)) = ''..''"
    using h split_on_append_sep [OF d] split_on_plain [OF d] by (elim disjE exE) simp_all
  then have "hd ks = ''..''" by (simp only: s)
  then show False using p \<open>ks \<noteq> []\<close> by (cases ks) (simp_all add: plain_def)
qed

theorem resolve_below:
  assumes "Clean b = b"
  shows "resolve b key = Inr (path_text (has_prefix b ''/'') (clean_elems b @ key_elems key))"
proof -
  let ?r = "has_prefix b ''/''" and ?es = "clean_elems b" and ?ks = "key_elems key"
  let ?p = "path_text ?r (?es @ ?ks)"
  have t: "tidy ?r (?es @ ?ks)" by (rule tidy_append [OF clean_elems_tidy key_elems_plain])
  have root: "has_prefix ?p ''/'' = ?r" by (rule path_text_rooted [OF t])
  have el: "clean_elems ?p = ?es @ ?ks" by (rule clean_elems_path [OF t])
  have "Rel b ?p = Some (if ?ks = [] then ''.'' else join_with ''/'' ?ks)"
  proof (cases "?ks = []")
    case True
    then show ?thesis using assms by (simp add: Rel_def Clean_def)
  next
    case False
    have "Clean ?p \<noteq> Clean b"
      using path_text_inject [OF t clean_elems_tidy] False by (auto simp: Clean_def root el)
    then show ?thesis using False root el by (simp add: Rel_def drop_common_prefix)
  qed
  moreover have "\<not> ((if ?ks = [] then ''.'' else join_with ''/'' ?ks) = ''..''
      \<or> has_prefix (if ?ks = [] then ''.'' else join_with ''/'' ?ks) ''../'')"
    using not_up [OF key_elems_plain, of key] by (simp add: has_prefix_def)
  ultimately show ?thesis unfolding resolve_def Let_def Join_below [OF assms] by simp
qed

subsection \<open>The contract of an object store\<close>

text \<open>
  \<open>content\<close> is what a store holds under a key, \<open>good\<close> are the keys its clients use, \<open>sound\<close> the states the
  operations keep to. A failed write may have truncated its own object but no other.
\<close>

locale object_store =
  fixes put_obj :: "'s \<Rightarrow> string \<Rightarrow> reader \<Rightarrow> 's \<times> (string + int)"
    and get_obj :: "'s \<Rightarrow> string \<Rightarrow> string + reader"
    and list_obj :: "'s \<Rightarrow> string \<Rightarrow> string + (string \<times> int) list"
    and del_obj :: "'s \<Rightarrow> string \<Rightarrow> 's \<times> string option"
    and content :: "'s \<Rightarrow> string \<Rightarrow> string option"
    and good :: "string \<Rightarrow> bool" and sound :: "'s \<Rightarrow> bool"
  assumes put_sound: "sound s \<Longrightarrow> good k \<Longrightarrow> put_obj s k r = (s', res) \<Longrightarrow> sound s'"
    and put_content: "sound s \<Longrightarrow> good k \<Longrightarrow> put_obj s k r = (s', Inr n) \<Longrightarrow>
      content s' k = Some (fst r) \<and> n = int (length (fst r)) \<and> snd r = None"
    and put_others: "sound s \<Longrightarrow> good k \<Longrightarrow> put_obj s k r = (s', res) \<Longrightarrow> good k' \<Longrightarrow> k' \<noteq> k \<Longrightarrow>
      content s' k' = content s k'"
    and get_content: "sound s \<Longrightarrow> good k \<Longrightarrow> content s k = Some c \<Longrightarrow> get_obj s k = Inr (c, None)"
    and list_good: "sound s \<Longrightarrow> list_obj s pre = Inr ks \<Longrightarrow> list_all (\<lambda>(k, n). good k \<and> has_prefix k pre) ks"
    and list_all_objects: "sound s \<Longrightarrow> list_obj s pre = Inr ks \<Longrightarrow> good k \<Longrightarrow> has_prefix k pre \<Longrightarrow>
      content s k \<noteq> None \<Longrightarrow> k \<in> set (map fst ks)"
    and del_sound: "sound s \<Longrightarrow> good k \<Longrightarrow> del_obj s k = (s', dres) \<Longrightarrow> sound s'"
    and del_content: "sound s \<Longrightarrow> good k \<Longrightarrow> del_obj s k = (s', dres) \<Longrightarrow> content s' k = None"
    and del_others: "sound s \<Longrightarrow> good k \<Longrightarrow> del_obj s k = (s', dres) \<Longrightarrow> good k' \<Longrightarrow> k' \<noteq> k \<Longrightarrow>
      content s' k' = content s k'"
begin

text \<open>Deleting a list of objects, ignoring the errors.\<close>

definition del_objs :: "'s \<Rightarrow> string list \<Rightarrow> 's" where
  "del_objs s ks = foldl (\<lambda>s k. fst (del_obj s k)) s ks"

lemma del_objs:
  "sound s \<Longrightarrow> list_all good ks \<Longrightarrow> sound (del_objs s ks) \<and>
     (\<forall>k. good k \<longrightarrow> content (del_objs s ks) k = (if k \<in> set ks then None else content s k))"
proof (induction ks arbitrary: s)
  case (Cons k ks)
  obtain s' res where d: "del_obj s k = (s', res)" by (rule prod.exhaust)
  have s': "sound s'" "content s' k = None" "\<And>k'. good k' \<Longrightarrow> k' \<noteq> k \<Longrightarrow> content s' k' = content s k'"
    using del_sound [OF Cons.prems(1) _ d] del_content [OF Cons.prems(1) _ d] del_others [OF Cons.prems(1) _ d]
      Cons.prems(2) by simp_all
  have "del_objs s (k # ks) = del_objs s' ks" by (simp add: del_objs_def d)
  moreover from Cons.IH [OF s'(1)] Cons.prems(2) have "sound (del_objs s' ks) \<and>
     (\<forall>k. good k \<longrightarrow> content (del_objs s' ks) k = (if k \<in> set ks then None else content s' k))" by simp
  ultimately show ?case using s'(2,3) by auto
qed (simp add: del_objs_def)

end

subsection \<open>The local directory keeps it\<close>

definition good_key :: "string \<Rightarrow> bool" where
  "good_key k \<longleftrightarrow> list_all plain (split_on CHR ''/'' k) \<and> k \<noteq> probe_key"

definition place :: "local_store \<Rightarrow> string \<Rightarrow> string list" where
  "place s k = clean_elems (base s) @ split_on CHR ''/'' k"

definition stored :: "local_store \<Rightarrow> string \<Rightarrow> string option" where
  "stored s k = (case map_of (tree s) (place s k) of Some (File c) \<Rightarrow> Some c | _ \<Rightarrow> None)"

text \<open>
  A tree is well formed when the folders of its entries are in it; below the base all names are
  ordinary, and the base itself is no file.
\<close>

definition local_sound :: "local_store \<Rightarrow> bool" where
  "local_sound s \<longleftrightarrow> Clean (base s) = base s \<and> \<not> is_file (tree s) (clean_elems (base s))
     \<and> (\<forall>p q. map_of (tree s) p \<noteq> None \<longrightarrow> strict_prefix q p \<longrightarrow> map_of (tree s) q = Some Folder)
     \<and> (\<forall>p. map_of (tree s) (clean_elems (base s) @ p) \<noteq> None \<longrightarrow> list_all plain p)"

lemma good_trim: "good_key k \<Longrightarrow> trim_prefix ''/'' k = k"
  by (cases k) (auto simp: good_key_def trim_prefix_def has_prefix_def plain_def split: list.splits)

lemma good_elems: "good_key k \<Longrightarrow> key_elems k = split_on CHR ''/'' k"
proof -
  assume g: "good_key k"
  have "clean_elems (CHR ''/'' # k) = rev (foldl (clean_step True) [] (split_on CHR ''/'' k))"
    by (simp add: clean_elems_def has_prefix_def)
  also have "\<dots> = split_on CHR ''/'' k" using g by (simp add: clean_plain good_key_def)
  finally show ?thesis by (simp add: key_elems_def good_trim [OF g])
qed

lemma place_inject: "place s k = place s k' \<longleftrightarrow> k = k'"
  unfolding place_def by (metis append_same_eq same_append_eq join_split)

lemma resolve_good:
  assumes "local_sound s" "good_key k"
  obtains p where "resolve (base s) k = Inr p" "clean_elems p = place s k"
proof
  have b: "Clean (base s) = base s" using assms(1) by (simp add: local_sound_def)
  let ?p = "path_text (has_prefix (base s) ''/'') (clean_elems (base s) @ key_elems k)"
  show "resolve (base s) k = Inr ?p" by (rule resolve_below [OF b])
  show "clean_elems ?p = place s k"
    using clean_elems_path [OF tidy_append [OF clean_elems_tidy [of "base s"] key_elems_plain [of k]]]
    by (simp add: place_def good_elems [OF assms(2)])
qed

lemma map_of_MkdirAll:
  assumes "MkdirAll t d = Some t'"
  shows "map_of t' p = (if prefix p d \<and> map_of t p = None then Some Folder else map_of t p)"
    and "prefix p d \<Longrightarrow> map_of t' p = Some Folder"
proof -
  have f: "map_of (fold (\<lambda>p t. if map_of t p = None then put t p Folder else t) ps t) p
      = (if p \<in> set ps \<and> map_of t p = None then Some Folder else map_of t p)" for ps and t :: fs
    by (induction ps arbitrary: t) (auto simp: map_of_put)
  have nf: "\<forall>q. prefix q d \<longrightarrow> \<not> is_file t q" using assms by (auto simp: MkdirAll_def list_ex_iff split: if_splits)
  have t': "t' = fold (\<lambda>p t. if map_of t p = None then put t p Folder else t) (prefixes d) t"
    using assms by (simp add: MkdirAll_def split: if_splits)
  then show m: "map_of t' p = (if prefix p d \<and> map_of t p = None then Some Folder else map_of t p)"
    by (simp add: f)
  show "prefix p d \<Longrightarrow> map_of t' p = Some Folder"
  proof (cases "map_of t p")
    case (Some y)
    assume "prefix p d"
    then have "y = Folder" using nf Some by (cases y) (auto simp: is_file_def)
    then show ?thesis using m Some by simp
  qed (use m in simp)
qed

text \<open>Removing an entry without children.\<close>

lemma fs_remove_eq:
  assumes "fs_remove t p = (t', res)"
  shows "res = Removed \<Longrightarrow> map_of t' = (map_of t)(p := None) \<and> map_of t p \<noteq> None
      \<and> (map_of t p = Some Folder \<longrightarrow> (\<forall>q. strict_prefix p q \<longrightarrow> map_of t q = None))"
    and "res \<noteq> Removed \<Longrightarrow> t' = t"
  using assms
  by (auto simp: fs_remove_def map_of_del list_ex_iff split: option.splits node.splits if_splits dest: map_of_SomeD)
    (metis case_prodI map_of_SomeD not_Some_eq)

lemma local_soundI:
  assumes "local_sound s" "base s' = base s" "\<not> is_file (tree s') (clean_elems (base s))"
    and "\<And>p q. map_of (tree s') p \<noteq> None \<Longrightarrow> strict_prefix q p \<Longrightarrow> map_of (tree s') q = Some Folder"
    and "\<And>p. map_of (tree s') (clean_elems (base s) @ p) \<noteq> None \<Longrightarrow> list_all plain p"
  shows "local_sound s'"
  using assms unfolding local_sound_def by simp

lemma sound_parent:
  "local_sound s \<Longrightarrow> map_of (tree s) p \<noteq> None \<Longrightarrow> strict_prefix q p \<Longrightarrow> map_of (tree s) q = Some Folder"
  "local_sound s \<Longrightarrow> map_of (tree s) (clean_elems (base s) @ q) \<noteq> None \<Longrightarrow> list_all plain q"
  "local_sound s \<Longrightarrow> \<not> is_file (tree s) (clean_elems (base s))"
  unfolding local_sound_def by blast+

text \<open>Adding the folders on the way to a plain place.\<close>

lemma mkdir_sound:
  assumes "local_sound s" "MkdirAll (tree s) (clean_elems (base s) @ d) = Some t" "list_all plain d"
  shows "local_sound (s\<lparr>tree := t\<rparr>)"
proof (rule local_soundI [OF assms(1)])
  note m = map_of_MkdirAll [OF assms(2)]
  show "\<not> is_file (tree (s\<lparr>tree := t\<rparr>)) (clean_elems (base s))"
    using m(2) [of "clean_elems (base s)"] by (simp add: is_file_def)
next
  note m = map_of_MkdirAll [OF assms(2)]
  fix p q
  assume p: "map_of (tree (s\<lparr>tree := t\<rparr>)) p \<noteq> None" and q: "strict_prefix q p"
  show "map_of (tree (s\<lparr>tree := t\<rparr>)) q = Some Folder"
  proof (cases "prefix q (clean_elems (base s) @ d)")
    case False
    then have "\<not> prefix p (clean_elems (base s) @ d)" using q prefix_order.trans [of q p] by (auto simp: strict_prefix_def)
    then have "map_of (tree s) p \<noteq> None" using p m(1) [of p] by simp
    then show ?thesis using sound_parent(1) [OF assms(1) _ q] m(1) [of q] False by simp
  qed (use m(2) in simp)
next
  note m = map_of_MkdirAll [OF assms(2)]
  fix p
  assume p: "map_of (tree (s\<lparr>tree := t\<rparr>)) (clean_elems (base s) @ p) \<noteq> None"
  show "list_all plain p"
  proof (cases "prefix p d")
    case True
    then show ?thesis using assms(3) by (auto simp: prefix_def)
  next
    case False
    then show ?thesis using p m(1) [of "clean_elems (base s) @ p"] sound_parent(2) [OF assms(1), of p] by simp
  qed
qed simp

lemma place_split:
  obtains d f where "place s k = clean_elems (base s) @ d @ [f]" "split_on CHR ''/'' k = d @ [f]"
    "butlast (place s k) = clean_elems (base s) @ d"
  using rev_exhaust [of "split_on CHR ''/'' k"] by (metis append_assoc butlast_append butlast_snoc place_def snoc_eq_iff_butlast split_on_neq_Nil)

text \<open>Writing or removing the file at a place whose folders are there.\<close>

lemma write_sound:
  assumes "local_sound s" "good_key k" "map_of (tree s) (place s k) \<noteq> Some Folder"
    and parents: "\<And>q. strict_prefix q (place s k) \<Longrightarrow> map_of (tree s) q = Some Folder"
    and t: "map_of t = (map_of (tree s))(place s k := v)" "v \<noteq> Some Folder"
  shows "local_sound (s\<lparr>tree := t\<rparr>)"
proof (rule local_soundI [OF assms(1)])
  have "split_on CHR ''/'' k \<noteq> []" by simp
  then have "place s k \<noteq> clean_elems (base s)" by (simp add: place_def)
  then show "\<not> is_file (tree (s\<lparr>tree := t\<rparr>)) (clean_elems (base s))"
    using sound_parent(3) [OF assms(1)] by (simp add: is_file_def t)
next
  fix p q
  assume p: "map_of (tree (s\<lparr>tree := t\<rparr>)) p \<noteq> None" and q: "strict_prefix q p"
  show "map_of (tree (s\<lparr>tree := t\<rparr>)) q = Some Folder"
  proof (cases "p = place s k")
    case True
    then show ?thesis using parents q by (simp add: t)
  next
    case False
    then have f: "map_of (tree s) q = Some Folder" using p q sound_parent(1) [OF assms(1) _ q] by (simp add: t)
    then show ?thesis using assms(3) by (auto simp: t)
  qed
next
  fix p
  assume "map_of (tree (s\<lparr>tree := t\<rparr>)) (clean_elems (base s) @ p) \<noteq> None"
  then show "list_all plain p"
    using sound_parent(2) [OF assms(1), of p] assms(2) by (auto simp: t place_def good_key_def split: if_splits)
qed simp

lemma place_base [simp]: "place (s\<lparr>tree := t\<rparr>) k = place s k"
  by (simp add: place_def)

lemma stored_eqI: "map_of t (place s k) = map_of (tree s) (place s k) \<Longrightarrow> stored (s\<lparr>tree := t\<rparr>) k = stored s k"
  by (simp add: stored_def)

lemma strict_prefix_place:
  assumes "place s k = clean_elems (base s) @ d @ [f]" "strict_prefix q (place s k)"
  shows "prefix q (clean_elems (base s) @ d)"
  using assms by (metis append_assoc prefix_snoc strict_prefix_def)

lemma Local_Put_cases:
  assumes "local_sound s" "good_key k" "Local_Put s k r = (s', res)"
  obtains (nothing) e where "s' = s" "res = Inl e"
  | (folders) e t where "MkdirAll (tree s) (butlast (place s k)) = Some t" "s' = s\<lparr>tree := t\<rparr>" "res = Inl e"
  | (lost) e t where "MkdirAll (tree s) (butlast (place s k)) = Some t" "map_of t (place s k) \<noteq> Some Folder"
      "s' = s\<lparr>tree := del t (place s k)\<rparr>" "res = Inl e"
  | (written) t where "MkdirAll (tree s) (butlast (place s k)) = Some t" "map_of t (place s k) \<noteq> Some Folder"
      "s' = s\<lparr>tree := put t (place s k) (File (fst r))\<rparr>" "res = Inr (int (length (fst r)))" "snd r = None"
proof -
  obtain p where p: "resolve (base s) k = Inr p" "clean_elems p = place s k" using resolve_good [OF assms(1,2)] .
  show thesis
  proof (cases "MkdirAll (tree s) (butlast (place s k))")
    case None
    then have "s' = s \<and> (\<exists>e. res = Inl e)" using assms(3) p by (auto simp: Local_Put_def)
    then show thesis by (elim conjE exE) (rule nothing)
  next
    case (Some t)
    show thesis
    proof (cases "place s k = [] \<or> map_of t (place s k) = Some Folder")
      case True
      then have "s' = s\<lparr>tree := t\<rparr> \<and> (\<exists>e. res = Inl e)" using assms(3) p Some by (auto simp: Local_Put_def)
      then show thesis by (elim conjE exE) (rule folders [OF Some])
    next
      case False
      then show thesis using assms(3) p Some lost written by (cases "snd r") (auto simp: Local_Put_def)
    qed
  qed
qed

lemma put_parents:
  assumes "local_sound s" "good_key k" "MkdirAll (tree s) (butlast (place s k)) = Some t"
  shows "local_sound (s\<lparr>tree := t\<rparr>)" "\<And>q. strict_prefix q (place s k) \<Longrightarrow> map_of t q = Some Folder"
    "\<And>k'. stored (s\<lparr>tree := t\<rparr>) k' = stored s k'"
proof -
  obtain d f where d: "place s k = clean_elems (base s) @ d @ [f]" "split_on CHR ''/'' k = d @ [f]"
    "butlast (place s k) = clean_elems (base s) @ d" by (rule place_split)
  have m: "MkdirAll (tree s) (clean_elems (base s) @ d) = Some t" using assms(3) d(3) by simp
  show "local_sound (s\<lparr>tree := t\<rparr>)"
    by (rule mkdir_sound [OF assms(1) m]) (use assms(2) d(2) in \<open>simp add: good_key_def\<close>)
  show "\<And>q. strict_prefix q (place s k) \<Longrightarrow> map_of t q = Some Folder"
    using map_of_MkdirAll(2) [OF m] strict_prefix_place [OF d(1)] by blast
  show "\<And>k'. stored (s\<lparr>tree := t\<rparr>) k' = stored s k'"
    by (simp add: stored_def map_of_MkdirAll(1) [OF m])
qed

lemma local_put:
  assumes "local_sound s" "good_key k" "Local_Put s k r = (s', res)"
  shows "local_sound s'" "res = Inr n \<Longrightarrow> stored s' k = Some (fst r) \<and> n = int (length (fst r)) \<and> snd r = None"
    "k' \<noteq> k \<Longrightarrow> stored s' k' = stored s k'"
proof -
  have "local_sound s' \<and> (res = Inr n \<longrightarrow> stored s' k = Some (fst r) \<and> n = int (length (fst r)) \<and> snd r = None)
    \<and> (k' \<noteq> k \<longrightarrow> stored s' k' = stored s k')"
    using assms
  proof (cases rule: Local_Put_cases)
    case (nothing e)
    then show ?thesis using assms(1) by simp
  next
    case (folders e t)
    then show ?thesis using put_parents [OF assms(1,2) folders(1)] by simp
  next
    case (lost e t)
    note p = put_parents [OF assms(1,2) lost(1)]
    have "local_sound ((s\<lparr>tree := t\<rparr>)\<lparr>tree := del t (place s k)\<rparr>)"
      by (rule write_sound [OF p(1) assms(2), of _ None]) (use lost(2) p(2) in \<open>simp_all add: map_of_del\<close>)
    then show ?thesis using lost p(3) [of k'] by (simp add: stored_def map_of_del place_inject)
  next
    case (written t)
    note p = put_parents [OF assms(1,2) written(1)]
    have "local_sound ((s\<lparr>tree := t\<rparr>)\<lparr>tree := put t (place s k) (File (fst r))\<rparr>)"
      by (rule write_sound [OF p(1) assms(2), of _ "Some (File (fst r))"])
        (use written(2) p(2) in \<open>simp_all add: map_of_put\<close>)
    then show ?thesis using written p(3) [of k'] by (simp add: stored_def map_of_put place_inject)
  qed
  then show "local_sound s'" "res = Inr n \<Longrightarrow> stored s' k = Some (fst r) \<and> n = int (length (fst r)) \<and> snd r = None"
    "k' \<noteq> k \<Longrightarrow> stored s' k' = stored s k'" by blast+
qed

lemma local_get: "local_sound s \<Longrightarrow> good_key k \<Longrightarrow> stored s k = Some c \<Longrightarrow> Local_Get s k = Inr (c, None)"
  by (rule resolve_good, assumption+) (auto simp: Local_Get_def stored_def split: option.splits node.splits)

lemma key_of_place: "key_of (clean_elems (base s)) (place s k) = k"
  by (simp add: key_of_def place_def)

lemma local_list:
  assumes "local_sound s" "Local_List s pre = Inr ks"
  shows "list_all (\<lambda>(k, n). good_key k \<and> has_prefix k pre) ks"
    "good_key k \<Longrightarrow> has_prefix k pre \<Longrightarrow> stored s k \<noteq> None \<Longrightarrow> k \<in> set (map fst ks)"
proof -
  let ?b = "clean_elems (base s)"
  have ks: "map fst ks = map (key_of ?b) (sort (filter (\<lambda>p. is_file (tree s) p \<and> listed s pre p) (keys (tree s))))"
    using assms(2) by (auto simp: Local_List_def Let_def split: if_splits)
  have "good_key (key_of ?b p) \<and> has_prefix (key_of ?b p) pre" if p: "is_file (tree s) p" "listed s pre p" for p
  proof -
    obtain q where q: "p = ?b @ q" using p(2) by (auto simp: listed_def prefix_def)
    have ne: "p \<noteq> ?b" using p(1) sound_parent(3) [OF assms(1)] by blast
    have "map_of (tree s) (?b @ q) \<noteq> None" using p(1) q by (auto simp: is_file_def split: option.splits)
    from sound_parent(2) [OF assms(1) this] have pl: "list_all plain q" .
    have "q \<noteq> []" using ne q by simp
    then have "split_on CHR ''/'' (join_with ''/'' q) = q"
      by (rule split_join) (use pl in \<open>auto simp: list_all_iff plain_def\<close>)
    then show ?thesis using p(2) pl ne q by (auto simp: listed_def key_of_def good_key_def Let_def has_prefix_def)
  qed
  then have "list_all (\<lambda>k. good_key k \<and> has_prefix k pre) (map fst ks)" unfolding ks by (auto simp: list_all_iff)
  then show "list_all (\<lambda>(k, n). good_key k \<and> has_prefix k pre) ks" by (auto simp: list_all_iff)
  show "k \<in> set (map fst ks)" if g: "good_key k" "has_prefix k pre" "stored s k \<noteq> None"
  proof -
    have f: "is_file (tree s) (place s k)" "map_of (tree s) (place s k) \<noteq> None"
      using g(3) by (auto simp: stored_def is_file_def split: option.splits node.splits)
    have "prefix (clean_elems (base s)) (place s k)" by (simp add: place_def)
    then have "listed s pre (place s k)" using g(1,2) unfolding listed_def key_of_place Let_def good_key_def by blast
    moreover have "place s k \<in> set (keys (tree s))" using f(2) unfolding map_of_keys .
    ultimately have "place s k \<in> set (sort (filter (\<lambda>p. is_file (tree s) p \<and> listed s pre p) (keys (tree s))))"
      using f(1) by simp
    from imageI [OF this, of "key_of ?b"] show ?thesis unfolding ks key_of_place set_map .
  qed
qed

text \<open>Pruning takes away empty folders only.\<close>

lemma remove_folder_sound:
  assumes "local_sound s" "fs_remove (tree s) d = (t, Removed)" "\<not> is_file (tree s) d"
  shows "local_sound (s\<lparr>tree := t\<rparr>)" "stored (s\<lparr>tree := t\<rparr>) k = stored s k" "\<not> is_file t q \<or> is_file (tree s) q"
proof -
  note r = fs_remove_eq(1) [OF assms(2) refl]
  have folder: "map_of (tree s) d = Some Folder"
    using r assms(3) by (cases "map_of (tree s) d"; cases "the (map_of (tree s) d)") (auto simp: is_file_def)
  then have t: "map_of t = (map_of (tree s))(d := None)" "\<And>q. strict_prefix d q \<Longrightarrow> map_of (tree s) q = None"
    using r by auto
  show "local_sound (s\<lparr>tree := t\<rparr>)"
  proof (rule local_soundI [OF assms(1)])
    show "\<not> is_file (tree (s\<lparr>tree := t\<rparr>)) (clean_elems (base s))"
      using sound_parent(3) [OF assms(1)] by (simp add: is_file_def t)
  next
    fix p q
    assume "map_of (tree (s\<lparr>tree := t\<rparr>)) p \<noteq> None" and q: "strict_prefix q p"
    then have p: "map_of (tree s) p \<noteq> None" "p \<noteq> d" by (auto simp: t split: if_splits)
    then have "q \<noteq> d" using t(2) q by auto
    then show "map_of (tree (s\<lparr>tree := t\<rparr>)) q = Some Folder"
      using sound_parent(1) [OF assms(1) p(1) q] by (simp add: t)
  next
    fix p
    assume "map_of (tree (s\<lparr>tree := t\<rparr>)) (clean_elems (base s) @ p) \<noteq> None"
    then show "list_all plain p" using sound_parent(2) [OF assms(1), of p] by (auto simp: t split: if_splits)
  qed simp
  show "stored (s\<lparr>tree := t\<rparr>) k = stored s k" using folder by (simp add: stored_def t)
  show "\<not> is_file t q \<or> is_file (tree s) q" by (auto simp: is_file_def t)
qed

lemma prune_sound:
  "local_sound s \<Longrightarrow> (\<And>q. prefix q d \<Longrightarrow> \<not> is_file (tree s) q) \<Longrightarrow>
     local_sound (s\<lparr>tree := prune_empty b r (tree s) d\<rparr>)
     \<and> (\<forall>k. stored (s\<lparr>tree := prune_empty b r (tree s) d\<rparr>) k = stored s k)"
proof (induction "length d" arbitrary: d s)
  case 0
  then show ?case by (simp add: prune_empty.simps)
next
  case (Suc n)
  obtain t res where rm: "fs_remove (tree s) d = (t, res)" by (rule prod.exhaust)
  have stay: "local_sound (s\<lparr>tree := tree s\<rparr>)" "stored (s\<lparr>tree := tree s\<rparr>) k = stored s k" for k
    using Suc.prems(1) by simp_all
  show ?case
  proof (cases "path_text r d = b \<or> \<not> has_prefix (path_text r d) b \<or> d = []")
    case True
    then have "prune_empty b r (tree s) d = tree s" by (simp add: prune_empty.simps)
    then show ?thesis using Suc.prems(1) by simp
  next
    case go: False
    show ?thesis
    proof (cases "res = Removed")
      case False
      then have "t = tree s" using fs_remove_eq(2) [OF rm] by simp
      then have "prune_empty b r (tree s) d = tree s"
        using go rm False by (cases res) (simp_all add: prune_empty.simps [of b r "tree s" d])
      then show ?thesis using Suc.prems(1) by simp
    next
      case True
      note rf = remove_folder_sound [OF Suc.prems(1) rm [unfolded True] Suc.prems(2) [OF prefix_order.refl]]
      have len: "n = length (butlast d)" using Suc.hyps(2) by simp
      have "prefix q d" if "prefix q (butlast d)" for q
        using that by (metis append_butlast_last_id go prefix_order.trans prefixI)
      then have nf: "\<not> is_file (tree (s\<lparr>tree := t\<rparr>)) q" if "prefix q (butlast d)" for q
        using rf(3) [of q] Suc.prems(2) that by auto
      have "prune_empty b r (tree s) d = prune_empty b r t (butlast d)"
        using go rm True by (simp add: prune_empty.simps [of b r "tree s" d])
      then show ?thesis using Suc.hyps(1) [OF len rf(1) nf] rf(2) by simp
    qed
  qed
qed

lemma local_delete:
  assumes "local_sound s" "good_key k" "Local_Delete s k = (s', res)"
  shows "local_sound s'" "stored s' k = None" "k' \<noteq> k \<Longrightarrow> stored s' k' = stored s k'"
proof -
  obtain p where p: "resolve (base s) k = Inr p" "clean_elems p = place s k" using resolve_good [OF assms(1,2)] .
  obtain d f where d: "place s k = clean_elems (base s) @ d @ [f]" "butlast (place s k) = clean_elems (base s) @ d"
    by (rule place_split)
  have below: "strict_prefix q (place s k)" if "prefix q (butlast (place s k))" for q
    using that d by (metis append_assoc append_self_conv not_Cons_self prefix_order.dual_order.strict_trans1 same_append_eq strict_prefixI' strict_prefix_def prefixI)
  obtain t rr where rm: "fs_remove (tree s) (place s k) = (t, rr)" by (rule prod.exhaust)
  have "local_sound s' \<and> stored s' k = None \<and> (k' \<noteq> k \<longrightarrow> stored s' k' = stored s k')"
  proof (cases rr)
    case Remove_failed
    then have "s' = s" using assms(3) p rm by (simp add: Local_Delete_def)
    moreover have "stored s k = None"
      using rm Remove_failed by (auto simp: stored_def fs_remove_def split: option.splits node.splits if_splits)
    ultimately show ?thesis using assms(1) by simp
  next
    case Not_exist
    then have t: "t = tree s" "map_of (tree s) (place s k) = None" "\<not> list_ex (is_file (tree s)) (butlast (prefixes (place s k)))"
      using rm by (auto simp: fs_remove_def split: option.splits node.splits if_splits)
    have nf: "\<not> is_file (tree s) q" if "prefix q (butlast (place s k))" for q
    proof -
      have "q \<in> set (prefixes (place s k))" "q \<noteq> last (prefixes (place s k))"
        using below [OF that] by (simp_all add: strict_prefix_def)
      then have "q \<in> set (butlast (prefixes (place s k)))"
        by (metis append_butlast_last_id empty_iff empty_set insert_iff list.simps(15) rotate1.simps(2) set_rotate1)
      then show ?thesis using t(3) by (simp add: list_ex_iff)
    qed
    have "s' = s\<lparr>tree := prune_empty (base s) (has_prefix p ''/'') (tree s) (butlast (place s k))\<rparr>"
      using assms(3) p rm Not_exist t(1) by (simp add: Local_Delete_def)
    then show ?thesis using prune_sound [OF assms(1) nf] t(2) by (simp add: stored_def)
  next
    case Removed
    note r = fs_remove_eq(1) [OF rm [unfolded Removed] refl]
    have tm: "map_of t = (map_of (tree s))(place s k := None)" using r by simp
    have parents: "map_of (tree s) q = Some Folder" if "strict_prefix q (place s k)" for q
      using sound_parent(1) [OF assms(1) _ that] r by blast
    have s1: "local_sound (s\<lparr>tree := t\<rparr>)"
    proof (cases "map_of (tree s) (place s k) = Some Folder")
      case True
      then show ?thesis using remove_folder_sound(1) [OF assms(1) rm [unfolded Removed]] by (simp add: is_file_def)
    next
      case False
      show ?thesis by (rule write_sound [OF assms(1,2) False parents tm]) simp_all
    qed
    have nf: "\<not> is_file (tree (s\<lparr>tree := t\<rparr>)) q" if "prefix q (butlast (place s k))" for q
      using parents [OF below [OF that]] by (simp add: is_file_def tm)
    have "s' = (s\<lparr>tree := t\<rparr>)\<lparr>tree := prune_empty (base s) (has_prefix p ''/'') t (butlast (place s k))\<rparr>"
      using assms(3) p rm Removed by (simp add: Local_Delete_def)
    then show ?thesis using prune_sound [OF s1 nf] by (simp add: stored_def tm place_inject)
  qed
  then show "local_sound s'" "stored s' k = None" "k' \<noteq> k \<Longrightarrow> stored s' k' = stored s k'" by blast+
qed

interpretation local: object_store Local_Put Local_Get Local_List Local_Delete stored good_key local_sound
  by unfold_locales
    (erule (2) local_put(1), erule (2) local_put(2) [OF _ _ _ refl], erule (3) local_put(3), erule (2) local_get,
     erule (1) local_list(1), erule (4) local_list(2), erule (2) local_delete(1), erule (2) local_delete(2),
     erule (3) local_delete(3))

subsection \<open>The properties\<close>

text \<open>C36. A local storage backend accepts every object key and maps it to a path at or below its base
  directory: the elements of the path are those of the base followed by ordinary names, so no key,
  however many dots and slashes it has, reaches a file outside.\<close>

theorem local_confined:
  assumes "newLocalBackend c t = Inr s"
  shows "\<exists>p ns. resolve (base s) key = Inr p \<and> clean_elems p = clean_elems (base s) @ ns
    \<and> (\<forall>n \<in> set ns. n \<noteq> [] \<and> n \<noteq> ''.'' \<and> n \<noteq> ''..'' \<and> CHR ''/'' \<notin> set n)
    \<and> has_prefix p ''/'' = has_prefix (base s) ''/''"
proof -
  have "base s = Clean (trim_space (Target c))"
    using assms by (auto simp: newLocalBackend_def split: option.splits)
  moreover have "Clean (Clean p) = Clean p" for p
    by (simp add: Clean_def [of "Clean p"])
      (simp add: Clean_def path_text_rooted [OF clean_elems_tidy] clean_elems_path [OF clean_elems_tidy])
  ultimately have b: "Clean (base s) = base s" by simp
  let ?p = "path_text (has_prefix (base s) ''/'') (clean_elems (base s) @ key_elems key)"
  have t: "tidy (has_prefix (base s) ''/'') (clean_elems (base s) @ key_elems key)"
    by (rule tidy_append [OF clean_elems_tidy key_elems_plain])
  have "\<forall>n \<in> set (key_elems key). n \<noteq> [] \<and> n \<noteq> ''.'' \<and> n \<noteq> ''..'' \<and> CHR ''/'' \<notin> set n"
    using key_elems_plain [of key] by (simp add: list_all_iff plain_def)
  then show ?thesis using resolve_below [OF b, of key] clean_elems_path [OF t] path_text_rooted [OF t] by blast
qed

definition lab_dir :: storage_config where
  "lab_dir = \<lparr>sc_Type = ''local'', sc_Name = ''d'', Endpoint = [], Target = ''/srv/../backup/'', sc_Username = [],
     Secret = [], sc_ProviderID = [], PoolName = [], LibvirtEndpoint = [], Account = [], Container = [],
     Region = [], ServiceURL = []\<rparr>"

theorem local_confined_witness:
  "\<exists>p ns. resolve ''/backup'' ''vm/../../etc/passwd'' = Inr p \<and> clean_elems p = clean_elems ''/backup'' @ ns \<and> ''..'' \<notin> set ns"
proof -
  have n: "newLocalBackend lab_dir [] = Inr \<lparr>base = ''/backup'', tree = []\<rparr>" by code_simp
  show ?thesis using local_confined [OF n, of "''vm/../../etc/passwd''"] by auto
qed

lemma traversal_example: "resolve ''/backup'' ''vm/../../etc/passwd'' = Inr ''/backup/etc/passwd''"
  by code_simp

text \<open>Two exports of the same server get the same pool name, so the same directory.\<close>

lemma pool_name_shared:
  "sc_Type c = sc_Type d \<Longrightarrow> hostOnly (Endpoint c) = hostOnly (Endpoint d) \<Longrightarrow> derivePoolName c = derivePoolName d"
  by (simp add: derivePoolName_def)

text \<open>Values put into the XML of a pool cannot end an attribute or open a tag.\<close>

lemma xmlEsc_safe: "c \<in> set (xmlEsc s) \<Longrightarrow> c \<notin> {CHR ''<'', CHR ''>'', CHR 0x22, CHR 0x27}"
  by (auto simp: xmlEsc_def xml_char_def split: if_splits)

end
