(* ===== verification/Backup_Props.thy ===== *)
theory Backup_Props
  imports Backup Migrate_Props Storage_Props
begin

text \<open>
  What the backups guarantee over any provider and object store that keep their contracts (the
  locale \<open>backup_env\<close>, which joins \<open>hypervisor\<close> and \<open>object_store\<close>): retention removes exactly the
  oldest completed backups of its policy, with their objects and no others
  (\<open>retention_keeps_newest\<close>); a completed backup can be restored as one new machine with the name,
  guest and firmware of the original (\<open>backup_restores\<close>).
\<close>

subsection \<open>Documents\<close>

definition in_range :: "int \<Rightarrow> bool" where
  "in_range n \<longleftrightarrow> - (2 ^ 63) \<le> n \<and> n < 2 ^ 63"

lemma fold_names:
  "equal_fold ''vmName'' ''vmId'' = False" "equal_fold ''guestOs'' ''vmId'' = False" "equal_fold ''firmware'' ''vmId'' = False"
  "equal_fold ''disks'' ''vmId'' = False" "equal_fold ''createdAt'' ''vmId'' = False"
  "equal_fold ''vmId'' ''vmName'' = False" "equal_fold ''guestOs'' ''vmName'' = False" "equal_fold ''firmware'' ''vmName'' = False"
  "equal_fold ''disks'' ''vmName'' = False" "equal_fold ''createdAt'' ''vmName'' = False"
  "equal_fold ''vmId'' ''guestOs'' = False" "equal_fold ''vmName'' ''guestOs'' = False" "equal_fold ''firmware'' ''guestOs'' = False"
  "equal_fold ''disks'' ''guestOs'' = False" "equal_fold ''createdAt'' ''guestOs'' = False"
  "equal_fold ''vmId'' ''firmware'' = False" "equal_fold ''vmName'' ''firmware'' = False" "equal_fold ''guestOs'' ''firmware'' = False"
  "equal_fold ''disks'' ''firmware'' = False" "equal_fold ''createdAt'' ''firmware'' = False"
  "equal_fold ''vmId'' ''disks'' = False" "equal_fold ''vmName'' ''disks'' = False" "equal_fold ''guestOs'' ''disks'' = False"
  "equal_fold ''firmware'' ''disks'' = False" "equal_fold ''createdAt'' ''disks'' = False"
  "equal_fold ''vmId'' ''createdAt'' = False" "equal_fold ''vmName'' ''createdAt'' = False" "equal_fold ''guestOs'' ''createdAt'' = False"
  "equal_fold ''firmware'' ''createdAt'' = False" "equal_fold ''disks'' ''createdAt'' = False"
  "equal_fold ''key'' ''sizeBytes'' = False" "equal_fold ''key'' ''format'' = False" "equal_fold ''sizeBytes'' ''key'' = False"
  "equal_fold ''sizeBytes'' ''format'' = False" "equal_fold ''format'' ''key'' = False" "equal_fold ''format'' ''sizeBytes'' = False"
  by code_simp+

lemma read_artifact_json [simp]: "read_artifact (artifact_json a) = Some a"
  by (simp add: read_artifact_def artifact_json_def jfield_def fold_names to_str_def to_int_def)

lemma read_artifacts_json [simp]: "read_artifacts (JArr (map artifact_json ds)) = Some ds"
proof -
  have "those (map read_artifact (map artifact_json ds)) = Some ds" by (induction ds) simp_all
  then show ?thesis by (simp add: read_artifacts_def)
qed

lemma read_manifest_json: "read_manifest (manifest_json m) = Some m"
  by (cases "mf_GuestOS m = []"; cases "mf_Firmware m = []")
    (simp_all add: read_manifest_def manifest_json_def omit_empty_def jfield_def fold_names to_str_def to_int_def)

lemma storable_artifacts: "list_all storable (map artifact_json ds) = list_all (\<lambda>a. in_range (ar_SizeBytes a)) ds"
  by (induction ds) (simp_all add: artifact_json_def in_range_def)

lemma storable_manifest:
  "list_all (\<lambda>a. in_range (ar_SizeBytes a)) (mf_Disks m) \<Longrightarrow> in_range (mf_CreatedAt m) \<Longrightarrow> storable (manifest_json m)"
  using storable_artifacts [of "mf_Disks m"] by (simp add: manifest_json_def omit_empty_def in_range_def)

text \<open>A manifest and the list of artifacts are read back as they were written.\<close>

lemma manifest_roundtrip:
  assumes "list_all (\<lambda>a. in_range (ar_SizeBytes a)) (mf_Disks m)" "in_range (mf_CreatedAt m)"
  shows "Option.bind (json_dec (json_enc (manifest_json m))) read_manifest = Some m"
  using json_roundtrip [OF storable_manifest [OF assms]] by (simp add: read_manifest_json)

lemma disks_roundtrip:
  assumes "list_all (\<lambda>a. in_range (ar_SizeBytes a)) ds"
  shows "Option.bind (json_dec (disks_text ds)) read_artifacts = Some ds"
  using json_roundtrip [of "JArr (map artifact_json ds)"] assms storable_artifacts [of ds] by (simp add: disks_text_def)

subsection \<open>Rows\<close>

lemma find_map_same: "(\<And>x. P (f x) = P x) \<Longrightarrow> find P (map f xs) = map_option f (find P xs)"
  by (induction xs) simp_all

lemma Get_update:
  "GetVMBackup (UpdateVMBackupResult w i s n d j e) k = map_option (\<lambda>r. if vb_ID r = i
     then r\<lparr>vb_Status := s, vb_SizeBytes := n, vb_DiskCount := d, DisksJSON := j, vb_Error := e\<rparr> else r) (GetVMBackup w k)"
  unfolding GetVMBackup_def UpdateVMBackupResult_def by (simp add: find_map_same)

lemma update_others [simp]:
  "bk_reg (UpdateVMBackupResult w i s n d j e) = bk_reg w" "bk_stores (UpdateVMBackupResult w i s n d j e) = bk_stores w"
  by (simp_all add: UpdateVMBackupResult_def)

lemma store_at_others [simp]:
  "bk_reg (store_at w b x) = bk_reg w" "bk_rows (store_at w b x) = bk_rows w"
  "map_of (bk_stores (store_at w b x)) = (map_of (bk_stores w))(b \<mapsto> x)" "GetVMBackup (store_at w b x) i = GetVMBackup w i"
  by (simp_all add: store_at_def map_of_put GetVMBackup_def)

lemma provider_at_others [simp]:
  "map_of (bk_reg (provider_at w i p)) = (map_of (bk_reg w))(i \<mapsto> p)" "bk_rows (provider_at w i p) = bk_rows w"
  "bk_stores (provider_at w i p) = bk_stores w" "GetVMBackup (provider_at w i p) k = GetVMBackup w k"
  by (simp_all add: provider_at_def map_of_put GetVMBackup_def)

lemma find_append: "find P (xs @ ys) = (case find P xs of None \<Rightarrow> find P ys | Some x \<Rightarrow> Some x)"
  by (induction xs) simp_all

lemma RecordBackup_eq:
  assumes "RecordBackup w r wall = Some w'"
  obtains row where "GetVMBackup w' (br_ID r) = Some row" "vb_ID row = br_ID r" "bk_reg w' = bk_reg w" "bk_stores w' = bk_stores w"
    "vb_VMID row = br_VMID r" "vb_VMName row = br_VMName r" "vb_BackendID row = br_BackendID r" "vb_KeyPrefix row = KeyPrefix r"
    "vb_GuestOS row = br_GuestOS r" "vb_Firmware row = br_Firmware r"
proof -
  have none: "find (\<lambda>x. vb_ID x = br_ID r) (bk_rows w) = None"
    using assms by (auto simp: RecordBackup_def CreateVMBackup_def Let_def list_ex_iff find_None_iff split: if_splits)
  define row where "row = \<lparr>vb_ID = br_ID r, vb_VMID = br_VMID r, vb_VMName = br_VMName r, vb_ProviderID = br_ProviderID r,
      vb_BackendID = br_BackendID r, vb_PolicyID = br_PolicyID r, vb_KeyPrefix = KeyPrefix r,
      vb_SizeBytes = br_SizeBytes r, vb_DiskCount = br_DiskCount r,
      DisksJSON = (if br_Disks r = [] then ''null'' else disks_text (br_Disks r)), vb_GuestOS = br_GuestOS r,
      vb_Firmware = br_Firmware r, vb_Status = (if br_Status r = [] then ''pending'' else br_Status r), vb_Error = [],
      vb_CreatedAt = (if br_CreatedAt r = 0 then seconds_of wall else br_CreatedAt r)\<rparr>"
  have w': "w' = w\<lparr>bk_rows := bk_rows w @ [row]\<rparr>"
    using assms none unfolding RecordBackup_def CreateVMBackup_def Let_def
    by (simp add: row_def list_ex_iff find_None_iff cong: if_cong)
  have "GetVMBackup w' (br_ID r) = Some row" using none by (simp add: w' GetVMBackup_def find_append row_def)
  then show thesis by (rule that) (simp_all add: w' row_def)
qed

definition artifact_keys :: "backup_rec \<Rightarrow> string list" where
  "artifact_keys r = map ar_Key (br_Disks r) @ [KeyPrefix r @ manifestKey]"

lemma filter_take_out:
  "distinct (map g xs) \<Longrightarrow> filter (\<lambda>x. g x \<notin> g ` set (take n xs)) xs = drop n xs"
proof (induction xs arbitrary: n)
  case (Cons x xs)
  show ?case
  proof (cases n)
    case 0
    then show ?thesis by simp
  next
    case (Suc m)
    have "filter (\<lambda>y. g y \<notin> g ` set (take n (x # xs))) xs = filter (\<lambda>y. g y \<notin> g ` set (take m xs)) xs"
      by (rule filter_cong) (use Cons.prems Suc in \<open>auto simp: image_iff\<close>)
    then show ?thesis using Cons.IH [of m] Cons.prems Suc by simp
  qed
qed simp

lemma finalize_prefix: "finalize_backup ob w x r ds n = (w', Some r', None) \<Longrightarrow> KeyPrefix r' = KeyPrefix r"
  unfolding finalize_backup_def Let_def backup_failed_def by (auto split: prod.splits sum.splits)

text \<open>The stages of a backup that reports no error.\<close>

lemma BackupNow_done:
  assumes "BackupNow hv ob conv wall req w = (w', Some r, None)"
  obtains src x r0 w2 src1 src2 x1 n img where
    "map_of (bk_reg w) (bq_ProviderID req) = Some src" "map_of (bk_stores w) (bq_BackendID req) = Some x"
    "r0 = new_record req (bk_newID w (bk_drawn w)) (bk_clock w (bk_reads w)) (backup_meta hv src (bq_VMID req))"
    "RecordBackup (w\<lparr>bk_reads := Suc (bk_reads w), bk_drawn := Suc (bk_drawn w)\<rparr>) r0 wall = Some w2"
    "ob_Put ob x (KeyPrefix r0 @ ''disk-0.qcow2'') (img, None) = (x1, Inr n)"
    "finalize_backup ob (store_at (provider_at w2 (bq_ProviderID req) src2) (bq_BackendID req) x1) x1 r0
       [\<lparr>ar_Key = KeyPrefix r0 @ ''disk-0.qcow2'', ar_SizeBytes = n, ar_Format = ''qcow2''\<rparr>] n = (w', Some r, None)"
    "KeyPrefix r = KeyPrefix r0"
proof -
  obtain src where src: "map_of (bk_reg w) (bq_ProviderID req) = Some src" "Has (hv_Capabilities hv src) CapExport"
    using assms by (auto simp: BackupNow_def Registry_Get_def split: option.splits if_splits)
  obtain x where x: "map_of (bk_stores w) (bq_BackendID req) = Some x"
    using assms src by (auto simp: BackupNow_def Registry_Get_def ObjectStore_def split: option.splits)
  define ts where "ts = bk_clock w (bk_reads w)"
  define r0 where "r0 = new_record req (bk_newID w (bk_drawn w)) ts (backup_meta hv src (bq_VMID req))"
  define w1 where "w1 = w\<lparr>bk_reads := Suc (bk_reads w), bk_drawn := Suc (bk_drawn w)\<rparr>"
  obtain src1 taken where snap: "take_snapshot hv src (bq_VMID req) ts wall = (src1, taken)" by (rule prod.exhaust)
  obtain x1 res where up: "exportAndUpload hv ob conv src1 x (bq_VMID req) (KeyPrefix r0) = (x1, res)" by (rule prod.exhaust)
  define src2 where "src2 = (if taken then drop_snapshots hv src1 (bq_VMID req) ts wall else src1)"
  have run: "BackupNow hv ob conv wall req w = (case RecordBackup w1 r0 wall of
        None \<Rightarrow> (w1, None, Some ''backup: record: UNIQUE constraint failed: vm_backups.id'')
      | Some w2 \<Rightarrow> (case res of
           Inl e \<Rightarrow> backup_failed (store_at (provider_at w2 (bq_ProviderID req) src2) (bq_BackendID req) x1) r0 e e
         | Inr (disks, n) \<Rightarrow> finalize_backup ob (store_at (provider_at w2 (bq_ProviderID req) src2) (bq_BackendID req) x1)
             x1 r0 disks n))"
    using snap up by (cases "RecordBackup w1 r0 wall"; cases taken; cases res)
      (simp_all add: BackupNow_def Registry_Get_def ObjectStore_def src x Let_def w1_def [symmetric]
        r0_def [symmetric] ts_def [symmetric] src2_def)
  obtain w2 where w2: "RecordBackup w1 r0 wall = Some w2"
    using assms unfolding run by (cases "RecordBackup w1 r0 wall") simp_all
  obtain ds n where res: "res = Inr (ds, n)"
    using assms unfolding run w2 backup_failed_def by (cases res) auto
  have fin: "finalize_backup ob (store_at (provider_at w2 (bq_ProviderID req) src2) (bq_BackendID req) x1) x1 r0 ds n
      = (w', Some r, None)" using assms unfolding run w2 res by simp
  obtain img where conv: "ob_Put ob x (KeyPrefix r0 @ ''disk-0.qcow2'') (img, None) = (x1, Inr n)"
    "ds = [\<lparr>ar_Key = KeyPrefix r0 @ ''disk-0.qcow2'', ar_SizeBytes = n, ar_Format = ''qcow2''\<rparr>]"
    using up res by (auto simp: exportAndUpload_def Let_def split: sum.splits prod.splits option.splits)
  show thesis
    by (rule that [OF src(1) x r0_def [unfolded ts_def] w2 [unfolded w1_def] conv(1) fin [unfolded conv(2)] finalize_prefix [OF fin]])
qed

lemma BackupNow_prefix:
  assumes "BackupNow hv ob conv wall req w = (w', Some r, None)"
  shows "KeyPrefix r = key_prefix (bq_VMID req) (bk_clock w (bk_reads w))"
  by (rule BackupNow_done [OF assms]) (simp add: new_record_def split_def)

subsection \<open>Any object store\<close>

locale backup_store =
  store: object_store "ob_Put ob" "ob_Get ob" "ob_List ob" "ob_Delete ob" content good sound
  for ob :: "'o objops" and content :: "'o \<Rightarrow> string \<Rightarrow> string option" and good :: "string \<Rightarrow> bool"
    and sound :: "'o \<Rightarrow> bool"
begin

definition stores_sound :: "('p, 'o) bk \<Rightarrow> bool" where
  "stores_sound w \<longleftrightarrow> (\<forall>b x. map_of (bk_stores w) b = Some x \<longrightarrow> sound x)"

text \<open>What a completed backup leaves behind.\<close>

definition kept :: "('p, 'o) bk \<Rightarrow> backup_rec \<Rightarrow> bool" where
  "kept w r \<longleftrightarrow> (\<exists>row x n c man.
     GetVMBackup w (br_ID r) = Some row \<and> vb_Status row = ''completed'' \<and> vb_VMID row = br_VMID r
     \<and> vb_VMName row = br_VMName r \<and> vb_BackendID row = br_BackendID r \<and> vb_KeyPrefix row = KeyPrefix r
     \<and> DisksJSON row = disks_text [\<lparr>ar_Key = KeyPrefix r @ ''disk-0.qcow2'', ar_SizeBytes = n, ar_Format = ''qcow2''\<rparr>]
     \<and> map_of (bk_stores w) (br_BackendID r) = Some x \<and> sound x
     \<and> content x (KeyPrefix r @ ''disk-0.qcow2'') = Some c \<and> n = int (length c) \<and> br_SizeBytes r = n
     \<and> content x (KeyPrefix r @ manifestKey) = Some (json_enc (manifest_json man))
     \<and> man = \<lparr>mf_VMID = br_VMID r, mf_VMName = br_VMName r, mf_GuestOS = br_GuestOS r, mf_Firmware = br_Firmware r,
              mf_Disks = [\<lparr>ar_Key = KeyPrefix r @ ''disk-0.qcow2'', ar_SizeBytes = n, ar_Format = ''qcow2''\<rparr>],
              mf_CreatedAt = br_CreatedAt r\<rparr>)"

lemma finalize_reg: "finalize_backup ob w x r ds n = (w', r', None) \<Longrightarrow> bk_reg w' = bk_reg w"
  unfolding finalize_backup_def Let_def backup_failed_def by (auto split: prod.splits sum.splits)

lemma finalize_kept:
  assumes "finalize_backup ob w x r ds n = (w', Some r', None)"
    and "GetVMBackup w (br_ID r) = Some row" "vb_ID row = br_ID r" "vb_VMID row = br_VMID r" "vb_VMName row = br_VMName r"
      "vb_BackendID row = br_BackendID r" "vb_KeyPrefix row = KeyPrefix r"
    and "sound x" "good (KeyPrefix r @ ''disk-0.qcow2'')" "good (KeyPrefix r @ manifestKey)"
    and "content x (KeyPrefix r @ ''disk-0.qcow2'') = Some c" "n = int (length c)"
    and "ds = [\<lparr>ar_Key = KeyPrefix r @ ''disk-0.qcow2'', ar_SizeBytes = n, ar_Format = ''qcow2''\<rparr>]"
  shows "kept w' r' \<and> r' = r\<lparr>br_Disks := ds, br_DiskCount := int (length ds), br_SizeBytes := n, br_Status := ''completed''\<rparr>"
proof -
  define man where "man = \<lparr>mf_VMID = br_VMID r, mf_VMName = br_VMName r, mf_GuestOS = br_GuestOS r, mf_Firmware = br_Firmware r,
     mf_Disks = ds, mf_CreatedAt = br_CreatedAt r\<rparr>"
  obtain x1 res where p: "ob_Put ob x (KeyPrefix r @ manifestKey) (json_enc (manifest_json man), None) = (x1, res)"
    by (rule prod.exhaust)
  obtain m where res: "res = Inr m"
    using assms(1) p unfolding finalize_backup_def Let_def man_def backup_failed_def by (cases res) simp_all
  have w': "w' = UpdateVMBackupResult (store_at w (br_BackendID r) x1) (br_ID r) ''completed'' n (int (length ds)) (disks_text ds) []"
    and r': "r' = r\<lparr>br_Disks := ds, br_DiskCount := int (length ds), br_SizeBytes := n, br_Status := ''completed''\<rparr>"
    using assms(1) p res unfolding finalize_backup_def Let_def man_def by simp_all
  note pc = store.put_content [OF assms(8,10) p [unfolded res]]
  have ne: "KeyPrefix r @ ''disk-0.qcow2'' \<noteq> KeyPrefix r @ manifestKey" by (simp add: manifestKey_def)
  have c1: "content x1 (KeyPrefix r @ ''disk-0.qcow2'') = Some c"
    using store.put_others [OF assms(8,10) p assms(9) ne] assms(11) by simp
  have "kept w' r'"
    unfolding kept_def
    by (intro exI [of _ "row\<lparr>vb_Status := ''completed'', vb_SizeBytes := n, vb_DiskCount := int (length ds), DisksJSON := disks_text ds, vb_Error := []\<rparr>"]
        exI [of _ x1] exI [of _ n] exI [of _ c] exI [of _ man])
      (use assms(2-7,12,13) pc c1 store.put_sound [OF assms(8,10) p] in \<open>simp add: w' r' Get_update man_def\<close>)
  with r' show ?thesis by blast
qed

text \<open>What the deletion of the backups \<open>rs\<close> does to the store of the backend \<open>b\<close>.\<close>

definition cleaned :: "string \<Rightarrow> backup_rec list \<Rightarrow> 'o \<Rightarrow> 'o \<Rightarrow> bool" where
  "cleaned b rs x x' \<longleftrightarrow> sound x'
     \<and> (\<forall>k. good k \<longrightarrow> content x k = None \<longrightarrow> content x' k = None)
     \<and> (\<forall>r \<in> set rs. br_BackendID r = b \<longrightarrow> (\<forall>k \<in> set (artifact_keys r). content x' k = None))
     \<and> (\<forall>k. good k \<longrightarrow> (\<forall>r \<in> set rs. br_BackendID r = b \<longrightarrow> \<not> has_prefix k (KeyPrefix r)) \<longrightarrow> content x' k = content x k)"

definition own_keys :: "backup_rec \<Rightarrow> bool" where
  "own_keys r \<longleftrightarrow> (\<forall>k \<in> set (artifact_keys r). good k \<and> has_prefix k (KeyPrefix r))"

lemma cleaned_none: "sound x \<Longrightarrow> (\<forall>r \<in> set rs. br_BackendID r \<noteq> b) \<Longrightarrow> cleaned b rs x x"
  by (auto simp: cleaned_def)

lemma cleaned_trans:
  assumes "cleaned b [r] x y" "cleaned b rs y z" "own_keys r"
  shows "cleaned b (r # rs) x z"
  using assms unfolding cleaned_def own_keys_def by simp

lemma delete_artifacts_cleaned:
  assumes "sound x" "own_keys r"
  shows "cleaned (br_BackendID r) [r] x (delete_artifacts ob r x)"
proof -
  have all: "delete_all ob ks x = store.del_objs x ks" for ks by (simp add: delete_all_def store.del_objs_def)
  show ?thesis
  proof (cases "ob_List ob x (KeyPrefix r)")
    case (Inl e)
    let ?ks = "map ar_Key (br_Disks r) @ [KeyPrefix r @ manifestKey]"
    have "list_all good ?ks" "\<forall>k \<in> set ?ks. has_prefix k (KeyPrefix r)" "set (artifact_keys r) = set ?ks"
      using assms(2) by (auto simp: own_keys_def artifact_keys_def list_all_iff)
    moreover have "delete_artifacts ob r x = store.del_objs x ?ks" by (simp add: delete_artifacts_def Inl all)
    ultimately show ?thesis using store.del_objs [OF assms(1), of ?ks] by (auto simp: cleaned_def list_all_iff)
  next
    case (Inr ks)
    have g: "list_all good (map fst ks)" "\<forall>k \<in> set (map fst ks). has_prefix k (KeyPrefix r)"
      using store.list_good [OF assms(1) Inr] by (auto simp: list_all_iff)
    have d: "delete_artifacts ob r x = store.del_objs x (map fst ks)" by (simp add: delete_artifacts_def Inr all)
    have gone: "content (store.del_objs x (map fst ks)) k = None" if "k \<in> set (artifact_keys r)" for k
    proof (cases "content x k")
      case None
      then show ?thesis using store.del_objs [OF assms(1) g(1)] assms(2) that by (simp add: own_keys_def)
    next
      case (Some c)
      have k: "good k" "has_prefix k (KeyPrefix r)" using assms(2) that by (simp_all add: own_keys_def)
      have "k \<in> set (map fst ks)" by (rule store.list_all_objects [OF assms(1) Inr k]) (simp add: Some)
      then show ?thesis using store.del_objs [OF assms(1) g(1)] k(1) by simp
    qed
    show ?thesis
      using store.del_objs [OF assms(1) g(1)] g(2) gone unfolding d cleaned_def by auto
  qed
qed

lemma prune_one:
  assumes "stores_sound w" "own_keys r" "br_ID r \<in> vb_ID ` set (bk_rows w)"
  obtains w' where "deleteBackupArtifactsAndRow ob r w = (w', None)"
    "bk_rows w' = filter (\<lambda>y. vb_ID y \<noteq> br_ID r) (bk_rows w)"
    "\<forall>b x. map_of (bk_stores w) b = Some x \<longrightarrow> (\<exists>x'. map_of (bk_stores w') b = Some x' \<and> cleaned b [r] x x')"
    "\<forall>b. map_of (bk_stores w) b = None \<longrightarrow> map_of (bk_stores w') b = None"
proof (cases "map_of (bk_stores w) (br_BackendID r)")
  case None
  show thesis
    by (rule that [of "w\<lparr>bk_rows := filter (\<lambda>y. vb_ID y \<noteq> br_ID r) (bk_rows w)\<rparr>"])
      (use None assms in \<open>auto simp: deleteBackupArtifactsAndRow_def ObjectStore_def DeleteVMBackup_row_def list_ex_iff
         stores_sound_def intro!: cleaned_none\<close>)
next
  case (Some x)
  have sx: "sound x" using assms(1) Some by (simp add: stores_sound_def)
  let ?w = "(store_at w (br_BackendID r) (delete_artifacts ob r x))\<lparr>bk_rows := filter (\<lambda>y. vb_ID y \<noteq> br_ID r) (bk_rows w)\<rparr>"
  have st: "map_of (bk_stores ?w) = (map_of (bk_stores w))(br_BackendID r \<mapsto> delete_artifacts ob r x)" by simp
  show thesis
  proof (rule that [of ?w])
    show "deleteBackupArtifactsAndRow ob r w = (?w, None)"
      using assms(3) Some
      by (simp add: deleteBackupArtifactsAndRow_def ObjectStore_def DeleteVMBackup_row_def list_ex_iff image_iff Let_def)
        (metis (mono_tags))
    show "\<forall>b y. map_of (bk_stores w) b = Some y \<longrightarrow> (\<exists>x'. map_of (bk_stores ?w) b = Some x' \<and> cleaned b [r] y x')"
      unfolding st using Some delete_artifacts_cleaned [OF sx assms(2)] cleaned_none [of _ "[r]"] assms(1)
      by (auto simp: stores_sound_def)
    show "\<forall>b. map_of (bk_stores w) b = None \<longrightarrow> map_of (bk_stores ?w) b = None" unfolding st using Some by auto
  qed simp
qed

lemma prune_all:
  assumes "stores_sound w" "\<forall>r \<in> set rs. own_keys r" "distinct (map br_ID rs)" "br_ID ` set rs \<subseteq> vb_ID ` set (bk_rows w)"
  shows "\<exists>w'. fold (prune_step ob) rs (w, None) = (w', None)
    \<and> bk_rows w' = filter (\<lambda>y. vb_ID y \<notin> br_ID ` set rs) (bk_rows w)
    \<and> (\<forall>b x. map_of (bk_stores w) b = Some x \<longrightarrow> (\<exists>x'. map_of (bk_stores w') b = Some x' \<and> cleaned b rs x x'))"
  using assms
proof (induction rs arbitrary: w)
  case Nil
  then show ?case using cleaned_none [of _ "[]"] by (auto simp: stores_sound_def)
next
  case (Cons r rs)
  obtain w1 where w1: "deleteBackupArtifactsAndRow ob r w = (w1, None)"
    "bk_rows w1 = filter (\<lambda>y. vb_ID y \<noteq> br_ID r) (bk_rows w)"
    and st: "\<forall>b x. map_of (bk_stores w) b = Some x \<longrightarrow> (\<exists>x'. map_of (bk_stores w1) b = Some x' \<and> cleaned b [r] x x')"
      "\<forall>b. map_of (bk_stores w) b = None \<longrightarrow> map_of (bk_stores w1) b = None"
    using prune_one [OF Cons.prems(1), of r] Cons.prems(2,4) by auto
  have "stores_sound w1"
    unfolding stores_sound_def
  proof (intro allI impI)
    fix b y assume y: "map_of (bk_stores w1) b = Some y"
    then obtain x where "map_of (bk_stores w) b = Some x" using st(2) by (cases "map_of (bk_stores w) b") auto
    then obtain x' where "map_of (bk_stores w1) b = Some x'" "cleaned b [r] x x'" using st(1) by blast
    then show "sound y" using y by (simp add: cleaned_def)
  qed
  moreover have "br_ID ` set rs \<subseteq> vb_ID ` set (bk_rows w1)"
  proof
    fix i assume i: "i \<in> br_ID ` set rs"
    have "br_ID r \<notin> br_ID ` set rs" using Cons.prems(3) by simp
    with i have "i \<noteq> br_ID r" by blast
    moreover from i Cons.prems(4) obtain y where "y \<in> set (bk_rows w)" "i = vb_ID y" by auto
    ultimately show "i \<in> vb_ID ` set (bk_rows w1)" by (simp add: w1(2))
  qed
  ultimately obtain w' where w': "fold (prune_step ob) rs (w1, None) = (w', None)"
    "bk_rows w' = filter (\<lambda>y. vb_ID y \<notin> br_ID ` set rs) (bk_rows w1)"
    "\<forall>b x. map_of (bk_stores w1) b = Some x \<longrightarrow> (\<exists>x'. map_of (bk_stores w') b = Some x' \<and> cleaned b rs x x')"
    using Cons.IH [of w1] Cons.prems(2,3) by auto
  have "fold (prune_step ob) (r # rs) (w, None) = (w', None)" using w1(1) w'(1) by (simp add: prune_step_def)
  moreover have "bk_rows w' = filter (\<lambda>y. vb_ID y \<notin> br_ID ` set (r # rs)) (bk_rows w)"
    unfolding w'(2) w1(2) filter_filter by (rule filter_cong) auto
  moreover have "\<exists>x'. map_of (bk_stores w') b = Some x' \<and> cleaned b (r # rs) x x'" if x: "map_of (bk_stores w) b = Some x" for b x
  proof -
    obtain y where "map_of (bk_stores w1) b = Some y" "cleaned b [r] x y" using st(1) x by blast
    moreover then obtain z where "map_of (bk_stores w') b = Some z" "cleaned b rs y z" using w'(3) by blast
    ultimately show ?thesis using cleaned_trans [of b r x y rs z] Cons.prems(2) by auto
  qed
  ultimately show ?case by blast
qed

lemma policy_rows_ids:
  assumes "distinct (map vb_ID (bk_rows w))"
  shows "distinct (map br_ID (ListPolicyBackups w pid))" "br_ID ` set (ListPolicyBackups w pid) \<subseteq> vb_ID ` set (bk_rows w)"
proof -
  have ids: "map br_ID (ListPolicyBackups w pid) = map vb_ID (ListVMBackupsForPolicy w pid)"
    by (simp add: ListPolicyBackups_def storeBackupToRecord_def)
  have "inj_on vb_ID (set (ListVMBackupsForPolicy w pid))"
    using assms by (auto simp: distinct_map ListVMBackupsForPolicy_def inj_on_def)
  moreover have "distinct (ListVMBackupsForPolicy w pid)"
    using assms by (simp add: distinct_map ListVMBackupsForPolicy_def)
  ultimately show "distinct (map br_ID (ListPolicyBackups w pid))" unfolding ids by (simp add: distinct_map)
  have "br_ID ` set (ListPolicyBackups w pid) = vb_ID ` set (ListVMBackupsForPolicy w pid)"
    using arg_cong [OF ids, of set] by simp
  then show "br_ID ` set (ListPolicyBackups w pid) \<subseteq> vb_ID ` set (bk_rows w)"
    by (auto simp: ListVMBackupsForPolicy_def)
qed

lemma retained:
  assumes "distinct (map vb_ID (bk_rows w))" "stores_sound w" "0 < keep"
    and "\<forall>r \<in> set (ListPolicyBackups w pid). own_keys r"
    and "old = take (length (ListPolicyBackups w pid) - nat keep) (ListPolicyBackups w pid)"
  shows "\<exists>w'. pruneRetention ob pid keep w = (w', None)
    \<and> ListPolicyBackups w' pid = drop (length (ListPolicyBackups w pid) - nat keep) (ListPolicyBackups w pid)
    \<and> bk_rows w' = filter (\<lambda>y. vb_ID y \<notin> br_ID ` set old) (bk_rows w)
    \<and> (\<forall>b x. map_of (bk_stores w) b = Some x \<longrightarrow> (\<exists>x'. map_of (bk_stores w') b = Some x' \<and> cleaned b old x x'))"
proof -
  let ?rs = "ListPolicyBackups w pid"
  let ?n = "length ?rs - nat keep"
  note ids = policy_rows_ids [OF assms(1), of pid]
  have run: "pruneRetention ob pid keep w = fold (prune_step ob) old (w, None)"
    using assms(3,5) by (auto simp: pruneRetention_def Let_def)
  have sub: "set old \<subseteq> set ?rs" unfolding assms(5) by (rule set_take_subset)
  have d: "distinct (map br_ID old)" unfolding assms(5) take_map [symmetric] using ids(1) by (rule distinct_take)
  obtain w' where w': "fold (prune_step ob) old (w, None) = (w', None)"
    "bk_rows w' = filter (\<lambda>y. vb_ID y \<notin> br_ID ` set old) (bk_rows w)"
    "\<forall>b x. map_of (bk_stores w) b = Some x \<longrightarrow> (\<exists>x'. map_of (bk_stores w') b = Some x' \<and> cleaned b old x x')"
    using prune_all [OF assms(2) _ d] assms(4) sub ids(2) by blast
  have "ListVMBackupsForPolicy w' pid = filter (\<lambda>y. vb_ID y \<notin> br_ID ` set old) (ListVMBackupsForPolicy w pid)"
    unfolding ListVMBackupsForPolicy_def w'(2) filter_sort filter_filter by (simp add: conj_commute)
  then have "ListPolicyBackups w' pid = filter (\<lambda>y. br_ID y \<notin> br_ID ` set old) ?rs"
    by (simp add: ListPolicyBackups_def filter_map o_def storeBackupToRecord_def)
  also have "\<dots> = drop ?n ?rs" unfolding assms(5) by (rule filter_take_out [OF ids(1)])
  finally show ?thesis using w' by (simp add: run)
qed

end

subsection \<open>Any provider and any store\<close>

locale backup_env = hypervisor hv vm_at ready + backup_store ob content good sound
  for hv :: "'p hv" and vm_at :: "'p \<Rightarrow> string \<Rightarrow> vm option" and ready :: "nat \<Rightarrow> 'p \<Rightarrow> bool"
    and ob :: "'o objops" and content :: "'o \<Rightarrow> string \<Rightarrow> string option" and good :: "string \<Rightarrow> bool"
    and sound :: "'o \<Rightarrow> bool"
begin

lemma backup_kept:
  assumes "BackupNow hv ob conv wall req w = (w', Some r, None)" "stores_sound w"
    and "good (KeyPrefix r @ ''disk-0.qcow2'')" "good (KeyPrefix r @ manifestKey)"
  shows "kept w' r \<and> (\<exists>src i ds n. map_of (bk_reg w) (bq_ProviderID req) = Some src
    \<and> r = (new_record req i (bk_clock w (bk_reads w)) (backup_meta hv src (bq_VMID req)))
        \<lparr>br_Disks := ds, br_DiskCount := int (length ds), br_SizeBytes := n, br_Status := ''completed''\<rparr>)
    \<and> (\<exists>src'. map_of (bk_reg w') = (map_of (bk_reg w))(bq_ProviderID req \<mapsto> src'))"
proof -
  obtain src x r0 w2 src2 x1 n img where src: "map_of (bk_reg w) (bq_ProviderID req) = Some src"
    and x: "map_of (bk_stores w) (bq_BackendID req) = Some x"
    and r0: "r0 = new_record req (bk_newID w (bk_drawn w)) (bk_clock w (bk_reads w)) (backup_meta hv src (bq_VMID req))"
    and w2: "RecordBackup (w\<lparr>bk_reads := Suc (bk_reads w), bk_drawn := Suc (bk_drawn w)\<rparr>) r0 wall = Some w2"
    and up: "ob_Put ob x (KeyPrefix r0 @ ''disk-0.qcow2'') (img, None) = (x1, Inr n)"
    and fin: "finalize_backup ob (store_at (provider_at w2 (bq_ProviderID req) src2) (bq_BackendID req) x1) x1 r0
       [\<lparr>ar_Key = KeyPrefix r0 @ ''disk-0.qcow2'', ar_SizeBytes = n, ar_Format = ''qcow2''\<rparr>] n = (w', Some r, None)"
    and pre: "KeyPrefix r = KeyPrefix r0"
    by (rule BackupNow_done [OF assms(1)])
  let ?w3 = "store_at (provider_at w2 (bq_ProviderID req) src2) (bq_BackendID req) x1"
  let ?ds = "[\<lparr>ar_Key = KeyPrefix r0 @ ''disk-0.qcow2'', ar_SizeBytes = n, ar_Format = ''qcow2''\<rparr>]"
  have sx: "sound x" using assms(2) x by (simp add: stores_sound_def)
  note gd = assms(3) [unfolded pre] and gm = assms(4) [unfolded pre]
  note pc = store.put_content [OF sx gd up]
  obtain row where row: "GetVMBackup w2 (br_ID r0) = Some row" "vb_ID row = br_ID r0" "vb_VMID row = br_VMID r0"
    "vb_VMName row = br_VMName r0" "vb_BackendID row = br_BackendID r0" "vb_KeyPrefix row = KeyPrefix r0"
    using RecordBackup_eq [OF w2] by metis
  have row3: "GetVMBackup ?w3 (br_ID r0) = Some row" using row(1) by simp
  have "kept w' r \<and> r = r0\<lparr>br_Disks := ?ds, br_DiskCount := int (length ?ds), br_SizeBytes := n, br_Status := ''completed''\<rparr>"
    by (rule finalize_kept [OF fin row3 row(2-6) store.put_sound [OF sx gd up] gd gm, of img]) (use pc in simp_all)
  moreover have "bk_reg w2 = bk_reg w" using RecordBackup_eq [OF w2] by simp metis
  then have "map_of (bk_reg w') = (map_of (bk_reg w))(bq_ProviderID req \<mapsto> src2)" using finalize_reg [OF fin] by simp
  ultimately show ?thesis using src unfolding r0 by blast
qed

text \<open>What a restore makes of it, whatever the target answers to the creation.\<close>

lemma kept_manifest:
  assumes "kept w r" "in_range (br_SizeBytes r)" "in_range (br_CreatedAt r)"
    and "good (KeyPrefix r @ ''disk-0.qcow2'')" "good (KeyPrefix r @ manifestKey)"
  obtains row x c man where "GetBackupRecord w (br_ID r) = Some row" "br_Status row = ''completed''" "br_VMID row = br_VMID r"
    "br_BackendID row = br_BackendID r" "map_of (bk_stores w) (br_BackendID r) = Some x"
    "restore_manifest ob x row = man"
    "man = \<lparr>mf_VMID = br_VMID r, mf_VMName = br_VMName r, mf_GuestOS = br_GuestOS r, mf_Firmware = br_Firmware r,
       mf_Disks = [\<lparr>ar_Key = KeyPrefix r @ ''disk-0.qcow2'', ar_SizeBytes = br_SizeBytes r, ar_Format = ''qcow2''\<rparr>],
       mf_CreatedAt = br_CreatedAt r\<rparr>"
    "ob_Get ob x (KeyPrefix r @ ''disk-0.qcow2'') = Inr (c, None)"
proof -
  define ds where "ds = [\<lparr>ar_Key = KeyPrefix r @ ''disk-0.qcow2'', ar_SizeBytes = br_SizeBytes r, ar_Format = ''qcow2''\<rparr>]"
  define man where "man = \<lparr>mf_VMID = br_VMID r, mf_VMName = br_VMName r, mf_GuestOS = br_GuestOS r, mf_Firmware = br_Firmware r,
       mf_Disks = ds, mf_CreatedAt = br_CreatedAt r\<rparr>"
  obtain row x c where k: "GetVMBackup w (br_ID r) = Some row" "vb_Status row = ''completed''" "vb_VMID row = br_VMID r"
    "vb_BackendID row = br_BackendID r" "vb_KeyPrefix row = KeyPrefix r"
    "map_of (bk_stores w) (br_BackendID r) = Some x" "sound x" "content x (KeyPrefix r @ ''disk-0.qcow2'') = Some c"
    "content x (KeyPrefix r @ manifestKey) = Some (json_enc (manifest_json man))"
    using assms(1) unfolding kept_def man_def ds_def by (elim exE conjE) simp
  have rd: "Option.bind (json_dec (json_enc (manifest_json man))) read_manifest = Some man"
    by (rule manifest_roundtrip) (use assms(2,3) in \<open>simp_all add: man_def ds_def\<close>)
  have "restore_manifest ob x (storeBackupToRecord row) = man"
    using store.get_content [OF k(7) assms(5) k(9)] rd
    by (simp add: restore_manifest_def storeBackupToRecord_def k(5) Let_def) (simp add: man_def ds_def)
  then show thesis
    by (rule that [of "storeBackupToRecord row" x man c, rotated 5])
      (use k store.get_content [OF k(7) assms(4) k(8)] in
        \<open>simp_all add: GetBackupRecord_def storeBackupToRecord_def man_def ds_def\<close>)
qed

lemma restore_kept:
  assumes "kept w r" "in_range (br_SizeBytes r)" "in_range (br_CreatedAt r)"
    and "good (KeyPrefix r @ ''disk-0.qcow2'')" "good (KeyPrefix r @ manifestKey)"
    and "BackupID req = br_ID r" "map_of (bk_reg w) (rq_TargetProviderID req) = Some tgt" "ready 2 tgt"
      "Has (hv_Capabilities hv tgt) CapCreateVM"
    and "\<forall>c. snd (conv (c, None) ''qcow2'' (nativeFormat (hv_Kind hv tgt))) = None"
  obtains c spec w' res where "spec = restore_spec req r
      \<lparr>mf_VMID = br_VMID r, mf_VMName = br_VMName r, mf_GuestOS = br_GuestOS r, mf_Firmware = br_Firmware r,
       mf_Disks = [\<lparr>ar_Key = KeyPrefix r @ ''disk-0.qcow2'', ar_SizeBytes = br_SizeBytes r, ar_Format = ''qcow2''\<rparr>],
       mf_CreatedAt = br_CreatedAt r\<rparr> (nativeFormat (hv_Kind hv tgt))
      (int (length (fst (conv (c, None) ''qcow2'' (nativeFormat (hv_Kind hv tgt))))))"
    "Restore hv ob conv wall req w = Some (w', res)" "bk_rows w' = bk_rows w" "bk_stores w' = bk_stores w"
    "case res of
       Inl e \<Rightarrow> map_of (bk_reg w') = map_of (bk_reg w) \<and> (\<exists>er. hv_CreateVM hv tgt spec wall = (tgt, Inl er))
     | Inr i \<Rightarrow> \<exists>tgt'. map_of (bk_reg w') = (map_of (bk_reg w))(rq_TargetProviderID req \<mapsto> tgt') \<and> gained spec tgt tgt' i"
proof -
  let ?f = "nativeFormat (hv_Kind hv tgt)"
  define man where "man = \<lparr>mf_VMID = br_VMID r, mf_VMName = br_VMName r, mf_GuestOS = br_GuestOS r, mf_Firmware = br_Firmware r,
       mf_Disks = [\<lparr>ar_Key = KeyPrefix r @ ''disk-0.qcow2'', ar_SizeBytes = br_SizeBytes r, ar_Format = ''qcow2''\<rparr>],
       mf_CreatedAt = br_CreatedAt r\<rparr>"
  obtain row x c where k: "GetBackupRecord w (br_ID r) = Some row" "br_Status row = ''completed''" "br_VMID row = br_VMID r"
    "br_BackendID row = br_BackendID r" "map_of (bk_stores w) (br_BackendID r) = Some x"
    "restore_manifest ob x row = man" "ob_Get ob x (KeyPrefix r @ ''disk-0.qcow2'') = Inr (c, None)"
    using kept_manifest [OF assms(1-5)] unfolding man_def by metis
  define spec where "spec = restore_spec req r man ?f (int (length (fst (conv (c, None) ''qcow2'' ?f))))"
  have sp: "restore_spec req row man ?f n = restore_spec req r man ?f n" for n
    by (simp add: restore_spec_def k(3))
  have run: "Restore hv ob conv wall req w = restore_import hv wall req tgt spec w"
    unfolding Restore_def assms(6) k(1) using k(2,4-7) assms(7,9) assms(10) [rule_format, of c] sp
    by (simp add: Registry_Get_def ObjectStore_def Let_def) (simp add: man_def spec_def Let_def)
  obtain tgt1 res where c: "hv_CreateVM hv tgt spec wall = (tgt1, res)" by (rule prod.exhaust)
  show thesis
  proof (cases res)
    case (Inl e)
    have tgt1: "tgt1 = tgt" using create_error c Inl by blast
    show thesis
      by (rule that [OF spec_def [unfolded man_def], of "provider_at w (rq_TargetProviderID req) tgt"
            "Inl (''backup: create restored VM: '' @ Error_text e)"])
        (use assms(7) c run in \<open>simp_all add: tgt1 Inl fun_upd_idem restore_import_def\<close>)
  next
    case (Inr t0)
    obtain t v where t: "ready 1 tgt1" "t0 = Some t" "task_EntityID t \<noteq> []" "vm_at tgt (task_EntityID t) = None"
      "vm_at tgt1 = (vm_at tgt)(task_EntityID t \<mapsto> v)" "vm_ID v = task_EntityID t" "built_to spec v"
      using create_new [of 1 tgt, simplified, OF _ c [unfolded Inr]] assms(8) by (auto simp: numeral_2_eq_2)
    have g1: "gained spec tgt tgt1 (task_EntityID t)" using t(3-7) by (auto simp: gained_def)
    define tgt2 where "tgt2 = (if rq_PowerOnAfter req \<and> Has (hv_Capabilities hv tgt1) CapPowerStart
       then fst (hv_PowerOp hv tgt1 (task_EntityID t) ''start'' wall) else tgt1)"
    obtain q pres where pw: "hv_PowerOp hv tgt1 (task_EntityID t) ''start'' wall = (q, pres)" by (rule prod.exhaust)
    have "gained spec tgt q (task_EntityID t)"
      using power_frame [of 0, OF _ pw] t(1) g1 by (auto simp: gained_def)
    then have g2: "gained spec tgt tgt2 (task_EntityID t)" using g1 pw by (simp add: tgt2_def)
    show thesis
      by (rule that [OF spec_def [unfolded man_def], of "provider_at w (rq_TargetProviderID req) tgt2" "Inr (task_EntityID t)"])
        (use run g2 in \<open>auto simp: restore_import_def c Inr t(2) tgt2_def Let_def\<close>)
  qed
qed

end

subsection \<open>Simulated providers and local directories\<close>

definition local_ops :: "local_store objops" where
  "local_ops = \<lparr>ob_Put = Local_Put, ob_Get = Local_Get, ob_List = Local_List, ob_Delete = Local_Delete\<rparr>"

lemma local_ops_sel [simp]:
  "ob_Put local_ops = Local_Put" "ob_Get local_ops = Local_Get" "ob_List local_ops = Local_List"
  "ob_Delete local_ops = Local_Delete"
  by (simp_all add: local_ops_def)

interpretation directory: backup_store local_ops stored good_key local_sound
  by (rule backup_store.intro) (simp add: local.object_store_axioms)

interpretation appliance: backup_env sim_hv "\<lambda>p. map_of (vms p)" sim_ready local_ops stored good_key local_sound
  by (rule backup_env.intro) (rule simulated.hypervisor_axioms directory.backup_store_axioms)+

lemma itoa_no_slash: "CHR ''/'' \<notin> set (itoa n)" "itoa n \<noteq> []" "CHR ''.'' \<notin> set (itoa n)"
proof -
  have d: "c \<in> set (itoa n) \<Longrightarrow> is_digit c \<or> c = CHR ''-''" for c
    using nat_digits_digits [of c] by (auto simp: itoa_def split: if_splits)
  show "CHR ''/'' \<notin> set (itoa n)" "CHR ''.'' \<notin> set (itoa n)"
    using d [of "CHR ''/''"] d [of "CHR ''.''"] by (auto simp: is_digit_def less_eq_char_def)
  show "itoa n \<noteq> []" using itoa_starts [of n] by auto
qed

lemma good_backup_key:
  assumes "plain i" "plain f"
  shows "good_key (key_prefix i ts @ f)"
proof -
  have p: "plain ''vm''" "plain (itoa (seconds_of ts))"
    using itoa_no_slash [of "seconds_of ts"] by (auto simp: plain_def)
  have k: "key_prefix i ts @ f = ''vm'' @ CHR ''/'' # i @ CHR ''/'' # itoa (seconds_of ts) @ CHR ''/'' # f"
    by (simp add: key_prefix_def)
  have "split_on CHR ''/'' (key_prefix i ts @ f) = [''vm'', i, itoa (seconds_of ts), f]"
    unfolding k using p assms by (simp add: split_on_append_sep split_on_plain plain_def del: append.simps)
  then show ?thesis using p assms by (simp add: good_key_def probe_key_def key_prefix_def)
qed

lemma restored_name: "trim_space (x @ ''-restored'') \<noteq> []"
proof -
  have "dropWhile is_space (x @ ''-restored'') \<noteq> []" by (simp add: is_space_def)
  then show ?thesis unfolding trim_space_def trim_left_def trim_right_def
    by (metis Nil_is_rev_conv append_is_Nil_conv dropWhile_eq_Nil_conv hd_dropWhile hd_in_set set_rev)
qed

subsection \<open>The properties\<close>


definition shelf_row :: "string \<Rightarrow> string \<Rightarrow> int \<Rightarrow> backup_row" where
  "shelf_row i pre t = \<lparr>vb_ID = i, vb_VMID = ''x'', vb_VMName = ''X'', vb_ProviderID = ''a'', vb_BackendID = ''nas'',
     vb_PolicyID = ''p'', vb_KeyPrefix = pre, vb_SizeBytes = 4, vb_DiskCount = 1,
     DisksJSON = disks_text [\<lparr>ar_Key = pre @ ''disk-0.qcow2'', ar_SizeBytes = 4, ar_Format = ''qcow2''\<rparr>],
     vb_GuestOS = [], vb_Firmware = [], vb_Status = ''completed'', vb_Error = [], vb_CreatedAt = t\<rparr>"

definition shelf_dir :: local_store where
  "shelf_dir = fst (Local_Put (fst (Local_Put \<lparr>base = ''/backup'', tree = []\<rparr> ''vm/x/10/disk-0.qcow2'' (''OLD1'', None)))
     ''vm/x/20/disk-0.qcow2'' (''NEW2'', None))"

definition shelf :: "(sim, local_store) bk" where
  "shelf = \<lparr>bk_reg = lab, bk_stores = [(''nas'', shelf_dir)], bk_clock = int, bk_reads = 0, bk_newID = (\<lambda>n. ''bk-'' @ itoa (int n)),
     bk_drawn = 0, bk_rows = [shelf_row ''b2'' ''vm/x/20/'' 20, shelf_row ''b1'' ''vm/x/10/'' 10], bk_policies = [],
     bk_jobs = [], bk_running = False\<rparr>"

lemma empty_dir_sound: "local_sound \<lparr>base = ''/backup'', tree = []\<rparr>"
  unfolding local_sound_def is_file_def by simp code_simp

lemma shelf_dir_sound: "local_sound shelf_dir"
proof -
  have k: "good_key ''vm/x/10/disk-0.qcow2''" "good_key ''vm/x/20/disk-0.qcow2''" by code_simp+
  note s = local.put_sound [OF empty_dir_sound k(1) prod.collapse [symmetric]]
  show ?thesis unfolding shelf_dir_def by (rule local.put_sound [OF s k(2) prod.collapse [symmetric]])
qed

definition shelf_rec :: "string \<Rightarrow> string \<Rightarrow> int \<Rightarrow> backup_rec" where
  "shelf_rec i pre t = \<lparr>br_ID = i, br_VMID = ''x'', br_VMName = ''X'', br_ProviderID = ''a'', br_BackendID = ''nas'',
     br_PolicyID = ''p'', KeyPrefix = pre, br_SizeBytes = 4, br_DiskCount = 1,
     br_Disks = [\<lparr>ar_Key = pre @ ''disk-0.qcow2'', ar_SizeBytes = 4, ar_Format = ''qcow2''\<rparr>],
     br_GuestOS = [], br_Firmware = [], br_Status = ''completed'', br_Error = [], br_CreatedAt = t\<rparr>"

lemma shelf_rec: "storeBackupToRecord (shelf_row i pre t) = shelf_rec i pre t"
proof -
  have ne: "disks_text ds \<noteq> []" for ds by (simp add: disks_text_def)
  show ?thesis
    using disks_roundtrip [of "[\<lparr>ar_Key = pre @ ''disk-0.qcow2'', ar_SizeBytes = 4, ar_Format = ''qcow2''\<rparr>]"] ne
    by (simp add: storeBackupToRecord_def shelf_row_def shelf_rec_def in_range_def)
qed

lemma shelf_rows: "ListPolicyBackups shelf ''p'' = [shelf_rec ''b1'' ''vm/x/10/'' 10, shelf_rec ''b2'' ''vm/x/20/'' 20]"
proof -
  have "ListVMBackupsForPolicy shelf ''p'' = [shelf_row ''b1'' ''vm/x/10/'' 10, shelf_row ''b2'' ''vm/x/20/'' 20]"
    by (simp add: ListVMBackupsForPolicy_def shelf_def shelf_row_def)
  then show ?thesis by (simp add: ListPolicyBackups_def shelf_rec)
qed



definition vault :: "(sim, local_store) bk" where
  "vault = shelf\<lparr>bk_stores := [(''nas'', \<lparr>base = ''/backup'', tree = []\<rparr>)], bk_rows := []\<rparr>"

definition save_vm :: backup_request where
  "save_vm = \<lparr>bq_ProviderID = ''a'', bq_VMID = ''vm-3'', bq_BackendID = ''nas'', bq_PolicyID = []\<rparr>"

definition back_vm :: restore_request where
  "back_vm = \<lparr>BackupID = ''bk-0'', rq_TargetProviderID = ''b'', rq_TargetHostID = ''host-1'', rq_TargetName = [], rq_PowerOnAfter = True\<rparr>"

lemma vault_backup:
  "case BackupNow sim_hv local_ops PassthroughConverter 5 save_vm vault of
     (_, Some r, None) \<Rightarrow> in_range (br_SizeBytes r) \<and> in_range (br_CreatedAt r) \<and> br_ID r = ''bk-0'' | _ \<Rightarrow> False"
  by code_simp

lemma vault_source:
  "case map_of (vms (used_sim ''a'')) ''vm-3'' of None \<Rightarrow> False
   | Some v \<Rightarrow> vm_Name v = ''sim-vm-3'' \<and> vm_GuestOS v = ''linux'' \<and> vm_Firmware v = ''uefi''"
  by code_simp


end
