(* ===== verification/Store_Rbac.thy ===== *)
theory Store_Rbac
  imports Store_Steps
begin

text \<open>
  The administrative tables of the store: roles (\<open>store/roles.go\<close>), role bindings
  (\<open>store/bindings.go\<close>), the listings of users (\<open>store/users.go\<close>), API tokens
  (\<open>store/api_tokens.go\<close>) and the seeding of the built-in roles and settings
  (\<open>store/seed.go\<close>). The constraints of the schema are written out: primary keys, unique names,
  foreign keys with their cascades, and \<open>UNIQUE(user, role, scope type, scope id)\<close> of a binding,
  in which an absent scope id (\<open>NULL\<close>, here the empty string) never conflicts.
\<close>

subsection \<open>Roles\<close>

text \<open>A nil slice of permissions is stored as the empty list.\<close>

definition normPerms :: "string list option \<Rightarrow> string list" where
  "normPerms p = (case p of None \<Rightarrow> [] | Some ps \<Rightarrow> ps)"

definition CreateRole :: "db \<Rightarrow> int \<Rightarrow> role_row \<Rightarrow> store_error + db" where
  "CreateRole s now r = query ''CreateRole'' s
     (if \<exists>x \<in> set (role_tab s). role_id x = role_id r \<or> role_name x = role_name r then Inl SQLError
      else Inr (s\<lparr>role_tab := role_tab s @ [r\<lparr>role_created := now, role_updated := now\<rparr>]\<rparr>))"

definition GetRole :: "db \<Rightarrow> string \<Rightarrow> store_error + role_row" where
  "GetRole s i = query ''GetRole'' s (select_one (\<lambda>r. role_id r = i) (role_tab s))"

definition ListRoles :: "db \<Rightarrow> store_error + role_row list" where
  "ListRoles s = query ''ListRoles'' s (Inr (sort_key role_name (role_tab s)))"

definition upd_role :: "db \<Rightarrow> string \<Rightarrow> (role_row \<Rightarrow> role_row) \<Rightarrow> db" where
  "upd_role s i f = s\<lparr>role_tab := update_where (\<lambda>r. role_id r = i) f (role_tab s)\<rparr>"

definition UpdateRole ::
  "db \<Rightarrow> int \<Rightarrow> string \<Rightarrow> string option \<Rightarrow> string list option \<Rightarrow> store_error + db" where
  "UpdateRole s now i desc ps = query ''UpdateRole'' s
     (let s1 = (case desc of None \<Rightarrow> s
                | Some d \<Rightarrow> upd_role s i (\<lambda>r. r\<lparr>role_desc := d, role_updated := now\<rparr>));
          s2 = (case ps of None \<Rightarrow> s1
                | Some p \<Rightarrow> upd_role s1 i (\<lambda>r. r\<lparr>role_perms := normPerms (Some p), role_updated := now\<rparr>))
      in Inr s2)"

text \<open>
  \<open>DELETE FROM roles\<close> cascades to the bindings and the group mappings of the role; a provider
  whose default role it was has none any more.
\<close>

definition DeleteRole :: "db \<Rightarrow> string \<Rightarrow> store_error + db" where
  "DeleteRole s i = query ''DeleteRole'' s
     (if find (\<lambda>r. role_id r = i) (role_tab s) = None then Inl ErrNotFound
      else Inr (s\<lparr>role_tab := delete_where (\<lambda>r. role_id r = i) (role_tab s),
                  bindings := delete_where (\<lambda>b. bind_role b = i) (bindings s),
                  group_maps := delete_where (\<lambda>m. gm_role m = i) (group_maps s),
                  auth_providers := update_where (\<lambda>p. DefaultRoleID p = i)
                    (\<lambda>p. p\<lparr>DefaultRoleID := []\<rparr>) (auth_providers s)\<rparr>))"

subsection \<open>Bindings\<close>

definition binding_conflict :: "binding_row list \<Rightarrow> binding_row \<Rightarrow> bool" where
  "binding_conflict bs b \<longleftrightarrow> (\<exists>x \<in> set bs. bind_id x = bind_id b
     \<or> (bind_user x = bind_user b \<and> bind_role x = bind_role b
        \<and> bind_scope_type x = bind_scope_type b \<and> bind_scope_id b \<noteq> []
        \<and> bind_scope_id x = bind_scope_id b))"

text \<open>\<open>INSERT INTO role_bindings\<close>, with its foreign keys.\<close>

definition insert_binding :: "db \<Rightarrow> binding_row \<Rightarrow> store_error + db" where
  "insert_binding s b =
     (if binding_conflict (bindings s) b
         \<or> find (\<lambda>u. ID u = bind_user b) (users s) = None
         \<or> find (\<lambda>r. role_id r = bind_role b) (role_tab s) = None then Inl SQLError
      else Inr (s\<lparr>bindings := bindings s @ [b]\<rparr>))"

definition CreateBinding :: "db \<Rightarrow> int \<Rightarrow> binding_row \<Rightarrow> store_error + db" where
  "CreateBinding s now b = query ''CreateBinding'' s (insert_binding s (b\<lparr>bind_created := now\<rparr>))"

definition DeleteBinding :: "db \<Rightarrow> string \<Rightarrow> string \<Rightarrow> store_error + db" where
  "DeleteBinding s uid i = query ''DeleteBinding'' s
     (let P = (\<lambda>b. bind_id b = i \<and> bind_user b = uid)
      in if find P (bindings s) = None then Inl ErrNotFound
         else Inr (s\<lparr>bindings := delete_where P (bindings s)\<rparr>))"

definition ListBindingsForUser :: "db \<Rightarrow> string \<Rightarrow> store_error + binding_row list" where
  "ListBindingsForUser s uid = query ''ListBindingsForUser'' s
     (Inr (sort_key bind_created (filter (\<lambda>b. bind_user b = uid) (bindings s))))"

text \<open>Each binding with the name of its role, by user.\<close>

record binding_view =
  BindingID :: string
  BV_RoleID :: string
  BV_RoleName :: string
  BV_ScopeType :: string
  BV_ScopeID :: string

fun binding_views :: "role_row list \<Rightarrow> binding_row list \<Rightarrow> (string \<times> binding_view list) list
    \<Rightarrow> (string \<times> binding_view list) list" where
  "binding_views rt [] out = out"
| "binding_views rt (b # bs) out =
     (case find (\<lambda>r. role_id r = bind_role b) rt of
        None \<Rightarrow> binding_views rt bs out
      | Some r \<Rightarrow>
          (let v = \<lparr>BindingID = bind_id b, BV_RoleID = bind_role b, BV_RoleName = role_name r,
                    BV_ScopeType = bind_scope_type b, BV_ScopeID = bind_scope_id b\<rparr>;
               old = (case map_of out (bind_user b) of None \<Rightarrow> [] | Some vs \<Rightarrow> vs)
           in binding_views rt bs (put out (bind_user b) (old @ [v]))))"

definition RoleBindingsView :: "db \<Rightarrow> store_error + (string \<times> binding_view list) list" where
  "RoleBindingsView s = query ''RoleBindingsView'' s (Inr (binding_views (role_tab s) (bindings s) []))"

definition ListUsers :: "db \<Rightarrow> store_error + user_row list" where
  "ListUsers s = query ''ListUsers'' s (Inr (sort_key CreatedAt (users s)))"

subsection \<open>API tokens\<close>

definition CreateAPIToken :: "db \<Rightarrow> int \<Rightarrow> token_row \<Rightarrow> store_error + db" where
  "CreateAPIToken s now t = query ''CreateAPIToken'' s
     (if (\<exists>x \<in> set (tokens s). tok_id x = tok_id t \<or> TokenHash x = TokenHash t)
         \<or> find (\<lambda>u. ID u = tok_user t) (users s) = None then Inl SQLError
      else Inr (s\<lparr>tokens := tokens s @ [t\<lparr>tok_last_used := None, tok_revoked := None,
                  tok_created := (if tok_created t = 0 then now else tok_created t)\<rparr>]\<rparr>))"

definition GetAPIToken :: "db \<Rightarrow> string \<Rightarrow> store_error + token_row" where
  "GetAPIToken s i = query ''GetAPIToken'' s (select_one (\<lambda>t. tok_id t = i) (tokens s))"

definition ListAPITokensForUser :: "db \<Rightarrow> string \<Rightarrow> store_error + token_row list" where
  "ListAPITokensForUser s uid = query ''ListAPITokensForUser'' s
     (Inr (sort_key (\<lambda>t. - tok_created t) (filter (\<lambda>t. tok_user t = uid \<and> tok_revoked t = None) (tokens s))))"

subsection \<open>Seeding\<close>

definition RoleIDOperator :: string where "RoleIDOperator = ''role-operator''"
definition RoleIDViewer :: string where "RoleIDViewer = ''role-viewer''"

definition AllReadPermissions :: "string list" where
  "AllReadPermissions =
     [''docker.container.read'', ''docker.image.read'', ''docker.network.read'',
      ''docker.volume.read'', ''swarm.service.read'', ''swarm.task.read'', ''swarm.node.read'',
      ''swarm.secret.read'', ''swarm.config.read'', ''k8s.pod.read'', ''k8s.deployment.read'',
      ''k8s.node.read'', ''k8s.hpa.read'', ''k8s.namespace.read'', ''k8s.service.read'',
      ''k8s.config.read'', ''k8s.ingress.read'', ''k8s.metrics.read'', ''k8s.storage.read'',
      ''helm.repo.read'', ''helm.release.read'', ''vm.read'', ''vm.metrics.read'',
      ''vm.cluster.read'', ''vm.network.read'', ''vm.storage.read'', ''inventory.read'',
      ''v2v.read'', ''replication.read'', ''storage.backend.read'', ''finops.read'',
      ''insights.read'', ''alarms.read'', ''audit.read'', ''settings.read'']"

definition operatorExtraPermissions :: "string list" where
  "operatorExtraPermissions =
     [''docker.container.start'', ''docker.container.stop'', ''docker.container.restart'',
      ''docker.container.pause'', ''docker.container.unpause'', ''docker.container.logs'',
      ''docker.container.stats'', ''docker.container.exec'', ''docker.image.pull'',
      ''docker.volume.backup'', ''swarm.service.scale'', ''swarm.service.update'',
      ''swarm.secret.write'', ''swarm.config.write'', ''k8s.deployment.scale'',
      ''k8s.deployment.restart'', ''k8s.deployment.resources'', ''k8s.hpa.write'',
      ''k8s.ingress.write'', ''k8s.storage.write'', ''helm.repo.write'',
      ''helm.release.install'', ''helm.release.upgrade'', ''helm.release.rollback'',
      ''vm.power'', ''vm.snapshot'', ''vm.reconfigure'', ''vm.clone'', ''vm.migrate'',
      ''vm.export'', ''vm.console'', ''vm.network.write'', ''vm.storage.write'', ''vm.hotplug'',
      ''vm.disk.resize'', ''vm.resource'', ''vm.disk.qos'', ''vm.storage.migrate'',
      ''v2v.migrate'', ''replication.write'', ''vm.backup'']"

text \<open>
  \<open>INSERT ... ON CONFLICT(id) DO UPDATE ... WHERE is_builtin = 1\<close>: a built-in role is refreshed,
  a role of the operators under the same id is left alone, a clash of names is an error.
\<close>

definition seedRole ::
  "db \<Rightarrow> string \<Rightarrow> string \<Rightarrow> string \<Rightarrow> bool \<Rightarrow> string list \<Rightarrow> int \<Rightarrow> store_error + db" where
  "seedRole s i name desc builtin ps now = query ''seedRole'' s
     (if find (\<lambda>r. role_id r = i) (role_tab s) \<noteq> None then
        Inr (s\<lparr>role_tab := update_where (\<lambda>r. role_id r = i \<and> role_builtin r)
               (\<lambda>r. r\<lparr>role_perms := ps, role_desc := desc, role_updated := now\<rparr>) (role_tab s)\<rparr>)
      else if \<exists>r \<in> set (role_tab s). role_name r = name then Inl SQLError
      else Inr (s\<lparr>role_tab := role_tab s @ [\<lparr>role_id = i, role_name = name, role_desc = desc,
             role_builtin = builtin, role_perms = ps, role_created = now, role_updated = now\<rparr>]\<rparr>))"

definition seedSettingIfMissing :: "db \<Rightarrow> string \<Rightarrow> string \<Rightarrow> store_error + db" where
  "seedSettingIfMissing s k v = query ''seedSettingIfMissing'' s
     (Inr (if settings s k = None then s\<lparr>settings := (settings s)(k \<mapsto> v)\<rparr> else s))"

definition then_db :: "store_error + db \<Rightarrow> (db \<Rightarrow> store_error + db) \<Rightarrow> store_error + db" where
  "then_db r f = (case r of Inl e \<Rightarrow> Inl e | Inr s \<Rightarrow> f s)"

text \<open>
  The three built-in roles, then the settings that are missing; \<open>uuid\<close> is the fresh instance id.
  (The row of the local host goes to a table that is not part of \<open>db\<close>.) The start-up stops at the
  first error, and what was written before stays.
\<close>

definition builtin_roles :: "(string \<times> string \<times> string \<times> string list) list" where
  "builtin_roles =
     [(RoleIDAdmin, ''admin'', ''Full superuser access to every Castor capability.'', [''*'']),
      (RoleIDOperator, ''operator'',
       ''Day-to-day operations: start/stop/restart, logs, stats, exec, image pull. No deletes, no RBAC.'',
       AllReadPermissions @ operatorExtraPermissions),
      (RoleIDViewer, ''viewer'', ''Read-only visibility across all orchestrators.'', AllReadPermissions)]"

definition default_settings :: "string \<Rightarrow> (string \<times> string) list" where
  "default_settings uuid =
     [(''bootstrap.completed'', ''false''), (''instance.id'', uuid),
      (''security.totp_required_for_mutations'', ''false''),
      (''security.protected_labels'', ''[\"io.castor.protected\"]''),
      (''finops.ratecard'',
       ''{\"currency\":\"USD\",\"vcpuHour\":0.04,\"gbRamHour\":0.005,\"gbStorageMonth\":0.1,'' @
       ''\"containerVcpuHour\":0.02,\"containerGbRamHour\":0.003}'')]"

fun seed_roles :: "(string \<times> string \<times> string \<times> string list) list \<Rightarrow> int \<Rightarrow> db \<Rightarrow> store_error + db" where
  "seed_roles [] now s = Inr s"
| "seed_roles ((i, name, desc, ps) # rs) now s = then_db (seedRole s i name desc True ps now) (seed_roles rs now)"

fun seed_settings :: "(string \<times> string) list \<Rightarrow> db \<Rightarrow> store_error + db" where
  "seed_settings [] s = Inr s"
| "seed_settings ((k, v) # kvs) s = then_db (seedSettingIfMissing s k v) (seed_settings kvs)"

definition Seed :: "db \<Rightarrow> int \<Rightarrow> string \<Rightarrow> store_error + db" where
  "Seed s now uuid = then_db (seed_roles builtin_roles now s) (seed_settings (default_settings uuid))"

subsection \<open>Referential integrity\<close>

text \<open>
  Every binding names an existing user and an existing role: the foreign keys of the schema. The
  laws below say what a statement does to it, by the parts of the database it writes.
\<close>

definition rbac_ok :: "db \<Rightarrow> bool" where
  "rbac_ok s \<longleftrightarrow> bind_role ` set (bindings s) \<subseteq> role_id ` set (role_tab s)
     \<and> bind_user ` set (bindings s) \<subseteq> ID ` set (users s)"

lemma then_db_Inr: "then_db r f = Inr s' \<longleftrightarrow> (\<exists>s. r = Inr s \<and> f s = Inr s')"
  by (cases r) (simp_all add: then_db_def)

lemma insert_binding_Inr:
  assumes "insert_binding s b = Inr s'"
  shows "s' = s\<lparr>bindings := bindings s @ [b]\<rparr>" and "\<not> binding_conflict (bindings s) b"
    and "bind_user b \<in> ID ` set (users s)" and "bind_role b \<in> role_id ` set (role_tab s)"
  using assms by (simp_all add: insert_binding_def find_key_None split: if_splits)

lemma CreateBinding_Inr:
  "CreateBinding s now b = Inr s' \<Longrightarrow> insert_binding s (b\<lparr>bind_created := now\<rparr>) = Inr s'"
  by (simp add: CreateBinding_def query_def split: if_splits)

lemma rbac_ok_insert_binding: "rbac_ok s \<Longrightarrow> insert_binding s b = Inr s' \<Longrightarrow> rbac_ok s'"
  using insert_binding_Inr [of s b s'] by (simp add: rbac_ok_def)

lemma DeleteBinding_Inr:
  "DeleteBinding s uid i = Inr s' \<Longrightarrow>
     s' = s\<lparr>bindings := delete_where (\<lambda>b. bind_id b = i \<and> bind_user b = uid) (bindings s)\<rparr>"
  by (simp add: DeleteBinding_def query_def Let_def split: if_splits)

lemma image_delete_subset: "g ` set rs \<subseteq> A \<Longrightarrow> g ` set (delete_where P rs) \<subseteq> A"
  by (auto simp: delete_where_def)

lemma rbac_ok_DeleteBinding: "rbac_ok s \<Longrightarrow> DeleteBinding s uid i = Inr s' \<Longrightarrow> rbac_ok s'"
  by (drule DeleteBinding_Inr) (simp add: rbac_ok_def image_delete_subset)

lemma CreateRole_Inr:
  assumes "CreateRole s now r = Inr s'"
  shows "s' = s\<lparr>role_tab := role_tab s @ [r\<lparr>role_created := now, role_updated := now\<rparr>]\<rparr>"
    and "role_id r \<notin> role_id ` set (role_tab s)"
  using assms by (auto simp: CreateRole_def query_def split: if_splits)

lemma rbac_ok_CreateRole: "rbac_ok s \<Longrightarrow> CreateRole s now r = Inr s' \<Longrightarrow> rbac_ok s'"
  by (drule CreateRole_Inr) (auto simp: rbac_ok_def)

lemma rbac_ok_upd_role: "rbac_ok s \<Longrightarrow> (\<And>r. role_id (f r) = role_id r) \<Longrightarrow> rbac_ok (upd_role s i f)"
  by (simp add: rbac_ok_def upd_role_def image_update_where)

lemma rbac_ok_UpdateRole: "rbac_ok s \<Longrightarrow> UpdateRole s now i d ps = Inr s' \<Longrightarrow> rbac_ok s'"
  by (simp add: UpdateRole_def query_def Let_def split: if_splits option.splits)
     (auto simp: rbac_ok_upd_role)

lemma DeleteRole_Inr:
  assumes "DeleteRole s i = Inr s'"
  shows "role_tab s' = delete_where (\<lambda>r. role_id r = i) (role_tab s)"
    and "bindings s' = delete_where (\<lambda>b. bind_role b = i) (bindings s)"
    and "users s' = users s"
  using assms by (simp_all add: DeleteRole_def query_def split: if_splits) (drule sym, simp)+

lemma image_delete_key: "g ` set (delete_where (\<lambda>r. g r = k) rs) = g ` set rs - {k}"
  by (rule image_delete_where)

lemma rbac_ok_DeleteRole: "rbac_ok s \<Longrightarrow> DeleteRole s i = Inr s' \<Longrightarrow> rbac_ok s'"
  using DeleteRole_Inr [of s i s']
  by (simp add: rbac_ok_def image_delete_key image_delete_subset) blast

lemma DeleteUser_bindings:
  "DeleteUser s i = Inr s' \<Longrightarrow> bindings s' = delete_where (\<lambda>b. bind_user b = i) (bindings s)
     \<and> role_tab s' = role_tab s"
  by (simp add: DeleteUser_def query_def split: if_splits) (drule sym, simp)

lemma rbac_ok_DeleteUser: "rbac_ok s \<Longrightarrow> DeleteUser s i = Inr s' \<Longrightarrow> rbac_ok s'"
  using DeleteUser_bindings [of s i s'] DeleteUser_Inr(1) [of s i s']
  by (simp add: rbac_ok_def image_delete_key image_delete_subset) blast

text \<open>A state that has the same bindings, roles and user ids has the same integrity.\<close>

lemma rbac_ok_cong:
  "bindings s' = bindings s \<Longrightarrow> role_tab s' = role_tab s \<Longrightarrow> ID ` set (users s) \<subseteq> ID ` set (users s')
     \<Longrightarrow> rbac_ok s \<Longrightarrow> rbac_ok s'"
  by (simp add: rbac_ok_def) blast

end
