(* ===== verification/Rbac_Api.thy ===== *)
theory Rbac_Api
  imports Store_Rbac Auth_Api
begin

text \<open>
  Administration of users, roles and bindings (\<open>api/rbac.go\<close>), the permission catalog
  (\<open>api/permissions.go\<close>), API tokens (\<open>api/api_tokens.go\<close>), settings (\<open>api/settings.go\<close>),
  with the error mapping of \<open>api/errors.go\<close> for store errors, and the routes of
  \<open>api/router.go\<close> (\<open>mountAdminRoutes\<close>, \<open>mountAPITokenRoutes\<close>): the guards around each handler.
  The URL parameters and the fresh identifiers of a handler are arguments, and a body arrives
  decoded, as in \<open>Auth_Api\<close>.
\<close>

text \<open>\<open>mapError\<close> on an error of the store, and \<open>MapStoreError\<close>, which agrees with it there.\<close>

definition mapError :: "store_error \<Rightarrow> api_error" where
  "mapError e = (if e = ErrNotFound then APIErrNotFound else ErrInternal)"

definition MapStoreError :: "store_error \<Rightarrow> api_error" where
  "MapStoreError e = (if e = ErrNotFound then APIErrNotFound else ErrInternal)"

definition writeMapped :: "request \<Rightarrow> store_error \<Rightarrow> response" where
  "writeMapped r e = WriteError r (mapError e)"

definition ok :: "jval \<Rightarrow> response" where "ok v = WriteJSON 200 v"
definition created :: "jval \<Rightarrow> response" where "created v = WriteJSON 201 v"

subsection \<open>The permission catalog\<close>

definition permissionCatalog :: "string list" where
  "permissionCatalog =
     [''*'', ''docker.container.read'', ''docker.container.start'', ''docker.container.stop'',
      ''docker.container.restart'', ''docker.container.pause'', ''docker.container.unpause'',
      ''docker.container.remove'', ''docker.container.logs'', ''docker.container.stats'',
      ''docker.container.exec'', ''docker.container.create'',
      ''docker.container.inspect.secrets'', ''docker.image.read'', ''docker.image.pull'',
      ''docker.image.delete'', ''docker.network.read'', ''docker.network.delete'',
      ''docker.volume.read'', ''docker.volume.remove'', ''docker.volume.backup'',
      ''docker.volume.restore'', ''swarm.service.read'', ''swarm.task.read'',
      ''swarm.node.read'', ''swarm.service.create'', ''swarm.service.scale'',
      ''swarm.service.update'', ''swarm.service.remove'', ''swarm.node.update'',
      ''swarm.secret.read'', ''swarm.secret.write'', ''swarm.config.read'',
      ''swarm.config.write'', ''k8s.pod.read'', ''k8s.deployment.read'', ''k8s.node.read'',
      ''k8s.deployment.scale'', ''k8s.deployment.restart'', ''k8s.deployment.resources'',
      ''k8s.workload.delete'', ''k8s.manifest.apply'', ''k8s.hpa.read'', ''k8s.hpa.write'',
      ''k8s.namespace.read'', ''k8s.namespace.write'', ''k8s.service.read'', ''k8s.config.read'',
      ''k8s.ingress.read'', ''k8s.ingress.write'', ''k8s.metrics.read'', ''k8s.storage.read'',
      ''k8s.storage.write'', ''helm.repo.read'', ''helm.repo.write'', ''helm.release.read'',
      ''helm.release.install'', ''helm.release.upgrade'', ''helm.release.rollback'',
      ''helm.release.uninstall'', ''rbac.user.create'', ''rbac.user.read'', ''rbac.user.update'',
      ''rbac.user.delete'', ''rbac.role.create'', ''rbac.role.read'', ''rbac.role.update'',
      ''rbac.role.delete'', ''rbac.binding.create'', ''rbac.binding.delete'', ''vm.read'',
      ''vm.cluster.read'', ''vm.storage.read'', ''vm.network.read'', ''vm.metrics.read'',
      ''inventory.read'', ''vm.power'', ''vm.snapshot'', ''vm.reconfigure'', ''vm.clone'',
      ''vm.migrate'', ''vm.export'', ''vm.create'', ''vm.delete'', ''vm.host.maintenance'',
      ''vm.console'', ''vm.network.write'', ''vm.storage.read'', ''vm.storage.write'',
      ''vm.hotplug'', ''vm.disk.resize'', ''vm.resource'', ''vm.disk.qos'',
      ''vm.storage.migrate'', ''vm.template'', ''v2v.read'', ''v2v.migrate'',
      ''replication.read'', ''replication.write'', ''storage.backend.read'',
      ''storage.backend.write'', ''vm.backup'', ''vm.backup.restore'', ''finops.read'',
      ''insights.read'', ''alarms.read'', ''alarms.write'', ''audit.read'', ''settings.read'',
      ''settings.update'', ''marketplace.registry.read'', ''marketplace.registry.write'',
      ''marketplace.catalog.read'', ''marketplace.catalog.write'',
      ''marketplace.template.create'', ''marketplace.template.update'',
      ''marketplace.template.delete'', ''auth.provider.read'', ''auth.provider.write'']"

definition PermissionCatalog :: "string list" where "PermissionCatalog = permissionCatalog"

definition hasDotPrefix :: "string \<Rightarrow> string \<Rightarrow> bool" where
  "hasDotPrefix s pre \<longleftrightarrow> length s > length pre \<and> take (length pre) s = pre
     \<and> s ! length pre = CHR ''.''"

definition isWildcardPermission :: "string \<Rightarrow> bool" where
  "isWildcardPermission p =
     (if length p < 3 \<or> drop (length p - 2) p \<noteq> ''.*'' then False
      else (let pre = take (length p - 2) p
            in \<exists>known \<in> set permissionCatalog. known = pre \<or> hasDotPrefix known pre))"

fun validatePermissions :: "string list \<Rightarrow> api_error option" where
  "validatePermissions [] = None"
| "validatePermissions (p # ps) =
     (if p \<in> set permissionCatalog then validatePermissions ps
      else if isWildcardPermission p then validatePermissions ps
      else Some (Errorf ErrValidation (''Unknown permission: '' @ p)))"

subsection \<open>Users\<close>

definition opt_json :: "int option \<Rightarrow> jval" where
  "opt_json t = (case t of None \<Rightarrow> JNull | Some v \<Rightarrow> JNum v)"

definition binding_view_json :: "binding_view \<Rightarrow> jval" where
  "binding_view_json v = JObj [(''bindingId'', JStr (BindingID v)), (''roleId'', JStr (BV_RoleID v)),
     (''roleName'', JStr (BV_RoleName v)), (''scopeType'', JStr (BV_ScopeType v)),
     (''scopeId'', JStr (BV_ScopeID v))]"

definition userListItem :: "user_row \<Rightarrow> binding_view list \<Rightarrow> jval" where
  "userListItem u vs = JObj [(''id'', JStr (ID u)), (''username'', JStr (Username u)),
     (''email'', JStr (Email u)), (''isActive'', JBool (IsActive u)),
     (''totpEnabled'', JBool (TOTPEnabled u)), (''lastLoginAt'', opt_json (LastLoginAt u)),
     (''createdAt'', JNum (CreatedAt u)), (''roles'', JArr (map binding_view_json vs))]"

definition ListUsers_handler :: handler where
  "ListUsers_handler w r =
     (case ListUsers (store w) of Inl e \<Rightarrow> (writeMapped r e, w)
      | Inr us \<Rightarrow>
        (case RoleBindingsView (store w) of Inl e \<Rightarrow> (writeMapped r e, w)
         | Inr bs \<Rightarrow> (ok (JArr (map (\<lambda>u. userListItem u
             (case map_of bs (ID u) of None \<Rightarrow> [] | Some vs \<Rightarrow> vs)) us)), w)))"

record create_user_request =
  cu_username :: string
  cu_password :: string
  cu_email :: string
  cu_must_change :: bool

definition new_user :: "string \<Rightarrow> string \<Rightarrow> create_user_request \<Rightarrow> user_row" where
  "new_user uid h req =
     \<lparr>ID = uid, Username = cu_username req, Email = cu_email req, PasswordHash = h,
      TOTPSecretEnc = [], TOTPEnabled = False, TOTPConfirmedAt = None, IsActive = True,
      MustChangePW = cu_must_change req, FailedLogins = 0, LockedUntil = None, LastLoginAt = None,
      AuthSource = [], ExternalID = [], ExternalProviderID = [], CreatedAt = 0, UpdatedAt = 0\<rparr>"

definition CreateUser_handler ::
  "string option \<Rightarrow> string \<Rightarrow> api_error + create_user_request \<Rightarrow> handler" where
  "CreateUser_handler hash uid body w r =
     (case body of Inl e \<Rightarrow> (WriteError r e, w)
      | Inr req \<Rightarrow>
        (case validateUsername (cu_username req) of Some e \<Rightarrow> (WriteError r e, w)
         | None \<Rightarrow> (case validatePassword (cu_password req) of Some e \<Rightarrow> (WriteError r e, w)
           | None \<Rightarrow> (case hash of None \<Rightarrow> (WriteError r ErrInternal, w)
             | Some h \<Rightarrow>
               (case CreateUser (store w) (clock w) (new_user uid h req) of
                  Inl _ \<Rightarrow> (WriteError r (Errorf ErrConflict ''A user with that username already exists.''), w)
                | Inr s' \<Rightarrow> (created (toUserView (new_user uid h req)),
                    SetAuditTarget (w\<lparr>store := s'\<rparr>) ''user'' uid (cu_username req)))))))"

text \<open>The row is read again for the answer; were it gone, the view of a nil user would panic.\<close>

definition UpdateUser_handler ::
  "string \<Rightarrow> api_error + (string option \<times> bool option) \<Rightarrow> handler" where
  "UpdateUser_handler i body w r =
     (case body of Inl e \<Rightarrow> (WriteError r e, w)
      | Inr (email, act) \<Rightarrow>
        (let w1 = SetAuditTarget w ''user'' i [] in
         case GetUserByID (store w1) i of Inl e \<Rightarrow> (writeMapped r e, w1)
         | Inr _ \<Rightarrow>
           (case UpdateUserProfile (store w1) (clock w1) i email act of Inl e \<Rightarrow> (writeMapped r e, w1)
            | Inr s' \<Rightarrow>
              (let w2 = w1\<lparr>store := s'\<rparr> in
               case GetUserByID s' i of Inl _ \<Rightarrow> (WriteError r ErrInternal, w2)
               | Inr u \<Rightarrow> (ok (toUserView u), w2)))))"

text \<open>The guard against losing the last administrator; errors of the two queries are ignored.\<close>

definition last_admin :: "db \<Rightarrow> string \<Rightarrow> bool" where
  "last_admin s uid =
     ((case UserHasGlobalRole s uid RoleIDAdmin of Inl _ \<Rightarrow> False | Inr b \<Rightarrow> b)
      \<and> (case CountAdminBindings s RoleIDAdmin of Inl _ \<Rightarrow> 0 | Inr n \<Rightarrow> n) \<le> 1)"

definition DeleteUser_handler :: "string \<Rightarrow> handler" where
  "DeleteUser_handler i w r =
     (let w1 = SetAuditTarget w ''user'' i [] in
      if (case ctx_user r of None \<Rightarrow> False | Some u \<Rightarrow> ID (row u) = i)
        then (WriteError r (Errorf ErrConflict ''You cannot delete your own account.''), w1)
      else if last_admin (store w1) i
        then (WriteError r (Errorf ErrConflict ''Cannot delete the last administrator.''), w1)
      else (case DeleteUser (store w1) i of
              Inl e \<Rightarrow> (writeMapped r e, w1)
            | Inr s' \<Rightarrow> (noContent, w1\<lparr>store := s'\<rparr>)))"

subsection \<open>The grant-only-what-you-hold guard\<close>

definition unheldPermissions :: "principal option \<Rightarrow> string list \<Rightarrow> scope \<Rightarrow> string list" where
  "unheldPermissions actor ps sc = filter (\<lambda>p. \<not> Can actor p sc) ps"

text \<open>\<open>Inl\<close>: the check failed, with the answer and the world of the denial.\<close>

definition requireActorHolds ::
  "world \<Rightarrow> request \<Rightarrow> string list \<Rightarrow> scope \<Rightarrow> (response \<times> world) + unit" where
  "requireActorHolds w r ps sc =
     (let bad = unheldPermissions (ctx_user r) ps sc in
      if bad = [] then Inr ()
      else Inl (WriteError r (Errorf ErrForbidden
                  (''You cannot grant permissions you do not hold: '' @ join_with '', '' bad @ ''.'')),
                SetAuditResult (AddAuditDetail w ''deniedPermissions'' (JArr (map JStr bad))) ''denied''))"

definition global_scope :: scope where "global_scope = \<lparr>sc_type = ''global'', sc_id = []\<rparr>"

subsection \<open>Bindings\<close>

definition binding_json :: "binding_row \<Rightarrow> jval" where
  "binding_json b = JObj [(''id'', JStr (bind_id b)), (''userId'', JStr (bind_user b)),
     (''roleId'', JStr (bind_role b)), (''scopeType'', JStr (bind_scope_type b)),
     (''scopeId'', JStr (bind_scope_id b)), (''createdAt'', JNum (bind_created b))]"

record create_binding_request =
  cb_role :: string
  cb_scope_type :: string
  cb_scope_id :: string

definition new_binding :: "int \<Rightarrow> string \<Rightarrow> string \<Rightarrow> create_binding_request \<Rightarrow> binding_row" where
  "new_binding now bid uid req = \<lparr>bind_id = bid, bind_user = uid, bind_role = cb_role req,
     bind_scope_type = cb_scope_type req, bind_scope_id = cb_scope_id req, bind_created = now\<rparr>"

definition CreateBinding_handler ::
  "string \<Rightarrow> string \<Rightarrow> api_error + create_binding_request \<Rightarrow> handler" where
  "CreateBinding_handler bid uid body w r =
     (case body of Inl e \<Rightarrow> (WriteError r e, w)
      | Inr req0 \<Rightarrow>
        (let req = (if cb_scope_type req0 = [] then req0\<lparr>cb_scope_type := ''global''\<rparr> else req0) in
         if cb_scope_type req \<notin> {''global'', ''host'', ''cluster''}
           then (WriteError r (Errorf ErrValidation ''scopeType must be global, host or cluster.''), w)
         else (case GetUserByID (store w) uid of Inl e \<Rightarrow> (writeMapped r e, w)
         | Inr _ \<Rightarrow>
           (case GetRole (store w) (cb_role req) of
              Inl _ \<Rightarrow> (WriteError r (Errorf ErrValidation ''Unknown role.''), w)
            | Inr role \<Rightarrow>
              (case requireActorHolds w r (role_perms role)
                      \<lparr>sc_type = cb_scope_type req, sc_id = cb_scope_id req\<rparr> of
                 Inl denied \<Rightarrow> denied
               | Inr _ \<Rightarrow>
                 (case CreateBinding (store w) (clock w) (new_binding 0 bid uid req) of
                    Inl _ \<Rightarrow> (WriteError r (Errorf ErrConflict ''That role binding already exists.''), w)
                  | Inr s' \<Rightarrow> (created (binding_json (new_binding (clock w) bid uid req)),
                      SetAuditTarget (w\<lparr>store := s'\<rparr>) ''binding'' bid [])))))))"

definition DeleteBinding_handler :: "string \<Rightarrow> string \<Rightarrow> handler" where
  "DeleteBinding_handler uid bid w r =
     (let w1 = SetAuditTarget w ''binding'' bid [] in
      if last_admin (store w1) uid
        then (WriteError r (Errorf ErrConflict ''Cannot remove the last administrator binding.''), w1)
      else (case DeleteBinding (store w1) uid bid of
              Inl e \<Rightarrow> (writeMapped r e, w1)
            | Inr s' \<Rightarrow> (noContent, w1\<lparr>store := s'\<rparr>)))"

subsection \<open>Roles\<close>

definition strs_json :: "string list option \<Rightarrow> jval" where
  "strs_json ps = (case ps of None \<Rightarrow> JNull | Some l \<Rightarrow> JArr (map JStr l))"

definition role_json :: "role_row \<Rightarrow> string list option \<Rightarrow> jval" where
  "role_json x ps = JObj [(''id'', JStr (role_id x)), (''name'', JStr (role_name x)),
     (''description'', JStr (role_desc x)), (''isBuiltin'', JBool (role_builtin x)),
     (''permissions'', strs_json ps), (''createdAt'', JNum (role_created x)),
     (''updatedAt'', JNum (role_updated x))]"

definition ListRoles_handler :: handler where
  "ListRoles_handler w r =
     (case ListRoles (store w) of Inl e \<Rightarrow> (writeMapped r e, w)
      | Inr rs \<Rightarrow> (ok (JArr (map (\<lambda>x. role_json x (Some (role_perms x))) rs)), w))"

record create_role_request =
  cr_name :: string
  cr_desc :: string
  cr_perms :: "string list option"

definition new_role :: "int \<Rightarrow> string \<Rightarrow> create_role_request \<Rightarrow> role_row" where
  "new_role now rid req = \<lparr>role_id = rid, role_name = cr_name req, role_desc = cr_desc req,
     role_builtin = False, role_perms = normPerms (cr_perms req), role_created = now,
     role_updated = now\<rparr>"

definition CreateRole_handler :: "string \<Rightarrow> api_error + create_role_request \<Rightarrow> handler" where
  "CreateRole_handler rid body w r =
     (case body of Inl e \<Rightarrow> (WriteError r e, w)
      | Inr req \<Rightarrow>
        if cr_name req = [] then (WriteError r (Errorf ErrValidation ''Role name is required.''), w)
        else (case validatePermissions (normPerms (cr_perms req)) of Some e \<Rightarrow> (WriteError r e, w)
        | None \<Rightarrow>
          (case requireActorHolds w r (normPerms (cr_perms req)) global_scope of
             Inl denied \<Rightarrow> denied
           | Inr _ \<Rightarrow>
             (case CreateRole (store w) (clock w) (new_role 0 rid req) of
                Inl _ \<Rightarrow> (WriteError r (Errorf ErrConflict ''A role with that name already exists.''), w)
              | Inr s' \<Rightarrow> (created (role_json (new_role (clock w) rid req) (cr_perms req)),
                  SetAuditTarget (w\<lparr>store := s'\<rparr>) ''role'' rid (cr_name req))))))"

definition UpdateRole_handler ::
  "string \<Rightarrow> api_error + (string option \<times> string list option) \<Rightarrow> handler" where
  "UpdateRole_handler i body w r =
     (case body of Inl e \<Rightarrow> (WriteError r e, w)
      | Inr (desc, ps) \<Rightarrow>
        (case GetRole (store w) i of Inl e \<Rightarrow> (writeMapped r e, w)
         | Inr role \<Rightarrow>
           if role_builtin role
             then (WriteError r (Errorf ErrConflict ''Built-in roles are immutable.''), w)
           else (case (case ps of None \<Rightarrow> Inr ()
                       | Some l \<Rightarrow> (case validatePermissions l of
                                      Some e \<Rightarrow> Inl (WriteError r e, w)
                                    | None \<Rightarrow> requireActorHolds w r l global_scope)) of
              Inl refused \<Rightarrow> refused
            | Inr _ \<Rightarrow>
              (let w1 = SetAuditTarget w ''role'' i (role_name role) in
               case UpdateRole (store w1) (clock w1) i desc ps of Inl e \<Rightarrow> (writeMapped r e, w1)
               | Inr s' \<Rightarrow>
                 (ok (case GetRole s' i of Inl _ \<Rightarrow> JNull | Inr x \<Rightarrow> role_json x (Some (role_perms x))),
                  w1\<lparr>store := s'\<rparr>)))))"

definition DeleteRole_handler :: "string \<Rightarrow> handler" where
  "DeleteRole_handler i w r =
     (case GetRole (store w) i of Inl e \<Rightarrow> (writeMapped r e, w)
      | Inr role \<Rightarrow>
        if role_builtin role
          then (WriteError r (Errorf ErrConflict ''Built-in roles cannot be deleted.''), w)
        else (let w1 = SetAuditTarget w ''role'' i (role_name role) in
              case DeleteRole (store w1) i of Inl e \<Rightarrow> (writeMapped r e, w1)
              | Inr s' \<Rightarrow> (noContent, w1\<lparr>store := s'\<rparr>)))"

definition Permissions_handler :: handler where
  "Permissions_handler w r = (ok (JArr (map JStr PermissionCatalog)), w)"

subsection \<open>API tokens\<close>

record create_token_request =
  ct_name :: string
  ct_scopes :: "string list"
  ct_days :: int

definition token_json :: "token_row \<Rightarrow> (string \<times> jval) list" where
  "token_json t =
     [(''id'', JStr (tok_id t)), (''name'', JStr (tok_name t)), (''userId'', JStr (tok_user t)),
      (''permissions'', JArr (map JStr (tok_perms t)))]
     @ (case tok_expires t of None \<Rightarrow> [] | Some e \<Rightarrow> [(''expiresAt'', JNum e)])
     @ (case tok_last_used t of None \<Rightarrow> [] | Some e \<Rightarrow> [(''lastUsedAt'', JNum e)])
     @ [(''createdAt'', JNum (tok_created t))]"

text \<open>A duration of days is an \<open>int64\<close> of nanoseconds, so a large number of days wraps.\<close>

definition new_token ::
  "server \<Rightarrow> int \<Rightarrow> string \<Rightarrow> string \<Rightarrow> principal \<Rightarrow> create_token_request \<Rightarrow> token_row" where
  "new_token sv now tid raw u req =
     \<lparr>tok_id = tid, tok_name = ct_name req, tok_user = ID (row u),
      TokenHash = hash_hex (sdeps sv) (''uhv_'' @ raw), tok_perms = ct_scopes req,
      tok_expires = (if ct_days req > 0 then Some (now + wrap64 (ct_days req * (24 * hour)) div second)
                     else None),
      tok_last_used = None, tok_revoked = None, tok_created = now\<rparr>"

definition CreateAPIToken_handler ::
  "server \<Rightarrow> string option \<Rightarrow> string \<Rightarrow> api_error + create_token_request \<Rightarrow> handler" where
  "CreateAPIToken_handler sv rnd tid body w r =
     (case ctx_user r of None \<Rightarrow> (WriteError r ErrUnauthenticated, w)
      | Some u \<Rightarrow>
        (case body of Inl e \<Rightarrow> (WriteError r e, w)
         | Inr req \<Rightarrow>
           if ct_name req = [] then (WriteError r (Errorf ErrValidation ''Token name is required.''), w)
           else if ct_scopes req = []
             then (WriteError r (Errorf ErrValidation ''At least one scope is required.''), w)
           else (case validatePermissions (ct_scopes req) of Some e \<Rightarrow> (WriteError r e, w)
           | None \<Rightarrow>
             (case find (\<lambda>p. \<not> Can (Some u) p global_scope) (ct_scopes req) of
                Some p \<Rightarrow> (WriteError r (Errorf ErrForbidden
                  (''You cannot grant a token a permission you do not hold: '' @ p)), w)
              | None \<Rightarrow>
                (case rnd of None \<Rightarrow> (WriteError r ErrInternal, w)
                 | Some raw \<Rightarrow>
                   (let t = new_token sv (clock w) tid raw u req in
                    case CreateAPIToken (store w) (clock w) t of
                      Inl _ \<Rightarrow> (WriteError r ErrInternal, w)
                    | Inr s' \<Rightarrow> (created (JObj (token_json t @ [(''token'', JStr (''uhv_'' @ raw))])),
                        w\<lparr>store := s'\<rparr>)))))))"

definition ListAPITokens_handler :: handler where
  "ListAPITokens_handler w r =
     (case ctx_user r of None \<Rightarrow> (WriteError r ErrUnauthenticated, w)
      | Some u \<Rightarrow>
        (case ListAPITokensForUser (store w) (ID (row u)) of
           Inl _ \<Rightarrow> (WriteError r ErrInternal, w)
         | Inr ts \<Rightarrow> (ok (JArr (map (\<lambda>t. JObj (token_json t)) ts)), w)))"

definition DeleteAPIToken_handler :: "string \<Rightarrow> handler" where
  "DeleteAPIToken_handler i w r =
     (case ctx_user r of None \<Rightarrow> (WriteError r ErrUnauthenticated, w)
      | Some u \<Rightarrow>
        (case RevokeAPIToken (store w) (clock w) i (ID (row u)) of
           Inl e \<Rightarrow> (WriteError r (MapStoreError e), w)
         | Inr s' \<Rightarrow> (noContent, w\<lparr>store := s'\<rparr>)))"

subsection \<open>Settings\<close>

definition sessionTTLFloorSeconds :: int where "sessionTTLFloorSeconds = 300"
definition defaultAbsoluteTTLSeconds :: int where "defaultAbsoluteTTLSeconds = 24 * 60 * 60"
definition defaultSessionTTLSeconds :: int where "defaultSessionTTLSeconds = 12 * 60 * 60"

definition clampSessionTTLSeconds :: "int \<Rightarrow> int \<Rightarrow> int" where
  "clampSessionTTLSeconds v absolute =
     (let ceil0 = go_div absolute second;
          ceil1 = (if ceil0 \<le> 0 then defaultAbsoluteTTLSeconds else ceil0);
          v1 = (if v < sessionTTLFloorSeconds then sessionTTLFloorSeconds else v)
      in if v1 > ceil1 then ceil1 else v1)"

definition AllSettings :: "db \<Rightarrow> store_error + (string \<Rightarrow> string)" where
  "AllSettings s = query ''AllSettings'' s
     (Inr (\<lambda>k. case settings s k of None \<Rightarrow> [] | Some v \<Rightarrow> v))"

definition parseIntDefault :: "string \<Rightarrow> int \<Rightarrow> int" where
  "parseIntDefault s def = (if s = [] then def else (case atoi s of None \<Rightarrow> def | Some n \<Rightarrow> n))"

fun all_strings :: "jval list \<Rightarrow> string list option" where
  "all_strings [] = Some []"
| "all_strings (JStr s # vs) = map_option (Cons s) (all_strings vs)"
| "all_strings (JNull # vs) = map_option (Cons []) (all_strings vs)"
| "all_strings (v # vs) = None"

definition parseJSONStringList :: "string \<Rightarrow> string list" where
  "parseJSONStringList s =
     (if s = [] then []
      else (case json_dec s of
              Some (JArr vs) \<Rightarrow> (case all_strings vs of None \<Rightarrow> [] | Some l \<Rightarrow> l)
            | _ \<Rightarrow> []))"

definition GetSettings_handler :: "server \<Rightarrow> handler" where
  "GetSettings_handler sv w r =
     (case AllSettings (store w) of Inl e \<Rightarrow> (writeMapped r e, w)
      | Inr all \<Rightarrow>
        (let ttl = SessionTTL (sdeps sv);
             ttlDefault = (if ttl > 0 then go_div ttl second else defaultSessionTTLSeconds)
         in (WriteJSON 200 (JObj
              [(''bootstrap.completed'', JBool (all ''bootstrap.completed'' = ''true'')),
               (''instance.id'', JStr (all ''instance.id'')),
               (''security.totp_required_for_mutations'',
                JBool (all ''security.totp_required_for_mutations'' = ''true'')),
               (''session.ttl_seconds'',
                JNum (parseIntDefault (all ''session.ttl_seconds'') ttlDefault)),
               (''security.protected_labels'',
                JArr (map JStr (parseJSONStringList (all ''security.protected_labels''))))]), w)))"

record update_settings_request =
  us_totp :: "bool option"
  us_ttl :: "int option"
  us_labels :: "string list option"

text \<open>The fields are written one after the other; the first failure ends the request.\<close>

definition opt_setting :: "string \<Rightarrow> string option \<Rightarrow> db \<Rightarrow> (store_error \<times> db) + db" where
  "opt_setting k v s = (case v of None \<Rightarrow> Inr s
     | Some x \<Rightarrow> (case SetSetting s k x of Inl e \<Rightarrow> Inl (e, s) | Inr s' \<Rightarrow> Inr s'))"

definition format_bool :: "bool \<Rightarrow> string" where
  "format_bool b = (if b then ''true'' else ''false'')"

definition UpdateSettings_handler :: "server \<Rightarrow> api_error + update_settings_request \<Rightarrow> handler" where
  "UpdateSettings_handler sv body w r =
     (case body of Inl e \<Rightarrow> (WriteError r e, w)
      | Inr req \<Rightarrow>
        (case opt_setting ''security.totp_required_for_mutations''
                (map_option format_bool (us_totp req)) (store w) of
           Inl (e, s) \<Rightarrow> (writeMapped r e, w\<lparr>store := s\<rparr>)
         | Inr s1 \<Rightarrow>
           (case opt_setting ''session.ttl_seconds''
                   (map_option (\<lambda>v. itoa (clampSessionTTLSeconds v (SessionAbsoluteTTL (sdeps sv)))) (us_ttl req)) s1 of
              Inl (e, s) \<Rightarrow> (writeMapped r e, w\<lparr>store := s\<rparr>)
            | Inr s2 \<Rightarrow>
              (case opt_setting ''security.protected_labels''
                      (map_option (\<lambda>l. json_enc (JArr (map JStr l))) (us_labels req)) s2 of
                 Inl (e, s) \<Rightarrow> (writeMapped r e, w\<lparr>store := s\<rparr>)
               | Inr s3 \<Rightarrow> GetSettings_handler sv (w\<lparr>store := s3\<rparr>) r))))"

subsection \<open>Routes\<close>

definition bootstrapGate :: "'x stage \<Rightarrow> 'x stage" where
  "bootstrapGate h w r =
     (if bootstrapRequired (store w) then (WriteError r ErrBootstrapRequired, w) else h w r)"

text \<open>
  The mutating requests of the administration surface, each with its URL parameters, fresh
  identifiers and decoded body.
\<close>

datatype admin_op =
    ACreateUser "string option" string "api_error + create_user_request"
  | AUpdateUser string "api_error + (string option \<times> bool option)"
  | ADeleteUser string
  | ACreateBinding string string "api_error + create_binding_request"
  | ADeleteBinding string string
  | ACreateRole string "api_error + create_role_request"
  | AUpdateRole string "api_error + (string option \<times> string list option)"
  | ADeleteRole string
  | AUpdateSettings "api_error + update_settings_request"
  | ACreateToken "string option" string "api_error + create_token_request"
  | ADeleteToken string

fun admin_handler :: "server \<Rightarrow> admin_op \<Rightarrow> handler" where
  "admin_handler sv (ACreateUser h uid body) = CreateUser_handler h uid body"
| "admin_handler sv (AUpdateUser i body) = UpdateUser_handler i body"
| "admin_handler sv (ADeleteUser i) = DeleteUser_handler i"
| "admin_handler sv (ACreateBinding bid uid body) = CreateBinding_handler bid uid body"
| "admin_handler sv (ADeleteBinding uid bid) = DeleteBinding_handler uid bid"
| "admin_handler sv (ACreateRole rid body) = CreateRole_handler rid body"
| "admin_handler sv (AUpdateRole i body) = UpdateRole_handler i body"
| "admin_handler sv (ADeleteRole i) = DeleteRole_handler i"
| "admin_handler sv (AUpdateSettings body) = UpdateSettings_handler sv body"
| "admin_handler sv (ACreateToken rnd tid body) = CreateAPIToken_handler sv rnd tid body"
| "admin_handler sv (ADeleteToken i) = DeleteAPIToken_handler i"

text \<open>The audit action of a route and the permission it requires at the global scope; the token
  routes require none.\<close>

fun admin_guard :: "admin_op \<Rightarrow> string \<times> string option" where
  "admin_guard (ACreateUser _ _ _) = (''rbac.user.create'', Some ''rbac.user.create'')"
| "admin_guard (AUpdateUser _ _) = (''rbac.user.update'', Some ''rbac.user.update'')"
| "admin_guard (ADeleteUser _) = (''rbac.user.delete'', Some ''rbac.user.delete'')"
| "admin_guard (ACreateBinding _ _ _) = (''rbac.binding.create'', Some ''rbac.binding.create'')"
| "admin_guard (ADeleteBinding _ _) = (''rbac.binding.delete'', Some ''rbac.binding.delete'')"
| "admin_guard (ACreateRole _ _) = (''rbac.role.create'', Some ''rbac.role.create'')"
| "admin_guard (AUpdateRole _ _) = (''rbac.role.update'', Some ''rbac.role.update'')"
| "admin_guard (ADeleteRole _) = (''rbac.role.delete'', Some ''rbac.role.delete'')"
| "admin_guard (AUpdateSettings _) = (''settings.update'', Some ''settings.update'')"
| "admin_guard (ACreateToken _ _ _) = (''apitoken.create'', None)"
| "admin_guard (ADeleteToken _) = (''apitoken.delete'', None)"

definition guarded :: "(jval \<Rightarrow> string) \<Rightarrow> server \<Rightarrow> admin_op \<Rightarrow> handler" where
  "guarded enc sv op = (case admin_guard op of (action, perm) \<Rightarrow>
     AuditWrap enc action
       (case perm of None \<Rightarrow> admin_handler sv op
        | Some p \<Rightarrow> RequireAAL (RequirePermission p None (admin_handler sv op))))"

definition admin_route :: "(jval \<Rightarrow> string) \<Rightarrow> server \<Rightarrow> admin_op \<Rightarrow> handler" where
  "admin_route enc sv op =
     bootstrapGate (BearerOrSession (sdeps sv) (CSRF (sdeps sv) (guarded enc sv op)))"

end
