(* ===== verification/Rbac_Props.thy ===== *)
theory Rbac_Props
  imports Rbac_Api
begin

text \<open>
  Properties of the administration surface: no run of administration requests gives anybody a
  permission that neither he nor an author of the run had before (\<open>no_escalation\<close>), the last
  administrator stays (\<open>last_admin_stays\<close>), the permission catalog accepts exactly the known
  permissions and the wildcards over them, and the lifetime of sessions that is stored is the one
  that is used.
\<close>

subsection \<open>What a user may do\<close>

definition user_roles :: "db \<Rightarrow> string \<Rightarrow> effective_role list" where
  "user_roles s i = join_roles (role_tab s) (filter (\<lambda>b. bind_user b = i) (bindings s))"

text \<open>The permissions of an existing account, active or not, as \<open>buildUser\<close> computes them.\<close>

definition user_can :: "db \<Rightarrow> string \<Rightarrow> string \<Rightarrow> scope \<Rightarrow> bool" where
  "user_can s i p sc \<longleftrightarrow>
     (\<exists>u \<in> set (users s). ID u = i \<and> Can (Some (buildUser u [] [] (user_roles s i))) p sc)"

definition role_at :: "db \<Rightarrow> binding_row \<Rightarrow> role_row option" where
  "role_at s b = find (\<lambda>r. role_id r = bind_role b) (role_tab s)"

definition gives :: "binding_row \<Rightarrow> role_row \<Rightarrow> string \<Rightarrow> scope \<Rightarrow> bool" where
  "gives b x p sc \<longleftrightarrow>
     scopeKey (bind_scope_type b) (bind_scope_id b) \<in> {[], scopeKey (sc_type sc) (sc_id sc)}
     \<and> permSetGrants (set (role_perms x)) p"

definition holds :: "db \<Rightarrow> string \<Rightarrow> string \<Rightarrow> scope \<Rightarrow> bool" where
  "holds s i p sc \<longleftrightarrow>
     (\<exists>b \<in> set (bindings s). bind_user b = i \<and> (\<exists>x. role_at s b = Some x \<and> gives b x p sc))"

lemma holdsI: "b \<in> set (bindings s) \<Longrightarrow> bind_user b = i \<Longrightarrow> role_at s b = Some x \<Longrightarrow> gives b x p sc
    \<Longrightarrow> holds s i p sc"
  unfolding holds_def by blast

lemma holdsE:
  assumes "holds s i p sc"
  obtains b x where "b \<in> set (bindings s)" "bind_user b = i" "role_at s b = Some x" "gives b x p sc"
  using assms unfolding holds_def by blast

lemma join_roles_mem:
  "er \<in> set (join_roles rt bs) \<longleftrightarrow>
     (\<exists>b \<in> set bs. \<exists>x. find (\<lambda>r. role_id r = bind_role b) rt = Some x
        \<and> er = \<lparr>RoleID = bind_role b, RoleName = role_name x, Permissions = role_perms x,
                ScopeType = bind_scope_type b, ScopeID = bind_scope_id b\<rparr>)"
  by (induction bs) (simp_all split: option.split)

lemma Can_join:
  "Can (Some (buildUser u h a (join_roles (role_tab s) (filter (\<lambda>b. bind_user b = i) (bindings s))))) p sc
     \<longleftrightarrow> holds s i p sc"
proof
  assume "Can (Some (buildUser u h a (join_roles (role_tab s) (filter (\<lambda>b. bind_user b = i) (bindings s))))) p sc"
  then obtain er where er: "er \<in> set (join_roles (role_tab s) (filter (\<lambda>b. bind_user b = i) (bindings s)))"
    "scopeKey (ScopeType er) (ScopeID er) \<in> {[], scopeKey (sc_type sc) (sc_id sc)}"
    "permSetGrants (set (Permissions er)) p"
    unfolding Can_buildUser by blast
  from er(1) obtain b x where b: "b \<in> set (filter (\<lambda>b. bind_user b = i) (bindings s))"
    and x: "find (\<lambda>r. role_id r = bind_role b) (role_tab s) = Some x"
    and e: "er = \<lparr>RoleID = bind_role b, RoleName = role_name x, Permissions = role_perms x,
      ScopeType = bind_scope_type b, ScopeID = bind_scope_id b\<rparr>"
    unfolding join_roles_mem by (elim bexE exE conjE)
  show "holds s i p sc"
    by (rule holdsI [of b s i x]) (use b x er(2,3) in \<open>simp_all add: role_at_def gives_def e\<close>)
next
  assume "holds s i p sc"
  then obtain b x where b: "b \<in> set (bindings s)" "bind_user b = i" "role_at s b = Some x" "gives b x p sc"
    by (rule holdsE)
  show "Can (Some (buildUser u h a (join_roles (role_tab s) (filter (\<lambda>b. bind_user b = i) (bindings s))))) p sc"
    unfolding Can_buildUser
    by (rule bexI [of _ "\<lparr>RoleID = bind_role b, RoleName = role_name x, Permissions = role_perms x,
                ScopeType = bind_scope_type b, ScopeID = bind_scope_id b\<rparr>"])
      (use b in \<open>auto simp: gives_def join_roles_mem role_at_def\<close>)
qed

lemma user_can_holds: "rbac_ok s \<Longrightarrow> user_can s i p sc \<longleftrightarrow> holds s i p sc"
proof
  assume "user_can s i p sc"
  then show "holds s i p sc" unfolding user_can_def user_roles_def Can_join by blast
next
  assume ok: "rbac_ok s" and h: "holds s i p sc"
  then have "i \<in> ID ` set (users s)" unfolding rbac_ok_def holds_def by blast
  then obtain u where "u \<in> set (users s)" "ID u = i" by blast
  with h show "user_can s i p sc" unfolding user_can_def user_roles_def Can_join by blast
qed

lemma Effective_holds:
  assumes "EffectiveRolesForUser s i = Inr rs" "Can (Some (buildUser u h a rs)) p sc"
  shows "holds s i p sc"
proof -
  have "rs = join_roles (role_tab s) (filter (\<lambda>b. bind_user b = i) (bindings s))"
    using assms(1) by (simp add: EffectiveRolesForUser_def query_def split: if_splits)
  then show ?thesis using assms(2) Can_join [of u h a s i p sc] by simp
qed

subsection \<open>What an authenticated request may do\<close>

definition authenticate ::
  "deps \<Rightarrow> 'x world_scheme \<Rightarrow> request \<Rightarrow> (api_error + principal) \<times> 'x world_scheme" where
  "authenticate d w r =
     (let raw = bearerToken r in if raw \<noteq> [] then resolveBearer d w raw else resolveUser d w r)"

definition actor_of :: "deps \<Rightarrow> world \<Rightarrow> request \<Rightarrow> string option" where
  "actor_of d w r = (case fst (authenticate d w r) of Inl _ \<Rightarrow> None | Inr u \<Rightarrow> Some (ID (row u)))"

text \<open>The parts of the database that permissions depend on.\<close>

definition same_core :: "db \<Rightarrow> db \<Rightarrow> bool" where
  "same_core s s' \<longleftrightarrow> bindings s' = bindings s \<and> role_tab s' = role_tab s
     \<and> ID ` set (users s') = ID ` set (users s) \<and> broken s' = broken s"

lemma same_core_refl [simp]: "same_core s s" by (simp add: same_core_def)

lemma same_core_trans: "same_core a b \<Longrightarrow> same_core b c \<Longrightarrow> same_core a c" by (simp add: same_core_def)

lemma holds_core: "same_core s s' \<Longrightarrow> holds s' i p sc = holds s i p sc"
  by (simp add: same_core_def holds_def role_at_def)

lemma rbac_ok_core: "same_core s s' \<Longrightarrow> rbac_ok s' = rbac_ok s"
  by (simp add: same_core_def rbac_ok_def)

lemma TouchAPIToken_core: "TouchAPIToken s now i = Inr s' \<Longrightarrow> same_core s s'"
  by (simp add: TouchAPIToken_def query_def split: if_splits) (drule sym, simp add: same_core_def)

lemma resolveBearer_core: "resolveBearer d w raw = (res, w') \<Longrightarrow> same_core (store w) (store w')"
  unfolding resolveBearer_def Let_def
  by (simp split: sum.splits if_splits) (elim conjE, drule sym, simp add: TouchAPIToken_core)+

lemma resolveUser_core: "resolveUser d w r = (res, w') \<Longrightarrow> same_core (store w) (store w')"
proof (cases res)
  case (Inl e)
  assume "resolveUser d w r = (res, w')"
  then have "w' = w" unfolding Inl by (rule resolveUser_Inl_world)
  then show ?thesis by simp
next
  case (Inr u)
  assume "resolveUser d w r = (res, w')"
  then have "resolveUser d w r = (Inr u, w')" using Inr by simp
  then show ?thesis
    by (cases rule: resolveUser_Inr) (elim disjE, simp_all add: same_core_def upd_sessions_def)
qed

lemma authenticate_core: "authenticate d w r = (res, w') \<Longrightarrow> same_core (store w) (store w')"
  unfolding authenticate_def Let_def
  by (simp split: if_splits add: resolveBearer_core resolveUser_core)

lemma authenticate_holds:
  assumes "authenticate d w r = (Inr u, w')" "Can (Some u) p sc"
  shows "holds (store w) (ID (row u)) p sc"
proof (cases "bearerToken r = []")
  case True
  then have "resolveUser d w r = (Inr u, w')" using assms(1) by (simp add: authenticate_def)
  then show ?thesis
  proof (cases rule: resolveUser_Inr)
    case (1 v sess su rs)
    have "Can (Some (buildUser su (hash_hex d v) (sess_amr sess) rs)) p sc" using assms(2) 1(9) by simp
    moreover have "ID (row u) = ID su" by (simp add: 1(9) buildUser_def)
    ultimately show ?thesis using Effective_holds [OF 1(8)] by simp
  qed
next
  case False
  then have "resolveBearer d w (bearerToken r) = (Inr u, w')" using assms(1) by (simp add: authenticate_def)
  then show ?thesis
  proof (cases rule: resolveBearer_Inr)
    case (1 tok su rs)
    have "Can (Some (buildUser su [] (AuthSource su) rs)) p sc"
      using restrict_bounded [OF 1(7) assms(2)] by simp
    then show ?thesis using Effective_holds [OF 1(4)] 1(5) by simp
  qed
qed

lemma BearerOrSession_run:
  "BearerOrSession d nxt w r = (case authenticate d w r of
     (Inl e, w') \<Rightarrow> (WriteError r e, w')
   | (Inr u, w') \<Rightarrow> nxt w' (r\<lparr>ctx_user := Some u, ctx_bearer := ctx_bearer r \<or> bearerToken r \<noteq> []\<rparr>))"
  unfolding BearerOrSession_def authenticate_def Let_def
  by (simp split: sum.split prod.split)

subsection \<open>Known permissions\<close>

definition known_permission :: "string \<Rightarrow> bool" where
  "known_permission p \<longleftrightarrow> p \<in> set permissionCatalog \<or> isWildcardPermission p"

lemma validatePermissions_None: "validatePermissions ps = None \<longleftrightarrow> (\<forall>p \<in> set ps. known_permission p)"
  by (induction ps) (simp_all add: known_permission_def)

lemma hasDotPrefix_iff: "hasDotPrefix s pre \<longleftrightarrow> (\<exists>suf. s = pre @ CHR ''.'' # suf)"
proof
  assume "hasDotPrefix s pre"
  then have h: "length pre < length s" "take (length pre) s = pre" "s ! length pre = CHR ''.''"
    by (simp_all add: hasDotPrefix_def)
  have "s = take (length pre) s @ s ! length pre # drop (Suc (length pre)) s"
    by (rule id_take_nth_drop [OF h(1)])
  then show "\<exists>suf. s = pre @ CHR ''.'' # suf" unfolding h(2,3) by blast
next
  assume "\<exists>suf. s = pre @ CHR ''.'' # suf"
  then show "hasDotPrefix s pre" by (auto simp: hasDotPrefix_def)
qed

text \<open>A wildcard is accepted when its prefix is a known permission or the first part of one.\<close>

lemma isWildcardPermission_iff:
  "isWildcardPermission p \<longleftrightarrow>
     (\<exists>q. q \<noteq> [] \<and> p = q @ ''.*''
        \<and> (\<exists>k \<in> set permissionCatalog. k = q \<or> (\<exists>suf. k = q @ CHR ''.'' # suf)))"
proof
  assume "isWildcardPermission p"
  then have h: "3 \<le> length p" "drop (length p - 2) p = ''.*''"
    "\<exists>k \<in> set permissionCatalog. k = take (length p - 2) p \<or> hasDotPrefix k (take (length p - 2) p)"
    by (simp_all add: isWildcardPermission_def Let_def split: if_splits)
  have "p = take (length p - 2) p @ ''.*''" using append_take_drop_id [of "length p - 2" p] h(2) by simp
  moreover have "take (length p - 2) p \<noteq> []" using h(1) by auto
  ultimately show "\<exists>q. q \<noteq> [] \<and> p = q @ ''.*''
        \<and> (\<exists>k \<in> set permissionCatalog. k = q \<or> (\<exists>suf. k = q @ CHR ''.'' # suf))"
    using h(3) unfolding hasDotPrefix_iff by blast
next
  assume "\<exists>q. q \<noteq> [] \<and> p = q @ ''.*''
        \<and> (\<exists>k \<in> set permissionCatalog. k = q \<or> (\<exists>suf. k = q @ CHR ''.'' # suf))"
  then obtain q where q: "q \<noteq> []" "p = q @ ''.*''"
    "\<exists>k \<in> set permissionCatalog. k = q \<or> (\<exists>suf. k = q @ CHR ''.'' # suf)" by blast
  then have "\<not> length p < 3" by (cases q) auto
  then show "isWildcardPermission p" using q(2,3) by (simp add: isWildcardPermission_def hasDotPrefix_iff)
qed

subsection \<open>The writes of the handlers\<close>

text \<open>
  The writes an administration handler may make, with what its guards have established: the
  handlers refine this relation (\<open>handler_writes\<close>), and the two properties of runs are proved on it.
\<close>

inductive rbac_write :: "principal option \<Rightarrow> db \<Rightarrow> db \<Rightarrow> bool" for actor where
  no_write: "same_core s s' \<Longrightarrow> rbac_write actor s s'"
| new_user_write: "CreateUser s now u = Inr s' \<Longrightarrow> rbac_write actor s s'"
| del_user_write: "\<not> last_admin s i \<Longrightarrow> DeleteUser s i = Inr s' \<Longrightarrow> rbac_write actor s s'"
| bind_write: "GetRole s (bind_role b) = Inr x \<Longrightarrow>
    (\<forall>q \<in> set (role_perms x). Can actor q \<lparr>sc_type = bind_scope_type b, sc_id = bind_scope_id b\<rparr>) \<Longrightarrow>
    insert_binding s b = Inr s' \<Longrightarrow> rbac_write actor s s'"
| unbind_write: "\<not> last_admin s uid \<Longrightarrow> DeleteBinding s uid i = Inr s' \<Longrightarrow> rbac_write actor s s'"
| new_role_write: "\<not> role_builtin x \<Longrightarrow>
    (\<forall>q \<in> set (role_perms x). Can actor q global_scope \<and> known_permission q) \<Longrightarrow>
    CreateRole s now x = Inr s' \<Longrightarrow> rbac_write actor s s'"
| upd_role_write: "GetRole s i = Inr x \<Longrightarrow> \<not> role_builtin x \<Longrightarrow>
    (\<forall>l. ps = Some l \<longrightarrow> (\<forall>q \<in> set l. Can actor q global_scope \<and> known_permission q)) \<Longrightarrow>
    UpdateRole s now i desc ps = Inr s' \<Longrightarrow> rbac_write actor s s'"
| del_role_write: "GetRole s i = Inr x \<Longrightarrow> \<not> role_builtin x \<Longrightarrow> DeleteRole s i = Inr s' \<Longrightarrow>
    rbac_write actor s s'"

lemma no_write_refl: "rbac_write actor s s" by (simp add: rbac_write.no_write)

lemma CreateUser_handler_write:
  "rbac_write (ctx_user r) (store w) (store (snd (CreateUser_handler h uid body w r)))"
  unfolding CreateUser_handler_def
  by (simp add: no_write_refl rbac_write.new_user_write split: sum.split option.split)

lemma upd_user_core: "(\<And>u. ID (f u) = ID u) \<Longrightarrow> same_core s (upd_user s i f)"
  by (simp add: same_core_def upd_user_def image_update_where)

lemma UpdateUserProfile_core:
  assumes "UpdateUserProfile s now i e a = Inr s'"
  shows "same_core s s'"
proof -
  let ?e = "\<lambda>s. case e of None \<Rightarrow> s | Some x \<Rightarrow> upd_user s i (\<lambda>u. u\<lparr>Email := x, UpdatedAt := now\<rparr>)"
  let ?a = "\<lambda>s. case a of None \<Rightarrow> s | Some x \<Rightarrow> upd_user s i (\<lambda>u. u\<lparr>IsActive := x, UpdatedAt := now\<rparr>)"
  have "s' = ?a (?e s)"
    using assms unfolding UpdateUserProfile_def query_def Let_def
    by (simp only: sum.inject sum.distinct split: if_splits)
  moreover have "same_core s (?e s)" "same_core (?e s) (?a (?e s))"
    by (simp_all add: upd_user_core split: option.split)
  ultimately show ?thesis using same_core_trans by blast
qed

lemma UpdateUser_handler_write:
  "rbac_write (ctx_user r) (store w) (store (snd (UpdateUser_handler i body w r)))"
  unfolding UpdateUser_handler_def Let_def
  by (simp add: no_write_refl split: sum.split) (blast intro: rbac_write.no_write UpdateUserProfile_core)

lemma DeleteUser_handler_write:
  "rbac_write (ctx_user r) (store w) (store (snd (DeleteUser_handler i w r)))"
  unfolding DeleteUser_handler_def Let_def
  by (simp add: no_write_refl split: sum.split) (blast intro: rbac_write.del_user_write)

lemma unheld_Nil: "unheldPermissions actor ps sc = [] \<longleftrightarrow> (\<forall>q \<in> set ps. Can actor q sc)"
  by (simp add: unheldPermissions_def filter_empty_conv)

lemma requireActorHolds_Inl:
  "requireActorHolds w r ps sc = Inl x \<Longrightarrow> store (snd x) = store w"
  by (simp add: requireActorHolds_def Let_def split: if_splits) (drule sym, simp)

lemma requireActorHolds_Inr:
  "requireActorHolds w r ps sc = Inr u \<Longrightarrow> (\<forall>q \<in> set ps. Can (ctx_user r) q sc)"
  by (simp add: requireActorHolds_def Let_def unheld_Nil split: if_splits)

lemma CreateBinding_handler_write:
  "rbac_write (ctx_user r) (store w) (store (snd (CreateBinding_handler bid uid body w r)))"
proof (cases body)
  case (Inl e)
  then show ?thesis by (simp add: CreateBinding_handler_def no_write_refl)
next
  case (Inr req0)
  define req where "req = (if cb_scope_type req0 = [] then req0\<lparr>cb_scope_type := ''global''\<rparr> else req0)"
  let ?sc = "\<lparr>sc_type = cb_scope_type req, sc_id = cb_scope_id req\<rparr>"
  have run: "CreateBinding_handler bid uid body w r =
     (if cb_scope_type req \<notin> {''global'', ''host'', ''cluster''}
       then (WriteError r (Errorf ErrValidation ''scopeType must be global, host or cluster.''), w)
      else (case GetUserByID (store w) uid of Inl e \<Rightarrow> (writeMapped r e, w)
         | Inr _ \<Rightarrow>
           (case GetRole (store w) (cb_role req) of
              Inl _ \<Rightarrow> (WriteError r (Errorf ErrValidation ''Unknown role.''), w)
            | Inr role \<Rightarrow>
              (case requireActorHolds w r (role_perms role) ?sc of
                 Inl denied \<Rightarrow> denied
               | Inr _ \<Rightarrow>
                 (case CreateBinding (store w) (clock w) (new_binding 0 bid uid req) of
                    Inl _ \<Rightarrow> (WriteError r (Errorf ErrConflict ''That role binding already exists.''), w)
                  | Inr s' \<Rightarrow> (created (binding_json (new_binding (clock w) bid uid req)),
                      SetAuditTarget (w\<lparr>store := s'\<rparr>) ''binding'' bid []))))))"
    unfolding CreateBinding_handler_def Inr sum.case Let_def req_def by (rule refl)
  show ?thesis unfolding run
  proof (simp add: no_write_refl requireActorHolds_Inl split: sum.split del: insert_iff, intro allI impI)
    fix x s'
    assume role: "GetRole (store w) (cb_role req) = Inr x"
      and held: "requireActorHolds w r (role_perms x) ?sc = Inr ()"
      and new: "CreateBinding (store w) (clock w) (new_binding 0 bid uid req) = Inr s'"
    let ?b = "(new_binding 0 bid uid req)\<lparr>bind_created := clock w\<rparr>"
    show "rbac_write (ctx_user r) (store w) s'"
    proof (rule rbac_write.bind_write)
      show "GetRole (store w) (bind_role ?b) = Inr x" using role by (simp add: new_binding_def)
      show "\<forall>q \<in> set (role_perms x). Can (ctx_user r) q \<lparr>sc_type = bind_scope_type ?b, sc_id = bind_scope_id ?b\<rparr>"
        using requireActorHolds_Inr [OF held] by (simp add: new_binding_def)
      show "insert_binding (store w) ?b = Inr s'" by (rule CreateBinding_Inr [OF new])
    qed
  qed
qed

lemma DeleteBinding_handler_write:
  "rbac_write (ctx_user r) (store w) (store (snd (DeleteBinding_handler uid bid w r)))"
  unfolding DeleteBinding_handler_def Let_def
  by (simp add: no_write_refl split: sum.split) (blast intro: rbac_write.unbind_write)

lemma CreateRole_handler_write:
  "rbac_write (ctx_user r) (store w) (store (snd (CreateRole_handler rid body w r)))"
proof (cases body)
  case (Inl e)
  then show ?thesis by (simp add: CreateRole_handler_def no_write_refl)
next
  case (Inr req)
  show ?thesis
  proof (cases "requireActorHolds w r (normPerms (cr_perms req)) global_scope")
    case denied: (Inl d)
    then show ?thesis using requireActorHolds_Inl [OF denied]
      by (simp add: CreateRole_handler_def Inr no_write_refl split: option.split)
  next
    case held: (Inr u)
    show ?thesis
    proof (cases "CreateRole (store w) (clock w) (new_role 0 rid req)")
      case (Inl e)
      then show ?thesis
        by (simp add: CreateRole_handler_def \<open>body = Inr req\<close> held no_write_refl split: option.split)
    next
      case new: (Inr s')
      show ?thesis
      proof (cases "validatePermissions (normPerms (cr_perms req))")
        case None
        have "rbac_write (ctx_user r) (store w) s'"
          by (rule rbac_write.new_role_write [OF _ _ new])
            (simp add: new_role_def, use requireActorHolds_Inr [OF held] None [unfolded validatePermissions_None]
              in \<open>simp add: new_role_def\<close>)
        then show ?thesis
          by (simp add: CreateRole_handler_def \<open>body = Inr req\<close> held new None no_write_refl)
      next
        case (Some e)
        then show ?thesis by (simp add: CreateRole_handler_def \<open>body = Inr req\<close> no_write_refl)
      qed
    qed
  qed
qed

lemma UpdateRole_handler_write:
  "rbac_write (ctx_user r) (store w) (store (snd (UpdateRole_handler i body w r)))"
proof (cases body)
  case (Inl e)
  then show ?thesis by (simp add: UpdateRole_handler_def no_write_refl)
next
  case (Inr dp)
  obtain desc ps where dp: "dp = (desc, ps)" by (cases dp)
  let ?chk = "\<lambda>r :: request. case ps of None \<Rightarrow> Inr ()
     | Some l \<Rightarrow> (case validatePermissions l of Some e \<Rightarrow> Inl (WriteError r e, w)
                  | None \<Rightarrow> requireActorHolds w r l global_scope)"
  have chk_Inl: "?chk r = Inl x \<Longrightarrow> store (snd x) = store w" for x
    by (simp split: option.splits add: requireActorHolds_Inl) (drule sym, simp)
  have chk_Inr: "?chk r = Inr () \<Longrightarrow>
      \<forall>l. ps = Some l \<longrightarrow> (\<forall>q \<in> set l. Can (ctx_user r) q global_scope \<and> known_permission q)"
    using requireActorHolds_Inr [of w r _ global_scope "()"]
    by (simp split: option.splits add: validatePermissions_None)
  show ?thesis
  proof (cases "GetRole (store w) i")
    case (Inl e)
    then show ?thesis by (simp add: UpdateRole_handler_def \<open>body = Inr dp\<close> dp no_write_refl)
  next
    case role: (Inr x)
    show ?thesis
    proof (cases "role_builtin x")
      case True
      then show ?thesis by (simp add: UpdateRole_handler_def \<open>body = Inr dp\<close> dp no_write_refl role)
    next
      case False
      show ?thesis
      proof (cases "?chk r")
        case (Inl y)
        have "UpdateRole_handler i body w r = y"
          unfolding UpdateRole_handler_def \<open>body = Inr dp\<close> dp role by (simp only: sum.case prod.case False if_False Inl)
        then show ?thesis using chk_Inl [OF Inl] by (simp add: no_write_refl)
      next
        case chk: (Inr u)
        let ?w1 = "SetAuditTarget w ''role'' i (role_name x)"
        have run: "UpdateRole_handler i body w r =
           (case UpdateRole (store ?w1) (clock ?w1) i desc ps of Inl e \<Rightarrow> (writeMapped r e, ?w1)
            | Inr s' \<Rightarrow> (ok (case GetRole s' i of Inl _ \<Rightarrow> JNull | Inr x \<Rightarrow> role_json x (Some (role_perms x))),
                  ?w1\<lparr>store := s'\<rparr>))"
          unfolding UpdateRole_handler_def \<open>body = Inr dp\<close> dp role
          by (simp only: sum.case prod.case False if_False chk Let_def)
        show ?thesis unfolding run
        proof (simp add: no_write_refl split: sum.split, intro allI impI)
          fix s'
          assume new: "UpdateRole (store w) (clock ?w1) i desc ps = Inr s'"
          show "rbac_write (ctx_user r) (store w) s'"
            by (rule rbac_write.upd_role_write [OF role False chk_Inr new]) (use chk in simp)
        qed
      qed
    qed
  qed
qed

lemma DeleteRole_handler_write:
  "rbac_write (ctx_user r) (store w) (store (snd (DeleteRole_handler i w r)))"
  unfolding DeleteRole_handler_def Let_def
  by (simp add: no_write_refl split: sum.split) (blast intro: rbac_write.del_role_write)

lemma SetSetting_core: "SetSetting s k v = Inr s' \<Longrightarrow> same_core s s'"
  by (simp add: SetSetting_def query_def split: if_splits) (drule sym, simp add: same_core_def)

lemma opt_setting_core:
  "opt_setting k v s = Inl (e, s') \<Longrightarrow> same_core s s'" "opt_setting k v s = Inr s' \<Longrightarrow> same_core s s'"
  by (auto simp: opt_setting_def SetSetting_core split: option.splits sum.splits)

lemma GetSettings_store: "snd (GetSettings_handler sv w r) = w"
  by (simp add: GetSettings_handler_def Let_def split: sum.split)

lemma UpdateSettings_handler_write:
  "rbac_write (ctx_user r) (store w) (store (snd (UpdateSettings_handler sv body w r)))"
  unfolding UpdateSettings_handler_def
  by (rule rbac_write.no_write, simp split: sum.split prod.split add: GetSettings_store)
     (blast intro: opt_setting_core same_core_trans)

lemma CreateAPIToken_handler_write:
  "rbac_write (ctx_user r) (store w) (store (snd (CreateAPIToken_handler sv rnd tid body w r)))"
  unfolding CreateAPIToken_handler_def Let_def
  by (rule rbac_write.no_write, simp split: sum.split option.split)
     (simp add: CreateAPIToken_def query_def same_core_def)

lemma DeleteAPIToken_handler_write:
  "rbac_write (ctx_user r) (store w) (store (snd (DeleteAPIToken_handler i w r)))"
  unfolding DeleteAPIToken_handler_def
  by (rule rbac_write.no_write, simp split: sum.split option.split)
     (simp add: RevokeAPIToken_def query_def same_core_def Let_def)

lemmas handler_write_facts = CreateUser_handler_write UpdateUser_handler_write
  DeleteUser_handler_write CreateBinding_handler_write DeleteBinding_handler_write
  CreateRole_handler_write UpdateRole_handler_write DeleteRole_handler_write
  UpdateSettings_handler_write CreateAPIToken_handler_write DeleteAPIToken_handler_write

lemma handler_writes: "rbac_write (ctx_user r) (store w) (store (snd (admin_handler sv op w r)))"
  by (cases op) (simp_all only: admin_handler.simps handler_write_facts)

subsection \<open>Gains of a write\<close>

lemma Can_at:
  assumes "Can actor g \<lparr>sc_type = t, sc_id = i\<rparr>" "covers g p"
    and "scopeKey t i \<in> {[], scopeKey (sc_type sc) (sc_id sc)}"
  shows "Can actor p sc"
proof (cases actor)
  case None
  then show ?thesis using assms(1) by simp
next
  case (Some u)
  obtain k S where k: "k \<in> {[], scopeKey t i}" "perms u k = Some S" "permSetGrants S g"
    using assms(1) unfolding Some Can_Some_iff by auto
  have "permSetGrants S p" using k(3) covers_trans [OF _ assms(2)] unfolding permSetGrants_iff by blast
  moreover have "k \<in> {[], scopeKey (sc_type sc) (sc_id sc)}" using k(1) assms(3) by auto
  ultimately show ?thesis unfolding Some Can_Some_iff using k(2) by blast
qed

lemma held_role:
  assumes "\<forall>q \<in> set ps. Can actor q \<lparr>sc_type = t, sc_id = i\<rparr>" "permSetGrants (set ps) p"
    and "scopeKey t i \<in> {[], scopeKey (sc_type sc) (sc_id sc)}"
  shows "Can actor p sc"
  using assms Can_at unfolding permSetGrants_iff by blast

lemma scopeKey_global [simp]: "scopeKey ''global'' i = []"
  by (simp add: scopeKey_def)

lemma held_globally:
  "\<forall>q \<in> set ps. Can actor q global_scope \<Longrightarrow> permSetGrants (set ps) p \<Longrightarrow> Can actor p sc"
  unfolding global_scope_def by (rule held_role) (assumption, assumption, simp add: scopeKey_def)

lemma holds_sub:
  assumes "holds s' j p sc" "set (bindings s') \<subseteq> set (bindings s)"
    and "\<And>b x. b \<in> set (bindings s') \<Longrightarrow> role_at s' b = Some x \<Longrightarrow> role_at s b = Some x"
  shows "holds s j p sc"
  using assms(1) by (rule holdsE) (use assms(2,3) holdsI in blast)

lemma CreateUser_sub:
  "CreateUser s now u = Inr s' \<Longrightarrow> bindings s' = bindings s \<and> role_tab s' = role_tab s
     \<and> ID ` set (users s) \<subseteq> ID ` set (users s')"
  by (drule CreateUser_Inr(1)) (simp add: subset_insertI)

lemma delete_where_subset: "set (delete_where P rs) \<subseteq> set rs"
  by (simp add: delete_where_def)

lemma GetRole_Inr: "GetRole s i = Inr x \<Longrightarrow> find (\<lambda>r. role_id r = i) (role_tab s) = Some x"
  by (simp add: GetRole_def query_def select_one_def split: if_splits option.splits)

lemma find_in_append: "find P (xs @ ys) = (case find P xs of Some x \<Rightarrow> Some x | None \<Rightarrow> find P ys)"
  by (induction xs) simp_all

lemma CreateRole_role_at:
  assumes "CreateRole s now x = Inr s'" "rbac_ok s" "b \<in> set (bindings s)"
  shows "role_at s' b = role_at s b"
proof -
  have "bind_role b \<in> role_id ` set (role_tab s)" using assms(2,3) unfolding rbac_ok_def by blast
  then have "find (\<lambda>r. role_id r = bind_role b) (role_tab s) \<noteq> None" by (simp add: find_key_None)
  then show ?thesis unfolding role_at_def CreateRole_Inr(1) [OF assms(1)] by (auto simp: find_in_append)
qed

interpretation role_upd: keyed_update role_id "\<lambda>r. r\<lparr>role_perms := l, role_updated := now\<rparr>" for l now
  by unfold_locales simp

interpretation role_desc: keyed_update role_id "\<lambda>r. r\<lparr>role_desc := d, role_updated := now\<rparr>" for d now
  by unfold_locales simp

lemma UpdateRole_Inr:
  assumes "UpdateRole s now i desc ps = Inr s'"
  shows "bindings s' = bindings s" "users s' = users s"
    and "find (\<lambda>r. role_id r = k) (role_tab s') = map_option
       (\<lambda>x. (if k = i then (case ps of None \<Rightarrow> (\<lambda>y. y) | Some l \<Rightarrow> (\<lambda>y. y\<lparr>role_perms := l, role_updated := now\<rparr>))
                      \<circ> (case desc of None \<Rightarrow> (\<lambda>y. y) | Some d \<Rightarrow> (\<lambda>y. y\<lparr>role_desc := d, role_updated := now\<rparr>))
             else (\<lambda>y. y)) x) (find (\<lambda>r. role_id r = k) (role_tab s))"
proof -
  let ?d = "\<lambda>s. case desc of None \<Rightarrow> s | Some d \<Rightarrow> upd_role s i (\<lambda>r. r\<lparr>role_desc := d, role_updated := now\<rparr>)"
  let ?p = "\<lambda>s. case ps of None \<Rightarrow> s | Some p \<Rightarrow> upd_role s i (\<lambda>r. r\<lparr>role_perms := p, role_updated := now\<rparr>)"
  have s': "s' = ?p (?d s)"
    using assms unfolding UpdateRole_def query_def Let_def normPerms_def option.case
    by (simp only: sum.inject sum.distinct split: if_splits)
  show "bindings s' = bindings s" "users s' = users s"
    unfolding s' by (simp_all add: upd_role_def split: option.split)
  show "find (\<lambda>r. role_id r = k) (role_tab s') = map_option
       (\<lambda>x. (if k = i then (case ps of None \<Rightarrow> (\<lambda>y. y) | Some l \<Rightarrow> (\<lambda>y. y\<lparr>role_perms := l, role_updated := now\<rparr>))
                      \<circ> (case desc of None \<Rightarrow> (\<lambda>y. y) | Some d \<Rightarrow> (\<lambda>y. y\<lparr>role_desc := d, role_updated := now\<rparr>))
             else (\<lambda>y. y)) x) (find (\<lambda>r. role_id r = k) (role_tab s))"
    unfolding s' by (cases "k = i"; cases ps; cases desc;
      simp add: upd_role_def role_upd.find_update_same role_desc.find_update_same
        role_upd.find_update_other role_desc.find_update_other option.map_comp o_def option.map_ident)
qed

lemma UpdateRole_gives:
  assumes "UpdateRole s now i desc ps = Inr s'" "role_at s' b = Some x'"
  obtains x where "role_at s b = Some x" "role_id x' = role_id x" "role_builtin x' = role_builtin x"
    "role_perms x' = role_perms x \<or> (bind_role b = i \<and> ps = Some (role_perms x'))"
proof -
  let ?f = "(if bind_role b = i then
       (case ps of None \<Rightarrow> (\<lambda>y. y) | Some l \<Rightarrow> (\<lambda>y. y\<lparr>role_perms := l, role_updated := now\<rparr>))
         \<circ> (case desc of None \<Rightarrow> (\<lambda>y. y) | Some d \<Rightarrow> (\<lambda>y. y\<lparr>role_desc := d, role_updated := now\<rparr>))
     else (\<lambda>y. y))"
  obtain x where x: "role_at s b = Some x" "x' = ?f x"
    using assms(2) unfolding role_at_def UpdateRole_Inr(3) [OF assms(1)] map_option_eq_Some
    by (elim exE conjE) blast
  show thesis
    by (rule that [OF x(1)]; cases "bind_role b = i"; cases ps; cases desc; simp add: x(2))
qed

text \<open>A write gives a permission only to who had it, or if the actor of the request has it.\<close>

lemma write_gain:
  assumes "rbac_write actor s s'" "rbac_ok s" "holds s' j p sc"
  shows "holds s j p sc \<or> Can actor p sc"
  using assms
proof (cases rule: rbac_write.cases)
  case no_write
  then show ?thesis using holds_core assms(3) by blast
next
  case (new_user_write now u)
  then show ?thesis using CreateUser_sub [OF new_user_write] assms(3) by (simp add: holds_def role_at_def)
next
  case (del_user_write i)
  have "holds s j p sc"
    by (rule holds_sub [OF assms(3)]; simp add: role_at_def DeleteUser_bindings [OF del_user_write(2)] delete_where_subset)
  then show ?thesis ..
next
  case (bind_write b x)
  note s' = insert_binding_Inr [OF bind_write(3)]
  obtain b' x' where b': "b' \<in> set (bindings s')" "bind_user b' = j" "role_at s' b' = Some x'" "gives b' x' p sc"
    using assms(3) by (rule holdsE)
  have at: "role_at s b' = Some x'" using b'(3) by (simp add: role_at_def s'(1))
  show ?thesis
  proof (cases "b' = b")
    case True
    then have "x' = x" using at GetRole_Inr [OF bind_write(1)] by (simp add: role_at_def)
    then show ?thesis using held_role [OF bind_write(2)] b'(4) True by (simp add: gives_def)
  next
    case False
    then show ?thesis using holdsI [of b' s j x'] b' at s'(1) by simp
  qed
next
  case (unbind_write uid i)
  have "holds s j p sc"
    by (rule holds_sub [OF assms(3)]; simp add: role_at_def DeleteBinding_Inr [OF unbind_write(2)] delete_where_subset)
  then show ?thesis ..
next
  case (new_role_write x now)
  note s' = CreateRole_Inr(1) [OF new_role_write(3)]
  have "holds s j p sc"
    by (rule holds_sub [OF assms(3)])
      (simp add: s', use CreateRole_role_at [OF new_role_write(3) assms(2)] in \<open>simp add: s'\<close>)
  then show ?thesis ..
next
  case (upd_role_write i x ps now desc)
  obtain b x' where b: "b \<in> set (bindings s')" "bind_user b = j" "role_at s' b = Some x'" "gives b x' p sc"
    using assms(3) by (rule holdsE)
  obtain y where y: "role_at s b = Some y"
    "role_perms x' = role_perms y \<or> (bind_role b = i \<and> ps = Some (role_perms x'))"
    using UpdateRole_gives [OF upd_role_write(4) b(3)] by metis
  show ?thesis
  proof (cases "role_perms x' = role_perms y")
    case True
    then have "gives b y p sc" using b(4) by (simp add: gives_def)
    then show ?thesis using holdsI [OF _ b(2) y(1)] b(1) UpdateRole_Inr(1) [OF upd_role_write(4)] by simp
  next
    case False
    then have "\<forall>q \<in> set (role_perms x'). Can actor q global_scope" using upd_role_write(3) y(2) by blast
    then show ?thesis using held_globally b(4) by (simp add: gives_def)
  qed
next
  case (del_role_write i x)
  note s' = DeleteRole_Inr [OF del_role_write(3)]
  have "holds s j p sc"
  proof (rule holds_sub [OF assms(3)])
    show "set (bindings s') \<subseteq> set (bindings s)" by (simp add: s' delete_where_subset)
    fix b y assume "b \<in> set (bindings s')" "role_at s' b = Some y"
    moreover then have "bind_role b \<noteq> i" by (simp add: s' in_delete_where)
    ultimately show "role_at s b = Some y"
      by (simp add: role_at_def s' find_delete_where [where key = role_id])
  qed
  then show ?thesis ..
qed

lemma write_ok: "rbac_write actor s s' \<Longrightarrow> rbac_ok s \<Longrightarrow> rbac_ok s'"
proof (induction rule: rbac_write.induct)
  case (no_write s s')
  then show ?case by (simp add: rbac_ok_core)
next
  case (new_user_write s now u s')
  then show ?case using CreateUser_sub [OF new_user_write(1)] rbac_ok_cong by blast
next
  case (del_user_write s i s')
  then show ?case by (blast intro: rbac_ok_DeleteUser)
next
  case (bind_write s b x s')
  then show ?case by (blast intro: rbac_ok_insert_binding)
next
  case (unbind_write s uid i s')
  then show ?case by (blast intro: rbac_ok_DeleteBinding)
next
  case (new_role_write x s now s')
  then show ?case by (blast intro: rbac_ok_CreateRole)
next
  case (upd_role_write s i x ps now desc s')
  then show ?case by (blast intro: rbac_ok_UpdateRole)
next
  case (del_role_write s i x s')
  then show ?case by (blast intro: rbac_ok_DeleteRole)
qed

subsection \<open>Runs of requests\<close>

text \<open>
  A run of steps, each with an optional actor. When a step gives a right only to who had it or had
  it through the actor, a run gives it only to who had it at the start, or when one of the actors
  had it at the start.
\<close>

fun run_actors :: "('s \<Rightarrow> 'o \<Rightarrow> 's) \<Rightarrow> ('s \<Rightarrow> 'o \<Rightarrow> 'u option) \<Rightarrow> 's \<Rightarrow> 'o list \<Rightarrow> 'u set" where
  "run_actors step actor s [] = {}"
| "run_actors step actor s (x # xs) = set_option (actor s x) \<union> run_actors step actor (step s x) xs"

locale gain_run =
  fixes step :: "'s \<Rightarrow> 'o \<Rightarrow> 's" and actor :: "'s \<Rightarrow> 'o \<Rightarrow> 'u option"
    and can :: "'s \<Rightarrow> 'u \<Rightarrow> 'k \<Rightarrow> bool" and ok :: "'s \<Rightarrow> bool"
  assumes step_ok: "ok s \<Longrightarrow> ok (step s x)"
    and step_gain: "ok s \<Longrightarrow> can (step s x) j k \<Longrightarrow> can s j k \<or> (\<exists>i. actor s x = Some i \<and> can s i k)"
begin

lemma run_gain:
  "ok s \<Longrightarrow> can (foldl step s xs) j k \<Longrightarrow> \<exists>i \<in> insert j (run_actors step actor s xs). can s i k"
proof (induction xs arbitrary: s)
  case Nil
  then show ?case by simp
next
  case (Cons x xs)
  obtain i where i: "i \<in> insert j (run_actors step actor (step s x) xs)" "can (step s x) i k"
    using Cons.IH [OF step_ok [OF Cons.prems(1)]] Cons.prems(2) by auto
  from step_gain [OF Cons.prems(1) i(2)] show ?case
  proof
    assume "can s i k"
    then show ?case using i(1) by auto
  next
    assume "\<exists>i. actor s x = Some i \<and> can s i k"
    then show ?case by auto
  qed
qed

end

text \<open>A request: the time it is served, the request itself and the operation it is routed to.\<close>

type_synonym admin_event = "int \<times> request \<times> admin_op"

definition admin_step :: "(jval \<Rightarrow> string) \<Rightarrow> server \<Rightarrow> world \<Rightarrow> admin_event \<Rightarrow> world" where
  "admin_step enc sv w ev = (case ev of (t, r, op) \<Rightarrow> snd (admin_route enc sv op (w\<lparr>clock := t\<rparr>) r))"

definition event_actor :: "server \<Rightarrow> world \<Rightarrow> admin_event \<Rightarrow> string option" where
  "event_actor sv w ev = (case ev of (t, r, op) \<Rightarrow> actor_of (sdeps sv) (w\<lparr>clock := t\<rparr>) r)"

lemma persistAudit_core: "same_core (store w) (store (persistAudit enc w r rec status))"
  unfolding persistAudit_def InsertAudit_def query_def Let_def
  by (cases "ctx_user r") (simp_all add: same_core_def)

lemma RequireAAL_cases: "RequireAAL nxt w r = nxt w r \<or> store (snd (RequireAAL nxt w r)) = store w"
  unfolding RequireAAL_def Let_def by (simp split: option.split)

lemma RequirePermission_cases:
  "RequirePermission p sf nxt w r = nxt w r \<or> store (snd (RequirePermission p sf nxt w r)) = store w"
  unfolding RequirePermission_def Let_def by (simp split: option.split)

lemma guarded_writes:
  "\<exists>s1. rbac_write (ctx_user r) (store w) s1 \<and> same_core s1 (store (snd (guarded enc sv op w r)))"
proof -
  obtain action perm where g: "admin_guard op = (action, perm)" by (cases "admin_guard op")
  let ?nxt = "case perm of None \<Rightarrow> admin_handler sv op
     | Some p \<Rightarrow> RequireAAL (RequirePermission p None (admin_handler sv op))"
  let ?w0 = "w\<lparr>audit := Some (fresh_audit action)\<rparr>"
  obtain resp w1 where n: "?nxt ?w0 r = (resp, w1)" by (cases "?nxt ?w0 r")
  have "rbac_write (ctx_user r) (store ?w0) (store (snd (?nxt ?w0 r)))"
  proof (cases perm)
    case None
    then show ?thesis using handler_writes [of r ?w0 sv op] by simp
  next
    case (Some p)
    then show ?thesis
      using RequireAAL_cases [of "RequirePermission p None (admin_handler sv op)" ?w0 r]
        RequirePermission_cases [of p None "admin_handler sv op" ?w0 r] handler_writes [of r ?w0 sv op]
      by (elim disjE) (simp_all add: no_write_refl)
  qed
  then have wr: "rbac_write (ctx_user r) (store w) (store w1)" by (simp add: n)
  have "same_core (store w1) (store (snd (guarded enc sv op w r)))"
    unfolding guarded_def g AuditWrap_def prod.case n by (simp add: persistAudit_core)
  then show ?thesis using wr by blast
qed

lemma CSRF_cases: "CSRF d nxt w r = nxt w r \<or> snd (CSRF d nxt w r) = w"
  unfolding CSRF_def Let_def by (simp split: option.split sum.split)

lemma route_cases:
  obtains (refused) "same_core (store w) (store (snd (admin_route enc sv op w r)))"
  | (served) u w1 s2 where "authenticate (sdeps sv) w r = (Inr u, w1)"
      "rbac_write (Some u) (store w1) s2" "same_core s2 (store (snd (admin_route enc sv op w r)))"
proof (cases "bootstrapRequired (store w)")
  case True
  then show thesis using refused by (simp add: admin_route_def bootstrapGate_def)
next
  case False
  obtain res w1 where a: "authenticate (sdeps sv) w r = (res, w1)" by (cases "authenticate (sdeps sv) w r")
  note core = authenticate_core [OF a]
  have route: "admin_route enc sv op w r = BearerOrSession (sdeps sv) (CSRF (sdeps sv) (guarded enc sv op)) w r"
    using False by (simp add: admin_route_def bootstrapGate_def)
  show thesis
  proof (cases res)
    case (Inl e)
    then show thesis using refused core by (simp add: route BearerOrSession_run a)
  next
    case (Inr u)
    let ?r = "r\<lparr>ctx_user := Some u, ctx_bearer := ctx_bearer r \<or> bearerToken r \<noteq> []\<rparr>"
    have run: "admin_route enc sv op w r = CSRF (sdeps sv) (guarded enc sv op) w1 ?r"
      by (simp add: route BearerOrSession_run a Inr)
    from CSRF_cases [of "sdeps sv" "guarded enc sv op" w1 ?r] show thesis
    proof
      assume c: "CSRF (sdeps sv) (guarded enc sv op) w1 ?r = guarded enc sv op w1 ?r"
      obtain s2 where "rbac_write (ctx_user ?r) (store w1) s2"
        "same_core s2 (store (snd (guarded enc sv op w1 ?r)))"
        using guarded_writes [of ?r w1 enc sv op] by blast
      then show thesis using served [OF a [unfolded Inr]] by (simp add: run c)
    next
      assume "snd (CSRF (sdeps sv) (guarded enc sv op) w1 ?r) = w1"
      then show thesis using refused core by (simp add: run)
    qed
  qed
qed

lemma step_refused_or_served:
  obtains (refused) "same_core (store w) (store (admin_step enc sv w ev))"
  | (served) u w1 s2 t r op where "ev = (t, r, op)" "authenticate (sdeps sv) (w\<lparr>clock := t\<rparr>) r = (Inr u, w1)"
      "rbac_write (Some u) (store w1) s2" "same_core s2 (store (admin_step enc sv w ev))"
proof -
  obtain t r op where ev: "ev = (t, r, op)" by (cases ev)
  show thesis
    by (cases rule: route_cases [of "w\<lparr>clock := t\<rparr>" enc sv op r])
      (use refused served [OF ev] in \<open>simp_all add: admin_step_def ev\<close>)
qed

lemma admin_step_ok: "rbac_ok (store w) \<Longrightarrow> rbac_ok (store (admin_step enc sv w ev))"
proof (cases rule: step_refused_or_served [of w enc sv ev])
  case refused
  assume "rbac_ok (store w)"
  then show ?thesis by (simp add: rbac_ok_core [OF refused])
next
  case (served u w1 s2 t r op)
  assume "rbac_ok (store w)"
  then have "rbac_ok (store w1)" using rbac_ok_core [OF authenticate_core [OF served(2)]] by simp
  then show ?thesis using write_ok [OF served(3)] rbac_ok_core [OF served(4)] by simp
qed

lemma admin_step_gain:
  assumes ok: "rbac_ok (store w)" and h: "holds (store (admin_step enc sv w ev)) j p sc"
  shows "holds (store w) j p sc \<or> (\<exists>i. event_actor sv w ev = Some i \<and> holds (store w) i p sc)"
proof (cases rule: step_refused_or_served [of w enc sv ev])
  case refused
  then show ?thesis using holds_core [OF refused] h by simp
next
  case (served u w1 s2 t r op)
  note core = authenticate_core [OF served(2)]
  have "rbac_ok (store w1)" using rbac_ok_core [OF core] ok by simp
  moreover have "holds s2 j p sc" using h holds_core [OF served(4)] by simp
  ultimately have "holds (store w1) j p sc \<or> Can (Some u) p sc" using write_gain [OF served(3)] by blast
  then show ?thesis
  proof
    assume "holds (store w1) j p sc"
    then show ?thesis using holds_core [OF core] by simp
  next
    assume "Can (Some u) p sc"
    then have "holds (store w) (ID (row u)) p sc" using authenticate_holds [OF served(2)] by simp
    then show ?thesis by (simp add: event_actor_def served(1) actor_of_def served(2))
  qed
qed

interpretation admin: gain_run "admin_step enc sv" "event_actor sv"
    "\<lambda>w i k. user_can (store w) i (fst k) (snd k)" "\<lambda>w. rbac_ok (store w)" for enc sv
proof
  show "rbac_ok (store (admin_step enc sv w ev))" if "rbac_ok (store w)" for w ev
    using that by (rule admin_step_ok)
  show "user_can (store w) j (fst k) (snd k)
      \<or> (\<exists>i. event_actor sv w ev = Some i \<and> user_can (store w) i (fst k) (snd k))"
    if "rbac_ok (store w)" "user_can (store (admin_step enc sv w ev)) j (fst k) (snd k)" for w ev j k
    using that admin_step_gain [of w enc sv ev j "fst k" "snd k"]
    by (simp add: user_can_holds admin_step_ok)
qed

text \<open>C39. No run of administration requests - users, roles, bindings, settings and API tokens
  created, changed and deleted through the guarded routes, by sessions or API tokens, in any order -
  lets a user do at some scope what neither he nor the author of some request of the run could do
  there before the run.\<close>

theorem no_escalation:
  assumes "rbac_ok (store w)"
    and "user_can (store (foldl (admin_step enc sv) w evs)) j p sc"
  shows "\<exists>i \<in> insert j (run_actors (admin_step enc sv) (event_actor sv) w evs). user_can (store w) i p sc"
  using admin.run_gain [of w enc sv evs j "(p, sc)"] assms by simp

subsection \<open>A concrete installation\<close>

definition rbac_user :: "string \<Rightarrow> string \<Rightarrow> user_row" where
  "rbac_user i n =
     \<lparr>ID = i, Username = n, Email = [], PasswordHash = ''argon'', TOTPSecretEnc = [],
      TOTPEnabled = False, TOTPConfirmedAt = None, IsActive = True, MustChangePW = False,
      FailedLogins = 0, LockedUntil = None, LastLoginAt = None, AuthSource = ''local'',
      ExternalID = [], ExternalProviderID = [], CreatedAt = 0, UpdatedAt = 0\<rparr>"

definition rbac_binding :: "string \<Rightarrow> string \<Rightarrow> string \<Rightarrow> binding_row" where
  "rbac_binding b u x = \<lparr>bind_id = b, bind_user = u, bind_role = x,
     bind_scope_type = ''global'', bind_scope_id = [], bind_created = 0\<rparr>"

definition rbac_role :: "string \<Rightarrow> bool \<Rightarrow> string list \<Rightarrow> role_row" where
  "rbac_role i b ps = \<lparr>role_id = i, role_name = i, role_desc = [], role_builtin = b, role_perms = ps,
     role_created = 0, role_updated = 0\<rparr>"

definition rbac_token :: "string \<Rightarrow> string \<Rightarrow> token_row" where
  "rbac_token i u = \<lparr>tok_id = i, tok_name = i, tok_user = u, TokenHash = CHR ''#'' # i,
     tok_perms = [''*''], tok_expires = None, tok_last_used = None, tok_revoked = None, tok_created = 0\<rparr>"

text \<open>Two administrators and a third user without a role.\<close>

definition rbac_db :: db where
  "rbac_db =
     \<lparr>users = [rbac_user ''u1'' ''ann'', rbac_user ''u2'' ''bob'', rbac_user ''u3'' ''cat''], sessions = [],
      role_tab = [rbac_role ''role-admin'' True [''*''], rbac_role ''ops'' False [''vm.read'']],
      bindings = [rbac_binding ''b1'' ''u1'' ''role-admin'', rbac_binding ''b2'' ''u2'' ''role-admin''],
      tokens = [rbac_token ''t1'' ''u1''], recovery = [], settings = [''bootstrap.completed'' \<mapsto> ''true''],
      audit_log = [], auth_providers = [], group_maps = [], oidc_states = [], broken = {}\<rparr>"

definition rbac_world :: world where
  "rbac_world = \<lparr>store = rbac_db, clock = 100, audit = None\<rparr>"

definition rbac_server :: server where
  "rbac_server = \<lparr>sdeps = \<lparr>AllowedOrigins = [], SessionTTL = 600 * second, SessionAbsoluteTTL = 3600 * second,
       hash_hex = Cons (CHR ''#''), url_parse = (\<lambda>_. None)\<rparr>,
     verify = (\<lambda>pw h. Some (pw = h)), open_secret = (\<lambda>s. Some s), validate_totp = (\<lambda>c s t. c = s),
     BootstrapToken = []\<rparr>"

text \<open>A request with the API token of the first administrator.\<close>

definition rbac_request :: "string \<Rightarrow> request" where
  "rbac_request m =
     \<lparr>Method = m, Headers = [''Authorization'' \<mapsto> ''Bearer t1''], Cookies = Map.empty, Host = ''h'',
      RemoteAddr = ''ip'', ctx_user = None, ctx_bearer = False, ctx_request_id = ''q''\<rparr>"

definition bind_event :: admin_event where
  "bind_event = (200, rbac_request ''POST'', ACreateBinding ''b3'' ''u3''
     (Inr \<lparr>cb_role = ''ops'', cb_scope_type = ''host'', cb_scope_id = ''h1''\<rparr>))"

definition delete_event :: "string \<Rightarrow> admin_event" where
  "delete_event i = (200, rbac_request ''DELETE'', ADeleteUser i)"

theorem no_escalation_witness:
  "\<exists>i \<in> insert ''u3'' (run_actors (admin_step json_enc rbac_server) (event_actor rbac_server) rbac_world [bind_event]).
     user_can rbac_db i ''vm.read'' \<lparr>sc_type = ''host'', sc_id = ''h1''\<rparr>"
proof -
  have ok: "rbac_ok (store rbac_world)" by code_simp
  have can: "user_can (store (foldl (admin_step json_enc rbac_server) rbac_world [bind_event])) ''u3'' ''vm.read''
     \<lparr>sc_type = ''host'', sc_id = ''h1''\<rparr>" by code_simp
  have st: "store rbac_world = rbac_db" by (simp add: rbac_world_def)
  show ?thesis using no_escalation [OF ok can] unfolding st .
qed

subsection \<open>The last administrator\<close>

definition admin_binding :: "binding_row \<Rightarrow> bool" where
  "admin_binding b \<longleftrightarrow> bind_role b = RoleIDAdmin \<and> bind_scope_type b = ''global''"

text \<open>No user has two global bindings of the administrator role.\<close>

definition single_admin :: "db \<Rightarrow> bool" where
  "single_admin s \<longleftrightarrow> distinct (map bind_user (filter admin_binding (bindings s)))"

text \<open>Somebody is a global administrator, and the administrator role is built in.\<close>

definition has_admin :: "db \<Rightarrow> bool" where
  "has_admin s \<longleftrightarrow> (\<exists>b \<in> set (bindings s). admin_binding b)
     \<and> (case find (\<lambda>r. role_id r = RoleIDAdmin) (role_tab s) of None \<Rightarrow> False | Some x \<Rightarrow> role_builtin x)"

definition guard_queries :: "string set" where
  "guard_queries = {''UserHasGlobalRole'', ''CountAdminBindings''}"

lemma distinct_other:
  assumes "distinct (map f L)" "2 \<le> length L"
  shows "\<exists>x \<in> set L. f x \<noteq> u"
proof -
  obtain a b M where L: "L = a # b # M" using assms(2) by (cases L; cases "tl L") auto
  then have "f a \<noteq> f b" using assms(1) by simp
  then show ?thesis using L by (cases "f a = u") auto
qed

lemma other_admin:
  assumes "\<not> last_admin s i" "has_admin s" "single_admin s" "guard_queries \<inter> broken s = {}"
  shows "(\<exists>b \<in> set (bindings s). admin_binding b \<and> bind_user b \<noteq> i)"
proof -
  let ?L = "filter admin_binding (bindings s)"
  have q: "''UserHasGlobalRole'' \<notin> broken s" "''CountAdminBindings'' \<notin> broken s"
    using assms(4) by (auto simp: guard_queries_def)
  have adm: "admin_binding = (\<lambda>b. bind_role b = RoleIDAdmin \<and> bind_scope_type b = ''global'')"
    by (rule ext) (simp add: admin_binding_def)
  have count: "CountAdminBindings s RoleIDAdmin = Inr (int (length ?L))"
    using q by (simp add: CountAdminBindings_def query_def adm)
  have is_adm: "UserHasGlobalRole s i RoleIDAdmin = Inr (\<exists>b \<in> set (bindings s). bind_user b = i \<and> admin_binding b)"
    using q by (simp add: UserHasGlobalRole_def query_def adm)
  have "\<not> (\<exists>b \<in> set ?L. bind_user b = i) \<or> 2 \<le> length ?L"
  proof (cases "\<exists>b \<in> set (bindings s). bind_user b = i \<and> admin_binding b")
    case True
    then have "\<not> int (length ?L) \<le> 1" using assms(1) by (simp add: last_admin_def count is_adm)
    then show ?thesis by simp
  next
    case False
    then show ?thesis by auto
  qed
  then have "\<exists>b \<in> set ?L. bind_user b \<noteq> i"
  proof
    assume "\<not> (\<exists>b \<in> set ?L. bind_user b = i)"
    then show ?thesis using assms(2) by (auto simp: has_admin_def)
  next
    assume "2 \<le> length ?L"
    then show ?thesis using assms(3) distinct_other [of bind_user ?L i] by (simp only: single_admin_def)
  qed
  then show ?thesis by auto
qed

lemma admin_other_user:
  assumes "has_admin s" "\<exists>b \<in> set (bindings s). admin_binding b \<and> bind_user b \<noteq> i"
    and "role_tab s' = role_tab s" "set (bindings s) \<subseteq> set (bindings s') \<union> {b. bind_user b = i}"
  shows "has_admin s'"
  using assms unfolding has_admin_def by auto

lemma admin_role_id: "has_admin s \<Longrightarrow> GetRole s i = Inr x \<Longrightarrow> \<not> role_builtin x \<Longrightarrow> i \<noteq> RoleIDAdmin"
  by (drule GetRole_Inr) (auto simp: has_admin_def)

lemma write_admin:
  assumes "rbac_write actor s s'" "has_admin s" "single_admin s" "guard_queries \<inter> broken s = {}"
  shows "has_admin s'"
  using assms(1)
proof (cases rule: rbac_write.cases)
  case no_write
  then show ?thesis using assms(2) by (simp add: same_core_def has_admin_def)
next
  case (new_user_write now u)
  then show ?thesis using CreateUser_sub [OF new_user_write] assms(2) by (simp add: has_admin_def)
next
  case (del_user_write i)
  show ?thesis
    by (rule admin_other_user [OF assms(2) other_admin [OF del_user_write(1) assms(2-4)]])
      (auto simp: DeleteUser_bindings [OF del_user_write(2)] in_delete_where)
next
  case (bind_write b x)
  show ?thesis using assms(2) unfolding insert_binding_Inr(1) [OF bind_write(3)] by (auto simp: has_admin_def)
next
  case (unbind_write uid i)
  show ?thesis
    by (rule admin_other_user [OF assms(2) other_admin [OF unbind_write(1) assms(2-4)]])
      (auto simp: DeleteBinding_Inr [OF unbind_write(2)] in_delete_where)
next
  case (new_role_write x now)
  then show ?thesis using CreateRole_Inr(1) [OF new_role_write(3)] assms(2)
    by (simp add: has_admin_def find_in_append split: option.splits)
next
  case (upd_role_write i x ps now desc)
  have "i \<noteq> RoleIDAdmin" by (rule admin_role_id [OF assms(2) upd_role_write(1,2)])
  then show ?thesis
    using assms(2) UpdateRole_Inr(1) [OF upd_role_write(4)] UpdateRole_Inr(3) [OF upd_role_write(4), of RoleIDAdmin]
    by (simp add: has_admin_def option.map_ident)
next
  case (del_role_write i x)
  note s' = DeleteRole_Inr [OF del_role_write(3)]
  have i: "i \<noteq> RoleIDAdmin" by (rule admin_role_id [OF assms(2) del_role_write(1,2)])
  have "find (\<lambda>r. role_id r = RoleIDAdmin) (role_tab s') = find (\<lambda>r. role_id r = RoleIDAdmin) (role_tab s)"
    unfolding s' by (rule find_delete_where) (use i in simp)
  moreover have "\<exists>b \<in> set (bindings s'). admin_binding b"
    using assms(2) i unfolding s' has_admin_def by (auto simp: in_delete_where admin_binding_def)
  ultimately show ?thesis using assms(2) by (simp add: has_admin_def)
qed

lemma broken_upd_role [simp]: "broken (upd_role s i f) = broken s"
  by (simp add: upd_role_def)

lemma write_broken: "rbac_write actor s s' \<Longrightarrow> broken s' = broken s"
proof (induction rule: rbac_write.induct)
  case (no_write s s')
  then show ?case by (simp add: same_core_def)
next
  case (new_user_write s now u s')
  show ?case unfolding CreateUser_Inr(1) [OF new_user_write] by simp
next
  case (del_user_write s i s')
  then show ?case by (auto simp: DeleteUser_def query_def split: if_splits)
next
  case (bind_write s b x s')
  show ?case unfolding insert_binding_Inr(1) [OF bind_write(3)] by simp
next
  case (unbind_write s uid i s')
  show ?case unfolding DeleteBinding_Inr [OF unbind_write(2)] by simp
next
  case (new_role_write x s now s')
  show ?case unfolding CreateRole_Inr(1) [OF new_role_write(3)] by simp
next
  case (upd_role_write s i x ps now desc s')
  then show ?case by (auto simp: UpdateRole_def query_def Let_def split: if_splits option.splits)
next
  case (del_role_write s i x s')
  then show ?case by (auto simp: DeleteRole_def query_def split: if_splits)
qed

lemma core_admin: "same_core s s' \<Longrightarrow> has_admin s' = has_admin s \<and> single_admin s' = single_admin s
    \<and> broken s' = broken s"
  by (simp add: same_core_def has_admin_def single_admin_def)

lemma admin_step_admin:
  assumes "has_admin (store w)" "single_admin (store w)" "guard_queries \<inter> broken (store w) = {}"
  shows "has_admin (store (admin_step enc sv w ev)) \<and> broken (store (admin_step enc sv w ev)) = broken (store w)"
proof (cases rule: step_refused_or_served [of w enc sv ev])
  case refused
  then show ?thesis using core_admin [OF refused] assms(1) by simp
next
  case (served u w1 s2 t r op)
  note c1 = core_admin [OF authenticate_core [OF served(2)]] and c2 = core_admin [OF served(4)]
  have "has_admin s2" by (rule write_admin [OF served(3)]) (use c1 assms in simp_all)
  then show ?thesis using c1 c2 write_broken [OF served(3)] by simp
qed

text \<open>The worlds that requests lead to while no user has two administrator bindings.\<close>

inductive admin_reach :: "(jval \<Rightarrow> string) \<Rightarrow> server \<Rightarrow> world \<Rightarrow> world \<Rightarrow> bool" for enc sv w where
  start: "admin_reach enc sv w w"
| request: "admin_reach enc sv w w' \<Longrightarrow> single_admin (store w') \<Longrightarrow> admin_reach enc sv w (admin_step enc sv w' ev)"

lemma reach_admin:
  "admin_reach enc sv w w' \<Longrightarrow> has_admin (store w) \<Longrightarrow> guard_queries \<inter> broken (store w) = {}
     \<Longrightarrow> has_admin (store w') \<and> broken (store w') = broken (store w)"
proof (induction rule: admin_reach.induct)
  case start
  then show ?case by simp
next
  case (request w' ev)
  then show ?case using admin_step_admin [of w' enc sv ev] by simp
qed

text \<open>C40. The last administrator stays: whatever administration requests are served, as long as no
  user has two global bindings of the administrator role when a request arrives and the two queries
  of the guard answer, there is a global administrator binding, of a role that is still built in.\<close>

theorem last_admin_stays:
  assumes "admin_reach enc sv w w'" "has_admin (store w)" "guard_queries \<inter> broken (store w) = {}"
  shows "has_admin (store w')"
  using reach_admin [OF assms] by simp

theorem last_admin_stays_witness:
  "has_admin (store (admin_step json_enc rbac_server (admin_step json_enc rbac_server rbac_world
     (delete_event ''u2'')) (delete_event ''u1'')))"
proof -
  let ?w1 = "admin_step json_enc rbac_server rbac_world (delete_event ''u2'')"
  have single: "single_admin (store rbac_world)" "single_admin (store ?w1)" by code_simp+
  have reach: "admin_reach json_enc rbac_server rbac_world
      (admin_step json_enc rbac_server ?w1 (delete_event ''u1''))"
    by (intro admin_reach.request admin_reach.start single)
  have init: "has_admin (store rbac_world)" "guard_queries \<inter> broken (store rbac_world) = {}"
    by code_simp (simp add: rbac_world_def rbac_db_def)
  show ?thesis by (rule last_admin_stays [OF reach init])
qed

text \<open>
  Without that condition the guard fails: the unique key of a binding does not see an absent scope
  id, so a user can be bound twice as global administrator, and deleting him then leaves none.
\<close>

definition double_db :: db where
  "double_db = rbac_db\<lparr>bindings := [rbac_binding ''b2'' ''u2'' ''role-admin'', rbac_binding ''b4'' ''u2'' ''role-admin''],
     role_tab := role_tab rbac_db @ [rbac_role ''root'' False [''*'']]\<rparr>"

lemma double_admin_lost:
  "CreateBinding (double_db\<lparr>bindings := [rbac_binding ''b2'' ''u2'' ''role-admin'']\<rparr>) 0
       (rbac_binding ''b4'' ''u2'' ''role-admin'') = Inr double_db"
  "\<not> last_admin double_db ''u2''"
  "\<not> has_admin (store (snd (DeleteUser_handler ''u2'' (rbac_world\<lparr>store := double_db\<rparr>) (rbac_request ''DELETE''))))"
  by (simp add: double_db_def rbac_db_def CreateBinding_def query_def insert_binding_def binding_conflict_def
      rbac_binding_def rbac_user_def rbac_role_def) code_simp+

subsection \<open>Roles grant known permissions\<close>

definition roles_known :: "db \<Rightarrow> bool" where
  "roles_known s \<longleftrightarrow> (\<forall>x \<in> set (role_tab s). \<forall>q \<in> set (role_perms x). known_permission q)"

lemma roles_known_update:
  assumes "roles_known s" "\<And>x q. x \<in> set (role_tab s) \<Longrightarrow> P x \<Longrightarrow> q \<in> set (role_perms (f x)) \<Longrightarrow> known_permission q"
    and "role_tab s' = update_where P f (role_tab s)"
  shows "roles_known s'"
  using assms(1,2) unfolding roles_known_def assms(3) by (auto simp: in_update_where)

lemma roles_known_upd_role:
  assumes "roles_known s" "\<And>x q. x \<in> set (role_tab s) \<Longrightarrow> q \<in> set (role_perms (f x)) \<Longrightarrow> known_permission q"
  shows "roles_known (upd_role s i f)"
  by (rule roles_known_update [OF assms(1)]) (use assms(2) in \<open>simp_all add: upd_role_def\<close>)

lemma roles_knownD: "roles_known s \<Longrightarrow> x \<in> set (role_tab s) \<Longrightarrow> q \<in> set (role_perms x) \<Longrightarrow> known_permission q"
  unfolding roles_known_def by blast

lemma UpdateRole_known:
  assumes "UpdateRole s now i desc ps = Inr s'" "roles_known s" "\<forall>l. ps = Some l \<longrightarrow> (\<forall>q \<in> set l. known_permission q)"
  shows "roles_known s'"
proof -
  let ?d = "\<lambda>s. case desc of None \<Rightarrow> s | Some d \<Rightarrow> upd_role s i (\<lambda>r. r\<lparr>role_desc := d, role_updated := now\<rparr>)"
  let ?p = "\<lambda>s. case ps of None \<Rightarrow> s | Some p \<Rightarrow> upd_role s i (\<lambda>r. r\<lparr>role_perms := p, role_updated := now\<rparr>)"
  have s': "s' = ?p (?d s)"
    using assms(1) unfolding UpdateRole_def query_def Let_def normPerms_def option.case
    by (simp only: sum.inject sum.distinct split: if_splits)
  have d: "roles_known (?d s)"
    by (cases desc) (simp add: assms(2), simp, rule roles_known_upd_role [OF assms(2)], simp add: roles_knownD [OF assms(2)])
  show ?thesis
    unfolding s' by (cases ps) (simp add: d, simp, rule roles_known_upd_role [OF d], use assms(3) in simp)
qed

lemma write_known:
  assumes "rbac_write actor s s'" "roles_known s"
  shows "roles_known s'"
  using assms(1)
proof (cases rule: rbac_write.cases)
  case no_write
  then show ?thesis using assms(2) by (simp add: same_core_def roles_known_def)
next
  case (new_user_write now u)
  then show ?thesis using CreateUser_sub [OF new_user_write] assms(2) by (simp add: roles_known_def)
next
  case (del_user_write i)
  then show ?thesis using DeleteUser_bindings [OF del_user_write(2)] assms(2) by (simp add: roles_known_def)
next
  case (bind_write b x)
  show ?thesis using assms(2) unfolding insert_binding_Inr(1) [OF bind_write(3)] by (simp add: roles_known_def)
next
  case (unbind_write uid i)
  show ?thesis using assms(2) unfolding DeleteBinding_Inr [OF unbind_write(2)] by (simp add: roles_known_def)
next
  case (new_role_write x now)
  show ?thesis using assms(2) new_role_write(2) unfolding CreateRole_Inr(1) [OF new_role_write(3)]
    by (simp add: roles_known_def)
next
  case (upd_role_write i x ps now desc)
  show ?thesis by (rule UpdateRole_known [OF upd_role_write(4) assms(2)]) (use upd_role_write(3) in blast)
next
  case (del_role_write i x)
  show ?thesis
    unfolding roles_known_def DeleteRole_Inr(1) [OF del_role_write(3)]
    by (intro ballI) (rule roles_knownD [OF assms(2)], simp_all add: in_delete_where)
qed

lemma core_known: "same_core s s' \<Longrightarrow> roles_known s' = roles_known s"
  by (simp add: same_core_def roles_known_def)

lemma admin_step_known: "roles_known (store w) \<Longrightarrow> roles_known (store (admin_step enc sv w ev))"
proof (cases rule: step_refused_or_served [of w enc sv ev])
  case refused
  assume "roles_known (store w)"
  then show ?thesis by (simp add: core_known [OF refused])
next
  case (served u w1 s2 t r op)
  assume "roles_known (store w)"
  then have "roles_known (store w1)" using core_known [OF authenticate_core [OF served(2)]] by simp
  then show ?thesis using write_known [OF served(3)] core_known [OF served(4)] by simp
qed

interpretation known: run_invariant "admin_step enc sv" "\<lambda>_. True" "\<lambda>w. roles_known (store w)" for enc sv
  by unfold_locales (rule admin_step_known)

text \<open>The seeded permissions, as positions in the catalog.\<close>

lemma seeded_positions:
  "AllReadPermissions = map ((!) permissionCatalog)
     [1, 13, 16, 18, 22, 23, 24, 30, 32, 34, 35, 36, 42, 44, 46, 47, 48, 50, 51, 53, 55, 70,
      74, 71, 73, 72, 75, 95, 97, 99, 103, 104, 105, 107, 108]"
  "operatorExtraPermissions = map ((!) permissionCatalog)
     [2, 3, 4, 5, 6, 8, 9, 10, 14, 20, 26, 27, 31, 33, 37, 38, 39, 43, 49, 52, 54, 56, 57, 58,
      76, 77, 78, 79, 80, 81, 85, 86, 88, 89, 90, 91, 92, 93, 96, 98, 101]"
  by (simp_all add: AllReadPermissions_def operatorExtraPermissions_def permissionCatalog_def)

lemma length_catalog: "length permissionCatalog = 119"
  by (simp add: permissionCatalog_def)

lemma seeded_known:
  "\<forall>q \<in> set AllReadPermissions. known_permission q" "\<forall>q \<in> set operatorExtraPermissions. known_permission q"
  "known_permission ''*''"
  by (simp_all add: seeded_positions known_permission_def length_catalog) (simp add: permissionCatalog_def)

lemma seedRole_known:
  assumes "seedRole s i n d b ps now = Inr s'" "roles_known s" "\<forall>q \<in> set ps. known_permission q"
  shows "roles_known s'"
proof -
  consider "s' = s\<lparr>role_tab := update_where (\<lambda>r. role_id r = i \<and> role_builtin r)
               (\<lambda>r. r\<lparr>role_perms := ps, role_desc := d, role_updated := now\<rparr>) (role_tab s)\<rparr>"
    | "s' = s\<lparr>role_tab := role_tab s @ [\<lparr>role_id = i, role_name = n, role_desc = d,
             role_builtin = b, role_perms = ps, role_created = now, role_updated = now\<rparr>]\<rparr>"
    using assms(1) unfolding seedRole_def query_def
    by (auto simp only: sum.inject sum.distinct split: if_splits)
  then show ?thesis
  proof cases
    case 1
    show ?thesis by (rule roles_known_update [OF assms(2)]) (use assms(3) 1 in simp_all)
  next
    case 2
    then show ?thesis using assms(2,3) by (simp add: roles_known_def)
  qed
qed

lemma seed_settings_roles: "seed_settings kvs s = Inr s' \<Longrightarrow> role_tab s' = role_tab s"
proof (induction kvs s rule: seed_settings.induct)
  case (1 s)
  then show ?case by simp
next
  case (2 k v kvs s)
  then obtain s1 where s1: "seedSettingIfMissing s k v = Inr s1" "seed_settings kvs s1 = Inr s'"
    by (auto simp: then_db_Inr)
  have "role_tab s1 = role_tab s"
    using s1(1) by (auto simp: seedSettingIfMissing_def query_def split: if_splits)
  then show ?case using 2(1) s1(2) by simp
qed

lemma Seed_known:
  assumes "Seed s now uuid = Inr s'" "roles_known s"
  shows "roles_known s'"
proof -
  obtain s1 where s1: "seed_roles builtin_roles now s = Inr s1" "seed_settings (default_settings uuid) s1 = Inr s'"
    using assms(1) by (auto simp: Seed_def then_db_Inr)
  obtain sa sb where "seedRole s RoleIDAdmin (fst (snd (builtin_roles ! 0))) (fst (snd (snd (builtin_roles ! 0)))) True [''*''] now = Inr sa"
    "seedRole sa RoleIDOperator (fst (snd (builtin_roles ! 1))) (fst (snd (snd (builtin_roles ! 1)))) True
       (AllReadPermissions @ operatorExtraPermissions) now = Inr sb"
    "seedRole sb RoleIDViewer (fst (snd (builtin_roles ! 2))) (fst (snd (snd (builtin_roles ! 2)))) True
       AllReadPermissions now = Inr s1"
    using s1(1) unfolding builtin_roles_def by (auto simp: then_db_Inr)
  note run = this
  have "roles_known sa" by (rule seedRole_known [OF run(1) assms(2)]) (simp add: seeded_known(3))
  then have "roles_known sb" by (rule seedRole_known [OF run(2)]) (use seeded_known in auto)
  then have "roles_known s1" by (rule seedRole_known [OF run(3)]) (rule seeded_known)
  then show ?thesis using seed_settings_roles [OF s1(2)] by (simp add: roles_known_def)
qed

text \<open>C17. Every role of an installation is well-formed: once the store is seeded, and after any run
  of administration requests on it, each role grants only permissions of the catalog and wildcards
  over them, provided the roles that were there before the seeding do.\<close>

theorem roles_stay_known:
  assumes "Seed s now uuid = Inr s'" "roles_known s" "store w = s'"
  shows "roles_known (store (foldl (admin_step enc sv) w evs))"
  by (rule known.run_inv) (simp_all add: assms(3) Seed_known [OF assms(1,2)] list_all_iff)

definition create_role_event :: "string list \<Rightarrow> admin_event" where
  "create_role_event ps = (300, rbac_request ''POST'', ACreateRole ''r9''
     (Inr \<lparr>cr_name = ''r9'', cr_desc = [], cr_perms = Some ps\<rparr>))"

definition blank_db :: db where
  "blank_db = rbac_db\<lparr>role_tab := []\<rparr>"

theorem roles_stay_known_witness:
  "\<exists>s'. Seed blank_db 5 ''uuid'' = Inr s'
     \<and> roles_known (store (foldl (admin_step json_enc rbac_server) (rbac_world\<lparr>store := s'\<rparr>)
           [create_role_event [''vm.*'', ''docker.image.pull'']]))"
proof -
  have "case Seed blank_db 5 ''uuid'' of Inl _ \<Rightarrow> False | Inr _ \<Rightarrow> True" by code_simp
  then obtain s' where s': "Seed blank_db 5 ''uuid'' = Inr s'" by (cases "Seed blank_db 5 ''uuid''") simp_all
  have k: "roles_known blank_db" by (simp add: roles_known_def blank_db_def)
  have w: "store (rbac_world\<lparr>store := s'\<rparr>) = s'" by simp
  show ?thesis by (intro exI [of _ s'] conjI s' roles_stay_known [OF s' k w])
qed

subsection \<open>The lifetime that is stored is the one that is used\<close>

lemma clamp_range:
  assumes "absolute < 2 ^ 63" "absolute \<le> 0 \<or> minSessionTTL \<le> absolute"
  shows "300 \<le> clampSessionTTLSeconds v absolute"
    and "clampSessionTTLSeconds v absolute * second \<le> (if absolute \<le> 0 then defaultAbsoluteTTL else absolute)"
proof -
  have c: "(if go_div absolute second \<le> 0 then defaultAbsoluteTTLSeconds else go_div absolute second)
     = (if absolute \<le> 0 then 86400 else absolute div second)"
  proof (cases "absolute \<le> 0")
    case True
    then have "go_div absolute second \<le> 0"
      using pos_imp_zdiv_nonneg_iff [of second "- absolute"] by (simp add: go_div_def sgn_if)
    then show ?thesis using True by (simp add: defaultAbsoluteTTLSeconds_def)
  next
    case False
    then have "300 * second \<le> absolute" using assms(2) by (simp add: minSessionTTL_def)
    then have "0 < absolute div second" by linarith
    then show ?thesis using False by (simp add: go_div_pos)
  qed
  have m: "\<not> absolute \<le> 0 \<Longrightarrow> 300 \<le> absolute div second"
    using assms(2) by (simp add: minSessionTTL_def)
  have e: "clampSessionTTLSeconds v absolute =
     min (if absolute \<le> 0 then 86400 else absolute div second) (max v 300)"
    unfolding clampSessionTTLSeconds_def Let_def c sessionTTLFloorSeconds_def by simp
  show "300 \<le> clampSessionTTLSeconds v absolute" unfolding e using m by simp
  have "absolute div second * second \<le> absolute" by simp
  then show "clampSessionTTLSeconds v absolute * second \<le> (if absolute \<le> 0 then defaultAbsoluteTTL else absolute)"
    unfolding e defaultAbsoluteTTL_def by (cases "absolute \<le> 0") (simp_all add: min_def max_def)
qed

lemma stored_lifetime:
  assumes abs: "SessionAbsoluteTTL d < 2 ^ 63" "minSessionTTL \<le> absoluteTTL d"
    and stored: "GetSetting s ''session.ttl_seconds'' = Inr (itoa (clampSessionTTLSeconds v (SessionAbsoluteTTL d)))"
  shows "slidingTTL d s = clampSessionTTLSeconds v (SessionAbsoluteTTL d) * second"
proof -
  let ?c = "clampSessionTTLSeconds v (SessionAbsoluteTTL d)"
  have pre: "SessionAbsoluteTTL d \<le> 0 \<or> minSessionTTL \<le> SessionAbsoluteTTL d"
    using abs(2) by (simp add: absoluteTTL_def split: if_splits)
  note r = clamp_range [OF abs(1) pre, of v]
  have top: "?c * second \<le> absoluteTTL d" using r(2) by (simp add: absoluteTTL_def split: if_splits)
  have lim: "absoluteTTL d < 2 ^ 63" using abs(1) by (simp add: absoluteTTL_def defaultAbsoluteTTL_def)
  have "atoi (itoa ?c) = Some ?c" by (rule atoi_itoa) (use r(1) top lim in linarith)+
  moreover have "wrap64 (?c * second) = ?c * second" by (rule wrap64_id) (use r(1) top lim in linarith)+
  ultimately show ?thesis
    using r(1) top by (simp add: slidingTTL_def Let_def GetSettingDefault_def stored minSessionTTL_def)
qed

lemma opt_setting_get:
  assumes "opt_setting k v s = Inr s'" "''GetSetting'' \<notin> broken s"
  shows "''GetSetting'' \<notin> broken s'"
    and "v = Some x \<Longrightarrow> GetSetting s' k = Inr x"
    and "k' \<noteq> k \<Longrightarrow> GetSetting s' k' = GetSetting s k'"
  using assms by (auto simp: opt_setting_def SetSetting_def GetSetting_def query_def split: option.splits if_splits)

lemma writeMapped_not_ok: "Status (writeMapped r e) \<noteq> 200"
  by (simp add: writeMapped_def mapError_def api_errors)

lemma settings_run:
  assumes "UpdateSettings_handler sv (Inr req) w r = (resp, w')" "Status resp = 200" "us_ttl req = Some v"
  obtains s1 s2 s3 where
    "opt_setting ''security.totp_required_for_mutations'' (map_option format_bool (us_totp req)) (store w) = Inr s1"
    "opt_setting ''session.ttl_seconds''
       (Some (itoa (clampSessionTTLSeconds v (SessionAbsoluteTTL (sdeps sv))))) s1 = Inr s2"
    "opt_setting ''security.protected_labels''
       (map_option (\<lambda>l. json_enc (JArr (map JStr l))) (us_labels req)) s2 = Inr s3"
    "store w' = s3"
proof -
  let ?o1 = "opt_setting ''security.totp_required_for_mutations'' (map_option format_bool (us_totp req)) (store w)"
  let ?o2 = "\<lambda>s. opt_setting ''session.ttl_seconds''
       (Some (itoa (clampSessionTTLSeconds v (SessionAbsoluteTTL (sdeps sv))))) s"
  let ?o3 = "\<lambda>s. opt_setting ''security.protected_labels''
       (map_option (\<lambda>l. json_enc (JArr (map JStr l))) (us_labels req)) s"
  have run: "(case ?o1 of Inl (e, s) \<Rightarrow> (writeMapped r e, w\<lparr>store := s\<rparr>)
     | Inr s1 \<Rightarrow> (case ?o2 s1 of Inl (e, s) \<Rightarrow> (writeMapped r e, w\<lparr>store := s\<rparr>)
       | Inr s2 \<Rightarrow> (case ?o3 s2 of Inl (e, s) \<Rightarrow> (writeMapped r e, w\<lparr>store := s\<rparr>)
         | Inr s3 \<Rightarrow> GetSettings_handler sv (w\<lparr>store := s3\<rparr>) r))) = (resp, w')"
    using assms(1) unfolding UpdateSettings_handler_def assms(3) sum.case option.map .
  obtain s1 where s1: "?o1 = Inr s1"
    using run assms(2) writeMapped_not_ok by (cases ?o1) (auto simp: split_beta)
  obtain s2 where s2: "?o2 s1 = Inr s2"
    using run assms(2) writeMapped_not_ok unfolding s1 by (cases "?o2 s1") (auto simp: split_beta)
  obtain s3 where s3: "?o3 s2 = Inr s3"
    using run assms(2) writeMapped_not_ok unfolding s1 sum.case s2 by (cases "?o3 s2") (auto simp: split_beta)
  have "GetSettings_handler sv (w\<lparr>store := s3\<rparr>) r = (resp, w')"
    using run unfolding s1 sum.case s2 s3 .
  then have "w' = w\<lparr>store := s3\<rparr>" using GetSettings_store [of sv "w\<lparr>store := s3\<rparr>" r] by simp
  then show thesis using that [OF s1 s2 s3] by simp
qed

text \<open>The lifetime of sessions an administrator saves is the one that is used: after a successful
  update of the settings, the sliding lifetime the session middleware computes is the requested
  number of seconds, bounded below by five minutes and above by the absolute lifetime.\<close>

theorem saved_lifetime_used:
  assumes "UpdateSettings_handler sv (Inr req) w r = (resp, w')" "Status resp = 200" "us_ttl req = Some v"
    and "''GetSetting'' \<notin> broken (store w)"
    and "SessionAbsoluteTTL (sdeps sv) < 2 ^ 63" "minSessionTTL \<le> absoluteTTL (sdeps sv)"
  shows "slidingTTL (sdeps sv) (store w') = clampSessionTTLSeconds v (SessionAbsoluteTTL (sdeps sv)) * second"
proof -
  let ?t = "itoa (clampSessionTTLSeconds v (SessionAbsoluteTTL (sdeps sv)))"
  obtain s1 s2 s3 where s1: "opt_setting ''security.totp_required_for_mutations''
        (map_option format_bool (us_totp req)) (store w) = Inr s1"
    and s2: "opt_setting ''session.ttl_seconds'' (Some ?t) s1 = Inr s2"
    and s3: "opt_setting ''security.protected_labels''
        (map_option (\<lambda>l. json_enc (JArr (map JStr l))) (us_labels req)) s2 = Inr s3"
    and w': "store w' = s3"
    by (rule settings_run [OF assms(1-3)])
  have b1: "''GetSetting'' \<notin> broken s1" by (rule opt_setting_get(1) [OF s1 assms(4)])
  have b2: "''GetSetting'' \<notin> broken s2" by (rule opt_setting_get(1) [OF s2 b1])
  have "GetSetting s2 ''session.ttl_seconds'' = Inr ?t" using opt_setting_get(2) [OF s2 b1] by simp
  then have "GetSetting s3 ''session.ttl_seconds'' = Inr ?t" using opt_setting_get(3) [OF s3 b2] by simp
  then show ?thesis using stored_lifetime [OF assms(5,6)] unfolding w' by simp
qed

theorem saved_lifetime_used_witness:
  "\<exists>w'. UpdateSettings_handler rbac_server (Inr \<lparr>us_totp = None, us_ttl = Some 100, us_labels = None\<rparr>) rbac_world
       (rbac_request ''PUT'') = (fst (UpdateSettings_handler rbac_server
         (Inr \<lparr>us_totp = None, us_ttl = Some 100, us_labels = None\<rparr>) rbac_world (rbac_request ''PUT'')), w')
     \<and> slidingTTL (sdeps rbac_server) (store w') = clampSessionTTLSeconds 100 (3600 * second) * second"
proof -
  let ?req = "\<lparr>us_totp = None, us_ttl = Some (100 :: int), us_labels = None :: string list option\<rparr>"
  let ?r = "rbac_request ''PUT''"
  have run: "UpdateSettings_handler rbac_server (Inr ?req) rbac_world ?r
      = (fst (UpdateSettings_handler rbac_server (Inr ?req) rbac_world ?r),
         snd (UpdateSettings_handler rbac_server (Inr ?req) rbac_world ?r))" by simp
  have st: "Status (fst (UpdateSettings_handler rbac_server (Inr ?req) rbac_world ?r)) = 200" by code_simp
  have abs: "SessionAbsoluteTTL (sdeps rbac_server) = 3600 * second" by (simp add: rbac_server_def)
  have "slidingTTL (sdeps rbac_server) (store (snd (UpdateSettings_handler rbac_server (Inr ?req) rbac_world ?r)))
      = clampSessionTTLSeconds 100 (SessionAbsoluteTTL (sdeps rbac_server)) * second"
    by (rule saved_lifetime_used [OF run st])
      (simp_all add: rbac_world_def rbac_db_def absoluteTTL_def minSessionTTL_def abs)
  then show ?thesis unfolding abs by (intro exI conjI) (rule run, assumption)
qed

end
