(* ===== verification/Audit_List.thy ===== *)
theory Audit_List
  imports Rbac_Api
begin

text \<open>
  Reading the audit trail: \<open>ListAudit\<close> of \<open>store/audit.go\<close> (filters and keyset pagination) and the
  handler \<open>Audit\<close> of \<open>api/audit.go\<close>. The table is append-only and its key is assigned by
  \<open>AUTOINCREMENT\<close>, so the row at position \<open>n\<close> (from 0) has the id \<open>n + 1\<close>. A client that follows the
  cursors reads \<open>audit_pages\<close>: it comes to an end, and the pages are the filtered trail, newest
  first, whatever the page size (\<open>audit_pages_complete\<close>).
\<close>

record audit_filter =
  af_ActorID :: string
  af_Action :: string
  af_TargetType :: string
  af_TargetID :: string
  af_Result :: string
  From :: int
  To :: int
  Limit :: int
  Cursor :: int

subsection \<open>The query\<close>

definition str_cond :: "string \<Rightarrow> string \<Rightarrow> bool" where
  "str_cond want got \<longleftrightarrow> want = [] \<or> got = want"

text \<open>The conditions of the filter on the columns; empty and zero fields are ignored.\<close>

definition audit_matches :: "audit_filter \<Rightarrow> audit_row \<Rightarrow> bool" where
  "audit_matches f a \<longleftrightarrow>
     str_cond (af_ActorID f) (au_actor_id a) \<and> str_cond (af_Action f) (au_action a)
     \<and> str_cond (af_TargetType f) (au_target_type a) \<and> str_cond (af_TargetID f) (au_target_id a)
     \<and> str_cond (af_Result f) (au_result a)
     \<and> (From f > 0 \<longrightarrow> au_ts a \<ge> From f) \<and> (To f > 0 \<longrightarrow> au_ts a \<le> To f)"

definition page_limit :: "int \<Rightarrow> nat" where
  "page_limit l = nat (let l1 = (if l \<le> 0 then 100 else l) in if l1 > 500 then 500 else l1)"

text \<open>The rows with their ids, newest first.\<close>

definition audit_rows :: "db \<Rightarrow> (int \<times> audit_row) list" where
  "audit_rows s = rev (zip (map (\<lambda>n. int n + 1) [0..<length (audit_log s)]) (audit_log s))"

definition in_page :: "audit_filter \<Rightarrow> int \<times> audit_row \<Rightarrow> bool" where
  "in_page f ia \<longleftrightarrow> audit_matches f (snd ia) \<and> (Cursor f > 0 \<longrightarrow> fst ia < Cursor f)"

text \<open>One row more than the page is fetched; if it is there, the cursor is the id of the last row of
  the page.\<close>

definition ListAudit :: "db \<Rightarrow> audit_filter \<Rightarrow> store_error + ((int \<times> audit_row) list \<times> int)" where
  "ListAudit s f = query ''ListAudit'' s
     (let limit = page_limit (Limit f);
          out = take (limit + 1) (filter (in_page f) (audit_rows s))
      in Inr (if length out > limit
              then (take limit out, fst (last (take limit out)))
              else (out, 0)))"

subsection \<open>The handler\<close>

definition parseEpoch :: "string \<Rightarrow> int" where
  "parseEpoch s = (if s = [] then 0 else (case atoi s of None \<Rightarrow> 0 | Some n \<Rightarrow> n))"

text \<open>\<open>raw_json\<close> reads the stored detail (\<open>None\<close> when it is not valid JSON), \<open>rfc3339\<close> formats a
  time.\<close>

definition auditItemView :: "(string \<Rightarrow> jval option) \<Rightarrow> (int \<Rightarrow> string) \<Rightarrow> int \<times> audit_row \<Rightarrow> jval" where
  "auditItemView raw_json rfc3339 ia = (case ia of (i, a) \<Rightarrow> JObj
     [(''id'', JNum i), (''ts'', JStr (rfc3339 (au_ts a))), (''tsEpoch'', JNum (au_ts a)),
      (''actorId'', JStr (au_actor_id a)), (''actorName'', JStr (au_actor_name a)),
      (''actorIp'', JStr (au_actor_ip a)), (''action'', JStr (au_action a)),
      (''targetType'', JStr (au_target_type a)), (''targetId'', JStr (au_target_id a)),
      (''targetName'', JStr (au_target_name a)), (''scopeType'', JStr (au_scope_type a)),
      (''scopeId'', JStr (au_scope_id a)), (''result'', JStr (au_result a)),
      (''httpStatus'', JNum (au_status a)),
      (''detail'', (if au_detail a = [] then JNull
                    else (case raw_json (au_detail a) of None \<Rightarrow> JNull | Some v \<Rightarrow> v))),
      (''requestId'', JStr (au_request_id a))])"

text \<open>The filter of a query string: \<open>q\<close> gives the value of a parameter, empty when absent.\<close>

definition audit_query :: "(string \<Rightarrow> string) \<Rightarrow> audit_filter" where
  "audit_query q =
     \<lparr>af_ActorID = q ''actorId'', af_Action = q ''action'', af_TargetType = q ''targetType'',
      af_TargetID = q ''targetId'', af_Result = q ''result'', From = parseEpoch (q ''from''),
      To = parseEpoch (q ''to''), Limit = parseIntDefault (q ''limit'') 100,
      Cursor = parseEpoch (q ''cursor'')\<rparr>"

definition Audit :: "(string \<Rightarrow> jval option) \<Rightarrow> (int \<Rightarrow> string) \<Rightarrow> (string \<Rightarrow> string) \<Rightarrow> handler" where
  "Audit raw_json rfc3339 q w r =
     (case ListAudit (store w) (audit_query q) of Inl e \<Rightarrow> (writeMapped r e, w)
      | Inr (entries, nxt) \<Rightarrow>
        (WriteJSON 200 (JObj
           [(''items'', JArr (map (auditItemView raw_json rfc3339) entries)),
            (''nextCursor'', (if nxt > 0 then JStr (itoa nxt) else JNull))]), w))"

subsection \<open>Following the cursors\<close>

lemma page_limit_pos: "0 < page_limit l"
  by (simp add: page_limit_def Let_def)

lemma audit_rows_ids: "sorted_wrt (>) (map fst (audit_rows s)) \<and> (\<forall>ia \<in> set (audit_rows s). 0 < fst ia)"
proof -
  let ?ids = "map (\<lambda>n. int n + 1) [0..<length (audit_log s)]"
  have "map fst (audit_rows s) = rev ?ids" unfolding audit_rows_def rev_map [symmetric] by simp
  moreover have "sorted_wrt (<) ?ids"
    unfolding sorted_wrt_map by (rule sorted_wrt_mono_rel [OF _ sorted_wrt_upt]) simp
  moreover have "0 < fst ia" if "ia \<in> set (audit_rows s)" for ia
    using that by (auto simp: audit_rows_def dest!: set_zip_leftD [of "fst ia" "snd ia" ?ids "audit_log s", simplified])
  ultimately show ?thesis by (simp add: sorted_wrt_rev)
qed

text \<open>Past the last row of a page come exactly the rows below the cursor.\<close>

lemma filter_below_last:
  fixes xs :: "(int \<times> 'a) list"
  assumes "sorted_wrt (\<lambda>x y. fst x > fst y) (xs @ ys)" "xs \<noteq> []"
  shows "filter (\<lambda>ia. fst ia < fst (last xs)) (xs @ ys) = ys"
proof -
  have "\<not> fst x < fst (last xs)" if "x \<in> set xs" for x
  proof (cases "x = last xs")
    case False
    obtain zs where xs: "xs = zs @ [last xs]" using assms(2) append_butlast_last_id by metis
    then have "x \<in> set zs" using that False by (metis UnE empty_iff insert_iff list.set(1) list.simps(15) set_append)
    moreover have "sorted_wrt (\<lambda>x y. fst x > fst y) (zs @ [last xs])"
      using assms(1) xs by (metis sorted_wrt_append)
    ultimately have "fst (last xs) < fst x" by (simp add: sorted_wrt_append)
    then show ?thesis by linarith
  qed simp
  moreover have "fst y < fst (last xs)" if "y \<in> set ys" for y
    using assms that by (auto simp: sorted_wrt_append)
  ultimately show ?thesis by (simp add: filter_empty_conv)
qed

definition filtered :: "db \<Rightarrow> audit_filter \<Rightarrow> (int \<times> audit_row) list" where
  "filtered s f = filter (in_page f) (audit_rows s)"

lemma in_page_cursor:
  "in_page (f\<lparr>Cursor := c\<rparr>) = (\<lambda>ia. audit_matches f (snd ia) \<and> (c > 0 \<longrightarrow> fst ia < c))"
  by (rule ext) (simp add: in_page_def audit_matches_def)

lemma filtered_cursor:
  assumes "0 < c" "0 < Cursor f \<Longrightarrow> c \<le> Cursor f"
  shows "filtered s (f\<lparr>Cursor := c\<rparr>) = filter (\<lambda>ia. fst ia < c) (filtered s f)"
  unfolding filtered_def filter_filter in_page_cursor
  by (rule filter_cong [OF refl]) (use assms in \<open>auto simp: in_page_def\<close>)

lemma filtered_sorted: "sorted_wrt (\<lambda>x y. fst x > fst y) (filtered s f)"
  using audit_rows_ids [of s] unfolding filtered_def
  by (simp add: sorted_wrt_map sorted_wrt_filter)

lemma filtered_pos: "ia \<in> set (filtered s f) \<Longrightarrow> 0 < fst ia"
  using audit_rows_ids [of s] unfolding filtered_def by auto

lemma ListAudit_filtered:
  "''ListAudit'' \<notin> broken s \<Longrightarrow> ListAudit s f = Inr
     (if length (filtered s f) > page_limit (Limit f)
      then (take (page_limit (Limit f)) (filtered s f), fst (last (take (page_limit (Limit f)) (filtered s f))))
      else (filtered s f, 0))"
  by (simp add: ListAudit_def query_def filtered_def Let_def min_def)

text \<open>The rest of the trail after a page: the rows below its cursor.\<close>

lemma filtered_next:
  assumes "n = page_limit (Limit f)" "length (filtered s f) > n"
    and c: "c = fst (last (take n (filtered s f)))"
  shows "filtered s (f\<lparr>Cursor := c\<rparr>) = drop n (filtered s f)" "0 < c"
proof -
  have ne: "take n (filtered s f) \<noteq> []" using assms(1,2) page_limit_pos [of "Limit f"] by auto
  have "last (take n (filtered s f)) \<in> set (filtered s f)" using ne last_in_set in_set_takeD by metis
  then show pos: "0 < c" unfolding c by (rule filtered_pos)
  have eq: "filter (\<lambda>ia. fst ia < c) (filtered s f) = drop n (filtered s f)"
    using filter_below_last [of "take n (filtered s f)" "drop n (filtered s f)"] ne filtered_sorted [of s f]
    by (simp add: c)
  have "c \<le> Cursor f" if "0 < Cursor f"
  proof -
    have "last (take n (filtered s f)) \<in> set (filtered s f)" using ne last_in_set in_set_takeD by metis
    then show ?thesis using that by (simp add: c filtered_def in_page_def)
  qed
  then have "filtered s (f\<lparr>Cursor := c\<rparr>) = filter (\<lambda>ia. fst ia < c) (filtered s f)"
    by (rule filtered_cursor [OF pos])
  then show "filtered s (f\<lparr>Cursor := c\<rparr>) = drop n (filtered s f)" using eq by simp
qed

text \<open>The pages a client gets that starts with a filter and follows the cursors until there is none,
  or an error. That the recursion ends is proved from the cursor: the rows below it get fewer.\<close>

function audit_pages :: "db \<Rightarrow> audit_filter \<Rightarrow> (int \<times> audit_row) list list" where
  "audit_pages s f =
     (case ListAudit s f of Inl _ \<Rightarrow> []
      | Inr (page, nxt) \<Rightarrow> page # (if nxt > 0 then audit_pages s (f\<lparr>Cursor := nxt\<rparr>) else []))"
  by pat_completeness auto

lemma ListAudit_next:
  assumes "ListAudit s f = Inr (page, nxt)" "nxt > 0"
  shows "page = take (page_limit (Limit f)) (filtered s f)" "length (filtered s f) > page_limit (Limit f)"
    "nxt = fst (last (take (page_limit (Limit f)) (filtered s f)))"
proof -
  have b: "''ListAudit'' \<notin> broken s" using assms(1) by (auto simp: ListAudit_def query_def)
  show "page = take (page_limit (Limit f)) (filtered s f)" "length (filtered s f) > page_limit (Limit f)"
    "nxt = fst (last (take (page_limit (Limit f)) (filtered s f)))"
    using assms ListAudit_filtered [OF b, of f] by (auto split: if_splits)
qed

termination audit_pages
proof (relation "measure (\<lambda>(s, f). length (filtered s f))")
  fix s :: db and f :: audit_filter and p page and nxt :: int
  assume a: "ListAudit s f = Inr p" "(page, nxt) = p" "0 < nxt"
  then have l: "ListAudit s f = Inr (page, nxt)" by simp
  note n = ListAudit_next [OF l a(3)]
  have "filtered s (f\<lparr>Cursor := nxt\<rparr>) = drop (page_limit (Limit f)) (filtered s f)"
    by (rule filtered_next(1) [OF refl n(2,3)])
  then show "((s, f\<lparr>Cursor := nxt\<rparr>), s, f) \<in> measure (\<lambda>(s, f). length (filtered s f))"
    using n(2) page_limit_pos [of "Limit f"] by simp
qed simp

declare audit_pages.simps [simp del]

text \<open>C9. Reading the audit trail page by page ends, and gives the trail: following the cursors from
  the first page on, the pages one after the other are exactly the rows that match the filter,
  newest first, each once, whatever page size the client asks for; every page but the last is full.\<close>

theorem audit_pages_complete:
  assumes "''ListAudit'' \<notin> broken s" "Cursor f = 0"
  shows "concat (audit_pages s f) = filter (\<lambda>ia. audit_matches f (snd ia)) (audit_rows s)
    \<and> (\<forall>p \<in> set (butlast (audit_pages s f)). length p = page_limit (Limit f))"
proof -
  have "concat (audit_pages s f) = filtered s f
    \<and> (\<forall>p \<in> set (butlast (audit_pages s f)). length p = page_limit (Limit f))"
    using assms(1)
  proof (induction s f rule: audit_pages.induct)
    case (1 s f)
    let ?n = "page_limit (Limit f)"
    let ?c = "fst (last (take ?n (filtered s f)))"
    note page = ListAudit_filtered [OF 1(2), of f]
    show ?case
    proof (cases "length (filtered s f) > ?n")
      case True
      then have l: "ListAudit s f = Inr (take ?n (filtered s f), ?c)" using page by simp
      note nxt = filtered_next [OF refl True refl]
      have ih: "concat (audit_pages s (f\<lparr>Cursor := ?c\<rparr>)) = drop ?n (filtered s f)"
        "\<forall>p \<in> set (butlast (audit_pages s (f\<lparr>Cursor := ?c\<rparr>))). length p = ?n"
        using 1(1) [OF l refl nxt(2) 1(2)] nxt(1) by simp_all
      have "audit_pages s f = take ?n (filtered s f) # audit_pages s (f\<lparr>Cursor := ?c\<rparr>)"
        by (subst audit_pages.simps) (simp add: l nxt(2))
      then show ?thesis using ih True by simp
    next
      case False
      then have "ListAudit s f = Inr (filtered s f, 0)" using page by simp
      then have "audit_pages s f = [filtered s f]" by (subst audit_pages.simps) simp
      then show ?thesis by simp
    qed
  qed
  moreover have "in_page f = (\<lambda>ia. audit_matches f (snd ia))"
    by (rule ext) (simp add: in_page_def assms(2))
  ultimately show ?thesis by (simp add: filtered_def)
qed

definition demo_audit :: "string \<Rightarrow> int \<Rightarrow> audit_row" where
  "demo_audit act t = \<lparr>au_ts = t, au_actor_id = ''u1'', au_actor_name = ''ann'', au_actor_ip = [],
     au_action = act, au_target_type = [], au_target_id = [], au_target_name = [], au_scope_type = [],
     au_scope_id = [], au_result = ''success'', au_status = 200, au_detail = [], au_request_id = []\<rparr>"

definition trail_db :: db where
  "trail_db = \<lparr>users = [], sessions = [], role_tab = [], bindings = [], tokens = [], recovery = [],
     settings = Map.empty, audit_log = [demo_audit ''a'' 1, demo_audit ''b'' 2, demo_audit ''a'' 2, demo_audit ''a'' 3],
     auth_providers = [], group_maps = [], oidc_states = [], broken = {}\<rparr>"

theorem audit_pages_complete_witness:
  "concat (audit_pages trail_db (audit_query ((\<lambda>_. [])(''action'' := ''a'', ''limit'' := ''2''))))
     = [(4, demo_audit ''a'' 3), (3, demo_audit ''a'' 2), (1, demo_audit ''a'' 1)]"
proof -
  let ?f = "audit_query ((\<lambda>_. [])(''action'' := ''a'', ''limit'' := ''2''))"
  have h: "''ListAudit'' \<notin> broken trail_db" "Cursor ?f = 0"
    by (simp_all add: trail_db_def audit_query_def parseEpoch_def)
  have "filter (\<lambda>ia. audit_matches ?f (snd ia)) (audit_rows trail_db)
     = [(4, demo_audit ''a'' 3), (3, demo_audit ''a'' 2), (1, demo_audit ''a'' 1)]"
    by (simp add: trail_db_def audit_query_def parseEpoch_def audit_matches_def str_cond_def
        demo_audit_def audit_rows_def upt_rec)
  then show ?thesis using audit_pages_complete [OF h] by simp
qed

end
