(* ===== verification/Sso_Store.thy ===== *)
theory Sso_Store
  imports Store_Rbac
begin

text \<open>
  The tables of single sign-on: identity providers and the mappings of their groups to roles
  (\<open>store/authproviders.go\<close>), the pending OIDC redirects and the bindings of an external user
  (\<open>store/sso_states.go\<close>), and the accounts of external users (\<open>UpsertExternalUser\<close> of
  \<open>store/users.go\<close>). Foreign keys and cascades are written out as in \<open>Store_Rbac\<close>; \<open>NULL\<close> is the empty
  string. Fresh identifiers are arguments.
\<close>

subsection \<open>Identity providers\<close>

definition HasBindPW :: "provider_row \<Rightarrow> bool" where
  "HasBindPW p \<longleftrightarrow> length (LDAPBindPWEnc p) > 0"

definition HasClientSecret :: "provider_row \<Rightarrow> bool" where
  "HasClientSecret p \<longleftrightarrow> length (OIDCClientSecretEnc p) > 0"

definition ListAuthProviders :: "db \<Rightarrow> store_error + provider_row list" where
  "ListAuthProviders s = query ''ListAuthProviders'' s (Inr (sort_key ap_name (auth_providers s)))"

definition ListEnabledAuthProviders :: "db \<Rightarrow> store_error + provider_row list" where
  "ListEnabledAuthProviders s = query ''ListEnabledAuthProviders'' s
     (Inr (sort_key ap_name (filter ap_enabled (auth_providers s))))"

definition GetAuthProvider :: "db \<Rightarrow> string \<Rightarrow> store_error + provider_row" where
  "GetAuthProvider s i = query ''GetAuthProvider'' s (select_one (\<lambda>p. ap_id p = i) (auth_providers s))"

definition or_default :: "string \<Rightarrow> string \<Rightarrow> string" where
  "or_default v d = (if v = [] then d else v)"

definition applyProviderDefaults :: "provider_row \<Rightarrow> provider_row" where
  "applyProviderDefaults p =
     p\<lparr>LDAPPort := (if LDAPPort p = 0 then 389 else LDAPPort p),
       LDAPTLS := or_default (LDAPTLS p) ''starttls'',
       LDAPUserFilter := or_default (LDAPUserFilter p) ''(&(objectClass=person)(sAMAccountName=%s))'',
       LDAPAttrUsername := or_default (LDAPAttrUsername p) ''sAMAccountName'',
       LDAPAttrEmail := or_default (LDAPAttrEmail p) ''mail'',
       LDAPAttrDisplay := or_default (LDAPAttrDisplay p) ''displayName'',
       LDAPGroupFilter := or_default (LDAPGroupFilter p) ''(&(objectClass=group)(member=%s))'',
       LDAPAttrMember := or_default (LDAPAttrMember p) ''memberOf'',
       OIDCScopes := or_default (OIDCScopes p) ''openid profile email'',
       OIDCGroupsClaim := or_default (OIDCGroupsClaim p) ''groups'',
       OIDCUsernameClaim := or_default (OIDCUsernameClaim p) ''preferred_username'',
       OIDCEmailClaim := or_default (OIDCEmailClaim p) ''email''\<rparr>"

definition default_role_ok :: "db \<Rightarrow> provider_row \<Rightarrow> bool" where
  "default_role_ok s p \<longleftrightarrow> DefaultRoleID p = [] \<or> find (\<lambda>r. role_id r = DefaultRoleID p) (role_tab s) \<noteq> None"

definition CreateAuthProvider :: "db \<Rightarrow> int \<Rightarrow> provider_row \<Rightarrow> store_error + db" where
  "CreateAuthProvider s now p0 = query ''CreateAuthProvider'' s
     (let p = applyProviderDefaults (p0\<lparr>ap_created := now, ap_updated := now\<rparr>)
      in if (\<exists>x \<in> set (auth_providers s). ap_id x = ap_id p) \<or> \<not> default_role_ok s p then Inl SQLError
         else Inr (s\<lparr>auth_providers := auth_providers s @ [p]\<rparr>))"

text \<open>
  The update writes every column but the key, the creation time and the two secrets; a secret is
  written only when its flag is set.
\<close>

definition UpdateAuthProvider :: "db \<Rightarrow> int \<Rightarrow> provider_row \<Rightarrow> bool \<Rightarrow> bool \<Rightarrow> store_error + db" where
  "UpdateAuthProvider s now p0 setBindPW setClientSecret = query ''UpdateAuthProvider'' s
     (let p = applyProviderDefaults p0;
          upd = (\<lambda>x. p\<lparr>ap_created := ap_created x, ap_updated := now,
                  LDAPBindPWEnc := (if setBindPW then LDAPBindPWEnc p else LDAPBindPWEnc x),
                  OIDCClientSecretEnc := (if setClientSecret then OIDCClientSecretEnc p
                                          else OIDCClientSecretEnc x)\<rparr>)
      in if \<not> default_role_ok s p then Inl SQLError
         else if find (\<lambda>x. ap_id x = ap_id p) (auth_providers s) = None then Inl ErrNotFound
         else Inr (s\<lparr>auth_providers := update_where (\<lambda>x. ap_id x = ap_id p) upd (auth_providers s)\<rparr>))"

text \<open>The deletion cascades to the mappings of the provider and to its pending redirects.\<close>

definition DeleteAuthProvider :: "db \<Rightarrow> string \<Rightarrow> store_error + db" where
  "DeleteAuthProvider s i = query ''DeleteAuthProvider'' s
     (if find (\<lambda>p. ap_id p = i) (auth_providers s) = None then Inl ErrNotFound
      else Inr (s\<lparr>auth_providers := delete_where (\<lambda>p. ap_id p = i) (auth_providers s),
                  group_maps := delete_where (\<lambda>m. gm_provider m = i) (group_maps s),
                  oidc_states := delete_where (\<lambda>t. os_provider t = i) (oidc_states s)\<rparr>))"

subsection \<open>Group mappings\<close>

definition ListGroupRoleMappings :: "db \<Rightarrow> string \<Rightarrow> store_error + mapping_row list" where
  "ListGroupRoleMappings s pid = query ''ListGroupRoleMappings'' s
     (Inr (sort_key ExternalGroup (filter (\<lambda>m. gm_provider m = pid) (group_maps s))))"

definition CreateGroupRoleMapping :: "db \<Rightarrow> int \<Rightarrow> mapping_row \<Rightarrow> store_error + db" where
  "CreateGroupRoleMapping s now m = query ''CreateGroupRoleMapping'' s
     (if (\<exists>x \<in> set (group_maps s). gm_id x = gm_id m \<or> (gm_provider x = gm_provider m
            \<and> ExternalGroup x = ExternalGroup m \<and> gm_role x = gm_role m))
         \<or> find (\<lambda>p. ap_id p = gm_provider m) (auth_providers s) = None
         \<or> find (\<lambda>r. role_id r = gm_role m) (role_tab s) = None then Inl SQLError
      else Inr (s\<lparr>group_maps := group_maps s @ [m\<lparr>gm_created := now\<rparr>]\<rparr>))"

definition DeleteGroupRoleMapping :: "db \<Rightarrow> string \<Rightarrow> string \<Rightarrow> store_error + db" where
  "DeleteGroupRoleMapping s pid i = query ''DeleteGroupRoleMapping'' s
     (let P = (\<lambda>m. gm_id m = i \<and> gm_provider m = pid)
      in if find P (group_maps s) = None then Inl ErrNotFound
         else Inr (s\<lparr>group_maps := delete_where P (group_maps s)\<rparr>))"

text \<open>The common name of a distinguished name: the value of its first component, if that is a \<open>cn\<close>.\<close>

definition groupCN :: "string \<Rightarrow> string" where
  "groupCN g0 =
     (let g = trim_space g0 in
      if g = [] then []
      else (case cut_at (CHR '','') g of (first, _, _) \<Rightarrow>
        (case cut_at (CHR ''='') first of (k, v, found) \<Rightarrow>
           if found \<and> equal_fold (trim_space k) ''cn'' then trim_space v else [])))"

text \<open>The names a user's groups are matched by: each group itself and its common name, in lower case.\<close>

definition group_names :: "string list \<Rightarrow> string set" where
  "group_names groups = (\<Union>g \<in> set groups. let t = trim_space g in
     if t = [] then {}
     else insert (to_lower t) (if groupCN t = [] then {} else {to_lower (groupCN t)}))"

definition mapping_hit :: "string set \<Rightarrow> mapping_row \<Rightarrow> bool" where
  "mapping_hit have m \<longleftrightarrow> to_lower (trim_space (ExternalGroup m)) \<in> have
     \<or> (to_lower (groupCN (ExternalGroup m)) \<noteq> [] \<and> to_lower (groupCN (ExternalGroup m)) \<in> have)"

fun collect_roles :: "string set \<Rightarrow> string list \<Rightarrow> mapping_row list \<Rightarrow> string list" where
  "collect_roles have seen [] = []"
| "collect_roles have seen (m # ms) =
     (if \<not> mapping_hit have m then collect_roles have seen ms
      else if gm_role m \<in> set seen then collect_roles have seen ms
      else gm_role m # collect_roles have (gm_role m # seen) ms)"

definition ResolveRolesForGroups :: "db \<Rightarrow> string \<Rightarrow> string list \<Rightarrow> store_error + string list" where
  "ResolveRolesForGroups s pid groups =
     (case ListGroupRoleMappings s pid of Inl e \<Rightarrow> Inl e
      | Inr ms \<Rightarrow> Inr (collect_roles (group_names groups) [] ms))"

subsection \<open>Pending OIDC redirects\<close>

definition CreateOIDCAuthState :: "db \<Rightarrow> int \<Rightarrow> oidc_state_row \<Rightarrow> store_error + db" where
  "CreateOIDCAuthState s now t = query ''CreateOIDCAuthState'' s
     (if (\<exists>x \<in> set (oidc_states s). os_state x = os_state t)
         \<or> find (\<lambda>p. ap_id p = os_provider t) (auth_providers s) = None then Inl SQLError
      else Inr (s\<lparr>oidc_states := oidc_states s @
             [t\<lparr>os_created := (if os_created t = 0 then now else os_created t),
                RedirectAfter := (if RedirectAfter t = [] then ''/'' else RedirectAfter t)\<rparr>]\<rparr>))"

text \<open>Read and delete in one transaction; an expired row is deleted, too, but not returned.\<close>

definition ConsumeOIDCAuthState :: "db \<Rightarrow> int \<Rightarrow> string \<Rightarrow> (store_error + oidc_state_row) \<times> db" where
  "ConsumeOIDCAuthState s now st =
     (if ''ConsumeOIDCAuthState'' \<in> broken s then (Inl SQLError, s)
      else (case find (\<lambda>t. os_state t = st) (oidc_states s) of
              None \<Rightarrow> (Inl ErrNotFound, s)
            | Some t \<Rightarrow>
                (let s' = s\<lparr>oidc_states := delete_where (\<lambda>t. os_state t = st) (oidc_states s)\<rparr>
                 in if os_expires t < now then (Inl ErrNotFound, s') else (Inr t, s'))))"

definition DeleteExpiredOIDCAuthStates :: "db \<Rightarrow> int \<Rightarrow> store_error + (int \<times> db)" where
  "DeleteExpiredOIDCAuthStates s now = query ''DeleteExpiredOIDCAuthStates'' s
     (Inr (int (length (filter (\<lambda>t. os_expires t < now) (oidc_states s))),
           s\<lparr>oidc_states := delete_where (\<lambda>t. os_expires t < now) (oidc_states s)\<rparr>))"

subsection \<open>External users and their bindings\<close>

text \<open>
  \<open>ReplaceExternalRoleBindings\<close>: in one transaction the global bindings of the user are deleted and
  one is inserted per role, skipping empty and repeated ids; \<open>fresh n\<close> is the id of the \<open>n\<close>-th
  inserted binding. Any failing insertion rolls everything back.
\<close>

fun rebind :: "int \<Rightarrow> string \<Rightarrow> (nat \<Rightarrow> string) \<Rightarrow> nat \<Rightarrow> string list \<Rightarrow> string list \<Rightarrow> db \<Rightarrow> store_error + db" where
  "rebind now uid fresh n seen [] s = Inr s"
| "rebind now uid fresh n seen (rid # rids) s =
     (if rid = [] \<or> rid \<in> set seen then rebind now uid fresh n seen rids s
      else (case insert_binding s \<lparr>bind_id = fresh n, bind_user = uid, bind_role = rid,
                    bind_scope_type = ''global'', bind_scope_id = [], bind_created = now\<rparr> of
              Inl e \<Rightarrow> Inl e
            | Inr s' \<Rightarrow> rebind now uid fresh (Suc n) (rid # seen) rids s'))"

definition ReplaceExternalRoleBindings ::
  "db \<Rightarrow> int \<Rightarrow> string \<Rightarrow> string list \<Rightarrow> (nat \<Rightarrow> string) \<Rightarrow> store_error + db" where
  "ReplaceExternalRoleBindings s now uid rids fresh = query ''ReplaceExternalRoleBindings'' s
     (rebind now uid fresh 0 [] rids
        (s\<lparr>bindings := delete_where (\<lambda>b. bind_user b = uid \<and> bind_scope_type b = ''global'') (bindings s)\<rparr>))"

definition ExternalPasswordSentinel :: string where "ExternalPasswordSentinel = ''!''"

definition IsExternal :: "user_row \<Rightarrow> bool" where
  "IsExternal u \<longleftrightarrow> AuthSource u \<noteq> [] \<and> AuthSource u \<noteq> ''local''"

text \<open>
  \<open>UpsertExternalUser\<close>: the account with this source and subject is refreshed and activated again,
  or a new one is created. The refreshed username must not be another account's.
\<close>

definition refresh_external :: "db \<Rightarrow> int \<Rightarrow> string \<Rightarrow> user_row \<Rightarrow> store_error + db" where
  "refresh_external s now i u = query ''UpsertExternalUser'' s
     (if \<exists>v \<in> set (users s). ID v \<noteq> i \<and> Username v = Username u then Inl SQLError
      else Inr (upd_user s i (\<lambda>v. v\<lparr>Username := Username u, Email := Email u,
             ExternalProviderID := ExternalProviderID u, IsActive := True, UpdatedAt := now\<rparr>)))"

definition UpsertExternalUser :: "db \<Rightarrow> int \<Rightarrow> string \<Rightarrow> user_row \<Rightarrow> (store_error + user_row) \<times> db" where
  "UpsertExternalUser s now newid u0 =
     (let source = (if AuthSource u0 = [] then ''local'' else AuthSource u0) in
      case FindUserByExternalID s source (ExternalID u0) of
        Inr existing \<Rightarrow>
          (case refresh_external s now (ID existing) u0 of
             Inl e \<Rightarrow> (Inl e, s)
           | Inr s' \<Rightarrow> (GetUserByID s' (ID existing), s'))
      | Inl ErrNotFound \<Rightarrow>
          (let u = u0\<lparr>AuthSource := source, ID := (if ID u0 = [] then newid else ID u0),
                 PasswordHash := (if PasswordHash u0 = [] then ExternalPasswordSentinel else PasswordHash u0)\<rparr> in
           case CreateUser s now u of
             Inl e \<Rightarrow> (Inl e, s)
           | Inr s' \<Rightarrow> (GetUserByID s' (ID u), s'))
      | Inl e \<Rightarrow> (Inl e, s))"

end
