(* ===== verification/Sso_Login.thy ===== *)
theory Sso_Login
  imports Sso_Store Rbac_Api
begin

text \<open>
  Single sign-on: the OIDC client (\<open>auth/oidc/oidc.go\<close>), the LDAP client (\<open>auth/ldap/ldap.go\<close>) and the
  public login handlers over them (\<open>api/auth_sso.go\<close>).
  What is outside the repository is a record of functions: the OIDC library with the identity provider
  behind it (\<open>idp\<close>: discovery, the authorization URL, the code exchange, the verification of a
  token) and the LDAP library with the directory (\<open>directory\<close>: a connection is a value of type
  \<open>'c\<close> that binds and searches return updated, as a bind changes what later searches may see).
  Random values and fresh identifiers are arguments, \<open>None\<close> when drawing them fails.
\<close>

subsection \<open>OIDC client\<close>

record oidc_params =
  op_Issuer :: string
  op_ClientID :: string
  op_ClientSecret :: string
  op_RedirectURL :: string
  op_Scopes :: "string list"
  op_GroupsClaim :: string
  op_UsernameClaim :: string
  op_EmailClaim :: string

record oauth_config =
  oc_ClientID :: string
  oc_ClientSecret :: string
  oc_RedirectURL :: string
  oc_Scopes :: "string list"

type_synonym claims = "(string \<times> jval) list"

text \<open>\<open>id_token\<close> of an exchange is \<open>None\<close> when the answer has no such string.\<close>

record 'p idp =
  idp_discover :: "string \<Rightarrow> string + 'p"
  idp_code_url :: "oauth_config \<Rightarrow> 'p \<Rightarrow> string \<Rightarrow> (string \<times> string) list \<Rightarrow> string"
  idp_exchange :: "oauth_config \<Rightarrow> 'p \<Rightarrow> string \<Rightarrow> (string \<times> string) list \<Rightarrow> string option option"
  idp_verify :: "'p \<Rightarrow> string \<Rightarrow> string \<Rightarrow> (string \<times> claims option) option"
  S256Challenge :: "string \<Rightarrow> string"

record oidc_identity =
  oi_ExternalID :: string
  oi_Username :: string
  oi_Email :: string
  oi_Display :: string
  oi_Groups :: "string list"
  oi_GroupsOverage :: bool

definition NewVerifier :: "'p idp \<Rightarrow> string \<Rightarrow> string \<Rightarrow> string + 'p" where
  "NewVerifier ip issuer clientID =
     (if trim_space issuer = [] then Inl ''oidc: issuer is empty''
      else if trim_space clientID = [] then Inl ''oidc: client id is empty''
      else (case idp_discover ip (trim_space issuer) of
              Inl e \<Rightarrow> Inl (''oidc: discovery failed: '' @ e) | Inr p \<Rightarrow> Inr p))"

definition add_scope :: "string list \<Rightarrow> string \<Rightarrow> string list" where
  "add_scope out s = (let t = trim_space s in if t = [] \<or> t \<in> set out then out else out @ [t])"

definition normalizeScopes :: "string list \<Rightarrow> string list" where
  "normalizeScopes scopes = foldl add_scope (add_scope [] ''openid'') (concat (map str_fields scopes))"

definition oauthConfig :: "oidc_params \<Rightarrow> oauth_config" where
  "oauthConfig p = \<lparr>oc_ClientID = op_ClientID p, oc_ClientSecret = op_ClientSecret p,
     oc_RedirectURL = op_RedirectURL p, oc_Scopes = normalizeScopes (op_Scopes p)\<rparr>"

definition AuthCodeURL :: "'p idp \<Rightarrow> oidc_params \<Rightarrow> 'p \<Rightarrow> string \<Rightarrow> string \<Rightarrow> string \<Rightarrow> string" where
  "AuthCodeURL ip p prov state nonce challenge =
     idp_code_url ip (oauthConfig p) prov state
       [(''nonce'', nonce), (''code_challenge'', challenge), (''code_challenge_method'', ''S256'')]"

definition Exchange :: "'p idp \<Rightarrow> oidc_params \<Rightarrow> 'p \<Rightarrow> string \<Rightarrow> string \<Rightarrow> string option" where
  "Exchange ip p prov code pkceVerifier =
     (case idp_exchange ip (oauthConfig p) prov code [(''code_verifier'', pkceVerifier)] of
        None \<Rightarrow> None
      | Some None \<Rightarrow> None
      | Some (Some rawID) \<Rightarrow> (if rawID = [] then None else Some rawID))"

definition firstNonEmpty :: "string list \<Rightarrow> string" where
  "firstNonEmpty vals = (case find (\<lambda>v. trim_space v \<noteq> []) vals of None \<Rightarrow> [] | Some v \<Rightarrow> v)"

definition defaultStr :: "string \<Rightarrow> string \<Rightarrow> string" where
  "defaultStr v def = (if trim_space v = [] then def else v)"

definition claimString :: "claims \<Rightarrow> string \<Rightarrow> string" where
  "claimString m key =
     (if key = [] then []
      else (case map_of m key of Some (JStr s) \<Rightarrow> s | _ \<Rightarrow> []))"

fun only_strings :: "jval list \<Rightarrow> string list" where
  "only_strings [] = []"
| "only_strings (JStr s # vs) = s # only_strings vs"
| "only_strings (v # vs) = only_strings vs"

definition claimStrings :: "claims \<Rightarrow> string \<Rightarrow> string list" where
  "claimStrings m key =
     (if key = [] then []
      else (case map_of m key of
              Some (JArr vs) \<Rightarrow> only_strings vs
            | Some (JStr s) \<Rightarrow> (if s = [] then [] else [s])
            | _ \<Rightarrow> []))"

text \<open>\<open>VerifyAndClaims\<close>: the library checks signature, issuer, audience and expiry; the nonce is
  compared here.\<close>

definition identity_of_claims :: "oidc_params \<Rightarrow> claims \<Rightarrow> oidc_identity option" where
  "identity_of_claims p m =
     (let ext = firstNonEmpty [claimString m ''oid'', claimString m ''sub''] in
      if ext = [] then None
      else
        (let user = firstNonEmpty [claimString m (defaultStr (op_UsernameClaim p) ''preferred_username''),
                      claimString m ''preferred_username'', claimString m ''upn'', claimString m ''email'', ext];
             groups = claimStrings m (defaultStr (op_GroupsClaim p) ''groups'')
         in Some \<lparr>oi_ExternalID = ext, oi_Username = user,
              oi_Email = firstNonEmpty [claimString m (defaultStr (op_EmailClaim p) ''email''), claimString m ''email''],
              oi_Display = firstNonEmpty [claimString m ''name'', user],
              oi_Groups = groups,
              oi_GroupsOverage = (groups = [] \<and>
                (map_of m ''_claim_names'' \<noteq> None \<or> map_of m ''_claim_sources'' \<noteq> None))\<rparr>))"

definition VerifyAndClaims ::
  "'p idp \<Rightarrow> 'p \<Rightarrow> string \<Rightarrow> string \<Rightarrow> oidc_params \<Rightarrow> oidc_identity option" where
  "VerifyAndClaims ip prov rawIDToken nonce p =
     (case idp_verify ip prov (op_ClientID p) rawIDToken of
        None \<Rightarrow> None
      | Some (tokenNonce, cl) \<Rightarrow>
          if nonce = [] \<or> tokenNonce \<noteq> nonce then None
          else (case cl of None \<Rightarrow> None | Some m \<Rightarrow> identity_of_claims p m))"

definition OIDC_Test :: "'p idp \<Rightarrow> string \<Rightarrow> string \<Rightarrow> string \<Rightarrow> string option" where
  "OIDC_Test ip issuer clientID clientSecret =
     (if trim_space clientID = [] then Some ''client id is required''
      else (case NewVerifier ip issuer clientID of Inl e \<Rightarrow> Some e | Inr _ \<Rightarrow> None))"

subsection \<open>LDAP client\<close>

record ldap_config =
  lc_Host :: string
  lc_Port :: int
  lc_TLS :: string
  lc_SkipVerify :: bool
  lc_BindDN :: string
  lc_BindPassword :: string
  lc_BaseDN :: string
  lc_UserFilter :: string
  lc_AttrUsername :: string
  lc_AttrEmail :: string
  lc_AttrDisplay :: string
  lc_GroupBaseDN :: string
  lc_GroupFilter :: string
  lc_AttrMember :: string

datatype ldap_error = ErrInvalidCredentials | ErrConfig string

definition ldap_error_text :: "ldap_error \<Rightarrow> string" where
  "ldap_error_text e = (case e of ErrInvalidCredentials \<Rightarrow> ''ldap: invalid credentials''
     | ErrConfig m \<Rightarrow> ''ldap: configuration error: '' @ m)"

text \<open>An entry, through the accessors of the library.\<close>

record ldap_entry =
  le_DN :: string
  GetAttributeValue :: "string \<Rightarrow> string"
  GetAttributeValues :: "string \<Rightarrow> string list"

record search_request =
  sr_Base :: string
  sr_SizeLimit :: nat
  sr_Filter :: string
  sr_Attributes :: "string list"

text \<open>
  The library: dialling (with or without TLS, \<open>skip\<close> for no certificate check), the upgrade to TLS,
  binds, searches. A failed search may still carry entries, when the size limit was exceeded.
\<close>

record search_failure =
  sf_Text :: string
  sf_SizeLimit :: bool
  sf_Entries :: "ldap_entry list"

record 'c directory =
  dir_dial :: "string \<Rightarrow> string \<Rightarrow> bool \<Rightarrow> string + 'c"
  dir_starttls :: "'c \<Rightarrow> string \<Rightarrow> bool \<Rightarrow> string + 'c"
  dir_bind :: "'c \<Rightarrow> string \<Rightarrow> string \<Rightarrow> 'c \<times> string option"
  dir_anonymous :: "'c \<Rightarrow> 'c \<times> string option"
  dir_search :: "'c \<Rightarrow> search_request \<Rightarrow> 'c \<times> (search_failure + ldap_entry list)"
  EscapeFilter :: "string \<Rightarrow> string"
  ParseDN :: "string \<Rightarrow> (string \<times> string) list list option"

record ldap_identity =
  li_ExternalID :: string
  li_Username :: string
  li_Email :: string
  li_Display :: string
  li_Groups :: "string list"

definition JoinHostPort :: "string \<Rightarrow> string \<Rightarrow> string" where
  "JoinHostPort host port = (if CHR '':'' \<in> set host then ''['' @ host @ '']:'' @ port else host @ '':'' @ port)"

definition ldap_port :: "ldap_config \<Rightarrow> int" where
  "ldap_port cfg = (if lc_Port cfg = 0 then (if lc_TLS cfg = ''ldaps'' then 636 else 389) else lc_Port cfg)"

definition dial :: "'c directory \<Rightarrow> ldap_config \<Rightarrow> ldap_error + 'c" where
  "dial dir cfg =
     (if trim_space (lc_Host cfg) = [] then Inl (ErrConfig ''ldap host is empty'')
      else
        (let addr = JoinHostPort (lc_Host cfg) (itoa (ldap_port cfg));
             plain = dir_dial dir (''ldap://'' @ addr) [] False
         in if lc_TLS cfg = ''ldaps'' then
              (case dir_dial dir (''ldaps://'' @ addr) (lc_Host cfg) (lc_SkipVerify cfg) of
                 Inl e \<Rightarrow> Inl (ErrConfig (''dial failed: '' @ e)) | Inr c \<Rightarrow> Inr c)
            else if lc_TLS cfg = ''starttls'' then
              (case plain of Inl e \<Rightarrow> Inl (ErrConfig (''dial failed: '' @ e))
               | Inr c \<Rightarrow>
                 (case dir_starttls dir c (lc_Host cfg) (lc_SkipVerify cfg) of
                    Inl e \<Rightarrow> Inl (ErrConfig (''starttls failed: '' @ e)) | Inr c' \<Rightarrow> Inr c'))
            else if lc_TLS cfg = ''none'' \<or> lc_TLS cfg = [] then
              (case plain of Inl e \<Rightarrow> Inl (ErrConfig (''dial failed: '' @ e)) | Inr c \<Rightarrow> Inr c)
            else Inl (ErrConfig (''unknown tls mode '' @ go_quote (lc_TLS cfg)))))"

definition serviceBind :: "'c directory \<Rightarrow> 'c \<Rightarrow> ldap_config \<Rightarrow> 'c \<times> string option" where
  "serviceBind dir c cfg =
     (if lc_BindDN cfg = [] then dir_anonymous dir c
      else dir_bind dir c (lc_BindDN cfg) (lc_BindPassword cfg))"

text \<open>The first \<open>%s\<close> of a filter template is replaced.\<close>

fun replace_first :: "string \<Rightarrow> string \<Rightarrow> string" where
  "replace_first value [] = []"
| "replace_first value [c] = [c]"
| "replace_first value (c # d # cs) =
     (if c = CHR ''%'' \<and> d = CHR ''s'' then value @ cs else c # replace_first value (d # cs))"

definition buildFilter :: "string \<Rightarrow> string \<Rightarrow> string" where
  "buildFilter tmpl value = (if \<not> contains_str tmpl ''%s'' then tmpl else replace_first value tmpl)"

definition attrList :: "ldap_config \<Rightarrow> string list" where
  "attrList cfg = ''entryUUID'' # filter (\<lambda>a. a \<noteq> [])
     [lc_AttrUsername cfg, lc_AttrEmail cfg, lc_AttrDisplay cfg, lc_AttrMember cfg]"

definition findUser :: "'c directory \<Rightarrow> 'c \<Rightarrow> ldap_config \<Rightarrow> string \<Rightarrow> 'c \<times> (ldap_error + ldap_entry)" where
  "findUser dir c cfg username =
     (if trim_space (lc_BaseDN cfg) = [] then (c, Inl (ErrConfig ''base DN is empty''))
      else (case dir_search dir c \<lparr>sr_Base = lc_BaseDN cfg, sr_SizeLimit = 2,
                 sr_Filter = buildFilter (lc_UserFilter cfg) (EscapeFilter dir username),
                 sr_Attributes = attrList cfg\<rparr> of
              (c', Inl f) \<Rightarrow> (c', Inl (ErrConfig (''user search failed: '' @ sf_Text f)))
            | (c', Inr []) \<Rightarrow> (c', Inl ErrInvalidCredentials)
            | (c', Inr (e # es)) \<Rightarrow> (c', Inr e)))"

definition normalizeDN :: "'c directory \<Rightarrow> string \<Rightarrow> string" where
  "normalizeDN dir dn =
     (case ParseDN dir dn of
        Some rdns \<Rightarrow> join_with '','' (map (\<lambda>(t, v). to_lower t @ ''='' @ to_lower v) (concat rdns))
      | None \<Rightarrow> to_lower (trim_space dn))"

definition buildIdentity :: "'c directory \<Rightarrow> ldap_config \<Rightarrow> string \<Rightarrow> ldap_entry \<Rightarrow> ldap_identity" where
  "buildIdentity dir cfg loginName e =
     \<lparr>li_ExternalID = firstNonEmpty [GetAttributeValue e ''entryUUID'', normalizeDN dir (le_DN e)],
      li_Username = (let u = GetAttributeValue e (lc_AttrUsername cfg)
                     in if trim_space u = [] then loginName else u),
      li_Email = GetAttributeValue e (lc_AttrEmail cfg),
      li_Display = GetAttributeValue e (lc_AttrDisplay cfg),
      li_Groups = (if lc_AttrMember cfg = [] then [] else GetAttributeValues e (lc_AttrMember cfg))\<rparr>"

definition searchGroups :: "'c directory \<Rightarrow> 'c \<Rightarrow> ldap_config \<Rightarrow> string \<Rightarrow> 'c \<times> string list option" where
  "searchGroups dir c cfg userDN =
     (case dir_search dir c \<lparr>sr_Base = lc_GroupBaseDN cfg, sr_SizeLimit = 0,
             sr_Filter = buildFilter (lc_GroupFilter cfg) (EscapeFilter dir userDN), sr_Attributes = [''cn'']\<rparr> of
        (c', Inl f) \<Rightarrow> (c', None)
      | (c', Inr es) \<Rightarrow> (c', Some (map le_DN es)))"

fun union_from :: "string list \<Rightarrow> string list \<Rightarrow> string list" where
  "union_from seen [] = []"
| "union_from seen (s # ss) =
     (let k = to_lower (trim_space s) in
      if k = [] \<or> k \<in> set seen then union_from seen ss else s # union_from (k # seen) ss)"

definition unionStrings :: "string list \<Rightarrow> string list \<Rightarrow> string list" where
  "unionStrings a b = union_from [] (a @ b)"

definition with_groups :: "'c directory \<Rightarrow> 'c \<Rightarrow> ldap_config \<Rightarrow> string \<Rightarrow> ldap_identity \<Rightarrow> ldap_identity" where
  "with_groups dir c cfg dn i =
     (if lc_GroupBaseDN cfg \<noteq> [] \<and> lc_GroupFilter cfg \<noteq> [] then
        (case serviceBind dir c cfg of
           (c', Some _) \<Rightarrow> i
         | (c', None) \<Rightarrow>
             (case searchGroups dir c' cfg dn of
                (_, None) \<Rightarrow> i
              | (_, Some gs) \<Rightarrow> i\<lparr>li_Groups := unionStrings (li_Groups i) gs\<rparr>))
      else i)"

definition Authenticate :: "'c directory \<Rightarrow> ldap_config \<Rightarrow> string \<Rightarrow> string \<Rightarrow> ldap_error + ldap_identity" where
  "Authenticate dir cfg username password =
     (if trim_space username = [] \<or> password = [] then Inl ErrInvalidCredentials
      else (case dial dir cfg of Inl e \<Rightarrow> Inl e
      | Inr c0 \<Rightarrow>
        (case serviceBind dir c0 cfg of
           (_, Some e) \<Rightarrow> Inl (ErrConfig (''service bind failed: '' @ e))
         | (c1, None) \<Rightarrow>
           (case findUser dir c1 cfg username of
              (_, Inl e) \<Rightarrow> Inl e
            | (c2, Inr entry) \<Rightarrow>
              (case dir_bind dir c2 (le_DN entry) password of
                 (_, Some _) \<Rightarrow> Inl ErrInvalidCredentials
               | (c3, None) \<Rightarrow>
                   Inr (with_groups dir c3 cfg (le_DN entry) (buildIdentity dir cfg username entry)))))))"

definition LDAP_Test :: "'c directory \<Rightarrow> ldap_config \<Rightarrow> ldap_error + string" where
  "LDAP_Test dir cfg =
     (case dial dir cfg of Inl e \<Rightarrow> Inl e
      | Inr c0 \<Rightarrow>
        (case serviceBind dir c0 cfg of
           (_, Some e) \<Rightarrow> Inl (ErrConfig (''service bind failed: '' @ e))
         | (c1, None) \<Rightarrow>
           if trim_space (lc_BaseDN cfg) = [] then Inr []
           else (case dir_search dir c1 \<lparr>sr_Base = lc_BaseDN cfg, sr_SizeLimit = 1,
                      sr_Filter = buildFilter (lc_UserFilter cfg) ''*'', sr_Attributes = attrList cfg\<rparr> of
                   (_, Inl f) \<Rightarrow>
                     (if sf_SizeLimit f \<and> sf_Entries f \<noteq> [] then Inr (le_DN (hd (sf_Entries f)))
                      else Inl (ErrConfig (''sample search failed: '' @ sf_Text f)))
                 | (_, Inr []) \<Rightarrow> Inr []
                 | (_, Inr (e # es)) \<Rightarrow> Inr (le_DN e))))"

subsection \<open>Login handlers: helpers\<close>

text \<open>A handler of a browser flow answers a page or a redirect (the argument of \<open>http.Redirect\<close>)
  with cookies.\<close>

datatype web_response = Answer response | RedirectTo string "(string \<times> string) list"

record sso_env =
  srv :: server
  PublicURL :: string
  TrustProxy :: bool

definition oidcStateTTL :: int where "oidcStateTTL = 10 * minute"

definition AMRLDAP :: string where "AMRLDAP = ''ldap''"
definition AMROIDC :: string where "AMROIDC = ''oidc''"

text \<open>\<open>tls\<close> says whether the request came over TLS.\<close>

definition IsHTTPS :: "bool \<Rightarrow> request \<Rightarrow> bool \<Rightarrow> bool" where
  "IsHTTPS tls r trustProxy =
     (if tls then True else if trustProxy \<and> Header_Get r ''X-Forwarded-Proto'' = ''https'' then True else False)"

definition sanitizeRedirect :: "string \<Rightarrow> string" where
  "sanitizeRedirect p0 =
     (let p = trim_space p0 in
      if p = [] \<or> \<not> has_prefix p ''/'' \<or> has_prefix p ''//'' then ''/'' else p)"

text \<open>On valid UTF-8, where the bytes below 0x20 and 0x7f are the control characters.\<close>

definition sanitizeUsername :: "string \<Rightarrow> string" where
  "sanitizeUsername s =
     take 128 (filter (\<lambda>c. \<not> (of_char c < (0x20 :: nat) \<or> of_char c = (0x7f :: nat))) (trim_space s))"

text \<open>\<open>url.QueryEscape\<close>.\<close>

definition query_char :: "char \<Rightarrow> string" where
  "query_char c =
     (if is_upper c \<or> is_lower c \<or> is_digit c \<or> c \<in> set ''-_.~'' then [c]
      else if c = CHR '' '' then ''+''
      else [CHR ''%'', ''0123456789ABCDEF'' ! (of_char c div 16), ''0123456789ABCDEF'' ! (of_char c mod 16)])"

definition QueryEscape :: "string \<Rightarrow> string" where
  "QueryEscape s = concat (map query_char s)"

definition ssoRedirectError :: "string \<Rightarrow> string \<Rightarrow> web_response" where
  "ssoRedirectError dest0 code =
     (let dest = sanitizeRedirect dest0;
          sep = (if contains_str dest ''?'' then ''&'' else ''?'')
      in RedirectTo (dest @ sep @ ''sso_error='' @ QueryEscape code) [])"

definition ssoLoginSuccess :: "world \<Rightarrow> string \<Rightarrow> string \<Rightarrow> user_row \<Rightarrow> world" where
  "ssoLoginSuccess w source providerID u =
     SetAuditResult (AddAuditDetail (AddAuditDetail (SetAuditTarget w ''user'' (ID u) (Username u))
       ''authSource'' (JStr source)) ''providerId'' (JStr providerID)) ''success''"

definition ssoLoginDenied :: "world \<Rightarrow> string \<Rightarrow> string \<Rightarrow> string \<Rightarrow> world" where
  "ssoLoginDenied w source providerID reason =
     (let w1 = AddAuditDetail w ''authSource'' (JStr source);
          w2 = (if providerID \<noteq> [] then AddAuditDetail w1 ''providerId'' (JStr providerID) else w1)
      in SetAuditResult (AddAuditDetail w2 ''reason'' (JStr reason)) ''denied'')"

fun single_of_kind :: "string \<Rightarrow> provider_row option \<Rightarrow> provider_row list \<Rightarrow> api_error + provider_row option" where
  "single_of_kind kind found [] = Inr found"
| "single_of_kind kind found (p # ps) =
     (if ap_kind p = kind then
        (if found \<noteq> None
         then Inl (Errorf ErrValidation (''Multiple '' @ kind @ '' providers are configured; specify one.''))
         else single_of_kind kind (Some p) ps)
      else single_of_kind kind found ps)"

definition enabledProviderOfKind :: "db \<Rightarrow> string \<Rightarrow> string \<Rightarrow> api_error + provider_row" where
  "enabledProviderOfKind s i0 kind =
     (let i = trim_space i0 in
      if i \<noteq> [] then
        (case GetAuthProvider s i of Inl _ \<Rightarrow> Inl APIErrNotFound
         | Inr p \<Rightarrow> (if \<not> ap_enabled p \<or> ap_kind p \<noteq> kind
                     then Inl (Errorf ErrValidation ''The selected sign-in method is not available.'')
                     else Inr p))
      else
        (case ListEnabledAuthProviders s of Inl _ \<Rightarrow> Inl ErrInternal
         | Inr ps \<Rightarrow>
           (case single_of_kind kind None ps of Inl e \<Rightarrow> Inl e
            | Inr None \<Rightarrow> Inl (Errorf ErrValidation (''No '' @ kind @ '' sign-in method is configured.''))
            | Inr (Some p) \<Rightarrow> Inr p)))"

definition oidcRedirectURL :: "sso_env \<Rightarrow> bool \<Rightarrow> provider_row \<Rightarrow> request \<Rightarrow> string" where
  "oidcRedirectURL env tls prov r =
     (let callback = ''/api/v1/auth/oidc/callback'';
          u = trim_space (OIDCRedirectURL prov);
          base = trim_right (\<lambda>c. c = CHR ''/'') (PublicURL env)
      in if u \<noteq> [] then u
         else if base \<noteq> [] then base @ callback
         else (if IsHTTPS tls r (TrustProxy env) then ''https'' else ''http'') @ ''://'' @ Host r @ callback)"

definition oidcParams :: "sso_env \<Rightarrow> bool \<Rightarrow> provider_row \<Rightarrow> request \<Rightarrow> oidc_params option" where
  "oidcParams env tls prov r =
     (case (if OIDCClientSecretEnc prov = [] then Some [] else open_secret (srv env) (OIDCClientSecretEnc prov)) of
        None \<Rightarrow> None
      | Some secret \<Rightarrow> Some \<lparr>op_Issuer = OIDCIssuer prov, op_ClientID = OIDCClientID prov,
          op_ClientSecret = secret, op_RedirectURL = oidcRedirectURL env tls prov r,
          op_Scopes = str_fields (OIDCScopes prov), op_GroupsClaim = OIDCGroupsClaim prov,
          op_UsernameClaim = OIDCUsernameClaim prov, op_EmailClaim = OIDCEmailClaim prov\<rparr>)"

definition ldapConfig :: "server \<Rightarrow> provider_row \<Rightarrow> ldap_config option" where
  "ldapConfig sv prov =
     (case (if LDAPBindPWEnc prov = [] then Some [] else open_secret sv (LDAPBindPWEnc prov)) of
        None \<Rightarrow> None
      | Some pw \<Rightarrow> Some \<lparr>lc_Host = LDAPHost prov, lc_Port = LDAPPort prov, lc_TLS = LDAPTLS prov,
          lc_SkipVerify = LDAPSkipVerify prov, lc_BindDN = LDAPBindDN prov, lc_BindPassword = pw,
          lc_BaseDN = LDAPBaseDN prov, lc_UserFilter = LDAPUserFilter prov,
          lc_AttrUsername = LDAPAttrUsername prov, lc_AttrEmail = LDAPAttrEmail prov,
          lc_AttrDisplay = LDAPAttrDisplay prov, lc_GroupBaseDN = LDAPGroupBaseDN prov,
          lc_GroupFilter = LDAPGroupFilter prov, lc_AttrMember = LDAPAttrMember prov\<rparr>)"

subsection \<open>Provisioning\<close>

record external_identity =
  ei_ExternalID :: string
  ei_Username :: string
  ei_Email :: string
  ei_Display :: string
  ei_Groups :: "string list"
  GroupsKnown :: bool
  GroupsOverage :: bool

text \<open>The fresh values of one login: the id of a new account, the ids of new bindings.\<close>

record fresh_ids =
  fr_user :: string
  fr_binding :: "nat \<Rightarrow> string"

definition external_user :: "fresh_ids \<Rightarrow> string \<Rightarrow> string \<Rightarrow> external_identity \<Rightarrow> user_row" where
  "external_user fr provID source ext =
     (let username = (let n = sanitizeUsername (ei_Username ext)
                      in if n = [] then sanitizeUsername (ei_ExternalID ext) else n)
      in \<lparr>ID = fr_user fr, Username = username, Email = ei_Email ext,
          PasswordHash = ExternalPasswordSentinel, TOTPSecretEnc = [], TOTPEnabled = False,
          TOTPConfirmedAt = None, IsActive = True, MustChangePW = False, FailedLogins = 0,
          LockedUntil = None, LastLoginAt = None, AuthSource = source,
          ExternalID = ei_ExternalID ext, ExternalProviderID = provID, CreatedAt = 0, UpdatedAt = 0\<rparr>)"

text \<open>The roles of a login: those the groups map to, else the default role of the provider.\<close>

definition login_roles :: "db \<Rightarrow> provider_row \<Rightarrow> external_identity \<Rightarrow> store_error + string list" where
  "login_roles s prov ext =
     (case (if GroupsKnown ext \<and> ei_Groups ext \<noteq> []
            then ResolveRolesForGroups s (ap_id prov) (ei_Groups ext) else Inr []) of
        Inl e \<Rightarrow> Inl e
      | Inr ids \<Rightarrow> Inr (if ids = [] \<and> trim_space (DefaultRoleID prov) \<noteq> [] then [DefaultRoleID prov] else ids))"

definition finishExternalLogin ::
  "world \<Rightarrow> provider_row \<Rightarrow> string \<Rightarrow> external_identity \<Rightarrow> fresh_ids \<Rightarrow> (user_row \<times> jval) option \<times> world" where
  "finishExternalLogin w prov source ext fr =
     (case UpsertExternalUser (store w) (clock w) (fr_user fr) (external_user fr (ap_id prov) source ext) of
        (Inl _, s1) \<Rightarrow> (None, w\<lparr>store := s1\<rparr>)
      | (Inr u, s1) \<Rightarrow>
        (case login_roles s1 prov ext of
           Inl _ \<Rightarrow> (None, w\<lparr>store := s1\<rparr>)
         | Inr ids \<Rightarrow>
           (case ReplaceExternalRoleBindings s1 (clock w) (ID u) ids (fr_binding fr) of
              Inl _ \<Rightarrow> (None, w\<lparr>store := s1\<rparr>)
            | Inr s2 \<Rightarrow> (Some (u, perms_json s2 (ID u)), w\<lparr>store := s2\<rparr>))))"

definition auth_cookies :: "(string \<times> string) option \<Rightarrow> session_row \<Rightarrow> (string \<times> string) list" where
  "auth_cookies rnd sess = [(''castor_session'', (case rnd of Some (raw, _) \<Rightarrow> raw | None \<Rightarrow> [])),
     (''castor_csrf'', CSRFToken sess)]"

subsection \<open>Login handlers\<close>

definition providerSummary :: "provider_row \<Rightarrow> jval" where
  "providerSummary p = JObj [(''id'', JStr (ap_id p)), (''name'', JStr (ap_name p)), (''kind'', JStr (ap_kind p))]"

definition AuthProviders :: handler where
  "AuthProviders w r =
     (case ListEnabledAuthProviders (store w) of
        Inl e \<Rightarrow> (writeMapped r e, w)
      | Inr ps \<Rightarrow> (ok (JArr (map providerSummary ps)), w))"

text \<open>\<open>q\<close> is the query string; \<open>rnd\<close> holds the random state, nonce and PKCE verifier.\<close>

definition OIDCStart ::
  "sso_env \<Rightarrow> 'p idp \<Rightarrow> bool \<Rightarrow> (string \<Rightarrow> string) \<Rightarrow> (string \<times> string \<times> string) option
     \<Rightarrow> world \<Rightarrow> request \<Rightarrow> web_response \<times> world" where
  "OIDCStart env ip tls q rnd w r =
     (case enabledProviderOfKind (store w) (q ''provider'') ''oidc'' of
        Inl e \<Rightarrow> (Answer (WriteError r e), w)
      | Inr prov \<Rightarrow>
        (case oidcParams env tls prov r of
           None \<Rightarrow> (Answer (WriteError r ErrInternal), w)
         | Some params \<Rightarrow>
           (case NewVerifier ip (op_Issuer params) (op_ClientID params) of
              Inl _ \<Rightarrow> (Answer (WriteError r (Errorf ErrInternal ''Identity provider is unreachable.'')), w)
            | Inr provider \<Rightarrow>
              (case rnd of None \<Rightarrow> (Answer (WriteError r ErrInternal), w)
               | Some (state, nonce, verifier) \<Rightarrow>
                 (case CreateOIDCAuthState (store w) (clock w)
                    \<lparr>os_state = state, os_provider = ap_id prov, Nonce = nonce, PKCEVerifier = verifier,
                     RedirectAfter = sanitizeRedirect (q ''redirect''), os_created = clock w,
                     os_expires = clock w + go_div oidcStateTTL second\<rparr> of
                    Inl _ \<Rightarrow> (Answer (WriteError r ErrInternal), w)
                  | Inr s' \<Rightarrow>
                    (RedirectTo (AuthCodeURL ip params provider state nonce (S256Challenge ip verifier)) [],
                     SetAuditResult (AddAuditDetail
                       (SetAuditTarget (w\<lparr>store := s'\<rparr>) ''auth_provider'' (ap_id prov) (ap_name prov))
                       ''authSource'' (JStr ''oidc'')) ''success''))))))"

text \<open>
  The middle of the callback, from the consumed state to the verified identity: the code of the
  error and, where the failure is recorded as a denied login, the provider it names.
\<close>

definition oidc_external :: "oidc_identity \<Rightarrow> external_identity" where
  "oidc_external ident =
     \<lparr>ei_ExternalID = oi_ExternalID ident, ei_Username = oi_Username ident,
      ei_Email = oi_Email ident, ei_Display = oi_Display ident, ei_Groups = oi_Groups ident,
      GroupsKnown = \<not> oi_GroupsOverage ident, GroupsOverage = oi_GroupsOverage ident\<rparr>"

definition oidc_identify ::
  "sso_env \<Rightarrow> 'p idp \<Rightarrow> bool \<Rightarrow> string \<Rightarrow> oidc_state_row \<Rightarrow> db \<Rightarrow> request
     \<Rightarrow> (string \<times> string option) + (provider_row \<times> external_identity)" where
  "oidc_identify env ip tls code st s r =
     (case GetAuthProvider s (os_provider st) of
        Inl _ \<Rightarrow> Inl (''provider_unavailable'', Some (os_provider st))
      | Inr prov \<Rightarrow>
        if \<not> ap_enabled prov \<or> ap_kind prov \<noteq> ''oidc''
          then Inl (''provider_unavailable'', Some (os_provider st))
        else (case oidcParams env tls prov r of
           None \<Rightarrow> Inl (''server_error'', None)
         | Some params \<Rightarrow>
           (case NewVerifier ip (op_Issuer params) (op_ClientID params) of
              Inl _ \<Rightarrow> Inl (''idp_unreachable'', Some (ap_id prov))
            | Inr provider \<Rightarrow>
              (case Exchange ip params provider code (PKCEVerifier st) of
                 None \<Rightarrow> Inl (''code_exchange_failed'', Some (ap_id prov))
               | Some raw \<Rightarrow>
                 (case VerifyAndClaims ip provider raw (Nonce st) params of
                    None \<Rightarrow> Inl (''token_verification_failed'', Some (ap_id prov))
                  | Some ident \<Rightarrow> Inr (prov, oidc_external ident))))))"

text \<open>\<open>fr\<close> and \<open>rnd\<close> are the fresh ids and the random session id and CSRF token of the login.\<close>

definition OIDCCallback ::
  "sso_env \<Rightarrow> 'p idp \<Rightarrow> bool \<Rightarrow> (string \<Rightarrow> string) \<Rightarrow> fresh_ids \<Rightarrow> (string \<times> string) option
     \<Rightarrow> world \<Rightarrow> request \<Rightarrow> web_response \<times> world" where
  "OIDCCallback env ip tls q fr rnd w r =
     (if q ''error'' \<noteq> [] then (ssoRedirectError ''/'' (q ''error''), w)
      else if q ''code'' = [] \<or> q ''state'' = [] then (ssoRedirectError ''/'' ''invalid_request'', w)
      else (case ConsumeOIDCAuthState (store w) (clock w) (q ''state'') of
        (Inl _, s1) \<Rightarrow>
          (ssoRedirectError ''/'' ''invalid_state'', ssoLoginDenied (w\<lparr>store := s1\<rparr>) ''oidc'' [] ''invalid_state'')
      | (Inr st, s1) \<Rightarrow>
        (case oidc_identify env ip tls (q ''code'') st s1 r of
           Inl (code, None) \<Rightarrow> (ssoRedirectError (RedirectAfter st) code, w\<lparr>store := s1\<rparr>)
         | Inl (code, Some pid) \<Rightarrow>
             (ssoRedirectError (RedirectAfter st) code, ssoLoginDenied (w\<lparr>store := s1\<rparr>) ''oidc'' pid code)
         | Inr (prov, ext) \<Rightarrow>
           (case finishExternalLogin (w\<lparr>store := s1\<rparr>) prov ''oidc'' ext fr of
              (None, w2) \<Rightarrow>
                (ssoRedirectError (RedirectAfter st) ''server_error'',
                 ssoLoginDenied w2 ''oidc'' (ap_id prov) ''provisioning_failed'')
            | (Some (u, _), w2) \<Rightarrow>
              (case mintSession (srv env) w2 r rnd (ID u) AMROIDC of
                 None \<Rightarrow> (ssoRedirectError (RedirectAfter st) ''server_error'', w2)
               | Some (sess, w3) \<Rightarrow>
                 (RedirectTo (sanitizeRedirect (RedirectAfter st)) (auth_cookies rnd sess),
                  ssoLoginSuccess w3 ''oidc'' (ap_id prov) u))))))"

record ldap_login_request =
  ll_username :: string
  ll_password :: string
  ll_provider :: string

definition LDAPLogin ::
  "server \<Rightarrow> 'c directory \<Rightarrow> fresh_ids \<Rightarrow> (string \<times> string) option \<Rightarrow> api_error + ldap_login_request \<Rightarrow> handler" where
  "LDAPLogin sv dir fr rnd body w r =
     (case body of Inl e \<Rightarrow> (WriteError r e, w)
      | Inr req \<Rightarrow>
        (let username = trim_space (ll_username req) in
         if username = [] \<or> ll_password req = [] then (WriteError r ErrUnauthenticated, w)
         else (case enabledProviderOfKind (store w) (ll_provider req) ''ldap'' of
           Inl e \<Rightarrow> (WriteError r e, w)
         | Inr prov \<Rightarrow>
           (case ldapConfig sv prov of None \<Rightarrow> (WriteError r ErrInternal, w)
            | Some cfg \<Rightarrow>
              (case Authenticate dir cfg username (ll_password req) of
                 Inl _ \<Rightarrow> (WriteError r ErrUnauthenticated,
                           ssoLoginDenied w ''ldap'' (ap_id prov) ''invalid_credentials'')
               | Inr ident \<Rightarrow>
                 (case finishExternalLogin w prov ''ldap''
                     \<lparr>ei_ExternalID = firstNonEmpty [li_ExternalID ident, li_Username ident],
                      ei_Username = firstNonEmpty [li_Username ident, username],
                      ei_Email = li_Email ident, ei_Display = li_Display ident,
                      ei_Groups = li_Groups ident, GroupsKnown = True, GroupsOverage = False\<rparr> fr of
                    (None, w2) \<Rightarrow> (WriteError r ErrInternal,
                                  ssoLoginDenied w2 ''ldap'' (ap_id prov) ''provisioning_failed'')
                  | (Some (u, ps), w2) \<Rightarrow>
                    (case mintSession sv w2 r rnd (ID u) AMRLDAP of
                       None \<Rightarrow> (WriteError r ErrInternal, w2)
                     | Some (sess, w3) \<Rightarrow>
                       ((WriteJSON 200 (JObj [(''user'', toUserView u), (''amr'', JStr AMRLDAP),
                           (''csrfToken'', JStr (CSRFToken sess)), (''permissions'', ps),
                           (''requiresTotp'', JBool False)]))\<lparr>SetCookies := auth_cookies rnd sess\<rparr>,
                        ssoLoginSuccess w3 ''ldap'' (ap_id prov) u))))))))"

end
