(* ===== verification/Sso_Admin.thy ===== *)
theory Sso_Admin
  imports Sso_Login
begin

text \<open>
  Administration of single sign-on (\<open>api/admin_auth.go\<close>): identity providers, the test of a
  provider, the mappings of its groups to roles, with the routes of \<open>mountAuthAdminRoutes\<close>.
  Sealing a secret is a function of the request (it draws a random nonce), \<open>None\<close> when it fails.
\<close>

subsection \<open>Requests and views\<close>

definition toAuthProviderView :: "provider_row \<Rightarrow> jval" where
  "toAuthProviderView p = JObj
     [(''id'', JStr (ap_id p)),
      (''name'', JStr (ap_name p)),
      (''kind'', JStr (ap_kind p)),
      (''enabled'', JBool (ap_enabled p)),
      (''defaultRoleId'', JStr (DefaultRoleID p)),
      (''ldapHost'', JStr (LDAPHost p)),
      (''ldapPort'', JNum (LDAPPort p)),
      (''ldapTls'', JStr (LDAPTLS p)),
      (''ldapSkipVerify'', JBool (LDAPSkipVerify p)),
      (''ldapBindDn'', JStr (LDAPBindDN p)),
      (''hasBindPassword'', JBool (length (LDAPBindPWEnc p) > 0)),
      (''ldapBaseDn'', JStr (LDAPBaseDN p)),
      (''ldapUserFilter'', JStr (LDAPUserFilter p)),
      (''ldapAttrUsername'', JStr (LDAPAttrUsername p)),
      (''ldapAttrEmail'', JStr (LDAPAttrEmail p)),
      (''ldapAttrDisplay'', JStr (LDAPAttrDisplay p)),
      (''ldapGroupBaseDn'', JStr (LDAPGroupBaseDN p)),
      (''ldapGroupFilter'', JStr (LDAPGroupFilter p)),
      (''ldapAttrMember'', JStr (LDAPAttrMember p)),
      (''oidcIssuer'', JStr (OIDCIssuer p)),
      (''oidcClientId'', JStr (OIDCClientID p)),
      (''hasClientSecret'', JBool (length (OIDCClientSecretEnc p) > 0)),
      (''oidcRedirectUrl'', JStr (OIDCRedirectURL p)),
      (''oidcScopes'', JStr (OIDCScopes p)),
      (''oidcGroupsClaim'', JStr (OIDCGroupsClaim p)),
      (''oidcUsernameClaim'', JStr (OIDCUsernameClaim p)),
      (''oidcEmailClaim'', JStr (OIDCEmailClaim p)),
      (''createdAt'', JNum (ap_created p)),
      (''updatedAt'', JNum (ap_updated p))]"

record provider_request =
  pr_Name :: string
  pr_Kind :: string
  pr_Enabled :: bool
  pr_DefaultRoleID :: string
  pr_LDAPHost :: string
  pr_LDAPPort :: int
  pr_LDAPTLS :: string
  pr_LDAPSkipVerify :: bool
  pr_LDAPBindDN :: string
  pr_LDAPBindPW :: "string option"
  pr_LDAPBaseDN :: string
  pr_LDAPUserFilter :: string
  pr_LDAPAttrUser :: string
  pr_LDAPAttrEmail :: string
  pr_LDAPAttrDisplay :: string
  pr_LDAPGroupBaseDN :: string
  pr_LDAPGroupFilter :: string
  pr_LDAPAttrMember :: string
  pr_OIDCIssuer :: string
  pr_OIDCClientID :: string
  pr_OIDCClientSecret :: "string option"
  pr_OIDCRedirectURL :: string
  pr_OIDCScopes :: string
  pr_OIDCGroupsClaim :: string
  pr_OIDCUsernameClaim :: string
  pr_OIDCEmailClaim :: string

definition normalizeProviderKind :: "string \<Rightarrow> api_error + string" where
  "normalizeProviderKind k =
     (let t = trim_space (to_lower k) in
      if t = ''ldap'' then Inr ''ldap''
      else if t = ''oidc'' then Inr ''oidc''
      else Inl (Errorf ErrValidation ''kind must be 'ldap' or 'oidc'.''))"

definition validateProviderRequest :: "string \<Rightarrow> provider_request \<Rightarrow> api_error option" where
  "validateProviderRequest kind q =
     (if kind = ''ldap'' then
        (if trim_space (pr_LDAPHost q) = []
           then Some (Errorf ErrValidation ''ldapHost is required for an LDAP provider.'')
         else if pr_LDAPPort q < 0 \<or> pr_LDAPPort q > 65535
           then Some (Errorf ErrValidation ''ldapPort must be between 0 and 65535.'')
         else if trim_space (pr_LDAPTLS q) \<notin> {[], ''none'', ''starttls'', ''ldaps''}
           then Some (Errorf ErrValidation ''ldapTls must be one of none, starttls, ldaps.'')
         else if trim_space (pr_LDAPBaseDN q) = []
           then Some (Errorf ErrValidation ''ldapBaseDn is required for an LDAP provider.'')
         else None)
      else if kind = ''oidc'' then
        (if trim_space (pr_OIDCIssuer q) = []
           then Some (Errorf ErrValidation ''oidcIssuer is required for an OIDC provider.'')
         else if trim_space (pr_OIDCClientID q) = []
           then Some (Errorf ErrValidation ''oidcClientId is required for an OIDC provider.'')
         else None)
      else None)"

text \<open>A row with the key and kind, all else zero, and \<open>applyProviderRequest\<close> on it.\<close>

definition blank_provider :: "string \<Rightarrow> string \<Rightarrow> provider_row" where
  "blank_provider i kind =
     \<lparr>ap_id = i, ap_name = [], ap_kind = kind, ap_enabled = False, DefaultRoleID = [],
      LDAPHost = [], LDAPPort = 0, LDAPTLS = [], LDAPSkipVerify = False, LDAPBindDN = [],
      LDAPBindPWEnc = [], LDAPBaseDN = [], LDAPUserFilter = [], LDAPAttrUsername = [],
      LDAPAttrEmail = [], LDAPAttrDisplay = [], LDAPGroupBaseDN = [], LDAPGroupFilter = [],
      LDAPAttrMember = [], OIDCIssuer = [], OIDCClientID = [], OIDCClientSecretEnc = [],
      OIDCRedirectURL = [], OIDCScopes = [], OIDCGroupsClaim = [], OIDCUsernameClaim = [],
      OIDCEmailClaim = [], ap_created = 0, ap_updated = 0\<rparr>"

definition applyProviderRequest :: "provider_row \<Rightarrow> provider_request \<Rightarrow> provider_row" where
  "applyProviderRequest p q =
     p\<lparr>ap_name := trim_space (pr_Name q), ap_enabled := pr_Enabled q,
       DefaultRoleID := trim_space (pr_DefaultRoleID q),
       LDAPHost := trim_space (pr_LDAPHost q),
       LDAPPort := (if pr_LDAPPort q = 0 then 389 else pr_LDAPPort q),
       LDAPTLS := defaultStr (trim_space (pr_LDAPTLS q)) ''starttls'',
       LDAPSkipVerify := pr_LDAPSkipVerify q,
       LDAPBindDN := trim_space (pr_LDAPBindDN q),
       LDAPBaseDN := trim_space (pr_LDAPBaseDN q),
       LDAPUserFilter := defaultStr (trim_space (pr_LDAPUserFilter q))
         ''(&(objectClass=person)(sAMAccountName=%s))'',
       LDAPAttrUsername := defaultStr (trim_space (pr_LDAPAttrUser q)) ''sAMAccountName'',
       LDAPAttrEmail := defaultStr (trim_space (pr_LDAPAttrEmail q)) ''mail'',
       LDAPAttrDisplay := defaultStr (trim_space (pr_LDAPAttrDisplay q)) ''displayName'',
       LDAPGroupBaseDN := trim_space (pr_LDAPGroupBaseDN q),
       LDAPGroupFilter := defaultStr (trim_space (pr_LDAPGroupFilter q)) ''(&(objectClass=group)(member=%s))'',
       LDAPAttrMember := defaultStr (trim_space (pr_LDAPAttrMember q)) ''memberOf'',
       OIDCIssuer := trim_space (pr_OIDCIssuer q),
       OIDCClientID := trim_space (pr_OIDCClientID q),
       OIDCRedirectURL := trim_space (pr_OIDCRedirectURL q),
       OIDCScopes := defaultStr (trim_space (pr_OIDCScopes q)) ''openid profile email'',
       OIDCGroupsClaim := defaultStr (trim_space (pr_OIDCGroupsClaim q)) ''groups'',
       OIDCUsernameClaim := defaultStr (trim_space (pr_OIDCUsernameClaim q)) ''preferred_username'',
       OIDCEmailClaim := defaultStr (trim_space (pr_OIDCEmailClaim q)) ''email''\<rparr>"

text \<open>A secret of a request: absent or empty is not sealed.\<close>

definition seal_secret :: "(string \<Rightarrow> string option) \<Rightarrow> string option \<Rightarrow> string option" where
  "seal_secret seal v =
     (case v of None \<Rightarrow> Some [] | Some s \<Rightarrow> if s = [] then Some [] else seal s)"

definition seal_secrets ::
  "(string \<Rightarrow> string option) \<Rightarrow> provider_request \<Rightarrow> provider_row \<Rightarrow> provider_row option" where
  "seal_secrets seal q p =
     (case seal_secret seal (pr_LDAPBindPW q) of None \<Rightarrow> None
      | Some pw \<Rightarrow>
        (case seal_secret seal (pr_OIDCClientSecret q) of None \<Rightarrow> None
         | Some cs \<Rightarrow> Some (p\<lparr>LDAPBindPWEnc := pw, OIDCClientSecretEnc := cs\<rparr>)))"

subsection \<open>Providers\<close>

definition ListAuthProviders_handler :: handler where
  "ListAuthProviders_handler w r =
     (case ListAuthProviders (store w) of Inl e \<Rightarrow> (writeMapped r e, w)
      | Inr ps \<Rightarrow> (ok (JArr (map toAuthProviderView ps)), w))"

definition GetAuthProvider_handler :: "string \<Rightarrow> handler" where
  "GetAuthProvider_handler i w r =
     (case GetAuthProvider (store w) i of Inl e \<Rightarrow> (writeMapped r e, w)
      | Inr p \<Rightarrow> (ok (toAuthProviderView p), w))"

text \<open>The store fills the row it is given with the times and defaults, so the answer shows them.\<close>

definition CreateAuthProvider_handler ::
  "(string \<Rightarrow> string option) \<Rightarrow> string \<Rightarrow> api_error + provider_request \<Rightarrow> handler" where
  "CreateAuthProvider_handler seal i body w r =
     (case body of Inl e \<Rightarrow> (WriteError r e, w)
      | Inr q \<Rightarrow>
        (case normalizeProviderKind (pr_Kind q) of Inl e \<Rightarrow> (WriteError r e, w)
         | Inr kind \<Rightarrow>
           if trim_space (pr_Name q) = []
             then (WriteError r (Errorf ErrValidation ''Provider name is required.''), w)
           else (case validateProviderRequest kind q of Some e \<Rightarrow> (WriteError r e, w)
           | None \<Rightarrow>
             (case seal_secrets seal q (applyProviderRequest (blank_provider i kind) q) of
                None \<Rightarrow> (WriteError r ErrInternal, w)
              | Some p \<Rightarrow>
                (case CreateAuthProvider (store w) (clock w) p of
                   Inl _ \<Rightarrow> (WriteError r (Errorf ErrConflict ''A provider with that name already exists.''), w)
                 | Inr s' \<Rightarrow>
                   (created (toAuthProviderView (applyProviderDefaults
                      (p\<lparr>ap_created := clock w, ap_updated := clock w\<rparr>))),
                    AddAuditDetail (SetAuditTarget (w\<lparr>store := s'\<rparr>) ''auth_provider'' i (ap_name p))
                      ''kind'' (JStr kind)))))))"

text \<open>The row is read again for the answer; were it gone, the view of a nil row would panic.\<close>

definition UpdateAuthProvider_handler ::
  "(string \<Rightarrow> string option) \<Rightarrow> string \<Rightarrow> api_error + provider_request \<Rightarrow> handler" where
  "UpdateAuthProvider_handler seal i body w r =
     (case body of Inl e \<Rightarrow> (WriteError r e, w)
      | Inr q \<Rightarrow>
        (case GetAuthProvider (store w) i of Inl e \<Rightarrow> (writeMapped r e, w)
         | Inr ex \<Rightarrow>
           if trim_space (pr_Name q) = []
             then (WriteError r (Errorf ErrValidation ''Provider name is required.''), w)
           else (case validateProviderRequest (ap_kind ex) q of Some e \<Rightarrow> (WriteError r e, w)
           | None \<Rightarrow>
             (let w1 = SetAuditTarget w ''auth_provider'' i (ap_name ex) in
              case seal_secrets seal q (applyProviderRequest (blank_provider i (ap_kind ex)) q) of
                None \<Rightarrow> (WriteError r ErrInternal, w1)
              | Some p \<Rightarrow>
                (case UpdateAuthProvider (store w1) (clock w1) p
                        (pr_LDAPBindPW q \<noteq> None) (pr_OIDCClientSecret q \<noteq> None) of
                   Inl e \<Rightarrow> (if e = ErrNotFound then writeMapped r e
                             else WriteError r (Errorf ErrConflict
                               ''A provider with that name already exists.''), w1)
                 | Inr s' \<Rightarrow>
                   (let w2 = w1\<lparr>store := s'\<rparr> in
                    case GetAuthProvider s' i of Inl _ \<Rightarrow> (WriteError r ErrInternal, w2)
                    | Inr fresh \<Rightarrow> (ok (toAuthProviderView fresh), w2)))))))"

definition DeleteAuthProvider_handler :: "string \<Rightarrow> handler" where
  "DeleteAuthProvider_handler i w r =
     (let w1 = SetAuditTarget w ''auth_provider'' i [] in
      case DeleteAuthProvider (store w1) i of Inl e \<Rightarrow> (writeMapped r e, w1)
      | Inr s' \<Rightarrow> (noContent, w1\<lparr>store := s'\<rparr>))"

subsection \<open>Test of a provider\<close>

definition sanitizeRegistryError :: "string \<Rightarrow> string" where
  "sanitizeRegistryError s0 =
     (let s = takeWhile (\<lambda>c. c \<noteq> CHR 0x0A) (trim_space s0)
      in if s = [] then ''Login failed.'' else s)"

definition authTestResult :: "bool \<Rightarrow> string \<Rightarrow> string \<Rightarrow> jval" where
  "authTestResult good msg sample = JObj
     ([(''ok'', JBool good), (''message'', JStr msg)]
      @ (if sample = [] then [] else [(''sampleUser'', JStr sample)]))"

definition test_ldap :: "server \<Rightarrow> 'c directory \<Rightarrow> provider_row \<Rightarrow> request \<Rightarrow> response" where
  "test_ldap sv dir prov r =
     (case ldapConfig sv prov of None \<Rightarrow> WriteError r ErrInternal
      | Some cfg \<Rightarrow>
        (case LDAP_Test dir cfg of
           Inl e \<Rightarrow> ok (authTestResult False (sanitizeRegistryError (ldap_error_text e)) [])
         | Inr sample \<Rightarrow>
             ok (authTestResult True
               (if sample \<noteq> [] then ''LDAP connection, bind and sample search succeeded.''
                else ''LDAP connection and service bind succeeded, but the base DN / user filter matched no users.'')
               sample)))"

text \<open>A client secret that cannot be opened counts as empty here.\<close>

definition test_oidc :: "server \<Rightarrow> 'p idp \<Rightarrow> provider_row \<Rightarrow> response" where
  "test_oidc sv ip prov =
     (let secret = (if OIDCClientSecretEnc prov = [] then []
                    else (case open_secret sv (OIDCClientSecretEnc prov) of Some s \<Rightarrow> s | None \<Rightarrow> []))
      in case OIDC_Test ip (OIDCIssuer prov) (OIDCClientID prov) secret of
           Some e \<Rightarrow> ok (authTestResult False (sanitizeRegistryError e) [])
         | None \<Rightarrow> ok (authTestResult True
             ''OIDC discovery succeeded and the client configuration is valid.'' []))"

definition TestAuthProvider_handler ::
  "server \<Rightarrow> 'p idp \<Rightarrow> 'c directory \<Rightarrow> string \<Rightarrow> handler" where
  "TestAuthProvider_handler sv ip dir i w r =
     (case GetAuthProvider (store w) i of Inl e \<Rightarrow> (writeMapped r e, w)
      | Inr prov \<Rightarrow>
        (let w1 = AddAuditDetail (SetAuditTarget w ''auth_provider'' i (ap_name prov))
                    ''kind'' (JStr (ap_kind prov))
         in (if ap_kind prov = ''ldap'' then test_ldap sv dir prov r
             else if ap_kind prov = ''oidc'' then test_oidc sv ip prov
             else WriteError r (Errorf ErrValidation ''Unknown provider kind.''), w1)))"

subsection \<open>Group mappings\<close>

definition toGroupMappingView :: "mapping_row \<Rightarrow> jval" where
  "toGroupMappingView m = JObj
     [(''id'', JStr (gm_id m)), (''providerId'', JStr (gm_provider m)),
      (''externalGroup'', JStr (ExternalGroup m)), (''roleId'', JStr (gm_role m)),
      (''createdAt'', JNum (gm_created m))]"

definition ListGroupMappings_handler :: "string \<Rightarrow> handler" where
  "ListGroupMappings_handler pid w r =
     (case GetAuthProvider (store w) pid of Inl e \<Rightarrow> (writeMapped r e, w)
      | Inr _ \<Rightarrow>
        (case ListGroupRoleMappings (store w) pid of Inl e \<Rightarrow> (writeMapped r e, w)
         | Inr ms \<Rightarrow> (ok (JArr (map toGroupMappingView ms)), w)))"

text \<open>The body is the group and the role id.\<close>

definition CreateGroupMapping_handler ::
  "string \<Rightarrow> string \<Rightarrow> api_error + (string \<times> string) \<Rightarrow> handler" where
  "CreateGroupMapping_handler mid pid body w r =
     (case body of Inl e \<Rightarrow> (WriteError r e, w)
      | Inr (group0, rid) \<Rightarrow>
        (let group = trim_space group0 in
         if group = [] then (WriteError r (Errorf ErrValidation ''externalGroup is required.''), w)
         else if trim_space rid = [] then (WriteError r (Errorf ErrValidation ''roleId is required.''), w)
         else (case GetAuthProvider (store w) pid of Inl e \<Rightarrow> (writeMapped r e, w)
         | Inr prov \<Rightarrow>
           (let w1 = SetAuditTarget w ''auth_provider'' pid (ap_name prov);
                m = \<lparr>gm_id = mid, gm_provider = pid, ExternalGroup = group,
                     gm_role = trim_space rid, gm_created = clock w\<rparr>
            in case CreateGroupRoleMapping (store w1) (clock w1) m of
                 Inl _ \<Rightarrow> (WriteError r (Errorf ErrConflict
                            ''That group mapping already exists, or the role is invalid.''), w1)
               | Inr s' \<Rightarrow>
                 (created (toGroupMappingView m),
                  AddAuditDetail (AddAuditDetail (w1\<lparr>store := s'\<rparr>) ''externalGroup'' (JStr group))
                    ''roleId'' (JStr (gm_role m)))))))"

definition DeleteGroupMapping_handler :: "string \<Rightarrow> string \<Rightarrow> handler" where
  "DeleteGroupMapping_handler pid mid w r =
     (let w1 = AddAuditDetail (SetAuditTarget w ''auth_provider'' pid []) ''mappingId'' (JStr mid) in
      case DeleteGroupRoleMapping (store w1) pid mid of Inl e \<Rightarrow> (writeMapped r e, w1)
      | Inr s' \<Rightarrow> (noContent, w1\<lparr>store := s'\<rparr>))"

subsection \<open>Routes\<close>

datatype sso_admin_op =
    SListProviders
  | SGetProvider string
  | SCreateProvider "string \<Rightarrow> string option" string "api_error + provider_request"
  | SUpdateProvider "string \<Rightarrow> string option" string "api_error + provider_request"
  | SDeleteProvider string
  | STestProvider string
  | SListMappings string
  | SCreateMapping string string "api_error + (string \<times> string)"
  | SDeleteMapping string string

fun sso_admin_handler :: "server \<Rightarrow> 'p idp \<Rightarrow> 'c directory \<Rightarrow> sso_admin_op \<Rightarrow> handler" where
  "sso_admin_handler sv ip dir SListProviders = ListAuthProviders_handler"
| "sso_admin_handler sv ip dir (SGetProvider i) = GetAuthProvider_handler i"
| "sso_admin_handler sv ip dir (SCreateProvider seal i body) = CreateAuthProvider_handler seal i body"
| "sso_admin_handler sv ip dir (SUpdateProvider seal i body) = UpdateAuthProvider_handler seal i body"
| "sso_admin_handler sv ip dir (SDeleteProvider i) = DeleteAuthProvider_handler i"
| "sso_admin_handler sv ip dir (STestProvider i) = TestAuthProvider_handler sv ip dir i"
| "sso_admin_handler sv ip dir (SListMappings i) = ListGroupMappings_handler i"
| "sso_admin_handler sv ip dir (SCreateMapping m i body) = CreateGroupMapping_handler m i body"
| "sso_admin_handler sv ip dir (SDeleteMapping i m) = DeleteGroupMapping_handler i m"

text \<open>The audit action of a route that changes something; the reading routes are not audited.\<close>

fun sso_admin_action :: "sso_admin_op \<Rightarrow> string option" where
  "sso_admin_action (SCreateProvider _ _ _) = Some ''auth.provider.create''"
| "sso_admin_action (SUpdateProvider _ _ _) = Some ''auth.provider.update''"
| "sso_admin_action (SDeleteProvider _) = Some ''auth.provider.delete''"
| "sso_admin_action (STestProvider _) = Some ''auth.provider.test''"
| "sso_admin_action (SCreateMapping _ _ _) = Some ''auth.provider.mapping.create''"
| "sso_admin_action (SDeleteMapping _ _) = Some ''auth.provider.mapping.delete''"
| "sso_admin_action SListProviders = None"
| "sso_admin_action (SGetProvider _) = None"
| "sso_admin_action (SListMappings _) = None"

definition sso_guarded ::
  "(jval \<Rightarrow> string) \<Rightarrow> server \<Rightarrow> 'p idp \<Rightarrow> 'c directory \<Rightarrow> sso_admin_op \<Rightarrow> handler" where
  "sso_guarded enc sv ip dir op =
     (case sso_admin_action op of
        None \<Rightarrow> RequirePermission ''auth.provider.read'' None (sso_admin_handler sv ip dir op)
      | Some action \<Rightarrow> AuditWrap enc action
          (RequireAAL (RequirePermission ''auth.provider.write'' None (sso_admin_handler sv ip dir op))))"

definition sso_admin_route ::
  "(jval \<Rightarrow> string) \<Rightarrow> server \<Rightarrow> 'p idp \<Rightarrow> 'c directory \<Rightarrow> sso_admin_op \<Rightarrow> handler" where
  "sso_admin_route enc sv ip dir op =
     bootstrapGate (BearerOrSession (sdeps sv) (CSRF (sdeps sv) (sso_guarded enc sv ip dir op)))"

end
