(* ===== verification/Sso_Props.thy ===== *)
theory Sso_Props
  imports Sso_Admin
begin

text \<open>
  Properties of single sign-on: a login by OIDC needs, and uses up, a pending redirect whose nonce
  the verified token carries; a login by LDAP needs the directory to accept the password for the
  entry found; the global roles of the account after a login are exactly those the provider's
  mappings (or its default role) give;
  browser flows end on local paths.
\<close>

subsection \<open>A small world\<close>

definition demo_oidc_provider :: provider_row where
  "demo_oidc_provider = (blank_provider ''p1'' ''oidc'')\<lparr>ap_enabled := True, OIDCIssuer := ''iss'', OIDCClientID := ''cid''\<rparr>"

definition demo_ldap_provider :: provider_row where
  "demo_ldap_provider = (blank_provider ''p2'' ''ldap'')\<lparr>ap_enabled := True, LDAPHost := ''dc'', LDAPTLS := ''ldaps'',
     LDAPBaseDN := ''dc=x'', LDAPUserFilter := ''(uid=%s)'', LDAPAttrMember := ''memberOf'', LDAPBindPWEnc := ''sealed''\<rparr>"

definition demo_sso_db :: db where
  "demo_sso_db = \<lparr>users = [], sessions = [],
     role_tab = [\<lparr>role_id = ''r1'', role_name = ''ops'', role_desc = [], role_builtin = False,
                   role_perms = [''vm.read''], role_created = 0, role_updated = 0\<rparr>],
     bindings = [], tokens = [], recovery = [], settings = Map.empty, audit_log = [],
     auth_providers = [demo_oidc_provider, demo_ldap_provider],
     group_maps = [\<lparr>gm_id = ''m1'', gm_provider = ''p1'', ExternalGroup = ''Ops'', gm_role = ''r1'', gm_created = 0\<rparr>],
     oidc_states = [\<lparr>os_state = ''st'', os_provider = ''p1'', Nonce = ''n'', PKCEVerifier = ''v'',
                      RedirectAfter = ''/home'', os_created = 0, os_expires = 600\<rparr>],
     broken = {}\<rparr>"

definition demo_sso_world :: world where
  "demo_sso_world = \<lparr>store = demo_sso_db, clock = 100, audit = None\<rparr>"

definition demo_sso_env :: sso_env where
  "demo_sso_env = \<lparr>srv = \<lparr>sdeps = \<lparr>AllowedOrigins = [], SessionTTL = defaultSessionTTL,
       SessionAbsoluteTTL = defaultAbsoluteTTL, hash_hex = (\<lambda>s. CHR ''#'' # s), url_parse = (\<lambda>_. None)\<rparr>,
     verify = (\<lambda>h p. None), open_secret = Some, validate_totp = (\<lambda>_ _ _. False), BootstrapToken = []\<rparr>,
     PublicURL = ''https://c'', TrustProxy = False\<rparr>"

definition demo_idp :: "unit idp" where
  "demo_idp = \<lparr>idp_discover = (\<lambda>i. if i = ''iss'' then Inr () else Inl ''no''), idp_code_url = (\<lambda>_ _ _ _. ''https://idp''),
     idp_exchange = (\<lambda>_ _ code ps. if code = ''code'' \<and> ps = [(''code_verifier'', ''v'')] then Some (Some ''tok'') else None),
     idp_verify = (\<lambda>_ cid raw. if raw = ''tok'' then Some (''n'', Some [(''sub'', JStr ''alice''),
                      (''groups'', JArr [JStr ''OPS''])]) else None),
     S256Challenge = id\<rparr>"

definition demo_query :: "string \<Rightarrow> string" where
  "demo_query k = (if k = ''code'' then ''code'' else if k = ''state'' then ''st'' else [])"

definition demo_entry :: ldap_entry where
  "demo_entry = \<lparr>le_DN = ''uid=bob'', GetAttributeValue = (\<lambda>a. if a = ''entryUUID'' then ''u-7'' else []),
     GetAttributeValues = (\<lambda>_. [])\<rparr>"

definition demo_directory :: "unit directory" where
  "demo_directory = \<lparr>dir_dial = (\<lambda>_ _ _. Inr ()), dir_starttls = (\<lambda>c _ _. Inr c),
     dir_bind = (\<lambda>c dn pw. (c, if dn = ''uid=bob'' \<and> pw = ''pw'' then None else Some ''49'')),
     dir_anonymous = (\<lambda>c. (c, None)),
     dir_search = (\<lambda>c q. (c, Inr (if sr_Filter q = ''(uid=bob)'' then [demo_entry] else []))),
     EscapeFilter = id, ParseDN = (\<lambda>_. None)\<rparr>"

definition demo_sso_request :: request where
  "demo_sso_request = \<lparr>Method = ''GET'', Headers = Map.empty, Cookies = Map.empty, Host = ''h'',
      RemoteAddr = ''ip'', ctx_user = None, ctx_bearer = False, ctx_request_id = ''q''\<rparr>"

definition demo_fresh :: fresh_ids where
  "demo_fresh = \<lparr>fr_user = ''u1'', fr_binding = (\<lambda>n. ''b'' @ itoa (int n))\<rparr>"

abbreviation demo_callback :: "web_response \<times> world" where
  "demo_callback \<equiv> OIDCCallback demo_sso_env demo_idp True demo_query demo_fresh (Some (''raw'', ''csrf''))
     demo_sso_world demo_sso_request"

abbreviation demo_ldap_login :: "response \<times> world" where
  "demo_ldap_login \<equiv> LDAPLogin (srv demo_sso_env) demo_directory demo_fresh (Some (''raw'', ''csrf''))
     (Inr \<lparr>ll_username = '' bob '', ll_password = ''pw'', ll_provider = []\<rparr>) demo_sso_world demo_sso_request"

lemma demo_opened:
  "length (sessions (store (snd demo_callback))) = 1" "length (sessions (store (snd demo_ldap_login))) = 1"
  "sessions (store demo_sso_world) = []" "users (store demo_sso_world) = []"
  by code_simp+

subsection \<open>Helpers\<close>

lemma store_sso [simp]:
  "store (ssoLoginDenied w a b c) = store w" "store (ssoLoginSuccess w a b u) = store w"
  by (simp_all add: ssoLoginDenied_def ssoLoginSuccess_def Let_def)

lemma sanitize_local: "\<exists>t. sanitizeRedirect p = CHR ''/'' # t \<and> \<not> has_prefix t ''/''"
proof (cases "trim_space p = [] \<or> \<not> has_prefix (trim_space p) ''/'' \<or> has_prefix (trim_space p) ''//''")
  case True
  then show ?thesis by (auto simp: sanitizeRedirect_def Let_def has_prefix_def)
next
  case False
  then obtain t where "trim_space p = CHR ''/'' # t" by (cases "trim_space p") (auto simp: has_prefix_def)
  with False show ?thesis by (auto simp: sanitizeRedirect_def Let_def has_prefix_def)
qed

lemma error_redirect: "\<exists>t. ssoRedirectError p c = RedirectTo (CHR ''/'' # t) [] \<and> \<not> has_prefix t ''/''"
proof -
  from sanitize_local [of p] obtain t where t: "sanitizeRedirect p = CHR ''/'' # t" "\<not> has_prefix t ''/''"
    by blast
  then show ?thesis by (cases t) (auto simp: ssoRedirectError_def Let_def has_prefix_def)
qed

lemma trim_space_idem [simp]: "trim_space (trim_space s) = trim_space s"
proof -
  define a where "a = dropWhile is_space s"
  define b where "b = rev (dropWhile is_space (rev a))"
  have "a = b @ rev (takeWhile is_space (rev a))"
    unfolding b_def by (metis rev_append rev_rev_ident takeWhile_dropWhile_id)
  then have "b \<noteq> [] \<Longrightarrow> hd b = hd a" by (metis hd_append2)
  moreover have "a \<noteq> [] \<Longrightarrow> \<not> is_space (hd a)" unfolding a_def by (rule hd_dropWhile)
  moreover have "b \<noteq> [] \<Longrightarrow> a \<noteq> []" unfolding b_def by auto
  ultimately have "dropWhile is_space b = b" by (cases b) auto
  moreover have "dropWhile is_space (rev b) = rev b" unfolding b_def by (simp add: dropWhile_idem)
  moreover have "trim_space s = b" by (simp add: trim_space_def trim_left_def trim_right_def a_def b_def)
  ultimately show ?thesis by (simp add: trim_space_def trim_left_def trim_right_def)
qed

subsection \<open>The pending redirect of an OIDC login\<close>

text \<open>The callback has verified an identity: what the identity provider has answered.\<close>

definition idp_vouches ::
  "sso_env \<Rightarrow> 'p idp \<Rightarrow> bool \<Rightarrow> request \<Rightarrow> string \<Rightarrow> oidc_state_row \<Rightarrow> provider_row \<Rightarrow> external_identity \<Rightarrow> bool" where
  "idp_vouches env ip tls r code st prov ext \<longleftrightarrow>
     (\<exists>params provider raw cl ident. oidcParams env tls prov r = Some params
        \<and> idp_discover ip (trim_space (op_Issuer params)) = Inr provider
        \<and> idp_exchange ip (oauthConfig params) provider code [(''code_verifier'', PKCEVerifier st)] = Some (Some raw)
        \<and> idp_verify ip provider (op_ClientID params) raw = Some (Nonce st, Some cl)
        \<and> Nonce st \<noteq> [] \<and> identity_of_claims params cl = Some ident \<and> ext = oidc_external ident)"

lemma NewVerifier_Inr: "NewVerifier ip i c = Inr p \<Longrightarrow> idp_discover ip (trim_space i) = Inr p"
  by (simp add: NewVerifier_def split: if_splits sum.splits)

lemma Exchange_Some:
  "Exchange ip p prov code v = Some raw \<Longrightarrow>
     idp_exchange ip (oauthConfig p) prov code [(''code_verifier'', v)] = Some (Some raw)"
  by (simp add: Exchange_def split: option.splits if_splits)

lemma VerifyAndClaims_Some:
  "VerifyAndClaims ip prov raw n p = Some ident \<Longrightarrow>
     n \<noteq> [] \<and> (\<exists>cl. idp_verify ip prov (op_ClientID p) raw = Some (n, Some cl) \<and> identity_of_claims p cl = Some ident)"
  by (auto simp add: VerifyAndClaims_def split: option.splits if_splits)

lemma GetAuthProvider_Inr:
  "GetAuthProvider s i = Inr p \<Longrightarrow> p \<in> set (auth_providers s) \<and> ap_id p = i"
  by (auto simp: GetAuthProvider_def query_def select_one_def find_Some_iff split: if_splits option.splits)

lemma oidc_identify_Inr:
  assumes "oidc_identify env ip tls code st s r = Inr (prov, ext)"
  shows "GetAuthProvider s (os_provider st) = Inr prov" "ap_enabled prov" "ap_kind prov = ''oidc''"
    "idp_vouches env ip tls r code st prov ext"
proof -
  note d = assms [unfolded oidc_identify_def]
  from d obtain p0 where g: "GetAuthProvider s (os_provider st) = Inr p0"
    by (cases "GetAuthProvider s (os_provider st)") simp_all
  with d have en: "ap_enabled p0 \<and> ap_kind p0 = ''oidc''"
    by (cases "\<not> ap_enabled p0 \<or> ap_kind p0 \<noteq> ''oidc''") simp_all
  with d g obtain params where ps: "oidcParams env tls p0 r = Some params"
    by (cases "oidcParams env tls p0 r") simp_all
  with d g en obtain pv where pv: "NewVerifier ip (op_Issuer params) (op_ClientID params) = Inr pv"
    by (cases "NewVerifier ip (op_Issuer params) (op_ClientID params)") simp_all
  with d g en ps obtain raw where raw: "Exchange ip params pv code (PKCEVerifier st) = Some raw"
    by (cases "Exchange ip params pv code (PKCEVerifier st)") simp_all
  with d g en ps pv obtain ident where ident: "VerifyAndClaims ip pv raw (Nonce st) params = Some ident"
    by (cases "VerifyAndClaims ip pv raw (Nonce st) params") simp_all
  from d g en ps pv raw ident have e: "prov = p0" "ext = oidc_external ident" by simp_all
  show "GetAuthProvider s (os_provider st) = Inr prov" "ap_enabled prov" "ap_kind prov = ''oidc''"
    using g en e by simp_all
  from VerifyAndClaims_Some [OF ident] obtain cl where
    "idp_verify ip pv (op_ClientID params) raw = Some (Nonce st, Some cl)" "identity_of_claims params cl = Some ident"
    "Nonce st \<noteq> []" by blast
  then show "idp_vouches env ip tls r code st prov ext"
    unfolding idp_vouches_def e
    using ps NewVerifier_Inr [OF pv] Exchange_Some [OF raw] by (intro exI [of _ params] exI [of _ pv] exI [of _ raw] exI [of _ cl] exI [of _ ident] conjI)
      (assumption+, rule refl)
qed

lemma consume_Inr:
  "ConsumeOIDCAuthState s now k = (Inr st, s1) \<Longrightarrow>
     st \<in> set (oidc_states s) \<and> os_state st = k \<and> now \<le> os_expires st
     \<and> s1 = s\<lparr>oidc_states := delete_where (\<lambda>t. os_state t = k) (oidc_states s)\<rparr>"
  by (auto simp: ConsumeOIDCAuthState_def Let_def find_Some_iff split: if_splits option.splits)

lemma consume_sessions: "ConsumeOIDCAuthState s now k = (y, s1) \<Longrightarrow> sessions s1 = sessions s"
  by (auto simp: ConsumeOIDCAuthState_def Let_def split: if_splits option.splits)

lemma consume_gone:
  "k \<notin> os_state ` set (oidc_states s) \<Longrightarrow> \<exists>e. ConsumeOIDCAuthState s now k = (Inl e, s)"
  by (auto simp: ConsumeOIDCAuthState_def find_None_iff image_iff split: option.splits
        dest!: find_Some_iff [THEN iffD1])

subsection \<open>Provisioning\<close>

text \<open>What provisioning leaves alone: everything but users and bindings.\<close>

definition sso_frame :: "db \<Rightarrow> db \<Rightarrow> bool" where
  "sso_frame s s' \<longleftrightarrow> (\<exists>us bs. s' = s\<lparr>users := us, bindings := bs\<rparr>)"

lemma sso_frameI: "s' = s\<lparr>users := us, bindings := bs\<rparr> \<Longrightarrow> sso_frame s s'"
  unfolding sso_frame_def by (rule exI [of _ us], rule exI [of _ bs])

lemma sso_frame_fields:
  assumes "sso_frame s s'"
  shows "sessions s' = sessions s" "oidc_states s' = oidc_states s" "group_maps s' = group_maps s"
    "role_tab s' = role_tab s" "broken s' = broken s" "auth_providers s' = auth_providers s"
proof -
  from assms obtain us bs where e: "s' = s\<lparr>users := us, bindings := bs\<rparr>" unfolding sso_frame_def by (elim exE)
  show "sessions s' = sessions s" "oidc_states s' = oidc_states s" "group_maps s' = group_maps s"
    "role_tab s' = role_tab s" "broken s' = broken s" "auth_providers s' = auth_providers s" by (simp_all add: e)
qed

lemma sso_frame_users: "sso_frame s (s\<lparr>users := us\<rparr>)"
  by (rule sso_frameI [of _ "bindings s" us]) simp

lemma sso_frame_bindings: "sso_frame s (s\<lparr>bindings := bs\<rparr>)"
  by (rule sso_frameI [of _ bs "users s"]) simp

lemma sso_frame_refl: "sso_frame s s" using sso_frame_users [of s "users s"] by simp

lemma sso_frame_trans: "sso_frame a b \<Longrightarrow> sso_frame b c \<Longrightarrow> sso_frame a c"
proof -
  assume "sso_frame a b" "sso_frame b c"
  then obtain us bs us' bs' where "b = a\<lparr>users := us, bindings := bs\<rparr>" "c = b\<lparr>users := us', bindings := bs'\<rparr>"
    unfolding sso_frame_def by (elim exE)
  then show ?thesis by (intro sso_frameI [of _ bs' us']) simp
qed

text \<open>The account of an external identity: found by source and subject, or new.\<close>

lemma find_ID_distinct: "distinct (map ID us) \<Longrightarrow> u \<in> set us \<Longrightarrow> find (\<lambda>v. ID v = ID u) us = Some u"
  by (induction us) auto

lemma GetUserByID_Inr: "GetUserByID s i = Inr u \<Longrightarrow> u \<in> set (users s) \<and> ID u = i"
  by (auto simp: GetUserByID_def query_def select_one_def find_Some_iff split: if_splits option.splits)

lemma FindUser_Inr:
  "FindUserByExternalID s src x = Inr u \<Longrightarrow> u \<in> set (users s) \<and> AuthSource u = src \<and> ExternalID u = x"
  by (cases "find (\<lambda>u. AuthSource u = src \<and> ExternalID u = x \<and> x \<noteq> []) (users s)")
    (simp_all add: FindUserByExternalID_def query_def select_one_def split: if_splits, drule find_SomeD, simp)

lemma refresh_Inr:
  "refresh_external s now i u0 = Inr s' \<Longrightarrow>
     s' = upd_user s i (\<lambda>v. v\<lparr>Username := Username u0, Email := Email u0,
             ExternalProviderID := ExternalProviderID u0, IsActive := True, UpdatedAt := now\<rparr>)"
  by (simp add: refresh_external_def query_def split: if_splits)

lemma upsert_frame: "UpsertExternalUser s now i u0 = (x, s') \<Longrightarrow> sso_frame s s' \<and> bindings s' = bindings s"
  by (auto simp: UpsertExternalUser_def refresh_external_def CreateUser_def query_def upd_user_def Let_def
        sso_frame_users sso_frame_refl split: sum.splits store_error.splits if_splits)

lemma updated_row:
  assumes "distinct (map ID us)" "ex \<in> set us" "u \<in> set (update_where (\<lambda>v. ID v = ID ex) f us)" "ID u = ID ex"
  shows "u = f ex"
proof -
  from in_update_where [THEN iffD1, OF assms(3)] show ?thesis
  proof (elim disjE conjE bexE)
    assume "ID u \<noteq> ID ex"
    then show ?thesis using assms(4) by (rule notE)
  next
    fix v assume v: "v \<in> set us" "ID v = ID ex" "u = f v"
    from find_ID_distinct [OF assms(1) v(1), unfolded v(2)] find_ID_distinct [OF assms(1,2)]
    have "Some v = Some ex" by (rule trans [OF sym])
    then have "v = ex" by (rule option.inject [THEN iffD1])
    then show "u = f ex" using v(3) by (simp only:)
  qed
qed

lemma upsert_account:
  assumes "UpsertExternalUser s now i u0 = (Inr u, s')" "distinct (map ID (users s))" "AuthSource u0 \<noteq> []"
  shows "u \<in> set (users s') \<and> AuthSource u = AuthSource u0 \<and> ExternalID u = ExternalID u0"
proof (cases "FindUserByExternalID s (AuthSource u0) (ExternalID u0)")
  case (Inr ex)
  from FindUser_Inr [OF Inr] have ex: "ex \<in> set (users s)" "AuthSource ex = AuthSource u0" "ExternalID ex = ExternalID u0"
    by simp_all
  let ?f = "\<lambda>v. v\<lparr>Username := Username u0, Email := Email u0,
             ExternalProviderID := ExternalProviderID u0, IsActive := True, UpdatedAt := now\<rparr>"
  have src: "(if AuthSource u0 = [] then ''local'' else AuthSource u0) = AuthSource u0" using assms(3) by simp
  note up = assms(1) [unfolded UpsertExternalUser_def Let_def src Inr sum.case]
  then have r: "refresh_external s now (ID ex) u0 = Inr s'" and g: "GetUserByID s' (ID ex) = Inr u"
    by (cases "refresh_external s now (ID ex) u0"; simp)+
  from refresh_Inr [OF r] have s': "s' = upd_user s (ID ex) ?f" .
  from GetUserByID_Inr [OF g] have u: "u \<in> set (users s')" "ID u = ID ex" by simp_all
  have "u = ?f ex"
    by (rule updated_row [OF assms(2) ex(1) _ u(2)]) (use u(1) in \<open>simp add: s' upd_user_def\<close>)
  with ex u(1) show ?thesis by simp
next
  case (Inl e)
  define v where "v = u0\<lparr>AuthSource := AuthSource u0, ID := (if ID u0 = [] then i else ID u0),
                 PasswordHash := (if PasswordHash u0 = [] then ExternalPasswordSentinel else PasswordHash u0)\<rparr>"
  have v: "AuthSource v = AuthSource u0" "ExternalID v = ExternalID u0" by (simp_all add: v_def)
  have src: "(if AuthSource u0 = [] then ''local'' else AuthSource u0) = AuthSource u0" using assms(3) by simp
  note up = assms(1) [unfolded UpsertExternalUser_def Let_def src Inl sum.case]
  have e: "e = ErrNotFound" using up by (cases e) simp_all
  have "(case CreateUser s now v of Inl e \<Rightarrow> (Inl e, s) | Inr s1 \<Rightarrow> (GetUserByID s1 (ID v), s1)) = (Inr u, s')"
    using up by (simp only: e v_def store_error.case)
  then have c: "CreateUser s now v = Inr s'" and g: "GetUserByID s' (ID v) = Inr u"
    by (cases "CreateUser s now v"; simp)+
  from c have s': "users s' = users s @ [new_user_row now v]" and
    nc: "\<not> user_conflict (users s) (new_user_row now v)"
    by (auto simp: CreateUser_def query_def split: if_splits)
  from GetUserByID_Inr [OF g] have u: "u \<in> set (users s')" "ID u = ID v" by blast+
  have "ID (new_user_row now v) = ID v" by (simp add: new_user_row_def)
  with nc u(2) have "u \<notin> set (users s)" by (auto simp: user_conflict_def)
  with u(1) s' have "u = new_user_row now v" by simp
  with u(1) assms(3) v show ?thesis by (simp add: new_user_row_def)
qed

text \<open>The replacement of the global bindings.\<close>

lemma rebind_Inr:
  "rebind now uid fresh n seen rids s = Inr s' \<Longrightarrow>
     \<exists>new. s' = s\<lparr>bindings := bindings s @ new\<rparr>
       \<and> (\<forall>b \<in> set new. bind_user b = uid \<and> bind_scope_type b = ''global'')
       \<and> map bind_role new = dedup_perms seen (filter (\<lambda>r. r \<noteq> []) rids)"
proof (induction rids arbitrary: n seen s)
  case Nil
  then show ?case by (intro exI [of _ "[]"]) simp
next
  case (Cons rid rids)
  let ?b = "\<lparr>bind_id = fresh n, bind_user = uid, bind_role = rid,
                    bind_scope_type = ''global'', bind_scope_id = [], bind_created = now\<rparr>"
  show ?case
  proof (cases "rid = [] \<or> rid \<in> set seen")
    case True
    with Cons.prems have "rebind now uid fresh n seen rids s = Inr s'" by simp
    from Cons.IH [OF this] True show ?thesis by (cases "rid = []") simp_all
  next
    case False
    with Cons.prems obtain s1 where s1: "insert_binding s ?b = Inr s1"
      and r: "rebind now uid fresh (Suc n) (rid # seen) rids s1 = Inr s'"
      by (cases "insert_binding s ?b") simp_all
    from Cons.IH [OF r] obtain new where n: "s' = s1\<lparr>bindings := bindings s1 @ new\<rparr>"
      "\<forall>b \<in> set new. bind_user b = uid \<and> bind_scope_type b = ''global''"
      "map bind_role new = dedup_perms (rid # seen) (filter (\<lambda>r. r \<noteq> []) rids)" by (elim exE conjE)
    from insert_binding_Inr(1) [OF s1] n False show ?thesis by (intro exI [of _ "?b # new"]) simp
  qed
qed

definition global_of :: "string \<Rightarrow> binding_row \<Rightarrow> bool" where
  "global_of uid b \<longleftrightarrow> bind_user b = uid \<and> bind_scope_type b = ''global''"

lemma replace_Inr:
  assumes "ReplaceExternalRoleBindings s now uid rids fresh = Inr s'"
  shows "sso_frame s s'" "users s' = users s"
    "filter (\<lambda>b. \<not> global_of uid b) (bindings s') = filter (\<lambda>b. \<not> global_of uid b) (bindings s)"
    "map bind_role (filter (global_of uid) (bindings s')) = dedup_perms [] (filter (\<lambda>r. r \<noteq> []) rids)"
proof -
  let ?s = "s\<lparr>bindings := delete_where (\<lambda>b. bind_user b = uid \<and> bind_scope_type b = ''global'') (bindings s)\<rparr>"
  from assms have "rebind now uid fresh 0 [] rids ?s = Inr s'"
    by (simp add: ReplaceExternalRoleBindings_def query_def split: if_splits)
  from rebind_Inr [OF this] obtain new where n: "s' = ?s\<lparr>bindings := bindings ?s @ new\<rparr>"
    "\<forall>b \<in> set new. bind_user b = uid \<and> bind_scope_type b = ''global''"
    "map bind_role new = dedup_perms [] (filter (\<lambda>r. r \<noteq> []) rids)" by (elim exE conjE)
  have b: "bindings s' = filter (\<lambda>b. \<not> global_of uid b) (bindings s) @ new"
    by (simp add: n(1) delete_where_def global_of_def)
  have s': "s' = s\<lparr>bindings := bindings s'\<rparr>" unfolding b by (simp add: n(1) delete_where_def global_of_def)
  show "sso_frame s s'" by (subst s') (rule sso_frame_bindings)
  show "users s' = users s" by (subst s') simp
  have all: "filter (global_of uid) new = new" "filter (\<lambda>b. \<not> global_of uid b) new = []"
    using n(2) by (simp_all add: filter_id_conv filter_empty_conv global_of_def)
  show "filter (\<lambda>b. \<not> global_of uid b) (bindings s') = filter (\<lambda>b. \<not> global_of uid b) (bindings s)"
    by (simp add: b all)
  show "map bind_role (filter (global_of uid) (bindings s')) = dedup_perms [] (filter (\<lambda>r. r \<noteq> []) rids)"
    by (simp add: b all n(3))
qed

lemma set_dedup: "set (dedup_perms seen ps) = set ps - set seen"
  by (induction seen ps rule: dedup_perms.induct) auto

subsection \<open>The roles of a login\<close>

text \<open>When a group of the identity provider matches a mapping: they share a name, in any case, the
  names of a group being itself and its common name.\<close>

definition names_of :: "string \<Rightarrow> string set" where
  "names_of g = {to_lower (trim_space g), to_lower (groupCN g)} - {[]}"

definition group_matches :: "string \<Rightarrow> mapping_row \<Rightarrow> bool" where
  "group_matches g m \<longleftrightarrow> names_of g \<inter> names_of (ExternalGroup m) \<noteq> {}"

definition mapped_roles :: "db \<Rightarrow> provider_row \<Rightarrow> external_identity \<Rightarrow> string set" where
  "mapped_roles s prov ext =
     {gm_role m |m. m \<in> set (group_maps s) \<and> gm_provider m = ap_id prov \<and> GroupsKnown ext
        \<and> (\<exists>g \<in> set (ei_Groups ext). group_matches g m)}"

definition default_roles :: "provider_row \<Rightarrow> string set" where
  "default_roles prov = (if trim_space (DefaultRoleID prov) = [] then {} else {DefaultRoleID prov})"

lemma to_lower_Nil [simp]: "to_lower s = [] \<longleftrightarrow> s = []" "to_lower [] = []"
  by (simp_all add: to_lower_def)

lemma group_names_Union: "group_names gs = (\<Union>g \<in> set gs. names_of g)"
proof -
  have "(let t = trim_space g in if t = [] then {}
     else insert (to_lower t) (if groupCN t = [] then {} else {to_lower (groupCN t)})) = names_of g" for g
  proof (cases "trim_space g = []")
    case True
    then show ?thesis by (simp add: names_of_def groupCN_def)
  next
    case False
    have "groupCN (trim_space g) = groupCN g" by (simp add: groupCN_def)
    with False show ?thesis by (auto simp: names_of_def Let_def)
  qed
  then show ?thesis unfolding group_names_def by simp
qed

lemma pair_meets: "({a, b} - {c}) \<inter> H \<noteq> {} \<longleftrightarrow> (a \<noteq> c \<and> a \<in> H) \<or> (b \<noteq> c \<and> b \<in> H)" by auto

lemma mapping_hit_names: "[] \<notin> have \<Longrightarrow> mapping_hit have m \<longleftrightarrow> names_of (ExternalGroup m) \<inter> have \<noteq> {}"
  unfolding mapping_hit_def names_of_def pair_meets by (auto simp: to_lower_def)

lemma set_collect_roles:
  "set (collect_roles have seen ms) = gm_role ` {m \<in> set ms. mapping_hit have m} - set seen"
  by (induction "have" seen ms rule: collect_roles.induct) auto

lemma resolve_Inr:
  assumes "ResolveRolesForGroups s pid gs = Inr ids"
  shows "set ids = {gm_role m |m. m \<in> set (group_maps s) \<and> gm_provider m = pid \<and> (\<exists>g \<in> set gs. group_matches g m)}"
proof -
  let ?ms = "sort_key ExternalGroup (filter (\<lambda>m. gm_provider m = pid) (group_maps s))"
  from assms have ids: "ids = collect_roles (group_names gs) [] ?ms"
    by (simp add: ResolveRolesForGroups_def ListGroupRoleMappings_def query_def split: if_splits)
  have "[] \<notin> group_names gs" by (simp add: group_names_Union names_of_def)
  then have "mapping_hit (group_names gs) m \<longleftrightarrow> (\<exists>g \<in> set gs. group_matches g m)" for m
    by (auto simp: mapping_hit_names group_names_Union group_matches_def)
  then show ?thesis unfolding ids set_collect_roles by auto
qed

lemma login_roles_Inr:
  assumes "login_roles s prov ext = Inr ids"
  shows "set ids = (if mapped_roles s prov ext = {} then default_roles prov else mapped_roles s prov ext)"
proof -
  define known where "known \<longleftrightarrow> GroupsKnown ext \<and> ei_Groups ext \<noteq> []"
  obtain rs where rs: "(if known then ResolveRolesForGroups s (ap_id prov) (ei_Groups ext) else Inr []) = Inr rs"
    and ids: "ids = (if rs = [] \<and> trim_space (DefaultRoleID prov) \<noteq> [] then [DefaultRoleID prov] else rs)"
    using assms unfolding login_roles_def known_def [symmetric]
    by (cases "if known then ResolveRolesForGroups s (ap_id prov) (ei_Groups ext) else Inr []") simp_all
  have "set rs = mapped_roles s prov ext"
  proof (cases known)
    case True
    with rs have "ResolveRolesForGroups s (ap_id prov) (ei_Groups ext) = Inr rs" by simp
    from resolve_Inr [OF this] True show ?thesis by (simp add: mapped_roles_def known_def)
  next
    case False
    with rs have "rs = []" by simp
    moreover have "mapped_roles s prov ext = {}" using False by (auto simp: mapped_roles_def known_def)
    ultimately show ?thesis by simp
  qed
  then show ?thesis unfolding ids default_roles_def by (cases rs) auto
qed

lemma finish_Some:
  assumes "finishExternalLogin w prov source ext fr = (Some (u, ps), w')" "source \<noteq> []"
    "distinct (map ID (users (store w)))"
  obtains ids where "login_roles (store w) prov ext = Inr ids"
    and "sso_frame (store w) (store w')"
    and "u \<in> set (users (store w'))" and "AuthSource u = source" and "ExternalID u = ei_ExternalID ext"
    and "filter (\<lambda>b. \<not> global_of (ID u) b) (bindings (store w')) = filter (\<lambda>b. \<not> global_of (ID u) b) (bindings (store w))"
    and "map bind_role (filter (global_of (ID u)) (bindings (store w'))) = dedup_perms [] (filter (\<lambda>r. r \<noteq> []) ids)"
proof -
  note d = assms(1) [unfolded finishExternalLogin_def]
  let ?u0 = "external_user fr (ap_id prov) source ext"
  obtain x s1 where up: "UpsertExternalUser (store w) (clock w) (fr_user fr) ?u0 = (x, s1)" by (rule prod.exhaust)
  with d obtain v where x: "x = Inr v" by (cases x) simp_all
  with d up obtain ids where ids: "login_roles s1 prov ext = Inr ids" by (cases "login_roles s1 prov ext") simp_all
  with d up x obtain s2 where s2: "ReplaceExternalRoleBindings s1 (clock w) (ID v) ids (fr_binding fr) = Inr s2"
    by (cases "ReplaceExternalRoleBindings s1 (clock w) (ID v) ids (fr_binding fr)") simp_all
  from d up x ids s2 have res: "v = u" "store w' = s2" by auto
  from upsert_frame [OF up] have f1: "sso_frame (store w) s1" "bindings s1 = bindings (store w)" by simp_all
  have "login_roles (store w) prov ext = login_roles s1 prov ext"
    by (simp add: login_roles_def ResolveRolesForGroups_def ListGroupRoleMappings_def query_def sso_frame_fields [OF f1(1)])
  moreover have "u \<in> set (users s1) \<and> AuthSource u = source \<and> ExternalID u = ei_ExternalID ext"
    using upsert_account [OF up [unfolded x res] assms(3)] assms(2) by (simp add: external_user_def Let_def)
  ultimately show thesis
    by (intro that [of ids]) (use ids replace_Inr [OF s2] f1 res in \<open>simp_all add: sso_frame_trans [OF f1(1)]\<close>)
qed

subsection \<open>Logins\<close>

lemma mint_Some:
  assumes "mintSession sv w r rnd i amr = Some (sess, w')"
  shows "store w' = (store w)\<lparr>sessions := sessions (store w) @ [sess]\<rparr>"
    and "sess_user sess = i" and "sess_amr sess = amr" and "rnd \<noteq> None"
proof -
  from assms obtain rc where r: "rnd = Some rc" by (cases rnd) (simp_all add: mintSession_def)
  obtain raw csrf where rc: "rc = (raw, csrf)" by (rule prod.exhaust)
  define s0 where "s0 = \<lparr>sess_id = hash_hex (sdeps sv) raw, sess_user = i, CSRFToken = csrf,
                       UserAgent = Header_Get r ''User-Agent'', sess_ip = RemoteAddr r,
                       sess_amr = amr, sess_created = clock w, LastSeenAt = clock w,
                       ExpiresAt = clock w + go_div (SessionTTL (sdeps sv)) second, RevokedAt = None\<rparr>"
  have "(case CreateSession (store w) s0 of Inl _ \<Rightarrow> None | Inr s' \<Rightarrow> Some (s0, w\<lparr>store := s'\<rparr>)) = Some (sess, w')"
    using assms unfolding mintSession_def r rc option.case prod.case Let_def s0_def .
  then obtain s' where c: "CreateSession (store w) s0 = Inr s'" and e: "sess = s0" "w' = w\<lparr>store := s'\<rparr>"
    by (cases "CreateSession (store w) s0") simp_all
  from c have s': "s' = (store w)\<lparr>sessions := sessions (store w) @ [s0]\<rparr>"
    by (simp add: CreateSession_def query_def split: if_splits)
  show "store w' = (store w)\<lparr>sessions := sessions (store w) @ [sess]\<rparr>" by (simp add: e s')
  show "sess_user sess = i" "sess_amr sess = amr" by (simp_all add: e s0_def)
  show "rnd \<noteq> None" by (simp add: r)
qed

text \<open>A session of the account of an external identity was opened.\<close>

definition session_opened :: "string \<Rightarrow> string \<Rightarrow> string \<Rightarrow> world \<Rightarrow> world \<Rightarrow> bool" where
  "session_opened source amr x w w' \<longleftrightarrow>
     (\<exists>u sess. u \<in> set (users (store w')) \<and> AuthSource u = source \<and> ExternalID u = x
        \<and> sessions (store w') = sessions (store w) @ [sess] \<and> sess_user sess = ID u \<and> sess_amr sess = amr)"

lemma external_login:
  assumes f: "finishExternalLogin w prov source ext fr = (Some (u, ps), w1)" "source \<noteq> []"
    "distinct (map ID (users (store w)))"
    and m: "mintSession sv w1 r rnd (ID u) amr = Some (sess, w2)"
  shows "session_opened source amr (ei_ExternalID ext) w w2"
    and "oidc_states (store w2) = oidc_states (store w)"
proof -
  note m2 = mint_Some [OF m]
  from f obtain ids where fr: "sso_frame (store w) (store w1)" and u: "u \<in> set (users (store w1))"
    "AuthSource u = source" "ExternalID u = ei_ExternalID ext" by (rule finish_Some)
  show "session_opened source amr (ei_ExternalID ext) w w2"
    unfolding session_opened_def
    by (rule exI [of _ u], rule exI [of _ sess]) (simp add: m2 u sso_frame_fields [OF fr])
  show "oidc_states (store w2) = oidc_states (store w)" by (simp add: m2 sso_frame_fields [OF fr])
qed

lemma finish_frame: "finishExternalLogin w prov source ext fr = (x, w') \<Longrightarrow> sso_frame (store w) (store w')"
proof -
  assume d: "finishExternalLogin w prov source ext fr = (x, w')"
  let ?u0 = "external_user fr (ap_id prov) source ext"
  obtain y s1 where up: "UpsertExternalUser (store w) (clock w) (fr_user fr) ?u0 = (y, s1)" by (rule prod.exhaust)
  from upsert_frame [OF up] have f: "sso_frame (store w) s1" ..
  note d = d [unfolded finishExternalLogin_def up prod.case]
  show ?thesis
  proof (cases y)
    case (Inl e)
    with d f show ?thesis by auto
  next
    case y: (Inr u)
    show ?thesis
    proof (cases "login_roles s1 prov ext")
      case (Inl e)
      with d y f show ?thesis by auto
    next
      case ids: (Inr ids)
      show ?thesis
      proof (cases "ReplaceExternalRoleBindings s1 (clock w) (ID u) ids (fr_binding fr)")
        case (Inl e)
        with d y ids f show ?thesis by auto
      next
        case (Inr s2)
        with d y ids have "store w' = s2" by auto
        with sso_frame_trans [OF f replace_Inr(1) [OF Inr]] show ?thesis by simp
      qed
    qed
  qed
qed

lemma callback_cases:
  assumes run: "OIDCCallback env ip tls q fr rnd w r = (a, w')"
  obtains "sessions (store w') = sessions (store w)"
  | st s1 prov ext u ps w2 sess w3 where
      "ConsumeOIDCAuthState (store w) (clock w) (q ''state'') = (Inr st, s1)"
      "oidc_identify env ip tls (q ''code'') st s1 r = Inr (prov, ext)"
      "finishExternalLogin (w\<lparr>store := s1\<rparr>) prov ''oidc'' ext fr = (Some (u, ps), w2)"
      "mintSession (srv env) w2 r rnd (ID u) AMROIDC = Some (sess, w3)"
      "store w' = store w3"
proof (cases "q ''error'' \<noteq> [] \<or> q ''code'' = [] \<or> q ''state'' = []")
  case True
  with run have "w' = w" by (simp add: OIDCCallback_def split: if_splits)
  then show thesis by (intro that(1)) simp
next
  case False
  then have F: "(q ''error'' \<noteq> []) = False" "(q ''code'' = [] \<or> q ''state'' = []) = False" by simp_all
  obtain y s1 where c: "ConsumeOIDCAuthState (store w) (clock w) (q ''state'') = (y, s1)" by (rule prod.exhaust)
  have s1: "sessions s1 = sessions (store w)" using c by (rule consume_sessions)
  note d = run [unfolded OIDCCallback_def c F if_False prod.case]
  show thesis
  proof (cases y)
    case (Inl e)
    from d s1 show thesis by (intro that(1)) (auto simp: Inl)
  next
    case y: (Inr st)
    note d = d [unfolded y sum.case]
    show thesis
    proof (cases "oidc_identify env ip tls (q ''code'') st s1 r")
      case i: (Inl e)
      obtain code pid where e: "e = (code, pid)" by (rule prod.exhaust)
      from d s1 show thesis unfolding i e by (intro that(1)) (cases pid, auto)
    next
      case i: (Inr pe)
      obtain prov ext where pe: "pe = (prov, ext)" by (rule prod.exhaust)
      obtain z w2 where f: "finishExternalLogin (w\<lparr>store := s1\<rparr>) prov ''oidc'' ext fr = (z, w2)" by (rule prod.exhaust)
      from finish_frame [OF f] have s2: "sessions (store w2) = sessions (store w)"
        by (simp add: sso_frame_fields s1)
      note d = d [unfolded i pe sum.case prod.case f]
      show thesis
      proof (cases z)
        case None
        from d s2 show thesis unfolding None by (intro that(1)) auto
      next
        case z: (Some up)
        obtain u ps where up: "up = (u, ps)" by (rule prod.exhaust)
        note d = d [unfolded z up option.case prod.case]
        show thesis
        proof (cases "mintSession (srv env) w2 r rnd (ID u) AMROIDC")
          case None
          from d s2 show thesis unfolding None by (intro that(1)) auto
        next
          case m: (Some sw)
          obtain sess w3 where sw: "sw = (sess, w3)" by (rule prod.exhaust)
          from d have "store w' = store w3" unfolding m sw by auto
          with c y i pe f z up m sw show thesis by (intro that(2)) simp_all
        qed
      qed
    qed
  qed
qed

lemma callback_no_state:
  assumes "q ''state'' \<notin> os_state ` set (oidc_states (store w))"
  shows "store (snd (OIDCCallback env ip tls q fr rnd w r)) = store w"
proof -
  from consume_gone [OF assms, of "clock w"] obtain e
    where "ConsumeOIDCAuthState (store w) (clock w) (q ''state'') = (Inl e, store w)" by blast
  then show ?thesis by (simp add: OIDCCallback_def)
qed

text \<open>C6. An OIDC callback opens a session only for a pending redirect: its state is that of the
  request and it has not expired, its provider is enabled, the identity provider exchanged the code
  against the redirect's PKCE verifier and verified a token with the redirect's nonce, and the
  session belongs to the account of the identity in that token. The redirect is used up: no callback
  with its state changes anything afterwards.\<close>

theorem oidc_login_once:
  assumes ids: "distinct (map ID (users (store w)))"
    and run: "OIDCCallback env ip tls q fr rnd w r = (a, w')"
  shows "sessions (store w') = sessions (store w)
    \<or> (\<exists>st prov ext.
         st \<in> set (oidc_states (store w)) \<and> os_state st = q ''state'' \<and> clock w \<le> os_expires st
         \<and> prov \<in> set (auth_providers (store w)) \<and> ap_id prov = os_provider st
         \<and> ap_enabled prov \<and> ap_kind prov = ''oidc''
         \<and> idp_vouches env ip tls r (q ''code'') st prov ext
         \<and> session_opened ''oidc'' AMROIDC (ei_ExternalID ext) w w'
         \<and> (\<forall>env2 ip2 tls2 q2 fr2 rnd2 w2 r2. q2 ''state'' = q ''state'' \<longrightarrow> store w2 = store w' \<longrightarrow>
              store (snd (OIDCCallback env2 (ip2 :: 'p idp) tls2 q2 fr2 rnd2 w2 r2)) = store w2))"
  using run
proof (cases rule: callback_cases)
  case 1
  then show ?thesis ..
next
  case (2 st s1 prov ext u ps w2 sess w3)
  note st = consume_Inr [OF 2(1)] and i = oidc_identify_Inr [OF 2(2)]
  have s1: "auth_providers s1 = auth_providers (store w)" "users s1 = users (store w)"
    "sessions s1 = sessions (store w)" using st by simp_all
  have so: "session_opened ''oidc'' AMROIDC (ei_ExternalID ext) w w'"
    and os: "oidc_states (store w3) = oidc_states s1"
    using external_login [OF 2(3) _ _ 2(4)] ids s1 by (simp_all add: session_opened_def 2(5))
  have "q ''state'' \<notin> os_state ` set (oidc_states (store w'))"
    using st by (auto simp: 2(5) os delete_where_def)
  then have replay: "\<forall>env2 ip2 tls2 q2 fr2 rnd2 w2 r2. q2 ''state'' = q ''state'' \<longrightarrow> store w2 = store w' \<longrightarrow>
      store (snd (OIDCCallback env2 (ip2 :: 'p idp) tls2 q2 fr2 rnd2 w2 r2)) = store w2"
    by (intro allI impI callback_no_state) simp
  show ?thesis
    by (rule disjI2, rule exI [of _ st], rule exI [of _ prov], rule exI [of _ ext])
      (use st i GetAuthProvider_Inr [OF i(1)] s1 so replay in \<open>simp add: idp_vouches_def\<close>)
qed

theorem oidc_login_once_witness:
  "\<exists>st \<in> set (oidc_states demo_sso_db). \<exists>ext :: external_identity. session_opened ''oidc'' AMROIDC (ei_ExternalID ext) demo_sso_world (snd demo_callback)
     \<and> store (snd (OIDCCallback demo_sso_env demo_idp True demo_query demo_fresh (Some (''raw2'', ''csrf2''))
         (snd demo_callback) demo_sso_request)) = store (snd demo_callback)"
proof -
  have ne: "sessions (store (snd demo_callback)) \<noteq> sessions (store demo_sso_world)" using demo_opened by auto
  have d: "distinct (map ID (users (store demo_sso_world)))" by (simp add: demo_opened)
  from oidc_login_once [where ?'p = unit, OF d, of demo_sso_env demo_idp True demo_query demo_fresh
      "Some (''raw'', ''csrf'')" demo_sso_request "fst demo_callback" "snd demo_callback",
      OF surjective_pairing]
  show ?thesis
  proof (elim disjE exE conjE)
    assume "sessions (store (snd demo_callback)) = sessions (store demo_sso_world)"
    with ne show ?thesis by (rule notE)
  next
    fix st prov and ext :: external_identity
    assume st: "st \<in> set (oidc_states (store demo_sso_world))"
      and so: "session_opened ''oidc'' AMROIDC (ei_ExternalID ext) demo_sso_world (snd demo_callback)"
      and rp: "\<forall>env2 ip2 tls2 q2 fr2 rnd2 w2 r2. q2 ''state'' = demo_query ''state'' \<longrightarrow> store w2 = store (snd demo_callback) \<longrightarrow>
      store (snd (OIDCCallback env2 (ip2 :: unit idp) tls2 q2 fr2 rnd2 w2 r2)) = store w2"
    have "st \<in> set (oidc_states demo_sso_db)" using st by (simp add: demo_sso_world_def)
    moreover have "store (snd (OIDCCallback demo_sso_env demo_idp True demo_query demo_fresh (Some (''raw2'', ''csrf2''))
         (snd demo_callback) demo_sso_request)) = store (snd demo_callback)"
      by (rule rp [rule_format]) (rule refl)+
    ultimately show ?thesis by (intro bexI [of _ st] exI [of _ ext] conjI so)
  qed
qed

text \<open>C16. After a login by an external identity the global roles of its account are exactly the
  roles its groups are mapped to by the provider, or the provider's default role when there is none;
  roles bound elsewhere and the roles of others are untouched.\<close>

theorem external_roles_exact:
  assumes run: "finishExternalLogin w prov source ext fr = (Some (u, ps), w')"
    and src: "source \<noteq> []" and ids: "distinct (map ID (users (store w)))"
  shows "bind_role ` {b \<in> set (bindings (store w')). global_of (ID u) b}
      = (if mapped_roles (store w) prov ext = {} then default_roles prov
         else mapped_roles (store w) prov ext) - {[]}
    \<and> filter (\<lambda>b. \<not> global_of (ID u) b) (bindings (store w')) = filter (\<lambda>b. \<not> global_of (ID u) b) (bindings (store w))
    \<and> role_tab (store w') = role_tab (store w) \<and> u \<in> set (users (store w')) \<and> AuthSource u = source"
proof -
  from finish_Some [OF run src ids] obtain ids where l: "login_roles (store w) prov ext = Inr ids"
    and f: "sso_frame (store w) (store w')" and u: "u \<in> set (users (store w'))" "AuthSource u = source"
    and o: "filter (\<lambda>b. \<not> global_of (ID u) b) (bindings (store w')) = filter (\<lambda>b. \<not> global_of (ID u) b) (bindings (store w))"
    and n: "map bind_role (filter (global_of (ID u)) (bindings (store w'))) = dedup_perms [] (filter (\<lambda>r. r \<noteq> []) ids)"
    by blast
  have "bind_role ` {b \<in> set (bindings (store w')). global_of (ID u) b}
      = set (map bind_role (filter (global_of (ID u)) (bindings (store w'))))" by simp
  also have "\<dots> = set ids - {[]}" unfolding n set_dedup by auto
  finally show ?thesis using login_roles_Inr [OF l] u o sso_frame_fields(4) [OF f] by simp
qed

definition demo_ext :: external_identity where
  "demo_ext = \<lparr>ei_ExternalID = ''alice'', ei_Username = ''alice'', ei_Email = [], ei_Display = [],
     ei_Groups = [''CN=ops,OU=x''], GroupsKnown = True, GroupsOverage = False\<rparr>"

abbreviation demo_finish :: "(user_row \<times> jval) option \<times> world" where
  "demo_finish \<equiv> finishExternalLogin demo_sso_world demo_oidc_provider ''oidc'' demo_ext demo_fresh"

lemma demo_finished: "fst demo_finish \<noteq> None" "mapped_roles demo_sso_db demo_oidc_provider demo_ext = {''r1''}"
proof -
  show "fst demo_finish \<noteq> None" by code_simp
  have "group_matches ''CN=ops,OU=x'' \<lparr>gm_id = ''m1'', gm_provider = ''p1'', ExternalGroup = ''Ops'', gm_role = ''r1'', gm_created = 0\<rparr>"
    by code_simp
  then show "mapped_roles demo_sso_db demo_oidc_provider demo_ext = {''r1''}"
    by (simp add: mapped_roles_def demo_sso_db_def demo_ext_def demo_oidc_provider_def blank_provider_def)
qed

theorem external_roles_exact_witness:
  "\<exists>u ps. fst demo_finish = Some (u, ps)
     \<and> bind_role ` {b \<in> set (bindings (store (snd demo_finish))). global_of (ID u) b} = {''r1''}"
proof -
  from demo_finished(1) obtain x where x: "fst demo_finish = Some x" by (cases "fst demo_finish") simp_all
  obtain u ps where "x = (u, ps)" by (rule prod.exhaust)
  with x have e: "demo_finish = (Some (u, ps), snd demo_finish)" by (metis prod.collapse)
  from external_roles_exact [OF e] demo_finished(2) demo_opened
  have "bind_role ` {b \<in> set (bindings (store (snd demo_finish))). global_of (ID u) b} = {''r1''}"
    by (simp add: demo_sso_world_def)
  moreover have "fst demo_finish = Some (u, ps)" using e by (metis fst_conv)
  ultimately show ?thesis by blast
qed

text \<open>The directory accepts a user: it is reached, the service account binds, the search for the user
  finds an entry and binding as that entry with the password succeeds.\<close>

definition directory_accepts ::
  "'c directory \<Rightarrow> ldap_config \<Rightarrow> string \<Rightarrow> string \<Rightarrow> ldap_entry \<Rightarrow> bool" where
  "directory_accepts dir cfg name pw e \<longleftrightarrow>
     (\<exists>c0 c1 c2 c3. dial dir cfg = Inr c0 \<and> serviceBind dir c0 cfg = (c1, None)
        \<and> findUser dir c1 cfg name = (c2, Inr e) \<and> dir_bind dir c2 (le_DN e) pw = (c3, None)
        \<and> trim_space name \<noteq> [] \<and> pw \<noteq> [])"

lemma with_groups_ids [simp]:
  "li_ExternalID (with_groups dir c cfg dn i) = li_ExternalID i"
  "li_Username (with_groups dir c cfg dn i) = li_Username i"
  by (simp_all add: with_groups_def split: prod.split option.split)

lemma Authenticate_Inr:
  assumes "Authenticate dir cfg name pw = Inr i"
  shows "\<exists>e. directory_accepts dir cfg name pw e
    \<and> li_ExternalID i = li_ExternalID (buildIdentity dir cfg name e)
    \<and> li_Username i = li_Username (buildIdentity dir cfg name e)"
proof -
  note d = assms [unfolded Authenticate_def]
  from d have ne: "trim_space name \<noteq> []" "pw \<noteq> []" by (auto split: if_splits)
  then have F: "(trim_space name = [] \<or> pw = []) = False" by simp
  note d = d [unfolded F if_False]
  from d obtain c0 where c0: "dial dir cfg = Inr c0" by (cases "dial dir cfg") simp_all
  obtain c1 x1 where c1: "serviceBind dir c0 cfg = (c1, x1)" by (rule prod.exhaust)
  obtain c2 x2 where c2: "findUser dir c1 cfg name = (c2, x2)" by (rule prod.exhaust)
  note d = d [unfolded c0 sum.case c1 prod.case c2]
  from d have x1: "x1 = None" by (cases x1) simp_all
  with d obtain e where x2: "x2 = Inr e" by (cases x2) simp_all
  obtain c3 x3 where c3: "dir_bind dir c2 (le_DN e) pw = (c3, x3)" by (rule prod.exhaust)
  note d = d [unfolded x1 x2 option.case sum.case c3 prod.case]
  from d have x3: "x3 = None" by (cases x3) simp_all
  with d have "i = with_groups dir c3 cfg (le_DN e) (buildIdentity dir cfg name e)" by simp
  moreover have "directory_accepts dir cfg name pw e"
    unfolding directory_accepts_def
    by (rule exI [of _ c0], rule exI [of _ c1], rule exI [of _ c2], rule exI [of _ c3])
      (simp add: c0 c1 c2 c3 x1 x2 x3 ne)
  ultimately show ?thesis by (intro exI [of _ e]) simp
qed

lemma single_of_kind_Inr:
  "single_of_kind kind f ps = Inr (Some p) \<Longrightarrow> f = Some p \<or> (p \<in> set ps \<and> ap_kind p = kind)"
  by (induction kind f ps rule: single_of_kind.induct) (auto split: if_splits)

lemma enabledProvider_Inr:
  assumes "enabledProviderOfKind s i kind = Inr p"
  shows "p \<in> set (auth_providers s) \<and> ap_enabled p \<and> ap_kind p = kind"
proof (cases "trim_space i = []")
  case False
  then have F: "(trim_space i \<noteq> []) = True" by simp
  note d = assms [unfolded enabledProviderOfKind_def Let_def F if_True]
  from d obtain x where x: "GetAuthProvider s (trim_space i) = Inr x"
    by (cases "GetAuthProvider s (trim_space i)") simp_all
  with d have "x = p \<and> ap_enabled p \<and> ap_kind p = kind" by (simp split: if_splits)
  with GetAuthProvider_Inr [OF x] show ?thesis by simp
next
  case True
  then have F: "(trim_space i \<noteq> []) = False" by simp
  note d = assms [unfolded enabledProviderOfKind_def Let_def F if_False]
  from d obtain ps where ps: "ListEnabledAuthProviders s = Inr ps" by (cases "ListEnabledAuthProviders s") simp_all
  with d obtain f where f: "single_of_kind kind None ps = Inr f" by (cases "single_of_kind kind None ps") simp_all
  with d ps have "f = Some p" by (cases f) simp_all
  with single_of_kind_Inr [of kind None ps p] f have "p \<in> set ps \<and> ap_kind p = kind" by simp
  moreover have "set ps = {p \<in> set (auth_providers s). ap_enabled p}"
    using ps by (simp add: ListEnabledAuthProviders_def query_def split: if_splits) auto
  ultimately show ?thesis by simp
qed

lemma ldap_cases:
  assumes run: "LDAPLogin sv dir fr rnd body w r = (resp, w')"
  obtains "sessions (store w') = sessions (store w)"
  | req prov cfg ident ext u ps w2 sess w3 where
      "body = Inr req" "enabledProviderOfKind (store w) (ll_provider req) ''ldap'' = Inr prov"
      "ldapConfig sv prov = Some cfg"
      "Authenticate dir cfg (trim_space (ll_username req)) (ll_password req) = Inr ident"
      "ei_ExternalID ext = firstNonEmpty [li_ExternalID ident, li_Username ident]"
      "finishExternalLogin w prov ''ldap'' ext fr = (Some (u, ps), w2)"
      "mintSession sv w2 r rnd (ID u) AMRLDAP = Some (sess, w3)"
      "store w' = store w3"
proof (cases body)
  case (Inl e)
  with run show thesis by (intro that(1)) (simp add: LDAPLogin_def)
next
  case b: (Inr req)
  show thesis
  proof (cases "trim_space (ll_username req) = [] \<or> ll_password req = []")
    case True
    with run b show thesis by (intro that(1)) (simp add: LDAPLogin_def)
  next
    case False
    then have F: "(trim_space (ll_username req) = [] \<or> ll_password req = []) = False" by simp
    note d = run [unfolded LDAPLogin_def b sum.case Let_def F if_False]
    show thesis
    proof (cases "enabledProviderOfKind (store w) (ll_provider req) ''ldap''")
      case (Inl e)
      from d show thesis unfolding Inl by (intro that(1)) simp
    next
      case p: (Inr prov)
      note d = d [unfolded p sum.case]
      show thesis
      proof (cases "ldapConfig sv prov")
        case None
        from d show thesis unfolding None by (intro that(1)) simp
      next
        case cfg: (Some cfg)
        note d = d [unfolded cfg option.case]
        show thesis
        proof (cases "Authenticate dir cfg (trim_space (ll_username req)) (ll_password req)")
          case (Inl e)
          from d show thesis unfolding Inl by (intro that(1)) auto
        next
          case i: (Inr ident)
          define ext where "ext = \<lparr>ei_ExternalID = firstNonEmpty [li_ExternalID ident, li_Username ident],
                      ei_Username = firstNonEmpty [li_Username ident, trim_space (ll_username req)],
                      ei_Email = li_Email ident, ei_Display = li_Display ident,
                      ei_Groups = li_Groups ident, GroupsKnown = True, GroupsOverage = False\<rparr>"
          have x: "ei_ExternalID ext = firstNonEmpty [li_ExternalID ident, li_Username ident]" by (simp add: ext_def)
          obtain z w2 where f: "finishExternalLogin w prov ''ldap'' ext fr = (z, w2)" by (rule prod.exhaust)
          from finish_frame [OF f] have s2: "sessions (store w2) = sessions (store w)" by (simp add: sso_frame_fields)
          note d = d [unfolded i sum.case ext_def [symmetric] f prod.case]
          show thesis
          proof (cases z)
            case None
            from d s2 show thesis unfolding None by (intro that(1)) auto
          next
            case z: (Some up)
            obtain u ps where up: "up = (u, ps)" by (rule prod.exhaust)
            note d = d [unfolded z up option.case prod.case]
            show thesis
            proof (cases "mintSession sv w2 r rnd (ID u) AMRLDAP")
              case None
              from d s2 show thesis unfolding None by (intro that(1)) auto
            next
              case m: (Some sw)
              obtain sess w3 where sw: "sw = (sess, w3)" by (rule prod.exhaust)
              from d have "store w' = store w3" unfolding m sw by auto
              with b p cfg i x f z up m sw show thesis by (intro that(2)) simp_all
            qed
          qed
        qed
      qed
    qed
  qed
qed

text \<open>C21. A login by LDAP opens a session only when an enabled LDAP provider is configured, the
  directory finds an entry for the name and accepts a bind as that entry with the password of the
  request, which is not empty; the session belongs to the account of that entry.\<close>

theorem ldap_login_needs_bind:
  assumes ids: "distinct (map ID (users (store w)))"
    and run: "LDAPLogin sv dir fr rnd body w r = (resp, w')"
  shows "sessions (store w') = sessions (store w)
    \<or> (\<exists>req prov cfg e. body = Inr req \<and> prov \<in> set (auth_providers (store w)) \<and> ap_enabled prov
         \<and> ap_kind prov = ''ldap'' \<and> ldapConfig sv prov = Some cfg
         \<and> directory_accepts dir cfg (trim_space (ll_username req)) (ll_password req) e
         \<and> (let i = buildIdentity dir cfg (trim_space (ll_username req)) e
            in session_opened ''ldap'' AMRLDAP (firstNonEmpty [li_ExternalID i, li_Username i]) w w'))"
  using run
proof (cases rule: ldap_cases)
  case 1
  then show ?thesis ..
next
  case (2 req prov cfg ident ext u ps w2 sess w3)
  from Authenticate_Inr [OF 2(4)] obtain e
    where e: "directory_accepts dir cfg (trim_space (ll_username req)) (ll_password req) e"
      "li_ExternalID ident = li_ExternalID (buildIdentity dir cfg (trim_space (ll_username req)) e)"
      "li_Username ident = li_Username (buildIdentity dir cfg (trim_space (ll_username req)) e)"
    by (elim exE conjE)
  have "session_opened ''ldap'' AMRLDAP (ei_ExternalID ext) w w'"
    using external_login(1) [OF 2(6) _ ids 2(7)] by (simp add: session_opened_def 2(8))
  then show ?thesis
    by (intro disjI2 exI [of _ req] exI [of _ prov] exI [of _ cfg] exI [of _ e])
      (use 2(1,3,5) enabledProvider_Inr [OF 2(2)] e in \<open>simp add: Let_def\<close>)
qed

theorem ldap_login_needs_bind_witness:
  "\<exists>cfg e. directory_accepts demo_directory cfg ''bob'' ''pw'' e
     \<and> session_opened ''ldap'' AMRLDAP (li_ExternalID (buildIdentity demo_directory cfg ''bob'' e))
         demo_sso_world (snd demo_ldap_login)"
proof -
  have ne: "sessions (store (snd demo_ldap_login)) \<noteq> sessions (store demo_sso_world)" using demo_opened by auto
  have tr: "trim_space '' bob '' = ''bob''" by code_simp
  from ldap_login_needs_bind [of demo_sso_world "srv demo_sso_env" demo_directory demo_fresh
      "Some (''raw'', ''csrf'')" "Inr \<lparr>ll_username = '' bob '', ll_password = ''pw'', ll_provider = []\<rparr>"
      demo_sso_request "fst demo_ldap_login" "snd demo_ldap_login"] ne
  obtain cfg e where e: "directory_accepts demo_directory cfg ''bob'' ''pw'' e"
    "session_opened ''ldap'' AMRLDAP (firstNonEmpty [li_ExternalID (buildIdentity demo_directory cfg ''bob'' e),
       li_Username (buildIdentity demo_directory cfg ''bob'' e)]) demo_sso_world (snd demo_ldap_login)"
    by (auto simp: demo_opened tr Let_def)
  then have en: "e = demo_entry"
    by (auto simp: directory_accepts_def findUser_def demo_directory_def split: if_splits)
  have "GetAttributeValue demo_entry ''entryUUID'' = ''u-7''" by (simp add: demo_entry_def)
  moreover have "trim_space ''u-7'' = ''u-7''" by code_simp
  ultimately have "firstNonEmpty [li_ExternalID (buildIdentity demo_directory cfg ''bob'' e), x]
      = li_ExternalID (buildIdentity demo_directory cfg ''bob'' e)" for x
    by (simp add: firstNonEmpty_def buildIdentity_def en)
  with e show ?thesis by (intro exI [of _ cfg] exI [of _ e]) simp
qed

subsection \<open>Redirects\<close>

definition local_redirect :: "web_response \<Rightarrow> bool" where
  "local_redirect a \<longleftrightarrow> (\<exists>t cs. a = RedirectTo (CHR ''/'' # t) cs \<and> \<not> has_prefix t ''/'')"

lemma local_redirects [simp]:
  "local_redirect (ssoRedirectError p c)" "local_redirect (RedirectTo (sanitizeRedirect p) cs)"
  using error_redirect [of p c] sanitize_local [of p] by (auto simp: local_redirect_def)

text \<open>Every answer of the callback is a redirect to a local path.\<close>

lemma callback_redirects_local: "local_redirect (fst (OIDCCallback env ip tls q fr rnd w r))"
  unfolding OIDCCallback_def by (simp split: prod.split sum.split option.split)

end
