(* ===== verification/Hv_Seam.thy ===== *)
theory Hv_Seam
  imports VTypes
begin

text \<open>
  The seam between the API and the hypervisors: the interface \<open>HypervisorProvider\<close>
  (\<open>vprovider/vprovider.go\<close>) and the optional interfaces of \<open>vprovider/extended.go\<close>, and what the
  provider packages below it (\<open>kvm\<close>, \<open>xen\<close>, \<open>esxi\<close>, \<open>hyperv\<close>) share.
  A provider is a value of type \<open>'p\<close>; a call that may change it returns it updated. The methods that
  start a task are the constructors of \<open>vm_call\<close> and, for the optional interfaces, \<open>ext_call\<close>;
  \<open>vp_implements\<close> says whether the provider's type implements the optional interface that a
  capability stands for (the methods mean nothing where it does not).
\<close>

subsection \<open>The provider seam\<close>

datatype vm_call =
    CallPower string string
  | CallCreate vm_spec
  | CallReconfigure string reconfigure_spec
  | CallDelete string delete_options
  | CallSnapshot string snapshot_options
  | CallRevert string string
  | CallClone string clone_spec
  | CallMigrate string string migrate_options

datatype ext_call =
    CallCreateNetwork network_spec
  | CallDeleteNetwork string
  | CallCreateVolume volume_spec
  | CallDeleteVolume string string
  | CallAttachDisk string disk_spec
  | CallDetachDisk string string
  | CallAttachNIC string nic_spec
  | CallDetachNIC string string
  | CallMountISO string string
  | CallUnmountISO string
  | CallDeleteSnapshot string string
  | CallResizeDisk string string f64
  | CallMarkTemplate string bool
  | CallSetResources string resource_spec
  | CallSetDiskQoS string string disk_qos
  | CallMigrateStorage string string string
  | CallEnterMaintenance string bool
  | CallExitMaintenance string

record guest_info =
  AgentConnected :: bool
  gi_Hostname :: string
  gi_OS :: string
  gi_IPAddresses :: "string list"
  gi_Note :: string

type_synonym task_result = "verror + task option"

record 'p vm_hv =
  vp_Kind :: "'p \<Rightarrow> string"
  vp_Capabilities :: "'p \<Rightarrow> caps"
  vp_ListVMs :: "'p \<Rightarrow> list_options \<Rightarrow> verror + vm list"
  vp_GetVM :: "'p \<Rightarrow> string \<Rightarrow> verror + vm_detail"
  vp_ListSnapshots :: "'p \<Rightarrow> string \<Rightarrow> verror + snapshot list"
  vp_GetMetrics :: "'p \<Rightarrow> string \<Rightarrow> metric_window \<Rightarrow> int \<Rightarrow> verror + metric_series"
  vp_ListHosts :: "'p \<Rightarrow> verror + vhost list"
  vp_ListStorage :: "'p \<Rightarrow> verror + storage_pool list"
  vp_ListNetworks :: "'p \<Rightarrow> verror + network list"
  vp_ListClusters :: "'p \<Rightarrow> verror + cluster list"
  vp_GetClusterTopology :: "'p \<Rightarrow> string \<Rightarrow> int \<Rightarrow> verror + topology"
  vp_call :: "'p \<Rightarrow> vm_call \<Rightarrow> int \<Rightarrow> 'p \<times> task_result"
  vp_implements :: "'p \<Rightarrow> caps \<Rightarrow> bool"
  vp_ext :: "'p \<Rightarrow> ext_call \<Rightarrow> int \<Rightarrow> 'p \<times> task_result"
  vp_Console :: "'p \<Rightarrow> string \<Rightarrow> verror + console_endpoint"
  vp_ListVolumes :: "'p \<Rightarrow> string \<Rightarrow> verror + volume list"
  vp_UploadISO :: "'p \<Rightarrow> string \<Rightarrow> string \<Rightarrow> int \<Rightarrow> int \<Rightarrow> 'p \<times> (verror + volume)"
  vp_GuestInfo :: "'p \<Rightarrow> string \<Rightarrow> verror + guest_info"

text \<open>The check of the handlers of optional interfaces.\<close>

definition offers :: "'p vm_hv \<Rightarrow> 'p \<Rightarrow> caps \<Rightarrow> bool" where
  "offers hv p cap \<longleftrightarrow> vp_implements hv p cap \<and> Has (vp_Capabilities hv p) cap"

subsection \<open>The contract\<close>

text \<open>The capability a method is declared to need.\<close>

primrec call_cap :: "vm_call \<Rightarrow> caps" where
  "call_cap (CallPower i op) = PowerOpCapability op"
| "call_cap (CallCreate spec) = CapCreateVM"
| "call_cap (CallReconfigure i spec) = CapReconfigureVM"
| "call_cap (CallDelete i opts) = CapDeleteVM"
| "call_cap (CallSnapshot i opts) = CapSnapshot"
| "call_cap (CallRevert i s) = CapRevertSnapshot"
| "call_cap (CallClone i spec) = CapClone"
| "call_cap (CallMigrate i h opts) = CapMigrate"

primrec bad_power :: "vm_call \<Rightarrow> bool" where
  "bad_power (CallPower i op) \<longleftrightarrow> \<not> PowerOp_Valid op"
| "bad_power (CallCreate spec) \<longleftrightarrow> False"
| "bad_power (CallReconfigure i spec) \<longleftrightarrow> False"
| "bad_power (CallDelete i opts) \<longleftrightarrow> False"
| "bad_power (CallSnapshot i opts) \<longleftrightarrow> False"
| "bad_power (CallRevert i s) \<longleftrightarrow> False"
| "bad_power (CallClone i spec) \<longleftrightarrow> False"
| "bad_power (CallMigrate i h opts) \<longleftrightarrow> False"

text \<open>
  What the comments of \<open>vprovider.go\<close> promise to the callers of the interface: an operation whose
  capability is not declared answers \<open>ErrUnsupported\<close> and does nothing, the capabilities of a provider
  never change, a running machine is deleted only by force, a protected one never.
\<close>

locale hypervisor =
  fixes hv :: "'p vm_hv"
  assumes undeclared: "\<not> Has (vp_Capabilities hv p) (call_cap c) \<Longrightarrow> \<not> bad_power c \<Longrightarrow>
      vp_call hv p c now = (p, Inl ErrUnsupported)"
    and call_caps: "vp_Capabilities hv (fst (vp_call hv p c now)) = vp_Capabilities hv p"
    and ext_caps: "vp_Capabilities hv (fst (vp_ext hv p x now)) = vp_Capabilities hv p"
    and running_kept: "vp_GetVM hv p i = Inr d \<Longrightarrow> vm_State (detail_VM d) = StateRunning \<Longrightarrow> \<not> Force opts \<Longrightarrow>
      \<exists>e. vp_call hv p (CallDelete i opts) now = (p, Inl e)"
    and protected_kept: "vp_GetVM hv p i = Inr d \<Longrightarrow> vm_Protected (detail_VM d) \<Longrightarrow>
      \<exists>e. vp_call hv p (CallDelete i opts) now = (p, Inl e)"

subsection \<open>What the providers share\<close>

text \<open>The fields that the provider structs of the hypervisor packages have in common.\<close>

record prov =
  hp_id :: string
  hp_kind :: string
  hp_caps :: caps
  hp_clusterID :: string
  hp_tracker :: tracker
  hp_seq :: int
  hp_closed :: bool

definition next_seq :: "'x prov_scheme \<Rightarrow> 'x prov_scheme \<times> int" where
  "next_seq p = (let n = wrap64 (hp_seq p + 1) in (p\<lparr>hp_seq := n\<rparr>, n))"

definition nextID :: "'x prov_scheme \<Rightarrow> string \<Rightarrow> 'x prov_scheme \<times> string" where
  "nextID p pre = (case next_seq p of (p1, n) \<Rightarrow> (p1, pre @ ''-'' @ itoa n))"

text \<open>\<open>finishTask\<close>: a task is started and finished at once; the answer is a copy.\<close>

definition finishTask :: "'x prov_scheme \<Rightarrow> string \<Rightarrow> string \<Rightarrow> int \<Rightarrow> 'x prov_scheme \<times> task option" where
  "finishTask p kind entity now =
     (let (p1, tid) = nextID p ''task'';
          (tt, t) = Start (hp_tracker p1) tid kind (hp_id p1) entity now;
          (tt2, r) = Finish tt (task_ID t) ''succeeded'' [] now
      in (p1\<lparr>hp_tracker := tt2\<rparr>, r))"

definition done_task :: "'x prov_scheme \<Rightarrow> string \<Rightarrow> string \<Rightarrow> int \<Rightarrow> 'x prov_scheme \<times> task_result" where
  "done_task p kind entity now = (case finishTask p kind entity now of (p', t) \<Rightarrow> (p', Inr t))"

lemma next_seq_caps [simp]: "hp_caps (fst (next_seq p)) = hp_caps p" "next_seq p = (p1, n) \<Longrightarrow> hp_caps p1 = hp_caps p"
  by (auto simp: next_seq_def Let_def)

lemma nextID_caps [simp]: "hp_caps (fst (nextID p k)) = hp_caps p"
  by (simp add: nextID_def split_beta)

lemma done_task_caps [simp]: "hp_caps (fst (done_task p kind entity now)) = hp_caps p"
  by (simp add: done_task_def finishTask_def Let_def split_beta)

lemma finishTask_caps [simp]: "hp_caps (fst (finishTask p kind entity now)) = hp_caps p"
  by (simp add: finishTask_def Let_def split_beta)

text \<open>\<open>labelsMatch\<close>: a label that is absent reads as the empty string.\<close>

definition labelsMatch :: "(string \<times> string) list \<Rightarrow> (string \<times> string) list \<Rightarrow> bool" where
  "labelsMatch has want \<longleftrightarrow>
     (\<forall>(k, v) \<in> set want. (case map_of has k of None \<Rightarrow> [] | Some x \<Rightarrow> x) = v)"

text \<open>The filter of the \<open>ListVMs\<close> operations.\<close>

definition vm_listed :: "list_options \<Rightarrow> vm \<Rightarrow> bool" where
  "vm_listed opts v \<longleftrightarrow> \<not> (lo_HostID opts \<noteq> [] \<and> vm_HostID v \<noteq> lo_HostID opts)
     \<and> \<not> (lo_ClusterID opts \<noteq> [] \<and> vm_ClusterID v \<noteq> lo_ClusterID opts)
     \<and> \<not> (lo_State opts \<noteq> [] \<and> vm_State v \<noteq> lo_State opts)
     \<and> labelsMatch (vm_Labels v) (lo_Labels opts)"

definition bytesPerGB :: int where "bytesPerGB = 2 ^ 30"

definition gb_of_bytes :: "int \<Rightarrow> f64" where "gb_of_bytes n = fdiv (f64_of_int n) (Fin (of_int bytesPerGB))"

definition bytes_of_gb :: "f64 \<Rightarrow> int" where "bytes_of_gb g = int64_of_f64 (fmul g (Fin (of_int bytesPerGB)))"

subsection \<open>The in-memory backends\<close>

text \<open>
  The four packages have the same in-memory backend over their own machine type \<open>'v\<close>: a map of
  machines, the order they are listed in, and the snapshots of each. A pointer that it hands out is
  the stored machine, so a write through it (\<open>mem_write\<close>) changes the backend.
\<close>

record 'v mem =
  mem_closed :: bool
  mem_vms :: "(string \<times> 'v) list"
  mem_snapshots :: "(string \<times> snapshot list) list"
  mem_order :: "string list"

definition mem_get :: "('v, 'x) mem_scheme \<Rightarrow> string \<Rightarrow> 'v option" where
  "mem_get b i = map_of (mem_vms b) i"

definition mem_list :: "('v, 'x) mem_scheme \<Rightarrow> 'v list" where
  "mem_list b = List.map_filter (mem_get b) (mem_order b)"

definition mem_write :: "('v, 'x) mem_scheme \<Rightarrow> string \<Rightarrow> ('v \<Rightarrow> 'v) \<Rightarrow> ('v, 'x) mem_scheme" where
  "mem_write b i f = (case mem_get b i of None \<Rightarrow> b | Some v \<Rightarrow> b\<lparr>mem_vms := put (mem_vms b) i (f v)\<rparr>)"

definition mem_define :: "('v, 'x) mem_scheme \<Rightarrow> string \<Rightarrow> 'v \<Rightarrow> ('v, 'x) mem_scheme" where
  "mem_define b i v = b\<lparr>mem_order := (if mem_get b i = None then mem_order b @ [i] else mem_order b),
     mem_vms := put (mem_vms b) i v\<rparr>"

definition mem_remove :: "('v, 'x) mem_scheme \<Rightarrow> string \<Rightarrow> ('v, 'x) mem_scheme" where
  "mem_remove b i = b\<lparr>mem_vms := del (mem_vms b) i, mem_snapshots := del (mem_snapshots b) i,
     mem_order := remove1 i (mem_order b)\<rparr>"

definition mem_count :: "('v \<Rightarrow> bool) \<Rightarrow> ('v, 'x) mem_scheme \<Rightarrow> int" where
  "mem_count P b = int (length (filter (\<lambda>(i, v). P v) (mem_vms b)))"

definition mem_snaps :: "('v, 'x) mem_scheme \<Rightarrow> string \<Rightarrow> snapshot list" where
  "mem_snaps b i = (case map_of (mem_snapshots b) i of None \<Rightarrow> [] | Some ss \<Rightarrow> ss)"

definition mem_push_snap :: "('v, 'x) mem_scheme \<Rightarrow> string \<Rightarrow> snapshot \<Rightarrow> ('v, 'x) mem_scheme" where
  "mem_push_snap b i s =
     b\<lparr>mem_snapshots := put (mem_snapshots b) i (map (\<lambda>x. x\<lparr>IsCurrent := False\<rparr>) (mem_snaps b i) @ [s])\<rparr>"

text \<open>The other snapshots lose the mark even when no snapshot has the identifier.\<close>

definition mem_mark_snap :: "('v, 'x) mem_scheme \<Rightarrow> string \<Rightarrow> string \<Rightarrow> ('v, 'x) mem_scheme \<times> bool" where
  "mem_mark_snap b i k =
     ((case map_of (mem_snapshots b) i of None \<Rightarrow> b
       | Some ss \<Rightarrow> b\<lparr>mem_snapshots := put (mem_snapshots b) i (map (\<lambda>s. s\<lparr>IsCurrent := (snap_ID s = k)\<rparr>) ss)\<rparr>),
      list_ex (\<lambda>s. snap_ID s = k) (mem_snaps b i))"

lemma mem_get_write: "mem_get (mem_write b i f) j = (if j = i then map_option f (mem_get b i) else mem_get b j)"
  by (simp add: mem_write_def mem_get_def map_of_put split: option.split)

lemma mem_get_define: "mem_get (mem_define b i v) j = (if j = i then Some v else mem_get b j)"
  by (simp add: mem_define_def mem_get_def map_of_put)

lemma mem_get_remove: "mem_get (mem_remove b i) j = (if j = i then None else mem_get b j)"
  by (simp add: mem_remove_def mem_get_def map_of_del)

lemma mem_get_snap [simp]: "mem_get (mem_push_snap b i s) = mem_get b" "mem_get (fst (mem_mark_snap b i k)) = mem_get b"
  by (simp_all add: mem_push_snap_def mem_mark_snap_def mem_get_def fun_eq_iff split: option.split)

text \<open>The five samples of the metric fixtures: \<open>cpu\<close>, \<open>rx\<close> and \<open>tx\<close> as each package has them.\<close>

definition fixture_samples ::
  "metric_window \<Rightarrow> int \<Rightarrow> int \<Rightarrow> (int \<Rightarrow> int) \<Rightarrow> 64 word \<Rightarrow> 64 word \<Rightarrow> 64 word \<Rightarrow> 64 word \<Rightarrow> 64 word
     \<Rightarrow> metric_sample list" where
  "fixture_samples window now step0 cpu mem_limit rx tx rd wr =
     (let base = (case Since window of None \<Rightarrow> now - 5 * minute | Some t \<Rightarrow> t);
          step = (if StepSecond window \<le> 0 then step0 else StepSecond window)
      in map (\<lambda>i. \<lparr>sm_Timestamp = base + wrap64 (wrap64 (int i * step) * second),
             CPUPercent = f64_of_int (cpu (int i)),
             MemUsageBytes = push_bit 30 1 + push_bit 20 (of_nat i), MemLimitBytes = mem_limit,
             NetRxBytes = of_nat i * rx, NetTxBytes = of_nat i * tx,
             DiskReadBytes = of_nat i * rd, DiskWriteBytes = of_nat i * wr\<rparr>) [0..<5])"

end
