(* ===== verification/Vm_Api.thy ===== *)
theory Vm_Api
  imports Rbac_Api Hv_Seam
begin

text \<open>
  The virtual machine surface of the API: \<open>api/vm.go\<close>, \<open>api/vm_mutations.go\<close>, \<open>api/vm_ext.go\<close> and
  \<open>api/maintenance.go\<close> with the guards of their routes (\<open>api/vm_routes.go\<close>, \<open>api/router.go\<close>), over
  the provider seam of \<open>Hv_Seam\<close> and the table of resource pools (\<open>store/resource_pools.go\<close>).
  The JSON encoding of answers is a parameter. The deadlines of the calls are not modelled.
\<close>

subsection \<open>Resource pools\<close>

record pool_row =
  rp_ID :: string
  rp_Name :: string
  rp_ProviderID :: string
  rp_CPUShares :: int
  rp_CPULimitMHz :: int
  rp_MemShares :: int
  rp_MemLimitMB :: int
  rp_Notes :: string
  rp_CreatedAt :: int
  rp_UpdatedAt :: int

record 'p vm_world = world +
  fleet :: "(string \<times> 'p) list"
  pools :: "pool_row list"

definition ListResourcePools :: "'p vm_world \<Rightarrow> string \<Rightarrow> store_error + pool_row list" where
  "ListResourcePools w pid = query ''ListResourcePools'' (store w)
     (Inr (sort_key rp_Name (filter (\<lambda>p. pid = [] \<or> rp_ProviderID p = pid) (pools w))))"

definition GetResourcePool :: "'p vm_world \<Rightarrow> string \<Rightarrow> store_error + pool_row" where
  "GetResourcePool w i = query ''GetResourcePool'' (store w) (select_one (\<lambda>p. rp_ID p = i) (pools w))"

definition CreateResourcePool :: "'p vm_world \<Rightarrow> pool_row \<Rightarrow> store_error + 'p vm_world" where
  "CreateResourcePool w p = query ''CreateResourcePool'' (store w)
     (if \<exists>q \<in> set (pools w). rp_ID q = rp_ID p \<or> (rp_ProviderID q = rp_ProviderID p \<and> rp_Name q = rp_Name p)
      then Inl SQLError
      else Inr (w\<lparr>pools := pools w @ [p\<lparr>rp_CreatedAt := clock w, rp_UpdatedAt := clock w\<rparr>]\<rparr>))"

definition UpdateResourcePool :: "'p vm_world \<Rightarrow> pool_row \<Rightarrow> store_error + 'p vm_world" where
  "UpdateResourcePool w p = query ''UpdateResourcePool'' (store w)
     (if find (\<lambda>q. rp_ID q = rp_ID p) (pools w) = None then Inl store_error.ErrNotFound
      else Inr (w\<lparr>pools := update_where (\<lambda>q. rp_ID q = rp_ID p)
             (\<lambda>q. q\<lparr>rp_CPUShares := rp_CPUShares p, rp_CPULimitMHz := rp_CPULimitMHz p,
                    rp_MemShares := rp_MemShares p, rp_MemLimitMB := rp_MemLimitMB p,
                    rp_Notes := rp_Notes p, rp_UpdatedAt := clock w\<rparr>) (pools w)\<rparr>))"

definition DeleteResourcePool :: "'p vm_world \<Rightarrow> string \<Rightarrow> store_error + 'p vm_world" where
  "DeleteResourcePool w i = query ''DeleteResourcePool'' (store w)
     (if find (\<lambda>q. rp_ID q = i) (pools w) = None then Inl store_error.ErrNotFound
      else Inr (w\<lparr>pools := delete_where (\<lambda>q. rp_ID q = i) (pools w)\<rparr>))"

subsection \<open>Answers\<close>

record pool_view =
  pv_pool :: pool_row
  MemberVMIDs :: "string list"
  MemberCount :: int
  UsedVCPUs :: int
  UsedMemoryMB :: int
  pv_Note :: string

datatype vm_answer =
    ATask "task option"
  | AVMs "vm list"
  | AVMDetail vm_detail
  | ASnapshots "snapshot list"
  | AMetrics metric_series
  | AHosts "vhost list"
  | AStorage "storage_pool list"
  | ANetworks "network list"
  | AClusters "cluster list"
  | ATopology topology
  | AProviders "(string \<times> string \<times> string list) list"
  | AConsole console_endpoint
  | AVolumes "volume list"
  | AVolume volume
  | AGuest guest_info
  | APools "pool_view list"
  | APool pool_view

type_synonym marshal = "vm_answer \<Rightarrow> jval"
type_synonym 'p vm_handler = "'p vm_world \<Rightarrow> request \<Rightarrow> response \<times> 'p vm_world"

text \<open>Any other error is no \<open>APIError\<close>, and \<open>WriteError\<close> answers it as an internal one.\<close>

definition vmProviderError :: "verror \<Rightarrow> api_error" where
  "vmProviderError e = (case e of
       ErrUnsupported \<Rightarrow> ErrMethodNotAllowed
     | verror.ErrNotFound \<Rightarrow> APIErrNotFound
     | verror.ErrConflict \<Rightarrow> Authz_Audit.ErrConflict
     | ErrInvalidSpec \<Rightarrow> Errorf ErrValidation ''Invalid specification for this hypervisor.''
     | Other_Error _ \<Rightarrow> ErrInternal)"

definition scopeFromProvider :: "string \<Rightarrow> scope" where
  "scopeFromProvider pid =
     (if pid \<noteq> [] then \<lparr>sc_type = ''host'', sc_id = pid\<rparr> else \<lparr>sc_type = ''global'', sc_id = []\<rparr>)"

text \<open>\<open>resolveVMProvider\<close>: the continuation runs with the provider.\<close>

definition resolveVMProvider :: "string \<Rightarrow> ('p \<Rightarrow> 'p vm_handler) \<Rightarrow> 'p vm_handler" where
  "resolveVMProvider pid k w r =
     (case map_of (fleet w) pid of
        None \<Rightarrow> (WriteError r (Errorf APIErrNotFound (''Unknown hypervisor provider: '' @ pid)), w)
      | Some p \<Rightarrow> k p w r)"

text \<open>The end of a reading handler, and of one that started a task on provider \<open>pid\<close>.\<close>

definition answer_read :: "marshal \<Rightarrow> ('a \<Rightarrow> vm_answer) \<Rightarrow> verror + 'a \<Rightarrow> 'p vm_handler" where
  "answer_read js f res w r =
     (case res of Inl e \<Rightarrow> (WriteError r (vmProviderError e), w) | Inr v \<Rightarrow> (ok (js (f v)), w))"

definition answer_task :: "marshal \<Rightarrow> (jval \<Rightarrow> response) \<Rightarrow> string \<Rightarrow> 'p \<times> task_result \<Rightarrow> 'p vm_handler" where
  "answer_task js fin pid out w r =
     (case out of (p', res) \<Rightarrow>
        (let w' = w\<lparr>fleet := put (fleet w) pid p'\<rparr> in
         case res of Inl e \<Rightarrow> (WriteError r (vmProviderError e), w')
         | Inr t \<Rightarrow> (fin (js (ATask t)), w')))"

definition decoded :: "api_error + 'b \<Rightarrow> ('b \<Rightarrow> 'p vm_handler) \<Rightarrow> 'p vm_handler" where
  "decoded body k w r = (case body of Inl e \<Rightarrow> (WriteError r e, w) | Inr b \<Rightarrow> k b w r)"

subsection \<open>Reads\<close>

definition VMProviders :: "'p vm_hv \<Rightarrow> marshal \<Rightarrow> 'p vm_handler" where
  "VMProviders hv js w r =
     (ok (js (AProviders (map (\<lambda>(i, p). (i, vp_Kind hv p, Strings (vp_Capabilities hv p))) (fleet w)))), w)"

definition VMClusters :: "'p vm_hv \<Rightarrow> marshal \<Rightarrow> string \<Rightarrow> 'p vm_handler" where
  "VMClusters hv js pid = resolveVMProvider pid (\<lambda>p. answer_read js AClusters (vp_ListClusters hv p))"

definition VMClusterTopology :: "'p vm_hv \<Rightarrow> marshal \<Rightarrow> string \<Rightarrow> string \<Rightarrow> 'p vm_handler" where
  "VMClusterTopology hv js pid clusterID =
     resolveVMProvider pid (\<lambda>p w. answer_read js ATopology (vp_GetClusterTopology hv p clusterID (now_ns w)) w)"

text \<open>\<open>q\<close> is the query string.\<close>

definition VMs :: "'p vm_hv \<Rightarrow> marshal \<Rightarrow> string \<Rightarrow> (string \<Rightarrow> string) \<Rightarrow> 'p vm_handler" where
  "VMs hv js pid q = resolveVMProvider pid (\<lambda>p. answer_read js AVMs (vp_ListVMs hv p
     \<lparr>lo_HostID = q ''host'', lo_ClusterID = q ''cluster'', lo_State = q ''state'', lo_Labels = []\<rparr>))"

definition VMDetailHandler :: "'p vm_hv \<Rightarrow> marshal \<Rightarrow> string \<Rightarrow> string \<Rightarrow> 'p vm_handler" where
  "VMDetailHandler hv js pid vmID = resolveVMProvider pid (\<lambda>p. answer_read js AVMDetail (vp_GetVM hv p vmID))"

definition VMSnapshots :: "'p vm_hv \<Rightarrow> marshal \<Rightarrow> string \<Rightarrow> string \<Rightarrow> 'p vm_handler" where
  "VMSnapshots hv js pid vmID =
     resolveVMProvider pid (\<lambda>p. answer_read js ASnapshots (vp_ListSnapshots hv p vmID))"

definition VMMetrics :: "'p vm_hv \<Rightarrow> marshal \<Rightarrow> string \<Rightarrow> string \<Rightarrow> 'p vm_handler" where
  "VMMetrics hv js pid vmID = resolveVMProvider pid (\<lambda>p w. answer_read js AMetrics
     (vp_GetMetrics hv p vmID \<lparr>Since = None, Until = None, StepSecond = 30\<rparr> (now_ns w)) w)"

definition VMHosts :: "'p vm_hv \<Rightarrow> marshal \<Rightarrow> string \<Rightarrow> 'p vm_handler" where
  "VMHosts hv js pid = resolveVMProvider pid (\<lambda>p. answer_read js AHosts (vp_ListHosts hv p))"

definition VMStorage :: "'p vm_hv \<Rightarrow> marshal \<Rightarrow> string \<Rightarrow> 'p vm_handler" where
  "VMStorage hv js pid = resolveVMProvider pid (\<lambda>p. answer_read js AStorage (vp_ListStorage hv p))"

definition VMNetworks :: "'p vm_hv \<Rightarrow> marshal \<Rightarrow> string \<Rightarrow> 'p vm_handler" where
  "VMNetworks hv js pid = resolveVMProvider pid (\<lambda>p. answer_read js ANetworks (vp_ListNetworks hv p))"

text \<open>Reads of optional interfaces.\<close>

definition optional_read ::
  "marshal \<Rightarrow> bool \<Rightarrow> ('a \<Rightarrow> vm_answer) \<Rightarrow> verror + 'a \<Rightarrow> 'p vm_handler" where
  "optional_read js gate f res w r =
     (if \<not> gate then (WriteError r ErrMethodNotAllowed, w) else answer_read js f res w r)"

definition VMConsole :: "'p vm_hv \<Rightarrow> marshal \<Rightarrow> string \<Rightarrow> string \<Rightarrow> 'p vm_handler" where
  "VMConsole hv js pid vmID = resolveVMProvider pid (\<lambda>p.
     optional_read js (offers hv p CapConsole) AConsole (vp_Console hv p vmID))"

definition VMVolumes :: "'p vm_hv \<Rightarrow> marshal \<Rightarrow> string \<Rightarrow> string \<Rightarrow> 'p vm_handler" where
  "VMVolumes hv js pid storageID = resolveVMProvider pid (\<lambda>p.
     optional_read js (vp_implements hv p CapStorageWrite) AVolumes (vp_ListVolumes hv p storageID))"

definition VMGuestInfo :: "'p vm_hv \<Rightarrow> marshal \<Rightarrow> string \<Rightarrow> string \<Rightarrow> 'p vm_handler" where
  "VMGuestInfo hv js pid vmID = resolveVMProvider pid (\<lambda>p.
     optional_read js (offers hv p CapGuestAgent) AGuest (vp_GuestInfo hv p vmID))"

definition VMTemplates :: "'p vm_hv \<Rightarrow> marshal \<Rightarrow> string \<Rightarrow> 'p vm_handler" where
  "VMTemplates hv js pid = resolveVMProvider pid (\<lambda>p w r.
     if \<not> Has (vp_Capabilities hv p) CapTemplates then (WriteError r ErrMethodNotAllowed, w)
     else answer_read js AVMs (vp_ListVMs hv p
       \<lparr>lo_HostID = [], lo_ClusterID = [], lo_State = [], lo_Labels = [(''unihv.template'', ''true'')]\<rparr>) w r)"

subsection \<open>Lifecycle mutations\<close>

definition call_task ::
  "'p vm_hv \<Rightarrow> marshal \<Rightarrow> (jval \<Rightarrow> response) \<Rightarrow> string \<Rightarrow> 'p \<Rightarrow> vm_call \<Rightarrow> 'p vm_handler" where
  "call_task hv js fin pid p c w = answer_task js fin pid (vp_call hv p c (now_ns w)) w"

definition VMPowerOp :: "'p vm_hv \<Rightarrow> marshal \<Rightarrow> string \<Rightarrow> string \<Rightarrow> string \<Rightarrow> 'p vm_handler" where
  "VMPowerOp hv js pid vmID op = resolveVMProvider pid (\<lambda>p w r.
     if \<not> PowerOp_Valid op
       then (WriteError r (Errorf ErrValidation (''Unknown power operation: '' @ op)), w)
     else call_task hv js ok pid p (CallPower vmID op) w r)"

definition VMCreate :: "'p vm_hv \<Rightarrow> marshal \<Rightarrow> string \<Rightarrow> api_error + vm_spec \<Rightarrow> 'p vm_handler" where
  "VMCreate hv js pid body = resolveVMProvider pid (\<lambda>p. decoded body (\<lambda>spec.
     call_task hv js created pid p (CallCreate spec)))"

definition VMReconfigure ::
  "'p vm_hv \<Rightarrow> marshal \<Rightarrow> string \<Rightarrow> string \<Rightarrow> api_error + reconfigure_spec \<Rightarrow> 'p vm_handler" where
  "VMReconfigure hv js pid vmID body = resolveVMProvider pid (\<lambda>p. decoded body (\<lambda>spec.
     call_task hv js ok pid p (CallReconfigure vmID spec)))"

definition VMDelete :: "'p vm_hv \<Rightarrow> marshal \<Rightarrow> string \<Rightarrow> string \<Rightarrow> (string \<Rightarrow> string) \<Rightarrow> 'p vm_handler" where
  "VMDelete hv js pid vmID q = resolveVMProvider pid (\<lambda>p.
     call_task hv js ok pid p (CallDelete vmID
       \<lparr>Force = (q ''force'' = ''true''), DeleteDisks = (q ''deleteDisks'' = ''true'')\<rparr>))"

definition VMSnapshotCreate ::
  "'p vm_hv \<Rightarrow> marshal \<Rightarrow> string \<Rightarrow> string \<Rightarrow> api_error + snapshot_options \<Rightarrow> 'p vm_handler" where
  "VMSnapshotCreate hv js pid vmID body = resolveVMProvider pid (\<lambda>p. decoded body (\<lambda>b.
     call_task hv js created pid p (CallSnapshot vmID b)))"

definition VMSnapshotRevert :: "'p vm_hv \<Rightarrow> marshal \<Rightarrow> string \<Rightarrow> string \<Rightarrow> string \<Rightarrow> 'p vm_handler" where
  "VMSnapshotRevert hv js pid vmID snapID = resolveVMProvider pid (\<lambda>p.
     call_task hv js ok pid p (CallRevert vmID snapID))"

definition VMClone :: "'p vm_hv \<Rightarrow> marshal \<Rightarrow> string \<Rightarrow> string \<Rightarrow> api_error + clone_spec \<Rightarrow> 'p vm_handler" where
  "VMClone hv js pid vmID body = resolveVMProvider pid (\<lambda>p. decoded body (\<lambda>b.
     call_task hv js created pid p (CallClone vmID b)))"

text \<open>The body is the target host and the options.\<close>

definition VMMigrate ::
  "'p vm_hv \<Rightarrow> marshal \<Rightarrow> string \<Rightarrow> string \<Rightarrow> api_error + (string \<times> migrate_options) \<Rightarrow> 'p vm_handler" where
  "VMMigrate hv js pid vmID body = resolveVMProvider pid (\<lambda>p. decoded body (\<lambda>(target, opts).
     call_task hv js ok pid p (CallMigrate vmID target opts)))"

subsection \<open>Optional interfaces\<close>

text \<open>
  \<open>via\<close> is the shape of these handlers: the interface and the capability are checked, then the body
  is decoded, then the method is called.
\<close>

definition via ::
  "'p vm_hv \<Rightarrow> marshal \<Rightarrow> (jval \<Rightarrow> response) \<Rightarrow> string \<Rightarrow> caps \<Rightarrow> api_error + 'b \<Rightarrow> ('b \<Rightarrow> ext_call)
     \<Rightarrow> 'p vm_handler" where
  "via hv js fin pid cap body mk = resolveVMProvider pid (\<lambda>p w r.
     if \<not> offers hv p cap then (WriteError r ErrMethodNotAllowed, w)
     else decoded body (\<lambda>b w. answer_task js fin pid (vp_ext hv p (mk b) (now_ns w)) w) w r)"

definition no_body :: "api_error + unit" where "no_body = Inr ()"

definition VMNetworkCreate :: "'p vm_hv \<Rightarrow> marshal \<Rightarrow> string \<Rightarrow> api_error + network_spec \<Rightarrow> 'p vm_handler" where
  "VMNetworkCreate hv js pid body = via hv js created pid CapNetworkWrite body CallCreateNetwork"

definition VMNetworkDelete :: "'p vm_hv \<Rightarrow> marshal \<Rightarrow> string \<Rightarrow> string \<Rightarrow> 'p vm_handler" where
  "VMNetworkDelete hv js pid networkID = via hv js ok pid CapNetworkWrite no_body (\<lambda>_. CallDeleteNetwork networkID)"

definition VMVolumeCreate ::
  "'p vm_hv \<Rightarrow> marshal \<Rightarrow> string \<Rightarrow> string \<Rightarrow> api_error + volume_spec \<Rightarrow> 'p vm_handler" where
  "VMVolumeCreate hv js pid storageID body = via hv js created pid CapStorageWrite body
     (\<lambda>spec. CallCreateVolume (spec\<lparr>vo_StorageID := storageID\<rparr>))"

definition VMVolumeDelete :: "'p vm_hv \<Rightarrow> marshal \<Rightarrow> string \<Rightarrow> string \<Rightarrow> string \<Rightarrow> 'p vm_handler" where
  "VMVolumeDelete hv js pid storageID volumeID =
     via hv js ok pid CapStorageWrite no_body (\<lambda>_. CallDeleteVolume storageID volumeID)"

text \<open>\<open>name\<close> is the query parameter, \<open>nbytes\<close> the length of the body; the stream is not modelled.\<close>

definition VMISOUpload ::
  "'p vm_hv \<Rightarrow> marshal \<Rightarrow> string \<Rightarrow> string \<Rightarrow> string \<Rightarrow> int \<Rightarrow> 'p vm_handler" where
  "VMISOUpload hv js pid storageID name nbytes = resolveVMProvider pid (\<lambda>p w r.
     if \<not> offers hv p CapStorageWrite then (WriteError r ErrMethodNotAllowed, w)
     else if name = [] then (WriteError r (Errorf ErrValidation ''name query param is required''), w)
     else (case vp_UploadISO hv p storageID name nbytes (now_ns w) of (p', res) \<Rightarrow>
             (let w' = w\<lparr>fleet := put (fleet w) pid p'\<rparr> in
              case res of Inl e \<Rightarrow> (WriteError r (vmProviderError e), w')
              | Inr v \<Rightarrow> (created (js (AVolume v)), w'))))"

definition VMDiskAttach :: "'p vm_hv \<Rightarrow> marshal \<Rightarrow> string \<Rightarrow> string \<Rightarrow> api_error + disk_spec \<Rightarrow> 'p vm_handler" where
  "VMDiskAttach hv js pid vmID body = via hv js created pid CapHotPlug body (CallAttachDisk vmID)"

definition VMDiskDetach :: "'p vm_hv \<Rightarrow> marshal \<Rightarrow> string \<Rightarrow> string \<Rightarrow> string \<Rightarrow> 'p vm_handler" where
  "VMDiskDetach hv js pid vmID diskID = via hv js ok pid CapHotPlug no_body (\<lambda>_. CallDetachDisk vmID diskID)"

definition VMNICAttach :: "'p vm_hv \<Rightarrow> marshal \<Rightarrow> string \<Rightarrow> string \<Rightarrow> api_error + nic_spec \<Rightarrow> 'p vm_handler" where
  "VMNICAttach hv js pid vmID body = via hv js created pid CapHotPlug body (CallAttachNIC vmID)"

definition VMNICDetach :: "'p vm_hv \<Rightarrow> marshal \<Rightarrow> string \<Rightarrow> string \<Rightarrow> string \<Rightarrow> 'p vm_handler" where
  "VMNICDetach hv js pid vmID nicID = via hv js ok pid CapHotPlug no_body (\<lambda>_. CallDetachNIC vmID nicID)"

definition VMISOMount :: "'p vm_hv \<Rightarrow> marshal \<Rightarrow> string \<Rightarrow> string \<Rightarrow> api_error + string \<Rightarrow> 'p vm_handler" where
  "VMISOMount hv js pid vmID body = via hv js created pid CapHotPlug body (CallMountISO vmID)"

definition VMISOUnmount :: "'p vm_hv \<Rightarrow> marshal \<Rightarrow> string \<Rightarrow> string \<Rightarrow> 'p vm_handler" where
  "VMISOUnmount hv js pid vmID = via hv js ok pid CapHotPlug no_body (\<lambda>_. CallUnmountISO vmID)"

definition VMSnapshotDelete :: "'p vm_hv \<Rightarrow> marshal \<Rightarrow> string \<Rightarrow> string \<Rightarrow> string \<Rightarrow> 'p vm_handler" where
  "VMSnapshotDelete hv js pid vmID snapID = via hv js ok pid CapSnapshot no_body (\<lambda>_. CallDeleteSnapshot vmID snapID)"

definition VMDiskResize ::
  "'p vm_hv \<Rightarrow> marshal \<Rightarrow> string \<Rightarrow> string \<Rightarrow> string \<Rightarrow> api_error + f64 \<Rightarrow> 'p vm_handler" where
  "VMDiskResize hv js pid vmID diskID body = via hv js ok pid CapDiskResize body (CallResizeDisk vmID diskID)"

definition VMMarkTemplate :: "'p vm_hv \<Rightarrow> marshal \<Rightarrow> string \<Rightarrow> string \<Rightarrow> api_error + bool \<Rightarrow> 'p vm_handler" where
  "VMMarkTemplate hv js pid vmID body = via hv js ok pid CapTemplates body (CallMarkTemplate vmID)"

definition VMSetResources ::
  "'p vm_hv \<Rightarrow> marshal \<Rightarrow> string \<Rightarrow> string \<Rightarrow> api_error + resource_spec \<Rightarrow> 'p vm_handler" where
  "VMSetResources hv js pid vmID body = via hv js ok pid CapResourceControl body (CallSetResources vmID)"

definition VMDiskQoS ::
  "'p vm_hv \<Rightarrow> marshal \<Rightarrow> string \<Rightarrow> string \<Rightarrow> string \<Rightarrow> api_error + disk_qos \<Rightarrow> 'p vm_handler" where
  "VMDiskQoS hv js pid vmID diskID body = via hv js ok pid CapDiskQoS body (CallSetDiskQoS vmID diskID)"

definition VMStorageMigrate ::
  "'p vm_hv \<Rightarrow> marshal \<Rightarrow> string \<Rightarrow> string \<Rightarrow> string \<Rightarrow> api_error + string \<Rightarrow> 'p vm_handler" where
  "VMStorageMigrate hv js pid vmID diskID body =
     via hv js ok pid CapStorageMigrate body (CallMigrateStorage vmID diskID)"

text \<open>The body of \<open>VMHostEnterMaintenance\<close> is optional; without one, \<open>body\<close> is \<open>Inr False\<close>.\<close>

definition VMHostEnterMaintenance ::
  "'p vm_hv \<Rightarrow> marshal \<Rightarrow> string \<Rightarrow> string \<Rightarrow> api_error + bool \<Rightarrow> 'p vm_handler" where
  "VMHostEnterMaintenance hv js pid hostID body =
     via hv js ok pid CapMaintenance body (CallEnterMaintenance hostID)"

definition VMHostExitMaintenance :: "'p vm_hv \<Rightarrow> marshal \<Rightarrow> string \<Rightarrow> string \<Rightarrow> 'p vm_handler" where
  "VMHostExitMaintenance hv js pid hostID =
     via hv js ok pid CapMaintenance no_body (\<lambda>_. CallExitMaintenance hostID)"

subsection \<open>Resource pools: handlers\<close>

definition labelPool :: string where "labelPool = ''unihv.pool''"

text \<open>\<open>int64\<close> and \<open>int\<close> sums wrap.\<close>

definition poolMembers :: "'p vm_hv \<Rightarrow> 'p vm_world \<Rightarrow> pool_row \<Rightarrow> string list \<times> int \<times> int" where
  "poolMembers hv w pl =
     (case map_of (fleet w) (rp_ProviderID pl) of None \<Rightarrow> ([], 0, 0)
      | Some p \<Rightarrow>
        (case vp_ListVMs hv p \<lparr>lo_HostID = [], lo_ClusterID = [], lo_State = [],
                                lo_Labels = [(labelPool, rp_ID pl)]\<rparr> of
           Inl _ \<Rightarrow> ([], 0, 0)
         | Inr vs \<Rightarrow> (map vm_ID vs, wrap64 (sum_list (map vm_VCPUs vs)), wrap64 (sum_list (map vm_MemoryMB vs)))))"

definition toPoolView :: "'p vm_hv \<Rightarrow> 'p vm_world \<Rightarrow> pool_row \<Rightarrow> pool_view" where
  "toPoolView hv w pl = (case poolMembers hv w pl of (ids, vcpu, mem) \<Rightarrow>
     \<lparr>pv_pool = pl, MemberVMIDs = ids, MemberCount = int (length ids), UsedVCPUs = vcpu,
      UsedMemoryMB = mem, pv_Note = ''Pool limits are an advisory/reported allocation budget; plain libvirt has no native parent-cgroup pool enforcement.''\<rparr>)"

record pool_input =
  pi_Name :: string
  pi_ProviderID :: string
  pi_CPUShares :: int
  pi_CPULimitMHz :: int
  pi_MemShares :: int
  pi_MemLimitMB :: int
  pi_Notes :: string

text \<open>These handlers pass the errors of the store to \<open>WriteError\<close> as they are; none is an
  \<open>APIError\<close>, so each is answered as an internal one.\<close>

definition VMPools :: "'p vm_hv \<Rightarrow> marshal \<Rightarrow> (string \<Rightarrow> string) \<Rightarrow> 'p vm_handler" where
  "VMPools hv js q w r =
     (case ListResourcePools w (q ''providerId'') of Inl _ \<Rightarrow> (WriteError r ErrInternal, w)
      | Inr ps \<Rightarrow> (ok (js (APools (map (toPoolView hv w) ps))), w))"

definition VMPoolCreate :: "'p vm_hv \<Rightarrow> marshal \<Rightarrow> string \<Rightarrow> api_error + pool_input \<Rightarrow> 'p vm_handler" where
  "VMPoolCreate hv js newid body = decoded body (\<lambda>inp w r.
     if trim_space (pi_Name inp) = [] \<or> trim_space (pi_ProviderID inp) = []
       then (WriteError r (Errorf ErrValidation ''name and providerId are required''), w)
     else if map_of (fleet w) (pi_ProviderID inp) = None
       then (WriteError r (Errorf ErrValidation (''unknown hypervisor provider: '' @ pi_ProviderID inp)), w)
     else (let rec = \<lparr>rp_ID = newid, rp_Name = pi_Name inp, rp_ProviderID = pi_ProviderID inp,
                      rp_CPUShares = pi_CPUShares inp, rp_CPULimitMHz = pi_CPULimitMHz inp,
                      rp_MemShares = pi_MemShares inp, rp_MemLimitMB = pi_MemLimitMB inp,
                      rp_Notes = pi_Notes inp, rp_CreatedAt = clock w, rp_UpdatedAt = clock w\<rparr>
           in case CreateResourcePool w rec of Inl _ \<Rightarrow> (WriteError r ErrInternal, w)
              | Inr w' \<Rightarrow> (created (js (APool (toPoolView hv w' rec))), w')))"

text \<open>The answer shows the row as changed in memory, with its old time of update.\<close>

definition VMPoolUpdate ::
  "'p vm_hv \<Rightarrow> marshal \<Rightarrow> string \<Rightarrow> api_error + pool_input \<Rightarrow> 'p vm_handler" where
  "VMPoolUpdate hv js i body w r =
     (case GetResourcePool w i of Inl _ \<Rightarrow> (WriteError r ErrInternal, w)
      | Inr rec0 \<Rightarrow> decoded body (\<lambda>inp w r.
          (let rec = rec0\<lparr>rp_CPUShares := pi_CPUShares inp, rp_CPULimitMHz := pi_CPULimitMHz inp,
                          rp_MemShares := pi_MemShares inp, rp_MemLimitMB := pi_MemLimitMB inp,
                          rp_Notes := pi_Notes inp\<rparr>
           in case UpdateResourcePool w rec of Inl _ \<Rightarrow> (WriteError r ErrInternal, w)
              | Inr w' \<Rightarrow> (ok (js (APool (toPoolView hv w' rec))), w'))) w r)"

definition VMPoolDelete :: "string \<Rightarrow> 'p vm_handler" where
  "VMPoolDelete i w r =
     (case DeleteResourcePool w i of Inl _ \<Rightarrow> (WriteError r ErrInternal, w) | Inr w' \<Rightarrow> (noContent, w'))"

definition VMPoolAssign :: "'p vm_hv \<Rightarrow> marshal \<Rightarrow> string \<Rightarrow> string \<Rightarrow> api_error + string \<Rightarrow> 'p vm_handler" where
  "VMPoolAssign hv js pid vmID body = resolveVMProvider pid (\<lambda>p. decoded body (\<lambda>pool w r.
     if pool \<noteq> [] \<and> isl (GetResourcePool w pool) then (WriteError r ErrInternal, w)
     else call_task hv js ok pid p (CallReconfigure vmID
       \<lparr>rs_VCPUs = None, rs_MemoryMB = None, AddDisks = [], AddNICs = [],
        rs_Labels = [(labelPool, pool)], Resources = None\<rparr>) w r))"

subsection \<open>Routes\<close>

text \<open>The routes below a provider, and those of the resource pools, with their URL parameters,
  query and body.\<close>

datatype read_route =
    RVMs "string \<Rightarrow> string"
  | RVM string
  | RSnapshots string
  | RGuest string
  | RMetrics string
  | RHosts
  | RClusters
  | RTopology string
  | RStorage
  | RNetworks
  | RConsole string
  | RVolumes string
  | RTemplates

datatype life_route =
    RPower string string
  | RCreate "api_error + vm_spec"
  | RReconfigure string "api_error + reconfigure_spec"
  | RDelete string "string \<Rightarrow> string"
  | RSnapshotCreate string "api_error + snapshot_options"
  | RSnapshotRevert string string
  | RClone string "api_error + clone_spec"
  | RMigrate string "api_error + (string \<times> migrate_options)"
  | RPoolAssign string "api_error + string"

datatype device_route =
    RSnapshotDelete string string
  | RNetworkCreate "api_error + network_spec"
  | RNetworkDelete string
  | RVolumeCreate string "api_error + volume_spec"
  | RVolumeDelete string string
  | RISOUpload string string int
  | RDiskAttach string "api_error + disk_spec"
  | RDiskDetach string string
  | RNICAttach string "api_error + nic_spec"
  | RNICDetach string string
  | RISOMount string "api_error + string"
  | RISOUnmount string
  | RDiskResize string string "api_error + f64"
  | RTemplate string "api_error + bool"
  | RResources string "api_error + resource_spec"
  | RDiskQoS string string "api_error + disk_qos"
  | RStorageMigrate string string "api_error + string"
  | RMaintEnter string "api_error + bool"
  | RMaintExit string

datatype pool_route =
    RPools "string \<Rightarrow> string"
  | RPoolCreate string "api_error + pool_input"
  | RPoolUpdate string "api_error + pool_input"
  | RPoolDelete string

datatype vm_route =
    RProviders
  | RRead string read_route
  | RLife string life_route
  | RDevice string device_route
  | RPool pool_route

primrec read_handler :: "'p vm_hv \<Rightarrow> marshal \<Rightarrow> string \<Rightarrow> read_route \<Rightarrow> 'p vm_handler" where
  "read_handler hv js pid (RVMs q) = VMs hv js pid q"
| "read_handler hv js pid (RVM i) = VMDetailHandler hv js pid i"
| "read_handler hv js pid (RSnapshots i) = VMSnapshots hv js pid i"
| "read_handler hv js pid (RGuest i) = VMGuestInfo hv js pid i"
| "read_handler hv js pid (RMetrics i) = VMMetrics hv js pid i"
| "read_handler hv js pid RHosts = VMHosts hv js pid"
| "read_handler hv js pid RClusters = VMClusters hv js pid"
| "read_handler hv js pid (RTopology i) = VMClusterTopology hv js pid i"
| "read_handler hv js pid RStorage = VMStorage hv js pid"
| "read_handler hv js pid RNetworks = VMNetworks hv js pid"
| "read_handler hv js pid (RConsole i) = VMConsole hv js pid i"
| "read_handler hv js pid (RVolumes st) = VMVolumes hv js pid st"
| "read_handler hv js pid RTemplates = VMTemplates hv js pid"

primrec life_handler :: "'p vm_hv \<Rightarrow> marshal \<Rightarrow> string \<Rightarrow> life_route \<Rightarrow> 'p vm_handler" where
  "life_handler hv js pid (RPower i op) = VMPowerOp hv js pid i op"
| "life_handler hv js pid (RCreate b) = VMCreate hv js pid b"
| "life_handler hv js pid (RReconfigure i b) = VMReconfigure hv js pid i b"
| "life_handler hv js pid (RDelete i q) = VMDelete hv js pid i q"
| "life_handler hv js pid (RSnapshotCreate i b) = VMSnapshotCreate hv js pid i b"
| "life_handler hv js pid (RSnapshotRevert i k) = VMSnapshotRevert hv js pid i k"
| "life_handler hv js pid (RClone i b) = VMClone hv js pid i b"
| "life_handler hv js pid (RMigrate i b) = VMMigrate hv js pid i b"
| "life_handler hv js pid (RPoolAssign i b) = VMPoolAssign hv js pid i b"

primrec device_handler :: "'p vm_hv \<Rightarrow> marshal \<Rightarrow> string \<Rightarrow> device_route \<Rightarrow> 'p vm_handler" where
  "device_handler hv js pid (RSnapshotDelete i k) = VMSnapshotDelete hv js pid i k"
| "device_handler hv js pid (RNetworkCreate b) = VMNetworkCreate hv js pid b"
| "device_handler hv js pid (RNetworkDelete i) = VMNetworkDelete hv js pid i"
| "device_handler hv js pid (RVolumeCreate st b) = VMVolumeCreate hv js pid st b"
| "device_handler hv js pid (RVolumeDelete st v) = VMVolumeDelete hv js pid st v"
| "device_handler hv js pid (RISOUpload st n sz) = VMISOUpload hv js pid st n sz"
| "device_handler hv js pid (RDiskAttach i b) = VMDiskAttach hv js pid i b"
| "device_handler hv js pid (RDiskDetach i d) = VMDiskDetach hv js pid i d"
| "device_handler hv js pid (RNICAttach i b) = VMNICAttach hv js pid i b"
| "device_handler hv js pid (RNICDetach i n) = VMNICDetach hv js pid i n"
| "device_handler hv js pid (RISOMount i b) = VMISOMount hv js pid i b"
| "device_handler hv js pid (RISOUnmount i) = VMISOUnmount hv js pid i"
| "device_handler hv js pid (RDiskResize i d b) = VMDiskResize hv js pid i d b"
| "device_handler hv js pid (RTemplate i b) = VMMarkTemplate hv js pid i b"
| "device_handler hv js pid (RResources i b) = VMSetResources hv js pid i b"
| "device_handler hv js pid (RDiskQoS i d b) = VMDiskQoS hv js pid i d b"
| "device_handler hv js pid (RStorageMigrate i d b) = VMStorageMigrate hv js pid i d b"
| "device_handler hv js pid (RMaintEnter h b) = VMHostEnterMaintenance hv js pid h b"
| "device_handler hv js pid (RMaintExit h) = VMHostExitMaintenance hv js pid h"

primrec pool_handler :: "'p vm_hv \<Rightarrow> marshal \<Rightarrow> pool_route \<Rightarrow> 'p vm_handler" where
  "pool_handler hv js (RPools q) = VMPools hv js q"
| "pool_handler hv js (RPoolCreate i b) = VMPoolCreate hv js i b"
| "pool_handler hv js (RPoolUpdate i b) = VMPoolUpdate hv js i b"
| "pool_handler hv js (RPoolDelete i) = VMPoolDelete i"

primrec vm_handler_of :: "'p vm_hv \<Rightarrow> marshal \<Rightarrow> vm_route \<Rightarrow> 'p vm_handler" where
  "vm_handler_of hv js RProviders = VMProviders hv js"
| "vm_handler_of hv js (RRead pid x) = read_handler hv js pid x"
| "vm_handler_of hv js (RLife pid x) = life_handler hv js pid x"
| "vm_handler_of hv js (RDevice pid x) = device_handler hv js pid x"
| "vm_handler_of hv js (RPool x) = pool_handler hv js x"

text \<open>The guards of a route: the audit action, whether step-up is asked for, and the permission; the
  scope of the permission is that of the provider, for the pools the global one.\<close>

type_synonym route_guard = "string option \<times> bool \<times> string"

definition vm_read :: "string \<Rightarrow> route_guard" where
  "vm_read perm = (None, False, perm)"

definition vm_write :: "string \<Rightarrow> string \<Rightarrow> route_guard" where
  "vm_write action perm = (Some action, True, perm)"

primrec read_guard :: "read_route \<Rightarrow> route_guard" where
  "read_guard (RVMs a1) = vm_read ''vm.read''"
| "read_guard (RVM a1) = vm_read ''vm.read''"
| "read_guard (RSnapshots a1) = vm_read ''vm.read''"
| "read_guard (RGuest a1) = vm_read ''vm.read''"
| "read_guard (RMetrics a1) = vm_read ''vm.metrics.read''"
| "read_guard RHosts = vm_read ''vm.read''"
| "read_guard RClusters = vm_read ''vm.cluster.read''"
| "read_guard (RTopology a1) = vm_read ''vm.cluster.read''"
| "read_guard RStorage = vm_read ''vm.storage.read''"
| "read_guard RNetworks = vm_read ''vm.network.read''"
| "read_guard (RConsole a1) = (Some ''vm.console'', False, ''vm.console'')"
| "read_guard (RVolumes a1) = vm_read ''vm.storage.read''"
| "read_guard RTemplates = vm_read ''vm.read''"

primrec life_guard :: "life_route \<Rightarrow> route_guard" where
  "life_guard (RPower a1 a2) = vm_write ''vm.power'' ''vm.power''"
| "life_guard (RCreate a1) = vm_write ''vm.create'' ''vm.create''"
| "life_guard (RReconfigure a1 a2) = vm_write ''vm.reconfigure'' ''vm.reconfigure''"
| "life_guard (RDelete a1 a2) = vm_write ''vm.delete'' ''vm.delete''"
| "life_guard (RSnapshotCreate a1 a2) = vm_write ''vm.snapshot.create'' ''vm.snapshot''"
| "life_guard (RSnapshotRevert a1 a2) = vm_write ''vm.snapshot.revert'' ''vm.snapshot''"
| "life_guard (RClone a1 a2) = vm_write ''vm.clone'' ''vm.clone''"
| "life_guard (RMigrate a1 a2) = vm_write ''vm.migrate'' ''vm.migrate''"
| "life_guard (RPoolAssign a1 a2) = vm_write ''vm.pool.assign'' ''vm.resource''"

primrec device_guard :: "device_route \<Rightarrow> route_guard" where
  "device_guard (RSnapshotDelete a1 a2) = vm_write ''vm.snapshot.delete'' ''vm.snapshot''"
| "device_guard (RNetworkCreate a1) = vm_write ''vm.network.create'' ''vm.network.write''"
| "device_guard (RNetworkDelete a1) = vm_write ''vm.network.delete'' ''vm.network.write''"
| "device_guard (RVolumeCreate a1 a2) = vm_write ''vm.volume.create'' ''vm.storage.write''"
| "device_guard (RVolumeDelete a1 a2) = vm_write ''vm.volume.delete'' ''vm.storage.write''"
| "device_guard (RISOUpload a1 a2 a3) = vm_write ''vm.iso.upload'' ''vm.storage.write''"
| "device_guard (RDiskAttach a1 a2) = vm_write ''vm.disk.attach'' ''vm.hotplug''"
| "device_guard (RDiskDetach a1 a2) = vm_write ''vm.disk.detach'' ''vm.hotplug''"
| "device_guard (RNICAttach a1 a2) = vm_write ''vm.nic.attach'' ''vm.hotplug''"
| "device_guard (RNICDetach a1 a2) = vm_write ''vm.nic.detach'' ''vm.hotplug''"
| "device_guard (RISOMount a1 a2) = vm_write ''vm.iso.mount'' ''vm.hotplug''"
| "device_guard (RISOUnmount a1) = vm_write ''vm.iso.unmount'' ''vm.hotplug''"
| "device_guard (RDiskResize a1 a2 a3) = vm_write ''vm.disk.resize'' ''vm.disk.resize''"
| "device_guard (RTemplate a1 a2) = vm_write ''vm.template'' ''vm.template''"
| "device_guard (RResources a1 a2) = vm_write ''vm.resource'' ''vm.resource''"
| "device_guard (RDiskQoS a1 a2 a3) = vm_write ''vm.disk.qos'' ''vm.disk.qos''"
| "device_guard (RStorageMigrate a1 a2 a3) = vm_write ''vm.storage.migrate'' ''vm.storage.migrate''"
| "device_guard (RMaintEnter a1 a2) = vm_write ''vm.host.maintenance.enter'' ''vm.host.maintenance''"
| "device_guard (RMaintExit a1) = vm_write ''vm.host.maintenance.exit'' ''vm.host.maintenance''"

primrec pool_guard :: "pool_route \<Rightarrow> route_guard" where
  "pool_guard (RPools a1) = vm_read ''vm.read''"
| "pool_guard (RPoolCreate a1 a2) = vm_write ''vm.pool.create'' ''vm.resource''"
| "pool_guard (RPoolUpdate a1 a2) = vm_write ''vm.pool.update'' ''vm.resource''"
| "pool_guard (RPoolDelete a1) = vm_write ''vm.pool.delete'' ''vm.resource''"

primrec vm_guard :: "vm_route \<Rightarrow> route_guard \<times> string option" where
  "vm_guard RProviders = (vm_read ''vm.read'', None)"
| "vm_guard (RRead pid x) = (read_guard x, Some pid)"
| "vm_guard (RLife pid x) = (life_guard x, Some pid)"
| "vm_guard (RDevice pid x) = (device_guard x, Some pid)"
| "vm_guard (RPool x) = (pool_guard x, None)"

definition vm_guarded :: "(jval \<Rightarrow> string) \<Rightarrow> 'p vm_hv \<Rightarrow> marshal \<Rightarrow> vm_route \<Rightarrow> 'p vm_handler" where
  "vm_guarded enc hv js route =
     (case vm_guard route of ((action, aal, perm), pid) \<Rightarrow>
        (let h0 = vm_handler_of hv js route;
             h1 = RequirePermission perm (map_option (\<lambda>p _. scopeFromProvider p) pid) h0;
             h2 = (if aal then RequireAAL h1 else h1)
         in case action of None \<Rightarrow> h2 | Some a \<Rightarrow> AuditWrap enc a h2))"

definition vm_serve :: "(jval \<Rightarrow> string) \<Rightarrow> server \<Rightarrow> 'p vm_hv \<Rightarrow> marshal \<Rightarrow> vm_route \<Rightarrow> 'p vm_handler" where
  "vm_serve enc sv hv js route =
     bootstrapGate (BearerOrSession (sdeps sv) (CSRF (sdeps sv) (vm_guarded enc hv js route)))"

end
