(* ===== verification/Kvm.thy ===== *)
theory Kvm
  imports Hv_Seam Json
begin

text \<open>
  The KVM provider, \<open>server/internal/vprovider/kvm\<close>: \<open>kvm.go\<close>, the normalization of \<open>libvirt.go\<close>,
  host maintenance (\<open>kvm_maintenance.go\<close>) and the in-memory backend (\<open>sim_backend.go\<close>).
  A backend is a record of functions over its state; the live one, which talks to libvirt, is not
  in the model, so statements about the provider hold for every backend. \<open>getDomain\<close> answers a
  pointer: \<open>kb_write\<close> is what a write through it does to the backend. For the in-memory backend the
  pointer is the stored domain itself, for the live one a struct built for the call, and the write
  is lost.
\<close>

subsection \<open>The data of libvirt\<close>

definition domNostate :: int where "domNostate = 0"
definition domRunning :: int where "domRunning = 1"
definition domBlocked :: int where "domBlocked = 2"
definition domPaused :: int where "domPaused = 3"
definition domShutdown :: int where "domShutdown = 4"
definition domShutoff :: int where "domShutoff = 5"
definition domCrashed :: int where "domCrashed = 6"
definition domPMSuspended :: int where "domPMSuspended = 7"

lemmas dom_states = domNostate_def domRunning_def domBlocked_def domPaused_def domShutdown_def
  domShutoff_def domCrashed_def domPMSuspended_def

definition state_raw :: "int \<Rightarrow> string" where
  "state_raw s =
     (if s = domNostate then ''nostate''
      else if s = domRunning then ''running''
      else if s = domBlocked then ''blocked''
      else if s = domPaused then ''paused''
      else if s = domShutdown then ''shutdown''
      else if s = domShutoff then ''shutoff''
      else if s = domCrashed then ''crashed''
      else if s = domPMSuspended then ''pmsuspended''
      else ''unknown'')"

definition normalizeState :: "int \<Rightarrow> string" where
  "normalizeState s =
     (if s = domRunning \<or> s = domBlocked then StateRunning
      else if s = domShutoff \<or> s = domShutdown then StateStopped
      else if s = domPaused then ''paused''
      else if s = domPMSuspended then StateSuspended
      else if s = domCrashed then ''error''
      else ''unknown'')"

record kvm_disk =
  kd_Target :: string
  kd_Driver :: string
  kd_Source :: string
  kd_Pool :: string
  kd_CapBytes :: int
  kd_QoS :: "disk_qos option"
  kd_Provisioning :: string
  kd_Discard :: bool

record kvm_nic =
  kn_MAC :: string
  kn_Network :: string
  kn_Model :: string
  kn_Link :: bool

record domain =
  dom_UUID :: string
  dom_Name :: string
  dom_State :: int
  dom_HostID :: string
  dom_VCPUs :: int
  dom_MemoryKB :: int
  dom_OSType :: string
  dom_Firmware :: string
  dom_TPM :: bool
  dom_SecureBoot :: bool
  dom_Disks :: "kvm_disk list"
  dom_NICs :: "kvm_nic list"
  dom_IPs :: "string list"
  dom_Labels :: "(string \<times> string) list"
  dom_Created :: int
  dom_BootISO :: string
  dom_CloudInit :: "cloudinit_spec option"
  dom_SeedISO :: string
  dom_CPU :: "cpu_spec option"
  dom_IsTemplate :: bool
  dom_Sysprep :: "sysprep_spec option"
  dom_SysprepISO :: string
  dom_Resources :: "resource_spec option"

record kvm_pool =
  kp_UUID :: string
  kp_Name :: string
  kp_Type :: string
  kp_CapBytes :: int
  kp_AvailBytes :: int
  kp_Active :: bool
  kp_Hosts :: "string list"

record kvm_net =
  kt_UUID :: string
  kt_Name :: string
  kt_Mode :: string
  kt_VLAN :: int

record kvm_node =
  kh_ID :: string
  kh_Name :: string
  kh_Online :: bool
  kh_CPUs :: int
  kh_MHz :: int
  kh_MemoryKB :: int
  kh_UsedKB :: int
  kh_Version :: string

definition labelTemplate :: string where "labelTemplate = ''unihv.template''"

subsection \<open>Backends\<close>

text \<open>\<open>exportDisk\<close> tells apart a disk that has no file behind it.\<close>

datatype export_error = NoRealDisk | ExportFailed string

record 'b ext_backend =
  ke_call :: "'b \<Rightarrow> ext_call \<Rightarrow> 'b \<times> verror option"
  ke_console :: "'b \<Rightarrow> string \<Rightarrow> verror + console_endpoint"
  ke_listVolumes :: "'b \<Rightarrow> string \<Rightarrow> verror + volume list"
  ke_uploadISO :: "'b \<Rightarrow> string \<Rightarrow> string \<Rightarrow> int \<Rightarrow> int \<Rightarrow> 'b \<times> (verror + volume)"
  ke_exportDisk :: "'b \<Rightarrow> string \<Rightarrow> string \<Rightarrow> export_error + (string \<times> int)"
  ke_guestInfo :: "'b \<Rightarrow> string \<Rightarrow> verror + guest_info"
  ke_guestShutdown :: "'b \<Rightarrow> string \<Rightarrow> 'b \<times> verror option"

text \<open>\<open>kb_defineDomain\<close> answers the identifier the domain has afterwards. \<open>kb_ext\<close> and \<open>kb_metrics\<close>
  are the optional interfaces, absent for the in-memory backend.\<close>

record 'b kvm_backend =
  kb_version :: "'b \<Rightarrow> string"
  kb_healthy :: "'b \<Rightarrow> bool"
  kb_close :: "'b \<Rightarrow> 'b"
  kb_listNodes :: "'b \<Rightarrow> kvm_node list"
  kb_getNode :: "'b \<Rightarrow> string \<Rightarrow> kvm_node option"
  kb_listDomains :: "'b \<Rightarrow> domain list"
  kb_getDomain :: "'b \<Rightarrow> string \<Rightarrow> domain option"
  kb_write :: "'b \<Rightarrow> string \<Rightarrow> (domain \<Rightarrow> domain) \<Rightarrow> 'b"
  kb_listPools :: "'b \<Rightarrow> kvm_pool list"
  kb_listNets :: "'b \<Rightarrow> kvm_net list"
  kb_defineDomain :: "'b \<Rightarrow> domain \<Rightarrow> 'b \<times> (verror + string)"
  kb_undefineDomain :: "'b \<Rightarrow> string \<Rightarrow> 'b \<times> verror option"
  kb_setDomainState :: "'b \<Rightarrow> string \<Rightarrow> int \<Rightarrow> 'b \<times> verror option"
  kb_reconfigureDomain :: "'b \<Rightarrow> string \<Rightarrow> int option \<Rightarrow> int option \<Rightarrow> 'b \<times> verror option"
  kb_domainsOnHost :: "'b \<Rightarrow> string \<Rightarrow> int"
  kb_markTemplate :: "'b \<Rightarrow> string \<Rightarrow> bool \<Rightarrow> 'b \<times> verror option"
  kb_listSnapshots :: "'b \<Rightarrow> string \<Rightarrow> snapshot list"
  kb_createSnapshot :: "'b \<Rightarrow> string \<Rightarrow> snapshot \<Rightarrow> snapshot_options \<Rightarrow> 'b \<times> verror option"
  kb_setCurrentSnapshot :: "'b \<Rightarrow> string \<Rightarrow> string \<Rightarrow> 'b \<times> (verror + bool)"
  kb_hostIDs :: "'b \<Rightarrow> string list"
  kb_clusterName :: "'b \<Rightarrow> string"
  kb_ext :: "'b ext_backend option"
  kb_metrics :: "('b \<Rightarrow> string \<Rightarrow> metric_window \<Rightarrow> metric_series option) option"

subsection \<open>The provider\<close>

record 'b kvm = prov +
  backend :: 'b
  maint :: "(string \<times> bool) list"

definition FullCaps :: caps where
  "FullCaps = fold (OR)
    [CapListHosts, CapListVMs, CapGetVM, CapListClusters, CapListStorage, CapListNetworks,
     CapCreateVM, CapPowerStart, CapPowerStop, CapPowerReset, CapPowerSuspend, CapDeleteVM,
     CapReconfigureVM, CapSnapshot, CapRevertSnapshot, CapClone, CapMigrate, CapExport,
     CapClusterTopology, CapNodeState, CapMetrics, CapEvents, CapMaintenance, CapTemplates] 0"

text \<open>\<open>New\<close> with the options \<open>WithCaps\<close> and \<open>WithBackend\<close>.\<close>

definition New :: "string \<Rightarrow> caps \<Rightarrow> 'b \<Rightarrow> 'b kvm" where
  "New i caps b = \<lparr>hp_id = i, hp_kind = ''kvm'', hp_caps = caps, hp_clusterID = ''kvm-logical-cluster'',
     hp_tracker = [], hp_seq = 0, hp_closed = False, backend = b, maint = []\<rparr>"

text \<open>The result of a call of the backend that answers an error or nothing.\<close>

definition after_call ::
  "'b kvm \<Rightarrow> 'b \<times> verror option \<Rightarrow> ('b kvm \<Rightarrow> 'b kvm \<times> task_result) \<Rightarrow> 'b kvm \<times> task_result" where
  "after_call p res k = (case res of (b, Some e) \<Rightarrow> (p\<lparr>backend := b\<rparr>, Inl e)
                         | (b, None) \<Rightarrow> k (p\<lparr>backend := b\<rparr>))"

definition write_domain :: "'b kvm_backend \<Rightarrow> 'b kvm \<Rightarrow> string \<Rightarrow> (domain \<Rightarrow> domain) \<Rightarrow> 'b kvm" where
  "write_domain B p i f = p\<lparr>backend := kb_write B (backend p) i f\<rparr>"

subsection \<open>Normalization\<close>

definition isMaint :: "'b kvm \<Rightarrow> string \<Rightarrow> bool" where
  "isMaint p h \<longleftrightarrow> map_of (maint p) h = Some True"

definition diskHasQoS :: "kvm_disk list \<Rightarrow> bool" where
  "diskHasQoS ds \<longleftrightarrow> (\<exists>d \<in> set ds. kd_QoS d \<noteq> None)"

definition putI64 :: "(string \<times> string) list \<Rightarrow> string \<Rightarrow> int \<Rightarrow> (string \<times> string) list" where
  "putI64 m k v = (if v > 0 then put m k (itoa v) else m)"

definition cpu_labels :: "cpu_spec \<Rightarrow> (string \<times> string) list \<Rightarrow> (string \<times> string) list" where
  "cpu_labels c m0 =
     (let m1 = putI64 m0 ''unihv.cpu.sockets'' (Sockets c);
          m2 = putI64 m1 ''unihv.cpu.cores'' (CoresPerSocket c);
          m3 = putI64 m2 ''unihv.cpu.threads'' (ThreadsPerCore c)
      in if cpu_Model c \<noteq> [] then put m3 ''unihv.cpu.model'' (cpu_Model c) else m3)"

definition resource_labels :: "resource_spec \<Rightarrow> (string \<times> string) list \<Rightarrow> (string \<times> string) list" where
  "resource_labels r m = fold (\<lambda>(k, v) m. putI64 m k v)
     [(''unihv.res.cpu.shares'', CPUShares r), (''unihv.res.cpu.reservationMhz'', CPUReservationMHz r),
      (''unihv.res.cpu.limitMhz'', CPULimitMHz r), (''unihv.res.mem.shares'', MemoryShares r),
      (''unihv.res.mem.reservationMb'', MemoryReservationMB r), (''unihv.res.mem.limitMb'', MemoryLimitMB r)] m"

definition qos_labels :: "kvm_disk \<Rightarrow> (string \<times> string) list \<Rightarrow> (string \<times> string) list" where
  "qos_labels d m = (case kd_QoS d of None \<Rightarrow> m
     | Some q \<Rightarrow>
       (let pre = ''unihv.qos.'' @ kd_Target d @ ''.'' in
        fold (\<lambda>(k, v) m. putI64 m (pre @ k) v)
          [(''readIops'', ReadIOPS q), (''writeIops'', WriteIOPS q), (''totalIops'', TotalIOPS q),
           (''readBps'', ReadBytesSec q), (''writeBps'', WriteBytesSec q),
           (''totalBps'', TotalBytesSec q)] m))"

definition domain_labels :: "domain \<Rightarrow> (string \<times> string) list" where
  "domain_labels d =
     (if dom_IsTemplate d \<or> dom_CPU d \<noteq> None \<or> dom_Resources d \<noteq> None \<or> diskHasQoS (dom_Disks d) then
        (let m1 = (if dom_IsTemplate d then put (dom_Labels d) labelTemplate ''true'' else dom_Labels d);
             m2 = (case dom_CPU d of None \<Rightarrow> m1 | Some c \<Rightarrow> cpu_labels c m1);
             m3 = (case dom_Resources d of None \<Rightarrow> m2 | Some r \<Rightarrow> resource_labels r m2)
         in fold qos_labels (dom_Disks d) m3)
      else dom_Labels d)"

definition normalizeDiskFormat :: "string \<Rightarrow> string" where
  "normalizeDiskFormat f = (if f = ''qcow2'' then ''qcow2'' else if f = ''raw'' then ''raw'' else ''qcow2'')"

definition normalizeDomain :: "'b kvm_backend \<Rightarrow> 'b kvm \<Rightarrow> domain \<Rightarrow> vm" where
  "normalizeDomain B p d =
     \<lparr>vm_ID = dom_UUID d, vm_Name = dom_Name d, vm_Kind = hp_kind p, vm_ProviderID = hp_id p,
      vm_HostID = dom_HostID d, vm_ClusterID = hp_clusterID p,
      vm_State = normalizeState (dom_State d), vm_StateRaw = state_raw (dom_State d),
      vm_VCPUs = dom_VCPUs d, vm_MemoryMB = go_div (dom_MemoryKB d) 1024,
      vm_GuestOS = dom_OSType d, vm_Firmware = dom_Firmware d,
      vm_Disks = map (\<lambda>k. \<lparr>dk_ID = dom_UUID d @ ''-'' @ kd_Target k, dk_Label = kd_Target k,
          dk_Format = normalizeDiskFormat (kd_Driver k), dk_CapacityGB = gb_of_bytes (kd_CapBytes k),
          dk_StorageID = kd_Pool k, dk_Path = kd_Source k\<rparr>) (dom_Disks d),
      vm_NICs = map (\<lambda>(i, n). \<lparr>nic_ID = dom_UUID d @ ''-nic'' @ itoa (int i), nic_MAC = kn_MAC n,
          nic_NetworkID = kn_Network n, nic_Model = kn_Model n, nic_Connected = kn_Link n\<rparr>)
          (enumerate 0 (dom_NICs d)),
      vm_IPAddresses = dom_IPs d, vm_Labels = domain_labels d,
      vm_SnapshotCount = int (length (kb_listSnapshots B (backend p) (dom_UUID d))),
      vm_CreatedAt = (if dom_Created d > 0 then Some (dom_Created d * second) else None),
      vm_Protected = False\<rparr>"

definition normalizePool :: "'b kvm \<Rightarrow> kvm_pool \<Rightarrow> storage_pool" where
  "normalizePool p l = \<lparr>sp_ID = kp_UUID l, sp_Name = kp_Name l, sp_Kind = hp_kind p, sp_ProviderID = hp_id p,
     sp_Type = kp_Type l, CapacityGB = gb_of_bytes (kp_CapBytes l), FreeGB = gb_of_bytes (kp_AvailBytes l),
     sp_HostIDs = kp_Hosts l, Accessible = kp_Active l\<rparr>"

definition normalizeNet :: "'b kvm \<Rightarrow> kvm_net \<Rightarrow> network" where
  "normalizeNet p n = \<lparr>net_ID = kt_UUID n, net_Name = kt_Name n, net_Kind = hp_kind p, net_ProviderID = hp_id p,
     net_Type = kt_Mode n, net_VLAN = kt_VLAN n\<rparr>"

definition node_state_of :: "'b kvm \<Rightarrow> kvm_node \<Rightarrow> string" where
  "node_state_of p n =
     (if isMaint p (kh_ID n) then ''maintenance'' else if kh_Online n then ''up'' else ''down'')"

definition normalizeNode :: "'b kvm_backend \<Rightarrow> 'b kvm \<Rightarrow> kvm_node \<Rightarrow> vhost" where
  "normalizeNode B p n = \<lparr>host_ID = kh_ID n, host_Name = kh_Name n, host_Kind = hp_kind p,
     host_ProviderID = hp_id p, host_ClusterID = hp_clusterID p, host_State = node_state_of p n,
     CPUCores = kh_CPUs n, CPUMHz = kh_MHz n, MemoryMB = go_div (kh_MemoryKB n) 1024,
     MemUsedMB = go_div (kh_UsedKB n) 1024, host_VMCount = kb_domainsOnHost B (backend p) (kh_ID n),
     host_Version = kh_Version n, host_Labels = []\<rparr>"

subsection \<open>Health and inventory\<close>

definition HealthCheck :: "'b kvm_backend \<Rightarrow> 'b kvm \<Rightarrow> int \<Rightarrow> health_status" where
  "HealthCheck B p now =
     (if hp_closed p \<or> \<not> kb_healthy B (backend p)
      then \<lparr>Healthy = False, hs_Message = ''libvirt connection unavailable'', hs_Version = [], CheckedAt = now\<rparr>
      else \<lparr>Healthy = True, hs_Message = [], hs_Version = kb_version B (backend p), CheckedAt = now\<rparr>)"

definition Close :: "'b kvm_backend \<Rightarrow> 'b kvm \<Rightarrow> 'b kvm" where
  "Close B p = (if hp_closed p then p else p\<lparr>hp_closed := True, backend := kb_close B (backend p)\<rparr>)"

definition ListHosts :: "'b kvm_backend \<Rightarrow> 'b kvm \<Rightarrow> verror + vhost list" where
  "ListHosts B p = (if \<not> Has (hp_caps p) CapListHosts then Inl ErrUnsupported
     else Inr (map (normalizeNode B p) (kb_listNodes B (backend p))))"

definition ListVMs :: "'b kvm_backend \<Rightarrow> 'b kvm \<Rightarrow> list_options \<Rightarrow> verror + vm list" where
  "ListVMs B p opts = (if \<not> Has (hp_caps p) CapListVMs then Inl ErrUnsupported
     else Inr (filter (vm_listed opts) (map (normalizeDomain B p) (kb_listDomains B (backend p)))))"

definition GetVM :: "'b kvm_backend \<Rightarrow> 'b kvm \<Rightarrow> string \<Rightarrow> verror + vm_detail" where
  "GetVM B p i = (if \<not> Has (hp_caps p) CapGetVM then Inl ErrUnsupported
     else (case kb_getDomain B (backend p) i of None \<Rightarrow> Inl ErrNotFound
       | Some d \<Rightarrow> Inr \<lparr>detail_VM = normalizeDomain B p d,
           Raw = json_enc (JObj [(''firmware'', JStr (dom_Firmware d)), (''memoryKiB'', JNum (dom_MemoryKB d)),
             (''name'', JStr (dom_Name d)), (''osType'', JStr (dom_OSType d)),
             (''state'', JStr (state_raw (dom_State d))), (''stateInt'', JNum (dom_State d)),
             (''uuid'', JStr (dom_UUID d)), (''vcpu'', JNum (dom_VCPUs d))])\<rparr>))"

definition ListClusters :: "'b kvm_backend \<Rightarrow> 'b kvm \<Rightarrow> verror + cluster list" where
  "ListClusters B p = (if \<not> Has (hp_caps p) CapListClusters then Inl ErrUnsupported
     else Inr [\<lparr>cl_ID = hp_clusterID p, cl_Name = kb_clusterName B (backend p), cl_Kind = hp_kind p,
       cl_ProviderID = hp_id p, cl_HostIDs = kb_hostIDs B (backend p), HAEnabled = False, DRSEnabled = False\<rparr>])"

definition ListStorage :: "'b kvm_backend \<Rightarrow> 'b kvm \<Rightarrow> verror + storage_pool list" where
  "ListStorage B p = (if \<not> Has (hp_caps p) CapListStorage then Inl ErrUnsupported
     else Inr (map (normalizePool p) (kb_listPools B (backend p))))"

definition ListNetworks :: "'b kvm_backend \<Rightarrow> 'b kvm \<Rightarrow> verror + network list" where
  "ListNetworks B p = (if \<not> Has (hp_caps p) CapListNetworks then Inl ErrUnsupported
     else Inr (map (normalizeNet p) (kb_listNets B (backend p))))"

subsection \<open>Lifecycle\<close>

text \<open>The product is an \<open>int\<close> and wraps.\<close>

definition cpuTopologyVCPUs :: "cpu_spec option \<Rightarrow> int" where
  "cpuTopologyVCPUs c = (case c of None \<Rightarrow> 0
     | Some c \<Rightarrow> if Sockets c \<le> 0 \<or> CoresPerSocket c \<le> 0 \<or> ThreadsPerCore c \<le> 0 then 0
                 else wrap64 (wrap64 (Sockets c * CoresPerSocket c) * ThreadsPerCore c))"

text \<open>\<open>"vd" + string(rune('a' + n))\<close>.\<close>

definition disk_target :: "nat \<Rightarrow> string" where
  "disk_target n = ''vd'' @ utf8 (97 + n)"

definition spec_disk :: "nat \<Rightarrow> disk_spec \<Rightarrow> kvm_disk" where
  "spec_disk n s = \<lparr>kd_Target = disk_target n, kd_Driver = normalizeDiskFormat (ds_Format s),
     kd_Source = ds_SourcePath s, kd_Pool = ds_StorageID s, kd_CapBytes = bytes_of_gb (ds_CapacityGB s),
     kd_QoS = ds_QoS s, kd_Provisioning = ds_Provisioning s, kd_Discard = ds_Discard s\<rparr>"

definition spec_nic :: "nic_spec \<Rightarrow> kvm_nic" where
  "spec_nic n = \<lparr>kn_MAC = ns_MAC n, kn_Network = ns_NetworkID n, kn_Model = ns_Model n, kn_Link = True\<rparr>"

definition spec_domain :: "vm_spec \<Rightarrow> string \<Rightarrow> int \<Rightarrow> domain" where
  "spec_domain spec uuid now =
     \<lparr>dom_UUID = uuid, dom_Name = vs_Name spec, dom_State = domShutoff, dom_HostID = vs_HostID spec,
      dom_VCPUs = (let n = cpuTopologyVCPUs (CPU spec) in if n > 0 then n else vs_VCPUs spec),
      dom_MemoryKB = wrap64 (vs_MemoryMB spec * 1024), dom_OSType = vs_GuestOS spec,
      dom_Firmware = (if SecureBoot spec then ''uefi'' else vs_Firmware spec), dom_TPM = TPM spec,
      dom_SecureBoot = SecureBoot spec,
      dom_Disks = map (\<lambda>(i, d). spec_disk i d) (enumerate 0 (vs_Disks spec)),
      dom_NICs = map spec_nic (vs_NICs spec), dom_IPs = [],
      dom_Labels = (if IsTemplate spec then put (vs_Labels spec) labelTemplate ''true'' else vs_Labels spec),
      dom_Created = now div second, dom_BootISO = BootISO spec, dom_CloudInit = CloudInit spec,
      dom_SeedISO = [], dom_CPU = CPU spec, dom_IsTemplate = IsTemplate spec, dom_Sysprep = Sysprep spec,
      dom_SysprepISO = [], dom_Resources = None\<rparr>"

definition CreateVM :: "'b kvm_backend \<Rightarrow> 'b kvm \<Rightarrow> vm_spec \<Rightarrow> int \<Rightarrow> 'b kvm \<times> task_result" where
  "CreateVM B p spec now =
     (if \<not> Has (hp_caps p) CapCreateVM then (p, Inl ErrUnsupported)
      else if trim_space (vs_Name spec) = [] \<or> vs_MemoryMB spec \<le> 0
           \<or> (vs_VCPUs spec \<le> 0 \<and> cpuTopologyVCPUs (CPU spec) \<le> 0) then (p, Inl ErrInvalidSpec)
      else (case nextID p ''dom'' of (p1, uuid) \<Rightarrow>
              (case kb_defineDomain B (backend p1) (spec_domain spec uuid now) of
                 (b, Inl e) \<Rightarrow> (p1\<lparr>backend := b\<rparr>, Inl e)
               | (b, Inr i) \<Rightarrow> done_task (p1\<lparr>backend := b\<rparr>) ''createVM'' i now)))"

definition set_power :: "'b kvm_backend \<Rightarrow> 'b kvm \<Rightarrow> string \<Rightarrow> string \<Rightarrow> 'b \<times> verror option" where
  "set_power B p vmID op =
     (if op = ''start'' \<or> op = ''resume'' \<or> op = ''reset'' then kb_setDomainState B (backend p) vmID domRunning
      else if op = ''stop'' then
        (case kb_ext B of
           Some e \<Rightarrow> if Has (hp_caps p) CapGuestAgent then ke_guestShutdown e (backend p) vmID
                     else kb_setDomainState B (backend p) vmID domShutoff
         | None \<Rightarrow> kb_setDomainState B (backend p) vmID domShutoff)
      else if op = ''suspend'' then kb_setDomainState B (backend p) vmID domPMSuspended
      else (backend p, None))"

definition PowerOp :: "'b kvm_backend \<Rightarrow> 'b kvm \<Rightarrow> string \<Rightarrow> string \<Rightarrow> int \<Rightarrow> 'b kvm \<times> task_result" where
  "PowerOp B p vmID op now =
     (if \<not> PowerOp_Valid op then (p, Inl ErrInvalidSpec)
      else if \<not> Has (hp_caps p) (PowerOpCapability op) then (p, Inl ErrUnsupported)
      else if kb_getDomain B (backend p) vmID = None then (p, Inl ErrNotFound)
      else after_call p (set_power B p vmID op) (\<lambda>p. done_task p ''powerOp'' vmID now))"

definition DeleteVM :: "'b kvm_backend \<Rightarrow> 'b kvm \<Rightarrow> string \<Rightarrow> delete_options \<Rightarrow> int \<Rightarrow> 'b kvm \<times> task_result" where
  "DeleteVM B p vmID opts now =
     (if \<not> Has (hp_caps p) CapDeleteVM then (p, Inl ErrUnsupported)
      else (case kb_getDomain B (backend p) vmID of None \<Rightarrow> (p, Inl ErrNotFound)
        | Some d \<Rightarrow>
          if normalizeState (dom_State d) = StateRunning \<and> \<not> Force opts then (p, Inl ErrConflict)
          else after_call p
            (if normalizeState (dom_State d) = StateRunning \<and> Force opts
             then kb_setDomainState B (backend p) vmID domShutoff else (backend p, None))
            (\<lambda>p. after_call p (kb_undefineDomain B (backend p) vmID)
                   (\<lambda>p. done_task p ''deleteVM'' vmID now))))"

text \<open>The loop over the added disks: the name of a disk counts the disks there are and the index.\<close>

primrec append_disks :: "nat \<Rightarrow> disk_spec list \<Rightarrow> kvm_disk list \<Rightarrow> kvm_disk list" where
  "append_disks i [] ds = ds"
| "append_disks i (s # ss) ds = append_disks (Suc i) ss (ds @ [spec_disk (length ds + i) s])"

definition reconfigured :: "reconfigure_spec \<Rightarrow> domain \<Rightarrow> domain" where
  "reconfigured spec d = d\<lparr>dom_VCPUs := (case rs_VCPUs spec of None \<Rightarrow> dom_VCPUs d | Some n \<Rightarrow> n),
     dom_MemoryKB := (case rs_MemoryMB spec of None \<Rightarrow> dom_MemoryKB d | Some m \<Rightarrow> wrap64 (m * 1024)),
     dom_Disks := append_disks 0 (AddDisks spec) (dom_Disks d),
     dom_NICs := dom_NICs d @ map spec_nic (AddNICs spec)\<rparr>"

definition relabelled :: "reconfigure_spec \<Rightarrow> domain \<Rightarrow> domain" where
  "relabelled spec d = d\<lparr>
     dom_Resources := (case Resources spec of None \<Rightarrow> dom_Resources d | Some r \<Rightarrow> Some r),
     dom_Labels := put_all (dom_Labels d) (rs_Labels spec)\<rparr>"

definition bad_number :: "int option \<Rightarrow> bool" where
  "bad_number n \<longleftrightarrow> (case n of None \<Rightarrow> False | Some k \<Rightarrow> k \<le> 0)"

definition ReconfigureVM ::
  "'b kvm_backend \<Rightarrow> 'b kvm \<Rightarrow> string \<Rightarrow> reconfigure_spec \<Rightarrow> int \<Rightarrow> 'b kvm \<times> task_result" where
  "ReconfigureVM B p vmID spec now =
     (if \<not> Has (hp_caps p) CapReconfigureVM then (p, Inl ErrUnsupported)
      else if kb_getDomain B (backend p) vmID = None then (p, Inl ErrNotFound)
      else if bad_number (rs_VCPUs spec) \<or> bad_number (rs_MemoryMB spec) then (p, Inl ErrInvalidSpec)
      else after_call p
        (if rs_VCPUs spec \<noteq> None \<or> rs_MemoryMB spec \<noteq> None
         then kb_reconfigureDomain B (backend p) vmID (rs_VCPUs spec) (rs_MemoryMB spec)
         else (backend p, None))
        (\<lambda>p. let p1 = write_domain B p vmID (reconfigured spec) in
           after_call p1
             (case (Resources spec, kb_ext B) of
                (Some r, Some e) \<Rightarrow> if Has (hp_caps p1) CapResourceControl
                                    then ke_call e (backend p1) (CallSetResources vmID r)
                                    else (backend p1, None)
              | _ \<Rightarrow> (backend p1, None))
             (\<lambda>p. done_task (write_domain B p vmID (relabelled spec)) ''reconfigureVM'' vmID now)))"

subsection \<open>Snapshots, clones, templates\<close>

definition Snapshot :: "'b kvm_backend \<Rightarrow> 'b kvm \<Rightarrow> string \<Rightarrow> snapshot_options \<Rightarrow> int \<Rightarrow> 'b kvm \<times> task_result" where
  "Snapshot B p vmID opts now =
     (if \<not> Has (hp_caps p) CapSnapshot then (p, Inl ErrUnsupported)
      else if kb_getDomain B (backend p) vmID = None then (p, Inl ErrNotFound)
      else (case nextID p ''snap'' of (p1, i) \<Rightarrow>
        after_call p1
          (kb_createSnapshot B (backend p1) vmID
             \<lparr>snap_ID = i, snap_VMID = vmID, snap_Name = so_Name opts, snap_Description = so_Description opts,
              snap_ParentID = [], HasMemory = so_Memory opts, IsCurrent = True, snap_CreatedAt = Some now\<rparr> opts)
          (\<lambda>p. done_task p ''snapshot'' vmID now)))"

definition RevertSnapshot :: "'b kvm_backend \<Rightarrow> 'b kvm \<Rightarrow> string \<Rightarrow> string \<Rightarrow> int \<Rightarrow> 'b kvm \<times> task_result" where
  "RevertSnapshot B p vmID snapID now =
     (if \<not> Has (hp_caps p) CapRevertSnapshot then (p, Inl ErrUnsupported)
      else if kb_getDomain B (backend p) vmID = None then (p, Inl ErrNotFound)
      else (case kb_setCurrentSnapshot B (backend p) vmID snapID of
              (b, Inl e) \<Rightarrow> (p\<lparr>backend := b\<rparr>, Inl e)
            | (b, Inr found) \<Rightarrow>
              if \<not> found then (p\<lparr>backend := b\<rparr>, Inl ErrNotFound)
              else done_task (p\<lparr>backend := b\<rparr>) ''revertSnapshot'' vmID now))"

definition ListSnapshots :: "'b kvm_backend \<Rightarrow> 'b kvm \<Rightarrow> string \<Rightarrow> verror + snapshot list" where
  "ListSnapshots B p vmID =
     (if \<not> Has (hp_caps p) CapSnapshot then Inl ErrUnsupported
      else if kb_getDomain B (backend p) vmID = None then Inl ErrNotFound
      else Inr (kb_listSnapshots B (backend p) vmID))"

definition cloned :: "domain \<Rightarrow> clone_spec \<Rightarrow> string \<Rightarrow> domain" where
  "cloned src spec uuid = src\<lparr>dom_UUID := uuid, dom_Name := cs_Name spec,
     dom_Labels := del (dom_Labels src) labelTemplate,
     dom_State := (if PowerOn spec then domRunning else domShutoff),
     dom_HostID := (if cs_HostID spec \<noteq> [] then cs_HostID spec else dom_HostID src),
     dom_IsTemplate := False\<rparr>"

definition Clone :: "'b kvm_backend \<Rightarrow> 'b kvm \<Rightarrow> string \<Rightarrow> clone_spec \<Rightarrow> int \<Rightarrow> 'b kvm \<times> task_result" where
  "Clone B p vmID spec now =
     (if \<not> Has (hp_caps p) CapClone then (p, Inl ErrUnsupported)
      else (case kb_getDomain B (backend p) vmID of None \<Rightarrow> (p, Inl ErrNotFound)
        | Some src \<Rightarrow>
          if trim_space (cs_Name spec) = [] then (p, Inl ErrInvalidSpec)
          else (case nextID p ''dom'' of (p1, uuid) \<Rightarrow>
            (case kb_defineDomain B (backend p1) (cloned src spec uuid) of
               (b, Inl e) \<Rightarrow> (p1\<lparr>backend := b\<rparr>, Inl e)
             | (b, Inr i) \<Rightarrow> done_task (p1\<lparr>backend := b\<rparr>) ''clone'' i now))))"

definition template_marked :: "bool \<Rightarrow> domain \<Rightarrow> domain" where
  "template_marked t d = d\<lparr>dom_IsTemplate := t,
     dom_Labels := (if t then put (dom_Labels d) labelTemplate ''true'' else del (dom_Labels d) labelTemplate)\<rparr>"

definition MarkTemplate :: "'b kvm_backend \<Rightarrow> 'b kvm \<Rightarrow> string \<Rightarrow> bool \<Rightarrow> int \<Rightarrow> 'b kvm \<times> task_result" where
  "MarkTemplate B p vmID t now =
     (if \<not> Has (hp_caps p) CapTemplates then (p, Inl ErrUnsupported)
      else (case kb_getDomain B (backend p) vmID of None \<Rightarrow> (p, Inl ErrNotFound)
        | Some d \<Rightarrow>
          if normalizeState (dom_State d) = StateRunning then (p, Inl ErrConflict)
          else after_call p (kb_markTemplate B (backend p) vmID t)
            (\<lambda>p. done_task (write_domain B p vmID (template_marked t)) ''markTemplate'' vmID now)))"

subsection \<open>Migration between hosts, export\<close>

definition MigrateVM ::
  "'b kvm_backend \<Rightarrow> 'b kvm \<Rightarrow> string \<Rightarrow> string \<Rightarrow> migrate_options \<Rightarrow> int \<Rightarrow> 'b kvm \<times> task_result" where
  "MigrateVM B p vmID targetHost opts now =
     (if \<not> Has (hp_caps p) CapMigrate then (p, Inl ErrUnsupported)
      else if kb_getDomain B (backend p) vmID = None then (p, Inl ErrNotFound)
      else if kb_getNode B (backend p) targetHost = None then (p, Inl ErrInvalidSpec)
      else done_task (write_domain B p vmID (\<lambda>d. d\<lparr>dom_HostID := targetHost\<rparr>)) ''migrate'' vmID now)"

definition ExportVM :: "'b kvm_backend \<Rightarrow> 'b kvm \<Rightarrow> string \<Rightarrow> string \<Rightarrow> verror + (string \<times> export_info)" where
  "ExportVM B p vmID format =
     (if \<not> Has (hp_caps p) CapExport then Inl ErrUnsupported
      else if \<not> DiskFormat_Valid format then Inl ErrInvalidSpec
      else (case kb_getDomain B (backend p) vmID of None \<Rightarrow> Inl ErrNotFound
        | Some d \<Rightarrow>
          (let info = (\<lambda>n. \<lparr>ex_Format = format, SizeBytes = n, DiskCount = int (length (dom_Disks d)),
                  ex_SourceVMID = vmID, ex_GuestOS = dom_OSType d, ex_Firmware = dom_Firmware d\<rparr>)
           in case kb_ext B of
                Some e \<Rightarrow>
                  (case ke_exportDisk e (backend p) vmID format of
                     Inr (body, n) \<Rightarrow> Inr (body, info n)
                   | Inl NoRealDisk \<Rightarrow> Inl ErrUnsupported
                   | Inl (ExportFailed m) \<Rightarrow> Inl ErrInvalidSpec)
              | None \<Rightarrow>
                  (let payload = ''KVMEXPORT'' @ [CHR 0x00] @ ''provider='' @ hp_id p @ [CHR 0x00] @ ''domain='' @ vmID
                         @ [CHR 0x00] @ ''format='' @ format @ [CHR 0x0A]
                   in Inr (payload, info (int (length payload)))))))"

subsection \<open>Cluster, nodes, metrics\<close>

definition node_state_row :: "vhost \<Rightarrow> string \<Rightarrow> int \<Rightarrow> node_state" where
  "node_state_row h i now = \<lparr>NodeID = i, node_State = host_State h, node_Message = [],
     node_VMCount = host_VMCount h, node_UpdatedAt = Some now\<rparr>"

definition GetClusterTopology :: "'b kvm_backend \<Rightarrow> 'b kvm \<Rightarrow> string \<Rightarrow> int \<Rightarrow> verror + topology" where
  "GetClusterTopology B p clusterID now =
     (if \<not> Has (hp_caps p) CapClusterTopology then Inl ErrUnsupported
      else if clusterID \<noteq> hp_clusterID p then Inl ErrNotFound
      else Inr \<lparr>top_ClusterID = clusterID,
        Nodes = map (\<lambda>n. let h = normalizeNode B p n in node_state_row h (host_ID h) now)
                  (kb_listNodes B (backend p)),
        Placement = fold (\<lambda>d m. put m (dom_UUID d) (dom_HostID d)) (kb_listDomains B (backend p)) []\<rparr>)"

definition NodeState :: "'b kvm_backend \<Rightarrow> 'b kvm \<Rightarrow> string \<Rightarrow> int \<Rightarrow> verror + node_state" where
  "NodeState B p nodeID now =
     (if \<not> Has (hp_caps p) CapNodeState then Inl ErrUnsupported
      else (case kb_getNode B (backend p) nodeID of None \<Rightarrow> Inl ErrNotFound
            | Some n \<Rightarrow> Inr (node_state_row (normalizeNode B p n) nodeID now)))"

definition GetMetrics :: "'b kvm_backend \<Rightarrow> 'b kvm \<Rightarrow> string \<Rightarrow> metric_window \<Rightarrow> int \<Rightarrow> verror + metric_series" where
  "GetMetrics B p entityID window now =
     (if \<not> Has (hp_caps p) CapMetrics then Inl ErrUnsupported
      else (case kb_metrics B of
        Some m \<Rightarrow> (case m (backend p) entityID window of None \<Rightarrow> Inl ErrNotFound | Some s \<Rightarrow> Inr s)
      | None \<Rightarrow>
        (case kb_getDomain B (backend p) entityID of
           Some d \<Rightarrow>
             if normalizeState (dom_State d) \<noteq> StateRunning then Inr \<lparr>EntityID = entityID, Samples = []\<rparr>
             else Inr \<lparr>EntityID = entityID, Samples = fixture_samples window now 30 (\<lambda>i. 8 + i * 7)
                        (of_int (dom_MemoryKB d) * 1024) 1500 1100 4096 8192\<rparr>
         | None \<Rightarrow>
             if kb_getNode B (backend p) entityID = None then Inl ErrNotFound
             else Inr \<lparr>EntityID = entityID, Samples = fixture_samples window now 30 (\<lambda>i. 8 + i * 7)
                        (push_bit 30 4) 1500 1100 4096 8192\<rparr>)))"

text \<open>The events of \<open>streamSnapshotEvents\<close>, each the kind, the entity and the message.\<close>

definition streamSnapshotEvents :: "'b kvm_backend \<Rightarrow> 'b kvm \<Rightarrow> (string \<times> string \<times> string) list" where
  "streamSnapshotEvents B p =
     (let ds = kb_listDomains B (backend p) in
      if ds = [] then [(''alert'', [], ''event stream established (no domains)'')]
      else map (\<lambda>d. let v = normalizeDomain B p d in
             (''vm.state'', vm_ID v, vm_Name v @ '' is '' @ vm_State v)) ds)"

subsection \<open>Optional interfaces\<close>

text \<open>
  The shape of the extension methods: the capability and the extended backend are asked for, the
  domain is looked up when the method has one (\<open>target\<close>), the arguments are checked (\<open>valid\<close>), and the
  backend is called.
\<close>

definition ext_method ::
  "'b kvm_backend \<Rightarrow> 'b kvm \<Rightarrow> caps \<Rightarrow> string option \<Rightarrow> bool \<Rightarrow> ext_call \<Rightarrow> string \<Rightarrow> string \<Rightarrow> int
     \<Rightarrow> 'b kvm \<times> task_result" where
  "ext_method B p cap target valid c kind entity now =
     (if \<not> Has (hp_caps p) cap then (p, Inl ErrUnsupported)
      else (case kb_ext B of None \<Rightarrow> (p, Inl ErrUnsupported)
        | Some e \<Rightarrow>
          if (case target of None \<Rightarrow> False | Some i \<Rightarrow> kb_getDomain B (backend p) i = None)
            then (p, Inl ErrNotFound)
          else if \<not> valid then (p, Inl ErrInvalidSpec)
          else after_call p (ke_call e (backend p) c) (\<lambda>p. done_task p kind entity now)))"

definition ext_read :: "'b kvm_backend \<Rightarrow> 'b kvm \<Rightarrow> caps \<Rightarrow> ('b ext_backend \<Rightarrow> verror + 'a) \<Rightarrow> verror + 'a" where
  "ext_read B p cap k =
     (if \<not> Has (hp_caps p) cap then Inl ErrUnsupported
      else (case kb_ext B of None \<Rightarrow> Inl ErrUnsupported | Some e \<Rightarrow> k e))"

definition Console :: "'b kvm_backend \<Rightarrow> 'b kvm \<Rightarrow> string \<Rightarrow> verror + console_endpoint" where
  "Console B p vmID = ext_read B p CapConsole (\<lambda>e.
     if kb_getDomain B (backend p) vmID = None then Inl ErrNotFound else ke_console e (backend p) vmID)"

definition ListVolumes :: "'b kvm_backend \<Rightarrow> 'b kvm \<Rightarrow> string \<Rightarrow> verror + volume list" where
  "ListVolumes B p storageID = ext_read B p CapListStorage (\<lambda>e. ke_listVolumes e (backend p) storageID)"

definition GuestInfo :: "'b kvm_backend \<Rightarrow> 'b kvm \<Rightarrow> string \<Rightarrow> verror + guest_info" where
  "GuestInfo B p vmID = ext_read B p CapGuestAgent (\<lambda>e.
     if kb_getDomain B (backend p) vmID = None then Inl ErrNotFound else ke_guestInfo e (backend p) vmID)"

definition UploadISO :: "'b kvm_backend \<Rightarrow> 'b kvm \<Rightarrow> string \<Rightarrow> string \<Rightarrow> int \<Rightarrow> int \<Rightarrow> 'b kvm \<times> (verror + volume)" where
  "UploadISO B p storageID name nbytes now =
     (if \<not> Has (hp_caps p) CapStorageWrite then (p, Inl ErrUnsupported)
      else (case kb_ext B of None \<Rightarrow> (p, Inl ErrUnsupported)
        | Some e \<Rightarrow>
          if trim_space name = [] then (p, Inl ErrInvalidSpec)
          else (case ke_uploadISO e (backend p) storageID name nbytes now of
                  (b, res) \<Rightarrow> (p\<lparr>backend := b\<rparr>, res))))"

text \<open>Creating a network or volume and deleting one.\<close>

definition CreateNetwork :: "'b kvm_backend \<Rightarrow> 'b kvm \<Rightarrow> network_spec \<Rightarrow> int \<Rightarrow> 'b kvm \<times> task_result" where
  "CreateNetwork B p spec now = ext_method B p CapNetworkWrite None (trim_space (nw_Name spec) \<noteq> [])
     (CallCreateNetwork spec) ''createNetwork'' (nw_Name spec) now"

definition DeleteNetwork :: "'b kvm_backend \<Rightarrow> 'b kvm \<Rightarrow> string \<Rightarrow> int \<Rightarrow> 'b kvm \<times> task_result" where
  "DeleteNetwork B p networkID now = ext_method B p CapNetworkWrite None True
     (CallDeleteNetwork networkID) ''deleteNetwork'' networkID now"

definition CreateVolume :: "'b kvm_backend \<Rightarrow> 'b kvm \<Rightarrow> volume_spec \<Rightarrow> int \<Rightarrow> 'b kvm \<times> task_result" where
  "CreateVolume B p spec now = ext_method B p CapStorageWrite None
     (trim_space (vo_Name spec) \<noteq> [] \<and> \<not> fle (vo_CapacityGB spec) (Fin 0))
     (CallCreateVolume spec) ''createVolume'' (vo_Name spec) now"

definition DeleteVolume :: "'b kvm_backend \<Rightarrow> 'b kvm \<Rightarrow> string \<Rightarrow> string \<Rightarrow> int \<Rightarrow> 'b kvm \<times> task_result" where
  "DeleteVolume B p storageID volumeID now = ext_method B p CapStorageWrite None True
     (CallDeleteVolume storageID volumeID) ''deleteVolume'' volumeID now"

text \<open>Devices of a running domain.\<close>

definition AttachDisk :: "'b kvm_backend \<Rightarrow> 'b kvm \<Rightarrow> string \<Rightarrow> disk_spec \<Rightarrow> int \<Rightarrow> 'b kvm \<times> task_result" where
  "AttachDisk B p vmID spec now = ext_method B p CapHotPlug (Some vmID)
     (\<not> (ds_SourcePath spec = [] \<and> fle (ds_CapacityGB spec) (Fin 0)))
     (CallAttachDisk vmID spec) ''attachDisk'' vmID now"

definition DetachDisk :: "'b kvm_backend \<Rightarrow> 'b kvm \<Rightarrow> string \<Rightarrow> string \<Rightarrow> int \<Rightarrow> 'b kvm \<times> task_result" where
  "DetachDisk B p vmID diskID now = ext_method B p CapHotPlug (Some vmID) (trim_space diskID \<noteq> [])
     (CallDetachDisk vmID diskID) ''detachDisk'' vmID now"

definition AttachNIC :: "'b kvm_backend \<Rightarrow> 'b kvm \<Rightarrow> string \<Rightarrow> nic_spec \<Rightarrow> int \<Rightarrow> 'b kvm \<times> task_result" where
  "AttachNIC B p vmID spec now = ext_method B p CapHotPlug (Some vmID) (trim_space (ns_NetworkID spec) \<noteq> [])
     (CallAttachNIC vmID spec) ''attachNIC'' vmID now"

definition DetachNIC :: "'b kvm_backend \<Rightarrow> 'b kvm \<Rightarrow> string \<Rightarrow> string \<Rightarrow> int \<Rightarrow> 'b kvm \<times> task_result" where
  "DetachNIC B p vmID nicID now = ext_method B p CapHotPlug (Some vmID) (trim_space nicID \<noteq> [])
     (CallDetachNIC vmID nicID) ''detachNIC'' vmID now"

definition MountISO :: "'b kvm_backend \<Rightarrow> 'b kvm \<Rightarrow> string \<Rightarrow> string \<Rightarrow> int \<Rightarrow> 'b kvm \<times> task_result" where
  "MountISO B p vmID isoPath now = ext_method B p CapHotPlug (Some vmID) (trim_space isoPath \<noteq> [])
     (CallMountISO vmID isoPath) ''mountISO'' vmID now"

definition UnmountISO :: "'b kvm_backend \<Rightarrow> 'b kvm \<Rightarrow> string \<Rightarrow> int \<Rightarrow> 'b kvm \<times> task_result" where
  "UnmountISO B p vmID now = ext_method B p CapHotPlug (Some vmID) True
     (CallUnmountISO vmID) ''unmountISO'' vmID now"

definition DeleteSnapshot :: "'b kvm_backend \<Rightarrow> 'b kvm \<Rightarrow> string \<Rightarrow> string \<Rightarrow> int \<Rightarrow> 'b kvm \<times> task_result" where
  "DeleteSnapshot B p vmID snapID now = ext_method B p CapSnapshot (Some vmID) (trim_space snapID \<noteq> [])
     (CallDeleteSnapshot vmID snapID) ''deleteSnapshot'' vmID now"

definition ResizeDisk :: "'b kvm_backend \<Rightarrow> 'b kvm \<Rightarrow> string \<Rightarrow> string \<Rightarrow> f64 \<Rightarrow> int \<Rightarrow> 'b kvm \<times> task_result" where
  "ResizeDisk B p vmID diskID gb now = ext_method B p CapDiskResize (Some vmID)
     (\<not> (trim_space diskID = [] \<or> fle gb (Fin 0))) (CallResizeDisk vmID diskID gb) ''resizeDisk'' vmID now"

definition SetResources :: "'b kvm_backend \<Rightarrow> 'b kvm \<Rightarrow> string \<Rightarrow> resource_spec \<Rightarrow> int \<Rightarrow> 'b kvm \<times> task_result" where
  "SetResources B p vmID spec now = ext_method B p CapResourceControl (Some vmID) True
     (CallSetResources vmID spec) ''setResources'' vmID now"

definition SetDiskQoS ::
  "'b kvm_backend \<Rightarrow> 'b kvm \<Rightarrow> string \<Rightarrow> string \<Rightarrow> disk_qos \<Rightarrow> int \<Rightarrow> 'b kvm \<times> task_result" where
  "SetDiskQoS B p vmID diskID qos now = ext_method B p CapDiskQoS (Some vmID) (trim_space diskID \<noteq> [])
     (CallSetDiskQoS vmID diskID qos) ''setDiskQoS'' vmID now"

definition MigrateStorage ::
  "'b kvm_backend \<Rightarrow> 'b kvm \<Rightarrow> string \<Rightarrow> string \<Rightarrow> string \<Rightarrow> int \<Rightarrow> 'b kvm \<times> task_result" where
  "MigrateStorage B p vmID diskID targetID now = ext_method B p CapStorageMigrate (Some vmID)
     (\<not> (trim_space diskID = [] \<or> trim_space targetID = []))
     (CallMigrateStorage vmID diskID targetID) ''migrateStorage'' vmID now"

subsection \<open>Host maintenance\<close>

text \<open>The loop over the domains: the provider after it and the numbers of migrated and failed ones.\<close>

primrec evacuate_loop ::
  "'b kvm_backend \<Rightarrow> string \<Rightarrow> string \<Rightarrow> int \<Rightarrow> domain list \<Rightarrow> 'b kvm \<Rightarrow> nat \<Rightarrow> nat \<Rightarrow> 'b kvm \<times> nat \<times> nat" where
  "evacuate_loop B hostID target now [] p m f = (p, m, f)"
| "evacuate_loop B hostID target now (d # ds) p m f =
     (if dom_HostID d \<noteq> hostID \<or> normalizeState (dom_State d) \<noteq> StateRunning
      then evacuate_loop B hostID target now ds p m f
      else (case MigrateVM B p (dom_UUID d) target \<lparr>Live = True, TargetStorage = []\<rparr> now of
              (p', Inl e) \<Rightarrow> evacuate_loop B hostID target now ds p' m (Suc f)
            | (p', Inr t) \<Rightarrow> evacuate_loop B hostID target now ds p' (Suc m) f))"

definition em_dash :: string where "em_dash = [CHR 0xE2, CHR 0x80, CHR 0x94]"

definition EnterMaintenance :: "'b kvm_backend \<Rightarrow> 'b kvm \<Rightarrow> string \<Rightarrow> bool \<Rightarrow> int \<Rightarrow> 'b kvm \<times> task_result" where
  "EnterMaintenance B p hostID evacuate now =
     (if \<not> Has (hp_caps p) CapMaintenance then (p, Inl ErrUnsupported)
      else if kb_getNode B (backend p) hostID = None then (p, Inl ErrNotFound)
      else (case (if \<not> evacuate then (p, ''host marked maintenance (no evacuation requested)'')
             else (let target = (case find (\<lambda>n. kh_ID n \<noteq> hostID) (kb_listNodes B (backend p)) of
                          None \<Rightarrow> [] | Some n \<Rightarrow> kh_ID n)
                   in if target = [] then (p, ''host marked maintenance; no evacuation target (single host) ''
                                              @ em_dash @ '' running VMs left in place'')
                      else (case evacuate_loop B hostID target now (kb_listDomains B (backend p)) p 0 0 of
                              (p', m, f) \<Rightarrow>
                                (p', ''host marked maintenance; evacuated '' @ itoa (int m) @ '' running VM(s) to ''
                                     @ target
                                     @ (if f > 0 then '' ('' @ itoa (int f) @ '' failed to migrate)'' else []))))) of
              (p1, note) \<Rightarrow>
                (case finishTask (p1\<lparr>maint := put (maint p1) hostID True\<rparr>) ''enterMaintenance'' hostID now of
                   (p2, t) \<Rightarrow> (p2, Inr (map_option (\<lambda>t. t\<lparr>task_Message := note\<rparr>) t)))))"

definition ExitMaintenance :: "'b kvm_backend \<Rightarrow> 'b kvm \<Rightarrow> string \<Rightarrow> int \<Rightarrow> 'b kvm \<times> task_result" where
  "ExitMaintenance B p hostID now =
     (if \<not> Has (hp_caps p) CapMaintenance then (p, Inl ErrUnsupported)
      else if kb_getNode B (backend p) hostID = None then (p, Inl ErrNotFound)
      else done_task (p\<lparr>maint := del (maint p) hostID\<rparr>) ''exitMaintenance'' hostID now)"

subsection \<open>The provider behind the seam\<close>

primrec vm_method :: "'b kvm_backend \<Rightarrow> 'b kvm \<Rightarrow> vm_call \<Rightarrow> int \<Rightarrow> 'b kvm \<times> task_result" where
  "vm_method B p (CallPower i op) now = PowerOp B p i op now"
| "vm_method B p (CallCreate spec) now = CreateVM B p spec now"
| "vm_method B p (CallReconfigure i spec) now = ReconfigureVM B p i spec now"
| "vm_method B p (CallDelete i opts) now = DeleteVM B p i opts now"
| "vm_method B p (CallSnapshot i opts) now = Snapshot B p i opts now"
| "vm_method B p (CallRevert i s) now = RevertSnapshot B p i s now"
| "vm_method B p (CallClone i spec) now = Clone B p i spec now"
| "vm_method B p (CallMigrate i h opts) now = MigrateVM B p i h opts now"

primrec ext_method_of :: "'b kvm_backend \<Rightarrow> 'b kvm \<Rightarrow> ext_call \<Rightarrow> int \<Rightarrow> 'b kvm \<times> task_result" where
  "ext_method_of B p (CallCreateNetwork spec) now = CreateNetwork B p spec now"
| "ext_method_of B p (CallDeleteNetwork i) now = DeleteNetwork B p i now"
| "ext_method_of B p (CallCreateVolume spec) now = CreateVolume B p spec now"
| "ext_method_of B p (CallDeleteVolume s v) now = DeleteVolume B p s v now"
| "ext_method_of B p (CallAttachDisk i d) now = AttachDisk B p i d now"
| "ext_method_of B p (CallDetachDisk i d) now = DetachDisk B p i d now"
| "ext_method_of B p (CallAttachNIC i n) now = AttachNIC B p i n now"
| "ext_method_of B p (CallDetachNIC i n) now = DetachNIC B p i n now"
| "ext_method_of B p (CallMountISO i f) now = MountISO B p i f now"
| "ext_method_of B p (CallUnmountISO i) now = UnmountISO B p i now"
| "ext_method_of B p (CallDeleteSnapshot i s) now = DeleteSnapshot B p i s now"
| "ext_method_of B p (CallResizeDisk i d g) now = ResizeDisk B p i d g now"
| "ext_method_of B p (CallMarkTemplate i t) now = MarkTemplate B p i t now"
| "ext_method_of B p (CallSetResources i r) now = SetResources B p i r now"
| "ext_method_of B p (CallSetDiskQoS i d q) now = SetDiskQoS B p i d q now"
| "ext_method_of B p (CallMigrateStorage i d t) now = MigrateStorage B p i d t now"
| "ext_method_of B p (CallEnterMaintenance h e) now = EnterMaintenance B p h e now"
| "ext_method_of B p (CallExitMaintenance h) now = ExitMaintenance B p h now"

text \<open>The type implements every optional interface.\<close>

definition kvm_hv :: "'b kvm_backend \<Rightarrow> 'b kvm vm_hv" where
  "kvm_hv B = \<lparr>vp_Kind = hp_kind, vp_Capabilities = hp_caps, vp_ListVMs = ListVMs B, vp_GetVM = GetVM B,
     vp_ListSnapshots = ListSnapshots B, vp_GetMetrics = GetMetrics B, vp_ListHosts = ListHosts B,
     vp_ListStorage = ListStorage B, vp_ListNetworks = ListNetworks B, vp_ListClusters = ListClusters B,
     vp_GetClusterTopology = GetClusterTopology B, vp_call = vm_method B, vp_implements = (\<lambda>_ _. True),
     vp_ext = ext_method_of B, vp_Console = Console B, vp_ListVolumes = ListVolumes B,
     vp_UploadISO = UploadISO B, vp_GuestInfo = GuestInfo B\<rparr>"

end
