(* ===== verification/Kvm_Sim.thy ===== *)
theory Kvm_Sim
  imports Kvm
begin

text \<open>
  The in-memory backend of the KVM provider, \<open>server/internal/vprovider/kvm/sim_backend.go\<close>. It is
  neither an extended backend nor one with metrics. Its maps are association lists in the order of
  the iteration.
\<close>

record sim_backend = "domain mem" +
  sb_nodes :: "(string \<times> kvm_node) list"
  sb_pools :: "kvm_pool list"
  sb_nets :: "kvm_net list"

definition seed_node :: "string \<Rightarrow> string \<Rightarrow> int \<Rightarrow> kvm_node" where
  "seed_node i name used = \<lparr>kh_ID = i, kh_Name = name, kh_Online = True, kh_CPUs = 32, kh_MHz = 3400,
     kh_MemoryKB = 134217728, kh_UsedKB = used, kh_Version = ''QEMU-8.2.0/libvirt-10.0.0''\<rparr>"

definition seed_domain :: "nat \<Rightarrow> int \<Rightarrow> string \<Rightarrow> domain" where
  "seed_domain i st host = (let n = itoa (int i + 1); uuid = ''dom-seed-'' @ n in
     \<lparr>dom_UUID = uuid, dom_Name = ''kvm-vm-'' @ n, dom_State = st, dom_HostID = host, dom_VCPUs = 2,
      dom_MemoryKB = 4194304, dom_OSType = ''linux'', dom_Firmware = ''uefi'', dom_TPM = False,
      dom_SecureBoot = False,
      dom_Disks = [\<lparr>kd_Target = ''vda'', kd_Driver = ''qcow2'',
        kd_Source = ''/var/lib/libvirt/images/'' @ uuid @ ''.qcow2'', kd_Pool = ''pool-default'',
        kd_CapBytes = 40 * bytesPerGB, kd_QoS = None, kd_Provisioning = [], kd_Discard = False\<rparr>],
      dom_NICs = [\<lparr>kn_MAC = ''52:54:00:00:00:0'' @ n, kn_Network = ''net-default'', kn_Model = ''virtio'',
        kn_Link = True\<rparr>],
      dom_IPs = [''192.168.122.1'' @ n], dom_Labels = [], dom_Created = 1700000000, dom_BootISO = [],
      dom_CloudInit = None, dom_SeedISO = [], dom_CPU = None, dom_IsTemplate = False, dom_Sysprep = None,
      dom_SysprepISO = [], dom_Resources = None\<rparr>)"

definition seed_domains :: "domain list" where
  "seed_domains = [seed_domain 0 domRunning ''node-1'', seed_domain 1 domRunning ''node-1'',
                   seed_domain 2 domShutoff ''node-2'']"

definition newSimBackend :: sim_backend where
  "newSimBackend = \<lparr>mem_closed = False, mem_vms = map (\<lambda>d. (dom_UUID d, d)) seed_domains,
     mem_snapshots = [], mem_order = map dom_UUID seed_domains,
     sb_nodes = [(''node-1'', seed_node ''node-1'' ''kvm-node-1'' 33554432),
                 (''node-2'', seed_node ''node-2'' ''kvm-node-2'' 16777216)],
     sb_pools = [\<lparr>kp_UUID = ''pool-default'', kp_Name = ''default'', kp_Type = ''dir'',
       kp_CapBytes = 4096 * bytesPerGB, kp_AvailBytes = 3072 * bytesPerGB, kp_Active = True,
       kp_Hosts = [''node-1'', ''node-2'']\<rparr>],
     sb_nets = [\<lparr>kt_UUID = ''net-default'', kt_Name = ''default'', kt_Mode = ''nat'', kt_VLAN = 0\<rparr>]\<rparr>"

definition defineDomain :: "sim_backend \<Rightarrow> domain \<Rightarrow> sim_backend \<times> (verror + string)" where
  "defineDomain b d = (mem_define b (dom_UUID d) d, Inr (dom_UUID d))"

definition undefineDomain :: "sim_backend \<Rightarrow> string \<Rightarrow> sim_backend \<times> verror option" where
  "undefineDomain b i = (mem_remove b i, None)"

definition setDomainState :: "sim_backend \<Rightarrow> string \<Rightarrow> int \<Rightarrow> sim_backend \<times> verror option" where
  "setDomainState b i s = (mem_write b i (\<lambda>d. d\<lparr>dom_State := s\<rparr>), None)"

definition reconfigureDomain ::
  "sim_backend \<Rightarrow> string \<Rightarrow> int option \<Rightarrow> int option \<Rightarrow> sim_backend \<times> verror option" where
  "reconfigureDomain b i vcpus memMB =
     (if mem_get b i = None then (b, Some ErrNotFound)
      else (mem_write b i (\<lambda>d. d\<lparr>dom_VCPUs := (case vcpus of None \<Rightarrow> dom_VCPUs d | Some n \<Rightarrow> n),
              dom_MemoryKB := (case memMB of None \<Rightarrow> dom_MemoryKB d | Some m \<Rightarrow> wrap64 (m * 1024))\<rparr>), None))"

definition markTemplate :: "sim_backend \<Rightarrow> string \<Rightarrow> bool \<Rightarrow> sim_backend \<times> verror option" where
  "markTemplate b i t =
     (if mem_get b i = None then (b, Some ErrNotFound)
      else (mem_write b i (\<lambda>d. d\<lparr>dom_IsTemplate := t,
              dom_Labels := (if t then put (dom_Labels d) labelTemplate ''true''
                             else del (dom_Labels d) labelTemplate)\<rparr>), None))"

definition domainsOnHost :: "sim_backend \<Rightarrow> string \<Rightarrow> int" where
  "domainsOnHost b h = mem_count (\<lambda>d. dom_HostID d = h) b"

text \<open>The last snapshot that is current becomes the parent.\<close>

definition createSnapshot ::
  "sim_backend \<Rightarrow> string \<Rightarrow> snapshot \<Rightarrow> snapshot_options \<Rightarrow> sim_backend \<times> verror option" where
  "createSnapshot b i s opts =
     (let par = fold (\<lambda>x acc. if IsCurrent x then snap_ID x else acc) (mem_snaps b i) (snap_ParentID s)
      in (mem_push_snap b i (s\<lparr>snap_ParentID := par, HasMemory := so_Memory opts\<rparr>), None))"

definition setCurrentSnapshot :: "sim_backend \<Rightarrow> string \<Rightarrow> string \<Rightarrow> sim_backend \<times> (verror + bool)" where
  "setCurrentSnapshot b i k = (case mem_mark_snap b i k of (b', found) \<Rightarrow> (b', Inr found))"

definition simBackend :: "sim_backend kvm_backend" where
  "simBackend = \<lparr>kb_version = (\<lambda>_. ''QEMU-8.2.0/libvirt-10.0.0''), kb_healthy = (\<lambda>b. \<not> mem_closed b),
     kb_close = (\<lambda>b. b\<lparr>mem_closed := True\<rparr>), kb_listNodes = (\<lambda>b. map snd (sb_nodes b)),
     kb_getNode = (\<lambda>b. map_of (sb_nodes b)), kb_listDomains = mem_list, kb_getDomain = mem_get,
     kb_write = mem_write, kb_listPools = sb_pools, kb_listNets = sb_nets,
     kb_defineDomain = defineDomain, kb_undefineDomain = undefineDomain,
     kb_setDomainState = setDomainState, kb_reconfigureDomain = reconfigureDomain,
     kb_domainsOnHost = domainsOnHost, kb_markTemplate = markTemplate,
     kb_listSnapshots = mem_snaps, kb_createSnapshot = createSnapshot,
     kb_setCurrentSnapshot = setCurrentSnapshot, kb_hostIDs = (\<lambda>b. map fst (sb_nodes b)),
     kb_clusterName = (\<lambda>_. ''kvm-lab''), kb_ext = None, kb_metrics = None\<rparr>"

definition sim_kvm :: "string \<Rightarrow> sim_backend kvm" where
  "sim_kvm i = New i FullCaps newSimBackend"

end
