(* ===== verification/Xen.thy ===== *)
theory Xen
  imports Hv_Seam Json
begin

text \<open>
  The Xen provider, \<open>server/internal/vprovider/xen\<close>: \<open>xen.go\<close>, the normalization of \<open>xapi.go\<close> and the
  in-memory backend (\<open>sim_backend.go\<close>). As for KVM, a backend is a record of functions over its state
  and \<open>xb_writeVM\<close> is a write through the pointer that \<open>getVM\<close> answers. The calls of this backend
  answer no errors.
\<close>

subsection \<open>The data of XAPI\<close>

definition psHalted :: string where "psHalted = ''Halted''"
definition psRunning :: string where "psRunning = ''Running''"
definition psSuspended :: string where "psSuspended = ''Suspended''"
definition psPaused :: string where "psPaused = ''Paused''"

definition normalizeState :: "string \<Rightarrow> string" where
  "normalizeState s =
     (if s = psRunning then StateRunning
      else if s = psHalted then StateStopped
      else if s = psSuspended then StateSuspended
      else if s = psPaused then ''paused''
      else ''unknown'')"

record xen_vbd =
  xv_Ref :: string
  xv_Device :: string
  xv_VDIRef :: string
  xv_SRRef :: string
  xv_VirtualB :: int
  xv_Path :: string

record xen_vif =
  xf_Ref :: string
  xf_MAC :: string
  xf_NetworkRef :: string
  xf_Model :: string
  xf_Attached :: bool

record xen_vm =
  xm_Ref :: string
  xm_UUID :: string
  xm_NameLabel :: string
  xm_PowerState :: string
  xm_ResidentOn :: string
  xm_VCPUsMax :: int
  xm_MemoryB :: int
  xm_OSDistro :: string
  xm_HVM :: bool
  xm_UEFI :: bool
  xm_VBDs :: "xen_vbd list"
  xm_VIFs :: "xen_vif list"
  xm_IPs :: "string list"
  xm_Labels :: "(string \<times> string) list"
  xm_Created :: int
  xm_IsControl :: bool

record xen_host =
  xh_Ref :: string
  xh_UUID :: string
  xh_NameLabel :: string
  xh_Enabled :: bool
  xh_Live :: bool
  xh_CPUCount :: int
  xh_CPUMHz :: int
  xh_MemoryTotB :: int
  xh_MemoryFreB :: int
  xh_Version :: string

record xen_pool =
  xp_Ref :: string
  xp_UUID :: string
  xp_NameLabel :: string
  xp_MasterRef :: string
  xp_HostRefs :: "string list"
  xp_HAEnabled :: bool

record xen_sr =
  xs_Ref :: string
  xs_UUID :: string
  xs_NameLabel :: string
  xs_Type :: string
  xs_PhysSizeB :: int
  xs_PhysUtilB :: int
  xs_HostRefs :: "string list"
  xs_Shared :: bool
  xs_Accessible :: bool

record xen_network =
  xn_Ref :: string
  xn_UUID :: string
  xn_NameLabel :: string
  xn_Bridge :: string
  xn_VLAN :: int

subsection \<open>Backends\<close>

text \<open>\<open>xb_exportStream\<close> is the export of the live backend, by the UUID of the machine.\<close>

record 'b xapi_backend =
  xb_version :: "'b \<Rightarrow> string"
  xb_healthy :: "'b \<Rightarrow> bool"
  xb_close :: "'b \<Rightarrow> 'b"
  xb_listHosts :: "'b \<Rightarrow> xen_host list"
  xb_getHost :: "'b \<Rightarrow> string \<Rightarrow> xen_host option"
  xb_listVMs :: "'b \<Rightarrow> xen_vm list"
  xb_getVM :: "'b \<Rightarrow> string \<Rightarrow> xen_vm option"
  xb_writeVM :: "'b \<Rightarrow> string \<Rightarrow> (xen_vm \<Rightarrow> xen_vm) \<Rightarrow> 'b"
  xb_listSRs :: "'b \<Rightarrow> xen_sr list"
  xb_listNetworks :: "'b \<Rightarrow> xen_network list"
  xb_createVM :: "'b \<Rightarrow> xen_vm \<Rightarrow> 'b"
  xb_destroyVM :: "'b \<Rightarrow> string \<Rightarrow> 'b"
  xb_setPowerState :: "'b \<Rightarrow> string \<Rightarrow> string \<Rightarrow> 'b"
  xb_vmsOnHost :: "'b \<Rightarrow> string \<Rightarrow> int"
  xb_listSnapshots :: "'b \<Rightarrow> string \<Rightarrow> snapshot list"
  xb_createSnapshot :: "'b \<Rightarrow> string \<Rightarrow> snapshot \<Rightarrow> 'b"
  xb_setCurrentSnapshot :: "'b \<Rightarrow> string \<Rightarrow> string \<Rightarrow> 'b \<times> bool"
  xb_pool :: "'b \<Rightarrow> xen_pool option"
  xb_exportStream :: "('b \<Rightarrow> string \<Rightarrow> verror + (string \<times> int)) option"

subsection \<open>The provider\<close>

record 'b xen = prov +
  backend :: 'b

text \<open>\<open>New\<close> with the options \<open>WithCaps\<close>, \<open>WithKind\<close> and \<open>WithBackend\<close>; the cluster is the pool.\<close>

definition New :: "'b xapi_backend \<Rightarrow> string \<Rightarrow> string \<Rightarrow> caps \<Rightarrow> 'b \<Rightarrow> 'b xen" where
  "New B i kind caps b = \<lparr>hp_id = i, hp_kind = kind, hp_caps = caps,
     hp_clusterID = (case xb_pool B b of None \<Rightarrow> [] | Some l \<Rightarrow> xp_Ref l),
     hp_tracker = [], hp_seq = 0, hp_closed = False, backend = b\<rparr>"

definition newRef :: "'x prov_scheme \<Rightarrow> string \<Rightarrow> 'x prov_scheme \<times> string" where
  "newRef p kind = (case next_seq p of (p1, n) \<Rightarrow> (p1, ''OpaqueRef:'' @ kind @ ''-'' @ itoa n))"

definition FullCaps :: caps where
  "FullCaps = fold (OR)
    [CapListHosts, CapListVMs, CapGetVM, CapListClusters, CapListStorage, CapListNetworks,
     CapCreateVM, CapPowerStart, CapPowerStop, CapPowerReset, CapPowerSuspend, CapDeleteVM,
     CapReconfigureVM, CapSnapshot, CapRevertSnapshot, CapClone, CapMigrate, CapExport,
     CapClusterTopology, CapNodeState, CapMetrics, CapEvents] 0"

definition write_vm :: "'b xapi_backend \<Rightarrow> 'b xen \<Rightarrow> string \<Rightarrow> (xen_vm \<Rightarrow> xen_vm) \<Rightarrow> 'b xen" where
  "write_vm B p i f = p\<lparr>backend := xb_writeVM B (backend p) i f\<rparr>"

subsection \<open>Normalization\<close>

definition normalizeFirmware :: "xen_vm \<Rightarrow> string" where
  "normalizeFirmware v = (if xm_UEFI v then ''uefi'' else ''bios'')"

definition normalizeVM :: "'b xapi_backend \<Rightarrow> 'b xen \<Rightarrow> xen_vm \<Rightarrow> vm" where
  "normalizeVM B p v =
     \<lparr>vm_ID = xm_Ref v, vm_Name = xm_NameLabel v, vm_Kind = hp_kind p, vm_ProviderID = hp_id p,
      vm_HostID = xm_ResidentOn v, vm_ClusterID = hp_clusterID p,
      vm_State = normalizeState (xm_PowerState v), vm_StateRaw = xm_PowerState v,
      vm_VCPUs = xm_VCPUsMax v, vm_MemoryMB = go_div (xm_MemoryB v) (2 ^ 20),
      vm_GuestOS = xm_OSDistro v, vm_Firmware = normalizeFirmware v,
      vm_Disks = map (\<lambda>d. \<lparr>dk_ID = xv_Ref d, dk_Label = xv_Device d, dk_Format = ''raw'',
          dk_CapacityGB = gb_of_bytes (xv_VirtualB d), dk_StorageID = xv_SRRef d, dk_Path = xv_Path d\<rparr>) (xm_VBDs v),
      vm_NICs = map (\<lambda>n. \<lparr>nic_ID = xf_Ref n, nic_MAC = xf_MAC n, nic_NetworkID = xf_NetworkRef n,
          nic_Model = xf_Model n, nic_Connected = xf_Attached n\<rparr>) (xm_VIFs v),
      vm_IPAddresses = xm_IPs v, vm_Labels = xm_Labels v,
      vm_SnapshotCount = int (length (xb_listSnapshots B (backend p) (xm_Ref v))),
      vm_CreatedAt = (if xm_Created v > 0 then Some (xm_Created v * second) else None),
      vm_Protected = xm_IsControl v\<rparr>"

definition normalizeHost :: "'b xapi_backend \<Rightarrow> 'b xen \<Rightarrow> xen_host \<Rightarrow> vhost" where
  "normalizeHost B p h = \<lparr>host_ID = xh_Ref h, host_Name = xh_NameLabel h, host_Kind = hp_kind p,
     host_ProviderID = hp_id p, host_ClusterID = hp_clusterID p,
     host_State = (if \<not> xh_Live h then ''down'' else if \<not> xh_Enabled h then ''maintenance'' else ''up''),
     CPUCores = xh_CPUCount h, CPUMHz = xh_CPUMHz h, MemoryMB = go_div (xh_MemoryTotB h) (2 ^ 20),
     MemUsedMB = go_div (wrap64 (xh_MemoryTotB h - xh_MemoryFreB h)) (2 ^ 20),
     host_VMCount = xb_vmsOnHost B (backend p) (xh_Ref h), host_Version = xh_Version h, host_Labels = []\<rparr>"

definition normalizeSR :: "'b xen \<Rightarrow> xen_sr \<Rightarrow> storage_pool" where
  "normalizeSR p s = \<lparr>sp_ID = xs_Ref s, sp_Name = xs_NameLabel s, sp_Kind = hp_kind p, sp_ProviderID = hp_id p,
     sp_Type = xs_Type s, CapacityGB = gb_of_bytes (xs_PhysSizeB s),
     FreeGB = gb_of_bytes (wrap64 (xs_PhysSizeB s - xs_PhysUtilB s)), sp_HostIDs = xs_HostRefs s,
     Accessible = xs_Accessible s\<rparr>"

definition normalizeNetwork :: "'b xen \<Rightarrow> xen_network \<Rightarrow> network" where
  "normalizeNetwork p n = \<lparr>net_ID = xn_Ref n, net_Name = xn_NameLabel n, net_Kind = hp_kind p,
     net_ProviderID = hp_id p, net_Type = (if xn_VLAN n > 0 then ''vlan'' else ''bridge''), net_VLAN = xn_VLAN n\<rparr>"

subsection \<open>Health and inventory\<close>

definition HealthCheck :: "'b xapi_backend \<Rightarrow> 'b xen \<Rightarrow> int \<Rightarrow> health_status" where
  "HealthCheck B p now =
     (if hp_closed p \<or> \<not> xb_healthy B (backend p)
      then \<lparr>Healthy = False, hs_Message = ''XAPI session unavailable'', hs_Version = [], CheckedAt = now\<rparr>
      else \<lparr>Healthy = True, hs_Message = [], hs_Version = xb_version B (backend p), CheckedAt = now\<rparr>)"

definition Close :: "'b xapi_backend \<Rightarrow> 'b xen \<Rightarrow> 'b xen" where
  "Close B p = (if hp_closed p then p else p\<lparr>hp_closed := True, backend := xb_close B (backend p)\<rparr>)"

definition ListHosts :: "'b xapi_backend \<Rightarrow> 'b xen \<Rightarrow> verror + vhost list" where
  "ListHosts B p = (if \<not> Has (hp_caps p) CapListHosts then Inl ErrUnsupported
     else Inr (map (normalizeHost B p) (xb_listHosts B (backend p))))"

definition ListVMs :: "'b xapi_backend \<Rightarrow> 'b xen \<Rightarrow> list_options \<Rightarrow> verror + vm list" where
  "ListVMs B p opts = (if \<not> Has (hp_caps p) CapListVMs then Inl ErrUnsupported
     else Inr (filter (vm_listed opts) (map (normalizeVM B p) (xb_listVMs B (backend p)))))"

definition GetVM :: "'b xapi_backend \<Rightarrow> 'b xen \<Rightarrow> string \<Rightarrow> verror + vm_detail" where
  "GetVM B p i = (if \<not> Has (hp_caps p) CapGetVM then Inl ErrUnsupported
     else (case xb_getVM B (backend p) i of None \<Rightarrow> Inl ErrNotFound
       | Some v \<Rightarrow> Inr \<lparr>detail_VM = normalizeVM B p v,
           Raw = json_enc (JObj [(''HVM'', JBool (xm_HVM v)), (''VCPUs_max'', JNum (xm_VCPUsMax v)),
             (''is_control_domain'', JBool (xm_IsControl v)), (''memory_static_max'', JNum (xm_MemoryB v)),
             (''name_label'', JStr (xm_NameLabel v)), (''power_state'', JStr (xm_PowerState v)),
             (''ref'', JStr (xm_Ref v)), (''resident_on'', JStr (xm_ResidentOn v)),
             (''uuid'', JStr (xm_UUID v))])\<rparr>))"

definition ListClusters :: "'b xapi_backend \<Rightarrow> 'b xen \<Rightarrow> verror + cluster list" where
  "ListClusters B p = (if \<not> Has (hp_caps p) CapListClusters then Inl ErrUnsupported
     else (case xb_pool B (backend p) of None \<Rightarrow> Inr []
       | Some l \<Rightarrow> Inr [\<lparr>cl_ID = xp_Ref l, cl_Name = xp_NameLabel l, cl_Kind = hp_kind p,
           cl_ProviderID = hp_id p, cl_HostIDs = xp_HostRefs l, HAEnabled = xp_HAEnabled l, DRSEnabled = False\<rparr>]))"

definition ListStorage :: "'b xapi_backend \<Rightarrow> 'b xen \<Rightarrow> verror + storage_pool list" where
  "ListStorage B p = (if \<not> Has (hp_caps p) CapListStorage then Inl ErrUnsupported
     else Inr (map (normalizeSR p) (xb_listSRs B (backend p))))"

definition ListNetworks :: "'b xapi_backend \<Rightarrow> 'b xen \<Rightarrow> verror + network list" where
  "ListNetworks B p = (if \<not> Has (hp_caps p) CapListNetworks then Inl ErrUnsupported
     else Inr (map (normalizeNetwork p) (xb_listNetworks B (backend p))))"

subsection \<open>Lifecycle\<close>

text \<open>The device number \<open>n\<close> of a machine.\<close>

definition spec_vbd :: "string \<Rightarrow> nat \<Rightarrow> disk_spec \<Rightarrow> xen_vbd" where
  "spec_vbd ref n d = \<lparr>xv_Ref = ref @ ''-vbd'' @ itoa (int n), xv_Device = itoa (int n),
     xv_VDIRef = ref @ ''-vdi'' @ itoa (int n), xv_SRRef = ds_StorageID d,
     xv_VirtualB = bytes_of_gb (ds_CapacityGB d), xv_Path = ds_SourcePath d\<rparr>"

definition spec_vif :: "string \<Rightarrow> nat \<Rightarrow> nic_spec \<Rightarrow> xen_vif" where
  "spec_vif ref n s = \<lparr>xf_Ref = ref @ ''-vif'' @ itoa (int n), xf_MAC = ns_MAC s,
     xf_NetworkRef = ns_NetworkID s, xf_Model = ns_Model s, xf_Attached = True\<rparr>"

definition spec_vm :: "vm_spec \<Rightarrow> string \<Rightarrow> string \<Rightarrow> int \<Rightarrow> xen_vm" where
  "spec_vm spec ref uuid now =
     \<lparr>xm_Ref = ref, xm_UUID = uuid, xm_NameLabel = vs_Name spec, xm_PowerState = psHalted,
      xm_ResidentOn = vs_HostID spec, xm_VCPUsMax = vs_VCPUs spec,
      xm_MemoryB = wrap64 (vs_MemoryMB spec * 2 ^ 20), xm_OSDistro = vs_GuestOS spec, xm_HVM = True,
      xm_UEFI = (vs_Firmware spec = ''uefi''),
      xm_VBDs = map (\<lambda>(i, d). spec_vbd ref i d) (enumerate 0 (vs_Disks spec)),
      xm_VIFs = map (\<lambda>(i, n). spec_vif ref i n) (enumerate 0 (vs_NICs spec)),
      xm_IPs = [], xm_Labels = vs_Labels spec, xm_Created = now div second, xm_IsControl = False\<rparr>"

definition CreateVM :: "'b xapi_backend \<Rightarrow> 'b xen \<Rightarrow> vm_spec \<Rightarrow> int \<Rightarrow> 'b xen \<times> task_result" where
  "CreateVM B p spec now =
     (if \<not> Has (hp_caps p) CapCreateVM then (p, Inl ErrUnsupported)
      else if trim_space (vs_Name spec) = [] \<or> vs_VCPUs spec \<le> 0 \<or> vs_MemoryMB spec \<le> 0
        then (p, Inl ErrInvalidSpec)
      else (case newRef p ''VM'' of (p1, ref) \<Rightarrow> (case nextID p1 ''uuid'' of (p2, uuid) \<Rightarrow>
        done_task (p2\<lparr>backend := xb_createVM B (backend p2) (spec_vm spec ref uuid now)\<rparr>) ''createVM'' ref now)))"

definition power_target :: "string \<Rightarrow> string option" where
  "power_target op =
     (if op = ''start'' \<or> op = ''resume'' \<or> op = ''reset'' then Some psRunning
      else if op = ''stop'' then Some psHalted
      else if op = ''suspend'' then Some psSuspended else None)"

definition PowerOp :: "'b xapi_backend \<Rightarrow> 'b xen \<Rightarrow> string \<Rightarrow> string \<Rightarrow> int \<Rightarrow> 'b xen \<times> task_result" where
  "PowerOp B p vmID op now =
     (if \<not> PowerOp_Valid op then (p, Inl ErrInvalidSpec)
      else if \<not> Has (hp_caps p) (PowerOpCapability op) then (p, Inl ErrUnsupported)
      else if xb_getVM B (backend p) vmID = None then (p, Inl ErrNotFound)
      else done_task (case power_target op of None \<Rightarrow> p
             | Some s \<Rightarrow> p\<lparr>backend := xb_setPowerState B (backend p) vmID s\<rparr>) ''powerOp'' vmID now)"

definition DeleteVM :: "'b xapi_backend \<Rightarrow> 'b xen \<Rightarrow> string \<Rightarrow> delete_options \<Rightarrow> int \<Rightarrow> 'b xen \<times> task_result" where
  "DeleteVM B p vmID opts now =
     (if \<not> Has (hp_caps p) CapDeleteVM then (p, Inl ErrUnsupported)
      else (case xb_getVM B (backend p) vmID of None \<Rightarrow> (p, Inl ErrNotFound)
        | Some v \<Rightarrow>
          if xm_IsControl v then (p, Inl ErrConflict)
          else if normalizeState (xm_PowerState v) = StateRunning \<and> \<not> Force opts then (p, Inl ErrConflict)
          else (let b = (if normalizeState (xm_PowerState v) = StateRunning \<and> Force opts
                         then xb_setPowerState B (backend p) vmID psHalted else backend p)
                in done_task (p\<lparr>backend := xb_destroyVM B b vmID\<rparr>) ''deleteVM'' vmID now)))"

text \<open>The number of an added device counts the devices there are and its index in the request.\<close>

primrec append_vbds :: "string \<Rightarrow> nat \<Rightarrow> disk_spec list \<Rightarrow> xen_vbd list \<Rightarrow> xen_vbd list" where
  "append_vbds ref i [] ds = ds"
| "append_vbds ref i (s # ss) ds = append_vbds ref (Suc i) ss (ds @ [spec_vbd ref (length ds + i) s])"

primrec append_vifs :: "string \<Rightarrow> nat \<Rightarrow> nic_spec list \<Rightarrow> xen_vif list \<Rightarrow> xen_vif list" where
  "append_vifs ref i [] ns = ns"
| "append_vifs ref i (s # ss) ns = append_vifs ref (Suc i) ss (ns @ [spec_vif ref (length ns + i) s])"

definition with_devices :: "reconfigure_spec \<Rightarrow> xen_vm \<Rightarrow> xen_vm" where
  "with_devices spec v = v\<lparr>xm_VBDs := append_vbds (xm_Ref v) 0 (AddDisks spec) (xm_VBDs v),
     xm_VIFs := append_vifs (xm_Ref v) 0 (AddNICs spec) (xm_VIFs v),
     xm_Labels := put_all (xm_Labels v) (rs_Labels spec)\<rparr>"

text \<open>The number of processors is written before the memory is checked.\<close>

definition ReconfigureVM ::
  "'b xapi_backend \<Rightarrow> 'b xen \<Rightarrow> string \<Rightarrow> reconfigure_spec \<Rightarrow> int \<Rightarrow> 'b xen \<times> task_result" where
  "ReconfigureVM B p vmID spec now =
     (if \<not> Has (hp_caps p) CapReconfigureVM then (p, Inl ErrUnsupported)
      else if xb_getVM B (backend p) vmID = None then (p, Inl ErrNotFound)
      else if (case rs_VCPUs spec of None \<Rightarrow> False | Some n \<Rightarrow> n \<le> 0) then (p, Inl ErrInvalidSpec)
      else (let p1 = (case rs_VCPUs spec of None \<Rightarrow> p
                      | Some n \<Rightarrow> write_vm B p vmID (\<lambda>v. v\<lparr>xm_VCPUsMax := n\<rparr>))
            in if (case rs_MemoryMB spec of None \<Rightarrow> False | Some m \<Rightarrow> m \<le> 0) then (p1, Inl ErrInvalidSpec)
               else (let p2 = (case rs_MemoryMB spec of None \<Rightarrow> p1
                        | Some m \<Rightarrow> write_vm B p1 vmID (\<lambda>v. v\<lparr>xm_MemoryB := wrap64 (m * 2 ^ 20)\<rparr>))
                     in done_task (write_vm B p2 vmID (with_devices spec)) ''reconfigureVM'' vmID now)))"

subsection \<open>Snapshots and clones\<close>

definition Snapshot :: "'b xapi_backend \<Rightarrow> 'b xen \<Rightarrow> string \<Rightarrow> snapshot_options \<Rightarrow> int \<Rightarrow> 'b xen \<times> task_result" where
  "Snapshot B p vmID opts now =
     (if \<not> Has (hp_caps p) CapSnapshot then (p, Inl ErrUnsupported)
      else if xb_getVM B (backend p) vmID = None then (p, Inl ErrNotFound)
      else (case newRef p ''VM'' of (p1, i) \<Rightarrow>
        done_task (p1\<lparr>backend := xb_createSnapshot B (backend p1) vmID
          \<lparr>snap_ID = i, snap_VMID = vmID, snap_Name = so_Name opts, snap_Description = so_Description opts,
           snap_ParentID = [], HasMemory = so_Memory opts, IsCurrent = True, snap_CreatedAt = Some now\<rparr>\<rparr>)
          ''snapshot'' vmID now))"

definition RevertSnapshot :: "'b xapi_backend \<Rightarrow> 'b xen \<Rightarrow> string \<Rightarrow> string \<Rightarrow> int \<Rightarrow> 'b xen \<times> task_result" where
  "RevertSnapshot B p vmID snapID now =
     (if \<not> Has (hp_caps p) CapRevertSnapshot then (p, Inl ErrUnsupported)
      else if xb_getVM B (backend p) vmID = None then (p, Inl ErrNotFound)
      else (case xb_setCurrentSnapshot B (backend p) vmID snapID of (b, found) \<Rightarrow>
              if \<not> found then (p\<lparr>backend := b\<rparr>, Inl ErrNotFound)
              else done_task (p\<lparr>backend := b\<rparr>) ''revertSnapshot'' vmID now))"

definition ListSnapshots :: "'b xapi_backend \<Rightarrow> 'b xen \<Rightarrow> string \<Rightarrow> verror + snapshot list" where
  "ListSnapshots B p vmID =
     (if \<not> Has (hp_caps p) CapSnapshot then Inl ErrUnsupported
      else if xb_getVM B (backend p) vmID = None then Inl ErrNotFound
      else Inr (xb_listSnapshots B (backend p) vmID))"

definition cloned :: "xen_vm \<Rightarrow> clone_spec \<Rightarrow> string \<Rightarrow> string \<Rightarrow> xen_vm" where
  "cloned src spec ref uuid = src\<lparr>xm_Ref := ref, xm_UUID := uuid, xm_NameLabel := cs_Name spec,
     xm_IsControl := False, xm_PowerState := (if PowerOn spec then psRunning else psHalted),
     xm_ResidentOn := (if cs_HostID spec \<noteq> [] then cs_HostID spec else xm_ResidentOn src)\<rparr>"

definition Clone :: "'b xapi_backend \<Rightarrow> 'b xen \<Rightarrow> string \<Rightarrow> clone_spec \<Rightarrow> int \<Rightarrow> 'b xen \<times> task_result" where
  "Clone B p vmID spec now =
     (if \<not> Has (hp_caps p) CapClone then (p, Inl ErrUnsupported)
      else (case xb_getVM B (backend p) vmID of None \<Rightarrow> (p, Inl ErrNotFound)
        | Some src \<Rightarrow>
          if trim_space (cs_Name spec) = [] then (p, Inl ErrInvalidSpec)
          else (case newRef p ''VM'' of (p1, ref) \<Rightarrow> (case nextID p1 ''uuid'' of (p2, uuid) \<Rightarrow>
            done_task (p2\<lparr>backend := xb_createVM B (backend p2) (cloned src spec ref uuid)\<rparr>) ''clone'' ref now))))"

subsection \<open>Migration between hosts, export\<close>

definition MigrateVM ::
  "'b xapi_backend \<Rightarrow> 'b xen \<Rightarrow> string \<Rightarrow> string \<Rightarrow> migrate_options \<Rightarrow> int \<Rightarrow> 'b xen \<times> task_result" where
  "MigrateVM B p vmID targetHost opts now =
     (if \<not> Has (hp_caps p) CapMigrate then (p, Inl ErrUnsupported)
      else if xb_getVM B (backend p) vmID = None then (p, Inl ErrNotFound)
      else if xb_getHost B (backend p) targetHost = None then (p, Inl ErrInvalidSpec)
      else done_task (write_vm B p vmID (\<lambda>v. v\<lparr>xm_ResidentOn := targetHost\<rparr>)) ''migrate'' vmID now)"

definition ExportVM :: "'b xapi_backend \<Rightarrow> 'b xen \<Rightarrow> string \<Rightarrow> string \<Rightarrow> verror + (string \<times> export_info)" where
  "ExportVM B p vmID format =
     (if \<not> Has (hp_caps p) CapExport then Inl ErrUnsupported
      else if \<not> DiskFormat_Valid format then Inl ErrInvalidSpec
      else (case xb_getVM B (backend p) vmID of None \<Rightarrow> Inl ErrNotFound
        | Some v \<Rightarrow>
          (let info = (\<lambda>n. \<lparr>ex_Format = format, SizeBytes = n, DiskCount = int (length (xm_VBDs v)),
                  ex_SourceVMID = vmID, ex_GuestOS = xm_OSDistro v, ex_Firmware = normalizeFirmware v\<rparr>)
           in case xb_exportStream B of
                Some ex \<Rightarrow> (case ex (backend p) (xm_UUID v) of Inl e \<Rightarrow> Inl e
                            | Inr (body, n) \<Rightarrow> Inr (body, info n))
              | None \<Rightarrow>
                  (let payload = ''XENEXPORT'' @ [CHR 0x00] @ ''provider='' @ hp_id p @ [CHR 0x00] @ ''vm='' @ vmID
                         @ [CHR 0x00] @ ''format='' @ format @ [CHR 0x0A]
                   in Inr (payload, info (int (length payload)))))))"

subsection \<open>Pool, nodes, metrics\<close>

definition node_state_row :: "vhost \<Rightarrow> string \<Rightarrow> int \<Rightarrow> node_state" where
  "node_state_row h i now = \<lparr>NodeID = i, node_State = host_State h, node_Message = [],
     node_VMCount = host_VMCount h, node_UpdatedAt = Some now\<rparr>"

definition GetClusterTopology :: "'b xapi_backend \<Rightarrow> 'b xen \<Rightarrow> string \<Rightarrow> int \<Rightarrow> verror + topology" where
  "GetClusterTopology B p clusterID now =
     (if \<not> Has (hp_caps p) CapClusterTopology then Inl ErrUnsupported
      else if (case xb_pool B (backend p) of None \<Rightarrow> True | Some l \<Rightarrow> clusterID \<noteq> xp_Ref l) then Inl ErrNotFound
      else Inr \<lparr>top_ClusterID = clusterID,
        Nodes = map (\<lambda>h. let nh = normalizeHost B p h in node_state_row nh (host_ID nh) now)
                  (xb_listHosts B (backend p)),
        Placement = fold (\<lambda>v m. put m (xm_Ref v) (xm_ResidentOn v)) (xb_listVMs B (backend p)) []\<rparr>)"

definition NodeState :: "'b xapi_backend \<Rightarrow> 'b xen \<Rightarrow> string \<Rightarrow> int \<Rightarrow> verror + node_state" where
  "NodeState B p nodeID now =
     (if \<not> Has (hp_caps p) CapNodeState then Inl ErrUnsupported
      else (case xb_getHost B (backend p) nodeID of None \<Rightarrow> Inl ErrNotFound
            | Some h \<Rightarrow> Inr (node_state_row (normalizeHost B p h) nodeID now)))"

definition GetMetrics :: "'b xapi_backend \<Rightarrow> 'b xen \<Rightarrow> string \<Rightarrow> metric_window \<Rightarrow> int \<Rightarrow> verror + metric_series" where
  "GetMetrics B p entityID window now =
     (if \<not> Has (hp_caps p) CapMetrics then Inl ErrUnsupported
      else if xb_getVM B (backend p) entityID = None \<and> xb_getHost B (backend p) entityID = None
        then Inl ErrNotFound
      else Inr \<lparr>EntityID = entityID, Samples = fixture_samples window now 30 (\<lambda>i. 9 + i * 6)
                  (push_bit 30 4) 1400 1000 4096 8192\<rparr>)"

text \<open>The events of \<open>StreamEvents\<close>, each the kind, the entity and the message.\<close>

definition StreamEvents :: "'b xapi_backend \<Rightarrow> 'b xen \<Rightarrow> verror + (string \<times> string \<times> string) list" where
  "StreamEvents B p =
     (if \<not> Has (hp_caps p) CapEvents then Inl ErrUnsupported
      else (let vs = xb_listVMs B (backend p) in
        if vs = [] then Inr [(''alert'', [], ''event stream established (no VMs)'')]
        else Inr (map (\<lambda>m. let v = normalizeVM B p m in
               (''vm.state'', vm_ID v, vm_Name v @ '' is '' @ vm_State v)) vs)))"

subsection \<open>The provider behind the seam\<close>

primrec vm_method :: "'b xapi_backend \<Rightarrow> 'b xen \<Rightarrow> vm_call \<Rightarrow> int \<Rightarrow> 'b xen \<times> task_result" where
  "vm_method B p (CallPower i op) now = PowerOp B p i op now"
| "vm_method B p (CallCreate spec) now = CreateVM B p spec now"
| "vm_method B p (CallReconfigure i spec) now = ReconfigureVM B p i spec now"
| "vm_method B p (CallDelete i opts) now = DeleteVM B p i opts now"
| "vm_method B p (CallSnapshot i opts) now = Snapshot B p i opts now"
| "vm_method B p (CallRevert i s) now = RevertSnapshot B p i s now"
| "vm_method B p (CallClone i spec) now = Clone B p i spec now"
| "vm_method B p (CallMigrate i h opts) now = MigrateVM B p i h opts now"

text \<open>The type implements none of the optional interfaces.\<close>

definition xen_hv :: "'b xapi_backend \<Rightarrow> 'b xen vm_hv" where
  "xen_hv B = \<lparr>vp_Kind = hp_kind, vp_Capabilities = hp_caps, vp_ListVMs = ListVMs B, vp_GetVM = GetVM B,
     vp_ListSnapshots = ListSnapshots B, vp_GetMetrics = GetMetrics B, vp_ListHosts = ListHosts B,
     vp_ListStorage = ListStorage B, vp_ListNetworks = ListNetworks B, vp_ListClusters = ListClusters B,
     vp_GetClusterTopology = GetClusterTopology B, vp_call = vm_method B, vp_implements = (\<lambda>_ _. False),
     vp_ext = (\<lambda>p _ _. (p, Inl ErrUnsupported)), vp_Console = (\<lambda>_ _. Inl ErrUnsupported),
     vp_ListVolumes = (\<lambda>_ _. Inl ErrUnsupported), vp_UploadISO = (\<lambda>p _ _ _ _. (p, Inl ErrUnsupported)),
     vp_GuestInfo = (\<lambda>_ _. Inl ErrUnsupported)\<rparr>"

subsection \<open>The in-memory backend\<close>

record sim_backend = "xen_vm mem" +
  sb_pl :: "xen_pool option"
  sb_hosts :: "(string \<times> xen_host) list"
  sb_srs :: "xen_sr list"
  sb_nets :: "xen_network list"

definition seed_host :: "string \<Rightarrow> string \<Rightarrow> string \<Rightarrow> int \<Rightarrow> xen_host" where
  "seed_host ref uuid name free = \<lparr>xh_Ref = ref, xh_UUID = uuid, xh_NameLabel = name, xh_Enabled = True,
     xh_Live = True, xh_CPUCount = 24, xh_CPUMHz = 2900, xh_MemoryTotB = 128 * bytesPerGB,
     xh_MemoryFreB = free * bytesPerGB, xh_Version = ''XCP-ng 8.3 (xapi 24.x)''\<rparr>"

definition seed_vm :: "nat \<Rightarrow> string \<Rightarrow> string \<Rightarrow> xen_vm" where
  "seed_vm i st host = (let n = itoa (int i + 1); ref = ''OpaqueRef:vm-seed-'' @ n in
     \<lparr>xm_Ref = ref, xm_UUID = ''uuid-vm-'' @ n, xm_NameLabel = ''xen-vm-'' @ n, xm_PowerState = st,
      xm_ResidentOn = host, xm_VCPUsMax = 2, xm_MemoryB = 4 * bytesPerGB,
      xm_OSDistro = ''Debian GNU/Linux 12'', xm_HVM = True, xm_UEFI = True,
      xm_VBDs = [\<lparr>xv_Ref = ref @ ''-vbd0'', xv_Device = ''0'', xv_VDIRef = ref @ ''-vdi0'',
        xv_SRRef = ''OpaqueRef:sr-1'', xv_VirtualB = 40 * bytesPerGB,
        xv_Path = ''/var/run/sr-mount/'' @ ref @ ''.vhd''\<rparr>],
      xm_VIFs = [\<lparr>xf_Ref = ref @ ''-vif0'', xf_MAC = ''aa:bb:cc:00:00:0'' @ n,
        xf_NetworkRef = ''OpaqueRef:net-1'', xf_Model = ''netfront'', xf_Attached = True\<rparr>],
      xm_IPs = [''10.0.0.1'' @ n], xm_Labels = [], xm_Created = 1700000000, xm_IsControl = False\<rparr>)"

definition seed_vms :: "xen_vm list" where
  "seed_vms = [seed_vm 0 psRunning ''OpaqueRef:host-1'', seed_vm 1 psRunning ''OpaqueRef:host-1'',
               seed_vm 2 psHalted ''OpaqueRef:host-2'']"

definition newSimBackend :: sim_backend where
  "newSimBackend = \<lparr>mem_closed = False, mem_vms = map (\<lambda>v. (xm_Ref v, v)) seed_vms, mem_snapshots = [],
     mem_order = map xm_Ref seed_vms,
     sb_pl = Some \<lparr>xp_Ref = ''OpaqueRef:pool-1'', xp_UUID = ''uuid-pool-1'', xp_NameLabel = ''xcp-pool'',
       xp_MasterRef = ''OpaqueRef:host-1'', xp_HostRefs = [''OpaqueRef:host-1'', ''OpaqueRef:host-2''],
       xp_HAEnabled = True\<rparr>,
     sb_hosts = [(''OpaqueRef:host-1'', seed_host ''OpaqueRef:host-1'' ''uuid-host-1'' ''xcp-host-1'' 96),
                 (''OpaqueRef:host-2'', seed_host ''OpaqueRef:host-2'' ''uuid-host-2'' ''xcp-host-2'' 112)],
     sb_srs = [\<lparr>xs_Ref = ''OpaqueRef:sr-1'', xs_UUID = ''uuid-sr-1'', xs_NameLabel = ''Local-NFS'',
       xs_Type = ''nfs'', xs_PhysSizeB = 4096 * bytesPerGB, xs_PhysUtilB = 1096 * bytesPerGB,
       xs_HostRefs = [''OpaqueRef:host-1'', ''OpaqueRef:host-2''], xs_Shared = True, xs_Accessible = True\<rparr>],
     sb_nets = [\<lparr>xn_Ref = ''OpaqueRef:net-1'', xn_UUID = ''uuid-net-1'',
       xn_NameLabel = ''Pool-wide network associated with eth0'', xn_Bridge = ''xenbr0'', xn_VLAN = 0\<rparr>]\<rparr>"

definition sim_createVM :: "sim_backend \<Rightarrow> xen_vm \<Rightarrow> sim_backend" where
  "sim_createVM b v = mem_define b (xm_Ref v) v"

definition setPowerState :: "sim_backend \<Rightarrow> string \<Rightarrow> string \<Rightarrow> sim_backend" where
  "setPowerState b ref s = mem_write b ref (\<lambda>v. v\<lparr>xm_PowerState := s\<rparr>)"

definition vmsOnHost :: "sim_backend \<Rightarrow> string \<Rightarrow> int" where
  "vmsOnHost b h = mem_count (\<lambda>v. xm_ResidentOn v = h) b"

definition simBackend :: "sim_backend xapi_backend" where
  "simBackend = \<lparr>xb_version = (\<lambda>_. ''XCP-ng 8.3 (xapi 24.x)''), xb_healthy = (\<lambda>b. \<not> mem_closed b),
     xb_close = (\<lambda>b. b\<lparr>mem_closed := True\<rparr>), xb_listHosts = (\<lambda>b. map snd (sb_hosts b)),
     xb_getHost = (\<lambda>b. map_of (sb_hosts b)), xb_listVMs = mem_list, xb_getVM = mem_get,
     xb_writeVM = mem_write, xb_listSRs = sb_srs, xb_listNetworks = sb_nets, xb_createVM = sim_createVM,
     xb_destroyVM = mem_remove, xb_setPowerState = setPowerState, xb_vmsOnHost = vmsOnHost,
     xb_listSnapshots = mem_snaps, xb_createSnapshot = mem_push_snap,
     xb_setCurrentSnapshot = mem_mark_snap, xb_pool = sb_pl, xb_exportStream = None\<rparr>"

definition sim_xen :: "string \<Rightarrow> sim_backend xen" where
  "sim_xen i = New simBackend i ''xen'' FullCaps newSimBackend"

end
