(* ===== verification/Esxi.thy ===== *)
theory Esxi
  imports Hv_Seam Json
begin

text \<open>
  The VMware provider, \<open>server/internal/vprovider/esxi\<close>: \<open>esxi.go\<close>, the normalization of \<open>vsphere.go\<close> and
  the in-memory backend (\<open>sim_backend.go\<close>), in the shape of the Xen provider. \<open>eb_export\<close> is the export
  of the live backend.
\<close>


subsection \<open>The data of vSphere\<close>

definition powerOff :: string where "powerOff = ''poweredOff''"
definition powerOn :: string where "powerOn = ''poweredOn''"
definition powerSuspended :: string where "powerSuspended = ''suspended''"

definition normalizeState :: "string \<Rightarrow> string" where
  "normalizeState s =
     (if s = powerOn then StateRunning
      else if s = powerOff then StateStopped
      else if s = powerSuspended then StateSuspended
      else ''unknown'')"

record esxi_disk =
  ed_Key :: int
  ed_Label :: string
  ed_VMDKPath :: string
  ed_DatastoreID :: string
  ed_CapacityKB :: int

record esxi_nic =
  en_Key :: int
  en_MAC :: string
  en_PortgroupID :: string
  en_AdapterType :: string
  en_Connected :: bool

record esxi_vm =
  em_MoRef :: string
  em_Name :: string
  em_Power :: string
  em_HostRef :: string
  em_ClusterID :: string
  em_NumCPU :: int
  em_MemoryMB :: int
  em_GuestID :: string
  em_Firmware :: string
  em_Disks :: "esxi_disk list"
  em_NICs :: "esxi_nic list"
  em_GuestIPs :: "string list"
  em_Labels :: "(string \<times> string) list"
  em_Protected :: bool
  em_Created :: int

record esxi_host =
  eh_MoRef :: string
  eh_Name :: string
  eh_ClusterID :: string
  eh_ConnectionState :: string
  eh_InMaintenance :: bool
  eh_NumCPUCores :: int
  eh_CPUMHz :: int
  eh_MemoryBytes :: int
  eh_MemUsedMB :: int
  eh_Version :: string

record esxi_cluster =
  ec_MoRef :: string
  ec_Name :: string
  ec_HostIDs :: "string list"
  ec_HA :: bool
  ec_DRS :: bool

record esxi_datastore =
  es_MoRef :: string
  es_Name :: string
  es_Type :: string
  es_CapacityBytes :: int
  es_FreeBytes :: int
  es_HostIDs :: "string list"
  es_Accessible :: bool

record esxi_network =
  et_MoRef :: string
  et_Name :: string
  et_Type :: string
  et_VLAN :: int

subsection \<open>Backends\<close>

record 'b vsphere_backend =
  eb_version :: "'b \<Rightarrow> string"
  eb_healthy :: "'b \<Rightarrow> bool"
  eb_close :: "'b \<Rightarrow> 'b"
  eb_listHosts :: "'b \<Rightarrow> esxi_host list"
  eb_getHost :: "'b \<Rightarrow> string \<Rightarrow> esxi_host option"
  eb_listVMs :: "'b \<Rightarrow> esxi_vm list"
  eb_getVM :: "'b \<Rightarrow> string \<Rightarrow> esxi_vm option"
  eb_writeVM :: "'b \<Rightarrow> string \<Rightarrow> (esxi_vm \<Rightarrow> esxi_vm) \<Rightarrow> 'b"
  eb_listClusters :: "'b \<Rightarrow> esxi_cluster list"
  eb_getCluster :: "'b \<Rightarrow> string \<Rightarrow> esxi_cluster option"
  eb_listDatastores :: "'b \<Rightarrow> esxi_datastore list"
  eb_listNetworks :: "'b \<Rightarrow> esxi_network list"
  eb_createVM :: "'b \<Rightarrow> esxi_vm \<Rightarrow> 'b"
  eb_destroyVM :: "'b \<Rightarrow> string \<Rightarrow> 'b"
  eb_setPower :: "'b \<Rightarrow> string \<Rightarrow> string \<Rightarrow> 'b"
  eb_vmsOnHost :: "'b \<Rightarrow> string \<Rightarrow> int"
  eb_listSnapshots :: "'b \<Rightarrow> string \<Rightarrow> snapshot list"
  eb_createSnapshot :: "'b \<Rightarrow> string \<Rightarrow> snapshot \<Rightarrow> 'b"
  eb_setCurrentSnapshot :: "'b \<Rightarrow> string \<Rightarrow> string \<Rightarrow> 'b \<times> bool"
  eb_export :: "('b \<Rightarrow> string \<Rightarrow> verror + (string \<times> int \<times> int)) option"

subsection \<open>The provider\<close>

record 'b esxi = prov +
  backend :: 'b

text \<open>\<open>New\<close> with the options \<open>WithCaps\<close> and \<open>WithBackend\<close>.\<close>

definition New :: "string \<Rightarrow> caps \<Rightarrow> 'b \<Rightarrow> 'b esxi" where
  "New i caps b = \<lparr>hp_id = i, hp_kind = ''vmware'', hp_caps = caps, hp_clusterID = [],
     hp_tracker = [], hp_seq = 0, hp_closed = False, backend = b\<rparr>"

definition FullCaps :: caps where
  "FullCaps = fold (OR)
    [CapListHosts, CapListVMs, CapGetVM, CapListClusters, CapListStorage, CapListNetworks,
     CapCreateVM, CapPowerStart, CapPowerStop, CapPowerReset, CapPowerSuspend, CapDeleteVM,
     CapReconfigureVM, CapSnapshot, CapRevertSnapshot, CapClone, CapMigrate, CapExport,
     CapClusterTopology, CapNodeState, CapMetrics, CapEvents] 0"

definition write_vm :: "'b vsphere_backend \<Rightarrow> 'b esxi \<Rightarrow> string \<Rightarrow> (esxi_vm \<Rightarrow> esxi_vm) \<Rightarrow> 'b esxi" where
  "write_vm B p i f = p\<lparr>backend := eb_writeVM B (backend p) i f\<rparr>"

subsection \<open>Normalization\<close>

definition normalizeVM :: "'b vsphere_backend \<Rightarrow> 'b esxi \<Rightarrow> esxi_vm \<Rightarrow> vm" where
  "normalizeVM B p v =
     \<lparr>vm_ID = em_MoRef v, vm_Name = em_Name v, vm_Kind = hp_kind p, vm_ProviderID = hp_id p,
      vm_HostID = em_HostRef v, vm_ClusterID = em_ClusterID v,
      vm_State = normalizeState (em_Power v), vm_StateRaw = em_Power v,
      vm_VCPUs = em_NumCPU v, vm_MemoryMB = em_MemoryMB v,
      vm_GuestOS = em_GuestID v, vm_Firmware = em_Firmware v,
      vm_Disks = map (\<lambda>d. \<lparr>dk_ID = em_MoRef v @ ''-disk-'' @ itoa (ed_Key d), dk_Label = ed_Label d,
          dk_Format = ''vmdk'',
          dk_CapacityGB = fdiv (fmul (f64_of_int (ed_CapacityKB d)) (Fin 1024)) (Fin (of_int bytesPerGB)),
          dk_StorageID = ed_DatastoreID d, dk_Path = ed_VMDKPath d\<rparr>) (em_Disks v),
      vm_NICs = map (\<lambda>n. \<lparr>nic_ID = em_MoRef v @ ''-nic-'' @ itoa (en_Key n), nic_MAC = en_MAC n,
          nic_NetworkID = en_PortgroupID n, nic_Model = en_AdapterType n, nic_Connected = en_Connected n\<rparr>)
          (em_NICs v),
      vm_IPAddresses = em_GuestIPs v, vm_Labels = em_Labels v,
      vm_SnapshotCount = int (length (eb_listSnapshots B (backend p) (em_MoRef v))),
      vm_CreatedAt = (if em_Created v > 0 then Some (em_Created v * second) else None),
      vm_Protected = em_Protected v\<rparr>"

definition normalizeHost :: "'b vsphere_backend \<Rightarrow> 'b esxi \<Rightarrow> esxi_host \<Rightarrow> vhost" where
  "normalizeHost B p h = \<lparr>host_ID = eh_MoRef h, host_Name = eh_Name h, host_Kind = hp_kind p,
     host_ProviderID = hp_id p, host_ClusterID = eh_ClusterID h,
     host_State = (if eh_InMaintenance h then ''maintenance''
                   else if eh_ConnectionState h = ''connected'' then ''up''
                   else if eh_ConnectionState h = ''notResponding'' then ''degraded'' else ''down''),
     CPUCores = eh_NumCPUCores h, CPUMHz = eh_CPUMHz h, MemoryMB = go_div (eh_MemoryBytes h) (2 ^ 20),
     MemUsedMB = eh_MemUsedMB h, host_VMCount = eb_vmsOnHost B (backend p) (eh_MoRef h),
     host_Version = eh_Version h, host_Labels = []\<rparr>"

definition normalizeCluster :: "'b esxi \<Rightarrow> esxi_cluster \<Rightarrow> cluster" where
  "normalizeCluster p c = \<lparr>cl_ID = ec_MoRef c, cl_Name = ec_Name c, cl_Kind = hp_kind p, cl_ProviderID = hp_id p,
     cl_HostIDs = ec_HostIDs c, HAEnabled = ec_HA c, DRSEnabled = ec_DRS c\<rparr>"

definition normalizeDatastore :: "'b esxi \<Rightarrow> esxi_datastore \<Rightarrow> storage_pool" where
  "normalizeDatastore p d = \<lparr>sp_ID = es_MoRef d, sp_Name = es_Name d, sp_Kind = hp_kind p,
     sp_ProviderID = hp_id p, sp_Type = es_Type d, CapacityGB = gb_of_bytes (es_CapacityBytes d),
     FreeGB = gb_of_bytes (es_FreeBytes d), sp_HostIDs = es_HostIDs d, Accessible = es_Accessible d\<rparr>"

definition normalizeNetwork :: "'b esxi \<Rightarrow> esxi_network \<Rightarrow> network" where
  "normalizeNetwork p n = \<lparr>net_ID = et_MoRef n, net_Name = et_Name n, net_Kind = hp_kind p,
     net_ProviderID = hp_id p, net_Type = et_Type n, net_VLAN = et_VLAN n\<rparr>"

subsection \<open>Health and inventory\<close>

definition HealthCheck :: "'b vsphere_backend \<Rightarrow> 'b esxi \<Rightarrow> int \<Rightarrow> health_status" where
  "HealthCheck B p now =
     (if hp_closed p \<or> \<not> eb_healthy B (backend p)
      then \<lparr>Healthy = False, hs_Message = ''vSphere connection unavailable'', hs_Version = [], CheckedAt = now\<rparr>
      else \<lparr>Healthy = True, hs_Message = [], hs_Version = eb_version B (backend p), CheckedAt = now\<rparr>)"

definition Close :: "'b vsphere_backend \<Rightarrow> 'b esxi \<Rightarrow> 'b esxi" where
  "Close B p = (if hp_closed p then p else p\<lparr>hp_closed := True, backend := eb_close B (backend p)\<rparr>)"

definition ListHosts :: "'b vsphere_backend \<Rightarrow> 'b esxi \<Rightarrow> verror + vhost list" where
  "ListHosts B p = (if \<not> Has (hp_caps p) CapListHosts then Inl ErrUnsupported
     else Inr (map (normalizeHost B p) (eb_listHosts B (backend p))))"

definition ListVMs :: "'b vsphere_backend \<Rightarrow> 'b esxi \<Rightarrow> list_options \<Rightarrow> verror + vm list" where
  "ListVMs B p opts = (if \<not> Has (hp_caps p) CapListVMs then Inl ErrUnsupported
     else Inr (filter (vm_listed opts) (map (normalizeVM B p) (eb_listVMs B (backend p)))))"

definition GetVM :: "'b vsphere_backend \<Rightarrow> 'b esxi \<Rightarrow> string \<Rightarrow> verror + vm_detail" where
  "GetVM B p i = (if \<not> Has (hp_caps p) CapGetVM then Inl ErrUnsupported
     else (case eb_getVM B (backend p) i of None \<Rightarrow> Inl ErrNotFound
       | Some v \<Rightarrow> Inr \<lparr>detail_VM = normalizeVM B p v,
           Raw = json_enc (JObj [(''firmware'', JStr (em_Firmware v)), (''guestId'', JStr (em_GuestID v)),
             (''memoryMB'', JNum (em_MemoryMB v)), (''moRef'', JStr (em_MoRef v)), (''name'', JStr (em_Name v)),
             (''numCPU'', JNum (em_NumCPU v)), (''powerState'', JStr (em_Power v)),
             (''resourcePool'', JStr (em_ClusterID v)), (''runtime.host'', JStr (em_HostRef v))])\<rparr>))"

definition ListClusters :: "'b vsphere_backend \<Rightarrow> 'b esxi \<Rightarrow> verror + cluster list" where
  "ListClusters B p = (if \<not> Has (hp_caps p) CapListClusters then Inl ErrUnsupported
     else Inr (map (normalizeCluster p) (eb_listClusters B (backend p))))"

definition ListStorage :: "'b vsphere_backend \<Rightarrow> 'b esxi \<Rightarrow> verror + storage_pool list" where
  "ListStorage B p = (if \<not> Has (hp_caps p) CapListStorage then Inl ErrUnsupported
     else Inr (map (normalizeDatastore p) (eb_listDatastores B (backend p))))"

definition ListNetworks :: "'b vsphere_backend \<Rightarrow> 'b esxi \<Rightarrow> verror + network list" where
  "ListNetworks B p = (if \<not> Has (hp_caps p) CapListNetworks then Inl ErrUnsupported
     else Inr (map (normalizeNetwork p) (eb_listNetworks B (backend p))))"

subsection \<open>Lifecycle\<close>

definition dsOrDefault :: "string \<Rightarrow> string" where
  "dsOrDefault i = (if i = [] then ''datastore1'' else i)"

definition nicModelOrDefault :: "string \<Rightarrow> string" where
  "nicModelOrDefault m = (if m = [] then ''vmxnet3'' else m)"

text \<open>A disk with the number \<open>n\<close> whose file is named after the machine and \<open>tag\<close>.\<close>

definition spec_disk :: "string \<Rightarrow> nat \<Rightarrow> string \<Rightarrow> disk_spec \<Rightarrow> esxi_disk" where
  "spec_disk name n tag d = \<lparr>ed_Key = int n, ed_Label = ''Hard disk '' @ itoa (int n + 1),
     ed_VMDKPath = ''['' @ dsOrDefault (ds_StorageID d) @ ''] '' @ name @ ''/'' @ name @ ''_'' @ tag @ ''.vmdk'',
     ed_DatastoreID = ds_StorageID d,
     ed_CapacityKB = int64_of_f64 (fdiv (fmul (ds_CapacityGB d) (Fin (of_int bytesPerGB))) (Fin 1024))\<rparr>"

definition spec_nic :: "nat \<Rightarrow> nic_spec \<Rightarrow> esxi_nic" where
  "spec_nic n s = \<lparr>en_Key = int n, en_MAC = ns_MAC s, en_PortgroupID = ns_NetworkID s,
     en_AdapterType = nicModelOrDefault (ns_Model s), en_Connected = True\<rparr>"

definition spec_vm :: "vm_spec \<Rightarrow> string \<Rightarrow> int \<Rightarrow> esxi_vm" where
  "spec_vm spec ref now =
     \<lparr>em_MoRef = ref, em_Name = vs_Name spec, em_Power = powerOff, em_HostRef = vs_HostID spec,
      em_ClusterID = vs_ClusterID spec, em_NumCPU = vs_VCPUs spec, em_MemoryMB = vs_MemoryMB spec,
      em_GuestID = vs_GuestOS spec, em_Firmware = vs_Firmware spec,
      em_Disks = map (\<lambda>(i, d). spec_disk (vs_Name spec) i (itoa (int i)) d) (enumerate 0 (vs_Disks spec)),
      em_NICs = map (\<lambda>(i, n). spec_nic i n) (enumerate 0 (vs_NICs spec)),
      em_GuestIPs = [], em_Labels = vs_Labels spec, em_Protected = False, em_Created = now div second\<rparr>"

definition CreateVM :: "'b vsphere_backend \<Rightarrow> 'b esxi \<Rightarrow> vm_spec \<Rightarrow> int \<Rightarrow> 'b esxi \<times> task_result" where
  "CreateVM B p spec now =
     (if \<not> Has (hp_caps p) CapCreateVM then (p, Inl ErrUnsupported)
      else if trim_space (vs_Name spec) = [] \<or> vs_VCPUs spec \<le> 0 \<or> vs_MemoryMB spec \<le> 0
        then (p, Inl ErrInvalidSpec)
      else (case nextID p ''vm'' of (p1, ref) \<Rightarrow>
        done_task (p1\<lparr>backend := eb_createVM B (backend p1) (spec_vm spec ref now)\<rparr>) ''createVM'' ref now))"

definition power_target :: "string \<Rightarrow> string option" where
  "power_target op =
     (if op = ''start'' \<or> op = ''resume'' \<or> op = ''reset'' then Some powerOn
      else if op = ''stop'' then Some powerOff
      else if op = ''suspend'' then Some powerSuspended else None)"

definition PowerOp :: "'b vsphere_backend \<Rightarrow> 'b esxi \<Rightarrow> string \<Rightarrow> string \<Rightarrow> int \<Rightarrow> 'b esxi \<times> task_result" where
  "PowerOp B p vmID op now =
     (if \<not> PowerOp_Valid op then (p, Inl ErrInvalidSpec)
      else if \<not> Has (hp_caps p) (PowerOpCapability op) then (p, Inl ErrUnsupported)
      else if eb_getVM B (backend p) vmID = None then (p, Inl ErrNotFound)
      else done_task (case power_target op of None \<Rightarrow> p
             | Some s \<Rightarrow> p\<lparr>backend := eb_setPower B (backend p) vmID s\<rparr>) ''powerOp'' vmID now)"

definition DeleteVM :: "'b vsphere_backend \<Rightarrow> 'b esxi \<Rightarrow> string \<Rightarrow> delete_options \<Rightarrow> int \<Rightarrow> 'b esxi \<times> task_result" where
  "DeleteVM B p vmID opts now =
     (if \<not> Has (hp_caps p) CapDeleteVM then (p, Inl ErrUnsupported)
      else (case eb_getVM B (backend p) vmID of None \<Rightarrow> (p, Inl ErrNotFound)
        | Some v \<Rightarrow>
          if em_Protected v then (p, Inl ErrConflict)
          else if normalizeState (em_Power v) = StateRunning \<and> \<not> Force opts then (p, Inl ErrConflict)
          else (let b = (if normalizeState (em_Power v) = StateRunning \<and> Force opts
                         then eb_setPower B (backend p) vmID powerOff else backend p)
                in done_task (p\<lparr>backend := eb_destroyVM B b vmID\<rparr>) ''deleteVM'' vmID now)))"

text \<open>The number of an added device counts the devices there are and its index in the request; the
  file of an added disk is named after the index alone.\<close>

primrec append_disks :: "string \<Rightarrow> nat \<Rightarrow> disk_spec list \<Rightarrow> esxi_disk list \<Rightarrow> esxi_disk list" where
  "append_disks name i [] ds = ds"
| "append_disks name i (s # ss) ds =
     append_disks name (Suc i) ss (ds @ [spec_disk name (length ds + i) (''add'' @ itoa (int i)) s])"

primrec append_nics :: "nat \<Rightarrow> nic_spec list \<Rightarrow> esxi_nic list \<Rightarrow> esxi_nic list" where
  "append_nics i [] ns = ns"
| "append_nics i (s # ss) ns = append_nics (Suc i) ss (ns @ [spec_nic (length ns + i) s])"

definition with_devices :: "reconfigure_spec \<Rightarrow> esxi_vm \<Rightarrow> esxi_vm" where
  "with_devices spec v = v\<lparr>em_Disks := append_disks (em_Name v) 0 (AddDisks spec) (em_Disks v),
     em_NICs := append_nics 0 (AddNICs spec) (em_NICs v),
     em_Labels := put_all (em_Labels v) (rs_Labels spec)\<rparr>"

text \<open>The number of processors is written before the memory is checked.\<close>

definition ReconfigureVM ::
  "'b vsphere_backend \<Rightarrow> 'b esxi \<Rightarrow> string \<Rightarrow> reconfigure_spec \<Rightarrow> int \<Rightarrow> 'b esxi \<times> task_result" where
  "ReconfigureVM B p vmID spec now =
     (if \<not> Has (hp_caps p) CapReconfigureVM then (p, Inl ErrUnsupported)
      else if eb_getVM B (backend p) vmID = None then (p, Inl ErrNotFound)
      else if (case rs_VCPUs spec of None \<Rightarrow> False | Some n \<Rightarrow> n \<le> 0) then (p, Inl ErrInvalidSpec)
      else (let p1 = (case rs_VCPUs spec of None \<Rightarrow> p
                      | Some n \<Rightarrow> write_vm B p vmID (\<lambda>v. v\<lparr>em_NumCPU := n\<rparr>))
            in if (case rs_MemoryMB spec of None \<Rightarrow> False | Some m \<Rightarrow> m \<le> 0) then (p1, Inl ErrInvalidSpec)
               else (let p2 = (case rs_MemoryMB spec of None \<Rightarrow> p1
                        | Some m \<Rightarrow> write_vm B p1 vmID (\<lambda>v. v\<lparr>em_MemoryMB := m\<rparr>))
                     in done_task (write_vm B p2 vmID (with_devices spec)) ''reconfigureVM'' vmID now)))"

subsection \<open>Snapshots and clones\<close>

definition Snapshot :: "'b vsphere_backend \<Rightarrow> 'b esxi \<Rightarrow> string \<Rightarrow> snapshot_options \<Rightarrow> int \<Rightarrow> 'b esxi \<times> task_result" where
  "Snapshot B p vmID opts now =
     (if \<not> Has (hp_caps p) CapSnapshot then (p, Inl ErrUnsupported)
      else if eb_getVM B (backend p) vmID = None then (p, Inl ErrNotFound)
      else (case nextID p ''snapshot'' of (p1, i) \<Rightarrow>
        done_task (p1\<lparr>backend := eb_createSnapshot B (backend p1) vmID
          \<lparr>snap_ID = i, snap_VMID = vmID, snap_Name = so_Name opts, snap_Description = so_Description opts,
           snap_ParentID = [], HasMemory = so_Memory opts, IsCurrent = True, snap_CreatedAt = Some now\<rparr>\<rparr>)
          ''snapshot'' vmID now))"

definition RevertSnapshot :: "'b vsphere_backend \<Rightarrow> 'b esxi \<Rightarrow> string \<Rightarrow> string \<Rightarrow> int \<Rightarrow> 'b esxi \<times> task_result" where
  "RevertSnapshot B p vmID snapID now =
     (if \<not> Has (hp_caps p) CapRevertSnapshot then (p, Inl ErrUnsupported)
      else if eb_getVM B (backend p) vmID = None then (p, Inl ErrNotFound)
      else (case eb_setCurrentSnapshot B (backend p) vmID snapID of (b, found) \<Rightarrow>
              if \<not> found then (p\<lparr>backend := b\<rparr>, Inl ErrNotFound)
              else done_task (p\<lparr>backend := b\<rparr>) ''revertSnapshot'' vmID now))"

definition ListSnapshots :: "'b vsphere_backend \<Rightarrow> 'b esxi \<Rightarrow> string \<Rightarrow> verror + snapshot list" where
  "ListSnapshots B p vmID =
     (if \<not> Has (hp_caps p) CapSnapshot then Inl ErrUnsupported
      else if eb_getVM B (backend p) vmID = None then Inl ErrNotFound
      else Inr (eb_listSnapshots B (backend p) vmID))"

definition cloned :: "esxi_vm \<Rightarrow> clone_spec \<Rightarrow> string \<Rightarrow> esxi_vm" where
  "cloned src spec ref = src\<lparr>em_MoRef := ref, em_Name := cs_Name spec, em_Protected := False,
     em_Power := (if PowerOn spec then powerOn else powerOff),
     em_HostRef := (if cs_HostID spec \<noteq> [] then cs_HostID spec else em_HostRef src)\<rparr>"

definition Clone :: "'b vsphere_backend \<Rightarrow> 'b esxi \<Rightarrow> string \<Rightarrow> clone_spec \<Rightarrow> int \<Rightarrow> 'b esxi \<times> task_result" where
  "Clone B p vmID spec now =
     (if \<not> Has (hp_caps p) CapClone then (p, Inl ErrUnsupported)
      else (case eb_getVM B (backend p) vmID of None \<Rightarrow> (p, Inl ErrNotFound)
        | Some src \<Rightarrow>
          if trim_space (cs_Name spec) = [] then (p, Inl ErrInvalidSpec)
          else (case nextID p ''vm'' of (p1, ref) \<Rightarrow>
            done_task (p1\<lparr>backend := eb_createVM B (backend p1) (cloned src spec ref)\<rparr>) ''clone'' ref now)))"

subsection \<open>Migration between hosts, export\<close>

definition MigrateVM ::
  "'b vsphere_backend \<Rightarrow> 'b esxi \<Rightarrow> string \<Rightarrow> string \<Rightarrow> migrate_options \<Rightarrow> int \<Rightarrow> 'b esxi \<times> task_result" where
  "MigrateVM B p vmID targetHost opts now =
     (if \<not> Has (hp_caps p) CapMigrate then (p, Inl ErrUnsupported)
      else if eb_getVM B (backend p) vmID = None then (p, Inl ErrNotFound)
      else if eb_getHost B (backend p) targetHost = None then (p, Inl ErrInvalidSpec)
      else done_task (write_vm B p vmID (\<lambda>v. v\<lparr>em_HostRef := targetHost\<rparr>)) ''migrate'' vmID now)"

definition ExportVM :: "'b vsphere_backend \<Rightarrow> 'b esxi \<Rightarrow> string \<Rightarrow> string \<Rightarrow> verror + (string \<times> export_info)" where
  "ExportVM B p vmID format =
     (if \<not> Has (hp_caps p) CapExport then Inl ErrUnsupported
      else if \<not> DiskFormat_Valid format then Inl ErrInvalidSpec
      else (case eb_getVM B (backend p) vmID of None \<Rightarrow> Inl ErrNotFound
        | Some v \<Rightarrow>
          (let info = (\<lambda>f n k. \<lparr>ex_Format = f, SizeBytes = n, DiskCount = k,
                  ex_SourceVMID = vmID, ex_GuestOS = em_GuestID v, ex_Firmware = em_Firmware v\<rparr>)
           in case eb_export B of
                Some ex \<Rightarrow> (case ex (backend p) vmID of Inl e \<Rightarrow> Inl e
                            | Inr (body, n, k) \<Rightarrow> Inr (body, info ''vmdk'' n k))
              | None \<Rightarrow>
                  (let payload = ''VSPHEREEXPORT'' @ [CHR 0x00] @ ''provider='' @ hp_id p @ [CHR 0x00] @ ''vm='' @ vmID
                         @ [CHR 0x00] @ ''format='' @ format @ [CHR 0x0A]
                   in Inr (payload, info format (int (length payload)) (int (length (em_Disks v))))))))"

subsection \<open>Clusters, nodes, metrics\<close>

definition hostNodeState :: "'b vsphere_backend \<Rightarrow> 'b esxi \<Rightarrow> esxi_host \<Rightarrow> int \<Rightarrow> node_state" where
  "hostNodeState B p h now = (let n = normalizeHost B p h in
     \<lparr>NodeID = host_ID n, node_State = host_State n, node_Message = [], node_VMCount = host_VMCount n,
      node_UpdatedAt = Some now\<rparr>)"

definition GetClusterTopology :: "'b vsphere_backend \<Rightarrow> 'b esxi \<Rightarrow> string \<Rightarrow> int \<Rightarrow> verror + topology" where
  "GetClusterTopology B p clusterID now =
     (if \<not> Has (hp_caps p) CapClusterTopology then Inl ErrUnsupported
      else (case eb_getCluster B (backend p) clusterID of None \<Rightarrow> Inl ErrNotFound
        | Some cl \<Rightarrow> Inr \<lparr>top_ClusterID = clusterID,
            Nodes = List.map_filter (\<lambda>hid. map_option (\<lambda>h. hostNodeState B p h now)
                      (eb_getHost B (backend p) hid)) (ec_HostIDs cl),
            Placement = fold (\<lambda>v m. if em_ClusterID v = clusterID then put m (em_MoRef v) (em_HostRef v) else m)
                          (eb_listVMs B (backend p)) []\<rparr>))"

definition NodeState :: "'b vsphere_backend \<Rightarrow> 'b esxi \<Rightarrow> string \<Rightarrow> int \<Rightarrow> verror + node_state" where
  "NodeState B p nodeID now =
     (if \<not> Has (hp_caps p) CapNodeState then Inl ErrUnsupported
      else (case eb_getHost B (backend p) nodeID of None \<Rightarrow> Inl ErrNotFound
            | Some h \<Rightarrow> Inr (hostNodeState B p h now)))"

definition GetMetrics :: "'b vsphere_backend \<Rightarrow> 'b esxi \<Rightarrow> string \<Rightarrow> metric_window \<Rightarrow> int \<Rightarrow> verror + metric_series" where
  "GetMetrics B p entityID window now =
     (if \<not> Has (hp_caps p) CapMetrics then Inl ErrUnsupported
      else if eb_getVM B (backend p) entityID = None \<and> eb_getHost B (backend p) entityID = None
        then Inl ErrNotFound
      else Inr \<lparr>EntityID = entityID, Samples = fixture_samples window now 20 (\<lambda>i. 12 + i * 6)
                  (push_bit 30 4) 2000 1300 8192 16384\<rparr>)"

text \<open>The events of \<open>StreamEvents\<close>, each the kind, the entity and the message.\<close>

definition StreamEvents :: "'b vsphere_backend \<Rightarrow> 'b esxi \<Rightarrow> verror + (string \<times> string \<times> string) list" where
  "StreamEvents B p =
     (if \<not> Has (hp_caps p) CapEvents then Inl ErrUnsupported
      else (let vs = eb_listVMs B (backend p) in
        if vs = [] then Inr [(''alert'', [], ''event stream established (no VMs)'')]
        else Inr (map (\<lambda>m. let v = normalizeVM B p m in
               (''vm.state'', vm_ID v, vm_Name v @ '' is '' @ vm_State v)) vs)))"

subsection \<open>The provider behind the seam\<close>

primrec vm_method :: "'b vsphere_backend \<Rightarrow> 'b esxi \<Rightarrow> vm_call \<Rightarrow> int \<Rightarrow> 'b esxi \<times> task_result" where
  "vm_method B p (CallPower i op) now = PowerOp B p i op now"
| "vm_method B p (CallCreate spec) now = CreateVM B p spec now"
| "vm_method B p (CallReconfigure i spec) now = ReconfigureVM B p i spec now"
| "vm_method B p (CallDelete i opts) now = DeleteVM B p i opts now"
| "vm_method B p (CallSnapshot i opts) now = Snapshot B p i opts now"
| "vm_method B p (CallRevert i s) now = RevertSnapshot B p i s now"
| "vm_method B p (CallClone i spec) now = Clone B p i spec now"
| "vm_method B p (CallMigrate i h opts) now = MigrateVM B p i h opts now"

text \<open>The type implements none of the optional interfaces.\<close>

definition esxi_hv :: "'b vsphere_backend \<Rightarrow> 'b esxi vm_hv" where
  "esxi_hv B = \<lparr>vp_Kind = hp_kind, vp_Capabilities = hp_caps, vp_ListVMs = ListVMs B, vp_GetVM = GetVM B,
     vp_ListSnapshots = ListSnapshots B, vp_GetMetrics = GetMetrics B, vp_ListHosts = ListHosts B,
     vp_ListStorage = ListStorage B, vp_ListNetworks = ListNetworks B, vp_ListClusters = ListClusters B,
     vp_GetClusterTopology = GetClusterTopology B, vp_call = vm_method B, vp_implements = (\<lambda>_ _. False),
     vp_ext = (\<lambda>p _ _. (p, Inl ErrUnsupported)), vp_Console = (\<lambda>_ _. Inl ErrUnsupported),
     vp_ListVolumes = (\<lambda>_ _. Inl ErrUnsupported), vp_UploadISO = (\<lambda>p _ _ _ _. (p, Inl ErrUnsupported)),
     vp_GuestInfo = (\<lambda>_ _. Inl ErrUnsupported)\<rparr>"

subsection \<open>The in-memory backend\<close>

record sim_backend = "esxi_vm mem" +
  sb_hosts :: "(string \<times> esxi_host) list"
  sb_clusters :: "(string \<times> esxi_cluster) list"
  sb_datastores :: "esxi_datastore list"
  sb_networks :: "esxi_network list"

definition simVersion :: string where
  "simVersion = ''VMware vCenter Server 8.0.2 / ESXi 8.0.2''"

definition seed_host :: "string \<Rightarrow> string \<Rightarrow> int \<Rightarrow> esxi_host" where
  "seed_host ref name used = \<lparr>eh_MoRef = ref, eh_Name = name, eh_ClusterID = ''domain-c7'',
     eh_ConnectionState = ''connected'', eh_InMaintenance = False, eh_NumCPUCores = 24, eh_CPUMHz = 2900,
     eh_MemoryBytes = 256 * bytesPerGB, eh_MemUsedMB = used, eh_Version = simVersion\<rparr>"

definition seed_vm :: "nat \<Rightarrow> string \<Rightarrow> string \<Rightarrow> esxi_vm" where
  "seed_vm i st host = (let n = itoa (int i + 1); ref = ''vm-'' @ itoa (100 + int i + 1) in
     \<lparr>em_MoRef = ref, em_Name = ''vsphere-vm-'' @ n, em_Power = st, em_HostRef = host,
      em_ClusterID = ''domain-c7'', em_NumCPU = 4, em_MemoryMB = 8192, em_GuestID = ''ubuntu64Guest'',
      em_Firmware = ''uefi'',
      em_Disks = [\<lparr>ed_Key = 0, ed_Label = ''Hard disk 1'',
        ed_VMDKPath = ''[datastore1] '' @ ref @ ''/'' @ ref @ ''.vmdk'', ed_DatastoreID = ''datastore-1'',
        ed_CapacityKB = 60 * bytesPerGB div 1024\<rparr>],
      em_NICs = [\<lparr>en_Key = 0, en_MAC = ''00:50:56:9a:00:0'' @ n, en_PortgroupID = ''network-1'',
        en_AdapterType = ''vmxnet3'', en_Connected = True\<rparr>],
      em_GuestIPs = [''10.0.0.1'' @ n], em_Labels = [], em_Protected = False, em_Created = 1700000000\<rparr>)"

definition seed_vms :: "esxi_vm list" where
  "seed_vms = [seed_vm 0 powerOn ''host-11'', seed_vm 1 powerOn ''host-11'', seed_vm 2 powerOff ''host-12'']"

definition newSimBackend :: sim_backend where
  "newSimBackend = \<lparr>mem_closed = False, mem_vms = map (\<lambda>v. (em_MoRef v, v)) seed_vms, mem_snapshots = [],
     mem_order = map em_MoRef seed_vms,
     sb_hosts = [(''host-11'', seed_host ''host-11'' ''esxi-11.lab.local'' 65536),
                 (''host-12'', seed_host ''host-12'' ''esxi-12.lab.local'' 32768)],
     sb_clusters = [(''domain-c7'', \<lparr>ec_MoRef = ''domain-c7'', ec_Name = ''vsphere-cluster'',
       ec_HostIDs = [''host-11'', ''host-12''], ec_HA = True, ec_DRS = True\<rparr>)],
     sb_datastores = [\<lparr>es_MoRef = ''datastore-1'', es_Name = ''datastore1'', es_Type = ''VMFS'',
       es_CapacityBytes = 4096 * bytesPerGB, es_FreeBytes = 3072 * bytesPerGB,
       es_HostIDs = [''host-11'', ''host-12''], es_Accessible = True\<rparr>],
     sb_networks = [\<lparr>et_MoRef = ''network-1'', et_Name = ''VM Network'', et_Type = ''portgroup'', et_VLAN = 0\<rparr>]\<rparr>"

definition sim_createVM :: "sim_backend \<Rightarrow> esxi_vm \<Rightarrow> sim_backend" where
  "sim_createVM b v = mem_define b (em_MoRef v) v"

definition setPower :: "sim_backend \<Rightarrow> string \<Rightarrow> string \<Rightarrow> sim_backend" where
  "setPower b ref s = mem_write b ref (\<lambda>v. v\<lparr>em_Power := s\<rparr>)"

definition vmsOnHost :: "sim_backend \<Rightarrow> string \<Rightarrow> int" where
  "vmsOnHost b h = mem_count (\<lambda>v. em_HostRef v = h) b"

definition simBackend :: "sim_backend vsphere_backend" where
  "simBackend = \<lparr>eb_version = (\<lambda>_. simVersion), eb_healthy = (\<lambda>b. \<not> mem_closed b),
     eb_close = (\<lambda>b. b\<lparr>mem_closed := True\<rparr>), eb_listHosts = (\<lambda>b. map snd (sb_hosts b)),
     eb_getHost = (\<lambda>b. map_of (sb_hosts b)), eb_listVMs = mem_list, eb_getVM = mem_get,
     eb_writeVM = mem_write, eb_listClusters = (\<lambda>b. map snd (sb_clusters b)),
     eb_getCluster = (\<lambda>b. map_of (sb_clusters b)), eb_listDatastores = sb_datastores,
     eb_listNetworks = sb_networks, eb_createVM = sim_createVM, eb_destroyVM = mem_remove,
     eb_setPower = setPower, eb_vmsOnHost = vmsOnHost, eb_listSnapshots = mem_snaps,
     eb_createSnapshot = mem_push_snap, eb_setCurrentSnapshot = mem_mark_snap, eb_export = None\<rparr>"

definition sim_esxi :: "string \<Rightarrow> sim_backend esxi" where
  "sim_esxi i = New i FullCaps newSimBackend"

end
