(* ===== verification/Hyperv.thy ===== *)
theory Hyperv
  imports Hv_Seam Json
begin

text \<open>
  The Hyper-V provider, \<open>server/internal/vprovider/hyperv\<close>: \<open>provider.go\<close>, the normalization of \<open>hyperv.go\<close>
  and the in-memory backend (\<open>sim_backend.go\<close>), in the shape of the Xen provider. \<open>hb_isLive\<close> tells the
  WMI backend apart, \<open>hb_liveExport\<close> is the export hook that its build sets.
\<close>


subsection \<open>The data of WMI\<close>

definition enabledRunning :: int where "enabledRunning = 2"
definition enabledStopped :: int where "enabledStopped = 3"
definition enabledPaused :: int where "enabledPaused = 9"
definition enabledStarting :: int where "enabledStarting = 32768"
definition enabledSaved :: int where "enabledSaved = 32769"
definition enabledStopping :: int where "enabledStopping = 32770"
definition enabledPausing :: int where "enabledPausing = 32771"
definition enabledResuming :: int where "enabledResuming = 32773"

text \<open>Every branch of \<open>raw\<close> is the decimal number.\<close>

definition state_raw :: "int \<Rightarrow> string" where "state_raw s = itoa s"

definition normalizeState :: "int \<Rightarrow> string" where
  "normalizeState s =
     (if s = enabledRunning then StateRunning
      else if s = enabledStopped then StateStopped
      else if s = enabledSaved then StateSuspended
      else if s = enabledPaused \<or> s = enabledPausing then ''paused''
      else if s = enabledStarting \<or> s = enabledResuming then StateRunning
      else if s = enabledStopping then StateStopped
      else ''unknown'')"

record hyperv_disk =
  hd_Index :: int
  hd_Label :: string
  hd_Path :: string
  hd_StorageID :: string
  hd_Format :: string
  hd_SizeBytes :: int

record hyperv_nic =
  hn_Index :: int
  hn_MAC :: string
  hn_SwitchID :: string
  hn_Connected :: bool

record hyperv_vm =
  hm_VMID :: string
  hm_Name :: string
  hm_State :: int
  hm_HostID :: string
  hm_ClusterID :: string
  hm_VCPUs :: int
  hm_MemoryMB :: int
  hm_GuestOS :: string
  hm_Firmware :: string
  hm_Generation :: int
  hm_Disks :: "hyperv_disk list"
  hm_NICs :: "hyperv_nic list"
  hm_GuestIPs :: "string list"
  hm_Labels :: "(string \<times> string) list"
  hm_Protected :: bool
  hm_Created :: int

record hyperv_host =
  hh_HostID :: string
  hh_Name :: string
  hh_ClusterID :: string
  hh_NodeState :: string
  hh_InMaintenance :: bool
  hh_CPUCores :: int
  hh_CPUMHz :: int
  hh_MemoryBytes :: int
  hh_MemUsedMB :: int
  hh_Version :: string

record hyperv_cluster =
  hc_ClusterID :: string
  hc_Name :: string
  hc_NodeIDs :: "string list"
  hc_HAEnabled :: bool

record hyperv_storage =
  hg_StorageID :: string
  hg_Name :: string
  hg_Type :: string
  hg_Path :: string
  hg_CapacityBytes :: int
  hg_FreeBytes :: int
  hg_HostIDs :: "string list"
  hg_Accessible :: bool

record hyperv_switch =
  hw_SwitchID :: string
  hw_Name :: string
  hw_Type :: string
  hw_VLAN :: int

subsection \<open>The provider and its backends\<close>

record 'b hyperv = prov +
  backend :: 'b

record 'b wmi_backend =
  hb_version :: "'b \<Rightarrow> string"
  hb_healthy :: "'b \<Rightarrow> bool"
  hb_close :: "'b \<Rightarrow> 'b"
  hb_listHosts :: "'b \<Rightarrow> hyperv_host list"
  hb_getHost :: "'b \<Rightarrow> string \<Rightarrow> hyperv_host option"
  hb_listVMs :: "'b \<Rightarrow> hyperv_vm list"
  hb_getVM :: "'b \<Rightarrow> string \<Rightarrow> hyperv_vm option"
  hb_writeVM :: "'b \<Rightarrow> string \<Rightarrow> (hyperv_vm \<Rightarrow> hyperv_vm) \<Rightarrow> 'b"
  hb_listClusters :: "'b \<Rightarrow> hyperv_cluster list"
  hb_getCluster :: "'b \<Rightarrow> string \<Rightarrow> hyperv_cluster option"
  hb_listStorage :: "'b \<Rightarrow> hyperv_storage list"
  hb_listSwitches :: "'b \<Rightarrow> hyperv_switch list"
  hb_createVM :: "'b \<Rightarrow> hyperv_vm \<Rightarrow> 'b"
  hb_destroyVM :: "'b \<Rightarrow> string \<Rightarrow> 'b"
  hb_setState :: "'b \<Rightarrow> string \<Rightarrow> int \<Rightarrow> 'b"
  hb_vmsOnHost :: "'b \<Rightarrow> string \<Rightarrow> int"
  hb_listSnapshots :: "'b \<Rightarrow> string \<Rightarrow> snapshot list"
  hb_createSnapshot :: "'b \<Rightarrow> string \<Rightarrow> snapshot \<Rightarrow> 'b"
  hb_setCurrentSnapshot :: "'b \<Rightarrow> string \<Rightarrow> string \<Rightarrow> 'b \<times> bool"
  hb_isLive :: "'b \<Rightarrow> bool"
  hb_liveExport :: "('b hyperv \<Rightarrow> hyperv_vm \<Rightarrow> string \<Rightarrow> verror + (string \<times> export_info)) option"

text \<open>\<open>New\<close> with the options \<open>WithCaps\<close> and \<open>WithBackend\<close>.\<close>

definition New :: "string \<Rightarrow> caps \<Rightarrow> 'b \<Rightarrow> 'b hyperv" where
  "New i caps b = \<lparr>hp_id = i, hp_kind = ''hyperv'', hp_caps = caps, hp_clusterID = [],
     hp_tracker = [], hp_seq = 0, hp_closed = False, backend = b\<rparr>"

definition FullCaps :: caps where
  "FullCaps = fold (OR)
    [CapListHosts, CapListVMs, CapGetVM, CapListClusters, CapListStorage, CapListNetworks,
     CapCreateVM, CapPowerStart, CapPowerStop, CapPowerReset, CapPowerSuspend, CapDeleteVM,
     CapReconfigureVM, CapSnapshot, CapRevertSnapshot, CapClone, CapMigrate, CapExport,
     CapClusterTopology, CapNodeState, CapMetrics, CapEvents] 0"

definition write_vm :: "'b wmi_backend \<Rightarrow> 'b hyperv \<Rightarrow> string \<Rightarrow> (hyperv_vm \<Rightarrow> hyperv_vm) \<Rightarrow> 'b hyperv" where
  "write_vm B p i f = p\<lparr>backend := hb_writeVM B (backend p) i f\<rparr>"

subsection \<open>Normalization\<close>

definition normalizeFirmware :: "hyperv_vm \<Rightarrow> string" where
  "normalizeFirmware v = (if hm_Firmware v \<noteq> [] then hm_Firmware v
     else if hm_Generation v \<ge> 2 then ''uefi'' else ''bios'')"

definition diskFormatOrDefault :: "string \<Rightarrow> string" where
  "diskFormatOrDefault f = (if f = [] then ''vhdx'' else f)"

definition normalizeVM :: "'b wmi_backend \<Rightarrow> 'b hyperv \<Rightarrow> hyperv_vm \<Rightarrow> vm" where
  "normalizeVM B p v =
     \<lparr>vm_ID = hm_VMID v, vm_Name = hm_Name v, vm_Kind = hp_kind p, vm_ProviderID = hp_id p,
      vm_HostID = hm_HostID v, vm_ClusterID = hm_ClusterID v,
      vm_State = normalizeState (hm_State v), vm_StateRaw = state_raw (hm_State v),
      vm_VCPUs = hm_VCPUs v, vm_MemoryMB = hm_MemoryMB v,
      vm_GuestOS = hm_GuestOS v, vm_Firmware = normalizeFirmware v,
      vm_Disks = map (\<lambda>d. \<lparr>dk_ID = hm_VMID v @ ''-disk-'' @ itoa (hd_Index d), dk_Label = hd_Label d,
          dk_Format = diskFormatOrDefault (hd_Format d), dk_CapacityGB = gb_of_bytes (hd_SizeBytes d),
          dk_StorageID = hd_StorageID d, dk_Path = hd_Path d\<rparr>) (hm_Disks v),
      vm_NICs = map (\<lambda>n. \<lparr>nic_ID = hm_VMID v @ ''-nic-'' @ itoa (hn_Index n), nic_MAC = hn_MAC n,
          nic_NetworkID = hn_SwitchID n, nic_Model = ''synthetic'', nic_Connected = hn_Connected n\<rparr>)
          (hm_NICs v),
      vm_IPAddresses = hm_GuestIPs v, vm_Labels = hm_Labels v,
      vm_SnapshotCount = int (length (hb_listSnapshots B (backend p) (hm_VMID v))),
      vm_CreatedAt = (if hm_Created v > 0 then Some (hm_Created v * second) else None),
      vm_Protected = hm_Protected v\<rparr>"

definition normalizeNodeState :: "hyperv_host \<Rightarrow> string" where
  "normalizeNodeState h =
     (if hh_InMaintenance h then ''maintenance''
      else if hh_NodeState h = ''Up'' then ''up''
      else if hh_NodeState h = ''Down'' then ''down''
      else if hh_NodeState h = ''Paused'' then ''maintenance''
      else if hh_NodeState h = ''Joining'' then ''degraded''
      else ''unknown'')"

definition normalizeHost :: "'b wmi_backend \<Rightarrow> 'b hyperv \<Rightarrow> hyperv_host \<Rightarrow> vhost" where
  "normalizeHost B p h = \<lparr>host_ID = hh_HostID h, host_Name = hh_Name h, host_Kind = hp_kind p,
     host_ProviderID = hp_id p, host_ClusterID = hh_ClusterID h, host_State = normalizeNodeState h,
     CPUCores = hh_CPUCores h, CPUMHz = hh_CPUMHz h, MemoryMB = go_div (hh_MemoryBytes h) (2 ^ 20),
     MemUsedMB = hh_MemUsedMB h, host_VMCount = hb_vmsOnHost B (backend p) (hh_HostID h),
     host_Version = hh_Version h, host_Labels = []\<rparr>"

definition normalizeCluster :: "'b hyperv \<Rightarrow> hyperv_cluster \<Rightarrow> cluster" where
  "normalizeCluster p c = \<lparr>cl_ID = hc_ClusterID c, cl_Name = hc_Name c, cl_Kind = hp_kind p,
     cl_ProviderID = hp_id p, cl_HostIDs = hc_NodeIDs c, HAEnabled = hc_HAEnabled c, DRSEnabled = False\<rparr>"

definition normalizeStorage :: "'b hyperv \<Rightarrow> hyperv_storage \<Rightarrow> storage_pool" where
  "normalizeStorage p d = \<lparr>sp_ID = hg_StorageID d, sp_Name = hg_Name d, sp_Kind = hp_kind p,
     sp_ProviderID = hp_id p, sp_Type = hg_Type d, CapacityGB = gb_of_bytes (hg_CapacityBytes d),
     FreeGB = gb_of_bytes (hg_FreeBytes d), sp_HostIDs = hg_HostIDs d, Accessible = hg_Accessible d\<rparr>"

definition normalizeSwitch :: "'b hyperv \<Rightarrow> hyperv_switch \<Rightarrow> network" where
  "normalizeSwitch p n = \<lparr>net_ID = hw_SwitchID n, net_Name = hw_Name n, net_Kind = hp_kind p,
     net_ProviderID = hp_id p, net_Type = hw_Type n, net_VLAN = hw_VLAN n\<rparr>"

subsection \<open>Health and inventory\<close>

definition HealthCheck :: "'b wmi_backend \<Rightarrow> 'b hyperv \<Rightarrow> int \<Rightarrow> health_status" where
  "HealthCheck B p now =
     (if hp_closed p \<or> \<not> hb_healthy B (backend p)
      then \<lparr>Healthy = False, hs_Message = ''Hyper-V WMI connection unavailable'', hs_Version = [], CheckedAt = now\<rparr>
      else \<lparr>Healthy = True, hs_Message = [], hs_Version = hb_version B (backend p), CheckedAt = now\<rparr>)"

definition Close :: "'b wmi_backend \<Rightarrow> 'b hyperv \<Rightarrow> 'b hyperv" where
  "Close B p = (if hp_closed p then p else p\<lparr>hp_closed := True, backend := hb_close B (backend p)\<rparr>)"

definition ListHosts :: "'b wmi_backend \<Rightarrow> 'b hyperv \<Rightarrow> verror + vhost list" where
  "ListHosts B p = (if \<not> Has (hp_caps p) CapListHosts then Inl ErrUnsupported
     else Inr (map (normalizeHost B p) (hb_listHosts B (backend p))))"

definition ListVMs :: "'b wmi_backend \<Rightarrow> 'b hyperv \<Rightarrow> list_options \<Rightarrow> verror + vm list" where
  "ListVMs B p opts = (if \<not> Has (hp_caps p) CapListVMs then Inl ErrUnsupported
     else Inr (filter (vm_listed opts) (map (normalizeVM B p) (hb_listVMs B (backend p)))))"

definition GetVM :: "'b wmi_backend \<Rightarrow> 'b hyperv \<Rightarrow> string \<Rightarrow> verror + vm_detail" where
  "GetVM B p i = (if \<not> Has (hp_caps p) CapGetVM then Inl ErrUnsupported
     else (case hb_getVM B (backend p) i of None \<Rightarrow> Inl ErrNotFound
       | Some v \<Rightarrow> Inr \<lparr>detail_VM = normalizeVM B p v,
           Raw = json_enc (JObj [(''ClusterName'', JStr (hm_ClusterID v)), (''ElementName'', JStr (hm_Name v)),
             (''EnabledState'', JNum (hm_State v)), (''Generation'', JNum (hm_Generation v)),
             (''GuestOS'', JStr (hm_GuestOS v)), (''HostName'', JStr (hm_HostID v)),
             (''MemoryMB'', JNum (hm_MemoryMB v)), (''Name'', JStr (hm_VMID v)),
             (''VirtualQuantityCPU'', JNum (hm_VCPUs v)), (''__class'', JStr ''Msvm_ComputerSystem'')])\<rparr>))"

definition ListClusters :: "'b wmi_backend \<Rightarrow> 'b hyperv \<Rightarrow> verror + cluster list" where
  "ListClusters B p = (if \<not> Has (hp_caps p) CapListClusters then Inl ErrUnsupported
     else Inr (map (normalizeCluster p) (hb_listClusters B (backend p))))"

definition ListStorage :: "'b wmi_backend \<Rightarrow> 'b hyperv \<Rightarrow> verror + storage_pool list" where
  "ListStorage B p = (if \<not> Has (hp_caps p) CapListStorage then Inl ErrUnsupported
     else Inr (map (normalizeStorage p) (hb_listStorage B (backend p))))"

definition ListNetworks :: "'b wmi_backend \<Rightarrow> 'b hyperv \<Rightarrow> verror + network list" where
  "ListNetworks B p = (if \<not> Has (hp_caps p) CapListNetworks then Inl ErrUnsupported
     else Inr (map (normalizeSwitch p) (hb_listSwitches B (backend p))))"

subsection \<open>Lifecycle\<close>

definition backslash :: string where "backslash = [CHR 0x5C]"

definition csvOrDefault :: "string \<Rightarrow> string" where
  "csvOrDefault i = (if i = [] then ''C:'' @ backslash @ ''ClusterStorage'' @ backslash @ ''Volume1'' else i)"

text \<open>A disk with the number \<open>n\<close> whose file is named after the machine and \<open>tag\<close>.\<close>

definition spec_disk :: "string \<Rightarrow> nat \<Rightarrow> string \<Rightarrow> disk_spec \<Rightarrow> hyperv_disk" where
  "spec_disk name n tag d = \<lparr>hd_Index = int n, hd_Label = ''Hard Drive '' @ itoa (int n),
     hd_Path = csvOrDefault (ds_StorageID d) @ backslash @ name @ backslash @ name @ ''_'' @ tag @ ''.vhdx'',
     hd_StorageID = ds_StorageID d, hd_Format = diskFormatOrDefault (ds_Format d),
     hd_SizeBytes = bytes_of_gb (ds_CapacityGB d)\<rparr>"

definition spec_nic :: "nat \<Rightarrow> nic_spec \<Rightarrow> hyperv_nic" where
  "spec_nic n s = \<lparr>hn_Index = int n, hn_MAC = ns_MAC s, hn_SwitchID = ns_NetworkID s, hn_Connected = True\<rparr>"

definition spec_vm :: "vm_spec \<Rightarrow> string \<Rightarrow> int \<Rightarrow> hyperv_vm" where
  "spec_vm spec ref now =
     \<lparr>hm_VMID = ref, hm_Name = vs_Name spec, hm_State = enabledStopped, hm_HostID = vs_HostID spec,
      hm_ClusterID = vs_ClusterID spec, hm_VCPUs = vs_VCPUs spec, hm_MemoryMB = vs_MemoryMB spec,
      hm_GuestOS = vs_GuestOS spec, hm_Firmware = vs_Firmware spec,
      hm_Generation = (if vs_Firmware spec = ''uefi'' \<or> vs_Firmware spec = [] then 2 else 1),
      hm_Disks = map (\<lambda>(i, d). spec_disk (vs_Name spec) i (itoa (int i)) d) (enumerate 0 (vs_Disks spec)),
      hm_NICs = map (\<lambda>(i, n). spec_nic i n) (enumerate 0 (vs_NICs spec)),
      hm_GuestIPs = [], hm_Labels = vs_Labels spec, hm_Protected = False, hm_Created = now div second\<rparr>"

definition CreateVM :: "'b wmi_backend \<Rightarrow> 'b hyperv \<Rightarrow> vm_spec \<Rightarrow> int \<Rightarrow> 'b hyperv \<times> task_result" where
  "CreateVM B p spec now =
     (if \<not> Has (hp_caps p) CapCreateVM then (p, Inl ErrUnsupported)
      else if trim_space (vs_Name spec) = [] \<or> vs_VCPUs spec \<le> 0 \<or> vs_MemoryMB spec \<le> 0
        then (p, Inl ErrInvalidSpec)
      else (case nextID p ''vm'' of (p1, ref) \<Rightarrow>
        done_task (p1\<lparr>backend := hb_createVM B (backend p1) (spec_vm spec ref now)\<rparr>) ''createVM'' ref now))"

definition power_target :: "string \<Rightarrow> int option" where
  "power_target op =
     (if op = ''start'' \<or> op = ''resume'' \<or> op = ''reset'' then Some enabledRunning
      else if op = ''stop'' then Some enabledStopped
      else if op = ''suspend'' then Some enabledSaved else None)"

definition PowerOp :: "'b wmi_backend \<Rightarrow> 'b hyperv \<Rightarrow> string \<Rightarrow> string \<Rightarrow> int \<Rightarrow> 'b hyperv \<times> task_result" where
  "PowerOp B p vmID op now =
     (if \<not> PowerOp_Valid op then (p, Inl ErrInvalidSpec)
      else if \<not> Has (hp_caps p) (PowerOpCapability op) then (p, Inl ErrUnsupported)
      else if hb_getVM B (backend p) vmID = None then (p, Inl ErrNotFound)
      else done_task (case power_target op of None \<Rightarrow> p
             | Some s \<Rightarrow> p\<lparr>backend := hb_setState B (backend p) vmID s\<rparr>) ''powerOp'' vmID now)"

definition DeleteVM :: "'b wmi_backend \<Rightarrow> 'b hyperv \<Rightarrow> string \<Rightarrow> delete_options \<Rightarrow> int \<Rightarrow> 'b hyperv \<times> task_result" where
  "DeleteVM B p vmID opts now =
     (if \<not> Has (hp_caps p) CapDeleteVM then (p, Inl ErrUnsupported)
      else (case hb_getVM B (backend p) vmID of None \<Rightarrow> (p, Inl ErrNotFound)
        | Some v \<Rightarrow>
          if hm_Protected v then (p, Inl ErrConflict)
          else if normalizeState (hm_State v) = StateRunning \<and> \<not> Force opts then (p, Inl ErrConflict)
          else (let b = (if normalizeState (hm_State v) = StateRunning \<and> Force opts
                         then hb_setState B (backend p) vmID enabledStopped else backend p)
                in done_task (p\<lparr>backend := hb_destroyVM B b vmID\<rparr>) ''deleteVM'' vmID now)))"

text \<open>The number of an added device counts the devices there are and its index in the request; the
  file of an added disk is named after the index alone.\<close>

primrec append_disks :: "string \<Rightarrow> nat \<Rightarrow> disk_spec list \<Rightarrow> hyperv_disk list \<Rightarrow> hyperv_disk list" where
  "append_disks name i [] ds = ds"
| "append_disks name i (s # ss) ds =
     append_disks name (Suc i) ss (ds @ [spec_disk name (length ds + i) (''add'' @ itoa (int i)) s])"

primrec append_nics :: "nat \<Rightarrow> nic_spec list \<Rightarrow> hyperv_nic list \<Rightarrow> hyperv_nic list" where
  "append_nics i [] ns = ns"
| "append_nics i (s # ss) ns = append_nics (Suc i) ss (ns @ [spec_nic (length ns + i) s])"

definition with_devices :: "reconfigure_spec \<Rightarrow> hyperv_vm \<Rightarrow> hyperv_vm" where
  "with_devices spec v = v\<lparr>hm_Disks := append_disks (hm_Name v) 0 (AddDisks spec) (hm_Disks v),
     hm_NICs := append_nics 0 (AddNICs spec) (hm_NICs v),
     hm_Labels := put_all (hm_Labels v) (rs_Labels spec)\<rparr>"

text \<open>The number of processors is written before the memory is checked.\<close>

definition ReconfigureVM ::
  "'b wmi_backend \<Rightarrow> 'b hyperv \<Rightarrow> string \<Rightarrow> reconfigure_spec \<Rightarrow> int \<Rightarrow> 'b hyperv \<times> task_result" where
  "ReconfigureVM B p vmID spec now =
     (if \<not> Has (hp_caps p) CapReconfigureVM then (p, Inl ErrUnsupported)
      else if hb_getVM B (backend p) vmID = None then (p, Inl ErrNotFound)
      else if (case rs_VCPUs spec of None \<Rightarrow> False | Some n \<Rightarrow> n \<le> 0) then (p, Inl ErrInvalidSpec)
      else (let p1 = (case rs_VCPUs spec of None \<Rightarrow> p
                      | Some n \<Rightarrow> write_vm B p vmID (\<lambda>v. v\<lparr>hm_VCPUs := n\<rparr>))
            in if (case rs_MemoryMB spec of None \<Rightarrow> False | Some m \<Rightarrow> m \<le> 0) then (p1, Inl ErrInvalidSpec)
               else (let p2 = (case rs_MemoryMB spec of None \<Rightarrow> p1
                        | Some m \<Rightarrow> write_vm B p1 vmID (\<lambda>v. v\<lparr>hm_MemoryMB := m\<rparr>))
                     in done_task (write_vm B p2 vmID (with_devices spec)) ''reconfigureVM'' vmID now)))"

subsection \<open>Snapshots and clones\<close>

definition Snapshot :: "'b wmi_backend \<Rightarrow> 'b hyperv \<Rightarrow> string \<Rightarrow> snapshot_options \<Rightarrow> int \<Rightarrow> 'b hyperv \<times> task_result" where
  "Snapshot B p vmID opts now =
     (if \<not> Has (hp_caps p) CapSnapshot then (p, Inl ErrUnsupported)
      else if hb_getVM B (backend p) vmID = None then (p, Inl ErrNotFound)
      else (case nextID p ''checkpoint'' of (p1, i) \<Rightarrow>
        done_task (p1\<lparr>backend := hb_createSnapshot B (backend p1) vmID
          \<lparr>snap_ID = i, snap_VMID = vmID, snap_Name = so_Name opts, snap_Description = so_Description opts,
           snap_ParentID = [], HasMemory = so_Memory opts, IsCurrent = True, snap_CreatedAt = Some now\<rparr>\<rparr>)
          ''snapshot'' vmID now))"

definition RevertSnapshot :: "'b wmi_backend \<Rightarrow> 'b hyperv \<Rightarrow> string \<Rightarrow> string \<Rightarrow> int \<Rightarrow> 'b hyperv \<times> task_result" where
  "RevertSnapshot B p vmID snapID now =
     (if \<not> Has (hp_caps p) CapRevertSnapshot then (p, Inl ErrUnsupported)
      else if hb_getVM B (backend p) vmID = None then (p, Inl ErrNotFound)
      else (case hb_setCurrentSnapshot B (backend p) vmID snapID of (b, found) \<Rightarrow>
              if \<not> found then (p\<lparr>backend := b\<rparr>, Inl ErrNotFound)
              else done_task (p\<lparr>backend := b\<rparr>) ''revertSnapshot'' vmID now))"

definition ListSnapshots :: "'b wmi_backend \<Rightarrow> 'b hyperv \<Rightarrow> string \<Rightarrow> verror + snapshot list" where
  "ListSnapshots B p vmID =
     (if \<not> Has (hp_caps p) CapSnapshot then Inl ErrUnsupported
      else if hb_getVM B (backend p) vmID = None then Inl ErrNotFound
      else Inr (hb_listSnapshots B (backend p) vmID))"

definition cloned :: "hyperv_vm \<Rightarrow> clone_spec \<Rightarrow> string \<Rightarrow> hyperv_vm" where
  "cloned src spec ref = src\<lparr>hm_VMID := ref, hm_Name := cs_Name spec, hm_Protected := False,
     hm_State := (if PowerOn spec then enabledRunning else enabledStopped),
     hm_HostID := (if cs_HostID spec \<noteq> [] then cs_HostID spec else hm_HostID src)\<rparr>"

definition Clone :: "'b wmi_backend \<Rightarrow> 'b hyperv \<Rightarrow> string \<Rightarrow> clone_spec \<Rightarrow> int \<Rightarrow> 'b hyperv \<times> task_result" where
  "Clone B p vmID spec now =
     (if \<not> Has (hp_caps p) CapClone then (p, Inl ErrUnsupported)
      else (case hb_getVM B (backend p) vmID of None \<Rightarrow> (p, Inl ErrNotFound)
        | Some src \<Rightarrow>
          if trim_space (cs_Name spec) = [] then (p, Inl ErrInvalidSpec)
          else (case nextID p ''vm'' of (p1, ref) \<Rightarrow>
            done_task (p1\<lparr>backend := hb_createVM B (backend p1) (cloned src spec ref)\<rparr>) ''clone'' ref now)))"

subsection \<open>Migration between hosts, export\<close>

definition MigrateVM ::
  "'b wmi_backend \<Rightarrow> 'b hyperv \<Rightarrow> string \<Rightarrow> string \<Rightarrow> migrate_options \<Rightarrow> int \<Rightarrow> 'b hyperv \<times> task_result" where
  "MigrateVM B p vmID targetHost opts now =
     (if \<not> Has (hp_caps p) CapMigrate then (p, Inl ErrUnsupported)
      else if hb_getVM B (backend p) vmID = None then (p, Inl ErrNotFound)
      else if hb_getHost B (backend p) targetHost = None then (p, Inl ErrInvalidSpec)
      else done_task (write_vm B p vmID (\<lambda>v. v\<lparr>hm_HostID := targetHost\<rparr>)) ''migrate'' vmID now)"

definition ExportVM :: "'b wmi_backend \<Rightarrow> 'b hyperv \<Rightarrow> string \<Rightarrow> string \<Rightarrow> verror + (string \<times> export_info)" where
  "ExportVM B p vmID format =
     (if \<not> Has (hp_caps p) CapExport then Inl ErrUnsupported
      else if \<not> DiskFormat_Valid format then Inl ErrInvalidSpec
      else (case hb_getVM B (backend p) vmID of None \<Rightarrow> Inl ErrNotFound
        | Some v \<Rightarrow>
          if hb_isLive B (backend p) then
            (case hb_liveExport B of None \<Rightarrow> Inl ErrUnsupported | Some ex \<Rightarrow> ex p v format)
          else
            (let payload = ''HYPERVEXPORT'' @ [CHR 0x00] @ ''provider='' @ hp_id p @ [CHR 0x00] @ ''vm='' @ vmID
                   @ [CHR 0x00] @ ''format='' @ format @ [CHR 0x0A]
             in Inr (payload, \<lparr>ex_Format = format, SizeBytes = int (length payload),
                  DiskCount = int (length (hm_Disks v)), ex_SourceVMID = vmID, ex_GuestOS = hm_GuestOS v,
                  ex_Firmware = normalizeFirmware v\<rparr>))))"

subsection \<open>Clusters, nodes, metrics\<close>

definition hostNodeState :: "'b wmi_backend \<Rightarrow> 'b hyperv \<Rightarrow> hyperv_host \<Rightarrow> int \<Rightarrow> node_state" where
  "hostNodeState B p h now = (let n = normalizeHost B p h in
     \<lparr>NodeID = host_ID n, node_State = host_State n, node_Message = [], node_VMCount = host_VMCount n,
      node_UpdatedAt = Some now\<rparr>)"

definition GetClusterTopology :: "'b wmi_backend \<Rightarrow> 'b hyperv \<Rightarrow> string \<Rightarrow> int \<Rightarrow> verror + topology" where
  "GetClusterTopology B p clusterID now =
     (if \<not> Has (hp_caps p) CapClusterTopology then Inl ErrUnsupported
      else (case hb_getCluster B (backend p) clusterID of None \<Rightarrow> Inl ErrNotFound
        | Some cl \<Rightarrow> Inr \<lparr>top_ClusterID = clusterID,
            Nodes = List.map_filter (\<lambda>hid. map_option (\<lambda>h. hostNodeState B p h now)
                      (hb_getHost B (backend p) hid)) (hc_NodeIDs cl),
            Placement = fold (\<lambda>v m. if hm_ClusterID v = clusterID then put m (hm_VMID v) (hm_HostID v) else m)
                          (hb_listVMs B (backend p)) []\<rparr>))"

definition NodeState :: "'b wmi_backend \<Rightarrow> 'b hyperv \<Rightarrow> string \<Rightarrow> int \<Rightarrow> verror + node_state" where
  "NodeState B p nodeID now =
     (if \<not> Has (hp_caps p) CapNodeState then Inl ErrUnsupported
      else (case hb_getHost B (backend p) nodeID of None \<Rightarrow> Inl ErrNotFound
            | Some h \<Rightarrow> Inr (hostNodeState B p h now)))"

definition GetMetrics :: "'b wmi_backend \<Rightarrow> 'b hyperv \<Rightarrow> string \<Rightarrow> metric_window \<Rightarrow> int \<Rightarrow> verror + metric_series" where
  "GetMetrics B p entityID window now =
     (if \<not> Has (hp_caps p) CapMetrics then Inl ErrUnsupported
      else if hb_getVM B (backend p) entityID = None \<and> hb_getHost B (backend p) entityID = None
        then Inl ErrNotFound
      else Inr \<lparr>EntityID = entityID, Samples = fixture_samples window now 30 (\<lambda>i. 11 + i * 5)
                  (push_bit 30 4) 1500 1100 8192 12288\<rparr>)"

text \<open>The events of \<open>StreamEvents\<close>, each the kind, the entity and the message.\<close>

definition StreamEvents :: "'b wmi_backend \<Rightarrow> 'b hyperv \<Rightarrow> verror + (string \<times> string \<times> string) list" where
  "StreamEvents B p =
     (if \<not> Has (hp_caps p) CapEvents then Inl ErrUnsupported
      else (let vs = hb_listVMs B (backend p) in
        if vs = [] then Inr [(''alert'', [], ''event stream established (no VMs)'')]
        else Inr (map (\<lambda>m. let v = normalizeVM B p m in
               (''vm.state'', vm_ID v, vm_Name v @ '' is '' @ vm_State v)) vs)))"

subsection \<open>The provider behind the seam\<close>

primrec vm_method :: "'b wmi_backend \<Rightarrow> 'b hyperv \<Rightarrow> vm_call \<Rightarrow> int \<Rightarrow> 'b hyperv \<times> task_result" where
  "vm_method B p (CallPower i op) now = PowerOp B p i op now"
| "vm_method B p (CallCreate spec) now = CreateVM B p spec now"
| "vm_method B p (CallReconfigure i spec) now = ReconfigureVM B p i spec now"
| "vm_method B p (CallDelete i opts) now = DeleteVM B p i opts now"
| "vm_method B p (CallSnapshot i opts) now = Snapshot B p i opts now"
| "vm_method B p (CallRevert i s) now = RevertSnapshot B p i s now"
| "vm_method B p (CallClone i spec) now = Clone B p i spec now"
| "vm_method B p (CallMigrate i h opts) now = MigrateVM B p i h opts now"

text \<open>The type implements none of the optional interfaces.\<close>

definition hyperv_hv :: "'b wmi_backend \<Rightarrow> 'b hyperv vm_hv" where
  "hyperv_hv B = \<lparr>vp_Kind = hp_kind, vp_Capabilities = hp_caps, vp_ListVMs = ListVMs B, vp_GetVM = GetVM B,
     vp_ListSnapshots = ListSnapshots B, vp_GetMetrics = GetMetrics B, vp_ListHosts = ListHosts B,
     vp_ListStorage = ListStorage B, vp_ListNetworks = ListNetworks B, vp_ListClusters = ListClusters B,
     vp_GetClusterTopology = GetClusterTopology B, vp_call = vm_method B, vp_implements = (\<lambda>_ _. False),
     vp_ext = (\<lambda>p _ _. (p, Inl ErrUnsupported)), vp_Console = (\<lambda>_ _. Inl ErrUnsupported),
     vp_ListVolumes = (\<lambda>_ _. Inl ErrUnsupported), vp_UploadISO = (\<lambda>p _ _ _ _. (p, Inl ErrUnsupported)),
     vp_GuestInfo = (\<lambda>_ _. Inl ErrUnsupported)\<rparr>"

subsection \<open>The in-memory backend\<close>

record sim_backend = "hyperv_vm mem" +
  sb_hosts :: "(string \<times> hyperv_host) list"
  sb_clusters :: "(string \<times> hyperv_cluster) list"
  sb_storage :: "hyperv_storage list"
  sb_switches :: "hyperv_switch list"

definition simVersion :: string where
  "simVersion = ''Microsoft Hyper-V Server 2022 (10.0.20348) / WMI root'' @ backslash @ ''virtualization''
     @ backslash @ ''v2''"

definition seed_host :: "string \<Rightarrow> string \<Rightarrow> int \<Rightarrow> hyperv_host" where
  "seed_host i name used = \<lparr>hh_HostID = i, hh_Name = name, hh_ClusterID = ''cluster-1'',
     hh_NodeState = ''Up'', hh_InMaintenance = False, hh_CPUCores = 32, hh_CPUMHz = 3200,
     hh_MemoryBytes = 256 * bytesPerGB, hh_MemUsedMB = used, hh_Version = simVersion\<rparr>"

definition seed_vm :: "nat \<Rightarrow> int \<Rightarrow> string \<Rightarrow> int \<Rightarrow> hyperv_vm" where
  "seed_vm i st host gen = (let n = itoa (int i + 1); ref = ''5FD3F32E-0000-4000-8000-00000000000'' @ n in
     \<lparr>hm_VMID = ref, hm_Name = ''hyperv-vm-'' @ n, hm_State = st, hm_HostID = host,
      hm_ClusterID = ''cluster-1'', hm_VCPUs = 4, hm_MemoryMB = 8192, hm_GuestOS = ''Windows Server 2022'',
      hm_Firmware = [], hm_Generation = gen,
      hm_Disks = [\<lparr>hd_Index = 0, hd_Label = ''Hard Drive 0'',
        hd_Path = csvOrDefault [] @ backslash @ ref @ backslash @ ref @ ''.vhdx'', hd_StorageID = ''csv-1'',
        hd_Format = ''vhdx'', hd_SizeBytes = 60 * bytesPerGB\<rparr>],
      hm_NICs = [\<lparr>hn_Index = 0, hn_MAC = ''00:15:5D:00:00:0'' @ n, hn_SwitchID = ''switch-1'',
        hn_Connected = True\<rparr>],
      hm_GuestIPs = [''10.0.0.2'' @ n], hm_Labels = [], hm_Protected = False, hm_Created = 1700000000\<rparr>)"

definition seed_vms :: "hyperv_vm list" where
  "seed_vms = [seed_vm 0 enabledRunning ''node-1'' 2, seed_vm 1 enabledRunning ''node-1'' 2,
               seed_vm 2 enabledStopped ''node-2'' 1]"

definition newSimBackend :: sim_backend where
  "newSimBackend = \<lparr>mem_closed = False, mem_vms = map (\<lambda>v. (hm_VMID v, v)) seed_vms, mem_snapshots = [],
     mem_order = map hm_VMID seed_vms,
     sb_hosts = [(''node-1'', seed_host ''node-1'' ''HV-NODE-01'' 65536),
                 (''node-2'', seed_host ''node-2'' ''HV-NODE-02'' 49152)],
     sb_clusters = [(''cluster-1'', \<lparr>hc_ClusterID = ''cluster-1'', hc_Name = ''HV-FAILOVER-CL'',
       hc_NodeIDs = [''node-1'', ''node-2''], hc_HAEnabled = True\<rparr>)],
     sb_storage = [\<lparr>hg_StorageID = ''csv-1'', hg_Name = ''ClusterStorage Volume1'', hg_Type = ''csv'',
       hg_Path = csvOrDefault [], hg_CapacityBytes = 4096 * bytesPerGB, hg_FreeBytes = 3072 * bytesPerGB,
       hg_HostIDs = [''node-1'', ''node-2''], hg_Accessible = True\<rparr>,
       \<lparr>hg_StorageID = ''smb-1'', hg_Name = ''SMB3 hyperv_vm Store'', hg_Type = ''smb'',
       hg_Path = backslash @ backslash @ ''fileserver'' @ backslash @ ''vmstore'',
       hg_CapacityBytes = 8192 * bytesPerGB, hg_FreeBytes = 6144 * bytesPerGB,
       hg_HostIDs = [''node-1'', ''node-2''], hg_Accessible = True\<rparr>],
     sb_switches = [\<lparr>hw_SwitchID = ''switch-1'', hw_Name = ''External vSwitch'', hw_Type = ''external'',
       hw_VLAN = 0\<rparr>]\<rparr>"

definition sim_createVM :: "sim_backend \<Rightarrow> hyperv_vm \<Rightarrow> sim_backend" where
  "sim_createVM b v = mem_define b (hm_VMID v) v"

definition setState :: "sim_backend \<Rightarrow> string \<Rightarrow> int \<Rightarrow> sim_backend" where
  "setState b ref s = mem_write b ref (\<lambda>v. v\<lparr>hm_State := s\<rparr>)"

definition vmsOnHost :: "sim_backend \<Rightarrow> string \<Rightarrow> int" where
  "vmsOnHost b h = mem_count (\<lambda>v. hm_HostID v = h) b"

definition simBackend :: "sim_backend wmi_backend" where
  "simBackend = \<lparr>hb_version = (\<lambda>_. simVersion), hb_healthy = (\<lambda>b. \<not> mem_closed b),
     hb_close = (\<lambda>b. b\<lparr>mem_closed := True\<rparr>), hb_listHosts = (\<lambda>b. map snd (sb_hosts b)),
     hb_getHost = (\<lambda>b. map_of (sb_hosts b)), hb_listVMs = mem_list, hb_getVM = mem_get,
     hb_writeVM = mem_write, hb_listClusters = (\<lambda>b. map snd (sb_clusters b)),
     hb_getCluster = (\<lambda>b. map_of (sb_clusters b)), hb_listStorage = sb_storage,
     hb_listSwitches = sb_switches, hb_createVM = sim_createVM, hb_destroyVM = mem_remove,
     hb_setState = setState, hb_vmsOnHost = vmsOnHost, hb_listSnapshots = mem_snaps,
     hb_createSnapshot = mem_push_snap, hb_setCurrentSnapshot = mem_mark_snap,
     hb_isLive = (\<lambda>_. False), hb_liveExport = None\<rparr>"

definition sim_hyperv :: "string \<Rightarrow> sim_backend hyperv" where
  "sim_hyperv i = New i FullCaps newSimBackend"

end
