(* ===== verification/Hv_Fleet.thy ===== *)
theory Hv_Fleet
  imports Sim Kvm_Sim Xen Esxi Hyperv
begin

text \<open>
  The providers behind the seam, all together: the simulated hypervisor, KVM, Xen, ESXi and Hyper-V,
  each an instance of the interface that meets its contract (\<open>hypervisor\<close>), and the mixed fleet of
  \<open>vprovider/registry.go\<close>, whose entries are interface values and dispatch to their own type. The
  contract holds for every backend of the four packages.
\<close>

subsection \<open>The simulated hypervisor\<close>

primrec sim_method :: "sim \<Rightarrow> vm_call \<Rightarrow> int \<Rightarrow> sim \<times> task_result" where
  "sim_method p (CallPower i op) now = Sim.PowerOp p i op now"
| "sim_method p (CallCreate spec) now = Sim.CreateVM p spec now"
| "sim_method p (CallReconfigure i spec) now = Sim.ReconfigureVM p i spec now"
| "sim_method p (CallDelete i opts) now = Sim.DeleteVM p i opts now"
| "sim_method p (CallSnapshot i opts) now = Sim.Snapshot p i opts now"
| "sim_method p (CallRevert i s) now = Sim.RevertSnapshot p i s now"
| "sim_method p (CallClone i spec) now = Sim.Clone p i spec now"
| "sim_method p (CallMigrate i h opts) now = Sim.MigrateVM p i h opts now"

text \<open>The type implements the console, network and storage interfaces.\<close>

definition sim_ext :: "sim \<Rightarrow> ext_call \<Rightarrow> int \<Rightarrow> sim \<times> task_result" where
  "sim_ext p c now = (case c of
       CallCreateNetwork spec \<Rightarrow> Sim.CreateNetwork p spec now
     | CallDeleteNetwork i \<Rightarrow> Sim.DeleteNetwork p i now
     | CallCreateVolume spec \<Rightarrow> Sim.CreateVolume p spec now
     | CallDeleteVolume st v \<Rightarrow> Sim.DeleteVolume p st v now
     | _ \<Rightarrow> (p, Inl ErrUnsupported))"

definition sim_hv :: "sim vm_hv" where
  "sim_hv = \<lparr>vp_Kind = p_kind, vp_Capabilities = p_caps, vp_ListVMs = Sim.ListVMs, vp_GetVM = Sim.GetVM,
     vp_ListSnapshots = Sim.ListSnapshots, vp_GetMetrics = Sim.GetMetrics, vp_ListHosts = Sim.ListHosts,
     vp_ListStorage = Sim.ListStorage, vp_ListNetworks = Sim.ListNetworks, vp_ListClusters = Sim.ListClusters,
     vp_GetClusterTopology = Sim.GetClusterTopology, vp_call = sim_method,
     vp_implements = (\<lambda>_ c. c \<in> {CapConsole, CapNetworkWrite, CapStorageWrite}), vp_ext = sim_ext,
     vp_Console = Sim.Console, vp_ListVolumes = Sim.ListVolumes,
     vp_UploadISO = (\<lambda>p st name n now. Sim.UploadISO p st name n n),
     vp_GuestInfo = (\<lambda>_ _. Inl ErrUnsupported)\<rparr>"

lemma sim_succeed_caps [simp]: "p_caps (fst (succeed p kind entity now)) = p_caps p"
  by (simp add: succeed_def Let_def split_beta Sim.nextID_def)

lemma sim_nextID_caps [simp]: "p_caps (fst (Sim.nextID p k)) = p_caps p"
  by (simp add: Sim.nextID_def Let_def)

interpretation sim_seam: hypervisor sim_hv
proof
  fix p :: sim and c now
  assume "\<not> Has (vp_Capabilities sim_hv p) (call_cap c)" "\<not> bad_power c"
  then show "vp_call sim_hv p c now = (p, Inl ErrUnsupported)"
    by (cases c) (simp_all add: sim_hv_def Sim.PowerOp_def Sim.CreateVM_def Sim.ReconfigureVM_def Sim.DeleteVM_def
        Sim.Snapshot_def Sim.RevertSnapshot_def Sim.Clone_def Sim.MigrateVM_def)
next
  fix p :: sim and c now
  show "vp_Capabilities sim_hv (fst (vp_call sim_hv p c now)) = vp_Capabilities sim_hv p"
    by (cases c) (simp_all add: sim_hv_def Sim.PowerOp_def Sim.CreateVM_def Sim.ReconfigureVM_def Sim.DeleteVM_def
        Sim.Snapshot_def Sim.RevertSnapshot_def Sim.Clone_def Sim.MigrateVM_def Let_def split_beta split: option.split)
next
  fix p :: sim and x now
  show "vp_Capabilities sim_hv (fst (vp_ext sim_hv p x now)) = vp_Capabilities sim_hv p"
    by (cases x) (simp_all add: sim_hv_def sim_ext_def Sim.CreateNetwork_def Sim.DeleteNetwork_def
        Sim.CreateVolume_def Sim.DeleteVolume_def Let_def split_beta split: option.split)
next
  fix p :: sim and i d and opts :: delete_options and now
  assume "vp_GetVM sim_hv p i = Inr d" "vm_State (detail_VM d) = StateRunning" "\<not> Force opts"
  then show "\<exists>e. vp_call sim_hv p (CallDelete i opts) now = (p, Inl e)"
    by (auto simp: sim_hv_def Sim.GetVM_def Sim.DeleteVM_def split: if_splits option.splits)
next
  fix p :: sim and i d and opts :: delete_options and now
  assume "vp_GetVM sim_hv p i = Inr d" "vm_Protected (detail_VM d)"
  then show "\<exists>e. vp_call sim_hv p (CallDelete i opts) now = (p, Inl e)"
    by (auto simp: sim_hv_def Sim.GetVM_def Sim.DeleteVM_def split: if_splits option.splits)
qed

subsection \<open>KVM\<close>

lemmas kvm_methods = Kvm.PowerOp_def Kvm.CreateVM_def Kvm.ReconfigureVM_def Kvm.DeleteVM_def Kvm.Snapshot_def
  Kvm.RevertSnapshot_def Kvm.Clone_def Kvm.MigrateVM_def

lemma after_call_caps:
  "(\<And>q. hp_caps (fst (k q)) = hp_caps q) \<Longrightarrow> hp_caps (fst (after_call p res k)) = hp_caps p"
  by (simp add: after_call_def split: prod.split option.split)

lemma write_domain_caps [simp]: "hp_caps (write_domain B p i f) = hp_caps p"
  by (simp add: write_domain_def)

lemma ext_method_caps: "hp_caps (fst (ext_method B p cap target valid c kind entity now)) = hp_caps p"
  by (simp add: ext_method_def after_call_caps split: option.split)

lemma migrate_caps: "hp_caps (fst (Kvm.MigrateVM B p i h opts now)) = hp_caps p"
  by (simp add: Kvm.MigrateVM_def)

lemma evacuate_caps: "hp_caps (fst (evacuate_loop B h t now ds p m f)) = hp_caps p"
proof (induction ds arbitrary: p m f)
  case (Cons d ds)
  obtain p' res where run: "Kvm.MigrateVM B p (dom_UUID d) t \<lparr>Live = True, TargetStorage = []\<rparr> now = (p', res)"
    by (rule prod.exhaust)
  have "hp_caps p' = hp_caps p" using migrate_caps [of B p "dom_UUID d" t "\<lparr>Live = True, TargetStorage = []\<rparr>" now] run by simp
  then show ?case using Cons.IH by (cases res) (simp_all add: run)
qed simp

interpretation kvm_seam: hypervisor "kvm_hv B" for B :: "'b kvm_backend"
proof
  fix p :: "'b kvm" and c now
  assume "\<not> Has (vp_Capabilities (kvm_hv B) p) (call_cap c)" "\<not> bad_power c"
  then show "vp_call (kvm_hv B) p c now = (p, Inl ErrUnsupported)"
    by (cases c) (simp_all add: kvm_hv_def kvm_methods)
next
  fix p :: "'b kvm" and c now
  show "vp_Capabilities (kvm_hv B) (fst (vp_call (kvm_hv B) p c now)) = vp_Capabilities (kvm_hv B) p"
    by (cases c) (simp_all add: kvm_hv_def kvm_methods after_call_caps Let_def split_beta
        split: option.split sum.split prod.split)
next
  fix p :: "'b kvm" and x now
  show "vp_Capabilities (kvm_hv B) (fst (vp_ext (kvm_hv B) p x now)) = vp_Capabilities (kvm_hv B) p"
    by (cases x) (simp_all add: kvm_hv_def Kvm.CreateNetwork_def Kvm.DeleteNetwork_def Kvm.CreateVolume_def
        Kvm.DeleteVolume_def AttachDisk_def DetachDisk_def AttachNIC_def DetachNIC_def MountISO_def
        UnmountISO_def DeleteSnapshot_def ResizeDisk_def SetResources_def SetDiskQoS_def MigrateStorage_def
        ext_method_caps MarkTemplate_def EnterMaintenance_def ExitMaintenance_def after_call_caps
        evacuate_caps Let_def split_beta split: option.split)
next
  fix p :: "'b kvm" and i d and opts :: delete_options and now
  assume "vp_GetVM (kvm_hv B) p i = Inr d" "vm_State (detail_VM d) = StateRunning" "\<not> Force opts"
  then show "\<exists>e. vp_call (kvm_hv B) p (CallDelete i opts) now = (p, Inl e)"
    by (auto simp: kvm_hv_def Kvm.GetVM_def Kvm.DeleteVM_def normalizeDomain_def split: if_splits option.splits)
next
  fix p :: "'b kvm" and i d and opts :: delete_options and now
  assume "vp_GetVM (kvm_hv B) p i = Inr d" "vm_Protected (detail_VM d)"
  then show "\<exists>e. vp_call (kvm_hv B) p (CallDelete i opts) now = (p, Inl e)"
    by (auto simp: kvm_hv_def Kvm.GetVM_def normalizeDomain_def split: if_splits option.splits)
qed

subsection \<open>Xen\<close>

lemmas xen_methods = Xen.PowerOp_def Xen.CreateVM_def Xen.ReconfigureVM_def Xen.DeleteVM_def
  Xen.Snapshot_def Xen.RevertSnapshot_def Xen.Clone_def Xen.MigrateVM_def

lemma xen_write_caps [simp]: "hp_caps (Xen.write_vm B p i f) = hp_caps p"
  by (simp add: Xen.write_vm_def)

interpretation xen_seam: hypervisor "xen_hv B" for B :: "'b xapi_backend"
proof
  fix p :: "'b xen" and c now
  assume "\<not> Has (vp_Capabilities (xen_hv B) p) (call_cap c)" "\<not> bad_power c"
  then show "vp_call (xen_hv B) p c now = (p, Inl ErrUnsupported)"
    by (cases c) (simp_all add: xen_hv_def xen_methods)
next
  fix p :: "'b xen" and c now
  show "vp_Capabilities (xen_hv B) (fst (vp_call (xen_hv B) p c now)) = vp_Capabilities (xen_hv B) p"
    by (cases c) (simp_all add: xen_hv_def xen_methods newRef_def Let_def split_beta split: option.split)
next
  fix p :: "'b xen" and x now
  show "vp_Capabilities (xen_hv B) (fst (vp_ext (xen_hv B) p x now)) = vp_Capabilities (xen_hv B) p"
    by (simp add: xen_hv_def)
next
  fix p :: "'b xen" and i d and opts :: delete_options and now
  assume "vp_GetVM (xen_hv B) p i = Inr d" "vm_State (detail_VM d) = StateRunning" "\<not> Force opts"
  then show "\<exists>e. vp_call (xen_hv B) p (CallDelete i opts) now = (p, Inl e)"
    by (auto simp: xen_hv_def Xen.GetVM_def Xen.DeleteVM_def Xen.normalizeVM_def split: if_splits option.splits)
next
  fix p :: "'b xen" and i d and opts :: delete_options and now
  assume "vp_GetVM (xen_hv B) p i = Inr d" "vm_Protected (detail_VM d)"
  then show "\<exists>e. vp_call (xen_hv B) p (CallDelete i opts) now = (p, Inl e)"
    by (auto simp: xen_hv_def Xen.GetVM_def Xen.DeleteVM_def Xen.normalizeVM_def split: if_splits option.splits)
qed

subsection \<open>ESXi\<close>

lemmas esxi_methods = Esxi.PowerOp_def Esxi.CreateVM_def Esxi.ReconfigureVM_def Esxi.DeleteVM_def
  Esxi.Snapshot_def Esxi.RevertSnapshot_def Esxi.Clone_def Esxi.MigrateVM_def

lemma esxi_write_caps [simp]: "hp_caps (Esxi.write_vm B p i f) = hp_caps p"
  by (simp add: Esxi.write_vm_def)

interpretation esxi_seam: hypervisor "esxi_hv B" for B :: "'b vsphere_backend"
proof
  fix p :: "'b esxi" and c now
  assume "\<not> Has (vp_Capabilities (esxi_hv B) p) (call_cap c)" "\<not> bad_power c"
  then show "vp_call (esxi_hv B) p c now = (p, Inl ErrUnsupported)"
    by (cases c) (simp_all add: esxi_hv_def esxi_methods)
next
  fix p :: "'b esxi" and c now
  show "vp_Capabilities (esxi_hv B) (fst (vp_call (esxi_hv B) p c now)) = vp_Capabilities (esxi_hv B) p"
    by (cases c) (simp_all add: esxi_hv_def esxi_methods Let_def split_beta split: option.split)
next
  fix p :: "'b esxi" and x now
  show "vp_Capabilities (esxi_hv B) (fst (vp_ext (esxi_hv B) p x now)) = vp_Capabilities (esxi_hv B) p"
    by (simp add: esxi_hv_def)
next
  fix p :: "'b esxi" and i d and opts :: delete_options and now
  assume "vp_GetVM (esxi_hv B) p i = Inr d" "vm_State (detail_VM d) = StateRunning" "\<not> Force opts"
  then show "\<exists>e. vp_call (esxi_hv B) p (CallDelete i opts) now = (p, Inl e)"
    by (auto simp: esxi_hv_def Esxi.GetVM_def Esxi.DeleteVM_def Esxi.normalizeVM_def split: if_splits option.splits)
next
  fix p :: "'b esxi" and i d and opts :: delete_options and now
  assume "vp_GetVM (esxi_hv B) p i = Inr d" "vm_Protected (detail_VM d)"
  then show "\<exists>e. vp_call (esxi_hv B) p (CallDelete i opts) now = (p, Inl e)"
    by (auto simp: esxi_hv_def Esxi.GetVM_def Esxi.DeleteVM_def Esxi.normalizeVM_def split: if_splits option.splits)
qed

subsection \<open>Hyper-V\<close>

lemmas hyperv_methods = Hyperv.PowerOp_def Hyperv.CreateVM_def Hyperv.ReconfigureVM_def Hyperv.DeleteVM_def
  Hyperv.Snapshot_def Hyperv.RevertSnapshot_def Hyperv.Clone_def Hyperv.MigrateVM_def

lemma hyperv_write_caps [simp]: "hp_caps (Hyperv.write_vm B p i f) = hp_caps p"
  by (simp add: Hyperv.write_vm_def)

interpretation hyperv_seam: hypervisor "hyperv_hv B" for B :: "'b wmi_backend"
proof
  fix p :: "'b hyperv" and c now
  assume "\<not> Has (vp_Capabilities (hyperv_hv B) p) (call_cap c)" "\<not> bad_power c"
  then show "vp_call (hyperv_hv B) p c now = (p, Inl ErrUnsupported)"
    by (cases c) (simp_all add: hyperv_hv_def hyperv_methods)
next
  fix p :: "'b hyperv" and c now
  show "vp_Capabilities (hyperv_hv B) (fst (vp_call (hyperv_hv B) p c now)) = vp_Capabilities (hyperv_hv B) p"
    by (cases c) (simp_all add: hyperv_hv_def hyperv_methods Let_def split_beta split: option.split)
next
  fix p :: "'b hyperv" and x now
  show "vp_Capabilities (hyperv_hv B) (fst (vp_ext (hyperv_hv B) p x now)) = vp_Capabilities (hyperv_hv B) p"
    by (simp add: hyperv_hv_def)
next
  fix p :: "'b hyperv" and i d and opts :: delete_options and now
  assume "vp_GetVM (hyperv_hv B) p i = Inr d" "vm_State (detail_VM d) = StateRunning" "\<not> Force opts"
  then show "\<exists>e. vp_call (hyperv_hv B) p (CallDelete i opts) now = (p, Inl e)"
    by (auto simp: hyperv_hv_def Hyperv.GetVM_def Hyperv.DeleteVM_def Hyperv.normalizeVM_def split: if_splits option.splits)
next
  fix p :: "'b hyperv" and i d and opts :: delete_options and now
  assume "vp_GetVM (hyperv_hv B) p i = Inr d" "vm_Protected (detail_VM d)"
  then show "\<exists>e. vp_call (hyperv_hv B) p (CallDelete i opts) now = (p, Inl e)"
    by (auto simp: hyperv_hv_def Hyperv.GetVM_def Hyperv.DeleteVM_def Hyperv.normalizeVM_def split: if_splits option.splits)
qed

subsection \<open>A mixed fleet\<close>

datatype ('k, 'x, 'e, 'h) provider =
    Sim_P sim
  | Kvm_P "'k kvm"
  | Xen_P "'x xen"
  | Esxi_P "'e esxi"
  | Hyperv_P "'h hyperv"

text \<open>The call goes to the method of the provider's own type.\<close>

primrec dispatch :: "(sim \<Rightarrow> 'a) \<Rightarrow> ('k kvm \<Rightarrow> 'a) \<Rightarrow> ('x xen \<Rightarrow> 'a) \<Rightarrow> ('e esxi \<Rightarrow> 'a) \<Rightarrow> ('h hyperv \<Rightarrow> 'a)
    \<Rightarrow> ('k, 'x, 'e, 'h) provider \<Rightarrow> 'a" where
  "dispatch s k x e h (Sim_P p) = s p"
| "dispatch s k x e h (Kvm_P p) = k p"
| "dispatch s k x e h (Xen_P p) = x p"
| "dispatch s k x e h (Esxi_P p) = e p"
| "dispatch s k x e h (Hyperv_P p) = h p"

definition fleet_hv :: "'k kvm_backend \<Rightarrow> 'x xapi_backend \<Rightarrow> 'e vsphere_backend \<Rightarrow> 'h wmi_backend
     \<Rightarrow> ('k, 'x, 'e, 'h) provider vm_hv" where
  "fleet_hv K X E H = \<lparr>vp_Kind = dispatch (vp_Kind sim_hv) (vp_Kind (kvm_hv K)) (vp_Kind (xen_hv X)) (vp_Kind (esxi_hv E)) (vp_Kind (hyperv_hv H)),
     vp_Capabilities = dispatch (vp_Capabilities sim_hv) (vp_Capabilities (kvm_hv K)) (vp_Capabilities (xen_hv X)) (vp_Capabilities (esxi_hv E)) (vp_Capabilities (hyperv_hv H)),
     vp_ListVMs = dispatch (vp_ListVMs sim_hv) (vp_ListVMs (kvm_hv K)) (vp_ListVMs (xen_hv X)) (vp_ListVMs (esxi_hv E)) (vp_ListVMs (hyperv_hv H)),
     vp_GetVM = dispatch (vp_GetVM sim_hv) (vp_GetVM (kvm_hv K)) (vp_GetVM (xen_hv X)) (vp_GetVM (esxi_hv E)) (vp_GetVM (hyperv_hv H)),
     vp_ListSnapshots = dispatch (vp_ListSnapshots sim_hv) (vp_ListSnapshots (kvm_hv K)) (vp_ListSnapshots (xen_hv X)) (vp_ListSnapshots (esxi_hv E)) (vp_ListSnapshots (hyperv_hv H)),
     vp_GetMetrics = dispatch (vp_GetMetrics sim_hv) (vp_GetMetrics (kvm_hv K)) (vp_GetMetrics (xen_hv X)) (vp_GetMetrics (esxi_hv E)) (vp_GetMetrics (hyperv_hv H)),
     vp_ListHosts = dispatch (vp_ListHosts sim_hv) (vp_ListHosts (kvm_hv K)) (vp_ListHosts (xen_hv X)) (vp_ListHosts (esxi_hv E)) (vp_ListHosts (hyperv_hv H)),
     vp_ListStorage = dispatch (vp_ListStorage sim_hv) (vp_ListStorage (kvm_hv K)) (vp_ListStorage (xen_hv X)) (vp_ListStorage (esxi_hv E)) (vp_ListStorage (hyperv_hv H)),
     vp_ListNetworks = dispatch (vp_ListNetworks sim_hv) (vp_ListNetworks (kvm_hv K)) (vp_ListNetworks (xen_hv X)) (vp_ListNetworks (esxi_hv E)) (vp_ListNetworks (hyperv_hv H)),
     vp_ListClusters = dispatch (vp_ListClusters sim_hv) (vp_ListClusters (kvm_hv K)) (vp_ListClusters (xen_hv X)) (vp_ListClusters (esxi_hv E)) (vp_ListClusters (hyperv_hv H)),
     vp_GetClusterTopology = dispatch (vp_GetClusterTopology sim_hv) (vp_GetClusterTopology (kvm_hv K)) (vp_GetClusterTopology (xen_hv X)) (vp_GetClusterTopology (esxi_hv E)) (vp_GetClusterTopology (hyperv_hv H)),
     vp_call = (\<lambda>p c now. dispatch (\<lambda>q. apfst Sim_P (vp_call sim_hv q c now)) (\<lambda>q. apfst Kvm_P (vp_call (kvm_hv K) q c now))
        (\<lambda>q. apfst Xen_P (vp_call (xen_hv X) q c now)) (\<lambda>q. apfst Esxi_P (vp_call (esxi_hv E) q c now))
        (\<lambda>q. apfst Hyperv_P (vp_call (hyperv_hv H) q c now)) p),
     vp_implements = dispatch (vp_implements sim_hv) (vp_implements (kvm_hv K)) (vp_implements (xen_hv X)) (vp_implements (esxi_hv E)) (vp_implements (hyperv_hv H)),
     vp_ext = (\<lambda>p c now. dispatch (\<lambda>q. apfst Sim_P (vp_ext sim_hv q c now)) (\<lambda>q. apfst Kvm_P (vp_ext (kvm_hv K) q c now))
        (\<lambda>q. apfst Xen_P (vp_ext (xen_hv X) q c now)) (\<lambda>q. apfst Esxi_P (vp_ext (esxi_hv E) q c now))
        (\<lambda>q. apfst Hyperv_P (vp_ext (hyperv_hv H) q c now)) p),
     vp_Console = dispatch (vp_Console sim_hv) (vp_Console (kvm_hv K)) (vp_Console (xen_hv X)) (vp_Console (esxi_hv E)) (vp_Console (hyperv_hv H)),
     vp_ListVolumes = dispatch (vp_ListVolumes sim_hv) (vp_ListVolumes (kvm_hv K)) (vp_ListVolumes (xen_hv X)) (vp_ListVolumes (esxi_hv E)) (vp_ListVolumes (hyperv_hv H)),
     vp_UploadISO = (\<lambda>p st name n now. dispatch (\<lambda>q. apfst Sim_P (vp_UploadISO sim_hv q st name n now)) (\<lambda>q. apfst Kvm_P (vp_UploadISO (kvm_hv K) q st name n now))
        (\<lambda>q. apfst Xen_P (vp_UploadISO (xen_hv X) q st name n now)) (\<lambda>q. apfst Esxi_P (vp_UploadISO (esxi_hv E) q st name n now))
        (\<lambda>q. apfst Hyperv_P (vp_UploadISO (hyperv_hv H) q st name n now)) p),
     vp_GuestInfo = dispatch (vp_GuestInfo sim_hv) (vp_GuestInfo (kvm_hv K)) (vp_GuestInfo (xen_hv X)) (vp_GuestInfo (esxi_hv E)) (vp_GuestInfo (hyperv_hv H))\<rparr>"

lemma apfst_kept: "\<exists>e. r = (q, Inl e) \<Longrightarrow> \<exists>e. apfst C r = (C q, Inl e)"
  by auto

interpretation fleet_seam: hypervisor "fleet_hv K X E H"
  for K :: "'k kvm_backend" and X :: "'x xapi_backend" and E :: "'e vsphere_backend" and H :: "'h wmi_backend"
proof
  fix p :: "('k, 'x, 'e, 'h) provider" and c now
  assume "\<not> Has (vp_Capabilities (fleet_hv K X E H) p) (call_cap c)" "\<not> bad_power c"
  then show "vp_call (fleet_hv K X E H) p c now = (p, Inl ErrUnsupported)"
    by (cases p) (simp_all add: fleet_hv_def sim_seam.undeclared kvm_seam.undeclared xen_seam.undeclared
        esxi_seam.undeclared hyperv_seam.undeclared)
next
  fix p :: "('k, 'x, 'e, 'h) provider" and c now
  show "vp_Capabilities (fleet_hv K X E H) (fst (vp_call (fleet_hv K X E H) p c now))
      = vp_Capabilities (fleet_hv K X E H) p"
    by (cases p) (simp_all add: fleet_hv_def sim_seam.call_caps kvm_seam.call_caps xen_seam.call_caps
        esxi_seam.call_caps hyperv_seam.call_caps)
next
  fix p :: "('k, 'x, 'e, 'h) provider" and x now
  show "vp_Capabilities (fleet_hv K X E H) (fst (vp_ext (fleet_hv K X E H) p x now))
      = vp_Capabilities (fleet_hv K X E H) p"
    by (cases p) (simp_all add: fleet_hv_def sim_seam.ext_caps kvm_seam.ext_caps xen_seam.ext_caps
        esxi_seam.ext_caps hyperv_seam.ext_caps)
next
  fix p :: "('k, 'x, 'e, 'h) provider" and i d and opts :: delete_options and now
  assume "vp_GetVM (fleet_hv K X E H) p i = Inr d" "vm_State (detail_VM d) = StateRunning" "\<not> Force opts"
  then show "\<exists>e. vp_call (fleet_hv K X E H) p (CallDelete i opts) now = (p, Inl e)"
    by (cases p) (simp_all add: fleet_hv_def apfst_kept sim_seam.running_kept kvm_seam.running_kept
        xen_seam.running_kept esxi_seam.running_kept hyperv_seam.running_kept)
next
  fix p :: "('k, 'x, 'e, 'h) provider" and i d and opts :: delete_options and now
  assume "vp_GetVM (fleet_hv K X E H) p i = Inr d" "vm_Protected (detail_VM d)"
  then show "\<exists>e. vp_call (fleet_hv K X E H) p (CallDelete i opts) now = (p, Inl e)"
    by (cases p) (simp_all add: fleet_hv_def apfst_kept sim_seam.protected_kept kvm_seam.protected_kept
        xen_seam.protected_kept esxi_seam.protected_kept hyperv_seam.protected_kept)
qed

end
