(* ===== verification/Vm_Props.thy ===== *)
theory Vm_Props
  imports Vm_Api Rbac_Props Hv_Fleet
begin

text \<open>
  Properties of the virtual machine surface: a request changes a provider or the pools only when it
  is authenticated, authorized for that provider and recorded in the audit trail
  (\<open>vm_change_guarded\<close>); an operation that the provider does not offer is refused and does nothing.
\<close>

subsection \<open>What a handler may touch\<close>

text \<open>A handler confined to a provider leaves everything else of the world as it is.\<close>

definition only_provider :: "string \<Rightarrow> 'p vm_world \<Rightarrow> 'p vm_world \<Rightarrow> bool" where
  "only_provider pid w w' \<longleftrightarrow> store w' = store w \<and> clock w' = clock w \<and> audit w' = audit w
     \<and> pools w' = pools w \<and> (\<forall>q. q \<noteq> pid \<longrightarrow> map_of (fleet w') q = map_of (fleet w) q)"

definition confined :: "string \<Rightarrow> 'p vm_handler \<Rightarrow> bool" where
  "confined pid h \<longleftrightarrow> (\<forall>w r. only_provider pid w (snd (h w r)))"

definition pure_handler :: "'p vm_handler \<Rightarrow> bool" where
  "pure_handler h \<longleftrightarrow> (\<forall>w r. snd (h w r) = w)"

named_theorems confine

lemma only_provider_refl [simp]: "only_provider pid w w"
  by (simp add: only_provider_def)

lemma only_provider_put [simp]: "only_provider pid w (w\<lparr>fleet := put (fleet w) pid p'\<rparr>)"
  by (simp add: only_provider_def map_of_put)

lemma confined_resolve [confine]:
  "(\<And>p. confined pid (k p)) \<Longrightarrow> confined pid (resolveVMProvider pid k)"
  by (simp add: confined_def resolveVMProvider_def split: option.split)

lemma confined_decoded [confine]:
  "(\<And>b. confined pid (k b)) \<Longrightarrow> confined pid (decoded body k)"
  by (simp add: confined_def decoded_def split: sum.split)

lemma confined_answer_task [confine]:
  "confined pid (answer_task js fin pid out)"
  by (simp add: confined_def answer_task_def Let_def split: prod.split sum.split)

lemma confined_call_task [confine]: "confined pid (call_task hv js fin pid p c)"
  using confined_answer_task unfolding confined_def call_task_def by blast

lemma confined_if [confine]:
  "confined pid h \<Longrightarrow> confined pid (\<lambda>w r. if c w then (WriteError r e, w) else h w r)"
  by (simp add: confined_def)

lemma confined_via [confine]: "confined pid (via hv js fin pid cap body mk)"
proof -
  have "confined pid (\<lambda>w. answer_task js fin pid (vp_ext hv p c (now_ns w)) w)" for p c
    using confined_answer_task unfolding confined_def by blast
  then show ?thesis unfolding via_def
    by (intro confined_resolve confined_if confined_decoded)
qed

lemma confined_upload [confine]: "confined pid (VMISOUpload hv js pid st n sz)"
  unfolding VMISOUpload_def
  by (rule confined_resolve) (simp add: confined_def Let_def split: prod.split sum.split)

lemma device_confined: "confined pid (device_handler hv js pid x)"
  by (cases x) (simp_all only: device_handler.simps VMSnapshotDelete_def VMNetworkCreate_def
      VMNetworkDelete_def VMVolumeCreate_def VMVolumeDelete_def VMDiskAttach_def VMDiskDetach_def
      VMNICAttach_def VMNICDetach_def VMISOMount_def VMISOUnmount_def VMDiskResize_def
      VMMarkTemplate_def VMSetResources_def VMDiskQoS_def VMStorageMigrate_def
      VMHostEnterMaintenance_def VMHostExitMaintenance_def confined_via confined_upload)

lemma confined_migrate [confine]: "confined pid (VMMigrate hv js pid i b)"
  unfolding VMMigrate_def
  by (intro confined_resolve confined_decoded) (simp add: split_beta confined_call_task)

lemma life_confined: "confined pid (life_handler hv js pid x)"
  by (cases x) (simp_all only: life_handler.simps VMPowerOp_def VMCreate_def VMReconfigure_def VMDelete_def
      VMSnapshotCreate_def VMSnapshotRevert_def VMClone_def confined_migrate VMPoolAssign_def
      confined_resolve confined_decoded confined_if confined_call_task)

text \<open>The handlers of the reading routes change nothing.\<close>

lemma pure_resolve: "(\<And>p. pure_handler (k p)) \<Longrightarrow> pure_handler (resolveVMProvider pid k)"
  by (simp add: pure_handler_def resolveVMProvider_def split: option.split)

lemma pure_answer: "pure_handler (answer_read js f res)"
  by (simp add: pure_handler_def answer_read_def split: sum.split)

lemma pure_clock: "pure_handler (\<lambda>w. answer_read js f (g (now_ns w)) w)"
  by (simp add: pure_handler_def answer_read_def split: sum.split)

lemma pure_if: "pure_handler h \<Longrightarrow> pure_handler (\<lambda>w r. if c then (WriteError r e, w) else h w r)"
  by (simp add: pure_handler_def)

lemma pure_optional: "pure_handler (optional_read js g f res)"
  by (simp add: pure_handler_def optional_read_def answer_read_def split: sum.split)

lemma read_pure: "pure_handler (read_handler hv js pid x)"
  by (cases x) (simp_all only: read_handler.simps VMs_def VMDetailHandler_def VMSnapshots_def VMGuestInfo_def
      VMMetrics_def VMHosts_def VMClusters_def VMClusterTopology_def VMStorage_def VMNetworks_def
      VMConsole_def VMVolumes_def VMTemplates_def pure_resolve pure_answer pure_clock pure_if pure_optional)

text \<open>The handlers of the pools change the table of the pools only.\<close>

lemma pool_rows:
  "CreateResourcePool w p = Inr w' \<Longrightarrow> store w' = store w \<and> fleet w' = fleet w \<and> audit w' = audit w"
  "UpdateResourcePool w p = Inr w' \<Longrightarrow> store w' = store w \<and> fleet w' = fleet w \<and> audit w' = audit w"
  "DeleteResourcePool w i = Inr w' \<Longrightarrow> store w' = store w \<and> fleet w' = fleet w \<and> audit w' = audit w"
  unfolding CreateResourcePool_def UpdateResourcePool_def DeleteResourcePool_def query_def
  by (simp_all split: if_splits) (drule sym, simp)+

lemma pool_frame:
  "snd (pool_handler hv js x w r) = w' \<Longrightarrow> store w' = store w \<and> fleet w' = fleet w \<and> audit w' = audit w"
  by (cases x) (auto simp: VMPools_def VMPoolCreate_def VMPoolUpdate_def VMPoolDelete_def decoded_def Let_def
      pool_rows split: sum.splits if_splits)

subsection \<open>The chain in front of a handler\<close>

text \<open>
  Who gets through: the request resolves to a user who may do what the route asks for in its scope,
  it shows a bearer token or passes the origin and CSRF checks, and step-up authentication is not
  outstanding.
\<close>

definition csrf_ok :: "deps \<Rightarrow> 'x world_scheme \<Rightarrow> request \<Rightarrow> principal \<Rightarrow> bool" where
  "csrf_ok d w r u \<longleftrightarrow> bearerToken r \<noteq> [] \<or> ctx_bearer r
     \<or> (originAllowed d r \<and> (case GetSession (store w) (SessionHashID u) of Inl _ \<Rightarrow> False
          | Inr sess \<Rightarrow> Header_Get r ''X-Castor-Csrf'' = CSRFToken sess \<and> CSRFToken sess \<noteq> []))"

definition step_up_done :: "'x world_scheme \<Rightarrow> principal \<Rightarrow> bool" where
  "step_up_done w u \<longleftrightarrow> \<not> (TOTPEnabled (row u) \<and> totpRequiredForMutations (store w) \<and> AMR u \<noteq> AMRPasswordTOTP)"

definition admitted :: "deps \<Rightarrow> 'x world_scheme \<Rightarrow> request \<Rightarrow> string \<Rightarrow> scope \<Rightarrow> principal \<Rightarrow> bool" where
  "admitted d w r perm sc u \<longleftrightarrow> \<not> bootstrapRequired (store w) \<and> fst (authenticate d w r) = Inr u
     \<and> Can (Some u) perm sc \<and> csrf_ok d (snd (authenticate d w r)) r u
     \<and> step_up_done (snd (authenticate d w r)) u"

definition seen_by :: "request \<Rightarrow> principal \<Rightarrow> request" where
  "seen_by r u = r\<lparr>ctx_user := Some u, ctx_bearer := ctx_bearer r \<or> bearerToken r \<noteq> []\<rparr>"

definition scope_of :: "(request \<Rightarrow> scope) option \<Rightarrow> request \<Rightarrow> scope" where
  "scope_of sf r = (case sf of None \<Rightarrow> global_scope | Some f \<Rightarrow> f r)"

text \<open>Authenticating writes at most the time of the last use.\<close>

lemma resolveBearer_shape:
  "resolveBearer d w raw = (res, w') \<Longrightarrow>
     w' = w \<or> (\<exists>i s'. TouchAPIToken (store w) (clock w) i = Inr s' \<and> w' = w\<lparr>store := s'\<rparr>)"
  unfolding resolveBearer_def Let_def
  by (simp split: sum.splits if_splits) (elim conjE, drule sym, simp, blast)+

lemma authenticate_shape:
  assumes "authenticate d w r = (res, w')"
  shows "\<exists>s'. w' = w\<lparr>store := s'\<rparr> \<and> audit_log s' = audit_log (store w)"
proof -
  have keep: "\<exists>s'. w = w\<lparr>store := s'\<rparr> \<and> audit_log s' = audit_log (store w)"
    by (rule exI [of _ "store w"]) simp
  show ?thesis
  proof (cases "bearerToken r = []")
    case True
    then have run: "resolveUser d w r = (res, w')" using assms by (simp add: authenticate_def)
    show ?thesis
    proof (cases res)
      case (Inl e)
      then have "w' = w" using run resolveUser_Inl_world by blast
      then show ?thesis using keep by simp
    next
      case (Inr u)
      then have "resolveUser d w r = (Inr u, w')" using run by simp
      then show ?thesis
        by (cases rule: resolveUser_Inr) (elim disjE, use keep in simp,
            rule exI, rule conjI, assumption, simp add: upd_sessions_def)
    qed
  next
    case False
    then have run: "resolveBearer d w (bearerToken r) = (res, w')" using assms by (simp add: authenticate_def)
    from resolveBearer_shape [OF run] show ?thesis
    proof
      assume "w' = w"
      then show ?thesis using keep by simp
    next
      assume "\<exists>i s'. TouchAPIToken (store w) (clock w) i = Inr s' \<and> w' = w\<lparr>store := s'\<rparr>"
      then obtain i s' where t: "TouchAPIToken (store w) (clock w) i = Inr s'" "w' = w\<lparr>store := s'\<rparr>" by blast
      then have "audit_log s' = audit_log (store w)"
        by (simp add: TouchAPIToken_def query_def split: if_splits) (drule sym, simp)
      then show ?thesis using t(2) by blast
    qed
  qed
qed

lemma persistAudit_frame: "world.more (persistAudit enc w r x st) = world.more w"
  unfolding persistAudit_def Let_def by (simp split: sum.split prod.split)

lemma RequirePermission_branches:
  assumes "ctx_user r = Some u"
  shows "RequirePermission perm sf h w r =
     (if Can (Some u) perm (scope_of sf r) then h w r else (WriteError r ErrForbidden, markDenied w perm))"
  using assms by (simp add: RequirePermission_def scope_of_def global_scope_def split: option.split)

lemma RequireAAL_branches:
  assumes "ctx_user r = Some u" "isMutating (Method r)"
  shows "RequireAAL h w r = (if step_up_done w u then h w r else (WriteError r ErrAALRequired, w))"
  using assms by (simp add: RequireAAL_def step_up_done_def Let_def)

lemma Header_seen: "Header_Get (seen_by r u) k = Header_Get r k"
  by (simp add: seen_by_def Header_Get_def)

lemma Host_seen: "Host (seen_by r u) = Host r"
  by (simp add: seen_by_def)

lemma originAllowed_seen: "originAllowed d (seen_by r u) = originAllowed d r"
  unfolding originAllowed_def request_origin_def Header_seen Host_seen ..

text \<open>
  A request that changes anything beyond the database was admitted, and its handler ran on the world
  the authentication left, under a fresh audit record.
\<close>

lemma guarded_chain:
  assumes run: "bootstrapGate (BearerOrSession d (CSRF d (AuditWrap enc a
      (RequireAAL (RequirePermission perm sf h))))) w r = (resp, w')"
    and mut: "isMutating (Method r)" and moved: "world.more w' \<noteq> world.more w"
  obtains u w1 w2 where "admitted d w r perm (scope_of sf (seen_by r u)) u"
    "authenticate d w r = (Inr u, w1)"
    "h (w1\<lparr>audit := Some (fresh_audit a)\<rparr>) (seen_by r u) = (resp, w2)"
    "w' = (persistAudit enc w2 (seen_by r u) (case audit w2 of None \<Rightarrow> fresh_audit a | Some x \<Rightarrow> x)
            (Status resp))\<lparr>audit := audit w1\<rparr>"
proof -
  have boot: "\<not> bootstrapRequired (store w)"
    using run moved unfolding bootstrapGate_def by (simp split: if_splits)
  let ?k = "AuditWrap enc a (RequireAAL (RequirePermission perm sf h))"
  have run1: "BearerOrSession d (CSRF d ?k) w r = (resp, w')"
    using run boot by (simp add: bootstrapGate_def)
  obtain res w1 where auth: "authenticate d w r = (res, w1)" by (rule prod.exhaust)
  obtain s1 where w1: "w1 = w\<lparr>store := s1\<rparr>" using authenticate_shape [OF auth] by blast
  then have more1: "world.more w1 = world.more w" by simp
  obtain u where u: "res = Inr u"
  proof (cases res)
    case (Inl e)
    then have "w' = w1" using run1 auth by (simp add: BearerOrSession_run)
    then show thesis using moved more1 by simp
  qed
  let ?r = "seen_by r u"
  have run2: "CSRF d ?k w1 ?r = (resp, w')"
    using run1 auth u by (simp add: BearerOrSession_run seen_by_def)
  have mut2: "isMutating (Method ?r)" and user: "ctx_user ?r = Some u"
    using mut by (simp_all add: seen_by_def)
  have csrf: "csrf_ok d w1 r u \<and> ?k w1 ?r = (resp, w')"
  proof (cases "bearerToken r \<noteq> [] \<or> ctx_bearer r")
    case True
    then have "ctx_bearer ?r" by (auto simp: seen_by_def)
    then show ?thesis using run2 mut2 True by (simp add: CSRF_def csrf_ok_def)
  next
    case False
    then have nb: "\<not> ctx_bearer ?r" by (simp add: seen_by_def)
    note o = originAllowed_seen Header_seen
    have "originAllowed d r" using run2 nb mut2 moved more1 unfolding CSRF_def o
      by (simp split: if_splits)
    moreover have "\<exists>sess. GetSession (store w1) (SessionHashID u) = Inr sess"
      using run2 nb mut2 moved more1 calculation user unfolding CSRF_def o
      by (cases "GetSession (store w1) (SessionHashID u)") auto
    moreover obtain sess where "GetSession (store w1) (SessionHashID u) = Inr sess" using calculation(2) by blast
    ultimately show ?thesis using run2 nb mut2 moved more1 user unfolding CSRF_def o csrf_ok_def
      by (auto simp: Let_def split: if_splits)
  qed
  let ?w = "w1\<lparr>audit := Some (fresh_audit a)\<rparr>"
  obtain w2 where inner: "RequireAAL (RequirePermission perm sf h) ?w ?r = (resp, w2)"
    and w': "w' = (persistAudit enc w2 ?r (case audit w2 of None \<Rightarrow> fresh_audit a | Some x \<Rightarrow> x)
            (Status resp))\<lparr>audit := audit w1\<rparr>"
    using csrf by (cases "RequireAAL (RequirePermission perm sf h) ?w ?r") (auto simp: AuditWrap_def)
  have more': "world.more w' = world.more w2" unfolding w' by (simp add: persistAudit_frame)
  have moved2: "world.more w2 \<noteq> world.more w1" using moved more' more1 by simp
  have step: "step_up_done w1 u" "Can (Some u) perm (scope_of sf ?r)" "h ?w ?r = (resp, w2)"
    using inner moved2 unfolding RequireAAL_branches [OF user mut2] RequirePermission_branches [OF user]
    by (auto simp: step_up_done_def markDenied_def with_audit_def split: if_splits)
  have "admitted d w r perm (scope_of sf ?r) u"
    using boot auth u csrf step by (simp add: admitted_def)
  then show thesis using that auth u step(3) w' by simp
qed

subsection \<open>Changes are guarded and recorded\<close>

definition keeps_more :: "'x stage \<Rightarrow> bool" where
  "keeps_more h \<longleftrightarrow> (\<forall>w r. world.more (snd (h w r)) = world.more w)"

named_theorems keeping

lemma keeps_RequirePermission [keeping]: "keeps_more h \<Longrightarrow> keeps_more (RequirePermission perm sf h)"
  by (simp add: keeps_more_def RequirePermission_def markDenied_def with_audit_def Let_def split: option.split)

lemma keeps_AuditWrap [keeping]:
  assumes "keeps_more h" shows "keeps_more (AuditWrap enc a h)"
  unfolding keeps_more_def
proof (intro allI)
  fix w r
  obtain resp w2 where run: "h (w\<lparr>audit := Some (fresh_audit a)\<rparr>) r = (resp, w2)" by (rule prod.exhaust)
  have "world.more w2 = world.more w"
    using assms [unfolded keeps_more_def, rule_format, of "w\<lparr>audit := Some (fresh_audit a)\<rparr>" r] run by simp
  then show "world.more (snd (AuditWrap enc a h w r)) = world.more w"
    by (simp add: AuditWrap_def run persistAudit_frame)
qed

lemma keeps_RequireAAL [keeping]: "keeps_more h \<Longrightarrow> keeps_more (RequireAAL h)"
  by (simp add: keeps_more_def RequireAAL_def Let_def split: option.split)

lemma keeps_CSRF [keeping]: "keeps_more h \<Longrightarrow> keeps_more (CSRF d h)"
  by (simp add: keeps_more_def CSRF_def Let_def split: option.split sum.split)

lemma keeps_auth [keeping]:
  fixes h :: "'x stage"
  assumes "keeps_more h" shows "keeps_more (BearerOrSession d h)"
  unfolding keeps_more_def
proof (intro allI)
  fix w :: "'x world_scheme" and r
  obtain res w1 where auth: "authenticate d w r = (res, w1)" by (rule prod.exhaust)
  then have "world.more w1 = world.more w" using authenticate_shape [OF auth] by auto
  then show "world.more (snd (BearerOrSession d h w r)) = world.more w"
    using assms by (simp add: BearerOrSession_run auth keeps_more_def split: sum.split)
qed

lemma keeps_bootstrap [keeping]: "keeps_more h \<Longrightarrow> keeps_more (bootstrapGate h)"
  by (simp add: keeps_more_def bootstrapGate_def)

lemma keeps_pure: "pure_handler h \<Longrightarrow> keeps_more h"
  by (simp add: pure_handler_def keeps_more_def)

text \<open>Either the guards of a route are those of a write, or its handler changes nothing.\<close>

lemma route_kinds:
  "(\<exists>a perm. fst (vm_guard route) = (Some a, True, perm)) \<or> pure_handler (vm_handler_of hv js route)"
proof (cases route)
  case RProviders
  then show ?thesis by (simp add: pure_handler_def VMProviders_def)
next
  case (RRead pid x)
  then show ?thesis by (simp add: read_pure)
next
  case (RLife pid x)
  then show ?thesis by (cases x) (simp_all add: vm_write_def)
next
  case (RDevice pid x)
  then show ?thesis by (cases x) (simp_all add: vm_write_def)
next
  case (RPool x)
  then show ?thesis
    by (cases x) (simp_all add: vm_write_def pure_handler_def VMPools_def split: sum.split)
qed

lemma handler_frame:
  assumes "vm_handler_of hv js route w r = (resp, w')" "vm_guard route = (g, pid)" "fst g \<noteq> None" "fst (snd g)"
  shows "store w' = store w \<and> audit w' = audit w \<and> (\<forall>q. pid \<noteq> Some q \<longrightarrow> map_of (fleet w') q = map_of (fleet w) q)
    \<and> (pid \<noteq> None \<longrightarrow> pools w' = pools w)"
proof (cases route)
  case RProviders
  then show ?thesis using assms(2,3) by (auto simp: vm_read_def)
next
  case (RRead p x)
  have "snd (read_handler hv js p x w r) = w" using read_pure [of hv js p x] by (simp add: pure_handler_def)
  then have "w' = w" using assms(1) RRead by simp
  then show ?thesis by simp
next
  case (RLife p x)
  have "only_provider p w (snd (life_handler hv js p x w r))" using life_confined [of p hv js x] by (simp add: confined_def)
  then show ?thesis using assms(1,2) RLife by (auto simp: only_provider_def)
next
  case (RDevice p x)
  have "only_provider p w (snd (device_handler hv js p x w r))" using device_confined [of p hv js x] by (simp add: confined_def)
  then show ?thesis using assms(1,2) RDevice by (auto simp: only_provider_def)
next
  case (RPool x)
  then have "snd (pool_handler hv js x w r) = w'" using assms(1) by simp
  from pool_frame [OF this] show ?thesis using assms(2) RPool by auto
qed

lemma persistAudit_row:
  assumes "''InsertAudit'' \<notin> broken (store w)" "ctx_user r = Some u"
  shows "\<exists>a. audit_log (store (persistAudit enc w r x st)) = audit_log (store w) @ [a]
     \<and> au_action a = Action x \<and> au_actor_id a = ID (row u) \<and> au_status a = st"
  using assms unfolding persistAudit_def InsertAudit_def query_def Let_def by simp

lemma vm_fields: "world.more (w' :: 'p vm_world) = world.more w \<Longrightarrow> fleet w' = fleet w \<and> pools w' = pools w"
  by (cases w, cases w') simp

text \<open>C3. The virtual machine API changes a hypervisor or the resource pools only for a request that
  went through every guard of its route: the installation is set up, the request resolves to an active
  user whose roles grant the route's permission for that very provider (for the pools, globally), it
  carries a bearer token or passes the origin and CSRF checks, and step-up authentication is not
  outstanding. Only the provider named in the path changes, and the change is in the audit trail, in
  one row with the route's action, the user and the status of the answer. This holds for every
  implementation of the provider seam.\<close>

theorem vm_change_guarded:
  assumes "vm_serve enc sv hv js route w r = (resp, w')" "isMutating (Method r)"
    and "''InsertAudit'' \<notin> broken (store w)"
    and "fleet w' \<noteq> fleet w \<or> pools w' \<noteq> pools w"
  shows "\<exists>action perm pid u. vm_guard route = ((Some action, True, perm), pid)
    \<and> admitted (sdeps sv) w r perm (case pid of None \<Rightarrow> global_scope | Some p \<Rightarrow> scopeFromProvider p) u
    \<and> (\<forall>q. pid \<noteq> Some q \<longrightarrow> map_of (fleet w') q = map_of (fleet w) q)
    \<and> (pid \<noteq> None \<longrightarrow> pools w' = pools w)
    \<and> (\<exists>a. audit_log (store w') = audit_log (store w) @ [a] \<and> au_action a = action
         \<and> au_actor_id a = ID (row u) \<and> au_status a = Status resp)"
proof -
  have moved: "world.more w' \<noteq> world.more w" using assms(4) vm_fields by blast
  have "\<exists>a perm. fst (vm_guard route) = (Some a, True, perm)"
  proof (rule ccontr)
    assume "\<not> ?thesis"
    then have "pure_handler (vm_handler_of hv js route)" using route_kinds by blast
    then have k: "keeps_more (vm_handler_of hv js route)" by (rule keeps_pure)
    have "keeps_more (vm_serve enc sv hv js route)"
      unfolding vm_serve_def vm_guarded_def Let_def
      by (auto intro!: keeping k split: prod.split option.split)
    then have "world.more (snd (vm_serve enc sv hv js route w r)) = world.more w"
      unfolding keeps_more_def by blast
    then show False using moved assms(1) by simp
  qed
  then obtain a perm pid where g: "vm_guard route = ((Some a, True, perm), pid)"
    by (metis surjective_pairing)
  let ?sf = "map_option (\<lambda>p _. scopeFromProvider p) pid"
  have run: "bootstrapGate (BearerOrSession (sdeps sv) (CSRF (sdeps sv) (AuditWrap enc a
      (RequireAAL (RequirePermission perm ?sf (vm_handler_of hv js route)))))) w r = (resp, w')"
    using assms(1) by (simp add: vm_serve_def vm_guarded_def g Let_def)
  obtain u w1 w2 where adm: "admitted (sdeps sv) w r perm (scope_of ?sf (seen_by r u)) u"
    and auth: "authenticate (sdeps sv) w r = (Inr u, w1)"
    and h: "vm_handler_of hv js route (w1\<lparr>audit := Some (fresh_audit a)\<rparr>) (seen_by r u) = (resp, w2)"
    and w': "w' = (persistAudit enc w2 (seen_by r u) (case audit w2 of None \<Rightarrow> fresh_audit a | Some x \<Rightarrow> x)
            (Status resp))\<lparr>audit := audit w1\<rparr>"
    by (rule guarded_chain [OF run assms(2) moved])
  obtain s1 where w1: "w1 = w\<lparr>store := s1\<rparr>" "audit_log s1 = audit_log (store w)"
    using authenticate_shape [OF auth] by blast
  have ins: "''InsertAudit'' \<notin> broken s1"
    using authenticate_core [OF auth] assms(3) w1(1) by (simp add: same_core_def)
  from handler_frame [OF h g] have f: "store w2 = s1" "audit w2 = Some (fresh_audit a)"
    "\<forall>q. pid \<noteq> Some q \<longrightarrow> map_of (fleet w2) q = map_of (fleet w) q" "pid \<noteq> None \<longrightarrow> pools w2 = pools w"
    using w1(1) by simp_all
  have "world.more w' = world.more w2" unfolding w' by (simp add: persistAudit_frame)
  then have same: "fleet w' = fleet w2" "pools w' = pools w2" using vm_fields by blast+
  have "scope_of ?sf (seen_by r u) = (case pid of None \<Rightarrow> global_scope | Some p \<Rightarrow> scopeFromProvider p)"
    by (simp add: scope_of_def split: option.split)
  moreover have "\<exists>x. audit_log (store w') = audit_log (store w) @ [x] \<and> au_action x = a
         \<and> au_actor_id x = ID (row u) \<and> au_status x = Status resp"
    using persistAudit_row [of w2 "seen_by r u" u enc "fresh_audit a" "Status resp"] ins f(1,2) w1(2)
    unfolding w' by (simp add: seen_by_def fresh_audit_def)
  ultimately show ?thesis using g adm f(3,4) same by auto
qed

subsection \<open>What the contract of the seam gives the API\<close>

text \<open>The method a lifecycle request calls, when its body decodes and its operation and pool exist.\<close>

definition decoded_call :: "('b \<Rightarrow> vm_call) \<Rightarrow> api_error + 'b \<Rightarrow> vm_call option" where
  "decoded_call f b = (case b of Inl e \<Rightarrow> None | Inr x \<Rightarrow> Some (f x))"

primrec life_call :: "'p vm_world \<Rightarrow> life_route \<Rightarrow> vm_call option" where
  "life_call w (RPower i op) = (if PowerOp_Valid op then Some (CallPower i op) else None)"
| "life_call w (RCreate b) = decoded_call CallCreate b"
| "life_call w (RReconfigure i b) = decoded_call (CallReconfigure i) b"
| "life_call w (RDelete i q) = Some (CallDelete i
     \<lparr>Force = (q ''force'' = ''true''), DeleteDisks = (q ''deleteDisks'' = ''true'')\<rparr>)"
| "life_call w (RSnapshotCreate i b) = decoded_call (CallSnapshot i) b"
| "life_call w (RSnapshotRevert i k) = Some (CallRevert i k)"
| "life_call w (RClone i b) = decoded_call (CallClone i) b"
| "life_call w (RMigrate i b) = decoded_call (\<lambda>(h, opts). CallMigrate i h opts) b"
| "life_call w (RPoolAssign i b) =
     (case b of Inl e \<Rightarrow> None
      | Inr pool \<Rightarrow> if pool \<noteq> [] \<and> isl (GetResourcePool w pool) then None
          else Some (CallReconfigure i \<lparr>rs_VCPUs = None, rs_MemoryMB = None, AddDisks = [], AddNICs = [],
                       rs_Labels = [(labelPool, pool)], Resources = None\<rparr>))"

lemma life_handler_call:
  assumes "map_of (fleet w) pid = Some p" "life_call w x = Some c"
  shows "\<exists>fin. life_handler hv js pid x w r = call_task hv js fin pid p c w r" and "\<not> bad_power c"
  using assms by (cases x; auto simp: decoded_call_def VMPowerOp_def VMCreate_def VMReconfigure_def VMDelete_def
      VMSnapshotCreate_def VMSnapshotRevert_def VMClone_def VMMigrate_def VMPoolAssign_def
      resolveVMProvider_def decoded_def split: sum.splits if_splits prod.splits)+

lemma call_task_failed:
  assumes "vp_call hv p c (now_ns w) = (p, Inl e)"
  shows "call_task hv js fin pid p c w r = (WriteError r (vmProviderError e), w\<lparr>fleet := put (fleet w) pid p\<rparr>)"
  using assms by (simp add: call_task_def answer_task_def)

lemma put_lookup_same: "map_of m k = Some v \<Longrightarrow> map_of (put m k v) = map_of m"
  by (simp add: map_of_put fun_upd_idem)

context hypervisor begin

lemma undeclared_refused:
  assumes "map_of (fleet w) pid = Some p" "life_call w x = Some c"
    and "\<not> Has (vp_Capabilities hv p) (call_cap c)"
  shows "life_handler hv js pid x w r = (WriteError r ErrMethodNotAllowed, w\<lparr>fleet := put (fleet w) pid p\<rparr>)"
proof -
  obtain fin where "life_handler hv js pid x w r = call_task hv js fin pid p c w r"
    using life_handler_call(1) [OF assms(1,2)] by blast
  then show ?thesis
    using call_task_failed [OF undeclared [OF assms(3) life_handler_call(2) [OF assms(1,2)]]]
    by (simp add: vmProviderError_def)
qed

lemma delete_refused:
  assumes "map_of (fleet w) pid = Some p" "vp_GetVM hv p i = Inr d"
    and "vm_Protected (detail_VM d) \<or> (vm_State (detail_VM d) = StateRunning \<and> q ''force'' \<noteq> ''true'')"
  shows "\<exists>e. life_handler hv js pid (RDelete i q) w r
     = (WriteError r (vmProviderError e), w\<lparr>fleet := put (fleet w) pid p\<rparr>)"
proof -
  let ?opts = "\<lparr>Force = (q ''force'' = ''true''), DeleteDisks = (q ''deleteDisks'' = ''true'')\<rparr>"
  have "\<exists>e. vp_call hv p (CallDelete i ?opts) (now_ns w) = (p, Inl e)"
    using assms(3)
  proof
    assume "vm_Protected (detail_VM d)"
    then show ?thesis by (rule protected_kept [OF assms(2)])
  next
    assume "vm_State (detail_VM d) = StateRunning \<and> q ''force'' \<noteq> ''true''"
    then show ?thesis by (intro running_kept [OF assms(2)]) simp_all
  qed
  then obtain e where e: "vp_call hv p (CallDelete i ?opts) (now_ns w) = (p, Inl e)" by blast
  have "life_call w (RDelete i q) = Some (CallDelete i ?opts)" by simp
  then obtain fin where "life_handler hv js pid (RDelete i q) w r
      = call_task hv js fin pid p (CallDelete i ?opts) w r"
    using life_handler_call(1) [OF assms(1)] by blast
  then show ?thesis by (intro exI [of _ e]) (simp add: call_task_failed [OF e])
qed

end

text \<open>C4. Whatever hypervisor a provider stands for and whatever backend it runs on, a lifecycle request
  for an operation whose capability the provider does not declare is answered 405, and no machine, pool
  or row of the database changes.\<close>

theorem undeclared_operation_refused:
  assumes "map_of (fleet w) pid = Some p" "life_call w x = Some c"
    and "\<not> Has (vp_Capabilities (fleet_hv K X E H) p) (call_cap c)"
  shows "\<exists>w'. life_handler (fleet_hv K X E H) js pid x w r = (WriteError r ErrMethodNotAllowed, w')
    \<and> map_of (fleet w') = map_of (fleet w) \<and> pools w' = pools w \<and> store w' = store w"
  using fleet_seam.undeclared_refused [OF assms] put_lookup_same [OF assms(1)] by simp

text \<open>C18. A request to delete a running machine without \<open>force=true\<close>, or a protected machine in any
  case, is answered with an error by every provider, and every machine is still there.\<close>

theorem delete_needs_force:
  assumes "map_of (fleet w) pid = Some p" "vp_GetVM (fleet_hv K X E H) p i = Inr d"
    and "vm_Protected (detail_VM d) \<or> (vm_State (detail_VM d) = StateRunning \<and> q ''force'' \<noteq> ''true'')"
  shows "\<exists>e w'. life_handler (fleet_hv K X E H) js pid (RDelete i q) w r = (WriteError r (vmProviderError e), w')
    \<and> map_of (fleet w') = map_of (fleet w) \<and> pools w' = pools w \<and> store w' = store w"
proof -
  obtain e where "life_handler (fleet_hv K X E H) js pid (RDelete i q) w r
      = (WriteError r (vmProviderError e), w\<lparr>fleet := put (fleet w) pid p\<rparr>)"
    using fleet_seam.delete_refused [of w pid p K X E H i d q, OF assms] by blast
  then show ?thesis by (intro exI [of _ e]) (simp add: put_lookup_same [OF assms(1)])
qed

subsection \<open>Witnesses\<close>

definition demo_fleet :: "(string \<times> (Kvm_Sim.sim_backend, Xen.sim_backend, Esxi.sim_backend, Hyperv.sim_backend) provider) list" where
  "demo_fleet = [(''k1'', Kvm_P (sim_kvm ''k1'')), (''x1'', Xen_P (sim_xen ''x1'')),
     (''e1'', Esxi_P (Esxi.New ''e1'' CapGetVM Esxi.newSimBackend)), (''h1'', Hyperv_P (sim_hyperv ''h1''))]"

definition demo_hv :: "(Kvm_Sim.sim_backend, Xen.sim_backend, Esxi.sim_backend, Hyperv.sim_backend) provider vm_hv" where
  "demo_hv = fleet_hv Kvm_Sim.simBackend Xen.simBackend Esxi.simBackend Hyperv.simBackend"

definition demo_vm_world :: "(Kvm_Sim.sim_backend, Xen.sim_backend, Esxi.sim_backend, Hyperv.sim_backend) provider vm_world" where
  "demo_vm_world = \<lparr>store = rbac_db, clock = 100, audit = None, fleet = demo_fleet, pools = []\<rparr>"

definition demo_marshal :: marshal where "demo_marshal a = JNull"

text \<open>The running domain of a KVM provider is shut down with the token of the administrator.\<close>

definition stop_route :: vm_route where
  "stop_route = RLife ''k1'' (RPower ''dom-seed-1'' ''stop'')"

definition demo_kvm_world :: "Kvm_Sim.sim_backend kvm vm_world" where
  "demo_kvm_world = \<lparr>store = rbac_db, clock = 100, audit = None, fleet = [(''k1'', Kvm.New ''k1'' CapPowerStop Kvm_Sim.newSimBackend)],
     pools = []\<rparr>"

theorem vm_change_guarded_witness:
  "\<exists>action perm pid u. vm_guard stop_route = ((Some action, True, perm), pid)
    \<and> admitted (sdeps rbac_server) demo_kvm_world (rbac_request ''POST'') perm
        (case pid of None \<Rightarrow> global_scope | Some p \<Rightarrow> scopeFromProvider p) u"
proof -
  let ?x = "vm_serve json_enc rbac_server (kvm_hv Kvm_Sim.simBackend) demo_marshal stop_route
     demo_kvm_world (rbac_request ''POST'')"
  have run: "?x = (fst ?x, snd ?x)" by simp
  have m: "isMutating (Method (rbac_request ''POST''))" by code_simp
  have i: "''InsertAudit'' \<notin> broken (store demo_kvm_world)" by code_simp
  have "map (hp_seq \<circ> snd) (fleet (snd ?x)) \<noteq> map (hp_seq \<circ> snd) (fleet demo_kvm_world)" by code_simp
  then have "fleet (snd ?x) \<noteq> fleet demo_kvm_world \<or> pools (snd ?x) \<noteq> pools demo_kvm_world" by metis
  from vm_change_guarded [OF run m i this] show ?thesis by blast
qed

text \<open>The ESXi provider declares reads only, and a request to create a machine reaches it.\<close>

theorem undeclared_operation_refused_witness:
  "\<exists>w'. life_handler demo_hv demo_marshal ''e1'' (RSnapshotRevert ''vm-101'' ''s1'') demo_vm_world (rbac_request ''POST'')
      = (WriteError (rbac_request ''POST'') ErrMethodNotAllowed, w')"
proof -
  let ?p = "Esxi.New ''e1'' CapGetVM Esxi.newSimBackend"
  have p: "map_of (fleet demo_vm_world) ''e1'' = Some (Esxi_P ?p)"
    by (simp add: demo_vm_world_def demo_fleet_def)
  have c: "life_call demo_vm_world (RSnapshotRevert ''vm-101'' ''s1'') = Some (CallRevert ''vm-101'' ''s1'')" by simp
  have "\<not> Has CapGetVM CapRevertSnapshot" by code_simp
  then have n: "\<not> Has (vp_Capabilities (fleet_hv Kvm_Sim.simBackend Xen.simBackend Esxi.simBackend Hyperv.simBackend)
      (Esxi_P ?p)) (call_cap (CallRevert ''vm-101'' ''s1''))"
    by (simp add: fleet_hv_def esxi_hv_def Esxi.New_def)
  show ?thesis unfolding demo_hv_def
    using undeclared_operation_refused [OF p c n] by blast
qed

theorem delete_needs_force_witness:
  "\<exists>e w'. life_handler demo_hv demo_marshal ''k1'' (RDelete ''dom-seed-1'' (\<lambda>_. [])) demo_vm_world (rbac_request ''DELETE'')
      = (WriteError (rbac_request ''DELETE'') (vmProviderError e), w')"
proof -
  have p: "map_of (fleet demo_vm_world) ''k1'' = Some (Kvm_P (sim_kvm ''k1''))"
    by (simp add: demo_vm_world_def demo_fleet_def)
  let ?K = "fleet_hv Kvm_Sim.simBackend Xen.simBackend Esxi.simBackend Hyperv.simBackend"
  let ?x = "seed_domain 0 domRunning ''node-1''"
  have x: "mem_get Kvm_Sim.newSimBackend ''dom-seed-1'' = Some ?x" by code_simp
  have st: "dom_State ?x = domRunning" by (simp add: seed_domain_def Let_def)
  have c: "Has (hp_caps (sim_kvm ''k1'')) CapGetVM" by code_simp
  have b: "Kvm.backend (sim_kvm ''k1'') = Kvm_Sim.newSimBackend" by (simp add: sim_kvm_def Kvm.New_def)
  obtain d where d: "vp_GetVM ?K (Kvm_P (sim_kvm ''k1'')) ''dom-seed-1'' = Inr d"
      "detail_VM d = normalizeDomain Kvm_Sim.simBackend (sim_kvm ''k1'') ?x"
    using x c b by (simp add: fleet_hv_def kvm_hv_def Kvm.GetVM_def Kvm_Sim.simBackend_def)
  have "vm_State (detail_VM d) = StateRunning"
    by (simp add: d(2) normalizeDomain_def st Kvm.normalizeState_def)
  then have r: "vm_Protected (detail_VM d) \<or> (vm_State (detail_VM d) = StateRunning \<and> (\<lambda>_. []) ''force'' \<noteq> ''true'')"
    by simp
  show ?thesis unfolding demo_hv_def
    using delete_needs_force [OF p d(1) r] by blast
qed

end
