(* ===== verification/Vm_Bulk.thy ===== *)
theory Vm_Bulk
  imports Vm_Api
begin

text \<open>
  One action on many machines: \<open>api/bulk.go\<close> and its route of \<open>api/router.go\<close>. The route asks
  neither for a permission nor for step-up; the handler checks the permission of every target.
\<close>

subsection \<open>Requests and answers\<close>

record bulk_target =
  bt_ProviderID :: string
  bt_VMID :: string

record bulk_request =
  bq_Action :: string
  bq_Op :: string
  bq_Name :: string
  bq_Force :: bool
  bq_Targets :: "bulk_target list"

record bulk_result =
  br_ProviderID :: string
  br_VMID :: string
  br_OK :: bool
  br_Error :: string
  br_TaskID :: string

record bulk_response =
  bp_Action :: string
  bp_Op :: string
  bp_Succeeded :: int
  bp_Failed :: int
  bp_Results :: "bulk_result list"

text \<open>The members that are left out when they are empty.\<close>

definition unless_empty :: "string \<Rightarrow> string \<Rightarrow> (string \<times> jval) list" where
  "unless_empty k v = (if v = [] then [] else [(k, JStr v)])"

definition result_json :: "bulk_result \<Rightarrow> jval" where
  "result_json x = JObj ([(''providerId'', JStr (br_ProviderID x)), (''vmId'', JStr (br_VMID x)),
     (''ok'', JBool (br_OK x))] @ unless_empty ''error'' (br_Error x) @ unless_empty ''taskId'' (br_TaskID x))"

definition response_json :: "bulk_response \<Rightarrow> jval" where
  "response_json x = JObj ([(''action'', JStr (bp_Action x))] @ unless_empty ''op'' (bp_Op x)
     @ [(''succeeded'', JNum (bp_Succeeded x)), (''failed'', JNum (bp_Failed x)),
        (''results'', JArr (map result_json (bp_Results x)))])"

subsection \<open>The handler\<close>

definition bulkPermForAction :: "string \<Rightarrow> string" where
  "bulkPermForAction action =
     (if action = ''power'' then ''vm.power''
      else if action = ''snapshot'' then ''vm.snapshot''
      else if action = ''delete'' then ''vm.delete''
      else [])"

text \<open>The switch over the action; another action calls nothing.\<close>

definition bulk_call :: "bulk_request \<Rightarrow> string \<Rightarrow> vm_call option" where
  "bulk_call req vmID =
     (if bq_Action req = ''power'' then Some (CallPower vmID (bq_Op req))
      else if bq_Action req = ''snapshot'' then
        Some (CallSnapshot vmID \<lparr>so_Name = bq_Name req, so_Description = [], so_Memory = False, so_Quiesce = False\<rparr>)
      else if bq_Action req = ''delete'' then Some (CallDelete vmID \<lparr>Force = bq_Force req, DeleteDisks = False\<rparr>)
      else None)"

definition api_error_text :: "api_error \<Rightarrow> string" where
  "api_error_text e = ErrCode e @ '': '' @ ErrMessage e"

definition runBulkTarget ::
  "'p vm_hv \<Rightarrow> principal \<Rightarrow> string \<Rightarrow> bulk_request \<Rightarrow> bulk_target \<Rightarrow> 'p vm_world \<Rightarrow> bulk_result \<times> 'p vm_world" where
  "runBulkTarget hv u perm req t w =
     (let res = \<lparr>br_ProviderID = bt_ProviderID t, br_VMID = bt_VMID t, br_OK = False, br_Error = [], br_TaskID = []\<rparr>
      in if \<not> Can (Some u) perm \<lparr>sc_type = ''host'', sc_id = bt_ProviderID t\<rparr>
           then (res\<lparr>br_Error := ''forbidden''\<rparr>, w)
         else (case map_of (fleet w) (bt_ProviderID t) of
             None \<Rightarrow> (res\<lparr>br_Error := ''unknown provider: '' @ bt_ProviderID t\<rparr>, w)
           | Some p \<Rightarrow>
             (case bulk_call req (bt_VMID t) of
                None \<Rightarrow> (res\<lparr>br_OK := True\<rparr>, w)
              | Some c \<Rightarrow>
                (case vp_call hv p c (now_ns w) of (p', out) \<Rightarrow>
                   (let w' = w\<lparr>fleet := put (fleet w) (bt_ProviderID t) p'\<rparr> in
                    case out of
                      Inl e \<Rightarrow> (res\<lparr>br_Error := api_error_text (vmProviderError e)\<rparr>, w')
                    | Inr None \<Rightarrow> (res\<lparr>br_OK := True\<rparr>, w')
                    | Inr (Some k) \<Rightarrow> (res\<lparr>br_OK := True, br_TaskID := task_ID k\<rparr>, w'))))))"

primrec run_targets ::
  "'p vm_hv \<Rightarrow> principal \<Rightarrow> string \<Rightarrow> bulk_request \<Rightarrow> bulk_target list \<Rightarrow> 'p vm_world
     \<Rightarrow> bulk_result list \<times> 'p vm_world" where
  "run_targets hv u perm req [] w = ([], w)"
| "run_targets hv u perm req (t # ts) w =
     (case runBulkTarget hv u perm req t w of (x, w1) \<Rightarrow>
        (case run_targets hv u perm req ts w1 of (xs, w2) \<Rightarrow> (x # xs, w2)))"

definition VMBulk :: "'p vm_hv \<Rightarrow> api_error + bulk_request \<Rightarrow> 'p vm_handler" where
  "VMBulk hv body w r =
     (case ctx_user r of None \<Rightarrow> (WriteError r ErrUnauthenticated, w)
      | Some u \<Rightarrow>
        (case body of Inl e \<Rightarrow> (WriteError r e, w)
         | Inr req \<Rightarrow>
           (let perm = bulkPermForAction (bq_Action req) in
            if perm = [] then (WriteError r (Errorf ErrValidation (''Unknown bulk action: '' @ bq_Action req)), w)
            else if bq_Targets req = [] then (WriteError r (Errorf ErrValidation ''No targets specified.''), w)
            else if bq_Action req = ''power'' \<and> \<not> PowerOp_Valid (bq_Op req)
              then (WriteError r (Errorf ErrValidation (''Unknown power operation: '' @ bq_Op req)), w)
            else (case run_targets hv u perm req (bq_Targets req) w of (xs, w') \<Rightarrow>
              (ok (response_json \<lparr>bp_Action = bq_Action req, bp_Op = bq_Op req,
                 bp_Succeeded = int (length (filter br_OK xs)),
                 bp_Failed = int (length (filter (\<lambda>x. \<not> br_OK x) xs)), bp_Results = xs\<rparr>), w')))))"

definition bulk_serve :: "(jval \<Rightarrow> string) \<Rightarrow> server \<Rightarrow> 'p vm_hv \<Rightarrow> api_error + bulk_request \<Rightarrow> 'p vm_handler" where
  "bulk_serve enc sv hv body =
     bootstrapGate (BearerOrSession (sdeps sv) (CSRF (sdeps sv) (AuditWrap enc ''vm.bulk'' (VMBulk hv body))))"

subsection \<open>A bulk request is a sequence of single requests\<close>

text \<open>The single request for a target of the bulk request.\<close>

definition single_route :: "bulk_request \<Rightarrow> bulk_target \<Rightarrow> life_route" where
  "single_route req t =
     (if bq_Action req = ''power'' then RPower (bt_VMID t) (bq_Op req)
      else if bq_Action req = ''snapshot'' then RSnapshotCreate (bt_VMID t)
        (Inr \<lparr>so_Name = bq_Name req, so_Description = [], so_Memory = False, so_Quiesce = False\<rparr>)
      else RDelete (bt_VMID t) (\<lambda>k. if k = ''force'' \<and> bq_Force req then ''true'' else []))"

definition may_act :: "principal \<Rightarrow> bulk_request \<Rightarrow> bulk_target \<Rightarrow> bool" where
  "may_act u req t \<longleftrightarrow>
     Can (Some u) (bulkPermForAction (bq_Action req)) \<lparr>sc_type = ''host'', sc_id = bt_ProviderID t\<rparr>"

text \<open>The single requests, one after the other, each only where the user may act.\<close>

primrec singles ::
  "'p vm_hv \<Rightarrow> marshal \<Rightarrow> principal \<Rightarrow> bulk_request \<Rightarrow> request \<Rightarrow> bulk_target list \<Rightarrow> 'p vm_world
     \<Rightarrow> bool list \<times> 'p vm_world" where
  "singles hv js u req r [] w = ([], w)"
| "singles hv js u req r (t # ts) w =
     (case (if may_act u req t then apfst (\<lambda>x. Status x < 300)
              (life_handler hv js (bt_ProviderID t) (single_route req t) w r) else (False, w)) of
        (x, w1) \<Rightarrow> apfst (Cons x) (singles hv js u req r ts w1))"

lemma error_status: "\<not> ErrStatus (vmProviderError e) < 300"
  by (cases e) (simp_all add: vmProviderError_def api_errors)

lemma single_call:
  assumes "bulkPermForAction (bq_Action req) \<noteq> []" "bq_Action req = ''power'' \<longrightarrow> PowerOp_Valid (bq_Op req)"
  shows "\<exists>c fin. bulk_call req (bt_VMID t) = Some c
    \<and> fin \<in> {ok, created}
    \<and> life_handler hv js pid (single_route req t) w r
      = resolveVMProvider pid (\<lambda>p. call_task hv js fin pid p c) w r"
  using assms
  by (auto simp: bulkPermForAction_def bulk_call_def single_route_def VMPowerOp_def VMSnapshotCreate_def
      VMDelete_def decoded_def resolveVMProvider_def split: if_splits option.split)

lemma runBulkTarget_single:
  assumes "bulkPermForAction (bq_Action req) \<noteq> []" "bq_Action req = ''power'' \<longrightarrow> PowerOp_Valid (bq_Op req)"
  shows "apfst br_OK (runBulkTarget hv u (bulkPermForAction (bq_Action req)) req t w)
    = (if may_act u req t then apfst (\<lambda>x. Status x < 300)
         (life_handler hv js (bt_ProviderID t) (single_route req t) w r) else (False, w))"
proof -
  obtain c fin where c: "bulk_call req (bt_VMID t) = Some c" "fin \<in> {ok, created}"
    "life_handler hv js (bt_ProviderID t) (single_route req t) w r
      = resolveVMProvider (bt_ProviderID t) (\<lambda>p. call_task hv js fin (bt_ProviderID t) p c) w r"
    using single_call [OF assms] by blast
  have fin: "Status (fin v) < 300" for v using c(2) by (auto simp: ok_def created_def WriteJSON_def)
  have nf: "\<not> ErrStatus APIErrNotFound < 300" by (simp add: api_errors)
  show ?thesis
  proof (cases "map_of (fleet w) (bt_ProviderID t)")
    case None
    then show ?thesis
      unfolding c(3) runBulkTarget_def may_act_def Let_def by (simp add: resolveVMProvider_def WriteError_def nf)
  next
    case (Some p)
    then show ?thesis
      unfolding c(3) runBulkTarget_def may_act_def Let_def
      by (simp add: resolveVMProvider_def call_task_def answer_task_def Let_def c(1) fin WriteError_def error_status
          split: prod.split sum.split option.split)
  qed
qed

lemma run_targets_singles:
  assumes "bulkPermForAction (bq_Action req) \<noteq> []" "bq_Action req = ''power'' \<longrightarrow> PowerOp_Valid (bq_Op req)"
  shows "apfst (map br_OK) (run_targets hv u (bulkPermForAction (bq_Action req)) req ts w) = singles hv js u req r ts w"
proof (induction ts arbitrary: w)
  case (Cons t ts)
  show ?case
    using runBulkTarget_single [OF assms, of hv u t w js r, symmetric] Cons.IH [symmetric]
    by (simp add: split_beta apfst_def map_prod_def)
qed simp

end
