(* ===== verification/Bulk_Props.thy ===== *)
theory Bulk_Props
  imports Vm_Bulk Vm_Props
begin

text \<open>
  What a bulk request does: the single requests of its targets, in their order, and nothing at a
  provider where the user lacks the permission. The last section evaluates the difference to the
  single routes: no step-up is asked for.
\<close>

lemma run_targets_names:
  "map (\<lambda>x. (br_ProviderID x, br_VMID x)) (fst (run_targets hv u perm req ts w))
    = map (\<lambda>t. (bt_ProviderID t, bt_VMID t)) ts"
proof (induction ts arbitrary: w)
  case (Cons t ts)
  have "br_ProviderID (fst (runBulkTarget hv u perm req t w)) = bt_ProviderID t"
    "br_VMID (fst (runBulkTarget hv u perm req t w)) = bt_VMID t"
    by (simp_all add: runBulkTarget_def Let_def split: option.split prod.split sum.split)
  then show ?case using Cons.IH by (simp add: split_beta)
qed simp

lemma run_targets_confined:
  assumes "\<not> Can (Some u) perm \<lparr>sc_type = ''host'', sc_id = pid\<rparr>"
  shows "map_of (fleet (snd (run_targets hv u perm req ts w))) pid = map_of (fleet w) pid"
proof (induction ts arbitrary: w)
  case (Cons t ts)
  have "map_of (fleet (snd (runBulkTarget hv u perm req t w))) pid = map_of (fleet w) pid"
    using assms by (auto simp: runBulkTarget_def Let_def map_of_put split: option.split prod.split sum.split)
  then show ?case using Cons.IH by (simp add: split_beta)
qed simp

text \<open>C27. A bulk request does exactly what the single requests of its targets do, one after the other,
  each only where the user holds the permission of the action at the target's provider: the same final
  state, a target succeeds exactly when its single request would be answered with success, one result
  for every target in the order of the request, and no failure stops the rest. A provider at which the
  user lacks the permission is left as it is. This holds for every implementation of the provider
  interface.\<close>

theorem bulk_is_single_requests:
  assumes "ctx_user r = Some u" "bulkPermForAction (bq_Action req) \<noteq> []" "bq_Targets req \<noteq> []"
    and "bq_Action req = ''power'' \<longrightarrow> PowerOp_Valid (bq_Op req)"
  shows "\<exists>xs w'. VMBulk hv (Inr req) w r =
       (ok (response_json \<lparr>bp_Action = bq_Action req, bp_Op = bq_Op req,
            bp_Succeeded = int (length (filter br_OK xs)),
            bp_Failed = int (length (filter (\<lambda>x. \<not> br_OK x) xs)), bp_Results = xs\<rparr>), w')
    \<and> (map br_OK xs, w') = singles hv js u req r (bq_Targets req) w
    \<and> map (\<lambda>x. (br_ProviderID x, br_VMID x)) xs = map (\<lambda>t. (bt_ProviderID t, bt_VMID t)) (bq_Targets req)
    \<and> (\<forall>pid. \<not> Can (Some u) (bulkPermForAction (bq_Action req)) \<lparr>sc_type = ''host'', sc_id = pid\<rparr>
         \<longrightarrow> map_of (fleet w') pid = map_of (fleet w) pid)"
proof -
  let ?out = "run_targets hv u (bulkPermForAction (bq_Action req)) req (bq_Targets req) w"
  have op: "\<not> (bq_Action req = ''power'' \<and> \<not> PowerOp_Valid (bq_Op req))" using assms(4) by blast
  have run: "VMBulk hv (Inr req) w r =
       (ok (response_json \<lparr>bp_Action = bq_Action req, bp_Op = bq_Op req,
            bp_Succeeded = int (length (filter br_OK (fst ?out))),
            bp_Failed = int (length (filter (\<lambda>x. \<not> br_OK x) (fst ?out))), bp_Results = fst ?out\<rparr>), snd ?out)"
    by (simp only: VMBulk_def assms(1) option.case sum.case Let_def if_not_P [OF assms(2)]
        if_not_P [OF assms(3)] if_not_P [OF op] split_beta prod.case)
  moreover have "(map br_OK (fst ?out), snd ?out) = singles hv js u req r (bq_Targets req) w"
    using run_targets_singles [OF assms(2,4), of hv u "bq_Targets req" w js r]
    by (simp add: apfst_def map_prod_def split_beta)
  ultimately show ?thesis
    by (intro exI [of _ "fst ?out"] exI [of _ "snd ?out"] conjI run run_targets_names allI impI run_targets_confined)
qed

text \<open>A user who may delete machines at one of two providers asks for a machine of each.\<close>

definition bulk_user :: principal where
  "bulk_user = buildUser (rbac_user ''u3'' ''cat'') ''#s'' ''pwd''
     [\<lparr>RoleID = ''r1'', RoleName = ''k1 only'', Permissions = [''vm.delete''], ScopeType = ''host'', ScopeID = ''k1''\<rparr>]"

definition bulk_world :: "Kvm_Sim.sim_backend kvm vm_world" where
  "bulk_world = demo_kvm_world\<lparr>fleet := [(''k1'', Kvm.New ''k1'' CapDeleteVM Kvm_Sim.newSimBackend),
     (''k2'', Kvm.New ''k2'' CapDeleteVM Kvm_Sim.newSimBackend)]\<rparr>"

definition bulk_delete :: bulk_request where
  "bulk_delete = \<lparr>bq_Action = ''delete'', bq_Op = [], bq_Name = [], bq_Force = True,
     bq_Targets = [\<lparr>bt_ProviderID = ''k2'', bt_VMID = ''dom-seed-1''\<rparr>, \<lparr>bt_ProviderID = ''k1'', bt_VMID = ''dom-seed-1''\<rparr>]\<rparr>"

theorem bulk_is_single_requests_witness:
  "\<exists>xs w'. VMBulk (kvm_hv Kvm_Sim.simBackend) (Inr bulk_delete) bulk_world
       ((rbac_request ''POST'')\<lparr>ctx_user := Some bulk_user\<rparr>)
     = (ok (response_json \<lparr>bp_Action = ''delete'', bp_Op = [],
          bp_Succeeded = int (length (filter br_OK xs)),
          bp_Failed = int (length (filter (\<lambda>x. \<not> br_OK x) xs)), bp_Results = xs\<rparr>), w')
    \<and> map br_OK xs = [False, True]"
proof -
  let ?r = "(rbac_request ''POST'')\<lparr>ctx_user := Some bulk_user\<rparr>"
  have u: "ctx_user ?r = Some bulk_user" by simp
  have p: "bulkPermForAction (bq_Action bulk_delete) \<noteq> []" "bq_Targets bulk_delete \<noteq> []"
    "bq_Action bulk_delete = ''power'' \<longrightarrow> PowerOp_Valid (bq_Op bulk_delete)" by code_simp+
  have "fst (singles (kvm_hv Kvm_Sim.simBackend) demo_marshal bulk_user bulk_delete ?r (bq_Targets bulk_delete) bulk_world)
      = [False, True]" by code_simp
  moreover have "bq_Action bulk_delete = ''delete''" "bq_Op bulk_delete = []" by (simp_all add: bulk_delete_def)
  ultimately show ?thesis
    using bulk_is_single_requests [OF u p, of "kvm_hv Kvm_Sim.simBackend" bulk_world demo_marshal]
    by (metis fst_conv)
qed

subsection \<open>Step-up\<close>

text \<open>With step-up required, a user who has set up a second factor and signed in with the password
  only is refused on the route of a single machine, and served on the bulk route.\<close>

definition strict_world :: "Kvm_Sim.sim_backend kvm vm_world" where
  "strict_world = demo_kvm_world\<lparr>store := rbac_db\<lparr>
     users := map (\<lambda>u. u\<lparr>TOTPEnabled := True\<rparr>) (users rbac_db),
     settings := (settings rbac_db)(''security.totp_required_for_mutations'' \<mapsto> ''true'')\<rparr>\<rparr>"

definition bulk_stop :: bulk_request where
  "bulk_stop = \<lparr>bq_Action = ''power'', bq_Op = ''stop'', bq_Name = [], bq_Force = False,
     bq_Targets = [\<lparr>bt_ProviderID = ''k1'', bt_VMID = ''dom-seed-1''\<rparr>]\<rparr>"

lemma single_stop_needs_step_up:
  "Status (fst (vm_serve json_enc rbac_server (kvm_hv Kvm_Sim.simBackend) demo_marshal stop_route strict_world
      (rbac_request ''POST''))) = ErrStatus ErrAALRequired"
  by code_simp

lemma bulk_stop_needs_no_step_up:
  "case bulk_serve json_enc rbac_server (kvm_hv Kvm_Sim.simBackend) (Inr bulk_stop) strict_world (rbac_request ''POST'') of
     (resp, w') \<Rightarrow> Status resp = 200 \<and> map (hp_seq \<circ> snd) (fleet w') \<noteq> map (hp_seq \<circ> snd) (fleet strict_world)"
  by code_simp

end
