(* ===== verification/Inventory.thy ===== *)
theory Inventory
  imports Kvm_Sim "HOL-Library.Multiset" "HOL-Library.Product_Lexorder"
begin

text \<open>
  The unified inventory, \<open>server/internal/inventory/inventory.go\<close>: the readings of every hypervisor
  provider, taken concurrently, and the workloads of the container hosts, in one sorted answer.
  The providers are given in the order in which their goroutines append their readings; the
  deadline of a reading is not modelled (a reading that misses it is one that answers an error).
\<close>

subsection \<open>Workloads and the merged view\<close>

record workload_port =
  wp_Private :: int
  wp_Public :: int
  wp_Protocol :: string

record workload =
  wl_ID :: string
  wl_Name :: string
  wl_Kind :: string
  wl_ProviderID :: string
  wl_Node :: string
  wl_State :: string
  wl_StateRaw :: string
  wl_Image :: string
  wl_Ports :: "workload_port list"
  wl_Labels :: "(string \<times> string) list"
  wl_CreatedAt :: int
  wl_Group :: string
  wl_Protected :: bool

record unified_workload =
  uw_HostID :: string
  uw_Workload :: workload

record container_host =
  ch_HostID :: string
  ch_Workloads :: "workload list"
  ch_Swarm :: "workload list"
  ch_Kube :: "workload list"
  ch_Degraded :: bool

record counts =
  ct_VMs :: int
  ct_VMsRunning :: int
  ct_Hosts :: int
  ct_Clusters :: int
  ct_Containers :: int
  ct_ContainersUp :: int
  ct_HypervisorProviders :: int
  ct_ContainerHosts :: int

record unified =
  un_VMs :: "vm list"
  un_Hosts :: "vhost list"
  un_Clusters :: "cluster list"
  un_Storage :: "storage_pool list"
  un_Networks :: "network list"
  un_Workloads :: "unified_workload list"
  un_Counts :: counts
  un_Degraded :: "string list"
  un_GeneratedAt :: int

subsection \<open>One provider\<close>

record vm_read =
  rd_VMs :: "vm list"
  rd_Hosts :: "vhost list"
  rd_Clusters :: "cluster list"
  rd_Storage :: "storage_pool list"
  rd_Networks :: "network list"
  rd_Degraded :: string

text \<open>A reading whose capability is declared: what it adds, and whether it failed.\<close>

definition gated :: "bool \<Rightarrow> verror + 'a list \<Rightarrow> 'a list" where
  "gated has res = (if has then (case res of Inl e \<Rightarrow> [] | Inr xs \<Rightarrow> xs) else [])"

definition any_listing :: list_options where
  "any_listing = \<lparr>lo_HostID = [], lo_ClusterID = [], lo_State = [], lo_Labels = []\<rparr>"

definition read_failed :: "'p vm_hv \<Rightarrow> 'p \<Rightarrow> bool" where
  "read_failed hv p \<longleftrightarrow> (let has = Has (vp_Capabilities hv p) in
     has CapListVMs \<and> isl (vp_ListVMs hv p any_listing) \<or> has CapListHosts \<and> isl (vp_ListHosts hv p)
     \<or> has CapListClusters \<and> isl (vp_ListClusters hv p) \<or> has CapListStorage \<and> isl (vp_ListStorage hv p)
     \<or> has CapListNetworks \<and> isl (vp_ListNetworks hv p))"

definition readVMProvider :: "'p vm_hv \<Rightarrow> string \<times> 'p \<Rightarrow> vm_read" where
  "readVMProvider hv = (\<lambda>(i, p).
     let has = Has (vp_Capabilities hv p)
     in \<lparr>rd_VMs = gated (has CapListVMs) (vp_ListVMs hv p any_listing), rd_Hosts = gated (has CapListHosts) (vp_ListHosts hv p),
         rd_Clusters = gated (has CapListClusters) (vp_ListClusters hv p),
         rd_Storage = gated (has CapListStorage) (vp_ListStorage hv p),
         rd_Networks = gated (has CapListNetworks) (vp_ListNetworks hv p),
         rd_Degraded = (if read_failed hv p then ''hypervisor:'' @ i else [])\<rparr>)"

subsection \<open>The aggregate\<close>

definition no_counts :: counts where
  "no_counts = \<lparr>ct_VMs = 0, ct_VMsRunning = 0, ct_Hosts = 0, ct_Clusters = 0, ct_Containers = 0,
     ct_ContainersUp = 0, ct_HypervisorProviders = 0, ct_ContainerHosts = 0\<rparr>"

definition empty_unified :: "int \<Rightarrow> unified" where
  "empty_unified now = \<lparr>un_VMs = [], un_Hosts = [], un_Clusters = [], un_Storage = [], un_Networks = [],
     un_Workloads = [], un_Counts = no_counts, un_Degraded = [], un_GeneratedAt = now\<rparr>"

text \<open>The critical section of a goroutine.\<close>

definition merge_read :: "vm_read \<Rightarrow> unified \<Rightarrow> unified" where
  "merge_read d u = u\<lparr>un_VMs := un_VMs u @ rd_VMs d, un_Hosts := un_Hosts u @ rd_Hosts d,
     un_Clusters := un_Clusters u @ rd_Clusters d, un_Storage := un_Storage u @ rd_Storage d,
     un_Networks := un_Networks u @ rd_Networks d,
     un_Degraded := (if rd_Degraded d \<noteq> [] then un_Degraded u @ [rd_Degraded d] else un_Degraded u)\<rparr>"

definition host_workloads :: "container_host \<Rightarrow> unified_workload list" where
  "host_workloads c = map (\<lambda>w. \<lparr>uw_HostID = ch_HostID c, uw_Workload = w\<rparr>)
     (ch_Workloads c @ ch_Swarm c @ ch_Kube c)"

definition merge_host :: "container_host \<Rightarrow> unified \<Rightarrow> unified" where
  "merge_host c u = u\<lparr>un_Workloads := un_Workloads u @ host_workloads c,
     un_Degraded := (if ch_Degraded c then un_Degraded u @ [''container-host:'' @ ch_HostID c] else un_Degraded u)\<rparr>"

definition running_count :: "('a \<Rightarrow> string) \<Rightarrow> 'a list \<Rightarrow> int" where
  "running_count st xs = int (length (filter (\<lambda>x. st x = ''running'') xs))"

definition count_unified :: "nat \<Rightarrow> nat \<Rightarrow> unified \<Rightarrow> counts" where
  "count_unified providers chosts u =
     \<lparr>ct_VMs = int (length (un_VMs u)), ct_VMsRunning = running_count vm_State (un_VMs u),
      ct_Hosts = int (length (un_Hosts u)), ct_Clusters = int (length (un_Clusters u)),
      ct_Containers = int (length (un_Workloads u)),
      ct_ContainersUp = running_count (wl_State \<circ> uw_Workload) (un_Workloads u),
      ct_HypervisorProviders = int providers, ct_ContainerHosts = int chosts\<rparr>"

text \<open>\<open>sort.Slice\<close> leaves the order of equal keys open; \<open>sort_key\<close> is one of the orders it may give.\<close>

definition workload_key :: "unified_workload \<Rightarrow> string \<times> string" where
  "workload_key w = (uw_HostID w, wl_ID (uw_Workload w))"

definition sortUnified :: "unified \<Rightarrow> unified" where
  "sortUnified u = u\<lparr>un_VMs := sort_key vm_ID (un_VMs u), un_Hosts := sort_key host_ID (un_Hosts u),
     un_Clusters := sort_key cl_ID (un_Clusters u), un_Storage := sort_key sp_ID (un_Storage u),
     un_Networks := sort_key net_ID (un_Networks u), un_Workloads := sort_key workload_key (un_Workloads u),
     un_Degraded := sort (un_Degraded u)\<rparr>"

definition All :: "'p vm_hv \<Rightarrow> (string \<times> 'p) list \<Rightarrow> container_host list \<Rightarrow> int \<Rightarrow> unified" where
  "All hv ps chosts now =
     (let u1 = fold (merge_read \<circ> readVMProvider hv) ps (empty_unified now);
          u2 = fold merge_host chosts u1
      in sortUnified (u2\<lparr>un_Counts := count_unified (length ps) (length chosts) u2\<rparr>))"

subsection \<open>What the merge collects\<close>

definition degraded_ids :: "vm_read list \<Rightarrow> string list" where
  "degraded_ids ds = filter (\<lambda>d. d \<noteq> []) (map rd_Degraded ds)"

lemma fold_merge_read:
  "fold (merge_read \<circ> f) ps u = u\<lparr>
     un_VMs := un_VMs u @ concat (map (rd_VMs \<circ> f) ps), un_Hosts := un_Hosts u @ concat (map (rd_Hosts \<circ> f) ps),
     un_Clusters := un_Clusters u @ concat (map (rd_Clusters \<circ> f) ps),
     un_Storage := un_Storage u @ concat (map (rd_Storage \<circ> f) ps),
     un_Networks := un_Networks u @ concat (map (rd_Networks \<circ> f) ps),
     un_Degraded := un_Degraded u @ degraded_ids (map f ps)\<rparr>"
  by (induction ps arbitrary: u) (simp_all add: merge_read_def degraded_ids_def)

lemma fold_merge_host:
  "fold merge_host cs u = u\<lparr>un_Workloads := un_Workloads u @ concat (map host_workloads cs),
     un_Degraded := un_Degraded u @ map (\<lambda>c. ''container-host:'' @ ch_HostID c) (filter ch_Degraded cs)\<rparr>"
  by (induction cs arbitrary: u) (simp_all add: merge_host_def)

text \<open>With distinct keys the sorted list depends on the elements only.\<close>

lemma sort_key_mset:
  assumes "mset xs = mset ys" "distinct (map f xs)"
  shows "sort_key f xs = sort_key f ys"
proof -
  have set: "set xs = set ys" using assms(1) by (rule mset_eq_setD)
  have "mset (map f ys) = mset (map f xs)" using assms(1) by simp
  then have dist: "distinct (map f ys)" using assms(2) by (metis mset_eq_imp_distinct_iff)
  have inj: "inj_on f (set xs)" using assms(2) by (simp add: distinct_map)
  have d: "distinct (map f (sort_key f zs))" if "distinct (map f zs)" for zs
    using that by (metis mset_eq_imp_distinct_iff mset_map mset_sort)
  show ?thesis
    by (rule map_sorted_distinct_set_unique [where f = f]) (simp_all add: set inj[unfolded set] d assms(2) dist)
qed

lemma sort_mset: "mset xs = mset ys \<Longrightarrow> sort xs = sort (ys :: 'a :: linorder list)"
  by (simp add: properties_for_sort)

lemma mset_concat_map: "mset ps = mset qs \<Longrightarrow> mset (concat (map f ps)) = mset (concat (map f qs))"
proof -
  assume eq: "mset ps = mset qs"
  have "mset (concat (map f xs)) = sum_mset (image_mset (\<lambda>x. mset (f x)) (mset xs))" for xs
    by (induction xs) simp_all
  then show ?thesis by (simp add: eq)
qed

lemma mset_filter_map: "mset ps = mset qs \<Longrightarrow> mset (filter P (map f ps)) = mset (filter P (map f qs))"
  by (simp add: mset_filter)

lemma running_count_mset: "mset xs = mset ys \<Longrightarrow> running_count f xs = running_count f ys"
  unfolding running_count_def by (metis mset_filter size_mset)

subsection \<open>Concurrency\<close>

text \<open>All names that a fleet's readings bring, one list for each kind of entity.\<close>

definition distinct_names :: "'p vm_hv \<Rightarrow> (string \<times> 'p) list \<Rightarrow> bool" where
  "distinct_names hv ps \<longleftrightarrow>
     (let ds = map (readVMProvider hv) ps in
      distinct (map vm_ID (concat (map rd_VMs ds))) \<and> distinct (map host_ID (concat (map rd_Hosts ds)))
    \<and> distinct (map cl_ID (concat (map rd_Clusters ds))) \<and> distinct (map sp_ID (concat (map rd_Storage ds)))
    \<and> distinct (map net_ID (concat (map rd_Networks ds))))"

definition reads_of :: "'p vm_hv \<Rightarrow> (vm_read \<Rightarrow> 'a list) \<Rightarrow> (string \<times> 'p) list \<Rightarrow> 'a list" where
  "reads_of hv sel ps = concat (map (sel \<circ> readVMProvider hv) ps)"

lemma All_fields:
  "un_VMs (All hv ps cs now) = sort_key vm_ID (reads_of hv rd_VMs ps)"
  "un_Hosts (All hv ps cs now) = sort_key host_ID (reads_of hv rd_Hosts ps)"
  "un_Clusters (All hv ps cs now) = sort_key cl_ID (reads_of hv rd_Clusters ps)"
  "un_Storage (All hv ps cs now) = sort_key sp_ID (reads_of hv rd_Storage ps)"
  "un_Networks (All hv ps cs now) = sort_key net_ID (reads_of hv rd_Networks ps)"
  "un_Workloads (All hv ps cs now) = sort_key workload_key (concat (map host_workloads cs))"
  "un_Degraded (All hv ps cs now) = sort (degraded_ids (map (readVMProvider hv) ps)
     @ map (\<lambda>c. ''container-host:'' @ ch_HostID c) (filter ch_Degraded cs))"
  "un_GeneratedAt (All hv ps cs now) = now"
  by (simp_all add: All_def Let_def fold_merge_read fold_merge_host sortUnified_def empty_unified_def reads_of_def)

lemma All_counts:
  "un_Counts (All hv ps cs now) =
     \<lparr>ct_VMs = int (length (reads_of hv rd_VMs ps)), ct_VMsRunning = running_count vm_State (reads_of hv rd_VMs ps),
      ct_Hosts = int (length (reads_of hv rd_Hosts ps)), ct_Clusters = int (length (reads_of hv rd_Clusters ps)),
      ct_Containers = int (length (concat (map host_workloads cs))),
      ct_ContainersUp = running_count (wl_State \<circ> uw_Workload) (concat (map host_workloads cs)),
      ct_HypervisorProviders = int (length ps), ct_ContainerHosts = int (length cs)\<rparr>"
  by (simp add: All_def Let_def fold_merge_read fold_merge_host sortUnified_def empty_unified_def count_unified_def
      reads_of_def)

lemma reads_of_mset: "mset ps = mset qs \<Longrightarrow> mset (reads_of hv sel ps) = mset (reads_of hv sel qs)"
  unfolding reads_of_def by (rule mset_concat_map)


text \<open>A provider that lists its machines, and one that lists its hosts.\<close>

definition machine_lister :: "Kvm_Sim.sim_backend kvm" where
  "machine_lister = Kvm.New ''k1'' CapListVMs Kvm_Sim.newSimBackend"

definition host_lister :: "Kvm_Sim.sim_backend kvm" where
  "host_lister = Kvm.New ''k2'' CapListHosts Kvm_Sim.newSimBackend"

lemma listers:
  "Has CapListVMs CapListVMs" "Has CapListHosts CapListHosts" "\<not> Has CapListVMs CapListHosts"
  "\<not> Has CapListVMs CapListClusters" "\<not> Has CapListVMs CapListStorage" "\<not> Has CapListVMs CapListNetworks"
  "\<not> Has CapListHosts CapListVMs" "\<not> Has CapListHosts CapListClusters" "\<not> Has CapListHosts CapListStorage"
  "\<not> Has CapListHosts CapListNetworks"
  by code_simp+

lemma vm_listed_any: "vm_listed any_listing v"
  by (simp add: vm_listed_def any_listing_def labelsMatch_def)


end
