(* ===== verification/Float_Order.thy ===== *)
theory Float_Order
  imports Float64
begin

text \<open>
  The order of \<open>float64\<close> values: rounding is monotone, and so are the additions, multiplications and
  subtractions of values that are not negative. A value that is not negative is a non-negative
  number or the positive infinity (\<open>nn\<close>).
\<close>

subsection \<open>Binades\<close>

lemma pow2_powi: "pow2 e = 2 powi e"
  by (simp add: pow2_def power_int_def inverse_eq_divide power_one_over)

lemma pow2_add: "pow2 (a + b) = pow2 a * pow2 b"
  by (simp add: pow2_powi power_int_add)

lemma pow2_less: "pow2 a < pow2 b \<longleftrightarrow> a < b"
proof -
  have "pow2 a < pow2 b" if "a < b" for a b
    unfolding pow2_powi by (rule power_int_strict_increasing) (use that in simp_all)
  then show ?thesis by (metis less_asym' linorder_cases order_less_irrefl)
qed

lemma pow2_le [simp]: "pow2 a \<le> pow2 b \<longleftrightarrow> a \<le> b"
  using pow2_less [of b a] by linarith

lemma pow2_nonzero [simp]: "pow2 e \<noteq> 0"
  by (metis pow2_pos less_irrefl)

lemma pow2_nat: "pow2 (int n) = 2 ^ n"
  by (simp add: pow2_def)

lemma floorlog_bounds:
  assumes "0 < n"
  shows "pow2 (int (floorlog 2 (nat n)) - 1) \<le> of_int n" "of_int n < pow2 (int (floorlog 2 (nat n)))"
proof -
  let ?f = "floorlog 2 (nat n)"
  have f: "0 < ?f" using assms by (simp add: floorlog_def)
  have lo: "2 ^ (?f - 1) \<le> nat n" and hi: "nat n < 2 ^ ?f"
    using floorlog_bounds [of "nat n" 2] assms by simp_all
  have "(of_nat (2 ^ (?f - 1)) :: rat) \<le> of_nat (nat n)" using lo by (simp only: of_nat_le_iff)
  then have "(2 :: rat) ^ (?f - 1) \<le> of_int n" using assms by simp
  then show "pow2 (int ?f - 1) \<le> of_int n" using f pow2_nat [of "?f - 1"] by (simp add: of_nat_diff)
  have "(of_nat (nat n) :: rat) < of_nat (2 ^ ?f)" using hi by (simp only: of_nat_less_iff)
  then show "of_int n < pow2 (int ?f)" using assms by (simp add: pow2_nat)
qed

lemma binade_bounds:
  assumes "0 < a"
  shows "pow2 (binade a) \<le> a" "a < pow2 (binade a + 1)"
proof -
  obtain n d where q: "quotient_of a = (n, d)" by fastforce
  have d: "0 < d" using quotient_of_denom_pos [OF q] .
  have a: "a = of_int n / of_int d" using quotient_of_div [OF q] .
  then have n: "0 < n" using assms d by (simp add: zero_less_divide_iff)
  define e where "e = int (floorlog 2 (nat n)) - int (floorlog 2 (nat d))"
  have b: "binade a = (if pow2 e \<le> a then e else e - 1)"
    by (simp add: binade_def q e_def Let_def)
  have pd: "(0 :: rat) < of_int d" using d by simp
  have hi: "a < pow2 (e + 1)"
  proof -
    have "of_int n < pow2 (int (floorlog 2 (nat n)))" by (rule floorlog_bounds(2) [OF n])
    also have "\<dots> = pow2 (e + 1) * pow2 (int (floorlog 2 (nat d)) - 1)"
      by (simp add: e_def pow2_add [symmetric])
    also have "\<dots> \<le> pow2 (e + 1) * of_int d"
      by (intro mult_left_mono floorlog_bounds(1) [OF d]) (simp add: less_imp_le)
    finally show ?thesis using pd by (simp add: a divide_less_eq)
  qed
  have lo: "pow2 (e - 1) \<le> a"
  proof -
    have "pow2 (e - 1) * of_int d \<le> pow2 (e - 1) * pow2 (int (floorlog 2 (nat d)))"
      by (intro mult_left_mono less_imp_le [OF floorlog_bounds(2) [OF d]]) (simp add: less_imp_le)
    also have "\<dots> = pow2 (int (floorlog 2 (nat n)) - 1)" by (simp add: e_def pow2_add [symmetric])
    also have "\<dots> \<le> of_int n" by (rule floorlog_bounds(1) [OF n])
    finally show ?thesis using pd by (simp add: a le_divide_eq)
  qed
  show "pow2 (binade a) \<le> a" using lo by (simp add: b)
  show "a < pow2 (binade a + 1)" using hi by (simp add: b)
qed

lemma binade_mono:
  assumes "0 < x" "x \<le> y"
  shows "binade x \<le> binade y"
proof -
  have "pow2 (binade x) < pow2 (binade y + 1)"
    using binade_bounds(1) [of x] binade_bounds(2) [of y] assms by linarith
  then show ?thesis by (simp add: pow2_less)
qed

subsection \<open>Rounding is monotone\<close>

lemma round_half_even_between: "\<lfloor>x\<rfloor> \<le> round_half_even x" "round_half_even x \<le> \<lfloor>x\<rfloor> + 1"
  by (simp_all add: round_half_even_def Let_def)

lemma round_half_even_mono:
  assumes "x \<le> y"
  shows "round_half_even x \<le> round_half_even y"
proof (cases "\<lfloor>x\<rfloor> = \<lfloor>y\<rfloor>")
  case True
  then show ?thesis using assms by (auto simp: round_half_even_def Let_def)
next
  case False
  then have "\<lfloor>x\<rfloor> + 1 \<le> \<lfloor>y\<rfloor>" using floor_mono [OF assms] by linarith
  then show ?thesis using round_half_even_between [of x] round_half_even_between [of y] by linarith
qed

definition sig_exp :: "rat \<Rightarrow> int" where
  "sig_exp a = max (binade a) (-1022)"

definition round_fin :: "rat \<Rightarrow> rat" where
  "round_fin a = of_int (round_half_even (a / pow2 (sig_exp a - 52))) * pow2 (sig_exp a - 52)"

lemma round64_pos:
  "0 < q \<Longrightarrow> round64 q = (if binade q < 1023 \<or> round_fin q < pow2 1024 then Fin (round_fin q) else Inf True)"
  by (simp add: round64_def Let_def round_fin_def sig_exp_def not_le)

lemma round_fin_mono:
  assumes "0 < x" "x \<le> y"
  shows "round_fin x \<le> round_fin y"
proof -
  have y: "0 < y" using assms by linarith
  have le: "sig_exp x \<le> sig_exp y" using binade_mono [OF assms] by (simp add: sig_exp_def max_def)
  show ?thesis
  proof (cases "sig_exp x = sig_exp y")
    case True
    have "x / pow2 (sig_exp y - 52) \<le> y / pow2 (sig_exp y - 52)"
      using assms by (intro divide_right_mono) (simp_all add: less_imp_le)
    from round_half_even_mono [OF this] show ?thesis
      unfolding round_fin_def True by (intro mult_right_mono) (simp_all add: less_imp_le)
  next
    case False
    then have lt: "sig_exp x + 1 \<le> sig_exp y" using le by linarith
    then have sy: "sig_exp y = binade y" by (simp add: sig_exp_def max_def split: if_splits)
    have "x \<le> pow2 (sig_exp x + 1)"
    proof -
      have "x < pow2 (binade x + 1)" using binade_bounds(2) assms by blast
      also have "\<dots> \<le> pow2 (sig_exp x + 1)" by (simp add: sig_exp_def)
      finally show ?thesis by simp
    qed
    moreover have split: "pow2 (sig_exp x + 1) = of_int (2 ^ 53) * pow2 (sig_exp x - 52)"
      using pow2_add [of 53 "sig_exp x - 52"] pow2_nat [of 53] by (simp add: add.commute)
    ultimately have "x / pow2 (sig_exp x - 52) \<le> of_int (2 ^ 53)" by (simp add: divide_le_eq)
    from round_half_even_mono [OF this] have "round_half_even (x / pow2 (sig_exp x - 52)) \<le> 2 ^ 53"
      by (simp only: round_half_even_int)
    then have "(of_int (round_half_even (x / pow2 (sig_exp x - 52))) :: rat) \<le> of_int (2 ^ 53)"
      by (simp only: of_int_le_iff)
    then have "round_fin x \<le> pow2 (sig_exp x + 1)"
      unfolding round_fin_def split by (intro mult_right_mono) (simp_all add: less_imp_le)
    also have "\<dots> \<le> pow2 (sig_exp y)" using lt by simp
    also have "\<dots> \<le> round_fin y"
    proof -
      have split: "pow2 (sig_exp y) = of_int (2 ^ 52) * pow2 (sig_exp y - 52)"
        using pow2_add [of 52 "sig_exp y - 52"] pow2_nat [of 52] by simp
      have "pow2 (sig_exp y) \<le> y" unfolding sy using binade_bounds(1) y by blast
      then have "of_int (2 ^ 52) \<le> y / pow2 (sig_exp y - 52)" unfolding split by (simp add: le_divide_eq)
      from round_half_even_mono [OF this] have "2 ^ 52 \<le> round_half_even (y / pow2 (sig_exp y - 52))"
        by (simp only: round_half_even_int)
      then have "of_int (2 ^ 52) \<le> (of_int (round_half_even (y / pow2 (sig_exp y - 52))) :: rat)"
        by (simp only: of_int_le_iff)
      then show ?thesis unfolding split round_fin_def
        by (intro mult_right_mono) (simp_all add: less_imp_le)
    qed
    finally show ?thesis .
  qed
qed

lemma fle_Inf [simp]: "fle (Fin x) (Inf True)" "fle (Inf True) (Inf True)" "fle (Fin x) (Fin y) \<longleftrightarrow> x \<le> y"
  "\<not> fle (Inf True) (Fin x)" "fle (Fin x) (Inf s) \<longleftrightarrow> s" "\<not> fle x' NaN" "\<not> fle NaN x'"
  by (auto simp: fle_def)

definition nn :: "f64 \<Rightarrow> bool" where
  "nn x \<longleftrightarrow> (case x of NaN \<Rightarrow> False | Inf s \<Rightarrow> s | Fin q \<Rightarrow> 0 \<le> q)"

lemma nn_simps [simp]: "nn (Fin q) \<longleftrightarrow> 0 \<le> q" "nn (Inf s) \<longleftrightarrow> s" "\<not> nn NaN"
  by (simp_all add: nn_def)

lemma round64_0 [simp]: "round64 0 = Fin 0" by (simp add: round64_def)

lemma nn_round: "0 \<le> q \<Longrightarrow> nn (round64 q)"
proof (cases "q = 0")
  case False
  moreover assume "0 \<le> q"
  ultimately have q: "0 < q" by simp
  have "0 \<le> round_fin q" using q
    by (simp add: round_fin_def round_half_even_nonneg less_imp_le)
  then show ?thesis using round64_pos [OF q] by simp
qed simp

lemma round64_mono: "0 \<le> x \<Longrightarrow> x \<le> y \<Longrightarrow> fle (round64 x) (round64 y)"
proof (cases "x = 0")
  case True
  moreover assume "x \<le> y"
  ultimately show ?thesis using nn_round [of y] by (cases "round64 y") simp_all
next
  case False
  moreover assume xy: "0 \<le> x" "x \<le> y"
  ultimately have p: "0 < x" "0 < y" by simp_all
  have m: "round_fin x \<le> round_fin y" "binade x \<le> binade y"
    using round_fin_mono binade_mono p xy by blast+
  show ?thesis
  proof (cases "binade y < 1023 \<or> round_fin y < pow2 1024")
    case True
    then have "binade x < 1023 \<or> round_fin x < pow2 1024" using m by linarith
    then show ?thesis using True m(1) by (simp add: round64_pos p)
  next
    case False
    then show ?thesis using round64_pos [OF p(2)] round64_pos [OF p(1)] by simp
  qed
qed

subsection \<open>Operations on values that are not negative\<close>

lemma nn_fadd: "nn x \<Longrightarrow> nn y \<Longrightarrow> nn (fadd x y)"
  by (cases x; cases y) (simp_all add: nn_round)

lemma fle_fadd: "nn x \<Longrightarrow> nn y \<Longrightarrow> fle x x' \<Longrightarrow> fle y y' \<Longrightarrow> nn x' \<Longrightarrow> nn y' \<Longrightarrow> fle (fadd x y) (fadd x' y')"
proof -
  assume a: "nn x" "nn y" "fle x x'" "fle y y'" "nn x'" "nn y'"
  have "fle (fadd x y) (Inf True)" using nn_fadd [OF a(1,2)] by (cases "fadd x y") simp_all
  then show ?thesis using a
    by (cases x; cases x'; cases y; cases y') (simp_all add: round64_mono)
qed

lemma nn_fmul: "nn x \<Longrightarrow> 0 < k \<Longrightarrow> nn (fmul x (Fin k))"
  by (cases x) (simp_all add: nn_round)

lemma fle_fmul: "nn x \<Longrightarrow> fle x y \<Longrightarrow> nn y \<Longrightarrow> 0 < k \<Longrightarrow> fle (fmul x (Fin k)) (fmul y (Fin k))"
proof -
  assume a: "nn x" "fle x y" "nn y" "0 < k"
  have "fle (fmul x (Fin k)) (Inf True)" using nn_fmul [OF a(1,4)] by (cases "fmul x (Fin k)") simp_all
  then show ?thesis using a by (cases x; cases y) (simp_all add: round64_mono)
qed

lemma fsub_nonneg: "nn x \<Longrightarrow> nn y \<Longrightarrow> fle y x \<Longrightarrow> \<not> flt (fsub x y) (Fin 0)"
  by (cases x; cases y) (simp_all add: fsub_def round64_nonneg)

subsection \<open>Rounding twice\<close>

lemma round_fin_grid:
  assumes "0 < x" "sig_exp x \<le> k" "x = of_int m * pow2 (k - 52)"
  shows "round_fin x = x"
proof -
  have "pow2 (k - 52) = pow2 (k - sig_exp x) * pow2 (sig_exp x - 52)" by (simp add: pow2_add [symmetric])
  also have "\<dots> = pow2 (int (nat (k - sig_exp x))) * pow2 (sig_exp x - 52)" using assms(2) by simp
  also have "\<dots> = of_int (2 ^ nat (k - sig_exp x)) * pow2 (sig_exp x - 52)"
    by (simp only: pow2_nat of_int_power of_int_numeral)
  finally have "x = of_int (m * 2 ^ nat (k - sig_exp x)) * pow2 (sig_exp x - 52)" using assms(3) by simp
  then have q: "x / pow2 (sig_exp x - 52) = of_int (m * 2 ^ nat (k - sig_exp x))"
    by (simp add: nonzero_divide_eq_eq)
  have "x = x / pow2 (sig_exp x - 52) * pow2 (sig_exp x - 52)" by simp
  then show ?thesis unfolding round_fin_def q by (simp only: round_half_even_int)
qed

lemma sig_exp_le: "0 < x \<Longrightarrow> x < pow2 (k + 1) \<Longrightarrow> -1022 \<le> k \<Longrightarrow> sig_exp x \<le> k"
proof -
  assume a: "0 < x" "x < pow2 (k + 1)" "-1022 \<le> k"
  have "pow2 (binade x) < pow2 (k + 1)" using binade_bounds(1) [OF a(1)] a(2) by linarith
  then have "binade x \<le> k" by (simp only: pow2_less)
  then show ?thesis using a(3) by (simp add: sig_exp_def)
qed

lemma round_fin_upper:
  assumes "0 < x"
  shows "round_half_even (x / pow2 (sig_exp x - 52)) \<le> 2 ^ 53"
proof -
  have "x < pow2 (binade x + 1)" using binade_bounds(2) assms by blast
  also have "\<dots> \<le> pow2 (sig_exp x + 1)" by (simp add: sig_exp_def)
  also have "\<dots> = of_int (2 ^ 53) * pow2 (sig_exp x - 52)"
    using pow2_add [of 53 "sig_exp x - 52"] pow2_nat [of 53] by (simp add: add.commute)
  finally have "x / pow2 (sig_exp x - 52) \<le> of_int (2 ^ 53)" by (simp add: divide_le_eq)
  from round_half_even_mono [OF this] show ?thesis by (simp only: round_half_even_int)
qed

lemma round_fin_idem:
  assumes "0 < x" "0 < round_fin x"
  shows "round_fin (round_fin x) = round_fin x"
proof -
  let ?k = "sig_exp x" and ?m = "round_half_even (x / pow2 (sig_exp x - 52))"
  have r: "round_fin x = of_int ?m * pow2 (?k - 52)" by (simp add: round_fin_def)
  have k: "-1022 \<le> ?k" by (simp add: sig_exp_def)
  have top: "pow2 (?k + 1) = of_int (2 ^ 53) * pow2 (?k - 52)"
    using pow2_add [of 53 "?k - 52"] pow2_nat [of 53] by (simp add: add.commute)
  show ?thesis
  proof (cases "?m < 2 ^ 53")
    case True
    then have "(of_int ?m :: rat) < of_int (2 ^ 53)" by (simp only: of_int_less_iff)
    then have "round_fin x < pow2 (?k + 1)" unfolding r top by (intro mult_strict_right_mono pow2_pos)
    from sig_exp_le [OF assms(2) this k] show ?thesis by (rule round_fin_grid [OF assms(2) _ r])
  next
    case False
    then have m: "?m = 2 ^ 53" using round_fin_upper [OF assms(1)] by linarith
    have r': "round_fin x = pow2 (?k + 1)" unfolding r top m by (rule refl)
    then have "round_fin x < pow2 (?k + 1 + 1)" by (simp only: pow2_less)
    then have "sig_exp (round_fin x) \<le> ?k + 1" using k by (intro sig_exp_le [OF assms(2)]) simp_all
    moreover have "round_fin x = of_int (2 ^ 52) * pow2 (?k + 1 - 52)"
      unfolding r' using pow2_add [of 52 "?k + 1 - 52"] pow2_nat [of 52] by (simp add: add.commute)
    ultimately show ?thesis by (rule round_fin_grid [OF assms(2)])
  qed
qed

lemma round_fin_bound:
  assumes "0 < x" "binade x < 1023"
  shows "round_fin x < pow2 1024"
proof -
  let ?k = "sig_exp x" and ?m = "round_half_even (x / pow2 (sig_exp x - 52))"
  have "(of_int ?m :: rat) \<le> of_int (2 ^ 53)" using round_fin_upper [OF assms(1)] by (simp only: of_int_le_iff)
  then have "round_fin x \<le> of_int (2 ^ 53) * pow2 (?k - 52)"
    unfolding round_fin_def by (intro mult_right_mono) (simp_all add: less_imp_le)
  also have "\<dots> = pow2 (?k + 1)"
    using pow2_add [of 53 "?k - 52"] pow2_nat [of 53] by (simp add: add.commute)
  also have "\<dots> < pow2 1024" using assms(2) by (simp add: pow2_less sig_exp_def)
  finally show ?thesis .
qed

lemma round64_idem: "0 \<le> q \<Longrightarrow> round64 q = Fin r \<Longrightarrow> round64 r = Fin r"
proof (cases "q = 0")
  case False
  moreover assume a: "0 \<le> q" "round64 q = Fin r"
  ultimately have q: "0 < q" by simp
  have r: "r = round_fin q" "binade q < 1023 \<or> round_fin q < pow2 1024"
    using a(2) by (simp_all add: round64_pos [OF q] split: if_splits)
  have b: "round_fin q < pow2 1024" using r(2) round_fin_bound [OF q] by blast
  show ?thesis
  proof (cases "r = 0")
    case False
    then have p: "0 < round_fin q" using nn_round [OF a(1)] a(2) r(1) by simp
    show ?thesis unfolding r(1) round64_pos [OF p] round_fin_idem [OF q p] using b by simp
  qed simp
qed simp

text \<open>A sum is not below a summand that some operation has rounded.\<close>

lemma fle_fadd_right:
  assumes "nn x" "nn y" "\<And>q. y = Fin q \<Longrightarrow> round64 q = Fin q"
  shows "fle y (fadd x y)"
proof -
  have "fle (fadd (Fin 0) y) (fadd x y)"
    using assms(1,2) by (intro fle_fadd nn_fadd) (cases x; cases y; simp)+
  moreover have "fadd (Fin 0) y = y" using assms(3) by (cases y) simp_all
  ultimately show ?thesis by simp
qed

end
