(* ===== verification/Go_Sort.thy ===== *)
theory Go_Sort
  imports Main "HOL-Library.Multiset"
begin

text \<open>
  Go's \<open>sort.SliceStable\<close>: insertion from the left, each element moved left past the elements it is
  less than. This is what Go does on at most twenty elements, and what it must give on any number
  when the comparison is a strict weak order (locale \<open>weak_order\<close>).
\<close>

definition insert_by :: "('a \<Rightarrow> 'a \<Rightarrow> bool) \<Rightarrow> 'a list \<Rightarrow> 'a \<Rightarrow> 'a list" where
  "insert_by lt ys x = rev (dropWhile (lt x) (rev ys)) @ x # rev (takeWhile (lt x) (rev ys))"

definition sort_by :: "('a \<Rightarrow> 'a \<Rightarrow> bool) \<Rightarrow> 'a list \<Rightarrow> 'a list" where
  "sort_by lt xs = foldl (insert_by lt) [] xs"

lemma mset_insert_by: "mset (insert_by lt ys x) = add_mset x (mset ys)"
proof -
  have "mset (takeWhile P zs) + mset (dropWhile P zs) = mset zs" for P and zs :: "'a list"
    by (metis mset_append takeWhile_dropWhile_id)
  then show ?thesis by (simp add: insert_by_def add.commute)
qed

lemma mset_sort_by [simp]: "mset (sort_by lt xs) = mset xs"
proof -
  have "mset (foldl (insert_by lt) acc xs) = mset acc + mset xs" for acc
    by (induction xs arbitrary: acc) (simp_all add: mset_insert_by)
  then show ?thesis by (simp add: sort_by_def)
qed

lemma set_sort_by [simp]: "set (sort_by lt xs) = set xs"
  by (metis mset_sort_by set_mset_mset)

lemma length_sort_by [simp]: "length (sort_by lt xs) = length xs"
  by (metis mset_sort_by size_mset)

text \<open>A strict weak order: asymmetric, and being not less is transitive.\<close>

locale weak_order =
  fixes lt :: "'a \<Rightarrow> 'a \<Rightarrow> bool"
  assumes asym: "lt x y \<Longrightarrow> \<not> lt y x"
    and not_less_trans: "\<not> lt y x \<Longrightarrow> \<not> lt z y \<Longrightarrow> \<not> lt z x"
begin

lemma sorted_insert:
  assumes "sorted_wrt (\<lambda>a b. \<not> lt b a) ys"
  shows "sorted_wrt (\<lambda>a b. \<not> lt b a) (insert_by lt ys x)"
proof -
  let ?R = "\<lambda>a b. \<not> lt b a"
  let ?lo = "rev (dropWhile (lt x) (rev ys))" and ?hi = "rev (takeWhile (lt x) (rev ys))"
  have split: "ys = ?lo @ ?hi" by (metis rev_append rev_rev_ident takeWhile_dropWhile_id)
  then have s: "sorted_wrt ?R ?lo" "sorted_wrt ?R ?hi" "\<And>a b. a \<in> set ?lo \<Longrightarrow> b \<in> set ?hi \<Longrightarrow> ?R a b"
    using assms by (metis sorted_wrt_append)+
  have hi: "?R x b" if "b \<in> set ?hi" for b using that asym by (auto dest: set_takeWhileD)
  have lo: "?R a x" if a: "a \<in> set ?lo" for a
  proof (cases "dropWhile (lt x) (rev ys)")
    case (Cons l us)
    then have l: "\<not> lt x l" by (metis hd_dropWhile list.distinct(1) list.sel(1))
    show ?thesis
    proof (cases "a = l")
      case False
      then have "a \<in> set us" using a Cons by simp
      then have "?R a l" using s(1) Cons by (simp add: sorted_wrt_append)
      then show ?thesis using l not_less_trans by blast
    qed (use l in simp)
  next
    case Nil
    from a [unfolded Nil] show ?thesis by simp
  qed
  have "sorted_wrt ?R A \<Longrightarrow> sorted_wrt ?R B \<Longrightarrow> (\<And>a b. a \<in> set A \<Longrightarrow> b \<in> set B \<Longrightarrow> ?R a b)
      \<Longrightarrow> (\<And>b. b \<in> set B \<Longrightarrow> ?R x b) \<Longrightarrow> (\<And>a. a \<in> set A \<Longrightarrow> ?R a x) \<Longrightarrow> sorted_wrt ?R (A @ x # B)" for A B
    by (auto simp: sorted_wrt_append)
  from this [OF s hi lo] show ?thesis unfolding insert_by_def .
qed

lemma sort_by_sorted: "sorted_wrt (\<lambda>a b. \<not> lt b a) (sort_by lt xs)"
proof -
  have "sorted_wrt (\<lambda>a b. \<not> lt b a) acc \<Longrightarrow> sorted_wrt (\<lambda>a b. \<not> lt b a) (foldl (insert_by lt) acc xs)" for acc
    by (induction xs arbitrary: acc) (simp_all add: sorted_insert)
  then show ?thesis by (simp add: sort_by_def)
qed

end

end
