(* ===== verification/Finops.thy ===== *)
theory Finops
  imports Inventory Float_Order Go_Sort
begin

text \<open>
  Costs and right-sizing, \<open>server/internal/finops\<close>: the rate card, the price of an entity, the
  summary, the utilization of a metric series and the recommendations. Prices are \<open>float64\<close>
  (theory \<open>Float64\<close>), every operation rounded where the code rounds. The JSON text of a stored rate
  card is decoded by a parameter.
\<close>

subsection \<open>Rate cards\<close>

record rate_card =
  rc_Currency :: string
  rc_VCPUHour :: f64
  rc_GBRAMHour :: f64
  rc_GBStorageMonth :: f64
  rc_ContainerVCPUHour :: f64
  rc_ContainerGBRAMHour :: f64

definition DefaultRateCard :: rate_card where
  "DefaultRateCard = \<lparr>rc_Currency = ''USD'', rc_VCPUHour = round64 (4 / 100), rc_GBRAMHour = round64 (5 / 1000),
     rc_GBStorageMonth = round64 (1 / 10), rc_ContainerVCPUHour = round64 (2 / 100),
     rc_ContainerGBRAMHour = round64 (3 / 1000)\<rparr>"

definition HoursPerMonth :: f64 where "HoursPerMonth = Fin 730"

definition clamp_rate :: "f64 \<Rightarrow> f64" where
  "clamp_rate v = (if flt v (Fin 0) then Fin 0 else v)"

definition or_rate :: "f64 \<Rightarrow> f64 \<Rightarrow> f64" where
  "or_rate v d = (if feq v (Fin 0) then d else v)"

definition NormalizeCard :: "rate_card \<Rightarrow> rate_card" where
  "NormalizeCard rc =
     (let cpu = clamp_rate (rc_VCPUHour rc); ram = clamp_rate (rc_GBRAMHour rc)
      in \<lparr>rc_Currency = (if rc_Currency rc = [] then ''USD'' else rc_Currency rc), rc_VCPUHour = cpu,
          rc_GBRAMHour = ram, rc_GBStorageMonth = clamp_rate (rc_GBStorageMonth rc),
          rc_ContainerVCPUHour = or_rate (clamp_rate (rc_ContainerVCPUHour rc)) cpu,
          rc_ContainerGBRAMHour = or_rate (clamp_rate (rc_ContainerGBRAMHour rc)) ram\<rparr>)"

definition storageHour :: "rate_card \<Rightarrow> f64" where
  "storageHour rc = fdiv (rc_GBStorageMonth rc) HoursPerMonth"

definition UnmarshalRateCard :: "(string \<Rightarrow> rate_card option) \<Rightarrow> string \<Rightarrow> rate_card \<times> bool" where
  "UnmarshalRateCard dec s =
     (if s = [] then (DefaultRateCard, False)
      else (case dec s of None \<Rightarrow> (DefaultRateCard, False) | Some rc \<Rightarrow> (NormalizeCard rc, True)))"

subsection \<open>The price of an entity\<close>

record cost_breakdown =
  CPUHour :: f64
  RAMHour :: f64
  StorageHour :: f64

definition Total :: "cost_breakdown \<Rightarrow> f64" where
  "Total c = fadd (fadd (CPUHour c) (RAMHour c)) (StorageHour c)"

record cost_entity =
  ce_ID :: string
  ce_Name :: string
  ce_Domain :: string
  ce_Kind :: string
  ce_Provider :: string
  ce_Host :: string
  ce_Cluster :: string
  ce_Running :: bool
  ce_VCPUs :: int
  ce_MemoryGB :: f64
  ce_StorageGB :: f64

record entity_cost = cost_entity +
  Breakdown :: cost_breakdown
  HourlyCost :: f64
  MonthlyCost :: f64

definition EstimateCost :: "rate_card \<Rightarrow> cost_entity \<Rightarrow> entity_cost" where
  "EstimateCost rc0 e =
     (let rc = NormalizeCard rc0;
          cpuRate = (if ce_Domain e = ''container'' then rc_ContainerVCPUHour rc else rc_VCPUHour rc);
          ramRate = (if ce_Domain e = ''container'' then rc_ContainerGBRAMHour rc else rc_GBRAMHour rc);
          bd = \<lparr>CPUHour = (if ce_Running e then fmul (f64_of_int (ce_VCPUs e)) cpuRate else Fin 0),
                RAMHour = (if ce_Running e then fmul (ce_MemoryGB e) ramRate else Fin 0),
                StorageHour = fmul (ce_StorageGB e) (storageHour rc)\<rparr>
      in cost_entity.extend e (entity_cost.fields bd (Total bd) (fmul (Total bd) HoursPerMonth)))"

definition vmStorageGB :: "vm \<Rightarrow> f64" where
  "vmStorageGB v = foldl (\<lambda>gb d. fadd gb (dk_CapacityGB d)) (Fin 0) (vm_Disks v)"

definition VMToCostEntity :: "vm \<Rightarrow> cost_entity" where
  "VMToCostEntity v = \<lparr>ce_ID = vm_ID v, ce_Name = vm_Name v, ce_Domain = ''vm'', ce_Kind = vm_Kind v,
     ce_Provider = vm_ProviderID v, ce_Host = vm_HostID v, ce_Cluster = vm_ClusterID v,
     ce_Running = (vm_State v = StateRunning), ce_VCPUs = vm_VCPUs v,
     ce_MemoryGB = fdiv (f64_of_int (vm_MemoryMB v)) (Fin 1024), ce_StorageGB = vmStorageGB v\<rparr>"

definition WorkloadToCostEntity :: "unified_workload \<Rightarrow> int \<Rightarrow> f64 \<Rightarrow> cost_entity" where
  "WorkloadToCostEntity w vcpus memGB =
     (let k = uw_Workload w in
      \<lparr>ce_ID = wl_ID k, ce_Name = wl_Name k, ce_Domain = ''container'', ce_Kind = wl_Kind k,
       ce_Provider = wl_ProviderID k, ce_Host = uw_HostID w, ce_Cluster = [],
       ce_Running = (wl_State k = ''running''), ce_VCPUs = vcpus, ce_MemoryGB = memGB, ce_StorageGB = Fin 0\<rparr>)"

subsection \<open>Pricing the inventory\<close>

definition PriceInventory :: "rate_card \<Rightarrow> unified \<Rightarrow> entity_cost list" where
  "PriceInventory rc u =
     sort_by (\<lambda>a b. if ce_Domain a \<noteq> ce_Domain b then ce_Domain a < ce_Domain b else ce_ID a < ce_ID b)
       (map (\<lambda>v. EstimateCost rc (VMToCostEntity v)) (un_VMs u)
        @ map (\<lambda>w. EstimateCost rc
                 (if wl_State (uw_Workload w) = ''running'' then WorkloadToCostEntity w 1 (Fin (1 / 2))
                  else WorkloadToCostEntity w 0 (Fin 0))) (un_Workloads u))"

record group_cost =
  gc_Key :: string
  gc_Label :: string
  gc_Count :: int
  gc_Hourly :: f64
  gc_Monthly :: f64

type_synonym groups = "(string \<times> group_cost) list"

text \<open>The closure \<open>add\<close> of \<open>Summarize\<close>.\<close>

definition add_group :: "string \<Rightarrow> string \<Rightarrow> entity_cost \<Rightarrow> groups \<Rightarrow> groups" where
  "add_group key label c m =
     (if key = [] then m
      else (let g = (case map_of m key of
                 None \<Rightarrow> \<lparr>gc_Key = key, gc_Label = label, gc_Count = 0, gc_Hourly = Fin 0, gc_Monthly = Fin 0\<rparr>
               | Some g \<Rightarrow> g)
            in put m key (g\<lparr>gc_Count := gc_Count g + 1, gc_Hourly := fadd (gc_Hourly g) (HourlyCost c),
                            gc_Monthly := fadd (gc_Monthly g) (MonthlyCost c)\<rparr>)))"

definition sortGroups :: "groups \<Rightarrow> group_cost list" where
  "sortGroups m =
     sort_by (\<lambda>a b. if \<not> feq (gc_Monthly a) (gc_Monthly b) then flt (gc_Monthly b) (gc_Monthly a)
                    else gc_Key a < gc_Key b) (map snd m)"

text \<open>\<open>strings.Title\<close> on the ASCII texts that occur.\<close>

fun title_from :: "bool \<Rightarrow> string \<Rightarrow> string" where
  "title_from start [] = []"
| "title_from start (c # cs) = (if start then to_upper [c] else [c]) @ title_from (is_space c) cs"

definition domainLabel :: "string \<Rightarrow> string" where
  "domainLabel d = (if d = ''vm'' then ''Virtual machines''
     else if d = ''container'' then ''Containers'' else title_from True d)"

record summary =
  sum_Currency :: string
  TotalHourly :: f64
  TotalMonthly :: f64
  VMHourly :: f64
  ContainerHourly :: f64
  sum_Entities :: int
  RunningEntities :: int
  ByDomain :: "group_cost list"
  ByHypervisor :: "group_cost list"
  ByCluster :: "group_cost list"
  ByHost :: "group_cost list"
  TopSpenders :: "entity_cost list"
  PotentialMonthlySavings :: f64
  sum_Recommendations :: int

definition sum_hourly :: "entity_cost list \<Rightarrow> f64" where
  "sum_hourly cs = foldl (\<lambda>t c. fadd t (HourlyCost c)) (Fin 0) cs"

definition Summarize :: "rate_card \<Rightarrow> entity_cost list \<Rightarrow> int \<Rightarrow> f64 \<Rightarrow> int \<Rightarrow> summary" where
  "Summarize rc costs topN0 savings recCount =
     (let topN = (if topN0 \<le> 0 then 10 else topN0);
          group = (\<lambda>key label. sortGroups (fold (\<lambda>c. add_group (key c) (label c) c) costs []));
          top = sort_by (\<lambda>a b. if \<not> feq (MonthlyCost a) (MonthlyCost b) then flt (MonthlyCost b) (MonthlyCost a)
                               else ce_ID a < ce_ID b) costs
      in \<lparr>sum_Currency = rc_Currency (NormalizeCard rc), TotalHourly = sum_hourly costs,
          TotalMonthly = fmul (sum_hourly costs) HoursPerMonth,
          VMHourly = sum_hourly (filter (\<lambda>c. ce_Domain c = ''vm'') costs),
          ContainerHourly = sum_hourly (filter (\<lambda>c. ce_Domain c \<noteq> ''vm'') costs),
          sum_Entities = int (length costs), RunningEntities = int (length (filter ce_Running costs)),
          ByDomain = group ce_Domain (domainLabel \<circ> ce_Domain), ByHypervisor = group ce_Kind (\<lambda>_. []),
          ByCluster = group ce_Cluster (\<lambda>_. []), ByHost = group ce_Host (\<lambda>_. []),
          TopSpenders = take (nat topN) top, PotentialMonthlySavings = savings, sum_Recommendations = recCount\<rparr>)"

subsection \<open>Utilization\<close>

record utilization =
  ut_Samples :: int
  AvgCPUPercent :: f64
  PeakCPUPercent :: f64
  AvgMemPercent :: f64
  PeakMemPercent :: f64

definition no_utilization :: utilization where
  "no_utilization = \<lparr>ut_Samples = 0, AvgCPUPercent = Fin 0, PeakCPUPercent = Fin 0, AvgMemPercent = Fin 0,
     PeakMemPercent = Fin 0\<rparr>"

definition not_below_zero :: "f64 \<Rightarrow> f64" where
  "not_below_zero x = (if flt x (Fin 0) then Fin 0 else x)"

definition sample_cpu :: "int \<Rightarrow> metric_sample \<Rightarrow> f64" where
  "sample_cpu vcpus s = not_below_zero (fdiv (CPUPercent s) (f64_of_int vcpus))"

definition sample_mem :: "metric_sample \<Rightarrow> f64" where
  "sample_mem s = not_below_zero
     (fmul (fdiv (f64_of_word (MemUsageBytes s)) (f64_of_word (MemLimitBytes s))) (Fin 100))"

definition raise_peak :: "f64 \<Rightarrow> f64 \<Rightarrow> f64" where
  "raise_peak x m = (if flt m x then x else m)"

definition ComputeUtilization :: "metric_sample list \<Rightarrow> int \<Rightarrow> utilization" where
  "ComputeUtilization samples vcpus0 =
     (if samples = [] then no_utilization
      else (let vcpus = (if vcpus0 < 1 then 1 else vcpus0);
                cpus = map (sample_cpu vcpus) samples;
                mems = map sample_mem (filter (\<lambda>s. 0 < MemLimitBytes s) samples)
            in \<lparr>ut_Samples = int (length samples),
                AvgCPUPercent = fdiv (foldl fadd (Fin 0) cpus) (f64_of_int (int (length samples))),
                PeakCPUPercent = fold raise_peak cpus (Fin 0),
                AvgMemPercent = (if mems = [] then Fin 0
                   else fdiv (foldl fadd (Fin 0) mems) (f64_of_int (int (length mems)))),
                PeakMemPercent = fold raise_peak mems (Fin 0)\<rparr>))"

subsection \<open>Recommendations\<close>

record thresholds =
  IdleCPUPercent :: f64
  IdleMemPercent :: f64
  OversizedCPUPercent :: f64
  OversizedMemPercent :: f64
  MinSamples :: int

definition DefaultThresholds :: thresholds where
  "DefaultThresholds = \<lparr>IdleCPUPercent = Fin 5, IdleMemPercent = Fin 10, OversizedCPUPercent = Fin 30,
     OversizedMemPercent = Fin 40, MinSamples = 3\<rparr>"

definition clampPct :: "f64 \<Rightarrow> f64 \<Rightarrow> f64" where
  "clampPct v d = (if fle v (Fin 0) \<or> flt (Fin 100) v then d else v)"

definition NormalizeThresholds :: "thresholds \<Rightarrow> thresholds" where
  "NormalizeThresholds t = \<lparr>IdleCPUPercent = clampPct (IdleCPUPercent t) (Fin 5),
     IdleMemPercent = clampPct (IdleMemPercent t) (Fin 10),
     OversizedCPUPercent = clampPct (OversizedCPUPercent t) (Fin 30),
     OversizedMemPercent = clampPct (OversizedMemPercent t) (Fin 40),
     MinSamples = (if MinSamples t < 1 then 3 else MinSamples t)\<rparr>"

record recommendation =
  rm_EntityID :: string
  rm_Name :: string
  rm_Domain :: string
  rm_Kind :: string
  rm_Provider :: string
  rm_Host :: string
  rm_Cluster :: string
  RecKind :: string
  rm_Severity :: string
  CurrentVCPUs :: int
  CurrentMemGB :: f64
  SuggestedVCPUs :: int
  SuggestedMemGB :: f64
  Utilization :: utilization
  CurrentMonthly :: f64
  ProjectedMonthly :: f64
  MonthlySavings :: f64
  Rationale :: string

text \<open>\<open>math.Ceil\<close>.\<close>

definition ceil64 :: "f64 \<Rightarrow> f64" where
  "ceil64 x = (case x of Fin q \<Rightarrow> Fin (of_int \<lceil>q\<rceil>) | _ \<Rightarrow> x)"

definition needed_cpu :: "f64 \<Rightarrow> int \<Rightarrow> int" where
  "needed_cpu peak vcpus =
     (let n = int64_of_f64 (ceil64 (fmul (fmul (fdiv peak (Fin 100)) (f64_of_int vcpus)) (Fin 2)))
      in if n < 1 then 1 else n)"

definition needed_mem :: "f64 \<Rightarrow> f64 \<Rightarrow> f64" where
  "needed_mem peak mem =
     (let n = fmul (fmul (fdiv peak (Fin 100)) mem) (Fin 2);
          n = (if flt n (Fin (1 / 2)) then Fin (1 / 2) else n)
      in fdiv (ceil64 (fmul n (Fin 2))) (Fin 2))"

definition suggested_cpu :: "thresholds \<Rightarrow> entity_cost \<Rightarrow> utilization \<Rightarrow> int" where
  "suggested_cpu th c u =
     (if fle (PeakCPUPercent u) (OversizedCPUPercent th) \<and> ce_VCPUs c > 1
         \<and> needed_cpu (PeakCPUPercent u) (ce_VCPUs c) < ce_VCPUs c
      then needed_cpu (PeakCPUPercent u) (ce_VCPUs c) else ce_VCPUs c)"

definition mem_slack :: "thresholds \<Rightarrow> utilization \<Rightarrow> bool" where
  "mem_slack th u \<longleftrightarrow> flt (Fin 0) (PeakMemPercent u) \<and> fle (PeakMemPercent u) (OversizedMemPercent th)"

definition suggested_mem :: "thresholds \<Rightarrow> entity_cost \<Rightarrow> utilization \<Rightarrow> f64" where
  "suggested_mem th c u =
     (if mem_slack th u \<and> flt (Fin (1 / 2)) (ce_MemoryGB c)
         \<and> flt (needed_mem (PeakMemPercent u) (ce_MemoryGB c)) (ce_MemoryGB c)
      then needed_mem (PeakMemPercent u) (ce_MemoryGB c) else ce_MemoryGB c)"

definition recommendation_for ::
  "entity_cost \<Rightarrow> utilization \<Rightarrow> string \<Rightarrow> string \<Rightarrow> int \<Rightarrow> f64 \<Rightarrow> f64 \<Rightarrow> string \<Rightarrow> recommendation" where
  "recommendation_for c u kind sev vcpus mem projected why =
     \<lparr>rm_EntityID = ce_ID c, rm_Name = ce_Name c, rm_Domain = ce_Domain c, rm_Kind = ce_Kind c,
      rm_Provider = ce_Provider c, rm_Host = ce_Host c, rm_Cluster = ce_Cluster c, RecKind = kind,
      rm_Severity = sev, CurrentVCPUs = ce_VCPUs c, CurrentMemGB = ce_MemoryGB c, SuggestedVCPUs = vcpus,
      SuggestedMemGB = mem, Utilization = u, CurrentMonthly = MonthlyCost c, ProjectedMonthly = projected,
      MonthlySavings = fsub (MonthlyCost c) projected, Rationale = why\<rparr>"

definition is_idle :: "thresholds \<Rightarrow> utilization \<Rightarrow> bool" where
  "is_idle th u \<longleftrightarrow> fle (PeakCPUPercent u) (IdleCPUPercent th)
     \<and> (feq (PeakMemPercent u) (Fin 0) \<or> fle (PeakMemPercent u) (IdleMemPercent th))"

definition downsized :: "entity_cost \<Rightarrow> int \<Rightarrow> f64 \<Rightarrow> cost_entity" where
  "downsized c vcpus mem = \<lparr>ce_ID = [], ce_Name = [], ce_Domain = ce_Domain c, ce_Kind = [], ce_Provider = [],
     ce_Host = [], ce_Cluster = [], ce_Running = True, ce_VCPUs = vcpus, ce_MemoryGB = mem,
     ce_StorageGB = ce_StorageGB c\<rparr>"

text \<open>The body of the loop of \<open>Recommend\<close>.\<close>

definition recommend_one :: "rate_card \<Rightarrow> thresholds \<Rightarrow> entity_cost \<times> utilization \<Rightarrow> recommendation option" where
  "recommend_one rc th = (\<lambda>(c, u).
     if \<not> ce_Running c \<or> ut_Samples u < MinSamples th then None
     else if is_idle th u then
       Some (recommendation_for c u ''idle'' ''warn'' 0 (Fin 0) (fmul (StorageHour (Breakdown c)) HoursPerMonth)
         ''Running but idle: peak CPU and memory are below the idle threshold. Candidate to power off or decommission.'')
     else if \<not> fle (PeakCPUPercent u) (OversizedCPUPercent th) \<and> \<not> mem_slack th u then None
     else (let vcpus = suggested_cpu th c u; mem = suggested_mem th c u in
       if vcpus \<ge> ce_VCPUs c \<and> fle (ce_MemoryGB c) mem then None
       else Some (recommendation_for c u ''oversized'' ''info'' vcpus mem
         (MonthlyCost (EstimateCost rc (downsized c vcpus mem)))
         ''Over-provisioned: peak utilization leaves significant slack. Downsizing keeps 2x headroom over observed peak.'')))"

definition Recommend :: "rate_card \<Rightarrow> thresholds \<Rightarrow> (entity_cost \<times> utilization) list \<Rightarrow> recommendation list" where
  "Recommend rc th inputs =
     sort_by (\<lambda>a b. if \<not> feq (MonthlySavings a) (MonthlySavings b) then flt (MonthlySavings b) (MonthlySavings a)
                    else rm_EntityID a < rm_EntityID b)
       (List.map_filter (recommend_one (NormalizeCard rc) (NormalizeThresholds th)) inputs)"

definition TotalSavings :: "recommendation list \<Rightarrow> f64" where
  "TotalSavings recs = foldl (\<lambda>t r. fadd t (MonthlySavings r)) (Fin 0) recs"

subsection \<open>Savings are never negative\<close>

text \<open>Rates as a settings page can hold them, and allocations that are numbers.\<close>

definition rate_ok :: "f64 \<Rightarrow> bool" where
  "rate_ok v = (case v of Fin q \<Rightarrow> q < 2 ^ 63 | _ \<Rightarrow> False)"

definition card_ok :: "rate_card \<Rightarrow> bool" where
  "card_ok rc \<longleftrightarrow> rate_ok (rc_VCPUHour rc) \<and> rate_ok (rc_GBRAMHour rc) \<and> rate_ok (rc_GBStorageMonth rc)
     \<and> rate_ok (rc_ContainerVCPUHour rc) \<and> rate_ok (rc_ContainerGBRAMHour rc)"

definition amount_ok :: "f64 \<Rightarrow> bool" where
  "amount_ok v = (case v of Fin q \<Rightarrow> 0 \<le> q | _ \<Rightarrow> False)"

definition alloc_ok :: "('a) cost_entity_scheme \<Rightarrow> bool" where
  "alloc_ok e \<longleftrightarrow> 0 \<le> ce_VCPUs e \<and> ce_VCPUs e < 2 ^ 63 \<and> amount_ok (ce_MemoryGB e) \<and> amount_ok (ce_StorageGB e)"

definition good_rate :: "f64 \<Rightarrow> bool" where
  "good_rate v \<longleftrightarrow> amount_ok v \<and> rate_ok v"

lemma round64_fin: "0 \<le> q \<Longrightarrow> q < 2 ^ 63 \<Longrightarrow> \<exists>x \<ge> 0. round64 q = Fin x"
proof (cases "q = 0")
  case False
  moreover assume a: "0 \<le> q" "q < 2 ^ 63"
  ultimately have q: "0 < q" by simp
  have "pow2 (binade q) < pow2 63" using binade_bounds(1) [OF q] a(2) pow2_nat [of 63] by simp
  then have "binade q < 63" by (simp only: pow2_less)
  then have "round64 q = Fin (round_fin q)" by (simp add: round64_pos [OF q])
  then show ?thesis using nn_round [of q] a(1) by simp
qed simp

lemma clamp_good: "rate_ok v \<Longrightarrow> good_rate (clamp_rate v)"
  by (cases v) (simp_all add: rate_ok_def clamp_rate_def good_rate_def amount_ok_def)

lemma or_good: "good_rate v \<Longrightarrow> good_rate d \<Longrightarrow> good_rate (or_rate v d)"
  by (simp add: or_rate_def)

lemma card_good:
  assumes "card_ok rc"
  shows "good_rate (rc_VCPUHour (NormalizeCard rc))" "good_rate (rc_GBRAMHour (NormalizeCard rc))"
    "good_rate (rc_GBStorageMonth (NormalizeCard rc))" "good_rate (rc_ContainerVCPUHour (NormalizeCard rc))"
    "good_rate (rc_ContainerGBRAMHour (NormalizeCard rc))"
  using assms by (simp_all add: card_ok_def NormalizeCard_def Let_def clamp_good or_good)

lemma storage_good: "good_rate (rc_GBStorageMonth rc) \<Longrightarrow> \<exists>x \<ge> 0. storageHour rc = Fin x"
proof -
  assume "good_rate (rc_GBStorageMonth rc)"
  then obtain q where q: "rc_GBStorageMonth rc = Fin q" "0 \<le> q" "q < 2 ^ 63"
    by (cases "rc_GBStorageMonth rc") (auto simp: good_rate_def amount_ok_def rate_ok_def)
  then have "0 \<le> q / 730" "q / 730 < 2 ^ 63" by simp_all
  from round64_fin [OF this] show ?thesis by (simp add: storageHour_def HoursPerMonth_def q(1))
qed

lemma good_rateE: "good_rate r \<Longrightarrow> \<exists>k \<ge> 0. r = Fin k"
  by (cases r) (auto simp: good_rate_def amount_ok_def)

lemma product_mono:
  "amount_ok x \<Longrightarrow> amount_ok y \<Longrightarrow> fle x y \<Longrightarrow> 0 \<le> k \<Longrightarrow>
    nn (fmul x (Fin k)) \<and> fle (fmul x (Fin k)) (fmul y (Fin k))"
  by (cases x; cases y) (simp_all add: amount_ok_def nn_round round64_mono mult_right_mono)

lemma count_ok: "0 \<le> n \<Longrightarrow> n < 2 ^ 63 \<Longrightarrow> amount_ok (f64_of_int n)"
proof -
  assume a: "0 \<le> n" "n < 2 ^ 63"
  have "(of_int n :: rat) < of_int (2 ^ 63)" using a(2) by (simp only: of_int_less_iff)
  then have "(of_int n :: rat) < 2 ^ 63" by (simp only: of_int_power of_int_numeral)
  moreover have "0 \<le> (of_int n :: rat)" using a(1) by (simp only: of_int_0_le_iff)
  ultimately obtain x where "0 \<le> x" "round64 (of_int n) = Fin x" using round64_fin by blast
  then show ?thesis by (simp add: f64_of_int_def amount_ok_def)
qed

lemma count_mono: "0 \<le> m \<Longrightarrow> m \<le> n \<Longrightarrow> fle (f64_of_int m) (f64_of_int n)"
  by (simp add: f64_of_int_def round64_mono)

lemma cost_fields [simp]:
  "MonthlyCost (EstimateCost rc e) = fmul (Total (Breakdown (EstimateCost rc e))) HoursPerMonth"
  "ce_Running (EstimateCost rc e) = ce_Running e" "ce_VCPUs (EstimateCost rc e) = ce_VCPUs e"
  "ce_MemoryGB (EstimateCost rc e) = ce_MemoryGB e" "ce_StorageGB (EstimateCost rc e) = ce_StorageGB e"
  "ce_Domain (EstimateCost rc e) = ce_Domain e"
  by (simp_all add: EstimateCost_def Let_def cost_entity.defs entity_cost.defs)

text \<open>The three parts of a price grow with the allocation.\<close>

lemma parts_mono:
  assumes "card_ok rc" "alloc_ok e" "alloc_ok f" "ce_Domain e = ce_Domain f" "ce_Running e" "ce_Running f"
    and "ce_VCPUs e \<le> ce_VCPUs f" "fle (ce_MemoryGB e) (ce_MemoryGB f)" "ce_StorageGB e = ce_StorageGB f"
  defines "a \<equiv> Breakdown (EstimateCost rc e)" and "b \<equiv> Breakdown (EstimateCost rc f)"
  shows "nn (CPUHour a) \<and> fle (CPUHour a) (CPUHour b)" "nn (RAMHour a) \<and> fle (RAMHour a) (RAMHour b)"
    "nn (StorageHour a) \<and> StorageHour a = StorageHour b"
proof -
  let ?rc = "NormalizeCard rc"
  note g = card_good [OF assms(1)]
  define cr where "cr = (if ce_Domain f = ''container'' then rc_ContainerVCPUHour ?rc else rc_VCPUHour ?rc)"
  define rr where "rr = (if ce_Domain f = ''container'' then rc_ContainerGBRAMHour ?rc else rc_GBRAMHour ?rc)"
  have "good_rate cr" "good_rate rr" unfolding cr_def rr_def using g by simp_all
  then obtain kc kr where kc: "0 \<le> kc" "cr = Fin kc" and kr: "0 \<le> kr" "rr = Fin kr"
    using good_rateE by blast
  obtain ks where ks: "0 \<le> ks" "storageHour ?rc = Fin ks" using storage_good [OF g(3)] by blast
  have parts: "CPUHour a = fmul (f64_of_int (ce_VCPUs e)) (Fin kc)" "CPUHour b = fmul (f64_of_int (ce_VCPUs f)) (Fin kc)"
    "RAMHour a = fmul (ce_MemoryGB e) (Fin kr)" "RAMHour b = fmul (ce_MemoryGB f) (Fin kr)"
    "StorageHour a = fmul (ce_StorageGB e) (Fin ks)" "StorageHour b = fmul (ce_StorageGB f) (Fin ks)"
    unfolding kc(2) [symmetric] kr(2) [symmetric] ks(2) [symmetric] cr_def rr_def a_def b_def
    by (simp_all add: EstimateCost_def Let_def assms(4-6) cost_entity.defs entity_cost.defs)
  have ok: "amount_ok (f64_of_int (ce_VCPUs e))" "amount_ok (f64_of_int (ce_VCPUs f))"
    "amount_ok (ce_MemoryGB e)" "amount_ok (ce_MemoryGB f)" "amount_ok (ce_StorageGB e)"
    using assms(2,3) by (simp_all add: alloc_ok_def count_ok)
  show "nn (CPUHour a) \<and> fle (CPUHour a) (CPUHour b)"
    unfolding parts using assms(2,7) kc(1) by (intro product_mono ok count_mono) (simp_all add: alloc_ok_def)
  show "nn (RAMHour a) \<and> fle (RAMHour a) (RAMHour b)"
    unfolding parts using assms(8) kr(1) by (intro product_mono ok)
  have "fle (ce_StorageGB e) (ce_StorageGB e)" using ok(5) by (cases "ce_StorageGB e") (simp_all add: amount_ok_def)
  then show "nn (StorageHour a) \<and> StorageHour a = StorageHour b"
    unfolding parts using product_mono [OF ok(5,5) _ ks(1)] assms(9) by simp
qed

lemma fle_refl: "nn x \<Longrightarrow> fle x x" by (cases x) (simp_all add: fle_def)

lemma nn_upper: "nn x \<Longrightarrow> fle x y \<Longrightarrow> nn y"
  by (cases x; cases y) (auto simp: fle_def)

lemma month_mono: "nn x \<Longrightarrow> fle x y \<Longrightarrow> nn (fmul x HoursPerMonth) \<and> nn (fmul y HoursPerMonth)
    \<and> fle (fmul x HoursPerMonth) (fmul y HoursPerMonth)"
  unfolding HoursPerMonth_def by (intro conjI nn_fmul fle_fmul nn_upper [of x y]) simp_all

text \<open>A part of a price is a rounded product, so adding to it never lowers it.\<close>

lemma rounded_product:
  "amount_ok x \<Longrightarrow> 0 \<le> k \<Longrightarrow> fmul x (Fin k) = Fin q \<Longrightarrow> round64 q = Fin q"
  by (cases x) (simp_all add: amount_ok_def, metis round64_idem mult_nonneg_nonneg)

lemma storage_rounded:
  assumes "card_ok rc" "alloc_ok e" "StorageHour (Breakdown (EstimateCost rc e)) = Fin q"
  shows "round64 q = Fin q"
proof -
  obtain ks where ks: "0 \<le> ks" "storageHour (NormalizeCard rc) = Fin ks"
    using storage_good [OF card_good(3) [OF assms(1)]] by blast
  have "fmul (ce_StorageGB e) (Fin ks) = Fin q"
    using assms(3) by (simp add: EstimateCost_def Let_def ks(2) cost_entity.defs entity_cost.defs)
  then show ?thesis using assms(2) ks(1) by (intro rounded_product [of "ce_StorageGB e"]) (simp_all add: alloc_ok_def)
qed

lemma total_mono:
  assumes "card_ok rc" "alloc_ok e" "alloc_ok f" "ce_Domain e = ce_Domain f" "ce_Running e" "ce_Running f"
    and "ce_VCPUs e \<le> ce_VCPUs f" "fle (ce_MemoryGB e) (ce_MemoryGB f)" "ce_StorageGB e = ce_StorageGB f"
  shows "\<not> flt (fsub (MonthlyCost (EstimateCost rc f)) (MonthlyCost (EstimateCost rc e))) (Fin 0)"
proof -
  note p = parts_mono [OF assms]
  have "nn (Total (Breakdown (EstimateCost rc e)))
      \<and> fle (Total (Breakdown (EstimateCost rc e))) (Total (Breakdown (EstimateCost rc f)))"
    unfolding Total_def using p by (intro conjI nn_fadd fle_fadd) (auto intro: nn_upper fle_refl)
  from month_mono [OF conjunct1 [OF this] conjunct2 [OF this]] show ?thesis by (simp add: fsub_nonneg)
qed

lemma storage_kept:
  assumes "card_ok rc" "alloc_ok e" "ce_Running e"
  defines "b \<equiv> Breakdown (EstimateCost rc e)"
  shows "\<not> flt (fsub (MonthlyCost (EstimateCost rc e)) (fmul (StorageHour b) HoursPerMonth)) (Fin 0)"
proof -
  have "fle (ce_MemoryGB e) (ce_MemoryGB e)"
    using assms(2) by (cases "ce_MemoryGB e") (simp_all add: alloc_ok_def amount_ok_def)
  note p = parts_mono [OF assms(1,2,2) refl assms(3,3) order_refl this refl]
  have "fle (StorageHour b) (Total b)" unfolding Total_def b_def
    using p by (intro fle_fadd_right nn_fadd) (auto dest: storage_rounded [OF assms(1,2)])
  moreover have "nn (StorageHour b)" using p(3) b_def by simp
  ultimately show ?thesis using month_mono [of "StorageHour b" "Total b"] by (simp add: b_def fsub_nonneg)
qed

lemma NormalizeCard_idem: "NormalizeCard (NormalizeCard rc) = NormalizeCard rc"
proof -
  have c: "clamp_rate (clamp_rate v) = clamp_rate v" for v by (simp add: clamp_rate_def)
  have o: "clamp_rate (or_rate (clamp_rate v) (clamp_rate d)) = or_rate (clamp_rate v) (clamp_rate d)" for v d
    by (simp add: or_rate_def c)
  have oo: "or_rate (or_rate v d) d = or_rate v d" for v d by (simp add: or_rate_def)
  show ?thesis by (simp add: NormalizeCard_def Let_def c o oo)
qed

lemma EstimateCost_normal: "EstimateCost (NormalizeCard rc) e = EstimateCost rc e"
  by (simp add: EstimateCost_def NormalizeCard_idem)

subsection \<open>What is suggested\<close>

lemma needed_cpu_1: "1 \<le> needed_cpu p n"
  by (simp add: needed_cpu_def Let_def)

lemma suggested_cpu_le: "suggested_cpu th c u \<le> ce_VCPUs c"
  and suggested_cpu_ge: "0 < ce_VCPUs c \<Longrightarrow> 1 \<le> suggested_cpu th c u"
  and suggested_cpu_nonneg: "0 \<le> ce_VCPUs c \<Longrightarrow> 0 \<le> suggested_cpu th c u"
  using needed_cpu_1 [of "PeakCPUPercent u" "ce_VCPUs c"] by (simp_all add: suggested_cpu_def)

lemma flt_fle: "flt x y \<Longrightarrow> fle x y" by (simp add: fle_def)

lemma fle_flt_trans: "fle x y \<Longrightarrow> flt y z \<Longrightarrow> flt x z" for x y z
  by (cases x; cases y; cases z) (auto simp: fle_def)

lemma halves [simp]: "round64 1 = Fin 1" "round64 (1 / 2) = Fin (1 / 2)"
proof -
  have "round64 (of_int 1) = Fin (of_int 1)" by (rule round64_int) simp
  then show "round64 1 = Fin 1" by simp
  show "round64 (1 / 2) = Fin (1 / 2)" by code_simp
qed

lemma needed_mem_half: "needed_mem p m = NaN \<or> fle (Fin (1 / 2)) (needed_mem p m)"
proof -
  define n0 where "n0 = fmul (fmul (fdiv p (Fin 100)) m) (Fin 2)"
  define n where "n = (if flt n0 (Fin (1 / 2)) then Fin (1 / 2) else n0)"
  have n: "n = NaN \<or> fle (Fin (1 / 2)) n"
    unfolding n_def by (cases n0) auto
  have two: "fmul n (Fin 2) = NaN \<or> fle (Fin 1) (fmul n (Fin 2))"
    using n round64_mono [of 1] by (cases n) auto
  have ceil: "ceil64 (fmul n (Fin 2)) = NaN \<or> fle (Fin 1) (ceil64 (fmul n (Fin 2)))"
    using two by (cases "fmul n (Fin 2)") (auto simp: ceil64_def)
  have "fdiv (ceil64 (fmul n (Fin 2))) (Fin 2) = NaN \<or> fle (Fin (1 / 2)) (fdiv (ceil64 (fmul n (Fin 2))) (Fin 2))"
    using ceil round64_mono [of "1 / 2"] by (cases "ceil64 (fmul n (Fin 2))") auto
  then show ?thesis unfolding needed_mem_def Let_def n_def n0_def .
qed

lemma suggested_mem_cases:
  assumes "amount_ok (ce_MemoryGB c)"
  shows "fle (suggested_mem th c u) (ce_MemoryGB c)" "amount_ok (suggested_mem th c u)"
    "\<not> flt (suggested_mem th c u) (Fin (1 / 2)) \<or> suggested_mem th c u = ce_MemoryGB c"
proof -
  have self: "fle (ce_MemoryGB c) (ce_MemoryGB c)" using assms by (cases "ce_MemoryGB c") (simp_all add: amount_ok_def)
  let ?n = "needed_mem (PeakMemPercent u) (ce_MemoryGB c)"
  consider "suggested_mem th c u = ce_MemoryGB c"
    | "suggested_mem th c u = ?n" "flt ?n (ce_MemoryGB c)"
    unfolding suggested_mem_def by metis
  then have "fle (suggested_mem th c u) (ce_MemoryGB c) \<and> amount_ok (suggested_mem th c u)
      \<and> (\<not> flt (suggested_mem th c u) (Fin (1 / 2)) \<or> suggested_mem th c u = ce_MemoryGB c)"
  proof cases
    case 1
    then show ?thesis using assms self by simp
  next
    case 2
    from needed_mem_half [of "PeakMemPercent u" "ce_MemoryGB c"] 2(2) assms
    obtain q where "?n = Fin q" "1 / 2 \<le> q"
      by (cases ?n; cases "ce_MemoryGB c") (auto simp: amount_ok_def)
    then show ?thesis using 2 flt_fle by (simp add: amount_ok_def)
  qed
  then show "fle (suggested_mem th c u) (ce_MemoryGB c)" "amount_ok (suggested_mem th c u)"
    "\<not> flt (suggested_mem th c u) (Fin (1 / 2)) \<or> suggested_mem th c u = ce_MemoryGB c" by blast+
qed

definition sound_for :: "cost_entity \<Rightarrow> recommendation \<Rightarrow> bool" where
  "sound_for e r \<longleftrightarrow> SuggestedVCPUs r \<le> ce_VCPUs e \<and> fle (SuggestedMemGB r) (ce_MemoryGB e)
     \<and> \<not> flt (MonthlySavings r) (Fin 0)
     \<and> (RecKind r = ''oversized'' \<longrightarrow>
          (SuggestedVCPUs r < ce_VCPUs e \<or> \<not> fle (ce_MemoryGB e) (SuggestedMemGB r))
          \<and> (0 < ce_VCPUs e \<longrightarrow> 1 \<le> SuggestedVCPUs r)
          \<and> (flt (SuggestedMemGB r) (Fin (1 / 2)) \<longrightarrow> SuggestedMemGB r = ce_MemoryGB e))"

lemma recommend_one_sound:
  assumes "card_ok rc" "alloc_ok e" "recommend_one (NormalizeCard rc) th (EstimateCost rc e, u) = Some r"
  shows "ce_Running e \<and> MinSamples th \<le> ut_Samples u \<and> rm_EntityID r = ce_ID e \<and> sound_for e r"
proof -
  let ?c = "EstimateCost rc e" and ?v = "suggested_cpu th (EstimateCost rc e) u"
  let ?m = "suggested_mem th (EstimateCost rc e) u"
  have id: "ce_ID ?c = ce_ID e" by (simp add: EstimateCost_def Let_def cost_entity.defs)
  have alloc: "0 \<le> ce_VCPUs e" "amount_ok (ce_MemoryGB e)" using assms(2) by (simp_all add: alloc_ok_def)
  have zero: "fle (Fin 0) (ce_MemoryGB e)" using alloc(2) by (cases "ce_MemoryGB e") (simp_all add: amount_ok_def)
  have run: "ce_Running e" "MinSamples th \<le> ut_Samples u"
    using assms(3) by (simp_all add: recommend_one_def split: if_splits)
  note m = suggested_mem_cases [of ?c th u, simplified, OF alloc(2)]
  note v = suggested_cpu_le [of th ?c u, simplified] suggested_cpu_ge [of ?c th u, simplified]
  show ?thesis
  proof (cases "is_idle th u")
    case True
    then have "r = recommendation_for ?c u ''idle'' ''warn'' 0 (Fin 0) (fmul (StorageHour (Breakdown ?c)) HoursPerMonth)
         ''Running but idle: peak CPU and memory are below the idle threshold. Candidate to power off or decommission.''"
      using assms(3) run by (simp add: recommend_one_def)
    then show ?thesis using run id alloc zero storage_kept [OF assms(1,2) run(1)]
      by (simp add: recommendation_for_def sound_for_def)
  next
    case False
    let ?d = "downsized ?c ?v ?m"
    have r: "r = recommendation_for ?c u ''oversized'' ''info'' ?v ?m (MonthlyCost (EstimateCost (NormalizeCard rc) ?d))
         ''Over-provisioned: peak utilization leaves significant slack. Downsizing keeps 2x headroom over observed peak.''"
      and "\<not> (?v \<ge> ce_VCPUs e \<and> fle (ce_MemoryGB e) ?m)"
      using assms(3) False run by (simp_all add: recommend_one_def Let_def split: if_splits)
    then have shrunk: "?v < ce_VCPUs e \<or> \<not> fle (ce_MemoryGB e) ?m" by linarith
    have d: "alloc_ok ?d"
      using assms(2) m(2) v(1) suggested_cpu_nonneg [of ?c th u] by (simp add: alloc_ok_def downsized_def)
    have "\<not> flt (fsub (MonthlyCost (EstimateCost rc e)) (MonthlyCost (EstimateCost rc ?d))) (Fin 0)"
      by (rule total_mono [OF assms(1) d assms(2)]) (simp_all add: downsized_def run v m(1))
    then show ?thesis using run id v m shrunk
      by (simp add: r EstimateCost_normal recommendation_for_def sound_for_def del: cost_fields(1))
  qed
qed


text \<open>A machine of four processors and four gibibytes, a quarter used at its peak, priced with the
default card: the suggestion is two processors.\<close>

definition demo_entity :: cost_entity where
  "demo_entity = \<lparr>ce_ID = ''vm-1'', ce_Name = ''web'', ce_Domain = ''vm'', ce_Kind = ''kvm'', ce_Provider = ''p'',
     ce_Host = ''h'', ce_Cluster = [], ce_Running = True, ce_VCPUs = 4, ce_MemoryGB = Fin 4, ce_StorageGB = Fin 20\<rparr>"

definition demo_usage :: utilization where
  "demo_usage = \<lparr>ut_Samples = 3, AvgCPUPercent = Fin 20, PeakCPUPercent = Fin 25, AvgMemPercent = Fin 50,
     PeakMemPercent = Fin 60\<rparr>"

definition demo_suggestion :: recommendation where
  "demo_suggestion =
     (let c = EstimateCost DefaultRateCard demo_entity
      in recommendation_for c demo_usage ''oversized'' ''info'' 2 (Fin 4)
        (MonthlyCost (EstimateCost (NormalizeCard DefaultRateCard) (downsized c 2 (Fin 4))))
        ''Over-provisioned: peak utilization leaves significant slack. Downsizing keeps 2x headroom over observed peak.'')"

lemma demo_card_ok: "card_ok DefaultRateCard"
proof -
  have "rate_ok (round64 (4 / 100))" "rate_ok (round64 (5 / 1000))" "rate_ok (round64 (1 / 10))"
    "rate_ok (round64 (2 / 100))" "rate_ok (round64 (3 / 1000))" by code_simp+
  then show ?thesis by (simp only: card_ok_def DefaultRateCard_def rate_card.simps simp_thms)
qed

lemma round64_small: "round64 2 = Fin 2" "round64 4 = Fin 4" "round64 (1 / 4) = Fin (1 / 4)"
  by code_simp+

lemma demo_suggested:
  "demo_suggestion \<in> set (Recommend DefaultRateCard DefaultThresholds
     (map (\<lambda>x. (EstimateCost DefaultRateCard (fst x), snd x)) [(demo_entity, demo_usage)]))"
proof -
  have th: "NormalizeThresholds DefaultThresholds = DefaultThresholds"
    by (simp add: NormalizeThresholds_def DefaultThresholds_def clampPct_def)
  have n: "needed_cpu (Fin 25) 4 = 2"
    by (simp add: needed_cpu_def f64_of_int_def round64_small ceil64_def int64_of_f64_def)
  have "recommend_one (NormalizeCard DefaultRateCard) DefaultThresholds
      (EstimateCost DefaultRateCard demo_entity, demo_usage) = Some demo_suggestion"
    by (simp add: recommend_one_def is_idle_def mem_slack_def suggested_cpu_def suggested_mem_def n Let_def
        demo_usage_def demo_entity_def DefaultThresholds_def demo_suggestion_def)
  then show ?thesis by (simp add: Recommend_def th List.map_filter_def)
qed


end
