(* ===== verification/Insights.thy ===== *)
theory Insights
  imports Inventory Go_Sort
begin

text \<open>
  The feed of findings over the unified inventory, \<open>server/internal/insights/insights.go\<close>: the rules,
  their thresholds, the order and the counts of the feed.
\<close>

subsection \<open>Findings\<close>

record insight =
  in_ID :: string
  in_Rule :: string
  in_Severity :: string
  in_Category :: string
  in_Title :: string
  in_Detail :: string
  in_Suggestion :: string
  in_EntityID :: string
  in_EntityName :: string
  in_EntityType :: string
  in_Provider :: string
  in_Kind :: string

record feed =
  fd_Insights :: "insight list"
  fd_Counts :: "(string \<times> int) list"
  fd_GeneratedAt :: int

definition sevRank :: "string \<Rightarrow> int" where
  "sevRank s = (if s = ''critical'' then 0 else if s = ''warn'' then 1 else 2)"

record insight_thresholds =
  StaleSnapshotDays :: int
  PoweredOffDays :: int
  SnapshotCountWarn :: int

definition DefaultInsightThresholds :: insight_thresholds where
  "DefaultInsightThresholds = \<lparr>StaleSnapshotDays = 14, PoweredOffDays = 30, SnapshotCountWarn = 5\<rparr>"

definition positive_or :: "int \<Rightarrow> int \<Rightarrow> int" where
  "positive_or n d = (if n \<le> 0 then d else n)"

definition NormalizeInsightThresholds :: "insight_thresholds \<Rightarrow> insight_thresholds" where
  "NormalizeInsightThresholds t = \<lparr>StaleSnapshotDays = positive_or (StaleSnapshotDays t) 14,
     PoweredOffDays = positive_or (PoweredOffDays t) 30, SnapshotCountWarn = positive_or (SnapshotCountWarn t) 5\<rparr>"

definition hasBackupLabel :: "(string \<times> string) list \<Rightarrow> bool" where
  "hasBackupLabel labels = list_ex (\<lambda>k. case map_of labels k of None \<Rightarrow> False
       | Some v \<Rightarrow> v \<noteq> [] \<and> v \<noteq> ''false'' \<and> v \<noteq> ''0'')
     [''backup'', ''io.castor.backup'', ''replication'', ''io.castor.replication'', ''veeam.backup'']"

subsection \<open>Rules\<close>

definition vm_finding :: "vm \<Rightarrow> string \<Rightarrow> string \<Rightarrow> string \<Rightarrow> string \<Rightarrow> string \<Rightarrow> string \<Rightarrow> insight" where
  "vm_finding v rule sev cat title detail suggestion =
     \<lparr>in_ID = rule @ '':'' @ vm_ProviderID v @ '':'' @ vm_ID v, in_Rule = rule, in_Severity = sev, in_Category = cat,
      in_Title = title, in_Detail = detail, in_Suggestion = suggestion, in_EntityID = vm_ID v,
      in_EntityName = vm_Name v, in_EntityType = ''vm'', in_Provider = vm_ProviderID v, in_Kind = vm_Kind v\<rparr>"

definition no_backup :: "vm \<Rightarrow> insight list" where
  "no_backup v =
     (if vm_State v = StateRunning \<and> \<not> hasBackupLabel (vm_Labels v) then
        [vm_finding v ''vm.no_backup'' ''warn'' ''resilience'' ''VM has no backup or replication''
          (go_quote (vm_Name v) @ '' is running with no backup/replication label set '' @ em_dash @ '' an unprotected workload.'')
          ''Configure a backup or replication policy and tag the VM (e.g. label backup=true).'']
      else [])"

definition snapshot_sprawl :: "insight_thresholds \<Rightarrow> vm \<Rightarrow> insight list" where
  "snapshot_sprawl th v =
     (if SnapshotCountWarn th \<le> vm_SnapshotCount v then
        [vm_finding v ''vm.snapshot_sprawl'' ''warn'' ''housekeeping'' ''Snapshot sprawl''
          (go_quote (vm_Name v) @ '' carries '' @ itoa (vm_SnapshotCount v)
             @ '' snapshots; long snapshot chains consume storage and slow I/O.'')
          ''Consolidate or delete old snapshots.'']
      else [])"

text \<open>\<open>Sub\<close> saturates; the product of durations wraps.\<close>

definition reclaim_candidate :: "insight_thresholds \<Rightarrow> int \<Rightarrow> vm \<Rightarrow> insight list" where
  "reclaim_candidate th now v =
     (case vm_CreatedAt v of None \<Rightarrow> []
      | Some t \<Rightarrow>
        if vm_State v = StateStopped \<and> wrap64 (wrap64 (PoweredOffDays th * 24) * hour) \<le> sat64 (now - t) then
          [vm_finding v ''vm.reclaim_candidate'' ''info'' ''reclaim'' (''Stopped VM '' @ em_dash @ '' reclaim candidate'')
            (go_quote (vm_Name v) @ '' has been stopped and exists for '' @ itoa (PoweredOffDays th)
               @ ''+ days; its disks still consume storage.'')
            ''Confirm it is no longer needed, then delete it (with its disks) to reclaim storage.'']
        else [])"

definition vmRules :: "unified \<Rightarrow> insight_thresholds \<Rightarrow> int \<Rightarrow> insight list" where
  "vmRules u th now = concat (map (\<lambda>v. no_backup v @ snapshot_sprawl th v @ reclaim_candidate th now v) (un_VMs u))"

definition cluster_finding :: "cluster \<Rightarrow> string \<Rightarrow> string \<Rightarrow> string \<Rightarrow> string \<Rightarrow> string \<Rightarrow> insight" where
  "cluster_finding c rule sev title detail suggestion =
     \<lparr>in_ID = rule @ '':'' @ cl_ProviderID c @ '':'' @ cl_ID c, in_Rule = rule, in_Severity = sev,
      in_Category = ''resilience'', in_Title = title, in_Detail = detail, in_Suggestion = suggestion,
      in_EntityID = cl_ID c, in_EntityName = cl_Name c, in_EntityType = ''cluster'', in_Provider = cl_ProviderID c,
      in_Kind = cl_Kind c\<rparr>"

definition cluster_rule :: "cluster \<Rightarrow> insight list" where
  "cluster_rule c =
     (let n = int (length (cl_HostIDs c)) in
      if n \<le> 1 then
        [cluster_finding c ''cluster.single_host'' ''critical'' ''Single-host cluster (no failover)''
          (''Cluster '' @ go_quote (cl_Name c) @ '' has '' @ itoa n
             @ '' host(s); a single-host cluster has no HA failover domain.'')
          ''Add at least one more host so HA can restart VMs on a survivor.'']
      else if \<not> HAEnabled c then
        [cluster_finding c ''cluster.ha_disabled'' ''warn'' ''HA disabled on a multi-host cluster''
          (''Cluster '' @ go_quote (cl_Name c) @ '' has '' @ itoa n
             @ '' hosts but HA is disabled; a host failure will not auto-restart its VMs.'')
          ''Enable HA so VMs restart automatically on a host failure.'']
      else [])"

definition clusterRules :: "unified \<Rightarrow> insight list" where
  "clusterRules u = concat (map cluster_rule (un_Clusters u))"

definition container_rule :: "unified_workload \<Rightarrow> insight list" where
  "container_rule w =
     (let k = uw_Workload w in
      if wl_State k = ''restarting'' \<or> wl_State k = ''pending'' then
        [\<lparr>in_ID = ''container.unstable:'' @ uw_HostID w @ '':'' @ wl_ID k, in_Rule = ''container.unstable'',
          in_Severity = ''warn'', in_Category = ''health'', in_Title = ''Container not stable'',
          in_Detail = go_quote (wl_Name k) @ '' on '' @ uw_HostID w @ '' is '' @ wl_State k
            @ '' '' @ em_dash @ '' possible crash loop or scheduling problem.'',
          in_Suggestion = ''Inspect logs and events; check resource limits and the image entrypoint.'',
          in_EntityID = wl_ID k, in_EntityName = wl_Name k, in_EntityType = ''container'',
          in_Provider = wl_ProviderID k, in_Kind = wl_Kind k\<rparr>]
      else [])"

definition containerRules :: "unified \<Rightarrow> insight list" where
  "containerRules u = concat (map container_rule (un_Workloads u))"

definition degraded_rule :: "string \<Rightarrow> insight" where
  "degraded_rule d = \<lparr>in_ID = ''provider.degraded:'' @ d, in_Rule = ''provider.degraded'', in_Severity = ''critical'',
     in_Category = ''health'', in_Title = ''Provider degraded'',
     in_Detail = d @ '' failed an inventory read; its data may be stale or incomplete.'',
     in_Suggestion = ''Check connectivity and credentials for this provider/host.'', in_EntityID = d,
     in_EntityName = [], in_EntityType = ''host'', in_Provider = [], in_Kind = []\<rparr>"

definition degradedRules :: "unified \<Rightarrow> insight list" where
  "degradedRules u = map degraded_rule (un_Degraded u)"

subsection \<open>The feed\<close>

definition insight_before :: "insight \<Rightarrow> insight \<Rightarrow> bool" where
  "insight_before a b =
     (if sevRank (in_Severity a) \<noteq> sevRank (in_Severity b) then sevRank (in_Severity a) < sevRank (in_Severity b)
      else if in_Rule a \<noteq> in_Rule b then in_Rule a < in_Rule b else in_ID a < in_ID b)"

text \<open>The counter of a severity that is not in the map starts at zero.\<close>

definition count_severity :: "(string \<times> int) list \<Rightarrow> insight \<Rightarrow> (string \<times> int) list" where
  "count_severity m x =
     put m (in_Severity x) ((case map_of m (in_Severity x) of None \<Rightarrow> 0 | Some n \<Rightarrow> n) + 1)"

definition Analyze :: "unified \<Rightarrow> insight_thresholds \<Rightarrow> int \<Rightarrow> feed" where
  "Analyze u th0 now =
     (let th = NormalizeInsightThresholds th0;
          out = sort_by insight_before (vmRules u th now @ clusterRules u @ containerRules u @ degradedRules u)
      in \<lparr>fd_Insights = out,
          fd_Counts = foldl count_severity [(''critical'', 0), (''warn'', 0), (''info'', 0)] out,
          fd_GeneratedAt = now\<rparr>)"

subsection \<open>What the feed shows\<close>

text \<open>The comparison is the lexicographic order of severity, rule and identifier.\<close>

definition insight_key :: "insight \<Rightarrow> int \<times> string \<times> string" where
  "insight_key x = (sevRank (in_Severity x), in_Rule x, in_ID x)"

lemma insight_before_key: "insight_before a b \<longleftrightarrow> insight_key a < insight_key b"
  by (auto simp: insight_before_def insight_key_def less_prod_simp le_less)

interpretation feed_order: weak_order insight_before
  by unfold_locales (simp_all add: insight_before_key not_less)

lemma counted:
  "map_of m s = Some n \<Longrightarrow>
     map_of (foldl count_severity m xs) s = Some (n + int (length (filter (\<lambda>x. in_Severity x = s) xs)))"
proof (induction xs arbitrary: m n)
  case (Cons x xs)
  let ?m = "count_severity m x"
  have "map_of ?m s = Some (if in_Severity x = s then n + 1 else n)"
    using Cons.prems by (auto simp: count_severity_def map_of_put)
  from Cons.IH [OF this] show ?case by simp
qed simp

lemma rules_severity:
  "x \<in> set (vmRules u th now @ clusterRules u @ containerRules u @ degradedRules u) \<Longrightarrow>
     in_Severity x = ''critical'' \<or> in_Severity x = ''warn'' \<or> in_Severity x = ''info''"
  by (auto simp: vmRules_def no_backup_def snapshot_sprawl_def reclaim_candidate_def vm_finding_def clusterRules_def
      cluster_rule_def cluster_finding_def containerRules_def container_rule_def degradedRules_def degraded_rule_def
      Let_def split: if_splits option.splits)

text \<open>The feed over the unified inventory: the findings are in the order of their severity and the counts
are theirs; every provider one of whose declared readings failed is in it as a critical finding, every
running machine without a backup label and every cluster without a second host too.\<close>

theorem feed_reports:
  assumes u: "u = All hv ps cs now" and f: "f = Analyze u th now"
  shows "sorted (map (sevRank \<circ> in_Severity) (fd_Insights f))
    \<and> (\<forall>s \<in> {''critical'', ''warn'', ''info''}.
         map_of (fd_Counts f) s = Some (int (length (filter (\<lambda>x. in_Severity x = s) (fd_Insights f)))))
    \<and> (\<forall>(i, p) \<in> set ps. read_failed hv p \<longrightarrow> (\<exists>x \<in> set (fd_Insights f).
         in_Severity x = ''critical'' \<and> in_EntityID x = ''hypervisor:'' @ i))
    \<and> (\<forall>v \<in> set (un_VMs u). vm_State v = StateRunning \<and> \<not> hasBackupLabel (vm_Labels v) \<longrightarrow>
         (\<exists>x \<in> set (fd_Insights f). in_Rule x = ''vm.no_backup'' \<and> in_EntityID x = vm_ID v))
    \<and> (\<forall>c \<in> set (un_Clusters u). length (cl_HostIDs c) \<le> 1 \<longrightarrow>
         (\<exists>x \<in> set (fd_Insights f). in_Severity x = ''critical'' \<and> in_EntityID x = cl_ID c))"
proof -
  let ?all = "vmRules u (NormalizeInsightThresholds th) now @ clusterRules u @ containerRules u @ degradedRules u"
  have ins: "fd_Insights f = sort_by insight_before ?all" by (simp add: f Analyze_def Let_def)
  have "sorted_wrt (\<lambda>a b. \<not> insight_before b a) (fd_Insights f)" unfolding ins by (rule feed_order.sort_by_sorted)
  then have "sorted_wrt (\<lambda>a b. sevRank (in_Severity a) \<le> sevRank (in_Severity b)) (fd_Insights f)"
    by (rule sorted_wrt_mono_rel [rotated]) (auto simp: insight_before_def split: if_splits)
  then have sorted: "sorted (map (sevRank \<circ> in_Severity) (fd_Insights f))"
    by (simp add: sorted_map)
  have counts: "\<forall>s \<in> {''critical'', ''warn'', ''info''}.
      map_of (fd_Counts f) s = Some (int (length (filter (\<lambda>x. in_Severity x = s) (fd_Insights f))))"
    using counted [of "[(''critical'', 0), (''warn'', 0), (''info'', 0)]" _ 0] by (simp add: f Analyze_def Let_def)
  have deg: "\<exists>x \<in> set (fd_Insights f). in_Severity x = ''critical'' \<and> in_EntityID x = d" if "d \<in> set (un_Degraded u)" for d
    using that by (intro bexI [of _ "degraded_rule d"]) (simp_all add: ins degradedRules_def degraded_rule_def)
  have read: "read_failed hv p \<Longrightarrow> ''hypervisor:'' @ i \<in> set (un_Degraded u)" if "(i, p) \<in> set ps" for i p
    using that unfolding u All_fields degraded_ids_def by (force simp: readVMProvider_def Let_def)
  have vms: "\<exists>x \<in> set (fd_Insights f). in_Rule x = ''vm.no_backup'' \<and> in_EntityID x = vm_ID v"
    if v: "v \<in> set (un_VMs u)" "vm_State v = StateRunning" "\<not> hasBackupLabel (vm_Labels v)" for v
  proof -
    obtain x where x: "no_backup v = [x]" "in_Rule x = ''vm.no_backup''" "in_EntityID x = vm_ID v"
      using v(2,3) by (simp add: no_backup_def vm_finding_def)
    have "set (no_backup v) \<subseteq> set (vmRules u (NormalizeInsightThresholds th) now)"
      using v(1) unfolding vmRules_def by auto
    then have "x \<in> set (fd_Insights f)" by (simp add: ins x(1))
    then show ?thesis using x by blast
  qed
  have cls: "\<exists>x \<in> set (fd_Insights f). in_Severity x = ''critical'' \<and> in_EntityID x = cl_ID c"
    if c: "c \<in> set (un_Clusters u)" "length (cl_HostIDs c) \<le> 1" for c
  proof -
    obtain x where x: "cluster_rule c = [x]" "in_Severity x = ''critical''" "in_EntityID x = cl_ID c"
      using c(2) by (simp add: cluster_rule_def cluster_finding_def Let_def)
    have "set (cluster_rule c) \<subseteq> set (clusterRules u)" using c(1) unfolding clusterRules_def by auto
    then have "x \<in> set (fd_Insights f)" by (simp add: ins x(1))
    then show ?thesis using x by blast
  qed
  show ?thesis using sorted counts deg read vms cls by blast
qed

end
