(* ===== verification/Finops_Api.thy ===== *)
theory Finops_Api
  imports Finops Insights Vm_Api
begin

text \<open>
  The analytics of the API over the whole fleet: \<open>api/finops.go\<close> and \<open>api/insights.go\<close>. JSON texts of
  rate cards and thresholds are decoded and encoded by parameters, and so are the answers. The goroutines of
  \<open>collectUtilization\<close> write one key each; they run here in the order of the machines.
\<close>

record analytics_json =
  card_of :: "string \<Rightarrow> rate_card option"
  card_text :: "rate_card \<Rightarrow> string"
  thresholds_of :: "string \<Rightarrow> thresholds"
  insight_thresholds_of :: "string \<Rightarrow> insight_thresholds"
  summary_json :: "summary \<Rightarrow> jval"
  rightsizing_json :: "recommendation list \<times> f64 \<times> string \<Rightarrow> jval"
  card_json :: "rate_card \<Rightarrow> jval"
  feed_json :: "feed \<Rightarrow> jval"

definition zero_thresholds :: thresholds where
  "zero_thresholds = \<lparr>IdleCPUPercent = Fin 0, IdleMemPercent = Fin 0, OversizedCPUPercent = Fin 0,
     OversizedMemPercent = Fin 0, MinSamples = 0\<rparr>"

definition loadRateCard :: "analytics_json \<Rightarrow> db \<Rightarrow> rate_card" where
  "loadRateCard js s = NormalizeCard (fst (UnmarshalRateCard (card_of js) (GetSettingDefault s ''finops.ratecard'' [])))"

definition loadRightsizeThresholds :: "analytics_json \<Rightarrow> db \<Rightarrow> thresholds" where
  "loadRightsizeThresholds js s =
     (let raw = GetSettingDefault s ''finops.thresholds'' []
      in NormalizeThresholds (if raw = [] then zero_thresholds else thresholds_of js raw))"

text \<open>Keyed by provider and machine; instants in nanoseconds.\<close>

definition util_key :: "string \<Rightarrow> string \<Rightarrow> string" where
  "util_key pid vid = pid @ ''/'' @ vid"

definition vm_utilization :: "'p vm_hv \<Rightarrow> 'p \<Rightarrow> vm \<Rightarrow> int \<Rightarrow> utilization option" where
  "vm_utilization hv p v now =
     (case vp_GetMetrics hv p (vm_ID v) \<lparr>Since = Some (now - 24 * hour), Until = Some now, StepSecond = 300\<rparr> now of
        Inl _ \<Rightarrow> None
      | Inr series \<Rightarrow>
        if Samples series = [] then None else Some (ComputeUtilization (Samples series) (vm_VCPUs v)))"

definition collectUtilization ::
  "'p vm_hv \<Rightarrow> (string \<times> 'p) list \<Rightarrow> vm list \<Rightarrow> int \<Rightarrow> (string \<times> utilization) list" where
  "collectUtilization hv ps vms now =
     fold (\<lambda>v m. if vm_State v \<noteq> StateRunning then m
        else (case map_of ps (vm_ProviderID v) of None \<Rightarrow> m
              | Some p \<Rightarrow> (case vm_utilization hv p v now of None \<Rightarrow> m
                  | Some u \<Rightarrow> put m (util_key (vm_ProviderID v) (vm_ID v)) u))) vms []"

definition buildRightsizing ::
  "'p vm_hv \<Rightarrow> (string \<times> 'p) list \<Rightarrow> rate_card \<Rightarrow> thresholds \<Rightarrow> unified \<Rightarrow> int \<Rightarrow> recommendation list" where
  "buildRightsizing hv ps rc th u now =
     (let util = map_of (collectUtilization hv ps (un_VMs u) now)
      in Recommend rc th (List.map_filter (\<lambda>c. if ce_Domain c \<noteq> ''vm'' then None
           else map_option (Pair c) (util (util_key (ce_Provider c) (ce_ID c)))) (PriceInventory rc u)))"

text \<open>\<open>cs\<close> are the snapshots of the container cache.\<close>

definition FinOpsSummary :: "'p vm_hv \<Rightarrow> analytics_json \<Rightarrow> container_host list \<Rightarrow> 'p vm_handler" where
  "FinOpsSummary hv js cs w r =
     (let rc = loadRateCard js (store w); th = loadRightsizeThresholds js (store w);
          u = All hv (fleet w) cs (now_ns w);
          recs = buildRightsizing hv (fleet w) rc th u (now_ns w)
      in (ok (summary_json js (Summarize rc (PriceInventory rc u) 10 (TotalSavings recs) (int (length recs)))), w))"

definition FinOpsRightsizing :: "'p vm_hv \<Rightarrow> analytics_json \<Rightarrow> container_host list \<Rightarrow> 'p vm_handler" where
  "FinOpsRightsizing hv js cs w r =
     (let rc = loadRateCard js (store w); th = loadRightsizeThresholds js (store w);
          u = All hv (fleet w) cs (now_ns w);
          recs = buildRightsizing hv (fleet w) rc th u (now_ns w)
      in (ok (rightsizing_json js (recs, TotalSavings recs, rc_Currency rc)), w))"

definition GetRateCard :: "analytics_json \<Rightarrow> 'p vm_handler" where
  "GetRateCard js w r = (ok (card_json js (loadRateCard js (store w))), w)"

definition UpdateRateCard :: "analytics_json \<Rightarrow> api_error + rate_card \<Rightarrow> 'p vm_handler" where
  "UpdateRateCard js body w r =
     (case body of Inl e \<Rightarrow> (WriteError r e, w)
      | Inr rc \<Rightarrow>
        (case SetSetting (store w) ''finops.ratecard'' (card_text js (NormalizeCard rc)) of
           Inl e \<Rightarrow> (writeMapped r e, w)
         | Inr s \<Rightarrow> (ok (card_json js (NormalizeCard rc)), w\<lparr>store := s\<rparr>)))"

definition Insights_handler :: "'p vm_hv \<Rightarrow> analytics_json \<Rightarrow> container_host list \<Rightarrow> 'p vm_handler" where
  "Insights_handler hv js cs w r =
     (let raw = GetSettingDefault (store w) ''insights.thresholds'' [];
          th = NormalizeInsightThresholds (if raw = [] then \<lparr>StaleSnapshotDays = 0, PoweredOffDays = 0, SnapshotCountWarn = 0\<rparr>
                 else insight_thresholds_of js raw)
      in (ok (feed_json js (Analyze (All hv (fleet w) cs (now_ns w)) th (now_ns w))), w))"

subsection \<open>Routes\<close>

datatype analytics_route =
    RSummary "container_host list"
  | RRightsizing "container_host list"
  | RGetCard
  | RPutCard "api_error + rate_card"
  | RInsights "container_host list"

primrec analytics_handler :: "'p vm_hv \<Rightarrow> analytics_json \<Rightarrow> analytics_route \<Rightarrow> 'p vm_handler" where
  "analytics_handler hv js (RSummary cs) = FinOpsSummary hv js cs"
| "analytics_handler hv js (RRightsizing cs) = FinOpsRightsizing hv js cs"
| "analytics_handler hv js RGetCard = GetRateCard js"
| "analytics_handler hv js (RPutCard b) = UpdateRateCard js b"
| "analytics_handler hv js (RInsights cs) = Insights_handler hv js cs"

definition analytics_serve ::
  "(jval \<Rightarrow> string) \<Rightarrow> server \<Rightarrow> 'p vm_hv \<Rightarrow> analytics_json \<Rightarrow> analytics_route \<Rightarrow> 'p vm_handler" where
  "analytics_serve enc sv hv js rt =
     (let h = analytics_handler hv js rt;
          guarded = (case rt of
              RPutCard _ \<Rightarrow> AuditWrap enc ''finops.ratecard.update'' (RequireAAL (RequirePermission ''settings.update'' None h))
            | RInsights _ \<Rightarrow> RequirePermission ''insights.read'' None h
            | _ \<Rightarrow> RequirePermission ''finops.read'' None h)
      in bootstrapGate (BearerOrSession (sdeps sv) (CSRF (sdeps sv) guarded)))"

subsection \<open>A card that was saved\<close>

text \<open>A saved rate card is the one used from then on, when its text decodes to it and the table works.\<close>

lemma saved_card_used:
  assumes "UpdateRateCard js (Inr rc) w r = (resp, w')" "Status resp = 200"
    and "card_of js (card_text js (NormalizeCard rc)) = Some (NormalizeCard rc)" "card_text js (NormalizeCard rc) \<noteq> []"
    and "''GetSetting'' \<notin> broken (store w)"
  shows "loadRateCard js (store w') = NormalizeCard rc"
proof (cases "SetSetting (store w) ''finops.ratecard'' (card_text js (NormalizeCard rc))")
  case (Inl e)
  then have "e = SQLError" by (auto simp: SetSetting_def query_def split: if_splits)
  then show ?thesis using assms(1,2) Inl
    by (auto simp: UpdateRateCard_def writeMapped_def mapError_def ErrInternal_def newErr_def)
next
  case (Inr s)
  then have "store w' = s" "s = (store w)\<lparr>settings := (settings (store w))(''finops.ratecard'' \<mapsto> card_text js (NormalizeCard rc))\<rparr>"
    using assms(1) by (auto simp: UpdateRateCard_def SetSetting_def query_def split: if_splits)
  then show ?thesis using assms(3-5)
    by (simp add: loadRateCard_def UnmarshalRateCard_def GetSettingDefault_def GetSetting_def query_def NormalizeCard_idem)
qed

end
