(* ===== verification/Hv_Conn.thy ===== *)
theory Hv_Conn
  imports Vm_Bulk
begin

text \<open>
  Hypervisor connections: the table (\<open>store/hypervisors.go\<close>), the factory (\<open>hvconnect/factory.go\<close>), the
  handlers and the start-up of \<open>api/hvconnections.go\<close>. The live constructors of the providers and their
  health check are parameters (\<open>drivers\<close>); so are sealing and opening of secrets. A provider is
  registered under the identifier of its connection, which every constructor stores as its own.
\<close>

subsection \<open>The table\<close>

record hv_conn =
  hc_ID :: string
  hc_Name :: string
  hc_Kind :: string
  hc_Endpoint :: string
  hc_Username :: string
  hc_SecretEnc :: string
  hc_InsecureTLS :: bool
  hc_Enabled :: bool
  hc_Status :: string
  hc_LastError :: string
  hc_LastSeenAt :: int
  hc_CreatedAt :: int
  hc_UpdatedAt :: int

record 'p conn_world = "'p vm_world" +
  conns :: "hv_conn list"

type_synonym 'p conn_handler = "'p conn_world \<Rightarrow> request \<Rightarrow> response \<times> 'p conn_world"

definition ListHypervisorConns :: "'p conn_world \<Rightarrow> store_error + hv_conn list" where
  "ListHypervisorConns w = query ''ListHypervisorConns'' (store w) (Inr (sort_key hc_Name (conns w)))"

definition GetHypervisorConn :: "'p conn_world \<Rightarrow> string \<Rightarrow> store_error + hv_conn" where
  "GetHypervisorConn w i = query ''GetHypervisorConn'' (store w) (select_one (\<lambda>h. hc_ID h = i) (conns w))"

text \<open>The primary key and \<open>UNIQUE(kind, endpoint, username)\<close> of migration 0004.\<close>

definition conn_conflict :: "hv_conn list \<Rightarrow> hv_conn \<Rightarrow> bool" where
  "conn_conflict hs h \<longleftrightarrow> (\<exists>x \<in> set hs. hc_ID x = hc_ID h
     \<or> (hc_Kind x = hc_Kind h \<and> hc_Endpoint x = hc_Endpoint h \<and> hc_Username x = hc_Username h))"

text \<open>The row is changed in place, so the caller sees the times and the status too.\<close>

definition stamped_conn :: "'p conn_world \<Rightarrow> hv_conn \<Rightarrow> hv_conn" where
  "stamped_conn w h = h\<lparr>hc_CreatedAt := clock w, hc_UpdatedAt := clock w,
     hc_Status := (if hc_Status h = [] then ''pending'' else hc_Status h)\<rparr>"

definition CreateHypervisorConn :: "'p conn_world \<Rightarrow> hv_conn \<Rightarrow> store_error + 'p conn_world" where
  "CreateHypervisorConn w h = query ''CreateHypervisorConn'' (store w)
     (if conn_conflict (conns w) h then Inl SQLError
      else Inr (w\<lparr>conns := conns w @ [(stamped_conn w h)\<lparr>hc_LastError := [], hc_LastSeenAt := 0\<rparr>]\<rparr>))"

definition conn_status :: "int \<Rightarrow> string \<Rightarrow> string \<Rightarrow> hv_conn \<Rightarrow> hv_conn" where
  "conn_status now status err h = h\<lparr>hc_Status := status, hc_LastError := err,
     hc_LastSeenAt := (if status = ''connected'' then now else hc_LastSeenAt h), hc_UpdatedAt := now\<rparr>"

interpretation conn_row: keyed_update hc_ID "conn_status now status err" for now status err
  by unfold_locales (simp add: conn_status_def)

definition UpdateHypervisorConnStatus :: "'p conn_world \<Rightarrow> string \<Rightarrow> string \<Rightarrow> string \<Rightarrow> 'p conn_world" where
  "UpdateHypervisorConnStatus w i status err =
     (case query ''UpdateHypervisorConnStatus'' (store w)
        (Inr (update_where (\<lambda>h. hc_ID h = i) (conn_status (clock w) status err) (conns w))) of
        Inl _ \<Rightarrow> w | Inr hs \<Rightarrow> w\<lparr>conns := hs\<rparr>)"

definition DeleteHypervisorConn :: "'p conn_world \<Rightarrow> string \<Rightarrow> store_error + 'p conn_world" where
  "DeleteHypervisorConn w i = query ''DeleteHypervisorConn'' (store w)
     (if find (\<lambda>h. hc_ID h = i) (conns w) = None then Inl store_error.ErrNotFound
      else Inr (w\<lparr>conns := delete_where (\<lambda>h. hc_ID h = i) (conns w)\<rparr>))"

subsection \<open>The factory\<close>

record connection =
  cx_ID :: string
  cx_Name :: string
  cx_Kind :: string
  cx_Endpoint :: string
  cx_Username :: string
  cx_Password :: string
  cx_InsecureTLS :: bool

record 'p drivers =
  kvm_live :: "string \<Rightarrow> string \<Rightarrow> string + 'p"
  esxi_live :: "string \<Rightarrow> string \<Rightarrow> string \<Rightarrow> string \<Rightarrow> bool \<Rightarrow> string + 'p"
  xen_live :: "string \<Rightarrow> string \<Rightarrow> string \<Rightarrow> string \<Rightarrow> bool \<Rightarrow> string + 'p"
  hyperv_live :: "connection \<Rightarrow> string + 'p"
  live_health :: "'p \<Rightarrow> string + bool \<times> string"

definition Build :: "'p drivers \<Rightarrow> connection \<Rightarrow> string + 'p" where
  "Build d c =
     (if cx_Kind c = ''kvm'' then
        kvm_live d (cx_ID c) (if cx_Endpoint c = [] then ''/var/run/libvirt/libvirt-sock'' else cx_Endpoint c)
      else if cx_Kind c = ''vmware'' then
        esxi_live d (cx_ID c) (cx_Endpoint c) (cx_Username c) (cx_Password c) (cx_InsecureTLS c)
      else if cx_Kind c = ''xen'' then
        xen_live d (cx_ID c) (cx_Endpoint c) (cx_Username c) (cx_Password c) (cx_InsecureTLS c)
      else if cx_Kind c = ''hyperv'' then hyperv_live d c
      else Inl (''hvconnect: unknown hypervisor kind '' @ go_quote (cx_Kind c)))"

definition Verify :: "'p drivers \<Rightarrow> connection \<Rightarrow> string option" where
  "Verify d c =
     (case Build d c of Inl e \<Rightarrow> Some e
      | Inr p \<Rightarrow>
        (case live_health d p of Inl e \<Rightarrow> Some e
         | Inr (healthy, msg) \<Rightarrow> if healthy then None else Some (''hypervisor unhealthy: '' @ msg)))"

subsection \<open>Requests and answers\<close>

record hv_input =
  hi_Name :: string
  hi_Kind :: string
  hi_Endpoint :: string
  hi_Username :: string
  hi_Secret :: string
  hi_InsecureTLS :: bool
  hi_Enabled :: bool

definition unless_zero :: "string \<Rightarrow> int \<Rightarrow> (string \<times> jval) list" where
  "unless_zero k n = (if n = 0 then [] else [(k, JNum n)])"

definition toHVConnView :: "hv_conn \<Rightarrow> jval" where
  "toHVConnView h = JObj ([(''id'', JStr (hc_ID h)), (''name'', JStr (hc_Name h)), (''kind'', JStr (hc_Kind h)),
     (''endpoint'', JStr (hc_Endpoint h)), (''username'', JStr (hc_Username h)),
     (''hasSecret'', JBool (hc_SecretEnc h \<noteq> [])), (''insecureTls'', JBool (hc_InsecureTLS h)),
     (''enabled'', JBool (hc_Enabled h)), (''status'', JStr (hc_Status h))]
     @ unless_empty ''lastError'' (hc_LastError h) @ unless_zero ''lastSeenAt'' (hc_LastSeenAt h)
     @ [(''createdAt'', JNum (hc_CreatedAt h))])"

definition validHVKinds :: "string list" where
  "validHVKinds = [''kvm'', ''hyperv'', ''vmware'', ''xen'']"

definition hv_validate :: "hv_input \<Rightarrow> api_error option" where
  "hv_validate b =
     (if trim_space (hi_Name b) = [] then Some (Errorf ErrValidation ''name is required'')
      else if hi_Kind b \<notin> set validHVKinds then Some (Errorf ErrValidation ''kind must be one of kvm|hyperv|vmware|xen'')
      else if (hi_Kind b = ''vmware'' \<or> hi_Kind b = ''xen'') \<and> trim_space (hi_Endpoint b) = []
        then Some (Errorf ErrValidation (''endpoint is required for '' @ hi_Kind b))
      else None)"

definition toConn :: "hv_input \<Rightarrow> string \<Rightarrow> connection" where
  "toConn b i = \<lparr>cx_ID = i, cx_Name = hi_Name b, cx_Kind = hi_Kind b, cx_Endpoint = hi_Endpoint b,
     cx_Username = hi_Username b, cx_Password = hi_Secret b, cx_InsecureTLS = hi_InsecureTLS b\<rparr>"

subsection \<open>Handlers\<close>

definition ListHypervisorConns_handler :: "'p conn_handler" where
  "ListHypervisorConns_handler w r =
     (case ListHypervisorConns w of Inl e \<Rightarrow> (WriteError r ErrInternal, w)
      | Inr hs \<Rightarrow> (ok (JArr (map toHVConnView hs)), w))"

definition TestHypervisorConn :: "'p drivers \<Rightarrow> string \<Rightarrow> api_error + hv_input \<Rightarrow> 'p conn_handler" where
  "TestHypervisorConn d i body w r =
     (case body of Inl e \<Rightarrow> (WriteError r e, w)
      | Inr b \<Rightarrow>
        (case hv_validate b of Some e \<Rightarrow> (WriteError r e, w)
         | None \<Rightarrow>
           (case Verify d (toConn b (''test-'' @ i)) of
              Some e \<Rightarrow> (WriteError r (Errorf ErrValidation (''connection test failed: '' @ e)), w)
            | None \<Rightarrow> (ok (JObj [(''ok'', JBool True)]), w))))"

text \<open>\<open>opn\<close> opens a sealed secret.\<close>

definition opened :: "(string \<Rightarrow> string option) \<Rightarrow> hv_conn \<Rightarrow> string \<Rightarrow> string" where
  "opened opn h plain =
     (if plain = [] \<and> hc_SecretEnc h \<noteq> [] then (case opn (hc_SecretEnc h) of None \<Rightarrow> plain | Some s \<Rightarrow> s) else plain)"

definition dialled :: "(string \<Rightarrow> string option) \<Rightarrow> hv_conn \<Rightarrow> string \<Rightarrow> connection" where
  "dialled opn h plain = \<lparr>cx_ID = hc_ID h, cx_Name = hc_Name h, cx_Kind = hc_Kind h, cx_Endpoint = hc_Endpoint h,
     cx_Username = hc_Username h, cx_Password = opened opn h plain, cx_InsecureTLS = hc_InsecureTLS h\<rparr>"

definition connectHypervisor ::
  "'p drivers \<Rightarrow> (string \<Rightarrow> string option) \<Rightarrow> hv_conn \<Rightarrow> string \<Rightarrow> 'p conn_world \<Rightarrow> 'p conn_world" where
  "connectHypervisor d opn h plain w =
     (case Build d (dialled opn h plain) of
        Inl e \<Rightarrow> UpdateHypervisorConnStatus w (hc_ID h) ''error'' e
      | Inr p \<Rightarrow>
        (case live_health d p of
           Inl e \<Rightarrow> UpdateHypervisorConnStatus w (hc_ID h) ''error'' e
         | Inr _ \<Rightarrow> UpdateHypervisorConnStatus (w\<lparr>fleet := put (fleet w) (hc_ID h) p\<rparr>) (hc_ID h) ''connected'' []))"

text \<open>\<open>seal\<close> draws a nonce for every request; \<open>None\<close> is a failure.\<close>

definition new_conn :: "string \<Rightarrow> hv_input \<Rightarrow> string \<Rightarrow> hv_conn" where
  "new_conn i b sealed = \<lparr>hc_ID = i, hc_Name = hi_Name b, hc_Kind = hi_Kind b, hc_Endpoint = hi_Endpoint b,
     hc_Username = hi_Username b, hc_SecretEnc = sealed, hc_InsecureTLS = hi_InsecureTLS b,
     hc_Enabled = hi_Enabled b, hc_Status = ''pending'', hc_LastError = [], hc_LastSeenAt = 0, hc_CreatedAt = 0,
     hc_UpdatedAt = 0\<rparr>"

definition CreateHypervisorConn_handler ::
  "'p drivers \<Rightarrow> (string \<Rightarrow> string option) \<Rightarrow> (string \<Rightarrow> string option) \<Rightarrow> string \<Rightarrow> api_error + hv_input
     \<Rightarrow> 'p conn_handler" where
  "CreateHypervisorConn_handler d opn seal i body w r =
     (case body of Inl e \<Rightarrow> (WriteError r e, w)
      | Inr b \<Rightarrow>
        (case hv_validate b of Some e \<Rightarrow> (WriteError r e, w)
         | None \<Rightarrow>
           (case (if hi_Secret b = [] then Some [] else seal (hi_Secret b)) of
              None \<Rightarrow> (WriteError r ErrInternal, w)
            | Some sealed \<Rightarrow>
              (case CreateHypervisorConn w (new_conn i b sealed) of
                 Inl e \<Rightarrow> (WriteError r ErrInternal, w)
               | Inr w1 \<Rightarrow>
                 (let h = stamped_conn w (new_conn i b sealed);
                      w2 = (if hc_Enabled h then connectHypervisor d opn h (hi_Secret b) w1 else w1);
                      shown = (if hc_Enabled h then (case GetHypervisorConn w2 i of Inl _ \<Rightarrow> h | Inr u \<Rightarrow> u) else h)
                  in (created (toHVConnView shown), w2))))))"

definition DeleteHypervisorConn_handler :: "string \<Rightarrow> 'p conn_handler" where
  "DeleteHypervisorConn_handler i w r =
     (let w1 = w\<lparr>fleet := del (fleet w) i\<rparr> in
      case DeleteHypervisorConn w1 i of
        Inl e \<Rightarrow> (WriteError r ErrInternal, w1)
      | Inr w2 \<Rightarrow> (noContent, w2))"

text \<open>Start-up, with an empty registry.\<close>

definition LoadHypervisorConnections :: "'p drivers \<Rightarrow> (string \<Rightarrow> string option) \<Rightarrow> 'p conn_world \<Rightarrow> 'p conn_world" where
  "LoadHypervisorConnections d opn w =
     (case ListHypervisorConns w of Inl _ \<Rightarrow> w
      | Inr hs \<Rightarrow> fold (\<lambda>h. connectHypervisor d opn h []) (filter hc_Enabled hs) w)"

subsection \<open>Routes\<close>

datatype 'p conn_route =
    RList
  | RTest "'p drivers" string "api_error + hv_input"
  | RCreate "'p drivers" "string \<Rightarrow> string option" string "api_error + hv_input"
  | RDelete string

primrec conn_handler_of :: "(string \<Rightarrow> string option) \<Rightarrow> 'p conn_route \<Rightarrow> 'p conn_handler" where
  "conn_handler_of opn RList = ListHypervisorConns_handler"
| "conn_handler_of opn (RTest d i b) = TestHypervisorConn d i b"
| "conn_handler_of opn (RCreate d seal i b) = CreateHypervisorConn_handler d opn seal i b"
| "conn_handler_of opn (RDelete i) = DeleteHypervisorConn_handler i"

primrec conn_action :: "'p conn_route \<Rightarrow> string option" where
  "conn_action RList = None"
| "conn_action (RTest d i b) = Some ''vm.connection.test''"
| "conn_action (RCreate d s i b) = Some ''vm.connection.create''"
| "conn_action (RDelete i) = Some ''vm.connection.delete''"

definition conn_serve ::
  "(jval \<Rightarrow> string) \<Rightarrow> server \<Rightarrow> (string \<Rightarrow> string option) \<Rightarrow> 'p conn_route \<Rightarrow> 'p conn_handler" where
  "conn_serve enc sv opn rt =
     bootstrapGate (BearerOrSession (sdeps sv) (CSRF (sdeps sv)
       (case conn_action rt of
          None \<Rightarrow> RequirePermission ''vm.read'' None (conn_handler_of opn rt)
        | Some a \<Rightarrow> AuditWrap enc a (RequireAAL (RequirePermission ''vm.create'' None (conn_handler_of opn rt))))))"

end
