(* ===== verification/Conn_Props.thy ===== *)
theory Conn_Props
  imports Hv_Conn Rbac_Props Esxi
begin

text \<open>
  What holds of the hypervisor connections over any course of requests, restarts, changes of the
  registered providers, and times at which parts of the store fail.
\<close>

subsection \<open>Runs\<close>

text \<open>\<open>EHandled\<close> is a request that its guards let through; what the guards write (sessions, the audit
  log), failing tables and the clock are \<open>EStore\<close>; \<open>EProvider\<close> is a request of the machine API
  that changes a registered provider.\<close>

datatype 'p conn_event =
    EHandled "'p conn_route" request
  | EStore db int
  | EProvider string 'p
  | ERestart "'p drivers"

primrec conn_step :: "(string \<Rightarrow> string option) \<Rightarrow> 'p conn_event \<Rightarrow> 'p conn_world \<Rightarrow> 'p conn_world" where
  "conn_step opn (EHandled rt r) w = snd (conn_handler_of opn rt w r)"
| "conn_step opn (EStore s t) w = w\<lparr>store := s, clock := t\<rparr>"
| "conn_step opn (EProvider i p) w =
     (if map_of (fleet w) i = None then w else w\<lparr>fleet := put (fleet w) i p\<rparr>)"
| "conn_step opn (ERestart d) w = LoadHypervisorConnections d opn (w\<lparr>fleet := []\<rparr>)"

definition conn_run :: "(string \<Rightarrow> string option) \<Rightarrow> 'p conn_event list \<Rightarrow> 'p conn_world \<Rightarrow> 'p conn_world" where
  "conn_run opn es w = fold (conn_step opn) es w"

lemma conn_run_simps [simp]:
  "conn_run opn [] w = w" "conn_run opn (e # es) w = conn_run opn es (conn_step opn e w)"
  by (simp_all add: conn_run_def)

subsection \<open>One connection\<close>

definition registered :: "'p conn_world \<Rightarrow> string \<Rightarrow> bool" where
  "registered w i \<longleftrightarrow> map_of (fleet w) i \<noteq> None"

definition row_of :: "'p conn_world \<Rightarrow> string \<Rightarrow> hv_conn option" where
  "row_of w i = find (\<lambda>h. hc_ID h = i) (conns w)"

text \<open>What the status updates leave alone.\<close>

definition setup_of :: "hv_conn \<Rightarrow> hv_conn" where
  "setup_of h = h\<lparr>hc_Status := [], hc_LastError := [], hc_LastSeenAt := 0, hc_CreatedAt := 0, hc_UpdatedAt := 0\<rparr>"

lemma setup_eqD:
  assumes "setup_of h = setup_of k"
  shows "hc_ID h = hc_ID k" "hc_Name h = hc_Name k" "hc_Kind h = hc_Kind k" "hc_Endpoint h = hc_Endpoint k"
    "hc_Username h = hc_Username k" "hc_SecretEnc h = hc_SecretEnc k" "hc_InsecureTLS h = hc_InsecureTLS k"
    "hc_Enabled h = hc_Enabled k"
  using arg_cong [OF assms, of hc_ID] arg_cong [OF assms, of hc_Name] arg_cong [OF assms, of hc_Kind]
    arg_cong [OF assms, of hc_Endpoint] arg_cong [OF assms, of hc_Username] arg_cong [OF assms, of hc_SecretEnc]
    arg_cong [OF assms, of hc_InsecureTLS] arg_cong [OF assms, of hc_Enabled] by (simp_all add: setup_of_def)

lemma setup_conn_status [simp]: "setup_of (conn_status now status err h) = setup_of h"
  by (simp add: setup_of_def conn_status_def)

lemma status_frame [simp]:
  "fleet (UpdateHypervisorConnStatus w i status err) = fleet w"
  "store (UpdateHypervisorConnStatus w i status err) = store w"
  "map hc_ID (conns (UpdateHypervisorConnStatus w i status err)) = map hc_ID (conns w)"
  by (simp_all add: UpdateHypervisorConnStatus_def query_def conn_row.keys_update)

lemma status_row [simp]:
  "map_option setup_of (row_of (UpdateHypervisorConnStatus w i status err) j) = map_option setup_of (row_of w j)"
  by (simp add: UpdateHypervisorConnStatus_def query_def row_of_def conn_row.find_update_where option.map_comp
      comp_def if_distrib cong: if_cong)

lemma connect_frame [simp]:
  "map hc_ID (conns (connectHypervisor d opn h plain w)) = map hc_ID (conns w)"
  "store (connectHypervisor d opn h plain w) = store w"
  by (simp_all add: connectHypervisor_def split: sum.split)

lemma row_of_fleet [simp]: "row_of (w\<lparr>fleet := f\<rparr>) j = row_of w j"
  by (simp add: row_of_def)

lemma connect_row [simp]:
  "map_option setup_of (row_of (connectHypervisor d opn h plain w) j) = map_option setup_of (row_of w j)"
  by (simp add: connectHypervisor_def split: sum.split)

lemma connect_other: "j \<noteq> hc_ID h \<Longrightarrow> map_of (fleet (connectHypervisor d opn h plain w)) j = map_of (fleet w) j"
  by (simp add: connectHypervisor_def map_of_put split: sum.split)

lemma connect_built:
  "Build d (dialled opn h plain) = Inr p \<Longrightarrow> live_health d p = Inr st \<Longrightarrow>
     map_of (fleet (connectHypervisor d opn h plain w)) (hc_ID h) = Some p"
  by (simp add: connectHypervisor_def map_of_put)

lemma load_frame:
  "map hc_ID (conns (fold (\<lambda>h. connectHypervisor d opn h []) hs w)) = map hc_ID (conns w)"
  "map_option setup_of (row_of (fold (\<lambda>h. connectHypervisor d opn h []) hs w) j) = map_option setup_of (row_of w j)"
  by (induction hs arbitrary: w) simp_all

lemma load_other:
  "j \<notin> set (map hc_ID hs) \<Longrightarrow> map_of (fleet (fold (\<lambda>h. connectHypervisor d opn h []) hs w)) j = map_of (fleet w) j"
  by (induction hs arbitrary: w) (simp_all add: connect_other)

lemma load_built:
  "distinct (map hc_ID hs) \<Longrightarrow> h \<in> set hs \<Longrightarrow> Build d (dialled opn h []) = Inr p \<Longrightarrow> live_health d p = Inr st \<Longrightarrow>
     map_of (fleet (fold (\<lambda>h. connectHypervisor d opn h []) hs w)) (hc_ID h) = Some p"
proof (induction hs arbitrary: w)
  case (Cons x xs)
  show ?case
  proof (cases "x = h")
    case True
    then have "hc_ID h \<notin> set (map hc_ID xs)" using Cons.prems(1) by simp
    then show ?thesis using True connect_built [OF Cons.prems(3,4)] by (simp add: load_other)
  next
    case False
    then show ?thesis using Cons.IH Cons.prems by simp
  qed
qed simp

subsection \<open>The registry follows the table\<close>

definition conns_ok :: "'p conn_world \<Rightarrow> bool" where
  "conns_ok w \<longleftrightarrow> distinct (map hc_ID (conns w))
     \<and> (\<forall>i. registered w i \<longrightarrow> (\<exists>h. row_of w i = Some h \<and> hc_Enabled h))"

lemma enabled_setup: "map_option setup_of (row_of w' i) = map_option setup_of (row_of w i) \<Longrightarrow>
    (\<exists>h. row_of w' i = Some h \<and> hc_Enabled h) \<longleftrightarrow> (\<exists>h. row_of w i = Some h \<and> hc_Enabled h)"
proof -
  have e: "hc_Enabled (setup_of h) = hc_Enabled h" for h by (simp add: setup_of_def)
  assume "map_option setup_of (row_of w' i) = map_option setup_of (row_of w i)"
  then show ?thesis by (cases "row_of w' i"; cases "row_of w i") (simp, simp, simp, metis e option.map(2) option.inject)
qed

lemma registered_put: "registered (w\<lparr>fleet := put f i p\<rparr>) j \<longleftrightarrow> j = i \<or> map_of f j \<noteq> None"
  by (simp add: registered_def map_of_put)

lemma connect_registered:
  "registered (connectHypervisor d opn h plain w) j \<Longrightarrow> registered w j \<or> j = hc_ID h"
  using connect_other [of j h d opn plain w] by (cases "j = hc_ID h") (simp_all add: registered_def)

lemma conns_ok_connect:
  assumes "conns_ok w" "row_of w (hc_ID h) = Some h'" "hc_Enabled h'"
  shows "conns_ok (connectHypervisor d opn h plain w)"
  unfolding conns_ok_def
proof (intro conjI allI impI)
  show "distinct (map hc_ID (conns (connectHypervisor d opn h plain w)))" using assms(1) by (simp add: conns_ok_def)
next
  fix i assume "registered (connectHypervisor d opn h plain w) i"
  then have "registered w i \<or> i = hc_ID h" by (rule connect_registered)
  then have "\<exists>x. row_of w i = Some x \<and> hc_Enabled x" using assms by (auto simp: conns_ok_def)
  then show "\<exists>x. row_of (connectHypervisor d opn h plain w) i = Some x \<and> hc_Enabled x"
    by (subst enabled_setup [OF connect_row])
qed

lemma row_of_mem: "distinct (map hc_ID (conns w)) \<Longrightarrow> h \<in> set (conns w) \<Longrightarrow> row_of w (hc_ID h) = Some h"
proof -
  have "distinct (map hc_ID hs) \<Longrightarrow> h \<in> set hs \<Longrightarrow> find (\<lambda>x. hc_ID x = hc_ID h) hs = Some h" for hs
    by (induction hs) (auto simp: image_iff)
  then show "distinct (map hc_ID (conns w)) \<Longrightarrow> h \<in> set (conns w) \<Longrightarrow> ?thesis" by (simp add: row_of_def)
qed

lemma conns_ok_load:
  assumes "conns_ok w" "\<forall>h \<in> set hs. \<exists>x. row_of w (hc_ID h) = Some x \<and> hc_Enabled x"
  shows "conns_ok (fold (\<lambda>h. connectHypervisor d opn h []) hs w)"
  using assms
proof (induction hs arbitrary: w)
  case (Cons h hs)
  then obtain x where "row_of w (hc_ID h) = Some x" "hc_Enabled x" by auto
  then have "conns_ok (connectHypervisor d opn h [] w)" using conns_ok_connect Cons.prems(1) by blast
  moreover have "\<forall>k \<in> set hs. \<exists>x. row_of (connectHypervisor d opn h [] w) (hc_ID k) = Some x \<and> hc_Enabled x"
    using Cons.prems(2) by (subst enabled_setup [OF connect_row]) simp
  ultimately show ?case using Cons.IH by simp
qed simp

lemma row_of_store [simp]: "row_of (w\<lparr>store := s, clock := t\<rparr>) j = row_of w j"
  by (simp add: row_of_def)

text \<open>What a create request does to the world.\<close>

lemma validate_status: "hv_validate b = Some e \<Longrightarrow> ErrStatus e = 422"
  by (auto simp: hv_validate_def ErrValidation_def newErr_def split: if_splits)

lemma create_cases:
  assumes "CreateHypervisorConn_handler d opn seal i (Inr b) w r = (resp, w')"
  obtains "w' = w" "Status resp \<noteq> 201"
    | sealed where "(if hi_Secret b = [] then Some [] else seal (hi_Secret b)) = Some sealed"
      "\<not> conn_conflict (conns w) (new_conn i b sealed)"
      "w' = (let w1 = w\<lparr>conns := conns w @ [stamped_conn w (new_conn i b sealed)]\<rparr> in
         if hi_Enabled b then connectHypervisor d opn (stamped_conn w (new_conn i b sealed)) (hi_Secret b) w1 else w1)"
proof (cases "hv_validate b")
  case (Some e)
  then have "w' = w" "Status resp \<noteq> 201"
    using assms validate_status by (auto simp: CreateHypervisorConn_handler_def)
  then show ?thesis by (rule that(1))
next
  case None
  have int: "ErrStatus ErrInternal = 500" by (simp add: ErrInternal_def newErr_def)
  show ?thesis
  proof (cases "if hi_Secret b = [] then Some [] else seal (hi_Secret b)")
    case None
    then have "w' = w" "Status resp \<noteq> 201"
      using assms \<open>hv_validate b = None\<close> int by (auto simp: CreateHypervisorConn_handler_def split: if_splits)
    then show ?thesis by (rule that(1))
  next
    case (Some sealed)
    note out = assms [unfolded CreateHypervisorConn_handler_def sum.case \<open>hv_validate b = None\<close> option.case Some]
    show ?thesis
    proof (cases "''CreateHypervisorConn'' \<in> broken (store w) \<or> conn_conflict (conns w) (new_conn i b sealed)")
      case True
      then have "CreateHypervisorConn w (new_conn i b sealed) = Inl SQLError"
        by (auto simp: CreateHypervisorConn_def query_def)
      then have "w' = w" "Status resp \<noteq> 201" using out int by auto
      then show ?thesis by (rule that(1))
    next
      case False
      have row: "(stamped_conn w (new_conn i b sealed))\<lparr>hc_LastError := [], hc_LastSeenAt := 0\<rparr>
          = stamped_conn w (new_conn i b sealed)" by (simp add: stamped_conn_def new_conn_def)
      have en: "hc_Enabled (stamped_conn w (new_conn i b sealed)) = hi_Enabled b"
        by (simp add: stamped_conn_def new_conn_def)
      show ?thesis
        by (rule that(2) [OF Some]) (use False out in \<open>simp_all add: CreateHypervisorConn_def query_def row en Let_def\<close>)
    qed
  qed
qed

lemma created_row: "\<not> conn_conflict (conns w) h \<Longrightarrow>
    row_of (w\<lparr>conns := conns w @ [stamped_conn w h]\<rparr>) j = (if j = hc_ID h then Some (stamped_conn w h) else row_of w j)"
proof -
  assume "\<not> conn_conflict (conns w) h"
  then have fresh: "\<forall>x \<in> set (conns w). hc_ID x \<noteq> hc_ID h" by (auto simp: conn_conflict_def)
  have app: "find P (xs @ [y]) = (case find P xs of None \<Rightarrow> if P y then Some y else None | Some z \<Rightarrow> Some z)"
    for P and xs :: "hv_conn list" and y by (induction xs) simp_all
  have id: "hc_ID (stamped_conn w h) = hc_ID h" by (simp add: stamped_conn_def)
  have none: "find (\<lambda>x. hc_ID x = hc_ID h) (conns w) = None" using fresh by (simp add: find_None_iff)
  show ?thesis
    by (cases "j = hc_ID h") (simp_all add: row_of_def app id none split: option.split)
qed

lemma conns_ok_create:
  assumes "conns_ok w" "CreateHypervisorConn_handler d opn seal i body w r = (resp, w')"
  shows "conns_ok w'"
proof (cases body)
  case (Inl e)
  then show ?thesis using assms by (simp add: CreateHypervisorConn_handler_def)
next
  case (Inr b)
  from assms(2) [unfolded Inr] show ?thesis
  proof (cases rule: create_cases)
    case 1
    then show ?thesis using assms(1) by simp
  next
    case (2 sealed)
    let ?h = "new_conn i b sealed" and ?s = "stamped_conn w (new_conn i b sealed)"
    let ?w1 = "w\<lparr>conns := conns w @ [stamped_conn w (new_conn i b sealed)]\<rparr>"
    have s: "hc_ID ?s = i" "hc_Enabled ?s = hi_Enabled b" "hc_ID ?h = i"
      by (simp_all add: stamped_conn_def new_conn_def)
    have fresh: "\<forall>x \<in> set (conns w). hc_ID x \<noteq> i" using 2(2) by (auto simp: conn_conflict_def new_conn_def)
    then have "row_of w i = None" by (simp add: row_of_def find_None_iff)
    then have "\<not> registered w i" using assms(1) by (auto simp: conns_ok_def)
    then have ok: "conns_ok ?w1" using assms(1) fresh s
      unfolding conns_ok_def created_row [OF 2(2)] s by (auto simp: s registered_def)
    have row: "row_of ?w1 (hc_ID ?s) = Some ?s" unfolding created_row [OF 2(2)] s by simp
    show ?thesis unfolding 2(3) Let_def using ok conns_ok_connect [OF ok row] s(2) by simp
  qed
qed

lemma row_of_delete: "row_of (w\<lparr>conns := delete_where (\<lambda>h. hc_ID h = i) (conns w)\<rparr>) j = (if j = i then None else row_of w j)"
  by (simp add: row_of_def find_delete_where find_delete_where_None)

lemma conns_ok_delete: "conns_ok w \<Longrightarrow> conns_ok (snd (DeleteHypervisorConn_handler i w r))"
proof -
  assume a: "conns_ok w"
  let ?w1 = "w\<lparr>fleet := del (fleet w) i\<rparr>"
  have reg: "registered ?w1 j \<longleftrightarrow> j \<noteq> i \<and> registered w j" for j by (simp add: registered_def map_of_del)
  have one: "conns_ok ?w1" using a by (simp add: conns_ok_def reg)
  have "DeleteHypervisorConn ?w1 i = Inr w2 \<Longrightarrow> conns_ok w2" for w2
  proof -
    assume "DeleteHypervisorConn ?w1 i = Inr w2"
    then have w2: "w2 = ?w1\<lparr>conns := delete_where (\<lambda>h. hc_ID h = i) (conns ?w1)\<rparr>"
      by (simp add: DeleteHypervisorConn_def query_def split: if_splits)
    have "registered w2 j = registered ?w1 j" for j by (simp add: w2 registered_def)
    moreover have "row_of w2 j = (if j = i then None else row_of ?w1 j)" for j unfolding w2 by (rule row_of_delete)
    moreover have "distinct (map hc_ID (conns w2))"
      using one by (simp add: w2 conns_ok_def delete_where_def distinct_map_filter)
    ultimately show ?thesis using one by (simp add: conns_ok_def reg)
  qed
  then show ?thesis using one by (simp add: DeleteHypervisorConn_handler_def Let_def split: sum.split)
qed

lemma conns_ok_restart: "conns_ok w \<Longrightarrow> conns_ok (LoadHypervisorConnections d opn (w\<lparr>fleet := []\<rparr>))"
proof -
  assume a: "conns_ok w"
  let ?w0 = "w\<lparr>fleet := []\<rparr>"
  have ok: "conns_ok ?w0" using a by (simp add: conns_ok_def registered_def)
  have "\<forall>h \<in> set (filter hc_Enabled (sort_key hc_Name (conns w))). \<exists>x. row_of ?w0 (hc_ID h) = Some x \<and> hc_Enabled x"
    using row_of_mem [of w] a by (simp add: conns_ok_def)
  from conns_ok_load [OF ok this] show ?thesis
    using ok by (simp add: LoadHypervisorConnections_def ListHypervisorConns_def query_def)
qed

lemma conns_ok_step: "conns_ok w \<Longrightarrow> conns_ok (conn_step opn e w)"
proof (cases e)
  case (EHandled rt r)
  assume a: "conns_ok w"
  show ?thesis
  proof (cases rt)
    case RList
    then show ?thesis using a EHandled
      by (simp add: ListHypervisorConns_handler_def split: sum.split)
  next
    case (RTest d i b)
    then show ?thesis using a EHandled
      by (simp add: TestHypervisorConn_def split: sum.split option.split)
  next
    case (RCreate d seal i b)
    then show ?thesis using EHandled conns_ok_create [OF a, of d opn seal i b r] by (simp add: prod_eq_iff)
  next
    case (RDelete i)
    then show ?thesis using EHandled conns_ok_delete [OF a] by simp
  qed
next
  case (EStore s t)
  moreover assume "conns_ok w"
  ultimately show ?thesis by (simp add: conns_ok_def registered_def)
next
  case (EProvider i p)
  moreover assume "conns_ok w"
  ultimately show ?thesis by (auto simp: conns_ok_def registered_def map_of_put)
next
  case (ERestart d)
  moreover assume "conns_ok w"
  ultimately show ?thesis by (simp add: conns_ok_restart)
qed

lemma conns_ok_run: "conns_ok w \<Longrightarrow> conns_ok (conn_run opn es w)"
  by (induction es arbitrary: w) (simp_all add: conns_ok_step)

subsection \<open>A row over a run\<close>

definition deletes :: "string \<Rightarrow> 'p conn_event \<Rightarrow> bool" where
  "deletes i e \<longleftrightarrow> (case e of EHandled rt _ \<Rightarrow> (case rt of RDelete j \<Rightarrow> j = i | _ \<Rightarrow> False) | _ \<Rightarrow> False)"

definition makes :: "string \<Rightarrow> 'p conn_event \<Rightarrow> bool" where
  "makes i e \<longleftrightarrow> (case e of EHandled rt _ \<Rightarrow> (case rt of RCreate _ _ j _ \<Rightarrow> j = i | _ \<Rightarrow> False) | _ \<Rightarrow> False)"

abbreviation setup_row :: "'p conn_world \<Rightarrow> string \<Rightarrow> hv_conn option" where
  "setup_row w i \<equiv> map_option setup_of (row_of w i)"

lemma restart_row: "setup_row (LoadHypervisorConnections d opn w) i = setup_row w i"
  by (simp add: LoadHypervisorConnections_def load_frame split: sum.split)

lemma delete_row: "setup_row (snd (DeleteHypervisorConn_handler j w r)) i
    = (if i = j \<and> Status (fst (DeleteHypervisorConn_handler j w r)) = 204 then None else setup_row w i)"
proof (cases "DeleteHypervisorConn (w\<lparr>fleet := del (fleet w) j\<rparr>) j")
  case (Inl e)
  then show ?thesis by (simp add: DeleteHypervisorConn_handler_def ErrInternal_def newErr_def)
next
  case (Inr w2)
  then have "w2 = w\<lparr>fleet := del (fleet w) j, conns := delete_where (\<lambda>h. hc_ID h = j) (conns w)\<rparr>"
    by (simp add: DeleteHypervisorConn_def query_def split: if_splits)
  then have "row_of w2 i = (if i = j then None else row_of w i)"
    by (simp add: row_of_def find_delete_where find_delete_where_None)
  then show ?thesis using Inr by (simp add: DeleteHypervisorConn_handler_def noContent_def)
qed

lemma create_row:
  assumes "CreateHypervisorConn_handler d opn seal j body w r = (resp, w')" "i \<noteq> j \<or> row_of w i \<noteq> None"
  shows "setup_row w' i = setup_row w i"
proof (cases body)
  case (Inl e)
  then show ?thesis using assms by (simp add: CreateHypervisorConn_handler_def)
next
  case (Inr b)
  from assms(1) [unfolded Inr] show ?thesis
  proof (cases rule: create_cases)
    case (2 sealed)
    have id: "hc_ID (new_conn j b sealed) = j" by (simp add: new_conn_def)
    have "\<forall>x \<in> set (conns w). hc_ID x \<noteq> j" using 2(2) by (auto simp: conn_conflict_def new_conn_def)
    then have "row_of w j = None" by (simp add: row_of_def find_None_iff)
    then have "i \<noteq> j" using assms(2) by blast
    then show ?thesis unfolding 2(3) Let_def using created_row [OF 2(2), of i] by (simp add: id)
  qed simp
qed

lemma row_kept:
  assumes "\<not> deletes i e" "row_of w i \<noteq> None \<or> \<not> makes i e"
  shows "setup_row (conn_step opn e w) i = setup_row w i"
proof (cases e)
  case (EHandled rt r)
  show ?thesis
  proof (cases rt)
    case RList
    then show ?thesis using EHandled by (simp add: ListHypervisorConns_handler_def split: sum.split)
  next
    case (RTest d i b)
    then show ?thesis using EHandled by (simp add: TestHypervisorConn_def split: sum.split option.split)
  next
    case (RCreate d seal j b)
    then have "i \<noteq> j \<or> row_of w i \<noteq> None" using assms(2) EHandled by (auto simp: makes_def)
    from create_row [OF _ this, of d opn seal b r] show ?thesis using EHandled RCreate by (simp add: prod_eq_iff)
  next
    case (RDelete j)
    then show ?thesis using EHandled assms(1) delete_row [of j w r i] by (auto simp: deletes_def)
  qed
qed (simp_all add: restart_row)

lemma row_kept_run:
  "\<forall>e \<in> set es. \<not> deletes i e \<Longrightarrow> setup_row w i = Some s \<Longrightarrow> setup_row (conn_run opn es w) i = Some s"
proof (induction es arbitrary: w)
  case (Cons e es)
  then have "setup_row (conn_step opn e w) i = Some s" by (subst row_kept) auto
  then show ?case using Cons by simp
qed simp

lemma row_absent_run:
  "\<forall>e \<in> set es. \<not> makes i e \<Longrightarrow> row_of w i = None \<Longrightarrow> row_of (conn_run opn es w) i = None"
proof (induction es arbitrary: w)
  case (Cons e es)
  have "row_of (conn_step opn e w) i = None"
  proof (cases "deletes i e")
    case True
    then obtain r where "e = EHandled (RDelete i) r" by (auto simp: deletes_def split: conn_event.splits conn_route.splits)
    then show ?thesis using delete_row [of i w r i] Cons.prems(2) by (simp split: if_splits)
  next
    case False
    then show ?thesis using row_kept [OF False, of w opn] Cons.prems by simp
  qed
  then show ?case using Cons by simp
qed simp

subsection \<open>Properties\<close>

text \<open>C34. The registry of hypervisors never holds more than the table of connections allows, whatever
requests were made, whatever restarts happened and whichever tables failed in between: every
registered provider belongs to a connection that is stored and enabled. A connection whose deletion
was answered 204 is gone from the table and from the registry, and no later request or restart
registers it again.\<close>

theorem registry_follows_table:
  assumes "conns w0 = []" "fleet w0 = []" "w = conn_run opn es w0"
  shows "(\<forall>i. registered w i \<longrightarrow> (\<exists>h. row_of w i = Some h \<and> hc_Enabled h))
    \<and> (\<forall>i r es'. Status (fst (DeleteHypervisorConn_handler i w r)) = 204 \<longrightarrow> (\<forall>e \<in> set es'. \<not> makes i e)
         \<longrightarrow> (let w' = conn_run opn es' (snd (DeleteHypervisorConn_handler i w r)) in
              \<not> registered w' i \<and> row_of w' i = None))"
proof -
  have "conns_ok w0" using assms by (simp add: conns_ok_def registered_def)
  then have ok: "conns_ok w" unfolding assms(3) by (rule conns_ok_run)
  have "\<not> registered (conn_run opn es' (snd (DeleteHypervisorConn_handler i w r))) i
      \<and> row_of (conn_run opn es' (snd (DeleteHypervisorConn_handler i w r))) i = None"
    if "Status (fst (DeleteHypervisorConn_handler i w r)) = 204" "\<forall>e \<in> set es'. \<not> makes i e" for i r es'
  proof -
    have "row_of (snd (DeleteHypervisorConn_handler i w r)) i = None" using delete_row [of i w r i] that(1) by simp
    from row_absent_run [OF that(2) this]
    have none: "row_of (conn_run opn es' (snd (DeleteHypervisorConn_handler i w r))) i = None" .
    have "conns_ok (conn_run opn es' (snd (DeleteHypervisorConn_handler i w r)))"
      by (rule conns_ok_run [OF conns_ok_delete [OF ok]])
    then show ?thesis using none by (auto simp: conns_ok_def)
  qed
  then show ?thesis using ok by (simp add: conns_ok_def Let_def)
qed

text \<open>A vSphere endpoint that wants a password, its connection created, the server restarted.\<close>

definition demo_drivers :: "Esxi.sim_backend esxi drivers" where
  "demo_drivers = \<lparr>kvm_live = \<lambda>_ _. Inl ''no libvirt'',
     esxi_live = \<lambda>i ep user pass tls. if pass = ''pw'' then Inr (Esxi.New i 0 Esxi.newSimBackend) else Inl ''login failed'',
     xen_live = \<lambda>_ _ _ _ _. Inl ''no pool'', hyperv_live = \<lambda>_. Inl ''hvconnect: Hyper-V (WMI) requires a Windows UniHV node'',
     live_health = \<lambda>_. Inr (True, [])\<rparr>"

definition demo_hv_input :: hv_input where
  "demo_hv_input = \<lparr>hi_Name = ''vcenter'', hi_Kind = ''vmware'', hi_Endpoint = ''https://vc'', hi_Username = ''admin'',
     hi_Secret = ''pw'', hi_InsecureTLS = False, hi_Enabled = True\<rparr>"

definition demo_seal :: "string \<Rightarrow> string option" where "demo_seal s = Some (''nonce'' @ s)"
definition demo_open :: "string \<Rightarrow> string option" where "demo_open c = Some (drop 5 c)"

definition bare_world :: "Esxi.sim_backend esxi conn_world" where
  "bare_world = \<lparr>store = blank_db, clock = 100, audit = None, fleet = [], pools = [], conns = []\<rparr>"

definition demo_create :: "Esxi.sim_backend esxi conn_event" where
  "demo_create = EHandled (RCreate demo_drivers demo_seal ''c1'' (Inr demo_hv_input)) (rbac_request ''POST'')"

lemma demo_connected:
  "registered (conn_run demo_open [demo_create] bare_world) ''c1''"
  "Status (fst (DeleteHypervisorConn_handler ''c1'' (conn_run demo_open [demo_create] bare_world) (rbac_request ''DELETE''))) = 204"
  by code_simp+

theorem registry_follows_table_witness:
  "registered (conn_run demo_open [demo_create] bare_world) ''c1''
   \<and> \<not> registered (conn_run demo_open [ERestart demo_drivers] (snd (DeleteHypervisorConn_handler ''c1''
        (conn_run demo_open [demo_create] bare_world) (rbac_request ''DELETE'')))) ''c1''"
proof -
  have e: "conns bare_world = []" "fleet bare_world = []" by (simp_all add: bare_world_def)
  have m: "\<forall>e \<in> set [ERestart demo_drivers]. \<not> makes ''c1'' e" by (simp add: makes_def)
  show ?thesis
    using registry_follows_table [OF e refl, of demo_open "[demo_create]"] demo_connected m by (simp only: Let_def) blast
qed

text \<open>C28. A connection that was created survives a restart with its credential: when the stored secret
opens to what was entered, then after any course of other requests, restarts and failures the next
start-up dials the very connection that the request described, the password included, and registers
the provider it gets under the identifier of the connection.\<close>

theorem connection_restored:
  assumes "conns w0 = []" "fleet w0 = []" "w = conn_run opn es0 w0"
    and "CreateHypervisorConn_handler d opn seal i (Inr b) w r = (resp, w1)" "Status resp = 201" "hi_Enabled b"
    and "\<forall>c. seal (hi_Secret b) = Some c \<longrightarrow> c \<noteq> [] \<and> opn c = Some (hi_Secret b)"
    and "\<forall>e \<in> set es. \<not> deletes i e" "w2 = conn_run opn es w1"
    and "''ListHypervisorConns'' \<notin> broken (store w2)" "Build d' (toConn b i) = Inr p" "live_health d' p = Inr st"
  shows "map_of (fleet (conn_step opn (ERestart d') w2)) i = Some p"
proof -
  have "conns_ok w0" using assms by (simp add: conns_ok_def registered_def)
  then have "conns_ok w" unfolding assms(3) by (rule conns_ok_run)
  from conns_ok_create [OF this assms(4)] have ok: "conns_ok w2" unfolding assms(9) by (rule conns_ok_run)
  from assms(4) show ?thesis
  proof (cases rule: create_cases)
    case 1
    then show ?thesis using assms(5) by simp
  next
    case (2 sealed)
    let ?h = "new_conn i b sealed"
    have "setup_row w1 i = Some (setup_of ?h)"
      unfolding 2(3) Let_def using created_row [OF 2(2), of i] assms(6)
      by (simp add: new_conn_def stamped_conn_def setup_of_def)
    from row_kept_run [OF assms(8) this, of opn] obtain h where h: "row_of w2 i = Some h" "setup_of h = setup_of ?h"
      unfolding assms(9) by auto
    note same = setup_eqD [OF h(2), unfolded new_conn_def hv_conn.simps]
    have "opened opn h [] = hi_Secret b"
      using 2(1) assms(7) by (cases "hi_Secret b = []") (simp_all add: opened_def same)
    then have f: "hc_ID h = i" "hc_Enabled h" "dialled opn h [] = toConn b i"
      using assms(6) by (simp_all add: same dialled_def toConn_def)
    let ?hs = "filter hc_Enabled (sort_key hc_Name (conns w2))"
    have "h \<in> set (conns w2)" using find_SomeD [OF h(1) [unfolded row_of_def]] by blast
    then have "h \<in> set ?hs" using f(2) by simp
    moreover have "distinct (map hc_ID ?hs)"
      using ok by (intro distinct_map_filter) (simp add: conns_ok_def distinct_map)
    ultimately show ?thesis
      using load_built [of ?hs h d' opn p st "w2\<lparr>fleet := []\<rparr>"] assms(10-12) f
      by (simp add: LoadHypervisorConnections_def ListHypervisorConns_def query_def)
  qed
qed

theorem connection_restored_witness:
  "map_of (fleet (conn_step demo_open (ERestart demo_drivers)
      (conn_run demo_open [EStore blank_db 500, ERestart demo_drivers] (conn_run demo_open [demo_create] bare_world)))) ''c1''
    = Some (Esxi.New ''c1'' 0 Esxi.newSimBackend)"
proof -
  have e: "conns bare_world = []" "fleet bare_world = []" "bare_world = conn_run demo_open [] bare_world"
    by (simp_all add: bare_world_def)
  let ?out = "CreateHypervisorConn_handler demo_drivers demo_open demo_seal ''c1'' (Inr demo_hv_input) bare_world
     (rbac_request ''POST'')"
  have s: "Status (fst ?out) = 201" by code_simp
  have "hi_Enabled demo_hv_input" by (simp add: demo_hv_input_def)
  moreover have "\<forall>c. demo_seal (hi_Secret demo_hv_input) = Some c \<longrightarrow> c \<noteq> [] \<and> demo_open c = Some (hi_Secret demo_hv_input)"
    by (simp add: demo_seal_def demo_open_def)
  moreover have "\<forall>e \<in> set [EStore blank_db 500, ERestart demo_drivers]. \<not> deletes ''c1'' e" by (simp add: deletes_def)
  moreover have "''ListHypervisorConns'' \<notin> broken (store (conn_run demo_open [EStore blank_db 500, ERestart demo_drivers] (snd ?out)))"
    by code_simp
  moreover have "Build demo_drivers (toConn demo_hv_input ''c1'') = Inr (Esxi.New ''c1'' 0 Esxi.newSimBackend)"
    "live_health demo_drivers (Esxi.New ''c1'' 0 Esxi.newSimBackend) = Inr (True, [])"
    by (simp_all add: Build_def demo_drivers_def toConn_def demo_hv_input_def)
  ultimately have "map_of (fleet (conn_step demo_open (ERestart demo_drivers)
      (conn_run demo_open [EStore blank_db 500, ERestart demo_drivers] (snd ?out)))) ''c1''
    = Some (Esxi.New ''c1'' 0 Esxi.newSimBackend)"
    by (intro connection_restored [OF e surjective_pairing s _ _ _ refl]) simp_all
  then show ?thesis by (simp add: demo_create_def)
qed

end
