(* ===== verification/Guac.thy ===== *)
theory Guac
  imports Json VTypes
begin

text \<open>
  The Guacamole protocol proxy behind the machine console, \<open>server/internal/guac/guac.go\<close>: the wire
  encoding of instructions and the handshake with \<open>guacd\<close>. A connection is the bytes that guacd is
  still going to send, the bytes written so far, and the number of writes; which writes fail is a
  parameter. Deadlines and the relaying of the stream after the handshake are not modelled.
\<close>

subsection \<open>Runes\<close>

text \<open>\<open>utf8.DecodeRune\<close>: the rune at the head of a non-empty byte string and its width; an invalid or
  incomplete encoding is U+FFFD of width 1.\<close>

definition RuneError :: nat where "RuneError = 0xFFFD"

definition cont_byte :: "nat \<Rightarrow> bool" where "cont_byte b \<longleftrightarrow> 0x80 \<le> b \<and> b \<le> 0xBF"

definition second_ok :: "nat \<Rightarrow> nat \<Rightarrow> bool" where
  "second_ok b0 b1 \<longleftrightarrow> cont_byte b1 \<and> (b0 = 0xE0 \<longrightarrow> 0xA0 \<le> b1) \<and> (b0 = 0xED \<longrightarrow> b1 \<le> 0x9F)
     \<and> (b0 = 0xF0 \<longrightarrow> 0x90 \<le> b1) \<and> (b0 = 0xF4 \<longrightarrow> b1 \<le> 0x8F)"

fun decode_bytes :: "nat list \<Rightarrow> nat \<times> nat" where
  "decode_bytes [] = (RuneError, 0)"
| "decode_bytes (b0 # t) =
     (if b0 < 0x80 then (b0, 1)
      else if 0xC2 \<le> b0 \<and> b0 \<le> 0xDF then
        (case t of b1 # _ \<Rightarrow> if cont_byte b1 then ((b0 - 192) * 64 + (b1 - 128), 2) else (RuneError, 1)
         | [] \<Rightarrow> (RuneError, 1))
      else if 0xE0 \<le> b0 \<and> b0 \<le> 0xEF then
        (case t of b1 # b2 # _ \<Rightarrow>
             if second_ok b0 b1 \<and> cont_byte b2
             then (((b0 - 224) * 64 + (b1 - 128)) * 64 + (b2 - 128), 3) else (RuneError, 1)
         | _ \<Rightarrow> (RuneError, 1))
      else if 0xF0 \<le> b0 \<and> b0 \<le> 0xF4 then
        (case t of b1 # b2 # b3 # _ \<Rightarrow>
             if second_ok b0 b1 \<and> cont_byte b2 \<and> cont_byte b3
             then ((((b0 - 240) * 64 + (b1 - 128)) * 64 + (b2 - 128)) * 64 + (b3 - 128), 4) else (RuneError, 1)
         | _ \<Rightarrow> (RuneError, 1))
      else (RuneError, 1))"

definition decode_rune :: "string \<Rightarrow> nat \<times> nat" where
  "decode_rune s = decode_bytes (map of_char (take 4 s))"

lemma decode_bytes_width: "bs \<noteq> [] \<Longrightarrow> 1 \<le> snd (decode_bytes bs)"
  by (cases bs) (auto split: list.splits)

lemma decode_rune_width: "s \<noteq> [] \<Longrightarrow> 1 \<le> snd (decode_rune s)"
  unfolding decode_rune_def by (rule decode_bytes_width) simp

definition valid_rune :: "nat \<Rightarrow> bool" where
  "valid_rune n \<longleftrightarrow> n < 0xD800 \<or> (0xE000 \<le> n \<and> n \<le> 0x10FFFF)"

lemma div_64_split: "(n :: nat) div 4096 * 64 + n div 64 mod 64 = n div 64"
proof -
  have "n div 4096 = n div 64 div 64" by (simp add: div_mult2_eq [symmetric])
  then show ?thesis by (simp only: div_mult_mod_eq)
qed

lemma div_4096_split: "(n :: nat) div 262144 * 64 + n div 4096 mod 64 = n div 4096"
proof -
  have "n div 262144 = n div 4096 div 64" by (simp add: div_mult2_eq [symmetric])
  then show ?thesis by (simp only: div_mult_mod_eq)
qed

lemma mod64: "(128 :: nat) + n mod 64 \<le> 191"
  using mod_less_divisor [of 64 n] by linarith

lemma decode_encoded:
  assumes "\<forall>b \<in> set bs. b < 256" "length bs \<le> 4"
  shows "decode_rune (map char_of bs @ s) = decode_bytes (bs @ map of_char (take (4 - length bs) s))"
proof -
  have "map of_char (map char_of bs :: string) = bs" using assms(1) by (simp add: map_idI)
  then show ?thesis using assms(2) by (simp add: decode_rune_def)
qed

lemma decode_utf8:
  assumes "valid_rune n"
  shows "decode_rune (utf8 n @ s) = (n, length (utf8 n))"
proof -
  consider "n < 128" | "128 \<le> n" "n < 2048" | "2048 \<le> n" "n < 65536" | "65536 \<le> n" by linarith
  then show ?thesis
  proof cases
    case 1
    then show ?thesis by (simp add: decode_encoded [of "[n]", simplified] utf8_def)
  next
    case 2
    let ?a = "n div 64" and ?c = "n mod 64"
    have d: "2 \<le> ?a" "?a \<le> 31" using 2 by linarith+
    have u: "utf8 n = map char_of [192 + ?a, 128 + ?c]" using 2 by (simp add: utf8_def)
    have "?a * 64 + ?c = n" by (rule div_mult_mod_eq)
    moreover have "cont_byte (128 + ?c)" using mod64 [of n] by (simp add: cont_byte_def)
    ultimately show ?thesis using d mod64 [of n]
      unfolding u by (subst decode_encoded) simp_all
  next
    case 3
    let ?a = "n div 4096" and ?b = "n div 64 mod 64" and ?c = "n mod 64"
    have d: "?a \<le> 15" using 3 by linarith
    have u: "utf8 n = map char_of [224 + ?a, 128 + ?b, 128 + ?c]" using 3 by (simp add: utf8_def)
    have n: "(?a * 64 + ?b) * 64 + ?c = n" unfolding div_64_split by (rule div_mult_mod_eq)
    have "?a = 0 \<Longrightarrow> 32 \<le> ?b" using 3 div_64_split [of n] by linarith
    moreover have "?a = 13 \<Longrightarrow> ?b \<le> 31" using assms 3 div_64_split [of n] unfolding valid_rune_def by linarith
    ultimately have "second_ok (224 + ?a) (128 + ?b)"
      using d mod64 [of "n div 64"] by (simp add: second_ok_def cont_byte_def)
    moreover have "cont_byte (128 + ?c)" using mod64 [of n] by (simp add: cont_byte_def)
    ultimately show ?thesis using d n mod64 [of n] mod64 [of "n div 64"]
      unfolding u by (subst decode_encoded) simp_all
  next
    case 4
    let ?a = "n div 262144" and ?b = "n div 4096 mod 64" and ?c = "n div 64 mod 64" and ?d = "n mod 64"
    have m: "n \<le> 0x10FFFF" using assms 4 unfolding valid_rune_def by linarith
    have d: "?a \<le> 4" using m by linarith
    have u: "utf8 n = map char_of [240 + ?a, 128 + ?b, 128 + ?c, 128 + ?d]" using 4 by (simp add: utf8_def)
    have n: "((?a * 64 + ?b) * 64 + ?c) * 64 + ?d = n"
      unfolding div_4096_split div_64_split by (rule div_mult_mod_eq)
    have "?a = 0 \<Longrightarrow> 16 \<le> ?b" using 4 div_4096_split [of n] by linarith
    moreover have "?a = 4 \<Longrightarrow> ?b \<le> 15" using m div_4096_split [of n] by linarith
    ultimately have "second_ok (240 + ?a) (128 + ?b)"
      using d mod64 [of "n div 4096"] by (simp add: second_ok_def cont_byte_def)
    moreover have "cont_byte (128 + ?c)" "cont_byte (128 + ?d)"
      using mod64 [of n] mod64 [of "n div 64"] by (simp_all add: cont_byte_def)
    ultimately show ?thesis using d n mod64 [of n] mod64 [of "n div 64"] mod64 [of "n div 4096"]
      unfolding u by (subst decode_encoded) simp_all
  qed
qed

subsection \<open>Wire encoding\<close>

text \<open>\<open>[]rune(v)\<close>.\<close>

function runes :: "string \<Rightarrow> nat list" where
  "runes [] = []"
| "runes (c # cs) = fst (decode_rune (c # cs)) # runes (drop (snd (decode_rune (c # cs))) (c # cs))"
  by pat_completeness auto
termination
  by (relation "measure length")
    (use decode_rune_width in \<open>simp_all add: Suc_le_eq\<close>)

declare runes.simps(2) [simp del]

definition writeElem :: "string \<Rightarrow> string" where
  "writeElem v = itoa (int (length (runes v))) @ [CHR ''.''] @ v"

definition encode_instr :: "string \<Rightarrow> string list \<Rightarrow> string" where
  "encode_instr op rest = writeElem op @ concat (map (\<lambda>e. CHR '','' # writeElem e) rest) @ [CHR '';'']"

datatype guac_error =
    Guac_EOF
  | Bad_Length string
  | Bad_Separator char
  | Unexpected string string
  | Reading string guac_error
  | Write_Failed
  | Dial_Failed string

text \<open>\<open>readUntil\<close>: \<open>ReadString\<close> without the delimiter; at the end of the stream it has read everything.\<close>

definition readUntil :: "char \<Rightarrow> string \<Rightarrow> (guac_error + string) \<times> string" where
  "readUntil d s =
     (case dropWhile (\<lambda>c. c \<noteq> d) s of
        [] \<Rightarrow> (Inl Guac_EOF, [])
      | _ # r \<Rightarrow> (Inr (takeWhile (\<lambda>c. c \<noteq> d) s), r))"

text \<open>The loop over \<open>ReadRune\<close> and \<open>WriteRune\<close>; a count that is not positive reads nothing.\<close>

primrec read_n :: "nat \<Rightarrow> string \<Rightarrow> (guac_error + string) \<times> string" where
  "read_n 0 s = (Inr [], s)"
| "read_n (Suc n) s =
     (if s = [] then (Inl Guac_EOF, [])
      else (case decode_rune s of (r, k) \<Rightarrow>
        (case read_n n (drop k s) of
           (Inl e, rest) \<Rightarrow> (Inl e, rest)
         | (Inr v, rest) \<Rightarrow> (Inr (utf8 r @ v), rest))))"

definition readRunes :: "int \<Rightarrow> string \<Rightarrow> (guac_error + string) \<times> string" where
  "readRunes n s = read_n (nat n) s"

lemma readUntil_length: "readUntil d s = (Inr v, r) \<Longrightarrow> length r < length s"
proof -
  assume "readUntil d s = (Inr v, r)"
  then obtain c where "dropWhile (\<lambda>c. c \<noteq> d) s = c # r" by (auto simp: readUntil_def split: list.splits)
  then have "length (c # r) \<le> length s" by (metis length_dropWhile_le)
  then show ?thesis by simp
qed

lemma read_n_length: "read_n n s = (res, r) \<Longrightarrow> length r \<le> length s"
proof (induction n arbitrary: s res r)
  case (Suc n)
  show ?case
  proof (cases "s = []")
    case False
    obtain k x where d: "decode_rune s = (x, k)" by fastforce
    obtain res2 r2 where rd: "read_n n (drop k s) = (res2, r2)" by fastforce
    then have "length r2 \<le> length (drop k s)" by (rule Suc.IH)
    moreover have "r = r2" using Suc.prems False d rd by (auto split: sum.splits)
    ultimately show ?thesis by simp
  qed (use Suc.prems in simp)
qed simp

text \<open>\<open>readInstr\<close>: the elements of one instruction.\<close>

function read_elems :: "string \<Rightarrow> string list \<Rightarrow> (guac_error + string list) \<times> string" where
  "read_elems s acc =
     (case readUntil (CHR ''.'') s of
        (Inl e, r) \<Rightarrow> (Inl e, r)
      | (Inr digits, r) \<Rightarrow>
        (case atoi (trim_space digits) of
           None \<Rightarrow> (Inl (Bad_Length digits), r)
         | Some n \<Rightarrow>
           (case readRunes n r of
              (Inl e, r2) \<Rightarrow> (Inl e, r2)
            | (Inr v, []) \<Rightarrow> (Inl Guac_EOF, [])
            | (Inr v, sep # r3) \<Rightarrow>
              if sep = CHR '';'' then (Inr (acc @ [v]), r3)
              else if sep \<noteq> CHR '','' then (Inl (Bad_Separator sep), r3)
              else read_elems r3 (acc @ [v]))))"
  by pat_completeness auto
termination
  by (relation "measure (length \<circ> fst)")
    (auto simp: readRunes_def dest!: readUntil_length [OF sym] read_n_length [OF sym])

declare read_elems.simps [simp del]

definition readInstr :: "string \<Rightarrow> (guac_error + string list) \<times> string" where
  "readInstr s = read_elems s []"

subsection \<open>The handshake\<close>

record params =
  gp_Protocol :: string
  gp_Hostname :: string
  gp_Port :: int
  gp_Password :: string
  gp_Username :: string
  gp_Width :: int
  gp_Height :: int
  gp_DPI :: int
  gp_Extra :: "string \<rightharpoonup> string"

record conn =
  cn_in :: string
  cn_out :: string
  cn_writes :: nat

text \<open>\<open>Params.value\<close>; the cases that only apply to RDP fall through to the extra parameters.\<close>

definition param_value :: "params \<Rightarrow> string \<Rightarrow> string" where
  "param_value p arg =
     (if arg = ''hostname'' then gp_Hostname p
      else if arg = ''port'' then itoa (gp_Port p)
      else if arg = ''password'' then gp_Password p
      else if arg = ''username'' then gp_Username p
      else if arg = ''width'' then itoa (gp_Width p)
      else if arg = ''height'' then itoa (gp_Height p)
      else if arg = ''dpi'' then itoa (gp_DPI p)
      else if (arg = ''ignore-cert'' \<or> arg = ''disable-auth'') \<and> gp_Protocol p = ''rdp'' then ''true''
      else if arg = ''security'' \<and> gp_Protocol p = ''rdp'' then ''any''
      else if arg = ''resize-method'' then ''display-update''
      else (case gp_Extra p arg of None \<Rightarrow> [] | Some v \<Rightarrow> v))"

definition connect_value :: "params \<Rightarrow> string \<Rightarrow> string" where
  "connect_value p el = (if has_prefix el ''VERSION_'' then el else param_value p el)"

text \<open>The steps of the handshake: \<open>okw n\<close> says whether the \<open>n\<close>-th write of the connection succeeds.
  A step that fails ends it.\<close>

type_synonym step = "conn \<Rightarrow> guac_error option \<times> conn"

definition send :: "(nat \<Rightarrow> bool) \<Rightarrow> string \<Rightarrow> string list \<Rightarrow> step \<Rightarrow> step" where
  "send okw op rest k c =
     (if okw (cn_writes c)
      then k (c\<lparr>cn_out := cn_out c @ encode_instr op rest, cn_writes := Suc (cn_writes c)\<rparr>)
      else (Some Write_Failed, c))"

definition receive :: "string \<Rightarrow> (string list \<Rightarrow> step) \<Rightarrow> step" where
  "receive want k c =
     (case readInstr (cn_in c) of
        (Inl e, r) \<Rightarrow> (Some (Reading want e), c\<lparr>cn_in := r\<rparr>)
      | (Inr es, r) \<Rightarrow>
        if hd es \<noteq> want then (Some (Unexpected want (hd es)), c\<lparr>cn_in := r\<rparr>)
        else k (tl es) (c\<lparr>cn_in := r\<rparr>))"

definition handshake :: "(nat \<Rightarrow> bool) \<Rightarrow> params \<Rightarrow> step" where
  "handshake okw p =
     send okw ''select'' [gp_Protocol p] (receive ''args'' (\<lambda>args.
     send okw ''size'' [itoa (gp_Width p), itoa (gp_Height p), itoa (gp_DPI p)] (
     send okw ''audio'' [] (send okw ''video'' [] (send okw ''image'' [] (
     send okw ''connect'' (map (connect_value p) args) (receive ''ready'' (\<lambda>_ c. (None, c)))))))))"

text \<open>\<open>Dial\<close>: \<open>dial\<close> is the TCP connection; the socket is closed when the handshake fails.\<close>

definition sized :: "params \<Rightarrow> params" where
  "sized p = p\<lparr>gp_Width := (if gp_Width p = 0 then 1024 else gp_Width p),
     gp_Height := (if gp_Height p = 0 then 768 else gp_Height p),
     gp_DPI := (if gp_DPI p = 0 then 96 else gp_DPI p)\<rparr>"

definition Dial :: "(string \<Rightarrow> string option) \<Rightarrow> (nat \<Rightarrow> bool) \<Rightarrow> string \<Rightarrow> params \<Rightarrow> guac_error + conn" where
  "Dial dial okw addr p =
     (case dial addr of None \<Rightarrow> Inl (Dial_Failed addr)
      | Some bytes \<Rightarrow>
        (case handshake okw (sized p) \<lparr>cn_in = bytes, cn_out = [], cn_writes = 0\<rparr> of
           (Some e, _) \<Rightarrow> Inl e
         | (None, c) \<Rightarrow> Inr c))"

text \<open>\<open>guacParamsFor\<close> of \<open>api/console.go\<close>.\<close>

definition guacParamsFor :: "console_endpoint \<Rightarrow> string + params" where
  "guacParamsFor ep =
     (let host = (if con_Host ep = [] \<or> con_Host ep = ''0.0.0.0'' \<or> con_Host ep = ''::'' then ''127.0.0.1''
                  else con_Host ep);
          base = \<lparr>gp_Protocol = ''vnc'', gp_Hostname = host, gp_Port = con_Port ep, gp_Password = con_Password ep,
            gp_Username = [], gp_Width = 0, gp_Height = 0, gp_DPI = 0, gp_Extra = Map.empty\<rparr>
      in if con_Kind ep = ''vnc'' \<or> con_Kind ep = ''spice'' then Inr base
         else if con_Kind ep = ''rdp'' then
           Inr (base\<lparr>gp_Protocol := ''rdp'', gp_Port := (if con_Port ep = 0 then 3389 else con_Port ep),
             gp_Extra := [''ignore-cert'' \<mapsto> ''true'', ''security'' \<mapsto> ''any'', ''resize-method'' \<mapsto> ''display-update'']\<rparr>)
         else Inl (''unsupported console kind: '' @ trim_space (con_Kind ep)))"

text \<open>The initial size that the browser may ask for.\<close>

definition size_param :: "string \<Rightarrow> int \<Rightarrow> int" where
  "size_param v d = (case atoi v of None \<Rightarrow> d | Some n \<Rightarrow> if n > 0 then n else d)"

definition console_params :: "console_endpoint \<Rightarrow> (string \<Rightarrow> string) \<Rightarrow> string + params" where
  "console_params ep q = map_sum id (\<lambda>p. p\<lparr>gp_Width := size_param (q ''w'') (gp_Width p),
     gp_Height := size_param (q ''h'') (gp_Height p), gp_DPI := size_param (q ''dpi'') (gp_DPI p)\<rparr>) (guacParamsFor ep)"

subsection \<open>Round trip\<close>

definition valid_utf8 :: "string \<Rightarrow> bool" where
  "valid_utf8 v \<longleftrightarrow> concat (map utf8 (runes v)) = v \<and> list_all valid_rune (runes v)"

text \<open>Values that the wire encoding carries: UTF-8, and of a length that fits an \<open>int\<close>.\<close>

definition wire_ok :: "string \<Rightarrow> bool" where
  "wire_ok v \<longleftrightarrow> valid_utf8 v \<and> length (runes v) < 2 ^ 63"

lemma utf8_nonempty [simp]: "utf8 n \<noteq> []"
  by (simp add: utf8_def)

lemma read_n_runes:
  "list_all valid_rune rs \<Longrightarrow> read_n (length rs) (concat (map utf8 rs) @ t) = (Inr (concat (map utf8 rs)), t)"
  by (induction rs) (simp_all add: decode_utf8)

lemma itoa_nat: "itoa (int n) = nat_digits n"
  by (simp add: itoa_def)

lemma digits_plain: "c \<in> set (nat_digits n) \<Longrightarrow> c \<noteq> CHR ''.'' \<and> \<not> is_space c"
  using nat_digits_digits [of c n] by (auto simp: is_digit_def is_space_def less_eq_char_def)

lemma trim_space_plain: "(\<And>c. c \<in> set s \<Longrightarrow> \<not> is_space c) \<Longrightarrow> trim_space s = s"
proof -
  have d: "dropWhile is_space u = u" if "\<And>c. c \<in> set u \<Longrightarrow> \<not> is_space c" for u
    using that by (cases u) simp_all
  assume plain: "\<And>c. c \<in> set s \<Longrightarrow> \<not> is_space c"
  then have "dropWhile is_space (rev s) = rev s" by (intro d) simp
  then show ?thesis using d [OF plain] by (simp add: trim_space_def trim_left_def trim_right_def)
qed

lemma readUntil_prefix: "CHR ''.'' \<notin> set u \<Longrightarrow> readUntil (CHR ''.'') (u @ CHR ''.'' # t) = (Inr u, t)"
proof -
  assume a: "CHR ''.'' \<notin> set u"
  have "takeWhile (\<lambda>c. c \<noteq> CHR ''.'') (u @ CHR ''.'' # t) = u" using a by (subst takeWhile_append2) auto
  moreover have "dropWhile (\<lambda>c. c \<noteq> CHR ''.'') (u @ CHR ''.'' # t) = CHR ''.'' # t"
    using a by (subst dropWhile_append2) auto
  ultimately show ?thesis by (simp add: readUntil_def)
qed

lemma read_element:
  assumes "wire_ok v"
  shows "read_elems (writeElem v @ sep # t) acc =
    (if sep = CHR '';'' then (Inr (acc @ [v]), t)
     else if sep \<noteq> CHR '','' then (Inl (Bad_Separator sep), t)
     else read_elems t (acc @ [v]))"
proof -
  let ?n = "length (runes v)"
  have v: "concat (map utf8 (runes v)) = v" "list_all valid_rune (runes v)" "?n < 2 ^ 63"
    using assms by (simp_all add: wire_ok_def valid_utf8_def)
  have "readUntil (CHR ''.'') (writeElem v @ sep # t) = (Inr (nat_digits ?n), v @ sep # t)"
    unfolding writeElem_def itoa_nat append_assoc append_Cons append_Nil
    by (rule readUntil_prefix) (metis digits_plain)
  moreover have "trim_space (nat_digits ?n) = nat_digits ?n" by (rule trim_space_plain) (metis digits_plain)
  moreover have "atoi (nat_digits ?n) = Some (int ?n)"
    using atoi_itoa [of "int ?n"] v(3) by (simp add: itoa_nat)
  moreover have "readRunes (int ?n) (v @ sep # t) = (Inr v, sep # t)"
    using read_n_runes [OF v(2), of "sep # t"] v(1) by (simp add: readRunes_def)
  ultimately show ?thesis by (subst read_elems.simps) simp
qed

lemma read_encoded:
  assumes "wire_ok op" "\<forall>e \<in> set rest. wire_ok e"
  shows "read_elems (encode_instr op rest @ t) acc = (Inr (acc @ op # rest), t)"
  using assms
proof (induction rest arbitrary: op acc)
  case Nil
  then show ?case using read_element [of op "CHR '';''" t] by (simp add: encode_instr_def)
next
  case (Cons e rest)
  have "encode_instr op (e # rest) @ t = writeElem op @ CHR '','' # (encode_instr e rest @ t)"
    by (simp add: encode_instr_def)
  then show ?case using read_element [of op "CHR '',''"] Cons.IH [of e "acc @ [op]"] Cons.prems by simp
qed

lemma readInstr_encode:
  "wire_ok op \<Longrightarrow> \<forall>e \<in> set rest. wire_ok e \<Longrightarrow> readInstr (encode_instr op rest @ t) = (Inr (op # rest), t)"
  unfolding readInstr_def using read_encoded [of op rest t "[]"] by simp

lemma wire_ok_ascii:
  assumes "\<forall>c \<in> set v. of_char c < (128 :: nat)" "length v < 2 ^ 63"
  shows "wire_ok v"
proof -
  have d: "decode_rune (c # cs) = (of_char c, 1)" if "of_char c < (128 :: nat)" for c cs
    using that by (simp add: decode_rune_def)
  have "runes v = map of_char v" using assms(1)
    by (induction v) (simp_all add: runes.simps(2) d)
  moreover have "concat (map (utf8 \<circ> of_char) v) = v" using assms(1)
    by (induction v) (simp_all add: utf8_def)
  moreover have "list_all valid_rune (map of_char v)" using assms(1)
    by (induction v) (simp_all add: valid_rune_def)
  ultimately show ?thesis using assms(2) by (simp add: wire_ok_def valid_utf8_def)
qed

lemma ascii_wire [simp]:
  "wire_ok ''select''" "wire_ok ''args''" "wire_ok ''size''" "wire_ok ''audio''" "wire_ok ''video''" "wire_ok ''image''"
  "wire_ok ''connect''" "wire_ok ''ready''"
  by (rule wire_ok_ascii; simp)+

text \<open>The instructions that a text consists of.\<close>

primrec read_all :: "nat \<Rightarrow> string \<Rightarrow> string list list option" where
  "read_all 0 s = (if s = [] then Some [] else None)"
| "read_all (Suc n) s =
     (case readInstr s of (Inl e, r) \<Rightarrow> None | (Inr es, r) \<Rightarrow> map_option (Cons es) (read_all n r))"

text \<open>C26. When the writes succeed and \<open>guacd\<close> announces its parameters and then answers ready, the
  handshake succeeds and leaves exactly the bytes after the answer for the tunnel. What was sent reads
  back as the six instructions of the protocol, the last with one value for each announced parameter in
  its order: no value, whatever separators and digits it contains, can end an instruction, change the
  number of values or start an instruction of its own.\<close>

theorem console_handshake:
  assumes "\<forall>n. okw n"
    and "\<forall>e \<in> set ([gp_Protocol p, itoa (gp_Width p), itoa (gp_Height p), itoa (gp_DPI p), i] @ as
                    @ map (connect_value p) as). wire_ok e"
  shows "\<exists>sent. handshake okw p \<lparr>cn_in = encode_instr ''args'' as @ encode_instr ''ready'' [i] @ rest,
         cn_out = out, cn_writes = k\<rparr>
      = (None, \<lparr>cn_in = rest, cn_out = out @ sent, cn_writes = k + 6\<rparr>)
    \<and> read_all 6 sent = Some [[''select'', gp_Protocol p],
         [''size'', itoa (gp_Width p), itoa (gp_Height p), itoa (gp_DPI p)], [''audio''], [''video''], [''image''],
         ''connect'' # map (connect_value p) as]"
proof -
  let ?sent = "encode_instr ''select'' [gp_Protocol p]
    @ encode_instr ''size'' [itoa (gp_Width p), itoa (gp_Height p), itoa (gp_DPI p)]
    @ encode_instr ''audio'' [] @ encode_instr ''video'' [] @ encode_instr ''image'' []
    @ encode_instr ''connect'' (map (connect_value p) as)"
  have ok: "wire_ok (gp_Protocol p)" "wire_ok (itoa (gp_Width p))" "wire_ok (itoa (gp_Height p))"
    "wire_ok (itoa (gp_DPI p))" "wire_ok i" "\<forall>e \<in> set as. wire_ok e" "\<forall>e \<in> set (map (connect_value p) as). wire_ok e"
    using assms(2) by simp_all
  have last: "readInstr (encode_instr ''connect'' (map (connect_value p) as)) = (Inr (''connect'' # map (connect_value p) as), [])"
    using readInstr_encode [of "''connect''" "map (connect_value p) as" "[]"] ok(7) by simp
  have six: "(6 :: nat) = Suc (Suc (Suc (Suc (Suc (Suc 0)))))" by simp
  have "read_all 6 ?sent = Some [[''select'', gp_Protocol p],
         [''size'', itoa (gp_Width p), itoa (gp_Height p), itoa (gp_DPI p)], [''audio''], [''video''], [''image''],
         ''connect'' # map (connect_value p) as]"
    unfolding six by (simp add: readInstr_encode ok last del: map_map)
  moreover have "handshake okw p \<lparr>cn_in = encode_instr ''args'' as @ encode_instr ''ready'' [i] @ rest,
         cn_out = out, cn_writes = k\<rparr> = (None, \<lparr>cn_in = rest, cn_out = out @ ?sent, cn_writes = k + 6\<rparr>)"
    using assms(1) by (simp add: handshake_def send_def receive_def readInstr_encode ok)
  ultimately show ?thesis by blast
qed

text \<open>A password with the separators of the protocol.\<close>

definition demo_params :: params where
  "demo_params = \<lparr>gp_Protocol = ''vnc'', gp_Hostname = ''10.0.0.5'', gp_Port = 5900, gp_Password = ''a;4.quit;'',
     gp_Username = [], gp_Width = 1280, gp_Height = 800, gp_DPI = 96, gp_Extra = Map.empty\<rparr>"

theorem console_handshake_witness:
  "\<exists>sent. handshake (\<lambda>_. True) demo_params \<lparr>cn_in = encode_instr ''args'' [''VERSION_1_5_0'', ''password'']
         @ encode_instr ''ready'' [''id''] @ ''rest'', cn_out = [], cn_writes = 0\<rparr>
      = (None, \<lparr>cn_in = ''rest'', cn_out = sent, cn_writes = 6\<rparr>)
    \<and> read_all 6 sent = Some [[''select'', ''vnc''], [''size'', ''1280'', ''800'', ''96''], [''audio''], [''video''], [''image''],
         [''connect'', ''VERSION_1_5_0'', ''a;4.quit;'']]"
proof -
  have v: "map (connect_value demo_params) [''VERSION_1_5_0'', ''password''] = [''VERSION_1_5_0'', ''a;4.quit;'']"
    "gp_Protocol demo_params = ''vnc''" "itoa (gp_Width demo_params) = ''1280''" "itoa (gp_Height demo_params) = ''800''"
    "itoa (gp_DPI demo_params) = ''96''" by code_simp+
  have w: "\<forall>e \<in> set ([''vnc'', ''1280'', ''800'', ''96'', ''id''] @ [''VERSION_1_5_0'', ''password'']
      @ [''VERSION_1_5_0'', ''a;4.quit;'']). wire_ok e"
    by (intro ballI wire_ok_ascii) auto
  show ?thesis
    using console_handshake [of "\<lambda>_. True" demo_params "''id''" "[''VERSION_1_5_0'', ''password'']" "''rest''" "[]" 0]
      w unfolding v by simp
qed

end
