(* ===== verification/Storage_Api.thy ===== *)
theory Storage_Api
  imports Storage Hv_Conn
begin

text \<open>
  Registered storage backends: the table (\<open>store/storage_backends.go\<close>), the handlers of
  \<open>api/storage_backends.go\<close> and the resolver through which the backup engine opens a backend
  (\<open>api/backups_vm.go\<close>). Building and testing a backend are parameters (\<open>storage_drivers\<close>), as are
  sealing and opening of secrets; what a test does to the storage behind it is not modelled.
\<close>

subsection \<open>The table\<close>

record storage_row =
  sb_ID :: string
  sb_Name :: string
  sb_Type :: string
  sb_Endpoint :: string
  sb_Target :: string
  sb_Username :: string
  sb_SecretEnc :: string
  sb_Region :: string
  sb_ProviderID :: string
  sb_Options :: string
  sb_Enabled :: bool
  sb_Status :: string
  sb_LastError :: string
  sb_LastSeenAt :: int
  sb_CreatedAt :: int
  sb_UpdatedAt :: int

record 'p storage_world = "'p vm_world" +
  backends :: "storage_row list"

type_synonym 'p storage_handler = "'p storage_world \<Rightarrow> Authz_Audit.request \<Rightarrow> response \<times> 'p storage_world"

definition ListStorageBackends :: "'p storage_world \<Rightarrow> store_error + storage_row list" where
  "ListStorageBackends w = query ''ListStorageBackends'' (store w) (Inr (sort_key sb_Name (backends w)))"

definition GetStorageBackend :: "'p storage_world \<Rightarrow> string \<Rightarrow> store_error + storage_row" where
  "GetStorageBackend w i = query ''GetStorageBackend'' (store w) (select_one (\<lambda>b. sb_ID b = i) (backends w))"

definition stamped_backend :: "'p storage_world \<Rightarrow> storage_row \<Rightarrow> storage_row" where
  "stamped_backend w b = b\<lparr>sb_CreatedAt := clock w, sb_UpdatedAt := clock w,
     sb_Status := (if sb_Status b = [] then ''pending'' else sb_Status b)\<rparr>"

text \<open>The primary key and \<open>UNIQUE(type, endpoint, target)\<close> of migration 0005; an empty text is stored as
  NULL, which is different from every other NULL.\<close>

definition backend_conflict :: "storage_row list \<Rightarrow> storage_row \<Rightarrow> bool" where
  "backend_conflict bs b \<longleftrightarrow> (\<exists>x \<in> set bs. sb_ID x = sb_ID b
     \<or> (sb_Type x = sb_Type b \<and> sb_Endpoint b \<noteq> [] \<and> sb_Endpoint x = sb_Endpoint b
         \<and> sb_Target b \<noteq> [] \<and> sb_Target x = sb_Target b))"

definition CreateStorageBackend :: "'p storage_world \<Rightarrow> storage_row \<Rightarrow> store_error + 'p storage_world" where
  "CreateStorageBackend w b = query ''CreateStorageBackend'' (store w)
     (if backend_conflict (backends w) b then Inl SQLError
      else Inr (w\<lparr>backends := backends w @ [(stamped_backend w b)\<lparr>sb_LastError := [], sb_LastSeenAt := 0\<rparr>]\<rparr>))"

definition backend_status :: "int \<Rightarrow> string \<Rightarrow> string \<Rightarrow> storage_row \<Rightarrow> storage_row" where
  "backend_status now status err b = b\<lparr>sb_Status := status, sb_LastError := err,
     sb_LastSeenAt := (if status = ''connected'' then now else sb_LastSeenAt b), sb_UpdatedAt := now\<rparr>"

interpretation backend_row: keyed_update sb_ID "backend_status now status err" for now status err
  by unfold_locales (simp add: backend_status_def)

definition UpdateStorageBackendStatus :: "'p storage_world \<Rightarrow> string \<Rightarrow> string \<Rightarrow> string \<Rightarrow> 'p storage_world" where
  "UpdateStorageBackendStatus w i status err =
     (case query ''UpdateStorageBackendStatus'' (store w)
        (Inr (update_where (\<lambda>b. sb_ID b = i) (backend_status (clock w) status err) (backends w))) of
        Inl _ \<Rightarrow> w | Inr bs \<Rightarrow> w\<lparr>backends := bs\<rparr>)"

definition DeleteStorageBackend :: "'p storage_world \<Rightarrow> string \<Rightarrow> store_error + 'p storage_world" where
  "DeleteStorageBackend w i = query ''DeleteStorageBackend'' (store w)
     (if find (\<lambda>b. sb_ID b = i) (backends w) = None then Inl store_error.ErrNotFound
      else Inr (w\<lparr>backends := delete_where (\<lambda>b. sb_ID b = i) (backends w)\<rparr>))"

subsection \<open>Requests and answers\<close>

record storage_input =
  si_Name :: string
  si_Type :: string
  si_Endpoint :: string
  si_Target :: string
  si_Username :: string
  si_Secret :: string
  si_Region :: string
  si_ProviderID :: string
  si_Options :: string
  si_Enabled :: bool

definition toStorageBackendView :: "storage_row \<Rightarrow> jval" where
  "toStorageBackendView b = JObj ([(''id'', JStr (sb_ID b)), (''name'', JStr (sb_Name b)), (''type'', JStr (sb_Type b)),
     (''endpoint'', JStr (sb_Endpoint b)), (''target'', JStr (sb_Target b)), (''username'', JStr (sb_Username b)),
     (''hasSecret'', JBool (sb_SecretEnc b \<noteq> []))] @ unless_empty ''region'' (sb_Region b)
     @ unless_empty ''providerId'' (sb_ProviderID b) @ unless_empty ''options'' (sb_Options b)
     @ [(''enabled'', JBool (sb_Enabled b)), (''status'', JStr (sb_Status b))]
     @ unless_empty ''lastError'' (sb_LastError b) @ unless_zero ''lastSeenAt'' (sb_LastSeenAt b)
     @ [(''createdAt'', JNum (sb_CreatedAt b))])"

definition config_of :: "string \<Rightarrow> string \<Rightarrow> string \<Rightarrow> string \<Rightarrow> string \<Rightarrow> string \<Rightarrow> string \<Rightarrow> string \<Rightarrow> storage_config" where
  "config_of ty nm ep tg us sec rg pid = \<lparr>sc_Type = ty, sc_Name = nm, Endpoint = ep, Target = tg, sc_Username = us,
     Secret = sec, sc_ProviderID = pid, PoolName = [], LibvirtEndpoint = [], Account = [], Container = [],
     Region = rg, ServiceURL = []\<rparr>"

definition storage_validate :: "storage_input \<Rightarrow> api_error option" where
  "storage_validate x =
     (if trim_space (si_Name x) = [] then Some (Errorf ErrValidation ''name is required'')
      else if \<not> ValidType (si_Type x)
        then Some (Errorf ErrValidation ''type must be one of nfs|iscsi|smb|azureblob|s3'')
      else (case Storage_Validate (config_of (si_Type x) [] (si_Endpoint x) (si_Target x) (si_Username x)
               (si_Secret x) (si_Region x) []) of
            None \<Rightarrow> None | Some e \<Rightarrow> Some (Errorf ErrValidation e)))"

text \<open>\<open>libvirt_at\<close> is \<open>LibvirtEndpoint\<close> of the providers that have one.\<close>

record ('p, 'b) storage_drivers =
  libvirt_at :: "'p \<Rightarrow> string option"
  new_backend :: "storage_config \<Rightarrow> string + 'b"
  test_backend :: "'b \<Rightarrow> string option"
  is_object_store :: "'b \<Rightarrow> bool"

definition libvirtEndpointForProvider ::
  "('p, 'b) storage_drivers \<Rightarrow> (string \<times> 'p) list \<Rightarrow> string \<Rightarrow> string" where
  "libvirtEndpointForProvider d ps i =
     (if i = [] then []
      else (case map_of ps i of None \<Rightarrow> [] | Some p \<Rightarrow> (case libvirt_at d p of None \<Rightarrow> [] | Some e \<Rightarrow> e)))"

definition with_libvirt ::
  "('p, 'b) storage_drivers \<Rightarrow> (string \<times> 'p) list \<Rightarrow> storage_config \<Rightarrow> storage_config" where
  "with_libvirt d ps c =
     (if IsSAN (sc_Type c) then c\<lparr>LibvirtEndpoint := libvirtEndpointForProvider d ps (sc_ProviderID c)\<rparr> else c)"

definition toConfig :: "('p, 'b) storage_drivers \<Rightarrow> (string \<times> 'p) list \<Rightarrow> storage_input \<Rightarrow> storage_config" where
  "toConfig d ps x = with_libvirt d ps (config_of (si_Type x) (si_Name x) (si_Endpoint x) (si_Target x)
     (si_Username x) (si_Secret x) (si_Region x) (si_ProviderID x))"

definition row_config ::
  "('p, 'b) storage_drivers \<Rightarrow> (string \<times> 'p) list \<Rightarrow> storage_row \<Rightarrow> string \<Rightarrow> storage_config" where
  "row_config d ps b secret = with_libvirt d ps (config_of (sb_Type b) (sb_Name b) (sb_Endpoint b) (sb_Target b)
     (sb_Username b) secret (sb_Region b) (sb_ProviderID b))"

definition stored_secret :: "(string \<Rightarrow> string option) \<Rightarrow> storage_row \<Rightarrow> string" where
  "stored_secret opn b =
     (if sb_SecretEnc b \<noteq> [] then (case opn (sb_SecretEnc b) of None \<Rightarrow> [] | Some s \<Rightarrow> s) else [])"

subsection \<open>Handlers\<close>

definition ListStorageBackends_handler :: "'p storage_handler" where
  "ListStorageBackends_handler w r =
     (case ListStorageBackends w of Inl e \<Rightarrow> (WriteError r ErrInternal, w)
      | Inr bs \<Rightarrow> (ok (JArr (map toStorageBackendView bs)), w))"

definition TestStorageBackend ::
  "('p, 'b) storage_drivers \<Rightarrow> api_error + storage_input \<Rightarrow> 'p storage_handler" where
  "TestStorageBackend d body w r =
     (case body of Inl e \<Rightarrow> (WriteError r e, w)
      | Inr x \<Rightarrow>
        (case storage_validate x of Some e \<Rightarrow> (WriteError r e, w)
         | None \<Rightarrow>
           (case new_backend d (toConfig d (fleet w) x) of
              Inl e \<Rightarrow> (WriteError r (Errorf ErrValidation e), w)
            | Inr b \<Rightarrow>
              (case test_backend d b of
                 Some e \<Rightarrow> (WriteError r (Errorf ErrValidation (''storage test failed: '' @ e)), w)
               | None \<Rightarrow> (ok (JObj [(''ok'', JBool True)]), w)))))"

definition probeStorageBackend ::
  "('p, 'b) storage_drivers \<Rightarrow> (string \<Rightarrow> string option) \<Rightarrow> storage_row \<Rightarrow> string \<Rightarrow> 'p storage_world \<Rightarrow> 'p storage_world" where
  "probeStorageBackend d opn b plain w =
     (let secret = (if plain = [] then stored_secret opn b else plain) in
      case new_backend d (row_config d (fleet w) b secret) of
        Inl e \<Rightarrow> UpdateStorageBackendStatus w (sb_ID b) ''error'' e
      | Inr be \<Rightarrow>
        (case test_backend d be of
           Some e \<Rightarrow> UpdateStorageBackendStatus w (sb_ID b) ''error'' e
         | None \<Rightarrow> UpdateStorageBackendStatus w (sb_ID b) ''connected'' []))"

definition new_storage_row :: "string \<Rightarrow> storage_input \<Rightarrow> string \<Rightarrow> storage_row" where
  "new_storage_row i x sealed = \<lparr>sb_ID = i, sb_Name = si_Name x, sb_Type = si_Type x, sb_Endpoint = si_Endpoint x,
     sb_Target = si_Target x, sb_Username = si_Username x, sb_SecretEnc = sealed, sb_Region = si_Region x,
     sb_ProviderID = si_ProviderID x, sb_Options = si_Options x, sb_Enabled = si_Enabled x, sb_Status = ''pending'',
     sb_LastError = [], sb_LastSeenAt = 0, sb_CreatedAt = 0, sb_UpdatedAt = 0\<rparr>"

definition CreateStorageBackend_handler ::
  "('p, 'b) storage_drivers \<Rightarrow> (string \<Rightarrow> string option) \<Rightarrow> (string \<Rightarrow> string option) \<Rightarrow> string
     \<Rightarrow> api_error + storage_input \<Rightarrow> 'p storage_handler" where
  "CreateStorageBackend_handler d opn seal i body w r =
     (case body of Inl e \<Rightarrow> (WriteError r e, w)
      | Inr x \<Rightarrow>
        (case storage_validate x of Some e \<Rightarrow> (WriteError r e, w)
         | None \<Rightarrow>
           (case (if si_Secret x = [] then Some [] else seal (si_Secret x)) of
              None \<Rightarrow> (WriteError r ErrInternal, w)
            | Some sealed \<Rightarrow>
              (case CreateStorageBackend w (new_storage_row i x sealed) of
                 Inl e \<Rightarrow> (WriteError r ErrInternal, w)
               | Inr w1 \<Rightarrow>
                 (let b = stamped_backend w (new_storage_row i x sealed);
                      w2 = (if sb_Enabled b then probeStorageBackend d opn b (si_Secret x) w1 else w1);
                      shown = (if sb_Enabled b then (case GetStorageBackend w2 i of Inl _ \<Rightarrow> b | Inr u \<Rightarrow> u) else b)
                  in (created (toStorageBackendView shown), w2))))))"

definition DeleteStorageBackend_handler :: "string \<Rightarrow> 'p storage_handler" where
  "DeleteStorageBackend_handler i w r =
     (case DeleteStorageBackend w i of Inl e \<Rightarrow> (WriteError r ErrInternal, w) | Inr w1 \<Rightarrow> (noContent, w1))"

subsection \<open>The resolver of the backup engine\<close>

datatype resolve_error = Store_failed store_error | Build_failed string | No_object_store api_error

definition ObjectStore ::
  "('p, 'b) storage_drivers \<Rightarrow> (string \<Rightarrow> string option) \<Rightarrow> 'p storage_world \<Rightarrow> string \<Rightarrow> resolve_error + 'b" where
  "ObjectStore d opn w i =
     (case GetStorageBackend w i of Inl e \<Rightarrow> Inl (Store_failed e)
      | Inr b \<Rightarrow>
        (case new_backend d (row_config d (fleet w) b (stored_secret opn b)) of
           Inl e \<Rightarrow> Inl (Build_failed e)
         | Inr be \<Rightarrow>
           if is_object_store d be then Inr be
           else Inl (No_object_store (Errorf ErrValidation
             (''storage backend type '' @ sb_Type b @ '' cannot store backup artifacts'')))))"

subsection \<open>Routes\<close>

datatype ('p, 'b) storage_route =
    SList
  | STest "('p, 'b) storage_drivers" "api_error + storage_input"
  | SCreate "('p, 'b) storage_drivers" "string \<Rightarrow> string option" string "api_error + storage_input"
  | SDelete string

primrec storage_handler_of :: "(string \<Rightarrow> string option) \<Rightarrow> ('p, 'b) storage_route \<Rightarrow> 'p storage_handler" where
  "storage_handler_of opn SList = ListStorageBackends_handler"
| "storage_handler_of opn (STest d b) = TestStorageBackend d b"
| "storage_handler_of opn (SCreate d seal i b) = CreateStorageBackend_handler d opn seal i b"
| "storage_handler_of opn (SDelete i) = DeleteStorageBackend_handler i"

primrec storage_action :: "('p, 'b) storage_route \<Rightarrow> string option" where
  "storage_action SList = None"
| "storage_action (STest d b) = Some ''storage.backend.test''"
| "storage_action (SCreate d s i b) = Some ''storage.backend.create''"
| "storage_action (SDelete i) = Some ''storage.backend.delete''"

definition storage_serve ::
  "(jval \<Rightarrow> string) \<Rightarrow> server \<Rightarrow> (string \<Rightarrow> string option) \<Rightarrow> ('p, 'b) storage_route \<Rightarrow> 'p storage_handler" where
  "storage_serve enc sv opn rt =
     bootstrapGate (BearerOrSession (sdeps sv) (CSRF (sdeps sv)
       (case storage_action rt of
          None \<Rightarrow> RequirePermission ''storage.backend.read'' None (storage_handler_of opn rt)
        | Some a \<Rightarrow> AuditWrap enc a (RequireAAL (RequirePermission ''storage.backend.write'' None (storage_handler_of opn rt))))))"

subsection \<open>A backend that was created is the one the backups open\<close>

lemma config_status [simp]:
  "row_config d ps (backend_status now st err b) sec = row_config d ps b sec"
  "stored_secret opn (backend_status now st err b) = stored_secret opn b"
  "sb_Type (backend_status now st err b) = sb_Type b"
  by (simp_all add: row_config_def stored_secret_def backend_status_def)

lemma status_keeps_frame [simp]:
  "fleet (UpdateStorageBackendStatus w j st err) = fleet w" "store (UpdateStorageBackendStatus w j st err) = store w"
  by (simp_all add: UpdateStorageBackendStatus_def query_def)

lemma ObjectStore_status [simp]: "ObjectStore d opn (UpdateStorageBackendStatus w j st err) i = ObjectStore d opn w i"
proof (cases "find (\<lambda>b. sb_ID b = i) (backends w)")
  case None
  then show ?thesis
    by (simp add: ObjectStore_def GetStorageBackend_def UpdateStorageBackendStatus_def query_def select_one_def
        backend_row.find_update_where)
next
  case (Some b)
  then show ?thesis
    by (simp add: ObjectStore_def GetStorageBackend_def UpdateStorageBackendStatus_def query_def select_one_def
        backend_row.find_update_where split: sum.split)
qed

lemma ObjectStore_probe [simp]: "ObjectStore d opn (probeStorageBackend d' opn' b plain w) i = ObjectStore d opn w i"
  by (simp add: probeStorageBackend_def Let_def split: sum.split option.split)

lemma storage_validate_status: "storage_validate x = Some e \<Longrightarrow> ErrStatus e = 422"
  by (auto simp: storage_validate_def ErrValidation_def newErr_def split: if_splits option.splits)

text \<open>A backend that was created resolves to what its request described, the secret included.\<close>

theorem created_backend_resolved:
  assumes "CreateStorageBackend_handler d opn seal i (Inr x) w r = (resp, w')" "Status resp = 201"
    and "\<forall>c. seal (si_Secret x) = Some c \<longrightarrow> c \<noteq> [] \<and> opn c = Some (si_Secret x)"
    and "''GetStorageBackend'' \<notin> broken (store w)"
    and "new_backend d' (toConfig d' (fleet w) x) = Inr be" "is_object_store d' be"
  shows "ObjectStore d' opn w' i = Inr be"
proof -
  have int: "ErrStatus ErrInternal = 500" by (simp add: ErrInternal_def newErr_def)
  have v: "storage_validate x = None"
    using assms(1,2) storage_validate_status by (cases "storage_validate x") (auto simp: CreateStorageBackend_handler_def)
  note out = assms(1) [unfolded CreateStorageBackend_handler_def sum.case v option.case]
  obtain sealed where sl: "(if si_Secret x = [] then Some [] else seal (si_Secret x)) = Some sealed"
    using out assms(2) int by (cases "if si_Secret x = [] then Some [] else seal (si_Secret x)") auto
  let ?b = "stamped_backend w (new_storage_row i x sealed)"
  let ?w1 = "w\<lparr>backends := backends w @ [?b]\<rparr>"
  have row: "?b\<lparr>sb_LastError := [], sb_LastSeenAt := 0\<rparr> = ?b" by (simp add: stamped_backend_def new_storage_row_def)
  note out = out [unfolded sl option.case]
  have cr: "CreateStorageBackend w (new_storage_row i x sealed) = Inr ?w1"
    and free: "\<not> backend_conflict (backends w) (new_storage_row i x sealed)"
    using out assms(2) int by (auto simp: CreateStorageBackend_def query_def row split: if_splits)
  have "w' = (if sb_Enabled ?b then probeStorageBackend d opn ?b (si_Secret x) ?w1 else ?w1)"
    using out [unfolded cr sum.case Let_def] by simp
  then have "ObjectStore d' opn w' i = ObjectStore d' opn ?w1 i" by simp
  moreover have "find (\<lambda>b. sb_ID b = i) (backends w @ [?b]) = Some ?b"
  proof -
    have "\<forall>y \<in> set bs. sb_ID y \<noteq> i \<Longrightarrow> find (\<lambda>b. sb_ID b = i) (bs @ [?b]) = Some ?b" for bs
      by (induction bs) (simp_all add: stamped_backend_def new_storage_row_def)
    then show ?thesis using free by (auto simp: backend_conflict_def new_storage_row_def)
  qed
  moreover have "stored_secret opn ?b = si_Secret x"
    using sl assms(3) by (cases "si_Secret x = []") (simp_all add: stored_secret_def stamped_backend_def new_storage_row_def)
  moreover have "row_config d' (fleet w) ?b (si_Secret x) = toConfig d' (fleet w) x"
    by (simp add: row_config_def toConfig_def stamped_backend_def new_storage_row_def)
  ultimately show ?thesis using assms(4-6)
    by (simp add: ObjectStore_def GetStorageBackend_def query_def select_one_def)
qed

end
