(* ===== verification/Migrate_Api.thy ===== *)
theory Migrate_Api
  imports Migrate Rbac_Api
begin

text \<open>
  The handlers of \<open>api/migrate.go\<close> over the migration engine, with the guards of their routes. The
  goroutine of a started job is the later step \<open>v2v_work\<close>. JSON encodings are parameters.
\<close>

record 'p v2v_world = world +
  v2v_reg :: "'p registry"
  v2v_engine :: engine

type_synonym 'p v2v_handler = "'p v2v_world \<Rightarrow> Authz_Audit.request \<Rightarrow> response \<times> 'p v2v_world"

record v2v_json =
  preflight_json :: "preflight \<Rightarrow> jval"
  job_json :: "progress \<Rightarrow> jval"

record migrate_body =
  mb_SourceProviderID :: string
  mb_SourceVMID :: string
  mb_TargetProviderID :: string
  mb_TargetHostID :: string
  mb_TargetStorageID :: string
  mb_TargetName :: string
  mb_PowerOnAfter :: bool

definition toRequest :: "migrate_body \<Rightarrow> Migrate.request" where
  "toRequest b = \<lparr>SourceProviderID = mb_SourceProviderID b, SourceVMID = mb_SourceVMID b,
     TargetProviderID = mb_TargetProviderID b, TargetHostID = mb_TargetHostID b,
     TargetStorageID = mb_TargetStorageID b, TargetName = mb_TargetName b, PowerOnAfter = mb_PowerOnAfter b\<rparr>"

definition V2VPreflight :: "'p hv \<Rightarrow> v2v_json \<Rightarrow> api_error + migrate_body \<Rightarrow> 'p v2v_handler" where
  "V2VPreflight hv js body w r =
     (case body of Inl e \<Rightarrow> (WriteError r e, w)
      | Inr b \<Rightarrow>
        (case Preflight hv (toRequest b) (v2v_reg w) of
           Inl e \<Rightarrow> (WriteError r (Errorf ErrValidation e), w)
         | Inr pf \<Rightarrow> (ok (preflight_json js pf), w)))"

definition V2VStart :: "api_error + migrate_body \<Rightarrow> 'p v2v_handler" where
  "V2VStart body w r =
     (case body of Inl e \<Rightarrow> (WriteError r e, w)
      | Inr b \<Rightarrow>
        (case Start_job (toRequest b) (v2v_engine w) of
           (i, e) \<Rightarrow> (created (JObj [(''id'', JStr i)]), w\<lparr>v2v_engine := e\<rparr>)))"

definition V2VJobs :: "v2v_json \<Rightarrow> 'p v2v_handler" where
  "V2VJobs js w r = (ok (JArr (map (job_json js) (Job_List (v2v_engine w)))), w)"

definition V2VJob :: "v2v_json \<Rightarrow> string \<Rightarrow> 'p v2v_handler" where
  "V2VJob js i w r =
     (case Job_Get (v2v_engine w) i of None \<Rightarrow> (WriteError r APIErrNotFound, w)
      | Some p \<Rightarrow> (ok (job_json js p), w))"

text \<open>The goroutine of job \<open>i\<close>; \<open>None\<close> is a panic of the process.\<close>

definition v2v_work :: "'p hv \<Rightarrow> converter \<Rightarrow> string \<Rightarrow> migrate_body \<Rightarrow> 'p v2v_world \<Rightarrow> 'p v2v_world option" where
  "v2v_work hv conv i b w =
     (case runUnder hv conv i (toRequest b) (now_ns w) (v2v_reg w) (v2v_engine w) of
        None \<Rightarrow> None
      | Some (reg, e) \<Rightarrow> Some (w\<lparr>v2v_reg := reg, v2v_engine := e\<rparr>))"

datatype v2v_route =
    VJobs
  | VJob string
  | VPreflight "api_error + migrate_body"
  | VStart "api_error + migrate_body"

primrec v2v_handler_of :: "'p hv \<Rightarrow> v2v_json \<Rightarrow> v2v_route \<Rightarrow> 'p v2v_handler" where
  "v2v_handler_of hv js VJobs = V2VJobs js"
| "v2v_handler_of hv js (VJob i) = V2VJob js i"
| "v2v_handler_of hv js (VPreflight b) = V2VPreflight hv js b"
| "v2v_handler_of hv js (VStart b) = V2VStart b"

definition v2v_serve ::
  "(jval \<Rightarrow> string) \<Rightarrow> server \<Rightarrow> 'p hv \<Rightarrow> v2v_json \<Rightarrow> v2v_route \<Rightarrow> 'p v2v_handler" where
  "v2v_serve enc sv hv js rt =
     bootstrapGate (BearerOrSession (sdeps sv) (CSRF (sdeps sv)
       (case rt of
          VStart _ \<Rightarrow> AuditWrap enc ''v2v.migrate'' (RequireAAL (RequirePermission ''v2v.migrate'' None (v2v_handler_of hv js rt)))
        | _ \<Rightarrow> RequirePermission ''v2v.read'' None (v2v_handler_of hv js rt))))"

text \<open>A started migration is at once a job that can be asked for.\<close>

lemma started_job_visible:
  assumes "V2VStart (Inr b) w r = (resp, w')"
  shows "\<exists>i p. Body resp = JObj [(''id'', JStr i)] \<and> Job_Get (v2v_engine w') i = Some p
    \<and> pr_ID p = i \<and> pr_Message p = ''queued'' \<and> pr_SourceVMID p = mb_SourceVMID b"
  using assms
  by (auto simp: V2VStart_def Start_job_def newID_def now_of_def put_job_def Job_Get_def map_of_put created_def WriteJSON_def
      toRequest_def Let_def split: prod.splits)

end
