(* ===== verification/Spec2Isabelle.thy ===== *)
theory Spec2Isabelle
  imports Auth_Props Compose_Props Alarm_Props Repl_Props Backup_Props Rbac_Props Audit_List Sso_Props Vm_Props Bulk_Props Finops_Api Conn_Props Guac Storage_Api Migrate_Api
begin

text \<open>
  A verification development for Castor (\<open>v365-WTM\<close>), a management server for containers and virtual
  machines written in Go. All paths below are under \<open>src/server/internal\<close> unless they say otherwise.

  \<^bold>\<open>The program.\<close> One process serves an HTTP API. A request passes the bootstrap gate, is authenticated by
  a session cookie or a bearer token, and passes CSRF, the audit wrapper, step-up and the permission of its
  route before its handler runs (\<open>authz\<close>, \<open>api/router.go\<close>). The handlers keep their state in a relational
  store (\<open>store\<close>), and act on two fleets: container engines (\<open>provider\<close>) and hypervisors behind one interface
  (\<open>vprovider\<close>), which are registered from stored connections (\<open>hvconnect\<close>, \<open>api/hvconnections.go\<close>).
  Engines with goroutines of their own work on the hypervisors: migration (\<open>migrate\<close>), replication
  (\<open>replication\<close>), backup to object stores (\<open>backup\<close>, \<open>storage\<close>) and alarms (\<open>alarms\<close>). Analytics
  (\<open>inventory\<close>, \<open>finops\<close>, \<open>insights\<close>) are pure functions of what the providers list. Compose documents are
  parsed and planned (\<open>compose\<close>) before they are deployed. The console of a machine is a proxy that speaks
  the Guacamole protocol (\<open>guac\<close>).

  \<^bold>\<open>How the code is modelled.\<close> A struct is a record, an enumeration a datatype or, where the code keeps a
  string, the string. A Go error is the left of a sum, a nil an option. A handler is a function from a
  world and a request to a response and a world; the world (\<open>Authz_Audit\<close>) holds the tables, the clock and
  the pending audit row, and every surface with state of its own extends that record, so that one
  definition of each middleware serves them all. A table is a list of rows in insertion order, with the
  primary keys, \<open>UNIQUE\<close> constraints and foreign keys of the migrations; \<open>broken\<close> names the queries that
  fail, so that every error path of the store can be taken. \<open>int\<close> and \<open>int64\<close> are \<open>int\<close> with the wrap-around
  (\<open>wrap64\<close>) or the saturation (\<open>sat64\<close>) written where the code can reach it; capability sets and byte
  counters are words; \<open>float64\<close> is rounded after every operation (\<open>Float64\<close>). Texts are byte strings.
  Instants and durations are nanoseconds, columns of the store seconds, as in the code. Random identifiers,
  secrets and nonces are arguments. Where goroutines interleave, the steps they take are the rules of a
  step function and the properties speak of every sequence of steps.

  \<^bold>\<open>The library.\<close>
  \<^item> \<open>Go_Prelude\<close>: strings, numbers, maps of the Go standard library; the locale \<open>run_invariant\<close> (what every
    step keeps, every run keeps). \<open>Json\<close>: \<open>encoding/json\<close> on the values the server stores, with the round
    trip; the fuel of the reader is the length of the text plus one, enough because every nested call has
    consumed a character (\<open>json_roundtrip\<close>). \<open>Float64\<close>, \<open>Float_Order\<close>: binary64 and the monotonicity of its
    rounding. \<open>Go_Sort\<close>: \<open>sort.SliceStable\<close> and the locale \<open>weak_order\<close> of comparisons that sort.
  \<^item> \<open>Authz_Perm\<close>: permissions, scopes, wildcards, tokens that narrow their owner (\<open>authz/rbac.go\<close>,
    \<open>context.go\<close>). \<open>Authz_Audit\<close>: the vocabulary of requests and errors, redaction and the audit wrapper
    (\<open>authz/errors.go\<close>, \<open>redact.go\<close>, \<open>audit.go\<close>). \<open>Authz_Session\<close>: sessions, bearer tokens, CSRF, step-up
    (\<open>authz/middleware.go\<close>, \<open>bearer.go\<close>). \<open>Authz_Guard\<close>: the guard on destructive container actions
    (\<open>authz/guard.go\<close>).
  \<^item> \<open>Store\<close>, \<open>Store_Rbac\<close>, \<open>Sso_Store\<close>: the tables of users, sessions, roles, bindings, tokens, recovery
    codes, settings, audit, identity providers (\<open>store\<close>); the locale \<open>keyed_update\<close> is an update by primary
    key. \<open>Store_Steps\<close>: the writes as one step function and the integrity every sequence of them keeps.
  \<^item> \<open>Auth_Api\<close>: login, logout, second factor, bootstrap (\<open>api/auth.go\<close>). \<open>Rbac_Api\<close>: administration of users,
    roles, bindings, tokens, settings (\<open>api/rbac.go\<close>, \<open>permissions.go\<close>, \<open>api_tokens.go\<close>, \<open>settings.go\<close>).
    \<open>Sso_Login\<close>, \<open>Sso_Admin\<close>: LDAP and OIDC sign-on (\<open>auth\<close>, \<open>api/auth_sso.go\<close>, \<open>api/admin_auth.go\<close>).
    \<open>Audit_List\<close>: the paged reading of the audit trail.
  \<^item> \<open>Compose_Parse\<close>, \<open>Compose_Plan\<close>, \<open>Mounts\<close>: compose documents, their plan, the deployment of a stack and
    the guard on host mounts (\<open>compose\<close>, \<open>api/stacks.go\<close>, \<open>provider/docker/mounts.go\<close>).
  \<^item> \<open>VTypes\<close>, \<open>Hv_Seam\<close>: the entities, capabilities, tasks of the hypervisor interface and the interface as a
    record of functions, with its documented contract as the locale \<open>hypervisor\<close> (\<open>vprovider/types.go\<close>,
    \<open>vprovider.go\<close>, \<open>extended.go\<close>, \<open>capability.go\<close>, \<open>task.go\<close>). \<open>Sim\<close>, \<open>Kvm\<close> with \<open>Kvm_Sim\<close>, \<open>Xen\<close>, \<open>Esxi\<close>,
    \<open>Hyperv\<close>: the five providers, every operation, over an abstract backend and the in-memory backend of the
    code. \<open>Hv_Fleet\<close>: each is an instance of the interface and meets the contract, and so does a registry
    that mixes them (\<open>vprovider/registry.go\<close>).
  \<^item> \<open>Vm_Api\<close>, \<open>Vm_Bulk\<close>: the handlers of machines, devices, pools and host maintenance with the guards of
    their routes (\<open>api/vm*.go\<close>, \<open>maintenance.go\<close>, \<open>bulk.go\<close>). \<open>Hv_Conn\<close>: the connections that fill the
    registry. \<open>Storage_Api\<close>, \<open>Migrate_Api\<close>: the registered storage backends with the resolver of the backup
    engine, and the handlers of migrations (\<open>api/storage_backends.go\<close>, \<open>migrate.go\<close>).
  \<^item> \<open>Migrate\<close>, \<open>Replication\<close> with \<open>Repl_Api\<close>, \<open>Backup\<close> with \<open>Storage\<close>, \<open>Alarms\<close>: the engines, their tables
    and handlers. Each engine runs over any provider; its contract is a locale (\<open>hypervisor\<close> of
    \<open>Migrate_Props\<close>, extended by \<open>replicating\<close> and \<open>backup_env\<close>; \<open>object_store\<close> and \<open>backup_store\<close> for the place
    of the backups), interpreted by the simulated hypervisor and the local directory.
  \<^item> \<open>Inventory\<close>, \<open>Finops\<close>, \<open>Insights\<close>, \<open>Finops_Api\<close>: the merged inventory, prices and right-sizing, findings,
    and their handlers. \<open>Guac\<close>: the wire format and handshake of the console.

  \<^bold>\<open>What is proved.\<close>
  \<^item> \<open>Auth_Props\<close>: the permission check is the documented coverage of wildcards and scopes; a token never
    exceeds its owner; sessions end with logout and with their absolute lifetime; five failures lock an
    account; a recovery code works once; secrets do not reach the audit trail; the tables keep their
    integrity; the first administrator is made once.
  \<^item> \<open>Rbac_Props\<close>: no course of administration gives anybody a permission that no author of it had; an
    administrator always remains; roles hold known permissions. \<open>Sso_Props\<close>: an OIDC login uses up its
    pending redirect, an LDAP login needs the directory's consent, and the roles afterwards are those of the
    groups. \<open>Audit_List\<close>: paging ends and shows each matching row once.
  \<^item> \<open>Compose_Props\<close>: the order of a plan is a linear extension of the dependencies and is found whenever there
    is one; containers start after what they depend on; no host mount gets past the guard.
  \<^item> \<open>Vm_Props\<close>, \<open>Bulk_Props\<close>: over every provider, a change needs every guard of its route, concerns only the
    provider of the path and leaves one audit row; what a provider does not declare is refused; a running
    machine is deleted only by force; a bulk request is its single requests. \<open>Sim_Props\<close>: what the reference
    provider keeps. \<open>Conn_Props\<close>: the registry follows the table of connections over any course of requests
    and restarts, and a connection comes back with its credential.
  \<^item> \<open>Migrate_Props\<close>, \<open>Repl_Props\<close>, \<open>Backup_Props\<close>, \<open>Storage_Props\<close>: a migration makes one machine to the
    specification or none; the state of a replication policy is the summary of its cycles under every
    interleaving; a backup restores what was stored and retention keeps the newest; no key leaves the base
    directory.
  \<^item> \<open>Alarm_Props\<close>: the engine refines a three-state machine for every pair of definition and object.
  \<^item> \<open>Inventory\<close>, \<open>Finops\<close>, \<open>Insights\<close>, \<open>Guac\<close>: their properties stand at the end of each theory.

  A property that has hypotheses is followed by its witness, the same theorem at a concrete input.

  \<^bold>\<open>Parameters.\<close> Password hashing, sealing of secrets, one-time codes, TLS, the LDAP directory, the OIDC
  provider, the YAML and disk-image tools, the container daemon and the live backends of the hypervisors
  are arguments of the definitions that use them. Request bodies arrive decoded, with the error of a body
  that does not decode; answers outside the authorization core leave through an encoder.

  \<^bold>\<open>Not modelled.\<close> The live backends (\<open>vprovider/*/live*.go\<close>) and the container runtimes
  (\<open>provider/docker\<close>, \<open>provider/kube\<close>, \<open>provider/swarm\<close>) are calls of client libraries that are not in the
  repository; the handlers over them, the cache of container listings and the dashboard pass their data on.
  The cloud stores (\<open>storage/azure.go\<close>, \<open>s3.go\<close>) sign HTTP requests to services. WebSocket streams copy bytes
  between sockets. Deadlines of calls, the commands under \<open>server/cmd\<close> and the web interface are left out;
  so are templates, catalogs and registries of images, which store documents and forward requests.
\<close>

end
